(* ===== verification/Prelude.thy ===== *)
theory Prelude
  imports Main
begin

text \<open>
  Shared vocabulary of the development: how a Python function that may raise is written
  (a value of \<open>'e + 'a\<close>, the left side being what was raised), how a model class of the
  SDK is built (its declared field constraints, then its after-validators), the string and
  collection helpers that several components use, and the interfaces (locales) that the
  components instantiate.

  A Python \<open>str\<close> is a HOL \<open>string\<close> holding one character per code point, for code points
  below 256; \<open>len\<close> is \<open>length\<close>. A Python \<open>dict\<close> is an association list in insertion order,
  a \<open>tuple\<close> or \<open>list\<close> is a list.
\<close>

named_theorems guard_simps \<open>unfoldings of raise chains and of model construction\<close>
named_theorems str_simps \<open>facts about the string helpers\<close>

subsection \<open>Raising\<close>

text \<open>
  A run of statements \<open>if c: raise e\<close> is the list of its pairs \<open>(c, e)\<close>; the first condition
  that holds decides which error is raised.
\<close>

fun first_raise :: "(bool \<times> 'e) list \<Rightarrow> 'e option" where
  "first_raise [] = None"
| "first_raise ((c, e) # cs) = (if c then Some e else first_raise cs)"

definition guarded :: "(bool \<times> 'e) list \<Rightarrow> 'a \<Rightarrow> 'e + 'a" where
  "guarded cs x = (case first_raise cs of None \<Rightarrow> Inr x | Some e \<Rightarrow> Inl e)"

definition and_then :: "'e + 'a \<Rightarrow> ('a \<Rightarrow> 'e + 'b) \<Rightarrow> 'e + 'b" where
  "and_then m f = (case m of Inl e \<Rightarrow> Inl e | Inr x \<Rightarrow> f x)"

text \<open>Python's \<open>except A as exc: raise B from exc\<close> around one call.\<close>

definition reraise :: "('e \<Rightarrow> 'f) \<Rightarrow> 'e + 'a \<Rightarrow> 'f + 'a" where
  "reraise h m = (case m of Inl e \<Rightarrow> Inl (h e) | Inr x \<Rightarrow> Inr x)"

text \<open>A \<open>for\<close> loop whose body may raise and returns nothing.\<close>

fun each :: "('a \<Rightarrow> 'e + unit) \<Rightarrow> 'a list \<Rightarrow> 'e + unit" where
  "each f [] = Inr ()"
| "each f (x # xs) = and_then (f x) (\<lambda>_. each f xs)"

text \<open>\<open>Option.get\<close> with a \<open>raise\<close> for the absent value.\<close>

definition or_raise :: "'e \<Rightarrow> 'a option \<Rightarrow> 'e + 'a" where
  "or_raise e v = (case v of None \<Rightarrow> Inl e | Some x \<Rightarrow> Inr x)"

lemma or_raise_simps [simp]: "or_raise e None = Inl e" "or_raise e (Some x) = Inr x"
  by (simp_all add: or_raise_def)

lemma or_raise_Inr [guard_simps]: "or_raise e v = Inr x \<longleftrightarrow> v = Some x"
  by (cases v) auto

lemma or_raise_Inl [guard_simps]: "or_raise e v = Inl d \<longleftrightarrow> v = None \<and> d = e"
  by (cases v) auto

lemma first_raise_None:
  "first_raise cs = None \<longleftrightarrow> (\<forall>(c, e) \<in> set cs. \<not> c)"
  by (induction cs rule: first_raise.induct) auto

lemma first_raise_Cons_eq [simp]:
  "first_raise ((c, e) # cs) = None \<longleftrightarrow> \<not> c \<and> first_raise cs = None"
  "first_raise ((c, e) # cs) = Some d \<longleftrightarrow> c \<and> e = d \<or> \<not> c \<and> first_raise cs = Some d"
  by auto

lemma first_raise_append:
  "first_raise (xs @ ys) = (case first_raise xs of None \<Rightarrow> first_raise ys | Some e \<Rightarrow> Some e)"
  by (induction xs rule: first_raise.induct) (simp_all split: option.split)

lemma first_raise_append_None [simp]:
  "first_raise (xs @ ys) = None \<longleftrightarrow> first_raise xs = None \<and> first_raise ys = None"
  by (simp add: first_raise_append split: option.split)

lemma guarded_simps:
  "guarded [] x = Inr x"
  "guarded ((c, e) # cs) x = (if c then Inl e else guarded cs x)"
  by (simp_all add: guarded_def)

declare first_raise.simps(2) [simp del]

lemma first_raise_Some_in: "first_raise cs = Some e \<Longrightarrow> (True, e) \<in> set cs"
  by (induction cs rule: first_raise.induct) auto

lemma guarded_Inr [guard_simps]:
  "guarded cs x = Inr y \<longleftrightarrow> y = x \<and> first_raise cs = None"
  by (auto simp: guarded_def split: option.splits)

lemma guarded_Inl [guard_simps]:
  "guarded cs x = Inl e \<longleftrightarrow> first_raise cs = Some e"
  by (auto simp: guarded_def split: option.splits)

lemma and_then_Inr [simp]: "and_then (Inr x) f = f x"
  by (simp add: and_then_def)

lemma and_then_Inl [simp]: "and_then (Inl e) f = Inl e"
  by (simp add: and_then_def)

lemma and_then_eq_Inr [guard_simps]:
  "and_then m f = Inr y \<longleftrightarrow> (\<exists>x. m = Inr x \<and> f x = Inr y)"
  by (cases m) auto

lemma and_then_eq_Inl [guard_simps]:
  "and_then m f = Inl e \<longleftrightarrow> m = Inl e \<or> (\<exists>x. m = Inr x \<and> f x = Inl e)"
  by (cases m) auto

lemma reraise_eq_Inr [guard_simps]: "reraise h m = Inr y \<longleftrightarrow> m = Inr y"
  by (cases m) (auto simp: reraise_def)

lemma reraise_simps [simp]:
  "reraise h (Inr x) = Inr x" "reraise h (Inl e) = Inl (h e)"
  by (simp_all add: reraise_def)

lemma each_ok [guard_simps]: "each f xs = Inr () \<longleftrightarrow> (\<forall>x \<in> set xs. f x = Inr ())"
  by (induction xs) (auto simp: and_then_eq_Inr)

lemma each_raises: "each f xs = Inl e \<Longrightarrow> \<exists>x \<in> set xs. f x = Inl e"
  by (induction xs) (auto simp: and_then_eq_Inl)

text \<open>The loop raises what the first refused element raises.\<close>

lemma each_first:
  "list_all (\<lambda>x. f x = Inr ()) xs \<Longrightarrow> f y = Inl e \<Longrightarrow> each f (xs @ y # ys) = Inl e"
  by (induction xs) auto

subsection \<open>Model classes\<close>

text \<open>
  Constructing a model class checks every declared field constraint and reports all the
  fields that fail; the after-validators run only on a value whose fields are all valid, and
  the first of their \<open>raise\<close> statements that is reached is the refusal. The values passed in
  already have the Python type of their field.
\<close>

datatype 'e invalid = Bad_Fields "string list" | Refused 'e

definition bad_fields :: "(string \<times> bool) list \<Rightarrow> string list" where
  "bad_fields fs = map fst (filter (\<lambda>(n, ok). \<not> ok) fs)"

definition build :: "(string \<times> bool) list \<Rightarrow> (bool \<times> 'e) list \<Rightarrow> 'a \<Rightarrow> 'e invalid + 'a" where
  "build fs rules x =
     (if bad_fields fs = [] then reraise Refused (guarded rules x) else Inl (Bad_Fields (bad_fields fs)))"

text \<open>The same with an after-validator that is more than a chain of conditions.\<close>

definition build_with :: "(string \<times> bool) list \<Rightarrow> ('e + unit) \<Rightarrow> 'a \<Rightarrow> 'e invalid + 'a" where
  "build_with fs check x =
     (if bad_fields fs = [] then reraise Refused (and_then check (\<lambda>_. Inr x)) else Inl (Bad_Fields (bad_fields fs)))"

lemma bad_fields_Nil [guard_simps]: "bad_fields fs = [] \<longleftrightarrow> (\<forall>(n, ok) \<in> set fs. ok)"
  by (auto simp: bad_fields_def filter_empty_conv)

lemma build_Inr [guard_simps]:
  "build fs rules x = Inr y \<longleftrightarrow>
     y = x \<and> (\<forall>(n, ok) \<in> set fs. ok) \<and> (\<forall>(c, e) \<in> set rules. \<not> c)"
  by (auto simp: build_def guard_simps first_raise_None)

lemma build_with_Inr [guard_simps]:
  "build_with fs check x = Inr y \<longleftrightarrow> y = x \<and> (\<forall>(n, ok) \<in> set fs. ok) \<and> check = Inr ()"
  by (cases check) (auto simp: build_with_def guard_simps)

lemma build_Refused [guard_simps]:
  "build fs rules x = Inl (Refused e) \<longleftrightarrow>
     (\<forall>(n, ok) \<in> set fs. ok) \<and> first_raise rules = Some e"
  by (auto simp: build_def guarded_def reraise_def bad_fields_Nil split: option.splits sum.splits)

lemma build_Bad_Fields [guard_simps]:
  "build fs rules x = Inl (Bad_Fields ns) \<longleftrightarrow> ns = bad_fields fs \<and> ns \<noteq> []"
  by (auto simp: build_def guarded_def reraise_def split: option.splits sum.splits)

text \<open>The declared bounds on lengths and numbers.\<close>

definition len_between :: "nat \<Rightarrow> nat \<Rightarrow> 'a list \<Rightarrow> bool" where
  "len_between lo hi s \<longleftrightarrow> lo \<le> length s \<and> length s \<le> hi"

definition opt_ok :: "('a \<Rightarrow> bool) \<Rightarrow> 'a option \<Rightarrow> bool" where
  "opt_ok p v = (case v of None \<Rightarrow> True | Some x \<Rightarrow> p x)"

lemma opt_ok_simps [simp]: "opt_ok p None" "opt_ok p (Some x) = p x"
  by (simp_all add: opt_ok_def)

text \<open>\<open>v not in {None, x}\<close>.\<close>

definition foreign_to :: "'a \<Rightarrow> 'a option \<Rightarrow> bool" where
  "foreign_to x v \<longleftrightarrow> v \<notin> {None, Some x}"

lemma foreign_to_iff [guard_simps]: "foreign_to x v \<longleftrightarrow> (\<exists>d. v = Some d \<and> d \<noteq> x)"
  by (cases v) (auto simp: foreign_to_def)

text \<open>A \<open>str | None\<close> in a truth test, and \<open>v or w\<close> of two of them.\<close>

definition some_text :: "string option \<Rightarrow> bool" where
  "some_text v = (case v of None \<Rightarrow> False | Some s \<Rightarrow> s \<noteq> [])"

definition either_text :: "string option \<Rightarrow> string option \<Rightarrow> string option" where
  "either_text v w = (if some_text v then v else w)"

lemma some_text_iff: "some_text v \<longleftrightarrow> (\<exists>s. v = Some s \<and> s \<noteq> [])"
  by (cases v) (auto simp: some_text_def)

subsection \<open>Collections\<close>

text \<open>\<open>len(xs) != len(set(xs))\<close>, the uniqueness test used throughout the SDK.\<close>

definition has_duplicates :: "'a list \<Rightarrow> bool" where
  "has_duplicates xs \<longleftrightarrow> length (remdups xs) \<noteq> length xs"

lemma has_duplicates_distinct [simp]: "has_duplicates xs \<longleftrightarrow> \<not> distinct xs"
  by (simp add: has_duplicates_def)

text \<open>\<open>next((x for x in xs if p(x)), None)\<close> is the library's \<open>find\<close>.\<close>

lemma find_SomeD: "find p xs = Some x \<Longrightarrow> x \<in> set xs \<and> p x"
  by (induction xs) (auto split: if_splits)

lemma find_distinct:
  "distinct (map k xs) \<Longrightarrow> x \<in> set xs \<Longrightarrow> find (\<lambda>y. k y = k x) xs = Some x"
  by (induction xs) force+

subsection \<open>Strings\<close>

text \<open>Character classes, by code point.\<close>

definition code_between :: "nat \<Rightarrow> nat \<Rightarrow> char \<Rightarrow> bool" where
  "code_between lo hi c \<longleftrightarrow> lo \<le> of_char c \<and> of_char c \<le> hi"

definition is_ascii_digit :: "char \<Rightarrow> bool" where
  "is_ascii_digit c \<longleftrightarrow> code_between 48 57 c"

definition is_ascii_upper :: "char \<Rightarrow> bool" where
  "is_ascii_upper c \<longleftrightarrow> code_between 65 90 c"

definition is_ascii_lower :: "char \<Rightarrow> bool" where
  "is_ascii_lower c \<longleftrightarrow> code_between 97 122 c"

definition is_ascii_alnum :: "char \<Rightarrow> bool" where
  "is_ascii_alnum c \<longleftrightarrow> is_ascii_digit c \<or> is_ascii_upper c \<or> is_ascii_lower c"

definition is_lower_hex :: "char \<Rightarrow> bool" where
  "is_lower_hex c \<longleftrightarrow> is_ascii_digit c \<or> code_between 97 102 c"

definition is_b64url_char :: "char \<Rightarrow> bool" where
  "is_b64url_char c \<longleftrightarrow> is_ascii_alnum c \<or> c = CHR ''-'' \<or> c = CHR ''_''"

lemmas char_class_defs =
  code_between_def is_ascii_digit_def is_ascii_upper_def is_ascii_lower_def is_ascii_alnum_def
  is_lower_hex_def is_b64url_char_def

text \<open>
  What \<open>str.strip()\<close> removes, below code point 256, and what \<open>\s\<close> matches in a field pattern, whose
  regular expressions follow the Unicode White_Space property.
\<close>

definition pattern_space :: "char \<Rightarrow> bool" where
  "pattern_space c \<longleftrightarrow> of_char c \<in> {9 :: nat, 10, 11, 12, 13, 32, 133, 160}"

definition is_space :: "char \<Rightarrow> bool" where
  "is_space c \<longleftrightarrow> of_char c \<in> {9 :: nat, 10, 11, 12, 13, 28, 29, 30, 31, 32, 133, 160}"

definition strip :: "string \<Rightarrow> string" where
  "strip s = rev (dropWhile is_space (rev (dropWhile is_space s)))"

text \<open>What a field declared \<open>strip_whitespace\<close> keeps.\<close>

definition trim :: "string \<Rightarrow> string" where
  "trim s = rev (dropWhile pattern_space (rev (dropWhile pattern_space s)))"

definition blank :: "string \<Rightarrow> bool" where
  "blank s \<longleftrightarrow> strip s = []"

definition lower_char :: "char \<Rightarrow> char" where
  "lower_char c =
     (let n = of_char c :: nat
      in if (65 \<le> n \<and> n \<le> 90) \<or> (192 \<le> n \<and> n \<le> 222 \<and> n \<noteq> 215) then char_of (n + 32) else c)"

definition lower :: "string \<Rightarrow> string" where
  "lower s = map lower_char s"

definition starts_with :: "string \<Rightarrow> string \<Rightarrow> bool" where
  "starts_with p s \<longleftrightarrow> take (length p) s = p"

definition remove_prefix :: "string \<Rightarrow> string \<Rightarrow> string" where
  "remove_prefix p s = (if starts_with p s then drop (length p) s else s)"

text \<open>\<open>s.split(c)\<close> for a one-character separator.\<close>

fun split_char :: "char \<Rightarrow> string \<Rightarrow> string list" where
  "split_char c [] = [[]]"
| "split_char c (x # xs) =
     (if x = c then [] # split_char c xs else case split_char c xs of [] \<Rightarrow> [[x]] | s # ss \<Rightarrow> (x # s) # ss)"

lemma split_char_none [simp]: "c \<notin> set s \<Longrightarrow> split_char c s = [s]"
  by (induction s) auto

lemma split_char_append [simp]: "c \<notin> set a \<Longrightarrow> split_char c (a @ c # b) = a # split_char c b"
  by (induction a) auto

text \<open>\<open>s.partition(c)\<close> for a one-character separator: before, whether found, after.\<close>

fun partition_at :: "char \<Rightarrow> string \<Rightarrow> string \<times> bool \<times> string" where
  "partition_at c [] = ([], False, [])"
| "partition_at c (x # xs) =
     (if x = c then ([], True, xs)
      else let (a, found, b) = partition_at c xs in (x # a, found, b))"

lemma starts_with_append [simp, str_simps]: "starts_with p (p @ s)"
  by (simp add: starts_with_def)

lemma remove_prefix_append [simp, str_simps]: "remove_prefix p (p @ s) = s"
  by (simp add: remove_prefix_def)

lemma starts_with_iff: "starts_with p s \<longleftrightarrow> (\<exists>t. s = p @ t)"
  by (auto simp: starts_with_def) (metis append_take_drop_id)

lemma dropWhile_fixed: "dropWhile p xs = xs \<Longrightarrow> dropWhile p (rev (dropWhile p (rev xs))) = rev (dropWhile p (rev xs))"
proof (cases "rev (dropWhile p (rev xs))")
  case Nil
  then show ?thesis by (simp only: dropWhile.simps)
next
  case (Cons y ys)
  assume fixed: "dropWhile p xs = xs"
  have "rev xs = takeWhile p (rev xs) @ dropWhile p (rev xs)" by simp
  then have "xs = rev (dropWhile p (rev xs)) @ rev (takeWhile p (rev xs))"
    by (metis rev_append rev_rev_ident)
  then have "xs = y # ys @ rev (takeWhile p (rev xs))" using Cons by simp
  then have "\<not> p y" using fixed by (metis dropWhile.simps(2) dropWhile_eq_self_iff list.sel(1) list.distinct(1))
  then show ?thesis using Cons by simp
qed

lemma dropWhile_idem [simp]: "dropWhile p (dropWhile p xs) = dropWhile p xs"
  by (induction xs) auto

lemma strip_idem [simp, str_simps]: "strip (strip s) = strip s"
  by (simp add: strip_def dropWhile_fixed)

lemma trim_idem [simp, str_simps]: "trim (trim s) = trim s"
  by (simp add: trim_def dropWhile_fixed)

lemma strip_Nil [simp]: "strip [] = []"
  by (simp add: strip_def)

lemma strip_solid: "list_all (\<lambda>c. \<not> is_space c) s \<Longrightarrow> strip s = s"
proof -
  assume "list_all (\<lambda>c. \<not> is_space c) s"
  then have "dropWhile is_space t = t" if "set t \<subseteq> set s" for t
    using that by (cases t) (auto simp: list_all_iff)
  then show ?thesis by (simp add: strip_def)
qed

lemma partition_at_found:
  "partition_at c s = (a, True, b) \<Longrightarrow> s = a @ c # b \<and> c \<notin> set a"
  by (induction s arbitrary: a) (auto split: if_splits prod.splits)

lemma partition_at_missing:
  "partition_at c s = (a, False, b) \<Longrightarrow> a = s \<and> b = [] \<and> c \<notin> set s"
  by (induction s arbitrary: a) (auto split: if_splits prod.splits)

lemma partition_at_append [simp]:
  "c \<notin> set a \<Longrightarrow> partition_at c (a @ c # b) = (a, True, b)"
  by (induction a) auto

lemma partition_at_none [simp]: "c \<notin> set a \<Longrightarrow> partition_at c a = (a, False, [])"
  by (induction a) auto

text \<open>The identifier pattern of the canonical contracts, \<open>^[A-Za-z0-9][A-Za-z0-9._:-]*$\<close>.\<close>

definition identifier_char :: "char \<Rightarrow> bool" where
  "identifier_char c \<longleftrightarrow> is_ascii_alnum c \<or> c \<in> set ''._:-''"

definition matches_identifier :: "string \<Rightarrow> bool" where
  "matches_identifier s = (case s of [] \<Rightarrow> False | c # cs \<Rightarrow> is_ascii_alnum c \<and> list_all identifier_char cs)"

definition canonical_id :: "string \<Rightarrow> bool" where
  \<comment> \<open>\<open>Field(min_length=3, max_length=128, pattern=_IDENTIFIER)\<close>\<close>
  "canonical_id s \<longleftrightarrow> len_between 3 128 s \<and> matches_identifier s"

definition matches_sha256 :: "string \<Rightarrow> bool" where
  \<comment> \<open>\<open>^sha256:[0-9a-f]{64}$\<close>\<close>
  "matches_sha256 s \<longleftrightarrow> starts_with ''sha256:'' s \<and> length s = 71 \<and> list_all is_lower_hex (drop 7 s)"

subsection \<open>Interfaces\<close>

text \<open>
  A model class: construction accepts exactly the well-formed values and leaves them
  unchanged, so an accepted value is well formed and can be constructed again.
\<close>

locale model_class =
  fixes make :: "'a \<Rightarrow> 'e invalid + 'a"
    and wf :: "'a \<Rightarrow> bool"
  assumes make_iff: "make x = Inr y \<longleftrightarrow> y = x \<and> wf x"
begin

lemma accepted: "make x = Inr y \<Longrightarrow> wf y \<and> y = x"
  by (simp add: make_iff)

lemma accepts: "wf x \<Longrightarrow> make x = Inr x"
  by (simp add: make_iff)

lemma remake: "make x = Inr y \<Longrightarrow> make y = Inr y"
  by (simp add: make_iff)

lemma refuses_iff: "(\<exists>e. make x = Inl e) \<longleftrightarrow> \<not> wf x"
  by (metis (full_types) make_iff obj_sumE sum.simps(4))

lemma makes_all: "(\<forall>x \<in> set xs. \<exists>y. make x = Inr y) \<longleftrightarrow> list_all wf xs"
  by (auto simp: make_iff list_all_iff)

end

text \<open>The well-formedness that a construction checks, and the class it makes.\<close>

definition admissible :: "(string \<times> bool) list \<Rightarrow> (bool \<times> 'e) list \<Rightarrow> bool" where
  "admissible fs rules \<longleftrightarrow> list_all snd fs \<and> \<not> list_ex fst rules"

lemma build_admissible: "build fs rules x = Inr y \<longleftrightarrow> y = x \<and> admissible fs rules"
  by (auto simp: guard_simps admissible_def list_all_iff list_ex_iff)

lemma build_class:
  assumes "\<And>x. make x = build (f x) (r x) x" "\<And>x. ok x \<longleftrightarrow> admissible (f x) (r x)"
  shows "model_class make ok"
  by unfold_locales (simp add: assms build_admissible)

abbreviation no_rules :: "(bool \<times> string) list" where
  "no_rules \<equiv> []"

text \<open>An encoding with its decoder; a decoder may accept more than the encodings.\<close>

locale codec =
  fixes enc :: "'a \<Rightarrow> 'b"
    and dec :: "'b \<Rightarrow> 'a option"
    and valid :: "'a \<Rightarrow> bool"
  assumes dec_enc: "valid x \<Longrightarrow> dec (enc x) = Some x"
begin

lemma enc_inj: "valid x \<Longrightarrow> valid y \<Longrightarrow> enc x = enc y \<longleftrightarrow> x = y"
  by (metis dec_enc option.inject)

lemma enc_distinct: "list_all valid xs \<Longrightarrow> distinct (map enc xs) \<longleftrightarrow> distinct xs"
  by (induction xs) (auto simp: list_all_iff enc_inj)

end

text \<open>
  A normaliser of untrusted values: it lands in the vocabulary and does not move a value
  of the vocabulary.
\<close>

locale normaliser =
  fixes norm :: "'a \<Rightarrow> 'b"
    and inject :: "'b \<Rightarrow> 'a"
    and vocab :: "'b \<Rightarrow> bool"
  assumes norm_lands: "vocab (norm x)"
    and norm_fixes: "vocab y \<Longrightarrow> norm (inject y) = y"
begin

lemma norm_idem: "norm (inject (norm x)) = norm x"
  by (simp add: norm_fixes norm_lands)

lemma norm_range: "range norm = Collect vocab"
  by (auto simp: norm_lands) (metis norm_fixes rangeI)

end

text \<open>
  A register that only moves forward: each step keeps the state or moves it to one of a
  higher rank, so a run never goes back.
\<close>

locale ratchet =
  fixes step :: "'s \<Rightarrow> 'i \<Rightarrow> 's"
    and rank :: "'s \<Rightarrow> 'v :: linorder"
  assumes step_rank: "rank s \<le> rank (step s i)"
    and step_same: "rank (step s i) = rank s \<Longrightarrow> step s i = s"
begin

lemma run_rank: "rank s \<le> rank (foldl step s is)"
  by (induction "is" arbitrary: s) (auto intro: order_trans [OF step_rank])

lemma run_split: "rank (foldl step s is) \<le> rank (foldl step s (is @ js))"
  by (simp add: run_rank)

lemma run_same: "rank (foldl step s is) = rank s \<Longrightarrow> foldl step s is = s"
proof (induction "is" arbitrary: s)
  case Nil
  then show ?case by simp
next
  case (Cons i "is")
  have "rank (step s i) \<le> rank (foldl step (step s i) is)" by (rule run_rank)
  then have "rank (step s i) = rank s"
    using Cons.prems step_rank [of s i] by simp
  then have "step s i = s" by (rule step_same)
  then show ?case using Cons by simp
qed

end

end
