(* ===== verification/Byte_Codecs.thy ===== *)
theory Byte_Codecs
  imports Prelude "HOL-Library.Word"
begin

unbundle bit_operations_syntax

text \<open>
  The byte-level standard library functions the SDK's identities rest on: UTF-8, hexadecimal
  digests, URL-safe base64 and its lenient decoder
  (\<open>base64.urlsafe_b64decode\<close>, that is \<open>binascii.a2b_base64\<close> in its default, non-strict mode).
  The lemmas show the shape of a digest and that decoding inverts encoding.
\<close>

type_synonym byte = "8 word"

subsection \<open>Text to bytes\<close>

definition utf8_char :: "char \<Rightarrow> byte list" where
  "utf8_char c =
     (let n = of_char c :: nat
      in if n < 128 then [word_of_nat n]
         else [word_of_nat (192 + n div 64), word_of_nat (128 + n mod 64)])"

definition utf8 :: "string \<Rightarrow> byte list" where
  "utf8 s = concat (map utf8_char s)"

definition is_ascii :: "string \<Rightarrow> bool" where
  "is_ascii s \<longleftrightarrow> list_all (\<lambda>c. of_char c < (128 :: nat)) s"

text \<open>\<open>bytes.decode("utf-8")\<close> on the encodings of code points below 256; \<open>None\<close> is UnicodeDecodeError.\<close>

fun utf8_decode :: "byte list \<Rightarrow> string option" where
  "utf8_decode [] = Some []"
| "utf8_decode (a # bs) =
     (if unat a < 128 then map_option (Cons (char_of (unat a))) (utf8_decode bs)
      else case bs of
        [] \<Rightarrow> None
      | b # cs \<Rightarrow>
          if 194 \<le> unat a \<and> unat a < 196 \<and> 128 \<le> unat b \<and> unat b < 192
          then map_option (Cons (char_of ((unat a - 192) * 64 + (unat b - 128)))) (utf8_decode cs)
          else None)"

lemma unat_word8_of_nat [simp]: "n < 256 \<Longrightarrow> unat (word_of_nat n :: byte) = n"
  by (simp add: unat_of_nat)

lemma utf8_decode_char: "utf8_decode (utf8_char c @ bs) = map_option (Cons c) (utf8_decode bs)"
proof (cases "of_char c < (128 :: nat)")
  case True
  then show ?thesis by (simp add: utf8_char_def)
next
  case False
  define h l where "h = of_char c div (64 :: nat)" and "l = of_char c mod (64 :: nat)"
  have "of_char c < (256 :: nat)" by simp
  then have h: "2 \<le> h" "h < 4" using False unfolding h_def by linarith+
  have l: "l < 64" by (simp add: l_def)
  have c: "char_of (h * 64 + l) = c" by (simp add: h_def l_def)
  have u: "utf8_char c = [word_of_nat (192 + h), word_of_nat (128 + l)]"
    using False by (simp add: utf8_char_def h_def l_def Let_def)
  have "unat (word_of_nat (192 + h) :: byte) = 192 + h" "unat (word_of_nat (128 + l) :: byte) = 128 + l"
    using h l by (simp_all only: unat_word8_of_nat)
  then show ?thesis using h l c by (simp del: of_nat_add add: u)
qed

lemma utf8_decode_utf8: "utf8_decode (utf8 s) = Some s"
  by (induction s) (simp_all add: utf8_def utf8_decode_char)

interpretation utf8_text: codec utf8 utf8_decode "\<lambda>_. True"
  by unfold_locales (rule utf8_decode_utf8)

subsection \<open>Big-endian integers\<close>

text \<open>\<open>int.from_bytes(raw, "big")\<close> and \<open>n.to_bytes(k, "big")\<close>, which raises OverflowError.\<close>

definition big_endian :: "byte list \<Rightarrow> nat" where
  "big_endian raw = foldl (\<lambda>n b. n * 256 + unat b) 0 raw"

fun be_bytes :: "nat \<Rightarrow> nat \<Rightarrow> byte list" where
  "be_bytes 0 n = []"
| "be_bytes (Suc k) n = be_bytes k (n div 256) @ [word_of_nat (n mod 256)]"

definition to_bytes :: "nat \<Rightarrow> nat \<Rightarrow> byte list option" where
  "to_bytes k n = (if n < 256 ^ k then Some (be_bytes k n) else None)"

lemma to_bytes_Some: "to_bytes k n = Some bs \<longleftrightarrow> n < 256 ^ k \<and> bs = be_bytes k n"
  by (auto simp: to_bytes_def)

lemma length_be_bytes [simp]: "length (be_bytes k n) = k"
  by (induction k arbitrary: n) auto

lemma big_endian_snoc [simp]: "big_endian (bs @ [b]) = big_endian bs * 256 + unat b"
  by (simp add: big_endian_def)

lemma big_endian_be_bytes: "n < 256 ^ k \<Longrightarrow> big_endian (be_bytes k n) = n"
proof (induction k arbitrary: n)
  case 0
  then show ?case by (simp add: big_endian_def)
next
  case (Suc k)
  then have "n div 256 < 256 ^ k" by (simp add: less_mult_imp_div_less mult.commute)
  then show ?case using Suc.IH by simp
qed

interpretation big_endian_int: codec "\<lambda>n. be_bytes k n" "\<lambda>bs. Some (big_endian bs)" "\<lambda>n. n < 256 ^ k" for k
  by unfold_locales (simp add: big_endian_be_bytes)

subsection \<open>Hexadecimal\<close>

definition hex_digit :: "nat \<Rightarrow> char" where
  "hex_digit n = char_of (if n < 10 then 48 + n else 87 + n)"

fun hexdigest :: "byte list \<Rightarrow> string" where
  "hexdigest [] = []"
| "hexdigest (b # bs) = hex_digit (unat b div 16) # hex_digit (unat b mod 16) # hexdigest bs"

fun unhex_digit :: "char \<Rightarrow> nat option" where
  "unhex_digit c =
     (let n = of_char c
      in if 48 \<le> n \<and> n \<le> 57 then Some (n - 48)
         else if 97 \<le> n \<and> n \<le> 102 then Some (n - 87) else None)"

fun unhex :: "string \<Rightarrow> byte list option" where
  "unhex [] = Some []"
| "unhex [x] = None"
| "unhex (x # y # cs) =
     (case (unhex_digit x, unhex_digit y, unhex cs) of
        (Some h, Some l, Some bs) \<Rightarrow> Some (word_of_nat (16 * h + l) # bs)
      | _ \<Rightarrow> None)"

lemma of_char_small: "n < 256 \<Longrightarrow> of_char (char_of n :: char) = (n :: nat)"
  by (simp add: of_char_of)

lemma hex_digit_lower [simp]: "n < 16 \<Longrightarrow> is_lower_hex (hex_digit n)"
  by (auto simp: hex_digit_def char_class_defs of_char_small)

lemma unhex_hex_digit [simp]: "n < 16 \<Longrightarrow> unhex_digit (hex_digit n) = Some n"
  by (simp add: hex_digit_def of_char_small)

lemma unat_byte_lt [simp]: "unat (b :: byte) < 256"
  using unsigned_less [of b] by simp

lemma byte_nibbles [simp]: "unat (b :: byte) div 16 < 16"
  using unat_byte_lt [of b] by linarith

lemma length_hexdigest [simp]: "length (hexdigest bs) = 2 * length bs"
  by (induction bs) auto

lemma hexdigest_lower [simp]: "list_all is_lower_hex (hexdigest bs)"
  by (induction bs) auto

lemma unhex_hexdigest: "unhex (hexdigest bs) = Some bs"
  by (induction bs) (simp_all del: unhex_digit.simps)

interpretation hex_text: codec hexdigest unhex "\<lambda>_. True"
  by unfold_locales (rule unhex_hexdigest)

subsection \<open>URL-safe base64\<close>

definition b64_char :: "nat \<Rightarrow> char" where
  "b64_char n =
     (if n < 26 then char_of (65 + n) else if n < 52 then char_of (71 + n)
      else if n < 62 then char_of (n - 4) else if n = 62 then CHR ''-'' else CHR ''_'')"

definition sextet :: "char \<Rightarrow> nat option" where
  \<comment> \<open>\<open>urlsafe_b64decode\<close> translates \<open>-\<close> and \<open>_\<close> to \<open>+\<close> and \<open>/\<close>, which stay readable themselves\<close>
  "sextet c =
     (let n = of_char c
      in if 65 \<le> n \<and> n \<le> 90 then Some (n - 65)
         else if 97 \<le> n \<and> n \<le> 122 then Some (n - 71)
         else if 48 \<le> n \<and> n \<le> 57 then Some (n + 4)
         else if c = CHR ''-'' \<or> c = CHR ''+'' then Some 62
         else if c = CHR ''_'' \<or> c = CHR ''/'' then Some 63
         else None)"

text \<open>The four sextets of three bytes; a missing byte counts as zero.\<close>

definition sx1 :: "byte \<Rightarrow> nat" where "sx1 a = unat a div 4"
definition sx2 :: "byte \<Rightarrow> byte \<Rightarrow> nat" where "sx2 a b = unat a mod 4 * 16 + unat b div 16"
definition sx3 :: "byte \<Rightarrow> byte \<Rightarrow> nat" where "sx3 b c = unat b mod 16 * 4 + unat c div 64"
definition sx4 :: "byte \<Rightarrow> nat" where "sx4 c = unat c mod 64"

fun b64_encode :: "byte list \<Rightarrow> string" where
  "b64_encode [] = []"
| "b64_encode [a] = [b64_char (sx1 a), b64_char (sx2 a 0), CHR ''='', CHR ''='']"
| "b64_encode [a, b] = [b64_char (sx1 a), b64_char (sx2 a b), b64_char (sx3 b 0), CHR ''='']"
| "b64_encode (a # b # c # bs) =
     b64_char (sx1 a) # b64_char (sx2 a b) # b64_char (sx3 b c) # b64_char (sx4 c) # b64_encode bs"

definition rstrip_pad :: "string \<Rightarrow> string" where
  "rstrip_pad s = rev (dropWhile (\<lambda>c. c = CHR ''='') (rev s))"

text \<open>\<open>urlsafe_b64encode(raw).rstrip(b"=")\<close>.\<close>

definition b64url :: "byte list \<Rightarrow> string" where
  "b64url bs = rstrip_pad (b64_encode bs)"

text \<open>
  \<open>binascii.a2b_base64\<close> without strict mode: characters outside the alphabet are skipped, a
  completed pad sequence ends the input, and what is left over at the end is an error. The
  arguments are the position in the quad, the bits carried over and the pads seen.
\<close>

fun a2b :: "nat \<Rightarrow> nat \<Rightarrow> nat \<Rightarrow> string \<Rightarrow> byte list option" where
  "a2b quad left pads [] = (if quad = 0 then Some [] else None)"
| "a2b quad left pads (x # xs) =
     (if x = CHR ''=''
      then (if 2 \<le> quad
            then if 4 \<le> quad + (pads + 1) then Some [] else a2b quad left (pads + 1) xs
            else a2b quad left pads xs)
      else case sextet x of
        None \<Rightarrow> a2b quad left pads xs
      | Some v \<Rightarrow>
          if quad = 0 then a2b 1 v 0 xs
          else if quad = 1 then map_option (Cons (word_of_nat (left * 4 + v div 16))) (a2b 2 (v mod 16) 0 xs)
          else if quad = 2 then map_option (Cons (word_of_nat (left * 16 + v div 4))) (a2b 3 (v mod 4) 0 xs)
          else map_option (Cons (word_of_nat (left * 64 + v))) (a2b 0 0 0 xs))"

text \<open>\<open>"=" * (-len(s) % 4)\<close>, and decoding after it is appended; \<open>None\<close> is ValueError.\<close>

definition pad_to_4 :: "string \<Rightarrow> string" where
  "pad_to_4 s = s @ replicate ((4 - length s mod 4) mod 4) (CHR ''='')"

definition urlsafe_b64decode :: "string \<Rightarrow> byte list option" where
  "urlsafe_b64decode s = (if is_ascii s then a2b 0 0 0 s else None)"

definition b64url_decode :: "string \<Rightarrow> byte list option" where
  "b64url_decode s = urlsafe_b64decode (pad_to_4 s)"

text \<open>The unpadded text, without the detour over padding, for the proofs.\<close>

fun b64_body :: "byte list \<Rightarrow> string" where
  "b64_body [] = []"
| "b64_body [a] = [b64_char (sx1 a), b64_char (sx2 a 0)]"
| "b64_body [a, b] = [b64_char (sx1 a), b64_char (sx2 a b), b64_char (sx3 b 0)]"
| "b64_body (a # b # c # bs) =
     b64_char (sx1 a) # b64_char (sx2 a b) # b64_char (sx3 b c) # b64_char (sx4 c) # b64_body bs"

definition pads_of :: "byte list \<Rightarrow> nat" where
  "pads_of bs = (3 - length bs mod 3) mod 3"

lemma sextet_b64_char [simp]: "n < 64 \<Longrightarrow> sextet (b64_char n) = Some n"
proof -
  assume "n < 64"
  then consider "n < 26" | "26 \<le> n" "n < 52" | "52 \<le> n" "n < 62" | "n = 62" | "n = 63" by linarith
  then show ?thesis
    by cases (simp_all add: b64_char_def sextet_def of_char_small Let_def, auto)
qed

lemma b64_char_neq_pad [simp]: "n < 64 \<Longrightarrow> b64_char n \<noteq> CHR ''=''"
proof
  assume "n < 64" "b64_char n = CHR ''=''"
  then have "sextet (CHR ''='') = Some n" by (metis sextet_b64_char)
  then show False by (simp add: sextet_def)
qed

lemma b64url_char_b64_char [simp]: "n < 64 \<Longrightarrow> is_b64url_char (b64_char n)"
proof -
  assume "n < 64"
  then consider "n < 26" | "26 \<le> n" "n < 52" | "52 \<le> n" "n < 62" | "n = 62" | "n = 63" by linarith
  then show ?thesis
    by cases (simp_all add: b64_char_def char_class_defs of_char_small, linarith)
qed

lemma sextets_bounded [simp]: "sx1 a < 64" "sx2 a b < 64" "sx3 b c < 64" "sx4 c < 64"
proof -
  have "unat x < 256" for x :: byte by simp
  then have "unat x div 4 < 64" "unat x div 16 < 16" "unat x div 64 < 4" for x :: byte
    by (simp_all add: less_mult_imp_div_less)
  moreover have "unat x mod 4 < 4" "unat x mod 16 < 16" "unat x mod 64 < 64" for x :: byte by simp_all
  ultimately have "unat a mod 4 < 4" "unat b div 16 < 16" "unat b mod 16 < 16" "unat c div 64 < 4"
    "unat a div 4 < 64" "unat c mod 64 < 64" by blast+
  then show "sx1 a < 64" "sx2 a b < 64" "sx3 b c < 64" "sx4 c < 64"
    unfolding sx1_def sx2_def sx3_def sx4_def by linarith+
qed

lemma sextets_join [simp]:
  "word_of_nat (sx1 a * 4 + sx2 a b div 16) = a"
  "word_of_nat (sx2 a b mod 16 * 16 + sx3 b c div 4) = b"
  "word_of_nat (sx3 b c mod 4 * 64 + sx4 c) = c"
proof -
  have "unat b div 16 < 16" "unat c div 64 < 4"
    using unat_byte_lt [of b] unat_byte_lt [of c] by linarith+
  then have "sx1 a * 4 + sx2 a b div 16 = unat a" "sx2 a b mod 16 * 16 + sx3 b c div 4 = unat b"
    "sx3 b c mod 4 * 64 + sx4 c = unat c"
    unfolding sx1_def sx2_def sx3_def sx4_def by simp_all
  then show "word_of_nat (sx1 a * 4 + sx2 a b div 16) = a"
    "word_of_nat (sx2 a b mod 16 * 16 + sx3 b c div 4) = b"
    "word_of_nat (sx3 b c mod 4 * 64 + sx4 c) = c"
    by (simp_all only: of_nat_unat ucast_id)
qed

lemma b64_body_chars: "list_all is_b64url_char (b64_body bs)"
  by (induction bs rule: b64_body.induct) simp_all

lemma length_b64_body: "length (b64_body bs) = (4 * length bs + 2) div 3"
  by (induction bs rule: b64_body.induct) simp_all

lemma b64_encode_body: "b64_encode bs = b64_body bs @ replicate (pads_of bs) (CHR ''='')"
  by (induction bs rule: b64_encode.induct) (simp_all add: pads_of_def numeral_2_eq_2 del: of_nat_add of_nat_mult)

lemma rstrip_pad_append: "list_all is_b64url_char s \<Longrightarrow> rstrip_pad (s @ replicate n (CHR ''='')) = s"
proof -
  assume s: "list_all is_b64url_char s"
  have "\<not> is_b64url_char (CHR ''='')" by (simp add: char_class_defs)
  with s have "list_all (\<lambda>c. c \<noteq> CHR ''='') (rev s)" by (auto simp: list_all_iff)
  then have "dropWhile (\<lambda>c. c = CHR ''='') (rev s) = rev s"
    by (cases "rev s") auto
  moreover have "dropWhile (\<lambda>c. c = CHR ''='') (replicate n (CHR ''='') @ t)
      = dropWhile (\<lambda>c. c = CHR ''='') t" for t
    by (induction n) auto
  ultimately show ?thesis by (simp add: rstrip_pad_def)
qed

lemma b64url_body: "b64url bs = b64_body bs"
  by (simp add: b64url_def b64_encode_body rstrip_pad_append b64_body_chars)

lemma b64url_chars [simp]: "list_all is_b64url_char (b64url bs)"
  by (simp add: b64url_body b64_body_chars)

lemma length_b64url: "length (b64url bs) = (4 * length bs + 2) div 3"
  by (simp add: b64url_body length_b64_body)

lemma a2b_body: "a2b 0 0 0 (b64_body bs @ replicate (pads_of bs) (CHR ''='')) = Some bs"
  by (induction bs rule: b64_body.induct) (simp_all add: pads_of_def numeral_2_eq_2 del: of_nat_add of_nat_mult)

lemma b64_body_pads: "(4 - length (b64_body bs) mod 4) mod 4 = pads_of bs"
  by (induction bs rule: b64_body.induct) (simp_all add: pads_of_def)

lemma pad_b64_body: "pad_to_4 (b64_body bs) = b64_body bs @ replicate (pads_of bs) (CHR ''='')"
  by (simp add: pad_to_4_def b64_body_pads)

lemma b64url_char_ascii: "is_b64url_char c \<Longrightarrow> of_char c < (128 :: nat)"
  by (auto simp: char_class_defs)

lemma b64url_decode_b64url: "b64url_decode (b64url bs) = Some bs"
proof -
  have "is_ascii (b64_body bs @ replicate n (CHR ''=''))" for n
    using b64_body_chars [of bs] by (auto simp: is_ascii_def list_all_iff b64url_char_ascii)
  then show ?thesis
    by (simp add: b64url_decode_def urlsafe_b64decode_def b64url_body pad_b64_body a2b_body)
qed

interpretation b64url_text: codec b64url b64url_decode "\<lambda>_. True"
  by unfold_locales (rule b64url_decode_b64url)

end
