(* ===== verification/Sha256.thy ===== *)
theory Sha256
  imports Byte_Codecs
begin

unbundle bit_operations_syntax

text \<open>
  \<open>hashlib.sha256\<close> as FIPS 180-4 gives it: padding to 64-byte blocks, the message schedule and
  64 rounds per block on eight 32-bit words, all additions modulo \<open>2 ^ 32\<close>. The digest is 32
  bytes, its hexadecimal form 64 lower-case characters.
\<close>

type_synonym word32 = "32 word"

definition rotr :: "nat \<Rightarrow> word32 \<Rightarrow> word32" where
  "rotr n w = drop_bit n w OR push_bit (32 - n) w"

definition big_sigma0 :: "word32 \<Rightarrow> word32" where
  "big_sigma0 x = rotr 2 x XOR rotr 13 x XOR rotr 22 x"

definition big_sigma1 :: "word32 \<Rightarrow> word32" where
  "big_sigma1 x = rotr 6 x XOR rotr 11 x XOR rotr 25 x"

definition small_sigma0 :: "word32 \<Rightarrow> word32" where
  "small_sigma0 x = rotr 7 x XOR rotr 18 x XOR drop_bit 3 x"

definition small_sigma1 :: "word32 \<Rightarrow> word32" where
  "small_sigma1 x = rotr 17 x XOR rotr 19 x XOR drop_bit 10 x"

definition sha_choose :: "word32 \<Rightarrow> word32 \<Rightarrow> word32 \<Rightarrow> word32" where
  "sha_choose x y z = (x AND y) XOR ((NOT x) AND z)"

definition sha_majority :: "word32 \<Rightarrow> word32 \<Rightarrow> word32 \<Rightarrow> word32" where
  "sha_majority x y z = (x AND y) XOR (x AND z) XOR (y AND z)"

text \<open>
  The standard's constants are the first 32 bits of the fractional parts of roots of the first
  primes: cube roots for the rounds, square roots for the first state. They are computed here, the
  root one binary digit at a time.
\<close>

fun root_digits :: "nat \<Rightarrow> int \<Rightarrow> nat \<Rightarrow> int \<Rightarrow> int" where
  "root_digits k n 0 r = r"
| "root_digits k n (Suc i) r = root_digits k n i (if (r + 2 ^ i) ^ k \<le> n then r + 2 ^ i else r)"

definition root_fraction :: "nat \<Rightarrow> nat \<Rightarrow> word32" where
  "root_fraction k p = word_of_int (root_digits k (int p * 2 ^ (32 * k)) 40 0)"

definition primes_below :: "nat \<Rightarrow> nat list" where
  "primes_below b = filter (\<lambda>n. list_all (\<lambda>d. n mod d \<noteq> 0) [2..<n]) [2..<b]"

definition round_constants :: "word32 list" where
  "round_constants = map (root_fraction 3) (primes_below 312)"

type_synonym sha_state =
  "word32 \<times> word32 \<times> word32 \<times> word32 \<times> word32 \<times> word32 \<times> word32 \<times> word32"

definition initial_hash :: sha_state where
  "initial_hash =
    (root_fraction 2 2, root_fraction 2 3, root_fraction 2 5, root_fraction 2 7,
     root_fraction 2 11, root_fraction 2 13, root_fraction 2 17, root_fraction 2 19)"

text \<open>The 64-bit length, and the padded message as 64-byte blocks.\<close>

definition length_bytes :: "nat \<Rightarrow> byte list" where
  "length_bytes n = map (\<lambda>i. word_of_int (int n div 256 ^ i)) [7, 6, 5, 4, 3, 2, 1, 0]"

definition sha_pad :: "byte list \<Rightarrow> byte list" where
  "sha_pad m = m @ [0x80] @ replicate ((119 - length m mod 64) mod 64) 0 @ length_bytes (8 * length m)"

fun words_of :: "byte list \<Rightarrow> word32 list" where
  "words_of (a # b # c # d # bs) =
     (push_bit 24 (ucast a) OR push_bit 16 (ucast b) OR push_bit 8 (ucast c) OR ucast d) # words_of bs"
| "words_of bs = []"

definition word_bytes :: "word32 \<Rightarrow> byte list" where
  "word_bytes w = [ucast (drop_bit 24 w), ucast (drop_bit 16 w), ucast (drop_bit 8 w), ucast w]"

text \<open>The schedule is kept newest word first.\<close>

fun extend_schedule :: "nat \<Rightarrow> word32 list \<Rightarrow> word32 list" where
  "extend_schedule 0 w = w"
| "extend_schedule (Suc n) w =
     extend_schedule n ((small_sigma1 (w ! 1) + w ! 6 + small_sigma0 (w ! 14) + w ! 15) # w)"

definition schedule :: "word32 list \<Rightarrow> word32 list" where
  "schedule block = rev (extend_schedule 48 (rev block))"

fun sha_round :: "sha_state \<Rightarrow> word32 \<times> word32 \<Rightarrow> sha_state" where
  "sha_round (a, b, c, d, e, f, g, h) (k, w) =
     (let t1 = h + big_sigma1 e + sha_choose e f g + k + w;
          t2 = big_sigma0 a + sha_majority a b c
      in (t1 + t2, a, b, c, d + t1, e, f, g))"

fun add_states :: "sha_state \<Rightarrow> sha_state \<Rightarrow> sha_state" where
  "add_states (a, b, c, d, e, f, g, h) (a', b', c', d', e', f', g', h') =
     (a + a', b + b', c + c', d + d', e + e', f + f', g + g', h + h')"

definition compress :: "sha_state \<Rightarrow> word32 list \<Rightarrow> sha_state" where
  "compress s block = add_states s (foldl sha_round s (zip round_constants (schedule block)))"

fun blocks :: "nat \<Rightarrow> word32 list \<Rightarrow> word32 list list" where
  "blocks 0 ws = []"
| "blocks (Suc n) ws = take 16 ws # blocks n (drop 16 ws)"

fun state_words :: "sha_state \<Rightarrow> word32 list" where
  "state_words (a, b, c, d, e, f, g, h) = [a, b, c, d, e, f, g, h]"

definition sha256 :: "byte list \<Rightarrow> byte list" where
  "sha256 m =
     (let ws = words_of (sha_pad m)
      in concat (map word_bytes (state_words (foldl compress initial_hash (blocks (length ws div 16) ws)))))"

text \<open>\<open>hashlib.sha256(m).hexdigest()\<close>.\<close>

definition sha256_hex :: "byte list \<Rightarrow> string" where
  "sha256_hex m = hexdigest (sha256 m)"

text \<open>\<open>hmac.new(key, message, hashlib.sha256).digest()\<close>.\<close>

definition hmac_sha256 :: "byte list \<Rightarrow> byte list \<Rightarrow> byte list" where
  "hmac_sha256 key message =
     (let k0 = if 64 < length key then sha256 key else key;
          k = k0 @ replicate (64 - length k0) 0
      in sha256 (map (\<lambda>b. b XOR 0x5c) k @ sha256 (map (\<lambda>b. b XOR 0x36) k @ message)))"

lemma length_sha256 [simp]: "length (sha256 m) = 32"
proof -
  have "length (concat (map word_bytes (state_words s))) = 32" for s
    by (cases s rule: state_words.cases) (simp add: word_bytes_def)
  then show ?thesis by (simp add: sha256_def Let_def)
qed

lemma length_sha256_hex [simp]: "length (sha256_hex m) = 64"
  by (simp add: sha256_hex_def)

lemma sha256_hex_lower [simp]: "list_all is_lower_hex (sha256_hex m)"
  by (simp add: sha256_hex_def)

lemma length_hmac_sha256 [simp]: "length (hmac_sha256 key message) = 32"
  by (simp add: hmac_sha256_def Let_def)

text \<open>Padding fills whole blocks.\<close>

lemma length_sha_pad: "length (sha_pad m) mod 64 = 0"
proof -
  define r where "r = length m mod 64"
  have r: "r < 64" by (simp add: r_def)
  have n: "length m = 64 * (length m div 64) + r" by (simp add: r_def)
  have len: "length (sha_pad m) = length m + 9 + (119 - r) mod 64"
    by (simp add: sha_pad_def length_bytes_def flip: r_def)
  have "(119 - r) mod 64 = (if r \<le> 55 then 55 - r else 119 - r)" using r by (simp add: le_mod_geq)
  then have "length (sha_pad m) = 64 * (length m div 64) + (if r \<le> 55 then 64 else 128)"
    using r n len by (auto split: if_splits)
  then show ?thesis by simp
qed

lemma prefixed_digest_matches: "matches_sha256 (''sha256:'' @ sha256_hex m)"
  by (simp add: matches_sha256_def starts_with_def)

lemmas prefixed_digest_matches_Cons [simp] = prefixed_digest_matches [unfolded append.simps]

end
