(* ===== verification/Json_Values.thy ===== *)
theory Json_Values
  imports Prelude Complex_Main
begin

text \<open>
  The values the SDK's documents are made of: Python floats (a rational, an infinity or NaN,
  with IEEE comparisons, every one of which is false on NaN), the decoded JSON values, and the
  strict readings of one field of an object that the model classes make
  (\<open>extra="forbid"\<close>, \<open>strict=True\<close>: no coercion, no unknown key). An aware \<open>datetime\<close>
  is its instant, in microseconds; a naive one is kept apart, because the SDK refuses it.
\<close>

subsection \<open>Numbers\<close>

datatype pyfloat = Fin rat | PInf | NInf | NaN

fun float_less :: "pyfloat \<Rightarrow> pyfloat \<Rightarrow> bool" where
  "float_less (Fin x) (Fin y) = (x < y)"
| "float_less NInf (Fin y) = True"
| "float_less NInf PInf = True"
| "float_less (Fin x) PInf = True"
| "float_less _ _ = False"

fun float_is_finite :: "pyfloat \<Rightarrow> bool" where
  "float_is_finite (Fin x) = True"
| "float_is_finite _ = False"

fun float_le :: "pyfloat \<Rightarrow> pyfloat \<Rightarrow> bool" where
  "float_le NaN y = False"
| "float_le x NaN = False"
| "float_le x y = (x = y \<or> float_less x y)"

lemma float_less_NaN [simp]: "\<not> float_less NaN y" "\<not> float_less x NaN"
  by (cases x; simp)+

lemma float_le_NaN [simp]: "\<not> float_le x NaN"
  by (cases x) simp_all

lemma float_le_not_less: "x \<noteq> NaN \<Longrightarrow> y \<noteq> NaN \<Longrightarrow> float_le x y \<longleftrightarrow> \<not> float_less y x"
  by (cases x; cases y) auto

subsection \<open>Timestamps\<close>

datatype datetime = Naive int | Aware int

fun is_aware :: "datetime \<Rightarrow> bool" where
  "is_aware (Aware t) = True"
| "is_aware (Naive t) = False"

fun instant :: "datetime \<Rightarrow> int" where
  "instant (Aware t) = t"
| "instant (Naive t) = t"

lemma aware_eq_iff: "is_aware x \<Longrightarrow> is_aware y \<Longrightarrow> x = y \<longleftrightarrow> instant x = instant y"
  by (cases x; cases y) auto

text \<open>
  \<open>int(t.timestamp())\<close>: whole seconds, towards zero. The intermediate float resolves a microsecond
  up to the year 2242; beyond it the last microsecond of a second may round up, which is not modelled.
\<close>

definition unix_seconds :: "int \<Rightarrow> int" where
  "unix_seconds t = (if 0 \<le> t then t div 1000000 else - (- t div 1000000))"

text \<open>
  \<open>datetime.fromtimestamp(v, tz=timezone.utc)\<close>: a float is rounded to the microsecond, half to even;
  the result has a year from 1 to 9999, anything else raises.
\<close>

definition round_half_even :: "rat \<Rightarrow> int" where
  "round_half_even x =
     (let n = floor x; part = x - of_int n
      in if part < 1 / 2 \<or> (part = 1 / 2 \<and> even n) then n else n + 1)"

definition from_micros :: "int \<Rightarrow> datetime option" where
  "from_micros t =
     (if -62135596800 * 1000000 \<le> t \<and> t < 253402300800 * 1000000 then Some (Aware t) else None)"

fun from_timestamp :: "pyfloat \<Rightarrow> datetime option" where
  "from_timestamp (Fin x) = from_micros (round_half_even (x * 1000000))"
| "from_timestamp _ = None"

lemma round_half_even_int [simp]: "round_half_even (of_int n) = n"
  by (simp add: round_half_even_def)

lemma from_timestamp_int: "from_timestamp (Fin (of_int n)) = from_micros (n * 1000000)"
proof -
  have "(of_int n :: rat) * 1000000 = of_int (n * 1000000)" by simp
  then show ?thesis by (simp only: from_timestamp.simps(1) round_half_even_int)
qed

declare from_timestamp.simps(1) [simp del]

subsection \<open>JSON\<close>

datatype json = JNull | JBool bool | JInt int | JFloat pyfloat | JStr string
  | JArr "json list" | JObj "(string \<times> json) list"

type_synonym json_object = "(string \<times> json) list"

text \<open>The strict readings of one value.\<close>

fun is_text :: "(string \<Rightarrow> bool) \<Rightarrow> json \<Rightarrow> bool" where
  "is_text p (JStr s) = p s"
| "is_text p _ = False"

fun is_integer :: "(int \<Rightarrow> bool) \<Rightarrow> json \<Rightarrow> bool" where
  "is_integer p (JInt n) = p n"
| "is_integer p _ = False"

fun is_boolean :: "json \<Rightarrow> bool" where
  "is_boolean (JBool b) = True"
| "is_boolean _ = False"

fun is_object :: "(json_object \<Rightarrow> bool) \<Rightarrow> json \<Rightarrow> bool" where
  "is_object p (JObj kvs) = p kvs"
| "is_object p _ = False"

fun is_array :: "(json list \<Rightarrow> bool) \<Rightarrow> json \<Rightarrow> bool" where
  "is_array p (JArr vs) = p vs"
| "is_array p _ = False"

text \<open>A required key, an optional key, and the keys an object may have at all.\<close>

definition required :: "string \<Rightarrow> (json \<Rightarrow> bool) \<Rightarrow> json_object \<Rightarrow> bool" where
  "required k p kvs = (case map_of kvs k of None \<Rightarrow> False | Some v \<Rightarrow> p v)"

definition defaulted :: "string \<Rightarrow> (json \<Rightarrow> bool) \<Rightarrow> json_object \<Rightarrow> bool" where
  "defaulted k p kvs = (case map_of kvs k of None \<Rightarrow> True | Some v \<Rightarrow> p v)"

definition only_keys :: "string list \<Rightarrow> json_object \<Rightarrow> bool" where
  "only_keys ks kvs \<longleftrightarrow> list_all (\<lambda>(k, v). k \<in> set ks) kvs"

lemma required_dom: "required k p kvs \<Longrightarrow> k \<in> fst ` set kvs"
  by (auto simp: required_def split: option.splits dest: map_of_SomeD) (force dest: map_of_SomeD)

lemma only_keys_dom: "only_keys ks kvs \<longleftrightarrow> fst ` set kvs \<subseteq> set ks"
  by (auto simp: only_keys_def list_all_iff)

subsection \<open>Reading values\<close>

text \<open>Python truth of a decoded value.\<close>

fun truthy :: "json \<Rightarrow> bool" where
  "truthy JNull = False"
| "truthy (JBool b) = b"
| "truthy (JInt n) = (n \<noteq> 0)"
| "truthy (JFloat f) = (f \<noteq> Fin 0)"
| "truthy (JStr s) = (s \<noteq> [])"
| "truthy (JArr vs) = (vs \<noteq> [])"
| "truthy (JObj kvs) = (kvs \<noteq> [])"

text \<open>What \<open>model_validate\<close> reads from a decoded object, or its refusal.\<close>

definition parse_text :: "json_object \<Rightarrow> string \<Rightarrow> string option" where
  "parse_text kvs k = (case map_of kvs k of Some (JStr s) \<Rightarrow> Some s | _ \<Rightarrow> None)"

definition parse_int :: "json_object \<Rightarrow> string \<Rightarrow> int option" where
  "parse_int kvs k = (case map_of kvs k of Some (JInt n) \<Rightarrow> Some n | _ \<Rightarrow> None)"

fun texts_of :: "json list \<Rightarrow> string list option" where
  "texts_of [] = Some []"
| "texts_of (JStr s # vs) = map_option (Cons s) (texts_of vs)"
| "texts_of (v # vs) = None"

definition parse_texts :: "json_object \<Rightarrow> string \<Rightarrow> string list option" where
  "parse_texts kvs k = (case map_of kvs k of Some (JArr vs) \<Rightarrow> texts_of vs | _ \<Rightarrow> None)"

text \<open>Iterating a decoded value: a string by characters, an object by keys, others raise.\<close>

fun iterate :: "json \<Rightarrow> json list option" where
  "iterate (JArr vs) = Some vs"
| "iterate (JStr s) = Some (map (\<lambda>c. JStr [c]) s)"
| "iterate (JObj kvs) = Some (map (\<lambda>(k, v). JStr k) kvs)"
| "iterate _ = None"

definition present :: "json_object \<Rightarrow> string \<Rightarrow> json option" where
  "present kvs k = (case map_of kvs k of Some JNull \<Rightarrow> None | v \<Rightarrow> v)"

text \<open>\<open>str(claims.get(k) or "").strip()\<close>.\<close>

definition text_of :: "(json \<Rightarrow> string) \<Rightarrow> json \<Rightarrow> string" where
  "text_of render v = (case v of JStr s \<Rightarrow> s | _ \<Rightarrow> render v)"

definition claim_text :: "(json \<Rightarrow> string) \<Rightarrow> json_object \<Rightarrow> string \<Rightarrow> string" where
  "claim_text render claims k =
     (case map_of claims k of
        None \<Rightarrow> []
      | Some v \<Rightarrow> if truthy v then strip (text_of render v) else [])"

lemma texts_of_map [simp]: "texts_of (map JStr ss) = Some ss"
  by (induction ss) auto

subsection \<open>Compact text\<close>

text \<open>
  \<open>json.dumps(v, ensure_ascii=False, separators=(",", ":"))\<close>. The text of a finite float is the
  argument \<open>float_text\<close>, as \<open>repr\<close> gives it.
\<close>

definition hex4 :: "nat \<Rightarrow> string" where
  "hex4 n = ''00'' @ [char_of (48 + n div 16),
     char_of (if n mod 16 < 10 then 48 + n mod 16 else 87 + n mod 16)]"

definition escape_char :: "char \<Rightarrow> string" where
  "escape_char c =
     (let n = of_char c :: nat
      in if n = 34 then [char_of (92 :: nat), c] else if n = 92 then [c, c]
         else if n = 10 then [char_of (92 :: nat), CHR ''n''] else if n = 13 then [char_of (92 :: nat), CHR ''r'']
         else if n = 9 then [char_of (92 :: nat), CHR ''t''] else if n = 12 then [char_of (92 :: nat), CHR ''f'']
         else if n = 8 then [char_of (92 :: nat), CHR ''b'']
         else if n < 32 then char_of (92 :: nat) # CHR ''u'' # hex4 n else [c])"

definition string_text :: "string \<Rightarrow> string" where
  "string_text s = ''\"'' @ concat (map escape_char s) @ ''\"''"

fun digits :: "nat \<Rightarrow> string" where
  "digits n = (if n < 10 then [char_of (48 + n)] else digits (n div 10) @ [char_of (48 + n mod 10)])"

declare digits.simps [simp del]

definition int_text :: "int \<Rightarrow> string" where
  "int_text n = (if n < 0 then CHR ''-'' # digits (nat (- n)) else digits (nat n))"

fun comma :: "string list \<Rightarrow> string" where
  "comma [] = []"
| "comma [s] = s"
| "comma (s # t # ss) = s @ '','' @ comma (t # ss)"

fun json_text :: "(rat \<Rightarrow> string) \<Rightarrow> json \<Rightarrow> string" where
  "json_text ft JNull = ''null''"
| "json_text ft (JBool b) = (if b then ''true'' else ''false'')"
| "json_text ft (JInt n) = int_text n"
| "json_text ft (JFloat (Fin q)) = ft q"
| "json_text ft (JFloat PInf) = ''Infinity''"
| "json_text ft (JFloat NInf) = ''-Infinity''"
| "json_text ft (JFloat NaN) = ''NaN''"
| "json_text ft (JStr s) = string_text s"
| "json_text ft (JArr vs) = ''['' @ comma (map (json_text ft) vs) @ '']''"
| "json_text ft (JObj kvs) =
     ''{'' @ comma (map (\<lambda>kv. string_text (fst kv) @ '':'' @ json_text ft (snd kv)) kvs) @ ''}''"

end
