(* ===== verification/Identity.thy ===== *)
theory Identity
  imports Sha256 Json_Values
begin

text \<open>
  The identity rules of \<open>device_foundation/v1/lifecycle.py\<close>: the wire spelling of an enum and
  of a timestamp, the two owner namespaces, the reading of an operational public key, and the
  identities hashed from it. RFC 8785 canonical JSON is a third-party library: it is the
  argument \<open>canon\<close> of what uses it, \<open>None\<close> being its refusal.
\<close>

subsection \<open>Wire enums and timestamps\<close>

text \<open>
  What reaches a validator before its type is checked: a member of the enum, a string, or
  some other object. \<open>members\<close> lists the enum's members with their wire strings.
\<close>

datatype ('e, 'o) wire_value = Member 'e | Text string | Other 'o

fun accept_wire_value :: "(string \<times> 'e) list \<Rightarrow> ('e, 'o) wire_value \<Rightarrow> ('e, 'o) wire_value" where
  "accept_wire_value members (Member m) = Member m"
| "accept_wire_value members (Other x) = Other x"
| "accept_wire_value members (Text s) =
     (case map_of members s of None \<Rightarrow> Text s | Some m \<Rightarrow> Member m)"

lemma accept_wire_value_idem:
  "accept_wire_value ms (accept_wire_value ms v) = accept_wire_value ms v"
  by (cases v) (auto split: option.splits)

text \<open>
  \<open>datetime.fromisoformat\<close> is the argument \<open>fromiso\<close>; it is given the text with every \<open>Z\<close>
  rewritten to \<open>+00:00\<close>.
\<close>

datatype 'o time_input = Time datetime | Time_Text string | Not_Time 'o

datatype time_error = Not_A_Datetime | No_Offset | Unreadable

definition zulu_to_offset :: "string \<Rightarrow> string" where
  "zulu_to_offset s = concat (map (\<lambda>c. if c = CHR ''Z'' then ''+00:00'' else [c]) s)"

fun wire_datetime :: "(string \<Rightarrow> datetime option) \<Rightarrow> 'o time_input \<Rightarrow> time_error + 'o time_input" where
  "wire_datetime fromiso (Time_Text s) =
     (case fromiso (zulu_to_offset s) of None \<Rightarrow> Inl Unreadable | Some t \<Rightarrow> Inr (Time t))"
| "wire_datetime fromiso v = Inr v"

fun require_offset :: "'o time_input \<Rightarrow> time_error + datetime" where
  "require_offset (Time (Aware t)) = Inr (Aware t)"
| "require_offset (Time (Naive t)) = Inl No_Offset"
| "require_offset v = Inl Not_A_Datetime"

definition aware_datetime :: "(string \<Rightarrow> datetime option) \<Rightarrow> 'o time_input \<Rightarrow> time_error + datetime" where
  "aware_datetime fromiso v = and_then (wire_datetime fromiso v) require_offset"

lemma require_offset_Inr: "require_offset v = Inr t \<longleftrightarrow> is_aware t \<and> v = Time t"
  by (cases v rule: require_offset.cases; cases t) auto

lemma aware_datetime_aware: "aware_datetime fromiso v = Inr t \<Longrightarrow> is_aware t"
  by (auto simp: aware_datetime_def guard_simps require_offset_Inr)

lemma aware_datetime_again:
  "aware_datetime fromiso v = Inr t \<Longrightarrow> aware_datetime fromiso (Time t) = Inr t"
  by (auto simp: aware_datetime_def guard_simps require_offset_Inr)

subsection \<open>The two owner namespaces\<close>

definition owner_domain_id_ok :: "string \<Rightarrow> bool" where
  "owner_domain_id_ok s \<longleftrightarrow> len_between 3 128 s \<and> starts_with ''owner-'' s"

definition make_owner_domain_id :: "string \<Rightarrow> string invalid + string" where
  "make_owner_domain_id s =
     build [] [(\<not> len_between 3 128 s \<or> \<not> starts_with ''owner-'' s,
                ''OwnerDomainId must use the owner- namespace'')] s"

definition business_owner_id_ok :: "string \<Rightarrow> bool" where
  "business_owner_id_ok s \<longleftrightarrow> len_between 3 128 s \<and> starts_with ''owner_'' s"

definition make_business_owner_id :: "string \<Rightarrow> string invalid + string" where
  "make_business_owner_id s =
     build [] [(\<not> len_between 3 128 s \<or> \<not> starts_with ''owner_'' s,
                ''BusinessOwnerId must use the owner_ namespace'')] s"

interpretation owner_domain: model_class make_owner_domain_id owner_domain_id_ok
  by unfold_locales (auto simp: make_owner_domain_id_def owner_domain_id_ok_def guard_simps)

interpretation business_owner: model_class make_business_owner_id business_owner_id_ok
  by unfold_locales (auto simp: make_business_owner_id_def business_owner_id_ok_def guard_simps)

lemma owner_namespaces_disjoint: "owner_domain_id_ok s \<Longrightarrow> \<not> business_owner_id_ok s"
  by (auto simp: owner_domain_id_ok_def business_owner_id_ok_def starts_with_def)

subsection \<open>Operational keys\<close>

definition device_instance_namespace :: string where
  "device_instance_namespace = ''device-instance-''"

definition spki_scheme :: string where
  "spki_scheme = ''p256-spki:''"

definition p256_spki_prefix :: "byte list" where
  "p256_spki_prefix =
     [0x30, 0x59, 0x30, 0x13, 0x06, 0x07, 0x2a, 0x86, 0x48, 0xce, 0x3d, 0x02, 0x01,
      0x06, 0x08, 0x2a, 0x86, 0x48, 0xce, 0x3d, 0x03, 0x01, 0x07, 0x03, 0x42, 0x00]"

definition p256_uncompressed_point_length :: nat where
  "p256_uncompressed_point_length = 65"

datatype key_error = Not_Base64url | Empty_Key | Raw_Point | Not_P256_Spki

definition is_p256_spki :: "byte list \<Rightarrow> bool" where
  "is_p256_spki raw \<longleftrightarrow> length raw = length p256_spki_prefix + p256_uncompressed_point_length
     \<and> take (length p256_spki_prefix) raw = p256_spki_prefix"

definition operational_public_key_bytes :: "string \<Rightarrow> key_error + byte list" where
  "operational_public_key_bytes key =
     (let encoded = remove_prefix spki_scheme key
      in case b64url_decode encoded of
           None \<Rightarrow> Inl Not_Base64url
         | Some raw \<Rightarrow>
             guarded
               [(raw = [], Empty_Key),
                (take 1 raw = [0x04] \<and> length raw = p256_uncompressed_point_length, Raw_Point),
                (length raw \<noteq> length p256_spki_prefix + p256_uncompressed_point_length
                   \<or> take (length p256_spki_prefix) raw \<noteq> p256_spki_prefix, Not_P256_Spki)]
               raw)"

definition operational_key_id :: "string \<Rightarrow> key_error + string" where
  "operational_key_id key =
     and_then (operational_public_key_bytes key) (\<lambda>raw. Inr (''sha256:'' @ sha256_hex raw))"

definition derive_device_instance_id :: "string \<Rightarrow> key_error + string" where
  "derive_device_instance_id key =
     and_then (operational_public_key_bytes key)
       (\<lambda>raw. Inr (device_instance_namespace @ sha256_hex raw))"

definition device_instance_id_ok :: "string \<Rightarrow> bool" where
  \<comment> \<open>\<open>^device-instance-[0-9a-f]{64}$\<close>, 80 characters\<close>
  "device_instance_id_ok s \<longleftrightarrow> length s = 80 \<and> starts_with device_instance_namespace s
     \<and> list_all is_lower_hex (drop (length device_instance_namespace) s)"

lemma key_bytes_ok_iff:
  "operational_public_key_bytes key = Inr raw \<longleftrightarrow>
     b64url_decode (remove_prefix spki_scheme key) = Some raw \<and> is_p256_spki raw"
  by (auto simp: operational_public_key_bytes_def is_p256_spki_def guard_simps
      p256_uncompressed_point_length_def p256_spki_prefix_def split: option.splits)

lemma spki_scheme_not_b64: "b64url raw \<noteq> spki_scheme @ t"
proof
  assume "b64url raw = spki_scheme @ t"
  then have "list_all is_b64url_char (spki_scheme @ t)" by (metis b64url_chars)
  then show False by (simp add: spki_scheme_def char_class_defs)
qed

lemma remove_scheme_b64 [simp]:
  "remove_prefix spki_scheme (b64url raw) = b64url raw"
  "remove_prefix spki_scheme (spki_scheme @ b64url raw) = b64url raw"
  using spki_scheme_not_b64 by (auto simp: remove_prefix_def starts_with_iff)

lemma key_bytes_spelling [simp]:
  "operational_public_key_bytes (spki_scheme @ b64url raw) = operational_public_key_bytes (b64url raw)"
  by (simp add: operational_public_key_bytes_def)

lemma key_bytes_b64url:
  "operational_public_key_bytes (b64url raw) = Inr raw \<longleftrightarrow> is_p256_spki raw"
  by (simp add: key_bytes_ok_iff b64url_text.dec_enc)

lemma derived_id_ok [simp]: "device_instance_id_ok (device_instance_namespace @ sha256_hex raw)"
  by (simp add: device_instance_id_ok_def device_instance_namespace_def starts_with_def)

lemma derive_Inr:
  "derive_device_instance_id key = Inr i \<longleftrightarrow>
     (\<exists>raw. operational_public_key_bytes key = Inr raw \<and> i = device_instance_namespace @ sha256_hex raw)"
  by (auto simp: derive_device_instance_id_def guard_simps)

lemma key_id_Inr:
  "operational_key_id key = Inr i \<longleftrightarrow>
     (\<exists>raw. operational_public_key_bytes key = Inr raw \<and> i = ''sha256:'' @ sha256_hex raw)"
  by (auto simp: operational_key_id_def guard_simps)

text \<open>
  C26. Both wire spellings of an operational key, with and without its \<open>p256-spki:\<close> scheme, are
  read as the SPKI bytes they encode, and so derive one and the same device instance id, which
  has the canonical 80-character shape.
\<close>

theorem one_identity_per_key:
  assumes "is_p256_spki raw"
  shows "operational_public_key_bytes (b64url raw) = Inr raw
    \<and> operational_public_key_bytes (spki_scheme @ b64url raw) = Inr raw
    \<and> (\<exists>i. derive_device_instance_id (b64url raw) = Inr i
         \<and> derive_device_instance_id (spki_scheme @ b64url raw) = Inr i
         \<and> device_instance_id_ok i)"
  using key_bytes_b64url [THEN iffD2, OF assms] by (simp add: derive_Inr)

lemma sample_spki: "is_p256_spki (p256_spki_prefix @ 0x04 # replicate 64 7)"
  by (simp add: is_p256_spki_def p256_spki_prefix_def p256_uncompressed_point_length_def)

theorem one_identity_per_key_witness:
  "\<exists>i. derive_device_instance_id (b64url (p256_spki_prefix @ 0x04 # replicate 64 7)) = Inr i"
  using one_identity_per_key [OF sample_spki] by blast

text \<open>
  Whatever key is accepted, the device instance id and the key id name the same digest: the
  first is the namespace and the second \<open>sha256:\<close> followed by the same 64 hexadecimal digits, and
  each has the shape the contract's patterns demand.
\<close>

theorem instance_id_and_key_id_agree:
  assumes "derive_device_instance_id key = Inr i"
  shows "\<exists>d. i = device_instance_namespace @ d \<and> operational_key_id key = Inr (''sha256:'' @ d)
    \<and> device_instance_id_ok i \<and> matches_sha256 (''sha256:'' @ d)"
  using assms by (auto simp: derive_Inr key_id_Inr)

theorem instance_id_and_key_id_agree_witness:
  "\<exists>d. operational_key_id (b64url (p256_spki_prefix @ 0x04 # replicate 64 7)) = Inr (''sha256:'' @ d)"
proof -
  obtain i where "derive_device_instance_id (b64url (p256_spki_prefix @ 0x04 # replicate 64 7)) = Inr i"
    using key_bytes_b64url [THEN iffD2, OF sample_spki] by (simp add: derive_Inr)
  from instance_id_and_key_id_agree [OF this] show ?thesis by blast
qed

text \<open>
  A bare uncompressed point, the same P-256 key written without its SPKI header, is refused
  under both spellings, and no identity is derived from it.
\<close>

theorem raw_point_is_refused:
  assumes "length raw = p256_uncompressed_point_length" "take 1 raw = [0x04]"
  shows "operational_public_key_bytes (b64url raw) = Inl Raw_Point
    \<and> derive_device_instance_id (spki_scheme @ b64url raw) = Inl Raw_Point
    \<and> operational_key_id (spki_scheme @ b64url raw) = Inl Raw_Point"
proof -
  have "operational_public_key_bytes (b64url raw) = Inl Raw_Point"
    using assms by (auto simp: operational_public_key_bytes_def b64url_text.dec_enc guard_simps)
  then show ?thesis by (simp add: derive_device_instance_id_def operational_key_id_def)
qed

theorem raw_point_is_refused_witness:
  "derive_device_instance_id (spki_scheme @ b64url (0x04 # replicate 64 7)) = Inl Raw_Point"
  using raw_point_is_refused [of "0x04 # replicate 64 7"]
  by (simp add: p256_uncompressed_point_length_def)

end
