(* ===== verification/Lifecycle.thy ===== *)
theory Lifecycle
  imports Identity
begin

text \<open>
  The lifecycle contract of \<open>device_foundation/v1/lifecycle.py\<close>: the capability manifest and its
  digest, the device reference, commands, problems, owner authorization and removal. Each model
  class is a record with a construction function \<open>make_...\<close> (its field constraints, then its
  after-validators in order) and a well-formedness predicate \<open>wf_...\<close>; the interpretations of
  \<open>model_class\<close> show that construction accepts exactly the well-formed values.
\<close>

subsection \<open>Capability manifest\<close>

definition manifest_property_ok :: "json_object \<Rightarrow> bool" where
  \<comment> \<open>\<open>schema\<close> may be given under its alias or, second choice, its field name \<open>schema_\<close>\<close>
  "manifest_property_ok kvs \<longleftrightarrow>
     (let schema_key = (if map_of kvs ''schema'' = None then ''schema_'' else ''schema'')
      in only_keys [''name'', schema_key, ''observable'', ''writable''] kvs
         \<and> required ''name'' (is_text (len_between 1 128)) kvs
         \<and> required schema_key (is_object (\<lambda>_. True)) kvs
         \<and> required ''observable'' is_boolean kvs
         \<and> required ''writable'' is_boolean kvs)"

definition manifest_action_ok :: "json_object \<Rightarrow> bool" where
  "manifest_action_ok kvs \<longleftrightarrow>
     only_keys [''name'', ''version'', ''input_schema'', ''output_schema'', ''idempotent''] kvs
     \<and> required ''name'' (is_text (len_between 1 128)) kvs
     \<and> required ''version'' (is_integer (\<lambda>n. 1 \<le> n \<and> n \<le> 65535)) kvs
     \<and> required ''input_schema'' (is_object (\<lambda>_. True)) kvs
     \<and> required ''output_schema'' (is_object (\<lambda>_. True)) kvs
     \<and> required ''idempotent'' is_boolean kvs"

definition manifest_event_ok :: "json_object \<Rightarrow> bool" where
  "manifest_event_ok kvs \<longleftrightarrow>
     only_keys [''name'', ''data_schema''] kvs
     \<and> required ''name'' (is_text (len_between 1 128)) kvs
     \<and> required ''data_schema'' (is_object (\<lambda>_. True)) kvs"

definition manifest_media_ok :: "json_object \<Rightarrow> bool" where
  "manifest_media_ok kvs \<longleftrightarrow>
     only_keys [''kind'', ''direction'', ''codecs''] kvs
     \<and> required ''kind'' (is_text (\<lambda>s. s \<in> {''audio'', ''video''})) kvs
     \<and> required ''direction'' (is_text (\<lambda>s. s \<in> {''publish'', ''subscribe'', ''bidirectional''})) kvs
     \<and> defaulted ''codecs'' (is_array (\<lambda>vs. len_between 0 32 vs \<and> list_all (is_text (\<lambda>_. True)) vs)) kvs"

definition entries_ok :: "nat \<Rightarrow> (json_object \<Rightarrow> bool) \<Rightarrow> json \<Rightarrow> bool" where
  "entries_ok n p = is_array (\<lambda>vs. len_between 0 n vs \<and> list_all (is_object p) vs)"

text \<open>\<open>DeviceCapabilityManifest.model_validate\<close> of a decoded object, as accepting or refusing it.\<close>

definition capability_manifest_ok :: "json_object \<Rightarrow> bool" where
  "capability_manifest_ok kvs \<longleftrightarrow>
     only_keys [''schema_version'', ''title'', ''properties'', ''actions'', ''events'', ''media''] kvs
     \<and> required ''schema_version'' (is_integer (\<lambda>n. n = 1)) kvs
     \<and> required ''title'' (is_text (\<lambda>s. len_between 1 128 s \<and> \<not> blank s)) kvs
     \<and> required ''properties'' (entries_ok 64 manifest_property_ok) kvs
     \<and> required ''actions'' (entries_ok 64 manifest_action_ok) kvs
     \<and> required ''events'' (entries_ok 64 manifest_event_ok) kvs
     \<and> required ''media'' (entries_ok 16 manifest_media_ok) kvs"

definition manifest_digest :: "(json \<Rightarrow> byte list option) \<Rightarrow> json_object \<Rightarrow> string option" where
  "manifest_digest canon document =
     map_option (\<lambda>b. ''sha256:'' @ sha256_hex b) (canon (JObj document))"

record manifest_ref =
  mr_manifest_id :: string
  mr_revision :: int
  mr_digest :: string

definition wf_manifest_ref :: "manifest_ref \<Rightarrow> bool" where
  "wf_manifest_ref r \<longleftrightarrow>
     canonical_id (mr_manifest_id r) \<and> 1 \<le> mr_revision r \<and> matches_sha256 (mr_digest r)"

definition make_manifest_ref :: "manifest_ref \<Rightarrow> string invalid + manifest_ref" where
  "make_manifest_ref r =
     build [(''manifest_id'', canonical_id (mr_manifest_id r)), (''revision'', 1 \<le> mr_revision r),
            (''digest'', matches_sha256 (mr_digest r))] [] r"

record manifest_document =
  md_manifest_id :: string
  md_revision :: int
  md_digest :: string
  md_document :: json_object

definition wf_manifest_document :: "(json \<Rightarrow> byte list option) \<Rightarrow> manifest_document \<Rightarrow> bool" where
  "wf_manifest_document canon m \<longleftrightarrow>
     len_between 3 128 (md_manifest_id m) \<and> 1 \<le> md_revision m \<and> matches_sha256 (md_digest m)
     \<and> capability_manifest_ok (md_document m)
     \<and> manifest_digest canon (md_document m) = Some (md_digest m)"

definition make_manifest_document ::
  "(json \<Rightarrow> byte list option) \<Rightarrow> manifest_document \<Rightarrow> string invalid + manifest_document" where
  "make_manifest_document canon m =
     build [(''manifest_id'', len_between 3 128 (md_manifest_id m)), (''revision'', 1 \<le> md_revision m),
            (''digest'', matches_sha256 (md_digest m)),
            (''document'', capability_manifest_ok (md_document m))]
       [(manifest_digest canon (md_document m) = None, ''document has no canonical form''),
        (manifest_digest canon (md_document m) \<noteq> Some (md_digest m),
         ''manifest digest does not describe its document'')] m"

definition manifest_document_ref :: "manifest_document \<Rightarrow> string invalid + manifest_ref" where
  "manifest_document_ref m =
     make_manifest_ref
       \<lparr>mr_manifest_id = md_manifest_id m, mr_revision = md_revision m, mr_digest = md_digest m\<rparr>"

interpretation manifest_refs: model_class make_manifest_ref wf_manifest_ref
  by unfold_locales (auto simp: make_manifest_ref_def wf_manifest_ref_def guard_simps)

interpretation manifest_documents: model_class "make_manifest_document canon" "wf_manifest_document canon" for canon
  by unfold_locales (auto simp: make_manifest_document_def wf_manifest_document_def guard_simps)

subsection \<open>Device references\<close>

record device_ref =
  device_instance_id :: string
  owner_domain_id :: string
  owner_domain_generation :: int
  claim_generation :: int
  trust_epoch :: int

definition wf_device_ref :: "device_ref \<Rightarrow> bool" where
  "wf_device_ref d \<longleftrightarrow>
     device_instance_id_ok (device_instance_id d) \<and> owner_domain_id_ok (owner_domain_id d)
     \<and> 1 \<le> owner_domain_generation d \<and> 1 \<le> claim_generation d \<and> 1 \<le> trust_epoch d"

definition make_device_ref :: "device_ref \<Rightarrow> string invalid + device_ref" where
  "make_device_ref d =
     build [(''device_instance_id'', device_instance_id_ok (device_instance_id d)),
            (''owner_domain_id'', owner_domain_id_ok (owner_domain_id d)),
            (''owner_domain_generation'', 1 \<le> owner_domain_generation d),
            (''claim_generation'', 1 \<le> claim_generation d), (''trust_epoch'', 1 \<le> trust_epoch d)] [] d"

interpretation device_refs: model_class make_device_ref wf_device_ref
  by unfold_locales (auto simp: make_device_ref_def wf_device_ref_def guard_simps)

text \<open>\<open>model_dump(mode="json")\<close> of a reference.\<close>

definition device_ref_json :: "device_ref \<Rightarrow> json" where
  "device_ref_json d =
     JObj [(''device_instance_id'', JStr (device_instance_id d)),
           (''owner_domain_id'', JStr (owner_domain_id d)),
           (''owner_domain_generation'', JInt (owner_domain_generation d)),
           (''claim_generation'', JInt (claim_generation d)),
           (''trust_epoch'', JInt (trust_epoch d))]"

lemma device_ref_json_inj: "device_ref_json d = device_ref_json e \<longleftrightarrow> d = e"
  by (cases d; cases e) (simp add: device_ref_json_def)

subsection \<open>Commands and problems\<close>

record command_envelope =
  ce_command_type :: string
  ce_command_id :: string
  ce_correlation_id :: string
  ce_causation_id :: "string option"
  ce_issued_at :: datetime
  ce_deadline :: "datetime option"
  ce_payload :: json_object
  ce_extensions :: json_object

definition wf_command_envelope :: "command_envelope \<Rightarrow> bool" where
  "wf_command_envelope c \<longleftrightarrow>
     canonical_id (ce_command_type c) \<and> canonical_id (ce_command_id c) \<and> canonical_id (ce_correlation_id c)
     \<and> opt_ok (len_between 3 128) (ce_causation_id c)
     \<and> is_aware (ce_issued_at c) \<and> opt_ok is_aware (ce_deadline c)"

definition make_command_envelope :: "command_envelope \<Rightarrow> string invalid + command_envelope" where
  "make_command_envelope c =
     build [(''command_type'', canonical_id (ce_command_type c)), (''command_id'', canonical_id (ce_command_id c)),
            (''correlation_id'', canonical_id (ce_correlation_id c)),
            (''causation_id'', opt_ok (len_between 3 128) (ce_causation_id c)),
            (''issued_at'', is_aware (ce_issued_at c)), (''deadline'', opt_ok is_aware (ce_deadline c))] [] c"

datatype command_outcome = Committed | Replayed | Accepted

record command_result =
  cr_command_id :: string
  cr_outcome :: command_outcome
  cr_resource_ref :: json_object
  cr_resource_revision :: "int option"
  cr_occurred_at :: datetime
  cr_extensions :: json_object

definition wf_command_result :: "command_result \<Rightarrow> bool" where
  "wf_command_result r \<longleftrightarrow>
     canonical_id (cr_command_id r) \<and> opt_ok (\<lambda>n. 0 \<le> n) (cr_resource_revision r) \<and> is_aware (cr_occurred_at r)"

definition make_command_result :: "command_result \<Rightarrow> string invalid + command_result" where
  "make_command_result r =
     build [(''command_id'', canonical_id (cr_command_id r)),
            (''resource_revision'', opt_ok (\<lambda>n. 0 \<le> n) (cr_resource_revision r)),
            (''occurred_at'', is_aware (cr_occurred_at r))] [] r"

datatype problem_code =
    INVALID_ARGUMENT | CONTRACT_UNSUPPORTED | UNAUTHENTICATED | FORBIDDEN | NOT_FOUND
  | IDEMPOTENCY_CONFLICT | REVISION_CONFLICT | GENERATION_CONFLICT | CURSOR_GAP | CLAIM_REVOKED
  | TRUST_EPOCH_STALE | OWNER_DOMAIN_MISMATCH | BUSINESS_OWNER_MISMATCH | DECISION_REQUIRED
  | HANDOFF_PROOF_INVALID | GRANT_EXPIRED | PROPOSAL_TERMINAL | PROPOSAL_EXPIRED | OPERATION_EXPIRED
  | RATE_LIMITED | AUTHORITY_UNAVAILABLE | DELIVERY_UNAVAILABLE | INTERNAL

datatype problem_category =
  Invalid_Problem | Auth_Problem | Forbidden_Problem | Missing_Problem | Conflict_Problem
  | Expired_Problem | Unavailable_Problem | Internal_Problem

datatype problem_authority =
  Admission_Authority | Device_Control_Authority | Body_Mesh_Authority | Companion_Authority | Delivery_Authority

record device_problem =
  dp_code :: problem_code
  dp_category :: problem_category
  dp_retryable :: bool
  dp_authority :: problem_authority
  dp_command_id :: "string option"
  dp_resource_ref :: "json_object option"
  dp_current_revision :: "int option"
  dp_current_generation :: "int option"
  dp_retry_after_ms :: "int option"
  dp_detail :: string
  dp_incident_id :: string

definition make_device_problem :: "device_problem \<Rightarrow> string invalid + device_problem" where
  "make_device_problem p =
     build [(''current_revision'', opt_ok (\<lambda>n. 0 \<le> n) (dp_current_revision p)),
            (''current_generation'', opt_ok (\<lambda>n. 0 \<le> n) (dp_current_generation p)),
            (''retry_after_ms'', opt_ok (\<lambda>n. 1 \<le> n) (dp_retry_after_ms p)),
            (''detail'', len_between 0 1024 (dp_detail p)), (''incident_id'', canonical_id (dp_incident_id p))]
       [(\<not> dp_retryable p \<and> dp_retry_after_ms p \<noteq> None,
         ''non-retryable problem cannot carry retry_after_ms''),
        (dp_code p = RATE_LIMITED \<and> (\<not> dp_retryable p \<or> dp_retry_after_ms p = None),
         ''RATE_LIMITED must be retryable with retry_after_ms'')] p"

definition wf_device_problem :: "device_problem \<Rightarrow> bool" where
  "wf_device_problem p \<longleftrightarrow>
     opt_ok (\<lambda>n. 0 \<le> n) (dp_current_revision p) \<and> opt_ok (\<lambda>n. 0 \<le> n) (dp_current_generation p)
     \<and> opt_ok (\<lambda>n. 1 \<le> n) (dp_retry_after_ms p) \<and> len_between 0 1024 (dp_detail p)
     \<and> canonical_id (dp_incident_id p)
     \<and> (dp_retry_after_ms p \<noteq> None \<longrightarrow> dp_retryable p)
     \<and> (dp_code p = RATE_LIMITED \<longrightarrow> dp_retry_after_ms p \<noteq> None)"

interpretation command_envelopes: model_class make_command_envelope wf_command_envelope
  by unfold_locales (auto simp: make_command_envelope_def wf_command_envelope_def guard_simps)

interpretation command_results: model_class make_command_result wf_command_result
  by unfold_locales (auto simp: make_command_result_def wf_command_result_def guard_simps)

interpretation device_problems: model_class make_device_problem wf_device_problem
  by unfold_locales (auto simp: make_device_problem_def wf_device_problem_def guard_simps)

subsection \<open>Owner authorization\<close>

datatype principal_type = Controller | Device_Principal | Service | Operator

datatype authentication_strength = Software_Backed | Hardware_Backed | Physical_Presence

record actor_ref =
  ar_principal_id :: string
  ar_principal_type :: principal_type
  ar_owner_domain_id :: "string option"
  ar_granted_scopes :: "string list"
  ar_authentication_strength :: authentication_strength

definition wf_actor_ref :: "actor_ref \<Rightarrow> bool" where
  "wf_actor_ref a \<longleftrightarrow>
     canonical_id (ar_principal_id a) \<and> opt_ok owner_domain_id_ok (ar_owner_domain_id a)
     \<and> ar_granted_scopes a \<noteq> [] \<and> distinct (ar_granted_scopes a) \<and> \<not> list_ex blank (ar_granted_scopes a)"

definition make_actor_ref :: "actor_ref \<Rightarrow> string invalid + actor_ref" where
  "make_actor_ref a =
     build [(''principal_id'', canonical_id (ar_principal_id a)),
            (''owner_domain_id'', opt_ok owner_domain_id_ok (ar_owner_domain_id a)),
            (''granted_scopes'',
              \<not> (has_duplicates (ar_granted_scopes a) \<or> list_ex blank (ar_granted_scopes a))
              \<and> 1 \<le> length (ar_granted_scopes a))] [] a"

datatype authorization_scope = Device_Read | Device_Claim_Revoke

fun scope_wire :: "authorization_scope \<Rightarrow> string" where
  "scope_wire Device_Read = ''device.read''"
| "scope_wire Device_Claim_Revoke = ''device.claim.revoke''"

record owner_authorization_context =
  oa_workload_principal_id :: string
  oa_actor :: actor_ref
  oa_authorized_owner_domain_id :: string
  oa_scopes :: "authorization_scope list"
  oa_intent_id :: string
  oa_target_device_ref :: device_ref
  oa_issued_at :: datetime
  oa_expires_at :: datetime

definition authorization_fields :: "owner_authorization_context \<Rightarrow> (string \<times> bool) list" where
  "authorization_fields o' =
     [(''workload_principal_id'', canonical_id (oa_workload_principal_id o')),
      (''actor'', wf_actor_ref (oa_actor o')),
      (''authorized_owner_domain_id'', owner_domain_id_ok (oa_authorized_owner_domain_id o')),
      (''scopes'', \<not> has_duplicates (oa_scopes o') \<and> 1 \<le> length (oa_scopes o')),
      (''intent_id'', canonical_id (oa_intent_id o')),
      (''target_device_ref'', wf_device_ref (oa_target_device_ref o')),
      (''issued_at'', is_aware (oa_issued_at o')), (''expires_at'', is_aware (oa_expires_at o'))]"

definition authorization_rules :: "owner_authorization_context \<Rightarrow> (bool \<times> string) list" where
  "authorization_rules o' =
     [(instant (oa_expires_at o') \<le> instant (oa_issued_at o'), ''authorization expires_at must follow issued_at''),
      (oa_authorized_owner_domain_id o' \<noteq> owner_domain_id (oa_target_device_ref o'),
       ''authorization Owner and target DeviceRef do not match''),
      (foreign_to (oa_authorized_owner_domain_id o') (ar_owner_domain_id (oa_actor o')),
       ''actor Owner and authorized Owner do not match''),
      (Device_Claim_Revoke \<notin> set (oa_scopes o'), ''removal authorization requires device.claim.revoke''),
      (\<not> set (map scope_wire (oa_scopes o')) \<subseteq> set (ar_granted_scopes (oa_actor o')),
       ''authorization scopes exceed the ActorRef grant'')]"

definition make_owner_authorization_context ::
  "owner_authorization_context \<Rightarrow> string invalid + owner_authorization_context" where
  "make_owner_authorization_context o' = build (authorization_fields o') (authorization_rules o') o'"

text \<open>What an authorization promises: who may revoke which claim, and when.\<close>

definition authorizes_removal :: "owner_authorization_context \<Rightarrow> bool" where
  "authorizes_removal o' \<longleftrightarrow>
     (\<forall>(n, ok) \<in> set (authorization_fields o'). ok)
     \<and> instant (oa_issued_at o') < instant (oa_expires_at o')
     \<and> owner_domain_id (oa_target_device_ref o') = oa_authorized_owner_domain_id o'
     \<and> (\<forall>d. ar_owner_domain_id (oa_actor o') = Some d \<longrightarrow> d = owner_domain_id (oa_target_device_ref o'))
     \<and> Device_Claim_Revoke \<in> set (oa_scopes o')
     \<and> scope_wire ` set (oa_scopes o') \<subseteq> set (ar_granted_scopes (oa_actor o'))"

interpretation actor_refs: model_class make_actor_ref wf_actor_ref
  by unfold_locales (auto simp: make_actor_ref_def wf_actor_ref_def guard_simps Suc_le_eq)

interpretation authorizations: model_class make_owner_authorization_context authorizes_removal
  by unfold_locales
    (auto simp: make_owner_authorization_context_def authorization_rules_def authorizes_removal_def guard_simps)

subsection \<open>Removal\<close>

datatype removal_state = Removal_Accepted | Claim_Revoked_State | Removal_Converged | Removal_Blocked

record removal_intent =
  ri_intent_id :: string
  ri_ingress_request_id :: string
  ri_device_ref :: device_ref
  ri_actor :: actor_ref
  ri_reason :: string
  ri_claim_command_id :: string
  ri_state :: removal_state
  ri_created_at :: datetime
  ri_updated_at :: datetime

definition removal_fields :: "removal_intent \<Rightarrow> (string \<times> bool) list" where
  "removal_fields r =
     [(''intent_id'', canonical_id (ri_intent_id r)), (''ingress_request_id'', canonical_id (ri_ingress_request_id r)),
      (''device_ref'', wf_device_ref (ri_device_ref r)), (''actor'', wf_actor_ref (ri_actor r)),
      (''reason'', len_between 1 256 (ri_reason r)), (''claim_command_id'', canonical_id (ri_claim_command_id r)),
      (''created_at'', is_aware (ri_created_at r)), (''updated_at'', is_aware (ri_updated_at r))]"

definition make_removal_intent :: "removal_intent \<Rightarrow> string invalid + removal_intent" where
  "make_removal_intent r =
     build (removal_fields r)
       [(instant (ri_updated_at r) < instant (ri_created_at r), ''RemovalIntent updated_at precedes created_at''),
        (foreign_to (owner_domain_id (ri_device_ref r)) (ar_owner_domain_id (ri_actor r)),
         ''RemovalIntent actor Owner and DeviceRef do not match'')] r"

definition wf_removal_intent :: "removal_intent \<Rightarrow> bool" where
  "wf_removal_intent r \<longleftrightarrow>
     (\<forall>(n, ok) \<in> set (removal_fields r). ok)
     \<and> instant (ri_created_at r) \<le> instant (ri_updated_at r)
     \<and> (\<forall>d. ar_owner_domain_id (ri_actor r) = Some d \<longrightarrow> d = owner_domain_id (ri_device_ref r))"

interpretation removal_intents: model_class make_removal_intent wf_removal_intent
  by unfold_locales (auto simp: make_removal_intent_def wf_removal_intent_def guard_simps)

record revoke_claim =
  rc_command_id :: string
  rc_correlation_id :: string
  rc_device_ref :: device_ref
  rc_reason :: string

definition wf_revoke_claim :: "revoke_claim \<Rightarrow> bool" where
  "wf_revoke_claim c \<longleftrightarrow> canonical_id (rc_command_id c) \<and> canonical_id (rc_correlation_id c)
     \<and> wf_device_ref (rc_device_ref c) \<and> len_between 1 256 (rc_reason c)"

definition make_revoke_claim :: "revoke_claim \<Rightarrow> string invalid + revoke_claim" where
  "make_revoke_claim c =
     build [(''command_id'', canonical_id (rc_command_id c)), (''correlation_id'', canonical_id (rc_correlation_id c)),
            (''device_ref'', wf_device_ref (rc_device_ref c)), (''reason'', len_between 1 256 (rc_reason c))] [] c"

datatype revoke_outcome = Revoke_Committed | Revoke_Replayed

record revoke_claim_result =
  rr_command_id :: string
  rr_outcome :: revoke_outcome
  rr_device_ref :: device_ref
  rr_aggregate_revision :: int
  rr_occurred_at :: datetime
  rr_event_id :: "string option"

definition wf_revoke_claim_result :: "revoke_claim_result \<Rightarrow> bool" where
  "wf_revoke_claim_result r \<longleftrightarrow> canonical_id (rr_command_id r) \<and> wf_device_ref (rr_device_ref r)
     \<and> 1 \<le> rr_aggregate_revision r \<and> is_aware (rr_occurred_at r) \<and> opt_ok (len_between 3 128) (rr_event_id r)"

definition make_revoke_claim_result :: "revoke_claim_result \<Rightarrow> string invalid + revoke_claim_result" where
  "make_revoke_claim_result r =
     build [(''command_id'', canonical_id (rr_command_id r)), (''device_ref'', wf_device_ref (rr_device_ref r)),
            (''aggregate_revision'', 1 \<le> rr_aggregate_revision r), (''occurred_at'', is_aware (rr_occurred_at r)),
            (''event_id'', opt_ok (len_between 3 128) (rr_event_id r))] [] r"

interpretation revoke_claims: model_class make_revoke_claim wf_revoke_claim
  by unfold_locales (auto simp: make_revoke_claim_def wf_revoke_claim_def guard_simps)

interpretation revoke_claim_results: model_class make_revoke_claim_result wf_revoke_claim_result
  by unfold_locales (auto simp: make_revoke_claim_result_def wf_revoke_claim_result_def guard_simps)

definition revoke_claim_document :: "revoke_claim \<Rightarrow> json" where
  "revoke_claim_document c =
     JObj [(''command_type'', JStr ''device.claim.revoke''),
           (''owner_domain_id'', JStr (owner_domain_id (rc_device_ref c))),
           (''payload'', JObj [(''device_ref'', device_ref_json (rc_device_ref c)), (''reason'', JStr (rc_reason c))])]"

definition revoke_claim_fingerprint :: "(json \<Rightarrow> byte list option) \<Rightarrow> revoke_claim \<Rightarrow> string option" where
  "revoke_claim_fingerprint canon c =
     map_option (\<lambda>b. ''sha256:'' @ sha256_hex b) (canon (revoke_claim_document c))"

lemma revoke_claim_document_eq:
  "revoke_claim_document c = revoke_claim_document d \<longleftrightarrow>
     rc_device_ref c = rc_device_ref d \<and> rc_reason c = rc_reason d"
  by (auto simp: revoke_claim_document_def device_ref_json_inj)

subsection \<open>Properties\<close>

text \<open>
  An owner authorization for a removal is accepted exactly when it authorizes that removal:
  its validity is a non-empty interval, target, actor and authorized owner are one domain, the
  revoke scope is present and no scope exceeds what the actor was granted.
\<close>

theorem authorization_accepted_iff:
  "make_owner_authorization_context o' = Inr p \<longleftrightarrow> p = o' \<and> authorizes_removal o'"
  by (rule authorizations.make_iff)

text \<open>
  The revoke fingerprint identifies the semantic mutation: retrying under another command or
  correlation id does not change it, and the document it hashes is different for any other
  device reference or reason.
\<close>

theorem revoke_fingerprint_semantic:
  "revoke_claim_fingerprint canon (c\<lparr>rc_command_id := i, rc_correlation_id := j\<rparr>) = revoke_claim_fingerprint canon c
   \<and> (revoke_claim_document c = revoke_claim_document d \<longleftrightarrow>
        rc_device_ref c = rc_device_ref d \<and> rc_reason c = rc_reason d)"
  by (simp add: revoke_claim_document_eq) (simp add: revoke_claim_fingerprint_def revoke_claim_document_def)

text \<open>
  The reference of an accepted manifest document names the digest of the document it
  carries; it can be taken exactly when the manifest id also matches the identifier pattern,
  which the document class itself does not ask for, and fails on that field otherwise.
\<close>

theorem manifest_ref_of_accepted_document:
  assumes "make_manifest_document canon m = Inr n"
  shows "manifest_document_ref n =
      (if matches_identifier (md_manifest_id m)
       then Inr \<lparr>mr_manifest_id = md_manifest_id m, mr_revision = md_revision m,
                  mr_digest = the (manifest_digest canon (md_document m))\<rparr>
       else Inl (Bad_Fields [''manifest_id'']))"
  using manifest_documents.accepted [OF assms]
  by (auto simp: manifest_document_ref_def make_manifest_ref_def build_def bad_fields_def canonical_id_def
      wf_manifest_document_def guarded_simps)

definition sample_manifest :: json_object where
  "sample_manifest =
     [(''schema_version'', JInt 1), (''title'', JStr ''lamp''), (''properties'', JArr []),
      (''actions'', JArr []), (''events'', JArr []), (''media'', JArr [])]"

definition sample_document :: "string \<Rightarrow> manifest_document" where
  "sample_document i =
     \<lparr>md_manifest_id = i, md_revision = 1, md_digest = ''sha256:'' @ sha256_hex [], md_document = sample_manifest\<rparr>"

lemma sample_manifest_ok: "capability_manifest_ok sample_manifest"
  by (simp add: sample_manifest_def capability_manifest_ok_def only_keys_def required_def len_between_def
      entries_ok_def blank_def strip_def is_space_def)

lemma sample_document_ok:
  "len_between 3 128 i \<Longrightarrow> make_manifest_document (\<lambda>_. Some []) (sample_document i) = Inr (sample_document i)"
  by (simp add: manifest_documents.make_iff wf_manifest_document_def sample_document_def sample_manifest_ok
      manifest_digest_def)

theorem manifest_ref_of_accepted_document_witness:
  "manifest_document_ref (sample_document ''my lamp'') = Inl (Bad_Fields [''manifest_id''])"
  using manifest_ref_of_accepted_document [OF sample_document_ok [of "''my lamp''"]]
  by (simp add: len_between_def sample_document_def matches_identifier_def identifier_char_def char_class_defs)

end
