(* ===== verification/Admission.thy ===== *)
theory Admission
  imports Lifecycle
begin

text \<open>
  The admission contract of \<open>device_foundation/v1/admission.py\<close>: proposals, decisions, grants,
  claims, and the queries and pages over them, each a record with its field constraints
  (\<open>..._fields\<close>), its after-validators (\<open>..._rules\<close>) and its construction (\<open>make_...\<close>). A field
  with one literal value is not stored.
\<close>

datatype enrollment_proposal_state = Pending_Review | Approved_Awaiting_Handoff | Grant_Delivered
  | Grant_Acknowledged | Proposal_Rejected | Proposal_Expired | Proposal_Canceled | Proposal_Claim_Revoked

datatype claim_state = Claim_Active | Claim_Suspended | Claim_Revoked

text \<open>\<open>ControllerActorRef\<close> is an \<open>ActorRef\<close> of a controller that names its Owner Domain.\<close>

definition wf_controller_actor_ref :: "actor_ref \<Rightarrow> bool" where
  "wf_controller_actor_ref a \<longleftrightarrow>
     wf_actor_ref a \<and> ar_principal_type a = Controller \<and> ar_owner_domain_id a \<noteq> None"

record enrollment_proposal =
  ep_enrollment_id :: string
  ep_proposal_revision :: int
  ep_state :: enrollment_proposal_state
  ep_device_instance_candidate_id :: string
  ep_requested_owner_domain_id :: string
  ep_hardware_evidence_digest :: string
  ep_manifest_ref :: manifest_ref
  ep_handoff_key_id :: string
  ep_created_at :: datetime
  ep_expires_at :: datetime

definition enrollment_proposal_fields :: "enrollment_proposal \<Rightarrow> (string \<times> bool) list" where
  "enrollment_proposal_fields x =
     [(''enrollment_id'', len_between 3 128 (ep_enrollment_id x)),
      (''proposal_revision'', 1 \<le> ep_proposal_revision x),
      (''device_instance_candidate_id'', device_instance_id_ok (ep_device_instance_candidate_id x)),
      (''requested_owner_domain_id'', owner_domain_id_ok (ep_requested_owner_domain_id x)),
      (''hardware_evidence_digest'', matches_sha256 (ep_hardware_evidence_digest x)),
      (''manifest_ref'', wf_manifest_ref (ep_manifest_ref x)),
      (''handoff_key_id'', matches_sha256 (ep_handoff_key_id x)),
      (''created_at'', is_aware (ep_created_at x)),
      (''expires_at'', is_aware (ep_expires_at x))]"

definition enrollment_proposal_rules :: "enrollment_proposal \<Rightarrow> (bool \<times> string) list" where
  "enrollment_proposal_rules x =
     [(instant (ep_expires_at x) \<le> instant (ep_created_at x),
       ''proposal expires_at must follow created_at'')]"

definition make_enrollment_proposal :: "enrollment_proposal \<Rightarrow> string invalid + enrollment_proposal" where
  "make_enrollment_proposal x = build (enrollment_proposal_fields x) (enrollment_proposal_rules x) x"

definition wf_enrollment_proposal :: "enrollment_proposal \<Rightarrow> bool" where
  "wf_enrollment_proposal x \<longleftrightarrow> admissible (enrollment_proposal_fields x) (enrollment_proposal_rules x)"

interpretation enrollment_proposal_class: model_class make_enrollment_proposal wf_enrollment_proposal
  by (rule build_class; simp add: make_enrollment_proposal_def wf_enrollment_proposal_def)

datatype decision = Approve | Reject

record approval_decision =
  ad_decision_id :: string
  ad_enrollment_id :: string
  ad_decision :: decision
  ad_actor :: actor_ref
  ad_target_owner_domain_id :: string
  ad_target_business_owner_id :: string
  ad_reviewed_manifest_ref :: manifest_ref
  ad_expected_proposal_revision :: int
  ad_decided_at :: datetime

definition approval_decision_fields :: "approval_decision \<Rightarrow> (string \<times> bool) list" where
  "approval_decision_fields x =
     [(''decision_id'', len_between 3 128 (ad_decision_id x)),
      (''enrollment_id'', len_between 3 128 (ad_enrollment_id x)),
      (''actor'', wf_controller_actor_ref (ad_actor x)),
      (''target_owner_domain_id'', owner_domain_id_ok (ad_target_owner_domain_id x)),
      (''target_business_owner_id'', business_owner_id_ok (ad_target_business_owner_id x)),
      (''reviewed_manifest_ref'', wf_manifest_ref (ad_reviewed_manifest_ref x)),
      (''expected_proposal_revision'', 1 \<le> ad_expected_proposal_revision x),
      (''decided_at'', is_aware (ad_decided_at x))]"

definition approval_decision_rules :: "approval_decision \<Rightarrow> (bool \<times> string) list" where
  "approval_decision_rules x =
     [(ar_owner_domain_id (ad_actor x) \<noteq> Some (ad_target_owner_domain_id x),
       ''Decision actor and target Owner Domain do not match'')]"

definition make_approval_decision :: "approval_decision \<Rightarrow> string invalid + approval_decision" where
  "make_approval_decision x = build (approval_decision_fields x) (approval_decision_rules x) x"

definition wf_approval_decision :: "approval_decision \<Rightarrow> bool" where
  "wf_approval_decision x \<longleftrightarrow> admissible (approval_decision_fields x) (approval_decision_rules x)"

interpretation approval_decision_class: model_class make_approval_decision wf_approval_decision
  by (rule build_class; simp add: make_approval_decision_def wf_approval_decision_def)

record claim_grant =
  cg_grant_id :: string
  cg_enrollment_id :: string
  cg_device_ref :: device_ref
  cg_manifest_ref :: manifest_ref
  cg_approval_decision_id :: string
  cg_handoff_key_id :: string
  cg_operational_key_id :: string
  cg_issued_at :: datetime
  cg_expires_at :: datetime

definition claim_grant_fields :: "claim_grant \<Rightarrow> (string \<times> bool) list" where
  "claim_grant_fields x =
     [(''grant_id'', len_between 3 128 (cg_grant_id x)),
      (''enrollment_id'', len_between 3 128 (cg_enrollment_id x)),
      (''device_ref'', wf_device_ref (cg_device_ref x)),
      (''manifest_ref'', wf_manifest_ref (cg_manifest_ref x)),
      (''approval_decision_id'', len_between 3 128 (cg_approval_decision_id x)),
      (''handoff_key_id'', matches_sha256 (cg_handoff_key_id x)),
      (''operational_key_id'', matches_sha256 (cg_operational_key_id x)),
      (''issued_at'', is_aware (cg_issued_at x)),
      (''expires_at'', is_aware (cg_expires_at x))]"

definition make_claim_grant :: "claim_grant \<Rightarrow> string invalid + claim_grant" where
  "make_claim_grant x = build (claim_grant_fields x) no_rules x"

definition wf_claim_grant :: "claim_grant \<Rightarrow> bool" where
  "wf_claim_grant x \<longleftrightarrow> admissible (claim_grant_fields x) no_rules"

interpretation claim_grant_class: model_class make_claim_grant wf_claim_grant
  by (rule build_class; simp add: make_claim_grant_def wf_claim_grant_def)

record grant_ack =
  ga_enrollment_id :: string
  ga_grant_id :: string
  ga_device_ref :: device_ref
  ga_acknowledged_at :: datetime

definition grant_ack_fields :: "grant_ack \<Rightarrow> (string \<times> bool) list" where
  "grant_ack_fields x =
     [(''enrollment_id'', len_between 3 128 (ga_enrollment_id x)),
      (''grant_id'', len_between 3 128 (ga_grant_id x)),
      (''device_ref'', wf_device_ref (ga_device_ref x)),
      (''acknowledged_at'', is_aware (ga_acknowledged_at x))]"

definition make_grant_ack :: "grant_ack \<Rightarrow> string invalid + grant_ack" where
  "make_grant_ack x = build (grant_ack_fields x) no_rules x"

definition wf_grant_ack :: "grant_ack \<Rightarrow> bool" where
  "wf_grant_ack x \<longleftrightarrow> admissible (grant_ack_fields x) no_rules"

interpretation grant_ack_class: model_class make_grant_ack wf_grant_ack
  by (rule build_class; simp add: make_grant_ack_def wf_grant_ack_def)

record claim_record =
  cl_device_ref :: device_ref
  cl_business_owner_id :: string
  cl_manifest_ref :: manifest_ref
  cl_state :: claim_state
  cl_revision :: int
  cl_updated_at :: datetime

definition claim_record_fields :: "claim_record \<Rightarrow> (string \<times> bool) list" where
  "claim_record_fields x =
     [(''device_ref'', wf_device_ref (cl_device_ref x)),
      (''business_owner_id'', business_owner_id_ok (cl_business_owner_id x)),
      (''manifest_ref'', wf_manifest_ref (cl_manifest_ref x)),
      (''revision'', 1 \<le> cl_revision x),
      (''updated_at'', is_aware (cl_updated_at x))]"

definition make_claim_record :: "claim_record \<Rightarrow> string invalid + claim_record" where
  "make_claim_record x = build (claim_record_fields x) no_rules x"

definition wf_claim_record :: "claim_record \<Rightarrow> bool" where
  "wf_claim_record x \<longleftrightarrow> admissible (claim_record_fields x) no_rules"

interpretation claim_record_class: model_class make_claim_record wf_claim_record
  by (rule build_class; simp add: make_claim_record_def wf_claim_record_def)

datatype evidence_scheme = Hub_Issued_Base_P256 | Manufacturer_Attestation_P256

record hardware_identity_evidence =
  hi_scheme :: evidence_scheme
  hi_evidence :: string
  hi_evidence_digest :: string

definition hardware_identity_evidence_fields :: "hardware_identity_evidence \<Rightarrow> (string \<times> bool) list" where
  "hardware_identity_evidence_fields x =
     [(''evidence'', len_between 16 65536 (hi_evidence x)),
      (''evidence_digest'', matches_sha256 (hi_evidence_digest x))]"

definition make_hardware_identity_evidence :: "hardware_identity_evidence \<Rightarrow> string invalid + hardware_identity_evidence" where
  "make_hardware_identity_evidence x = build (hardware_identity_evidence_fields x) no_rules x"

definition wf_hardware_identity_evidence :: "hardware_identity_evidence \<Rightarrow> bool" where
  "wf_hardware_identity_evidence x \<longleftrightarrow> admissible (hardware_identity_evidence_fields x) no_rules"

interpretation hardware_identity_evidence_class: model_class make_hardware_identity_evidence wf_hardware_identity_evidence
  by (rule build_class; simp add: make_hardware_identity_evidence_def wf_hardware_identity_evidence_def)

datatype proof_scheme = Hub_Issued_Commissioning_Voucher | Enrolled_Base_Key

record commissioning_proof =
  cp_scheme :: proof_scheme
  cp_proof :: string
  cp_nonce :: string

definition commissioning_proof_fields :: "commissioning_proof \<Rightarrow> (string \<times> bool) list" where
  "commissioning_proof_fields x =
     [(''proof'', len_between 16 4096 (cp_proof x)),
      (''nonce'', len_between 16 256 (cp_nonce x))]"

definition make_commissioning_proof :: "commissioning_proof \<Rightarrow> string invalid + commissioning_proof" where
  "make_commissioning_proof x = build (commissioning_proof_fields x) no_rules x"

definition wf_commissioning_proof :: "commissioning_proof \<Rightarrow> bool" where
  "wf_commissioning_proof x \<longleftrightarrow> admissible (commissioning_proof_fields x) no_rules"

interpretation commissioning_proof_class: model_class make_commissioning_proof wf_commissioning_proof
  by (rule build_class; simp add: make_commissioning_proof_def wf_commissioning_proof_def)

text \<open>\<open>^p256-spki:[A-Za-z0-9_-]+$\<close>, and the URL-safe alphabet within bounds.\<close>

definition matches_p256_spki :: "string \<Rightarrow> bool" where
  "matches_p256_spki s \<longleftrightarrow> starts_with ''p256-spki:'' s \<and> drop 10 s \<noteq> [] \<and> list_all is_b64url_char (drop 10 s)"

definition b64url_text_ok :: "nat \<Rightarrow> nat \<Rightarrow> string \<Rightarrow> bool" where
  "b64url_text_ok lo hi s \<longleftrightarrow> len_between lo hi s \<and> list_all is_b64url_char s"

record create_enrollment =
  ce_device_instance_candidate_id :: string
  ce_requested_owner_domain_id :: string
  ce_hardware_identity_evidence :: hardware_identity_evidence
  ce_commissioning_proof :: commissioning_proof
  ce_manifest :: manifest_document
  ce_handoff_public_key :: string
  ce_operational_public_key :: string

definition create_enrollment_fields ::
  "(json \<Rightarrow> byte list option) \<Rightarrow> create_enrollment \<Rightarrow> (string \<times> bool) list" where
  "create_enrollment_fields canon x =
     [(''device_instance_candidate_id'', device_instance_id_ok (ce_device_instance_candidate_id x)),
      (''requested_owner_domain_id'', owner_domain_id_ok (ce_requested_owner_domain_id x)),
      (''hardware_identity_evidence'', wf_hardware_identity_evidence (ce_hardware_identity_evidence x)),
      (''commissioning_proof'', wf_commissioning_proof (ce_commissioning_proof x)),
      (''manifest'', wf_manifest_document canon (ce_manifest x)),
      (''handoff_key'', matches_p256_spki (ce_handoff_public_key x)),
      (''operational_key'', matches_p256_spki (ce_operational_public_key x))]"

definition make_create_enrollment ::
  "(json \<Rightarrow> byte list option) \<Rightarrow> create_enrollment \<Rightarrow> string invalid + create_enrollment" where
  "make_create_enrollment canon x = build (create_enrollment_fields canon x) [] x"

definition wf_create_enrollment :: "(json \<Rightarrow> byte list option) \<Rightarrow> create_enrollment \<Rightarrow> bool" where
  "wf_create_enrollment canon x \<longleftrightarrow> admissible (create_enrollment_fields canon x) no_rules"

interpretation create_enrollment_class: model_class "make_create_enrollment canon" "wf_create_enrollment canon" for canon
  by (rule build_class; simp add: make_create_enrollment_def wf_create_enrollment_def)

record create_enrollment_result =
  cer_enrollment_id :: string
  cer_proposal_revision :: int
  cer_expires_at :: datetime
  cer_reviewed_manifest_digest :: string
  cer_collection_challenge :: string

definition create_enrollment_result_fields :: "create_enrollment_result \<Rightarrow> (string \<times> bool) list" where
  "create_enrollment_result_fields x =
     [(''enrollment_id'', len_between 3 128 (cer_enrollment_id x)),
      (''proposal_revision'', 1 \<le> cer_proposal_revision x),
      (''expires_at'', is_aware (cer_expires_at x)),
      (''reviewed_manifest_digest'', matches_sha256 (cer_reviewed_manifest_digest x)),
      (''collection_challenge'', b64url_text_ok 22 128 (cer_collection_challenge x))]"

definition make_create_enrollment_result :: "create_enrollment_result \<Rightarrow> string invalid + create_enrollment_result" where
  "make_create_enrollment_result x = build (create_enrollment_result_fields x) no_rules x"

definition wf_create_enrollment_result :: "create_enrollment_result \<Rightarrow> bool" where
  "wf_create_enrollment_result x \<longleftrightarrow> admissible (create_enrollment_result_fields x) no_rules"

interpretation create_enrollment_result_class: model_class make_create_enrollment_result wf_create_enrollment_result
  by (rule build_class; simp add: make_create_enrollment_result_def wf_create_enrollment_result_def)

record cancel_enrollment =
  xe_enrollment_id :: string
  xe_reason :: string

definition cancel_enrollment_fields :: "cancel_enrollment \<Rightarrow> (string \<times> bool) list" where
  "cancel_enrollment_fields x =
     [(''enrollment_id'', len_between 3 128 (xe_enrollment_id x)),
      (''reason'', len_between 1 256 (xe_reason x))]"

definition make_cancel_enrollment :: "cancel_enrollment \<Rightarrow> string invalid + cancel_enrollment" where
  "make_cancel_enrollment x = build (cancel_enrollment_fields x) no_rules x"

definition wf_cancel_enrollment :: "cancel_enrollment \<Rightarrow> bool" where
  "wf_cancel_enrollment x \<longleftrightarrow> admissible (cancel_enrollment_fields x) no_rules"

interpretation cancel_enrollment_class: model_class make_cancel_enrollment wf_cancel_enrollment
  by (rule build_class; simp add: make_cancel_enrollment_def wf_cancel_enrollment_def)

record cancel_enrollment_result =
  xr_enrollment_id :: string
  xr_canceled_at :: datetime

definition cancel_enrollment_result_fields :: "cancel_enrollment_result \<Rightarrow> (string \<times> bool) list" where
  "cancel_enrollment_result_fields x =
     [(''enrollment_id'', len_between 3 128 (xr_enrollment_id x)),
      (''canceled_at'', is_aware (xr_canceled_at x))]"

definition make_cancel_enrollment_result :: "cancel_enrollment_result \<Rightarrow> string invalid + cancel_enrollment_result" where
  "make_cancel_enrollment_result x = build (cancel_enrollment_result_fields x) no_rules x"

definition wf_cancel_enrollment_result :: "cancel_enrollment_result \<Rightarrow> bool" where
  "wf_cancel_enrollment_result x \<longleftrightarrow> admissible (cancel_enrollment_result_fields x) no_rules"

interpretation cancel_enrollment_result_class: model_class make_cancel_enrollment_result wf_cancel_enrollment_result
  by (rule build_class; simp add: make_cancel_enrollment_result_def wf_cancel_enrollment_result_def)

record decide_enrollment =
  de_enrollment_id :: string
  de_expected_proposal_revision :: int
  de_decision :: decision
  de_target_owner_domain_id :: string
  de_target_business_owner_id :: string
  de_target_space_id :: "string option"
  de_reviewed_manifest_ref :: manifest_ref
  de_initial_assignment_intent :: "json_object option"
  de_initial_capability_policy_refs :: "string list"

definition decide_enrollment_fields :: "decide_enrollment \<Rightarrow> (string \<times> bool) list" where
  "decide_enrollment_fields x =
     [(''enrollment_id'', len_between 3 128 (de_enrollment_id x)),
      (''expected_proposal_revision'', 1 \<le> de_expected_proposal_revision x),
      (''target_owner_domain_id'', owner_domain_id_ok (de_target_owner_domain_id x)),
      (''target_business_owner_id'', business_owner_id_ok (de_target_business_owner_id x)),
      (''target_space_id'', opt_ok (len_between 3 128) (de_target_space_id x)),
      (''reviewed_manifest_ref'', wf_manifest_ref (de_reviewed_manifest_ref x)),
      (''initial_capability_policy_refs'', \<not> has_duplicates (de_initial_capability_policy_refs x))]"

definition make_decide_enrollment :: "decide_enrollment \<Rightarrow> string invalid + decide_enrollment" where
  "make_decide_enrollment x = build (decide_enrollment_fields x) no_rules x"

definition wf_decide_enrollment :: "decide_enrollment \<Rightarrow> bool" where
  "wf_decide_enrollment x \<longleftrightarrow> admissible (decide_enrollment_fields x) no_rules"

interpretation decide_enrollment_class: model_class make_decide_enrollment wf_decide_enrollment
  by (rule build_class; simp add: make_decide_enrollment_def wf_decide_enrollment_def)

record decide_enrollment_result =
  dr_decision_id :: string
  dr_decision :: decision
  dr_decided_by :: actor_ref
  dr_decided_at :: datetime
  dr_proposal_revision :: int

definition decide_enrollment_result_fields :: "decide_enrollment_result \<Rightarrow> (string \<times> bool) list" where
  "decide_enrollment_result_fields x =
     [(''decision_id'', len_between 3 128 (dr_decision_id x)),
      (''decided_by'', wf_controller_actor_ref (dr_decided_by x)),
      (''decided_at'', is_aware (dr_decided_at x)),
      (''proposal_revision'', 1 \<le> dr_proposal_revision x)]"

definition make_decide_enrollment_result :: "decide_enrollment_result \<Rightarrow> string invalid + decide_enrollment_result" where
  "make_decide_enrollment_result x = build (decide_enrollment_result_fields x) no_rules x"

definition wf_decide_enrollment_result :: "decide_enrollment_result \<Rightarrow> bool" where
  "wf_decide_enrollment_result x \<longleftrightarrow> admissible (decide_enrollment_result_fields x) no_rules"

interpretation decide_enrollment_result_class: model_class make_decide_enrollment_result wf_decide_enrollment_result
  by (rule build_class; simp add: make_decide_enrollment_result_def wf_decide_enrollment_result_def)

record collect_claim_grant =
  cc_enrollment_id :: string
  cc_proposal_revision :: int
  cc_collection_challenge :: string
  cc_handoff_key_proof :: string

definition collect_claim_grant_fields :: "collect_claim_grant \<Rightarrow> (string \<times> bool) list" where
  "collect_claim_grant_fields x =
     [(''enrollment_id'', len_between 3 128 (cc_enrollment_id x)),
      (''proposal_revision'', 1 \<le> cc_proposal_revision x),
      (''collection_challenge'', b64url_text_ok 22 128 (cc_collection_challenge x)),
      (''handoff_key_proof'', len_between 16 4096 (cc_handoff_key_proof x))]"

definition make_collect_claim_grant :: "collect_claim_grant \<Rightarrow> string invalid + collect_claim_grant" where
  "make_collect_claim_grant x = build (collect_claim_grant_fields x) no_rules x"

definition wf_collect_claim_grant :: "collect_claim_grant \<Rightarrow> bool" where
  "wf_collect_claim_grant x \<longleftrightarrow> admissible (collect_claim_grant_fields x) no_rules"

interpretation collect_claim_grant_class: model_class make_collect_claim_grant wf_collect_claim_grant
  by (rule build_class; simp add: make_collect_claim_grant_def wf_collect_claim_grant_def)

record claim_grant_aad =
  aad_enrollment_id :: string
  aad_proposal_revision :: int
  aad_device_instance_id :: string
  aad_hardware_evidence_digest :: string
  aad_manifest_ref :: manifest_ref
  aad_owner_domain_id :: string
  aad_owner_domain_generation :: int
  aad_claim_generation :: int
  aad_trust_epoch :: int
  aad_grant_id :: string

definition claim_grant_aad_fields :: "claim_grant_aad \<Rightarrow> (string \<times> bool) list" where
  "claim_grant_aad_fields x =
     [(''enrollment_id'', len_between 3 128 (aad_enrollment_id x)),
      (''proposal_revision'', 1 \<le> aad_proposal_revision x),
      (''device_instance_id'', device_instance_id_ok (aad_device_instance_id x)),
      (''hardware_evidence_digest'', matches_sha256 (aad_hardware_evidence_digest x)),
      (''manifest_ref'', wf_manifest_ref (aad_manifest_ref x)),
      (''owner_domain_id'', owner_domain_id_ok (aad_owner_domain_id x)),
      (''owner_domain_generation'', 1 \<le> aad_owner_domain_generation x),
      (''claim_generation'', 1 \<le> aad_claim_generation x),
      (''trust_epoch'', 1 \<le> aad_trust_epoch x),
      (''grant_id'', len_between 3 128 (aad_grant_id x))]"

definition make_claim_grant_aad :: "claim_grant_aad \<Rightarrow> string invalid + claim_grant_aad" where
  "make_claim_grant_aad x = build (claim_grant_aad_fields x) no_rules x"

definition wf_claim_grant_aad :: "claim_grant_aad \<Rightarrow> bool" where
  "wf_claim_grant_aad x \<longleftrightarrow> admissible (claim_grant_aad_fields x) no_rules"

interpretation claim_grant_aad_class: model_class make_claim_grant_aad wf_claim_grant_aad
  by (rule build_class; simp add: make_claim_grant_aad_def wf_claim_grant_aad_def)

definition assert_matches_grant :: "claim_grant_aad \<Rightarrow> claim_grant \<Rightarrow> string + unit" where
  "assert_matches_grant a g =
     (let expected = (cg_enrollment_id g, device_instance_id (cg_device_ref g), cg_manifest_ref g,
            owner_domain_id (cg_device_ref g), owner_domain_generation (cg_device_ref g),
            claim_generation (cg_device_ref g), trust_epoch (cg_device_ref g), cg_grant_id g);
          actual = (aad_enrollment_id a, aad_device_instance_id a, aad_manifest_ref a, aad_owner_domain_id a,
            aad_owner_domain_generation a, aad_claim_generation a, aad_trust_epoch a, aad_grant_id a)
      in guarded [(actual \<noteq> expected,
           ''ClaimGrant plaintext does not match the authenticated envelope AAD'')] ())"

record claim_grant_wire_envelope =
  we_recipient_handoff_key_id :: string
  we_encapsulated_key :: string
  we_ciphertext :: string
  we_aad :: claim_grant_aad

definition claim_grant_wire_envelope_fields :: "claim_grant_wire_envelope \<Rightarrow> (string \<times> bool) list" where
  "claim_grant_wire_envelope_fields x =
     [(''recipient_handoff_key_id'', matches_sha256 (we_recipient_handoff_key_id x)),
      (''encapsulated_key'', b64url_text_ok 87 87 (we_encapsulated_key x)),
      (''ciphertext'', b64url_text_ok 22 131072 (we_ciphertext x)),
      (''aad'', wf_claim_grant_aad (we_aad x))]"

definition make_claim_grant_wire_envelope :: "claim_grant_wire_envelope \<Rightarrow> string invalid + claim_grant_wire_envelope" where
  "make_claim_grant_wire_envelope x = build (claim_grant_wire_envelope_fields x) no_rules x"

definition wf_claim_grant_wire_envelope :: "claim_grant_wire_envelope \<Rightarrow> bool" where
  "wf_claim_grant_wire_envelope x \<longleftrightarrow> admissible (claim_grant_wire_envelope_fields x) no_rules"

interpretation claim_grant_wire_envelope_class: model_class make_claim_grant_wire_envelope wf_claim_grant_wire_envelope
  by (rule build_class; simp add: make_claim_grant_wire_envelope_def wf_claim_grant_wire_envelope_def)

record collect_claim_grant_result =
  ccr_grant_id :: string
  ccr_wire_envelope :: claim_grant_wire_envelope
  ccr_expires_at :: datetime
  ccr_approval_decision_id :: string

definition collect_claim_grant_result_fields :: "collect_claim_grant_result \<Rightarrow> (string \<times> bool) list" where
  "collect_claim_grant_result_fields x =
     [(''grant_id'', len_between 3 128 (ccr_grant_id x)),
      (''wire_envelope'', wf_claim_grant_wire_envelope (ccr_wire_envelope x)),
      (''expires_at'', is_aware (ccr_expires_at x)),
      (''approval_decision_id'', len_between 3 128 (ccr_approval_decision_id x))]"

definition collect_claim_grant_result_rules :: "collect_claim_grant_result \<Rightarrow> (bool \<times> string) list" where
  "collect_claim_grant_result_rules x =
     [(aad_grant_id (we_aad (ccr_wire_envelope x)) \<noteq> ccr_grant_id x,
       ''collect result grant_id does not match envelope AAD'')]"

definition make_collect_claim_grant_result :: "collect_claim_grant_result \<Rightarrow> string invalid + collect_claim_grant_result" where
  "make_collect_claim_grant_result x = build (collect_claim_grant_result_fields x) (collect_claim_grant_result_rules x) x"

definition wf_collect_claim_grant_result :: "collect_claim_grant_result \<Rightarrow> bool" where
  "wf_collect_claim_grant_result x \<longleftrightarrow> admissible (collect_claim_grant_result_fields x) (collect_claim_grant_result_rules x)"

interpretation collect_claim_grant_result_class: model_class make_collect_claim_grant_result wf_collect_claim_grant_result
  by (rule build_class; simp add: make_collect_claim_grant_result_def wf_collect_claim_grant_result_def)

record ack_claim_grant =
  ak_enrollment_id :: string
  ak_grant_id :: string
  ak_operational_key_proof :: string
  ak_stored_claim_generation :: int
  ak_stored_trust_epoch :: int

definition ack_claim_grant_fields :: "ack_claim_grant \<Rightarrow> (string \<times> bool) list" where
  "ack_claim_grant_fields x =
     [(''enrollment_id'', len_between 3 128 (ak_enrollment_id x)),
      (''grant_id'', len_between 3 128 (ak_grant_id x)),
      (''operational_key_proof'', len_between 16 4096 (ak_operational_key_proof x)),
      (''stored_claim_generation'', 1 \<le> ak_stored_claim_generation x),
      (''stored_trust_epoch'', 1 \<le> ak_stored_trust_epoch x)]"

definition make_ack_claim_grant :: "ack_claim_grant \<Rightarrow> string invalid + ack_claim_grant" where
  "make_ack_claim_grant x = build (ack_claim_grant_fields x) no_rules x"

definition wf_ack_claim_grant :: "ack_claim_grant \<Rightarrow> bool" where
  "wf_ack_claim_grant x \<longleftrightarrow> admissible (ack_claim_grant_fields x) no_rules"

interpretation ack_claim_grant_class: model_class make_ack_claim_grant wf_ack_claim_grant
  by (rule build_class; simp add: make_ack_claim_grant_def wf_ack_claim_grant_def)

datatype delivery_state = Delivered | Acknowledged

record grant_delivery_record =
  gd_grant_id :: string
  gd_approval_decision_id :: string
  gd_state :: delivery_state
  gd_delivered_at :: datetime
  gd_acknowledged_at :: "datetime option"

definition grant_delivery_record_fields :: "grant_delivery_record \<Rightarrow> (string \<times> bool) list" where
  "grant_delivery_record_fields x =
     [(''grant_id'', len_between 3 128 (gd_grant_id x)),
      (''approval_decision_id'', len_between 3 128 (gd_approval_decision_id x)),
      (''delivered_at'', is_aware (gd_delivered_at x)),
      (''acknowledged_at'', opt_ok is_aware (gd_acknowledged_at x))]"

definition grant_delivery_record_rules :: "grant_delivery_record \<Rightarrow> (bool \<times> string) list" where
  "grant_delivery_record_rules x =
     [((gd_state x = Acknowledged) \<noteq> (gd_acknowledged_at x \<noteq> None),
       ''grant delivery state and acknowledged_at disagree''),
      ((case gd_acknowledged_at x of None \<Rightarrow> False | Some t \<Rightarrow> instant t < instant (gd_delivered_at x)),
       ''grant acknowledgement precedes delivery'')]"

definition make_grant_delivery_record :: "grant_delivery_record \<Rightarrow> string invalid + grant_delivery_record" where
  "make_grant_delivery_record x = build (grant_delivery_record_fields x) (grant_delivery_record_rules x) x"

definition wf_grant_delivery_record :: "grant_delivery_record \<Rightarrow> bool" where
  "wf_grant_delivery_record x \<longleftrightarrow> admissible (grant_delivery_record_fields x) (grant_delivery_record_rules x)"

interpretation grant_delivery_record_class: model_class make_grant_delivery_record wf_grant_delivery_record
  by (rule build_class; simp add: make_grant_delivery_record_def wf_grant_delivery_record_def)

record enrollment_recovery_projection =
  er_proposal :: enrollment_proposal
  er_approval_decision :: "approval_decision option"
  er_grant_delivery :: "grant_delivery_record option"
  er_claim :: "claim_record option"
  er_source_revision :: int
  er_observed_at :: datetime

definition enrollment_recovery_projection_fields :: "enrollment_recovery_projection \<Rightarrow> (string \<times> bool) list" where
  "enrollment_recovery_projection_fields x =
     [(''proposal'', wf_enrollment_proposal (er_proposal x)),
      (''approval_decision'', opt_ok wf_approval_decision (er_approval_decision x)),
      (''grant_delivery'', opt_ok wf_grant_delivery_record (er_grant_delivery x)),
      (''claim'', opt_ok wf_claim_record (er_claim x)),
      (''source_revision'', 1 \<le> er_source_revision x),
      (''observed_at'', is_aware (er_observed_at x))]"

definition enrollment_recovery_projection_rules :: "enrollment_recovery_projection \<Rightarrow> (bool \<times> string) list" where
  "enrollment_recovery_projection_rules x =
     [((case er_approval_decision x of None \<Rightarrow> False | Some d \<Rightarrow> ad_enrollment_id d \<noteq> ep_enrollment_id (er_proposal x)),
       ''projection Decision belongs to another Proposal''),
      ((case er_approval_decision x of None \<Rightarrow> False | Some d \<Rightarrow> ad_target_owner_domain_id d \<noteq> ep_requested_owner_domain_id (er_proposal x)),
       ''projection Decision belongs to another Owner Domain''),
      ((case er_claim x of None \<Rightarrow> False | Some c \<Rightarrow> owner_domain_id (cl_device_ref c) \<noteq> ep_requested_owner_domain_id (er_proposal x)),
       ''projection Claim belongs to another Owner Domain'')]"

definition make_enrollment_recovery_projection :: "enrollment_recovery_projection \<Rightarrow> string invalid + enrollment_recovery_projection" where
  "make_enrollment_recovery_projection x = build (enrollment_recovery_projection_fields x) (enrollment_recovery_projection_rules x) x"

definition wf_enrollment_recovery_projection :: "enrollment_recovery_projection \<Rightarrow> bool" where
  "wf_enrollment_recovery_projection x \<longleftrightarrow> admissible (enrollment_recovery_projection_fields x) (enrollment_recovery_projection_rules x)"

interpretation enrollment_recovery_projection_class: model_class make_enrollment_recovery_projection wf_enrollment_recovery_projection
  by (rule build_class; simp add: make_enrollment_recovery_projection_def wf_enrollment_recovery_projection_def)

record admission_list_cursor =
  ac_owner_domain_id :: string
  ac_sort_key :: datetime
  ac_resource_id :: string

definition admission_list_cursor_fields :: "admission_list_cursor \<Rightarrow> (string \<times> bool) list" where
  "admission_list_cursor_fields x =
     [(''owner_domain_id'', owner_domain_id_ok (ac_owner_domain_id x)),
      (''sort_key'', is_aware (ac_sort_key x)),
      (''resource_id'', len_between 3 128 (ac_resource_id x))]"

definition make_admission_list_cursor :: "admission_list_cursor \<Rightarrow> string invalid + admission_list_cursor" where
  "make_admission_list_cursor x = build (admission_list_cursor_fields x) no_rules x"

definition wf_admission_list_cursor :: "admission_list_cursor \<Rightarrow> bool" where
  "wf_admission_list_cursor x \<longleftrightarrow> admissible (admission_list_cursor_fields x) no_rules"

interpretation admission_list_cursor_class: model_class make_admission_list_cursor wf_admission_list_cursor
  by (rule build_class; simp add: make_admission_list_cursor_def wf_admission_list_cursor_def)

record enrollment_proposal_query =
  pq_owner_domain_id :: string
  pq_states :: "enrollment_proposal_state list"
  pq_cursor :: "admission_list_cursor option"
  pq_limit :: int

definition enrollment_proposal_query_fields :: "enrollment_proposal_query \<Rightarrow> (string \<times> bool) list" where
  "enrollment_proposal_query_fields x =
     [(''owner_domain_id'', owner_domain_id_ok (pq_owner_domain_id x)),
      (''states'', \<not> has_duplicates (pq_states x) \<and> 1 \<le> length (pq_states x)),
      (''cursor'', opt_ok wf_admission_list_cursor (pq_cursor x)),
      (''limit'', 1 \<le> pq_limit x \<and> pq_limit x \<le> 200)]"

definition enrollment_proposal_query_rules :: "enrollment_proposal_query \<Rightarrow> (bool \<times> string) list" where
  "enrollment_proposal_query_rules x =
     [((case pq_cursor x of None \<Rightarrow> False | Some c \<Rightarrow> ac_owner_domain_id c \<noteq> pq_owner_domain_id x),
       ''proposal cursor belongs to another Owner Domain'')]"

definition make_enrollment_proposal_query :: "enrollment_proposal_query \<Rightarrow> string invalid + enrollment_proposal_query" where
  "make_enrollment_proposal_query x = build (enrollment_proposal_query_fields x) (enrollment_proposal_query_rules x) x"

definition wf_enrollment_proposal_query :: "enrollment_proposal_query \<Rightarrow> bool" where
  "wf_enrollment_proposal_query x \<longleftrightarrow> admissible (enrollment_proposal_query_fields x) (enrollment_proposal_query_rules x)"

interpretation enrollment_proposal_query_class: model_class make_enrollment_proposal_query wf_enrollment_proposal_query
  by (rule build_class; simp add: make_enrollment_proposal_query_def wf_enrollment_proposal_query_def)

record enrollment_proposal_page =
  pp_owner_domain_id :: string
  pp_items :: "enrollment_recovery_projection list"
  pp_next_cursor :: "admission_list_cursor option"
  pp_observed_at :: datetime

definition enrollment_proposal_page_fields :: "enrollment_proposal_page \<Rightarrow> (string \<times> bool) list" where
  "enrollment_proposal_page_fields x =
     [(''owner_domain_id'', owner_domain_id_ok (pp_owner_domain_id x)),
      (''items'', len_between 0 200 (pp_items x) \<and> list_all wf_enrollment_recovery_projection (pp_items x)),
      (''next_cursor'', opt_ok wf_admission_list_cursor (pp_next_cursor x)),
      (''observed_at'', is_aware (pp_observed_at x))]"

definition enrollment_proposal_page_rules :: "enrollment_proposal_page \<Rightarrow> (bool \<times> string) list" where
  "enrollment_proposal_page_rules x =
     [((case pp_next_cursor x of None \<Rightarrow> False | Some c \<Rightarrow> ac_owner_domain_id c \<noteq> pp_owner_domain_id x),
       ''proposal page cursor belongs to another Owner Domain''),
      (list_ex (\<lambda>i. ep_requested_owner_domain_id (er_proposal i) \<noteq> pp_owner_domain_id x) (pp_items x),
       ''proposal page contains another Owner Domain'')]"

definition make_enrollment_proposal_page :: "enrollment_proposal_page \<Rightarrow> string invalid + enrollment_proposal_page" where
  "make_enrollment_proposal_page x = build (enrollment_proposal_page_fields x) (enrollment_proposal_page_rules x) x"

definition wf_enrollment_proposal_page :: "enrollment_proposal_page \<Rightarrow> bool" where
  "wf_enrollment_proposal_page x \<longleftrightarrow> admissible (enrollment_proposal_page_fields x) (enrollment_proposal_page_rules x)"

interpretation enrollment_proposal_page_class: model_class make_enrollment_proposal_page wf_enrollment_proposal_page
  by (rule build_class; simp add: make_enrollment_proposal_page_def wf_enrollment_proposal_page_def)

record claim_query =
  cq_owner_domain_id :: string
  cq_states :: "claim_state list"
  cq_cursor :: "admission_list_cursor option"
  cq_limit :: int

definition claim_query_fields :: "claim_query \<Rightarrow> (string \<times> bool) list" where
  "claim_query_fields x =
     [(''owner_domain_id'', owner_domain_id_ok (cq_owner_domain_id x)),
      (''states'', \<not> has_duplicates (cq_states x) \<and> 1 \<le> length (cq_states x)),
      (''cursor'', opt_ok wf_admission_list_cursor (cq_cursor x)),
      (''limit'', 1 \<le> cq_limit x \<and> cq_limit x \<le> 200)]"

definition claim_query_rules :: "claim_query \<Rightarrow> (bool \<times> string) list" where
  "claim_query_rules x =
     [((case cq_cursor x of None \<Rightarrow> False | Some c \<Rightarrow> ac_owner_domain_id c \<noteq> cq_owner_domain_id x),
       ''claim cursor belongs to another Owner Domain'')]"

definition make_claim_query :: "claim_query \<Rightarrow> string invalid + claim_query" where
  "make_claim_query x = build (claim_query_fields x) (claim_query_rules x) x"

definition wf_claim_query :: "claim_query \<Rightarrow> bool" where
  "wf_claim_query x \<longleftrightarrow> admissible (claim_query_fields x) (claim_query_rules x)"

interpretation claim_query_class: model_class make_claim_query wf_claim_query
  by (rule build_class; simp add: make_claim_query_def wf_claim_query_def)

record claim_page =
  cpg_owner_domain_id :: string
  cpg_items :: "claim_record list"
  cpg_next_cursor :: "admission_list_cursor option"
  cpg_observed_at :: datetime

definition claim_page_fields :: "claim_page \<Rightarrow> (string \<times> bool) list" where
  "claim_page_fields x =
     [(''owner_domain_id'', owner_domain_id_ok (cpg_owner_domain_id x)),
      (''items'', len_between 0 200 (cpg_items x) \<and> list_all wf_claim_record (cpg_items x)),
      (''next_cursor'', opt_ok wf_admission_list_cursor (cpg_next_cursor x)),
      (''observed_at'', is_aware (cpg_observed_at x))]"

definition claim_page_rules :: "claim_page \<Rightarrow> (bool \<times> string) list" where
  "claim_page_rules x =
     [((case cpg_next_cursor x of None \<Rightarrow> False | Some c \<Rightarrow> ac_owner_domain_id c \<noteq> cpg_owner_domain_id x),
       ''claim page cursor belongs to another Owner Domain''),
      (list_ex (\<lambda>i. owner_domain_id (cl_device_ref i) \<noteq> cpg_owner_domain_id x) (cpg_items x),
       ''claim page contains another Owner Domain'')]"

definition make_claim_page :: "claim_page \<Rightarrow> string invalid + claim_page" where
  "make_claim_page x = build (claim_page_fields x) (claim_page_rules x) x"

definition wf_claim_page :: "claim_page \<Rightarrow> bool" where
  "wf_claim_page x \<longleftrightarrow> admissible (claim_page_fields x) (claim_page_rules x)"

interpretation claim_page_class: model_class make_claim_page wf_claim_page
  by (rule build_class; simp add: make_claim_page_def wf_claim_page_def)


subsection \<open>Properties\<close>

lemma wf_actor_domain:
  "wf_controller_actor_ref a \<Longrightarrow> \<exists>d. ar_owner_domain_id a = Some d \<and> owner_domain_id_ok d"
  by (auto simp: wf_controller_actor_ref_def wf_actor_ref_def)

lemmas recovery_defs =
  wf_enrollment_recovery_projection_def enrollment_recovery_projection_fields_def
  enrollment_recovery_projection_rules_def wf_approval_decision_def approval_decision_fields_def
  approval_decision_rules_def admissible_def

definition in_domain :: "string \<Rightarrow> enrollment_recovery_projection \<Rightarrow> bool" where
  "in_domain d r \<longleftrightarrow>
     ep_requested_owner_domain_id (er_proposal r) = d
     \<and> (\<forall>a. er_approval_decision r = Some a \<longrightarrow>
           ad_enrollment_id a = ep_enrollment_id (er_proposal r)
           \<and> ad_target_owner_domain_id a = d \<and> ar_owner_domain_id (ad_actor a) = Some d)
     \<and> (\<forall>c. er_claim r = Some c \<longrightarrow> owner_domain_id (cl_device_ref c) = d)"

lemma recovery_in_domain:
  "wf_enrollment_recovery_projection r \<Longrightarrow> in_domain (ep_requested_owner_domain_id (er_proposal r)) r"
  by (auto simp: recovery_defs in_domain_def)

lemma wf_page_cases:
  "wf_enrollment_proposal_page p \<Longrightarrow>
     (\<forall>r \<in> set (pp_items p). wf_enrollment_recovery_projection r
         \<and> ep_requested_owner_domain_id (er_proposal r) = pp_owner_domain_id p)
     \<and> (\<forall>c. pp_next_cursor p = Some c \<longrightarrow> ac_owner_domain_id c = pp_owner_domain_id p)
     \<and> length (pp_items p) \<le> 200"
  by (auto simp: wf_enrollment_proposal_page_def enrollment_proposal_page_fields_def
      enrollment_proposal_page_rules_def admissible_def len_between_def list_all_iff list_ex_iff)

text \<open>
  An accepted page of the pending-device queue never mixes Owner Domains: every projection on
  it, its decision, the actor who took it and its claim, and the cursor to the next page all
  belong to the page's own domain, and each decision to its own proposal.
\<close>

theorem proposal_page_single_domain:
  assumes "make_enrollment_proposal_page p = Inr q"
  shows "q = p \<and> list_all (in_domain (pp_owner_domain_id p)) (pp_items p)
    \<and> opt_ok (\<lambda>c. ac_owner_domain_id c = pp_owner_domain_id p) (pp_next_cursor p)
    \<and> length (pp_items p) \<le> 200"
proof -
  have ok: "wf_enrollment_proposal_page p" and q: "q = p"
    using enrollment_proposal_page_class.accepted [OF assms] by auto
  have "in_domain (pp_owner_domain_id p) r" if "r \<in> set (pp_items p)" for r
    using wf_page_cases [OF ok] recovery_in_domain [of r] that by auto
  then show ?thesis
    using q wf_page_cases [OF ok] by (auto simp: list_all_iff opt_ok_def split: option.splits)
qed

definition sample_instance_id :: string where
  "sample_instance_id = device_instance_namespace @ sha256_hex []"

definition sample_digest :: string where
  "sample_digest = ''sha256:'' @ sha256_hex []"

definition sample_manifest_ref :: manifest_ref where
  "sample_manifest_ref = \<lparr>mr_manifest_id = ''lamp'', mr_revision = 1, mr_digest = sample_digest\<rparr>"

definition sample_proposal :: enrollment_proposal where
  "sample_proposal = \<lparr>ep_enrollment_id = ''enr-1'', ep_proposal_revision = 1, ep_state = Pending_Review,
     ep_device_instance_candidate_id = sample_instance_id, ep_requested_owner_domain_id = ''owner-a'',
     ep_hardware_evidence_digest = sample_digest, ep_manifest_ref = sample_manifest_ref,
     ep_handoff_key_id = sample_digest, ep_created_at = Aware 0, ep_expires_at = Aware 1\<rparr>"

definition sample_actor :: actor_ref where
  "sample_actor = \<lparr>ar_principal_id = ''ctl'', ar_principal_type = Controller,
     ar_owner_domain_id = Some ''owner-a'', ar_granted_scopes = [''device.read''],
     ar_authentication_strength = Software_Backed\<rparr>"

definition sample_decision :: approval_decision where
  "sample_decision = \<lparr>ad_decision_id = ''dec-1'', ad_enrollment_id = ''enr-1'', ad_decision = Approve,
     ad_actor = sample_actor, ad_target_owner_domain_id = ''owner-a'',
     ad_target_business_owner_id = ''owner_b'', ad_reviewed_manifest_ref = sample_manifest_ref,
     ad_expected_proposal_revision = 1, ad_decided_at = Aware 1\<rparr>"

definition sample_page :: enrollment_proposal_page where
  "sample_page = \<lparr>pp_owner_domain_id = ''owner-a'',
     pp_items = [\<lparr>er_proposal = sample_proposal, er_approval_decision = Some sample_decision,
                  er_grant_delivery = None, er_claim = None, er_source_revision = 1, er_observed_at = Aware 2\<rparr>],
     pp_next_cursor = None, pp_observed_at = Aware 2\<rparr>"

lemma sample_digest_ok [simp]: "matches_sha256 sample_digest"
  by (simp add: sample_digest_def)

lemma sample_instance_id_ok [simp]: "device_instance_id_ok sample_instance_id"
  by (simp add: sample_instance_id_def)

lemma sample_manifest_ref_ok [simp]: "wf_manifest_ref sample_manifest_ref"
  by (simp add: wf_manifest_ref_def sample_manifest_ref_def canonical_id_def len_between_def
      matches_identifier_def identifier_char_def char_class_defs)

lemma sample_actor_ok [simp]: "wf_controller_actor_ref sample_actor"
  by (simp add: wf_controller_actor_ref_def wf_actor_ref_def sample_actor_def canonical_id_def len_between_def
      matches_identifier_def identifier_char_def char_class_defs owner_domain_id_ok_def starts_with_def
      blank_def strip_def is_space_def)

lemma sample_decision_ok: "wf_approval_decision sample_decision"
  by (simp add: wf_approval_decision_def approval_decision_fields_def approval_decision_rules_def admissible_def
      sample_decision_def len_between_def owner_domain_id_ok_def business_owner_id_ok_def starts_with_def)
    (simp add: sample_actor_def)

lemma sample_proposal_ok: "wf_enrollment_proposal sample_proposal"
  by (simp add: wf_enrollment_proposal_def enrollment_proposal_fields_def enrollment_proposal_rules_def
      admissible_def sample_proposal_def len_between_def owner_domain_id_ok_def starts_with_def)

lemma sample_page_ok: "make_enrollment_proposal_page sample_page = Inr sample_page"
proof -
  have "wf_enrollment_recovery_projection (hd (pp_items sample_page))"
    by (simp add: sample_page_def wf_enrollment_recovery_projection_def enrollment_recovery_projection_fields_def
        enrollment_recovery_projection_rules_def admissible_def sample_proposal_ok sample_decision_ok)
      (simp add: sample_decision_def sample_proposal_def)
  then show ?thesis
    by (simp add: enrollment_proposal_page_class.make_iff wf_enrollment_proposal_page_def
        enrollment_proposal_page_fields_def enrollment_proposal_page_rules_def admissible_def sample_page_def
        owner_domain_id_ok_def starts_with_def len_between_def)
      (simp add: sample_proposal_def)
qed

theorem proposal_page_single_domain_witness:
  "list_all (in_domain ''owner-a'') (pp_items sample_page) \<and> pp_items sample_page \<noteq> []"
  using proposal_page_single_domain [OF sample_page_ok] by (simp add: sample_page_def)

end
