(* ===== verification/Admission_Proofs.thy ===== *)
theory Admission_Proofs
  imports Admission
begin

text \<open>
  The documents that are signed during admission (\<open>device_foundation/v1/admission.py\<close>): base
  identity evidence, the commissioning voucher, the collection and acknowledgement proofs.
  RFC 8785 serialisation is the argument \<open>canon\<close>, \<open>None\<close> being its refusal, and the HKDF of
  the \<open>cryptography\<close> package the argument \<open>hkdf\<close>; base64 and HMAC are the standard library's.
\<close>

subsection \<open>Base identity evidence\<close>

definition base_identity_evidence_scheme :: string where
  "base_identity_evidence_scheme = ''hub-issued-base-p256''"

definition trust_profile_id :: string where
  "trust_profile_id = ''eidolon-trust-p256-hpke-v1''"

definition base_identity_evidence_field_names :: "string list" where
  "base_identity_evidence_field_names =
     [''device_base_id'', ''device_instance_id'', ''operational_public_key'', ''profile_id'']"

datatype document_error = Member_Set_Disagrees | Unknown_Provenance string

definition base_identity_evidence_document ::
  "string \<Rightarrow> string \<Rightarrow> string \<Rightarrow> document_error + json_object" where
  "base_identity_evidence_document base instance key =
     (let document = [(''device_base_id'', JStr base), (''device_instance_id'', JStr instance),
                      (''operational_public_key'', JStr key), (''profile_id'', JStr trust_profile_id)]
      in guarded [(set (map fst document) \<noteq> set base_identity_evidence_field_names, Member_Set_Disagrees)] document)"

definition base_identity_evidence_wire ::
  "(json \<Rightarrow> byte list option) \<Rightarrow> json_object \<Rightarrow> string \<Rightarrow> string option" where
  "base_identity_evidence_wire canon document signature =
     Option.bind (canon (JObj document)) (\<lambda>b. map_option (\<lambda>s. s @ ''.'' @ signature) (utf8_decode b))"

definition base_identity_evidence_digest :: "string \<Rightarrow> string" where
  "base_identity_evidence_digest wire = ''sha256:'' @ sha256_hex (utf8 wire)"

subsection \<open>Commissioning voucher\<close>

definition commissioning_voucher_key_info :: "byte list" where
  "commissioning_voucher_key_info = utf8 ''eidolon-commissioning-voucher-v1''"

definition commissioning_voucher_purpose :: string where
  "commissioning_voucher_purpose = ''eidolon-commissioning-voucher-v1''"

text \<open>\<open>hkdf length salt info secret\<close>, the salt being absent.\<close>

definition derive_voucher_signing_key ::
  "(nat \<Rightarrow> byte list option \<Rightarrow> byte list \<Rightarrow> byte list \<Rightarrow> byte list) \<Rightarrow> byte list \<Rightarrow> byte list" where
  "derive_voucher_signing_key hkdf secret = hkdf 32 None commissioning_voucher_key_info secret"

definition commissioning_voucher_header :: json_object where
  "commissioning_voucher_header = [(''alg'', JStr ''HS256''), (''typ'', JStr ''JWT'')]"

definition commissioning_voucher_provenance :: "string list" where
  "commissioning_voucher_provenance = [''minted'', ''derived-from-controller'']"

definition commissioning_voucher_claim_names :: "string list" where
  "commissioning_voucher_claim_names =
     [''base_identity_provenance'', ''device_base_id'', ''exp'', ''jti'', ''operational_spki_sha256'',
      ''owner_domain_id'', ''purpose'']"

definition commissioning_voucher_claims ::
  "string \<Rightarrow> string \<Rightarrow> string \<Rightarrow> string \<Rightarrow> int \<Rightarrow> string \<Rightarrow> document_error + json_object" where
  "commissioning_voucher_claims base owner spki jti expires provenance =
     (let claims = [(''base_identity_provenance'', JStr provenance), (''device_base_id'', JStr base),
                    (''exp'', JInt expires), (''jti'', JStr jti), (''operational_spki_sha256'', JStr spki),
                    (''owner_domain_id'', JStr owner), (''purpose'', JStr commissioning_voucher_purpose)]
      in guarded [(provenance \<notin> set commissioning_voucher_provenance, Unknown_Provenance provenance),
                  (set (map fst claims) \<noteq> set commissioning_voucher_claim_names, Member_Set_Disagrees)] claims)"

definition sign_commissioning_voucher ::
  "(json \<Rightarrow> byte list option) \<Rightarrow> json_object \<Rightarrow> byte list \<Rightarrow> string option" where
  "sign_commissioning_voucher canon claims key =
     Option.bind (canon (JObj commissioning_voucher_header)) (\<lambda>h.
     map_option (\<lambda>c.
        let signing_input = b64url h @ ''.'' @ b64url c;
            signature = hmac_sha256 key (utf8 signing_input)
        in signing_input @ ''.'' @ b64url signature)
       (canon (JObj claims)))"

subsection \<open>Grant proofs\<close>

definition claim_grant_collection_proof_contract :: string where
  "claim_grant_collection_proof_contract = ''eidolon.device-foundation.claim-grant-collection''"

definition claim_grant_ack_proof_contract :: string where
  "claim_grant_ack_proof_contract = ''eidolon.device-foundation.claim-grant-ack''"

definition claim_grant_collection_proof_document :: "string \<Rightarrow> int \<Rightarrow> string \<Rightarrow> json" where
  "claim_grant_collection_proof_document enrollment revision challenge =
     JObj [(''contract'', JStr claim_grant_collection_proof_contract), (''enrollment_id'', JStr enrollment),
           (''proposal_revision'', JInt revision), (''collection_challenge'', JStr challenge)]"

definition claim_grant_ack_proof_document :: "string \<Rightarrow> string \<Rightarrow> device_ref \<Rightarrow> json" where
  "claim_grant_ack_proof_document enrollment grant d =
     JObj [(''contract'', JStr claim_grant_ack_proof_contract), (''enrollment_id'', JStr enrollment),
           (''grant_id'', JStr grant), (''device_ref'', device_ref_json d)]"

subsection \<open>Lemmas\<close>

text \<open>Reading a compact token back, the way its verifier has to: three dot-separated segments.\<close>

definition split_compact :: "string \<Rightarrow> (string \<times> string \<times> string) option" where
  "split_compact t =
     (case partition_at (CHR ''.'') t of
        (h, True, rest) \<Rightarrow>
          (case partition_at (CHR ''.'') rest of
             (c, True, s) \<Rightarrow> if CHR ''.'' \<in> set s then None else Some (h, c, s)
           | _ \<Rightarrow> None)
      | _ \<Rightarrow> None)"

lemma no_dot_in_b64url [simp]: "CHR ''.'' \<notin> set (b64url bs)"
proof
  assume "CHR ''.'' \<in> set (b64url bs)"
  then have "is_b64url_char (CHR ''.'')" using b64url_chars [of bs] by (auto simp: list_all_iff)
  then show False by (simp add: char_class_defs)
qed

lemma split_compact_segments:
  "split_compact (b64url h @ CHR ''.'' # b64url c @ CHR ''.'' # b64url s) = Some (b64url h, b64url c, b64url s)"
  by (simp add: split_compact_def)

text \<open>
  A voucher's claims are refused exactly for a provenance outside the two known ones; otherwise
  they have exactly the seven members a verifier demands, each once, with the fixed purpose. The
  check of the member set against the declared names never fails.
\<close>

theorem voucher_claims_exact:
  "commissioning_voucher_claims base owner spki jti expires provenance =
     (if provenance = ''minted'' \<or> provenance = ''derived-from-controller''
      then Inr (zip commissioning_voucher_claim_names
                 [JStr provenance, JStr base, JInt expires, JStr jti, JStr spki, JStr owner,
                  JStr commissioning_voucher_purpose])
      else Inl (Unknown_Provenance provenance))"
  by (auto simp: commissioning_voucher_claims_def commissioning_voucher_provenance_def
      commissioning_voucher_claim_names_def guarded_simps Let_def)

text \<open>
  A signed voucher splits at its two dots into three segments that decode to the canonical
  header, the canonical claims, and the HMAC-SHA256 under the signing key of the first two
  segments as they stand.
\<close>

theorem voucher_reads_back:
  assumes "sign_commissioning_voucher canon claims key = Some t"
  shows "\<exists>h c s. split_compact t = Some (h, c, s)
    \<and> b64url_decode h = canon (JObj commissioning_voucher_header)
    \<and> b64url_decode c = canon (JObj claims)
    \<and> b64url_decode s = Some (hmac_sha256 key (utf8 (h @ ''.'' @ c)))"
  using assms
  by (auto simp: sign_commissioning_voucher_def bind_eq_Some_conv Let_def split_compact_segments
      b64url_text.dec_enc)

theorem voucher_reads_back_witness:
  "\<exists>h c s. split_compact (the (sign_commissioning_voucher (\<lambda>_. Some [7]) [] [1, 2])) = Some (h, c, s)
     \<and> b64url_decode c = Some [7]"
proof -
  have "sign_commissioning_voucher (\<lambda>_. Some [7]) [] [1, 2]
      = Some (the (sign_commissioning_voucher (\<lambda>_. Some [7]) [] [1, 2]))"
    by (simp add: sign_commissioning_voucher_def)
  from voucher_reads_back [OF this] show ?thesis by auto
qed

text \<open>
  The two grant proofs cannot stand in for one another: the signed documents differ in their
  contract for all inputs, and within one contract the document determines the enrollment, the
  revision and challenge, or the grant and the exact device reference it speaks about.
\<close>

theorem grant_proofs_separated:
  "claim_grant_collection_proof_document e n ch \<noteq> claim_grant_ack_proof_document e' g d
   \<and> (claim_grant_collection_proof_document e n ch = claim_grant_collection_proof_document f m ch'
        \<longleftrightarrow> (e, n, ch) = (f, m, ch'))
   \<and> (claim_grant_ack_proof_document e g d = claim_grant_ack_proof_document f g' d'
        \<longleftrightarrow> (e, g, d) = (f, g', d'))"
  by (simp add: claim_grant_collection_proof_document_def claim_grant_ack_proof_document_def
      claim_grant_collection_proof_contract_def claim_grant_ack_proof_contract_def device_ref_json_inj)

end
