(* ===== verification/Admission_Credential.thy ===== *)
theory Admission_Credential
  imports Admission
begin

text \<open>
  The Admission credential of \<open>device_foundation/v1/admission_credential.py\<close>: minting and reading.
  JWT signing is third-party: \<open>encode\<close> and \<open>decode\<close> are arguments. \<open>decode\<close> stands for
  \<open>jwt.decode\<close> with the fixed algorithm, the audience and the required claims; \<open>None\<close> is any
  PyJWTError, an expired token among them. \<open>render\<close> is \<open>str()\<close> of a decoded value that is not
  a string.
\<close>

definition admission_audience :: string where
  "admission_audience = ''eidolon-admission''"

definition minimum_secret_bytes :: nat where
  "minimum_secret_bytes = 32"

datatype credential_error = Short_Secret | Lifetime_Not_Positive | Bearer_Required
  | Invalid_Credential | Presenter_Not_Bound

record admission_credential =
  acr_subject :: string
  acr_actor :: actor_ref
  acr_owner_domain_id :: string
  acr_business_owner_id :: string
  acr_scopes :: "string list"
  acr_intent_id :: "string option"
  acr_target_device_ref :: "device_ref option"

definition credential_fields :: "admission_credential \<Rightarrow> (string \<times> bool) list" where
  "credential_fields x =
     [(''subject'', len_between 3 128 (acr_subject x)),
      (''actor'', wf_controller_actor_ref (acr_actor x)),
      (''owner_domain_id'', owner_domain_id_ok (acr_owner_domain_id x)),
      (''business_owner_id'', business_owner_id_ok (acr_business_owner_id x)),
      (''scopes'', len_between 1 16 (acr_scopes x)),
      (''intent_id'', opt_ok (len_between 0 128) (acr_intent_id x)),
      (''target_device_ref'', opt_ok wf_device_ref (acr_target_device_ref x))]"

definition credential_rules :: "admission_credential \<Rightarrow> (bool \<times> string) list" where
  "credential_rules x =
     [(ar_owner_domain_id (acr_actor x) \<noteq> Some (acr_owner_domain_id x),
       ''credential actor belongs to another Owner Domain''),
      (set (acr_scopes x) \<noteq> set (ar_granted_scopes (acr_actor x)),
       ''credential scopes and the actor's granted scopes differ'')]"

definition make_admission_credential :: "admission_credential \<Rightarrow> string invalid + admission_credential" where
  "make_admission_credential x = build (credential_fields x) (credential_rules x) x"

definition wf_admission_credential :: "admission_credential \<Rightarrow> bool" where
  "wf_admission_credential x \<longleftrightarrow> admissible (credential_fields x) (credential_rules x)"

interpretation admission_credential_class: model_class make_admission_credential wf_admission_credential
  by (rule build_class; simp add: make_admission_credential_def wf_admission_credential_def)

subsection \<open>The claims on the wire\<close>

fun principal_wire :: "principal_type \<Rightarrow> string" where
  "principal_wire Controller = ''controller''"
| "principal_wire Device_Principal = ''device''"
| "principal_wire Service = ''service''"
| "principal_wire Operator = ''operator''"

fun strength_wire :: "authentication_strength \<Rightarrow> string" where
  "strength_wire Software_Backed = ''software''"
| "strength_wire Hardware_Backed = ''hardware-backed''"
| "strength_wire Physical_Presence = ''physical-presence''"

definition strengths :: "(string \<times> authentication_strength) list" where
  "strengths = [(''software'', Software_Backed), (''hardware-backed'', Hardware_Backed),
                (''physical-presence'', Physical_Presence)]"

definition optional_text :: "string option \<Rightarrow> json" where
  "optional_text v = (case v of None \<Rightarrow> JNull | Some s \<Rightarrow> JStr s)"

definition actor_json :: "actor_ref \<Rightarrow> json" where
  "actor_json a =
     JObj [(''principal_id'', JStr (ar_principal_id a)),
           (''principal_type'', JStr (principal_wire (ar_principal_type a))),
           (''owner_domain_id'', optional_text (ar_owner_domain_id a)),
           (''granted_scopes'', JArr (map JStr (ar_granted_scopes a))),
           (''authentication_strength'', JStr (strength_wire (ar_authentication_strength a)))]"

definition credential_claims :: "admission_credential \<Rightarrow> int \<Rightarrow> int \<Rightarrow> json_object" where
  "credential_claims c ttl now =
     [(''sub'', JStr (acr_subject c)), (''presenter'', JStr (acr_subject c)),
      (''aud'', JStr admission_audience), (''actor'', actor_json (acr_actor c)),
      (''owner_domain_id'', JStr (acr_owner_domain_id c)), (''business_owner_id'', JStr (acr_business_owner_id c)),
      (''scopes'', JArr (map JStr (acr_scopes c))),
      (''iat'', JInt (unix_seconds now)), (''exp'', JInt (unix_seconds (now + ttl * 1000000)))]
     @ (case acr_intent_id c of None \<Rightarrow> [] | Some i \<Rightarrow> [(''intent_id'', JStr i)])
     @ (case acr_target_device_ref c of None \<Rightarrow> [] | Some d \<Rightarrow> [(''target_device_ref'', device_ref_json d)])"

definition issue_admission_credential ::
  "(json_object \<Rightarrow> byte list \<Rightarrow> string) \<Rightarrow> admission_credential \<Rightarrow> byte list \<Rightarrow> int \<Rightarrow> int \<Rightarrow> credential_error + string" where
  "issue_admission_credential encode c secret ttl now =
     guarded [(length secret < minimum_secret_bytes, Short_Secret), (ttl \<le> 0, Lifetime_Not_Positive)]
       (''Bearer '' @ encode (credential_claims c ttl now) secret)"

subsection \<open>Reading\<close>

definition parse_controller_actor :: "json \<Rightarrow> actor_ref option" where
  "parse_controller_actor v = (case v of
     JObj kvs \<Rightarrow>
       if only_keys [''principal_id'', ''principal_type'', ''owner_domain_id'', ''granted_scopes'',
                     ''authentication_strength''] kvs
          \<and> defaulted ''principal_type'' (is_text (\<lambda>s. s = ''controller'')) kvs
       then Option.bind (parse_text kvs ''principal_id'') (\<lambda>p.
            Option.bind (parse_text kvs ''owner_domain_id'') (\<lambda>d.
            Option.bind (parse_texts kvs ''granted_scopes'') (\<lambda>ss.
            Option.bind (Option.bind (parse_text kvs ''authentication_strength'') (map_of strengths)) (\<lambda>st.
              let a = \<lparr>ar_principal_id = p, ar_principal_type = Controller, ar_owner_domain_id = Some d,
                       ar_granted_scopes = ss, ar_authentication_strength = st\<rparr>
              in if wf_controller_actor_ref a then Some a else None))))
       else None
   | _ \<Rightarrow> None)"

definition parse_device_ref :: "json \<Rightarrow> device_ref option" where
  "parse_device_ref v = (case v of
     JObj kvs \<Rightarrow>
       if only_keys [''device_instance_id'', ''owner_domain_id'', ''owner_domain_generation'',
                     ''claim_generation'', ''trust_epoch''] kvs
       then Option.bind (parse_text kvs ''device_instance_id'') (\<lambda>i.
            Option.bind (parse_text kvs ''owner_domain_id'') (\<lambda>d.
            Option.bind (parse_int kvs ''owner_domain_generation'') (\<lambda>g.
            Option.bind (parse_int kvs ''claim_generation'') (\<lambda>c.
            Option.bind (parse_int kvs ''trust_epoch'') (\<lambda>e.
              let r = \<lparr>device_instance_id = i, owner_domain_id = d, owner_domain_generation = g,
                       claim_generation = c, trust_epoch = e\<rparr>
              in if wf_device_ref r then Some r else None)))))
       else None
   | _ \<Rightarrow> None)"

definition claims_scopes :: "(json \<Rightarrow> string) \<Rightarrow> json_object \<Rightarrow> string list option" where
  "claims_scopes render claims =
     (case map_of claims ''scopes'' of
        None \<Rightarrow> Some []
      | Some v \<Rightarrow> map_option (map (text_of render)) (iterate v))"

definition claims_target :: "json_object \<Rightarrow> device_ref option option" where
  "claims_target claims =
     (case present claims ''target_device_ref'' of
        None \<Rightarrow> Some None
      | Some v \<Rightarrow> map_option Some (parse_device_ref v))"

definition credential_of_claims ::
  "(json \<Rightarrow> string) \<Rightarrow> json_object \<Rightarrow> string \<Rightarrow> admission_credential option" where
  "credential_of_claims render claims subject =
     Option.bind (Option.bind (map_of claims ''actor'') parse_controller_actor) (\<lambda>a.
     Option.bind (parse_text claims ''owner_domain_id'') (\<lambda>d.
     Option.bind (parse_text claims ''business_owner_id'') (\<lambda>b.
     Option.bind (claims_scopes render claims) (\<lambda>ss.
     Option.bind (claims_target claims) (\<lambda>t.
       Some \<lparr>acr_subject = subject, acr_actor = a, acr_owner_domain_id = d, acr_business_owner_id = b,
             acr_scopes = ss, acr_intent_id = map_option (text_of render) (present claims ''intent_id''),
             acr_target_device_ref = t\<rparr>)))))"

definition read_admission_credential ::
  "(string \<Rightarrow> byte list \<Rightarrow> json_object option) \<Rightarrow> (json \<Rightarrow> string) \<Rightarrow> string \<Rightarrow> byte list
     \<Rightarrow> credential_error + admission_credential" where
  "read_admission_credential decode render header secret =
     and_then (guarded [(length secret < minimum_secret_bytes, Short_Secret)] ()) (\<lambda>_.
     case partition_at (CHR '' '') header of (scheme, separator, token) \<Rightarrow>
     and_then (guarded [(\<not> separator \<or> lower scheme \<noteq> ''bearer'' \<or> token = [], Bearer_Required)] ()) (\<lambda>_.
     case decode token secret of
       None \<Rightarrow> Inl Invalid_Credential
     | Some claims \<Rightarrow>
         (let subject = claim_text render claims ''sub''
          in and_then (guarded [(subject = [] \<or> claim_text render claims ''presenter'' \<noteq> subject,
                                 Presenter_Not_Bound)] ()) (\<lambda>_.
             case credential_of_claims render claims subject of
               None \<Rightarrow> Inl Invalid_Credential
             | Some c \<Rightarrow> reraise (\<lambda>_. Invalid_Credential) (make_admission_credential c)))))"

subsection \<open>Lemmas\<close>

lemma map_of_strengths [simp]: "map_of strengths (strength_wire st) = Some st"
  by (cases st) (simp_all add: strengths_def)

lemma parse_actor_json: "wf_controller_actor_ref a \<Longrightarrow> parse_controller_actor (actor_json a) = Some a"
  by (cases a) (auto simp: parse_controller_actor_def actor_json_def only_keys_def defaulted_def
      parse_text_def parse_texts_def wf_controller_actor_ref_def optional_text_def)

lemma parse_device_ref_json: "wf_device_ref d \<Longrightarrow> parse_device_ref (device_ref_json d) = Some d"
  by (cases d) (simp add: parse_device_ref_def device_ref_json_def only_keys_def parse_text_def parse_int_def)

lemma text_of_map [simp]: "map (text_of render) (map JStr ss) = ss"
  by (induction ss) (simp_all add: text_of_def)

lemma claims_lookup [simp]:
  "map_of (credential_claims c ttl now) ''sub'' = Some (JStr (acr_subject c))"
  "map_of (credential_claims c ttl now) ''presenter'' = Some (JStr (acr_subject c))"
  "map_of (credential_claims c ttl now) ''actor'' = Some (actor_json (acr_actor c))"
  "map_of (credential_claims c ttl now) ''owner_domain_id'' = Some (JStr (acr_owner_domain_id c))"
  "map_of (credential_claims c ttl now) ''business_owner_id'' = Some (JStr (acr_business_owner_id c))"
  "map_of (credential_claims c ttl now) ''scopes'' = Some (JArr (map JStr (acr_scopes c)))"
  "map_of (credential_claims c ttl now) ''intent_id'' = map_option JStr (acr_intent_id c)"
  "map_of (credential_claims c ttl now) ''target_device_ref'' = map_option device_ref_json (acr_target_device_ref c)"
  by (simp_all add: credential_claims_def split: option.split)

lemma wf_credential_parts:
  "wf_admission_credential c \<Longrightarrow>
     wf_controller_actor_ref (acr_actor c) \<and> opt_ok wf_device_ref (acr_target_device_ref c)"
  by (simp add: wf_admission_credential_def credential_fields_def admissible_def)

lemma present_device_ref:
  "map_of kvs k = Some (device_ref_json d) \<Longrightarrow> present kvs k = Some (device_ref_json d)"
  by (simp add: present_def) (simp add: device_ref_json_def)

lemma credential_of_claims_issued:
  assumes "wf_admission_credential c"
  shows "credential_of_claims render (credential_claims c ttl now) s = Some (c\<lparr>acr_subject := s\<rparr>)"
proof -
  have "claims_target (credential_claims c ttl now) = Some (acr_target_device_ref c)"
    using wf_credential_parts [OF assms]
    by (cases "acr_target_device_ref c")
      (simp_all add: claims_target_def present_device_ref parse_device_ref_json, simp add: present_def)
  moreover have "map_option (text_of render) (present (credential_claims c ttl now) ''intent_id'') = acr_intent_id c"
    by (cases "acr_intent_id c") (simp_all add: present_def text_of_def)
  ultimately show ?thesis
    using wf_credential_parts [OF assms]
    by (simp add: credential_of_claims_def claims_scopes_def parse_text_def parse_actor_json del: map_map)
qed

lemma claim_text_issued:
  "claim_text render (credential_claims c ttl now) ''sub'' = strip (acr_subject c)"
  "claim_text render (credential_claims c ttl now) ''presenter'' = strip (acr_subject c)"
  by (auto simp: claim_text_def text_of_def)

lemma lower_bearer: "lower ''Bearer'' = ''bearer''"
  by code_simp

lemma bearer_partition: "partition_at (CHR '' '') (''Bearer '' @ t) = (''Bearer'', True, t)"
  by simp

text \<open>
  Minting and reading are inverse for a valid credential, up to the blanks around its
  subject: the reader gives back the very credential with its subject stripped, and refuses it
  when nothing or fewer than three characters remain. \<open>decode\<close> is only relied on to return the
  claims of an unexpired token it is given with the secret that signed it.
\<close>

theorem credential_round_trip:
  assumes issued: "issue_admission_credential encode c secret ttl now = Inr header"
    and valid: "make_admission_credential c = Inr c"
    and verifies: "decode (encode (credential_claims c ttl now) secret) secret = Some (credential_claims c ttl now)"
    and nonempty: "encode (credential_claims c ttl now) secret \<noteq> []"
  shows "read_admission_credential decode render header secret =
      (if strip (acr_subject c) = [] then Inl Presenter_Not_Bound
       else if 3 \<le> length (strip (acr_subject c)) \<and> length (strip (acr_subject c)) \<le> 128
       then Inr (c\<lparr>acr_subject := strip (acr_subject c)\<rparr>)
       else Inl Invalid_Credential)"
proof -
  have ok: "wf_admission_credential c" using admission_credential_class.accepted [OF valid] by simp
  have secret: "minimum_secret_bytes \<le> length secret"
    and header: "header = ''Bearer '' @ encode (credential_claims c ttl now) secret"
    using issued by (auto simp: issue_admission_credential_def guard_simps split: if_splits)
  have made: "wf_admission_credential (c\<lparr>acr_subject := s\<rparr>) \<longleftrightarrow> 3 \<le> length s \<and> length s \<le> 128" for s
    using ok by (simp add: wf_admission_credential_def admissible_def credential_fields_def credential_rules_def
        len_between_def)
  have "reraise (\<lambda>_. Invalid_Credential) (make_admission_credential (c\<lparr>acr_subject := s\<rparr>))
      = (if 3 \<le> length s \<and> length s \<le> 128 then Inr (c\<lparr>acr_subject := s\<rparr>) else Inl Invalid_Credential)" for s
  proof (cases "wf_admission_credential (c\<lparr>acr_subject := s\<rparr>)")
    case True
    then show ?thesis using made by (simp add: admission_credential_class.accepts)
  next
    case False
    then obtain e where "make_admission_credential (c\<lparr>acr_subject := s\<rparr>) = Inl e"
      using admission_credential_class.refuses_iff by blast
    then show ?thesis using False made by simp
  qed
  then show ?thesis
    using secret nonempty verifies header bearer_partition
    by (auto simp: read_admission_credential_def guarded_simps claim_text_issued credential_of_claims_issued [OF ok]
        lower_bearer Let_def)
qed

definition sample_credential :: admission_credential where
  "sample_credential = \<lparr>acr_subject = '' ctl '', acr_actor = sample_actor, acr_owner_domain_id = ''owner-a'',
     acr_business_owner_id = ''owner_b'', acr_scopes = [''device.read''], acr_intent_id = None,
     acr_target_device_ref = None\<rparr>"

lemma sample_credential_ok: "make_admission_credential sample_credential = Inr sample_credential"
  by (simp add: admission_credential_class.make_iff wf_admission_credential_def admissible_def credential_fields_def
      credential_rules_def sample_credential_def len_between_def owner_domain_id_ok_def business_owner_id_ok_def
      starts_with_def)
    (simp add: sample_actor_def)

theorem credential_round_trip_witness:
  "read_admission_credential (\<lambda>_ _. Some (credential_claims sample_credential 60 0)) (\<lambda>_. []) ''Bearer t'' (replicate 32 1)
     = Inr (sample_credential\<lparr>acr_subject := ''ctl''\<rparr>)"
proof -
  have "issue_admission_credential (\<lambda>_ _. ''t'') sample_credential (replicate 32 1) 60 0 = Inr ''Bearer t''"
    by (simp add: issue_admission_credential_def guarded_simps minimum_secret_bytes_def)
  from credential_round_trip [OF this sample_credential_ok, of "\<lambda>_ _. Some (credential_claims sample_credential 60 0)"]
  show ?thesis by (simp add: sample_credential_def strip_def is_space_def)
qed

text \<open>
  C36. A credential is never returned half-true: whatever the token library decodes, a returned
  credential is valid in every field, was decoded under a secret of at least 32 bytes, was
  presented by its own subject, and its actor's domain and scopes are the credential's.
\<close>

theorem read_credential_is_true:
  assumes "read_admission_credential decode render header secret = Inr c"
  shows "wf_admission_credential c \<and> 32 \<le> length secret
    \<and> ar_owner_domain_id (acr_actor c) = Some (acr_owner_domain_id c)
    \<and> set (acr_scopes c) = set (ar_granted_scopes (acr_actor c))
    \<and> (\<exists>token claims. decode token secret = Some claims
         \<and> claim_text render claims ''sub'' = acr_subject c
         \<and> claim_text render claims ''presenter'' = acr_subject c)"
proof -
  obtain token claims d where
    len: "32 \<le> length secret" and dec: "decode token secret = Some claims"
    and who: "claim_text render claims ''presenter'' = claim_text render claims ''sub''"
    and cred: "credential_of_claims render claims (claim_text render claims ''sub'') = Some d"
    and made: "make_admission_credential d = Inr c"
    using assms by (auto simp: read_admission_credential_def guard_simps Let_def minimum_secret_bytes_def
        split: prod.splits option.splits if_splits)
  have "acr_subject d = claim_text render claims ''sub''"
    using cred by (auto simp: credential_of_claims_def bind_eq_Some_conv)
  moreover have "wf_admission_credential c" "d = c"
    using admission_credential_class.accepted [OF made] by auto
  ultimately show ?thesis
    using len dec who
    by (auto simp: wf_admission_credential_def admissible_def credential_rules_def)
qed

lemma stripped_sample_credential_ok:
  "make_admission_credential (sample_credential\<lparr>acr_subject := ''ctl''\<rparr>) = Inr (sample_credential\<lparr>acr_subject := ''ctl''\<rparr>)"
  using sample_credential_ok
  by (simp add: admission_credential_class.make_iff wf_admission_credential_def admissible_def credential_fields_def
      credential_rules_def len_between_def)

theorem read_credential_is_true_witness:
  "wf_admission_credential (sample_credential\<lparr>acr_subject := ''ctl''\<rparr>)"
proof -
  let ?c = "sample_credential\<lparr>acr_subject := ''ctl''\<rparr>"
  have "wf_admission_credential ?c"
    using admission_credential_class.accepted [OF stripped_sample_credential_ok] by simp
  then have "read_admission_credential (\<lambda>_ _. Some (credential_claims ?c 60 0)) (\<lambda>_. []) ''Bearer t'' (replicate 32 1)
      = Inr ?c"
    by (simp add: read_admission_credential_def guarded_simps minimum_secret_bytes_def claim_text_issued
        credential_of_claims_issued stripped_sample_credential_ok lower_bearer strip_def is_space_def)
  from read_credential_is_true [OF this] show ?thesis by simp
qed

end
