(* ===== verification/Device_Control.thy ===== *)
theory Device_Control
  imports Admission "HOL-Library.Product_Lexorder"
begin

text \<open>
  The device edge: whether a Body adopts the device reference an Authority answers with
  (\<open>device_control.py\<close>), manifest assertions (\<open>device_manifest.py\<close>), delivery envelopes
  (\<open>delivery.py\<close>) and the setup descriptor with its wire form (\<open>setup_descriptor.py\<close>), all
  under \<open>device_foundation/v1\<close>. Claim orders are compared lexicographically, as Python compares
  tuples.
\<close>

subsection \<open>Adopting a device reference\<close>

datatype device_ref_correction = No_Correction | Adopt | Refuse

definition claim_order :: "device_ref \<Rightarrow> int \<times> int" where
  "claim_order d = (claim_generation d, trust_epoch d)"

definition classify_authority_device_ref :: "device_ref \<Rightarrow> device_ref \<Rightarrow> device_ref_correction" where
  "classify_authority_device_ref held answered =
     (if device_instance_id answered \<noteq> device_instance_id held
         \<or> owner_domain_id answered \<noteq> owner_domain_id held
         \<or> owner_domain_generation answered \<noteq> owner_domain_generation held
      then Refuse
      else if claim_order answered = claim_order held then No_Correction
      else if claim_order answered > claim_order held then Adopt else Refuse)"

definition device_control_configuration_operation :: string where
  "device_control_configuration_operation = ''device-control.configuration''"

definition device_control_configuration_proof_document :: "device_ref \<Rightarrow> string \<Rightarrow> json" where
  "device_control_configuration_proof_document d nonce =
     JObj [(''device_ref'', device_ref_json d), (''nonce'', JStr nonce),
           (''operation_type'', JStr device_control_configuration_operation)]"

subsection \<open>Manifest assertion\<close>

definition manifest_assertion_operation :: string where
  "manifest_assertion_operation = ''device-control.manifest-assert''"

record assert_device_manifest =
  adm_device_ref :: device_ref
  adm_manifest :: manifest_document
  adm_nonce :: string
  adm_public_key_spki :: string
  adm_device_signature :: string

definition assert_device_manifest_fields :: "(json \<Rightarrow> byte list option) \<Rightarrow> assert_device_manifest \<Rightarrow> (string \<times> bool) list" where
  "assert_device_manifest_fields canon x =
     [(''device_ref'', wf_device_ref (adm_device_ref x)),
      (''manifest'', wf_manifest_document canon (adm_manifest x)),
      (''nonce'', b64url_text_ok 16 128 (adm_nonce x)),
      (''public_key_spki'', b64url_text_ok 120 256 (adm_public_key_spki x)),
      (''device_signature'', b64url_text_ok 86 86 (adm_device_signature x))]"

definition make_assert_device_manifest :: "(json \<Rightarrow> byte list option) \<Rightarrow> assert_device_manifest \<Rightarrow> string invalid + assert_device_manifest" where
  "make_assert_device_manifest canon x = build (assert_device_manifest_fields canon x) no_rules x"

definition wf_assert_device_manifest :: "(json \<Rightarrow> byte list option) \<Rightarrow> assert_device_manifest \<Rightarrow> bool" where
  "wf_assert_device_manifest canon x \<longleftrightarrow> admissible (assert_device_manifest_fields canon x) no_rules"

interpretation assert_device_manifest_class: model_class "make_assert_device_manifest canon" "wf_assert_device_manifest canon" for canon
  by (rule build_class; simp add: make_assert_device_manifest_def wf_assert_device_manifest_def)

definition manifest_signing_document :: "assert_device_manifest \<Rightarrow> json" where
  "manifest_signing_document a =
     JObj [(''device_ref'', device_ref_json (adm_device_ref a)),
           (''manifest_digest'', JStr (md_digest (adm_manifest a))), (''nonce'', JStr (adm_nonce a)),
           (''operation_type'', JStr manifest_assertion_operation)]"

datatype manifest_outcome = Manifest_Accepted | Manifest_Unchanged

record device_manifest_acceptance =
  dma_device_ref :: device_ref
  dma_nonce :: string
  dma_accepted :: manifest_ref
  dma_outcome :: manifest_outcome
  dma_accepted_at :: datetime

definition device_manifest_acceptance_fields :: "device_manifest_acceptance \<Rightarrow> (string \<times> bool) list" where
  "device_manifest_acceptance_fields x =
     [(''device_ref'', wf_device_ref (dma_device_ref x)),
      (''nonce'', b64url_text_ok 16 128 (dma_nonce x)),
      (''accepted'', wf_manifest_ref (dma_accepted x)),
      (''accepted_at'', is_aware (dma_accepted_at x))]"

definition make_device_manifest_acceptance :: "device_manifest_acceptance \<Rightarrow> string invalid + device_manifest_acceptance" where
  "make_device_manifest_acceptance x = build (device_manifest_acceptance_fields x) no_rules x"

definition wf_device_manifest_acceptance :: "device_manifest_acceptance \<Rightarrow> bool" where
  "wf_device_manifest_acceptance x \<longleftrightarrow> admissible (device_manifest_acceptance_fields x) no_rules"

interpretation device_manifest_acceptance_class: model_class make_device_manifest_acceptance wf_device_manifest_acceptance
  by (rule build_class; simp add: make_device_manifest_acceptance_def wf_device_manifest_acceptance_def)

subsection \<open>Delivery\<close>

text \<open>
  \<open>urlsplit(value).scheme\<close>: leading control characters and spaces and every tab and newline are
  dropped, then what precedes the first colon is the scheme when it starts with a letter and
  holds scheme characters only. Its refusal of a malformed authority part is the argument
  \<open>netloc_ok\<close>.
\<close>

definition scheme_char :: "char \<Rightarrow> bool" where
  "scheme_char c \<longleftrightarrow> is_ascii_alnum c \<or> c \<in> set ''+-.''"

definition url_scheme :: "string \<Rightarrow> string" where
  "url_scheme s =
     (let t = filter (\<lambda>c. of_char c \<notin> {9 :: nat, 10, 13}) (dropWhile (\<lambda>c. of_char c \<le> (32 :: nat)) s)
      in case partition_at (CHR '':'') t of (a, found, b) \<Rightarrow>
           if found \<and> a \<noteq> [] \<and> (is_ascii_upper (hd a) \<or> is_ascii_lower (hd a)) \<and> list_all scheme_char a
           then lower a else [])"

definition absolute_uri_ok :: "(string \<Rightarrow> bool) \<Rightarrow> string \<Rightarrow> bool" where
  "absolute_uri_ok netloc_ok s \<longleftrightarrow> netloc_ok s \<and> url_scheme s \<noteq> []"

datatype delivery_kind = Twin_Delta | Operation_Delivery | Stop_Generation

record deliver_envelope =
  dv_delivery_attempt_id :: string
  dv_message_id :: string
  dv_kind :: delivery_kind
  dv_device_ref :: device_ref
  dv_deadline :: datetime
  dv_payload_schema :: string
  dv_payload :: json_object

definition make_deliver_envelope ::
  "(string \<Rightarrow> bool) \<Rightarrow> deliver_envelope \<Rightarrow> string invalid + deliver_envelope" where
  "make_deliver_envelope netloc_ok x =
     build [(''delivery_attempt_id'', len_between 3 128 (dv_delivery_attempt_id x)),
            (''message_id'', len_between 3 128 (dv_message_id x)), (''device_ref'', wf_device_ref (dv_device_ref x)),
            (''deadline'', is_aware (dv_deadline x)),
            (''payload_schema'', len_between 1 2048 (dv_payload_schema x) \<and> absolute_uri_ok netloc_ok (dv_payload_schema x))]
       no_rules x"

datatype acceptance_state = Delivery_Accepted | Delivery_Rejected

record delivery_acceptance =
  da_delivery_attempt_id :: string
  da_state :: acceptance_state
  da_adapter_code :: "string option"

definition delivery_acceptance_fields :: "delivery_acceptance \<Rightarrow> (string \<times> bool) list" where
  "delivery_acceptance_fields x =
     [(''delivery_attempt_id'', len_between 3 128 (da_delivery_attempt_id x)),
      (''adapter_code'', opt_ok (len_between 1 128) (da_adapter_code x))]"

definition delivery_acceptance_rules :: "delivery_acceptance \<Rightarrow> (bool \<times> string) list" where
  "delivery_acceptance_rules x =
     [((da_state x = Delivery_Accepted) \<noteq> (da_adapter_code x = None),
       ''adapter_code must be null only for accepted delivery'')]"

definition make_delivery_acceptance :: "delivery_acceptance \<Rightarrow> string invalid + delivery_acceptance" where
  "make_delivery_acceptance x = build (delivery_acceptance_fields x) (delivery_acceptance_rules x) x"

definition wf_delivery_acceptance :: "delivery_acceptance \<Rightarrow> bool" where
  "wf_delivery_acceptance x \<longleftrightarrow> admissible (delivery_acceptance_fields x) (delivery_acceptance_rules x)"

interpretation delivery_acceptance_class: model_class make_delivery_acceptance wf_delivery_acceptance
  by (rule build_class; simp add: make_delivery_acceptance_def wf_delivery_acceptance_def)

record device_evidence_envelope =
  ee_delivery_attempt_id :: string
  ee_message_id :: string
  ee_device_ref :: device_ref
  ee_payload_schema :: string
  ee_payload :: json_object

definition make_device_evidence_envelope ::
  "(string \<Rightarrow> bool) \<Rightarrow> device_evidence_envelope \<Rightarrow> string invalid + device_evidence_envelope" where
  "make_device_evidence_envelope netloc_ok x =
     build [(''delivery_attempt_id'', len_between 3 128 (ee_delivery_attempt_id x)),
            (''message_id'', len_between 3 128 (ee_message_id x)), (''device_ref'', wf_device_ref (ee_device_ref x)),
            (''payload_schema'', len_between 1 2048 (ee_payload_schema x) \<and> absolute_uri_ok netloc_ok (ee_payload_schema x))]
       no_rules x"

subsection \<open>Setup descriptor\<close>

datatype setup_descriptor_trust = Development_Tofu | Manufacturer_Bound

fun trust_wire :: "setup_descriptor_trust \<Rightarrow> string" where
  "trust_wire Development_Tofu = ''development-tofu''"
| "trust_wire Manufacturer_Bound = ''manufacturer-bound''"

definition trust_members :: "(string \<times> setup_descriptor_trust) list" where
  "trust_members = [(''development-tofu'', Development_Tofu), (''manufacturer-bound'', Manufacturer_Bound)]"

record setup_descriptor =
  sd_device_id :: string
  sd_device_kind :: string
  sd_display_name :: string
  sd_identity_fingerprint :: string
  sd_session_id :: string
  sd_expires_in_seconds :: "int option"
  sd_trust :: setup_descriptor_trust

definition matches_p256_fingerprint :: "string \<Rightarrow> bool" where
  "matches_p256_fingerprint s \<longleftrightarrow> starts_with ''p256:'' s \<and> length s = 69 \<and> list_all is_lower_hex (drop 5 s)"

definition wf_setup_descriptor :: "setup_descriptor \<Rightarrow> bool" where
  "wf_setup_descriptor d \<longleftrightarrow>
     device_instance_id_ok (sd_device_id d) \<and> canonical_id (sd_device_kind d)
     \<and> len_between 1 128 (sd_display_name d) \<and> matches_p256_fingerprint (sd_identity_fingerprint d)
     \<and> b64url_text_ok 16 128 (sd_session_id d) \<and> opt_ok (\<lambda>n. 1 \<le> n) (sd_expires_in_seconds d)"

text \<open>The wire form leaves the absent duration out; reading refuses a duration given as null.\<close>

definition setup_descriptor_to_json :: "setup_descriptor \<Rightarrow> json_object" where
  "setup_descriptor_to_json d =
     [(''contract_version'', JStr ''1''), (''device_id'', JStr (sd_device_id d)),
      (''device_kind'', JStr (sd_device_kind d)), (''display_name'', JStr (sd_display_name d)),
      (''identity_fingerprint'', JStr (sd_identity_fingerprint d)), (''session_id'', JStr (sd_session_id d))]
     @ (case sd_expires_in_seconds d of None \<Rightarrow> [] | Some n \<Rightarrow> [(''expires_in_seconds'', JInt n)])
     @ [(''trust'', JStr (trust_wire (sd_trust d)))]"


definition setup_descriptor_from_json :: "json \<Rightarrow> setup_descriptor option" where
  "setup_descriptor_from_json v = (case v of
     JObj kvs \<Rightarrow>
       if only_keys [''contract_version'', ''device_id'', ''device_kind'', ''display_name'',
                     ''identity_fingerprint'', ''session_id'', ''expires_in_seconds'', ''trust''] kvs
          \<and> defaulted ''contract_version'' (is_text (\<lambda>s. s = ''1'')) kvs
          \<and> defaulted ''expires_in_seconds'' (is_integer (\<lambda>n. 1 \<le> n)) kvs
       then Option.bind (parse_text kvs ''device_id'') (\<lambda>i.
            Option.bind (parse_text kvs ''device_kind'') (\<lambda>k.
            Option.bind (parse_text kvs ''display_name'') (\<lambda>n.
            Option.bind (parse_text kvs ''identity_fingerprint'') (\<lambda>f.
            Option.bind (parse_text kvs ''session_id'') (\<lambda>s.
            Option.bind (Option.bind (parse_text kvs ''trust'') (map_of trust_members)) (\<lambda>t.
              let d = \<lparr>sd_device_id = i, sd_device_kind = k, sd_display_name = n, sd_identity_fingerprint = f,
                       sd_session_id = s, sd_expires_in_seconds = parse_int kvs ''expires_in_seconds'',
                       sd_trust = t\<rparr>
              in if wf_setup_descriptor d then Some d else None))))))
       else None
   | _ \<Rightarrow> None)"

subsection \<open>Lemmas\<close>

text \<open>What a Body stores after each answer it pulls.\<close>

definition take_answer :: "device_ref \<Rightarrow> device_ref \<Rightarrow> device_ref" where
  "take_answer held answered =
     (if classify_authority_device_ref held answered = Adopt then answered else held)"

definition same_identity :: "device_ref \<Rightarrow> device_ref \<Rightarrow> bool" where
  "same_identity d e \<longleftrightarrow> device_instance_id d = device_instance_id e \<and> owner_domain_id d = owner_domain_id e
     \<and> owner_domain_generation d = owner_domain_generation e"

lemma same_identity_refl [simp]: "same_identity d d"
  by (simp add: same_identity_def)

lemma classify_cases:
  "classify_authority_device_ref held a = Adopt \<longleftrightarrow> same_identity held a \<and> claim_order held < claim_order a"
  "classify_authority_device_ref held a = No_Correction \<longleftrightarrow> same_identity held a \<and> claim_order held = claim_order a"
  by (auto simp: classify_authority_device_ref_def same_identity_def)

lemma same_ref_iff: "same_identity d e \<and> claim_order d = claim_order e \<longleftrightarrow> d = e"
  by (cases d; cases e) (auto simp: same_identity_def claim_order_def)

interpretation stored_ref: ratchet take_answer claim_order
  by unfold_locales (auto simp: take_answer_def classify_cases)

lemma same_identity_run: "same_identity held (foldl take_answer held answers)"
proof (induction answers arbitrary: held)
  case Nil
  then show ?case by (simp add: same_identity_def)
next
  case (Cons a answers)
  have "same_identity held (take_answer held a)"
    by (auto simp: take_answer_def classify_cases)
  then show ?case using Cons [of "take_answer held a"] by (simp add: same_identity_def)
qed

lemma run_member: "foldl take_answer held answers \<in> set (held # answers)"
proof (induction answers arbitrary: held)
  case Nil
  then show ?case by simp
next
  case (Cons a answers)
  from Cons [of "take_answer held a"] show ?case by (auto simp: take_answer_def)
qed

text \<open>
  The classification of an answered reference is exact: no correction is needed precisely when
  it is the held reference, it is adopted precisely when it names the same device, Owner Domain and
  domain generation at a lexicographically later claim generation and trust epoch, and of two
  different references at most one is ever adopted over the other.
\<close>

theorem classification_exact:
  "(classify_authority_device_ref held answered = No_Correction \<longleftrightarrow> answered = held)
   \<and> (classify_authority_device_ref held answered = Adopt \<longleftrightarrow>
        same_identity held answered
        \<and> (claim_generation held < claim_generation answered
            \<or> claim_generation held = claim_generation answered \<and> trust_epoch held < trust_epoch answered))
   \<and> \<not> (classify_authority_device_ref held answered = Adopt \<and> classify_authority_device_ref answered held = Adopt)"
  by (auto simp: classify_cases same_ref_iff same_identity_def) (auto simp: claim_order_def)

text \<open>
  C2. A Body that stores what it adopts never goes back: after any sequence of answers, adversarial
  or replayed, its reference is still for the same device, domain and domain generation, is the
  one it started with or one of the answers, and its claim order has not decreased; if the order is
  where it was, so is the reference.
\<close>

theorem stored_ref_never_goes_back:
  "same_identity held (foldl take_answer held answers)
   \<and> foldl take_answer held answers \<in> set (held # answers)
   \<and> claim_order held \<le> claim_order (foldl take_answer held answers)
   \<and> (claim_order (foldl take_answer held answers) = claim_order held \<longleftrightarrow> foldl take_answer held answers = held)"
  using same_identity_run run_member stored_ref.run_rank stored_ref.run_same by (metis (mono_tags))

lemma map_of_trust_members [simp]: "map_of trust_members (trust_wire t) = Some t"
  by (cases t) (simp_all add: trust_members_def)

lemma setup_round_trip:
  "wf_setup_descriptor d \<Longrightarrow> setup_descriptor_from_json (JObj (setup_descriptor_to_json d)) = Some d"
  by (cases d; cases "sd_expires_in_seconds d")
    (simp_all add: setup_descriptor_from_json_def setup_descriptor_to_json_def only_keys_def defaulted_def
      parse_text_def parse_int_def wf_setup_descriptor_def)

interpretation setup_wire:
  codec "\<lambda>d. JObj (setup_descriptor_to_json d)" setup_descriptor_from_json wf_setup_descriptor
  by unfold_locales (rule setup_round_trip)

lemma setup_expiry_read:
  "map_of kvs ''expires_in_seconds'' = Some v \<Longrightarrow> setup_descriptor_from_json (JObj kvs) = Some d \<Longrightarrow>
     \<exists>n. v = JInt n \<and> 1 \<le> n"
  by (cases v) (auto simp: setup_descriptor_from_json_def defaulted_def split: if_splits)

text \<open>
  A valid setup descriptor is read back from its own wire form, in which an offer without end
  has no \<open>expires_in_seconds\<close> key at all; and no reader accepts a descriptor that writes that key
  with null, zero, a negative number or anything but a duration.
\<close>

theorem setup_descriptor_round_trip:
  assumes "wf_setup_descriptor d"
  shows "setup_descriptor_from_json (JObj (setup_descriptor_to_json d)) = Some d
    \<and> map_of (setup_descriptor_to_json d) ''expires_in_seconds'' = map_option JInt (sd_expires_in_seconds d)
    \<and> \<not> (\<exists>kvs e. map_of kvs ''expires_in_seconds'' \<in> {Some JNull, Some (JInt 0)}
            \<and> setup_descriptor_from_json (JObj kvs) = Some e)"
proof -
  have "map_of (setup_descriptor_to_json d) ''expires_in_seconds'' = map_option JInt (sd_expires_in_seconds d)"
    by (simp add: setup_descriptor_to_json_def split: option.split)
  then show ?thesis
    using setup_wire.dec_enc [OF assms] setup_expiry_read by fastforce
qed

definition sample_descriptor :: setup_descriptor where
  "sample_descriptor = \<lparr>sd_device_id = sample_instance_id, sd_device_kind = ''lamp'', sd_display_name = ''Lamp'',
     sd_identity_fingerprint = ''p256:'' @ sha256_hex [], sd_session_id = ''aaaaaaaaaaaaaaaa'',
     sd_expires_in_seconds = None, sd_trust = Development_Tofu\<rparr>"

theorem setup_descriptor_round_trip_witness:
  "setup_descriptor_from_json (JObj (setup_descriptor_to_json sample_descriptor)) = Some sample_descriptor"
proof -
  have "wf_setup_descriptor sample_descriptor"
    by (simp add: wf_setup_descriptor_def sample_descriptor_def matches_p256_fingerprint_def starts_with_def
        canonical_id_def len_between_def matches_identifier_def identifier_char_def char_class_defs b64url_text_ok_def)
  from setup_descriptor_round_trip [OF this] show ?thesis by simp
qed

text \<open>
  The two documents a device signs on the Device Control edge never coincide, whatever they are
  signed for, and each determines the reference, the nonce and the manifest digest it vouches for.
\<close>

theorem device_control_proofs_separated:
  "device_control_configuration_proof_document d n \<noteq> manifest_signing_document a
   \<and> (device_control_configuration_proof_document d n = device_control_configuration_proof_document e m
        \<longleftrightarrow> (d, n) = (e, m))
   \<and> (manifest_signing_document a = manifest_signing_document b \<longleftrightarrow>
        (adm_device_ref a, md_digest (adm_manifest a), adm_nonce a)
        = (adm_device_ref b, md_digest (adm_manifest b), adm_nonce b))"
  by (simp add: device_control_configuration_proof_document_def manifest_signing_document_def device_ref_json_inj)

end
