(* ===== verification/Device_Erase.thy ===== *)
theory Device_Erase
  imports Admission
begin

text \<open>
  Device-local erase (\<open>device_foundation/v1/device_erase.py\<close>): the command, its acknowledgement and
  status, and the verification of ES256 signatures over their RFC 8785 bytes. The
  \<open>cryptography\<close> package is third-party: loading a DER key (\<open>load_der\<close>, \<open>None\<close> raises),
  whether it is on P-256, the DSS encoding of a signature and its verification are arguments,
  as is \<open>canon\<close>; \<open>wire_time\<close> is pydantic's text of a timestamp.
\<close>

subsection \<open>Signed documents\<close>

record device_operation_key_proof =
  kp_device_instance_id :: string
  kp_enrollment_request_id :: string
  kp_public_key_spki :: string
  kp_possession_signature :: string

definition device_operation_key_proof_fields :: "device_operation_key_proof \<Rightarrow> (string \<times> bool) list" where
  "device_operation_key_proof_fields x =
     [(''device_instance_id'', device_instance_id_ok (kp_device_instance_id x)),
      (''enrollment_request_id'', len_between 3 128 (kp_enrollment_request_id x)),
      (''public_key_spki'', b64url_text_ok 120 256 (kp_public_key_spki x)),
      (''possession_signature'', b64url_text_ok 86 86 (kp_possession_signature x))]"

definition make_device_operation_key_proof :: "device_operation_key_proof \<Rightarrow> string invalid + device_operation_key_proof" where
  "make_device_operation_key_proof x = build (device_operation_key_proof_fields x) no_rules x"

definition wf_device_operation_key_proof :: "device_operation_key_proof \<Rightarrow> bool" where
  "wf_device_operation_key_proof x \<longleftrightarrow> admissible (device_operation_key_proof_fields x) no_rules"

interpretation device_operation_key_proof_class: model_class make_device_operation_key_proof wf_device_operation_key_proof
  by (rule build_class; simp add: make_device_operation_key_proof_def wf_device_operation_key_proof_def)

definition key_proof_signing_document :: "device_operation_key_proof \<Rightarrow> json" where
  "key_proof_signing_document p =
     JObj [(''device_instance_id'', JStr (kp_device_instance_id p)),
           (''enrollment_request_id'', JStr (kp_enrollment_request_id p)),
           (''public_key_spki'', JStr (kp_public_key_spki p))]"

datatype erase_scope = Owner_Credentials | Owner_Data | Network_Profiles

fun erase_scope_wire :: "erase_scope \<Rightarrow> string" where
  "erase_scope_wire Owner_Credentials = ''owner-credentials''"
| "erase_scope_wire Owner_Data = ''owner-data''"
| "erase_scope_wire Network_Profiles = ''network-profiles''"

definition default_erase_scopes :: "erase_scope list" where
  "default_erase_scopes = [Owner_Credentials, Owner_Data, Network_Profiles]"

definition make_erase_payload :: "erase_scope list \<Rightarrow> string invalid + erase_scope list" where
  "make_erase_payload scopes =
     build [] [(scopes = [] \<or> has_duplicates scopes, ''erase_scopes must be non-empty and unique'')] scopes"

definition wf_erase_payload :: "erase_scope list \<Rightarrow> bool" where
  "wf_erase_payload scopes \<longleftrightarrow> scopes \<noteq> [] \<and> distinct scopes"

interpretation erase_payload_class: model_class make_erase_payload wf_erase_payload
  by unfold_locales (auto simp: make_erase_payload_def wf_erase_payload_def guard_simps)

record device_local_erase_command =
  ec_operation_id :: string
  ec_device_ref :: device_ref
  ec_deadline :: datetime
  ec_payload :: "erase_scope list"

definition device_local_erase_command_fields :: "device_local_erase_command \<Rightarrow> (string \<times> bool) list" where
  "device_local_erase_command_fields x =
     [(''operation_id'', len_between 3 128 (ec_operation_id x)),
      (''device_ref'', wf_device_ref (ec_device_ref x)),
      (''deadline'', is_aware (ec_deadline x)),
      (''payload'', wf_erase_payload (ec_payload x))]"

definition make_device_local_erase_command :: "device_local_erase_command \<Rightarrow> string invalid + device_local_erase_command" where
  "make_device_local_erase_command x = build (device_local_erase_command_fields x) no_rules x"

definition wf_device_local_erase_command :: "device_local_erase_command \<Rightarrow> bool" where
  "wf_device_local_erase_command x \<longleftrightarrow> admissible (device_local_erase_command_fields x) no_rules"

interpretation device_local_erase_command_class: model_class make_device_local_erase_command wf_device_local_erase_command
  by (rule build_class; simp add: make_device_local_erase_command_def wf_device_local_erase_command_def)

datatype erase_result = Erased | Erase_Permanent_Failure

fun erase_result_wire :: "erase_result \<Rightarrow> string" where
  "erase_result_wire Erased = ''erased''"
| "erase_result_wire Erase_Permanent_Failure = ''permanent-failure''"

record device_local_erase_ack =
  ea_operation_id :: string
  ea_device_ref :: device_ref
  ea_ack_sequence :: int
  ea_result :: erase_result
  ea_result_code :: string
  ea_device_monotonic_time :: int
  ea_device_signature :: string

definition device_local_erase_ack_fields :: "device_local_erase_ack \<Rightarrow> (string \<times> bool) list" where
  "device_local_erase_ack_fields x =
     [(''operation_id'', len_between 3 128 (ea_operation_id x)),
      (''device_ref'', wf_device_ref (ea_device_ref x)),
      (''ack_sequence'', 1 \<le> ea_ack_sequence x),
      (''result_code'', len_between 1 128 (ea_result_code x)),
      (''device_monotonic_time'', 0 \<le> ea_device_monotonic_time x),
      (''device_signature'', b64url_text_ok 86 86 (ea_device_signature x))]"

definition make_device_local_erase_ack :: "device_local_erase_ack \<Rightarrow> string invalid + device_local_erase_ack" where
  "make_device_local_erase_ack x = build (device_local_erase_ack_fields x) no_rules x"

definition wf_device_local_erase_ack :: "device_local_erase_ack \<Rightarrow> bool" where
  "wf_device_local_erase_ack x \<longleftrightarrow> admissible (device_local_erase_ack_fields x) no_rules"

interpretation device_local_erase_ack_class: model_class make_device_local_erase_ack wf_device_local_erase_ack
  by (rule build_class; simp add: make_device_local_erase_ack_def wf_device_local_erase_ack_def)

definition erase_ack_signing_document :: "device_local_erase_ack \<Rightarrow> json" where
  "erase_ack_signing_document a =
     JObj [(''contract'', JStr ''eidolon.device-foundation.device-operation-ack''),
           (''contract_version'', JStr ''1.0''), (''operation_id'', JStr (ea_operation_id a)),
           (''operation_type'', JStr ''device-local.erase''), (''device_ref'', device_ref_json (ea_device_ref a)),
           (''ack_sequence'', JInt (ea_ack_sequence a)), (''result'', JStr (erase_result_wire (ea_result a))),
           (''result_code'', JStr (ea_result_code a)),
           (''device_monotonic_time'', JInt (ea_device_monotonic_time a))]"

datatype erase_state = Erase_Accepted | Erase_Pending | Erase_Delivery_Accepted | Erase_Acknowledged
  | Erase_Expired | Erase_Failed

datatype terminal_result = Terminal_Erased | Terminal_Failure | Terminal_Deadline_Expired

fun expected_result :: "erase_state \<Rightarrow> terminal_result option" where
  "expected_result Erase_Acknowledged = Some Terminal_Erased"
| "expected_result Erase_Expired = Some Terminal_Deadline_Expired"
| "expected_result Erase_Failed = Some Terminal_Failure"
| "expected_result _ = None"

record erase_operation_status =
  es_operation_id :: string
  es_request_fingerprint :: string
  es_device_ref :: device_ref
  es_created_at :: datetime
  es_deadline :: datetime
  es_state :: erase_state
  es_attempt_count :: int
  es_terminal_result :: "terminal_result option"

definition erase_operation_status_fields :: "erase_operation_status \<Rightarrow> (string \<times> bool) list" where
  "erase_operation_status_fields x =
     [(''operation_id'', len_between 3 128 (es_operation_id x)),
      (''request_fingerprint'', matches_sha256 (es_request_fingerprint x)),
      (''device_ref'', wf_device_ref (es_device_ref x)),
      (''created_at'', is_aware (es_created_at x)),
      (''deadline'', is_aware (es_deadline x)),
      (''attempt_count'', 0 \<le> es_attempt_count x)]"

definition erase_operation_status_rules :: "erase_operation_status \<Rightarrow> (bool \<times> string) list" where
  "erase_operation_status_rules x =
     [(es_terminal_result x \<noteq> expected_result (es_state x),
       ''terminal state and terminal_result disagree''),
      (instant (es_deadline x) \<le> instant (es_created_at x),
       ''deadline must follow created_at'')]"

definition make_erase_operation_status :: "erase_operation_status \<Rightarrow> string invalid + erase_operation_status" where
  "make_erase_operation_status x = build (erase_operation_status_fields x) (erase_operation_status_rules x) x"

definition wf_erase_operation_status :: "erase_operation_status \<Rightarrow> bool" where
  "wf_erase_operation_status x \<longleftrightarrow> admissible (erase_operation_status_fields x) (erase_operation_status_rules x)"

interpretation erase_operation_status_class: model_class make_erase_operation_status wf_erase_operation_status
  by (rule build_class; simp add: make_erase_operation_status_def wf_erase_operation_status_def)


subsection \<open>Verification\<close>

datatype erase_error = Bad_Public_Key | Not_P256 | Bad_Base64url | Bad_Signature_Length
  | Not_Canonicalizable | Signature_Failed

definition erase_base64_decode :: "string \<Rightarrow> erase_error + byte list" where
  "erase_base64_decode s = or_raise Bad_Base64url (b64url_decode s)"

definition canonical_bytes :: "(json \<Rightarrow> byte list option) \<Rightarrow> json \<Rightarrow> erase_error + byte list" where
  "canonical_bytes canon v = or_raise Not_Canonicalizable (canon v)"

definition erase_command_json :: "(datetime \<Rightarrow> string) \<Rightarrow> device_local_erase_command \<Rightarrow> json" where
  "erase_command_json wire_time c =
     JObj [(''contract'', JStr ''eidolon.device-foundation.device-operation''), (''contract_version'', JStr ''1.0''),
           (''operation_id'', JStr (ec_operation_id c)), (''operation_type'', JStr ''device-local.erase''),
           (''device_ref'', device_ref_json (ec_device_ref c)), (''deadline'', JStr (wire_time (ec_deadline c))),
           (''payload'', JObj [(''erase_scopes'', JArr (map (\<lambda>s. JStr (erase_scope_wire s)) (ec_payload c)))])]"

definition operation_fingerprint ::
  "(json \<Rightarrow> byte list option) \<Rightarrow> (datetime \<Rightarrow> string) \<Rightarrow> device_local_erase_command \<Rightarrow> erase_error + string" where
  "operation_fingerprint canon wire_time c =
     and_then (canonical_bytes canon (erase_command_json wire_time c)) (\<lambda>b. Inr (''sha256:'' @ sha256_hex b))"

definition operation_key_id :: "string \<Rightarrow> erase_error + string" where
  "operation_key_id key = reraise (\<lambda>_. Bad_Public_Key) (operational_key_id key)"

definition key_bytes :: "string \<Rightarrow> erase_error + byte list" where
  "key_bytes key = reraise (\<lambda>_. Bad_Public_Key) (operational_public_key_bytes key)"

record 'k crypto =
  load_der :: "byte list \<Rightarrow> 'k option"
  on_p256 :: "'k \<Rightarrow> bool"
  dss_der :: "nat \<Rightarrow> nat \<Rightarrow> byte list"
  ecdsa_ok :: "'k \<Rightarrow> byte list \<Rightarrow> byte list \<Rightarrow> bool"

definition verify_p256_signature ::
  "'k crypto \<Rightarrow> (json \<Rightarrow> byte list option) \<Rightarrow> string \<Rightarrow> json \<Rightarrow> string \<Rightarrow> erase_error + unit" where
  "verify_p256_signature cr canon public_key document signature =
     and_then (and_then (key_bytes public_key) (\<lambda>raw. or_raise Bad_Public_Key (load_der cr raw))) (\<lambda>key.
     and_then (guarded [(\<not> on_p256 cr key, Not_P256)] ()) (\<lambda>_.
     and_then (erase_base64_decode signature) (\<lambda>raw.
     and_then (guarded [(length raw \<noteq> 64, Bad_Signature_Length)] ()) (\<lambda>_.
     let der = dss_der cr (big_endian (take 32 raw)) (big_endian (drop 32 raw))
     in and_then (canonical_bytes canon document) (\<lambda>b.
        guarded [(\<not> ecdsa_ok cr key der b, Signature_Failed)] ())))))"

definition verify_operation_key_proof ::
  "'k crypto \<Rightarrow> (json \<Rightarrow> byte list option) \<Rightarrow> device_operation_key_proof \<Rightarrow> erase_error + unit" where
  "verify_operation_key_proof cr canon p =
     verify_p256_signature cr canon (kp_public_key_spki p) (key_proof_signing_document p) (kp_possession_signature p)"

definition verify_device_erase_ack ::
  "'k crypto \<Rightarrow> (json \<Rightarrow> byte list option) \<Rightarrow> device_local_erase_ack \<Rightarrow> string \<Rightarrow> erase_error + unit" where
  "verify_device_erase_ack cr canon a public_key =
     verify_p256_signature cr canon public_key (erase_ack_signing_document a) (ea_device_signature a)"

subsection \<open>Lemmas\<close>

lemma erase_result_wire_inj: "erase_result_wire r = erase_result_wire s \<longleftrightarrow> r = s"
  by (cases r; cases s) simp_all

lemma key_bytes_scheme [simp]: "key_bytes (spki_scheme @ b64url raw) = key_bytes (b64url raw)"
  by (simp add: key_bytes_def)

lemma verify_ok_iff:
  "verify_p256_signature cr canon public_key document signature = Inr () \<longleftrightarrow>
     (\<exists>spki key raw b. operational_public_key_bytes public_key = Inr spki \<and> load_der cr spki = Some key
        \<and> on_p256 cr key \<and> b64url_decode signature = Some raw \<and> length raw = 64 \<and> canon document = Some b
        \<and> ecdsa_ok cr key (dss_der cr (big_endian (take 32 raw)) (big_endian (drop 32 raw))) b)"
  by (auto simp: verify_p256_signature_def guard_simps key_bytes_def erase_base64_decode_def canonical_bytes_def
      Let_def)

text \<open>
  An erase acknowledgement verifies exactly when the ledger's key, under either spelling, is a
  loadable P-256 key, the signature is the base64url of 64 bytes, and ECDSA accepts its two
  halves over the canonical bytes of the acknowledgement without its signature field. The spelling
  of the key makes no difference to any outcome, failures included.
\<close>

theorem erase_ack_verification:
  "(verify_device_erase_ack cr canon a public_key = Inr () \<longleftrightarrow>
      (\<exists>spki key raw b. operational_public_key_bytes public_key = Inr spki \<and> load_der cr spki = Some key
         \<and> on_p256 cr key \<and> b64url_decode (ea_device_signature a) = Some raw \<and> length raw = 64
         \<and> canon (erase_ack_signing_document a) = Some b
         \<and> ecdsa_ok cr key (dss_der cr (big_endian (take 32 raw)) (big_endian (drop 32 raw))) b))
   \<and> verify_device_erase_ack cr canon a (spki_scheme @ b64url spki')
       = verify_device_erase_ack cr canon a (b64url spki')"
  by (simp add: verify_device_erase_ack_def verify_ok_iff) (simp add: verify_p256_signature_def)

text \<open>
  What an acknowledgement signs covers everything it says but the signature: two
  acknowledgements have the same signing document exactly when they differ in their signature at
  most, so no signature carries over to another operation, device, result or sequence number.
\<close>

theorem erase_ack_signs_everything:
  "erase_ack_signing_document a = erase_ack_signing_document b \<longleftrightarrow>
     b = a\<lparr>ea_device_signature := ea_device_signature b\<rparr>"
  by (cases a; cases b) (auto simp: erase_ack_signing_document_def device_ref_json_inj erase_result_wire_inj)

end
