(* ===== verification/Authority_Locator.thy ===== *)
theory Authority_Locator
  imports Identity "HOL-Library.Multiset" "HOL-Library.Product_Lexorder" "HOL-Library.Option_ord" "HOL-Library.List_Lexorder"
    "HOL-Library.Char_ord"
begin

text \<open>
  The Owner Domain directory (\<open>device_foundation/v1/authority_locator.py\<close>): signed descriptors, the
  trust anchor that delegates their signing key, and the locator, a state machine that accepts
  descriptors and resolves endpoints. X.509 and ECDSA are the \<open>cryptography\<close> package, given as
  a record of functions over abstract certificates, public and private keys; \<open>canon\<close> is RFC 8785
  and \<open>wire_time\<close> pydantic's text of a timestamp.
\<close>

datatype logical_authority = Auth_Admission | Auth_Device_Control | Auth_Body_Mesh | Auth_Companion

fun authority_wire :: "logical_authority \<Rightarrow> string" where
  "authority_wire Auth_Admission = ''admission''"
| "authority_wire Auth_Device_Control = ''device-control''"
| "authority_wire Auth_Body_Mesh = ''body-mesh''"
| "authority_wire Auth_Companion = ''companion''"

record authority_endpoint =
  ae_authority :: logical_authority
  ae_logical_audience :: string
  ae_uri :: string
  ae_transport_profile :: string
  ae_priority :: int

definition wf_authority_endpoint :: "authority_endpoint \<Rightarrow> bool" where
  "wf_authority_endpoint e \<longleftrightarrow>
     len_between 1 128 (ae_logical_audience e)
     \<and> starts_with ''https://'' (ae_uri e) \<and> len_between 0 2048 (ae_uri e)
     \<and> ae_transport_profile e \<in> {''https-json'', ''mqtt-tls'', ''nats-tls''}
     \<and> 0 \<le> ae_priority e \<and> ae_priority e \<le> 65535"

definition make_authority_endpoint :: "authority_endpoint \<Rightarrow> string invalid + authority_endpoint" where
  "make_authority_endpoint e =
     build [(''logical_audience'', len_between 1 128 (ae_logical_audience e)),
            (''uri'', starts_with ''https://'' (ae_uri e) \<and> len_between 0 2048 (ae_uri e)),
            (''transport_profile'', ae_transport_profile e \<in> {''https-json'', ''mqtt-tls'', ''nats-tls''}),
            (''priority'', 0 \<le> ae_priority e \<and> ae_priority e \<le> 65535)] no_rules e"

interpretation authority_endpoint_class: model_class make_authority_endpoint wf_authority_endpoint
  by unfold_locales (auto simp: make_authority_endpoint_def wf_authority_endpoint_def guard_simps)

record owner_domain_descriptor =
  od_owner_domain_id :: string
  od_owner_domain_generation :: int
  od_directory_revision :: int
  od_descriptor_uri :: string
  od_trust_root_refs :: "string list"
  od_endpoints :: "authority_endpoint list"
  od_issued_at :: datetime
  od_expires_at :: datetime
  od_signing_key_id :: string
  od_signature :: string

definition trust_root_ref_ok :: "string \<Rightarrow> bool" where
  "trust_root_ref_ok s \<longleftrightarrow> \<not> (length s \<noteq> 71 \<or> \<not> starts_with ''sha256:'' s
     \<or> list_ex (\<lambda>c. c \<notin> set ''0123456789abcdef'') (drop 7 s))"

definition endpoint_identity :: "authority_endpoint \<Rightarrow> logical_authority \<times> string \<times> string" where
  "endpoint_identity e = (ae_authority e, ae_logical_audience e, ae_uri e)"

definition descriptor_fields :: "owner_domain_descriptor \<Rightarrow> (string \<times> bool) list" where
  "descriptor_fields d =
     [(''owner_domain_id'', len_between 1 128 (od_owner_domain_id d)),
      (''owner_domain_generation'', 1 \<le> od_owner_domain_generation d),
      (''directory_revision'', 1 \<le> od_directory_revision d),
      (''descriptor_uri'', starts_with ''https://'' (od_descriptor_uri d) \<and> len_between 0 2048 (od_descriptor_uri d)),
      (''trust_root_refs'', 1 \<le> length (od_trust_root_refs d) \<and> \<not> has_duplicates (od_trust_root_refs d)
          \<and> list_all trust_root_ref_ok (od_trust_root_refs d)),
      (''endpoints'', 1 \<le> length (od_endpoints d) \<and> list_all wf_authority_endpoint (od_endpoints d)),
      (''issued_at'', is_aware (od_issued_at d)), (''expires_at'', is_aware (od_expires_at d)),
      (''signing_key_id'', matches_sha256 (od_signing_key_id d)),
      (''signature'', length (od_signature d) = 86 \<and> list_all is_b64url_char (od_signature d))]"

definition descriptor_rules :: "owner_domain_descriptor \<Rightarrow> (bool \<times> string) list" where
  "descriptor_rules d =
     [(instant (od_expires_at d) \<le> instant (od_issued_at d), ''descriptor expires_at must be after issued_at''),
      (has_duplicates (map endpoint_identity (od_endpoints d)), ''descriptor endpoints must be unique'')]"

definition make_owner_domain_descriptor ::
  "owner_domain_descriptor \<Rightarrow> string invalid + owner_domain_descriptor" where
  "make_owner_domain_descriptor d = build (descriptor_fields d) (descriptor_rules d) d"

definition wf_owner_domain_descriptor :: "owner_domain_descriptor \<Rightarrow> bool" where
  "wf_owner_domain_descriptor d \<longleftrightarrow> admissible (descriptor_fields d) (descriptor_rules d)"

interpretation owner_domain_descriptor_class:
  model_class make_owner_domain_descriptor wf_owner_domain_descriptor
  by (rule build_class; simp add: make_owner_domain_descriptor_def wf_owner_domain_descriptor_def)

subsection \<open>The signed bytes\<close>

definition endpoint_json :: "authority_endpoint \<Rightarrow> json" where
  "endpoint_json e =
     JObj [(''authority'', JStr (authority_wire (ae_authority e))),
           (''logical_audience'', JStr (ae_logical_audience e)), (''uri'', JStr (ae_uri e)),
           (''transport_profile'', JStr (ae_transport_profile e)), (''priority'', JInt (ae_priority e))]"

definition descriptor_signing_document :: "(datetime \<Rightarrow> string) \<Rightarrow> owner_domain_descriptor \<Rightarrow> json" where
  "descriptor_signing_document wire_time d =
     JObj [(''owner_domain_id'', JStr (od_owner_domain_id d)),
           (''owner_domain_generation'', JInt (od_owner_domain_generation d)),
           (''directory_revision'', JInt (od_directory_revision d)),
           (''descriptor_uri'', JStr (od_descriptor_uri d)),
           (''trust_root_refs'', JArr (map JStr (od_trust_root_refs d))),
           (''endpoints'', JArr (map endpoint_json (od_endpoints d))),
           (''issued_at'', JStr (wire_time (od_issued_at d))), (''expires_at'', JStr (wire_time (od_expires_at d))),
           (''signing_key_id'', JStr (od_signing_key_id d))]"

subsection \<open>Trust anchor\<close>

text \<open>
  The third-party functions: reading a certificate from PEM text (\<open>None\<close> raises ValueError), its
  key, whether a key is on P-256, PEM and DER forms of a public key, the validity bounds, the
  extensions (\<open>None\<close> is ExtensionNotFound), whether a certificate is signed by a key, ECDSA.
\<close>

record ('c, 'k, 'p) pki =
  load_certificate :: "string \<Rightarrow> 'c option"
  certificate_key :: "'c \<Rightarrow> 'k"
  key_on_p256 :: "'k \<Rightarrow> bool"
  public_pem :: "'k \<Rightarrow> string"
  load_public_pem :: "string \<Rightarrow> 'k option"
  public_der :: "'k \<Rightarrow> byte list"
  not_before :: "'c \<Rightarrow> int"
  not_after :: "'c \<Rightarrow> int"
  is_ca :: "'c \<Rightarrow> bool option"
  signs_code :: "'c \<Rightarrow> bool option"
  signed_by :: "'k \<Rightarrow> 'c \<Rightarrow> bool"
  dss_encode :: "nat \<Rightarrow> nat \<Rightarrow> byte list"
  dss_decode :: "byte list \<Rightarrow> nat \<times> nat"
  ecdsa_verifies :: "'k \<Rightarrow> byte list \<Rightarrow> byte list \<Rightarrow> bool"
  private_on_p256 :: "'p \<Rightarrow> bool"
  private_public :: "'p \<Rightarrow> 'k"
  ecdsa_sign :: "'p \<Rightarrow> byte list \<Rightarrow> byte list"
  canonical :: "json \<Rightarrow> byte list option"
  time_text :: "datetime \<Rightarrow> string"

datatype locator_error =
    Root_Certificate_Invalid | Root_Key_Not_P256 | Signing_Certificate_Invalid | Signing_Key_Not_P256
  | Key_Unreadable | Key_Not_P256 | Time_Without_Offset | Root_Not_Valid_Now | Signing_Not_Valid_Now
  | Lacks_Constrained_Usage | Root_Not_A_CA | Not_A_Signing_Leaf | Not_Delegated
  | Wrong_Owner_Domain | Signing_Key_Not_Delegated | Root_Not_Retained | Signature_Not_Base64url
  | Signature_Not_64_Bytes | Document_Not_Canonical | Descriptor_Signature_Invalid
  | Not_Yet_Valid | Descriptor_Expired | Generation_Rollback | Revision_Rollback | Revision_Reused
  | Domain_Not_Commissioned | Discovery_Required | No_Endpoint logical_authority

record trust_anchor =
  ta_owner_domain_id :: string
  ta_owner_root_certificate_pem :: string
  ta_authority_signing_certificate_pem :: string
  ta_trust_epoch :: int

definition make_trust_anchor :: "trust_anchor \<Rightarrow> string invalid + trust_anchor" where
  "make_trust_anchor a =
     build [(''owner_domain_id'', len_between 1 128 (ta_owner_domain_id a)),
            (''owner_root_certificate_pem'', len_between 1 4096 (ta_owner_root_certificate_pem a)),
            (''authority_signing_certificate_pem'', len_between 1 4096 (ta_authority_signing_certificate_pem a)),
            (''trust_epoch'', 1 \<le> ta_trust_epoch a)] no_rules a"

definition descriptor_public_key :: "('c, 'k, 'p) pki \<Rightarrow> string \<Rightarrow> locator_error + 'k" where
  "descriptor_public_key pk pem =
     and_then (or_raise Key_Unreadable (load_public_pem pk pem))
       (\<lambda>key. guarded [(\<not> key_on_p256 pk key, Key_Not_P256)] key)"

definition descriptor_key_id :: "('c, 'k, 'p) pki \<Rightarrow> string \<Rightarrow> locator_error + string" where
  "descriptor_key_id pk pem =
     and_then (descriptor_public_key pk pem) (\<lambda>key. Inr (''sha256:'' @ sha256_hex (public_der pk key)))"

definition owner_root_certificate :: "('c, 'k, 'p) pki \<Rightarrow> trust_anchor \<Rightarrow> locator_error + 'c" where
  "owner_root_certificate pk a =
     or_raise Root_Certificate_Invalid (load_certificate pk (ta_owner_root_certificate_pem a))"

definition owner_root_key :: "('c, 'k, 'p) pki \<Rightarrow> trust_anchor \<Rightarrow> locator_error + 'k" where
  "owner_root_key pk a =
     and_then (owner_root_certificate pk a) (\<lambda>c.
       guarded [(\<not> key_on_p256 pk (certificate_key pk c), Root_Key_Not_P256)] (certificate_key pk c))"

definition anchor_key_id :: "('c, 'k, 'p) pki \<Rightarrow> trust_anchor \<Rightarrow> locator_error + string" where
  "anchor_key_id pk a = and_then (owner_root_key pk a) (\<lambda>k. descriptor_key_id pk (public_pem pk k))"

definition authority_key :: "('c, 'k, 'p) pki \<Rightarrow> trust_anchor \<Rightarrow> locator_error + 'k" where
  "authority_key pk a =
     and_then (or_raise Signing_Certificate_Invalid (load_certificate pk (ta_authority_signing_certificate_pem a))) (\<lambda>c.
       guarded [(\<not> key_on_p256 pk (certificate_key pk c), Signing_Key_Not_P256)] (certificate_key pk c))"

definition authority_key_id :: "('c, 'k, 'p) pki \<Rightarrow> trust_anchor \<Rightarrow> locator_error + string" where
  "authority_key_id pk a = and_then (authority_key pk a) (\<lambda>k. descriptor_key_id pk (public_pem pk k))"

definition utc :: "datetime \<Rightarrow> locator_error + int" where
  "utc t = guarded [(\<not> is_aware t, Time_Without_Offset)] (instant t)"

definition validate_delegation :: "('c, 'k, 'p) pki \<Rightarrow> trust_anchor \<Rightarrow> datetime \<Rightarrow> locator_error + unit" where
  "validate_delegation pk a now =
     and_then (owner_root_certificate pk a) (\<lambda>root.
     and_then (or_raise Signing_Certificate_Invalid (load_certificate pk (ta_authority_signing_certificate_pem a))) (\<lambda>leaf.
     and_then (utc now) (\<lambda>t.
     and_then (guarded [(t < not_before pk root \<or> t \<ge> not_after pk root, Root_Not_Valid_Now),
                        (t < not_before pk leaf \<or> t \<ge> not_after pk leaf, Signing_Not_Valid_Now)] ()) (\<lambda>_.
     and_then (or_raise Lacks_Constrained_Usage (is_ca pk root)) (\<lambda>root_ca.
     and_then (or_raise Lacks_Constrained_Usage (is_ca pk leaf)) (\<lambda>leaf_ca.
     and_then (or_raise Lacks_Constrained_Usage (signs_code pk leaf)) (\<lambda>usage.
     and_then (guarded [(\<not> root_ca, Root_Not_A_CA), (leaf_ca \<or> \<not> usage, Not_A_Signing_Leaf)] ()) (\<lambda>_.
     and_then (owner_root_key pk a) (\<lambda>k.
       guarded [(\<not> signed_by pk k leaf, Not_Delegated)] ())))))))))"

subsection \<open>Signing and verifying descriptors\<close>

definition raw_signature :: "string \<Rightarrow> locator_error + byte list" where
  "raw_signature s =
     and_then (or_raise Signature_Not_Base64url (urlsafe_b64decode (s @ ''=='')))
       (\<lambda>raw. guarded [(length raw \<noteq> 64, Signature_Not_64_Bytes)] raw)"

definition canonical_signing_bytes ::
  "('c, 'k, 'p) pki \<Rightarrow> owner_domain_descriptor \<Rightarrow> locator_error + byte list" where
  "canonical_signing_bytes pk d =
     or_raise Document_Not_Canonical (canonical pk (descriptor_signing_document (time_text pk) d))"

text \<open>\<open>r\<close> or \<open>s\<close> not fitting in 32 bytes is OverflowError, given the name of the length error here.\<close>

definition sign_descriptor ::
  "('c, 'k, 'p) pki \<Rightarrow> owner_domain_descriptor \<Rightarrow> 'p \<Rightarrow> locator_error + owner_domain_descriptor" where
  "sign_descriptor pk d priv =
     and_then (guarded [(\<not> private_on_p256 pk priv, Key_Not_P256)] ()) (\<lambda>_.
     and_then (descriptor_key_id pk (public_pem pk (private_public pk priv))) (\<lambda>key_id.
     let unsigned = d\<lparr>od_signing_key_id := key_id\<rparr>
     in and_then (canonical_signing_bytes pk unsigned) (\<lambda>b.
        case dss_decode pk (ecdsa_sign pk priv b) of (r, s) \<Rightarrow>
        and_then (or_raise Signature_Not_64_Bytes (to_bytes 32 r)) (\<lambda>rb.
        and_then (or_raise Signature_Not_64_Bytes (to_bytes 32 s)) (\<lambda>sb.
          Inr (unsigned\<lparr>od_signature := b64url (rb @ sb)\<rparr>))))))"

definition verify_descriptor ::
  "('c, 'k, 'p) pki \<Rightarrow> owner_domain_descriptor \<Rightarrow> trust_anchor \<Rightarrow> locator_error + unit" where
  "verify_descriptor pk d a =
     and_then (guarded [(od_owner_domain_id d \<noteq> ta_owner_domain_id a, Wrong_Owner_Domain)] ()) (\<lambda>_.
     and_then (authority_key_id pk a) (\<lambda>signing_id.
     and_then (guarded [(od_signing_key_id d \<noteq> signing_id, Signing_Key_Not_Delegated)] ()) (\<lambda>_.
     and_then (anchor_key_id pk a) (\<lambda>root_id.
     and_then (guarded [(root_id \<notin> set (od_trust_root_refs d), Root_Not_Retained)] ()) (\<lambda>_.
     and_then (raw_signature (od_signature d)) (\<lambda>raw.
     let der = dss_encode pk (big_endian (take 32 raw)) (big_endian (drop 32 raw))
     in and_then (authority_key pk a) (\<lambda>key.
        and_then (canonical_signing_bytes pk d) (\<lambda>b.
          guarded [(\<not> ecdsa_verifies pk key der b, Descriptor_Signature_Invalid)] ()))))))))"

subsection \<open>The locator\<close>

record locator =
  lo_trust_anchor :: trust_anchor
  lo_accepted :: "owner_domain_descriptor option"

definition rollback_rules ::
  "owner_domain_descriptor option \<Rightarrow> owner_domain_descriptor \<Rightarrow> (bool \<times> locator_error) list" where
  "rollback_rules current candidate = (case current of
     None \<Rightarrow> []
   | Some d \<Rightarrow>
       [(od_owner_domain_generation candidate < od_owner_domain_generation d, Generation_Rollback),
        (od_owner_domain_generation candidate = od_owner_domain_generation d
           \<and> od_directory_revision candidate < od_directory_revision d, Revision_Rollback),
        (od_owner_domain_generation candidate = od_owner_domain_generation d
           \<and> od_directory_revision candidate = od_directory_revision d \<and> candidate \<noteq> d, Revision_Reused)])"

definition accept_descriptor ::
  "('c, 'k, 'p) pki \<Rightarrow> locator \<Rightarrow> owner_domain_descriptor \<Rightarrow> datetime \<Rightarrow> locator_error + locator" where
  "accept_descriptor pk l candidate now =
     and_then (utc now) (\<lambda>t.
     and_then (validate_delegation pk (lo_trust_anchor l) now) (\<lambda>_.
     and_then (verify_descriptor pk candidate (lo_trust_anchor l)) (\<lambda>_.
     guarded
       ([(t < instant (od_issued_at candidate), Not_Yet_Valid),
         (t \<ge> instant (od_expires_at candidate), Descriptor_Expired)]
        @ rollback_rules (lo_accepted l) candidate)
       (l\<lparr>lo_accepted := Some candidate\<rparr>))))"

definition new_locator ::
  "('c, 'k, 'p) pki \<Rightarrow> trust_anchor \<Rightarrow> owner_domain_descriptor option \<Rightarrow> locator_error + locator" where
  "new_locator pk a accepted =
     (let l = \<lparr>lo_trust_anchor = a, lo_accepted = None\<rparr>
      in case accepted of None \<Rightarrow> Inr l | Some d \<Rightarrow> accept_descriptor pk l d (od_issued_at d))"

definition endpoint_key :: "authority_endpoint \<Rightarrow> int \<times> string \<times> string" where
  "endpoint_key e = (ae_priority e, ae_logical_audience e, ae_uri e)"

definition resolve_endpoints ::
  "locator \<Rightarrow> string \<Rightarrow> logical_authority \<Rightarrow> datetime \<Rightarrow> locator_error + authority_endpoint list" where
  "resolve_endpoints l domain authority now =
     and_then (utc now) (\<lambda>t.
     and_then (guarded [(domain \<noteq> ta_owner_domain_id (lo_trust_anchor l), Domain_Not_Commissioned)] ()) (\<lambda>_.
     and_then (or_raise Discovery_Required (lo_accepted l)) (\<lambda>d.
     and_then (guarded [(t \<ge> instant (od_expires_at d), Discovery_Required)] ()) (\<lambda>_.
     let endpoints = sort_key endpoint_key (filter (\<lambda>e. ae_authority e = authority) (od_endpoints d))
     in guarded [(endpoints = [], No_Endpoint authority)] endpoints))))"

text \<open>The locator as a transition system: a candidate is accepted, or refused with no effect.\<close>

inductive locator_step :: "('c, 'k, 'p) pki \<Rightarrow> locator \<Rightarrow> locator \<Rightarrow> bool" for pk where
  accepted: "accept_descriptor pk l d now = Inr l' \<Longrightarrow> locator_step pk l l'"
| refused: "accept_descriptor pk l d now = Inl e \<Longrightarrow> locator_step pk l l"

inductive locator_reachable :: "('c, 'k, 'p) pki \<Rightarrow> trust_anchor \<Rightarrow> locator \<Rightarrow> bool" for pk a where
  start: "new_locator pk a d = Inr l \<Longrightarrow> locator_reachable pk a l"
| continue: "locator_reachable pk a l \<Longrightarrow> locator_step pk l l' \<Longrightarrow> locator_reachable pk a l'"

inductive_cases locator_stepE: "locator_step pk l l'"

definition take_candidate ::
  "('c, 'k, 'p) pki \<Rightarrow> locator \<Rightarrow> owner_domain_descriptor \<times> datetime \<Rightarrow> locator" where
  "take_candidate pk l i =
     (case accept_descriptor pk l (fst i) (snd i) of Inl e \<Rightarrow> l | Inr l' \<Rightarrow> l')"

definition directory_version :: "locator \<Rightarrow> (int \<times> int) option" where
  "directory_version l =
     map_option (\<lambda>d. (od_owner_domain_generation d, od_directory_revision d)) (lo_accepted l)"

lemma rollback_clear:
  "first_raise (rollback_rules current d) = None \<longleftrightarrow>
     (\<forall>c. current = Some c \<longrightarrow>
        (od_owner_domain_generation c, od_directory_revision c)
          < (od_owner_domain_generation d, od_directory_revision d) \<or> c = d)"
  by (cases current) (auto simp: rollback_rules_def)

lemma accept_Inr:
  "accept_descriptor pk l d now = Inr l' \<longleftrightarrow>
     l' = l\<lparr>lo_accepted := Some d\<rparr> \<and> is_aware now \<and> validate_delegation pk (lo_trust_anchor l) now = Inr ()
     \<and> verify_descriptor pk d (lo_trust_anchor l) = Inr ()
     \<and> instant (od_issued_at d) \<le> instant now \<and> instant now < instant (od_expires_at d)
     \<and> first_raise (rollback_rules (lo_accepted l) d) = None"
  by (auto simp: accept_descriptor_def utc_def guard_simps)

lemma take_candidate_cases:
  "take_candidate pk l i = l \<or> accept_descriptor pk l (fst i) (snd i) = Inr (take_candidate pk l i)"
  by (auto simp: take_candidate_def split: sum.splits)

lemma accept_version:
  assumes "accept_descriptor pk l d now = Inr l'"
  shows "l' = l \<or> directory_version l < directory_version l'"
  using assms by (cases l; cases "lo_accepted l") (auto simp: accept_Inr rollback_clear directory_version_def)

interpretation directory: ratchet "take_candidate pk" directory_version for pk
proof
  fix l i
  show "directory_version l \<le> directory_version (take_candidate pk l i)"
    using take_candidate_cases [of pk l i] accept_version by (metis order.strict_implies_order order_refl)
  show "take_candidate pk l i = l"
    if "directory_version (take_candidate pk l i) = directory_version l"
    using that take_candidate_cases [of pk l i] accept_version by (metis less_irrefl)
qed

lemma accept_keeps_anchor: "accept_descriptor pk l d now = Inr l' \<Longrightarrow> lo_trust_anchor l' = lo_trust_anchor l"
  by (auto simp: accept_Inr)

definition trusted :: "('c, 'k, 'p) pki \<Rightarrow> trust_anchor \<Rightarrow> locator \<Rightarrow> bool" where
  "trusted pk a l \<longleftrightarrow> lo_trust_anchor l = a
     \<and> opt_ok (\<lambda>d. verify_descriptor pk d a = Inr () \<and> od_owner_domain_id d = ta_owner_domain_id a) (lo_accepted l)"

lemma verify_domain: "verify_descriptor pk d a = Inr () \<Longrightarrow> od_owner_domain_id d = ta_owner_domain_id a"
  by (auto simp: verify_descriptor_def guard_simps)

lemma accept_trusted:
  "accept_descriptor pk l d now = Inr l' \<Longrightarrow> lo_trust_anchor l = a \<Longrightarrow> trusted pk a l'"
  by (auto simp: accept_Inr trusted_def verify_domain)

lemma reachable_trusted: "locator_reachable pk a l \<Longrightarrow> trusted pk a l"
proof (induction rule: locator_reachable.induct)
  case (start d l)
  then show ?case
    by (auto simp: new_locator_def Let_def accept_trusted split: option.splits) (simp add: trusted_def)
next
  case (continue l l')
  then have "lo_trust_anchor l = a" by (simp add: trusted_def)
  then show ?case
    using continue by (cases rule: locator_stepE [OF continue.hyps(2)]) (simp_all add: accept_trusted)
qed

lemma sort_key_sorted: "sorted (map k (sort_key k xs))"
  by simp

lemma resolve_Inr:
  "resolve_endpoints l domain authority now = Inr es \<longleftrightarrow>
     (\<exists>d. is_aware now \<and> domain = ta_owner_domain_id (lo_trust_anchor l) \<and> lo_accepted l = Some d
        \<and> instant now < instant (od_expires_at d) \<and> es \<noteq> []
        \<and> es = sort_key endpoint_key (filter (\<lambda>e. ae_authority e = authority) (od_endpoints d)))"
  by (auto simp: resolve_endpoints_def utc_def guard_simps Let_def)

lemma raw_signature_b64url:
  "length raw = 64 \<Longrightarrow> raw_signature (b64url raw) = Inr raw"
proof -
  assume len: "length raw = 64"
  then have "pads_of raw = 2" by (simp add: pads_of_def)
  then have "pad_to_4 (b64url raw) = b64url raw @ ''==''"
    by (simp add: b64url_body pad_b64_body numeral_2_eq_2)
  then have "urlsafe_b64decode (b64url raw @ ''=='') = Some raw"
    using b64url_text.dec_enc [of raw] by (simp add: b64url_decode_def)
  then show ?thesis by (simp add: raw_signature_def guarded_simps len)
qed

text \<open>A public key infrastructure that accepts everything, for evaluating the locator.\<close>

definition sample_pki :: "(string, string, unit) pki" where
  "sample_pki = \<lparr>load_certificate = Some, certificate_key = (\<lambda>c. c), key_on_p256 = (\<lambda>_. True),
     public_pem = (\<lambda>k. k), load_public_pem = Some, public_der = (\<lambda>_. []), not_before = (\<lambda>_. 0),
     not_after = (\<lambda>_. 100), is_ca = (\<lambda>c. Some (c = ''root'')), signs_code = (\<lambda>_. Some True),
     signed_by = (\<lambda>_ _. True), dss_encode = (\<lambda>_ _. []), dss_decode = (\<lambda>_. (3, 4)),
     ecdsa_verifies = (\<lambda>_ _ _. True), private_on_p256 = (\<lambda>_. True), private_public = (\<lambda>_. ''leaf''),
     ecdsa_sign = (\<lambda>_ _. []), canonical = (\<lambda>_. Some []), time_text = (\<lambda>_. [])\<rparr>"

definition sample_anchor :: trust_anchor where
  "sample_anchor = \<lparr>ta_owner_domain_id = ''owner-a'', ta_owner_root_certificate_pem = ''root'',
     ta_authority_signing_certificate_pem = ''leaf'', ta_trust_epoch = 1\<rparr>"

definition sample_endpoint :: "int \<Rightarrow> authority_endpoint" where
  "sample_endpoint p = \<lparr>ae_authority = Auth_Admission, ae_logical_audience = ''hub'', ae_uri = ''https://h'',
     ae_transport_profile = ''https-json'', ae_priority = p\<rparr>"

definition sample_directory :: owner_domain_descriptor where
  "sample_directory = \<lparr>od_owner_domain_id = ''owner-a'', od_owner_domain_generation = 1, od_directory_revision = 1,
     od_descriptor_uri = ''https://h/d'', od_trust_root_refs = [''sha256:'' @ sha256_hex []],
     od_endpoints = [sample_endpoint 2, sample_endpoint 1], od_issued_at = Aware 1, od_expires_at = Aware 50,
     od_signing_key_id = ''sha256:'' @ sha256_hex [], od_signature = b64url (replicate 64 0)\<rparr>"

lemmas sample_pki_simps =
  sample_pki_def sample_anchor_def descriptor_key_id_def descriptor_public_key_def owner_root_certificate_def
  owner_root_key_def anchor_key_id_def authority_key_def authority_key_id_def utc_def validate_delegation_def
  verify_descriptor_def canonical_signing_bytes_def guarded_simps

lemma sample_accepted:
  "new_locator sample_pki sample_anchor (Some sample_directory)
     = Inr \<lparr>lo_trust_anchor = sample_anchor, lo_accepted = Some sample_directory\<rparr>"
proof -
  have "raw_signature (od_signature sample_directory) = Inr (replicate 64 0)"
    by (simp add: sample_directory_def raw_signature_b64url)
  then show ?thesis
    by (simp add: new_locator_def accept_Inr sample_pki_simps rollback_rules_def)
      (simp add: sample_directory_def)
qed

text \<open>
  C1. In every reachable state of a locator the trust anchor is the commissioned one and the
  accepted descriptor, if any, is for its Owner Domain and verifies under it; whatever candidates
  were offered, and at whatever times.
\<close>

theorem locator_always_trusted:
  assumes "locator_reachable pk a l"
  shows "lo_trust_anchor l = a
    \<and> opt_ok (\<lambda>d. verify_descriptor pk d a = Inr () \<and> od_owner_domain_id d = ta_owner_domain_id a) (lo_accepted l)"
  using reachable_trusted [OF assms] by (simp add: trusted_def)

theorem locator_always_trusted_witness:
  "verify_descriptor sample_pki sample_directory sample_anchor = Inr ()"
  using locator_always_trusted [OF locator_reachable.start [OF sample_accepted]] by simp

text \<open>
  C9. The directory never rolls back: over any sequence of candidates and times the accepted
  generation and revision never decrease lexicographically, an accepted directory is never
  lost, and a version that has not moved means the locator has not changed at all.
\<close>

theorem directory_never_rolls_back:
  "directory_version l \<le> directory_version (foldl (take_candidate pk) l candidates)
   \<and> (directory_version (foldl (take_candidate pk) l candidates) = directory_version l \<longleftrightarrow>
        foldl (take_candidate pk) l candidates = l)"
  using directory.run_rank directory.run_same by metis

text \<open>
  C30. A successful resolution comes from the accepted, unexpired descriptor of the commissioned
  domain: it is a non-empty rearrangement of exactly its endpoints for the authority, in order of
  priority, then audience, then address.
\<close>

theorem resolution_sound_and_ordered:
  assumes "resolve_endpoints l domain authority now = Inr es"
  shows "\<exists>d. lo_accepted l = Some d \<and> domain = ta_owner_domain_id (lo_trust_anchor l)
    \<and> instant now < instant (od_expires_at d) \<and> es \<noteq> []
    \<and> mset es = filter_mset (\<lambda>e. ae_authority e = authority) (mset (od_endpoints d))
    \<and> sorted (map endpoint_key es)"
  using assms by (auto simp: resolve_Inr)

theorem resolution_sound_and_ordered_witness:
  "resolve_endpoints \<lparr>lo_trust_anchor = sample_anchor, lo_accepted = Some sample_directory\<rparr> ''owner-a'' Auth_Admission (Aware 5)
     = Inr [sample_endpoint 1, sample_endpoint 2] \<and> sorted (map endpoint_key [sample_endpoint 1, sample_endpoint 2])"
proof -
  let ?l = "\<lparr>lo_trust_anchor = sample_anchor, lo_accepted = Some sample_directory\<rparr>"
  have r: "resolve_endpoints ?l ''owner-a'' Auth_Admission (Aware 5) = Inr [sample_endpoint 1, sample_endpoint 2]"
    by (simp add: resolve_Inr sample_anchor_def sample_directory_def sample_endpoint_def sort_key_def endpoint_key_def)
  from resolution_sound_and_ordered [OF r] r show ?thesis by blast
qed

text \<open>
  What the holder of the delegated key signs, the anchor verifies: given only that ECDSA
  verifies its own signatures, signing a descriptor of the anchor's domain that retains its root
  gives a descriptor that verifies, whatever signing key id and signature it had before.
\<close>

theorem signed_descriptor_verifies:
  assumes signed: "sign_descriptor pk d priv = Inr s"
    and delegated: "authority_key pk a = Inr (private_public pk priv)"
    and root: "anchor_key_id pk a = Inr root_id" "root_id \<in> set (od_trust_root_refs d)"
    and domain: "od_owner_domain_id d = ta_owner_domain_id a"
    and ecdsa: "\<And>b. ecdsa_verifies pk (private_public pk priv)
        (dss_encode pk (fst (dss_decode pk (ecdsa_sign pk priv b))) (snd (dss_decode pk (ecdsa_sign pk priv b)))) b"
  shows "verify_descriptor pk s a = Inr ()"
proof -
  obtain key_id b n m where
    id: "descriptor_key_id pk (public_pem pk (private_public pk priv)) = Inr key_id"
    and b: "canonical_signing_bytes pk (d\<lparr>od_signing_key_id := key_id\<rparr>) = Inr b"
    and rs: "n = fst (dss_decode pk (ecdsa_sign pk priv b))" "m = snd (dss_decode pk (ecdsa_sign pk priv b))"
      "n < 256 ^ 32" "m < 256 ^ 32"
    and s: "s = d\<lparr>od_signing_key_id := key_id, od_signature := b64url (be_bytes 32 n @ be_bytes 32 m)\<rparr>"
    using signed by (auto simp: sign_descriptor_def guard_simps Let_def case_prod_beta to_bytes_Some)
  have "canonical_signing_bytes pk s = Inr b"
    using b by (simp add: canonical_signing_bytes_def descriptor_signing_document_def s)
  moreover have "ecdsa_verifies pk (private_public pk priv) (dss_encode pk n m) b"
    using ecdsa [of b] rs by simp
  moreover have "authority_key_id pk a = Inr key_id" by (simp add: authority_key_id_def delegated id)
  ultimately show ?thesis
    using rs(3,4) root domain delegated
    by (simp add: verify_descriptor_def guarded_simps raw_signature_b64url big_endian_be_bytes s)
qed

theorem signed_descriptor_verifies_witness:
  "\<exists>s. sign_descriptor sample_pki sample_directory () = Inr s \<and> verify_descriptor sample_pki s sample_anchor = Inr ()"
proof -
  have "\<exists>s. sign_descriptor sample_pki sample_directory () = Inr s"
    by (simp add: sign_descriptor_def sample_pki_simps to_bytes_def)
  then obtain s where s: "sign_descriptor sample_pki sample_directory () = Inr s" by blast
  have "verify_descriptor sample_pki s sample_anchor = Inr ()"
    by (rule signed_descriptor_verifies [OF s, where root_id = "''sha256:'' @ sha256_hex []"])
      (simp_all add: sample_pki_simps, simp_all add: sample_directory_def)
  with s show ?thesis by blast
qed

end
