(* ===== verification/Claim_Events.thy ===== *)
theory Claim_Events
  imports Lifecycle
begin

text \<open>
  The claim event stream (\<open>device_foundation/v1/events.py\<close>): activation and revocation events,
  which must agree with the device they are about, and the pages a consumer recovers from, which
  must be contiguous with the cursor they were asked for.
\<close>

record claim_activated_data =
  cad_device_ref :: device_ref
  cad_business_owner_id :: string
  cad_manifest_ref :: manifest_ref
  cad_approval_decision_id :: string
  cad_activated_at :: datetime

definition claim_activated_data_fields :: "claim_activated_data \<Rightarrow> (string \<times> bool) list" where
  "claim_activated_data_fields x =
     [(''device_ref'', wf_device_ref (cad_device_ref x)),
      (''business_owner_id'', business_owner_id_ok (cad_business_owner_id x)),
      (''manifest_ref'', wf_manifest_ref (cad_manifest_ref x)),
      (''approval_decision_id'', len_between 3 128 (cad_approval_decision_id x)),
      (''activated_at'', is_aware (cad_activated_at x))]"

definition make_claim_activated_data :: "claim_activated_data \<Rightarrow> string invalid + claim_activated_data" where
  "make_claim_activated_data x = build (claim_activated_data_fields x) no_rules x"

definition wf_claim_activated_data :: "claim_activated_data \<Rightarrow> bool" where
  "wf_claim_activated_data x \<longleftrightarrow> admissible (claim_activated_data_fields x) no_rules"

interpretation claim_activated_data_class: model_class make_claim_activated_data wf_claim_activated_data
  by (rule build_class; simp add: make_claim_activated_data_def wf_claim_activated_data_def)

record claim_revoked_data =
  crd_device_ref :: device_ref
  crd_reason :: string
  crd_revoked_at :: datetime

definition claim_revoked_data_fields :: "claim_revoked_data \<Rightarrow> (string \<times> bool) list" where
  "claim_revoked_data_fields x =
     [(''device_ref'', wf_device_ref (crd_device_ref x)),
      (''reason'', len_between 1 256 (crd_reason x)),
      (''revoked_at'', is_aware (crd_revoked_at x))]"

definition make_claim_revoked_data :: "claim_revoked_data \<Rightarrow> string invalid + claim_revoked_data" where
  "make_claim_revoked_data x = build (claim_revoked_data_fields x) no_rules x"

definition wf_claim_revoked_data :: "claim_revoked_data \<Rightarrow> bool" where
  "wf_claim_revoked_data x \<longleftrightarrow> admissible (claim_revoked_data_fields x) no_rules"

interpretation claim_revoked_data_class: model_class make_claim_revoked_data wf_claim_revoked_data
  by (rule build_class; simp add: make_claim_revoked_data_def wf_claim_revoked_data_def)

text \<open>The \<open>type\<close> of an event is the constructor of its data.\<close>

datatype claim_event_data = Activated claim_activated_data | Revoked claim_revoked_data

fun event_name :: "claim_event_data \<Rightarrow> string" where
  "event_name (Activated d) = ''ClaimActivated''"
| "event_name (Revoked d) = ''ClaimRevoked''"

fun event_device_ref :: "claim_event_data \<Rightarrow> device_ref" where
  "event_device_ref (Activated d) = cad_device_ref d"
| "event_device_ref (Revoked d) = crd_device_ref d"

fun event_data_time :: "claim_event_data \<Rightarrow> datetime" where
  "event_data_time (Activated d) = cad_activated_at d"
| "event_data_time (Revoked d) = crd_revoked_at d"

fun wf_event_data :: "claim_event_data \<Rightarrow> bool" where
  "wf_event_data (Activated d) = wf_claim_activated_data d"
| "wf_event_data (Revoked d) = wf_claim_revoked_data d"

definition matches_subject :: "string \<Rightarrow> bool" where
  "matches_subject s \<longleftrightarrow> starts_with ''device-instances/'' s \<and> matches_identifier (drop 17 s)"

record claim_event =
  cev_event_id :: string
  cev_subject :: string
  cev_event_time :: datetime
  cev_ownerdomainid :: string
  cev_aggregaterev :: int
  cev_correlationid :: string
  cev_causationid :: string
  cev_data :: claim_event_data

definition claim_event_fields :: "claim_event \<Rightarrow> (string \<times> bool) list" where
  "claim_event_fields x =
     [(''event_id'', len_between 3 128 (cev_event_id x)),
      (''subject'', matches_subject (cev_subject x)),
      (''event_time'', is_aware (cev_event_time x)),
      (''ownerdomainid'', owner_domain_id_ok (cev_ownerdomainid x)),
      (''aggregaterev'', 1 \<le> cev_aggregaterev x),
      (''correlationid'', len_between 3 128 (cev_correlationid x)),
      (''causationid'', len_between 3 128 (cev_causationid x)),
      (''data'', wf_event_data (cev_data x))]"

definition claim_event_rules :: "claim_event \<Rightarrow> (bool \<times> string) list" where
  "claim_event_rules x =
     [(cev_ownerdomainid x \<noteq> owner_domain_id (event_device_ref (cev_data x)),
       event_name (cev_data x) @ '' Owner Domain does not match DeviceRef''),
      (cev_subject x \<noteq> ''device-instances/'' @ device_instance_id (event_device_ref (cev_data x)),
       event_name (cev_data x) @ '' subject does not match DeviceRef''),
      (instant (cev_event_time x) \<noteq> instant (event_data_time (cev_data x)),
       event_name (cev_data x) @ '' event time does not match data'')]"

definition make_claim_event :: "claim_event \<Rightarrow> string invalid + claim_event" where
  "make_claim_event x = build (claim_event_fields x) (claim_event_rules x) x"

definition wf_claim_event :: "claim_event \<Rightarrow> bool" where
  "wf_claim_event x \<longleftrightarrow> admissible (claim_event_fields x) (claim_event_rules x)"

interpretation claim_event_class: model_class make_claim_event wf_claim_event
  by (rule build_class; simp add: make_claim_event_def wf_claim_event_def)

record claim_event_stream_item =
  csi_stream_position :: int
  csi_event :: claim_event

definition claim_event_stream_item_fields :: "claim_event_stream_item \<Rightarrow> (string \<times> bool) list" where
  "claim_event_stream_item_fields x =
     [(''stream_position'', 1 \<le> csi_stream_position x),
      (''event'', wf_claim_event (csi_event x))]"

definition make_claim_event_stream_item :: "claim_event_stream_item \<Rightarrow> string invalid + claim_event_stream_item" where
  "make_claim_event_stream_item x = build (claim_event_stream_item_fields x) no_rules x"

definition wf_claim_event_stream_item :: "claim_event_stream_item \<Rightarrow> bool" where
  "wf_claim_event_stream_item x \<longleftrightarrow> admissible (claim_event_stream_item_fields x) no_rules"

interpretation claim_event_stream_item_class: model_class make_claim_event_stream_item wf_claim_event_stream_item
  by (rule build_class; simp add: make_claim_event_stream_item_def wf_claim_event_stream_item_def)

text \<open>A cursor is its position: the stream id has one value only.\<close>

definition expected_positions :: "int \<Rightarrow> nat \<Rightarrow> int list" where
  "expected_positions after n = [after + 1..after + int n]"

definition expected_next :: "int \<Rightarrow> int list \<Rightarrow> int" where
  "expected_next after positions = (if positions = [] then after else last positions)"

record claim_event_page =
  cep_requested_after :: int
  cep_events :: "claim_event_stream_item list"
  cep_next_cursor :: int
  cep_high_watermark :: int
  cep_observed_at :: datetime

definition claim_event_page_fields :: "claim_event_page \<Rightarrow> (string \<times> bool) list" where
  "claim_event_page_fields x =
     [(''requested_after'', 0 \<le> cep_requested_after x),
      (''events'', len_between 0 500 (cep_events x) \<and> list_all wf_claim_event_stream_item (cep_events x)),
      (''next_cursor'', 0 \<le> cep_next_cursor x),
      (''high_watermark'', 0 \<le> cep_high_watermark x),
      (''observed_at'', is_aware (cep_observed_at x))]"

definition claim_event_page_rules :: "claim_event_page \<Rightarrow> (bool \<times> string) list" where
  "claim_event_page_rules x =
     [(map csi_stream_position (cep_events x) \<noteq> expected_positions (cep_requested_after x) (length (cep_events x)),
       ''claim event page contains a stream gap or duplicate''),
      (cep_next_cursor x \<noteq> expected_next (cep_requested_after x) (map csi_stream_position (cep_events x)),
       ''claim event next cursor does not checkpoint the last item''),
      (cep_high_watermark x < expected_next (cep_requested_after x) (map csi_stream_position (cep_events x)),
       ''claim event high watermark precedes the page cursor'')]"

definition make_claim_event_page :: "claim_event_page \<Rightarrow> string invalid + claim_event_page" where
  "make_claim_event_page x = build (claim_event_page_fields x) (claim_event_page_rules x) x"

definition wf_claim_event_page :: "claim_event_page \<Rightarrow> bool" where
  "wf_claim_event_page x \<longleftrightarrow> admissible (claim_event_page_fields x) (claim_event_page_rules x)"

interpretation claim_event_page_class: model_class make_claim_event_page wf_claim_event_page
  by (rule build_class; simp add: make_claim_event_page_def wf_claim_event_page_def)


subsection \<open>Reading the stream\<close>

definition positions :: "claim_event_page \<Rightarrow> int list" where
  "positions p = map csi_stream_position (cep_events p)"

text \<open>A consumer's run: each page is asked for with the cursor the previous one gave.\<close>

fun read_in_turn :: "int \<Rightarrow> claim_event_page list \<Rightarrow> bool" where
  "read_in_turn after [] = True"
| "read_in_turn after (p # ps) =
     (make_claim_event_page p = Inr p \<and> cep_requested_after p = after \<and> read_in_turn (cep_next_cursor p) ps)"

fun final_cursor :: "int \<Rightarrow> claim_event_page list \<Rightarrow> int" where
  "final_cursor after [] = after"
| "final_cursor after (p # ps) = final_cursor (cep_next_cursor p) ps"

lemma wf_page:
  "wf_claim_event_page p \<Longrightarrow>
     positions p = [cep_requested_after p + 1..cep_next_cursor p] \<and> cep_requested_after p \<le> cep_next_cursor p
     \<and> cep_next_cursor p \<le> cep_high_watermark p"
proof -
  assume "wf_claim_event_page p"
  then have pos: "positions p = expected_positions (cep_requested_after p) (length (cep_events p))"
    and nxt: "cep_next_cursor p = expected_next (cep_requested_after p) (positions p)"
    and high: "expected_next (cep_requested_after p) (positions p) \<le> cep_high_watermark p"
    by (simp_all add: wf_claim_event_page_def admissible_def claim_event_page_rules_def positions_def not_less)
  have "expected_next a (expected_positions a n) = a + int n" for a n
    by (cases n) (simp_all add: expected_next_def expected_positions_def upto_rec2)
  then show ?thesis using pos nxt high by (simp add: expected_positions_def)
qed

lemma upto_append: "a \<le> b \<Longrightarrow> b \<le> c \<Longrightarrow> [a + 1..b] @ [b + 1..c] = [a + 1..(c :: int)]"
  by (cases "b = c") (simp_all add: upto_split1 [of "a + 1" "b + 1" c])

lemma final_cursor_mono: "read_in_turn after ps \<Longrightarrow> after \<le> final_cursor after ps"
proof (induction ps arbitrary: after)
  case Nil
  then show ?case by simp
next
  case (Cons p ps)
  then have "wf_claim_event_page p" by (simp add: claim_event_page_class.make_iff)
  then show ?case using Cons wf_page [of p] by fastforce
qed

text \<open>
  C8. A consumer that follows the cursors of accepted pages sees every stream position once and in
  order: the positions of all pages together are exactly those after its first cursor up to its
  last, with no gap and no duplicate at a page boundary or within a page.
\<close>

theorem event_stream_complete:
  assumes "read_in_turn after ps"
  shows "concat (map positions ps) = [after + 1..final_cursor after ps]"
  using assms
proof (induction ps arbitrary: after)
  case Nil
  then show ?case by simp
next
  case (Cons p ps)
  then have "wf_claim_event_page p" by (simp add: claim_event_page_class.make_iff)
  then show ?case
    using Cons wf_page [of p] final_cursor_mono [of "cep_next_cursor p" ps] by (auto simp: upto_append)
qed

definition sample_ref :: device_ref where
  "sample_ref = \<lparr>device_instance_id = device_instance_namespace @ sha256_hex [], owner_domain_id = ''owner-a'',
     owner_domain_generation = 1, claim_generation = 1, trust_epoch = 1\<rparr>"

definition sample_event :: claim_event where
  "sample_event = \<lparr>cev_event_id = ''evt'', cev_subject = ''device-instances/'' @ device_instance_id sample_ref,
     cev_event_time = Aware 1, cev_ownerdomainid = ''owner-a'', cev_aggregaterev = 1, cev_correlationid = ''cor'',
     cev_causationid = ''cau'',
     cev_data = Revoked \<lparr>crd_device_ref = sample_ref, crd_reason = ''gone'', crd_revoked_at = Aware 1\<rparr>\<rparr>"

definition sample_event_page :: "int \<Rightarrow> claim_event_page" where
  "sample_event_page n = \<lparr>cep_requested_after = n,
     cep_events = [\<lparr>csi_stream_position = n + 1, csi_event = sample_event\<rparr>], cep_next_cursor = n + 1,
     cep_high_watermark = 9, cep_observed_at = Aware 2\<rparr>"

lemma sample_ref_ok: "wf_device_ref sample_ref"
  by (simp add: wf_device_ref_def sample_ref_def owner_domain_id_ok_def len_between_def starts_with_def)

lemma identifier_of_lower_hex: "list_all is_lower_hex s \<Longrightarrow> list_all identifier_char s"
  by (auto simp: list_all_iff char_class_defs identifier_char_def)

lemma sample_event_ok: "wf_claim_event sample_event"
proof -
  have "list_all identifier_char (sha256_hex [])" by (rule identifier_of_lower_hex) simp
  then have "matches_subject (''device-instances/'' @ device_instance_namespace @ sha256_hex [])"
    by (simp add: matches_subject_def starts_with_def device_instance_namespace_def matches_identifier_def
        identifier_char_def char_class_defs)
  then show ?thesis
    by (simp add: wf_claim_event_def admissible_def claim_event_fields_def claim_event_rules_def sample_event_def
        wf_claim_revoked_data_def claim_revoked_data_fields_def sample_ref_ok len_between_def)
      (simp add: sample_ref_def owner_domain_id_ok_def len_between_def starts_with_def)
qed

lemma sample_event_page_ok:
  "n \<in> {0..8} \<Longrightarrow> make_claim_event_page (sample_event_page n) = Inr (sample_event_page n)"
  by (simp add: claim_event_page_class.make_iff wf_claim_event_page_def admissible_def claim_event_page_fields_def
      claim_event_page_rules_def sample_event_page_def wf_claim_event_stream_item_def
      claim_event_stream_item_fields_def sample_event_ok len_between_def expected_positions_def expected_next_def)

theorem event_stream_complete_witness:
  "concat (map positions [sample_event_page 4, sample_event_page 5]) = [5, 6]"
proof -
  have "read_in_turn 4 [sample_event_page 4, sample_event_page 5]"
    by (simp add: sample_event_page_ok) (simp add: sample_event_page_def)
  from event_stream_complete [OF this] show ?thesis
    by (simp add: sample_event_page_def upto.simps)
qed

end
