(* ===== verification/Body_Mesh.thy ===== *)
theory Body_Mesh
  imports Lifecycle
begin

text \<open>
  The Body Mesh vocabulary (\<open>device_foundation/v1/body_mesh.py\<close>): which Companion answers through
  which Body. Arrays of the contract are sets, and an assignment's status is nested in it.
\<close>

definition derived_endpoint_id :: string where
  "derived_endpoint_id = ''body''"

text \<open>The wire instant, refused when naive; the arrays that are sets.\<close>

definition wire_instant :: "(string \<Rightarrow> datetime option) \<Rightarrow> 'o time_input \<Rightarrow> time_error + datetime" where
  "wire_instant fromiso v =
     and_then (wire_datetime fromiso v) (\<lambda>v. case v of Time (Aware t) \<Rightarrow> Inr (Aware t) | _ \<Rightarrow> Inl No_Offset)"

datatype assignment_mode = Default_Mode

datatype selection_provenance = User_Selected | User_Cleared | Companion_Deleted | Policy_Reconciled

datatype assignment_condition = Realized | Companion_Missing | Capability_Missing | Policy_Denied

record body_target_ref =
  bt_mount_id :: string
  bt_body_endpoint_id :: string
  bt_assignment_generation :: int

definition body_target_ref_fields :: "body_target_ref \<Rightarrow> (string \<times> bool) list" where
  "body_target_ref_fields x =
     [(''mount_id'', canonical_id (bt_mount_id x)),
      (''body_endpoint_id'', canonical_id (bt_body_endpoint_id x)),
      (''assignment_generation'', 1 \<le> bt_assignment_generation x)]"

definition make_body_target_ref :: "body_target_ref \<Rightarrow> string invalid + body_target_ref" where
  "make_body_target_ref x = build (body_target_ref_fields x) no_rules x"

definition wf_body_target_ref :: "body_target_ref \<Rightarrow> bool" where
  "wf_body_target_ref x \<longleftrightarrow> admissible (body_target_ref_fields x) no_rules"

interpretation body_target_ref_class: model_class make_body_target_ref wf_body_target_ref
  by (rule build_class; simp add: make_body_target_ref_def wf_body_target_ref_def)

record replace_assignment =
  ra_body_endpoint_id :: string
  ra_expected_assignment_revision :: int
  ra_companion_ref :: "string option"
  ra_mode :: assignment_mode
  ra_policy_refs :: "string list"

definition replace_assignment_fields :: "replace_assignment \<Rightarrow> (string \<times> bool) list" where
  "replace_assignment_fields x =
     [(''body_endpoint_id'', canonical_id (ra_body_endpoint_id x)),
      (''expected_assignment_revision'', 0 \<le> ra_expected_assignment_revision x),
      (''companion_ref'', opt_ok canonical_id (ra_companion_ref x)),
      (''policy_refs'', \<not> has_duplicates (ra_policy_refs x))]"

definition make_replace_assignment :: "replace_assignment \<Rightarrow> string invalid + replace_assignment" where
  "make_replace_assignment x = build (replace_assignment_fields x) no_rules x"

definition wf_replace_assignment :: "replace_assignment \<Rightarrow> bool" where
  "wf_replace_assignment x \<longleftrightarrow> admissible (replace_assignment_fields x) no_rules"

interpretation replace_assignment_class: model_class make_replace_assignment wf_replace_assignment
  by (rule build_class; simp add: make_replace_assignment_def wf_replace_assignment_def)

record replace_assignment_result =
  rar_assignment_id :: string
  rar_revision :: int
  rar_generation :: int
  rar_spec :: json_object
  rar_status :: json_object

definition replace_assignment_result_fields :: "replace_assignment_result \<Rightarrow> (string \<times> bool) list" where
  "replace_assignment_result_fields x =
     [(''assignment_id'', canonical_id (rar_assignment_id x)),
      (''revision'', 1 \<le> rar_revision x),
      (''generation'', 1 \<le> rar_generation x)]"

definition make_replace_assignment_result :: "replace_assignment_result \<Rightarrow> string invalid + replace_assignment_result" where
  "make_replace_assignment_result x = build (replace_assignment_result_fields x) no_rules x"

definition wf_replace_assignment_result :: "replace_assignment_result \<Rightarrow> bool" where
  "wf_replace_assignment_result x \<longleftrightarrow> admissible (replace_assignment_result_fields x) no_rules"

interpretation replace_assignment_result_class: model_class make_replace_assignment_result wf_replace_assignment_result
  by (rule build_class; simp add: make_replace_assignment_result_def wf_replace_assignment_result_def)

record body_assignment_status =
  bs_observed_generation :: int
  bs_effective_companion_id :: "string option"
  bs_conditions :: "assignment_condition list"

definition body_assignment_status_fields :: "body_assignment_status \<Rightarrow> (string \<times> bool) list" where
  "body_assignment_status_fields x =
     [(''observed_generation'', 1 \<le> bs_observed_generation x),
      (''effective_companion_id'', opt_ok (len_between 1 64) (bs_effective_companion_id x)),
      (''conditions'', \<not> has_duplicates (bs_conditions x))]"

definition make_body_assignment_status :: "body_assignment_status \<Rightarrow> string invalid + body_assignment_status" where
  "make_body_assignment_status x = build (body_assignment_status_fields x) no_rules x"

definition wf_body_assignment_status :: "body_assignment_status \<Rightarrow> bool" where
  "wf_body_assignment_status x \<longleftrightarrow> admissible (body_assignment_status_fields x) no_rules"

interpretation body_assignment_status_class: model_class make_body_assignment_status wf_body_assignment_status
  by (rule build_class; simp add: make_body_assignment_status_def wf_body_assignment_status_def)

record body_assignment =
  ba_assignment_id :: string
  ba_body_endpoint_id :: string
  ba_device_id :: string
  ba_endpoint_id :: string
  ba_owner_id :: string
  ba_companion_id :: "string option"
  ba_selection_provenance :: selection_provenance
  ba_change_reason :: "string option"
  ba_mode :: assignment_mode
  ba_policy_refs :: "string list"
  ba_revision :: int
  ba_generation :: int
  ba_updated_at :: datetime
  ba_status :: body_assignment_status

definition body_assignment_fields :: "body_assignment \<Rightarrow> (string \<times> bool) list" where
  "body_assignment_fields x =
     [(''assignment_id'', len_between 1 160 (ba_assignment_id x)),
      (''body_endpoint_id'', len_between 1 128 (ba_body_endpoint_id x)),
      (''device_id'', len_between 1 128 (ba_device_id x)),
      (''endpoint_id'', len_between 1 64 (ba_endpoint_id x)),
      (''owner_id'', len_between 1 64 (ba_owner_id x)),
      (''companion_id'', opt_ok (len_between 1 64) (ba_companion_id x)),
      (''change_reason'', opt_ok (len_between 1 256) (ba_change_reason x)),
      (''policy_refs'', \<not> has_duplicates (ba_policy_refs x) \<and> len_between 0 16 (ba_policy_refs x)),
      (''revision'', 1 \<le> ba_revision x),
      (''generation'', 1 \<le> ba_generation x),
      (''updated_at'', is_aware (ba_updated_at x)),
      (''status'', wf_body_assignment_status (ba_status x))]"

definition make_body_assignment :: "body_assignment \<Rightarrow> string invalid + body_assignment" where
  "make_body_assignment x = build (body_assignment_fields x) no_rules x"

definition wf_body_assignment :: "body_assignment \<Rightarrow> bool" where
  "wf_body_assignment x \<longleftrightarrow> admissible (body_assignment_fields x) no_rules"

interpretation body_assignment_class: model_class make_body_assignment wf_body_assignment
  by (rule build_class; simp add: make_body_assignment_def wf_body_assignment_def)

datatype body_role = Role_Body | Role_Sensor | Role_Actuator | Role_Gateway | Role_Controller

datatype assignment_policy = Assignment_Required | Assignment_Optional | Assignment_Forbidden

datatype risk_class = Risk_Safe | Risk_Sensitive | Risk_Hazardous

datatype body_concurrency = Shared_Body | Exclusive_Body | Leased_Body

datatype endpoint_source = Derived_Endpoint | Manifest_Endpoint

record body_endpoint =
  be_body_endpoint_id :: string
  be_device_id :: string
  be_owner_id :: string
  be_endpoint_id :: string
  be_device_ref :: device_ref
  be_mount_revision :: int
  be_roles :: "body_role list"
  be_assignment_policy :: assignment_policy
  be_risk_class :: risk_class
  be_concurrency :: body_concurrency
  be_source :: endpoint_source
  be_present :: bool
  be_assignment :: "body_assignment option"

definition body_endpoint_fields :: "body_endpoint \<Rightarrow> (string \<times> bool) list" where
  "body_endpoint_fields x =
     [(''body_endpoint_id'', len_between 1 128 (be_body_endpoint_id x)),
      (''device_id'', len_between 1 128 (be_device_id x)),
      (''owner_id'', len_between 1 64 (be_owner_id x)),
      (''endpoint_id'', len_between 1 64 (be_endpoint_id x)),
      (''device_ref'', wf_device_ref (be_device_ref x)),
      (''mount_revision'', 1 \<le> be_mount_revision x),
      (''roles'', \<not> has_duplicates (be_roles x) \<and> len_between 1 8 (be_roles x)),
      (''assignment'', opt_ok wf_body_assignment (be_assignment x))]"

definition make_body_endpoint :: "body_endpoint \<Rightarrow> string invalid + body_endpoint" where
  "make_body_endpoint x = build (body_endpoint_fields x) no_rules x"

definition wf_body_endpoint :: "body_endpoint \<Rightarrow> bool" where
  "wf_body_endpoint x \<longleftrightarrow> admissible (body_endpoint_fields x) no_rules"

interpretation body_endpoint_class: model_class make_body_endpoint wf_body_endpoint
  by (rule build_class; simp add: make_body_endpoint_def wf_body_endpoint_def)


subsection \<open>Properties\<close>

lemma role_bound: "distinct (xs :: body_role list) \<Longrightarrow> length xs \<le> 5"
proof -
  assume "distinct xs"
  moreover have "set xs \<subseteq> {Role_Body, Role_Sensor, Role_Actuator, Role_Gateway, Role_Controller}"
    using body_role.exhaust by blast
  then have "card (set xs) \<le> card {Role_Body, Role_Sensor, Role_Actuator, Role_Gateway, Role_Controller}"
    by (rule card_mono [rotated]) simp
  ultimately show ?thesis by (simp add: distinct_card)
qed

text \<open>The declared maximum of eight roles is never what refuses an endpoint: there are five.\<close>

lemma endpoint_roles_ok:
  "(\<not> has_duplicates (be_roles x) \<and> len_between 1 8 (be_roles x)) \<longleftrightarrow> be_roles x \<noteq> [] \<and> distinct (be_roles x)"
  using role_bound [of "be_roles x"] by (auto simp: len_between_def Suc_le_eq)

end
