(* ===== verification/Smarthome_Vocabulary.thy ===== *)
theory Smarthome_Vocabulary
  imports Json_Values
begin

text \<open>
  The vocabulary of \<open>biz/smarthome\<close>: the tables of traits, commands and device types, and the
  checks of a state and of a command against them. Type and trait names are the strings the
  tables are keyed by; the display labels of device types are not modelled. A state or a
  parameter object is an association list of Python values with each key once.
\<close>

subsection \<open>Values and codes\<close>

datatype pyvalue = PBool bool | PInt int | PFloat pyfloat | PStr string | PNone

datatype pytype = TBool | TInt | TFloat | TStr | TNone

text \<open>\<open>isinstance\<close>; \<open>bool\<close> is a subclass of \<open>int\<close>.\<close>

fun is_instance :: "pyvalue \<Rightarrow> pytype \<Rightarrow> bool" where
  "is_instance (PBool b) t = (t = TBool \<or> t = TInt)"
| "is_instance (PInt n) t = (t = TInt)"
| "is_instance (PFloat f) t = (t = TFloat)"
| "is_instance (PStr s) t = (t = TStr)"
| "is_instance PNone t = (t = TNone)"

fun is_bool :: "pyvalue \<Rightarrow> bool" where
  "is_bool (PBool b) = True"
| "is_bool _ = False"

text \<open>A number in a comparison; an \<open>int\<close> is compared with a float exactly.\<close>

fun as_float :: "pyvalue \<Rightarrow> pyfloat option" where
  "as_float (PInt n) = Some (Fin (of_int n))"
| "as_float (PFloat f) = Some f"
| "as_float _ = None"

fun is_text_in :: "string list \<Rightarrow> pyvalue \<Rightarrow> bool" where
  "is_text_in ss (PStr s) = (s \<in> set ss)"
| "is_text_in ss _ = False"

definition error_codes :: "string list" where
  "error_codes = [''UNKNOWN_DEVICE'', ''UNKNOWN_SCENE'', ''UNSUPPORTED_COMMAND'', ''INVALID_PARAMS'',
     ''OUT_OF_RANGE'', ''DEVICE_OFFLINE'', ''DEADLINE_EXCEEDED'', ''PLATFORM_REJECTED'']"

definition registry_error_codes :: "string list" where
  "registry_error_codes = [''DUPLICATE_AREA'', ''DUPLICATE_AREA_NAME'', ''DUPLICATE_DEVICE'',
     ''DUPLICATE_DEVICE_NAME_IN_AREA'', ''DUPLICATE_SCENE'', ''DUPLICATE_PLACEMENT'', ''DEVICE_AREA_UNKNOWN'',
     ''PLACEMENT_AREA_UNKNOWN'', ''SCENE_DEVICE_UNKNOWN'', ''LIMIT_EXCEEDED'']"

datatype home_error = Smart_Home string | Registry_Refused string | Value_Refused string | Key_Missing

text \<open>\<open>raise SmartHomeError(code)\<close> and \<open>raise RegistryError(code)\<close>: an unknown code is a ValueError.\<close>

definition smart_home_error :: "string \<Rightarrow> home_error" where
  "smart_home_error code = (if code \<in> set error_codes then Smart_Home code else Value_Refused code)"

definition registry_error :: "string \<Rightarrow> home_error" where
  "registry_error code = (if code \<in> set registry_error_codes then Registry_Refused code else Value_Refused code)"

subsection \<open>Tables\<close>

datatype param_kind = Int_Param | Number_Param | Bool_Param | Mode_Param

type_synonym param = "param_kind \<times> pyfloat option \<times> pyfloat option"

definition pct_param :: param where
  "pct_param = (Int_Param, Some (Fin 0), Some (Fin 100))"

definition step_param :: param where
  "step_param = (Int_Param, Some (Fin (- 100)), Some (Fin 100))"

definition bool_param :: param where
  "bool_param = (Bool_Param, None, None)"

definition mode_param :: param where
  "mode_param = (Mode_Param, None, None)"

type_synonym command_table = "(string \<times> (string \<times> param) list) list"

definition trait_commands :: "(string \<times> command_table) list" where
  "trait_commands =
    [(''on_off'', [(''on'', []), (''off'', []), (''toggle'', [])]),
     (''level'', [(''set'', [(''value'', pct_param)]), (''step'', [(''delta'', step_param)])]),
     (''thermostat'',
       [(''set_mode'', [(''mode'', mode_param)]), (''set_target'', [(''celsius'', (Number_Param, None, None))]),
        (''step'', [(''delta'', (Number_Param, Some (Fin (- 10)), Some (Fin 10)))])]),
     (''fan_speed'', [(''set'', [(''value'', pct_param)]), (''step'', [(''delta'', step_param)])]),
     (''position'', [(''open'', []), (''close'', []), (''stop'', []), (''set'', [(''value'', pct_param)])]),
     (''lock'', [(''lock'', []), (''unlock'', [])]),
     (''operational'', [(''start'', []), (''pause'', []), (''stop'', []), (''dock'', [])]),
     (''volume'', [(''set'', [(''value'', pct_param)]), (''step'', [(''delta'', step_param)]),
                   (''mute'', [(''muted'', bool_param)])]),
     (''measure'', [])]"

definition trait_state :: "(string \<times> (string \<times> pytype list) list) list" where
  "trait_state =
    [(''on_off'', [(''on'', [TBool])]),
     (''level'', [(''level'', [TInt])]),
     (''thermostat'', [(''mode'', [TStr]), (''target_c'', [TInt, TFloat]), (''current_c'', [TInt, TFloat, TNone])]),
     (''fan_speed'', [(''speed'', [TInt])]),
     (''position'', [(''position'', [TInt])]),
     (''lock'', [(''locked'', [TBool])]),
     (''operational'', [(''run_state'', [TStr])]),
     (''volume'', [(''volume'', [TInt]), (''muted'', [TBool])]),
     (''measure'', [(''temp_c'', [TInt, TFloat, TNone]), (''humidity'', [TInt, TNone])])]"

definition run_states :: "string list" where
  "run_states = [''idle'', ''running'', ''paused'', ''docked'']"

record device_type_spec =
  spec_traits :: "string list"
  spec_target_c :: "(pyfloat \<times> pyfloat) option"
  spec_modes :: "string list"
  spec_initial :: "(string \<times> pyvalue) list"

definition plain_spec :: "string list \<Rightarrow> (string \<times> pyvalue) list \<Rightarrow> device_type_spec" where
  "plain_spec traits initial = \<lparr>spec_traits = traits, spec_target_c = None, spec_modes = [], spec_initial = initial\<rparr>"

definition device_types :: "(string \<times> device_type_spec) list" where
  "device_types =
    [(''light'', plain_spec [''on_off'', ''level''] [(''on'', PBool False), (''level'', PInt 60)]),
     (''switch'', plain_spec [''on_off''] [(''on'', PBool False)]),
     (''climate'', \<lparr>spec_traits = [''on_off'', ''thermostat''], spec_target_c = Some (Fin 16, Fin 30),
        spec_modes = [''cool'', ''heat'', ''auto'', ''fan'', ''dry''],
        spec_initial = [(''on'', PBool False), (''mode'', PStr ''cool''), (''target_c'', PInt 26), (''current_c'', PNone)]\<rparr>),
     (''water_heater'', \<lparr>spec_traits = [''on_off'', ''thermostat''], spec_target_c = Some (Fin 35, Fin 60),
        spec_modes = [''heat''],
        spec_initial = [(''on'', PBool False), (''mode'', PStr ''heat''), (''target_c'', PInt 42), (''current_c'', PNone)]\<rparr>),
     (''cover'', plain_spec [''position''] [(''position'', PInt 0)]),
     (''fan'', plain_spec [''on_off'', ''fan_speed''] [(''on'', PBool False), (''speed'', PInt 30)]),
     (''media'', plain_spec [''on_off'', ''volume''] [(''on'', PBool False), (''volume'', PInt 20), (''muted'', PBool False)]),
     (''appliance'', plain_spec [''operational''] [(''run_state'', PStr ''idle'')]),
     (''lock'', plain_spec [''lock''] [(''locked'', PBool True)]),
     (''camera'', plain_spec [''on_off''] [(''on'', PBool True)]),
     (''sensor'', plain_spec [''measure''] [(''temp_c'', PNone), (''humidity'', PNone)])]"

definition device_type :: "string \<Rightarrow> home_error + device_type_spec" where
  "device_type kind = or_raise (smart_home_error ''UNSUPPORTED_COMMAND'') (map_of device_types kind)"

definition initial_state :: "string \<Rightarrow> home_error + (string \<times> pyvalue) list" where
  "initial_state kind = and_then (device_type kind) (\<lambda>spec. Inr (spec_initial spec))"

subsection \<open>States\<close>

text \<open>\<open>allowed.update(TRAIT_STATE[trait])\<close> over the traits: a later entry for a key wins.\<close>

fun state_keys :: "string list \<Rightarrow> home_error + (string \<times> pytype list) list" where
  "state_keys [] = Inr []"
| "state_keys (t # ts) =
     and_then (or_raise Key_Missing (map_of trait_state t)) (\<lambda>own.
     and_then (state_keys ts) (\<lambda>later. Inr (later @ own)))"

definition check_entry :: "(string \<times> pytype list) list \<Rightarrow> string \<times> pyvalue \<Rightarrow> home_error + unit" where
  "check_entry allowed kv =
     (case kv of (k, v) \<Rightarrow>
       and_then (or_raise Key_Missing (map_of allowed k)) (\<lambda>types.
         guarded [(is_bool v \<and> TBool \<notin> set types, Value_Refused ''STATE_TYPE_MISMATCH''),
                  (\<not> list_ex (is_instance v) types, Value_Refused ''STATE_TYPE_MISMATCH'')] ()))"

definition keys :: "(string \<times> 'a) list \<Rightarrow> string set" where
  "keys m = fst ` set m"

definition check_state ::
  "string list \<Rightarrow> string list \<Rightarrow> (string \<times> pyvalue) list \<Rightarrow> bool \<Rightarrow> home_error + unit" where
  "check_state traits modes state exact =
     and_then (state_keys traits) (\<lambda>allowed.
     and_then (guarded [(exact \<and> keys state \<noteq> keys allowed, Value_Refused ''STATE_KEYS_MISMATCH''),
                        (\<not> exact \<and> \<not> keys state \<subseteq> keys allowed, Value_Refused ''STATE_KEYS_UNKNOWN'')] ()) (\<lambda>_.
     and_then (each (check_entry allowed) state) (\<lambda>_.
     guarded
       [(case map_of state ''mode'' of None \<Rightarrow> False | Some v \<Rightarrow> \<not> is_text_in modes v, Value_Refused ''STATE_MODE_UNKNOWN''),
        (case map_of state ''run_state'' of None \<Rightarrow> False | Some v \<Rightarrow> \<not> is_text_in run_states v,
         Value_Refused ''STATE_RUN_STATE_UNKNOWN'')] ())))"

definition validate_state :: "string \<Rightarrow> (string \<times> pyvalue) list \<Rightarrow> home_error + unit" where
  "validate_state kind state =
     and_then (device_type kind) (\<lambda>spec. check_state (spec_traits spec) (spec_modes spec) state True)"

subsection \<open>Commands\<close>

record command =
  cmd_device_id :: string
  cmd_trait :: string
  cmd_command :: string
  cmd_params :: "(string \<times> pyvalue) list"

text \<open>The bounds compared with: the specification's target range replaces those of \<open>celsius\<close>.\<close>

definition bounds_in_force ::
  "device_type_spec \<Rightarrow> string \<Rightarrow> pyfloat option \<Rightarrow> pyfloat option \<Rightarrow> pyfloat option \<times> pyfloat option" where
  "bounds_in_force spec name low high =
     (if name = ''celsius'' then case spec_target_c spec of
        None \<Rightarrow> (low, high) | Some (l, h) \<Rightarrow> (Some l, Some h) else (low, high))"

text \<open>The check of one parameter, \<open>continue\<close> being its success.\<close>

definition check_param ::
  "device_type_spec \<Rightarrow> (string \<times> pyvalue) list \<Rightarrow> string \<times> param \<Rightarrow> home_error + unit" where
  "check_param spec params p =
     (case p of (name, kind, low, high) \<Rightarrow>
       and_then (or_raise Key_Missing (map_of params name)) (\<lambda>v.
       case kind of
         Bool_Param \<Rightarrow> guarded [(\<not> is_bool v, smart_home_error ''INVALID_PARAMS'')] ()
       | Mode_Param \<Rightarrow> guarded [(\<not> is_text_in (spec_modes spec) v, smart_home_error ''OUT_OF_RANGE'')] ()
       | _ \<Rightarrow>
         (case as_float v of
            None \<Rightarrow> Inl (smart_home_error ''INVALID_PARAMS'')
          | Some x \<Rightarrow>
              (let bounds = bounds_in_force spec name low high
               in guarded
                   [(kind = Int_Param \<and> \<not> is_instance v TInt, smart_home_error ''INVALID_PARAMS''),
                    ((case fst bounds of None \<Rightarrow> False | Some l \<Rightarrow> float_less x l)
                      \<or> (case snd bounds of None \<Rightarrow> False | Some h \<Rightarrow> float_less h x),
                     smart_home_error ''OUT_OF_RANGE'')] ()))))"

definition check_command :: "device_type_spec \<Rightarrow> command \<Rightarrow> home_error + unit" where
  "check_command spec c =
     and_then (guarded [(cmd_trait c \<notin> set (spec_traits spec), smart_home_error ''UNSUPPORTED_COMMAND'')] ()) (\<lambda>_.
     and_then (or_raise Key_Missing (map_of trait_commands (cmd_trait c))) (\<lambda>table.
     and_then (or_raise (smart_home_error ''UNSUPPORTED_COMMAND'') (map_of table (cmd_command c))) (\<lambda>params.
     and_then (guarded [(keys (cmd_params c) \<noteq> keys params, smart_home_error ''INVALID_PARAMS'')] ()) (\<lambda>_.
     each (check_param spec (cmd_params c)) params))))"

definition validate_command :: "string \<Rightarrow> command \<Rightarrow> home_error + unit" where
  "validate_command kind c = and_then (device_type kind) (\<lambda>spec. check_command spec c)"

subsection \<open>What a check promises\<close>

text \<open>A bound holds, or one of its sides is NaN: every comparison with NaN is false.\<close>

definition bounded_by :: "pyfloat option \<Rightarrow> pyfloat option \<Rightarrow> pyfloat \<Rightarrow> bool" where
  "bounded_by low high x \<longleftrightarrow>
     (\<forall>l. low = Some l \<longrightarrow> x = NaN \<or> l = NaN \<or> float_le l x)
     \<and> (\<forall>h. high = Some h \<longrightarrow> x = NaN \<or> h = NaN \<or> float_le x h)"

fun admitted_value :: "device_type_spec \<Rightarrow> string \<times> param \<Rightarrow> pyvalue \<Rightarrow> bool" where
  "admitted_value spec (name, Bool_Param, low, high) v = is_bool v"
| "admitted_value spec (name, Mode_Param, low, high) v = is_text_in (spec_modes spec) v"
| "admitted_value spec (name, kind, low, high) v =
     (case (v, kind, bounds_in_force spec name low high) of
        (PInt n, _, l, h) \<Rightarrow> bounded_by l h (Fin (of_int n))
      | (PFloat x, Number_Param, l, h) \<Rightarrow> bounded_by l h x
      | _ \<Rightarrow> False)"

definition command_admitted :: "device_type_spec \<Rightarrow> command \<Rightarrow> bool" where
  "command_admitted spec c \<longleftrightarrow> cmd_trait c \<in> set (spec_traits spec)
     \<and> (\<exists>table params. map_of trait_commands (cmd_trait c) = Some table \<and> map_of table (cmd_command c) = Some params
          \<and> keys (cmd_params c) = keys params
          \<and> (\<forall>p \<in> set params. \<exists>v. map_of (cmd_params c) (fst p) = Some v \<and> admitted_value spec p v))"

lemma out_of_bounds_iff:
  "(case low of None \<Rightarrow> False | Some l \<Rightarrow> float_less x l) \<or> (case high of None \<Rightarrow> False | Some h \<Rightarrow> float_less h x)
     \<longleftrightarrow> \<not> bounded_by low high x"
proof -
  have "float_less a b \<longleftrightarrow> \<not> (a = NaN \<or> b = NaN \<or> float_le b a)" for a b
    by (cases "a = NaN \<or> b = NaN") (auto simp: float_le_not_less)
  then show ?thesis by (auto simp: bounded_by_def split: option.splits)
qed

lemma check_param_ok:
  "check_param spec params p = Inr () \<longleftrightarrow>
     (\<exists>v. map_of params (fst p) = Some v \<and> admitted_value spec p v)"
proof -
  obtain name kind low high l h where
    p: "p = (name, kind, low, high)" and b: "bounds_in_force spec name low high = (l, h)"
    by (cases p) (metis prod.exhaust)
  show ?thesis
  proof (cases "map_of params name")
    case None
    then show ?thesis by (simp add: p check_param_def)
  next
    case (Some v)
    then show ?thesis
      by (cases kind; cases v) (simp_all add: p b check_param_def guarded_simps out_of_bounds_iff)
  qed
qed

lemma each_unit: "each f xs = Inr u \<longleftrightarrow> (\<forall>x \<in> set xs. f x = Inr ())"
  by (cases u) (simp add: each_ok)

lemma check_command_admitted: "check_command spec c = Inr () \<longleftrightarrow> command_admitted spec c"
  by (auto simp: check_command_def command_admitted_def guard_simps each_unit check_param_ok)

definition set_target :: "pyvalue \<Rightarrow> command" where
  "set_target v = \<lparr>cmd_device_id = ''ac'', cmd_trait = ''thermostat'', cmd_command = ''set_target'',
     cmd_params = [(''celsius'', v)]\<rparr>"

text \<open>
  The target range of an air conditioner, 16 to 30 degrees, is enforced on every number except
  NaN, which passes both comparisons and is accepted as a target.
\<close>

theorem climate_target_range:
  "validate_command ''climate'' (set_target (PFloat x)) = Inr () \<longleftrightarrow>
     x = NaN \<or> float_le (Fin 16) x \<and> float_le x (Fin 30)"
  by (auto simp: validate_command_def device_type_def device_types_def guard_simps check_command_admitted
      command_admitted_def set_target_def trait_commands_def keys_def bounds_in_force_def bounded_by_def)

text \<open>
  Every device type's initial state is a complete, correctly typed state of that type.
\<close>

theorem initial_states_valid:
  "list_all (\<lambda>kind. and_then (initial_state kind) (validate_state kind) = Inr ()) (map fst device_types)"
  by (simp add: device_types_def initial_state_def device_type_def validate_state_def plain_spec_def check_state_def
      trait_state_def keys_def guarded_simps check_entry_def run_states_def insert_commute)

end
