(* ===== verification/Smarthome.thy ===== *)
theory Smarthome
  imports Smarthome_Vocabulary
begin

text \<open>
  The home registry of \<open>biz/smarthome\<close>: areas, devices with their own traits and limits, scenes and
  placements, and the references between them that a registry write must keep.
\<close>

subsection \<open>Registry\<close>

text \<open>\<open>Identifier\<close>, \<open>Name\<close> and \<open>ProviderKind\<close>.\<close>

definition home_id_ok :: "string \<Rightarrow> bool" where
  "home_id_ok s \<longleftrightarrow> len_between 1 128 s \<and> list_all identifier_char s"

definition home_name_ok :: "string \<Rightarrow> bool" where
  "home_name_ok s \<longleftrightarrow> len_between 1 32 s \<and> list_ex (\<lambda>c. \<not> pattern_space c) s"

definition provider_kind_ok :: "string \<Rightarrow> bool" where
  "provider_kind_ok s = (case s of [] \<Rightarrow> False | c # cs \<Rightarrow>
     is_ascii_lower c \<and> length cs \<le> 31
     \<and> list_all (\<lambda>c. is_ascii_lower c \<or> is_ascii_digit c \<or> c = CHR ''_'') cs)"

record home_session_scope =
  hs_owner_id :: string
  hs_companion_id :: string
  hs_device_ref :: string
  hs_session_id :: string

definition home_session_scope_fields :: "home_session_scope \<Rightarrow> (string \<times> bool) list" where
  "home_session_scope_fields x =
     [(''owner_id'', home_id_ok (hs_owner_id x)),
      (''companion_id'', home_id_ok (hs_companion_id x)),
      (''device_ref'', home_id_ok (hs_device_ref x)),
      (''session_id'', home_id_ok (hs_session_id x))]"

definition make_home_session_scope :: "home_session_scope \<Rightarrow> string invalid + home_session_scope" where
  "make_home_session_scope x = build (home_session_scope_fields x) no_rules x"

definition wf_home_session_scope :: "home_session_scope \<Rightarrow> bool" where
  "wf_home_session_scope x \<longleftrightarrow> admissible (home_session_scope_fields x) no_rules"

interpretation home_session_scope_class: model_class make_home_session_scope wf_home_session_scope
  by (rule build_class; simp add: make_home_session_scope_def wf_home_session_scope_def)

record home_command_request =
  hc_scope :: home_session_scope
  hc_turn_id :: string
  hc_utterance :: string

definition home_command_request_fields :: "home_command_request \<Rightarrow> (string \<times> bool) list" where
  "home_command_request_fields x =
     [(''scope'', wf_home_session_scope (hc_scope x)),
      (''turn_id'', home_id_ok (hc_turn_id x)),
      (''utterance'', len_between 1 512 (hc_utterance x))]"

definition make_home_command_request :: "home_command_request \<Rightarrow> string invalid + home_command_request" where
  "make_home_command_request x = build (home_command_request_fields x) no_rules x"

definition wf_home_command_request :: "home_command_request \<Rightarrow> bool" where
  "wf_home_command_request x \<longleftrightarrow> admissible (home_command_request_fields x) no_rules"

interpretation home_command_request_class: model_class make_home_command_request wf_home_command_request
  by (rule build_class; simp add: make_home_command_request_def wf_home_command_request_def)

definition trait_names :: "string list" where
  "trait_names = map fst trait_commands"

definition wf_command :: "command \<Rightarrow> bool" where
  "wf_command c \<longleftrightarrow> home_id_ok (cmd_device_id c) \<and> cmd_trait c \<in> set trait_names \<and> home_id_ok (cmd_command c)
     \<and> list_all (\<lambda>(k, v). v \<noteq> PNone) (cmd_params c)"

record area =
  ar_area_id :: string
  ar_name :: string
  ar_order :: int

definition area_fields :: "area \<Rightarrow> (string \<times> bool) list" where
  "area_fields x =
     [(''area_id'', home_id_ok (ar_area_id x)),
      (''name'', home_name_ok (ar_name x)),
      (''order'', 0 \<le> ar_order x \<and> ar_order x \<le> 1000)]"

definition make_area :: "area \<Rightarrow> string invalid + area" where
  "make_area x = build (area_fields x) no_rules x"

definition wf_area :: "area \<Rightarrow> bool" where
  "wf_area x \<longleftrightarrow> admissible (area_fields x) no_rules"

interpretation area_class: model_class make_area wf_area
  by (rule build_class; simp add: make_area_def wf_area_def)

record limits =
  lim_target_c :: "(pyfloat \<times> pyfloat) option"
  lim_modes :: "string list option"

definition limits_fields :: "limits \<Rightarrow> (string \<times> bool) list" where
  "limits_fields x =
     [(''modes'', opt_ok (len_between 0 16) (lim_modes x))]"

definition limits_rules :: "limits \<Rightarrow> (bool \<times> string) list" where
  "limits_rules x =
     [((case lim_target_c x of None \<Rightarrow> False | Some (l, h) \<Rightarrow> float_less h l),
       ''LIMITS_TARGET_C_INVERTED'')]"

definition make_limits :: "limits \<Rightarrow> string invalid + limits" where
  "make_limits x = build (limits_fields x) (limits_rules x) x"

definition wf_limits :: "limits \<Rightarrow> bool" where
  "wf_limits x \<longleftrightarrow> admissible (limits_fields x) (limits_rules x)"

interpretation limits_class: model_class make_limits wf_limits
  by (rule build_class; simp add: make_limits_def wf_limits_def)

datatype device_source = Manual_Device | Imported_Device

datatype override_field = Override_Name | Override_Aliases | Override_Area

definition traits_of_type :: "string \<Rightarrow> string list" where
  "traits_of_type kind = (case map_of device_types kind of None \<Rightarrow> [] | Some s \<Rightarrow> spec_traits s)"

record device =
  dv_device_id :: string
  dv_name :: string
  dv_aliases :: "string list"
  dv_type :: string
  dv_area_id :: "string option"
  dv_provider :: string
  dv_provider_ref :: "string option"
  dv_traits :: "string list option"
  dv_limits :: "limits option"
  dv_source :: device_source
  dv_overrides :: "override_field list"
  dv_synced_at_ms :: "int option"
  dv_orphaned :: bool

definition device_fields :: "device \<Rightarrow> (string \<times> bool) list" where
  "device_fields x =
     [(''device_id'', home_id_ok (dv_device_id x)),
      (''name'', home_name_ok (dv_name x)),
      (''aliases'', len_between 0 8 (dv_aliases x) \<and> list_all home_name_ok (dv_aliases x)),
      (''type'', (dv_type x) \<in> set (map fst device_types)),
      (''area_id'', opt_ok home_id_ok (dv_area_id x)),
      (''provider'', home_id_ok (dv_provider x)),
      (''provider_ref'', opt_ok home_id_ok (dv_provider_ref x)),
      (''traits'', opt_ok (\<lambda>ts. len_between 1 9 ts \<and> set ts \<subseteq> set trait_names) (dv_traits x)),
      (''limits'', opt_ok wf_limits (dv_limits x)),
      (''overrides'', len_between 0 3 (dv_overrides x)),
      (''synced_at_ms'', opt_ok (\<lambda>n. 0 \<le> n) (dv_synced_at_ms x))]"

definition device_rules :: "device \<Rightarrow> (bool \<times> string) list" where
  "device_rules x =
     [((case dv_traits x of None \<Rightarrow> False | Some ts \<Rightarrow> has_duplicates ts \<or> \<not> set ts \<subseteq> set (traits_of_type (dv_type x))),
       ''DEVICE_TRAITS_NOT_IN_TYPE'')]"

definition make_device :: "device \<Rightarrow> string invalid + device" where
  "make_device x = build (device_fields x) (device_rules x) x"

definition wf_device :: "device \<Rightarrow> bool" where
  "wf_device x \<longleftrightarrow> admissible (device_fields x) (device_rules x)"

interpretation device_class: model_class make_device wf_device
  by (rule build_class; simp add: make_device_def wf_device_def)

definition provider_binding :: "string \<Rightarrow> string \<times> string" where
  "provider_binding provider =
     (case partition_at (CHR '':'') provider of (kind, sep, account) \<Rightarrow> (kind, if sep then account else []))"

definition device_traits :: "device \<Rightarrow> string list" where
  "device_traits d = (case dv_traits d of Some ts \<Rightarrow> ts | None \<Rightarrow> traits_of_type (dv_type d))"

definition device_spec :: "device \<Rightarrow> home_error + device_type_spec" where
  "device_spec d =
     and_then (or_raise Key_Missing (map_of device_types (dv_type d))) (\<lambda>preset.
     Inr \<lparr>spec_traits = device_traits d,
          spec_target_c = (case dv_limits d of
             Some l \<Rightarrow> (case lim_target_c l of Some t \<Rightarrow> Some t | None \<Rightarrow> spec_target_c preset)
           | None \<Rightarrow> spec_target_c preset),
          spec_modes = (case dv_limits d of
             Some l \<Rightarrow> (case lim_modes l of Some ms \<Rightarrow> ms | None \<Rightarrow> spec_modes preset)
           | None \<Rightarrow> spec_modes preset),
          spec_initial = spec_initial preset\<rparr>)"

definition validate_device_state :: "device \<Rightarrow> (string \<times> pyvalue) list \<Rightarrow> home_error + unit" where
  "validate_device_state d state =
     and_then (device_spec d) (\<lambda>spec. check_state (spec_traits spec) (spec_modes spec) state True)"

definition validate_device_command :: "device \<Rightarrow> command \<Rightarrow> home_error + unit" where
  "validate_device_command d c = and_then (device_spec d) (\<lambda>spec. check_command spec c)"

record scene =
  sc_scene_id :: string
  sc_name :: string
  sc_actions :: "command list"
  sc_provider_ref :: "string option"
  sc_provider :: "string option"

definition scene_fields :: "scene \<Rightarrow> (string \<times> bool) list" where
  "scene_fields x =
     [(''scene_id'', home_id_ok (sc_scene_id x)),
      (''name'', home_name_ok (sc_name x)),
      (''actions'', len_between 0 32 (sc_actions x) \<and> list_all wf_command (sc_actions x)),
      (''provider_ref'', opt_ok home_id_ok (sc_provider_ref x)),
      (''provider'', opt_ok home_id_ok (sc_provider x))]"

definition scene_rules :: "scene \<Rightarrow> (bool \<times> string) list" where
  "scene_rules x =
     [((sc_actions x \<noteq> []) = (sc_provider_ref x \<noteq> None),
       ''EXACTLY_ONE_OF_ACTIONS_OR_PROVIDER_REF''),
      ((sc_provider_ref x = None) \<noteq> (sc_provider x = None),
       ''PROVIDER_SCENE_NEEDS_PROVIDER'')]"

definition make_scene :: "scene \<Rightarrow> string invalid + scene" where
  "make_scene x = build (scene_fields x) (scene_rules x) x"

definition wf_scene :: "scene \<Rightarrow> bool" where
  "wf_scene x \<longleftrightarrow> admissible (scene_fields x) (scene_rules x)"

interpretation scene_class: model_class make_scene wf_scene
  by (rule build_class; simp add: make_scene_def wf_scene_def)

record placement =
  pl_device_ref :: string
  pl_area_id :: string

definition placement_fields :: "placement \<Rightarrow> (string \<times> bool) list" where
  "placement_fields x =
     [(''device_ref'', home_id_ok (pl_device_ref x)),
      (''area_id'', home_id_ok (pl_area_id x))]"

definition make_placement :: "placement \<Rightarrow> string invalid + placement" where
  "make_placement x = build (placement_fields x) no_rules x"

definition wf_placement :: "placement \<Rightarrow> bool" where
  "wf_placement x \<longleftrightarrow> admissible (placement_fields x) no_rules"

interpretation placement_class: model_class make_placement wf_placement
  by (rule build_class; simp add: make_placement_def wf_placement_def)

record registry =
  rg_revision :: int
  rg_areas :: "area list"
  rg_devices :: "device list"
  rg_scenes :: "scene list"
  rg_placements :: "placement list"

definition registry_fields :: "registry \<Rightarrow> (string \<times> bool) list" where
  "registry_fields r =
     [(''revision'', 0 \<le> rg_revision r),
      (''areas'', len_between 0 32 (rg_areas r) \<and> list_all wf_area (rg_areas r)),
      (''devices'', len_between 0 128 (rg_devices r) \<and> list_all wf_device (rg_devices r)),
      (''scenes'', len_between 0 16 (rg_scenes r) \<and> list_all wf_scene (rg_scenes r)),
      (''placements'', len_between 0 64 (rg_placements r) \<and> list_all wf_placement (rg_placements r))]"

definition require_unique :: "string list \<Rightarrow> string \<Rightarrow> home_error + unit" where
  "require_unique values code = guarded [(has_duplicates values, registry_error code)] ()"

text \<open>The text \<open>f"{d.area_id}\x00{d.name}"\<close>; no area is written \<open>None\<close>.\<close>

definition named_in_area :: "device \<Rightarrow> string" where
  "named_in_area d = (case dv_area_id d of None \<Rightarrow> ''None'' | Some a \<Rightarrow> a) @ [char_of (0 :: nat)] @ dv_name d"

definition check_action :: "registry \<Rightarrow> command \<Rightarrow> home_error + unit" where
  "check_action r action =
     and_then (guarded [(cmd_device_id action \<notin> set (map dv_device_id (rg_devices r)),
                         registry_error ''SCENE_DEVICE_UNKNOWN'')] ()) (\<lambda>_.
     and_then (or_raise Key_Missing (find (\<lambda>d. dv_device_id d = cmd_device_id action) (rg_devices r)))
       (\<lambda>d. validate_device_command d action))"

definition validate_references :: "registry \<Rightarrow> home_error + unit" where
  "validate_references r =
     (let area_ids = map ar_area_id (rg_areas r) in
     and_then (require_unique area_ids ''DUPLICATE_AREA'') (\<lambda>_.
     and_then (require_unique (map dv_device_id (rg_devices r)) ''DUPLICATE_DEVICE'') (\<lambda>_.
     and_then (require_unique (map ar_name (rg_areas r)) ''DUPLICATE_AREA_NAME'') (\<lambda>_.
     and_then (require_unique (map named_in_area (rg_devices r)) ''DUPLICATE_DEVICE_NAME_IN_AREA'') (\<lambda>_.
     and_then (require_unique (map sc_scene_id (rg_scenes r)) ''DUPLICATE_SCENE'') (\<lambda>_.
     and_then (require_unique (map pl_device_ref (rg_placements r)) ''DUPLICATE_PLACEMENT'') (\<lambda>_.
     and_then (each (\<lambda>d. guarded [(case dv_area_id d of None \<Rightarrow> False | Some a \<Rightarrow> a \<notin> set area_ids,
                                   registry_error ''DEVICE_AREA_UNKNOWN'')] ()) (rg_devices r)) (\<lambda>_.
     and_then (each (\<lambda>p. guarded [(pl_area_id p \<notin> set area_ids,
                                   registry_error ''PLACEMENT_AREA_UNKNOWN'')] ()) (rg_placements r)) (\<lambda>_.
     each (\<lambda>s. each (check_action r) (sc_actions s)) (rg_scenes r))))))))))"

definition make_registry :: "registry \<Rightarrow> home_error invalid + registry" where
  "make_registry r = build_with (registry_fields r) (validate_references r) r"

definition registry_device :: "registry \<Rightarrow> string \<Rightarrow> device option" where
  "registry_device r i = find (\<lambda>d. dv_device_id d = i) (rg_devices r)"

definition registry_area_of :: "registry \<Rightarrow> string \<Rightarrow> string option" where
  "registry_area_of r ref = map_option pl_area_id (find (\<lambda>p. pl_device_ref p = ref) (rg_placements r))"

definition registry_scene :: "registry \<Rightarrow> string \<Rightarrow> scene option" where
  "registry_scene r i = find (\<lambda>s. sc_scene_id s = i) (rg_scenes r)"


subsection \<open>Lemmas\<close>

lemma require_unique_ok [simp]: "require_unique xs code = Inr u \<longleftrightarrow> distinct xs"
  by (simp add: require_unique_def guard_simps)

lemma identifier_no_nul: "identifier_char c \<Longrightarrow> of_char c \<noteq> (0 :: nat)"
  by (auto simp: identifier_char_def char_class_defs)

lemma nul_free_split:
  "list_all identifier_char a \<Longrightarrow> list_all identifier_char b \<Longrightarrow>
     a @ char_of (0 :: nat) # s = b @ char_of (0 :: nat) # t \<Longrightarrow> a = b \<and> s = t"
proof (induction a arbitrary: b)
  case Nil
  then show ?case by (cases b) (auto dest: identifier_no_nul)
next
  case (Cons x a)
  then show ?case by (cases b) (auto dest: identifier_no_nul)
qed

definition area_text :: "device \<Rightarrow> string" where
  "area_text d = (case dv_area_id d of None \<Rightarrow> ''None'' | Some a \<Rightarrow> a)"

lemma area_text_chars: "wf_device d \<Longrightarrow> list_all identifier_char (area_text d)"
  by (auto simp: wf_device_def device_fields_def admissible_def area_text_def home_id_ok_def identifier_char_def
      char_class_defs split: option.splits)

lemma default_text_eq:
  "(case v of None \<Rightarrow> n | Some a \<Rightarrow> a) = (case w of None \<Rightarrow> n | Some a \<Rightarrow> a) \<longleftrightarrow>
     v = w \<or> {v, w} = {None, Some n}"
  by (cases v; cases w) (auto simp: doubleton_eq_iff)

text \<open>
  Two devices clash by name exactly when they have the same name in the same area, with one
  exception: a device in no area clashes with one of that name in an area whose id is \<open>None\<close>,
  since both are written the same.
\<close>

theorem same_name_clash:
  assumes "wf_device d" "wf_device e"
  shows "named_in_area d = named_in_area e \<longleftrightarrow>
      dv_name d = dv_name e
      \<and> (dv_area_id d = dv_area_id e \<or> {dv_area_id d, dv_area_id e} = {None, Some ''None''})"
proof -
  have "named_in_area x = area_text x @ char_of (0 :: nat) # dv_name x" for x
    by (simp add: named_in_area_def area_text_def)
  then have spelt: "named_in_area d = named_in_area e \<longleftrightarrow> area_text d = area_text e \<and> dv_name d = dv_name e"
    using nul_free_split [OF area_text_chars [OF assms(1)] area_text_chars [OF assms(2)]] by auto
  have area: "area_text d = area_text e \<longleftrightarrow>
      dv_area_id d = dv_area_id e \<or> {dv_area_id d, dv_area_id e} = {None, Some ''None''}"
    unfolding area_text_def by (rule default_text_eq)
  show ?thesis unfolding spelt area by (rule conj_commute)
qed

definition sample_device :: "string option \<Rightarrow> string \<Rightarrow> device" where
  "sample_device area kind = \<lparr>dv_device_id = ''d1'', dv_name = ''lamp'', dv_aliases = [], dv_type = kind, dv_area_id = area,
     dv_provider = ''virtual'', dv_provider_ref = None, dv_traits = None, dv_limits = None,
     dv_source = Manual_Device, dv_overrides = [], dv_synced_at_ms = None, dv_orphaned = False\<rparr>"

lemma sample_device_ok:
  "kind \<in> set (map fst device_types) \<Longrightarrow> opt_ok home_id_ok area \<Longrightarrow> wf_device (sample_device area kind)"
  by (simp add: wf_device_def device_fields_def device_rules_def admissible_def sample_device_def home_id_ok_def
      home_name_ok_def len_between_def identifier_char_def char_class_defs pattern_space_def)

theorem same_name_clash_witness:
  "named_in_area (sample_device None ''light'') = named_in_area (sample_device (Some ''None'') ''light'')"
proof -
  have "wf_device (sample_device None ''light'')" "wf_device (sample_device (Some ''None'') ''light'')"
    by (rule sample_device_ok;
        simp add: device_types_def home_id_ok_def len_between_def identifier_char_def char_class_defs)+
  from same_name_clash [OF this] show ?thesis by (simp add: sample_device_def)
qed

end
