(* ===== verification/Smarthome_Panel.thy ===== *)
theory Smarthome_Panel
  imports Smarthome Byte_Codecs
begin

text \<open>
  Execution, provider accounts and the panel wire of \<open>biz/smarthome\<close>: requests and results, the
  snapshots and deltas a panel is sent, and voice results, whose encoded sizes are bounded. The
  text of a finite float is the argument \<open>ft\<close>.
\<close>

subsection \<open>Execution\<close>

datatype origin_kind = Voice_Origin | Text_Origin | Touch_Origin | Scene_Origin | Mobile_Origin | Automation_Origin

record origin =
  og_kind :: origin_kind
  og_device_ref :: "string option"
  og_turn_id :: "string option"
  og_label :: "string option"

definition origin_fields :: "origin \<Rightarrow> (string \<times> bool) list" where
  "origin_fields x =
     [(''device_ref'', opt_ok home_id_ok (og_device_ref x)),
      (''turn_id'', opt_ok home_id_ok (og_turn_id x)),
      (''label'', opt_ok (len_between 0 32) (og_label x))]"

definition make_origin :: "origin \<Rightarrow> string invalid + origin" where
  "make_origin x = build (origin_fields x) no_rules x"

definition wf_origin :: "origin \<Rightarrow> bool" where
  "wf_origin x \<longleftrightarrow> admissible (origin_fields x) no_rules"

interpretation origin_class: model_class make_origin wf_origin
  by (rule build_class; simp add: make_origin_def wf_origin_def)

record execute_request =
  xq_request_id :: string
  xq_commands :: "command list"
  xq_scene_id :: "string option"
  xq_origin :: origin
  xq_deadline_ms :: int

definition execute_request_fields :: "execute_request \<Rightarrow> (string \<times> bool) list" where
  "execute_request_fields x =
     [(''request_id'', home_id_ok (xq_request_id x)),
      (''commands'', len_between 0 32 (xq_commands x) \<and> list_all wf_command (xq_commands x)),
      (''scene_id'', opt_ok home_id_ok (xq_scene_id x)),
      (''origin'', wf_origin (xq_origin x)),
      (''deadline_ms'', 0 \<le> xq_deadline_ms x)]"

definition execute_request_rules :: "execute_request \<Rightarrow> (bool \<times> string) list" where
  "execute_request_rules x =
     [((xq_commands x \<noteq> []) = (xq_scene_id x \<noteq> None),
       ''EXACTLY_ONE_OF_COMMANDS_OR_SCENE'')]"

definition make_execute_request :: "execute_request \<Rightarrow> string invalid + execute_request" where
  "make_execute_request x = build (execute_request_fields x) (execute_request_rules x) x"

definition wf_execute_request :: "execute_request \<Rightarrow> bool" where
  "wf_execute_request x \<longleftrightarrow> admissible (execute_request_fields x) (execute_request_rules x)"

interpretation execute_request_class: model_class make_execute_request wf_execute_request
  by (rule build_class; simp add: make_execute_request_def wf_execute_request_def)

datatype command_status = Succeeded | Failed | Unknown_Status | Delegated

type_synonym home_state = "(string \<times> pyvalue) list"

record home_command_result =
  cres_device_id :: string
  cres_status :: command_status
  cres_code :: "string option"
  cres_state :: "home_state option"
  cres_platform_answer :: "string option"

definition home_command_result_fields :: "home_command_result \<Rightarrow> (string \<times> bool) list" where
  "home_command_result_fields x =
     [(''device_id'', home_id_ok (cres_device_id x)),
      (''platform_answer'', opt_ok (len_between 0 200) (cres_platform_answer x))]"

definition home_command_result_rules :: "home_command_result \<Rightarrow> (bool \<times> string) list" where
  "home_command_result_rules x =
     [(cres_status x = Failed \<and> (case cres_code x of None \<Rightarrow> True | Some c \<Rightarrow> c \<notin> set error_codes),
       ''FAILED_RESULT_NEEDS_CODE''),
      (cres_status x = Succeeded \<and> cres_state x = None,
       ''SUCCEEDED_RESULT_NEEDS_STATE''),
      (cres_status x = Delegated \<and> cres_platform_answer x = None,
       ''DELEGATED_RESULT_NEEDS_PLATFORM_ANSWER''),
      (cres_status x = Delegated \<and> cres_state x \<noteq> None,
       ''DELEGATED_RESULT_HAS_NO_STATE''),
      (cres_status x \<noteq> Delegated \<and> cres_platform_answer x \<noteq> None,
       ''PLATFORM_ANSWER_ONLY_WHEN_DELEGATED'')]"

definition make_home_command_result :: "home_command_result \<Rightarrow> string invalid + home_command_result" where
  "make_home_command_result x = build (home_command_result_fields x) (home_command_result_rules x) x"

definition wf_home_command_result :: "home_command_result \<Rightarrow> bool" where
  "wf_home_command_result x \<longleftrightarrow> admissible (home_command_result_fields x) (home_command_result_rules x)"

interpretation home_command_result_class: model_class make_home_command_result wf_home_command_result
  by (rule build_class; simp add: make_home_command_result_def wf_home_command_result_def)

record execute_result =
  xres_request_id :: string
  xres_results :: "home_command_result list"
  xres_error :: "string option"

definition execute_result_fields :: "execute_result \<Rightarrow> (string \<times> bool) list" where
  "execute_result_fields x =
     [(''request_id'', home_id_ok (xres_request_id x)),
      (''results'', len_between 0 32 (xres_results x) \<and> list_all wf_home_command_result (xres_results x))]"

definition execute_result_rules :: "execute_result \<Rightarrow> (bool \<times> string) list" where
  "execute_result_rules x =
     [((case xres_error x of None \<Rightarrow> False | Some c \<Rightarrow> c \<notin> set error_codes),
       ''UNKNOWN_ERROR_CODE''),
      ((xres_error x = None) = (xres_results x = []),
       ''EXACTLY_ONE_OF_RESULTS_OR_ERROR'')]"

definition make_execute_result :: "execute_result \<Rightarrow> string invalid + execute_result" where
  "make_execute_result x = build (execute_result_fields x) (execute_result_rules x) x"

definition wf_execute_result :: "execute_result \<Rightarrow> bool" where
  "wf_execute_result x \<longleftrightarrow> admissible (execute_result_fields x) (execute_result_rules x)"

interpretation execute_result_class: model_class make_execute_result wf_execute_result
  by (rule build_class; simp add: make_execute_result_def wf_execute_result_def)

definition validate_execute_result :: "command list \<Rightarrow> execute_result \<Rightarrow> string + unit" where
  "validate_execute_result commands r =
     (if xres_error r \<noteq> None then Inr ()
      else and_then (guarded [(length (xres_results r) \<noteq> length commands, ''RESULT_COUNT_MISMATCH'')] ()) (\<lambda>_.
        each (\<lambda>(c, i). guarded [(cmd_device_id c \<noteq> cres_device_id i, ''RESULT_ORDER_MISMATCH'')] ())
          (zip commands (xres_results r))))"

subsection \<open>Accounts and discovery\<close>

datatype account_field_kind = Text_Field | Secret_Field | Url_Field | Phone_Field | Choice_Field

record account_field =
  af_name :: string
  af_label :: string
  af_kind :: account_field_kind
  af_required :: bool
  af_choices :: "string list"

definition account_field_fields :: "account_field \<Rightarrow> (string \<times> bool) list" where
  "account_field_fields x =
     [(''name'', home_id_ok (af_name x)),
      (''label'', len_between 1 64 (af_label x)),
      (''choices'', len_between 0 32 (af_choices x))]"

definition make_account_field :: "account_field \<Rightarrow> string invalid + account_field" where
  "make_account_field x = build (account_field_fields x) no_rules x"

definition wf_account_field :: "account_field \<Rightarrow> bool" where
  "wf_account_field x \<longleftrightarrow> admissible (account_field_fields x) no_rules"

interpretation account_field_class: model_class make_account_field wf_account_field
  by (rule build_class; simp add: make_account_field_def wf_account_field_def)

record account_schema =
  asc_kind :: string
  asc_label :: string
  asc_fields :: "account_field list"

definition account_schema_fields :: "account_schema \<Rightarrow> (string \<times> bool) list" where
  "account_schema_fields x =
     [(''kind'', provider_kind_ok (asc_kind x)),
      (''label'', len_between 1 64 (asc_label x)),
      (''fields'', len_between 0 16 (asc_fields x) \<and> list_all wf_account_field (asc_fields x))]"

definition make_account_schema :: "account_schema \<Rightarrow> string invalid + account_schema" where
  "make_account_schema x = build (account_schema_fields x) no_rules x"

definition wf_account_schema :: "account_schema \<Rightarrow> bool" where
  "wf_account_schema x \<longleftrightarrow> admissible (account_schema_fields x) no_rules"

interpretation account_schema_class: model_class make_account_schema wf_account_schema
  by (rule build_class; simp add: make_account_schema_def wf_account_schema_def)

record account_choice =
  ach_value :: string
  ach_label :: string

definition account_choice_fields :: "account_choice \<Rightarrow> (string \<times> bool) list" where
  "account_choice_fields x =
     [(''value'', home_id_ok (ach_value x)),
      (''label'', len_between 1 64 (ach_label x))]"

definition make_account_choice :: "account_choice \<Rightarrow> string invalid + account_choice" where
  "make_account_choice x = build (account_choice_fields x) no_rules x"

definition wf_account_choice :: "account_choice \<Rightarrow> bool" where
  "wf_account_choice x \<longleftrightarrow> admissible (account_choice_fields x) no_rules"

interpretation account_choice_class: model_class make_account_choice wf_account_choice
  by (rule build_class; simp add: make_account_choice_def wf_account_choice_def)

datatype account_status = Account_Pending | Account_Connected | Account_Degraded | Account_Revoked

record provider_account =
  pa_account_id :: string
  pa_kind :: string
  pa_label :: string
  pa_status :: account_status
  pa_last_seen_ms :: "int option"
  pa_error :: "string option"
  pa_choices :: "account_choice list"

definition provider_account_fields :: "provider_account \<Rightarrow> (string \<times> bool) list" where
  "provider_account_fields x =
     [(''account_id'', home_id_ok (pa_account_id x)),
      (''kind'', provider_kind_ok (pa_kind x)),
      (''label'', len_between 1 64 (pa_label x)),
      (''last_seen_ms'', opt_ok (\<lambda>n. 0 \<le> n) (pa_last_seen_ms x)),
      (''error'', opt_ok (len_between 0 200) (pa_error x)),
      (''choices'', len_between 0 32 (pa_choices x) \<and> list_all wf_account_choice (pa_choices x))]"

definition make_provider_account :: "provider_account \<Rightarrow> string invalid + provider_account" where
  "make_provider_account x = build (provider_account_fields x) no_rules x"

definition wf_provider_account :: "provider_account \<Rightarrow> bool" where
  "wf_provider_account x \<longleftrightarrow> admissible (provider_account_fields x) no_rules"

interpretation provider_account_class: model_class make_provider_account wf_provider_account
  by (rule build_class; simp add: make_provider_account_def wf_provider_account_def)

record discovered_device =
  dd_external_ref :: string
  dd_name :: string
  dd_suggested_type :: string
  dd_traits :: "string list option"
  dd_limits :: "limits option"
  dd_area_name :: "string option"
  dd_reachable :: bool

definition discovered_device_fields :: "discovered_device \<Rightarrow> (string \<times> bool) list" where
  "discovered_device_fields x =
     [(''external_ref'', home_id_ok (dd_external_ref x)),
      (''name'', len_between 1 64 (dd_name x)),
      (''suggested_type'', (dd_suggested_type x) \<in> set (map fst device_types)),
      (''traits'', opt_ok (\<lambda>ts. len_between 1 9 ts \<and> set ts \<subseteq> set trait_names) (dd_traits x)),
      (''limits'', opt_ok wf_limits (dd_limits x)),
      (''area_name'', opt_ok (len_between 0 64) (dd_area_name x))]"

definition make_discovered_device :: "discovered_device \<Rightarrow> string invalid + discovered_device" where
  "make_discovered_device x = build (discovered_device_fields x) no_rules x"

definition wf_discovered_device :: "discovered_device \<Rightarrow> bool" where
  "wf_discovered_device x \<longleftrightarrow> admissible (discovered_device_fields x) no_rules"

interpretation discovered_device_class: model_class make_discovered_device wf_discovered_device
  by (rule build_class; simp add: make_discovered_device_def wf_discovered_device_def)

record observation =
  ob_device_id :: string
  ob_reachable :: bool
  ob_state :: "home_state option"
  ob_observed_at_ms :: int
  ob_seq :: int

definition observation_fields :: "observation \<Rightarrow> (string \<times> bool) list" where
  "observation_fields x =
     [(''device_id'', home_id_ok (ob_device_id x)),
      (''observed_at_ms'', 0 \<le> ob_observed_at_ms x),
      (''seq'', 0 \<le> ob_seq x)]"

definition make_observation :: "observation \<Rightarrow> string invalid + observation" where
  "make_observation x = build (observation_fields x) no_rules x"

definition wf_observation :: "observation \<Rightarrow> bool" where
  "wf_observation x \<longleftrightarrow> admissible (observation_fields x) no_rules"

interpretation observation_class: model_class make_observation wf_observation
  by (rule build_class; simp add: make_observation_def wf_observation_def)

subsection \<open>Panel wire\<close>

record panel_area =
  par_area_id :: string
  par_name :: string

definition panel_area_fields :: "panel_area \<Rightarrow> (string \<times> bool) list" where
  "panel_area_fields x =
     [(''area_id'', home_id_ok (par_area_id x)),
      (''name'', home_name_ok (par_name x))]"

definition make_panel_area :: "panel_area \<Rightarrow> string invalid + panel_area" where
  "make_panel_area x = build (panel_area_fields x) no_rules x"

definition wf_panel_area :: "panel_area \<Rightarrow> bool" where
  "wf_panel_area x \<longleftrightarrow> admissible (panel_area_fields x) no_rules"

interpretation panel_area_class: model_class make_panel_area wf_panel_area
  by (rule build_class; simp add: make_panel_area_def wf_panel_area_def)

record panel_device =
  pd_device_id :: string
  pd_name :: string
  pd_type :: string
  pd_area_id :: "string option"
  pd_online :: bool
  pd_state :: "home_state option"

definition panel_device_fields :: "panel_device \<Rightarrow> (string \<times> bool) list" where
  "panel_device_fields d =
     [(''device_id'', home_id_ok (pd_device_id d)), (''name'', home_name_ok (pd_name d)),
      (''type'', pd_type d \<in> set (map fst device_types)), (''area_id'', opt_ok home_id_ok (pd_area_id d))]"

definition validate_panel_state :: "panel_device \<Rightarrow> home_error + unit" where
  "validate_panel_state d =
     (case pd_state d of
        None \<Rightarrow> guarded [(pd_online d, Value_Refused ''ONLINE_DEVICE_NEEDS_STATE'')] ()
      | Some state \<Rightarrow> and_then (device_type (pd_type d))
          (\<lambda>spec. check_state (spec_traits spec) (spec_modes spec) state False))"

definition make_panel_device :: "panel_device \<Rightarrow> home_error invalid + panel_device" where
  "make_panel_device d = build_with (panel_device_fields d) (validate_panel_state d) d"

record panel_scene =
  psc_scene_id :: string
  psc_name :: string

definition panel_scene_fields :: "panel_scene \<Rightarrow> (string \<times> bool) list" where
  "panel_scene_fields x =
     [(''scene_id'', home_id_ok (psc_scene_id x)),
      (''name'', home_name_ok (psc_name x))]"

definition make_panel_scene :: "panel_scene \<Rightarrow> string invalid + panel_scene" where
  "make_panel_scene x = build (panel_scene_fields x) no_rules x"

definition wf_panel_scene :: "panel_scene \<Rightarrow> bool" where
  "wf_panel_scene x \<longleftrightarrow> admissible (panel_scene_fields x) no_rules"

interpretation panel_scene_class: model_class make_panel_scene wf_panel_scene
  by (rule build_class; simp add: make_panel_scene_def wf_panel_scene_def)

record panel_snapshot =
  ps_revision :: int
  ps_seq :: int
  ps_home_name :: string
  ps_panel_area_id :: "string option"
  ps_utc_offset_minutes :: int
  ps_areas :: "panel_area list"
  ps_devices :: "panel_device list"
  ps_scenes :: "panel_scene list"

fun value_json :: "pyvalue \<Rightarrow> json" where
  "value_json (PBool b) = JBool b"
| "value_json (PInt n) = JInt n"
| "value_json (PFloat f) = JFloat f"
| "value_json (PStr s) = JStr s"
| "value_json PNone = JNull"

definition option_json :: "('a \<Rightarrow> json) \<Rightarrow> 'a option \<Rightarrow> json" where
  "option_json f v = (case v of None \<Rightarrow> JNull | Some x \<Rightarrow> f x)"

definition state_json :: "home_state \<Rightarrow> json" where
  "state_json m = JObj (map (\<lambda>(k, v). (k, value_json v)) m)"

definition snapshot_json :: "panel_snapshot \<Rightarrow> json" where
  "snapshot_json s =
     JObj [(''schema_version'', JInt 1), (''revision'', JInt (ps_revision s)), (''seq'', JInt (ps_seq s)),
           (''home_name'', JStr (ps_home_name s)), (''panel_area_id'', option_json JStr (ps_panel_area_id s)),
           (''utc_offset_minutes'', JInt (ps_utc_offset_minutes s)),
           (''areas'', JArr (map (\<lambda>a. JObj [(''area_id'', JStr (par_area_id a)), (''name'', JStr (par_name a))]) (ps_areas s))),
           (''devices'', JArr (map (\<lambda>d. JObj [(''device_id'', JStr (pd_device_id d)), (''name'', JStr (pd_name d)),
              (''type'', JStr (pd_type d)), (''area_id'', option_json JStr (pd_area_id d)),
              (''online'', JBool (pd_online d)), (''state'', option_json state_json (pd_state d))]) (ps_devices s))),
           (''scenes'', JArr (map (\<lambda>c. JObj [(''scene_id'', JStr (psc_scene_id c)), (''name'', JStr (psc_name c))]) (ps_scenes s)))]"

definition encoded_size :: "(rat \<Rightarrow> string) \<Rightarrow> json \<Rightarrow> nat" where
  "encoded_size ft v = length (utf8 (json_text ft v))"

definition wf_panel_device :: "panel_device \<Rightarrow> bool" where
  "wf_panel_device d \<longleftrightarrow> admissible (panel_device_fields d) no_rules \<and> validate_panel_state d = Inr ()"

definition panel_snapshot_fields :: "panel_snapshot \<Rightarrow> (string \<times> bool) list" where
  "panel_snapshot_fields s =
     [(''revision'', 0 \<le> ps_revision s), (''seq'', 0 \<le> ps_seq s), (''home_name'', home_name_ok (ps_home_name s)),
      (''panel_area_id'', opt_ok home_id_ok (ps_panel_area_id s)),
      (''utc_offset_minutes'', - 720 \<le> ps_utc_offset_minutes s \<and> ps_utc_offset_minutes s \<le> 840),
      (''areas'', len_between 0 32 (ps_areas s) \<and> list_all wf_panel_area (ps_areas s)),
      (''devices'', len_between 0 128 (ps_devices s) \<and> list_all wf_panel_device (ps_devices s)),
      (''scenes'', len_between 0 16 (ps_scenes s) \<and> list_all wf_panel_scene (ps_scenes s))]"

text \<open>The codes given here are registry codes but for the scene and candidate ones, as in \<open>_unique\<close>.\<close>

definition validate_snapshot :: "(rat \<Rightarrow> string) \<Rightarrow> panel_snapshot \<Rightarrow> home_error + unit" where
  "validate_snapshot ft s =
     (let area_ids = map par_area_id (ps_areas s) in
     and_then (require_unique area_ids ''DUPLICATE_AREA'') (\<lambda>_.
     and_then (require_unique (map pd_device_id (ps_devices s)) ''DUPLICATE_DEVICE'') (\<lambda>_.
     and_then (require_unique (map psc_scene_id (ps_scenes s)) ''DUPLICATE_SCENE'') (\<lambda>_.
     and_then (guarded [(case ps_panel_area_id s of None \<Rightarrow> False | Some a \<Rightarrow> a \<notin> set area_ids,
                         Value_Refused ''PANEL_AREA_UNKNOWN'')] ()) (\<lambda>_.
     and_then (each (\<lambda>d. guarded [(case pd_area_id d of None \<Rightarrow> False | Some a \<Rightarrow> a \<notin> set area_ids,
                                   Value_Refused ''DEVICE_AREA_UNKNOWN'')] ()) (ps_devices s)) (\<lambda>_.
     guarded [(64 * 1024 < encoded_size ft (snapshot_json s), Value_Refused ''SNAPSHOT_TOO_LARGE'')] ()))))))"

definition make_panel_snapshot :: "(rat \<Rightarrow> string) \<Rightarrow> panel_snapshot \<Rightarrow> home_error invalid + panel_snapshot" where
  "make_panel_snapshot ft s = build_with (panel_snapshot_fields s) (validate_snapshot ft s) s"

record panel_change =
  pch_device_id :: string
  pch_online :: bool
  pch_state :: home_state

definition panel_change_fields :: "panel_change \<Rightarrow> (string \<times> bool) list" where
  "panel_change_fields x =
     [(''device_id'', home_id_ok (pch_device_id x))]"

definition make_panel_change :: "panel_change \<Rightarrow> string invalid + panel_change" where
  "make_panel_change x = build (panel_change_fields x) no_rules x"

definition wf_panel_change :: "panel_change \<Rightarrow> bool" where
  "wf_panel_change x \<longleftrightarrow> admissible (panel_change_fields x) no_rules"

interpretation panel_change_class: model_class make_panel_change wf_panel_change
  by (rule build_class; simp add: make_panel_change_def wf_panel_change_def)

record change_source =
  chs_kind :: origin_kind
  chs_label :: "string option"

definition change_source_fields :: "change_source \<Rightarrow> (string \<times> bool) list" where
  "change_source_fields x =
     [(''label'', opt_ok (len_between 0 32) (chs_label x))]"

definition make_change_source :: "change_source \<Rightarrow> string invalid + change_source" where
  "make_change_source x = build (change_source_fields x) no_rules x"

definition wf_change_source :: "change_source \<Rightarrow> bool" where
  "wf_change_source x \<longleftrightarrow> admissible (change_source_fields x) no_rules"

interpretation change_source_class: model_class make_change_source wf_change_source
  by (rule build_class; simp add: make_change_source_def wf_change_source_def)

record panel_delta =
  pdl_revision :: int
  pdl_seq :: int
  pdl_source :: change_source
  pdl_changes :: "panel_change list"

definition panel_delta_fields :: "panel_delta \<Rightarrow> (string \<times> bool) list" where
  "panel_delta_fields x =
     [(''revision'', 0 \<le> pdl_revision x),
      (''seq'', 1 \<le> pdl_seq x),
      (''source'', wf_change_source (pdl_source x)),
      (''changes'', len_between 1 32 (pdl_changes x) \<and> list_all wf_panel_change (pdl_changes x))]"

definition panel_delta_rules :: "panel_delta \<Rightarrow> (bool \<times> string) list" where
  "panel_delta_rules x =
     [(has_duplicates (map pch_device_id (pdl_changes x)),
       ''DUPLICATE_CHANGE'')]"

definition make_panel_delta :: "panel_delta \<Rightarrow> string invalid + panel_delta" where
  "make_panel_delta x = build (panel_delta_fields x) (panel_delta_rules x) x"

definition wf_panel_delta :: "panel_delta \<Rightarrow> bool" where
  "wf_panel_delta x \<longleftrightarrow> admissible (panel_delta_fields x) (panel_delta_rules x)"

interpretation panel_delta_class: model_class make_panel_delta wf_panel_delta
  by (rule build_class; simp add: make_panel_delta_def wf_panel_delta_def)

record panel_candidate =
  pcd_device_id :: string
  pcd_name :: string

definition panel_candidate_fields :: "panel_candidate \<Rightarrow> (string \<times> bool) list" where
  "panel_candidate_fields x =
     [(''device_id'', home_id_ok (pcd_device_id x)),
      (''name'', home_name_ok (pcd_name x))]"

definition make_panel_candidate :: "panel_candidate \<Rightarrow> string invalid + panel_candidate" where
  "make_panel_candidate x = build (panel_candidate_fields x) no_rules x"

definition wf_panel_candidate :: "panel_candidate \<Rightarrow> bool" where
  "wf_panel_candidate x \<longleftrightarrow> admissible (panel_candidate_fields x) no_rules"

interpretation panel_candidate_class: model_class make_panel_candidate wf_panel_candidate
  by (rule build_class; simp add: make_panel_candidate_def wf_panel_candidate_def)

record command_template =
  ct_trait :: string
  ct_command :: string
  ct_params :: home_state

definition command_template_fields :: "command_template \<Rightarrow> (string \<times> bool) list" where
  "command_template_fields x =
     [(''trait'', (ct_trait x) \<in> set trait_names),
      (''command'', home_id_ok (ct_command x)),
      (''params'', list_all (\<lambda>(k, v). v \<noteq> PNone) (ct_params x))]"

definition make_command_template :: "command_template \<Rightarrow> string invalid + command_template" where
  "make_command_template x = build (command_template_fields x) no_rules x"

definition wf_command_template :: "command_template \<Rightarrow> bool" where
  "wf_command_template x \<longleftrightarrow> admissible (command_template_fields x) no_rules"

interpretation command_template_class: model_class make_command_template wf_command_template
  by (rule build_class; simp add: make_command_template_def wf_command_template_def)

datatype voice_outcome = Executed | Partial_Outcome | Answered | Ambiguous | Clarification_Outcome | Not_Found_Outcome
  | Unrelated | Failed_Outcome | Unavailable_Outcome

fun voice_outcome_wire :: "voice_outcome \<Rightarrow> string" where
  "voice_outcome_wire Executed = ''executed''"
| "voice_outcome_wire Partial_Outcome = ''partial''"
| "voice_outcome_wire Answered = ''answered''"
| "voice_outcome_wire Ambiguous = ''ambiguous''"
| "voice_outcome_wire Clarification_Outcome = ''clarification''"
| "voice_outcome_wire Not_Found_Outcome = ''not_found''"
| "voice_outcome_wire Unrelated = ''unrelated''"
| "voice_outcome_wire Failed_Outcome = ''failed''"
| "voice_outcome_wire Unavailable_Outcome = ''unavailable''"

record voice_result =
  vr_turn_id :: string
  vr_utterance :: string
  vr_outcome :: voice_outcome
  vr_message :: string
  vr_candidates :: "panel_candidate list"
  vr_command :: "command_template option"

definition voice_result_json :: "voice_result \<Rightarrow> json" where
  "voice_result_json v =
     JObj [(''schema_version'', JInt 1), (''turn_id'', JStr (vr_turn_id v)), (''utterance'', JStr (vr_utterance v)),
           (''outcome'', JStr (voice_outcome_wire (vr_outcome v))), (''message'', JStr (vr_message v)),
           (''candidates'', JArr (map (\<lambda>c. JObj [(''device_id'', JStr (pcd_device_id c)), (''name'', JStr (pcd_name c))])
              (vr_candidates v))),
           (''command'', option_json (\<lambda>t. JObj [(''trait'', JStr (ct_trait t)), (''command'', JStr (ct_command t)),
              (''params'', state_json (ct_params t))]) (vr_command v))]"

definition voice_result_fields :: "voice_result \<Rightarrow> (string \<times> bool) list" where
  "voice_result_fields v =
     [(''turn_id'', home_id_ok (vr_turn_id v)), (''utterance'', len_between 0 200 (vr_utterance v)),
      (''message'', len_between 1 120 (vr_message v)),
      (''candidates'', len_between 0 8 (vr_candidates v) \<and> list_all wf_panel_candidate (vr_candidates v)),
      (''command'', opt_ok wf_command_template (vr_command v))]"

definition validate_voice_outcome :: "(rat \<Rightarrow> string) \<Rightarrow> voice_result \<Rightarrow> home_error + unit" where
  "validate_voice_outcome ft v =
     (let ambiguous = (vr_outcome v = Ambiguous) in
      and_then (guarded
        [(ambiguous \<noteq> (2 \<le> length (vr_candidates v)), Value_Refused ''CANDIDATES_DO_NOT_MATCH_OUTCOME''),
         (ambiguous \<noteq> (vr_command v \<noteq> None), Value_Refused ''COMMAND_TEMPLATE_DO_NOT_MATCH_OUTCOME'')] ()) (\<lambda>_.
      and_then (require_unique (map pcd_device_id (vr_candidates v)) ''DUPLICATE_CANDIDATE'') (\<lambda>_.
      guarded [(3072 < encoded_size ft (voice_result_json v), Value_Refused ''VOICE_RESULT_TOO_LARGE'')] ())))"

definition make_voice_result :: "(rat \<Rightarrow> string) \<Rightarrow> voice_result \<Rightarrow> home_error invalid + voice_result" where
  "make_voice_result ft v = build_with (voice_result_fields v) (validate_voice_outcome ft v) v"

record panel_execute =
  px_request_id :: string
  px_commands :: "command list"
  px_scene_id :: "string option"

definition panel_execute_fields :: "panel_execute \<Rightarrow> (string \<times> bool) list" where
  "panel_execute_fields x =
     [(''request_id'', home_id_ok (px_request_id x)),
      (''commands'', len_between 0 8 (px_commands x) \<and> list_all wf_command (px_commands x)),
      (''scene_id'', opt_ok home_id_ok (px_scene_id x))]"

definition panel_execute_rules :: "panel_execute \<Rightarrow> (bool \<times> string) list" where
  "panel_execute_rules x =
     [((px_commands x \<noteq> []) = (px_scene_id x \<noteq> None),
       ''EXACTLY_ONE_OF_COMMANDS_OR_SCENE'')]"

definition make_panel_execute :: "panel_execute \<Rightarrow> string invalid + panel_execute" where
  "make_panel_execute x = build (panel_execute_fields x) (panel_execute_rules x) x"

definition wf_panel_execute :: "panel_execute \<Rightarrow> bool" where
  "wf_panel_execute x \<longleftrightarrow> admissible (panel_execute_fields x) (panel_execute_rules x)"

interpretation panel_execute_class: model_class make_panel_execute wf_panel_execute
  by (rule build_class; simp add: make_panel_execute_def wf_panel_execute_def)

record panel_sync =
  py_known_revision :: "int option"
  py_known_seq :: "int option"

definition panel_sync_fields :: "panel_sync \<Rightarrow> (string \<times> bool) list" where
  "panel_sync_fields x =
     [(''known_revision'', opt_ok (\<lambda>n. 0 \<le> n) (py_known_revision x)),
      (''known_seq'', opt_ok (\<lambda>n. 0 \<le> n) (py_known_seq x))]"

definition make_panel_sync :: "panel_sync \<Rightarrow> string invalid + panel_sync" where
  "make_panel_sync x = build (panel_sync_fields x) no_rules x"

definition wf_panel_sync :: "panel_sync \<Rightarrow> bool" where
  "wf_panel_sync x \<longleftrightarrow> admissible (panel_sync_fields x) no_rules"

interpretation panel_sync_class: model_class make_panel_sync wf_panel_sync
  by (rule build_class; simp add: make_panel_sync_def wf_panel_sync_def)


subsection \<open>Panel requests\<close>

text \<open>What a panel publishes, and reading it back by its type.\<close>

datatype panel_message = Execute_Message panel_execute | Sync_Message panel_sync

definition command_json :: "command \<Rightarrow> json" where
  "command_json c =
     JObj [(''device_id'', JStr (cmd_device_id c)), (''trait'', JStr (cmd_trait c)),
           (''command'', JStr (cmd_command c)), (''params'', state_json (cmd_params c))]"

fun panel_payload :: "panel_message \<Rightarrow> json_object" where
  "panel_payload (Execute_Message m) =
     [(''schema_version'', JInt 1), (''request_id'', JStr (px_request_id m)),
      (''commands'', JArr (map command_json (px_commands m))), (''scene_id'', option_json JStr (px_scene_id m))]"
| "panel_payload (Sync_Message m) =
     [(''schema_version'', JInt 1), (''known_revision'', option_json JInt (py_known_revision m)),
      (''known_seq'', option_json JInt (py_known_seq m))]"

fun panel_request_type :: "panel_message \<Rightarrow> string" where
  "panel_request_type (Execute_Message m) = ''smarthome.execute''"
| "panel_request_type (Sync_Message m) = ''smarthome.sync''"

definition panel_request :: "panel_message \<Rightarrow> json_object" where
  "panel_request m =
     [(''schema_v'', JInt 1), (''type'', JStr (panel_request_type m)), (''payload'', JObj (panel_payload m))]"

fun param_of_json :: "json \<Rightarrow> pyvalue option" where
  "param_of_json (JBool b) = Some (PBool b)"
| "param_of_json (JInt n) = Some (PInt n)"
| "param_of_json (JFloat f) = Some (PFloat f)"
| "param_of_json (JStr s) = Some (PStr s)"
| "param_of_json _ = None"

fun traverse :: "('a \<Rightarrow> 'b option) \<Rightarrow> 'a list \<Rightarrow> 'b list option" where
  "traverse f [] = Some []"
| "traverse f (x # xs) = Option.bind (f x) (\<lambda>y. map_option (Cons y) (traverse f xs))"

definition params_of_json :: "json_object \<Rightarrow> home_state option" where
  "params_of_json kvs =
     (case map_of kvs ''params'' of
        None \<Rightarrow> Some []
      | Some (JObj m) \<Rightarrow> traverse (\<lambda>(k, v). map_option (Pair k) (param_of_json v)) m
      | _ \<Rightarrow> None)"

definition command_of_json :: "json \<Rightarrow> command option" where
  "command_of_json v = (case v of
     JObj kvs \<Rightarrow>
       if only_keys [''device_id'', ''trait'', ''command'', ''params''] kvs
       then Option.bind (parse_text kvs ''device_id'') (\<lambda>d.
            Option.bind (parse_text kvs ''trait'') (\<lambda>t.
            Option.bind (parse_text kvs ''command'') (\<lambda>n.
            Option.bind (params_of_json kvs) (\<lambda>ps.
              let c = \<lparr>cmd_device_id = d, cmd_trait = t, cmd_command = n, cmd_params = ps\<rparr>
              in if wf_command c then Some c else None))))
       else None
   | _ \<Rightarrow> None)"

definition nullable :: "(json \<Rightarrow> 'a option) \<Rightarrow> json_object \<Rightarrow> string \<Rightarrow> 'a option option" where
  "nullable f kvs k = (case map_of kvs k of
     None \<Rightarrow> Some None | Some v \<Rightarrow> if v = JNull then Some None else map_option Some (f v))"

fun json_text_value :: "json \<Rightarrow> string option" where
  "json_text_value (JStr s) = Some s"
| "json_text_value _ = None"

fun json_int_value :: "json \<Rightarrow> int option" where
  "json_int_value (JInt n) = Some n"
| "json_int_value _ = None"

definition execute_of_json :: "json_object \<Rightarrow> panel_execute option" where
  "execute_of_json kvs =
     (if only_keys [''schema_version'', ''request_id'', ''commands'', ''scene_id''] kvs
         \<and> defaulted ''schema_version'' (is_integer (\<lambda>n. n = 1)) kvs
      then Option.bind (parse_text kvs ''request_id'') (\<lambda>i.
           Option.bind (case map_of kvs ''commands'' of None \<Rightarrow> Some []
                          | Some (JArr vs) \<Rightarrow> traverse command_of_json vs | _ \<Rightarrow> None) (\<lambda>cs.
           Option.bind (nullable json_text_value kvs ''scene_id'') (\<lambda>s.
             let m = \<lparr>px_request_id = i, px_commands = cs, px_scene_id = s\<rparr>
             in if wf_panel_execute m then Some m else None)))
      else None)"

definition sync_of_json :: "json_object \<Rightarrow> panel_sync option" where
  "sync_of_json kvs =
     (if only_keys [''schema_version'', ''known_revision'', ''known_seq''] kvs
         \<and> defaulted ''schema_version'' (is_integer (\<lambda>n. n = 1)) kvs
      then Option.bind (nullable json_int_value kvs ''known_revision'') (\<lambda>r.
           Option.bind (nullable json_int_value kvs ''known_seq'') (\<lambda>q.
             let m = \<lparr>py_known_revision = r, py_known_seq = q\<rparr>
             in if wf_panel_sync m then Some m else None))
      else None)"

text \<open>\<open>PanelRequest.model_validate(v).message()\<close>.\<close>

definition read_panel_request :: "json_object \<Rightarrow> panel_message option" where
  "read_panel_request kvs =
     (if only_keys [''schema_v'', ''type'', ''payload''] kvs
         \<and> defaulted ''schema_v'' (is_integer (\<lambda>n. n = 1)) kvs
      then (case (map_of kvs ''type'', map_of kvs ''payload'') of
              (Some (JStr t), Some (JObj p)) \<Rightarrow>
                if t = ''smarthome.execute'' then map_option Execute_Message (execute_of_json p)
                else if t = ''smarthome.sync'' then map_option Sync_Message (sync_of_json p) else None
            | _ \<Rightarrow> None)
      else None)"

fun wf_panel_message :: "panel_message \<Rightarrow> bool" where
  "wf_panel_message (Execute_Message m) = wf_panel_execute m"
| "wf_panel_message (Sync_Message m) = wf_panel_sync m"

subsection \<open>Lemmas\<close>

lemma traverse_map: "list_all (\<lambda>x. f (g x) = Some x) xs \<Longrightarrow> traverse f (map g xs) = Some xs"
  by (induction xs) auto

lemma param_round_trip: "v \<noteq> PNone \<Longrightarrow> param_of_json (value_json v) = Some v"
  by (cases v) auto

lemma params_round_trip:
  "list_all (\<lambda>(k, v). v \<noteq> PNone) m \<Longrightarrow>
     traverse (\<lambda>(k, v). map_option (Pair k) (param_of_json v)) (map (\<lambda>(k, v). (k, value_json v)) m) = Some m"
  by (rule traverse_map) (auto simp: list_all_iff param_round_trip)

lemma command_round_trip: "wf_command c \<Longrightarrow> command_of_json (command_json c) = Some c"
  by (cases c) (simp add: command_of_json_def command_json_def only_keys_def parse_text_def params_of_json_def
      state_json_def wf_command_def params_round_trip)

lemma nullable_option:
  "map_of kvs k = Some (option_json g v) \<Longrightarrow> (\<And>x. f (g x) = Some x) \<Longrightarrow> (\<And>x. g x \<noteq> JNull) \<Longrightarrow>
     nullable f kvs k = Some v"
  by (cases v) (auto simp: nullable_def option_json_def)

lemma wf_execute_commands: "wf_panel_execute m \<Longrightarrow> list_all wf_command (px_commands m)"
  by (simp add: wf_panel_execute_def panel_execute_fields_def admissible_def)

lemma execute_round_trip:
  "wf_panel_execute m \<Longrightarrow> execute_of_json (panel_payload (Execute_Message m)) = Some m"
proof -
  assume m: "wf_panel_execute m"
  have "traverse command_of_json (map command_json (px_commands m)) = Some (px_commands m)"
    using wf_execute_commands [OF m] by (intro traverse_map) (simp add: list_all_iff command_round_trip)
  moreover have "nullable json_text_value (panel_payload (Execute_Message m)) ''scene_id'' = Some (px_scene_id m)"
    by (rule nullable_option [where g = JStr]) simp_all
  ultimately show ?thesis
    using m by (cases m) (simp add: execute_of_json_def only_keys_def defaulted_def parse_text_def)
qed

lemma sync_round_trip: "wf_panel_sync m \<Longrightarrow> sync_of_json (panel_payload (Sync_Message m)) = Some m"
proof -
  assume m: "wf_panel_sync m"
  have "nullable json_int_value (panel_payload (Sync_Message m)) ''known_revision'' = Some (py_known_revision m)"
    "nullable json_int_value (panel_payload (Sync_Message m)) ''known_seq'' = Some (py_known_seq m)"
    by (rule nullable_option [where g = JInt]; simp)+
  then show ?thesis using m by (cases m) (simp add: sync_of_json_def only_keys_def defaulted_def)
qed

lemma panel_request_round_trip: "wf_panel_message m \<Longrightarrow> read_panel_request (panel_request m) = Some m"
  by (cases m) (simp_all add: read_panel_request_def panel_request_def only_keys_def defaulted_def
      execute_round_trip sync_round_trip del: panel_payload.simps)

interpretation panel_wire: codec panel_request read_panel_request wf_panel_message
  by unfold_locales (rule panel_request_round_trip)

text \<open>The state keys of the traits: each key has its types wherever it occurs.\<close>

definition state_table :: "(string \<times> pytype list) list" where
  "state_table = concat (map snd trait_state)"

lemma state_table_distinct: "distinct (map fst state_table)"
  by (simp add: state_table_def trait_state_def)

lemma state_keys_set:
  "state_keys ts = Inr al \<Longrightarrow> set al = (\<Union>t \<in> set ts. set (the (map_of trait_state t)))"
  by (induction ts arbitrary: al) (auto simp: guard_simps)

lemma state_keys_table: "state_keys ts = Inr al \<Longrightarrow> set al \<subseteq> set state_table"
proof (induction ts arbitrary: al)
  case Nil
  then show ?case by simp
next
  case (Cons t ts)
  then obtain own later where own: "(t, own) \<in> set trait_state" and later: "state_keys ts = Inr later"
    and al: "al = later @ own"
    by (auto simp: guard_simps dest: map_of_SomeD)
  have "set own \<subseteq> set state_table" using own by (force simp: state_table_def)
  then show ?case using Cons.IH [OF later] al by simp
qed

lemma state_keys_total: "set ts \<subseteq> fst ` set trait_state \<Longrightarrow> \<exists>al. state_keys ts = Inr al"
proof (induction ts)
  case Nil
  then show ?case by simp
next
  case (Cons t ts)
  then obtain al where "state_keys ts = Inr al" by auto
  moreover obtain own where "map_of trait_state t = Some own"
    using Cons.prems by (cases "map_of trait_state t") (auto simp: map_of_eq_None_iff)
  ultimately show ?case by simp
qed

lemma same_types:
  assumes "set al \<subseteq> set state_table" "set bl \<subseteq> set state_table" "k \<in> fst ` set al" "k \<in> fst ` set bl"
  shows "map_of al k = map_of bl k"
proof -
  have "map_of l k = map_of state_table k" if l: "set l \<subseteq> set state_table" and k: "k \<in> fst ` set l" for l
  proof -
    obtain ty where "map_of l k = Some ty" using k by (metis map_of_eq_None_iff not_Some_eq)
    then have "(k, ty) \<in> set state_table" using l by (auto dest: map_of_SomeD)
    then show ?thesis using \<open>map_of l k = Some ty\<close> state_table_distinct by simp
  qed
  then show ?thesis using assms by simp
qed

lemma wider_state_check:
  assumes exact: "check_state ts modes state True = Inr ()"
    and wider: "set ts \<subseteq> set ts'" "set ts' \<subseteq> fst ` set trait_state"
  shows "check_state ts' modes' state False = Inr () \<longleftrightarrow>
      (\<forall>v. map_of state ''mode'' = Some v \<longrightarrow> is_text_in modes' v)"
proof -
  obtain al where al: "state_keys ts = Inr al" "keys state = keys al" "\<forall>x \<in> set state. check_entry al x = Inr ()"
    and run: "\<forall>v. map_of state ''run_state'' = Some v \<longrightarrow> is_text_in run_states v"
    using exact by (auto simp: check_state_def guard_simps each_unit split: option.splits)
  obtain bl where bl: "state_keys ts' = Inr bl" using state_keys_total [OF wider(2)] by blast
  have sub: "set al \<subseteq> set bl" using wider(1) state_keys_set [OF al(1)] state_keys_set [OF bl] by auto
  have "check_entry bl x = check_entry al x" if "x \<in> set state" for x
  proof -
    have "fst x \<in> keys al" using that al(2) by (auto simp: keys_def)
    then have "map_of bl (fst x) = map_of al (fst x)"
      using sub state_keys_table [OF al(1)] state_keys_table [OF bl]
      by (intro same_types) (auto simp: keys_def)
    then show ?thesis by (cases x) (simp add: check_entry_def)
  qed
  moreover have "keys state \<subseteq> keys bl" using sub al(2) by (auto simp: keys_def)
  ultimately show ?thesis
    using al(3) bl run
    by (auto simp: check_state_def guard_simps each_unit split: option.splits)
qed

lemma type_traits_known:
  "map_of device_types kind = Some spec \<Longrightarrow> set (spec_traits spec) \<subseteq> fst ` set trait_state"
proof -
  have "list_all (\<lambda>(k, s). set (spec_traits s) \<subseteq> fst ` set trait_state) device_types"
    by (simp add: device_types_def trait_state_def plain_spec_def)
  then show "map_of device_types kind = Some spec \<Longrightarrow> set (spec_traits spec) \<subseteq> fst ` set trait_state"
    by (auto simp: list_all_iff dest!: map_of_SomeD)
qed

definition shown_as :: "device \<Rightarrow> bool \<Rightarrow> home_state \<Rightarrow> panel_device" where
  "shown_as d online state = \<lparr>pd_device_id = dv_device_id d, pd_name = dv_name d, pd_type = dv_type d,
     pd_area_id = dv_area_id d, pd_online = online, pd_state = Some state\<rparr>"

lemma wf_device_parts:
  "wf_device d \<Longrightarrow> home_id_ok (dv_device_id d) \<and> home_name_ok (dv_name d) \<and> dv_type d \<in> set (map fst device_types)
     \<and> opt_ok home_id_ok (dv_area_id d) \<and> set (device_traits d) \<subseteq> set (traits_of_type (dv_type d))"
  by (auto simp: wf_device_def device_fields_def device_rules_def admissible_def device_traits_def split: option.splits)

text \<open>
  A full state that is valid for a device can be shown on a panel exactly when its mode, if it
  has one, is a mode of the device's type: the panel accepts every state of a device that narrows
  its type's traits, and refuses those in a mode that only the device's own limits introduce.
\<close>

theorem panel_shows_device_states:
  assumes "wf_device d" and valid: "validate_device_state d state = Inr ()"
  shows "make_panel_device (shown_as d online state) = Inr (shown_as d online state) \<longleftrightarrow>
      (\<forall>v. map_of state ''mode'' = Some v \<longrightarrow> is_text_in (spec_modes (the (map_of device_types (dv_type d)))) v)"
proof -
  note parts = wf_device_parts [OF assms(1)]
  obtain spec where spec: "map_of device_types (dv_type d) = Some spec"
    using parts by (cases "map_of device_types (dv_type d)") (auto simp: map_of_eq_None_iff)
  have "set (device_traits d) \<subseteq> set (spec_traits spec)" using parts spec by (simp add: traits_of_type_def)
  moreover obtain modes where "check_state (device_traits d) modes state True = Inr ()"
    using valid by (auto simp: validate_device_state_def device_spec_def guard_simps)
  ultimately have "check_state (spec_traits spec) (spec_modes spec) state False = Inr () \<longleftrightarrow>
      (\<forall>v. map_of state ''mode'' = Some v \<longrightarrow> is_text_in (spec_modes spec) v)"
    using type_traits_known [OF spec] by (intro wider_state_check)
  then show ?thesis
    using parts by (auto simp: make_panel_device_def guard_simps panel_device_fields_def validate_panel_state_def
        shown_as_def device_type_def spec)
qed

definition eco_climate :: device where
  "eco_climate = (sample_device None ''climate'')\<lparr>dv_limits := Some \<lparr>lim_target_c = None, lim_modes = Some [''eco'']\<rparr>\<rparr>"

definition eco_state :: home_state where
  "eco_state = [(''on'', PBool True), (''mode'', PStr ''eco''), (''target_c'', PInt 20), (''current_c'', PNone)]"

theorem panel_shows_device_states_witness:
  "validate_device_state eco_climate eco_state = Inr ()
   \<and> make_panel_device (shown_as eco_climate True eco_state) \<noteq> Inr (shown_as eco_climate True eco_state)"
proof -
  have wf: "wf_device eco_climate"
    by (simp add: wf_device_def device_fields_def device_rules_def admissible_def eco_climate_def wf_limits_def
        limits_fields_def limits_rules_def len_between_def sample_device_def home_id_ok_def home_name_ok_def
        identifier_char_def char_class_defs pattern_space_def device_types_def)
  have valid: "validate_device_state eco_climate eco_state = Inr ()"
    by (simp add: validate_device_state_def device_spec_def eco_climate_def sample_device_def device_types_def
        device_traits_def traits_of_type_def check_state_def trait_state_def eco_state_def keys_def guarded_simps
        check_entry_def insert_commute)
  have "\<not> (\<forall>v. map_of eco_state ''mode'' = Some v \<longrightarrow>
      is_text_in (spec_modes (the (map_of device_types (dv_type eco_climate)))) v)"
    by (simp add: eco_state_def eco_climate_def sample_device_def device_types_def)
  then show ?thesis using panel_shows_device_states [OF wf valid] valid by simp
qed

text \<open>
  A result lines up with the executed commands exactly when it refuses the request as a whole
  or has one entry per command, for the same device, in the same order.
\<close>

theorem result_lines_up:
  "validate_execute_result commands r = Inr () \<longleftrightarrow>
     (case xres_error r of
        Some e \<Rightarrow> True
      | None \<Rightarrow> list_all2 (\<lambda>c i. cmd_device_id c = cres_device_id i) commands (xres_results r))"
  by (auto simp: validate_execute_result_def guard_simps list_all2_iff each_unit split: option.split)

text \<open>
  Every well-formed touch or sync a panel publishes is read back by the host as exactly the
  message that was sent, commands and their parameters included.
\<close>

theorem panel_request_read_back:
  assumes "wf_panel_message m"
  shows "read_panel_request (panel_request m) = Some m"
  using assms by (rule panel_wire.dec_enc)

theorem panel_request_read_back_witness:
  "read_panel_request (panel_request (Execute_Message
      \<lparr>px_request_id = ''r1'', px_commands = [set_target (PInt 20)], px_scene_id = None\<rparr>))
    = Some (Execute_Message \<lparr>px_request_id = ''r1'', px_commands = [set_target (PInt 20)], px_scene_id = None\<rparr>)"
  by (rule panel_request_read_back)
    (simp add: wf_panel_execute_def panel_execute_fields_def panel_execute_rules_def admissible_def len_between_def
      home_id_ok_def identifier_char_def char_class_defs wf_command_def set_target_def trait_names_def trait_commands_def)

end
