(* ===== verification/Runtime_Tokens.thy ===== *)
theory Runtime_Tokens
  imports Byte_Codecs Json_Values
begin

text \<open>
  The Agent runtime token of \<open>biz/runtime/tokens.py\<close>: minting, the revocation keys and the verifier.
  JWT signing is third-party (\<open>te_encode\<close>, \<open>te_decode\<close>, where \<open>None\<close> is any exception of the
  library, an expired token among them), and so is the revocation store, a function from keys to
  the values its \<open>get\<close> returns. \<open>te_fromisoformat\<close> is \<open>datetime.fromisoformat\<close> and \<open>te_render\<close> is \<open>str()\<close>
  of a decoded value that is not a string. What the secret file holds is an argument.
\<close>

record token_env =
  te_encode :: "json_object \<Rightarrow> string \<Rightarrow> string \<Rightarrow> string option"
  te_decode :: "string \<Rightarrow> string \<Rightarrow> string \<Rightarrow> json_object option"
  te_fromisoformat :: "string \<Rightarrow> datetime option"
  te_render :: "json \<Rightarrow> string"

datatype kv_value = KV_Bytes "byte list" | KV_Str string

type_synonym revocation_store = "string \<Rightarrow> kv_value option"

text \<open>The ids are the token's claims as decoded; only the session id is coerced to text.\<close>

record runtime_identity =
  ri_owner_id :: json
  ri_companion_id :: json
  ri_device_id :: "string option"
  ri_session_id :: string
  ri_scopes :: "json list"
  ri_exp :: datetime

text \<open>
  The refusals, and the exceptions of Python that nothing in the module turns into one
  (\<open>AttributeError\<close>, \<open>KeyError\<close>, \<open>TypeError\<close>, \<open>OverflowError\<close> or \<open>ValueError\<close>).
\<close>

datatype python_error = Attribute_Error | Key_Error | Type_Error | Range_Error

datatype runtime_error = Secret_Missing | Invalid_Token | Unsupported_Version | Claim_Missing string
  | Device_Revoked string | Owner_Revoked string | Session_Revoked string | Token_Revoked string
  | Uncaught python_error

datatype sign_error = Sign_Secret_Required | Sign_Claim_Required string | Ttl_Not_Positive
  | Expiry_Out_Of_Range | Encoding_Failed

subsection \<open>Revocation keys\<close>

definition kv_safe_token :: "string \<Rightarrow> string" where
  "kv_safe_token s = b64url (utf8 s)"

definition device_revocation_keys :: "string \<Rightarrow> string list" where
  "device_revocation_keys d = [''revoked.device.'' @ kv_safe_token d]"

definition owner_revocation_keys :: "string \<Rightarrow> string list" where
  "owner_revocation_keys o' = [''revoked.owner.'' @ kv_safe_token o']"

definition session_revocation_keys :: "string \<Rightarrow> string list" where
  "session_revocation_keys s = [''revoked.session.'' @ kv_safe_token s]"

definition jti_revocation_keys :: "string \<Rightarrow> string list" where
  "jti_revocation_keys j = [''revoked.jti.'' @ kv_safe_token j]"

subsection \<open>Minting\<close>

text \<open>\<open>file\<close> is the text of the secret file; \<open>None\<close> when there is no such file or it cannot be read.\<close>

definition resolve_shared_secret :: "string \<Rightarrow> string option \<Rightarrow> string" where
  "resolve_shared_secret env_value file =
     (let val = strip env_value
      in if val \<noteq> [] then val else (case file of None \<Rightarrow> [] | Some contents \<Rightarrow> strip contents))"

definition require_claim :: "string \<Rightarrow> string \<Rightarrow> sign_error + unit" where
  "require_claim name v = guarded [(blank v, Sign_Claim_Required name)] ()"

text \<open>\<open>isinstance(ttl, bool) or not isinstance(ttl, int) or ttl <= 0\<close>.\<close>

definition positive_ttl :: "json \<Rightarrow> int option" where
  "positive_ttl v = (case v of JInt n \<Rightarrow> if n \<le> 0 then None else Some n | _ \<Rightarrow> None)"

definition runtime_payload ::
  "string \<Rightarrow> string \<Rightarrow> string \<Rightarrow> string option \<Rightarrow> string list \<Rightarrow> string \<Rightarrow> int \<Rightarrow> int \<Rightarrow> json_object" where
  "runtime_payload owner companion session device scopes jti now expires =
     [(''runtime_token_version'', JInt 5), (''owner_id'', JStr owner), (''companion_id'', JStr companion),
      (''session_id'', JStr session), (''scopes'', JArr (map JStr scopes)), (''jti'', JStr jti),
      (''exp'', JInt (unix_seconds expires)), (''iat'', JInt (unix_seconds now))]
     @ (case device of None \<Rightarrow> [] | Some d \<Rightarrow> [(''device_id'', JStr d)])"

text \<open>\<open>now\<close> and \<open>jti\<close> are what the clock and \<open>uuid4\<close> give; the sum with the lifetime must be a datetime.\<close>

definition sign_runtime_token ::
  "token_env \<Rightarrow> string \<Rightarrow> string \<Rightarrow> string \<Rightarrow> string \<Rightarrow> string \<Rightarrow> string option \<Rightarrow> string list \<Rightarrow> json
     \<Rightarrow> int \<Rightarrow> string \<Rightarrow> sign_error + string \<times> datetime" where
  "sign_runtime_token env secret alg owner companion session device scopes ttl now jti =
     and_then (guarded [(secret = [], Sign_Secret_Required)] ()) (\<lambda>_.
     and_then (require_claim ''owner_id'' owner) (\<lambda>_.
     and_then (require_claim ''companion_id'' companion) (\<lambda>_.
     and_then (require_claim ''session_id'' session) (\<lambda>_.
     and_then (or_raise Ttl_Not_Positive (positive_ttl ttl)) (\<lambda>seconds.
     and_then (or_raise Expiry_Out_Of_Range (from_micros (now + seconds * 1000000))) (\<lambda>exp.
     and_then (case device of None \<Rightarrow> Inr () | Some d \<Rightarrow> require_claim ''device_id'' d) (\<lambda>_.
     and_then (or_raise Encoding_Failed
         (te_encode env (runtime_payload owner companion session device scopes jti now (instant exp)) secret alg))
       (\<lambda>token. Inr (token, exp)))))))))"

subsection \<open>Verifying\<close>

record token_verifier =
  tv_secret :: string
  tv_alg :: string
  tv_kv :: "revocation_store option"

definition make_token_verifier ::
  "string \<Rightarrow> string \<Rightarrow> revocation_store option \<Rightarrow> runtime_error + token_verifier" where
  "make_token_verifier secret alg kv =
     guarded [(secret = [], Secret_Missing)] \<lparr>tv_secret = secret, tv_alg = alg, tv_kv = kv\<rparr>"

text \<open>\<open>if await kv.get(key)\<close>.\<close>

definition kv_present :: "revocation_store \<Rightarrow> string \<Rightarrow> bool" where
  "kv_present kv k =
     (case kv k of None \<Rightarrow> False | Some (KV_Bytes b) \<Rightarrow> b \<noteq> [] | Some (KV_Str s) \<Rightarrow> s \<noteq> [])"

definition none_present :: "revocation_store \<Rightarrow> runtime_error \<Rightarrow> string list \<Rightarrow> runtime_error + unit" where
  "none_present kv e ks = each (\<lambda>k. guarded [(kv_present kv k, e)] ()) ks"

text \<open>\<open>payload.get(k) or ""\<close>.\<close>

definition claim_or_empty :: "json_object \<Rightarrow> string \<Rightarrow> json" where
  "claim_or_empty p k = (case map_of p k of None \<Rightarrow> JStr [] | Some v \<Rightarrow> if truthy v then v else JStr [])"

fun python_number :: "json \<Rightarrow> pyfloat option" where
  "python_number (JInt n) = Some (Fin (of_int n))"
| "python_number (JBool b) = Some (Fin (if b then 1 else 0))"
| "python_number (JFloat f) = Some f"
| "python_number _ = None"

definition as_utc :: "datetime \<Rightarrow> int" where
  "as_utc t = (case t of Naive n \<Rightarrow> n | Aware n \<Rightarrow> n)"

text \<open>A stored mark that is a \<open>str\<close> has no \<open>decode\<close>.\<close>

definition issued_before :: "token_env \<Rightarrow> json_object \<Rightarrow> kv_value \<Rightarrow> runtime_error + bool" where
  "issued_before env p mark =
     (case mark of
        KV_Str s \<Rightarrow> Inl (Uncaught Attribute_Error)
      | KV_Bytes b \<Rightarrow>
          (case Option.bind (utf8_decode b) (\<lambda>s. te_fromisoformat env (strip s)) of
             None \<Rightarrow> Inr True
           | Some revoked_at \<Rightarrow>
               (case Option.bind (map_of p ''iat'') python_number of
                  None \<Rightarrow> Inr True
                | Some issued_at \<Rightarrow>
                    and_then (or_raise (Uncaught Range_Error) (from_timestamp issued_at)) (\<lambda>t.
                      Inr (instant t < as_utc revoked_at)))))"

definition check_revoked :: "token_env \<Rightarrow> revocation_store \<Rightarrow> json_object \<Rightarrow> runtime_error + unit" where
  "check_revoked env kv p =
     (let render = te_render env; owner = claim_or_empty p ''owner_id'';
          session = claim_text render p ''session_id''; jti = claim_text render p ''jti'' in
     and_then (case map_of p ''device_id'' of
         None \<Rightarrow> Inr ()
       | Some d \<Rightarrow> if truthy d
                   then none_present kv (Device_Revoked (text_of render d)) (device_revocation_keys (text_of render d))
                   else Inr ()) (\<lambda>_.
     and_then (case owner of
         JStr o' \<Rightarrow> each (\<lambda>k. case kv k of
             None \<Rightarrow> Inr ()
           | Some mark \<Rightarrow> and_then (issued_before env p mark) (\<lambda>before. guarded [(before, Owner_Revoked o')] ()))
           (owner_revocation_keys o')
       | _ \<Rightarrow> Inl (Uncaught Attribute_Error)) (\<lambda>_.
     and_then (none_present kv (Session_Revoked session) (session_revocation_keys session)) (\<lambda>_.
     if jti = [] then Inr () else none_present kv (Token_Revoked jti) (jti_revocation_keys jti)))))"

definition token_exp :: "json_object \<Rightarrow> runtime_error + datetime" where
  "token_exp p =
     and_then (or_raise (Uncaught Key_Error) (map_of p ''exp'')) (\<lambda>v.
     and_then (or_raise (Uncaught Type_Error) (python_number v)) (\<lambda>x.
     or_raise (Uncaught Range_Error) (from_timestamp x)))"

definition verify_runtime_token :: "token_env \<Rightarrow> token_verifier \<Rightarrow> string \<Rightarrow> runtime_error + runtime_identity" where
  "verify_runtime_token env v token =
     and_then (or_raise Invalid_Token (te_decode env token (tv_secret v) (tv_alg v))) (\<lambda>p.
     and_then (guarded [(map_of p ''runtime_token_version'' \<notin> {Some (JInt 5), Some (JFloat (Fin 5))},
                         Unsupported_Version)] ()) (\<lambda>_.
     let owner = claim_or_empty p ''owner_id''; companion = claim_or_empty p ''companion_id'';
         session = claim_text (te_render env) p ''session_id''
     in and_then (guarded
          [(\<not> truthy owner, Claim_Missing ''owner_id''), (\<not> truthy companion, Claim_Missing ''companion_id''),
           (session = [], Claim_Missing ''session_id'')] ()) (\<lambda>_.
        and_then (case tv_kv v of None \<Rightarrow> Inr () | Some kv \<Rightarrow> check_revoked env kv p) (\<lambda>_.
        and_then (or_raise (Uncaught Type_Error)
            (case map_of p ''scopes'' of
               None \<Rightarrow> Some [] | Some s \<Rightarrow> if truthy s then iterate s else Some [])) (\<lambda>scopes.
        and_then (token_exp p) (\<lambda>exp.
          Inr \<lparr>ri_owner_id = owner, ri_companion_id = companion,
               ri_device_id = (case map_of p ''device_id'' of
                  None \<Rightarrow> None | Some d \<Rightarrow> if truthy d then Some (text_of (te_render env) d) else None),
               ri_session_id = session, ri_scopes = scopes, ri_exp = exp\<rparr>))))))"

subsection \<open>Lemmas\<close>

lemma decode_kv_safe_token: "Option.bind (b64url_decode (kv_safe_token s)) utf8_decode = Some s"
  by (simp add: kv_safe_token_def b64url_decode_b64url utf8_decode_utf8)

interpretation kv_key: codec kv_safe_token "\<lambda>k. Option.bind (b64url_decode k) utf8_decode" "\<lambda>_. True"
  by unfold_locales (rule decode_kv_safe_token)

lemma kv_safe_token_eq [simp]: "kv_safe_token x = kv_safe_token y \<longleftrightarrow> x = y"
  by (rule kv_key.enc_inj) simp_all

lemmas revocation_keys_defs =
  device_revocation_keys_def owner_revocation_keys_def session_revocation_keys_def jti_revocation_keys_def

lemma none_present_ok [guard_simps]: "none_present kv e ks = Inr () \<longleftrightarrow> (\<forall>k \<in> set ks. \<not> kv_present kv k)"
  by (simp add: none_present_def guard_simps)

lemma none_present_absent [simp]: "(\<And>k. k \<in> set ks \<Longrightarrow> kv k = None) \<Longrightarrow> none_present kv e ks = Inr ()"
  by (simp add: none_present_ok kv_present_def)

lemma sign_Inr:
  "sign_runtime_token env secret alg o' c s d ss ttl now jti = Inr (tok, t) \<longleftrightarrow>
     (\<exists>n. secret \<noteq> [] \<and> \<not> blank o' \<and> \<not> blank c \<and> \<not> blank s \<and> (\<forall>x. d = Some x \<longrightarrow> \<not> blank x)
        \<and> ttl = JInt n \<and> 0 < n \<and> from_micros (now + n * 1000000) = Some t
        \<and> te_encode env (runtime_payload o' c s d ss jti now (instant t)) secret alg = Some tok)"
  by (auto simp: sign_runtime_token_def require_claim_def positive_ttl_def guard_simps
      split: json.splits if_splits option.splits)

lemma payload_lookup [simp]:
  "map_of (runtime_payload o' c s d ss jti now t) ''runtime_token_version'' = Some (JInt 5)"
  "map_of (runtime_payload o' c s d ss jti now t) ''owner_id'' = Some (JStr o')"
  "map_of (runtime_payload o' c s d ss jti now t) ''companion_id'' = Some (JStr c)"
  "map_of (runtime_payload o' c s d ss jti now t) ''session_id'' = Some (JStr s)"
  "map_of (runtime_payload o' c s d ss jti now t) ''scopes'' = Some (JArr (map JStr ss))"
  "map_of (runtime_payload o' c s d ss jti now t) ''jti'' = Some (JStr jti)"
  "map_of (runtime_payload o' c s d ss jti now t) ''exp'' = Some (JInt (unix_seconds t))"
  "map_of (runtime_payload o' c s d ss jti now t) ''iat'' = Some (JInt (unix_seconds now))"
  "map_of (runtime_payload o' c s d ss jti now t) ''device_id'' = map_option JStr d"
  by (simp_all add: runtime_payload_def split: option.splits)

lemma from_micros_Some: "from_micros n = Some t \<Longrightarrow> t = Aware n \<and> n < 253402300800 * 1000000"
  by (auto simp: from_micros_def split: if_splits)

lemma whole_second_timestamp:
  "0 \<le> n \<Longrightarrow> n < 253402300800 * 1000000 \<Longrightarrow>
     from_timestamp (Fin (of_int (unix_seconds n))) = Some (Aware (unix_seconds n * 1000000))"
  by (auto simp: from_timestamp_int from_micros_def unix_seconds_def intro: order_trans [of _ 0])

lemma blank_Nil [simp]: "blank []"
  by (simp add: blank_def)

text \<open>What a minted token says, and what its verifier makes of it.\<close>

definition minted_identity :: "string \<Rightarrow> string \<Rightarrow> string \<Rightarrow> string option \<Rightarrow> string list \<Rightarrow> datetime \<Rightarrow> runtime_identity" where
  "minted_identity o' c s d ss t =
     \<lparr>ri_owner_id = JStr o', ri_companion_id = JStr c, ri_device_id = d, ri_session_id = strip s,
      ri_scopes = map JStr ss, ri_exp = Aware (unix_seconds (instant t) * 1000000)\<rparr>"

lemma verify_payload:
  assumes p: "te_decode env tok (tv_secret v) (tv_alg v) = Some (runtime_payload o' c s d ss jti now (instant t))"
    and ids: "\<not> blank o'" "\<not> blank c" "\<not> blank s" "\<forall>x. d = Some x \<longrightarrow> \<not> blank x"
    and time: "0 \<le> instant t" "instant t < 253402300800 * 1000000"
  shows "verify_runtime_token env v tok =
    and_then (case tv_kv v of None \<Rightarrow> Inr ()
              | Some kv \<Rightarrow> check_revoked env kv (runtime_payload o' c s d ss jti now (instant t)))
      (\<lambda>_. Inr (minted_identity o' c s d ss t))"
proof -
  have "o' \<noteq> []" "c \<noteq> []" "s \<noteq> []" "strip s \<noteq> []" "\<And>x. d = Some x \<Longrightarrow> x \<noteq> []"
    using ids by (auto simp: blank_def)
  then show ?thesis
    using time
    by (cases d) (auto simp: verify_runtime_token_def p claim_or_empty_def claim_text_def text_of_def token_exp_def
        whole_second_timestamp minted_identity_def guarded_simps)
qed

lemma check_minted:
  assumes ids: "\<not> blank o'" "\<not> blank s" "\<forall>x. d = Some x \<longrightarrow> \<not> blank x"
    and others: "\<And>k. k \<notin> set (owner_revocation_keys o') \<Longrightarrow> kv k = None"
    and mark: "kv (hd (owner_revocation_keys o')) = Some (KV_Bytes b)"
    and read: "Option.bind (utf8_decode b) (\<lambda>x. te_fromisoformat env (strip x)) = Some r"
    and time: "0 \<le> now" "now < 253402300800 * 1000000"
  shows "check_revoked env kv (runtime_payload o' c s d ss jti now t) =
    (if unix_seconds now * 1000000 < as_utc r then Inl (Owner_Revoked o') else Inr ())"
proof -
  have key: "kv k = (if k = ''revoked.owner.'' @ kv_safe_token o' then Some (KV_Bytes b) else None)" for k
    using others [of k] mark by (simp add: owner_revocation_keys_def)
  have "o' \<noteq> []" "s \<noteq> []" "\<And>x. d = Some x \<Longrightarrow> x \<noteq> []"
    using ids by (auto simp: blank_def)
  moreover have "from_timestamp (Fin (of_int (unix_seconds now))) = Some (Aware (unix_seconds now * 1000000))"
    using time by (rule whole_second_timestamp)
  ultimately show ?thesis
    using read
    by (cases d) (simp_all add: check_revoked_def none_present_def kv_present_def key revocation_keys_defs
        claim_or_empty_def issued_before_def guarded_simps Let_def)
qed

text \<open>What an Owner's watermark lets through.\<close>

definition clears_mark :: "token_env \<Rightarrow> json_object \<Rightarrow> kv_value option \<Rightarrow> bool" where
  "clears_mark env p m =
     (case m of
        None \<Rightarrow> True
      | Some (KV_Str s) \<Rightarrow> False
      | Some (KV_Bytes b) \<Rightarrow>
          (case Option.bind (utf8_decode b) (\<lambda>s. te_fromisoformat env (strip s)) of
             None \<Rightarrow> False
           | Some r \<Rightarrow>
               (case Option.bind (map_of p ''iat'') python_number of
                  None \<Rightarrow> False
                | Some iat \<Rightarrow>
                    (case from_timestamp iat of None \<Rightarrow> False | Some t \<Rightarrow> as_utc r \<le> instant t))))"

lemma clears_None [simp]: "clears_mark env p None"
  by (simp add: clears_mark_def)

lemma issued_before_False: "issued_before env p m = Inr False \<longleftrightarrow> clears_mark env p (Some m)"
  by (auto simp: issued_before_def clears_mark_def guard_simps split: kv_value.splits option.splits)

lemma issued_before_passes: "(\<exists>b. issued_before env p m = Inr b \<and> \<not> b) \<longleftrightarrow> clears_mark env p (Some m)"
  by (auto simp: issued_before_False [symmetric])

lemma check_revoked_ok:
  assumes "check_revoked env kv p = Inr ()"
  shows "\<exists>o'. claim_or_empty p ''owner_id'' = JStr o'
    \<and> (case map_of p ''device_id'' of None \<Rightarrow> True
       | Some d \<Rightarrow> truthy d \<longrightarrow> list_all (\<lambda>k. \<not> kv_present kv k) (device_revocation_keys (text_of (te_render env) d)))
    \<and> list_all (\<lambda>k. \<not> kv_present kv k) (session_revocation_keys (claim_text (te_render env) p ''session_id''))
    \<and> (claim_text (te_render env) p ''jti'' \<noteq> [] \<longrightarrow>
         list_all (\<lambda>k. \<not> kv_present kv k) (jti_revocation_keys (claim_text (te_render env) p ''jti'')))
    \<and> list_all (\<lambda>k. clears_mark env p (kv k)) (owner_revocation_keys o')"
  using assms
  by (auto simp: check_revoked_def Let_def guard_simps issued_before_passes list_all_iff
      split: json.splits option.splits if_splits) (metis clears_None not_None_eq)+

subsection \<open>Properties\<close>

text \<open>
  Minting and verifying agree: as long as the JWT library decodes what it encoded, a verifier
  without a revocation store reads back from a minted token exactly the Owner, Companion, device
  and scopes it was minted for, the session id without its surrounding blanks, and the expiry cut
  to the whole second.
\<close>

theorem runtime_token_round_trip:
  assumes "sign_runtime_token env secret alg o' c s d ss ttl now jti = Inr (tok, t)"
    and "\<And>p. te_encode env p secret alg = Some tok \<Longrightarrow> te_decode env tok secret alg = Some p"
    and "make_token_verifier secret alg None = Inr v" and "0 \<le> now"
  shows "verify_runtime_token env v tok =
    Inr \<lparr>ri_owner_id = JStr o', ri_companion_id = JStr c, ri_device_id = d, ri_session_id = strip s,
         ri_scopes = map JStr ss, ri_exp = Aware (unix_seconds (instant t) * 1000000)\<rparr>"
proof -
  obtain n where n: "0 < n" "from_micros (now + n * 1000000) = Some t"
    and ids: "\<not> blank o'" "\<not> blank c" "\<not> blank s" "\<forall>x. d = Some x \<longrightarrow> \<not> blank x"
    and enc: "te_encode env (runtime_payload o' c s d ss jti now (instant t)) secret alg = Some tok"
    using assms(1) by (auto simp: sign_Inr)
  have v: "tv_secret v = secret" "tv_alg v = alg" "tv_kv v = None"
    using assms(3) by (auto simp: make_token_verifier_def guard_simps)
  have "0 \<le> instant t" "instant t < 253402300800 * 1000000"
    using n from_micros_Some [OF n(2)] assms(4) by auto
  then show ?thesis
    using verify_payload [OF _ ids, where v = v] assms(2) [OF enc] v by (simp add: minted_identity_def)
qed

lemma runtime_token_round_trip_witness:
  "(let p = runtime_payload ''o'' ''c'' '' s'' (Some ''d'') [''x''] ''j'' 5700000 15700000;
        env = \<lparr>te_encode = (\<lambda>q k a. if q = p then Some ''t'' else None), te_decode = (\<lambda>t k a. Some p),
               te_fromisoformat = (\<lambda>t. None), te_render = (\<lambda>v. [])\<rparr>
    in verify_runtime_token env \<lparr>tv_secret = ''k'', tv_alg = ''HS256'', tv_kv = None\<rparr> ''t'' =
       Inr \<lparr>ri_owner_id = JStr ''o'', ri_companion_id = JStr ''c'', ri_device_id = Some ''d'',
            ri_session_id = strip '' s'', ri_scopes = map JStr [''x''],
            ri_exp = Aware (unix_seconds (instant (Aware 15700000)) * 1000000)\<rparr>)"
  unfolding Let_def
  by (rule runtime_token_round_trip [where secret = "''k''" and alg = "''HS256''" and ttl = "JInt 10" and now = 5700000 and jti = "''j''"])
    (simp_all add: sign_Inr make_token_verifier_def guarded_simps from_micros_def blank_def strip_def
      is_space_def split: if_splits)

text \<open>
  C20. What an accepted token stands for when there is a revocation store: it decodes, its Owner id
  is text, the device, the session and the token id it names have no revocation entry, and where
  the Owner has a watermark the token says it was issued at or after that instant. A mark that
  cannot be read, or a token without a usable issue time, is never accepted.
\<close>

theorem accepted_token_not_revoked:
  assumes "verify_runtime_token env v tok = Inr i" and "tv_kv v = Some kv"
  shows "\<exists>p o'. te_decode env tok (tv_secret v) (tv_alg v) = Some p \<and> ri_owner_id i = JStr o'
    \<and> (case ri_device_id i of None \<Rightarrow> True | Some d \<Rightarrow> list_all (\<lambda>k. \<not> kv_present kv k) (device_revocation_keys d))
    \<and> list_all (\<lambda>k. \<not> kv_present kv k) (session_revocation_keys (ri_session_id i))
    \<and> (let jti = claim_text (te_render env) p ''jti''
       in if jti = [] then True else list_all (\<lambda>k. \<not> kv_present kv k) (jti_revocation_keys jti))
    \<and> list_all (\<lambda>k. clears_mark env p (kv k)) (owner_revocation_keys o')"
proof -
  obtain p where p: "te_decode env tok (tv_secret v) (tv_alg v) = Some p"
    and checked: "check_revoked env kv p = Inr ()"
    and i: "ri_owner_id i = claim_or_empty p ''owner_id''"
      "ri_session_id i = claim_text (te_render env) p ''session_id''"
      "ri_device_id i = (case map_of p ''device_id'' of
         None \<Rightarrow> None | Some d \<Rightarrow> if truthy d then Some (text_of (te_render env) d) else None)"
    using assms by (auto simp: verify_runtime_token_def guard_simps Let_def)
  from check_revoked_ok [OF checked] show ?thesis
    unfolding i by (intro exI [of _ p]) (auto simp: p Let_def split: option.splits)
qed


lemma accepted_token_not_revoked_witness:
  "(let p = runtime_payload ''o'' ''c'' ''s'' (Some ''d'') [] ''j'' 5000000 15000000;
        env = \<lparr>te_encode = (\<lambda>q k a. None), te_decode = (\<lambda>t k a. Some p),
               te_fromisoformat = (\<lambda>t. Some (Aware 4000000)), te_render = (\<lambda>v. [])\<rparr>;
        kv = (\<lambda>k. if k = ''revoked.owner.'' @ kv_safe_token ''o'' then Some (KV_Bytes []) else None)
    in clears_mark env p (kv (''revoked.owner.'' @ kv_safe_token ''o'')))"
proof -
  define p where "p = runtime_payload ''o'' ''c'' ''s'' (Some ''d'') [] ''j'' 5000000 15000000"
  define env where "env = \<lparr>te_encode = (\<lambda>q k a. None), te_decode = (\<lambda>t k a. Some p),
               te_fromisoformat = (\<lambda>t. Some (Aware 4000000)), te_render = (\<lambda>v. [])\<rparr>"
  define kv where "kv = (\<lambda>k. if k = ''revoked.owner.'' @ kv_safe_token ''o'' then Some (KV_Bytes []) else None)"
  define v where "v = \<lparr>tv_secret = ''k'', tv_alg = ''HS256'', tv_kv = Some kv\<rparr>"
  have "check_revoked env kv p = (if unix_seconds 5000000 * 1000000 < as_utc (Aware 4000000)
      then Inl (Owner_Revoked ''o'') else Inr ())"
    unfolding p_def
    by (rule check_minted [where b = "[]"]) (simp_all add: kv_def env_def owner_revocation_keys_def blank_def strip_def is_space_def)
  moreover have "verify_runtime_token env v ''t'' = and_then (case tv_kv v of None \<Rightarrow> Inr ()
      | Some kv \<Rightarrow> check_revoked env kv (runtime_payload ''o'' ''c'' ''s'' (Some ''d'') [] ''j'' 5000000 (instant (Aware 15000000))))
      (\<lambda>_. Inr (minted_identity ''o'' ''c'' ''s'' (Some ''d'') [] (Aware 15000000)))"
    by (rule verify_payload) (simp_all add: p_def env_def v_def blank_def strip_def is_space_def)
  ultimately have "verify_runtime_token env v ''t'' = Inr (minted_identity ''o'' ''c'' ''s'' (Some ''d'') [] (Aware 15000000))"
    by (simp add: v_def p_def unix_seconds_def as_utc_def)
  from accepted_token_not_revoked [OF this, of kv] show ?thesis
    by (simp add: v_def minted_identity_def env_def p_def kv_def owner_revocation_keys_def Let_def)
qed

text \<open>
  How an Owner's watermark treats a minted token, when nothing else is revoked: it is refused
  exactly when the second it was minted in began before the mark. A token minted after the mark but
  within the same second is therefore refused although it is newer.
\<close>

theorem owner_watermark_exact:
  assumes "sign_runtime_token env secret alg o' c s d ss ttl now jti = Inr (tok, t)"
    and "\<And>p. te_encode env p secret alg = Some tok \<Longrightarrow> te_decode env tok secret alg = Some p"
    and "make_token_verifier secret alg (Some kv) = Inr v" and "0 \<le> now"
    and "\<And>k. k \<notin> set (owner_revocation_keys o') \<Longrightarrow> kv k = None"
    and "kv (hd (owner_revocation_keys o')) = Some (KV_Bytes b)"
    and "Option.bind (utf8_decode b) (\<lambda>x. te_fromisoformat env (strip x)) = Some r"
  shows "(verify_runtime_token env v tok = Inl (Owner_Revoked o') \<longleftrightarrow> now div 1000000 * 1000000 < as_utc r)
    \<and> ((\<exists>i. verify_runtime_token env v tok = Inr i) \<longleftrightarrow> as_utc r \<le> now div 1000000 * 1000000)"
proof -
  obtain n where n: "0 < n" "from_micros (now + n * 1000000) = Some t"
    and ids: "\<not> blank o'" "\<not> blank c" "\<not> blank s" "\<forall>x. d = Some x \<longrightarrow> \<not> blank x"
    and enc: "te_encode env (runtime_payload o' c s d ss jti now (instant t)) secret alg = Some tok"
    using assms(1) by (auto simp: sign_Inr)
  have v: "tv_secret v = secret" "tv_alg v = alg" "tv_kv v = Some kv"
    using assms(3) by (auto simp: make_token_verifier_def guard_simps)
  have t: "0 \<le> instant t" "instant t < 253402300800 * 1000000" "now < 253402300800 * 1000000"
    using n from_micros_Some [OF n(2)] assms(4) by auto
  have "check_revoked env kv (runtime_payload o' c s d ss jti now (instant t)) =
      (if unix_seconds now * 1000000 < as_utc r then Inl (Owner_Revoked o') else Inr ())"
    using ids assms(4-7) t(3) by (intro check_minted) auto
  then have "verify_runtime_token env v tok =
      (if now div 1000000 * 1000000 < as_utc r then Inl (Owner_Revoked o') else Inr (minted_identity o' c s d ss t))"
    using verify_payload [OF _ ids, where v = v] assms(2) [OF enc] assms(4) v t(1,2) by (simp add: unix_seconds_def)
  then show ?thesis by auto
qed

text \<open>Minted at 5.7 s, after a watermark of 5.2 s, and refused.\<close>

lemma owner_watermark_exact_witness:
  "(let p = runtime_payload ''o'' ''c'' ''s'' None [] ''j'' 5700000 15700000;
        env = \<lparr>te_encode = (\<lambda>q k a. if q = p then Some ''t'' else None), te_decode = (\<lambda>t k a. Some p),
               te_fromisoformat = (\<lambda>t. Some (Naive 5200000)), te_render = (\<lambda>v. [])\<rparr>;
        kv = (\<lambda>k. if k = ''revoked.owner.'' @ kv_safe_token ''o'' then Some (KV_Bytes [65]) else None)
    in verify_runtime_token env \<lparr>tv_secret = ''k'', tv_alg = ''HS256'', tv_kv = Some kv\<rparr> ''t''
         = Inl (Owner_Revoked ''o''))"
  unfolding Let_def
  by (subst owner_watermark_exact [where secret = "''k''" and alg = "''HS256''" and ttl = "JInt 10"
        and now = 5700000 and jti = "''j''" and b = "[65]" and r = "Naive 5200000" and t = "Aware 15700000"
        and c = "''c''" and s = "''s''" and d = None and ss = "[]"
        and kv = "\<lambda>k. if k = ''revoked.owner.'' @ kv_safe_token ''o'' then Some (KV_Bytes [65]) else None",
        THEN conjunct1])
    (simp_all add: sign_Inr make_token_verifier_def guarded_simps from_micros_def blank_def strip_def
      is_space_def owner_revocation_keys_def as_utc_def split: if_splits)

text \<open>
  The revocation keys are exact: two keys of one kind are equal only for the same id, whatever
  characters it has, keys of different kinds are never equal, and a key has no character outside
  the ones a key-value bucket allows.
\<close>

theorem revocation_keys_exact:
  "(device_revocation_keys x = device_revocation_keys y \<longleftrightarrow> x = y)
   \<and> (owner_revocation_keys x = owner_revocation_keys y \<longleftrightarrow> x = y)
   \<and> (session_revocation_keys x = session_revocation_keys y \<longleftrightarrow> x = y)
   \<and> (jti_revocation_keys x = jti_revocation_keys y \<longleftrightarrow> x = y)
   \<and> distinct (concat [device_revocation_keys a, owner_revocation_keys b, session_revocation_keys c, jti_revocation_keys d])
   \<and> list_all (list_all (\<lambda>ch. is_b64url_char ch \<or> ch = CHR ''.''))
        (concat [device_revocation_keys a, owner_revocation_keys b, session_revocation_keys c, jti_revocation_keys d])"
proof -
  have "list_all (\<lambda>ch. is_b64url_char ch \<or> ch = CHR ''.'') (kv_safe_token s)" for s
    using b64url_chars [of "utf8 s"] by (auto simp: kv_safe_token_def list_all_iff)
  then show ?thesis
    by (simp add: revocation_keys_defs char_class_defs)
qed

end
