(* ===== verification/Long_Task_Keys.thy ===== *)
theory Long_Task_Keys
  imports Byte_Codecs Json_Values
begin

text \<open>
  The long-task keys of \<open>biz/long_tasks/subjects.py\<close>: the Owner segment, the daily session key, its
  reading, the per-task key and the progress subject. A \<open>ValueError\<close> (a bad base64 text, bytes
  that are not UTF-8, a key of another shape) is \<open>None\<close>. \<open>%Y\<close> is written with four digits, as
  documented.
\<close>

definition safe_owner :: "string \<Rightarrow> bool" where
  \<comment> \<open>\<open>^[A-Za-z0-9_-]+$\<close>, a full match\<close>
  "safe_owner s \<longleftrightarrow> s \<noteq> [] \<and> list_all is_b64url_char s"

definition safe_owner_key :: "string \<Rightarrow> string" where
  "safe_owner_key owner =
     (if safe_owner owner \<and> \<not> starts_with ''b64_'' owner then owner
      else ''b64_'' @ rstrip_pad (b64_encode (utf8 owner)))"

definition owner_id_from_safe_key :: "string \<Rightarrow> string option" where
  "owner_id_from_safe_key segment =
     (if \<not> starts_with ''b64_'' segment then Some segment
      else let encoded = remove_prefix ''b64_'' segment
           in Option.bind (urlsafe_b64decode (pad_to_4 encoded)) utf8_decode)"

text \<open>A \<open>date\<close>, or its text.\<close>

datatype local_date = Date nat nat nat | Date_Text string

fun pad_digits :: "nat \<Rightarrow> nat \<Rightarrow> string" where
  "pad_digits 0 n = []"
| "pad_digits (Suc k) n = pad_digits k (n div 10) @ [char_of (48 + n mod 10)]"

fun yyyymmdd :: "local_date \<Rightarrow> string" where
  "yyyymmdd (Date y m d) = pad_digits 4 y @ pad_digits 2 m @ pad_digits 2 d"
| "yyyymmdd (Date_Text s) = filter (\<lambda>c. c \<noteq> CHR ''-'') s"

definition session_key_for :: "string \<Rightarrow> local_date \<Rightarrow> string" where
  "session_key_for owner day = ''e.'' @ safe_owner_key owner @ ''.'' @ yyyymmdd day"

definition parse_session_key :: "string \<Rightarrow> (string \<times> string) option" where
  "parse_session_key key =
     (case partition_at (CHR ''.'') key of
        (prefix, True, rest) \<Rightarrow>
          (case partition_at (CHR ''.'') rest of
             (segment, True, day) \<Rightarrow>
               if prefix \<noteq> ''e'' \<or> segment = [] \<or> length day \<noteq> 8 then None
               else map_option (\<lambda>owner. (owner, day)) (owner_id_from_safe_key segment)
           | _ \<Rightarrow> None)
      | _ \<Rightarrow> None)"

definition task_key_for :: "string \<Rightarrow> string \<Rightarrow> string" where
  "task_key_for session_key task_id = session_key @ ''.'' @ take 12 task_id"

definition long_task_progress_base :: string where
  "long_task_progress_base = ''long_task.progress''"

definition progress_subject_for :: "string \<Rightarrow> string" where
  "progress_subject_for task_id = long_task_progress_base @ ''.'' @ task_id"

subsection \<open>Lemmas\<close>

lemma owner_key_read: "owner_id_from_safe_key (safe_owner_key owner) = Some owner"
  using b64url_decode_b64url [of "utf8 owner"]
  by (auto simp: owner_id_from_safe_key_def safe_owner_key_def b64url_def b64url_decode_def utf8_decode_utf8
      simp del: append.simps)

interpretation owner_key: codec safe_owner_key owner_id_from_safe_key "\<lambda>_. True"
  by unfold_locales (rule owner_key_read)

lemma safe_owner_key_safe: "safe_owner (safe_owner_key owner)"
  using b64url_chars [of "utf8 owner"] by (auto simp: safe_owner_key_def safe_owner_def b64url_def char_class_defs)

lemma no_dot_in_owner_key [simp]: "CHR ''.'' \<notin> set (safe_owner_key owner)"
proof -
  have "\<not> is_b64url_char (CHR ''.'')" by (simp add: char_class_defs)
  then show ?thesis using safe_owner_key_safe [of owner] by (auto simp: safe_owner_def list_all_iff)
qed

lemma owner_key_nonempty [simp]: "safe_owner_key owner \<noteq> []"
  using safe_owner_key_safe [of owner] by (auto simp: safe_owner_def)

lemma split_session_key [simp]:
  "partition_at (CHR ''.'') (''e.'' @ rest) = (''e'', True, rest)"
  "partition_at (CHR ''.'') (safe_owner_key owner @ ''.'' @ day) = (safe_owner_key owner, True, day)"
  using partition_at_append [of "CHR ''.''" "safe_owner_key owner" day] by simp_all

lemma length_pad_digits [simp]: "length (pad_digits k n) = k"
  by (induction k arbitrary: n) auto

subsection \<open>Properties\<close>

text \<open>
  Owner segments are exact and safe: every Owner id, whatever characters it has, is read back
  from its segment, two Owners never share a segment, and a segment is a non-empty text of the
  characters a subject token may have, so it never splits a key.
\<close>

theorem owner_segments_exact:
  "owner_id_from_safe_key (safe_owner_key owner) = Some owner
   \<and> (safe_owner_key owner = safe_owner_key other \<longleftrightarrow> owner = other)
   \<and> safe_owner (safe_owner_key owner)"
  using owner_key_read owner_key.enc_inj safe_owner_key_safe by simp

text \<open>
  Session keys are read back: the key of an Owner and a day gives that Owner and the eight
  digits of the day; a day that is not eight characters without its dashes makes a key that is
  refused, and so does a task key taken for a session key.
\<close>

theorem session_key_read_back:
  "parse_session_key (session_key_for owner day) =
     (if length (yyyymmdd day) = 8 then Some (owner, yyyymmdd day) else None)
   \<and> length (yyyymmdd (Date y m d)) = 8
   \<and> parse_session_key (task_key_for (session_key_for owner (Date y m d)) task_id) = None"
proof -
  have "parse_session_key (''e.'' @ safe_owner_key owner @ ''.'' @ t) =
      (if length t = 8 then Some (owner, t) else None)" for t
    by (simp add: parse_session_key_def owner_key_read del: append.simps)
  from this [of "yyyymmdd day"] this [of "yyyymmdd (Date y m d) @ ''.'' @ take 12 task_id"] show ?thesis
    by (simp add: session_key_for_def task_key_for_def del: partition_at.simps)
qed

end
