(* ===== verification/Device_Request_Auth.thy ===== *)
theory Device_Request_Auth
  imports Sha256
begin

text \<open>
  The signed device requests of \<open>biz/devices/auth.py\<close>: the canonical request, the key
  fingerprint, the freshness of the timestamp and the check of a request against the stored key.
  Loading a DER key and ECDSA are third-party (\<open>ac_load_der\<close> is \<open>None\<close> when loading raises;
  \<open>ac_verify\<close> is \<open>Some False\<close> for InvalidSignature and \<open>None\<close> for any other exception).
\<close>

record 'k auth_crypto =
  ac_load_der :: "byte list \<Rightarrow> 'k option"
  ac_is_ec :: "'k \<Rightarrow> bool"
  ac_curve_name :: "'k \<Rightarrow> string"
  ac_verify :: "'k \<Rightarrow> byte list \<Rightarrow> byte list \<Rightarrow> bool option"

datatype auth_error = Key_Required | Key_Mismatch | Bad_Timestamp | Stale_Timestamp | Bad_Device_Key
  | Key_Not_Ec | Key_Not_On_P256 | Bad_Request_Signature | Bad_Signature_Encoding

record auth_headers =
  ah_device_id :: string
  ah_nonce :: string
  ah_timestamp :: string
  ah_public_key :: "string option"
  ah_signature :: string

subsection \<open>Text of a request\<close>

text \<open>
  \<open>str.upper()\<close>: the sharp s becomes two letters; the micro sign and the y with diaeresis, whose
  upper-case forms lie above code point 255, are left alone.
\<close>

definition upper_char :: "char \<Rightarrow> string" where
  "upper_char c =
     (let n = of_char c :: nat
      in if n = 223 then ''SS''
         else if (97 \<le> n \<and> n \<le> 122) \<or> (224 \<le> n \<and> n \<le> 254 \<and> n \<noteq> 247) then [char_of (n - 32)] else [c])"

definition upper :: "string \<Rightarrow> string" where
  "upper s = concat (map upper_char s)"

definition newline :: char where
  "newline = CHR 0x0A"

fun join_lines :: "string list \<Rightarrow> string" where
  "join_lines [] = []"
| "join_lines [s] = s"
| "join_lines (s # t # ss) = s @ newline # join_lines (t # ss)"

definition body_sha256_hex :: "byte list \<Rightarrow> string" where
  "body_sha256_hex body = sha256_hex body"

definition canonical_request ::
  "string \<Rightarrow> string \<Rightarrow> string \<Rightarrow> string \<Rightarrow> string \<Rightarrow> string \<Rightarrow> byte list" where
  "canonical_request meth path_query device_id nonce timestamp body_hash =
     utf8 (join_lines [upper meth, path_query, device_id, nonce, timestamp, body_hash])"

definition public_key_fingerprint :: "string \<Rightarrow> string option" where
  "public_key_fingerprint key = map_option (\<lambda>der. ''p256:'' @ sha256_hex der) (b64url_decode key)"

subsection \<open>Timestamps\<close>

text \<open>
  \<open>int(s)\<close>: surrounding blanks, a sign, decimal digits with single underscores between them, at
  most 4300 digits; \<open>None\<close> is ValueError.
\<close>

fun read_digits :: "bool \<Rightarrow> nat \<Rightarrow> nat \<Rightarrow> string \<Rightarrow> (nat \<times> nat) option" where
  "read_digits after n k [] = (if after then Some (n, k) else None)"
| "read_digits after n k (c # cs) =
     (if is_ascii_digit c then read_digits True (10 * n + (of_char c - 48)) (k + 1) cs
      else if c = CHR ''_'' \<and> after then read_digits False n k cs
      else None)"

definition digits_value :: "string \<Rightarrow> int option" where
  "digits_value s =
     (case read_digits False 0 0 s of
        None \<Rightarrow> None
      | Some (n, k) \<Rightarrow> if 4300 < k then None else Some (int n))"

definition int_of_text :: "string \<Rightarrow> int option" where
  "int_of_text s =
     (case trim s of
        [] \<Rightarrow> None
      | c # cs \<Rightarrow>
          if c = CHR ''-'' then map_option uminus (digits_value cs)
          else if c = CHR ''+'' then digits_value cs
          else digits_value (c # cs))"

definition unix_floor :: int where
  "unix_floor = 1700000000"

definition check_timestamp :: "string \<Rightarrow> int \<Rightarrow> auth_error + unit" where
  "check_timestamp timestamp now =
     and_then (or_raise Bad_Timestamp (int_of_text timestamp)) (\<lambda>value.
     guarded [(value < 0, Bad_Timestamp),
              (value \<ge> unix_floor \<and> \<bar>now - value\<bar> > 300, Stale_Timestamp)] ())"

subsection \<open>The check\<close>

definition verify_device_signature ::
  "'k auth_crypto \<Rightarrow> auth_headers \<Rightarrow> string option \<Rightarrow> string \<Rightarrow> string \<Rightarrow> byte list \<Rightarrow> int \<Rightarrow> auth_error + string" where
  "verify_device_signature cr h stored path_query meth body now =
     (let chosen = either_text (ah_public_key h) stored in
     and_then (guarded
       [(\<not> some_text chosen, Key_Required),
        (some_text stored \<and> some_text (ah_public_key h) \<and> ah_public_key h \<noteq> stored, Key_Mismatch)] ()) (\<lambda>_.
     and_then (check_timestamp (ah_timestamp h) now) (\<lambda>_.
     and_then (or_raise Bad_Device_Key (Option.bind (Option.bind chosen b64url_decode) (ac_load_der cr))) (\<lambda>key.
     and_then (guarded
       [(\<not> ac_is_ec cr key, Key_Not_Ec),
        (ac_curve_name cr key \<notin> {''secp256r1'', ''prime256v1''}, Key_Not_On_P256)] ()) (\<lambda>_.
     let signed = canonical_request meth path_query (ah_device_id h) (ah_nonce h) (ah_timestamp h)
                    (body_sha256_hex body)
     in and_then (or_raise Bad_Signature_Encoding
            (Option.bind (b64url_decode (ah_signature h)) (\<lambda>sig. ac_verify cr key sig signed))) (\<lambda>good.
        and_then (guarded [(\<not> good, Bad_Request_Signature)] ()) (\<lambda>_.
        or_raise Bad_Device_Key (Option.bind chosen public_key_fingerprint))))))))"

subsection \<open>Lemmas\<close>

lemma check_timestamp_ok:
  "check_timestamp ts now = Inr () \<longleftrightarrow>
     (\<exists>t. int_of_text ts = Some t \<and> 0 \<le> t \<and> (if unix_floor \<le> t then \<bar>now - t\<bar> \<le> 300 else True))"
  by (cases "int_of_text ts") (simp_all add: check_timestamp_def guarded_simps not_less not_le)

lemma take_while_line:
  "x \<notin> set a \<Longrightarrow> x \<notin> set b \<Longrightarrow> a @ x # s = b @ x # t \<longleftrightarrow> a = b \<and> s = t"
proof (induction a arbitrary: b)
  case Nil
  then show ?case by (cases b) auto
next
  case (Cons y ys)
  then show ?case by (cases b) auto
qed

lemma join_lines_eq:
  "list_all (\<lambda>s. newline \<notin> set s) ss \<Longrightarrow> list_all (\<lambda>s. newline \<notin> set s) ts \<Longrightarrow> length ss = length ts \<Longrightarrow>
     join_lines ss = join_lines ts \<longleftrightarrow> ss = ts"
proof (induction ss arbitrary: ts rule: join_lines.induct)
  case (3 s t ss)
  then obtain s' t' ss' where "ts = s' # t' # ss'" by (cases ts; cases "tl ts") auto
  with 3 show ?case by (simp add: take_while_line)
next
  case (2 s)
  then show ?case by (cases ts) auto
qed simp

lemma newline_code: "of_char newline = (10 :: nat)"
  by (simp add: newline_def)

lemma newline_neq_S: "newline \<noteq> CHR ''S''"
  by (simp add: newline_def)

lemma no_newline_upper: "newline \<notin> set (upper s)"  if "newline \<notin> set s"
proof -
  have other: "m = 10" if "newline = char_of m" "m < 256" for m :: nat
    by (metis newline_code of_char_small that)
  have "newline \<notin> set (upper_char c)" if "c \<noteq> newline" for c
    using that newline_neq_S by (auto simp: upper_char_def Let_def less_imp_diff_less dest!: other)
  then show ?thesis using that by (auto simp: upper_def) metis
qed

lemma utf8_eq [simp]: "utf8 s = utf8 t \<longleftrightarrow> s = t"
  by (metis utf8_decode_utf8 option.inject)

lemma verify_steps:
  "verify_device_signature cr h stored path_query meth body now = Inr fp \<longleftrightarrow>
     (\<exists>k der key sig. either_text (ah_public_key h) stored = Some k \<and> k \<noteq> []
        \<and> \<not> (some_text stored \<and> some_text (ah_public_key h) \<and> ah_public_key h \<noteq> stored)
        \<and> check_timestamp (ah_timestamp h) now = Inr ()
        \<and> b64url_decode k = Some der \<and> ac_load_der cr der = Some key
        \<and> ac_is_ec cr key \<and> ac_curve_name cr key \<in> {''secp256r1'', ''prime256v1''}
        \<and> b64url_decode (ah_signature h) = Some sig
        \<and> ac_verify cr key sig (canonical_request meth path_query (ah_device_id h) (ah_nonce h) (ah_timestamp h)
            (body_sha256_hex body)) = Some True
        \<and> fp = ''p256:'' @ sha256_hex der)"
  by (auto simp: verify_device_signature_def Let_def guard_simps some_text_iff
      bind_eq_Some_conv public_key_fingerprint_def simp del: append.simps)

subsection \<open>Properties\<close>

text \<open>
  A device request is accepted exactly when it carries the stored key or, on first
  registration, a key of its own (one that differs from the stored key never passes), its timestamp
  is a number that is not negative and, where it is plausible as a Unix time, within 300 seconds
  of the clock, the key is a P-256 key, and its signature is over exactly this request; the answer
  is then the fingerprint of that key.
\<close>

theorem device_request_accepted_iff:
  "verify_device_signature cr h stored path_query meth body now = Inr fp \<longleftrightarrow>
     (\<exists>k der key sig.
        (if some_text stored then stored = Some k \<and> (if some_text (ah_public_key h) then ah_public_key h = Some k else True)
         else ah_public_key h = Some k \<and> k \<noteq> [])
        \<and> (\<exists>t. int_of_text (ah_timestamp h) = Some t \<and> 0 \<le> t \<and> (if unix_floor \<le> t then \<bar>now - t\<bar> \<le> 300 else True))
        \<and> b64url_decode k = Some der \<and> ac_load_der cr der = Some key
        \<and> ac_is_ec cr key \<and> ac_curve_name cr key \<in> {''secp256r1'', ''prime256v1''}
        \<and> b64url_decode (ah_signature h) = Some sig
        \<and> ac_verify cr key sig (canonical_request meth path_query (ah_device_id h) (ah_nonce h) (ah_timestamp h)
            (body_sha256_hex body)) = Some True
        \<and> fp = ''p256:'' @ sha256_hex der)"
  unfolding verify_steps check_timestamp_ok [symmetric]
  by (cases "some_text stored"; cases "some_text (ah_public_key h)")
    (auto simp: either_text_def some_text_iff simp del: append.simps)

text \<open>
  The signed bytes determine the request: over fields without line feeds, two canonical
  requests are equal only when the methods agree up to case and every other field is the same.
\<close>

theorem canonical_request_exact:
  assumes "list_all (\<lambda>s. newline \<notin> set s) [meth, path, device, nonce, ts, hash]"
    and "list_all (\<lambda>s. newline \<notin> set s) [meth', path', device', nonce', ts', hash']"
  shows "canonical_request meth path device nonce ts hash = canonical_request meth' path' device' nonce' ts' hash'
    \<longleftrightarrow> upper meth = upper meth' \<and> path = path' \<and> device = device' \<and> nonce = nonce' \<and> ts = ts' \<and> hash = hash'"
proof -
  have "join_lines [upper meth, path, device, nonce, ts, hash] = join_lines [upper meth', path', device', nonce', ts', hash']
    \<longleftrightarrow> [upper meth, path, device, nonce, ts, hash] = [upper meth', path', device', nonce', ts', hash']"
    by (rule join_lines_eq) (use assms no_newline_upper in auto)
  then show ?thesis by (simp only: canonical_request_def utf8_eq list.inject) simp
qed

lemma canonical_request_exact_witness:
  "canonical_request ''get'' ''/a'' ''d'' ''n'' ''1'' ''h'' = canonical_request ''GET'' ''/a'' ''d'' ''n'' ''1'' ''h''
   \<and> canonical_request ''GET'' ''/a'' ''d'' ''n'' ''1'' ''h'' \<noteq> canonical_request ''GET'' ''/a'' ''d'' ''n1'' [] ''h''"
  by (subst (1 2) canonical_request_exact) (simp_all add: newline_def upper_def upper_char_def char_of_eq_iff)

end
