(* ===== verification/Python_Values.thy ===== *)
theory Python_Values
  imports Json_Values "HOL-Library.AList" "HOL-Library.Log_Nat"
begin

text \<open>
  More of Python's values: the rounding of a sum of floats to a double, equality of decoded
  values (\<open>1 == 1.0 == True\<close>, dictionaries without order) and the merging of dictionaries.
\<close>

subsection \<open>Doubles\<close>

text \<open>
  A positive rational rounded to 53 significant bits, half to even. Underflow and overflow are
  not modelled: the differences rounded here are of numbers between 0 and 1.
\<close>

definition binary_exponent :: "rat \<Rightarrow> int" where
  "binary_exponent x =
     (let (p, q) = quotient_of x; e = bitlen p - bitlen q in if 2 powi e \<le> x then e else e - 1)"

definition round_double :: "rat \<Rightarrow> rat" where
  "round_double x = (let u = 2 powi (binary_exponent x - 52) in of_int (round_half_even (x / u)) * u)"

definition to_double :: "rat \<Rightarrow> rat" where
  "to_double x = (if x = 0 then 0 else if 0 < x then round_double x else - round_double (- x))"

lemma round_half_even_error: "\<bar>of_int (round_half_even x) - x\<bar> \<le> 1 / 2"
proof -
  have "of_int \<lfloor>x\<rfloor> \<le> x" "x < of_int \<lfloor>x\<rfloor> + 1"
    using floor_correct [of x] by simp_all
  then show ?thesis by (auto simp: round_half_even_def Let_def)
qed

lemma binary_exponent_le: "2 powi binary_exponent x \<le> x" if "0 < x"
proof -
  obtain p q where pq: "quotient_of x = (p, q)" by (cases "quotient_of x")
  then have q: "0 < q" and x: "x = of_int p / of_int q"
    using quotient_of_denom_pos [OF pq] quotient_of_div [OF pq] by auto
  then have p: "0 < p" using that by (simp add: zero_less_divide_iff)
  have bounds: "2 ^ nat (bitlen p - 1) \<le> p" "q < 2 ^ nat (bitlen q)"
    using bitlen_bounds [OF p] bitlen_bounds [OF q] by auto
  have pos: "1 \<le> bitlen p" "0 \<le> bitlen q"
    using p by (auto simp: bitlen_ge_iff_power bitlen_nonneg)
  have "(2 :: rat) powi (bitlen p - 1) \<le> of_int p"
  proof -
    have "(2 :: rat) powi (bitlen p - 1) = of_int (2 ^ nat (bitlen p - 1))"
      using pos by (simp add: power_int_nonneg_exp)
    then show ?thesis using bounds(1) by (simp only: of_int_le_iff)
  qed
  moreover have "of_int q \<le> (2 :: rat) powi bitlen q"
  proof -
    have "(2 :: rat) powi bitlen q = of_int (2 ^ nat (bitlen q))"
      using pos by (simp add: power_int_nonneg_exp)
    then show ?thesis using bounds(2) by (simp only: of_int_le_iff less_imp_le)
  qed
  ultimately have "(2 :: rat) powi (bitlen p - 1) / 2 powi bitlen q \<le> of_int p / of_int q"
    using p q by (intro frac_le) auto
  moreover have "(2 :: rat) powi (bitlen p - 1) / 2 powi bitlen q = 2 powi (bitlen p - bitlen q - 1)"
    by (simp add: power_int_diff [symmetric] algebra_simps)
  ultimately have "(2 :: rat) powi (bitlen p - bitlen q - 1) \<le> x" using x by simp
  then show ?thesis by (simp add: binary_exponent_def pq Let_def)
qed

lemma binary_exponent_less: "x < 2 powi (binary_exponent x + 1)" if "0 < x"
proof -
  obtain p q where pq: "quotient_of x = (p, q)" by (cases "quotient_of x")
  then have q: "0 < q" and x: "x = of_int p / of_int q"
    using quotient_of_denom_pos [OF pq] quotient_of_div [OF pq] by auto
  then have p: "0 < p" using that by (simp add: zero_less_divide_iff)
  have bounds: "p < 2 ^ nat (bitlen p)" "2 ^ nat (bitlen q - 1) \<le> q"
    using bitlen_bounds [OF p] bitlen_bounds [OF q] by auto
  have pos: "0 \<le> bitlen p" "1 \<le> bitlen q"
    using q by (auto simp: bitlen_ge_iff_power bitlen_nonneg)
  have "of_int p < (2 :: rat) powi bitlen p"
  proof -
    have "(2 :: rat) powi bitlen p = of_int (2 ^ nat (bitlen p))"
      using pos by (simp add: power_int_nonneg_exp)
    then show ?thesis using bounds(1) by (simp only: of_int_less_iff)
  qed
  moreover have "(2 :: rat) powi (bitlen q - 1) \<le> of_int q"
  proof -
    have "(2 :: rat) powi (bitlen q - 1) = of_int (2 ^ nat (bitlen q - 1))"
      using pos by (simp add: power_int_nonneg_exp)
    then show ?thesis using bounds(2) by (simp only: of_int_le_iff)
  qed
  ultimately have "of_int p / of_int q < (2 :: rat) powi bitlen p / 2 powi (bitlen q - 1)"
    using p q by (intro frac_less) auto
  moreover have "(2 :: rat) powi bitlen p / 2 powi (bitlen q - 1) = 2 powi (bitlen p - bitlen q + 1)"
    by (simp add: power_int_diff [symmetric] algebra_simps)
  ultimately have "x < (2 :: rat) powi (bitlen p - bitlen q + 1)" using x by simp
  then show ?thesis by (simp add: binary_exponent_def pq Let_def)
qed

lemma binary_exponent_eq:
  assumes "2 powi e \<le> x" "x < 2 powi (e + 1)"
  shows "binary_exponent x = e"
proof -
  have "0 < x" using assms(1) by (rule less_le_trans [rotated]) simp
  then have "2 powi binary_exponent x \<le> x" "x < 2 powi (binary_exponent x + 1)"
    by (simp_all only: binary_exponent_le binary_exponent_less)
  then have "(2 :: rat) powi binary_exponent x < 2 powi (e + 1)" "(2 :: rat) powi e < 2 powi (binary_exponent x + 1)"
    using assms by linarith+
  moreover have "m < n" if "(2 :: rat) powi m < 2 powi n" for m n :: int
    using that power_int_increasing [of n m "2 :: rat"] by (cases "m < n") (simp_all add: not_less)
  ultimately have "binary_exponent x < e + 1" "e < binary_exponent x + 1" by blast+
  then show ?thesis by simp
qed

lemma round_half_even_near: "round_half_even x = n" if "\<bar>x - of_int n\<bar> < 1 / 2"
proof -
  have "\<lfloor>x\<rfloor> = n \<or> \<lfloor>x\<rfloor> = n - 1"
    using that by (simp only: floor_eq_iff abs_less_iff of_int_diff of_int_1) linarith
  then show ?thesis using that by (auto simp: round_half_even_def Let_def)
qed

text \<open>A double near a multiple of its own spacing.\<close>

lemma to_double_near:
  assumes "2 powi e \<le> x" "x < 2 powi (e + 1)" "\<bar>x - of_int n * 2 powi (e - 52)\<bar> < 2 powi (e - 53)"
  shows "to_double x = of_int n * 2 powi (e - 52)"
proof -
  define u :: rat where "u = 2 powi (e - 52)"
  have u: "0 < u" "2 powi (e - 53) = u / 2"
    by (simp_all add: u_def power_int_diff)
  have "0 < x" using assms(1) by (rule less_le_trans [rotated]) simp
  have "\<bar>x / u - of_int n\<bar> = \<bar>x - of_int n * u\<bar> / u"
    using u(1) by (metis abs_divide abs_of_pos diff_divide_distrib nonzero_mult_div_cancel_right less_irrefl)
  also have "\<dots> < 1 / 2" using assms(3) u by (simp add: divide_less_eq u_def [symmetric])
  finally have "round_half_even (x / u) = n" by (rule round_half_even_near)
  then show ?thesis using \<open>0 < x\<close> binary_exponent_eq [OF assms(1,2)]
    by (simp add: to_double_def round_double_def Let_def u_def)
qed

lemma to_double_error_at:
  assumes "2 powi e \<le> x" "x < 2 powi (e + 1)"
  shows "\<bar>to_double x - x\<bar> \<le> 2 powi (e - 53)"
proof -
  define u :: rat where "u = 2 powi (e - 52)"
  have u: "0 < u" "2 powi (e - 53) = u / 2"
    by (simp_all add: u_def power_int_diff)
  have "0 < x" using assms(1) by (rule less_le_trans [rotated]) simp
  then have "to_double x = of_int (round_half_even (x / u)) * u"
    using binary_exponent_eq [OF assms] by (simp add: to_double_def round_double_def Let_def u_def)
  then have "to_double x - x = (of_int (round_half_even (x / u)) - x / u) * u"
    using u(1) by (simp add: algebra_simps)
  then have "\<bar>to_double x - x\<bar> = \<bar>of_int (round_half_even (x / u)) - x / u\<bar> * u"
    using u(1) by (simp add: abs_mult)
  also have "\<dots> \<le> 1 / 2 * u"
    using u(1) by (intro mult_right_mono round_half_even_error) simp
  finally show ?thesis by (simp add: u(2))
qed

lemma round_double_error: "\<bar>round_double x - x\<bar> \<le> x / 2 ^ 53" if "0 < x"
proof -
  define u :: rat where "u = 2 powi (binary_exponent x - 52)"
  have u: "0 < u" "u * 2 ^ 52 \<le> x"
    using binary_exponent_le [OF that] by (simp_all add: u_def power_int_diff)
  have "round_double x - x = (of_int (round_half_even (x / u)) - x / u) * u"
    using u(1) by (simp add: round_double_def u_def [symmetric] Let_def algebra_simps)
  then have "\<bar>round_double x - x\<bar> = \<bar>of_int (round_half_even (x / u)) - x / u\<bar> * u"
    using u(1) by (simp add: abs_mult)
  also have "\<dots> \<le> 1 / 2 * u"
    using u(1) by (intro mult_right_mono round_half_even_error) simp
  finally show ?thesis using u(2) by simp
qed

lemma to_double_error: "\<bar>to_double x - x\<bar> \<le> \<bar>x\<bar> / 2 ^ 53"
  using round_double_error [of x] round_double_error [of "- x"]
  by (cases x "0 :: rat" rule: linorder_cases) (simp_all add: to_double_def abs_minus_commute)

subsection \<open>Equality\<close>

fun json_number :: "json \<Rightarrow> pyfloat option" where
  "json_number (JInt n) = Some (Fin (of_int n))"
| "json_number (JBool b) = Some (Fin (of_bool b))"
| "json_number (JFloat f) = Some f"
| "json_number _ = None"

fun py_eq :: "json \<Rightarrow> json \<Rightarrow> bool" where
  "py_eq (JStr s) v = (v = JStr s)"
| "py_eq JNull v = (v = JNull)"
| "py_eq (JArr xs) v = (case v of JArr ys \<Rightarrow> list_all2 py_eq xs ys | _ \<Rightarrow> False)"
| "py_eq (JObj kvs) v =
     (case v of
        JObj ws \<Rightarrow> fst ` set kvs = fst ` set ws
          \<and> list_all (\<lambda>kv. case map_of ws (fst kv) of None \<Rightarrow> False | Some w \<Rightarrow> py_eq (snd kv) w) kvs
      | _ \<Rightarrow> False)"
| "py_eq x v =
     (case (json_number x, json_number v) of (Some f, Some g) \<Rightarrow> f = g \<and> f \<noteq> NaN | _ \<Rightarrow> False)"

subsection \<open>Dictionaries\<close>

text \<open>\<open>{**old, **new}\<close>: a key that is there keeps its place, the others are appended.\<close>

definition dict_merge :: "(string \<times> 'v) list \<Rightarrow> (string \<times> 'v) list \<Rightarrow> (string \<times> 'v) list" where
  "dict_merge old new = fold (\<lambda>(k, v). AList.update k v) new old"

lemma map_of_dict_merge: "distinct (map fst new) \<Longrightarrow> map_of (dict_merge old new) = map_of old ++ map_of new"
proof (induction new arbitrary: old)
  case Nil
  then show ?case by (simp add: dict_merge_def)
next
  case (Cons kv new)
  obtain k v where kv: "kv = (k, v)" by (cases kv)
  have "map_of (dict_merge old (kv # new)) = map_of (AList.update k v old) ++ map_of new"
    using Cons.IH [of "AList.update k v old"] Cons.prems by (simp add: dict_merge_def kv)
  also have "\<dots> = map_of old ++ map_of (kv # new)"
  proof
    have "map_of new k = None" using Cons.prems by (simp add: kv map_of_eq_None_iff)
    then show "(map_of (AList.update k v old) ++ map_of new) j = (map_of old ++ map_of (kv # new)) j" for j
      by (cases "j = k") (simp_all add: kv update_conv' map_add_def split: option.splits)
  qed
  finally show ?case .
qed

lemma dict_merge_keys: "fst ` set (dict_merge old new) = fst ` set old \<union> fst ` set new"
proof (induction new arbitrary: old)
  case (Cons kv new)
  then show ?case by (cases kv) (auto simp: dict_merge_def dom_update)
qed (simp add: dict_merge_def)

lemma update_subset: "set (AList.update k v al) \<subseteq> insert (k, v) (set al)"
  by (induction al) auto

lemma dict_merge_all: "list_all P old \<Longrightarrow> list_all P new \<Longrightarrow> list_all P (dict_merge old new)"
proof (induction new arbitrary: old)
  case (Cons kv new)
  obtain k v where kv: "kv = (k, v)" by (cases kv)
  have "list_all P (AList.update k v old)"
    using Cons.prems update_subset [of k v old] by (auto simp: kv list_all_iff)
  then show ?case using Cons by (simp add: dict_merge_def kv)
qed (simp add: dict_merge_def)

lemma dict_merge_distinct: "distinct (map fst old) \<Longrightarrow> distinct (map fst (dict_merge old new))"
proof (induction new arbitrary: old)
  case (Cons kv new)
  then show ?case by (cases kv) (simp add: dict_merge_def distinct_update)
qed (simp add: dict_merge_def)

end
