(* ===== verification/Persona.thy ===== *)
theory Persona
  imports Python_Values Sha256
begin

text \<open>
  The persona genome of \<open>biz/persona.py\<close>: the stored documents and what is dropped from them, the
  genome's model classes, the default genome, the authoring of a new genome and of an edit, the
  reading back of the authored part, and the rules a memory-driven evolution has to keep.

  A bounded float (\<open>ge=0.0, le=1.0\<close>) is the rational it denotes. The texts of the defaults are a
  parameter (\<open>persona_texts\<close>), because they are written in characters outside the modelled code
  points. A dictionary never has a key twice. The canonical
  JSON text of a genome is a parameter of its hash.
\<close>

subsection \<open>Stored documents\<close>

definition persona_genome_schema :: string where
  "persona_genome_schema = ''eidolon.persona_genome''"

fun carries_nothing :: "json \<Rightarrow> bool" where
  "carries_nothing JNull = True"
| "carries_nothing (JStr s) = (s = [])"
| "carries_nothing (JArr vs) = (vs = [])"
| "carries_nothing (JObj kvs) = (kvs = [])"
| "carries_nothing _ = False"

text \<open>The before-validator of every stored document, and \<open>extra="forbid"\<close> after it.\<close>

definition drop_retired_keys :: "string list \<Rightarrow> json \<Rightarrow> json" where
  "drop_retired_keys fields data =
     (case data of
        JObj kvs \<Rightarrow>
          (let retired = map fst (filter (\<lambda>(k, v). k \<notin> set fields \<and> carries_nothing v) kvs)
           in if retired = [] then data else JObj (filter (\<lambda>(k, v). k \<notin> set retired) kvs))
      | _ \<Rightarrow> data)"

definition stored_keys_ok :: "string list \<Rightarrow> json \<Rightarrow> bool" where
  "stored_keys_ok fields data = is_object (only_keys fields) (drop_retired_keys fields data)"

subsection \<open>The genome\<close>

datatype relationship_stage = New | Familiar | Trusted | Deep

fun stage_index :: "relationship_stage \<Rightarrow> int" where
  "stage_index New = 0" | "stage_index Familiar = 1" | "stage_index Trusted = 2" | "stage_index Deep = 3"

text \<open>The stages are ordered as their tuple in the code is.\<close>

instantiation relationship_stage :: linorder
begin

definition less_eq_relationship_stage :: "relationship_stage \<Rightarrow> relationship_stage \<Rightarrow> bool" where
  "less_eq_relationship_stage x y \<longleftrightarrow> stage_index x \<le> stage_index y"

definition less_relationship_stage :: "relationship_stage \<Rightarrow> relationship_stage \<Rightarrow> bool" where
  "less_relationship_stage x y \<longleftrightarrow> stage_index x < stage_index y"

instance
proof
  fix x y z :: relationship_stage
  show "x < y \<longleftrightarrow> x \<le> y \<and> \<not> y \<le> x"
    by (auto simp: less_eq_relationship_stage_def less_relationship_stage_def)
  show "x \<le> x"
    by (simp add: less_eq_relationship_stage_def)
  show "x \<le> y \<or> y \<le> x"
    by (auto simp: less_eq_relationship_stage_def)
  show "x \<le> z" if "x \<le> y" "y \<le> z"
    using that by (simp add: less_eq_relationship_stage_def)
  show "x = y" if "x \<le> y" "y \<le> x"
    using that by (cases x; cases y) (simp_all add: less_eq_relationship_stage_def)
qed

end

record persona_trait =
  ts_value :: rat
  ts_confidence :: rat
  ts_last_changed_at :: "datetime option"
  ts_source :: string

record evidence_ref =
  ev_kind :: string
  ev_ref_id :: string
  ev_summary :: string
  ev_confidence :: rat

record constitution =
  co_name :: string
  co_archetype :: string
  co_self_concept :: string
  co_values :: "string list"
  co_boundaries :: "string list"

record persona_character =
  ch_portrait :: string
  ch_traits :: "(string \<times> persona_trait) list"
  ch_tensions :: "string list"
  ch_growth_edges :: "string list"

record relationship =
  re_stage :: relationship_stage
  re_narrative :: string
  re_safety_boundaries :: "string list"

record expression =
  ex_voice_portrait :: string
  ex_behavior_guidance :: "string list"
  ex_dialogue_examples :: "string list"
  ex_modality_notes :: "(string \<times> string) list"
  ex_signature_phrases :: "(string \<times> string) list"

record memory_policy =
  mp_recall_policy :: json_object
  mp_relation_policies :: json_object

record evolution_policy =
  ep_enabled :: bool
  ep_auto_apply_low_risk :: bool
  ep_max_delta_per_commit :: rat
  ep_review_required_traits :: "string list"

text \<open>\<open>extra="allow"\<close>: the keys the class does not name are kept in \<open>pv_extra\<close>.\<close>

record provenance =
  pv_origin :: string
  pv_base_genome_id :: "string option"
  pv_source_preset_id :: "string option"
  pv_source_preset_revision :: "string option"
  pv_evidence_refs :: "evidence_ref list"
  pv_extra :: json_object

record genome =
  ge_constitution :: constitution
  ge_character :: persona_character
  ge_relationship :: relationship
  ge_expression :: expression
  ge_memory_policy :: memory_policy
  ge_evolution_policy :: evolution_policy
  ge_provenance :: provenance

definition unit_interval :: "rat \<Rightarrow> bool" where
  "unit_interval x \<longleftrightarrow> 0 \<le> x \<and> x \<le> 1"

definition trait_ok :: "persona_trait \<Rightarrow> bool" where
  "trait_ok t \<longleftrightarrow> unit_interval (ts_value t) \<and> unit_interval (ts_confidence t)"

definition evidence_ok :: "evidence_ref \<Rightarrow> bool" where
  "evidence_ok e \<longleftrightarrow> unit_interval (ev_confidence e)"

definition genome_fields :: "genome \<Rightarrow> (string \<times> bool) list" where
  "genome_fields g =
     [(''character'', list_all (\<lambda>(k, t). trait_ok t) (ch_traits (ge_character g))
         \<and> distinct (map fst (ch_traits (ge_character g)))),
      (''evolution_policy'', unit_interval (ep_max_delta_per_commit (ge_evolution_policy g))),
      (''provenance'', opt_ok (len_between 0 64) (pv_source_preset_id (ge_provenance g))
         \<and> opt_ok (len_between 0 32) (pv_source_preset_revision (ge_provenance g))
         \<and> list_all evidence_ok (pv_evidence_refs (ge_provenance g)))]"

definition genome_rules :: "genome \<Rightarrow> (bool \<times> string) list" where
  "genome_rules g = [(blank (co_name (ge_constitution g)), ''persona genome constitution.name is required'')]"

definition make_genome :: "genome \<Rightarrow> string invalid + genome" where
  "make_genome g = build (genome_fields g) (genome_rules g) g"

definition wf_genome :: "genome \<Rightarrow> bool" where
  "wf_genome g \<longleftrightarrow> admissible (genome_fields g) (genome_rules g)"

interpretation genome_class: model_class make_genome wf_genome
  by (rule build_class; simp add: make_genome_def wf_genome_def)

subsection \<open>Authoring\<close>

text \<open>What a person decides; \<open>au_set\<close> are the fields that were given (\<open>model_fields_set\<close>).\<close>

record authoring =
  au_archetype :: string
  au_self_concept :: string
  au_character_portrait :: string
  au_relationship_narrative :: string
  au_voice_portrait :: string
  au_values :: "string list"
  au_boundaries :: "string list"
  au_safety_boundaries :: "string list"
  au_behavior_guidance :: "string list"
  au_dialogue_examples :: "string list"
  au_modality_notes :: "(string \<times> string) list"
  au_traits :: "(string \<times> persona_trait) list"
  au_set :: "string list"

definition authoring_ok :: "authoring \<Rightarrow> bool" where
  "authoring_ok a \<longleftrightarrow> list_all (\<lambda>(k, t). trait_ok t) (au_traits a) \<and> distinct (map fst (au_traits a))"

definition authoring_members :: "string list" where
  "authoring_members =
     [''archetype'', ''self_concept'', ''character_portrait'', ''relationship_narrative'', ''voice_portrait'',
      ''values'', ''boundaries'', ''safety_boundaries'', ''behavior_guidance'', ''dialogue_examples'',
      ''modality_notes'', ''traits'']"

text \<open>The texts of the template.\<close>

record persona_texts =
  pt_values :: "string list"
  pt_boundaries :: "string list"
  pt_behavior_guidance :: "string list"
  pt_portrait :: string
  pt_voice_portrait :: string

definition default_authoring :: "persona_texts \<Rightarrow> authoring" where
  "default_authoring tx =
     \<lparr>au_archetype = ''companion'', au_self_concept = [], au_character_portrait = pt_portrait tx,
      au_relationship_narrative = [], au_voice_portrait = pt_voice_portrait tx, au_values = pt_values tx,
      au_boundaries = pt_boundaries tx, au_safety_boundaries = [], au_behavior_guidance = pt_behavior_guidance tx,
      au_dialogue_examples = [], au_modality_notes = [], au_traits = [], au_set = []\<rparr>"

text \<open>Applying the given fields to the full snapshot, which is validated again.\<close>

definition authored_text :: "authoring \<Rightarrow> string \<Rightarrow> string \<Rightarrow> string \<Rightarrow> string" where
  "authored_text a f new old = (if f \<in> set (au_set a) then strip new else old)"

definition authored :: "authoring \<Rightarrow> string \<Rightarrow> 'v \<Rightarrow> 'v \<Rightarrow> 'v" where
  "authored a f new old = (if f \<in> set (au_set a) then new else old)"

definition apply_persona_authoring :: "genome \<Rightarrow> authoring \<Rightarrow> string \<Rightarrow> string invalid + genome" where
  "apply_persona_authoring base a base_genome_id =
     (let co = ge_constitution base; ch = ge_character base; re = ge_relationship base; ex = ge_expression base
      in make_genome (base\<lparr>
        ge_constitution := co\<lparr>
          co_archetype := authored_text a ''archetype'' (au_archetype a) (co_archetype co),
          co_self_concept := authored_text a ''self_concept'' (au_self_concept a) (co_self_concept co),
          co_values := authored a ''values'' (au_values a) (co_values co),
          co_boundaries := authored a ''boundaries'' (au_boundaries a) (co_boundaries co)\<rparr>,
        ge_character := ch\<lparr>
          ch_portrait := authored_text a ''character_portrait'' (au_character_portrait a) (ch_portrait ch),
          ch_traits := authored a ''traits'' (au_traits a) (ch_traits ch)\<rparr>,
        ge_relationship := re\<lparr>
          re_narrative := authored_text a ''relationship_narrative'' (au_relationship_narrative a) (re_narrative re),
          re_safety_boundaries := authored a ''safety_boundaries'' (au_safety_boundaries a) (re_safety_boundaries re)\<rparr>,
        ge_expression := ex\<lparr>
          ex_voice_portrait := authored_text a ''voice_portrait'' (au_voice_portrait a) (ex_voice_portrait ex),
          ex_behavior_guidance := authored a ''behavior_guidance'' (au_behavior_guidance a) (ex_behavior_guidance ex),
          ex_dialogue_examples := authored a ''dialogue_examples'' (au_dialogue_examples a) (ex_dialogue_examples ex),
          ex_modality_notes := authored a ''modality_notes'' (au_modality_notes a) (ex_modality_notes ex)\<rparr>,
        ge_provenance := (ge_provenance base)\<lparr>pv_origin := ''owner_authored'',
          pv_base_genome_id := Some base_genome_id\<rparr>\<rparr>))"

definition persona_authoring_of :: "genome \<Rightarrow> authoring" where
  "persona_authoring_of g =
     (let co = ge_constitution g; ch = ge_character g; re = ge_relationship g; ex = ge_expression g
      in \<lparr>au_archetype = co_archetype co, au_self_concept = co_self_concept co,
          au_character_portrait = ch_portrait ch, au_relationship_narrative = re_narrative re,
          au_voice_portrait = ex_voice_portrait ex, au_values = co_values co, au_boundaries = co_boundaries co,
          au_safety_boundaries = re_safety_boundaries re, au_behavior_guidance = ex_behavior_guidance ex,
          au_dialogue_examples = ex_dialogue_examples ex, au_modality_notes = ex_modality_notes ex,
          au_traits = ch_traits ch, au_set = authoring_members\<rparr>)"

subsection \<open>Creating a genome\<close>

text \<open>The origin of a new genome: how it came about and what it was written from.\<close>

record lineage =
  li_origin :: string
  li_base_genome_id :: "string option"
  li_source_preset_id :: "string option"
  li_source_preset_revision :: "string option"

definition default_trait :: "rat \<Rightarrow> persona_trait" where
  "default_trait x = \<lparr>ts_value = to_double x, ts_confidence = 1 / 2, ts_last_changed_at = None, ts_source = ''template''\<rparr>"

definition default_traits :: "(string \<times> persona_trait) list" where
  "default_traits =
     [(''core.extraversion'', default_trait (50 / 100)), (''core.intimacy'', default_trait (35 / 100)),
      (''core.vulnerability'', default_trait (25 / 100)), (''core.structure'', default_trait (55 / 100)),
      (''core.directiveness'', default_trait (45 / 100)), (''core.grounding'', default_trait (65 / 100)),
      (''core.imagination'', default_trait (55 / 100)), (''core.playfulness'', default_trait (50 / 100)),
      (''core.reflection_depth'', default_trait (55 / 100))]"

definition build_default_persona_genome ::
  "persona_texts \<Rightarrow> string \<Rightarrow> string \<Rightarrow> lineage \<Rightarrow> string invalid + genome" where
  "build_default_persona_genome tx name archetype li =
     make_genome
       \<lparr>ge_constitution = \<lparr>co_name = name, co_archetype = (if archetype = [] then ''companion'' else archetype),
          co_self_concept = [], co_values = pt_values tx, co_boundaries = pt_boundaries tx\<rparr>,
        ge_character = \<lparr>ch_portrait = pt_portrait tx, ch_traits = default_traits, ch_tensions = [], ch_growth_edges = []\<rparr>,
        ge_relationship = \<lparr>re_stage = New, re_narrative = [], re_safety_boundaries = []\<rparr>,
        ge_expression = \<lparr>ex_voice_portrait = pt_voice_portrait tx, ex_behavior_guidance = pt_behavior_guidance tx,
          ex_dialogue_examples = [], ex_modality_notes = [], ex_signature_phrases = []\<rparr>,
        ge_memory_policy = \<lparr>mp_recall_policy = [(''scope'', JStr ''owner_companion''), (''use_memory_as_evidence'', JBool True)],
          mp_relation_policies = []\<rparr>,
        ge_evolution_policy = \<lparr>ep_enabled = True, ep_auto_apply_low_risk = False,
          ep_max_delta_per_commit = to_double (5 / 100),
          ep_review_required_traits = [''core.intimacy'', ''core.vulnerability'']\<rparr>,
        ge_provenance = \<lparr>pv_origin = li_origin li, pv_base_genome_id = li_base_genome_id li,
          pv_source_preset_id = li_source_preset_id li, pv_source_preset_revision = li_source_preset_revision li,
          pv_evidence_refs = [], pv_extra = []\<rparr>\<rparr>"

text \<open>A draft is an authoring with a name that is not blank; \<open>None\<close> stands for the template.\<close>

definition make_draft :: "string \<Rightarrow> authoring \<Rightarrow> string invalid + (string \<times> authoring)" where
  "make_draft name a =
     build [(''traits'', authoring_ok a)] [(blank name, ''persona authoring draft name is required'')] (name, a)"

definition draft_for_companion ::
  "persona_texts \<Rightarrow> authoring option \<Rightarrow> string \<Rightarrow> string invalid + (string \<times> authoring)" where
  "draft_for_companion tx a name =
     make_draft name (case a of None \<Rightarrow> default_authoring tx | Some x \<Rightarrow> x\<lparr>au_set := authoring_members\<rparr>)"

text \<open>\<open>model_copy\<close> does not validate what it is given.\<close>

definition build_persona_genome_from_draft ::
  "persona_texts \<Rightarrow> string \<times> authoring \<Rightarrow> lineage \<Rightarrow> string invalid + genome" where
  "build_persona_genome_from_draft tx draft li =
     (let a = snd draft in
     and_then (build_default_persona_genome tx (strip (fst draft)) (au_archetype a) li) (\<lambda>base.
       Inr (base\<lparr>
         ge_constitution := (ge_constitution base)\<lparr>co_self_concept := strip (au_self_concept a),
           co_values := au_values a, co_boundaries := au_boundaries a\<rparr>,
         ge_character := (ge_character base)\<lparr>ch_portrait := strip (au_character_portrait a),
           ch_traits := dict_merge (ch_traits (ge_character base)) (au_traits a)\<rparr>,
         ge_relationship := \<lparr>re_stage = New, re_narrative = strip (au_relationship_narrative a),
           re_safety_boundaries = au_safety_boundaries a\<rparr>,
         ge_expression := \<lparr>ex_voice_portrait = strip (au_voice_portrait a), ex_behavior_guidance = au_behavior_guidance a,
           ex_dialogue_examples = au_dialogue_examples a, ex_modality_notes = au_modality_notes a,
           ex_signature_phrases = []\<rparr>\<rparr>)))"

text \<open>\<open>canonical\<close> is the sorted, compact JSON of a genome, as UTF-8.\<close>

definition persona_genome_hash :: "(genome \<Rightarrow> byte list) \<Rightarrow> genome \<Rightarrow> string" where
  "persona_genome_hash canonical g = ''pg_'' @ take 32 (sha256_hex (canonical g))"

definition runtime_manifest_hash :: "string \<Rightarrow> string" where
  "runtime_manifest_hash manifest = ''manifest_'' @ take 32 (sha256_hex (utf8 manifest))"

subsection \<open>Edits and previews\<close>

datatype response_length = Brief | Balanced | Detailed
datatype advice = When_Asked | Proactive
datatype follow_up = When_Needed | Conversational

record conversation_preferences =
  cp_response_length :: response_length
  cp_advice :: advice
  cp_follow_up :: follow_up

datatype edit_action = Edit | Rename | Restore

record persona_edit_request =
  er_expected_base_genome_id :: string
  er_expected_preference_revision :: int
  er_operation_id :: string
  er_persona :: authoring
  er_preferences :: "conversation_preferences option"
  er_action :: edit_action
  er_display_name :: "string option"
  er_restore_genome_id :: "string option"

definition edit_request_fields :: "persona_edit_request \<Rightarrow> (string \<times> bool) list" where
  "edit_request_fields r =
     [(''expected_base_genome_id'', len_between 1 64 (er_expected_base_genome_id r)),
      (''expected_preference_revision'', 1 \<le> er_expected_preference_revision r),
      (''operation_id'', len_between 1 128 (er_operation_id r)),
      (''persona'', authoring_ok (er_persona r)),
      (''display_name'', opt_ok (len_between 1 128) (er_display_name r)),
      (''restore_genome_id'', opt_ok (len_between 1 64) (er_restore_genome_id r))]"

definition edit_request_rules :: "persona_edit_request \<Rightarrow> (bool \<times> string) list" where
  "edit_request_rules r =
     (case er_action r of
        Rename \<Rightarrow>
          [((case er_display_name r of None \<Rightarrow> True | Some n \<Rightarrow> n = [] \<or> blank n) \<or> some_text (er_restore_genome_id r),
            ''rename requires a nonblank display_name only'')]
      | Restore \<Rightarrow>
          [(\<not> some_text (er_restore_genome_id r) \<or> some_text (er_display_name r),
            ''restore requires restore_genome_id only'')]
      | Edit \<Rightarrow>
          [(er_display_name r \<noteq> None \<or> er_restore_genome_id r \<noteq> None, ''edit cannot rename or restore'')])
     @ [(er_action r \<noteq> Edit \<and> (au_set (er_persona r) \<noteq> [] \<or> er_preferences r \<noteq> None),
         ''rename and restore cannot also edit persona or preferences'')]"

definition make_persona_edit_request :: "persona_edit_request \<Rightarrow> string invalid + persona_edit_request" where
  "make_persona_edit_request r = build (edit_request_fields r) (edit_request_rules r) r"

definition wf_persona_edit_request :: "persona_edit_request \<Rightarrow> bool" where
  "wf_persona_edit_request r \<longleftrightarrow> admissible (edit_request_fields r) (edit_request_rules r)"

interpretation persona_edit_request_class: model_class make_persona_edit_request wf_persona_edit_request
  by (rule build_class; simp add: make_persona_edit_request_def wf_persona_edit_request_def)

record persona_preview_request =
  pq_companion_id :: "string option"
  pq_base_genome_id :: "string option"
  pq_name :: string
  pq_persona :: authoring
  pq_text :: string

definition preview_request_fields :: "persona_preview_request \<Rightarrow> (string \<times> bool) list" where
  "preview_request_fields r =
     [(''name'', len_between 1 128 (pq_name r)), (''persona'', authoring_ok (pq_persona r)),
      (''text'', len_between 1 2000 (pq_text r))]"

definition preview_request_rules :: "persona_preview_request \<Rightarrow> (bool \<times> string) list" where
  "preview_request_rules r =
     [(some_text (pq_companion_id r) \<noteq> some_text (pq_base_genome_id r),
       ''companion_id and base_genome_id must be supplied together''),
      (blank (pq_name r) \<or> blank (pq_text r), ''preview name and text cannot be blank'')]"

definition make_persona_preview_request :: "persona_preview_request \<Rightarrow> string invalid + persona_preview_request" where
  "make_persona_preview_request r = build (preview_request_fields r) (preview_request_rules r) r"

definition wf_persona_preview_request :: "persona_preview_request \<Rightarrow> bool" where
  "wf_persona_preview_request r \<longleftrightarrow> admissible (preview_request_fields r) (preview_request_rules r)"

interpretation persona_preview_request_class: model_class make_persona_preview_request wf_persona_preview_request
  by (rule build_class; simp add: make_persona_preview_request_def wf_persona_preview_request_def)

subsection \<open>Evolution\<close>

datatype proposal_status = Pending | Approved | Rejected
datatype proposal_risk = Low | Medium | High

record evolution_proposal =
  pr_proposal_id :: string
  pr_owner_id :: string
  pr_companion_id :: string
  pr_base_genome_id :: string
  pr_base_genome_hash :: string
  pr_proposed_genome_id :: string
  pr_status :: proposal_status
  pr_risk :: proposal_risk
  pr_confidence :: rat
  pr_rationale :: string
  pr_proposed_genome :: genome
  pr_evidence_refs :: "evidence_ref list"
  pr_created_at :: "datetime option"

definition evolution_proposal_fields :: "evolution_proposal \<Rightarrow> (string \<times> bool) list" where
  "evolution_proposal_fields p =
     [(''confidence'', unit_interval (pr_confidence p)),
      (''proposed_genome'', wf_genome (pr_proposed_genome p)),
      (''evidence_refs'', list_all evidence_ok (pr_evidence_refs p))]"

definition evolution_proposal_rules :: "evolution_proposal \<Rightarrow> (bool \<times> string) list" where
  "evolution_proposal_rules p =
     [(pv_base_genome_id (ge_provenance (pr_proposed_genome p)) \<noteq> Some (pr_base_genome_id p),
       ''proposed genome provenance must reference base_genome_id''),
      (pr_evidence_refs p = [], ''persona evolution proposal requires evidence'')]"

definition make_evolution_proposal :: "evolution_proposal \<Rightarrow> string invalid + evolution_proposal" where
  "make_evolution_proposal p = build (evolution_proposal_fields p) (evolution_proposal_rules p) p"

definition wf_evolution_proposal :: "evolution_proposal \<Rightarrow> bool" where
  "wf_evolution_proposal p \<longleftrightarrow> admissible (evolution_proposal_fields p) (evolution_proposal_rules p)"

interpretation evolution_proposal_class: model_class make_evolution_proposal wf_evolution_proposal
  by (rule build_class; simp add: make_evolution_proposal_def wf_evolution_proposal_def)

definition same_memory_policy :: "memory_policy \<Rightarrow> memory_policy \<Rightarrow> bool" where
  "same_memory_policy m n \<longleftrightarrow>
     py_eq (JObj (mp_recall_policy m)) (JObj (mp_recall_policy n))
     \<and> py_eq (JObj (mp_relation_policies m)) (JObj (mp_relation_policies n))"

text \<open>One trait of the current genome against the candidate's; a missing key was refused before.\<close>

definition check_trait_delta ::
  "rat \<Rightarrow> (string \<times> persona_trait) list \<Rightarrow> string \<times> persona_trait \<Rightarrow> string + unit" where
  "check_trait_delta limit candidate kb =
     (case map_of candidate (fst kb) of
        None \<Rightarrow> Inl ''KeyError''
      | Some after \<Rightarrow>
          guarded [(\<bar>to_double (ts_value after - ts_value (snd kb))\<bar> > limit,
                    ''persona trait delta exceeds max_delta_per_commit: '' @ fst kb)] ())"

definition validate_persona_evolution :: "genome \<Rightarrow> evolution_proposal \<Rightarrow> string + unit" where
  "validate_persona_evolution current p =
     (let candidate = pr_proposed_genome p; policy = ge_evolution_policy current;
          before = ge_relationship current; after = ge_relationship candidate;
          traits = ch_traits (ge_character current); traits' = ch_traits (ge_character candidate)
      in and_then (guarded
        [(\<not> ep_enabled policy, ''persona evolution is disabled''),
         (blank (pr_rationale p) \<or> pr_evidence_refs p = [], ''persona evolution requires rationale and evidence''),
         (ge_constitution candidate \<noteq> ge_constitution current,
          ''memory-driven evolution cannot rewrite the constitution''),
         (\<not> same_memory_policy (ge_memory_policy candidate) (ge_memory_policy current),
          ''memory-driven evolution cannot rewrite memory_policy''),
         (ge_evolution_policy candidate \<noteq> policy, ''memory-driven evolution cannot rewrite evolution_policy''),
         ((re_narrative before, re_safety_boundaries before) \<noteq> (re_narrative after, re_safety_boundaries after),
          ''memory-driven evolution cannot rewrite relationship agreements''),
         (fst ` set traits' \<noteq> fst ` set traits, ''persona evolution cannot add or remove traits'')] ()) (\<lambda>_.
      and_then (each (check_trait_delta (ep_max_delta_per_commit policy) traits') traits) (\<lambda>_.
      let delta = stage_index (re_stage after) - stage_index (re_stage before)
      in guarded [(delta < 0 \<or> delta > 1,
                   ''relationship stage evolution must move forward one step at most'')] ())))"

text \<open>A Companion evolving: one accepted proposal after another.\<close>

inductive evolution_step :: "genome \<Rightarrow> genome \<Rightarrow> bool" where
  evolve: "make_evolution_proposal q = Inr p \<Longrightarrow> validate_persona_evolution g p = Inr ()
    \<Longrightarrow> evolution_step g (pr_proposed_genome p)"

inductive_cases evolution_stepE: "evolution_step g h"

subsection \<open>Lemmas\<close>

lemma wf_genome_iff:
  "wf_genome g \<longleftrightarrow> list_all (\<lambda>(k, t). trait_ok t) (ch_traits (ge_character g))
     \<and> distinct (map fst (ch_traits (ge_character g)))
     \<and> unit_interval (ep_max_delta_per_commit (ge_evolution_policy g))
     \<and> opt_ok (len_between 0 64) (pv_source_preset_id (ge_provenance g))
     \<and> opt_ok (len_between 0 32) (pv_source_preset_revision (ge_provenance g))
     \<and> list_all evidence_ok (pv_evidence_refs (ge_provenance g)) \<and> \<not> blank (co_name (ge_constitution g))"
  by (auto simp: wf_genome_def admissible_def genome_fields_def genome_rules_def)

lemma trait_delta_ok:
  "check_trait_delta limit traits (k, t) = Inr () \<longleftrightarrow>
     (\<exists>t'. map_of traits k = Some t' \<and> \<bar>to_double (ts_value t' - ts_value t)\<bar> \<le> limit)"
  by (auto simp: check_trait_delta_def guard_simps not_less split: option.splits)

lemma rounded_delta:
  assumes "\<bar>to_double d\<bar> \<le> m"
  shows "\<bar>d\<bar> \<le> m * (1 + 1 / 2 ^ 52)"
proof -
  have "\<bar>d\<bar> \<le> \<bar>to_double d\<bar> + \<bar>d\<bar> / 2 ^ 53"
    using to_double_error [of d] by linarith
  then have "\<bar>d\<bar> \<le> m + \<bar>d\<bar> / 2 ^ 53" using assms by linarith
  then show ?thesis by (simp add: field_simps)
qed

lemma evolution_validated:
  "validate_persona_evolution g p = Inr () \<longleftrightarrow>
     (let h = pr_proposed_genome p in
      ep_enabled (ge_evolution_policy g) \<and> \<not> blank (pr_rationale p) \<and> pr_evidence_refs p \<noteq> []
      \<and> ge_constitution h = ge_constitution g
      \<and> same_memory_policy (ge_memory_policy h) (ge_memory_policy g)
      \<and> ge_evolution_policy h = ge_evolution_policy g
      \<and> re_narrative (ge_relationship h) = re_narrative (ge_relationship g)
      \<and> re_safety_boundaries (ge_relationship h) = re_safety_boundaries (ge_relationship g)
      \<and> fst ` set (ch_traits (ge_character h)) = fst ` set (ch_traits (ge_character g))
      \<and> (\<forall>kt \<in> set (ch_traits (ge_character g)).
            check_trait_delta (ep_max_delta_per_commit (ge_evolution_policy g)) (ch_traits (ge_character h)) kt = Inr ())
      \<and> re_stage (ge_relationship g) \<le> re_stage (ge_relationship h)
      \<and> stage_index (re_stage (ge_relationship h)) \<le> stage_index (re_stage (ge_relationship g)) + 1)"
  unfolding validate_persona_evolution_def Let_def
  by (auto simp: guard_simps less_eq_relationship_stage_def not_less)

text \<open>Equality in Python's sense is transitive on decoded documents.\<close>

lemma number_py_eq: "py_eq y z \<Longrightarrow> json_number y = Some f \<Longrightarrow> json_number z = Some f"
  by (cases y) (auto split: option.splits)

lemma py_eq_trans: "py_eq x y \<Longrightarrow> py_eq y z \<Longrightarrow> py_eq x z"
proof (induction x arbitrary: y z)
  case (JArr xs)
  then obtain ys zs where eq: "y = JArr ys" "z = JArr zs" "list_all2 py_eq xs ys" "list_all2 py_eq ys zs"
    by (auto split: json.splits)
  have "list_all2 py_eq xs zs" using eq(3,4) JArr.IH
  proof (induction xs arbitrary: ys zs)
    case (Cons x xs)
    then show ?case by (auto simp: list_all2_Cons1)
  qed simp
  then show ?case using eq by simp
next
  case (JObj kvs)
  then obtain ws us where eq: "y = JObj ws" "z = JObj us" by (auto split: json.splits)
  have "\<exists>u. map_of us k = Some u \<and> py_eq v u" if kv: "(k, v) \<in> set kvs" for k v
  proof -
    from kv JObj.prems(1) eq obtain w where w: "map_of ws k = Some w" "py_eq v w"
      by (fastforce simp: list_all_iff split: option.splits)
    then have "(k, w) \<in> set ws" by (simp add: map_of_SomeD)
    with JObj.prems(2) eq obtain u where u: "map_of us k = Some u" "py_eq w u"
      by (fastforce simp: list_all_iff split: option.splits)
    then show ?thesis using JObj.IH [of "(k, v)" v w u] kv w(2) by auto
  qed
  then show ?case using JObj.prems eq by (fastforce simp: list_all_iff split: option.splits)
qed (auto dest: number_py_eq split: option.splits json.splits)

text \<open>What \<open>n\<close> evolutions may have changed.\<close>

definition trait_map :: "genome \<Rightarrow> string \<Rightarrow> persona_trait option" where
  "trait_map g = map_of (ch_traits (ge_character g))"

definition traits_within :: "rat \<Rightarrow> genome \<Rightarrow> genome \<Rightarrow> bool" where
  "traits_within d g h \<longleftrightarrow>
     list_all (\<lambda>(k, t). case trait_map h k of None \<Rightarrow> False | Some t' \<Rightarrow> \<bar>ts_value t' - ts_value t\<bar> \<le> d)
       (ch_traits (ge_character g))"

text \<open>One step's delta, allowing for the rounding of the difference that is compared.\<close>

definition drift_limit :: "evolution_policy \<Rightarrow> rat" where
  "drift_limit policy = ep_max_delta_per_commit policy * (1 + 1 / 2 ^ 52)"

definition memory_kept :: "genome \<Rightarrow> genome \<Rightarrow> bool" where
  "memory_kept g h \<longleftrightarrow> ge_memory_policy h = ge_memory_policy g
     \<or> py_eq (JObj (mp_recall_policy (ge_memory_policy h))) (JObj (mp_recall_policy (ge_memory_policy g)))
       \<and> py_eq (JObj (mp_relation_policies (ge_memory_policy h))) (JObj (mp_relation_policies (ge_memory_policy g)))"

lemma memory_kept_trans:
  assumes "memory_kept f g" "memory_kept g h"
  shows "memory_kept f h"
proof (cases "ge_memory_policy g = ge_memory_policy f \<or> ge_memory_policy h = ge_memory_policy g")
  case True
  then show ?thesis using assms unfolding memory_kept_def by (elim disjE) simp_all
next
  case False
  then have "py_eq (JObj (mp_recall_policy (ge_memory_policy h))) (JObj (mp_recall_policy (ge_memory_policy f)))"
    "py_eq (JObj (mp_relation_policies (ge_memory_policy h))) (JObj (mp_relation_policies (ge_memory_policy f)))"
    using assms unfolding memory_kept_def by (iprover intro: py_eq_trans)+
  then show ?thesis unfolding memory_kept_def by iprover
qed

definition evolved_within :: "nat \<Rightarrow> genome \<Rightarrow> genome \<Rightarrow> bool" where
  "evolved_within n g h \<longleftrightarrow>
     ge_constitution h = ge_constitution g
     \<and> ge_evolution_policy h = ge_evolution_policy g
     \<and> memory_kept g h
     \<and> re_narrative (ge_relationship h) = re_narrative (ge_relationship g)
     \<and> re_safety_boundaries (ge_relationship h) = re_safety_boundaries (ge_relationship g)
     \<and> re_stage (ge_relationship g) \<le> re_stage (ge_relationship h)
     \<and> stage_index (re_stage (ge_relationship h)) \<le> stage_index (re_stage (ge_relationship g)) + int n
     \<and> fst ` set (ch_traits (ge_character h)) = fst ` set (ch_traits (ge_character g))
     \<and> traits_within (of_nat n * drift_limit (ge_evolution_policy g)) g h"

lemma traits_within_iff:
  "traits_within d g h \<longleftrightarrow>
     (\<forall>(k, t) \<in> set (ch_traits (ge_character g)). \<exists>t'. trait_map h k = Some t' \<and> \<bar>ts_value t' - ts_value t\<bar> \<le> d)"
  by (fastforce simp: traits_within_def list_all_iff split: option.splits)

lemma traits_within_trans:
  assumes "traits_within c f g" "traits_within d g h"
  shows "traits_within (c + d) f h"
  unfolding traits_within_iff
proof clarify
  fix k t
  assume "(k, t) \<in> set (ch_traits (ge_character f))"
  then obtain u where u: "trait_map g k = Some u" "\<bar>ts_value u - ts_value t\<bar> \<le> c"
    using assms(1) by (auto simp: traits_within_iff)
  then have "(k, u) \<in> set (ch_traits (ge_character g))" by (simp add: trait_map_def map_of_SomeD)
  then obtain w where "trait_map h k = Some w" "\<bar>ts_value w - ts_value u\<bar> \<le> d"
    using assms(2) by (auto simp: traits_within_iff)
  then show "\<exists>t'. trait_map h k = Some t' \<and> \<bar>ts_value t' - ts_value t\<bar> \<le> c + d" using u by auto
qed

lemma evolution_step_within: "evolution_step g h \<Longrightarrow> wf_genome h \<and> evolved_within 1 g h"
proof (erule evolution_stepE)
  fix q p
  assume h: "h = pr_proposed_genome p" and q: "make_evolution_proposal q = Inr p"
    and v: "validate_persona_evolution g p = Inr ()"
  have "wf_genome h"
    using evolution_proposal_class.accepted [OF q]
    by (auto simp: h wf_evolution_proposal_def admissible_def evolution_proposal_fields_def)
  moreover have "traits_within (drift_limit (ge_evolution_policy g)) g h"
    unfolding traits_within_iff trait_map_def
  proof clarify
    fix k t
    assume "(k, t) \<in> set (ch_traits (ge_character g))"
    then have "check_trait_delta (ep_max_delta_per_commit (ge_evolution_policy g)) (ch_traits (ge_character h)) (k, t) = Inr ()"
      using v by (simp add: h evolution_validated Let_def)
    then show "\<exists>t'. map_of (ch_traits (ge_character h)) k = Some t' \<and>
        \<bar>ts_value t' - ts_value t\<bar> \<le> drift_limit (ge_evolution_policy g)"
      using rounded_delta by (auto simp: trait_delta_ok drift_limit_def)
  qed
  ultimately show ?thesis
    using v by (auto simp: h evolution_validated Let_def evolved_within_def memory_kept_def same_memory_policy_def simp del: py_eq.simps)
qed

lemma within_trans: "evolved_within m f g \<Longrightarrow> evolved_within n g h \<Longrightarrow> evolved_within (m + n) f h"
  using traits_within_trans [of "of_nat m * drift_limit (ge_evolution_policy f)" f g
      "of_nat n * drift_limit (ge_evolution_policy f)" h]
  using memory_kept_trans [of f g h] by (auto simp: evolved_within_def distrib_right)

lemma within_refl: "wf_genome g \<Longrightarrow> evolved_within 0 g g"
  by (auto simp: evolved_within_def memory_kept_def traits_within_iff wf_genome_iff trait_map_def)

lemma evolution_chain: "(evolution_step ^^ n) g h \<Longrightarrow> wf_genome g \<Longrightarrow> wf_genome h \<and> evolved_within n g h"
proof (induction n arbitrary: h)
  case 0
  then show ?case by (simp add: within_refl)
next
  case (Suc n)
  then obtain f where f: "(evolution_step ^^ n) g f" "evolution_step f h" by auto
  then show ?case
    using Suc within_trans [of n g f 1 h] evolution_step_within [OF f(2)] by simp
qed

lemma make_genome_iff: "make_genome g = Inr h \<longleftrightarrow> h = g \<and> wf_genome g"
  by (rule genome_class.make_iff)

text \<open>An edit on top of what is there: the fields that were given, texts without their blanks.\<close>

definition edited :: "authoring \<Rightarrow> authoring \<Rightarrow> authoring" where
  "edited old a =
     \<lparr>au_archetype = authored_text a ''archetype'' (au_archetype a) (au_archetype old),
      au_self_concept = authored_text a ''self_concept'' (au_self_concept a) (au_self_concept old),
      au_character_portrait = authored_text a ''character_portrait'' (au_character_portrait a) (au_character_portrait old),
      au_relationship_narrative =
        authored_text a ''relationship_narrative'' (au_relationship_narrative a) (au_relationship_narrative old),
      au_voice_portrait = authored_text a ''voice_portrait'' (au_voice_portrait a) (au_voice_portrait old),
      au_values = authored a ''values'' (au_values a) (au_values old),
      au_boundaries = authored a ''boundaries'' (au_boundaries a) (au_boundaries old),
      au_safety_boundaries = authored a ''safety_boundaries'' (au_safety_boundaries a) (au_safety_boundaries old),
      au_behavior_guidance = authored a ''behavior_guidance'' (au_behavior_guidance a) (au_behavior_guidance old),
      au_dialogue_examples = authored a ''dialogue_examples'' (au_dialogue_examples a) (au_dialogue_examples old),
      au_modality_notes = authored a ''modality_notes'' (au_modality_notes a) (au_modality_notes old),
      au_traits = authored a ''traits'' (au_traits a) (au_traits old),
      au_set = authoring_members\<rparr>"

lemmas authoring_defs =
  apply_persona_authoring_def persona_authoring_of_def edited_def authored_def authored_text_def Let_def

definition without_blanks :: "authoring \<Rightarrow> authoring" where
  "without_blanks a =
     a\<lparr>au_archetype := strip (au_archetype a), au_self_concept := strip (au_self_concept a),
       au_character_portrait := strip (au_character_portrait a),
       au_relationship_narrative := strip (au_relationship_narrative a),
       au_voice_portrait := strip (au_voice_portrait a)\<rparr>"

lemma edited_self: "edited (persona_authoring_of g) (persona_authoring_of g) = without_blanks (persona_authoring_of g)"
  by (simp add: edited_def authored_def authored_text_def persona_authoring_of_def authoring_members_def
      without_blanks_def Let_def)

lemma apply_wf: "wf_genome base \<Longrightarrow> authoring_ok a \<Longrightarrow> \<exists>g. apply_persona_authoring base a i = Inr g"
  by (auto simp: apply_persona_authoring_def Let_def make_genome_iff wf_genome_iff authoring_ok_def authored_def)

lemma apply_edits: "apply_persona_authoring base a i = Inr g \<Longrightarrow> persona_authoring_of g = edited (persona_authoring_of base) a"
  by (auto simp: authoring_defs make_genome_iff)

text \<open>What an edit must not touch.\<close>

definition same_machinery :: "genome \<Rightarrow> genome \<Rightarrow> bool" where
  "same_machinery g h \<longleftrightarrow>
     co_name (ge_constitution h) = co_name (ge_constitution g)
     \<and> re_stage (ge_relationship h) = re_stage (ge_relationship g)
     \<and> ch_tensions (ge_character h) = ch_tensions (ge_character g)
     \<and> ch_growth_edges (ge_character h) = ch_growth_edges (ge_character g)
     \<and> ex_signature_phrases (ge_expression h) = ex_signature_phrases (ge_expression g)
     \<and> ge_memory_policy h = ge_memory_policy g \<and> ge_evolution_policy h = ge_evolution_policy g
     \<and> pv_source_preset_id (ge_provenance h) = pv_source_preset_id (ge_provenance g)
     \<and> pv_source_preset_revision (ge_provenance h) = pv_source_preset_revision (ge_provenance g)
     \<and> pv_evidence_refs (ge_provenance h) = pv_evidence_refs (ge_provenance g)
     \<and> pv_extra (ge_provenance h) = pv_extra (ge_provenance g)"

lemma apply_keeps: "apply_persona_authoring base a i = Inr g \<Longrightarrow>
    same_machinery base g \<and> pv_origin (ge_provenance g) = ''owner_authored'' \<and> pv_base_genome_id (ge_provenance g) = Some i"
  by (auto simp: apply_persona_authoring_def Let_def make_genome_iff same_machinery_def)

lemma default_trait_bounds: "0 \<le> x \<Longrightarrow> x * 2 \<le> 1 + 1 / 2 \<Longrightarrow> 0 \<le> to_double x \<and> to_double x \<le> 1"
proof -
  assume x: "0 \<le> x" "x * 2 \<le> 1 + 1 / 2"
  define c where "c = \<bar>x\<bar> / 2 ^ 53"
  have "c \<le> x / 4" using x by (simp add: c_def)
  moreover have "\<bar>to_double x - x\<bar> \<le> c" unfolding c_def by (rule to_double_error)
  ultimately show ?thesis using x by linarith
qed

lemma default_traits_ok: "list_all (\<lambda>(k, t). trait_ok t) default_traits" "distinct (map fst default_traits)"
  using default_trait_bounds by (simp_all add: default_traits_def default_trait_def trait_ok_def unit_interval_def)

subsection \<open>Properties\<close>

text \<open>
  C16. Evolution is bounded: after \<open>n\<close> accepted proposals the genome is still valid; its constitution, evolution policy
  and relationship agreements are what they were, and so is its memory policy, as Python compares it; its relationship
  stage has not gone back and is at most \<open>n\<close> stages further; it has the same traits, and no trait has moved by more
  than \<open>n\<close> times the policy's delta, up to the rounding of the floats that are compared.
\<close>

theorem evolution_is_bounded:
  assumes "(evolution_step ^^ n) g h" and "wf_genome g"
  shows "wf_genome h \<and> ge_constitution h = ge_constitution g \<and> ge_evolution_policy h = ge_evolution_policy g
    \<and> (ge_memory_policy h = ge_memory_policy g
       \<or> py_eq (JObj (mp_recall_policy (ge_memory_policy h))) (JObj (mp_recall_policy (ge_memory_policy g)))
         \<and> py_eq (JObj (mp_relation_policies (ge_memory_policy h))) (JObj (mp_relation_policies (ge_memory_policy g))))
    \<and> re_narrative (ge_relationship h) = re_narrative (ge_relationship g)
    \<and> re_safety_boundaries (ge_relationship h) = re_safety_boundaries (ge_relationship g)
    \<and> re_stage (ge_relationship g) \<le> re_stage (ge_relationship h)
    \<and> stage_index (re_stage (ge_relationship h)) \<le> stage_index (re_stage (ge_relationship g)) + int n
    \<and> fst ` set (ch_traits (ge_character h)) = fst ` set (ch_traits (ge_character g))
    \<and> list_all (\<lambda>(k, t). case trait_map h k of
          None \<Rightarrow> False
        | Some t' \<Rightarrow> \<bar>ts_value t' - ts_value t\<bar>
            \<le> of_nat n * (ep_max_delta_per_commit (ge_evolution_policy g) * (1 + 1 / 2 ^ 52)))
        (ch_traits (ge_character g))"
  using evolution_chain [OF assms] unfolding evolved_within_def memory_kept_def traits_within_def drift_limit_def .

definition sample_genome :: "relationship_stage \<Rightarrow> rat \<Rightarrow> genome" where
  "sample_genome stage x =
     \<lparr>ge_constitution = \<lparr>co_name = ''Mira'', co_archetype = ''companion'', co_self_concept = [], co_values = [],
        co_boundaries = []\<rparr>,
      ge_character = \<lparr>ch_portrait = ''calm'', ch_traits = [(''core.grounding'',
        \<lparr>ts_value = x, ts_confidence = 1 / 2, ts_last_changed_at = None, ts_source = ''template''\<rparr>)],
        ch_tensions = [], ch_growth_edges = []\<rparr>,
      ge_relationship = \<lparr>re_stage = stage, re_narrative = [], re_safety_boundaries = []\<rparr>,
      ge_expression = \<lparr>ex_voice_portrait = [], ex_behavior_guidance = [], ex_dialogue_examples = [],
        ex_modality_notes = [], ex_signature_phrases = []\<rparr>,
      ge_memory_policy = \<lparr>mp_recall_policy = [], mp_relation_policies = []\<rparr>,
      ge_evolution_policy = \<lparr>ep_enabled = True, ep_auto_apply_low_risk = False, ep_max_delta_per_commit = 1 / 16,
        ep_review_required_traits = []\<rparr>,
      ge_provenance = \<lparr>pv_origin = ''memory'', pv_base_genome_id = Some ''g1'', pv_source_preset_id = None,
        pv_source_preset_revision = None, pv_evidence_refs = [], pv_extra = []\<rparr>\<rparr>"

lemma sample_genome_ok: "0 \<le> x \<Longrightarrow> x \<le> 1 \<Longrightarrow> wf_genome (sample_genome stage x)"
  by (simp add: wf_genome_iff sample_genome_def trait_ok_def unit_interval_def blank_def strip_def is_space_def)

lemma sample_evolution: "evolution_step (sample_genome New (1 / 2)) (sample_genome Familiar (1 / 2))"
proof -
  define p where "p = \<lparr>pr_proposal_id = ''p1'', pr_owner_id = ''o'', pr_companion_id = ''c'', pr_base_genome_id = ''g1'',
    pr_base_genome_hash = ''h'', pr_proposed_genome_id = ''g2'', pr_status = Pending, pr_risk = Low, pr_confidence = 1,
    pr_rationale = ''r'', pr_proposed_genome = sample_genome Familiar (1 / 2), pr_evidence_refs =
    [\<lparr>ev_kind = ''k'', ev_ref_id = ''r'', ev_summary = [], ev_confidence = 1\<rparr>], pr_created_at = None\<rparr>"
  have "wf_evolution_proposal p"
    using sample_genome_ok [of "1 / 2" Familiar]
    by (simp add: wf_evolution_proposal_def admissible_def evolution_proposal_fields_def evolution_proposal_rules_def
        p_def unit_interval_def evidence_ok_def) (simp add: sample_genome_def)
  then have "make_evolution_proposal p = Inr p" by (rule evolution_proposal_class.accepts)
  moreover have "validate_persona_evolution (sample_genome New (1 / 2)) p = Inr ()"
    by (simp add: evolution_validated p_def sample_genome_def blank_def strip_def is_space_def same_memory_policy_def
        trait_delta_ok to_double_def less_eq_relationship_stage_def)
  ultimately have "evolution_step (sample_genome New (1 / 2)) (pr_proposed_genome p)" by (rule evolve)
  then show ?thesis by (simp add: p_def)
qed

lemma evolution_is_bounded_witness:
  "re_stage (ge_relationship (sample_genome New (1 / 2))) \<le> re_stage (ge_relationship (sample_genome Familiar (1 / 2)))"
proof -
  have "(evolution_step ^^ 1) (sample_genome New (1 / 2)) (sample_genome Familiar (1 / 2))"
    by (simp only: relpowp_1 sample_evolution)
  from evolution_is_bounded [OF this sample_genome_ok] show ?thesis by simp
qed

text \<open>
  An owner's edit of a valid genome always succeeds and does exactly what was given: the authored
  part reads back as the old one with the given fields replaced (texts without surrounding blanks),
  the name, the stage, what evolution has written, the policies and the recorded origin are
  untouched, and saving a form as it was opened changes nothing but blanks.
\<close>

theorem persona_edit_exact:
  assumes "wf_genome base" and "authoring_ok a"
  shows "\<exists>g. apply_persona_authoring base a i = Inr g \<and> wf_genome g
    \<and> persona_authoring_of g = edited (persona_authoring_of base) a \<and> same_machinery base g
    \<and> pv_origin (ge_provenance g) = ''owner_authored'' \<and> pv_base_genome_id (ge_provenance g) = Some i
    \<and> edited (persona_authoring_of base) (persona_authoring_of base) = without_blanks (persona_authoring_of base)"
proof -
  obtain g where g: "apply_persona_authoring base a i = Inr g" using apply_wf [OF assms] by blast
  then have "wf_genome g" by (auto simp: apply_persona_authoring_def Let_def make_genome_iff)
  then show ?thesis
    using g apply_edits [OF g] apply_keeps [OF g] by (simp add: edited_self)
qed

lemma persona_edit_exact_witness:
  "\<exists>g. apply_persona_authoring (sample_genome New (1 / 2))
         ((persona_authoring_of (sample_genome New (1 / 2)))\<lparr>au_archetype := '' guide '', au_set := [''archetype'']\<rparr>) ''g2'' = Inr g
       \<and> same_machinery (sample_genome New (1 / 2)) g"
proof -
  have "authoring_ok ((persona_authoring_of (sample_genome New (1 / 2)))\<lparr>au_archetype := '' guide '', au_set := [''archetype'']\<rparr>)"
    by (simp add: authoring_ok_def persona_authoring_of_def sample_genome_def Let_def trait_ok_def unit_interval_def)
  from persona_edit_exact [OF sample_genome_ok [of "1 / 2" New] this, of "''g2''"] show ?thesis by simp blast
qed

text \<open>
  Creating a genome from a draft. It succeeds exactly when the draft's ranges hold, the name is not blank and the
  recorded preset fits its bounds. The genome is then valid, has the stripped name, and reading its authored part gives
  the draft up to four changes: the self concept, the portraits and the narrative are stripped of surrounding blanks; the
  archetype is kept as it was given, blanks included, but an empty one becomes the default; the template's traits are there
  beside the draft's; and every member counts as set. So reading back is not the inverse of creating.
\<close>

theorem persona_draft_read_back:
  "(\<exists>d g. make_draft name a = Inr d \<and> build_persona_genome_from_draft tx d li = Inr g \<and> wf_genome g
      \<and> co_name (ge_constitution g) = strip name
      \<and> persona_authoring_of g = (without_blanks a)
           \<lparr>au_archetype := (if au_archetype a = [] then ''companion'' else au_archetype a),
            au_traits := dict_merge default_traits (au_traits a), au_set := authoring_members\<rparr>)
   \<longleftrightarrow> authoring_ok a \<and> \<not> blank name \<and> opt_ok (len_between 0 64) (li_source_preset_id li)
     \<and> opt_ok (len_between 0 32) (li_source_preset_revision li)"
proof -
  have names: "blank (strip name) \<longleftrightarrow> blank name" by (simp add: blank_def)
  have limit: "unit_interval (to_double (1 / 20))"
    using default_trait_bounds [of "1 / 20"] by (simp add: unit_interval_def)
  note merged = dict_merge_all [OF default_traits_ok(1)] dict_merge_distinct [OF default_traits_ok(2)]
  show ?thesis
    using default_traits_ok merged
    by (auto simp: make_draft_def guard_simps build_persona_genome_from_draft_def build_default_persona_genome_def
        make_genome_iff wf_genome_iff names limit authoring_ok_def persona_authoring_of_def without_blanks_def Let_def)
qed

text \<open>
  Reading a stored document: it is accepted exactly when every key the class does not know carries
  nothing, and the keys it knows keep their values.
\<close>

theorem retired_keys_lossless:
  assumes "distinct (map fst doc)"
  shows "(stored_keys_ok known (JObj doc) \<longleftrightarrow> list_all (\<lambda>(k, v). k \<in> set known \<or> carries_nothing v) doc)
    \<and> (case drop_retired_keys known (JObj doc) of
         JObj kept \<Rightarrow> list_all (\<lambda>k. map_of kept k = map_of doc k) known
           \<and> kept = filter (\<lambda>(k, v). k \<in> set known \<or> \<not> carries_nothing v) doc
       | _ \<Rightarrow> False)"
proof -
  define kept where "kept = filter (\<lambda>(k, v). k \<in> set known \<or> \<not> carries_nothing v) doc"
  have drop: "drop_retired_keys known (JObj doc) = JObj kept"
  proof -
    define retired where "retired = map fst (filter (\<lambda>(k, v). k \<notin> set known \<and> carries_nothing v) doc)"
    have "(k \<in> set retired) = (k \<notin> set known \<and> carries_nothing v)" if "(k, v) \<in> set doc" for k v
      using that assms by (auto simp: retired_def image_iff dest: eq_key_imp_eq_value)
    then have "filter (\<lambda>(k, v). k \<notin> set retired) doc = kept"
      unfolding kept_def by (intro filter_cong) auto
    moreover have "filter (\<lambda>(k, v). k \<notin> set retired) doc = doc" if "retired = []"
      using that by (auto simp: filter_id_conv)
    ultimately show ?thesis by (auto simp: drop_retired_keys_def Let_def retired_def [symmetric])
  qed
  have "map_of kept k = map_of doc k" if "k \<in> set known" for k
    using that unfolding kept_def by (induction doc) (auto simp: case_prod_beta)
  then show ?thesis
    by (auto simp: stored_keys_ok_def drop list_all_iff kept_def only_keys_def)
qed

lemma retired_keys_lossless_witness:
  "stored_keys_ok [''stage''] (JObj [(''stage'', JStr ''new''), (''commitments'', JArr [])])
   \<and> \<not> stored_keys_ok [''stage''] (JObj [(''stage'', JStr ''new''), (''commitments'', JArr [JStr ''task''])])"
  using retired_keys_lossless [of "[(''stage'', JStr ''new''), (''commitments'', JArr [])]" "[''stage'']"]
    retired_keys_lossless [of "[(''stage'', JStr ''new''), (''commitments'', JArr [JStr ''task''])]" "[''stage'']"]
  by simp

end
