(* ===== verification/Capability_Schema.thy ===== *)
theory Capability_Schema
  imports Byte_Codecs Python_Values "HOL-Library.List_Lexorder" "HOL-Library.Char_ord"
begin

text \<open>
  The capability declarations of \<open>biz/body/manifest.py\<close>: the check of a declared schema, the
  validation of a value against it, and the manifest's model classes.

  The schema is decoded JSON. Regular expressions are a parameter: \<open>search p s\<close> is
  \<open>re.search(p, s) is not None\<close>, and \<open>None\<close> when the pattern does not compile. In the validation of a
  value, a member of a shape that the declaration check refuses gives \<open>Malformed_Schema\<close>, whatever
  Python would make of it; what the declaration check lets through is modelled as it is.
\<close>

subsection \<open>The declaration check\<close>

definition max_schema_bytes :: nat where
  "max_schema_bytes = 16 * 1024"

definition max_schema_depth :: nat where
  "max_schema_depth = 8"

definition max_schema_properties :: nat where
  "max_schema_properties = 64"

definition max_schema_enum_values :: nat where
  "max_schema_enum_values = 64"

definition max_capabilities :: nat where
  "max_capabilities = 64"

definition json_types :: "string list" where
  "json_types = [''object'', ''array'', ''string'', ''integer'', ''number'', ''boolean'', ''null'']"

definition schema_keys :: "string list" where
  "schema_keys =
     [''type'', ''description'', ''properties'', ''required'', ''additionalProperties'', ''items'', ''enum'', ''const'',
      ''minimum'', ''maximum'', ''exclusiveMinimum'', ''exclusiveMaximum'', ''minLength'', ''maxLength'', ''minItems'',
      ''maxItems'', ''pattern'', ''format'', ''default'']"

datatype schema_fault = Not_An_Object | Too_Deep | Unsupported_Keywords | Unsupported_Type | Bad_Description
  | Bad_Enum | Enum_Too_Long | Properties_Without_Object | Too_Many_Properties | Bad_Property_Name
  | Bad_Required | Duplicate_Required | Undeclared_Required | Bad_Additional | Items_Without_Array
  | Schema_Too_Large | Root_Not_Object | Unhashable_Type

text \<open>
  Where and what; \<open>Unhashable_Type\<close> is the TypeError of testing an array or object for membership in
  the set of type names, which is not a ValueError.
\<close>

type_synonym schema_error = "string \<times> schema_fault"

definition properties_of :: "json_object \<Rightarrow> (string \<times> json) list" where
  "properties_of kvs = (case present kvs ''properties'' of Some (JObj ps) \<Rightarrow> ps | _ \<Rightarrow> [])"

definition check_keywords :: "json_object \<Rightarrow> string \<Rightarrow> schema_error + unit" where
  "check_keywords kvs path = guarded [(\<not> only_keys schema_keys kvs, (path, Unsupported_Keywords))] ()"

definition check_type :: "json_object \<Rightarrow> string \<Rightarrow> schema_error + unit" where
  "check_type kvs path =
     (case present kvs ''type'' of
        None \<Rightarrow> Inr ()
      | Some (JArr vs) \<Rightarrow> Inl (path, Unhashable_Type)
      | Some (JObj ws) \<Rightarrow> Inl (path, Unhashable_Type)
      | Some (JStr t) \<Rightarrow> guarded [(t \<notin> set json_types, (path @ ''.type'', Unsupported_Type))] ()
      | Some v \<Rightarrow> Inl (path @ ''.type'', Unsupported_Type))"

definition check_description :: "json_object \<Rightarrow> string \<Rightarrow> schema_error + unit" where
  "check_description kvs path =
     (case present kvs ''description'' of
        None \<Rightarrow> Inr ()
      | Some d \<Rightarrow> guarded [(\<not> is_text (len_between 0 256) d, (path @ ''.description'', Bad_Description))] ())"

definition check_enum :: "json_object \<Rightarrow> string \<Rightarrow> schema_error + unit" where
  "check_enum kvs path =
     (case present kvs ''enum'' of
        None \<Rightarrow> Inr ()
      | Some v \<Rightarrow> guarded
          [(\<not> is_array (\<lambda>vs. vs \<noteq> []) v, (path @ ''.enum'', Bad_Enum)),
           (\<not> is_array (\<lambda>vs. length vs \<le> max_schema_enum_values) v, (path @ ''.enum'', Enum_Too_Long))] ())"

definition check_properties :: "json_object \<Rightarrow> string \<Rightarrow> schema_error + unit" where
  "check_properties kvs path =
     (case present kvs ''properties'' of
        None \<Rightarrow> Inr ()
      | Some v \<Rightarrow> guarded
          [(present kvs ''type'' \<noteq> Some (JStr ''object'') \<or> \<not> is_object (\<lambda>ps. True) v,
            (path @ ''.properties'', Properties_Without_Object)),
           (\<not> is_object (\<lambda>ps. length ps \<le> max_schema_properties) v, (path @ ''.properties'', Too_Many_Properties))] ())"

definition check_required :: "json_object \<Rightarrow> string \<Rightarrow> schema_error + unit" where
  "check_required kvs path =
     (case present kvs ''required'' of
        None \<Rightarrow> Inr ()
      | Some v \<Rightarrow>
          and_then (or_raise (path @ ''.required'', Bad_Required)
              (case v of JArr vs \<Rightarrow> texts_of vs | _ \<Rightarrow> None)) (\<lambda>names.
          guarded
            [(has_duplicates names, (path @ ''.required'', Duplicate_Required)),
             (present kvs ''properties'' = None \<or> \<not> set names \<subseteq> fst ` set (properties_of kvs),
              (path @ ''.required'', Undeclared_Required))] ()))"

definition check_additional :: "json_object \<Rightarrow> string \<Rightarrow> schema_error + unit" where
  "check_additional kvs path =
     (case present kvs ''additionalProperties'' of
        None \<Rightarrow> Inr ()
      | Some v \<Rightarrow> guarded [(\<not> is_boolean v, (path @ ''.additionalProperties'', Bad_Additional))] ())"

lemma each_cong [fundef_cong]: "xs = ys \<Longrightarrow> (\<And>x. x \<in> set ys \<Longrightarrow> f x = g x) \<Longrightarrow> each f xs = each g ys"
  by (induction xs arbitrary: ys) (auto simp: and_then_def split: sum.splits)

lemma present_map_of: "present kvs k = Some v \<Longrightarrow> map_of kvs k = Some v"
  by (auto simp: present_def split: option.splits json.splits)

lemma present_smaller: "present kvs k = Some v \<Longrightarrow> size v < size (JObj kvs)"
proof -
  assume "present kvs k = Some v"
  then have "(k, v) \<in> set kvs" by (simp add: present_map_of map_of_SomeD)
  then have "size_prod (\<lambda>_. 0) size (k, v) \<le> size_list (size_prod (\<lambda>_. 0) size) kvs"
    by (intro size_list_estimation') auto
  then show ?thesis by simp
qed

lemma property_smaller: "(n, c) \<in> set (properties_of kvs) \<Longrightarrow> size c < size (JObj kvs)"
proof -
  assume nc: "(n, c) \<in> set (properties_of kvs)"
  then obtain ps where ps: "present kvs ''properties'' = Some (JObj ps)" "(n, c) \<in> set ps"
    by (cases "present kvs ''properties''") (auto simp: properties_of_def split: json.splits)
  then have "size_prod (\<lambda>_. 0) size (n, c) \<le> size_list (size_prod (\<lambda>_. 0) size) ps"
    by (intro size_list_estimation') auto
  then show ?thesis using present_smaller [OF ps(1)] by simp
qed

function validate_schema_node :: "json \<Rightarrow> string \<Rightarrow> nat \<Rightarrow> schema_error + unit" where
  "validate_schema_node schema path depth =
     (case schema of
        JObj kvs \<Rightarrow>
          and_then (guarded [(max_schema_depth < depth, (path, Too_Deep))] ()) (\<lambda>_.
          and_then (check_keywords kvs path) (\<lambda>_.
          and_then (check_type kvs path) (\<lambda>_.
          and_then (check_description kvs path) (\<lambda>_.
          and_then (check_enum kvs path) (\<lambda>_.
          and_then (check_properties kvs path) (\<lambda>_.
          and_then (each (\<lambda>nc.
              and_then (guarded [(\<not> len_between 1 128 (fst nc), (path @ ''.properties'', Bad_Property_Name))] ()) (\<lambda>_.
              validate_schema_node (snd nc) (path @ ''.properties.'' @ fst nc) (depth + 1)))
            (properties_of kvs)) (\<lambda>_.
          and_then (check_required kvs path) (\<lambda>_.
          and_then (check_additional kvs path) (\<lambda>_.
          (case present kvs ''items'' of
             None \<Rightarrow> Inr ()
           | Some child \<Rightarrow>
               and_then (guarded [(present kvs ''type'' \<noteq> Some (JStr ''array''), (path @ ''.items'', Items_Without_Array))] ())
                 (\<lambda>_. validate_schema_node child (path @ ''.items'') (depth + 1))))))))))))
      | _ \<Rightarrow> Inl (path, Not_An_Object))"
  by pat_completeness auto
termination
  by (relation "measure (\<lambda>(schema, path, depth). size schema)")
    (auto dest: property_smaller present_smaller)

declare validate_schema_node.simps [simp del]

text \<open>\<open>ft\<close> is \<open>repr\<close> of a finite float, for the length of the encoded schema.\<close>

definition validate_schema :: "(rat \<Rightarrow> string) \<Rightarrow> json \<Rightarrow> string \<Rightarrow> bool \<Rightarrow> schema_error + unit" where
  "validate_schema ft schema field require_object =
     and_then (guarded
       [(max_schema_bytes < length (utf8 (json_text ft schema)), (field, Schema_Too_Large)),
        (require_object \<and> \<not> is_object (\<lambda>kvs. map_of kvs ''type'' = Some (JStr ''object'')) schema,
         (field, Root_Not_Object))] ()) (\<lambda>_.
     validate_schema_node schema field 0)"

subsection \<open>The manifest\<close>

text \<open>\<open>^[a-z][a-z0-9_]*(?:\.[a-z][a-z0-9_]*)+$\<close>, a full match: at least two dotted segments.\<close>

definition name_segment :: "string \<Rightarrow> bool" where
  "name_segment s =
     (case s of [] \<Rightarrow> False
      | c # cs \<Rightarrow> is_ascii_lower c \<and> list_all (\<lambda>x. is_ascii_lower x \<or> is_ascii_digit x \<or> x = CHR ''_'') cs)"

fun split_dots :: "string \<Rightarrow> string list" where
  "split_dots [] = [[]]"
| "split_dots (c # cs) =
     (if c = CHR ''.'' then [] # split_dots cs
      else case split_dots cs of [] \<Rightarrow> [[c]] | s # ss \<Rightarrow> (c # s) # ss)"

definition capability_name_ok :: "string \<Rightarrow> bool" where
  "capability_name_ok s \<longleftrightarrow> 2 \<le> length (split_dots s) \<and> list_all name_segment (split_dots s)"

record capability =
  cap_name :: string
  cap_version :: int
  cap_description :: string
  cap_input_schema :: json_object
  cap_result_schema :: json_object

text \<open>
  \<open>str_strip_whitespace\<close> strips the texts before they are checked, and the stripped ones are kept; the
  keys of the two schemas are taken as already stripped.
\<close>

definition capability_fields :: "(rat \<Rightarrow> string) \<Rightarrow> capability \<Rightarrow> (string \<times> bool) list" where
  "capability_fields ft c =
     [(''name'', len_between 3 128 (cap_name c) \<and> capability_name_ok (cap_name c)),
      (''version'', 1 \<le> cap_version c \<and> cap_version c \<le> 65535),
      (''description'', len_between 1 512 (cap_description c)),
      (''input_schema'', validate_schema ft (JObj (cap_input_schema c)) ''input_schema'' True = Inr ()),
      (''result_schema'', validate_schema ft (JObj (cap_result_schema c)) ''result_schema'' False = Inr ())]"

definition strip_capability :: "capability \<Rightarrow> capability" where
  "strip_capability c = c\<lparr>cap_name := trim (cap_name c), cap_description := trim (cap_description c)\<rparr>"

definition make_capability :: "(rat \<Rightarrow> string) \<Rightarrow> capability \<Rightarrow> string invalid + capability" where
  "make_capability ft c = (let s = strip_capability c in build (capability_fields ft s) [] s)"

definition wf_capability :: "(rat \<Rightarrow> string) \<Rightarrow> capability \<Rightarrow> bool" where
  "wf_capability ft c \<longleftrightarrow> strip_capability c = c \<and> admissible (capability_fields ft c) no_rules"

text \<open>The first name that was seen before is the refusal.\<close>

fun first_repeated :: "string list \<Rightarrow> string list \<Rightarrow> string option" where
  "first_repeated seen [] = None"
| "first_repeated seen (n # ns) = (if n \<in> set seen then Some n else first_repeated (n # seen) ns)"

definition make_capability_manifest ::
  "(rat \<Rightarrow> string) \<Rightarrow> capability list \<Rightarrow> string invalid + capability list" where
  "make_capability_manifest ft cs =
     build_with [(''capabilities'', length cs \<le> max_capabilities \<and> list_all (wf_capability ft) cs)]
       (case first_repeated [] (map cap_name cs) of
          None \<Rightarrow> Inr ()
        | Some n \<Rightarrow> Inl (''duplicate capability declaration: '' @ n)) cs"

definition wf_capability_manifest :: "(rat \<Rightarrow> string) \<Rightarrow> capability list \<Rightarrow> bool" where
  "wf_capability_manifest ft cs \<longleftrightarrow>
     length cs \<le> max_capabilities \<and> list_all (wf_capability ft) cs \<and> distinct (map cap_name cs)"

lemma first_repeated_None: "first_repeated seen ns = None \<longleftrightarrow> distinct ns \<and> set ns \<inter> set seen = {}"
  by (induction ns arbitrary: seen) auto

lemma no_repetition:
  "(case first_repeated [] ns of None \<Rightarrow> Inr () | Some n \<Rightarrow> Inl (f n)) = Inr () \<longleftrightarrow> distinct ns"
  using first_repeated_None [of "[]" ns] by (cases "first_repeated [] ns") auto

interpretation capability_manifest_class: model_class "make_capability_manifest ft" "wf_capability_manifest ft" for ft
  by unfold_locales
    (auto simp: make_capability_manifest_def wf_capability_manifest_def guard_simps no_repetition)

subsection \<open>Validating a value\<close>

datatype arg_crash = Malformed_Schema | Enum_Is_Null | Pattern_Error

datatype arg_fault = Wrong_Type | Not_The_Constant | Not_In_Enum | Missing_Required "string list"
  | Unexpected_Properties "string list" | Too_Few_Items int | Too_Many_Items int | Too_Short int | Too_Long int
  | Pattern_Mismatch | Less_Than_Minimum | Greater_Than_Maximum | Not_Above_Exclusive | Not_Below_Exclusive

type_synonym arg_result = "arg_crash + (string \<times> arg_fault) option"

text \<open>Checks one after the other: the first error found is returned, an exception ends the run.\<close>

definition or_next :: "arg_result \<Rightarrow> arg_result \<Rightarrow> arg_result" where
  "or_next m n = (case m of Inr None \<Rightarrow> n | _ \<Rightarrow> m)"

fun first_fault :: "('a \<Rightarrow> arg_result) \<Rightarrow> 'a list \<Rightarrow> arg_result" where
  "first_fault f [] = Inr None"
| "first_fault f (x # xs) = or_next (f x) (first_fault f xs)"

lemma first_fault_cong [fundef_cong]:
  "xs = ys \<Longrightarrow> (\<And>x. x \<in> set ys \<Longrightarrow> f x = g x) \<Longrightarrow> first_fault f xs = first_fault g ys"
  by (induction xs arbitrary: ys) auto

definition fault_if :: "bool \<Rightarrow> string \<Rightarrow> arg_fault \<Rightarrow> arg_result" where
  "fault_if c path e = Inr (if c then Some (path, e) else None)"

fun matches_json_type :: "json \<Rightarrow> string \<Rightarrow> bool option" where
  "matches_json_type v t =
     (if t = ''object'' then Some (is_object (\<lambda>_. True) v)
      else if t = ''array'' then Some (is_array (\<lambda>_. True) v)
      else if t = ''string'' then Some (is_text (\<lambda>_. True) v)
      else if t = ''integer'' then Some (is_integer (\<lambda>_. True) v)
      else if t = ''number'' then Some (is_integer (\<lambda>_. True) v \<or> (case v of JFloat f \<Rightarrow> True | _ \<Rightarrow> False))
      else if t = ''boolean'' then Some (is_boolean v)
      else if t = ''null'' then Some (v = JNull)
      else None)"

definition value_type_check :: "json_object \<Rightarrow> json \<Rightarrow> string \<Rightarrow> arg_result" where
  "value_type_check kvs v path =
     (case present kvs ''type'' of
        None \<Rightarrow> Inr None
      | Some (JStr t) \<Rightarrow>
          (case matches_json_type v t of None \<Rightarrow> Inl Malformed_Schema | Some ok \<Rightarrow> fault_if (\<not> ok) path Wrong_Type)
      | Some _ \<Rightarrow> Inl Malformed_Schema)"

definition value_const_check :: "json_object \<Rightarrow> json \<Rightarrow> string \<Rightarrow> arg_result" where
  "value_const_check kvs v path =
     (case map_of kvs ''const'' of
        None \<Rightarrow> Inr None | Some c \<Rightarrow> fault_if (\<not> py_eq v c) path Not_The_Constant)"

text \<open>\<open>"enum" in schema\<close> holds for a null enum too, and \<open>value not in None\<close> is a TypeError.\<close>

definition value_enum_check :: "json_object \<Rightarrow> json \<Rightarrow> string \<Rightarrow> arg_result" where
  "value_enum_check kvs v path =
     (case map_of kvs ''enum'' of
        None \<Rightarrow> Inr None
      | Some (JArr vs) \<Rightarrow> fault_if (\<not> list_ex (py_eq v) vs) path Not_In_Enum
      | Some JNull \<Rightarrow> Inl Enum_Is_Null
      | Some _ \<Rightarrow> Inl Malformed_Schema)"

text \<open>\<open>isinstance(bound, int)\<close> holds for a bool.\<close>

fun int_bound :: "json option \<Rightarrow> int option" where
  "int_bound (Some (JInt n)) = Some n"
| "int_bound (Some (JBool b)) = Some (of_bool b)"
| "int_bound _ = None"

definition number_bound :: "json option \<Rightarrow> pyfloat option" where
  "number_bound v = Option.bind v json_number"

definition length_check ::
  "json_object \<Rightarrow> string \<Rightarrow> string \<Rightarrow> (int \<Rightarrow> arg_fault) \<Rightarrow> (int \<Rightarrow> arg_fault) \<Rightarrow> nat \<Rightarrow> string \<Rightarrow> arg_result" where
  "length_check kvs low high too_few too_many n path =
     or_next (case int_bound (map_of kvs low) of None \<Rightarrow> Inr None | Some m \<Rightarrow> fault_if (int n < m) path (too_few m))
       (case int_bound (map_of kvs high) of None \<Rightarrow> Inr None | Some m \<Rightarrow> fault_if (int n > m) path (too_many m))"

definition pattern_check :: "(string \<Rightarrow> string \<Rightarrow> bool option) \<Rightarrow> json_object \<Rightarrow> string \<Rightarrow> string \<Rightarrow> arg_result" where
  "pattern_check search kvs s path =
     (case map_of kvs ''pattern'' of
        Some (JStr p) \<Rightarrow>
          (case search p s of None \<Rightarrow> Inl Pattern_Error | Some found \<Rightarrow> fault_if (\<not> found) path Pattern_Mismatch)
      | _ \<Rightarrow> Inr None)"

definition bound_check ::
  "json_object \<Rightarrow> string \<Rightarrow> (pyfloat \<Rightarrow> bool) \<Rightarrow> arg_fault \<Rightarrow> string \<Rightarrow> arg_result" where
  "bound_check kvs k outside e path =
     (case number_bound (map_of kvs k) of None \<Rightarrow> Inr None | Some m \<Rightarrow> fault_if (outside m) path e)"

definition number_check :: "json_object \<Rightarrow> pyfloat \<Rightarrow> string \<Rightarrow> arg_result" where
  "number_check kvs x path =
     or_next (bound_check kvs ''minimum'' (\<lambda>m. float_less x m) Less_Than_Minimum path)
     (or_next (bound_check kvs ''maximum'' (\<lambda>m. float_less m x) Greater_Than_Maximum path)
     (or_next (bound_check kvs ''exclusiveMinimum'' (\<lambda>m. float_le x m) Not_Above_Exclusive path)
       (bound_check kvs ''exclusiveMaximum'' (\<lambda>m. float_le m x) Not_Below_Exclusive path)))"

definition required_names :: "json_object \<Rightarrow> string list option" where
  "required_names kvs =
     (case present kvs ''required'' of None \<Rightarrow> Some [] | Some (JArr vs) \<Rightarrow> texts_of vs | Some _ \<Rightarrow> None)"

definition properties_shape_ok :: "json_object \<Rightarrow> bool" where
  "properties_shape_ok kvs =
     (case present kvs ''properties'' of None \<Rightarrow> True | Some (JObj ps) \<Rightarrow> True | Some _ \<Rightarrow> False)"

definition object_keys_check :: "json_object \<Rightarrow> json_object \<Rightarrow> string \<Rightarrow> arg_result" where
  "object_keys_check kvs vs path =
     (case required_names kvs of
        None \<Rightarrow> Inl Malformed_Schema
      | Some names \<Rightarrow>
          if \<not> properties_shape_ok kvs then Inl Malformed_Schema
          else
            (let missing = filter (\<lambda>n. n \<notin> fst ` set vs) names;
                 extra = sort (filter (\<lambda>n. n \<notin> fst ` set (properties_of kvs)) (map fst vs))
             in or_next (fault_if (missing \<noteq> []) path (Missing_Required missing))
                  (fault_if (map_of kvs ''additionalProperties'' = Some (JBool False) \<and> extra \<noteq> []) path
                    (Unexpected_Properties extra))))"

function validate_capability_arguments ::
  "(string \<Rightarrow> string \<Rightarrow> bool option) \<Rightarrow> json \<Rightarrow> json \<Rightarrow> string \<Rightarrow> arg_result" where
  "validate_capability_arguments search schema v path =
     (case schema of
        JObj kvs \<Rightarrow>
          or_next (value_type_check kvs v path)
          (or_next (value_const_check kvs v path)
          (or_next (value_enum_check kvs v path)
          (if present kvs ''type'' = Some (JStr ''object'') then
             (case v of
                JObj vs \<Rightarrow>
                  or_next (object_keys_check kvs vs path)
                    (first_fault (\<lambda>nc. case map_of vs (fst nc) of
                        None \<Rightarrow> Inr None
                      | Some w \<Rightarrow> validate_capability_arguments search (snd nc) w (path @ ''.'' @ fst nc))
                      (properties_of kvs))
              | _ \<Rightarrow> Inl Malformed_Schema)
           else if present kvs ''type'' = Some (JStr ''array'') then
             (case v of
                JArr vs \<Rightarrow>
                  or_next (length_check kvs ''minItems'' ''maxItems'' Too_Few_Items Too_Many_Items (length vs) path)
                    (case present kvs ''items'' of
                       None \<Rightarrow> Inr None
                     | Some child \<Rightarrow>
                         first_fault (\<lambda>iw. validate_capability_arguments search child (snd iw)
                             (path @ ''['' @ int_text (int (fst iw)) @ '']''))
                           (List.enumerate 0 vs))
              | _ \<Rightarrow> Inl Malformed_Schema)
           else if present kvs ''type'' = Some (JStr ''string'') then
             (case v of
                JStr s \<Rightarrow>
                  or_next (length_check kvs ''minLength'' ''maxLength'' Too_Short Too_Long (length s) path)
                    (pattern_check search kvs s path)
              | _ \<Rightarrow> Inl Malformed_Schema)
           else if present kvs ''type'' \<in> {Some (JStr ''integer''), Some (JStr ''number'')} then
             (case json_number v of None \<Rightarrow> Inl Malformed_Schema | Some x \<Rightarrow> number_check kvs x path)
           else Inr None)))
      | _ \<Rightarrow> Inl Malformed_Schema)"
  by pat_completeness auto
termination
  by (relation "measure (\<lambda>(search, schema, v, path). size schema)")
    (auto dest: property_smaller present_smaller)

declare validate_capability_arguments.simps [simp del]

subsection \<open>What a declaration means\<close>

text \<open>
  A value conforms to a schema when every keyword of the schema holds of it; the order of the checks and the path play no
  part. The types are JSON's: a boolean is no number, and an integer is one. A bound that is not a number is no bound; a
  boolean bound counts as 0 or 1.
\<close>

fun of_type :: "string \<Rightarrow> json \<Rightarrow> bool" where
  "of_type t (JObj kvs) = (t = ''object'')"
| "of_type t (JArr vs) = (t = ''array'')"
| "of_type t (JStr s) = (t = ''string'')"
| "of_type t (JInt n) = (t = ''integer'' \<or> t = ''number'')"
| "of_type t (JFloat x) = (t = ''number'')"
| "of_type t (JBool b) = (t = ''boolean'')"
| "of_type t JNull = (t = ''null'')"

definition within_bounds :: "json_object \<Rightarrow> string \<Rightarrow> string \<Rightarrow> nat \<Rightarrow> bool" where
  "within_bounds kvs low high n \<longleftrightarrow>
     (case map_of kvs low of Some (JInt m) \<Rightarrow> m \<le> int n | Some (JBool b) \<Rightarrow> of_bool b \<le> n | _ \<Rightarrow> True)
     \<and> (case map_of kvs high of Some (JInt m) \<Rightarrow> int n \<le> m | Some (JBool b) \<Rightarrow> n \<le> of_bool b | _ \<Rightarrow> True)"

definition no_bound_or :: "json_object \<Rightarrow> string \<Rightarrow> (pyfloat \<Rightarrow> bool) \<Rightarrow> bool" where
  "no_bound_or kvs k holds \<longleftrightarrow>
     (case map_of kvs k of
        Some (JInt m) \<Rightarrow> holds (Fin (of_int m)) | Some (JFloat m) \<Rightarrow> holds m | Some (JBool b) \<Rightarrow> holds (Fin (of_bool b))
      | _ \<Rightarrow> True)"

definition number_within :: "json_object \<Rightarrow> pyfloat \<Rightarrow> bool" where
  "number_within kvs x \<longleftrightarrow>
     no_bound_or kvs ''minimum'' (\<lambda>m. \<not> float_less x m) \<and> no_bound_or kvs ''maximum'' (\<lambda>m. \<not> float_less m x)
     \<and> no_bound_or kvs ''exclusiveMinimum'' (\<lambda>m. \<not> float_le x m)
     \<and> no_bound_or kvs ''exclusiveMaximum'' (\<lambda>m. \<not> float_le m x)"

definition has_type :: "json_object \<Rightarrow> json \<Rightarrow> bool" where
  "has_type kvs v =
     (case map_of kvs ''type'' of Some (JStr t) \<Rightarrow> of_type t v | Some JNull \<Rightarrow> True | None \<Rightarrow> True | Some _ \<Rightarrow> False)"

definition has_constant :: "json_object \<Rightarrow> json \<Rightarrow> bool" where
  "has_constant kvs v = (case map_of kvs ''const'' of None \<Rightarrow> True | Some c \<Rightarrow> py_eq v c)"

definition in_enum :: "json_object \<Rightarrow> json \<Rightarrow> bool" where
  "in_enum kvs v = (case map_of kvs ''enum'' of None \<Rightarrow> True | Some e \<Rightarrow> is_array (list_ex (py_eq v)) e)"

definition pattern_found :: "(string \<Rightarrow> string \<Rightarrow> bool option) \<Rightarrow> json_object \<Rightarrow> string \<Rightarrow> bool" where
  "pattern_found search kvs s =
     (case map_of kvs ''pattern'' of Some (JStr p) \<Rightarrow> search p s = Some True | _ \<Rightarrow> True)"

definition keys_fit :: "json_object \<Rightarrow> json_object \<Rightarrow> bool" where
  "keys_fit kvs vs \<longleftrightarrow>
     (case map_of kvs ''required'' of Some (JArr ns) \<Rightarrow> set ns \<subseteq> JStr ` fst ` set vs | _ \<Rightarrow> True)
     \<and> (if map_of kvs ''additionalProperties'' = Some (JBool False)
         then fst ` set vs \<subseteq> fst ` set (properties_of kvs) else True)"

function conforms :: "(string \<Rightarrow> string \<Rightarrow> bool option) \<Rightarrow> json \<Rightarrow> json \<Rightarrow> bool" where
  "conforms search schema v =
     (case schema of
        JObj kvs \<Rightarrow>
          has_type kvs v \<and> has_constant kvs v \<and> in_enum kvs v
          \<and> (if present kvs ''type'' = Some (JStr ''object'') then
                (case v of
                   JObj vs \<Rightarrow> keys_fit kvs vs
                     \<and> list_all (\<lambda>nc. case map_of vs (fst nc) of None \<Rightarrow> True | Some w \<Rightarrow> conforms search (snd nc) w)
                         (properties_of kvs)
                 | _ \<Rightarrow> False)
              else if present kvs ''type'' = Some (JStr ''array'') then
                (case v of
                   JArr vs \<Rightarrow> within_bounds kvs ''minItems'' ''maxItems'' (length vs)
                     \<and> (case present kvs ''items'' of None \<Rightarrow> True | Some child \<Rightarrow> list_all (conforms search child) vs)
                 | _ \<Rightarrow> False)
              else if present kvs ''type'' = Some (JStr ''string'') then
                (case v of
                   JStr s \<Rightarrow> within_bounds kvs ''minLength'' ''maxLength'' (length s) \<and> pattern_found search kvs s
                 | _ \<Rightarrow> False)
              else if present kvs ''type'' \<in> {Some (JStr ''integer''), Some (JStr ''number'')} then
                (case json_number v of None \<Rightarrow> False | Some x \<Rightarrow> number_within kvs x)
              else True)
      | _ \<Rightarrow> False)"
  by pat_completeness auto
termination
  by (relation "measure (\<lambda>(search, schema, v). size schema)")
    (auto dest: property_smaller present_smaller)

declare conforms.simps [simp del]

subsection \<open>Lemmas\<close>

text \<open>A run that decides \<open>b\<close>: it does not crash, and it finds nothing exactly when \<open>b\<close> holds.\<close>

definition decides :: "arg_result \<Rightarrow> bool \<Rightarrow> bool" where
  "decides m b \<longleftrightarrow> (\<exists>r. m = Inr r) \<and> (m = Inr None \<longleftrightarrow> b)"

named_theorems decides_intros \<open>what the checks decide\<close>

lemma decides_none [decides_intros]: "decides (Inr None) True"
  by (simp add: decides_def)

lemma decides_fault_if [decides_intros]: "decides (fault_if c path e) (\<not> c)"
  by (simp add: decides_def fault_if_def)

lemma decides_or_next [decides_intros]: "decides m a \<Longrightarrow> (a \<Longrightarrow> decides n b) \<Longrightarrow> decides (or_next m n) (a \<and> b)"
  by (auto simp: decides_def or_next_def split: sum.splits option.splits)

lemma or_next_none [simp]: "or_next m (Inr None) = m"
  by (auto simp: or_next_def split: sum.splits option.splits)

lemma decides_first_fault [decides_intros]:
  "(\<And>x. x \<in> set xs \<Longrightarrow> decides (f x) (p x)) \<Longrightarrow> decides (first_fault f xs) (list_all p xs)"
  by (induction xs) (auto intro: decides_none decides_or_next)

lemma decides_eq: "decides m a \<Longrightarrow> a = b \<Longrightarrow> decides m b"
  by simp

lemma decides_length_check [decides_intros]:
  "decides (length_check kvs low high f g n path) (within_bounds kvs low high n)"
proof -
  have "decides (case int_bound (map_of kvs low) of None \<Rightarrow> Inr None | Some m \<Rightarrow> fault_if (int n < m) path (f m))
      (case map_of kvs low of Some (JInt m) \<Rightarrow> m \<le> int n | Some (JBool b) \<Rightarrow> of_bool b \<le> n | _ \<Rightarrow> True)"
    by (auto simp: decides_def fault_if_def not_less split: option.split json.split)
  moreover have "decides (case int_bound (map_of kvs high) of None \<Rightarrow> Inr None | Some m \<Rightarrow> fault_if (int n > m) path (g m))
      (case map_of kvs high of Some (JInt m) \<Rightarrow> int n \<le> m | Some (JBool b) \<Rightarrow> n \<le> of_bool b | _ \<Rightarrow> True)"
    by (auto simp: decides_def fault_if_def not_less split: option.split json.split)
  ultimately show ?thesis
    unfolding length_check_def within_bounds_def by (intro decides_or_next)
qed

lemma decides_bound_check:
  "decides (bound_check kvs k out e path) (no_bound_or kvs k (\<lambda>m. \<not> out m))"
  by (auto simp: decides_def bound_check_def number_bound_def no_bound_or_def fault_if_def split: option.split json.split)

lemma decides_number_check [decides_intros]: "decides (number_check kvs x path) (number_within kvs x)"
  unfolding number_check_def number_within_def by (intro decides_or_next decides_bound_check)

lemma decides_const [decides_intros]: "decides (value_const_check kvs v path) (has_constant kvs v)"
  by (auto simp: decides_def value_const_check_def has_constant_def fault_if_def split: option.split)

lemma decides_enum:
  "check_enum kvs p = Inr () \<Longrightarrow> map_of kvs ''enum'' \<noteq> Some JNull \<Longrightarrow>
     decides (value_enum_check kvs v path) (in_enum kvs v)"
  by (auto simp: decides_def check_enum_def value_enum_check_def in_enum_def fault_if_def present_def guard_simps
      split: option.splits json.splits)

lemma known_type_decided: "t \<in> set json_types \<Longrightarrow> matches_json_type v t = Some (of_type t v)"
  by (cases v) (auto simp: json_types_def)

lemma decides_type:
  assumes "check_type kvs p = Inr ()"
  shows "decides (value_type_check kvs v path) (has_type kvs v)"
proof (cases "present kvs ''type''")
  case None
  then show ?thesis
    by (auto simp: value_type_check_def has_type_def decides_def present_def split: option.splits json.splits if_splits)
next
  case (Some t)
  then obtain n where n: "t = JStr n" "n \<in> set json_types"
    using assms by (cases t) (auto simp: check_type_def guard_simps)
  then have "map_of kvs ''type'' = Some (JStr n)"
    using Some by (auto simp: present_def split: option.splits if_splits json.splits)
  then show ?thesis
    using Some n known_type_decided [OF n(2)] by (simp add: value_type_check_def has_type_def decides_def fault_if_def)
qed

lemma decides_pattern:
  "(\<And>p. map_of kvs ''pattern'' = Some (JStr p) \<Longrightarrow> search p s \<noteq> None) \<Longrightarrow>
     decides (pattern_check search kvs s path) (pattern_found search kvs s)"
  by (auto simp: pattern_check_def pattern_found_def decides_def fault_if_def split: option.splits json.splits)

lemma required_shape: "check_required kvs p = Inr () \<Longrightarrow> \<exists>names. required_names kvs = Some names"
  by (auto simp: check_required_def required_names_def guard_simps split: option.splits json.splits)

lemma properties_shape: "check_properties kvs p = Inr () \<Longrightarrow> properties_shape_ok kvs"
  by (auto simp: check_properties_def properties_shape_ok_def guard_simps split: option.splits json.splits)

lemma required_meaning:
  "required_names kvs = Some names \<Longrightarrow>
     (case map_of kvs ''required'' of Some (JArr ns) \<Rightarrow> set ns \<subseteq> JStr ` fst ` set vs | _ \<Rightarrow> True) \<longleftrightarrow> set names \<subseteq> fst ` set vs"
proof -
  have texts: "texts_of ns = Some names \<Longrightarrow> ns = map JStr names" for ns
  proof (induction ns arbitrary: names)
    case (Cons j ns)
    then show ?case by (cases j) auto
  qed simp
  assume names: "required_names kvs = Some names"
  have sub: "JStr ` A \<subseteq> JStr ` B \<longleftrightarrow> A \<subseteq> B" for A B by (rule inj_image_subset_iff) (simp add: inj_def)
  consider "map_of kvs ''required'' = None" "names = []" | "map_of kvs ''required'' = Some JNull" "names = []"
    | "map_of kvs ''required'' = Some (JArr (map JStr names))"
    using names texts by (auto simp: required_names_def present_def split: option.splits json.splits)
  then show ?thesis
    by cases (simp_all add: sub del: image_subset_iff)
qed

lemma decides_keys:
  assumes "check_properties kvs p = Inr ()" "check_required kvs p = Inr ()"
  shows "decides (object_keys_check kvs vs path) (keys_fit kvs vs)"
proof -
  obtain names where names: "required_names kvs = Some names" using required_shape [OF assms(2)] by blast
  moreover have "properties_shape_ok kvs" using properties_shape [OF assms(1)] .
  ultimately have check: "object_keys_check kvs vs path =
      (let missing = filter (\<lambda>n. n \<notin> fst ` set vs) names;
           extra = sort (filter (\<lambda>n. n \<notin> fst ` set (properties_of kvs)) (map fst vs))
       in or_next (fault_if (missing \<noteq> []) path (Missing_Required missing))
            (fault_if (map_of kvs ''additionalProperties'' = Some (JBool False) \<and> extra \<noteq> []) path
              (Unexpected_Properties extra)))"
    by (simp add: object_keys_check_def)
  have fit: "keys_fit kvs vs \<longleftrightarrow> set names \<subseteq> fst ` set vs
      \<and> (if map_of kvs ''additionalProperties'' = Some (JBool False)
          then fst ` set vs \<subseteq> fst ` set (properties_of kvs) else True)"
    unfolding keys_fit_def required_meaning [OF names] ..
  have "sort xs = [] \<longleftrightarrow> xs = []" for xs :: "string list" by (metis set_empty set_sort)
  then show ?thesis
    unfolding check fit Let_def by (intro decides_or_next) (auto simp: decides_def fault_if_def filter_empty_conv)
qed

text \<open>A schema without a null enum whose patterns compile, at every node.\<close>

function usable :: "(string \<Rightarrow> string \<Rightarrow> bool option) \<Rightarrow> json \<Rightarrow> bool" where
  "usable search schema =
     (case schema of
        JObj kvs \<Rightarrow>
          map_of kvs ''enum'' \<noteq> Some JNull
          \<and> (case map_of kvs ''pattern'' of Some (JStr p) \<Rightarrow> (\<forall>s. search p s \<noteq> None) | _ \<Rightarrow> True)
          \<and> list_all (\<lambda>nc. usable search (snd nc)) (properties_of kvs)
          \<and> (case present kvs ''items'' of None \<Rightarrow> True | Some child \<Rightarrow> usable search child)
      | _ \<Rightarrow> False)"
  by pat_completeness auto
termination
  by (relation "measure (\<lambda>(search, schema). size schema)")
    (auto dest: property_smaller present_smaller)

declare usable.simps [simp del]

text \<open>What an accepted node gives its parts.\<close>

lemma accepted_node:
  assumes "validate_schema_node (JObj kvs) p d = Inr ()"
  shows "d \<le> max_schema_depth \<and> only_keys schema_keys kvs
    \<and> check_type kvs p = Inr () \<and> check_enum kvs p = Inr () \<and> check_properties kvs p = Inr () \<and> check_required kvs p = Inr ()
    \<and> (\<forall>nc \<in> set (properties_of kvs). validate_schema_node (snd nc) (p @ ''.properties.'' @ fst nc) (d + 1) = Inr ())
    \<and> (\<forall>child. present kvs ''items'' = Some child \<longrightarrow>
          present kvs ''type'' = Some (JStr ''array'') \<and> validate_schema_node child (p @ ''.items'') (d + 1) = Inr ())"
  using assms
  by (subst (asm) validate_schema_node.simps)
    (auto simp: guard_simps not_less check_keywords_def simp del: append.simps split: option.splits)

lemma accepted_is_object: "validate_schema_node schema p d = Inr () \<Longrightarrow> \<exists>kvs. schema = JObj kvs"
  by (subst (asm) validate_schema_node.simps) (auto split: json.splits)

lemma type_decides_shape:
  "has_type kvs v \<Longrightarrow> present kvs ''type'' = Some (JStr ''object'') \<Longrightarrow> \<exists>vs. v = JObj vs"
  "has_type kvs v \<Longrightarrow> present kvs ''type'' = Some (JStr ''array'') \<Longrightarrow> \<exists>vs. v = JArr vs"
  "has_type kvs v \<Longrightarrow> present kvs ''type'' = Some (JStr ''string'') \<Longrightarrow> \<exists>s. v = JStr s"
  "has_type kvs v \<Longrightarrow> present kvs ''type'' \<in> {Some (JStr ''integer''), Some (JStr ''number'')} \<Longrightarrow> \<exists>x. json_number v = Some x"
  by (cases v; auto simp: has_type_def present_def split: option.splits json.splits if_splits)+

lemma usable_parts:
  assumes "usable search (JObj kvs)"
  shows "map_of kvs ''enum'' \<noteq> Some JNull"
    and "map_of kvs ''pattern'' = Some (JStr p) \<Longrightarrow> search p s \<noteq> None"
    and "nc \<in> set (properties_of kvs) \<Longrightarrow> usable search (snd nc)"
    and "present kvs ''items'' = Some child \<Longrightarrow> usable search child"
  using assms by (subst (asm) usable.simps, auto simp: list_all_iff)+

lemma validation_decides:
  "validate_schema_node schema p d = Inr () \<Longrightarrow> usable search schema \<Longrightarrow>
     decides (validate_capability_arguments search schema v path) (conforms search schema v)"
proof (induction schema arbitrary: v path p d rule: measure_induct_rule [where f = size])
  case (less schema)
  obtain kvs where kvs: "schema = JObj kvs" using accepted_is_object [OF less.prems(1)] by blast
  note node = accepted_node [OF less.prems(1) [unfolded kvs]] and parts = usable_parts [OF less.prems(2) [unfolded kvs]]
  have property: "decides (validate_capability_arguments search (snd nc) w q) (conforms search (snd nc) w)"
    if "nc \<in> set (properties_of kvs)" for nc w q
    using less.IH [of "snd nc"] property_smaller [of "fst nc" "snd nc" kvs] node parts that by (auto simp: kvs)
  have item: "decides (validate_capability_arguments search child w q) (conforms search child w)"
    if "present kvs ''items'' = Some child" for child w q
    using less.IH [of child] present_smaller [OF that] node parts that by (auto simp: kvs)
  let ?object = "present kvs ''type'' = Some (JStr ''object'')"
  let ?array = "present kvs ''type'' = Some (JStr ''array'')"
  let ?string = "present kvs ''type'' = Some (JStr ''string'')"
  let ?number = "present kvs ''type'' \<in> {Some (JStr ''integer''), Some (JStr ''number'')}"
  note unfold = validate_capability_arguments.simps [of search "JObj kvs"] conforms.simps [of search "JObj kvs"]
  have common: "decides (value_type_check kvs w path) (has_type kvs w)"
    "decides (value_const_check kvs w path) (has_constant kvs w)"
    "decides (value_enum_check kvs w path) (in_enum kvs w)" for w
    using node parts by (auto intro: decides_type decides_const decides_enum)
  consider (object) "?object" | (array) "?array" | (string) "?string" | (number) "?number"
    | (other) "\<not> ?object" "\<not> ?array" "\<not> ?string" "\<not> ?number" by blast
  then show ?case
  proof cases
    case object
    have "decides (case map_of vs (fst nc) of None \<Rightarrow> Inr None
          | Some w \<Rightarrow> validate_capability_arguments search (snd nc) w (path @ ''.'' @ fst nc))
        (case map_of vs (fst nc) of None \<Rightarrow> True | Some w \<Rightarrow> conforms search (snd nc) w)"
      if "nc \<in> set (properties_of kvs)" for nc vs
      using property [OF that] by (auto simp: decides_none split: option.split)
    moreover have "decides (object_keys_check kvs vs path) (keys_fit kvs vs)" for vs
      using node by (auto intro: decides_keys)
    ultimately show ?thesis
      unfolding kvs unfold using object
      by (auto intro!: decides_or_next common decides_first_fault dest!: type_decides_shape(1))
  next
    case array
    have "decides (case present kvs ''items'' of None \<Rightarrow> Inr None
          | Some child \<Rightarrow> first_fault (\<lambda>iw. validate_capability_arguments search child (snd iw)
               (path @ ''['' @ int_text (int (fst iw)) @ '']'')) (List.enumerate 0 vs))
        (case present kvs ''items'' of None \<Rightarrow> True | Some child \<Rightarrow> list_all (conforms search child) vs)" for vs
    proof (cases "present kvs ''items''")
      case (Some child)
      have "decides (first_fault (\<lambda>iw. validate_capability_arguments search child (snd iw)
               (path @ ''['' @ int_text (int (fst iw)) @ '']'')) (List.enumerate 0 vs))
          (list_all (\<lambda>iw. conforms search child (snd iw)) (List.enumerate 0 vs))"
        using item [OF Some] by (intro decides_first_fault)
      moreover have "list_all (\<lambda>iw. conforms search child (snd iw)) (List.enumerate 0 vs) = list_all (conforms search child) vs"
        by (metis (mono_tags) list.pred_map map_snd_enumerate list.pred_cong comp_apply)
      ultimately show ?thesis using Some by simp
    qed (simp add: decides_none)
    then show ?thesis
      unfolding kvs unfold using array
      by (auto intro!: decides_or_next common decides_length_check dest!: type_decides_shape(2))
  next
    case string
    have "decides (pattern_check search kvs t path) (pattern_found search kvs t)" for t
      using parts by (intro decides_pattern) auto
    then show ?thesis
      unfolding kvs unfold using string
      by (auto intro!: decides_or_next common decides_length_check dest!: type_decides_shape(3))
  next
    case number
    then show ?thesis
      unfolding kvs unfold
      by (auto intro!: decides_or_next common decides_number_check dest!: type_decides_shape(4))
  next
    case other
    then show ?thesis
      unfolding kvs unfold by (auto intro!: decides_or_next common decides_none)
  qed
qed

text \<open>How deeply the nodes of a schema are nested.\<close>

fun deepest :: "('a \<Rightarrow> nat) \<Rightarrow> 'a list \<Rightarrow> nat" where
  "deepest f [] = 0"
| "deepest f (x # xs) = max (Suc (f x)) (deepest f xs)"

lemma deepest_cong [fundef_cong]: "xs = ys \<Longrightarrow> (\<And>x. x \<in> set ys \<Longrightarrow> f x = g x) \<Longrightarrow> deepest f xs = deepest g ys"
  by (induction xs arbitrary: ys) auto

lemma deepest_le: "deepest f xs \<le> n \<longleftrightarrow> (\<forall>x \<in> set xs. Suc (f x) \<le> n)"
  by (induction xs) auto

function schema_depth :: "json \<Rightarrow> nat" where
  "schema_depth schema =
     (case schema of
        JObj kvs \<Rightarrow> max (deepest (\<lambda>nc. schema_depth (snd nc)) (properties_of kvs))
          (case present kvs ''items'' of None \<Rightarrow> 0 | Some child \<Rightarrow> Suc (schema_depth child))
      | _ \<Rightarrow> 0)"
  by pat_completeness auto
termination
  by (relation "measure size") (auto dest: property_smaller present_smaller)

declare schema_depth.simps [simp del]

lemma accepted_depth: "validate_schema_node schema p d = Inr () \<Longrightarrow> d + schema_depth schema \<le> max_schema_depth"
proof (induction schema arbitrary: p d rule: measure_induct_rule [where f = size])
  case (less schema)
  obtain kvs where kvs: "schema = JObj kvs" using accepted_is_object [OF less.prems] by blast
  note node = accepted_node [OF less.prems [unfolded kvs]]
  have "Suc (schema_depth (snd nc)) \<le> max_schema_depth - d" if "nc \<in> set (properties_of kvs)" for nc
    using less.IH [of "snd nc"] property_smaller [of "fst nc" "snd nc" kvs] node that by (fastforce simp: kvs)
  moreover have "Suc (schema_depth child) \<le> max_schema_depth - d" if "present kvs ''items'' = Some child" for child
    using less.IH [of child] present_smaller [OF that] node that by (fastforce simp: kvs)
  ultimately have "schema_depth schema \<le> max_schema_depth - d"
    by (subst schema_depth.simps) (auto simp: kvs deepest_le split: option.split)
  then show ?case using node [THEN conjunct1] by linarith
qed

subsection \<open>Properties\<close>

text \<open>
  C14. Validation of a value decides what the declaration means. Take a schema that the declaration check accepts, in
  which no node has a null \<open>enum\<close> and every \<open>pattern\<close> compiles (the check asks for neither, and without them validation can
  raise). Then validation of any value returns, at every nesting level, and it returns no error exactly when the value
  conforms to the schema, keyword by keyword.
\<close>

theorem argument_validation_exact:
  assumes "validate_schema ft schema field require_object = Inr ()" and "usable search schema"
  shows "(\<exists>r. validate_capability_arguments search schema v path = Inr r)
    \<and> (validate_capability_arguments search schema v path = Inr None \<longleftrightarrow> conforms search schema v)"
proof -
  have "validate_schema_node schema field 0 = Inr ()"
    using assms(1) by (auto simp: validate_schema_def guard_simps)
  from validation_decides [OF this assms(2)] show ?thesis by (simp add: decides_def)
qed

definition sample_schema :: json where
  "sample_schema =
     JObj [(''type'', JStr ''object''),
           (''properties'', JObj [(''level'', JObj [(''type'', JStr ''integer''), (''maximum'', JInt 9)])]),
           (''required'', JArr [JStr ''level''])]"

lemmas schema_check_defs =
  check_keywords_def check_type_def check_description_def check_enum_def check_properties_def check_required_def
  check_additional_def present_def properties_of_def only_keys_def schema_keys_def json_types_def
  max_schema_depth_def max_schema_properties_def len_between_def guarded_simps

lemma sample_schema_accepted: "validate_schema ft sample_schema ''s'' True = Inr ()"
proof -
  have "length (utf8 (json_text ft sample_schema)) \<le> max_schema_bytes"
    by (simp add: sample_schema_def string_text_def escape_char_def utf8_def utf8_char_def int_text_def digits.simps
        max_schema_bytes_def Let_def)
  then show ?thesis
    by (simp add: validate_schema_def sample_schema_def validate_schema_node.simps schema_check_defs)
qed

lemma sample_schema_usable: "usable search sample_schema"
  by (simp add: sample_schema_def usable.simps properties_of_def present_def)

lemma argument_validation_exact_witness:
  "validate_capability_arguments (\<lambda>p s. None) sample_schema (JObj [(''level'', JInt 3)]) ''$'' = Inr None
   \<longleftrightarrow> conforms (\<lambda>p s. None) sample_schema (JObj [(''level'', JInt 3)])"
  using argument_validation_exact [OF sample_schema_accepted sample_schema_usable] by blast

text \<open>
  The recursion over an accepted schema is bounded: its nodes are nested at most eight deep, however
  large the schema is.
\<close>

theorem accepted_schema_depth:
  assumes "validate_schema ft schema field require_object = Inr ()"
  shows "schema_depth schema \<le> 8"
proof -
  have "validate_schema_node schema field 0 = Inr ()"
    using assms by (auto simp: validate_schema_def guard_simps)
  from accepted_depth [OF this] show ?thesis by (simp add: max_schema_depth_def)
qed

lemma accepted_schema_depth_witness: "schema_depth sample_schema \<le> 8"
  by (rule accepted_schema_depth [OF sample_schema_accepted])

text \<open>
  A null enum is accepted in a declaration, and then every value of the declared type makes the
  validation raise TypeError instead of returning an error.
\<close>

theorem null_enum_crashes:
  "validate_schema ft (JObj [(''type'', JStr ''object''), (''enum'', JNull)]) field True = Inr ()
   \<and> validate_capability_arguments search (JObj [(''type'', JStr ''object''), (''enum'', JNull)]) (JObj vs) path
     = Inl Enum_Is_Null"
proof -
  have "length (utf8 (json_text ft (JObj [(''type'', JStr ''object''), (''enum'', JNull)]))) \<le> max_schema_bytes"
    by (simp add: string_text_def escape_char_def utf8_def utf8_char_def max_schema_bytes_def Let_def)
  then show ?thesis
    by (simp add: validate_schema_def validate_schema_node.simps validate_capability_arguments.simps schema_check_defs
        or_next_def value_type_check_def value_const_check_def value_enum_check_def fault_if_def)
qed

end
