(* ===== verification/Blackboard.thy ===== *)
theory Blackboard
  imports Capability_Schema Sha256
begin

text \<open>
  The Owner's device blackboard of \<open>biz/body/blackboard.py\<close>: the key of a snapshot, device entries,
  the snapshot and who sees which device when. \<open>now\<close> is an aware datetime; a stored time may be naive,
  and comparing the two is a TypeError. JSON parsing and canonical JSON of a manifest are parameters.
\<close>

definition owner_device_blackboard_key :: "string \<Rightarrow> string + string" where
  "owner_device_blackboard_key owner_id =
     (let normalized = strip owner_id
      in guarded [(normalized = [], ''owner_id is required'')]
           (''owner.'' @ sha256_hex (utf8 normalized) @ ''.current''))"

definition capability_manifest_revision :: "(capability list \<Rightarrow> byte list) \<Rightarrow> capability list \<Rightarrow> string" where
  "capability_manifest_revision canonical manifest = ''sha256:'' @ sha256_hex (canonical manifest)"

datatype visibility = Owner_Visible | Bound_Companion
datatype device_status = Registered_Waiting_Transport | Online

record runtime_device_entry =
  de_device_id :: string
  de_registration_id :: string
  de_provider_companion_id :: "string option"
  de_provider_companion_name :: string
  de_name :: string
  de_aliases :: "string list"
  de_visibility :: visibility
  de_capabilities :: "capability list"
  de_manifest_revision :: string
  de_status :: device_status
  de_registered_at :: datetime
  de_lease_expires_at :: datetime
  de_last_seen_at :: "datetime option"
  de_room_name :: string
  de_participant_sid :: string
  de_presence_revision :: string

definition device_entry_fields :: "(rat \<Rightarrow> string) \<Rightarrow> runtime_device_entry \<Rightarrow> (string \<times> bool) list" where
  "device_entry_fields ft e =
     [(''device_id'', len_between 1 128 (de_device_id e)),
      (''registration_id'', len_between 1 128 (de_registration_id e)),
      (''provider_companion_id'', opt_ok (len_between 0 128) (de_provider_companion_id e)),
      (''provider_companion_name'', len_between 0 128 (de_provider_companion_name e)),
      (''name'', len_between 0 128 (de_name e)),
      (''aliases'', len_between 0 32 (de_aliases e)),
      (''capabilities'', list_all (wf_capability ft) (de_capabilities e)),
      (''manifest_revision'', len_between 1 128 (de_manifest_revision e)),
      (''room_name'', len_between 0 256 (de_room_name e)),
      (''participant_sid'', len_between 0 128 (de_participant_sid e)),
      (''presence_revision'', len_between 0 128 (de_presence_revision e))]"

definition make_device_entry :: "(rat \<Rightarrow> string) \<Rightarrow> runtime_device_entry \<Rightarrow> string invalid + runtime_device_entry" where
  "make_device_entry ft e = build (device_entry_fields ft e) [] e"

definition wf_device_entry :: "(rat \<Rightarrow> string) \<Rightarrow> runtime_device_entry \<Rightarrow> bool" where
  "wf_device_entry ft e \<longleftrightarrow> admissible (device_entry_fields ft e) no_rules"

interpretation device_entry_class: model_class "make_device_entry ft" "wf_device_entry ft" for ft
  by (rule build_class; simp add: make_device_entry_def wf_device_entry_def)

text \<open>The lookup of a capability, by name or by name and exact version.\<close>

definition entry_capability :: "runtime_device_entry \<Rightarrow> string \<Rightarrow> int option \<Rightarrow> capability option" where
  "entry_capability e name version =
     find (\<lambda>c. cap_name c = name \<and> (version = None \<or> Some (cap_version c) = version)) (de_capabilities e)"

text \<open>\<open>None\<close> is the TypeError of comparing a naive with an aware datetime.\<close>

definition later_than :: "datetime \<Rightarrow> int \<Rightarrow> bool option" where
  "later_than t now = (case t of Naive n \<Rightarrow> None | Aware n \<Rightarrow> Some (now < n))"

definition is_online :: "runtime_device_entry \<Rightarrow> int \<Rightarrow> bool option" where
  "is_online e now = (if de_status e = Online then later_than (de_lease_expires_at e) now else Some False)"

record blackboard_snapshot =
  bs_owner_id :: string
  bs_epoch :: string
  bs_revision :: int
  bs_ready :: bool
  bs_hub_lease_expires_at :: datetime
  bs_updated_at :: datetime
  bs_devices :: "(string \<times> runtime_device_entry) list"

definition snapshot_fields :: "(rat \<Rightarrow> string) \<Rightarrow> blackboard_snapshot \<Rightarrow> (string \<times> bool) list" where
  "snapshot_fields ft s =
     [(''owner_id'', len_between 1 64 (bs_owner_id s)), (''epoch'', len_between 1 128 (bs_epoch s)),
      (''revision'', 1 \<le> bs_revision s),
      (''devices'', list_all (\<lambda>(k, e). wf_device_entry ft e) (bs_devices s) \<and> distinct (map fst (bs_devices s)))]"

definition device_keys_match :: "blackboard_snapshot \<Rightarrow> string + unit" where
  "device_keys_match s =
     each (\<lambda>(k, e). guarded [(k \<noteq> de_device_id e, ''device map key must match entry.device_id'')] ()) (bs_devices s)"

definition make_snapshot :: "(rat \<Rightarrow> string) \<Rightarrow> blackboard_snapshot \<Rightarrow> string invalid + blackboard_snapshot" where
  "make_snapshot ft s = build_with (snapshot_fields ft s) (device_keys_match s) s"

definition wf_snapshot :: "(rat \<Rightarrow> string) \<Rightarrow> blackboard_snapshot \<Rightarrow> bool" where
  "wf_snapshot ft s \<longleftrightarrow>
     len_between 1 64 (bs_owner_id s) \<and> len_between 1 128 (bs_epoch s) \<and> 1 \<le> bs_revision s
     \<and> list_all (\<lambda>(k, e). wf_device_entry ft e \<and> k = de_device_id e) (bs_devices s)
     \<and> distinct (map fst (bs_devices s))"

interpretation snapshot_class: model_class "make_snapshot ft" "wf_snapshot ft" for ft
  by unfold_locales
    (auto simp: make_snapshot_def wf_snapshot_def snapshot_fields_def device_keys_match_def guard_simps list_all_iff)

definition is_available :: "blackboard_snapshot \<Rightarrow> int \<Rightarrow> bool option" where
  "is_available s now = (if bs_ready s then later_than (bs_hub_lease_expires_at s) now else Some False)"

text \<open>The loop over the entries, in map order; the first comparison that raises ends it.\<close>

fun collect_visible :: "string \<Rightarrow> int \<Rightarrow> runtime_device_entry list \<Rightarrow> runtime_device_entry list option" where
  "collect_visible companion now [] = Some []"
| "collect_visible companion now (e # es) =
     (case is_online e now of
        None \<Rightarrow> None
      | Some online \<Rightarrow>
          if \<not> online \<or> \<not> some_text (de_provider_companion_id e)
             \<or> (de_visibility e = Bound_Companion \<and> de_provider_companion_id e \<noteq> Some companion)
          then collect_visible companion now es
          else map_option (Cons e) (collect_visible companion now es))"

definition visible_devices :: "blackboard_snapshot \<Rightarrow> string \<Rightarrow> int \<Rightarrow> runtime_device_entry list option" where
  "visible_devices s companion now =
     (case is_available s now of
        None \<Rightarrow> None
      | Some False \<Rightarrow> Some []
      | Some True \<Rightarrow> map_option (sort_key de_device_id) (collect_visible companion now (map snd (bs_devices s))))"

text \<open>\<open>parse\<close> is \<open>model_validate_json\<close>; \<open>None\<close> is its ValidationError.\<close>

definition snapshot_from_bytes ::
  "(byte list \<Rightarrow> blackboard_snapshot option) \<Rightarrow> byte list \<Rightarrow> string option \<Rightarrow> string + blackboard_snapshot" where
  "snapshot_from_bytes parse b expected_owner_id =
     and_then (or_raise ''ValidationError'' (parse b)) (\<lambda>s.
     guarded [(case expected_owner_id of None \<Rightarrow> False | Some o' \<Rightarrow> bs_owner_id s \<noteq> o',
               ''device blackboard owner mismatch'')] s)"

subsection \<open>Lemmas\<close>

text \<open>Who may see a device, as a relation.\<close>

definition may_see :: "string \<Rightarrow> int \<Rightarrow> runtime_device_entry \<Rightarrow> bool" where
  "may_see companion now e \<longleftrightarrow>
     de_status e = Online \<and> is_aware (de_lease_expires_at e) \<and> now < instant (de_lease_expires_at e)
     \<and> (\<exists>c. de_provider_companion_id e = Some c \<and> c \<noteq> []
          \<and> (case de_visibility e of Owner_Visible \<Rightarrow> True | Bound_Companion \<Rightarrow> c = companion))"

lemma is_online_iff: "is_online e now = Some True \<longleftrightarrow>
    de_status e = Online \<and> is_aware (de_lease_expires_at e) \<and> now < instant (de_lease_expires_at e)"
  by (cases "de_lease_expires_at e") (auto simp: is_online_def later_than_def)

lemma is_online_defined: "(\<exists>b. is_online e now = Some b) \<longleftrightarrow> (if de_status e = Online then is_aware (de_lease_expires_at e) else True)"
  by (cases "de_lease_expires_at e") (auto simp: is_online_def later_than_def)

lemma collect_filter:
  "collect_visible companion now es = Some ds \<Longrightarrow> ds = filter (may_see companion now) es"
proof (induction es arbitrary: ds)
  case (Cons e es)
  obtain b where b: "is_online e now = Some b" using Cons.prems by (auto split: option.splits)
  have "may_see companion now e \<longleftrightarrow> b \<and> some_text (de_provider_companion_id e)
      \<and> \<not> (de_visibility e = Bound_Companion \<and> de_provider_companion_id e \<noteq> Some companion)"
    using b is_online_iff [of e now]
    by (cases b; cases "de_visibility e") (auto simp: may_see_def some_text_iff)
  then show ?case using Cons b by (auto split: if_splits)
qed simp

lemma collect_defined:
  "(\<exists>ds. collect_visible companion now es = Some ds) \<longleftrightarrow> list_all (\<lambda>e. \<exists>b. is_online e now = Some b) es"
  by (induction es) (auto split: option.splits)

lemma collect_undefined:
  "collect_visible companion now es = None \<longleftrightarrow> list_ex (\<lambda>e. de_status e = Online \<and> \<not> is_aware (de_lease_expires_at e)) es"
proof (induction es)
  case (Cons e es)
  then show ?case using is_online_defined [of e now]
    by (cases "is_online e now") (auto split: if_splits)
qed simp

lemma is_available_eq:
  "is_available s now =
     (if bs_ready s then if is_aware (bs_hub_lease_expires_at s) then Some (now < instant (bs_hub_lease_expires_at s)) else None
      else Some False)"
  by (cases "bs_hub_lease_expires_at s") (auto simp: is_available_def later_than_def)

lemma wf_snapshot_keys:
  "wf_snapshot ft s \<Longrightarrow> map fst (bs_devices s) = map de_device_id (map snd (bs_devices s))"
  by (auto simp: wf_snapshot_def list_all_iff)

lemma sort_key_strict:
  "distinct (map k xs) \<Longrightarrow> sorted_wrt (\<lambda>a b. (k a :: 'b :: linorder) < k b) (sort_key k xs)"
proof -
  assume "distinct (map k xs)"
  then have "distinct (map k (sort_key k xs))" by (simp add: distinct_map)
  then have "sorted_wrt (<) (map k (sort_key k xs))"
    by (simp only: strict_sorted_iff sorted_sort_key simp_thms)
  then show ?thesis by (simp only: sorted_wrt_map)
qed

subsection \<open>Properties\<close>

definition naive_and_online :: "runtime_device_entry \<Rightarrow> bool" where
  "naive_and_online e \<longleftrightarrow> de_status e = Online \<and> \<not> is_aware (de_lease_expires_at e)"

definition open_now :: "blackboard_snapshot \<Rightarrow> int \<Rightarrow> bool" where
  "open_now s now \<longleftrightarrow> bs_ready s \<and> is_aware (bs_hub_lease_expires_at s) \<and> now < instant (bs_hub_lease_expires_at s)"

text \<open>
  C35. What a companion is shown of an accepted snapshot: the call raises exactly when a ready snapshot
  carries a naive hub lease, or an open one an online device with a naive lease (which construction
  admits); otherwise it returns, in strictly ascending device ids, exactly the entries the companion may
  see while the snapshot is open, and nothing when it is not.
\<close>

theorem visible_devices_exact:
  assumes "wf_snapshot ft s"
  shows "case visible_devices s companion now of
           None \<Rightarrow> bs_ready s \<and> (if is_aware (bs_hub_lease_expires_at s)
                     then open_now s now \<and> list_ex naive_and_online (map snd (bs_devices s)) else True)
         | Some ds \<Rightarrow> sorted_wrt (\<lambda>a b. de_device_id a < de_device_id b) ds
             \<and> set ds = {e. e \<in> snd ` set (bs_devices s) \<and> open_now s now \<and> may_see companion now e}
             \<and> (if bs_ready s then is_aware (bs_hub_lease_expires_at s) else True)
             \<and> (if open_now s now then \<not> list_ex naive_and_online (map snd (bs_devices s)) else True)"
proof (cases "is_available s now = Some True")
  case True
  then have opened: "open_now s now" "bs_ready s" "is_aware (bs_hub_lease_expires_at s)"
    by (auto simp: is_available_eq open_now_def split: if_splits)
  let ?es = "map snd (bs_devices s)"
  have d: "distinct (map de_device_id ?es)"
    using assms wf_snapshot_keys [OF assms] by (simp add: wf_snapshot_def)
  then have "distinct (map de_device_id (filter p ?es))" for p by (rule distinct_map_filter)
  then show ?thesis
    using True opened collect_undefined [of companion now ?es] collect_filter [of companion now ?es]
    by (cases "collect_visible companion now ?es")
      (auto simp: visible_devices_def naive_and_online_def [abs_def] intro!: sort_key_strict)
next
  case False
  then show ?thesis
    by (auto simp: visible_devices_def is_available_eq open_now_def split: if_splits)
qed

definition sample_entry :: "string \<Rightarrow> visibility \<Rightarrow> datetime \<Rightarrow> runtime_device_entry" where
  "sample_entry device v lease =
     \<lparr>de_device_id = device, de_registration_id = ''r'', de_provider_companion_id = Some ''c1'',
      de_provider_companion_name = [], de_name = [], de_aliases = [], de_visibility = v,
      de_capabilities = [], de_manifest_revision = ''m'', de_status = Online, de_registered_at = Aware 0,
      de_lease_expires_at = lease, de_last_seen_at = None, de_room_name = [],
      de_participant_sid = [], de_presence_revision = []\<rparr>"

definition sample_snapshot :: "datetime \<Rightarrow> blackboard_snapshot" where
  "sample_snapshot lease =
     \<lparr>bs_owner_id = ''o'', bs_epoch = ''e'', bs_revision = 1, bs_ready = True,
      bs_hub_lease_expires_at = Aware 100, bs_updated_at = Aware 0,
      bs_devices = [(''tv'', sample_entry ''tv'' Owner_Visible (Aware 50)),
                    (''lamp'', sample_entry ''lamp'' Bound_Companion lease)]\<rparr>"

lemma sample_snapshot_wf: "wf_snapshot ft (sample_snapshot lease)"
  by (simp add: wf_snapshot_def sample_snapshot_def sample_entry_def wf_device_entry_def admissible_def
      device_entry_fields_def len_between_def)

lemma sample_snapshot_parts:
  "bs_ready (sample_snapshot lease)" "is_aware (bs_hub_lease_expires_at (sample_snapshot lease))"
  "open_now (sample_snapshot lease) 10"
  "map snd (bs_devices (sample_snapshot lease)) =
     [sample_entry ''tv'' Owner_Visible (Aware 50), sample_entry ''lamp'' Bound_Companion lease]"
  "snd ` set (bs_devices (sample_snapshot lease)) =
     {sample_entry ''tv'' Owner_Visible (Aware 50), sample_entry ''lamp'' Bound_Companion lease}"
  by (simp_all add: sample_snapshot_def open_now_def)

lemma sample_entry_parts:
  "may_see ''c2'' 10 (sample_entry d Owner_Visible (Aware 50))"
  "\<not> may_see ''c2'' 10 (sample_entry d Bound_Companion lease)"
  "naive_and_online (sample_entry d v lease) \<longleftrightarrow> \<not> is_aware lease"
  by (simp_all add: sample_entry_def may_see_def naive_and_online_def)

lemma sample_snapshot_visible:
  "visible_devices (sample_snapshot (Naive 70)) ''c2'' 10 = None"
  "\<exists>ds. visible_devices (sample_snapshot (Aware 70)) ''c2'' 10 = Some ds"
  by (simp_all add: visible_devices_def is_available_eq sample_snapshot_parts is_online_def later_than_def
      sample_snapshot_def sample_entry_def some_text_def)

lemma visible_devices_exact_witness:
  "list_ex naive_and_online (map snd (bs_devices (sample_snapshot (Naive 70))))
   \<and> (\<exists>ds. visible_devices (sample_snapshot (Aware 70)) ''c2'' 10 = Some ds
        \<and> set ds = {sample_entry ''tv'' Owner_Visible (Aware 50)})"
proof -
  note exact = visible_devices_exact [OF sample_snapshot_wf, where companion = "''c2''" and now = 10]
  from exact have a: "list_ex naive_and_online (map snd (bs_devices (sample_snapshot (Naive 70))))"
    by (metis (no_types, lifting) option.case(1) sample_snapshot_parts(2) sample_snapshot_visible(1))
  obtain ds where ds: "visible_devices (sample_snapshot (Aware 70)) ''c2'' 10 = Some ds"
    using sample_snapshot_visible(2) by blast
  then have "set ds = {e. e \<in> snd ` set (bs_devices (sample_snapshot (Aware 70)))
      \<and> open_now (sample_snapshot (Aware 70)) 10 \<and> may_see ''c2'' 10 e}"
    using exact [where lease1 = "Aware 70"] by (simp only: option.case(2))
  also have "\<dots> = {sample_entry ''tv'' Owner_Visible (Aware 50)}"
    unfolding sample_snapshot_parts by (auto simp: sample_entry_parts sample_snapshot_parts(3))
  finally show ?thesis using a ds by blast
qed

end
