(* ===== verification/Http_Client.thy ===== *)
theory Http_Client
  imports Python_Values Device_Request_Auth
begin

text \<open>
  The shared HTTP client of \<open>core/http\<close>: its retry policy, the request loop and the health check.
  What httpx does with a request is a parameter: \<open>send call k\<close> is the outcome of the \<open>k\<close>-th request
  of a call. A run of the loop is its sequence of effects together with its result.
\<close>

subsection \<open>Settings, addresses and headers\<close>

record retry_policy =
  rp_attempts :: int
  rp_backoff_seconds :: rat
  rp_retry_statuses :: "int list"
  rp_retry_methods :: "string list"

definition default_retry_policy :: retry_policy where
  "default_retry_policy =
     \<lparr>rp_attempts = 1, rp_backoff_seconds = 0, rp_retry_statuses = [502, 503, 504],
      rp_retry_methods = [''GET'', ''HEAD'', ''OPTIONS'']\<rparr>"

definition should_retry_method :: "retry_policy \<Rightarrow> string \<Rightarrow> bool" where
  "should_retry_method p meth \<longleftrightarrow> upper meth \<in> set (rp_retry_methods p)"

definition normalize_base_url :: "string \<Rightarrow> string" where
  "normalize_base_url url = rev (dropWhile (\<lambda>c. c = CHR ''/'') (rev url))"

definition authorization_header :: "string \<Rightarrow> string \<Rightarrow> string + (string \<times> string) list" where
  "authorization_header token scheme =
     (let v = strip token; s = strip scheme
      in guarded [(v = [], ''authorization token is required'')]
           [(''Authorization'',
             if s \<noteq> [] \<and> \<not> starts_with (lower s @ '' '') (lower v) then s @ '' '' @ v else v)])"

record service_client =
  sc_base :: string
  sc_default_headers :: "(string \<times> string) list"
  sc_retry_policy :: retry_policy

definition make_service_client ::
  "string \<Rightarrow> (string \<times> string) list option \<Rightarrow> retry_policy option \<Rightarrow> service_client" where
  "make_service_client base_url headers policy =
     \<lparr>sc_base = normalize_base_url base_url,
      sc_default_headers = (case headers of None \<Rightarrow> [] | Some h \<Rightarrow> h),
      sc_retry_policy = (case policy of None \<Rightarrow> default_retry_policy | Some p \<Rightarrow> p)\<rparr>"

subsection \<open>The request loop\<close>

datatype wire_outcome =
    Response int string
  | Unreachable string
  | Other_Failure string

datatype http_error =
    Service_Unavailable string
  | Upstream_Error int string
  | Raised string
  | Unreachable_Retry_State

text \<open>What one call hands to httpx each time; the body and the timeout are passed through.\<close>

record 'b http_call =
  hc_method :: string
  hc_url :: string
  hc_body :: 'b
  hc_headers :: "(string \<times> string) list option"

datatype 'b http_effect = Sent "'b http_call" | Closed | Slept rat

definition response_ok :: "int list option \<Rightarrow> int \<Rightarrow> bool" where
  "response_ok ok_statuses status =
     (case ok_statuses of Some oks \<Rightarrow> status \<in> set oks | None \<Rightarrow> status < 400)"

definition sleep_before_retry :: "retry_policy \<Rightarrow> nat \<Rightarrow> 'b http_effect list" where
  "sleep_before_retry p attempt =
     (if rp_backoff_seconds p \<le> 0 then [] else [Slept (to_double (rp_backoff_seconds p * of_nat attempt))])"

text \<open>The \<open>for\<close> loop from attempt \<open>k\<close> on; past the last attempt it falls through to the final raises.\<close>

function request_loop ::
  "retry_policy \<Rightarrow> bool \<Rightarrow> int list option \<Rightarrow> 'b http_call \<Rightarrow> (nat \<Rightarrow> wire_outcome) \<Rightarrow> nat \<Rightarrow> nat
     \<Rightarrow> string option \<Rightarrow> 'b http_effect list \<times> (http_error + int \<times> string)" where
  "request_loop p can_retry oks call answer attempts k last_unreachable =
     (if attempts < k then
        ([], Inl (case last_unreachable of Some m \<Rightarrow> Service_Unavailable m | None \<Rightarrow> Unreachable_Retry_State))
      else case answer k of
        Other_Failure m \<Rightarrow> ([Sent call], Inl (Raised m))
      | Unreachable m \<Rightarrow>
          if \<not> can_retry \<or> attempts \<le> k then ([Sent call], Inl (Service_Unavailable m))
          else (let (es, r) = request_loop p can_retry oks call answer attempts (Suc k) (Some m)
                in (Sent call # sleep_before_retry p k @ es, r))
      | Response status body \<Rightarrow>
          if response_ok oks status then ([Sent call], Inr (status, body))
          else if can_retry \<and> status \<in> set (rp_retry_statuses p) \<and> k < attempts
          then (let (es, r) = request_loop p can_retry oks call answer attempts (Suc k) last_unreachable
                in (Sent call # Closed # sleep_before_retry p k @ es, r))
          else ([Sent call], Inl (Upstream_Error status body)))"
  by pat_completeness auto

termination
  by (relation "measure (\<lambda>(p, can_retry, oks, call, answer, attempts, k, last). Suc attempts - k)") auto

declare request_loop.simps [simp del]

definition call_of ::
  "service_client \<Rightarrow> string \<Rightarrow> string \<Rightarrow> 'b \<Rightarrow> (string \<times> string) list option \<Rightarrow> 'b http_call" where
  "call_of client meth path body headers =
     (let merged = dict_merge (sc_default_headers client) (case headers of None \<Rightarrow> [] | Some h \<Rightarrow> h)
      in \<lparr>hc_method = meth, hc_url = sc_base client @ path, hc_body = body,
          hc_headers = (if merged = [] then None else Some merged)\<rparr>)"

definition policy_in_force :: "service_client \<Rightarrow> retry_policy option \<Rightarrow> retry_policy" where
  "policy_in_force client policy = (case policy of None \<Rightarrow> sc_retry_policy client | Some p \<Rightarrow> p)"

definition attempts_of :: "retry_policy \<Rightarrow> nat" where
  "attempts_of p = nat (max 1 (rp_attempts p))"

definition http_request ::
  "('b http_call \<Rightarrow> nat \<Rightarrow> wire_outcome) \<Rightarrow> service_client \<Rightarrow> string \<Rightarrow> string \<Rightarrow> 'b
     \<Rightarrow> (string \<times> string) list option \<Rightarrow> int list option \<Rightarrow> retry_policy option
     \<Rightarrow> 'b http_effect list \<times> (http_error + int \<times> string)" where
  "http_request send client meth path body headers oks policy =
     (let call = call_of client meth path body headers; p = policy_in_force client policy
      in request_loop p (should_retry_method p meth) oks call (send call) (attempts_of p) 1 None)"

text \<open>Any failure that is neither of the two service errors leaves the health check as it is.\<close>

definition health_check ::
  "('b http_call \<Rightarrow> nat \<Rightarrow> wire_outcome) \<Rightarrow> service_client \<Rightarrow> string \<Rightarrow> 'b \<Rightarrow> int list \<Rightarrow> http_error + bool" where
  "health_check send client path body oks =
     (case snd (http_request send client ''GET'' path body None (Some oks) None) of
        Inr _ \<Rightarrow> Inr True
      | Inl (Service_Unavailable _) \<Rightarrow> Inr False
      | Inl (Upstream_Error _ _) \<Rightarrow> Inr False
      | Inl e \<Rightarrow> Inl e)"

subsection \<open>What a call promises\<close>

text \<open>
  The specification names the attempt that decides a call: the first one, up to the last that is
  allowed, whose outcome is not worth another try.
\<close>

definition transient :: "retry_policy \<Rightarrow> int list option \<Rightarrow> wire_outcome \<Rightarrow> bool" where
  "transient p oks out =
     (case out of Unreachable _ \<Rightarrow> True | Other_Failure _ \<Rightarrow> False
      | Response status _ \<Rightarrow> \<not> response_ok oks status \<and> status \<in> set (rp_retry_statuses p))"

definition deciding_attempt :: "retry_policy \<Rightarrow> string \<Rightarrow> int list option \<Rightarrow> (nat \<Rightarrow> wire_outcome) \<Rightarrow> nat" where
  "deciding_attempt p meth oks answer =
     (if should_retry_method p meth
      then Suc (length (takeWhile (\<lambda>k. transient p oks (answer k)) [1..<attempts_of p])) else 1)"

fun verdict :: "int list option \<Rightarrow> wire_outcome \<Rightarrow> http_error + int \<times> string" where
  "verdict oks (Response status body) =
     (if response_ok oks status then Inr (status, body) else Inl (Upstream_Error status body))"
| "verdict oks (Unreachable m) = Inl (Service_Unavailable m)"
| "verdict oks (Other_Failure m) = Inl (Raised m)"

fun retry_effects :: "retry_policy \<Rightarrow> 'b http_call \<Rightarrow> wire_outcome \<Rightarrow> nat \<Rightarrow> 'b http_effect list" where
  "retry_effects p call (Response _ _) k = Sent call # Closed # sleep_before_retry p k"
| "retry_effects p call _ k = Sent call # sleep_before_retry p k"

definition is_sent :: "'b http_effect \<Rightarrow> bool" where
  "is_sent e = (case e of Sent _ \<Rightarrow> True | _ \<Rightarrow> False)"

subsection \<open>Lemmas\<close>

lemma strip_blanks_around: "strip s = s \<longleftrightarrow> (s = [] \<or> \<not> is_space (hd s) \<and> \<not> is_space (last s))"
proof (cases s rule: rev_cases)
  case (snoc t c)
  show ?thesis
  proof (cases t)
    case Nil
    then show ?thesis using snoc by (simp add: strip_def)
  next
    case (Cons d u)
    have "strip s = s" if "\<not> is_space d" "\<not> is_space c" using that snoc Cons by (simp add: strip_def)
    moreover have "\<not> is_space d \<and> \<not> is_space c" if fixed: "strip s = s"
    proof -
      have "length (dropWhile is_space (rev (dropWhile is_space s))) = length s"
        using fixed by (metis length_rev strip_def)
      then have l: "length (dropWhile is_space s) = length s"
        using length_dropWhile_le [of is_space s] length_dropWhile_le [of is_space "rev (dropWhile is_space s)"]
        by simp
      then have d: "\<not> is_space d" using snoc Cons length_dropWhile_le [of is_space "u @ [c]"]
        by (auto split: if_splits)
      then have "rev (dropWhile is_space (rev s)) = s" using fixed snoc Cons by (simp add: strip_def)
      then have "length (dropWhile is_space (rev s)) = length s" by (metis length_rev)
      then have "\<not> is_space c" using snoc length_dropWhile_le [of is_space "rev t"]
        by (auto split: if_splits)
      with d show ?thesis by simp
    qed
    ultimately show ?thesis using snoc Cons by auto
  qed
qed simp

text \<open>A header that carries its scheme is left alone.\<close>

lemma authorization_header_stable:
  "authorization_header token scheme = Inr [(k, v)] \<Longrightarrow> authorization_header v scheme = Inr [(k, v)]"
proof -
  assume first: "authorization_header token scheme = Inr [(k, v)]"
  let ?t = "strip token" and ?s = "strip scheme"
  have t: "?t \<noteq> []" "\<not> is_space (hd ?t)" "\<not> is_space (last ?t)"
    and s: "?s = [] \<or> \<not> is_space (hd ?s)"
    and v: "k = ''Authorization''"
      "v = (if ?s \<noteq> [] \<and> \<not> starts_with (lower ?s @ '' '') (lower ?t) then ?s @ '' '' @ ?t else ?t)"
    using first strip_blanks_around [of ?t] strip_blanks_around [of ?s]
    by (auto simp: authorization_header_def Let_def guarded_simps split: if_splits)
  have "lower (?s @ '' '' @ ?t) = (lower ?s @ '' '') @ lower ?t" by (simp add: lower_def lower_char_def)
  then have "starts_with (lower ?s @ '' '') (lower (?s @ '' '' @ ?t))" by (simp only: starts_with_append)
  moreover have "strip v = v" using t s v(2) by (auto simp: strip_blanks_around)
  moreover have "v \<noteq> []" using t v(2) by auto
  ultimately show ?thesis using v
    by (auto simp: authorization_header_def Let_def guarded_simps split: if_splits)
qed

lemma takeWhile_upt_Cons:
  "k < n \<Longrightarrow> takeWhile P [k..<n] = (if P k then k # takeWhile P [Suc k..<n] else [])"
  by (simp add: upt_conv_Cons)

lemma concat_upt_Cons: "k < n \<Longrightarrow> concat (map f [k..<n]) = f k @ concat (map f [Suc k..<n])"
  by (simp add: upt_conv_Cons)

lemma loop_refines:
  assumes "k \<le> attempts"
    and n: "n = (if can_retry then k + length (takeWhile (\<lambda>k. transient p oks (answer k)) [k..<attempts]) else k)"
  shows "request_loop p can_retry oks call answer attempts k last_unreachable =
    (concat (map (\<lambda>j. retry_effects p call (answer j) j) [k..<n]) @ [Sent call], verdict oks (answer n))"
  using assms
proof (induction "attempts - k" arbitrary: k last_unreachable)
  case 0
  then have "k = attempts" by simp
  with 0 show ?case by (subst request_loop.simps) (auto split: wire_outcome.split)
next
  case (Suc m)
  then have k: "k < attempts" by simp
  show ?case
  proof (cases "can_retry \<and> transient p oks (answer k)")
    case True
    have n': "n = (if can_retry then Suc k + length (takeWhile (\<lambda>k. transient p oks (answer k)) [Suc k..<attempts]) else Suc k)"
      using Suc.prems(2) True takeWhile_upt_Cons [OF k, of "\<lambda>k. transient p oks (answer k)"] by simp
    then have "k < n" using True by simp
    from Suc.hyps(1) [OF _ _ n'] Suc.hyps(2) k True
    have IH: "request_loop p True oks call answer attempts (Suc k) l =
        (concat (map (\<lambda>j. retry_effects p call (answer j) j) [Suc k..<n]) @ [Sent call], verdict oks (answer n))" for l
      by simp
    show ?thesis using True k
      by (subst request_loop.simps)
        (auto simp: transient_def IH concat_upt_Cons [OF \<open>k < n\<close>] split: wire_outcome.splits)
  next
    case False
    then have "n = k" using Suc.prems(2) takeWhile_upt_Cons [OF k, of "\<lambda>k. transient p oks (answer k)"] by auto
    then show ?thesis using False k
      by (subst request_loop.simps) (auto simp: transient_def split: wire_outcome.splits)
  qed
qed

lemma attempts_positive: "1 \<le> attempts_of p"
  by (simp add: attempts_of_def)

lemma deciding_attempt_bounds:
  "1 \<le> deciding_attempt p meth oks answer \<and> deciding_attempt p meth oks answer \<le> attempts_of p"
  using attempts_positive [of p] length_takeWhile_le [of "\<lambda>k. transient p oks (answer k)" "[1..<attempts_of p]"]
  by (auto simp: deciding_attempt_def)

text \<open>The same for a whole call, in terms of the deciding attempt.\<close>

lemma request_eq:
  assumes "call = call_of client meth path body headers" "p = policy_in_force client policy"
    and "n = deciding_attempt p meth oks (send call)"
  shows "http_request send client meth path body headers oks policy =
    (concat (map (\<lambda>k. retry_effects p call (send call k) k) [1..<n]) @ [Sent call], verdict oks (send call n))"
proof -
  have "n = (if should_retry_method p meth
      then 1 + length (takeWhile (\<lambda>k. transient p oks (send call k)) [1..<attempts_of p]) else 1)"
    using assms(3) by (simp add: deciding_attempt_def)
  note loop = loop_refines [OF attempts_positive this]
  show ?thesis unfolding http_request_def Let_def assms(1,2) [symmetric] by (rule loop)
qed

lemma sent_in_retry: "filter is_sent (retry_effects p call out k) = [Sent call]"
  by (cases out) (simp_all add: is_sent_def sleep_before_retry_def)

lemma sent_in_retries:
  "filter is_sent (concat (map (\<lambda>j. retry_effects p call (answer j) j) js)) = replicate (length js) (Sent call)"
  by (induction js) (simp_all add: sent_in_retry)

lemma length_takeWhile_upto:
  "k \<le> n \<Longrightarrow> list_all P [j..<k] \<Longrightarrow> \<not> P k \<or> k = n \<Longrightarrow> j \<le> k \<Longrightarrow> length (takeWhile P [j..<n]) = k - j"
proof (induction "k - j" arbitrary: j)
  case 0
  then show ?case by (cases "k = n") (simp_all add: takeWhile_upt_Cons)
next
  case (Suc m)
  then have "j < n" "P j" "list_all P [Suc j..<k]" by (simp_all add: upt_conv_Cons)
  then show ?case using Suc by (simp add: takeWhile_upt_Cons)
qed

subsection \<open>Properties\<close>

text \<open>
  C10. A call does what its specification says: the attempts before the deciding one are each sent,
  closed if they were answered, and followed by the pause; the deciding one is sent last and its
  outcome is the result.
\<close>

theorem request_refines_specification:
  "http_request send client meth path body headers oks policy =
     (let call = call_of client meth path body headers; p = policy_in_force client policy;
          n = deciding_attempt p meth oks (send call)
      in (concat (map (\<lambda>k. retry_effects p call (send call k) k) [1..<n]) @ [Sent call], verdict oks (send call n)))"
  unfolding Let_def by (rule request_eq) (rule refl)+

text \<open>
  C22. A call ends, within its budget: whatever the peer does it sends at least one and at most
  \<open>max(1, attempts)\<close> requests, all the same, exactly one when the method is not to be retried, and the
  internal error after the loop is never raised.
\<close>

theorem request_ends_within_budget:
  "case http_request send client meth path body headers oks policy of (effects, result) \<Rightarrow>
     (\<exists>n. filter is_sent effects = replicate n (Sent (call_of client meth path body headers))
        \<and> 1 \<le> n \<and> n \<le> attempts_of (policy_in_force client policy)
        \<and> (if should_retry_method (policy_in_force client policy) meth then True else n = 1))
     \<and> result \<noteq> Inl Unreachable_Retry_State"
proof -
  define p where "p = policy_in_force client policy"
  define call where "call = call_of client meth path body headers"
  define n where "n = deciding_attempt p meth oks (send call)"
  let ?effects = "concat (map (\<lambda>k. retry_effects p call (send call k) k) [1..<n]) @ [Sent call]"
  have bounds: "1 \<le> n" "n \<le> attempts_of p"
    using deciding_attempt_bounds [of p meth oks "send call"] by (simp_all add: n_def)
  have "filter is_sent ?effects = replicate (n - 1) (Sent call) @ [Sent call]"
    by (simp add: sent_in_retries is_sent_def)
  also have "\<dots> = replicate n (Sent call)"
    using bounds by (metis replicate_append_same Suc_diff_1 less_le_trans zero_less_one replicate_Suc)
  finally have "filter is_sent ?effects = replicate n (Sent call)" .
  moreover have "verdict oks (send call n) \<noteq> Inl Unreachable_Retry_State"
    by (cases "send call n") simp_all
  moreover have "if should_retry_method p meth then True else n = 1"
    by (simp add: n_def deciding_attempt_def)
  moreover have "http_request send client meth path body headers oks policy = (?effects, verdict oks (send call n))"
    by (rule request_eq) (simp_all only: call_def p_def n_def)
  ultimately show ?thesis using bounds unfolding p_def call_def by auto
qed

text \<open>
  C25. A service that recovers in time is reached: when the method may be retried, the first
  \<open>k - 1\<close> outcomes are transient and the \<open>k\<close>-th, within the budget, is acceptable, the call returns
  that response, having sent \<open>k\<close> requests.
\<close>

theorem recovering_service_reached:
  assumes "should_retry_method (policy_in_force client policy) meth"
    and "1 \<le> k" "k \<le> attempts_of (policy_in_force client policy)"
    and "list_all (\<lambda>j. transient (policy_in_force client policy) oks (send (call_of client meth path body headers) j)) [1..<k]"
    and "send (call_of client meth path body headers) k = Response status text'" "response_ok oks status"
  shows "snd (http_request send client meth path body headers oks policy) = Inr (status, text')
    \<and> length (filter is_sent (fst (http_request send client meth path body headers oks policy))) = k"
proof -
  define p where "p = policy_in_force client policy"
  define call where "call = call_of client meth path body headers"
  have "\<not> transient p oks (send call k)" using assms(5,6) by (simp add: transient_def call_def)
  then have "deciding_attempt p meth oks (send call) = k"
    using assms(1-4) length_takeWhile_upto [of k "attempts_of p" "\<lambda>k. transient p oks (send call k)" 1]
    by (simp add: deciding_attempt_def p_def call_def)
  from request_eq [where send = send, OF call_def p_def this [symmetric]]
  have "http_request send client meth path body headers oks policy =
      (concat (map (\<lambda>k. retry_effects p call (send call k) k) [1..<k]) @ [Sent call], verdict oks (send call k))" .
  then show ?thesis using assms by (simp add: sent_in_retries is_sent_def call_def)
qed

definition sample_policy :: retry_policy where
  "sample_policy = default_retry_policy\<lparr>rp_attempts := 3, rp_backoff_seconds := 1 / 2\<rparr>"

definition recovering :: "nat http_call \<Rightarrow> nat \<Rightarrow> wire_outcome" where
  "recovering call k = (if k = 1 then Unreachable ''down'' else if k = 2 then Response 503 ''busy'' else Response 200 ''ok'')"

lemma recovering_service_reached_witness:
  "snd (http_request recovering (make_service_client ''http://a/'' None (Some sample_policy)) ''get'' ''/x'' 0 None None None)
     = Inr (200, ''ok'')"
proof -
  let ?client = "make_service_client ''http://a/'' None (Some sample_policy)"
  have p: "policy_in_force ?client None = sample_policy" by (simp add: policy_in_force_def make_service_client_def)
  have u: "upper ''get'' = ''GET''" by code_simp
  have a: "attempts_of sample_policy = 3" by (simp add: attempts_of_def sample_policy_def)
  have m: "should_retry_method sample_policy ''get''"
    by (simp add: should_retry_method_def u sample_policy_def default_retry_policy_def)
  have t: "list_all (\<lambda>j. transient sample_policy None (recovering call j)) [1..<3]" for call
    by (simp add: upt_conv_Cons recovering_def transient_def response_ok_def sample_policy_def default_retry_policy_def)
  have "recovering call 3 = Response 200 ''ok''" "response_ok None 200" for call
    by (simp_all add: recovering_def response_ok_def)
  then show ?thesis
    using recovering_service_reached [of ?client None "''get''" 3 None recovering "''/x''" 0 None 200 "''ok''"]
    by (simp only: p a m t)
qed

end
