(* ===== verification/Sse.thy ===== *)
theory Sse
  imports Json_Values Byte_Codecs
begin

text \<open>
  The frames of a Server-Sent Event stream, \<open>core/streaming/sse.py\<close>, and the specification they
  are written for: the line reader of an event stream, with its last event id. The theorem is that
  a reader delivers what a sequence of frames says.
\<close>

definition line_feed :: char where "line_feed = CHR 0x0A"
definition carriage_return :: char where "carriage_return = CHR 0x0D"

text \<open>\<open>json.dumps(data, ensure_ascii=False)\<close>, with its default separators.\<close>

fun comma_space :: "string list \<Rightarrow> string" where
  "comma_space [] = []"
| "comma_space [s] = s"
| "comma_space (s # t # ss) = s @ '', '' @ comma_space (t # ss)"

fun spaced_json :: "(rat \<Rightarrow> string) \<Rightarrow> json \<Rightarrow> string" where
  "spaced_json ft (JArr vs) = ''['' @ comma_space (map (spaced_json ft) vs) @ '']''"
| "spaced_json ft (JObj kvs) =
     ''{'' @ comma_space (map (\<lambda>kv. string_text (fst kv) @ '': '' @ spaced_json ft (snd kv)) kvs) @ ''}''"
| "spaced_json ft v = json_text ft v"

subsection \<open>Frames\<close>

definition sse_heartbeat_comment :: string where
  "sse_heartbeat_comment = ''keepalive''"

definition sse_heartbeat_bytes :: "byte list" where
  "sse_heartbeat_bytes = utf8 ('': keepalive'' @ [line_feed, line_feed])"

definition comment_text :: "string \<Rightarrow> string" where
  "comment_text c = '': '' @ c @ [line_feed, line_feed]"

definition encode_sse_comment :: "string \<Rightarrow> byte list" where
  "encode_sse_comment c = utf8 (comment_text c)"

definition one_line :: "string \<Rightarrow> string" where
  "one_line s = map (\<lambda>c. if c = line_feed \<or> c = carriage_return then CHR '' '' else c) s"

definition event_text :: "(rat \<Rightarrow> string) \<Rightarrow> string \<Rightarrow> json_object \<Rightarrow> string option \<Rightarrow> string" where
  "event_text ft event data event_id =
     (case event_id of
        None \<Rightarrow> []
      | Some i \<Rightarrow> if i = [] then [] else ''id: '' @ one_line i @ [line_feed])
     @ ''event: '' @ event @ [line_feed]
     @ ''data: '' @ spaced_json ft (JObj data) @ [line_feed, line_feed]"

definition encode_sse_event :: "(rat \<Rightarrow> string) \<Rightarrow> string \<Rightarrow> json_object \<Rightarrow> string option \<Rightarrow> byte list" where
  "encode_sse_event ft event data event_id = utf8 (event_text ft event data event_id)"

subsection \<open>The reader the frames are written for\<close>

text \<open>
  A line ends at a line feed, a carriage return or the pair; an unfinished line at the end of the
  stream is not a line. A line without a colon is a field with an empty value.
\<close>

definition skip_line_feed :: "string \<Rightarrow> string" where
  "skip_line_feed s = (case s of [] \<Rightarrow> [] | c # cs \<Rightarrow> if c = line_feed then cs else s)"

lemma skip_line_feed_length [termination_simp]: "length (skip_line_feed s) \<le> length s"
  by (simp add: skip_line_feed_def split: list.split)

function stream_lines :: "string \<Rightarrow> string \<Rightarrow> string list" where
  "stream_lines line [] = []"
| "stream_lines line (c # cs) =
     (if c = line_feed then line # stream_lines [] cs
      else if c = carriage_return then line # stream_lines [] (skip_line_feed cs)
      else stream_lines (line @ [c]) cs)"
  by pat_completeness auto

termination
  by (relation "measure (\<lambda>(line, s). length s)") (auto simp: le_imp_less_Suc skip_line_feed_length)

record sse_reader =
  rd_event :: string
  rd_data :: "string list"
  rd_last_id :: string

definition new_reader :: sse_reader where
  "new_reader = \<lparr>rd_event = [], rd_data = [], rd_last_id = []\<rparr>"

text \<open>What is delivered: the type, the data lines joined and the last event id.\<close>

fun data_of_lines :: "string list \<Rightarrow> string" where
  "data_of_lines [] = []"
| "data_of_lines [s] = s"
| "data_of_lines (s # t # ss) = s @ line_feed # data_of_lines (t # ss)"

definition field_of :: "string \<Rightarrow> string \<times> string" where
  "field_of line =
     (let (name, _, rest) = partition_at (CHR '':'') line
      in (name, case rest of [] \<Rightarrow> [] | c # cs \<Rightarrow> if c = CHR '' '' then cs else rest))"

definition read_field :: "string \<times> string \<Rightarrow> sse_reader \<Rightarrow> sse_reader" where
  "read_field f st =
     (if fst f = ''event'' then st\<lparr>rd_event := snd f\<rparr>
      else if fst f = ''data'' then st\<lparr>rd_data := rd_data st @ [snd f]\<rparr>
      else if fst f = ''id'' \<and> CHR 0x00 \<notin> set (snd f) then st\<lparr>rd_last_id := snd f\<rparr>
      else st)"

fun read_lines :: "sse_reader \<Rightarrow> string list \<Rightarrow> (string \<times> string \<times> string) list" where
  "read_lines st [] = []"
| "read_lines st (line # ls) =
     (if line = [] then
        (if rd_data st = [] then read_lines (st\<lparr>rd_event := []\<rparr>) ls
         else (if rd_event st = [] then ''message'' else rd_event st, data_of_lines (rd_data st), rd_last_id st)
              # read_lines (st\<lparr>rd_event := [], rd_data := []\<rparr>) ls)
      else if hd line = CHR '':'' then read_lines st ls
      else read_lines (read_field (field_of line) st) ls)"

definition read_stream :: "byte list \<Rightarrow> (string \<times> string \<times> string) list option" where
  "read_stream bs = map_option (\<lambda>s. read_lines new_reader (stream_lines [] s)) (utf8_decode bs)"

subsection \<open>What a sequence of frames says\<close>

datatype sse_frame = Comment_Frame string | Event_Frame string json_object "string option"

fun frame_bytes :: "(rat \<Rightarrow> string) \<Rightarrow> sse_frame \<Rightarrow> byte list" where
  "frame_bytes ft (Comment_Frame c) = encode_sse_comment c"
| "frame_bytes ft (Event_Frame event data event_id) = encode_sse_event ft event data event_id"

fun frame_text :: "(rat \<Rightarrow> string) \<Rightarrow> sse_frame \<Rightarrow> string" where
  "frame_text ft (Comment_Frame c) = comment_text c"
| "frame_text ft (Event_Frame event data event_id) = event_text ft event data event_id"

definition resume_id :: "string \<Rightarrow> string option \<Rightarrow> string" where
  "resume_id last_id event_id =
     (case event_id of None \<Rightarrow> last_id | Some i \<Rightarrow> if i = [] then last_id else one_line i)"

text \<open>Each event in order; a stamped one moves the cursor, an unstamped one and a comment leave it.\<close>

fun deliver :: "(rat \<Rightarrow> string) \<Rightarrow> string \<Rightarrow> sse_frame list \<Rightarrow> (string \<times> string \<times> string) list" where
  "deliver ft last_id [] = []"
| "deliver ft last_id (Comment_Frame c # fs) = deliver ft last_id fs"
| "deliver ft last_id (Event_Frame event data event_id # fs) =
     (if event = [] then ''message'' else event, spaced_json ft (JObj data), resume_id last_id event_id)
     # deliver ft (resume_id last_id event_id) fs"

definition unbroken :: "string \<Rightarrow> bool" where
  "unbroken s \<longleftrightarrow> line_feed \<notin> set s \<and> carriage_return \<notin> set s"

text \<open>Names and comments hold no line break, a stamp no null character; its line breaks are replaced.\<close>

fun plain_frame :: "sse_frame \<Rightarrow> bool" where
  "plain_frame (Comment_Frame c) = unbroken c"
| "plain_frame (Event_Frame event data event_id) =
     (unbroken event \<and> (case event_id of None \<Rightarrow> True | Some i \<Rightarrow> CHR 0x00 \<notin> set i))"

subsection \<open>Lemmas\<close>

lemma breaks_differ [simp]: "line_feed \<noteq> carriage_return" "carriage_return \<noteq> line_feed"
  by (simp_all add: line_feed_def carriage_return_def)

lemma unbroken_append [simp]: "unbroken (s @ t) \<longleftrightarrow> unbroken s \<and> unbroken t"
  by (auto simp: unbroken_def)

lemma unbroken_Cons [simp]: "unbroken (c # s) \<longleftrightarrow> c \<noteq> line_feed \<and> c \<noteq> carriage_return \<and> unbroken s"
  by (auto simp: unbroken_def)

lemma unbroken_Nil [simp]: "unbroken []"
  by (simp add: unbroken_def)

lemma unbroken_one_line [simp]: "unbroken (one_line s)"
  by (auto simp: unbroken_def one_line_def line_feed_def carriage_return_def)

lemma one_line_fixes: "unbroken s \<Longrightarrow> one_line s = s"
  by (auto simp: one_line_def unbroken_def intro!: map_idI)

lemma unbroken_concat: "list_all unbroken ss \<Longrightarrow> unbroken (concat ss)"
  by (induction ss) auto

lemma break_codes:
  "c = line_feed \<longleftrightarrow> of_char c = (10 :: nat)" "c = carriage_return \<longleftrightarrow> of_char c = (13 :: nat)"
proof -
  have "of_char line_feed = (10 :: nat)" "of_char carriage_return = (13 :: nat)"
    by (simp_all add: line_feed_def carriage_return_def)
  then show "c = line_feed \<longleftrightarrow> of_char c = (10 :: nat)" "c = carriage_return \<longleftrightarrow> of_char c = (13 :: nat)"
    by (metis char_of_char)+
qed

lemma unbroken_char_of: "n < 256 \<Longrightarrow> unbroken [char_of n] \<longleftrightarrow> n \<noteq> 10 \<and> n \<noteq> (13 :: nat)"
  by (simp add: break_codes of_char_small)

lemma unbroken_digits: "unbroken (digits n)"
proof (induction n rule: digits.induct)
  case (1 n)
  have "unbroken [char_of (48 + k)]" if "k < 10" for k :: nat
    using that by (simp add: unbroken_char_of del: unbroken_Cons)
  then show ?case using 1 by (subst digits.simps) (auto simp del: unbroken_Cons)
qed

lemma unbroken_escape: "unbroken (escape_char c)"
proof -
  have "unbroken (hex4 n)" if "n < 32" for n
    using that unfolding hex4_def by (auto simp: break_codes of_char_small)
  moreover have "unbroken [char_of (92 :: nat)]" by (simp add: break_codes of_char_small)
  ultimately show ?thesis
    by (auto simp: escape_char_def Let_def break_codes of_char_small)
qed

lemma unbroken_string_text: "unbroken (string_text s)"
  by (simp add: string_text_def unbroken_concat list_all_iff unbroken_escape break_codes)

lemma unbroken_int_text: "unbroken (int_text n)"
  by (simp add: int_text_def unbroken_digits break_codes)

lemma unbroken_comma_space: "list_all unbroken ss \<Longrightarrow> unbroken (comma_space ss)"
  by (induction ss rule: comma_space.induct) (simp_all add: break_codes)

text \<open>The text of a value is one line, provided the text of its floats is.\<close>

lemma unbroken_spaced_json:
  assumes "\<And>q. unbroken (ft q)"
  shows "unbroken (spaced_json ft v)"
proof (induction v)
  case (JFloat f)
  then show ?case using assms by (cases f) (simp_all add: break_codes)
next
  case (JArr vs)
  then show ?case by (simp add: unbroken_comma_space list_all_iff break_codes)
next
  case (JObj kvs)
  then have "unbroken (spaced_json ft (snd kv))" if "kv \<in> set kvs" for kv
    using that by (metis eq_snd_iff prod_set_simps(2) singletonI snds.simps)
  then show ?case
    by (auto simp: unbroken_comma_space list_all_iff break_codes unbroken_string_text)
qed (auto simp: unbroken_int_text unbroken_string_text break_codes)

lemma stream_lines_line:
  "unbroken s \<Longrightarrow> stream_lines line (s @ line_feed # rest) = (line @ s) # stream_lines [] rest"
  by (induction s arbitrary: line) simp_all

lemma stream_lines_blank: "stream_lines [] (line_feed # rest) = [] # stream_lines [] rest"
  by simp

lemma labels_unbroken: "unbroken '': ''" "unbroken ''id: ''" "unbroken ''event: ''" "unbroken ''data: ''"
  by (simp_all add: break_codes)

lemma comment_lines:
  assumes "unbroken c"
  shows "stream_lines [] (comment_text c @ rest) = ('': '' @ c) # [] # stream_lines [] rest"
proof -
  have "comment_text c @ rest = ('': '' @ c) @ line_feed # line_feed # rest" by (simp add: comment_text_def)
  then show ?thesis
    using assms by (simp only: stream_lines_line stream_lines_blank unbroken_append labels_unbroken simp_thms append_Nil)
qed

lemma single_append: "[x] @ xs = x # xs"
  by simp

definition stamp_lines :: "string option \<Rightarrow> string list" where
  "stamp_lines event_id =
     (case event_id of None \<Rightarrow> [] | Some i \<Rightarrow> if i = [] then [] else [''id: '' @ one_line i])"

lemma event_lines:
  assumes "unbroken event" "unbroken (spaced_json ft (JObj data))"
  shows "stream_lines [] (event_text ft event data event_id @ rest) =
    stamp_lines event_id @ (''event: '' @ event) # (''data: '' @ spaced_json ft (JObj data)) # [] # stream_lines [] rest"
proof -
  let ?rest = "(''event: '' @ event) @ line_feed # (''data: '' @ spaced_json ft (JObj data)) @ line_feed # line_feed # rest"
  have tail: "stream_lines [] ?rest = (''event: '' @ event) # (''data: '' @ spaced_json ft (JObj data)) # [] # stream_lines [] rest"
    using assms by (simp only: stream_lines_line stream_lines_blank unbroken_append labels_unbroken simp_thms append_Nil)
  show ?thesis
  proof (cases "stamp_lines event_id")
    case Nil
    then have "event_text ft event data event_id @ rest = ?rest"
      by (auto simp: event_text_def stamp_lines_def split: option.splits if_splits)
    then show ?thesis unfolding Nil by (simp only: tail append_Nil)
  next
    case (Cons l ls)
    then obtain i where i: "event_id = Some i" "i \<noteq> []" "stamp_lines event_id = [''id: '' @ one_line i]"
      by (auto simp: stamp_lines_def split: option.splits if_splits)
    then have "event_text ft event data event_id @ rest = (''id: '' @ one_line i) @ line_feed # ?rest"
      by (simp add: event_text_def)
    then show ?thesis unfolding i(3)
      by (simp only: stream_lines_line unbroken_append labels_unbroken unbroken_one_line simp_thms tail append_Nil single_append)
  qed
qed

lemma field_of_label:
  "field_of (''event: '' @ v) = (''event'', v)" "field_of (''data: '' @ v) = (''data'', v)" "field_of (''id: '' @ v) = (''id'', v)"
  by (simp_all add: field_of_def)

lemma null_one_line: "CHR 0x00 \<notin> set i \<Longrightarrow> CHR 0x00 \<notin> set (one_line i)"
  by (auto simp: one_line_def)

text \<open>Between two frames the reader holds nothing but the cursor.\<close>

definition at_rest :: "string \<Rightarrow> sse_reader" where
  "at_rest last_id = \<lparr>rd_event = [], rd_data = [], rd_last_id = last_id\<rparr>"

lemma read_stamp:
  assumes "case event_id of None \<Rightarrow> True | Some i \<Rightarrow> CHR 0x00 \<notin> set i"
  shows "read_lines (at_rest last_id) (stamp_lines event_id @ ls) = read_lines (at_rest (resume_id last_id event_id)) ls"
proof (cases event_id)
  case (Some i)
  have "read_lines (at_rest last_id) ((''id: '' @ one_line i) # ls) = read_lines (at_rest (one_line i)) ls"
    using assms Some null_one_line [of i]
    by (simp only: read_lines.simps field_of_label) (simp add: read_field_def at_rest_def)
  then show ?thesis using Some by (simp add: stamp_lines_def resume_id_def)
qed (simp add: stamp_lines_def resume_id_def)

lemma read_event:
  "read_lines (at_rest last_id) ((''event: '' @ event) # (''data: '' @ text') # [] # ls) =
     (if event = [] then ''message'' else event, text', last_id) # read_lines (at_rest last_id) ls"
  by (simp only: read_lines.simps field_of_label) (simp add: read_field_def at_rest_def)

lemma read_comment: "read_lines (at_rest last_id) (('': '' @ c) # [] # ls) = read_lines (at_rest last_id) ls"
  by (simp add: at_rest_def)

lemma read_frames:
  assumes "\<And>q. unbroken (ft q)" "list_all plain_frame fs"
  shows "read_lines (at_rest last_id) (stream_lines [] (concat (map (frame_text ft) fs))) = deliver ft last_id fs"
  using assms(2)
proof (induction fs arbitrary: last_id)
  case (Cons f fs)
  then show ?case
  proof (cases f)
    case (Comment_Frame c)
    then show ?thesis using Cons
      by (simp only: list.map concat.simps frame_text.simps comment_lines plain_frame.simps list.pred_inject(2) deliver.simps
          read_comment)
  next
    case (Event_Frame event data event_id)
    have "unbroken (spaced_json ft (JObj data))" by (rule unbroken_spaced_json) (rule assms(1))
    then show ?thesis using Cons Event_Frame
      by (simp only: list.map concat.simps frame_text.simps event_lines plain_frame.simps list.pred_inject(2) deliver.simps
          read_stamp read_event)
  qed
qed simp

lemma utf8_append: "utf8 (s @ t) = utf8 s @ utf8 t"
  by (simp add: utf8_def)

lemma frames_bytes: "concat (map (frame_bytes ft) fs) = utf8 (concat (map (frame_text ft) fs))"
proof (induction fs)
  case (Cons f fs)
  then show ?case
    by (cases f) (simp_all add: utf8_append encode_sse_comment_def encode_sse_event_def)
qed (simp add: utf8_def)

subsection \<open>Properties\<close>

text \<open>
  C18. A reader of the stream delivers what was sent: for frames whose names and comments hold no line
  break and whose stamps hold no null character, it delivers exactly the events, in order, each with its
  data on one line and with the cursor the last stamp left, comments and unstamped frames moving nothing.
\<close>

theorem sse_stream_read_back:
  assumes "\<And>q. unbroken (ft q)" "list_all plain_frame fs"
  shows "read_stream (concat (map (frame_bytes ft) fs)) = Some (deliver ft [] fs)"
  using read_frames [OF assms, of "[]"]
  by (simp add: read_stream_def frames_bytes utf8_decode_utf8 new_reader_def at_rest_def)

definition sample_frames :: "sse_frame list" where
  "sample_frames =
     [Event_Frame ''tick'' [(''n'', JBool True)] (Some [CHR ''4'', line_feed, CHR ''2'']), Comment_Frame ''keepalive'',
      Event_Frame [] [] None]"

lemma sse_stream_read_back_witness:
  "read_stream (concat (map (frame_bytes (\<lambda>q. int_text \<lfloor>q\<rfloor>)) sample_frames)) =
     Some [(''tick'', CHR 0x7B # string_text ''n'' @ '': true}'', ''4 2''), (''message'', ''{}'', ''4 2'')]"
proof -
  have "list_all plain_frame sample_frames"
    by (simp add: sample_frames_def break_codes)
  moreover have "deliver (\<lambda>q. int_text \<lfloor>q\<rfloor>) [] sample_frames =
      [(''tick'', CHR 0x7B # string_text ''n'' @ '': true}'', ''4 2''), (''message'', ''{}'', ''4 2'')]"
    by (simp add: sample_frames_def resume_id_def one_line_def line_feed_def carriage_return_def)
  ultimately show ?thesis
    using sse_stream_read_back [of "\<lambda>q. int_text \<lfloor>q\<rfloor>", OF unbroken_int_text] by simp
qed

end
