(* ===== verification/Wire_Contracts.thy ===== *)
theory Wire_Contracts
  imports Python_Values
begin

text \<open>
  The wire vocabulary of \<open>biz/contracts\<close>: the normalisers that resolve untrusted metadata
  (\<open>__init__.py\<close>), the life of a Companion (\<open>companion.py\<close>), the refusal envelope (\<open>refusal.py\<close>)
  and what a spoken turn may cost (\<open>turn_latency.py\<close>).
\<close>

subsection \<open>Session metadata\<close>

definition valid_interaction_modes :: "string list" where
  "valid_interaction_modes = [''half_duplex'', ''full_duplex'', ''ptt'']"

definition valid_session_intents :: "string list" where
  "valid_session_intents = [''user_initiated'', ''presence_initiated'', ''proactive_initiated'']"

definition valid_session_applications :: "string list" where
  "valid_session_applications = [''companion.v1'', ''home.command.v1'']"

definition valid_session_end_reasons :: "string list" where
  "valid_session_end_reasons = [''idle_normal_end'', ''user_left'', ''error'', ''proactive_done'', ''superseded'']"

definition or_empty :: "string option \<Rightarrow> string" where
  "or_empty raw = (case raw of None \<Rightarrow> [] | Some s \<Rightarrow> s)"

definition normalize_session_intent :: "string option \<Rightarrow> string \<Rightarrow> string" where
  "normalize_session_intent raw fallback =
     (let candidate = lower (strip (or_empty raw))
      in if candidate \<in> set valid_session_intents then candidate else fallback)"

definition normalize_session_flow_id :: "string option \<Rightarrow> string option" where
  "normalize_session_flow_id raw =
     (let candidate = strip (or_empty raw)
      in if candidate = [] \<or> 96 < length candidate then None else Some candidate)"

definition conversation_id_char :: "char \<Rightarrow> bool" where
  "conversation_id_char c \<longleftrightarrow> is_ascii_alnum c \<or> c \<in> set ''-_.:''"

definition session_conversation_id_max_length :: nat where
  "session_conversation_id_max_length = 64"

definition normalize_conversation_id :: "string option \<Rightarrow> string option" where
  "normalize_conversation_id raw =
     (let candidate = strip (or_empty raw)
      in if candidate = [] \<or> session_conversation_id_max_length < length candidate then None
         else if \<not> list_all (\<lambda>c. of_char c < (128 :: nat)) candidate \<or> list_ex (\<lambda>c. \<not> conversation_id_char c) candidate
         then None else Some candidate)"

definition flow_id_ok :: "string option \<Rightarrow> bool" where
  "flow_id_ok v = opt_ok (\<lambda>s. len_between 1 96 s \<and> strip s = s) v"

definition conversation_id_ok :: "string option \<Rightarrow> bool" where
  "conversation_id_ok v = opt_ok (\<lambda>s. len_between 1 64 s \<and> list_all conversation_id_char s) v"

lemma conversation_char_ascii: "conversation_id_char c \<Longrightarrow> of_char c < (128 :: nat)"
  by (auto simp: conversation_id_char_def char_class_defs)

lemma conversation_char_solid: "conversation_id_char c \<Longrightarrow> \<not> is_space c"
  by (auto simp: conversation_id_char_def char_class_defs is_space_def)

lemma conversation_id_fixed: "list_all conversation_id_char s \<Longrightarrow> strip s = s"
  by (rule strip_solid) (auto simp: list_all_iff conversation_char_solid)

interpretation session_intent:
  normaliser "\<lambda>raw. normalize_session_intent raw ''user_initiated''" Some "\<lambda>v. v \<in> set valid_session_intents"
proof
  have "lower (strip v) = v" if "v \<in> set valid_session_intents" for v
    using that by (auto simp: valid_session_intents_def) code_simp+
  then show "normalize_session_intent (Some v) ''user_initiated'' = v" if "v \<in> set valid_session_intents" for v
    using that by (simp add: normalize_session_intent_def or_empty_def)
qed (simp add: normalize_session_intent_def Let_def valid_session_intents_def)

interpretation session_flow_id: normaliser normalize_session_flow_id "\<lambda>v. v" flow_id_ok
proof
  show "flow_id_ok (normalize_session_flow_id raw)" for raw
    using strip_idem [of "or_empty raw"]
    by (auto simp: normalize_session_flow_id_def flow_id_ok_def len_between_def Let_def Suc_le_eq)
  show "normalize_session_flow_id v = v" if "flow_id_ok v" for v
    using that by (cases v) (auto simp: normalize_session_flow_id_def flow_id_ok_def len_between_def or_empty_def)
qed

interpretation conversation_id: normaliser normalize_conversation_id "\<lambda>v. v" conversation_id_ok
proof
  show "conversation_id_ok (normalize_conversation_id raw)" for raw
    by (cases "strip (or_empty raw)")
      (auto simp: normalize_conversation_id_def conversation_id_ok_def len_between_def Let_def list_ex_iff list_all_iff
        session_conversation_id_max_length_def)
  show "normalize_conversation_id v = v" if "conversation_id_ok v" for v
    using that
    by (cases v) (auto simp: normalize_conversation_id_def conversation_id_ok_def len_between_def or_empty_def
        conversation_id_fixed list_ex_iff list_all_iff conversation_char_ascii session_conversation_id_max_length_def)
qed

subsection \<open>The life of a Companion\<close>

datatype companion_lifecycle = Active | Retiring | Archived | Deleting

definition companion_lifecycle_states :: "companion_lifecycle list" where
  "companion_lifecycle_states = [Active, Retiring, Archived, Deleting]"

definition default_eligible_lifecycle_states :: "companion_lifecycle list" where
  "default_eligible_lifecycle_states = [Active]"

fun companion_lifecycle_transitions :: "companion_lifecycle \<Rightarrow> companion_lifecycle list" where
  "companion_lifecycle_transitions Active = [Retiring]"
| "companion_lifecycle_transitions Retiring = [Archived, Active]"
| "companion_lifecycle_transitions Archived = [Active, Deleting]"
| "companion_lifecycle_transitions Deleting = []"

text \<open>The states a Companion goes through, each move one the table allows.\<close>

inductive companion_life :: "companion_lifecycle list \<Rightarrow> bool" where
  born: "companion_life [Active]"
| moved: "companion_life (ss @ [s]) \<Longrightarrow> t \<in> set (companion_lifecycle_transitions s) \<Longrightarrow> companion_life (ss @ [s, t])"

inductive_simps companion_life_one: "companion_life [s]"

lemma companion_life_snoc:
  "companion_life (ss @ [t]) \<longleftrightarrow>
     (if ss = [] then t = Active
      else companion_life ss \<and> t \<in> set (companion_lifecycle_transitions (last ss)))"
proof (cases ss rule: rev_cases)
  case Nil
  then show ?thesis by (auto simp: companion_life_one intro: born)
next
  case (snoc rs s)
  have "companion_life (rs @ [s, t]) \<Longrightarrow> companion_life (rs @ [s]) \<and> t \<in> set (companion_lifecycle_transitions s)"
    by (erule companion_life.cases) auto
  then show ?thesis using snoc by (auto intro: moved)
qed

lemma transition_sources:
  "Deleting \<in> set (companion_lifecycle_transitions s) \<longleftrightarrow> s = Archived"
  "Archived \<in> set (companion_lifecycle_transitions s) \<longleftrightarrow> s = Retiring"
  "Retiring \<in> set (companion_lifecycle_transitions s) \<longleftrightarrow> s = Active"
  by (cases s; simp)+

lemma archived_was_retired:
  assumes "companion_life (ss @ [Archived])"
  obtains rs where "ss = rs @ [Active, Retiring]"
proof -
  from assms have "ss \<noteq> []" "companion_life ss" "last ss = Retiring"
    by (auto simp: companion_life_snoc transition_sources split: if_splits)
  then obtain qs where qs: "ss = qs @ [Retiring]" "companion_life (qs @ [Retiring])"
    by (metis append_butlast_last_id)
  then have "qs \<noteq> []" "last qs = Active"
    by (auto simp: companion_life_snoc transition_sources split: if_splits)
  then show ?thesis using that qs(1) by (metis append.assoc append_Cons append_Nil append_butlast_last_id)
qed

lemma deletion_ends:
  assumes "companion_life ss" "ss = rs @ Deleting # qs"
  shows "qs = []"
  using assms(2) assms(1)
proof (induction qs arbitrary: ss rule: rev_induct)
  case (snoc t ts)
  then have "companion_life (rs @ Deleting # ts)" "t \<in> set (companion_lifecycle_transitions (last (Deleting # ts)))"
    using companion_life_snoc [of "rs @ Deleting # ts" t] by auto
  then show ?case using snoc.IH by auto
qed simp

subsection \<open>Refusals\<close>

datatype refusal_kind = Denied | Not_Found | Conflict | Invalid | Not_Configured | Not_Running | Upstream

record refusal =
  rf_kind :: refusal_kind
  rf_reason :: string
  rf_code :: "string option"
  rf_retryable :: bool

definition refusal_fields :: "refusal \<Rightarrow> (string \<times> bool) list" where
  "refusal_fields r =
     [(''reason'', len_between 0 512 (rf_reason r)), (''code'', opt_ok (len_between 0 64) (rf_code r))]"

definition make_refusal :: "refusal \<Rightarrow> string invalid + refusal" where
  "make_refusal r = build (refusal_fields r) [] r"

definition wf_refusal :: "refusal \<Rightarrow> bool" where
  "wf_refusal r \<longleftrightarrow> admissible (refusal_fields r) no_rules"

interpretation refusals: model_class make_refusal wf_refusal
  by (rule build_class; simp add: make_refusal_def wf_refusal_def)

fun refusal_kind_text :: "refusal_kind \<Rightarrow> string" where
  "refusal_kind_text Denied = ''denied''"
| "refusal_kind_text Not_Found = ''not_found''"
| "refusal_kind_text Conflict = ''conflict''"
| "refusal_kind_text Invalid = ''invalid''"
| "refusal_kind_text Not_Configured = ''not_configured''"
| "refusal_kind_text Not_Running = ''not_running''"
| "refusal_kind_text Upstream = ''upstream''"

definition refusal_kinds :: "string list" where
  "refusal_kinds = map refusal_kind_text [Denied, Not_Found, Conflict, Invalid, Not_Configured, Not_Running, Upstream]"

definition refusal_body :: "refusal \<Rightarrow> json" where
  "refusal_body r =
     JObj [(''detail'', JObj [(''kind'', JStr (refusal_kind_text (rf_kind r))), (''reason'', JStr (rf_reason r)),
       (''code'', case rf_code r of None \<Rightarrow> JNull | Some c \<Rightarrow> JStr c), (''retryable'', JBool (rf_retryable r))])]"

lemma refusal_kind_text_inj: "refusal_kind_text k = refusal_kind_text l \<longleftrightarrow> k = l"
  by (cases k; cases l) simp_all

text \<open>A client reads from the body everything the refusal says.\<close>

lemma refusal_body_inj: "refusal_body r = refusal_body s \<longleftrightarrow> r = s"
  by (cases r; cases s) (auto simp: refusal_body_def refusal_kind_text_inj split: option.splits)

subsection \<open>What a turn may cost\<close>

definition recognition_share :: rat where "recognition_share = to_double (45 / 100)"
definition generation_share :: rat where "generation_share = to_double (20 / 100)"
definition voice_share :: rat where "voice_share = to_double (35 / 100)"
definition give_up_multiplier :: rat where "give_up_multiplier = 2"
definition turn_first_audio_budget_s :: rat where "turn_first_audio_budget_s = 6"

text \<open>\<open>round(x, 3)\<close> of a float: the nearest multiple of a thousandth, half to even, as a float.\<close>

definition round_3 :: "rat \<Rightarrow> rat" where
  "round_3 x = to_double (of_int (round_half_even (x * 1000)) / 1000)"

definition recognition_allowance_s :: "rat \<Rightarrow> rat" where
  "recognition_allowance_s budget = round_3 (to_double (budget * recognition_share))"

definition generation_allowance_s :: "rat \<Rightarrow> rat" where
  "generation_allowance_s budget = round_3 (to_double (budget * generation_share))"

definition voice_allowance_s :: "rat \<Rightarrow> rat" where
  "voice_allowance_s budget = round_3 (to_double (budget * voice_share))"

definition give_up_after_s :: "rat \<Rightarrow> rat" where
  "give_up_after_s allowance = round_3 (to_double (allowance * give_up_multiplier))"

lemma round_3_error: "\<bar>round_3 x - x\<bar> \<le> 1 / 2000 + (\<bar>x\<bar> + 1) / 2 ^ 53"
proof -
  define y where "y = of_int (round_half_even (x * 1000)) / (1000 :: rat)"
  have "\<bar>of_int (round_half_even (x * 1000)) - x * 1000\<bar> \<le> 1 / 2" by (rule round_half_even_error)
  then have y: "\<bar>y - x\<bar> \<le> 1 / 2000" by (simp add: y_def abs_le_iff field_simps)
  have "\<bar>to_double y - y\<bar> \<le> \<bar>y\<bar> / 2 ^ 53" by (rule to_double_error)
  also have "\<dots> \<le> (\<bar>x\<bar> + 1) / 2 ^ 53" using y by (intro divide_right_mono) (linarith, simp)
  finally show ?thesis using y unfolding round_3_def y_def [symmetric] by linarith
qed

lemma product_error:
  assumes "0 \<le> budget" "budget \<le> 1000" "0 \<le> s" "s \<le> 1"
  shows "\<bar>to_double (budget * to_double s) - budget * s\<bar> \<le> 3000 / 2 ^ 53"
proof -
  define d where "d = to_double s"
  have d: "\<bar>d - s\<bar> \<le> 1 / 2 ^ 53"
    using to_double_error [of s] assms(3,4) unfolding d_def by (simp add: field_simps)
  have "\<bar>budget * d - budget * s\<bar> = budget * \<bar>d - s\<bar>"
    using assms(1) by (simp add: right_diff_distrib [symmetric] abs_mult)
  also have "\<dots> \<le> 1000 * (1 / 2 ^ 53)" by (rule mult_mono) (use assms d in auto)
  finally have p: "\<bar>budget * d - budget * s\<bar> \<le> 1000 / 2 ^ 53" by simp
  have "budget * s \<le> 1000 * 1" by (rule mult_mono) (use assms in auto)
  moreover have "0 \<le> budget * s" using assms by simp
  ultimately have "\<bar>budget * d\<bar> \<le> 1000 + 1000 / 2 ^ 53" using p by linarith
  then have "\<bar>budget * d\<bar> / 2 ^ 53 \<le> (1000 + 1000 / 2 ^ 53) / 2 ^ 53" by (rule divide_right_mono) simp
  then have "\<bar>to_double (budget * d) - budget * d\<bar> \<le> 2000 / 2 ^ 53"
    using to_double_error [of "budget * d"] by simp
  then show ?thesis using p unfolding d_def by linarith
qed

lemma allowance_error:
  assumes "0 \<le> budget" "budget \<le> 1000" "0 \<le> s" "s \<le> 1"
  shows "\<bar>round_3 (to_double (budget * to_double s)) - budget * s\<bar> \<le> 1 / 1900"
proof -
  have range: "budget * s \<le> 1000 * 1" "0 \<le> budget * s" by (rule mult_mono) (use assms in auto)
  define t where "t = to_double (budget * to_double s)"
  have "\<bar>t - budget * s\<bar> \<le> 3000 / 2 ^ 53" unfolding t_def by (rule product_error) (rule assms)+
  also have "\<dots> \<le> 1 / 100000" by simp
  finally have t: "\<bar>t - budget * s\<bar> \<le> 1 / 100000" .
  with range have "\<bar>t\<bar> + 1 \<le> 1002" by linarith
  then have "(\<bar>t\<bar> + 1) / 2 ^ 53 \<le> 1002 / 2 ^ 53" by (rule divide_right_mono) simp
  also have "\<dots> \<le> 1 / 100000" by simp
  finally have "(\<bar>t\<bar> + 1) / 2 ^ 53 \<le> 1 / 100000" .
  with round_3_error [of t] have "\<bar>round_3 t - t\<bar> \<le> 1 / 2000 + 1 / 100000" by linarith
  then show ?thesis using t unfolding t_def [symmetric] by linarith
qed

subsection \<open>Properties\<close>

text \<open>
  Deletion is earned: however a Companion came to be deleted, the last steps of its life were
  active, retiring, archived, deleting, and nothing followed.
\<close>

theorem deletion_is_earned:
  assumes "companion_life ss" "Deleting \<in> set ss"
  shows "\<exists>rs. ss = rs @ [Active, Retiring, Archived, Deleting]"
proof -
  obtain rs qs where split: "ss = rs @ Deleting # qs" using assms(2) by (meson split_list)
  then have "ss = rs @ [Deleting]" using deletion_ends [OF assms(1) split] by simp
  then have "rs \<noteq> []" "companion_life rs" "last rs = Archived"
    using assms(1) by (auto simp: companion_life_snoc transition_sources split: if_splits)
  then obtain ps where ps: "rs = ps @ [Archived]" by (metis append_butlast_last_id)
  then obtain os where "ps = os @ [Active, Retiring]"
    using archived_was_retired \<open>companion_life rs\<close> by blast
  then show ?thesis using \<open>ss = rs @ [Deleting]\<close> ps by simp
qed

lemma deletion_is_earned_witness:
  "\<exists>rs. [Active, Retiring, Active, Retiring, Archived, Deleting] = rs @ [Active, Retiring, Archived, Deleting]"
  by (rule deletion_is_earned)
    (simp_all add: companion_life_snoc [of "[Active, Retiring, Active, Retiring, Archived]", simplified]
      companion_life_snoc [of "[Active, Retiring, Active, Retiring]", simplified]
      companion_life_snoc [of "[Active, Retiring, Active]", simplified]
      companion_life_snoc [of "[Active, Retiring]", simplified] companion_life_snoc [of "[Active]", simplified]
      companion_life_one)

text \<open>
  Untrusted session metadata resolves to exactly the values a consumer may see: the intents of the
  vocabulary, the bounded correlation ids without surrounding blanks and the well-formed conversation
  ids, or none; resolving a resolved value again changes nothing.
\<close>

theorem session_metadata_resolved:
  "range (\<lambda>raw. normalize_session_intent raw ''user_initiated'') = set valid_session_intents
   \<and> range normalize_session_flow_id = Collect flow_id_ok
   \<and> range normalize_conversation_id = Collect conversation_id_ok
   \<and> normalize_session_intent (Some (normalize_session_intent raw ''user_initiated'')) ''user_initiated''
       = normalize_session_intent raw ''user_initiated''
   \<and> normalize_session_flow_id (normalize_session_flow_id raw) = normalize_session_flow_id raw
   \<and> normalize_conversation_id (normalize_conversation_id raw) = normalize_conversation_id raw"
  using session_intent.norm_range session_flow_id.norm_range conversation_id.norm_range
    session_intent.norm_idem session_flow_id.norm_idem conversation_id.norm_idem
  by simp

text \<open>
  The allowances of the three hops divide the budget: for any budget up to a thousand seconds their
  sum is within two milliseconds of it, and each is within a millisecond of its share.
\<close>

theorem allowances_divide_budget:
  assumes "0 \<le> budget" "budget \<le> 1000"
  shows "\<bar>recognition_allowance_s budget + generation_allowance_s budget + voice_allowance_s budget - budget\<bar> \<le> 1 / 500
    \<and> \<bar>recognition_allowance_s budget - budget * 45 / 100\<bar> \<le> 1 / 1000
    \<and> \<bar>generation_allowance_s budget - budget * 20 / 100\<bar> \<le> 1 / 1000
    \<and> \<bar>voice_allowance_s budget - budget * 35 / 100\<bar> \<le> 1 / 1000"
proof -
  have "\<bar>recognition_allowance_s budget - budget * (45 / 100)\<bar> \<le> 1 / 1900"
    "\<bar>generation_allowance_s budget - budget * (20 / 100)\<bar> \<le> 1 / 1900"
    "\<bar>voice_allowance_s budget - budget * (35 / 100)\<bar> \<le> 1 / 1900"
    unfolding recognition_allowance_s_def generation_allowance_s_def voice_allowance_s_def
      recognition_share_def generation_share_def voice_share_def
    by (rule allowance_error; use assms in simp)+
  then show ?thesis by (intro conjI; linarith)
qed

lemma allowances_divide_budget_witness:
  "\<bar>recognition_allowance_s turn_first_audio_budget_s - 27 / 10\<bar> \<le> 1 / 1000"
  using allowances_divide_budget [of turn_first_audio_budget_s] by (simp add: turn_first_audio_budget_s_def)

end
