(* ===== verification/Control_Protocol.thy ===== *)
theory Control_Protocol
  imports Wire_Contracts
begin

text \<open>
  The device command envelope of \<open>biz/control/protocol.py\<close>: its clock, the op and status normalisers
  and the envelope itself. An instant is in microseconds since the epoch, as an aware datetime holds it.
\<close>

subsection \<open>Milliseconds\<close>

definition py_trunc :: "rat \<Rightarrow> int" where
  "py_trunc x = (if 0 \<le> x then \<lfloor>x\<rfloor> else \<lceil>x\<rceil>)"

text \<open>\<open>t.timestamp()\<close> of an aware datetime: its seconds, correctly rounded.\<close>

definition timestamp_of :: "int \<Rightarrow> rat" where
  "timestamp_of t = to_double (of_int t / 1000000)"

definition unix_ms :: "int \<Rightarrow> int" where
  "unix_ms t = py_trunc (to_double (timestamp_of t * 1000))"

subsection \<open>Ops and statuses\<close>

definition control_op_aliases :: "(string \<times> string) list" where
  "control_op_aliases =
     [(''wake'', ''room.join''), (''refresh_config'', ''config.refresh''), (''identify'', ''device.identify'')]"

definition valid_control_ops :: "string list" where
  "valid_control_ops =
     [''room.join'', ''playback.stop'', ''ptt.turn_status'', ''config.refresh'', ''device.identify'',
      ''device.roll_call'', ''guard.vision.benchmark'', ''guard.runtime.sync'', ''guard.owner_face_profile.sync'']"

definition normalize_control_op :: "string \<Rightarrow> string" where
  "normalize_control_op op =
     (let value = strip op in case map_of control_op_aliases value of Some target \<Rightarrow> target | None \<Rightarrow> value)"

definition canonical_op :: "string \<Rightarrow> bool" where
  "canonical_op op \<longleftrightarrow> strip op = op \<and> op \<notin> fst ` set control_op_aliases"

text \<open>\<open>isinstance(value, str) and value\<close> of the first of the three keys that has one.\<close>

definition op_text :: "json_object \<Rightarrow> string \<Rightarrow> string option" where
  "op_text payload key =
     (case map_of payload key of Some (JStr s) \<Rightarrow> if s = [] then None else Some s | _ \<Rightarrow> None)"

definition infer_op :: "json_object \<Rightarrow> string option \<Rightarrow> string" where
  "infer_op payload explicit_op =
     (if some_text explicit_op then normalize_control_op (the explicit_op)
      else case find (\<lambda>key. op_text payload key \<noteq> None) [''op'', ''type'', ''command''] of
        Some key \<Rightarrow> normalize_control_op (the (op_text payload key))
      | None \<Rightarrow> ''device.command'')"

datatype command_qos = Fire_And_Forget | Ack | Result
datatype command_priority = Low | Normal | High | Urgent

fun qos_text :: "command_qos \<Rightarrow> string" where
  "qos_text Fire_And_Forget = ''fire_and_forget''"
| "qos_text Ack = ''ack''"
| "qos_text Result = ''result''"

fun priority_text :: "command_priority \<Rightarrow> string" where
  "priority_text Low = ''low''"
| "priority_text Normal = ''normal''"
| "priority_text High = ''high''"
| "priority_text Urgent = ''urgent''"

definition control_protocol_version :: int where
  "control_protocol_version = 1"

definition build_command_envelope ::
  "string \<Rightarrow> string \<Rightarrow> json_object \<Rightarrow> string option \<Rightarrow> int option \<Rightarrow> int \<Rightarrow> command_qos \<Rightarrow> command_priority
     \<Rightarrow> string \<Rightarrow> string \<Rightarrow> int \<Rightarrow> string + json_object" where
  "build_command_envelope command_id device_id payload op capability_version ttl_ms qos priority src_type src_id created_at =
     (let body =
        [(''v'', JInt control_protocol_version), (''kind'', JStr ''cmd''), (''id'', JStr command_id),
         (''op'', JStr (infer_op payload op)), (''ts'', JInt (unix_ms created_at)), (''ttl_ms'', JInt ttl_ms),
         (''qos'', JStr (qos_text qos)), (''priority'', JStr (priority_text priority)),
         (''src'', JObj [(''type'', JStr src_type), (''id'', JStr src_id)]),
         (''dst'', JObj [(''type'', JStr ''device''), (''id'', JStr device_id)]),
         (''payload'', JObj payload), (''caps'', JArr [JStr ''ack.v1'', JStr ''result.v1''])]
      in case capability_version of
        None \<Rightarrow> Inr body
      | Some v \<Rightarrow> guarded [(v < 1, ''capability_version must be positive'')] (body @ [(''capability_version'', JInt v)]))"

definition ack_statuses :: "string list" where
  "ack_statuses =
     [''accepted'', ''completed'', ''running'', ''succeeded'', ''failed'', ''rejected'', ''unsupported'', ''expired'']"

definition normalize_ack_status :: "string \<Rightarrow> string" where
  "normalize_ack_status status =
     (let value = lower status
      in if value = ''completed'' then ''succeeded'' else if value \<in> set ack_statuses then value else ''failed'')"

definition command_status_from_ack :: "string \<Rightarrow> string" where
  "command_status_from_ack status =
     (let value = normalize_ack_status status
      in if value \<in> set [''accepted'', ''running''] then value
         else if value = ''unsupported'' then ''failed'' else value)"

subsection \<open>The normalisers\<close>

lemma map_of_alias: "map_of control_op_aliases value = Some target \<Longrightarrow> canonical_op target"
  by (auto simp: control_op_aliases_def canonical_op_def split: if_splits) (code_simp+)?

interpretation control_op: normaliser normalize_control_op "\<lambda>op. op" canonical_op
proof
  show "canonical_op (normalize_control_op op)" for op
    by (auto simp: normalize_control_op_def Let_def map_of_alias map_of_eq_None_iff canonical_op_def [of "strip op"]
        split: option.split)
  show "normalize_control_op op = op" if "canonical_op op" for op
    using that by (simp add: normalize_control_op_def canonical_op_def map_of_eq_None_iff [THEN iffD2])
qed

interpretation ack_status: normaliser normalize_ack_status "\<lambda>s. s" "\<lambda>s. s \<in> set (removeAll ''completed'' ack_statuses)"
proof
  show "normalize_ack_status s \<in> set (removeAll ''completed'' ack_statuses)" for s
    by (auto simp: normalize_ack_status_def Let_def ack_statuses_def)
  have "lower s = s" if "s \<in> set ack_statuses" for s
    using that by (auto simp: ack_statuses_def) code_simp+
  then show "normalize_ack_status s = s" if "s \<in> set (removeAll ''completed'' ack_statuses)" for s
    using that by (simp add: normalize_ack_status_def)
qed

definition command_statuses :: "string list" where
  "command_statuses = [''accepted'', ''running'', ''succeeded'', ''failed'', ''rejected'', ''expired'']"

interpretation command_status: normaliser command_status_from_ack "\<lambda>s. s" "\<lambda>s. s \<in> set command_statuses"
proof
  show "command_status_from_ack s \<in> set command_statuses" for s
    using ack_status.norm_lands [of s]
    by (auto simp: command_status_from_ack_def Let_def ack_statuses_def command_statuses_def)
  show "command_status_from_ack s = s" if "s \<in> set command_statuses" for s
  proof -
    have "s \<in> set (removeAll ''completed'' ack_statuses)" using that by (auto simp: command_statuses_def ack_statuses_def)
    then have "normalize_ack_status s = s" by (rule ack_status.norm_fixes)
    then show ?thesis using that by (auto simp: command_status_from_ack_def command_statuses_def)
  qed
qed

subsection \<open>The clock\<close>

text \<open>The seconds of a millisecond count of a contemporary date, and the milliseconds read back from them.\<close>

lemma seconds_error:
  assumes "2 ^ 40 < ms" "ms < 2147483648000"
  shows "\<bar>to_double (of_int ms / 1000) - of_int ms / 1000\<bar> \<le> 2 powi (- 23)"
proof -
  have "(2 :: rat) powi 30 \<le> of_int ms / 1000" "of_int ms / 1000 < (2 :: rat) powi (30 + 1)"
    using assms by simp_all
  from to_double_error_at [OF this] show ?thesis by simp
qed

lemma milliseconds_exact:
  assumes "2 ^ 40 < ms" "ms < 2147483648000" "\<bar>x - of_int ms / 1000\<bar> \<le> 2 powi (- 23)"
  shows "to_double (x * 1000) = of_int ms"
proof -
  have x: "\<bar>x - of_int ms / 1000\<bar> \<le> 1 / 8388608" using assms(3) by (simp add: power_int_minus field_simps)
  have ms: "(1099511627777 :: rat) \<le> of_int ms" "of_int ms \<le> (2147483647999 :: rat)"
    using assms(1,2) by simp_all
  have "(2 :: rat) powi 40 \<le> x * 1000" "x * 1000 < (2 :: rat) powi (40 + 1)"
    using x ms by (simp; linarith)+
  moreover have "\<bar>x * 1000 - of_int (ms * 4096) * 2 powi (40 - 52)\<bar> < 2 powi (40 - 53)"
  proof -
    have "of_int (ms * 4096) * 2 powi (40 - 52) = (of_int ms :: rat)" "(2 :: rat) powi (40 - 53) = 1 / 8192"
      by (simp_all add: power_int_minus)
    moreover have "\<bar>x * 1000 - of_int ms\<bar> < 1 / 8192" using x by linarith
    ultimately show ?thesis by (simp only:)
  qed
  ultimately have "to_double (x * 1000) = of_int (ms * 4096) * 2 powi (40 - 52)" by (rule to_double_near)
  then show ?thesis by (simp add: power_int_minus)
qed

lemma unix_ms_eq:
  assumes "2 ^ 40 < ms" "ms < 2147483648000"
  shows "unix_ms (ms * 1000) = ms"
proof -
  have "of_int (ms * 1000) / 1000000 = (of_int ms / 1000 :: rat)" by simp
  then have "to_double (timestamp_of (ms * 1000) * 1000) = of_int ms"
    using milliseconds_exact [OF assms seconds_error [OF assms]] by (simp only: timestamp_of_def)
  then show ?thesis using assms by (simp add: unix_ms_def py_trunc_def)
qed

lemma unix_ms_near:
  assumes "0 < ms" "ms < 2 ^ 41"
  shows "unix_ms (ms * 1000) = ms \<or> unix_ms (ms * 1000) = ms - 1"
proof -
  define m x y where "m = (of_int ms :: rat)" and "x = to_double (m / 1000)" and "y = to_double (x * 1000)"
  have m: "1 \<le> m" "m \<le> 2199023255552" using assms by (simp_all add: m_def)
  have "\<bar>x - m / 1000\<bar> \<le> \<bar>m / 1000\<bar> / 2 ^ 53" unfolding x_def by (rule to_double_error)
  then have x: "\<bar>x - m / 1000\<bar> \<le> m / 9007199254740992000" using m by simp
  then have x': "0 \<le> x * 1000" "x * 1000 \<le> 2 * m" using m by linarith+
  have "\<bar>y - x * 1000\<bar> \<le> \<bar>x * 1000\<bar> / 2 ^ 53" unfolding y_def by (rule to_double_error)
  then have "\<bar>y - x * 1000\<bar> \<le> x * 1000 / 9007199254740992" using x' by simp
  then have y: "\<bar>y - m\<bar> < 1" using x x' m by linarith
  then have "0 \<le> y" "m - 1 < y" "y < m + 1" using m by linarith+
  then have "\<lfloor>y\<rfloor> = ms \<or> \<lfloor>y\<rfloor> = ms - 1"
    by (cases "m \<le> y") (auto simp: floor_eq_iff m_def)
  moreover have "unix_ms (ms * 1000) = \<lfloor>y\<rfloor>"
    using \<open>0 \<le> y\<close> by (simp add: unix_ms_def py_trunc_def timestamp_of_def y_def x_def m_def)
  ultimately show ?thesis by simp
qed

lemma fromtimestamp_ms:
  assumes "2 ^ 40 < ms" "ms < 2147483648000"
  shows "from_timestamp (Fin (to_double (of_int ms / 1000))) = Some (Aware (ms * 1000))"
proof -
  define x where "x = to_double (of_int ms / 1000)"
  have "\<bar>x - of_int ms / 1000\<bar> \<le> 1 / 8388608"
    using seconds_error [OF assms] by (simp add: x_def power_int_minus field_simps)
  then have "\<bar>x * 1000000 - of_int (ms * 1000)\<bar> < 1 / 2"
    unfolding of_int_mult of_int_numeral by linarith
  then have "round_half_even (x * 1000000) = ms * 1000" by (rule round_half_even_near)
  then show ?thesis using assms by (simp add: from_timestamp.simps(1) from_micros_def flip: x_def)
qed

lemma fromtimestamp_near:
  assumes "0 < ms" "ms < 2 ^ 41"
  shows "from_timestamp (Fin (to_double (of_int ms / 1000))) = Some (Aware (ms * 1000))"
proof -
  define m x where "m = (of_int ms :: rat)" and "x = to_double (m / 1000)"
  have m: "0 < m" "m \<le> 2199023255552" using assms by (simp_all add: m_def)
  have "\<bar>x - m / 1000\<bar> \<le> \<bar>m / 1000\<bar> / 2 ^ 53" unfolding x_def by (rule to_double_error)
  then have "\<bar>x - m / 1000\<bar> \<le> m / 9007199254740992000" using m by simp
  then have "\<bar>x * 1000000 - m * 1000\<bar> < 1 / 2" using m by linarith
  then have "\<bar>x * 1000000 - of_int (ms * 1000)\<bar> < 1 / 2" by (simp add: m_def)
  then have "round_half_even (x * 1000000) = ms * 1000" by (rule round_half_even_near)
  then show ?thesis using assms by (simp add: from_timestamp.simps(1) from_micros_def flip: x_def m_def)
qed

text \<open>Past January 2038 the envelope's clock may lag the instant it is given by a millisecond.\<close>

lemma unix_ms_lags: "unix_ms (2147483648002 * 1000) = 2147483648001"
proof -
  have "(2 :: rat) powi 31 \<le> of_int (2147483648002 * 1000) / 1000000" by simp
  then have "timestamp_of (2147483648002 * 1000) = of_int 4503599627374690 * 2 powi (31 - 52)"
    unfolding timestamp_of_def by (rule to_double_near) (simp_all add: power_int_minus)
  then have x: "timestamp_of (2147483648002 * 1000) = 4503599627374690 / 2097152" by (simp add: power_int_minus)
  have "to_double (4503599627374690 / 2097152 * 1000) = of_int 8796093022216191 * 2 powi (40 - 52)"
    by (rule to_double_near) (simp_all add: power_int_minus)
  then have "to_double (timestamp_of (2147483648002 * 1000) * 1000) = 8796093022216191 / 4096"
    unfolding x by (simp add: power_int_minus)
  then have "unix_ms (2147483648002 * 1000) = py_trunc (8796093022216191 / 4096)" by (simp only: unix_ms_def)
  then show ?thesis by (simp add: py_trunc_def floor_eq_iff)
qed

subsection \<open>Properties\<close>

definition op_candidate :: "json_object \<Rightarrow> string option \<Rightarrow> string option" where
  "op_candidate payload explicit_op =
     (if some_text explicit_op then explicit_op
      else case find (\<lambda>key. op_text payload key \<noteq> None) [''op'', ''type'', ''command''] of
        Some key \<Rightarrow> op_text payload key | None \<Rightarrow> Some ''device.command'')"

text \<open>
  The op of an envelope is canonical, without surrounding blanks and never an alias, and a second
  normalisation leaves it as it is; it is the normal form of the first non-empty candidate, so it is empty
  exactly when that candidate is blank, in which case later candidates are not consulted.
\<close>

theorem envelope_op_canonical:
  "canonical_op (infer_op payload explicit_op)
   \<and> normalize_control_op (infer_op payload explicit_op) = infer_op payload explicit_op
   \<and> (case op_candidate payload explicit_op of None \<Rightarrow> False
      | Some s \<Rightarrow> s \<noteq> [] \<and> infer_op payload explicit_op = normalize_control_op s
          \<and> (infer_op payload explicit_op = [] \<longleftrightarrow> blank s))"
proof -
  have default: "canonical_op ''device.command''" by code_simp
  have cand: "case op_candidate payload explicit_op of None \<Rightarrow> False
      | Some s \<Rightarrow> s \<noteq> [] \<and> infer_op payload explicit_op = normalize_control_op s"
  proof (cases "some_text explicit_op")
    case True
    then show ?thesis by (auto simp: op_candidate_def infer_op_def some_text_iff)
  next
    case False
    show ?thesis
    proof (cases "find (\<lambda>key. op_text payload key \<noteq> None) [''op'', ''type'', ''command'']")
      case None
      then show ?thesis using False control_op.norm_fixes [OF default]
        by (simp only: op_candidate_def infer_op_def if_False option.case) simp
    next
      case (Some key)
      then obtain s where s: "op_text payload key = Some s" by (blast dest: find_SomeD)
      then have "s \<noteq> []" by (auto simp: op_text_def split: option.splits json.splits if_splits)
      then show ?thesis using False Some s
        by (simp only: op_candidate_def infer_op_def if_False option.case option.sel simp_thms)
    qed
  qed
  then obtain s where s: "op_candidate payload explicit_op = Some s" "s \<noteq> []"
      "infer_op payload explicit_op = normalize_control_op s"
    by (auto split: option.splits)
  have "normalize_control_op s = [] \<longleftrightarrow> blank s"
    by (auto simp: normalize_control_op_def Let_def blank_def control_op_aliases_def split: if_splits)
  then show ?thesis using s control_op.norm_lands [of s] control_op.norm_idem [of s] by simp
qed

text \<open>
  An acknowledgement, however it is worded, becomes one of the six states of a command: every word
  outside the vocabulary, and one the device does not support, is a failure, and mapping a state again
  changes nothing.
\<close>

theorem acknowledgement_states:
  "range command_status_from_ack = set command_statuses
   \<and> command_status_from_ack (command_status_from_ack status) = command_status_from_ack status
   \<and> (if lower status \<in> set ack_statuses then True else command_status_from_ack status = ''failed'')"
  using command_status.norm_range command_status.norm_idem [of status]
  by (auto simp: command_status_from_ack_def normalize_ack_status_def ack_statuses_def Let_def)

end
