(* ===== verification/Turn_Decision.thy ===== *)
theory Turn_Decision
  imports Python_Values Sha256
begin

text \<open>
  The committed user turn of \<open>biz/dialogue_control\<close>: its evidence, the metadata it travels as and the
  strict parser of that metadata, with the interrupt intents.
\<close>

datatype turn_commit_boundary = Framework_Completed | Ptt_Segment

fun boundary_text :: "turn_commit_boundary \<Rightarrow> string" where
  "boundary_text Framework_Completed = ''framework_completed_turn''"
| "boundary_text Ptt_Segment = ''ptt_segment_commit''"

definition boundary_of_text :: "string \<Rightarrow> turn_commit_boundary option" where
  "boundary_of_text s = find (\<lambda>b. boundary_text b = s) [Framework_Completed, Ptt_Segment]"

datatype interrupt_intent =
  Hard_Stop | Topic_Switch | Correction | Backchannel | Noise | Normal_Interrupt | Uncertain

record interrupt_intent_result =
  ii_intent :: interrupt_intent
  ii_confidence :: pyfloat
  ii_source :: string
  ii_reason :: string

definition turn_decision_schema_version :: int where
  "turn_decision_schema_version = 1"

definition committed_turn_text_sha256 :: "string \<Rightarrow> string" where
  "committed_turn_text_sha256 text' = sha256_hex (utf8 (strip text'))"

record turn_evidence =
  te_boundary :: turn_commit_boundary
  te_transcript_final :: bool
  te_vad_terminal :: bool
  te_transcript_sha256 :: string
  te_eot_score :: "pyfloat option"

definition evidence_metadata :: "turn_evidence \<Rightarrow> json" where
  "evidence_metadata e =
     JObj ([(''boundary'', JStr (boundary_text (te_boundary e))), (''transcript_final'', JBool (te_transcript_final e)),
            (''vad_terminal'', JBool (te_vad_terminal e)), (''transcript_sha256'', JStr (te_transcript_sha256 e))]
           @ (case te_eot_score e of None \<Rightarrow> [] | Some x \<Rightarrow> [(''eot_score'', JFloat x)]))"

record turn_decision =
  td_evidence :: turn_evidence
  td_schema_version :: int

definition decision_metadata :: "turn_decision \<Rightarrow> json" where
  "decision_metadata d =
     JObj [(''schema_version'', JInt (td_schema_version d)), (''decision'', JStr ''commit''),
           (''evidence'', evidence_metadata (td_evidence d))]"

subsection \<open>Reading\<close>

text \<open>\<open>float(n)\<close> of a large int is an OverflowError, which is no ValueError.\<close>

datatype turn_fault = Value_Error string | Overflow_Error

definition int_to_float :: "int \<Rightarrow> rat option" where
  "int_to_float n = (if 2 ^ 1024 - 2 ^ 970 \<le> \<bar>n\<bar> then None else Some (to_double (of_int n)))"

definition within_unit :: "pyfloat \<Rightarrow> bool" where
  "within_unit x = (case x of Fin q \<Rightarrow> 0 \<le> q \<and> q \<le> 1 | _ \<Rightarrow> False)"

definition unit_float :: "pyfloat \<Rightarrow> turn_fault + pyfloat" where
  "unit_float x = guarded [(\<not> within_unit x, Value_Error ''eot_score must be between 0 and 1'')] x"

fun score :: "json \<Rightarrow> turn_fault + pyfloat" where
  "score (JInt n) = and_then (or_raise Overflow_Error (int_to_float n)) (\<lambda>q. unit_float (Fin q))"
| "score (JFloat x) = unit_float x"
| "score _ = Inl (Value_Error ''eot_score must be a number'')"

definition optional_score :: "json option \<Rightarrow> turn_fault + pyfloat option" where
  "optional_score v =
     (case v of None \<Rightarrow> Inr None | Some JNull \<Rightarrow> Inr None | Some x \<Rightarrow> and_then (score x) (\<lambda>q. Inr (Some q)))"

definition as_mapping :: "string \<Rightarrow> json option \<Rightarrow> turn_fault + json_object" where
  "as_mapping field v =
     (case v of Some (JObj kvs) \<Rightarrow> Inr kvs | _ \<Rightarrow> Inl (Value_Error (field @ '' must be an object'')))"

definition nonempty_string :: "string \<Rightarrow> json option \<Rightarrow> turn_fault + string" where
  "nonempty_string field v =
     (case v of Some (JStr s) \<Rightarrow> guarded [(blank s, Value_Error (field @ '' must be a non-empty string''))] (strip s)
      | _ \<Rightarrow> Inl (Value_Error (field @ '' must be a non-empty string'')))"

definition create_turn_decision ::
  "string \<Rightarrow> turn_commit_boundary \<Rightarrow> json option \<Rightarrow> turn_fault + turn_decision" where
  "create_turn_decision text' boundary eot_score =
     and_then (optional_score eot_score) (\<lambda>x.
     Inr \<lparr>td_evidence = \<lparr>te_boundary = boundary, te_transcript_final = True, te_vad_terminal = True,
            te_transcript_sha256 = committed_turn_text_sha256 text', te_eot_score = x\<rparr>,
          td_schema_version = turn_decision_schema_version\<rparr>)"

text \<open>\<open>version != 1\<close> lets \<open>1.0\<close> pass but not \<open>True\<close>.\<close>

definition version_ok :: "json option \<Rightarrow> bool" where
  "version_ok v =
     (case v of Some (JBool b) \<Rightarrow> False | Some x \<Rightarrow> py_eq x (JInt turn_decision_schema_version) | None \<Rightarrow> False)"

definition decision_from_metadata :: "json option \<Rightarrow> turn_fault + turn_decision" where
  "decision_from_metadata v =
     and_then (as_mapping ''turn_decision'' v) (\<lambda>root'.
     and_then (guarded
       [(\<not> version_ok (map_of root' ''schema_version''), Value_Error ''unsupported turn decision schema''),
        (map_of root' ''decision'' \<noteq> Some (JStr ''commit''), Value_Error ''turn decision must be a committed decision'')] ()) (\<lambda>_.
     and_then (as_mapping ''evidence'' (map_of root' ''evidence'')) (\<lambda>ev.
     and_then (guarded
       [(map_of ev ''transcript_final'' \<noteq> Some (JBool True) \<or> map_of ev ''vad_terminal'' \<noteq> Some (JBool True),
         Value_Error ''committed turn evidence must be final and VAD-terminal'')] ()) (\<lambda>_.
     and_then (nonempty_string ''transcript_sha256'' (map_of ev ''transcript_sha256'')) (\<lambda>digest.
     and_then (guarded
       [(length digest \<noteq> 64 \<or> \<not> list_all is_lower_hex digest,
         Value_Error ''transcript_sha256 must be lowercase SHA-256 hex'')] ()) (\<lambda>_.
     and_then (reraise (\<lambda>_. Value_Error ''invalid turn decision enum'') (nonempty_string ''boundary'' (map_of ev ''boundary''))) (\<lambda>b.
     and_then (or_raise (Value_Error ''invalid turn decision enum'') (boundary_of_text b)) (\<lambda>boundary.
     and_then (optional_score (map_of ev ''eot_score'')) (\<lambda>x.
     Inr \<lparr>td_evidence = \<lparr>te_boundary = boundary, te_transcript_final = True, te_vad_terminal = True,
            te_transcript_sha256 = digest, te_eot_score = x\<rparr>,
          td_schema_version = turn_decision_schema_version\<rparr>)))))))))"

definition matches_text :: "turn_decision \<Rightarrow> string option \<Rightarrow> bool" where
  "matches_text d text' =
     (case text' of None \<Rightarrow> False
      | Some t \<Rightarrow> t \<noteq> [] \<and> te_transcript_sha256 (td_evidence d) = committed_turn_text_sha256 t)"

subsection \<open>Lemmas\<close>

definition wf_turn_decision :: "turn_decision \<Rightarrow> bool" where
  "wf_turn_decision d \<longleftrightarrow>
     td_schema_version d = turn_decision_schema_version
     \<and> te_transcript_final (td_evidence d) \<and> te_vad_terminal (td_evidence d)
     \<and> length (te_transcript_sha256 (td_evidence d)) = 64 \<and> list_all is_lower_hex (te_transcript_sha256 (td_evidence d))
     \<and> opt_ok within_unit (te_eot_score (td_evidence d))"

lemma unit_float_Inr: "unit_float x = Inr y \<longleftrightarrow> y = x \<and> within_unit x"
  by (auto simp: unit_float_def guard_simps)

lemma score_within: "score v = Inr x \<Longrightarrow> within_unit x"
  by (cases v) (auto simp: guard_simps unit_float_Inr)

lemma optional_score_within: "optional_score v = Inr x \<Longrightarrow> opt_ok within_unit x"
  by (auto simp: optional_score_def guard_simps unit_float_Inr dest: score_within split: option.splits json.splits)

lemma boundary_of_text_iff: "boundary_of_text s = Some b \<longleftrightarrow> s = boundary_text b"
  by (cases b) (auto simp: boundary_of_text_def)

lemma boundary_read_back [simp]: "boundary_of_text (boundary_text b) = Some b"
  by (simp add: boundary_of_text_iff)

lemma hex_not_space: "is_lower_hex c \<Longrightarrow> \<not> is_space c"
  by (auto simp: char_class_defs is_space_def)

lemma strip_boundary: "strip (boundary_text b) = boundary_text b"
  by (rule strip_solid) (cases b; simp add: is_space_def)

lemma strip_hex: "list_all is_lower_hex s \<Longrightarrow> strip s = s"
  by (rule strip_solid) (auto simp: list_all_iff hex_not_space)

lemma nonempty_string_solid: "strip s = s \<Longrightarrow> s \<noteq> [] \<Longrightarrow> nonempty_string field (Some (JStr s)) = Inr s"
  by (simp add: nonempty_string_def guarded_simps blank_def)

lemma optional_score_float: "opt_ok within_unit x \<Longrightarrow> optional_score (map_option JFloat x) = Inr x"
  by (cases x) (auto simp: optional_score_def unit_float_Inr [THEN iffD2])

lemma version_ok_own: "version_ok (Some (JInt turn_decision_schema_version))"
  by (simp add: version_ok_def turn_decision_schema_version_def)

text \<open>A well-formed decision is read back from its metadata; what is read or created is well formed.\<close>

lemma decision_read_back:
  assumes "wf_turn_decision d"
  shows "decision_from_metadata (Some (decision_metadata d)) = Inr d"
proof -
  obtain e v where d: "d = \<lparr>td_evidence = e, td_schema_version = v\<rparr>" by (cases d)
  obtain b f t h x where e: "e = \<lparr>te_boundary = b, te_transcript_final = f, te_vad_terminal = t,
      te_transcript_sha256 = h, te_eot_score = x\<rparr>" by (cases e)
  have wf: "v = turn_decision_schema_version" "f" "t" "length h = 64" "list_all is_lower_hex h" "opt_ok within_unit x"
    using assms by (simp_all add: wf_turn_decision_def d e)
  define kvs where "kvs = [(''boundary'', JStr (boundary_text b)), (''transcript_final'', JBool f),
      (''vad_terminal'', JBool t), (''transcript_sha256'', JStr h)] @ (case x of None \<Rightarrow> [] | Some y \<Rightarrow> [(''eot_score'', JFloat y)])"
  have lookups: "map_of kvs ''boundary'' = Some (JStr (boundary_text b))" "map_of kvs ''transcript_final'' = Some (JBool f)"
    "map_of kvs ''vad_terminal'' = Some (JBool t)" "map_of kvs ''transcript_sha256'' = Some (JStr h)"
    "map_of kvs ''eot_score'' = map_option JFloat x"
    by (simp_all add: kvs_def split: option.split)
  have h: "nonempty_string ''transcript_sha256'' (Some (JStr h)) = Inr h"
    using wf by (auto intro: nonempty_string_solid strip_hex)
  have b: "nonempty_string ''boundary'' (Some (JStr (boundary_text b))) = Inr (boundary_text b)"
    by (rule nonempty_string_solid) (simp add: strip_boundary, cases b, simp_all)
  have "decision_metadata d = JObj [(''schema_version'', JInt v), (''decision'', JStr ''commit''), (''evidence'', JObj kvs)]"
    by (simp add: decision_metadata_def evidence_metadata_def d e kvs_def)
  then show ?thesis
    using wf version_ok_own
    by (simp add: decision_from_metadata_def as_mapping_def guarded_simps lookups h b optional_score_float d e)
qed

lemma read_decision_wf:
  assumes "decision_from_metadata v = Inr d"
  shows "wf_turn_decision d"
  using assms optional_score_within
  by (auto simp: decision_from_metadata_def wf_turn_decision_def guard_simps)

lemma created_decision_wf: "create_turn_decision t b x = Inr d \<Longrightarrow> wf_turn_decision d"
  using optional_score_within
  by (auto simp: create_turn_decision_def wf_turn_decision_def guard_simps committed_turn_text_sha256_def)

interpretation turn_metadata:
  codec "\<lambda>d. Some (decision_metadata d)" "\<lambda>v. case decision_from_metadata v of Inl _ \<Rightarrow> None | Inr d \<Rightarrow> Some d" wf_turn_decision
  by unfold_locales (simp add: decision_read_back)

subsection \<open>Properties\<close>

text \<open>
  A committed turn survives its metadata: a created decision reads back as itself from what it
  travels as, whatever other metadata is accepted reads as a decision that travels and reads back
  unchanged, and a decision matches every non-empty spelling of its transcript that differs only in
  surrounding blanks.
\<close>

theorem turn_decision_read_back:
  "(case create_turn_decision text' boundary eot_score of
      Inl _ \<Rightarrow> True
    | Inr d \<Rightarrow> decision_from_metadata (Some (decision_metadata d)) = Inr d
        \<and> (if t \<noteq> [] \<and> strip t = strip text' then matches_text d (Some t) else True))
   \<and> (case decision_from_metadata v of
        Inl _ \<Rightarrow> True
      | Inr d \<Rightarrow> decision_from_metadata (Some (decision_metadata d)) = Inr d)"
proof (intro conjI)
  have "matches_text d (Some t)"
    if "create_turn_decision text' boundary eot_score = Inr d" "t \<noteq> []" "strip t = strip text'" for d
    using that by (auto simp: create_turn_decision_def matches_text_def committed_turn_text_sha256_def guard_simps)
  then show "case create_turn_decision text' boundary eot_score of
      Inl _ \<Rightarrow> True
    | Inr d \<Rightarrow> decision_from_metadata (Some (decision_metadata d)) = Inr d
        \<and> (if t \<noteq> [] \<and> strip t = strip text' then matches_text d (Some t) else True)"
    by (auto dest: created_decision_wf decision_read_back split: sum.split)
  show "case decision_from_metadata v of Inl _ \<Rightarrow> True | Inr d \<Rightarrow> decision_from_metadata (Some (decision_metadata d)) = Inr d"
    by (auto dest: read_decision_wf decision_read_back split: sum.split)
qed

text \<open>
  The strict reader does not keep its promise of a ValueError: metadata that is otherwise that of a
  well-formed decision but carries an integer score beyond the range of a float leaves it with an
  OverflowError.
\<close>

theorem huge_score_escapes:
  assumes "wf_turn_decision d" "2 ^ 1024 \<le> n"
  shows "decision_from_metadata (Some (JObj [(''schema_version'', JInt 1), (''decision'', JStr ''commit''),
      (''evidence'', JObj [(''boundary'', JStr (boundary_text (te_boundary (td_evidence d)))),
         (''transcript_final'', JBool True), (''vad_terminal'', JBool True),
         (''transcript_sha256'', JStr (te_transcript_sha256 (td_evidence d))), (''eot_score'', JInt n)])])) = Inl Overflow_Error"
proof -
  let ?h = "te_transcript_sha256 (td_evidence d)" and ?b = "te_boundary (td_evidence d)"
  have h: "length ?h = 64" "list_all is_lower_hex ?h" using assms(1) by (simp_all add: wf_turn_decision_def)
  then have "nonempty_string ''transcript_sha256'' (Some (JStr ?h)) = Inr ?h"
    by (auto intro: nonempty_string_solid strip_hex)
  moreover have "nonempty_string ''boundary'' (Some (JStr (boundary_text ?b))) = Inr (boundary_text ?b)"
    by (rule nonempty_string_solid) (simp add: strip_boundary, cases ?b, simp_all)
  moreover have "int_to_float n = None"
  proof -
    have "(2 :: int) ^ 1024 - 2 ^ 970 \<le> 2 ^ 1024" by simp
    then show ?thesis using assms(2) unfolding int_to_float_def by (smt (verit) zero_less_power)
  qed
  moreover have "version_ok (Some (JInt 1))" by (simp add: version_ok_def turn_decision_schema_version_def)
  ultimately show ?thesis using h
    by (simp add: decision_from_metadata_def as_mapping_def guarded_simps optional_score_def)
qed

definition sample_turn_decision :: turn_decision where
  "sample_turn_decision =
     \<lparr>td_evidence = \<lparr>te_boundary = Ptt_Segment, te_transcript_final = True, te_vad_terminal = True,
        te_transcript_sha256 = replicate 64 (CHR ''0''), te_eot_score = None\<rparr>, td_schema_version = 1\<rparr>"

lemma huge_score_escapes_witness:
  "decision_from_metadata (Some (JObj [(''schema_version'', JInt 1), (''decision'', JStr ''commit''),
      (''evidence'', JObj [(''boundary'', JStr ''ptt_segment_commit''),
         (''transcript_final'', JBool True), (''vad_terminal'', JBool True),
         (''transcript_sha256'', JStr (replicate 64 (CHR ''0''))), (''eot_score'', JInt (2 ^ 1024))])])) = Inl Overflow_Error"
proof -
  have "wf_turn_decision sample_turn_decision"
    by (simp add: sample_turn_decision_def wf_turn_decision_def turn_decision_schema_version_def list_all_iff char_class_defs)
  from huge_score_escapes [OF this, of "2 ^ 1024"] show ?thesis by (simp add: sample_turn_decision_def)
qed

end
