(* ===== verification/Shared_Session.thy ===== *)
theory Shared_Session
  imports Lifecycle Control_Protocol
begin

text \<open>
  Sessions over several devices, \<open>biz/control\<close>: the opaque channel binding, the shared-session
  selection and invitation with its command, the single-Companion device conversation and the
  role-group scene (\<open>channel_binding.py\<close>, \<open>shared_session.py\<close>, \<open>device_conversation.py\<close>,
  \<open>coordination.py\<close>).
\<close>

text \<open>\<open>^[A-Za-z0-9_.:-]+$\<close> within a length.\<close>

definition session_identifier :: "nat \<Rightarrow> string \<Rightarrow> bool" where
  "session_identifier n s \<longleftrightarrow> len_between 1 n s \<and> list_all conversation_id_char s"

definition device_domain :: "device_ref \<Rightarrow> string \<times> int" where
  "device_domain d = (owner_domain_id d, owner_domain_generation d)"

text \<open>\<open>len({...}) != 1\<close> of the domains.\<close>

definition mixed_domains :: "device_ref list \<Rightarrow> bool" where
  "mixed_domains ds \<longleftrightarrow> length (remdups (map device_domain ds)) \<noteq> 1"

subsection \<open>Channel binding\<close>

record channel_binding =
  cb_channel_id :: string
  cb_purpose :: string
  cb_kinds :: "string list"
  cb_binding_format :: string
  cb_issued_at_ms :: int
  cb_expires_at_ms :: int
  cb_opaque_binding :: string

definition channel_binding_fields :: "channel_binding \<Rightarrow> (string \<times> bool) list" where
  "channel_binding_fields b =
     [(''channel_id'', len_between 1 128 (cb_channel_id b)), (''purpose'', len_between 1 64 (cb_purpose b)),
      (''kinds'', len_between 1 8 (cb_kinds b)), (''binding_format'', len_between 1 128 (cb_binding_format b)),
      (''issued_at_ms'', 0 \<le> cb_issued_at_ms b), (''expires_at_ms'', 0 < cb_expires_at_ms b),
      (''opaque_binding'', len_between 1 131072 (cb_opaque_binding b))]"

definition make_channel_binding :: "channel_binding \<Rightarrow> string invalid + channel_binding" where
  "make_channel_binding b = build (channel_binding_fields b) [] b"

definition wf_channel_binding :: "channel_binding \<Rightarrow> bool" where
  "wf_channel_binding b \<longleftrightarrow> admissible (channel_binding_fields b) no_rules"

interpretation channel_bindings: model_class make_channel_binding wf_channel_binding
  by (rule build_class; simp add: make_channel_binding_def wf_channel_binding_def)

definition channel_binding_json :: "channel_binding \<Rightarrow> json" where
  "channel_binding_json b =
     JObj [(''channel_id'', JStr (cb_channel_id b)), (''purpose'', JStr (cb_purpose b)),
       (''kinds'', JArr (map JStr (cb_kinds b))), (''binding_format'', JStr (cb_binding_format b)),
       (''issued_at_ms'', JInt (cb_issued_at_ms b)), (''expires_at_ms'', JInt (cb_expires_at_ms b)),
       (''opaque_binding'', JStr (cb_opaque_binding b))]"

subsection \<open>Shared sessions\<close>

record shared_session_selection =
  ss_session_id :: string
  ss_devices :: "device_ref list"
  ss_input_device_id :: string

definition shared_selection_fields :: "shared_session_selection \<Rightarrow> (string \<times> bool) list" where
  "shared_selection_fields s =
     [(''session_id'', session_identifier 64 (ss_session_id s)),
      (''devices'', len_between 2 16 (ss_devices s) \<and> list_all wf_device_ref (ss_devices s)),
      (''input_device_id'', device_instance_id_ok (ss_input_device_id s))]"

definition shared_selection_rules :: "shared_session_selection \<Rightarrow> (bool \<times> string) list" where
  "shared_selection_rules s =
     (let ids = map device_instance_id (ss_devices s)
      in [(has_duplicates ids, ''DUPLICATE_DEVICE''),
          (ss_input_device_id s \<notin> set ids, ''INPUT_DEVICE_NOT_SELECTED''),
          (mixed_domains (ss_devices s), ''MIXED_OWNER_DOMAIN'')])"

definition make_shared_selection :: "shared_session_selection \<Rightarrow> string invalid + shared_session_selection" where
  "make_shared_selection s = build (shared_selection_fields s) (shared_selection_rules s) s"

definition wf_shared_selection :: "shared_session_selection \<Rightarrow> bool" where
  "wf_shared_selection s \<longleftrightarrow> admissible (shared_selection_fields s) (shared_selection_rules s)"

interpretation shared_selections: model_class make_shared_selection wf_shared_selection
  by (rule build_class; simp add: make_shared_selection_def wf_shared_selection_def)

text \<open>A version that is present must be an \<open>int\<close>, not a \<open>bool\<close> or a float; it is checked on the raw value.\<close>

definition integer_version :: "string list \<Rightarrow> string \<Rightarrow> json \<Rightarrow> string + json" where
  "integer_version keys message value =
     (case value of
        JObj kvs \<Rightarrow>
          guarded (map (\<lambda>k. (case map_of kvs k of None \<Rightarrow> False | Some (JInt n) \<Rightarrow> False | Some _ \<Rightarrow> True, message)) keys) value
      | _ \<Rightarrow> Inr value)"

definition shared_selection_version :: "json \<Rightarrow> string + json" where
  "shared_selection_version = integer_version [''schema_version''] ''SCHEMA_VERSION_MUST_BE_INTEGER''"

record shared_session_invitation =
  si_session_id :: string
  si_device_ref :: device_ref
  si_deadline_ms :: int
  si_channel :: channel_binding

definition invitation_fields :: "shared_session_invitation \<Rightarrow> (string \<times> bool) list" where
  "invitation_fields i =
     [(''session_id'', session_identifier 64 (si_session_id i)), (''device_ref'', wf_device_ref (si_device_ref i)),
      (''deadline_ms'', 0 < si_deadline_ms i), (''channel'', wf_channel_binding (si_channel i))]"

definition invitation_rules :: "shared_session_invitation \<Rightarrow> (bool \<times> string) list" where
  "invitation_rules i =
     [(cb_purpose (si_channel i) \<noteq> ''shared-session'', ''TEMPORARY_SHARED_CHANNEL_REQUIRED''),
      (\<not> (cb_issued_at_ms (si_channel i) < si_deadline_ms i \<and> si_deadline_ms i \<le> cb_expires_at_ms (si_channel i)),
       ''INVITATION_DEADLINE_OUTSIDE_GRANT'')]"

definition make_invitation :: "shared_session_invitation \<Rightarrow> string invalid + shared_session_invitation" where
  "make_invitation i = build (invitation_fields i) (invitation_rules i) i"

definition wf_invitation :: "shared_session_invitation \<Rightarrow> bool" where
  "wf_invitation i \<longleftrightarrow> admissible (invitation_fields i) (invitation_rules i)"

interpretation invitations: model_class make_invitation wf_invitation
  by (rule build_class; simp add: make_invitation_def wf_invitation_def)

definition invitation_payload :: "shared_session_invitation \<Rightarrow> json_object" where
  "invitation_payload i =
     [(''schema_version'', JInt 1), (''session_id'', JStr (si_session_id i)),
      (''device_ref'', device_ref_json (si_device_ref i)), (''deadline_ms'', JInt (si_deadline_ms i)),
      (''channel'', channel_binding_json (si_channel i))]"

text \<open>The issue time passes through a float of seconds; a year past 9999 is refused by the datetime.\<close>

definition invitation_command :: "shared_session_invitation \<Rightarrow> string \<Rightarrow> string + json_object" where
  "invitation_command i command_id =
     and_then (guarded [(blank command_id \<or> 128 < length command_id, ''INVITATION_COMMAND_ID_REQUIRED'')] ()) (\<lambda>_.
     and_then (or_raise ''year is out of range'' (from_timestamp (Fin (to_double (of_int (cb_issued_at_ms (si_channel i)) / 1000))))) (\<lambda>t.
     build_command_envelope command_id (device_instance_id (si_device_ref i)) (invitation_payload i)
       (Some ''shared-session.invite'') None (si_deadline_ms i - cb_issued_at_ms (si_channel i)) Ack Normal
       ''channel'' ''channel-provider'' (instant t)))"

subsection \<open>Device conversations\<close>

record device_conversation_selection =
  dcs_session_id :: string
  dcs_input_device :: device_ref
  dcs_output_device :: device_ref
  dcs_target_companion_id :: string

definition device_conversation_fields :: "device_conversation_selection \<Rightarrow> (string \<times> bool) list" where
  "device_conversation_fields s =
     [(''session_id'', session_identifier 64 (dcs_session_id s)), (''input_device'', wf_device_ref (dcs_input_device s)),
      (''output_device'', wf_device_ref (dcs_output_device s)),
      (''target_companion_id'', session_identifier 128 (dcs_target_companion_id s))]"

definition device_conversation_rules :: "device_conversation_selection \<Rightarrow> (bool \<times> string) list" where
  "device_conversation_rules s =
     [(device_instance_id (dcs_input_device s) = device_instance_id (dcs_output_device s), ''DISTINCT_ENDPOINTS_REQUIRED''),
      (device_domain (dcs_input_device s) \<noteq> device_domain (dcs_output_device s), ''MIXED_OWNER_DOMAIN'')]"

definition make_device_conversation ::
  "device_conversation_selection \<Rightarrow> string invalid + device_conversation_selection" where
  "make_device_conversation s = build (device_conversation_fields s) (device_conversation_rules s) s"

definition wf_device_conversation :: "device_conversation_selection \<Rightarrow> bool" where
  "wf_device_conversation s \<longleftrightarrow> admissible (device_conversation_fields s) (device_conversation_rules s)"

interpretation device_conversations: model_class make_device_conversation wf_device_conversation
  by (rule build_class; simp add: make_device_conversation_def wf_device_conversation_def)

definition conversation_devices :: "device_conversation_selection \<Rightarrow> device_ref list" where
  "conversation_devices s = [dcs_input_device s, dcs_output_device s]"

datatype session_state = Preparing | Ready | Closing | Closed | Failed

record device_conversation_status =
  dst_session_id :: string
  dst_state :: session_state
  dst_error :: string

definition make_conversation_status :: "device_conversation_status \<Rightarrow> string invalid + device_conversation_status" where
  "make_conversation_status s = build [(''session_id'', session_identifier 64 (dst_session_id s))] [] s"

subsection \<open>Role groups\<close>

record scene_role =
  sr_name :: string
  sr_description :: string

text \<open>Both texts are stripped before their lengths are checked.\<close>

definition strip_role :: "scene_role \<Rightarrow> scene_role" where
  "strip_role r = \<lparr>sr_name = trim (sr_name r), sr_description = trim (sr_description r)\<rparr>"

definition scene_role_fields :: "scene_role \<Rightarrow> (string \<times> bool) list" where
  "scene_role_fields r =
     [(''name'', len_between 1 80 (sr_name r)), (''description'', len_between 0 1000 (sr_description r))]"

definition make_scene_role :: "scene_role \<Rightarrow> string invalid + scene_role" where
  "make_scene_role r = build (scene_role_fields (strip_role r)) [] (strip_role r)"

definition wf_scene_role :: "scene_role \<Rightarrow> bool" where
  "wf_scene_role r \<longleftrightarrow> strip_role r = r \<and> admissible (scene_role_fields r) no_rules"

record coordination_member =
  cm_companion_id :: string
  cm_output_device :: device_ref
  cm_role :: "scene_role option"

definition wf_member :: "coordination_member \<Rightarrow> bool" where
  "wf_member m \<longleftrightarrow> session_identifier 128 (cm_companion_id m) \<and> wf_device_ref (cm_output_device m)
     \<and> opt_ok wf_scene_role (cm_role m)"

record coordination_selection =
  cs_session_id :: string
  cs_input_device :: device_ref
  cs_members :: "coordination_member list"
  cs_goal :: string
  cs_reply_budget :: int

definition scene_devices :: "coordination_selection \<Rightarrow> device_ref list" where
  "scene_devices s = cs_input_device s # map cm_output_device (cs_members s)"

definition coordination_fields :: "coordination_selection \<Rightarrow> (string \<times> bool) list" where
  "coordination_fields s =
     [(''session_id'', session_identifier 64 (cs_session_id s)), (''input_device'', wf_device_ref (cs_input_device s)),
      (''members'', len_between 1 16 (cs_members s) \<and> list_all wf_member (cs_members s)),
      (''goal'', len_between 0 2000 (cs_goal s)), (''reply_budget'', 1 \<le> cs_reply_budget s \<and> cs_reply_budget s \<le> 32)]"

definition coordination_rules :: "coordination_selection \<Rightarrow> (bool \<times> string) list" where
  "coordination_rules s =
     [(has_duplicates (map device_instance_id (scene_devices s)), ''INPUT_AND_OUTPUT_DEVICES_MUST_BE_DISTINCT''),
      (has_duplicates (map cm_companion_id (cs_members s)), ''DUPLICATE_COMPANION''),
      (mixed_domains (scene_devices s), ''MIXED_OWNER_DOMAIN'')]"

definition make_coordination :: "coordination_selection \<Rightarrow> string invalid + coordination_selection" where
  "make_coordination s =
     (let t = s\<lparr>cs_goal := trim (cs_goal s)\<rparr> in build (coordination_fields t) (coordination_rules t) t)"

definition coordination_version :: "json \<Rightarrow> string + json" where
  "coordination_version = integer_version [''schema_version'', ''assignment_revision''] ''VERSION_MUST_BE_INTEGER''"

record role_group_status =
  rg_session_id :: string
  rg_state :: session_state
  rg_error :: string

definition make_role_group_status :: "role_group_status \<Rightarrow> string invalid + role_group_status" where
  "make_role_group_status s = build [(''session_id'', session_identifier 128 (rg_session_id s))] [] s"

subsection \<open>Lemmas\<close>

definition one_domain :: "device_ref list \<Rightarrow> bool" where
  "one_domain ds \<longleftrightarrow> (\<exists>dom. list_all (\<lambda>d. device_domain d = dom \<and> wf_device_ref d) ds)"

lemma mixed_domains_Cons: "mixed_domains (d # ds) \<longleftrightarrow> \<not> list_all (\<lambda>e. device_domain e = device_domain d) ds"
proof -
  have "length (remdups (map device_domain (d # ds))) = card (insert (device_domain d) (device_domain ` set ds))"
    by (simp only: length_remdups_card_conv list.map list.set set_map)
  also have "\<dots> = 1 \<longleftrightarrow> device_domain ` set ds \<subseteq> {device_domain d}"
  proof
    assume "card (insert (device_domain d) (device_domain ` set ds)) = 1"
    then obtain x where "insert (device_domain d) (device_domain ` set ds) = {x}" by (rule card_1_singletonE)
    then show "device_domain ` set ds \<subseteq> {device_domain d}" by blast
  next
    assume "device_domain ` set ds \<subseteq> {device_domain d}"
    then have "insert (device_domain d) (device_domain ` set ds) = {device_domain d}" by blast
    then show "card (insert (device_domain d) (device_domain ` set ds)) = 1"
      by (metis is_singletonI is_singleton_altdef)
  qed
  finally show ?thesis by (auto simp: mixed_domains_def list_all_iff)
qed

lemma one_domain_of_rules:
  "\<not> mixed_domains ds \<Longrightarrow> list_all wf_device_ref ds \<Longrightarrow> one_domain ds"
  by (cases ds) (auto simp: one_domain_def mixed_domains_Cons list_all_iff)

lemma accepted_conversation_domain:
  "wf_device_conversation s \<Longrightarrow> one_domain (conversation_devices s)
     \<and> distinct (map device_instance_id (conversation_devices s))"
  by (auto simp: wf_device_conversation_def admissible_def device_conversation_fields_def device_conversation_rules_def
      one_domain_def conversation_devices_def)

lemma accepted_shared_domain:
  "wf_shared_selection s \<Longrightarrow> one_domain (ss_devices s) \<and> distinct (map device_instance_id (ss_devices s))
     \<and> ss_input_device_id s \<in> device_instance_id ` set (ss_devices s)"
  by (auto simp: wf_shared_selection_def admissible_def shared_selection_fields_def shared_selection_rules_def Let_def
      intro: one_domain_of_rules)

lemma make_coordination_Inr:
  "make_coordination s = Inr t \<longleftrightarrow> t = s\<lparr>cs_goal := trim (cs_goal s)\<rparr> \<and> admissible (coordination_fields t) (coordination_rules t)"
  by (auto simp: make_coordination_def Let_def build_admissible)

lemma accepted_scene_domain:
  assumes "make_coordination s = Inr t"
  shows "one_domain (scene_devices t) \<and> distinct (map device_instance_id (scene_devices t))
     \<and> distinct (map cm_companion_id (cs_members t)) \<and> make_coordination t = Inr t"
proof -
  have ok: "admissible (coordination_fields t) (coordination_rules t)" "cs_goal t = trim (cs_goal s)"
    using assms by (auto simp: make_coordination_Inr)
  then have "list_all wf_device_ref (scene_devices t)" "\<not> mixed_domains (scene_devices t)"
    by (auto simp: admissible_def coordination_fields_def coordination_rules_def scene_devices_def wf_member_def list_all_iff)
  then have "one_domain (scene_devices t)" by (rule one_domain_of_rules [rotated])
  moreover have "t\<lparr>cs_goal := trim (cs_goal t)\<rparr> = t" using ok(2) by simp
  ultimately show ?thesis using ok(1)
    by (auto simp: make_coordination_Inr) (auto simp: admissible_def coordination_rules_def)
qed

definition int_member :: "json_object \<Rightarrow> string \<Rightarrow> int" where
  "int_member kvs k = (case map_of kvs k of Some (JInt n) \<Rightarrow> n | _ \<Rightarrow> 0)"

lemma invitation_command_eq:
  assumes "0 < cb_issued_at_ms (si_channel i)" "cb_issued_at_ms (si_channel i) < 2 ^ 41"
    and "\<not> blank command_id" "length command_id \<le> 128"
  shows "\<exists>env. invitation_command i command_id = Inr env
    \<and> int_member env ''ts'' = unix_ms (cb_issued_at_ms (si_channel i) * 1000)
    \<and> int_member env ''ttl_ms'' = si_deadline_ms i - cb_issued_at_ms (si_channel i)
    \<and> map_of env ''id'' = Some (JStr command_id) \<and> map_of env ''op'' = Some (JStr ''shared-session.invite'')
    \<and> map_of env ''payload'' = Some (JObj (invitation_payload i))"
proof -
  have "infer_op (invitation_payload i) (Some ''shared-session.invite'') = ''shared-session.invite''"
  proof -
    have "canonical_op ''shared-session.invite''" by code_simp
    then show ?thesis using control_op.norm_fixes by (simp add: infer_op_def some_text_def)
  qed
  then show ?thesis using assms fromtimestamp_near [OF assms(1,2)]
    by (simp add: invitation_command_def guarded_simps build_command_envelope_def int_member_def)
qed

subsection \<open>Properties\<close>

text \<open>
  C33. No session reaches across Owners: the devices of an accepted shared session, device conversation or
  role-group scene are valid references to distinct devices of one Owner Domain in one generation; a shared
  session hears one of its own devices, a scene has no Companion twice, and an accepted scene is accepted again.
\<close>

theorem sessions_stay_in_one_domain:
  "(case make_shared_selection s of
      Inl _ \<Rightarrow> True
    | Inr t \<Rightarrow> one_domain (ss_devices t) \<and> distinct (map device_instance_id (ss_devices t))
        \<and> ss_input_device_id t \<in> device_instance_id ` set (ss_devices t))
   \<and> (case make_device_conversation c of
        Inl _ \<Rightarrow> True
      | Inr t \<Rightarrow> one_domain (conversation_devices t) \<and> distinct (map device_instance_id (conversation_devices t)))
   \<and> (case make_coordination g of
        Inl _ \<Rightarrow> True
      | Inr t \<Rightarrow> one_domain (scene_devices t) \<and> distinct (map device_instance_id (scene_devices t))
          \<and> distinct (map cm_companion_id (cs_members t)) \<and> make_coordination t = Inr t)"
  using accepted_shared_domain accepted_conversation_domain accepted_scene_domain [of g]
    shared_selections.accepted device_conversations.accepted
  by (auto split: sum.split)

text \<open>
  The command of an accepted invitation, issued before September 2039: it is built whenever the command
  id is not blank and short enough, carries the invitation and never outlives its deadline; its clock is the
  issue time or one millisecond less, exactly the issue time from November 2004 to January 2038, and at least
  one later instant is misstated.
\<close>

theorem invitation_command_clock:
  assumes "wf_invitation i" "0 < cb_issued_at_ms (si_channel i)" "cb_issued_at_ms (si_channel i) < 2 ^ 41"
    and "\<not> blank command_id" "length command_id \<le> 128"
  shows "\<exists>env. invitation_command i command_id = Inr env
    \<and> map_of env ''id'' = Some (JStr command_id) \<and> map_of env ''payload'' = Some (JObj (invitation_payload i))
    \<and> 0 < int_member env ''ttl_ms''
    \<and> si_deadline_ms i - 1 \<le> int_member env ''ts'' + int_member env ''ttl_ms''
    \<and> int_member env ''ts'' + int_member env ''ttl_ms'' \<le> si_deadline_ms i
    \<and> (if 2 ^ 40 < cb_issued_at_ms (si_channel i) \<and> cb_issued_at_ms (si_channel i) < 2147483648000
       then int_member env ''ts'' = cb_issued_at_ms (si_channel i) else True)
    \<and> unix_ms (2147483648002 * 1000) = 2147483648001"
proof -
  have "cb_issued_at_ms (si_channel i) < si_deadline_ms i"
    using assms(1) by (auto simp: wf_invitation_def admissible_def invitation_rules_def)
  then show ?thesis
    using invitation_command_eq [OF assms(2-5)] unix_ms_near [OF assms(2,3)]
      unix_ms_eq [of "cb_issued_at_ms (si_channel i)"] unix_ms_lags
    by (cases "2 ^ 40 < cb_issued_at_ms (si_channel i) \<and> cb_issued_at_ms (si_channel i) < 2147483648000") force+
qed

definition sample_invitation :: shared_session_invitation where
  "sample_invitation =
     \<lparr>si_session_id = ''s1'',
      si_device_ref = \<lparr>device_instance_id = device_instance_namespace @ sha256_hex [], owner_domain_id = ''owner-1'',
        owner_domain_generation = 1, claim_generation = 1, trust_epoch = 1\<rparr>,
      si_deadline_ms = 1790000060000,
      si_channel = \<lparr>cb_channel_id = ''c'', cb_purpose = ''shared-session'', cb_kinds = [''audio''],
        cb_binding_format = ''f'', cb_issued_at_ms = 1790000000123, cb_expires_at_ms = 1790000060000, cb_opaque_binding = ''x''\<rparr>\<rparr>"

lemma invitation_command_clock_witness:
  "\<exists>env. invitation_command sample_invitation ''inv-1'' = Inr env \<and> int_member env ''ts'' = 1790000000123"
proof -
  have "wf_invitation sample_invitation"
    unfolding wf_invitation_def admissible_def invitation_fields_def invitation_rules_def sample_invitation_def
      wf_channel_binding_def channel_binding_fields_def session_identifier_def wf_device_ref_def
    by (simp add: len_between_def conversation_id_char_def char_class_defs owner_domain_id_ok_def starts_with_def)
  moreover have "\<not> blank ''inv-1''" by code_simp
  ultimately show ?thesis
    using invitation_command_clock [of sample_invitation "''inv-1''"] by (auto simp: sample_invitation_def)
qed

end
