(* ===== verification/Role_Group_Stream.thy ===== *)
theory Role_Group_Stream
  imports Shared_Session Turn_Decision
begin

text \<open>
  The frames of the role-group stream, \<open>biz/control/coordination_stream.py\<close>: what a client sends, read
  from its JSON by the discriminated union, and what the server answers. A capture becomes input only
  with a committed push-to-talk decision about exactly its text.
\<close>

definition max_frame_bytes :: nat where
  "max_frame_bytes = 131072"

subsection \<open>Client frames\<close>

datatype receipt_result = Completed | Failed_Receipt
datatype completion_basis = Device_Ack | Native_Playout

fun result_text :: "receipt_result \<Rightarrow> string" where
  "result_text Completed = ''completed''"
| "result_text Failed_Receipt = ''failed''"

fun basis_text :: "completion_basis \<Rightarrow> string" where
  "basis_text Device_Ack = ''device_ack''"
| "basis_text Native_Playout = ''native_playout''"

datatype client_frame =
    Press (cf_capture: string)
  | Release (cf_capture: string)
  | Transcript (cf_capture: string) (cf_text: string) (cf_commitment: "json_object option")
  | Receipt (cf_request: string) (cf_device: string) (cf_result: receipt_result) (cf_basis: completion_basis)
      (cf_error_code: string)
  | Speaking (cf_turn: string) (cf_device: string)
  | Close

abbreviation frame_id :: "string \<Rightarrow> bool" where
  "frame_id \<equiv> session_identifier 128"

fun client_frame_fields :: "client_frame \<Rightarrow> (string \<times> bool) list" where
  "client_frame_fields (Press c) = [(''capture_id'', frame_id c)]"
| "client_frame_fields (Release c) = [(''capture_id'', frame_id c)]"
| "client_frame_fields (Transcript c t m) = [(''capture_id'', frame_id c), (''text'', len_between 0 32768 t)]"
| "client_frame_fields (Receipt q d r b e) =
     [(''request_id'', frame_id q), (''device_id'', frame_id d), (''error_code'', len_between 0 128 e)]"
| "client_frame_fields (Speaking t d) = [(''turn_id'', frame_id t), (''device_id'', frame_id d)]"
| "client_frame_fields Close = []"

definition committed_ptt :: "string \<Rightarrow> json_object option \<Rightarrow> turn_fault + unit" where
  "committed_ptt text' commitment =
     (if blank text'
      then guarded [(commitment \<noteq> None, Value_Error ''empty capture must not claim a committed transcript'')] ()
      else and_then (decision_from_metadata (map_option JObj commitment)) (\<lambda>d.
           guarded [(te_boundary (td_evidence d) \<noteq> Ptt_Segment, Value_Error ''role-group input requires a PTT commit''),
                    (\<not> matches_text d (Some text'), Value_Error ''committed transcript mismatch'')] ()))"

fun client_frame_check :: "client_frame \<Rightarrow> turn_fault + unit" where
  "client_frame_check (Transcript c t m) = committed_ptt t m"
| "client_frame_check _ = Inr ()"

definition make_client_frame :: "client_frame \<Rightarrow> turn_fault invalid + client_frame" where
  "make_client_frame f = build_with (client_frame_fields f) (client_frame_check f) f"

definition wf_client_frame :: "client_frame \<Rightarrow> bool" where
  "wf_client_frame f \<longleftrightarrow> list_all snd (client_frame_fields f) \<and> client_frame_check f = Inr ()"

interpretation client_frames: model_class make_client_frame wf_client_frame
  by unfold_locales (auto simp: make_client_frame_def wf_client_frame_def guard_simps list_all_iff)

subsection \<open>Their JSON\<close>

fun client_frame_json :: "client_frame \<Rightarrow> json_object" where
  "client_frame_json (Press c) = [(''type'', JStr ''press''), (''capture_id'', JStr c)]"
| "client_frame_json (Release c) = [(''type'', JStr ''release''), (''capture_id'', JStr c)]"
| "client_frame_json (Transcript c t m) =
     [(''type'', JStr ''transcript''), (''capture_id'', JStr c), (''text'', JStr t),
      (''commitment'', case m of None \<Rightarrow> JNull | Some kvs \<Rightarrow> JObj kvs)]"
| "client_frame_json (Receipt q d r b e) =
     [(''type'', JStr ''receipt''), (''request_id'', JStr q), (''device_id'', JStr d), (''result'', JStr (result_text r)),
      (''completion_basis'', JStr (basis_text b)), (''error_code'', JStr e)]"
| "client_frame_json (Speaking t d) = [(''type'', JStr ''speaking''), (''turn_id'', JStr t), (''device_id'', JStr d)]"
| "client_frame_json Close = [(''type'', JStr ''close'')]"

datatype frame_refusal = Malformed | Refused_Frame "turn_fault invalid"

text \<open>A defaulted text: absent it is the default, present it must be a text.\<close>

definition parse_text_or :: "string \<Rightarrow> json_object \<Rightarrow> string \<Rightarrow> string option" where
  "parse_text_or d kvs k = (case map_of kvs k of None \<Rightarrow> Some d | Some (JStr s) \<Rightarrow> Some s | Some _ \<Rightarrow> None)"

definition parse_commitment :: "json_object \<Rightarrow> json_object option option" where
  "parse_commitment kvs =
     (case map_of kvs ''commitment'' of
        None \<Rightarrow> Some None | Some JNull \<Rightarrow> Some None | Some (JObj m) \<Rightarrow> Some (Some m) | Some _ \<Rightarrow> None)"

definition parse_result :: "json_object \<Rightarrow> receipt_result option" where
  "parse_result kvs =
     Option.bind (parse_text kvs ''result'') (\<lambda>s. find (\<lambda>r. result_text r = s) [Completed, Failed_Receipt])"

definition parse_basis :: "json_object \<Rightarrow> completion_basis option" where
  "parse_basis kvs =
     Option.bind (parse_text_or ''device_ack'' kvs ''completion_basis'')
       (\<lambda>s. find (\<lambda>b. basis_text b = s) [Device_Ack, Native_Playout])"

text \<open>The union picks the class by \<open>type\<close>; extra keys are forbidden.\<close>

definition parse_client_frame :: "json_object \<Rightarrow> client_frame option" where
  "parse_client_frame kvs =
     Option.bind (parse_text kvs ''type'') (\<lambda>tag.
       if tag = ''press'' then
         (if only_keys [''type'', ''capture_id''] kvs then map_option Press (parse_text kvs ''capture_id'') else None)
       else if tag = ''release'' then
         (if only_keys [''type'', ''capture_id''] kvs then map_option Release (parse_text kvs ''capture_id'') else None)
       else if tag = ''transcript'' then
         (if only_keys [''type'', ''capture_id'', ''text'', ''commitment''] kvs
          then Option.bind (parse_text kvs ''capture_id'') (\<lambda>c. Option.bind (parse_text kvs ''text'') (\<lambda>t.
               map_option (Transcript c t) (parse_commitment kvs))) else None)
       else if tag = ''receipt'' then
         (if only_keys [''type'', ''request_id'', ''device_id'', ''result'', ''completion_basis'', ''error_code''] kvs
          then Option.bind (parse_text kvs ''request_id'') (\<lambda>q. Option.bind (parse_text kvs ''device_id'') (\<lambda>d.
               Option.bind (parse_result kvs) (\<lambda>r. Option.bind (parse_basis kvs) (\<lambda>b.
               map_option (Receipt q d r b) (parse_text_or [] kvs ''error_code''))))) else None)
       else if tag = ''speaking'' then
         (if only_keys [''type'', ''turn_id'', ''device_id''] kvs
          then Option.bind (parse_text kvs ''turn_id'') (\<lambda>t. map_option (Speaking t) (parse_text kvs ''device_id'')) else None)
       else if tag = ''close'' then (if only_keys [''type''] kvs then Some Close else None)
       else None)"

definition read_client_frame :: "json \<Rightarrow> frame_refusal + client_frame" where
  "read_client_frame v =
     (case v of
        JObj kvs \<Rightarrow> and_then (or_raise Malformed (parse_client_frame kvs)) (\<lambda>f. reraise Refused_Frame (make_client_frame f))
      | _ \<Rightarrow> Inl Malformed)"

subsection \<open>Opening and server frames\<close>

record open_scene =
  os_owner_id :: string
  os_selection :: coordination_selection

definition make_open_scene :: "open_scene \<Rightarrow> string invalid + open_scene" where
  "make_open_scene s =
     build [(''owner_id'', frame_id (os_owner_id s)),
            (''selection'', make_coordination (os_selection s) = Inr (os_selection s))] [] s"

datatype scene_outcome = Waiting | Finished | Clarification | Budget_Exhausted | Abstained | Error | Empty_Input

datatype server_message =
    Prepared
  | Capturing string int
  | Stop "string option" string string int
  | Reply_Start string string string int string
  | Reply_Delta string string string int string
  | Reply_End string string string int
  | Scene_State string string "(string \<times> string) list" int scene_outcome string

record server_frame =
  sf_stream_id :: string
  sf_session_id :: string
  sf_message :: server_message

definition epoch_ok :: "int \<Rightarrow> bool" where
  "epoch_ok n \<longleftrightarrow> 0 \<le> n"

definition reply_fields :: "string \<Rightarrow> string \<Rightarrow> string \<Rightarrow> int \<Rightarrow> (string \<times> bool) list" where
  "reply_fields q t d n =
     [(''request_id'', frame_id q), (''turn_id'', frame_id t), (''device_id'', frame_id d), (''epoch'', epoch_ok n)]"

fun message_fields :: "server_message \<Rightarrow> (string \<times> bool) list" where
  "message_fields Prepared = []"
| "message_fields (Capturing c n) = [(''capture_id'', frame_id c), (''epoch'', epoch_ok n)]"
| "message_fields (Stop c q d n) =
     [(''capture_id'', opt_ok frame_id c), (''request_id'', frame_id q), (''device_id'', frame_id d), (''epoch'', epoch_ok n)]"
| "message_fields (Reply_Start q t d n c) = reply_fields q t d n @ [(''companion_id'', frame_id c)]"
| "message_fields (Reply_Delta q t d n s) = reply_fields q t d n @ [(''text'', len_between 0 32768 s)]"
| "message_fields (Reply_End q t d n) = reply_fields q t d n"
| "message_fields (Scene_State c s ms n out e) =
     [(''capture_id'', frame_id c), (''state'', len_between 0 64 s),
      (''members'', list_all (\<lambda>(k, v). frame_id k \<and> len_between 0 64 v) ms), (''epoch'', epoch_ok n),
      (''error_code'', len_between 0 128 e)]"

fun message_rules :: "server_message \<Rightarrow> (bool \<times> string) list" where
  "message_rules (Reply_Start q t d n c) = [(q \<noteq> t, ''reply request must match turn'')]"
| "message_rules (Reply_Delta q t d n s) = [(q \<noteq> t, ''reply request must match turn'')]"
| "message_rules (Reply_End q t d n) = [(q \<noteq> t, ''reply request must match turn'')]"
| "message_rules _ = []"

definition server_frame_fields :: "server_frame \<Rightarrow> (string \<times> bool) list" where
  "server_frame_fields f =
     [(''stream_id'', frame_id (sf_stream_id f)), (''session_id'', frame_id (sf_session_id f))] @ message_fields (sf_message f)"

definition make_server_frame :: "server_frame \<Rightarrow> string invalid + server_frame" where
  "make_server_frame f = build (server_frame_fields f) (message_rules (sf_message f)) f"

definition wf_server_frame :: "server_frame \<Rightarrow> bool" where
  "wf_server_frame f \<longleftrightarrow> admissible (server_frame_fields f) (message_rules (sf_message f))"

interpretation server_frames: model_class make_server_frame wf_server_frame
  by (rule build_class; simp add: make_server_frame_def wf_server_frame_def)

subsection \<open>Lemmas\<close>

lemma parse_own_frame: "parse_client_frame (client_frame_json f) = Some f"
proof (cases f)
  case (Transcript c t m)
  then show ?thesis
    by (cases m) (simp_all add: parse_client_frame_def parse_text_def only_keys_def parse_commitment_def)
next
  case (Receipt q d r b e)
  then show ?thesis
    by (cases r; cases b)
      (simp_all add: parse_client_frame_def parse_text_def only_keys_def parse_result_def parse_basis_def parse_text_or_def)
qed (simp_all add: parse_client_frame_def parse_text_def only_keys_def)

interpretation client_frame_wire: codec client_frame_json parse_client_frame "\<lambda>_. True"
  by unfold_locales (rule parse_own_frame)

subsection \<open>Properties\<close>

text \<open>
  A client frame is read back from its JSON exactly when it is one the stream accepts, and is refused
  for the reason its construction gives otherwise; distinct frames have distinct JSON.
\<close>

theorem client_frame_read_back:
  "read_client_frame (JObj (client_frame_json f)) = reraise Refused_Frame (make_client_frame f)
   \<and> (make_client_frame f = Inr f \<longleftrightarrow> wf_client_frame f)
   \<and> (client_frame_json f = client_frame_json g \<longleftrightarrow> f = g)"
  using client_frame_wire.enc_inj [of f g] client_frames.make_iff [of f f]
  by (simp add: read_client_frame_def parse_own_frame)

text \<open>
  Role-group input is committed: of a transcript frame that is read, a blank one claims nothing, and any
  other carries the metadata of a push-to-talk commitment, valid and about exactly this text up to
  surrounding blanks, by its digest.
\<close>

theorem role_group_input_committed:
  "case read_client_frame v of
     Inr (Transcript c t m) \<Rightarrow>
       (if blank t then m = None
        else \<exists>kvs d. m = Some kvs \<and> decision_from_metadata (Some (JObj kvs)) = Inr d \<and> wf_turn_decision d
               \<and> te_boundary (td_evidence d) = Ptt_Segment
               \<and> te_transcript_sha256 (td_evidence d) = committed_turn_text_sha256 t)
   | _ \<Rightarrow> True"
proof (cases "read_client_frame v")
  case (Inr f)
  then have "make_client_frame f = Inr f"
    by (auto simp: read_client_frame_def guard_simps client_frames.make_iff split: json.splits)
  then have check: "client_frame_check f = Inr ()" by (simp add: client_frames.make_iff wf_client_frame_def)
  show ?thesis
  proof (cases f)
    case (Transcript c t m)
    show ?thesis
    proof (cases m)
      case None
      then show ?thesis using Inr Transcript check
        by (auto simp: committed_ptt_def guard_simps decision_from_metadata_def as_mapping_def split: if_splits)
    next
      case (Some kvs)
      then show ?thesis using Inr Transcript check read_decision_wf
        by (auto simp: committed_ptt_def guard_simps matches_text_def split: if_splits)
    qed
  qed (simp_all add: Inr)
qed simp

end
