(* ===== verification/Presentation.thy ===== *)
theory Presentation
  imports Shared_Session
begin

text \<open>
  The presentation contracts of \<open>biz/presentation\<close>: which outputs and inputs a session may use, the
  selection from capabilities and policy (\<open>negotiation.py\<close>), the bounded expression plan with its strict
  reader, receipts and the head commands (\<open>motion.py\<close>, \<open>device.py\<close>).
\<close>

definition face_profile_id :: string where "face_profile_id = ''eidolon.face.v1''"
definition face_catalog :: string where "face_catalog = ''face-core-1''"
definition max_plan_bytes :: nat where "max_plan_bytes = 2048"
definition max_steps :: nat where "max_steps = 8"
definition max_duration_ms :: int where "max_duration_ms = 10000"

abbreviation presentation_identifier :: "string \<Rightarrow> bool" where
  "presentation_identifier \<equiv> session_identifier 96"

definition revision_ok :: "int \<Rightarrow> bool" where
  "revision_ok n \<longleftrightarrow> 1 \<le> n \<and> n \<le> 4294967295"

subsection \<open>Outputs\<close>

datatype output_selection =
  Outputs (out_speech: bool) (out_dialogue_text: bool) (out_expression: bool) (out_audio_cue: bool) (out_motion: bool)

definition restrict_to :: "output_selection \<Rightarrow> output_selection \<Rightarrow> output_selection" where
  "restrict_to a b =
     Outputs (out_speech a \<and> out_speech b) (out_dialogue_text a \<and> out_dialogue_text b)
       (out_expression a \<and> out_expression b) (out_audio_cue a \<and> out_audio_cue b) (out_motion a \<and> out_motion b)"

definition can_respond :: "output_selection \<Rightarrow> bool" where
  "can_respond s \<longleftrightarrow> out_speech s \<or> out_dialogue_text s \<or> out_expression s \<or> out_motion s"

lemma restrict_parts [simp]:
  "out_speech (restrict_to a b) \<longleftrightarrow> out_speech a \<and> out_speech b"
  "out_dialogue_text (restrict_to a b) \<longleftrightarrow> out_dialogue_text a \<and> out_dialogue_text b"
  "out_expression (restrict_to a b) \<longleftrightarrow> out_expression a \<and> out_expression b"
  "out_audio_cue (restrict_to a b) \<longleftrightarrow> out_audio_cue a \<and> out_audio_cue b"
  "out_motion (restrict_to a b) \<longleftrightarrow> out_motion a \<and> out_motion b"
  by (simp_all add: restrict_to_def)

text \<open>
  The order "allows no more than": every output of the one is an output of the other. Restriction is its meet.
\<close>

instantiation output_selection :: semilattice_inf
begin

definition less_eq_output_selection :: "output_selection \<Rightarrow> output_selection \<Rightarrow> bool" where
  "a \<le> b \<longleftrightarrow>
     (out_speech a \<longrightarrow> out_speech b) \<and> (out_dialogue_text a \<longrightarrow> out_dialogue_text b)
     \<and> (out_expression a \<longrightarrow> out_expression b) \<and> (out_audio_cue a \<longrightarrow> out_audio_cue b) \<and> (out_motion a \<longrightarrow> out_motion b)"

definition less_output_selection :: "output_selection \<Rightarrow> output_selection \<Rightarrow> bool" where
  "a < b \<longleftrightarrow> a \<le> b \<and> \<not> b \<le> (a :: output_selection)"

definition inf_output_selection :: "output_selection \<Rightarrow> output_selection \<Rightarrow> output_selection" where
  "inf_output_selection = restrict_to"

instance
proof
  fix a b c :: output_selection
  show "a < b \<longleftrightarrow> a \<le> b \<and> \<not> b \<le> a" by (simp add: less_output_selection_def)
  show "a \<le> a" by (simp add: less_eq_output_selection_def)
  show "a \<le> b \<Longrightarrow> b \<le> c \<Longrightarrow> a \<le> c"
    unfolding less_eq_output_selection_def by blast
  show "a \<le> b \<Longrightarrow> b \<le> a \<Longrightarrow> a = b"
    unfolding less_eq_output_selection_def by (rule output_selection.expand) blast
  show "inf a b \<le> a" "inf a b \<le> b"
    unfolding less_eq_output_selection_def inf_output_selection_def by simp_all
  show "a \<le> b \<Longrightarrow> a \<le> c \<Longrightarrow> a \<le> inf b c"
    unfolding less_eq_output_selection_def inf_output_selection_def restrict_parts by blast
qed

end

lemma can_respond_mono: "a \<le> b \<Longrightarrow> can_respond a \<Longrightarrow> can_respond b"
  unfolding less_eq_output_selection_def can_respond_def by blast

text \<open>The inputs are one switch.\<close>

record device_output_policy =
  dp_revision :: int
  dp_allowed :: output_selection
  dp_microphone :: "bool option"

definition make_output_policy :: "device_output_policy \<Rightarrow> string invalid + device_output_policy" where
  "make_output_policy p = build [(''revision'', revision_ok (dp_revision p))] [] p"

record session_output_plan =
  sp_session_id :: string
  sp_policy_revision :: int
  sp_outputs :: output_selection
  sp_microphone :: bool
  sp_expression_profile :: "string option"
  sp_motion_profile :: "string option"

definition session_plan_fields :: "session_output_plan \<Rightarrow> (string \<times> bool) list" where
  "session_plan_fields p =
     [(''session_id'', presentation_identifier (sp_session_id p)), (''policy_revision'', revision_ok (sp_policy_revision p)),
      (''expression_profile'', opt_ok (\<lambda>s. s = face_profile_id) (sp_expression_profile p)),
      (''motion_profile'', opt_ok (\<lambda>s. s = ''stackchan.head.v1'') (sp_motion_profile p))]"

definition session_plan_rules :: "session_output_plan \<Rightarrow> (bool \<times> string) list" where
  "session_plan_rules p =
     [(out_expression (sp_outputs p) \<noteq> (sp_expression_profile p \<noteq> None), ''EXPRESSION_PROFILE_REQUIRED'')]"

definition make_session_plan :: "session_output_plan \<Rightarrow> string invalid + session_output_plan" where
  "make_session_plan p = build (session_plan_fields p) (session_plan_rules p) p"

definition outputs_json :: "output_selection \<Rightarrow> json" where
  "outputs_json s =
     JObj [(''speech'', JBool (out_speech s)), (''dialogue_text'', JBool (out_dialogue_text s)),
       (''expression'', JBool (out_expression s)), (''audio_cue'', JBool (out_audio_cue s)), (''motion'', JBool (out_motion s))]"

definition text_or_null :: "string option \<Rightarrow> json" where
  "text_or_null v = (case v of None \<Rightarrow> JNull | Some s \<Rightarrow> JStr s)"

text \<open>The serializer drops an absent motion profile, and only that.\<close>

definition session_plan_json :: "session_output_plan \<Rightarrow> json_object" where
  "session_plan_json p =
     [(''schema_version'', JInt 1), (''session_id'', JStr (sp_session_id p)), (''policy_revision'', JInt (sp_policy_revision p)),
      (''outputs'', outputs_json (sp_outputs p)), (''inputs'', JObj [(''microphone'', JBool (sp_microphone p))]),
      (''expression_profile'', text_or_null (sp_expression_profile p))]
     @ (case sp_motion_profile p of None \<Rightarrow> [] | Some s \<Rightarrow> [(''motion_profile'', JStr s)])"

subsection \<open>Negotiation\<close>

text \<open>A loop over decoded values that may raise; \<open>any\<close> stops at the first hit.\<close>

fun any_hit :: "('a \<Rightarrow> 'e + bool) \<Rightarrow> 'a list \<Rightarrow> 'e + bool" where
  "any_hit f [] = Inr False"
| "any_hit f (x # xs) = and_then (f x) (\<lambda>b. if b then Inr True else any_hit f xs)"

text \<open>\<open>manifest.get(key, ())\<close>, iterated.\<close>

definition entries :: "json_object \<Rightarrow> string \<Rightarrow> string + json list" where
  "entries manifest key =
     (case map_of manifest key of None \<Rightarrow> Inr [] | Some v \<Rightarrow> or_raise ''TypeError'' (iterate v))"

definition has_member :: "json_object \<Rightarrow> string \<Rightarrow> string \<Rightarrow> bool" where
  "has_member kvs key s \<longleftrightarrow> map_of kvs key = Some (JStr s)"

text \<open>\<open>entry.get("direction") in {...}\<close>: hashing a list or a dict is a TypeError.\<close>

definition member_in :: "json_object \<Rightarrow> string \<Rightarrow> string list \<Rightarrow> string + bool" where
  "member_in kvs key ss =
     (case map_of kvs key of
        None \<Rightarrow> Inr False
      | Some (JArr _) \<Rightarrow> Inl ''TypeError'' | Some (JObj _) \<Rightarrow> Inl ''TypeError''
      | Some (JStr s) \<Rightarrow> Inr (s \<in> set ss) | Some _ \<Rightarrow> Inr False)"

definition audio_entry :: "string list \<Rightarrow> json \<Rightarrow> string + bool" where
  "audio_entry directions entry =
     (case entry of
        JObj kvs \<Rightarrow> if has_member kvs ''kind'' ''audio'' then member_in kvs ''direction'' directions else Inr False
      | _ \<Rightarrow> Inr False)"

definition manifest_inputs :: "json_object \<Rightarrow> string + bool" where
  "manifest_inputs manifest =
     and_then (entries manifest ''media'') (any_hit (audio_entry [''publish'', ''bidirectional'']))"

fun first_constant :: "string \<Rightarrow> json list \<Rightarrow> json" where
  "first_constant name [] = JNull"
| "first_constant name (JObj prop # ps) =
     (if has_member prop ''name'' name \<and> map_of prop ''writable'' = Some (JBool False)
      then case map_of prop ''schema'' of
          Some (JObj schema) \<Rightarrow> (case map_of schema ''const'' of None \<Rightarrow> JNull | Some v \<Rightarrow> v)
        | _ \<Rightarrow> first_constant name ps
      else first_constant name ps)"
| "first_constant name (p # ps) = first_constant name ps"

definition declared_constant :: "json_object \<Rightarrow> string \<Rightarrow> string + json" where
  "declared_constant manifest name = and_then (entries manifest ''properties'') (\<lambda>ps. Inr (first_constant name ps))"

definition manifest_outputs :: "json_object \<Rightarrow> string + output_selection" where
  "manifest_outputs manifest =
     and_then (and_then (entries manifest ''media'') (any_hit (audio_entry [''subscribe'', ''bidirectional'']))) (\<lambda>speech.
     and_then (declared_constant manifest ''output.dialogue_text'') (\<lambda>text'.
     and_then (declared_constant manifest ''expression.profile'') (\<lambda>profile.
     and_then (declared_constant manifest ''output.audio_cue'') (\<lambda>cue.
     and_then (declared_constant manifest ''output.motion'') (\<lambda>motion.
     Inr (Outputs speech (text' = JBool True) (profile = JStr face_profile_id) (cue = JBool True) (motion = JBool True)))))))"

definition output_contract :: string where "output_contract = ''eidolon.outputs.v1''"

definition is_marker :: "json \<Rightarrow> bool" where
  "is_marker p = (case p of JObj prop \<Rightarrow> has_member prop ''name'' ''output.contract'' | _ \<Rightarrow> False)"

definition output_policy_required :: "output_selection \<Rightarrow> json_object option \<Rightarrow> bool option \<Rightarrow> string + bool" where
  "output_policy_required capabilities manifest requirement =
     and_then (case manifest of
         None \<Rightarrow> Inr False
       | Some m \<Rightarrow> and_then (entries m ''properties'') (\<lambda>ps. Inr (list_ex is_marker ps)))
       (\<lambda>marked. Inr (out_expression capabilities \<or> requirement = Some True \<or> marked))"

definition validate_output_contract :: "json_object \<Rightarrow> string + unit" where
  "validate_output_contract manifest =
     and_then (entries manifest ''properties'') (\<lambda>ps.
       case filter is_marker ps of
         [] \<Rightarrow> Inr ()
       | [JObj marker] \<Rightarrow>
           if map_of marker ''writable'' \<noteq> Some (JBool False) then Inl ''INVALID_OUTPUT_CONTRACT''
           else (case map_of marker ''schema'' of
               Some (JObj schema) \<Rightarrow>
                 guarded [(\<not> has_member schema ''type'' ''string'', ''INVALID_OUTPUT_CONTRACT''),
                          (\<not> has_member schema ''const'' output_contract, ''UNSUPPORTED_OUTPUT_CONTRACT'')] ()
             | _ \<Rightarrow> Inl ''INVALID_OUTPUT_CONTRACT'')
       | _ \<Rightarrow> Inl ''INVALID_OUTPUT_CONTRACT'')"

definition select_outputs ::
  "output_selection \<Rightarrow> device_output_policy \<Rightarrow> output_selection \<Rightarrow> output_selection \<Rightarrow> bool \<Rightarrow> string + output_selection" where
  "select_outputs capabilities policy requested outer require_response =
     (let selected = restrict_to (restrict_to (restrict_to capabilities (dp_allowed policy)) requested) outer
      in guarded [(require_response \<and> \<not> can_respond selected, ''NO_RESPONSE_OUTPUT'')] selected)"

subsection \<open>Responses\<close>

datatype presentation_intent =
  Acknowledge | Confirm | Consider | Clarify | Comfort | Celebrate | Decline | Notify | No_Intent
datatype stance = Neutral | Warm | Calm | Playful
datatype pace = Gentle | Normal_Pace | Brisk

definition unit_ok :: "pyfloat \<Rightarrow> bool" where
  "unit_ok x = (case x of Fin q \<Rightarrow> 0 \<le> q \<and> q \<le> 1 | _ \<Rightarrow> False)"

record presentation_candidate =
  pc_intent :: presentation_intent
  pc_stance :: stance
  pc_intensity :: pyfloat
  pc_pace :: pace
  pc_outcome_ref :: "string option"

definition candidate_fields :: "presentation_candidate \<Rightarrow> (string \<times> bool) list" where
  "candidate_fields c =
     [(''intensity'', unit_ok (pc_intensity c)), (''outcome_ref'', opt_ok presentation_identifier (pc_outcome_ref c))]"

record assistant_response_candidate =
  ac_public_text :: "string option"
  ac_presentation :: presentation_candidate

definition make_response_candidate ::
  "assistant_response_candidate \<Rightarrow> string invalid + assistant_response_candidate" where
  "make_response_candidate r =
     build [(''public_text'', opt_ok (len_between 0 8192) (ac_public_text r)),
            (''presentation'', list_all snd (candidate_fields (ac_presentation r)))] [] r"

record response_intent =
  rsp_candidate :: presentation_candidate
  rsp_response_id :: string
  rsp_turn_id :: string
  rsp_session_id :: string

definition make_response_intent :: "response_intent \<Rightarrow> string invalid + response_intent" where
  "make_response_intent r =
     build (candidate_fields (rsp_candidate r)
       @ [(''response_id'', presentation_identifier (rsp_response_id r)), (''turn_id'', presentation_identifier (rsp_turn_id r)),
          (''session_id'', presentation_identifier (rsp_session_id r))]) [] r"

subsection \<open>Properties\<close>

lemma select_outputs_eq:
  "select_outputs capabilities policy requested outer require_response =
     (let s = inf (inf (inf capabilities (dp_allowed policy)) requested) outer
      in if require_response \<and> \<not> can_respond s then Inl ''NO_RESPONSE_OUTPUT'' else Inr s)"
  by (simp add: select_outputs_def guarded_simps Let_def inf_output_selection_def)

text \<open>
  C29. What is selected is the most that is permitted. A selection is granted exactly when its outputs are those that
  the device, its Owner's policy, the request and the outer limit all allow, and, where a response is required, it can
  carry one by speech, text, expression or motion (an audio cue does not count). Granting more anywhere never takes an
  output away.
\<close>

theorem selection_is_greatest_permitted:
  "(select_outputs capabilities policy requested outer require_response = Inr s \<longleftrightarrow>
      (\<forall>t. t \<le> s \<longleftrightarrow> t \<le> capabilities \<and> t \<le> dp_allowed policy \<and> t \<le> requested \<and> t \<le> outer)
      \<and> (if require_response then out_speech s \<or> out_dialogue_text s \<or> out_expression s \<or> out_motion s else True))
   \<and> (if capabilities \<le> capabilities' \<and> dp_allowed policy \<le> dp_allowed policy' \<and> requested \<le> requested' \<and> outer \<le> outer'
      then case select_outputs capabilities policy requested outer require_response of
             Inl _ \<Rightarrow> True
           | Inr r \<Rightarrow> (case select_outputs capabilities' policy' requested' outer' require_response of
               Inl _ \<Rightarrow> False | Inr r' \<Rightarrow> r \<le> r')
      else True)"
proof (intro conjI)
  let ?m = "inf (inf (inf capabilities (dp_allowed policy)) requested) outer"
  have meet: "t \<le> ?m \<longleftrightarrow> t \<le> capabilities \<and> t \<le> dp_allowed policy \<and> t \<le> requested \<and> t \<le> outer" for t
    by simp
  have "s = ?m \<longleftrightarrow> (\<forall>t. t \<le> s \<longleftrightarrow> t \<le> ?m)" by (metis order_antisym order_refl)
  then have greatest: "s = ?m \<longleftrightarrow> (\<forall>t. t \<le> s \<longleftrightarrow> t \<le> capabilities \<and> t \<le> dp_allowed policy \<and> t \<le> requested \<and> t \<le> outer)"
    by (simp only: meet)
  have "select_outputs capabilities policy requested outer require_response = Inr s \<longleftrightarrow>
      s = ?m \<and> (if require_response then can_respond s else True)"
    by (auto simp: select_outputs_eq Let_def)
  then show "select_outputs capabilities policy requested outer require_response = Inr s \<longleftrightarrow>
      (\<forall>t. t \<le> s \<longleftrightarrow> t \<le> capabilities \<and> t \<le> dp_allowed policy \<and> t \<le> requested \<and> t \<le> outer)
      \<and> (if require_response then out_speech s \<or> out_dialogue_text s \<or> out_expression s \<or> out_motion s else True)"
    by (simp only: greatest can_respond_def)
next
  let ?m = "inf (inf (inf capabilities (dp_allowed policy)) requested) outer"
  let ?m' = "inf (inf (inf capabilities' (dp_allowed policy')) requested') outer'"
  have "?m \<le> ?m'"
    if "capabilities \<le> capabilities' \<and> dp_allowed policy \<le> dp_allowed policy' \<and> requested \<le> requested' \<and> outer \<le> outer'"
    using that by (intro inf_mono) simp_all
  then show "if capabilities \<le> capabilities' \<and> dp_allowed policy \<le> dp_allowed policy' \<and> requested \<le> requested' \<and> outer \<le> outer'
      then case select_outputs capabilities policy requested outer require_response of
             Inl _ \<Rightarrow> True
           | Inr r \<Rightarrow> (case select_outputs capabilities' policy' requested' outer' require_response of
               Inl _ \<Rightarrow> False | Inr r' \<Rightarrow> r \<le> r')
      else True"
    using can_respond_mono [of ?m ?m'] by (auto simp: select_outputs_eq Let_def)
qed

end
