(* ===== verification/Expression_Plan.thy ===== *)
theory Expression_Plan
  imports Presentation
begin

text \<open>
  The timed expression plan of \<open>biz/presentation\<close>, its strict reader, the receipts and the head
  commands of \<open>motion.py\<close> and \<open>device.py\<close>. JSON parsing is a parameter that keeps repeated members.
\<close>

subsection \<open>Plans\<close>

datatype gesture = Attend | Affirm | Ponder | Question | Soften | Delight | Hesitate | Attention
datatype variant = Default_Variant | Subtle

fun gesture_text :: "gesture \<Rightarrow> string" where
  "gesture_text Attend = ''attend''" | "gesture_text Affirm = ''affirm''" | "gesture_text Ponder = ''ponder''"
| "gesture_text Question = ''question''" | "gesture_text Soften = ''soften''" | "gesture_text Delight = ''delight''"
| "gesture_text Hesitate = ''hesitate''" | "gesture_text Attention = ''attention''"

fun variant_text :: "variant \<Rightarrow> string" where
  "variant_text Default_Variant = ''default''"
| "variant_text Subtle = ''subtle''"

record expression_step =
  es_at_ms :: int
  es_gesture :: gesture
  es_variant :: variant
  es_intensity :: pyfloat
  es_duration_ms :: int

definition step_ok :: "expression_step \<Rightarrow> bool" where
  "step_ok s \<longleftrightarrow> 0 \<le> es_at_ms s \<and> es_at_ms s \<le> max_duration_ms \<and> unit_ok (es_intensity s)
     \<and> 150 \<le> es_duration_ms s \<and> es_duration_ms s \<le> max_duration_ms"

record expression_plan =
  ep_presentation_id :: string
  ep_response_id :: string
  ep_max_duration_ms :: int
  ep_steps :: "expression_step list"

definition expression_plan_fields :: "expression_plan \<Rightarrow> (string \<times> bool) list" where
  "expression_plan_fields p =
     [(''presentation_id'', presentation_identifier (ep_presentation_id p)),
      (''response_id'', presentation_identifier (ep_response_id p)),
      (''max_duration_ms'', 150 \<le> ep_max_duration_ms p \<and> ep_max_duration_ms p \<le> max_duration_ms),
      (''steps'', len_between 1 max_steps (ep_steps p) \<and> list_all step_ok (ep_steps p))]"

definition step_end :: "expression_step \<Rightarrow> int" where
  "step_end s = es_at_ms s + es_duration_ms s"

text \<open>The loop keeps the end of the last step.\<close>

fun timeline_end :: "int \<Rightarrow> expression_step list \<Rightarrow> string + int" where
  "timeline_end t [] = Inr t"
| "timeline_end t (s # ss) =
     (if es_at_ms s < t then Inl ''OVERLAPPING_OR_UNSORTED_STEPS'' else timeline_end (step_end s) ss)"

definition check_timeline :: "expression_plan \<Rightarrow> string + unit" where
  "check_timeline p =
     and_then (timeline_end 0 (ep_steps p)) (\<lambda>t. guarded [(ep_max_duration_ms p < t, ''PLAN_DURATION_EXCEEDED'')] ())"

definition make_expression_plan :: "expression_plan \<Rightarrow> string invalid + expression_plan" where
  "make_expression_plan p = build_with (expression_plan_fields p) (check_timeline p) p"

definition wf_expression_plan :: "expression_plan \<Rightarrow> bool" where
  "wf_expression_plan p \<longleftrightarrow> list_all snd (expression_plan_fields p) \<and> check_timeline p = Inr ()"

interpretation expression_plans: model_class make_expression_plan wf_expression_plan
  by unfold_locales (auto simp: make_expression_plan_def wf_expression_plan_def guard_simps list_all_iff)

subsection \<open>The wire\<close>

definition step_json :: "expression_step \<Rightarrow> json" where
  "step_json s =
     JObj [(''at_ms'', JInt (es_at_ms s)), (''gesture'', JStr (gesture_text (es_gesture s))),
       (''variant'', JStr (variant_text (es_variant s))), (''intensity'', JFloat (es_intensity s)),
       (''duration_ms'', JInt (es_duration_ms s))]"

definition plan_json :: "expression_plan \<Rightarrow> json" where
  "plan_json p =
     JObj [(''schema_version'', JInt 1), (''presentation_id'', JStr (ep_presentation_id p)),
       (''response_id'', JStr (ep_response_id p)), (''profile'', JStr face_profile_id),
       (''catalog_revision'', JStr face_catalog), (''max_duration_ms'', JInt (ep_max_duration_ms p)),
       (''steps'', JArr (map step_json (ep_steps p))), (''on_finish'', JStr ''resume_current_base'')]"

text \<open>The pairs hook sees every object of the document, the inner ones first.\<close>

fun repeated_member :: "json \<Rightarrow> bool" where
  "repeated_member (JArr vs) = list_ex repeated_member vs"
| "repeated_member (JObj kvs) = (list_ex (\<lambda>kv. repeated_member (snd kv)) kvs \<or> has_duplicates (map fst kvs))"
| "repeated_member _ = False"

text \<open>A member with a default: absent it is the default, present it is read.\<close>

definition member_or :: "'a \<Rightarrow> (json \<Rightarrow> 'a option) \<Rightarrow> json_object \<Rightarrow> string \<Rightarrow> 'a option" where
  "member_or d r kvs k = (case map_of kvs k of None \<Rightarrow> Some d | Some v \<Rightarrow> r v)"

fun strict_int :: "json \<Rightarrow> int option" where
  "strict_int (JInt n) = Some n" | "strict_int _ = None"

text \<open>A strict float accepts an int.\<close>

fun strict_float :: "json \<Rightarrow> pyfloat option" where
  "strict_float (JFloat x) = Some x" | "strict_float (JInt n) = Some (Fin (of_int n))" | "strict_float _ = None"

definition literal :: "string \<Rightarrow> json \<Rightarrow> unit option" where
  "literal s v = (if v = JStr s then Some () else None)"

definition gestures :: "gesture list" where
  "gestures = [Attend, Affirm, Ponder, Question, Soften, Delight, Hesitate, Attention]"

definition read_gesture :: "json \<Rightarrow> gesture option" where
  "read_gesture v = find (\<lambda>g. v = JStr (gesture_text g)) gestures"

definition read_variant :: "json \<Rightarrow> variant option" where
  "read_variant v = find (\<lambda>x. v = JStr (variant_text x)) [Default_Variant, Subtle]"

fun version_is_int :: "json_object \<Rightarrow> bool" where
  "version_is_int kvs = (case map_of kvs ''schema_version'' of None \<Rightarrow> True | Some (JInt n) \<Rightarrow> True | Some _ \<Rightarrow> False)"

fun read_step :: "json \<Rightarrow> expression_step option" where
  "read_step (JObj kvs) =
     (if \<not> only_keys [''at_ms'', ''gesture'', ''variant'', ''intensity'', ''duration_ms''] kvs then None
      else Option.bind (member_or 0 strict_int kvs ''at_ms'') (\<lambda>t.
           Option.bind (Option.bind (map_of kvs ''gesture'') read_gesture) (\<lambda>g.
           Option.bind (member_or Default_Variant read_variant kvs ''variant'') (\<lambda>v.
           Option.bind (member_or (Fin (to_double (3 / 10))) strict_float kvs ''intensity'') (\<lambda>x.
           Option.bind (Option.bind (map_of kvs ''duration_ms'') strict_int) (\<lambda>d.
           Some \<lparr>es_at_ms = t, es_gesture = g, es_variant = v, es_intensity = x, es_duration_ms = d\<rparr>))))))"
| "read_step _ = None"

fun read_all :: "('a \<Rightarrow> 'b option) \<Rightarrow> 'a list \<Rightarrow> 'b list option" where
  "read_all r [] = Some []"
| "read_all r (v # vs) = Option.bind (r v) (\<lambda>x. map_option (Cons x) (read_all r vs))"

fun read_steps :: "json \<Rightarrow> expression_step list option" where
  "read_steps (JArr vs) = read_all read_step vs"
| "read_steps _ = None"

datatype plan_refusal = Plan_Too_Large | Not_Json | Duplicate_Json_Field | Unreadable_Plan | Invalid_Plan "string invalid"

definition read_plan_members :: "json_object \<Rightarrow> expression_plan option" where
  "read_plan_members kvs =
     (if \<not> only_keys [''schema_version'', ''presentation_id'', ''response_id'', ''profile'', ''catalog_revision'',
                      ''max_duration_ms'', ''steps'', ''on_finish''] kvs
         \<or> \<not> version_is_int kvs then None
      else Option.bind (member_or 1 strict_int kvs ''schema_version'') (\<lambda>version.
           if version \<noteq> 1 then None else
           Option.bind (parse_text kvs ''presentation_id'') (\<lambda>p.
           Option.bind (parse_text kvs ''response_id'') (\<lambda>r.
           Option.bind (member_or () (literal face_profile_id) kvs ''profile'') (\<lambda>_.
           Option.bind (member_or () (literal face_catalog) kvs ''catalog_revision'') (\<lambda>_.
           Option.bind (parse_int kvs ''max_duration_ms'') (\<lambda>m.
           Option.bind (Option.bind (map_of kvs ''steps'') read_steps) (\<lambda>ss.
           Option.bind (member_or () (literal ''resume_current_base'') kvs ''on_finish'') (\<lambda>_.
           Some \<lparr>ep_presentation_id = p, ep_response_id = r, ep_max_duration_ms = m, ep_steps = ss\<rparr>)))))))))"

definition plan_from_wire :: "(byte list \<Rightarrow> json option) \<Rightarrow> byte list \<Rightarrow> plan_refusal + expression_plan" where
  "plan_from_wire parse payload =
     (if max_plan_bytes < length payload then Inl Plan_Too_Large
      else case parse payload of
        None \<Rightarrow> Inl Not_Json
      | Some v \<Rightarrow>
          if repeated_member v then Inl Duplicate_Json_Field
          else (case v of
              JObj kvs \<Rightarrow>
                and_then (or_raise Unreadable_Plan (read_plan_members kvs)) (\<lambda>p. reraise Invalid_Plan (make_expression_plan p))
            | _ \<Rightarrow> Inl Unreadable_Plan))"

subsection \<open>Receipts and head commands\<close>

datatype receipt_status = Accepted | Started | Done | Cancelled | Rejected | Failed_Playback

record presentation_receipt =
  pr_presentation_id :: string
  pr_response_id :: string
  pr_status :: receipt_status
  pr_sequence :: int
  pr_reason :: string
  pr_elapsed_ms :: int

definition make_presentation_receipt :: "presentation_receipt \<Rightarrow> string invalid + presentation_receipt" where
  "make_presentation_receipt r =
     build [(''presentation_id'', presentation_identifier (pr_presentation_id r)),
            (''response_id'', presentation_identifier (pr_response_id r)), (''sequence'', revision_ok (pr_sequence r)),
            (''reason'', len_between 0 96 (pr_reason r)),
            (''elapsed_ms'', 0 \<le> pr_elapsed_ms r \<and> pr_elapsed_ms r \<le> max_duration_ms)] [] r"

record play_expression =
  pe_session_id :: string
  pe_policy_revision :: int
  pe_plan :: expression_plan

definition make_play_expression :: "play_expression \<Rightarrow> string invalid + play_expression" where
  "make_play_expression p =
     build [(''session_id'', presentation_identifier (pe_session_id p)), (''policy_revision'', revision_ok (pe_policy_revision p)),
            (''plan'', wf_expression_plan (pe_plan p))] [] p"

record cancel_expression =
  cex_session_id :: string
  cex_policy_revision :: int
  cex_presentation_id :: string

definition make_cancel_expression :: "cancel_expression \<Rightarrow> string invalid + cancel_expression" where
  "make_cancel_expression c =
     build [(''session_id'', presentation_identifier (cex_session_id c)), (''policy_revision'', revision_ok (cex_policy_revision c)),
            (''presentation_id'', presentation_identifier (cex_presentation_id c))] [] c"

datatype head_motion = Nod | Shake | Look_Left | Look_Right | Look_Up | Look_Down | Home | Stop_Motion

record head_action =
  ha_action :: head_motion
  ha_times :: int

definition make_head_action :: "head_action \<Rightarrow> string invalid + head_action" where
  "make_head_action a =
     build [(''times'', 1 \<le> ha_times a \<and> ha_times a \<le> 3)]
       [(ha_action a \<notin> {Nod, Shake} \<and> ha_times a \<noteq> 1, ''REPETITIONS_ONLY_FOR_NOD_OR_SHAKE'')] a"

definition glance_payload :: "rat \<Rightarrow> rat \<Rightarrow> json" where
  "glance_payload x y =
     JObj [(''name'', JStr ''glance''), (''times'', JInt 1), (''x'', JFloat (Fin (to_double x))),
       (''y'', JFloat (Fin (to_double y))), (''return_ms'', JInt 650)]"

fun gesture_payload :: "head_motion \<Rightarrow> int \<Rightarrow> string + json" where
  "gesture_payload Look_Left n = Inr (glance_payload (- 2 / 10) 0)"
| "gesture_payload Look_Right n = Inr (glance_payload (2 / 10) 0)"
| "gesture_payload Look_Up n = Inr (glance_payload 0 (35 / 100))"
| "gesture_payload Look_Down n = Inr (glance_payload 0 (- 35 / 100))"
| "gesture_payload Stop_Motion n = Inl ''STOP_IS_NOT_A_GESTURE''"
| "gesture_payload Nod n = Inr (JObj [(''name'', JStr ''nod''), (''times'', JInt n)])"
| "gesture_payload Shake n = Inr (JObj [(''name'', JStr ''shake''), (''times'', JInt n)])"
| "gesture_payload Home n = Inr (JObj [(''name'', JStr ''home''), (''times'', JInt n)])"

record motion_request =
  mr_turn_id :: string
  mr_command_id :: string
  mr_action :: head_action

definition make_motion_request :: "motion_request \<Rightarrow> string invalid + motion_request" where
  "make_motion_request r =
     build [(''turn_id'', presentation_identifier (mr_turn_id r)), (''command_id'', presentation_identifier (mr_command_id r)),
            (''action'', make_head_action (mr_action r) = Inr (mr_action r))] [] r"

record set_output_policy =
  sop_device_ref :: device_ref
  sop_expected_revision :: int
  sop_allowed :: output_selection
  sop_microphone :: "bool option"

definition make_set_output_policy :: "set_output_policy \<Rightarrow> string invalid + set_output_policy" where
  "make_set_output_policy c =
     build [(''device_ref'', wf_device_ref (sop_device_ref c)), (''expected_revision'', 0 \<le> sop_expected_revision c)] [] c"

subsection \<open>Lemmas\<close>

definition in_turn :: "expression_step list \<Rightarrow> bool" where
  "in_turn ss \<longleftrightarrow> sorted_wrt (\<lambda>a b. step_end a \<le> es_at_ms b) ss"

lemma timeline_end_iff:
  "list_all step_ok ss \<Longrightarrow>
     timeline_end t ss = Inr e \<longleftrightarrow>
       in_turn ss \<and> (\<forall>s \<in> set ss. t \<le> es_at_ms s) \<and> e = (if ss = [] then t else step_end (last ss))"
proof (induction ss arbitrary: t)
  case (Cons s ss)
  have ends: "es_at_ms s < step_end s" if "step_ok s" for s using that by (simp add: step_ok_def step_end_def)
  show ?case
  proof (cases "es_at_ms s < t")
    case False
    have "(\<forall>x \<in> set ss. step_end s \<le> es_at_ms x) \<Longrightarrow> t \<le> es_at_ms x" if "x \<in> set ss" for x
      using that False ends [of s] Cons.prems by (auto dest!: bspec)
    then show ?thesis using False Cons by (auto simp: in_turn_def)
  qed auto
qed (auto simp: in_turn_def)

lemma in_turn_ends: "in_turn (ss @ [l]) \<Longrightarrow> list_all step_ok (ss @ [l]) \<Longrightarrow> s \<in> set (ss @ [l]) \<Longrightarrow> step_end s \<le> step_end l"
  by (fastforce simp: in_turn_def sorted_wrt_append list_all_iff step_ok_def step_end_def)

lemma check_timeline_iff:
  assumes "list_all step_ok (ep_steps p)" "ep_steps p \<noteq> []"
  shows "check_timeline p = Inr () \<longleftrightarrow>
    in_turn (ep_steps p) \<and> list_all (\<lambda>s. step_end s \<le> ep_max_duration_ms p) (ep_steps p)"
proof -
  obtain ss l where ss: "ep_steps p = ss @ [l]" using assms(2) by (metis append_butlast_last_id)
  have starts: "\<forall>s \<in> set (ep_steps p). 0 \<le> es_at_ms s" using assms(1) by (auto simp: list_all_iff step_ok_def)
  have "timeline_end 0 (ep_steps p) = Inr e \<longleftrightarrow> in_turn (ep_steps p) \<and> e = step_end l" for e
    using starts timeline_end_iff [OF assms(1), of 0 e] by (simp add: ss)
  then have "check_timeline p = Inr () \<longleftrightarrow> in_turn (ep_steps p) \<and> step_end l \<le> ep_max_duration_ms p"
    by (auto simp: check_timeline_def guard_simps not_less)
  then show ?thesis
    using in_turn_ends [of ss l] assms(1) unfolding ss by (auto simp: list_all_iff intro: order_trans)
qed

lemma read_own_step: "read_step (step_json s) = Some s"
proof -
  have "read_gesture (JStr (gesture_text g)) = Some g" for g
    by (cases g) (simp_all add: read_gesture_def gestures_def)
  moreover have "read_variant (JStr (variant_text v)) = Some v" for v
    by (cases v) (simp_all add: read_variant_def)
  ultimately show ?thesis
    by (simp add: step_json_def only_keys_def member_or_def)
qed

lemma read_own_steps: "read_all read_step (map step_json ss) = Some ss"
  by (induction ss) (simp_all add: read_own_step)

lemma read_own_members:
  assumes "plan_json p = JObj kvs"
  shows "read_plan_members kvs = Some p"
  using assms
  by (auto simp: plan_json_def read_plan_members_def only_keys_def member_or_def parse_text_def parse_int_def
      literal_def read_own_steps)

lemma own_plan_unrepeated: "\<not> repeated_member (plan_json p)"
  by (auto simp: plan_json_def step_json_def list_ex_iff)

subsection \<open>Properties\<close>

text \<open>
  The timeline of a plan: a plan is accepted exactly when its members are in range, its steps follow one
  another without overlap, in any pair of them, and every one of them has ended by the plan's duration.
\<close>

theorem plan_timeline_exact:
  "make_expression_plan p = Inr p \<longleftrightarrow>
     presentation_identifier (ep_presentation_id p) \<and> presentation_identifier (ep_response_id p)
     \<and> 150 \<le> ep_max_duration_ms p \<and> ep_max_duration_ms p \<le> 10000
     \<and> ep_steps p \<noteq> [] \<and> length (ep_steps p) \<le> 8 \<and> list_all step_ok (ep_steps p)
     \<and> sorted_wrt (\<lambda>a b. step_end a \<le> es_at_ms b) (ep_steps p)
     \<and> list_all (\<lambda>s. step_end s \<le> ep_max_duration_ms p) (ep_steps p)"
proof -
  have bounds: "Suc 0 \<le> length (ep_steps p) \<longleftrightarrow> ep_steps p \<noteq> []" by (cases "ep_steps p") simp_all
  show ?thesis
  proof (cases "list_all step_ok (ep_steps p) \<and> ep_steps p \<noteq> []")
    case True
    then show ?thesis
      using check_timeline_iff [of p]
      by (auto simp: expression_plans.make_iff wf_expression_plan_def expression_plan_fields_def len_between_def bounds
          max_duration_ms_def max_steps_def in_turn_def)
  qed (auto simp: expression_plans.make_iff wf_expression_plan_def expression_plan_fields_def len_between_def bounds)
qed

text \<open>
  A valid plan whose document fits the wire is read back as itself, and a document in which any object repeats a
  member is refused, whatever the JSON parser makes of the bytes otherwise.
\<close>

theorem plan_read_back:
  assumes "wf_expression_plan p" "parse payload = Some (plan_json p)" "length payload \<le> 2048"
    and "parse other = Some v" "repeated_member v"
  shows "plan_from_wire parse payload = Inr p \<and> (\<exists>e. plan_from_wire parse other = Inl e)"
proof -
  obtain kvs where kvs: "plan_json p = JObj kvs" by (simp add: plan_json_def)
  then have "plan_from_wire parse payload = Inr p"
    using assms(1-3) own_plan_unrepeated [of p] read_own_members [OF kvs] expression_plans.accepts
    by (simp add: plan_from_wire_def max_plan_bytes_def)
  then show ?thesis using assms(4,5) by (simp add: plan_from_wire_def)
qed

definition sample_plan :: expression_plan where
  "sample_plan =
     \<lparr>ep_presentation_id = ''p-1'', ep_response_id = ''r-1'', ep_max_duration_ms = 1500,
      ep_steps = [\<lparr>es_at_ms = 0, es_gesture = Affirm, es_variant = Subtle, es_intensity = Fin (1 / 2), es_duration_ms = 600\<rparr>,
                  \<lparr>es_at_ms = 600, es_gesture = Delight, es_variant = Default_Variant, es_intensity = Fin 1, es_duration_ms = 900\<rparr>]\<rparr>"

definition sample_parse :: "byte list \<Rightarrow> json option" where
  "sample_parse bs =
     (if bs = [1] then Some (plan_json sample_plan)
      else if bs = [2] then Some (JArr [JObj [(''a'', JNull), (''a'', JNull)]]) else None)"

lemma plan_read_back_witness:
  "plan_from_wire sample_parse [1] = Inr sample_plan \<and> (\<exists>e. plan_from_wire sample_parse [2] = Inl e)"
proof -
  have "wf_expression_plan sample_plan"
    by (simp add: wf_expression_plan_def expression_plan_fields_def sample_plan_def check_timeline_def guarded_simps
        step_end_def step_ok_def unit_ok_def len_between_def session_identifier_def conversation_id_char_def
        char_class_defs max_duration_ms_def max_steps_def)
  then show ?thesis
    by (rule plan_read_back [where v = "JArr [JObj [(''a'', JNull), (''a'', JNull)]]"]) (simp_all add: sample_parse_def)
qed

end
