(* ===== verification/Proposals.thy ===== *)
theory Proposals
  imports Sse
begin

text \<open>
  Two sibling contracts between a caller and a model: who speaks next (\<open>biz/participation\<close>) and what an
  utterance asks for (\<open>biz/interpretation\<close>). A request offers candidates, a result proposes among them, and
  \<open>validate_proposal\<close> refuses what is stale or outside the offer. What the two share is a locale, interpreted
  for both.
\<close>

subsection \<open>The shared contract\<close>

text \<open>
  A check of results against requests: what it accepts answers this request, and a proposal it carries picks
  an allowed kind and only offered things.
\<close>

locale offer =
  fixes check :: "'q \<Rightarrow> 'r \<Rightarrow> 'e + unit"
    and answers :: "'q \<Rightarrow> 'r \<Rightarrow> bool"
    and proposal :: "'r \<Rightarrow> 'p option"
    and kind :: "'p \<Rightarrow> 'k"
    and chosen :: "'p \<Rightarrow> string list"
    and allowed :: "'q \<Rightarrow> 'k list"
    and offered :: "'q \<Rightarrow> string list"
    and extra :: "'q \<Rightarrow> 'p \<Rightarrow> bool"
  assumes check_iff:
    "check q r = Inr () \<longleftrightarrow>
       answers q r \<and> opt_ok (\<lambda>p. kind p \<in> set (allowed q) \<and> set (chosen p) \<subseteq> set (offered q) \<and> extra q p) (proposal r)"
begin

lemma within_offer: "check q r = Inr () \<Longrightarrow> proposal r = Some p \<Longrightarrow> kind p \<in> set (allowed q) \<and> set (chosen p) \<subseteq> set (offered q)"
  by (simp add: check_iff)

lemma nothing_offered: "check q r = Inr () \<Longrightarrow> proposal r = Some p \<Longrightarrow> offered q = [] \<Longrightarrow> chosen p = []"
  by (simp add: check_iff)

lemma refused_iff: "(\<exists>e. check q r = Inl e) \<longleftrightarrow>
    \<not> answers q r \<or> \<not> opt_ok (\<lambda>p. kind p \<in> set (allowed q) \<and> set (chosen p) \<subseteq> set (offered q) \<and> extra q p) (proposal r)"
proof -
  have "(\<exists>e. check q r = Inl e) \<longleftrightarrow> check q r \<noteq> Inr ()" by (cases "check q r") auto
  then show ?thesis by (simp only: check_iff de_Morgan_conj)
qed

end

text \<open>\<open>pattern=\S\<close> within a length.\<close>

definition visible_text :: "nat \<Rightarrow> string \<Rightarrow> bool" where
  "visible_text n s \<longleftrightarrow> len_between 1 n s \<and> list_ex (\<lambda>c. \<not> pattern_space c) s"

definition total_length :: "string list \<Rightarrow> nat" where
  "total_length ss = sum_list (map length ss)"

subsection \<open>Participation\<close>

datatype speak_action = Respond | Clarify_Action | Wait | Finish
datatype author_kind = User | Companion | System

abbreviation participation_id :: "string \<Rightarrow> bool" where
  "participation_id \<equiv> visible_text 512"

definition text_ok :: "string \<Rightarrow> bool" where
  "text_ok s \<longleftrightarrow> len_between 0 32768 s"

record scene_message =
  sm_message_id :: string
  sm_author_kind :: author_kind
  sm_author_id :: string
  sm_text :: string

definition message_ok :: "scene_message \<Rightarrow> bool" where
  "message_ok m \<longleftrightarrow> participation_id (sm_message_id m) \<and> participation_id (sm_author_id m) \<and> text_ok (sm_text m)"

record decision_context =
  dx_summary :: string
  dx_recent_messages :: "scene_message list"
  dx_pending_requirements :: "string list"

definition context_ok :: "decision_context \<Rightarrow> bool" where
  "context_ok c \<longleftrightarrow> text_ok (dx_summary c)
     \<and> len_between 0 64 (dx_recent_messages c) \<and> list_all message_ok (dx_recent_messages c)
     \<and> len_between 0 32 (dx_pending_requirements c) \<and> list_all text_ok (dx_pending_requirements c)"

record speaker_candidate =
  sc_companion_id :: string
  sc_display_name :: string
  sc_description :: string

definition speaker_ok :: "speaker_candidate \<Rightarrow> bool" where
  "speaker_ok c \<longleftrightarrow> participation_id (sc_companion_id c) \<and> len_between 0 256 (sc_display_name c)
     \<and> len_between 0 4096 (sc_description c)"

record decision_constraints =
  dn_allowed_actions :: "speak_action list"
  dn_max_next_speakers :: int
  dn_remaining_replies :: int

definition constraint_fields :: "decision_constraints \<Rightarrow> (string \<times> bool) list" where
  "constraint_fields c =
     [(''allowed_actions'', len_between 1 4 (dn_allowed_actions c)),
      (''max_next_speakers'', dn_max_next_speakers c = 1),
      (''remaining_replies'', 1 \<le> dn_remaining_replies c \<and> dn_remaining_replies c \<le> 32)]"

definition constraint_rules :: "decision_constraints \<Rightarrow> (bool \<times> string) list" where
  "constraint_rules c = [(has_duplicates (dn_allowed_actions c), ''DUPLICATE_ALLOWED_ACTION'')]"

definition make_constraints :: "decision_constraints \<Rightarrow> string invalid + decision_constraints" where
  "make_constraints c = build (constraint_fields c) (constraint_rules c) c"

record decision_snapshot =
  sn_decision_id :: string
  sn_context_ref :: string
  sn_context_version :: int
  sn_membership_revision :: int
  sn_cancellation_epoch :: int

definition snapshot_ok :: "decision_snapshot \<Rightarrow> bool" where
  "snapshot_ok s \<longleftrightarrow> participation_id (sn_decision_id s) \<and> participation_id (sn_context_ref s)
     \<and> 0 \<le> sn_context_version s \<and> 0 \<le> sn_membership_revision s \<and> 0 \<le> sn_cancellation_epoch s"

record decision_request =
  dq_snapshot :: decision_snapshot
  dq_user_request :: scene_message
  dq_scene_goal :: string
  dq_trigger :: scene_message
  dq_context :: decision_context
  dq_candidates :: "speaker_candidate list"
  dq_constraints :: decision_constraints
  dq_timeout_ms :: int

definition decision_request_fields :: "decision_request \<Rightarrow> (string \<times> bool) list" where
  "decision_request_fields q =
     [(''snapshot'', snapshot_ok (dq_snapshot q)), (''user_request'', message_ok (dq_user_request q)),
      (''scene_goal'', len_between 0 2000 (dq_scene_goal q)), (''trigger'', message_ok (dq_trigger q)),
      (''context'', context_ok (dq_context q)),
      (''candidates'', len_between 0 64 (dq_candidates q) \<and> list_all speaker_ok (dq_candidates q)),
      (''constraints'', admissible (constraint_fields (dq_constraints q)) (constraint_rules (dq_constraints q))),
      (''timeout_ms'', 1 \<le> dq_timeout_ms q \<and> dq_timeout_ms q \<le> 60000)]"

definition context_size :: "decision_request \<Rightarrow> nat" where
  "context_size q =
     length (sm_text (dq_trigger q)) + length (dx_summary (dq_context q)) + length (sm_text (dq_user_request q))
       + length (dq_scene_goal q)
     + total_length (map sm_text (dx_recent_messages (dq_context q)))
     + total_length (dx_pending_requirements (dq_context q))
     + sum_list (map (\<lambda>c. length (sc_description c) + length (sc_display_name c)) (dq_candidates q))"

definition decision_request_rules :: "decision_request \<Rightarrow> (bool \<times> string) list" where
  "decision_request_rules q =
     [(sm_author_kind (dq_user_request q) \<noteq> User, ''USER_REQUEST_MUST_BE_USER''),
      (has_duplicates (map sc_companion_id (dq_candidates q)), ''DUPLICATE_CANDIDATE''),
      (131072 < context_size q, ''CONTEXT_TOO_LARGE'')]"

definition make_decision_request :: "decision_request \<Rightarrow> string invalid + decision_request" where
  "make_decision_request q = build (decision_request_fields q) (decision_request_rules q) q"

definition wf_decision_request :: "decision_request \<Rightarrow> bool" where
  "wf_decision_request q \<longleftrightarrow> admissible (decision_request_fields q) (decision_request_rules q)"

interpretation decision_requests: model_class make_decision_request wf_decision_request
  by (rule build_class; simp add: make_decision_request_def wf_decision_request_def)

record speak_proposal =
  sp_action :: speak_action
  sp_participants :: "string list"
  sp_instruction :: string

definition speak_proposal_fields :: "speak_proposal \<Rightarrow> (string \<times> bool) list" where
  "speak_proposal_fields p =
     [(''participants'', len_between 0 1 (sp_participants p) \<and> list_all participation_id (sp_participants p)),
      (''instruction'', len_between 0 2000 (sp_instruction p))]"

definition is_silent :: "speak_action \<Rightarrow> bool" where
  "is_silent a \<longleftrightarrow> a = Wait \<or> a = Finish"

definition speak_proposal_rules :: "speak_proposal \<Rightarrow> (bool \<times> string) list" where
  "speak_proposal_rules p =
     (let count = length (sp_participants p); a = sp_action p
      in [(has_duplicates (sp_participants p), ''DUPLICATE_PARTICIPANT''),
          (a = Clarify_Action \<and> blank (sp_instruction p), ''CLARIFICATION_TASK_REQUIRED''),
          (is_silent a \<and> sp_instruction p \<noteq> [], ''SILENT_ACTION_HAS_NO_SPEAKER_TASK''),
          (a = Respond \<and> count = 0 \<or> a = Clarify_Action \<and> count \<noteq> 1 \<or> is_silent a \<and> count \<noteq> 0,
           ''PARTICIPANTS_DO_NOT_MATCH_ACTION'')])"

definition wf_speak_proposal :: "speak_proposal \<Rightarrow> bool" where
  "wf_speak_proposal p \<longleftrightarrow> admissible (speak_proposal_fields p) (speak_proposal_rules p)"

definition make_speak_proposal :: "speak_proposal \<Rightarrow> string invalid + speak_proposal" where
  "make_speak_proposal p = build (speak_proposal_fields p) (speak_proposal_rules p) p"

interpretation speak_proposals: model_class make_speak_proposal wf_speak_proposal
  by (rule build_class; simp add: make_speak_proposal_def wf_speak_proposal_def)

datatype decision_status = Decided | Abstained

record decision_result =
  dz_snapshot :: decision_snapshot
  dz_status :: decision_status
  dz_proposal :: "speak_proposal option"
  dz_policy_version :: string
  dz_model_version :: string

definition decision_result_fields :: "decision_result \<Rightarrow> (string \<times> bool) list" where
  "decision_result_fields r =
     [(''snapshot'', snapshot_ok (dz_snapshot r)), (''proposal'', opt_ok wf_speak_proposal (dz_proposal r)),
      (''policy_version'', participation_id (dz_policy_version r)), (''model_version'', participation_id (dz_model_version r))]"

definition decision_result_rules :: "decision_result \<Rightarrow> (bool \<times> string) list" where
  "decision_result_rules r =
     [((dz_status r = Decided) \<noteq> (dz_proposal r \<noteq> None), ''PROPOSAL_DOES_NOT_MATCH_STATUS'')]"

definition make_decision_result :: "decision_result \<Rightarrow> string invalid + decision_result" where
  "make_decision_result r = build (decision_result_fields r) (decision_result_rules r) r"

definition wf_decision_result :: "decision_result \<Rightarrow> bool" where
  "wf_decision_result r \<longleftrightarrow> admissible (decision_result_fields r) (decision_result_rules r)"

interpretation decision_results: model_class make_decision_result wf_decision_result
  by (rule build_class; simp add: make_decision_result_def wf_decision_result_def)

definition validate_speak_proposal :: "decision_request \<Rightarrow> decision_result \<Rightarrow> string + unit" where
  "validate_speak_proposal q r =
     and_then (guarded [(dq_snapshot q \<noteq> dz_snapshot r, ''DECISION_SNAPSHOT_MISMATCH'')] ()) (\<lambda>_.
       case dz_proposal r of
         None \<Rightarrow> Inr ()
       | Some p \<Rightarrow> guarded
           [(sp_action p \<notin> set (dn_allowed_actions (dq_constraints q)), ''ACTION_NOT_ALLOWED''),
            (\<not> set (sp_participants p) \<subseteq> set (map sc_companion_id (dq_candidates q)), ''PARTICIPANT_OUTSIDE_CANDIDATES''),
            (dn_max_next_speakers (dq_constraints q) < int (length (sp_participants p)), ''TOO_MANY_PARTICIPANTS'')] ())"

interpretation participation: offer validate_speak_proposal "\<lambda>q r. dq_snapshot q = dz_snapshot r" dz_proposal
    sp_action sp_participants "\<lambda>q. dn_allowed_actions (dq_constraints q)" "\<lambda>q. map sc_companion_id (dq_candidates q)"
    "\<lambda>q p. int (length (sp_participants p)) \<le> dn_max_next_speakers (dq_constraints q)"
  by unfold_locales (auto simp: validate_speak_proposal_def guard_simps not_less split: option.split)

subsection \<open>Interpretation\<close>

definition interpretation_error_codes :: "string list" where
  "interpretation_error_codes =
     [''INVALID_REQUEST'', ''UNSUPPORTED_VERSION'', ''CONTEXT_TOO_LARGE'', ''TIMEOUT'', ''UNAVAILABLE'',
      ''IDEMPOTENCY_CONFLICT'', ''INVALID_PROPOSAL'']"

definition retryable_errors :: "string list" where
  "retryable_errors = [''TIMEOUT'', ''UNAVAILABLE'']"

record interpretation_error =
  ie_message :: string
  ie_code :: string
  ie_retryable :: bool

definition make_interpretation_error :: "string \<Rightarrow> string \<Rightarrow> string + interpretation_error" where
  "make_interpretation_error code detail =
     guarded [(code \<notin> set interpretation_error_codes, ''unknown interpretation error code'')]
       \<lparr>ie_message = (if detail = [] then code else code @ '': '' @ detail), ie_code = code,
        ie_retryable = (code \<in> set retryable_errors)\<rparr>"

datatype ask_intent = Control | Query | Unrelated
datatype target_status = Resolved | Ambiguous | None_Found

abbreviation interpretation_id :: "string \<Rightarrow> bool" where
  "interpretation_id \<equiv> visible_text 128"

abbreviation home_name :: "string \<Rightarrow> bool" where
  "home_name \<equiv> visible_text 64"

record target_candidate =
  tc_ref :: string
  tc_name :: string
  tc_aliases :: "string list"
  tc_kind :: string
  tc_area_id :: "string option"

definition target_ok :: "target_candidate \<Rightarrow> bool" where
  "target_ok c \<longleftrightarrow> interpretation_id (tc_ref c) \<and> home_name (tc_name c)
     \<and> len_between 0 8 (tc_aliases c) \<and> list_all home_name (tc_aliases c) \<and> interpretation_id (tc_kind c)
     \<and> opt_ok interpretation_id (tc_area_id c)"

record heard_area =
  ha_area_id :: string
  ha_name :: string

record utterance_origin =
  uo_device_ref :: "string option"
  uo_area_id :: "string option"

record interpretation_request =
  iq_interpretation_id :: string
  iq_utterance :: string
  iq_origin :: utterance_origin
  iq_candidates :: "target_candidate list"
  iq_areas :: "heard_area list"
  iq_allowed_intents :: "ask_intent list"
  iq_timeout_ms :: int
  iq_context :: "json_object option"

definition interpretation_request_fields :: "interpretation_request \<Rightarrow> (string \<times> bool) list" where
  "interpretation_request_fields q =
     [(''interpretation_id'', interpretation_id (iq_interpretation_id q)),
      (''utterance'', len_between 1 512 (iq_utterance q)),
      (''origin'', opt_ok interpretation_id (uo_device_ref (iq_origin q)) \<and> opt_ok interpretation_id (uo_area_id (iq_origin q))),
      (''candidates'', len_between 0 256 (iq_candidates q) \<and> list_all target_ok (iq_candidates q)),
      (''areas'', len_between 0 64 (iq_areas q)
         \<and> list_all (\<lambda>a. interpretation_id (ha_area_id a) \<and> home_name (ha_name a)) (iq_areas q)),
      (''allowed_intents'', len_between 1 3 (iq_allowed_intents q)),
      (''timeout_ms'', 1 \<le> iq_timeout_ms q \<and> iq_timeout_ms q \<le> 10000)]"

text \<open>\<open>v is not None and v not in area_ids\<close>.\<close>

definition unknown_area :: "interpretation_request \<Rightarrow> string option \<Rightarrow> bool" where
  "unknown_area q v = (case v of None \<Rightarrow> False | Some a \<Rightarrow> a \<notin> set (map ha_area_id (iq_areas q)))"

definition context_too_large :: "(rat \<Rightarrow> string) \<Rightarrow> interpretation_request \<Rightarrow> bool" where
  "context_too_large ft q =
     (case iq_context q of None \<Rightarrow> False | Some c \<Rightarrow> 16384 < length (utf8 (spaced_json ft (JObj c))))"

definition interpretation_request_rules :: "(rat \<Rightarrow> string) \<Rightarrow> interpretation_request \<Rightarrow> (bool \<times> string) list" where
  "interpretation_request_rules ft q =
     [(context_too_large ft q, ''CONTEXT_TOO_LARGE''),
      (has_duplicates (map tc_ref (iq_candidates q)), ''DUPLICATE_CANDIDATE''),
      (has_duplicates (map ha_area_id (iq_areas q)), ''DUPLICATE_AREA''),
      (list_ex (\<lambda>c. unknown_area q (tc_area_id c)) (iq_candidates q), ''CANDIDATE_AREA_UNKNOWN''),
      (unknown_area q (uo_area_id (iq_origin q)), ''ORIGIN_AREA_UNKNOWN''),
      (has_duplicates (iq_allowed_intents q), ''DUPLICATE_ALLOWED_INTENT'')]"

definition make_interpretation_request ::
  "(rat \<Rightarrow> string) \<Rightarrow> interpretation_request \<Rightarrow> string invalid + interpretation_request" where
  "make_interpretation_request ft q = build (interpretation_request_fields q) (interpretation_request_rules ft q) q"

definition wf_interpretation_request :: "(rat \<Rightarrow> string) \<Rightarrow> interpretation_request \<Rightarrow> bool" where
  "wf_interpretation_request ft q \<longleftrightarrow> admissible (interpretation_request_fields q) (interpretation_request_rules ft q)"

interpretation interpretation_requests: model_class "make_interpretation_request ft" "wf_interpretation_request ft" for ft
  by (rule build_class; simp add: make_interpretation_request_def wf_interpretation_request_def)

datatype slot_value = Bool_Slot bool | Int_Slot int | Float_Slot pyfloat | Text_Slot string

record asked_slot =
  sl_name :: string
  sl_value :: slot_value
  sl_unit :: "string option"
  sl_raw_span :: "string option"

definition slot_ok :: "asked_slot \<Rightarrow> bool" where
  "slot_ok s \<longleftrightarrow> interpretation_id (sl_name s) \<and> opt_ok (len_between 0 16) (sl_unit s) \<and> opt_ok (len_between 0 64) (sl_raw_span s)"

record asked_action =
  aa_trait :: string
  aa_command :: string
  aa_slots :: "asked_slot list"

definition asked_action_ok :: "asked_action \<Rightarrow> bool" where
  "asked_action_ok a \<longleftrightarrow> interpretation_id (aa_trait a) \<and> interpretation_id (aa_command a)
     \<and> len_between 0 8 (aa_slots a) \<and> list_all slot_ok (aa_slots a)"

record ask_proposal =
  ap_intent :: ask_intent
  ap_target_status :: target_status
  ap_targets :: "string list"
  ap_action :: "asked_action option"
  ap_mention :: "string option"

definition ask_proposal_fields :: "ask_proposal \<Rightarrow> (string \<times> bool) list" where
  "ask_proposal_fields p =
     [(''targets'', len_between 0 64 (ap_targets p) \<and> list_all interpretation_id (ap_targets p)),
      (''action'', opt_ok asked_action_ok (ap_action p)), (''mention'', opt_ok (len_between 0 32) (ap_mention p))]"

text \<open>An unrelated proposal returns after its own check.\<close>

definition ask_proposal_rules :: "ask_proposal \<Rightarrow> (bool \<times> string) list" where
  "ask_proposal_rules p =
     (let count = length (ap_targets p)
      in (has_duplicates (ap_targets p), ''DUPLICATE_TARGET'')
         # (if ap_intent p = Unrelated then
              [(ap_target_status p \<noteq> None_Found \<or> count \<noteq> 0 \<or> ap_action p \<noteq> None \<or> some_text (ap_mention p),
                ''UNRELATED_CARRIES_TARGET'')]
            else
              [(ap_target_status p = Resolved \<and> count = 0, ''RESOLVED_WITHOUT_TARGET''),
               (ap_target_status p = Ambiguous \<and> count < 2, ''AMBIGUOUS_NEEDS_CANDIDATES''),
               (ap_target_status p = None_Found \<and> count \<noteq> 0, ''NONE_CARRIES_TARGET''),
               (ap_mention p \<noteq> None \<and> ap_target_status p \<noteq> None_Found, ''MENTION_ONLY_WHEN_NONE''),
               (ap_intent p = Control \<and> ap_action p = None, ''CONTROL_WITHOUT_ACTION'')]))"

definition wf_ask_proposal :: "ask_proposal \<Rightarrow> bool" where
  "wf_ask_proposal p \<longleftrightarrow> admissible (ask_proposal_fields p) (ask_proposal_rules p)"

definition make_ask_proposal :: "ask_proposal \<Rightarrow> string invalid + ask_proposal" where
  "make_ask_proposal p = build (ask_proposal_fields p) (ask_proposal_rules p) p"

interpretation ask_proposals: model_class make_ask_proposal wf_ask_proposal
  by (rule build_class; simp add: make_ask_proposal_def wf_ask_proposal_def)

record interpretation_result =
  iz_interpretation_id :: string
  iz_status :: decision_status
  iz_proposal :: "ask_proposal option"
  iz_policy_version :: string
  iz_model_version :: string
  iz_diagnostics :: "(string \<times> slot_value) list"

definition interpretation_result_fields :: "interpretation_result \<Rightarrow> (string \<times> bool) list" where
  "interpretation_result_fields r =
     [(''interpretation_id'', interpretation_id (iz_interpretation_id r)), (''proposal'', opt_ok wf_ask_proposal (iz_proposal r)),
      (''policy_version'', interpretation_id (iz_policy_version r)), (''model_version'', interpretation_id (iz_model_version r)),
      (''diagnostics'', len_between 0 16 (iz_diagnostics r))]"

definition interpretation_result_rules :: "interpretation_result \<Rightarrow> (bool \<times> string) list" where
  "interpretation_result_rules r =
     [((iz_status r = Decided) \<noteq> (iz_proposal r \<noteq> None), ''PROPOSAL_DOES_NOT_MATCH_STATUS'')]"

definition make_interpretation_result :: "interpretation_result \<Rightarrow> string invalid + interpretation_result" where
  "make_interpretation_result r = build (interpretation_result_fields r) (interpretation_result_rules r) r"

definition wf_interpretation_result :: "interpretation_result \<Rightarrow> bool" where
  "wf_interpretation_result r \<longleftrightarrow> admissible (interpretation_result_fields r) (interpretation_result_rules r)"

interpretation interpretation_results: model_class make_interpretation_result wf_interpretation_result
  by (rule build_class; simp add: make_interpretation_result_def wf_interpretation_result_def)

definition validate_ask_proposal :: "interpretation_request \<Rightarrow> interpretation_result \<Rightarrow> string + unit" where
  "validate_ask_proposal q r =
     and_then (guarded [(iz_interpretation_id r \<noteq> iq_interpretation_id q, ''INTERPRETATION_ID_MISMATCH'')] ()) (\<lambda>_.
       case iz_proposal r of
         None \<Rightarrow> Inr ()
       | Some p \<Rightarrow> guarded
           [(ap_intent p \<notin> set (iq_allowed_intents q), ''INTENT_NOT_ALLOWED''),
            (\<not> set (ap_targets p) \<subseteq> set (map tc_ref (iq_candidates q)), ''TARGET_OUTSIDE_CANDIDATES'')] ())"

interpretation asking: offer validate_ask_proposal "\<lambda>q r. iz_interpretation_id r = iq_interpretation_id q" iz_proposal
    ap_intent ap_targets iq_allowed_intents "\<lambda>q. map tc_ref (iq_candidates q)" "\<lambda>_ _. True"
  by unfold_locales (auto simp: validate_ask_proposal_def guard_simps split: option.split)

subsection \<open>Lemmas\<close>

text \<open>What the two kinds of proposal mean once they are accepted.\<close>

definition speaks_as_asked :: "string list \<Rightarrow> speak_proposal \<Rightarrow> bool" where
  "speaks_as_asked speakers p =
     (case sp_action p of
        Respond \<Rightarrow> (\<exists>c. c \<in> set speakers \<and> sp_participants p = [c])
      | Clarify_Action \<Rightarrow> (\<exists>c. c \<in> set speakers \<and> sp_participants p = [c]) \<and> \<not> blank (sp_instruction p)
      | _ \<Rightarrow> sp_participants p = [] \<and> sp_instruction p = [])"

definition asks_soundly :: "string list \<Rightarrow> ask_proposal \<Rightarrow> bool" where
  "asks_soundly offered p \<longleftrightarrow>
     distinct (ap_targets p) \<and> set (ap_targets p) \<subseteq> set offered
     \<and> (if ap_intent p = Unrelated then ap_target_status p = None_Found \<and> ap_targets p = [] \<and> ap_action p = None
        else (case ap_target_status p of
               Resolved \<Rightarrow> ap_targets p \<noteq> [] | Ambiguous \<Rightarrow> 2 \<le> length (ap_targets p) | None_Found \<Rightarrow> ap_targets p = [])
           \<and> (if ap_intent p = Control then ap_action p \<noteq> None else True))"

lemma one_participant: "length xs = 1 \<longleftrightarrow> (\<exists>x. xs = [x])"
  by (cases xs) auto

lemma wf_speak_shape:
  assumes "wf_speak_proposal p"
  shows "set (sp_participants p) \<subseteq> set speakers \<longleftrightarrow> speaks_as_asked speakers p"
proof -
  from assms have few: "length (sp_participants p) \<le> 1"
    and rules: "\<not> list_ex fst (speak_proposal_rules p)"
    by (simp_all add: wf_speak_proposal_def admissible_def speak_proposal_fields_def len_between_def)
  then have "sp_participants p = [] \<or> (\<exists>c. sp_participants p = [c])"
    by (cases "sp_participants p") auto
  then show ?thesis using rules
    by (cases "sp_action p") (auto simp: speak_proposal_rules_def speaks_as_asked_def is_silent_def Let_def)
qed

lemma wf_ask_shape:
  "wf_ask_proposal p \<Longrightarrow> set (ap_targets p) \<subseteq> set offered \<longleftrightarrow> asks_soundly offered p"
  by (cases "ap_target_status p")
    (auto simp: wf_ask_proposal_def admissible_def ask_proposal_rules_def asks_soundly_def Let_def some_text_iff
      split: if_splits)

lemma decided_iff: "wf_decision_result r \<Longrightarrow> dz_proposal r = None \<longleftrightarrow> dz_status r = Abstained"
  by (cases "dz_status r") (auto simp: wf_decision_result_def admissible_def decision_result_rules_def)

lemma interpreted_iff: "wf_interpretation_result r \<Longrightarrow> iz_proposal r = None \<longleftrightarrow> iz_status r = Abstained"
  by (cases "iz_status r") (auto simp: wf_interpretation_result_def admissible_def interpretation_result_rules_def)

subsection \<open>Properties\<close>

text \<open>
  A participation result is accepted exactly when it answers this very snapshot and either abstains or
  takes an allowed action with exactly the speakers it needs: one offered candidate to respond, one with a
  task to clarify, nobody and nothing to say to wait or finish.
\<close>

theorem participation_result_exact:
  assumes "wf_decision_request q" "wf_decision_result r"
  shows "validate_speak_proposal q r = Inr () \<longleftrightarrow>
    dq_snapshot q = dz_snapshot r
    \<and> (case dz_proposal r of
         None \<Rightarrow> dz_status r = Abstained
       | Some p \<Rightarrow> dz_status r = Decided \<and> sp_action p \<in> set (dn_allowed_actions (dq_constraints q))
           \<and> speaks_as_asked (map sc_companion_id (dq_candidates q)) p)"
proof -
  have one: "dn_max_next_speakers (dq_constraints q) = 1"
    using assms(1) by (auto simp: wf_decision_request_def admissible_def decision_request_fields_def constraint_fields_def)
  show ?thesis
  proof (cases "dz_proposal r")
    case None
    then show ?thesis using decided_iff [OF assms(2)] by (simp add: participation.check_iff)
  next
    case (Some p)
    then have p: "wf_speak_proposal p" "dz_status r = Decided"
      using assms(2) decided_iff [OF assms(2)]
      by (auto simp: wf_decision_result_def admissible_def decision_result_fields_def decision_result_rules_def)
    then have "length (sp_participants p) \<le> 1"
      by (simp add: wf_speak_proposal_def admissible_def speak_proposal_fields_def len_between_def)
    then show ?thesis using Some p one wf_speak_shape [OF p(1), of "map sc_companion_id (dq_candidates q)"]
      by (simp add: participation.check_iff)
  qed
qed

text \<open>
  An interpretation is accepted exactly when it answers this request and either abstains or states an allowed
  intent soundly: its distinct targets are among the offered candidates, some when resolved, at least two when
  ambiguous, none when nothing matched, an unrelated utterance carries neither target nor action, and control
  carries an action.
\<close>

theorem interpretation_result_exact:
  assumes "wf_interpretation_result r"
  shows "validate_ask_proposal q r = Inr () \<longleftrightarrow>
    iz_interpretation_id r = iq_interpretation_id q
    \<and> (case iz_proposal r of
         None \<Rightarrow> iz_status r = Abstained
       | Some p \<Rightarrow> iz_status r = Decided \<and> ap_intent p \<in> set (iq_allowed_intents q)
           \<and> asks_soundly (map tc_ref (iq_candidates q)) p)"
proof (cases "iz_proposal r")
  case None
  then show ?thesis using interpreted_iff [OF assms] by (simp add: asking.check_iff)
next
  case (Some p)
  then have p: "wf_ask_proposal p" "iz_status r = Decided"
    using assms interpreted_iff [OF assms]
    by (auto simp: wf_interpretation_result_def admissible_def interpretation_result_fields_def
        interpretation_result_rules_def)
  then show ?thesis using Some wf_ask_shape [OF p(1), of "map tc_ref (iq_candidates q)"]
    by (simp add: asking.check_iff)
qed

definition sample_snapshot_id :: decision_snapshot where
  "sample_snapshot_id =
     \<lparr>sn_decision_id = ''d'', sn_context_ref = ''c'', sn_context_version = 3, sn_membership_revision = 1, sn_cancellation_epoch = 0\<rparr>"

definition sample_request :: decision_request where
  "sample_request =
     \<lparr>dq_snapshot = sample_snapshot_id,
      dq_user_request = \<lparr>sm_message_id = ''m'', sm_author_kind = User, sm_author_id = ''u'', sm_text = ''hi''\<rparr>,
      dq_scene_goal = [],
      dq_trigger = \<lparr>sm_message_id = ''m'', sm_author_kind = User, sm_author_id = ''u'', sm_text = ''hi''\<rparr>,
      dq_context = \<lparr>dx_summary = [], dx_recent_messages = [], dx_pending_requirements = []\<rparr>,
      dq_candidates = [\<lparr>sc_companion_id = ''ada'', sc_display_name = [], sc_description = []\<rparr>],
      dq_constraints = \<lparr>dn_allowed_actions = [Respond, Wait], dn_max_next_speakers = 1, dn_remaining_replies = 8\<rparr>,
      dq_timeout_ms = 1000\<rparr>"

definition sample_result :: "string \<Rightarrow> decision_result" where
  "sample_result speaker =
     \<lparr>dz_snapshot = sample_snapshot_id, dz_status = Decided,
      dz_proposal = Some \<lparr>sp_action = Respond, sp_participants = [speaker], sp_instruction = []\<rparr>,
      dz_policy_version = ''p'', dz_model_version = ''m''\<rparr>"

lemma participation_result_exact_witness:
  "validate_speak_proposal sample_request (sample_result ''ada'') = Inr ()
   \<and> validate_speak_proposal sample_request (sample_result ''bob'') \<noteq> Inr ()"
proof -
  have q: "wf_decision_request sample_request"
    by (simp add: wf_decision_request_def admissible_def decision_request_fields_def decision_request_rules_def
        sample_request_def sample_snapshot_id_def snapshot_ok_def message_ok_def context_ok_def speaker_ok_def
        constraint_fields_def constraint_rules_def visible_text_def text_ok_def len_between_def context_size_def
        total_length_def pattern_space_def)
  have r: "wf_decision_result (sample_result s)" if "participation_id s" for s
    using that
    by (simp add: wf_decision_result_def admissible_def decision_result_fields_def decision_result_rules_def
        sample_result_def sample_snapshot_id_def snapshot_ok_def visible_text_def len_between_def pattern_space_def
        wf_speak_proposal_def speak_proposal_fields_def speak_proposal_rules_def is_silent_def Let_def)
  have "participation_id ''ada''" "participation_id ''bob''"
    by (simp_all add: visible_text_def len_between_def pattern_space_def)
  then show ?thesis
    using participation_result_exact [OF q r, of "''ada''"] participation_result_exact [OF q r, of "''bob''"]
    by (simp add: sample_request_def sample_result_def speaks_as_asked_def)
qed

lemma interpretation_result_exact_witness:
  "validate_ask_proposal
     \<lparr>iq_interpretation_id = ''i'', iq_utterance = ''hi'', iq_origin = \<lparr>uo_device_ref = None, uo_area_id = None\<rparr>,
      iq_candidates = [], iq_areas = [], iq_allowed_intents = [Query], iq_timeout_ms = 1, iq_context = None\<rparr>
     \<lparr>iz_interpretation_id = ''i'', iz_status = Abstained, iz_proposal = None, iz_policy_version = ''p'',
      iz_model_version = ''m'', iz_diagnostics = []\<rparr> = Inr ()"
  by (subst interpretation_result_exact)
    (simp_all add: wf_interpretation_result_def admissible_def interpretation_result_fields_def
      interpretation_result_rules_def visible_text_def len_between_def pattern_space_def)

end
