(* ===== verification/Device_Events.thy ===== *)
theory Device_Events
  imports Json_Values Byte_Codecs
begin

text \<open>
  The short-lived owner-scoped device events of \<open>biz/events/protocol.py\<close>: the four kinds of event, their
  leases and causes, the strict reader with its transport size and expiry checks, and the normal form. The
  text of a finite float is the parameter \<open>ft\<close>.
\<close>

definition event_default_ttl_ms :: int where "event_default_ttl_ms = 3000"
definition event_max_clock_skew_ms :: int where "event_max_clock_skew_ms = 1000"
definition event_max_bytes :: nat where "event_max_bytes = 2048"

text \<open>\<open>^[a-z][a-z0-9_.-]*$\<close> within a length.\<close>

definition component_char :: "char \<Rightarrow> bool" where
  "component_char c \<longleftrightarrow> is_ascii_lower c \<or> is_ascii_digit c \<or> c \<in> set ''_.-''"

definition component_text :: "string \<Rightarrow> bool" where
  "component_text s = (case s of [] \<Rightarrow> False | c # cs \<Rightarrow> is_ascii_lower c \<and> list_all component_char cs)"

record event_source =
  ev_device_id :: string
  ev_component :: string

definition event_source_ok :: "event_source \<Rightarrow> bool" where
  "event_source_ok s \<longleftrightarrow> len_between 1 128 (ev_device_id s) \<and> len_between 1 64 (ev_component s)
     \<and> component_text (ev_component s)"

definition int_between :: "int \<Rightarrow> int \<Rightarrow> int \<Rightarrow> bool" where
  "int_between lo hi n \<longleftrightarrow> lo \<le> n \<and> n \<le> hi"

abbreviation epoch_32 :: "int \<Rightarrow> bool" where
  "epoch_32 \<equiv> int_between 0 4294967295"

abbreviation serial_32 :: "int \<Rightarrow> bool" where
  "serial_32 \<equiv> int_between 1 4294967295"

subsection \<open>Payloads\<close>

datatype ambient_state = Present | Vacant
datatype observation_kind = Edge | Snapshot_Taken | Heartbeat
datatype owner_state = Owner_Present | Owner_Absent
datatype flow_status = Running | Flow_Completed | Timed_Out | Flow_Failed

record ambient_presence =
  am_state :: ambient_state
  am_presence_epoch :: int
  am_sequence :: int
  am_lease_ms :: int
  am_observation :: observation_kind

definition ambient_presence_fields :: "ambient_presence \<Rightarrow> (string \<times> bool) list" where
  "ambient_presence_fields p =
     [(''presence_epoch'', serial_32 (am_presence_epoch p)), (''sequence'', serial_32 (am_sequence p)),
      (''lease_ms'', int_between 0 60000 (am_lease_ms p))]"

definition ambient_presence_rules :: "ambient_presence \<Rightarrow> (bool \<times> string) list" where
  "ambient_presence_rules p =
     [(am_state p = Present \<and> am_lease_ms p = 0, ''present ambient presence requires a lease''),
      (am_state p = Vacant \<and> am_lease_ms p \<noteq> 0, ''vacant ambient presence cannot carry a lease''),
      (am_state p = Vacant \<and> am_observation p = Heartbeat, ''vacant ambient presence cannot be a heartbeat'')]"

record owner_confirmed =
  oc_ambient_source_device_id :: string
  oc_ambient_presence_epoch :: int
  oc_profile_revision :: int
  oc_guard_epoch :: int
  oc_presence_sequence :: int
  oc_lease_ms :: int

definition owner_confirmed_fields :: "owner_confirmed \<Rightarrow> (string \<times> bool) list" where
  "owner_confirmed_fields p =
     [(''ambient_source_device_id'', len_between 1 128 (oc_ambient_source_device_id p)),
      (''ambient_presence_epoch'', serial_32 (oc_ambient_presence_epoch p)), (''profile_revision'', 1 \<le> oc_profile_revision p),
      (''guard_epoch'', epoch_32 (oc_guard_epoch p)), (''presence_sequence'', serial_32 (oc_presence_sequence p)),
      (''lease_ms'', int_between 1 120000 (oc_lease_ms p))]"

record owner_changed =
  oh_state :: owner_state
  oh_profile_revision :: int
  oh_guard_epoch :: int
  oh_presence_sequence :: int
  oh_lease_ms :: int

definition owner_changed_fields :: "owner_changed \<Rightarrow> (string \<times> bool) list" where
  "owner_changed_fields p =
     [(''profile_revision'', 1 \<le> oh_profile_revision p), (''guard_epoch'', epoch_32 (oh_guard_epoch p)),
      (''presence_sequence'', serial_32 (oh_presence_sequence p)), (''lease_ms'', int_between 0 120000 (oh_lease_ms p))]"

definition owner_changed_rules :: "owner_changed \<Rightarrow> (bool \<times> string) list" where
  "owner_changed_rules p =
     [(oh_state p = Owner_Present \<and> oh_lease_ms p = 0, ''present owner presence requires a lease''),
      (oh_state p = Owner_Absent \<and> oh_lease_ms p \<noteq> 0, ''absent owner presence cannot carry a lease'')]"

record flow_node =
  fn_stage :: string
  fn_status :: flow_status
  fn_label :: string

definition flow_node_fields :: "flow_node \<Rightarrow> (string \<times> bool) list" where
  "flow_node_fields p =
     [(''stage'', len_between 1 64 (fn_stage p) \<and> component_text (fn_stage p)), (''label'', len_between 1 96 (fn_label p))]"

datatype event_payload =
    Ambient_State ambient_presence
  | Owner_Confirmed owner_confirmed
  | Owner_Changed owner_changed
  | Flow_Node flow_node

fun payload_ok :: "event_payload \<Rightarrow> bool" where
  "payload_ok (Ambient_State p) = admissible (ambient_presence_fields p) (ambient_presence_rules p)"
| "payload_ok (Owner_Confirmed p) = admissible (owner_confirmed_fields p) no_rules"
| "payload_ok (Owner_Changed p) = admissible (owner_changed_fields p) (owner_changed_rules p)"
| "payload_ok (Flow_Node p) = admissible (flow_node_fields p) no_rules"

subsection \<open>Events\<close>

record device_event =
  dev_event_id :: string
  dev_flow_id :: string
  dev_causation_id :: string
  dev_source :: event_source
  dev_occurred_at_ms :: int
  dev_expires_at_ms :: int
  dev_payload :: event_payload

definition device_event_fields :: "device_event \<Rightarrow> (string \<times> bool) list" where
  "device_event_fields e =
     [(''event_id'', len_between 1 96 (dev_event_id e)), (''flow_id'', len_between 1 96 (dev_flow_id e)),
      (''causation_id'', len_between 0 96 (dev_causation_id e)), (''source'', event_source_ok (dev_source e)),
      (''occurred_at_ms'', 0 \<le> dev_occurred_at_ms e), (''expires_at_ms'', 1 \<le> dev_expires_at_ms e),
      (''payload'', payload_ok (dev_payload e))]"

definition ttl_rules :: "device_event \<Rightarrow> (bool \<times> string) list" where
  "ttl_rules e =
     (let ttl_ms = dev_expires_at_ms e - dev_occurred_at_ms e
      in [(ttl_ms \<le> 0, ''expires_at_ms must be after occurred_at_ms''),
          (event_default_ttl_ms < ttl_ms, ''device event TTL must not exceed 3000ms'')])"

definition cause_rules :: "device_event \<Rightarrow> (bool \<times> string) list" where
  "cause_rules e =
     (case dev_payload e of
        Ambient_State _ \<Rightarrow> [(dev_causation_id e \<noteq> [], ''ambient presence event must not have causation_id'')]
      | Owner_Confirmed _ \<Rightarrow>
          [(dev_causation_id e = [], ''owner presence confirmation requires causation_id''),
           (dev_causation_id e = dev_event_id e, ''an event cannot cause itself'')]
      | Owner_Changed _ \<Rightarrow> [(dev_causation_id e \<noteq> [], ''owner presence lifecycle event must not have causation_id'')]
      | Flow_Node _ \<Rightarrow> [])"

definition make_device_event :: "device_event \<Rightarrow> string invalid + device_event" where
  "make_device_event e = build (device_event_fields e) (ttl_rules e @ cause_rules e) e"

definition wf_device_event :: "device_event \<Rightarrow> bool" where
  "wf_device_event e \<longleftrightarrow> admissible (device_event_fields e) (ttl_rules e @ cause_rules e)"

interpretation device_events: model_class make_device_event wf_device_event
  by (rule build_class; simp add: make_device_event_def wf_device_event_def)

subsection \<open>Normal form\<close>

fun ambient_state_text :: "ambient_state \<Rightarrow> string" where
  "ambient_state_text Present = ''present''" | "ambient_state_text Vacant = ''vacant''"

fun observation_text :: "observation_kind \<Rightarrow> string" where
  "observation_text Edge = ''edge''" | "observation_text Snapshot_Taken = ''snapshot''" | "observation_text Heartbeat = ''heartbeat''"

fun owner_state_text :: "owner_state \<Rightarrow> string" where
  "owner_state_text Owner_Present = ''present''" | "owner_state_text Owner_Absent = ''absent''"

fun flow_status_text :: "flow_status \<Rightarrow> string" where
  "flow_status_text Running = ''running''" | "flow_status_text Flow_Completed = ''completed''"
| "flow_status_text Timed_Out = ''timeout''" | "flow_status_text Flow_Failed = ''failed''"

fun payload_type :: "event_payload \<Rightarrow> string" where
  "payload_type (Ambient_State _) = ''ambient.presence.state''"
| "payload_type (Owner_Confirmed _) = ''identity.owner_presence.confirmed''"
| "payload_type (Owner_Changed _) = ''identity.owner_presence.changed''"
| "payload_type (Flow_Node _) = ''companion.flow.node''"

fun payload_json :: "event_payload \<Rightarrow> json_object" where
  "payload_json (Ambient_State p) =
     [(''state'', JStr (ambient_state_text (am_state p))), (''modality'', JStr ''mmwave''),
      (''presence_epoch'', JInt (am_presence_epoch p)), (''sequence'', JInt (am_sequence p)),
      (''lease_ms'', JInt (am_lease_ms p)), (''observation'', JStr (observation_text (am_observation p)))]"
| "payload_json (Owner_Confirmed p) =
     [(''ambient_source_device_id'', JStr (oc_ambient_source_device_id p)),
      (''ambient_presence_epoch'', JInt (oc_ambient_presence_epoch p)), (''profile_revision'', JInt (oc_profile_revision p)),
      (''guard_epoch'', JInt (oc_guard_epoch p)), (''presence_sequence'', JInt (oc_presence_sequence p)),
      (''evidence'', JStr ''local_owner_face''), (''raw_retention'', JStr ''none''), (''lease_ms'', JInt (oc_lease_ms p))]"
| "payload_json (Owner_Changed p) =
     [(''state'', JStr (owner_state_text (oh_state p))), (''profile_revision'', JInt (oh_profile_revision p)),
      (''guard_epoch'', JInt (oh_guard_epoch p)), (''presence_sequence'', JInt (oh_presence_sequence p)),
      (''lease_ms'', JInt (oh_lease_ms p)), (''evidence'', JStr ''face_gated_person_presence''), (''raw_retention'', JStr ''none'')]"
| "payload_json (Flow_Node p) =
     [(''stage'', JStr (fn_stage p)), (''status'', JStr (flow_status_text (fn_status p))), (''label'', JStr (fn_label p))]"

definition event_json :: "device_event \<Rightarrow> json_object" where
  "event_json e =
     [(''schema_v'', JInt 1), (''kind'', JStr ''event''), (''event_id'', JStr (dev_event_id e)),
      (''flow_id'', JStr (dev_flow_id e)), (''causation_id'', JStr (dev_causation_id e)),
      (''source'', JObj [(''device_id'', JStr (ev_device_id (dev_source e))), (''component'', JStr (ev_component (dev_source e)))]),
      (''occurred_at_ms'', JInt (dev_occurred_at_ms e)), (''expires_at_ms'', JInt (dev_expires_at_ms e)),
      (''type'', JStr (payload_type (dev_payload e))), (''payload'', JObj (payload_json (dev_payload e)))]"

subsection \<open>Reading\<close>

text \<open>Strict members: a text or an int exactly, a literal only as itself when present.\<close>

definition literal_member :: "json_object \<Rightarrow> string \<Rightarrow> json \<Rightarrow> bool" where
  "literal_member kvs k v \<longleftrightarrow> defaulted k (\<lambda>x. x = v) kvs"

definition text_member :: "string \<Rightarrow> json_object \<Rightarrow> string \<Rightarrow> string option" where
  "text_member d kvs k = (case map_of kvs k of None \<Rightarrow> Some d | Some (JStr s) \<Rightarrow> Some s | Some _ \<Rightarrow> None)"

definition choice :: "('a \<Rightarrow> string) \<Rightarrow> 'a list \<Rightarrow> json_object \<Rightarrow> string \<Rightarrow> 'a option" where
  "choice text_of' xs kvs k = Option.bind (parse_text kvs k) (\<lambda>s. find (\<lambda>x. text_of' x = s) xs)"

definition read_source :: "json_object \<Rightarrow> event_source option" where
  "read_source kvs =
     (case map_of kvs ''source'' of
        Some (JObj src) \<Rightarrow>
          if \<not> only_keys [''device_id'', ''component''] src then None
          else Option.bind (parse_text src ''device_id'') (\<lambda>d.
               map_option (\<lambda>c. \<lparr>ev_device_id = d, ev_component = c\<rparr>) (parse_text src ''component''))
      | _ \<Rightarrow> None)"

definition read_ambient :: "json_object \<Rightarrow> ambient_presence option" where
  "read_ambient p =
     (if \<not> only_keys [''state'', ''modality'', ''presence_epoch'', ''sequence'', ''lease_ms'', ''observation''] p
         \<or> \<not> literal_member p ''modality'' (JStr ''mmwave'') then None
      else Option.bind (choice ambient_state_text [Present, Vacant] p ''state'') (\<lambda>s.
           Option.bind (parse_int p ''presence_epoch'') (\<lambda>e. Option.bind (parse_int p ''sequence'') (\<lambda>q.
           Option.bind (parse_int p ''lease_ms'') (\<lambda>l.
           Option.bind (choice observation_text [Edge, Snapshot_Taken, Heartbeat] p ''observation'') (\<lambda>b.
           Some \<lparr>am_state = s, am_presence_epoch = e, am_sequence = q, am_lease_ms = l, am_observation = b\<rparr>))))))"

definition read_confirmed :: "json_object \<Rightarrow> owner_confirmed option" where
  "read_confirmed p =
     (if \<not> only_keys [''ambient_source_device_id'', ''ambient_presence_epoch'', ''profile_revision'', ''guard_epoch'',
                      ''presence_sequence'', ''evidence'', ''raw_retention'', ''lease_ms''] p
         \<or> \<not> literal_member p ''evidence'' (JStr ''local_owner_face'') \<or> \<not> literal_member p ''raw_retention'' (JStr ''none'') then None
      else Option.bind (parse_text p ''ambient_source_device_id'') (\<lambda>d.
           Option.bind (parse_int p ''ambient_presence_epoch'') (\<lambda>e. Option.bind (parse_int p ''profile_revision'') (\<lambda>r.
           Option.bind (parse_int p ''guard_epoch'') (\<lambda>g. Option.bind (parse_int p ''presence_sequence'') (\<lambda>q.
           Option.bind (parse_int p ''lease_ms'') (\<lambda>l.
           Some \<lparr>oc_ambient_source_device_id = d, oc_ambient_presence_epoch = e, oc_profile_revision = r,
                 oc_guard_epoch = g, oc_presence_sequence = q, oc_lease_ms = l\<rparr>)))))))"

definition read_changed :: "json_object \<Rightarrow> owner_changed option" where
  "read_changed p =
     (if \<not> only_keys [''state'', ''profile_revision'', ''guard_epoch'', ''presence_sequence'', ''lease_ms'', ''evidence'', ''raw_retention''] p
         \<or> \<not> literal_member p ''evidence'' (JStr ''face_gated_person_presence'')
         \<or> \<not> literal_member p ''raw_retention'' (JStr ''none'') then None
      else Option.bind (choice owner_state_text [Owner_Present, Owner_Absent] p ''state'') (\<lambda>s.
           Option.bind (parse_int p ''profile_revision'') (\<lambda>r. Option.bind (parse_int p ''guard_epoch'') (\<lambda>g.
           Option.bind (parse_int p ''presence_sequence'') (\<lambda>q. Option.bind (parse_int p ''lease_ms'') (\<lambda>l.
           Some \<lparr>oh_state = s, oh_profile_revision = r, oh_guard_epoch = g, oh_presence_sequence = q, oh_lease_ms = l\<rparr>))))))"

definition read_flow_node :: "json_object \<Rightarrow> flow_node option" where
  "read_flow_node p =
     (if \<not> only_keys [''stage'', ''status'', ''label''] p then None
      else Option.bind (parse_text p ''stage'') (\<lambda>s.
           Option.bind (choice flow_status_text [Running, Flow_Completed, Timed_Out, Flow_Failed] p ''status'') (\<lambda>t.
           Option.bind (parse_text p ''label'') (\<lambda>l. Some \<lparr>fn_stage = s, fn_status = t, fn_label = l\<rparr>))))"

definition read_payload :: "string \<Rightarrow> json_object \<Rightarrow> event_payload option" where
  "read_payload tag p =
     (if tag = ''ambient.presence.state'' then map_option Ambient_State (read_ambient p)
      else if tag = ''identity.owner_presence.confirmed'' then map_option Owner_Confirmed (read_confirmed p)
      else if tag = ''identity.owner_presence.changed'' then map_option Owner_Changed (read_changed p)
      else if tag = ''companion.flow.node'' then map_option Flow_Node (read_flow_node p)
      else None)"

definition read_event :: "json_object \<Rightarrow> device_event option" where
  "read_event kvs =
     (if \<not> only_keys [''schema_v'', ''kind'', ''event_id'', ''flow_id'', ''causation_id'', ''source'', ''occurred_at_ms'',
                      ''expires_at_ms'', ''type'', ''payload''] kvs
         \<or> \<not> literal_member kvs ''schema_v'' (JInt 1) \<or> \<not> literal_member kvs ''kind'' (JStr ''event'') then None
      else Option.bind (parse_text kvs ''type'') (\<lambda>tag.
           Option.bind (parse_text kvs ''event_id'') (\<lambda>i. Option.bind (parse_text kvs ''flow_id'') (\<lambda>f.
           Option.bind (text_member [] kvs ''causation_id'') (\<lambda>c. Option.bind (read_source kvs) (\<lambda>s.
           Option.bind (parse_int kvs ''occurred_at_ms'') (\<lambda>occurred. Option.bind (parse_int kvs ''expires_at_ms'') (\<lambda>expires.
           Option.bind (case map_of kvs ''payload'' of Some (JObj p) \<Rightarrow> read_payload tag p | _ \<Rightarrow> None) (\<lambda>p.
           Some \<lparr>dev_event_id = i, dev_flow_id = f, dev_causation_id = c, dev_source = s,
                 dev_occurred_at_ms = occurred, dev_expires_at_ms = expires, dev_payload = p\<rparr>)))))))))"

text \<open>\<open>allow_nan=False\<close>: a non-finite float anywhere is refused.\<close>

fun all_finite :: "json \<Rightarrow> bool" where
  "all_finite (JFloat x) = float_is_finite x"
| "all_finite (JArr vs) = list_all all_finite vs"
| "all_finite (JObj kvs) = list_all (\<lambda>kv. all_finite (snd kv)) kvs"
| "all_finite _ = True"

definition json_size :: "(rat \<Rightarrow> string) \<Rightarrow> json \<Rightarrow> string + nat" where
  "json_size ft v =
     guarded [(\<not> all_finite v, ''device event must be JSON serializable'')] (length (utf8 (json_text ft v)))"

datatype event_refusal = Event_Error string | Malformed_Event | Invalid_Event "string invalid"

text \<open>\<open>now_ms\<close> is an int when it is given.\<close>

definition check_live :: "device_event \<Rightarrow> int option \<Rightarrow> event_refusal + unit" where
  "check_live e now_ms =
     (case now_ms of
        None \<Rightarrow> Inr ()
      | Some now \<Rightarrow> guarded
          [(now < 0, Event_Error ''now_ms must be a non-negative integer''),
           (dev_expires_at_ms e \<le> now, Event_Error ''device event has expired''),
           (now + event_max_clock_skew_ms < dev_occurred_at_ms e,
            Event_Error ''device event occurred_at_ms is too far in the future'')] ())"

definition parse_device_event :: "(rat \<Rightarrow> string) \<Rightarrow> json \<Rightarrow> int option \<Rightarrow> event_refusal + device_event" where
  "parse_device_event ft v now_ms =
     (case v of
        JObj kvs \<Rightarrow>
          and_then (reraise Event_Error (json_size ft v)) (\<lambda>n.
          and_then (guarded [(event_max_bytes < n, Event_Error ''device event must not exceed 2048 bytes'')] ()) (\<lambda>_.
          and_then (or_raise Malformed_Event (read_event kvs)) (\<lambda>d.
          and_then (reraise Invalid_Event (make_device_event d)) (\<lambda>e.
          and_then (reraise Event_Error (json_size ft (JObj (event_json e)))) (\<lambda>m.
          and_then (guarded [(event_max_bytes < m, Event_Error ''normalized device event must not exceed 2048 bytes'')] ()) (\<lambda>_.
          and_then (check_live e now_ms) (\<lambda>_. Inr e)))))))
      | _ \<Rightarrow> Inl (Event_Error ''device event must be an object''))"

definition normalize_device_event :: "(rat \<Rightarrow> string) \<Rightarrow> json \<Rightarrow> int option \<Rightarrow> event_refusal + json" where
  "normalize_device_event ft v now_ms = and_then (parse_device_event ft v now_ms) (\<lambda>e. Inr (JObj (event_json e)))"

subsection \<open>Lemmas\<close>

lemma choice_own: "find (\<lambda>x. text_of' x = text_of' y) xs = Some y \<Longrightarrow> map_of kvs k = Some (JStr (text_of' y)) \<Longrightarrow> choice text_of' xs kvs k = Some y"
  by (simp add: choice_def parse_text_def)

lemma read_own_payload: "read_payload (payload_type p) (payload_json p) = Some p"
proof (cases p)
  case (Ambient_State a)
  have "find (\<lambda>x. ambient_state_text x = ambient_state_text s) [Present, Vacant] = Some s"
    "find (\<lambda>x. observation_text x = observation_text b) [Edge, Snapshot_Taken, Heartbeat] = Some b" for s b
    by (cases s; simp) (cases b; simp)
  then show ?thesis using Ambient_State
    by (simp add: read_payload_def read_ambient_def only_keys_def literal_member_def defaulted_def choice_own parse_int_def)
next
  case (Owner_Confirmed a)
  then show ?thesis
    by (simp add: read_payload_def read_confirmed_def only_keys_def literal_member_def defaulted_def parse_int_def parse_text_def)
next
  case (Owner_Changed a)
  have "find (\<lambda>x. owner_state_text x = owner_state_text s) [Owner_Present, Owner_Absent] = Some s" for s
    by (cases s; simp)
  then show ?thesis using Owner_Changed
    by (simp add: read_payload_def read_changed_def only_keys_def literal_member_def defaulted_def choice_own parse_int_def)
next
  case (Flow_Node a)
  have "find (\<lambda>x. flow_status_text x = flow_status_text s) [Running, Flow_Completed, Timed_Out, Flow_Failed] = Some s" for s
    by (cases s; simp)
  then show ?thesis using Flow_Node
    by (simp add: read_payload_def read_flow_node_def only_keys_def choice_own parse_text_def)
qed

lemma read_own_event: "read_event (event_json e) = Some e"
  by (simp add: read_event_def event_json_def only_keys_def literal_member_def defaulted_def parse_text_def parse_int_def
      text_member_def read_source_def read_own_payload)

interpretation event_wire: codec event_json read_event "\<lambda>_. True"
  by unfold_locales (rule read_own_event)

lemma own_event_finite: "all_finite (JObj (event_json e))"
  by (cases "dev_payload e") (simp_all add: event_json_def)

lemma own_event_size: "json_size ft (JObj (event_json e)) = Inr (length (utf8 (json_text ft (JObj (event_json e)))))"
  using own_event_finite [of e] by (simp add: json_size_def guarded_simps del: json_text.simps)

lemma parse_device_event_Inr:
  "parse_device_event ft v now_ms = Inr e \<Longrightarrow>
     wf_device_event e \<and> length (utf8 (json_text ft (JObj (event_json e)))) \<le> event_max_bytes \<and> check_live e now_ms = Inr ()"
  unfolding parse_device_event_def own_event_size
  by (auto simp: guard_simps device_events.make_iff not_less simp del: json_text.simps split: json.splits)

lemma parse_own_event:
  assumes "wf_device_event e" "length (utf8 (json_text ft (JObj (event_json e)))) \<le> event_max_bytes" "check_live e now_ms = Inr ()"
  shows "parse_device_event ft (JObj (event_json e)) now_ms = Inr e"
  using assms
  by (simp add: parse_device_event_def own_event_size guarded_simps read_own_event device_events.accepts del: json_text.simps)

subsection \<open>Properties\<close>

text \<open>
  C31. The normal form of an event is a fixed point: whatever is accepted is accepted again in its normal form,
  as the same event at the same time, and normalising twice is normalising once; the refusal of the rest is
  the reader's.
\<close>

theorem normal_event_fixed_point:
  "case parse_device_event ft v now_ms of
     Inl r \<Rightarrow> normalize_device_event ft v now_ms = Inl r
   | Inr e \<Rightarrow> normalize_device_event ft v now_ms = Inr (JObj (event_json e))
       \<and> parse_device_event ft (JObj (event_json e)) now_ms = Inr e
       \<and> normalize_device_event ft (JObj (event_json e)) now_ms = Inr (JObj (event_json e))"
  by (auto simp: normalize_device_event_def parse_own_event dest!: parse_device_event_Inr split: sum.split
      simp del: json_text.simps)

text \<open>
  An event accepted at some instant is live, short and rightly caused: it has not expired, expires at most
  three seconds after it occurred and four seconds from now, occurred at most a second from now; ambient facts
  and owner leases are roots, a confirmation has a cause other than itself, and a lease is held exactly while present.
\<close>

theorem accepted_event_live:
  "case parse_device_event ft v (Some now) of
     Inl _ \<Rightarrow> True
   | Inr e \<Rightarrow> now < dev_expires_at_ms e \<and> dev_expires_at_ms e \<le> now + 4000
       \<and> dev_expires_at_ms e \<le> dev_occurred_at_ms e + 3000 \<and> dev_occurred_at_ms e < dev_expires_at_ms e
       \<and> dev_occurred_at_ms e \<le> now + 1000
       \<and> (case dev_payload e of
            Ambient_State p \<Rightarrow> dev_causation_id e = [] \<and> (am_lease_ms p = 0 \<longleftrightarrow> am_state p = Vacant)
          | Owner_Confirmed p \<Rightarrow> dev_causation_id e \<noteq> [] \<and> dev_causation_id e \<noteq> dev_event_id e \<and> 0 < oc_lease_ms p
          | Owner_Changed p \<Rightarrow> dev_causation_id e = [] \<and> (oh_lease_ms p = 0 \<longleftrightarrow> oh_state p = Owner_Absent)
          | Flow_Node p \<Rightarrow> True)"
proof (cases "parse_device_event ft v (Some now)")
  case (Inr e)
  then have wf: "wf_device_event e" and live: "check_live e (Some now) = Inr ()"
    by (auto dest: parse_device_event_Inr)
  have times: "now < dev_expires_at_ms e" "dev_occurred_at_ms e \<le> now + 1000"
    "dev_expires_at_ms e \<le> dev_occurred_at_ms e + 3000" "dev_occurred_at_ms e < dev_expires_at_ms e"
    using live wf
    by (auto simp: check_live_def guard_simps event_max_clock_skew_ms_def wf_device_event_def admissible_def ttl_rules_def
        Let_def event_default_ttl_ms_def)
  have payload: "payload_ok (dev_payload e)" and cause: "\<not> list_ex fst (cause_rules e)"
    using wf by (simp_all add: wf_device_event_def admissible_def device_event_fields_def)
  have two: "s = Present \<or> s = Vacant" "t = Owner_Present \<or> t = Owner_Absent" for s t
    by (cases s; simp) (cases t; simp)
  show ?thesis
  proof (cases "dev_payload e")
    case (Ambient_State p)
    then show ?thesis using Inr times payload cause two(1) [of "am_state p"]
      by (auto simp: cause_rules_def admissible_def ambient_presence_rules_def)
  next
    case (Owner_Confirmed p)
    then show ?thesis using Inr times payload cause
      by (auto simp: cause_rules_def admissible_def owner_confirmed_fields_def int_between_def)
  next
    case (Owner_Changed p)
    then show ?thesis using Inr times payload cause two(2) [of "oh_state p"]
      by (auto simp: cause_rules_def admissible_def owner_changed_rules_def)
  next
    case (Flow_Node p)
    then show ?thesis using Inr times by simp
  qed
qed simp

end
