(* ===== verification/Guard.thy ===== *)
theory Guard
  imports Device_Events
begin

text \<open>
  The Guard plane, \<open>biz/guard\<close>: the policy and runtime configurations with their readers and canonical
  shapes (\<open>protocol.py\<close>) and the Owner Face Profile (\<open>owner_face_profile.py\<close>).
\<close>

subsection \<open>Policy configuration\<close>

definition silent_presence_policy_id :: string where
  "silent_presence_policy_id = ''silent_presence''"

datatype verdict = Verdict_Present | Verdict_Unknown

fun verdict_text :: "verdict \<Rightarrow> string" where
  "verdict_text Verdict_Present = ''present''"
| "verdict_text Verdict_Unknown = ''unknown''"

record silent_presence_config =
  gp_candidate_enabled :: bool
  gp_verified_enabled :: bool
  gp_accepted_verdicts :: "verdict list"
  gp_absence_enabled :: bool

definition silent_presence_fields :: "silent_presence_config \<Rightarrow> (string \<times> bool) list" where
  "silent_presence_fields c =
     [(''accepted_verdicts'', gp_accepted_verdicts c \<noteq> [] \<and> \<not> has_duplicates (gp_accepted_verdicts c))]"

definition make_silent_presence :: "silent_presence_config \<Rightarrow> string invalid + silent_presence_config" where
  "make_silent_presence c = build (silent_presence_fields c) [] c"

definition wf_silent_presence :: "silent_presence_config \<Rightarrow> bool" where
  "wf_silent_presence c \<longleftrightarrow> admissible (silent_presence_fields c) no_rules"

interpretation silent_presence_class: model_class make_silent_presence wf_silent_presence
  by (rule build_class; simp add: make_silent_presence_def wf_silent_presence_def)

definition bool_member :: "bool \<Rightarrow> json_object \<Rightarrow> string \<Rightarrow> bool option" where
  "bool_member d kvs k = (case map_of kvs k of None \<Rightarrow> Some d | Some (JBool b) \<Rightarrow> Some b | Some _ \<Rightarrow> None)"

fun read_verdicts :: "json list \<Rightarrow> verdict list option" where
  "read_verdicts [] = Some []"
| "read_verdicts (v # vs) =
     (if v = JStr ''present'' then map_option (Cons Verdict_Present) (read_verdicts vs)
      else if v = JStr ''unknown'' then map_option (Cons Verdict_Unknown) (read_verdicts vs) else None)"

definition verdicts_member :: "json_object \<Rightarrow> verdict list option" where
  "verdicts_member kvs =
     (case map_of kvs ''accepted_verdicts'' of
        None \<Rightarrow> Some [Verdict_Present, Verdict_Unknown] | Some (JArr vs) \<Rightarrow> read_verdicts vs | Some _ \<Rightarrow> None)"

definition read_silent_presence :: "json_object \<Rightarrow> silent_presence_config option" where
  "read_silent_presence kvs =
     (if \<not> only_keys [''schema_v'', ''candidate_enabled'', ''verified_enabled'', ''accepted_verdicts'', ''absence_enabled''] kvs
         \<or> \<not> literal_member kvs ''schema_v'' (JInt 1) then None
      else Option.bind (bool_member True kvs ''candidate_enabled'') (\<lambda>c.
           Option.bind (bool_member True kvs ''verified_enabled'') (\<lambda>v.
           Option.bind (verdicts_member kvs) (\<lambda>vs.
           Option.bind (bool_member True kvs ''absence_enabled'') (\<lambda>a.
           Some \<lparr>gp_candidate_enabled = c, gp_verified_enabled = v, gp_accepted_verdicts = vs, gp_absence_enabled = a\<rparr>)))))"

definition silent_presence_json :: "silent_presence_config \<Rightarrow> json_object" where
  "silent_presence_json c =
     [(''schema_v'', JInt 1), (''candidate_enabled'', JBool (gp_candidate_enabled c)),
      (''verified_enabled'', JBool (gp_verified_enabled c)),
      (''accepted_verdicts'', JArr (map (\<lambda>v. JStr (verdict_text v)) (gp_accepted_verdicts c))),
      (''absence_enabled'', JBool (gp_absence_enabled c))]"

datatype guard_refusal = Guard_Error string | Malformed_Config | Invalid_Config "string invalid"

text \<open>\<open>None\<close> stands for the empty object, here and below.\<close>

definition config_object :: "string \<Rightarrow> json option \<Rightarrow> guard_refusal + json_object" where
  "config_object message payload =
     (case payload of None \<Rightarrow> Inr [] | Some JNull \<Rightarrow> Inr [] | Some (JObj kvs) \<Rightarrow> Inr kvs | Some _ \<Rightarrow> Inl (Guard_Error message))"

definition parse_guard_policy_config :: "string \<Rightarrow> json option \<Rightarrow> guard_refusal + silent_presence_config" where
  "parse_guard_policy_config policy_id payload =
     and_then (guarded [(policy_id \<noteq> silent_presence_policy_id, Guard_Error ''unsupported guard policy'')] ()) (\<lambda>_.
     and_then (config_object ''guard policy config must be an object'' payload) (\<lambda>kvs.
     and_then (or_raise Malformed_Config (read_silent_presence kvs)) (\<lambda>c. reraise Invalid_Config (make_silent_presence c))))"

definition normalize_guard_policy_config :: "string \<Rightarrow> json option \<Rightarrow> guard_refusal + json" where
  "normalize_guard_policy_config policy_id payload =
     and_then (parse_guard_policy_config policy_id payload) (\<lambda>c. Inr (JObj (silent_presence_json c)))"

subsection \<open>Runtime configuration\<close>

record runtime_config =
  gr_sample_interval_ms :: int
  gr_preview_interval_ms :: int
  gr_motion_threshold :: int
  gr_motion_clear_threshold :: int
  gr_candidate_debounce_ms :: int
  gr_absence_timeout_ms :: int
  gr_consecutive_capture_failures :: int
  gr_owner_face_interval_ms :: int
  gr_owner_presence_enter_ms :: int
  gr_owner_presence_exit_ms :: int
  gr_owner_presence_heartbeat_ms :: int
  gr_owner_presence_lease_ms :: int

definition runtime_fields :: "runtime_config \<Rightarrow> (string \<times> bool) list" where
  "runtime_fields c =
     [(''sample_interval_ms'', int_between 200 60000 (gr_sample_interval_ms c)),
      (''preview_interval_ms'', int_between 200 60000 (gr_preview_interval_ms c)),
      (''motion_threshold'', int_between 0 255 (gr_motion_threshold c)),
      (''motion_clear_threshold'', int_between 0 255 (gr_motion_clear_threshold c)),
      (''candidate_debounce_ms'', int_between 200 600000 (gr_candidate_debounce_ms c)),
      (''absence_timeout_ms'', int_between 400 3600000 (gr_absence_timeout_ms c)),
      (''consecutive_capture_failures'', int_between 1 100 (gr_consecutive_capture_failures c)),
      (''owner_face_interval_ms'', int_between 500 60000 (gr_owner_face_interval_ms c)),
      (''owner_presence_enter_ms'', int_between 500 60000 (gr_owner_presence_enter_ms c)),
      (''owner_presence_exit_ms'', int_between 1000 600000 (gr_owner_presence_exit_ms c)),
      (''owner_presence_heartbeat_ms'', int_between 1000 300000 (gr_owner_presence_heartbeat_ms c)),
      (''owner_presence_lease_ms'', int_between 5000 600000 (gr_owner_presence_lease_ms c))]"

definition runtime_rules :: "runtime_config \<Rightarrow> (bool \<times> string) list" where
  "runtime_rules c =
     [(gr_preview_interval_ms c < gr_sample_interval_ms c, ''preview_interval_ms must be at least sample_interval_ms''),
      (gr_motion_threshold c < gr_motion_clear_threshold c, ''motion_clear_threshold must not exceed motion_threshold''),
      (gr_candidate_debounce_ms c < gr_sample_interval_ms c, ''candidate_debounce_ms must be at least sample_interval_ms''),
      (gr_absence_timeout_ms c < gr_sample_interval_ms c * 2, ''absence_timeout_ms must be at least twice sample_interval_ms''),
      (gr_owner_presence_enter_ms c < gr_owner_face_interval_ms c,
       ''owner_presence_enter_ms must be at least owner_face_interval_ms''),
      (gr_owner_presence_exit_ms c < gr_owner_face_interval_ms c * 2,
       ''owner_presence_exit_ms must be at least twice owner_face_interval_ms''),
      (gr_owner_presence_lease_ms c \<le> gr_owner_presence_heartbeat_ms c,
       ''owner_presence_heartbeat_ms must be less than owner_presence_lease_ms'')]"

definition make_runtime_config :: "runtime_config \<Rightarrow> string invalid + runtime_config" where
  "make_runtime_config c = build (runtime_fields c) (runtime_rules c) c"

definition wf_runtime_config :: "runtime_config \<Rightarrow> bool" where
  "wf_runtime_config c \<longleftrightarrow> admissible (runtime_fields c) (runtime_rules c)"

interpretation runtime_configs: model_class make_runtime_config wf_runtime_config
  by (rule build_class; simp add: make_runtime_config_def wf_runtime_config_def)

definition int_member_or :: "int \<Rightarrow> json_object \<Rightarrow> string \<Rightarrow> int option" where
  "int_member_or d kvs k = (case map_of kvs k of None \<Rightarrow> Some d | Some (JInt n) \<Rightarrow> Some n | Some _ \<Rightarrow> None)"

definition runtime_keys :: "string list" where
  "runtime_keys =
     [''schema_v'', ''sample_interval_ms'', ''preview_interval_ms'', ''motion_threshold'', ''motion_clear_threshold'',
      ''candidate_debounce_ms'', ''absence_timeout_ms'', ''consecutive_capture_failures'', ''owner_face_interval_ms'',
      ''owner_presence_enter_ms'', ''owner_presence_exit_ms'', ''owner_presence_heartbeat_ms'', ''owner_presence_lease_ms'']"

definition read_runtime_config :: "json_object \<Rightarrow> runtime_config option" where
  "read_runtime_config kvs =
     (if \<not> only_keys runtime_keys kvs \<or> \<not> literal_member kvs ''schema_v'' (JInt 1) then None
      else Option.bind (int_member_or 200 kvs ''sample_interval_ms'') (\<lambda>a.
           Option.bind (int_member_or 1000 kvs ''preview_interval_ms'') (\<lambda>b.
           Option.bind (int_member_or 18 kvs ''motion_threshold'') (\<lambda>c.
           Option.bind (int_member_or 9 kvs ''motion_clear_threshold'') (\<lambda>d.
           Option.bind (int_member_or 1000 kvs ''candidate_debounce_ms'') (\<lambda>e.
           Option.bind (int_member_or 180000 kvs ''absence_timeout_ms'') (\<lambda>f.
           Option.bind (int_member_or 5 kvs ''consecutive_capture_failures'') (\<lambda>g.
           Option.bind (int_member_or 500 kvs ''owner_face_interval_ms'') (\<lambda>h.
           Option.bind (int_member_or 600 kvs ''owner_presence_enter_ms'') (\<lambda>i.
           Option.bind (int_member_or 12000 kvs ''owner_presence_exit_ms'') (\<lambda>j.
           Option.bind (int_member_or 10000 kvs ''owner_presence_heartbeat_ms'') (\<lambda>k.
           Option.bind (int_member_or 30000 kvs ''owner_presence_lease_ms'') (\<lambda>l.
           Some \<lparr>gr_sample_interval_ms = a, gr_preview_interval_ms = b, gr_motion_threshold = c,
                 gr_motion_clear_threshold = d, gr_candidate_debounce_ms = e, gr_absence_timeout_ms = f,
                 gr_consecutive_capture_failures = g, gr_owner_face_interval_ms = h, gr_owner_presence_enter_ms = i,
                 gr_owner_presence_exit_ms = j, gr_owner_presence_heartbeat_ms = k, gr_owner_presence_lease_ms = l\<rparr>)))))))))))))"

definition runtime_json :: "runtime_config \<Rightarrow> json_object" where
  "runtime_json c =
     [(''schema_v'', JInt 1), (''sample_interval_ms'', JInt (gr_sample_interval_ms c)),
      (''preview_interval_ms'', JInt (gr_preview_interval_ms c)), (''motion_threshold'', JInt (gr_motion_threshold c)),
      (''motion_clear_threshold'', JInt (gr_motion_clear_threshold c)),
      (''candidate_debounce_ms'', JInt (gr_candidate_debounce_ms c)), (''absence_timeout_ms'', JInt (gr_absence_timeout_ms c)),
      (''consecutive_capture_failures'', JInt (gr_consecutive_capture_failures c)),
      (''owner_face_interval_ms'', JInt (gr_owner_face_interval_ms c)),
      (''owner_presence_enter_ms'', JInt (gr_owner_presence_enter_ms c)),
      (''owner_presence_exit_ms'', JInt (gr_owner_presence_exit_ms c)),
      (''owner_presence_heartbeat_ms'', JInt (gr_owner_presence_heartbeat_ms c)),
      (''owner_presence_lease_ms'', JInt (gr_owner_presence_lease_ms c))]"

definition parse_guard_runtime_config :: "json option \<Rightarrow> guard_refusal + runtime_config" where
  "parse_guard_runtime_config payload =
     and_then (config_object ''guard runtime config must be an object'' payload) (\<lambda>kvs.
     and_then (or_raise Malformed_Config (read_runtime_config kvs)) (\<lambda>c. reraise Invalid_Config (make_runtime_config c)))"

definition normalize_guard_runtime_config :: "json option \<Rightarrow> guard_refusal + json" where
  "normalize_guard_runtime_config payload = and_then (parse_guard_runtime_config payload) (\<lambda>c. Inr (JObj (runtime_json c)))"

subsection \<open>Owner Face Profile\<close>

definition min_references :: nat where "min_references = 3"
definition max_references :: nat where "max_references = 5"

datatype pose = Front | Left_Pose | Right_Pose | Down | Up
datatype desired_state = Profile_Active | Profile_Cleared

definition required_poses :: "pose list" where
  "required_poses = [Front, Left_Pose, Right_Pose]"

record face_reference =
  fr_reference_id :: string
  fr_pose :: pose
  fr_sha256 :: string
  fr_size_bytes :: int

definition face_reference_ok :: "face_reference \<Rightarrow> bool" where
  "face_reference_ok r \<longleftrightarrow> len_between 1 96 (fr_reference_id r)
     \<and> length (fr_sha256 r) = 64 \<and> list_all is_lower_hex (fr_sha256 r) \<and> int_between 1 (4 * 1024 * 1024) (fr_size_bytes r)"

record face_profile =
  fp_binding_id :: string
  fp_profile_id :: string
  fp_profile_revision :: int
  fp_desired_state :: desired_state
  fp_model_id :: "string option"
  fp_preprocessing_version :: "string option"
  fp_references :: "face_reference list"

definition face_profile_fields :: "face_profile \<Rightarrow> (string \<times> bool) list" where
  "face_profile_fields p =
     [(''binding_id'', len_between 1 64 (fp_binding_id p)), (''profile_id'', len_between 1 64 (fp_profile_id p)),
      (''profile_revision'', 1 \<le> fp_profile_revision p), (''model_id'', opt_ok (len_between 1 96) (fp_model_id p)),
      (''preprocessing_version'', opt_ok (len_between 1 96) (fp_preprocessing_version p)),
      (''references'', len_between 0 max_references (fp_references p) \<and> list_all face_reference_ok (fp_references p))]"

definition face_profile_rules :: "face_profile \<Rightarrow> (bool \<times> string) list" where
  "face_profile_rules p =
     (if fp_desired_state p = Profile_Cleared then
        [(fp_references p \<noteq> [] \<or> fp_model_id p \<noteq> None \<or> fp_preprocessing_version p \<noteq> None,
          ''cleared owner face profile must not contain model or references'')]
      else
        [(fp_model_id p = None \<or> fp_preprocessing_version p = None,
          ''active owner face profile requires model compatibility metadata''),
         (length (fp_references p) < min_references, ''active owner face profile requires at least three references''),
         (has_duplicates (map fr_reference_id (fp_references p)), ''owner face reference ids must be unique''),
         (has_duplicates (map fr_pose (fp_references p)), ''owner face reference poses must be unique''),
         (\<not> set required_poses \<subseteq> set (map fr_pose (fp_references p)),
          ''owner face profile requires front, left, and right references'')])"

definition make_face_profile :: "face_profile \<Rightarrow> string invalid + face_profile" where
  "make_face_profile p = build (face_profile_fields p) (face_profile_rules p) p"

definition wf_face_profile :: "face_profile \<Rightarrow> bool" where
  "wf_face_profile p \<longleftrightarrow> admissible (face_profile_fields p) (face_profile_rules p)"

interpretation face_profiles: model_class make_face_profile wf_face_profile
  by (rule build_class; simp add: make_face_profile_def wf_face_profile_def)

record face_profile_sync =
  fs_binding_id :: string
  fs_profile_id :: string
  fs_profile_revision :: int
  fs_desired_state :: desired_state

definition make_face_profile_sync :: "face_profile_sync \<Rightarrow> string invalid + face_profile_sync" where
  "make_face_profile_sync s =
     build [(''binding_id'', len_between 1 64 (fs_binding_id s)), (''profile_id'', len_between 1 64 (fs_profile_id s)),
            (''profile_revision'', 1 \<le> fs_profile_revision s)] [] s"

record face_apply_result =
  fa_binding_id :: string
  fa_profile_id :: string
  fa_profile_revision :: int
  fa_applied_state :: desired_state
  fa_model_id :: "string option"
  fa_preprocessing_version :: "string option"
  fa_template_count :: int

definition face_apply_fields :: "face_apply_result \<Rightarrow> (string \<times> bool) list" where
  "face_apply_fields r =
     [(''binding_id'', len_between 1 64 (fa_binding_id r)), (''profile_id'', len_between 1 64 (fa_profile_id r)),
      (''profile_revision'', 1 \<le> fa_profile_revision r), (''model_id'', opt_ok (len_between 1 96) (fa_model_id r)),
      (''preprocessing_version'', opt_ok (len_between 1 96) (fa_preprocessing_version r)),
      (''template_count'', 0 \<le> fa_template_count r \<and> fa_template_count r \<le> int max_references)]"

definition face_apply_rules :: "face_apply_result \<Rightarrow> (bool \<times> string) list" where
  "face_apply_rules r =
     (if fa_applied_state r = Profile_Cleared then
        [(fa_template_count r \<noteq> 0 \<or> fa_model_id r \<noteq> None \<or> fa_preprocessing_version r \<noteq> None,
          ''cleared owner face result must not retain model or templates'')]
      else
        [(fa_model_id r = None \<or> fa_preprocessing_version r = None,
          ''active owner face result requires model compatibility metadata''),
         (fa_template_count r < int min_references, ''active owner face result requires at least three templates'')])"

definition make_face_apply_result :: "face_apply_result \<Rightarrow> string invalid + face_apply_result" where
  "make_face_apply_result r = build (face_apply_fields r) (face_apply_rules r) r"

definition wf_face_apply_result :: "face_apply_result \<Rightarrow> bool" where
  "wf_face_apply_result r \<longleftrightarrow> admissible (face_apply_fields r) (face_apply_rules r)"

interpretation face_apply_results: model_class make_face_apply_result wf_face_apply_result
  by (rule build_class; simp add: make_face_apply_result_def wf_face_apply_result_def)

subsection \<open>Lemmas\<close>

lemma read_own_verdicts: "read_verdicts (map (\<lambda>v. JStr (verdict_text v)) vs) = Some vs"
proof (induction vs)
  case (Cons v vs)
  then show ?case by (cases v) simp_all
qed simp

lemma read_own_policy: "read_silent_presence (silent_presence_json c) = Some c"
  by (simp add: read_silent_presence_def silent_presence_json_def only_keys_def literal_member_def defaulted_def
      bool_member_def verdicts_member_def read_own_verdicts)

lemma read_own_runtime: "read_runtime_config (runtime_json c) = Some c"
  by (simp add: read_runtime_config_def runtime_json_def only_keys_def runtime_keys_def literal_member_def
      defaulted_def int_member_or_def)

interpretation policy_wire: codec silent_presence_json read_silent_presence "\<lambda>_. True"
  by unfold_locales (rule read_own_policy)

interpretation runtime_wire: codec runtime_json read_runtime_config "\<lambda>_. True"
  by unfold_locales (rule read_own_runtime)

lemma parse_policy_Inr:
  "parse_guard_policy_config i v = Inr c \<Longrightarrow> i = silent_presence_policy_id \<and> wf_silent_presence c"
  by (auto simp: parse_guard_policy_config_def guard_simps silent_presence_class.make_iff)

lemma parse_own_policy:
  "wf_silent_presence c \<Longrightarrow> parse_guard_policy_config silent_presence_policy_id (Some (JObj (silent_presence_json c))) = Inr c"
  by (simp add: parse_guard_policy_config_def guarded_simps config_object_def read_own_policy silent_presence_class.accepts)

lemma parse_runtime_Inr: "parse_guard_runtime_config v = Inr c \<Longrightarrow> wf_runtime_config c"
  by (auto simp: parse_guard_runtime_config_def guard_simps runtime_configs.make_iff)

lemma parse_own_runtime:
  "wf_runtime_config c \<Longrightarrow> parse_guard_runtime_config (Some (JObj (runtime_json c))) = Inr c"
  by (simp add: parse_guard_runtime_config_def config_object_def read_own_runtime runtime_configs.accepts)

lemma runtime_relations:
  "wf_runtime_config c \<Longrightarrow>
     gr_sample_interval_ms c \<le> gr_preview_interval_ms c \<and> gr_motion_clear_threshold c \<le> gr_motion_threshold c
     \<and> gr_sample_interval_ms c \<le> gr_candidate_debounce_ms c \<and> 2 * gr_sample_interval_ms c \<le> gr_absence_timeout_ms c
     \<and> gr_owner_face_interval_ms c \<le> gr_owner_presence_enter_ms c
     \<and> 2 * gr_owner_face_interval_ms c \<le> gr_owner_presence_exit_ms c
     \<and> gr_owner_presence_heartbeat_ms c < gr_owner_presence_lease_ms c"
  by (auto simp: wf_runtime_config_def admissible_def runtime_rules_def)

definition default_runtime_config :: runtime_config where
  "default_runtime_config =
     \<lparr>gr_sample_interval_ms = 200, gr_preview_interval_ms = 1000, gr_motion_threshold = 18, gr_motion_clear_threshold = 9,
      gr_candidate_debounce_ms = 1000, gr_absence_timeout_ms = 180000, gr_consecutive_capture_failures = 5,
      gr_owner_face_interval_ms = 500, gr_owner_presence_enter_ms = 600, gr_owner_presence_exit_ms = 12000,
      gr_owner_presence_heartbeat_ms = 10000, gr_owner_presence_lease_ms = 30000\<rparr>"

lemma default_runtime_parsed: "parse_guard_runtime_config None = Inr default_runtime_config"
proof -
  have "wf_runtime_config default_runtime_config"
    by (simp add: wf_runtime_config_def admissible_def runtime_fields_def runtime_rules_def default_runtime_config_def
        int_between_def)
  moreover have "read_runtime_config [] = Some default_runtime_config"
    by (simp add: read_runtime_config_def only_keys_def literal_member_def defaulted_def int_member_or_def
        default_runtime_config_def)
  ultimately show ?thesis
    by (simp add: parse_guard_runtime_config_def config_object_def runtime_configs.accepts)
qed

lemma face_pose_count: "distinct (map fr_pose rs) \<Longrightarrow> length rs \<le> 5"
proof -
  assume "distinct (map fr_pose rs)"
  then have "length rs = card (set (map fr_pose rs))" by (metis distinct_card length_map)
  also have "\<dots> \<le> card {Front, Left_Pose, Right_Pose, Down, Up}"
  proof (rule card_mono)
    have "x \<in> {Front, Left_Pose, Right_Pose, Down, Up}" for x by (cases x) simp_all
    then show "set (map fr_pose rs) \<subseteq> {Front, Left_Pose, Right_Pose, Down, Up}" by blast
  qed simp
  finally show ?thesis by (simp add: card_insert_if)
qed

subsection \<open>Properties\<close>

text \<open>
  Guard configurations are stable: what is accepted is stored in a canonical shape that is accepted again
  as the same configuration; no runtime configuration at all means the defaults, and every accepted one
  samples at least as often as it previews and debounces, twice within each timeout, clears motion no higher
  than it raises it, and renews a lease before it lapses.
\<close>

theorem guard_configuration_stable:
  "(case parse_guard_runtime_config v of
      Inl r \<Rightarrow> normalize_guard_runtime_config v = Inl r
    | Inr c \<Rightarrow> normalize_guard_runtime_config v = Inr (JObj (runtime_json c))
        \<and> parse_guard_runtime_config (Some (JObj (runtime_json c))) = Inr c
        \<and> gr_sample_interval_ms c \<le> gr_preview_interval_ms c \<and> gr_motion_clear_threshold c \<le> gr_motion_threshold c
        \<and> gr_sample_interval_ms c \<le> gr_candidate_debounce_ms c \<and> 2 * gr_sample_interval_ms c \<le> gr_absence_timeout_ms c
        \<and> gr_owner_face_interval_ms c \<le> gr_owner_presence_enter_ms c
        \<and> 2 * gr_owner_face_interval_ms c \<le> gr_owner_presence_exit_ms c
        \<and> gr_owner_presence_heartbeat_ms c < gr_owner_presence_lease_ms c)
   \<and> parse_guard_runtime_config None = Inr default_runtime_config
   \<and> (case parse_guard_policy_config i w of
        Inl r \<Rightarrow> normalize_guard_policy_config i w = Inl r
      | Inr c \<Rightarrow> normalize_guard_policy_config i w = Inr (JObj (silent_presence_json c))
          \<and> parse_guard_policy_config i (Some (JObj (silent_presence_json c))) = Inr c)"
  using default_runtime_parsed
  by (auto simp: normalize_guard_runtime_config_def normalize_guard_policy_config_def parse_own_runtime parse_own_policy
      dest!: parse_runtime_Inr parse_policy_Inr dest: runtime_relations split: sum.split)

text \<open>
  An Owner Face Profile is accepted exactly when its members are in range and it is either cleared, with no
  model and no reference left, or active, with its model named and three to five references of distinct ids
  and distinct poses, the front and both sides among them.
\<close>

theorem face_profile_exact:
  "make_face_profile p = Inr p \<longleftrightarrow>
     len_between 1 64 (fp_binding_id p) \<and> len_between 1 64 (fp_profile_id p) \<and> 1 \<le> fp_profile_revision p
     \<and> (case fp_desired_state p of
          Profile_Cleared \<Rightarrow> fp_model_id p = None \<and> fp_preprocessing_version p = None \<and> fp_references p = []
        | Profile_Active \<Rightarrow>
            (\<exists>m v. fp_model_id p = Some m \<and> len_between 1 96 m \<and> fp_preprocessing_version p = Some v \<and> len_between 1 96 v)
            \<and> list_all face_reference_ok (fp_references p)
            \<and> distinct (map fr_reference_id (fp_references p)) \<and> distinct (map fr_pose (fp_references p))
            \<and> {Front, Left_Pose, Right_Pose} \<subseteq> set (map fr_pose (fp_references p)))"
proof -
  have three: "3 \<le> length rs" if "{Front, Left_Pose, Right_Pose} \<subseteq> set (map fr_pose rs)" for rs
  proof -
    have "card {Front, Left_Pose, Right_Pose} \<le> card (set (map fr_pose rs))" using that by (rule card_mono [rotated]) simp
    also have "\<dots> \<le> length rs" by (metis card_length length_map)
    finally show ?thesis by (simp add: card_insert_if)
  qed
  show ?thesis
  proof (cases "fp_desired_state p")
    case Profile_Cleared
    then show ?thesis
      by (auto simp: face_profiles.make_iff wf_face_profile_def admissible_def face_profile_fields_def
          face_profile_rules_def len_between_def)
  next
    case Profile_Active
    then show ?thesis
      using three [of "fp_references p"] face_pose_count [of "fp_references p"]
      by (auto simp: face_profiles.make_iff wf_face_profile_def admissible_def face_profile_fields_def
          face_profile_rules_def len_between_def min_references_def max_references_def required_poses_def)
  qed
qed

end
