(* ===== verification/Presence_Messages.thy ===== *)
theory Presence_Messages
  imports Guard Turn_Decision
begin

text \<open>
  The facts of the perception plane: the Guard messages of \<open>biz/guard/protocol.py\<close> and the sense messages of
  \<open>biz/sense/protocol.py\<close>, with their discriminated readers. Both carry bounded named scalars and never media.
\<close>

subsection \<open>Signals\<close>

text \<open>\<open>^[a-z][a-z0-9_.]{0,63}$\<close>.\<close>

definition signal_key :: "string \<Rightarrow> bool" where
  "signal_key s =
     (case s of [] \<Rightarrow> False
      | c # cs \<Rightarrow> is_ascii_lower c \<and> length cs \<le> 63 \<and> list_all (\<lambda>d. is_ascii_lower d \<or> is_ascii_digit d \<or> d \<in> set ''_.'') cs)"

datatype signal = Bool_Signal bool | Int_Signal int | Float_Signal pyfloat

type_synonym signals = "(string \<times> signal) list"

fun signal_json :: "signal \<Rightarrow> json" where
  "signal_json (Bool_Signal b) = JBool b"
| "signal_json (Int_Signal n) = JInt n"
| "signal_json (Float_Signal x) = JFloat x"

text \<open>\<open>allow_inf_nan=False\<close> applies to the floats.\<close>

fun read_signal :: "json \<Rightarrow> signal option" where
  "read_signal (JBool b) = Some (Bool_Signal b)"
| "read_signal (JInt n) = Some (Int_Signal n)"
| "read_signal (JFloat x) = (if float_is_finite x then Some (Float_Signal x) else None)"
| "read_signal _ = None"

fun read_signals :: "json_object \<Rightarrow> signals option" where
  "read_signals [] = Some []"
| "read_signals ((k, v) # kvs) =
     Option.bind (read_signal v) (\<lambda>s. map_option (Cons (k, s)) (read_signals kvs))"

definition signals_member :: "json_object \<Rightarrow> signals option" where
  "signals_member kvs =
     (case map_of kvs ''signals'' of None \<Rightarrow> Some [] | Some (JObj ss) \<Rightarrow> read_signals ss | Some _ \<Rightarrow> None)"

definition signals_json :: "signals \<Rightarrow> json" where
  "signals_json ss = JObj (map (\<lambda>(k, s). (k, signal_json s)) ss)"

fun signal_finite :: "signal \<Rightarrow> bool" where
  "signal_finite (Float_Signal x) = float_is_finite x"
| "signal_finite _ = True"

definition signals_ok :: "signals \<Rightarrow> bool" where
  "signals_ok ss \<longleftrightarrow> len_between 0 16 ss \<and> list_all (\<lambda>(k, s). signal_key k \<and> signal_finite s) ss"

definition unit_score :: "pyfloat \<Rightarrow> bool" where
  "unit_score x = (case x of Fin q \<Rightarrow> 0 \<le> q \<and> q \<le> 1 | _ \<Rightarrow> False)"

text \<open>An optional member: absent and null are the same; a strict float accepts an int that a double can hold.\<close>

definition opt_float :: "json_object \<Rightarrow> string \<Rightarrow> pyfloat option option" where
  "opt_float kvs k =
     (case map_of kvs k of
        None \<Rightarrow> Some None | Some JNull \<Rightarrow> Some None | Some (JFloat x) \<Rightarrow> Some (Some x)
      | Some (JInt n) \<Rightarrow> map_option (\<lambda>q. Some (Fin q)) (int_to_float n) | Some _ \<Rightarrow> None)"

definition opt_text :: "json_object \<Rightarrow> string \<Rightarrow> string option option" where
  "opt_text kvs k =
     (case map_of kvs k of None \<Rightarrow> Some None | Some JNull \<Rightarrow> Some None | Some (JStr s) \<Rightarrow> Some (Some s) | Some _ \<Rightarrow> None)"

definition float_or_null :: "pyfloat option \<Rightarrow> json" where
  "float_or_null v = (case v of None \<Rightarrow> JNull | Some x \<Rightarrow> JFloat x)"

definition string_or_null :: "string option \<Rightarrow> json" where
  "string_or_null v = (case v of None \<Rightarrow> JNull | Some s \<Rightarrow> JStr s)"

subsection \<open>Sense messages\<close>

datatype attention = Focused | Relaxed | Away_From_Screen
datatype session_edge = Session_Started | Session_Ended
datatype fatigue_hint = Yawn | Drowsy | Slump
datatype scene_class = Person | Cat | Dog | Package

fun attention_text :: "attention \<Rightarrow> string" where
  "attention_text Focused = ''focused''" | "attention_text Relaxed = ''relaxed''"
| "attention_text Away_From_Screen = ''away_from_screen''"

fun session_edge_text :: "session_edge \<Rightarrow> string" where
  "session_edge_text Session_Started = ''started''" | "session_edge_text Session_Ended = ''ended''"

fun fatigue_text :: "fatigue_hint \<Rightarrow> string" where
  "fatigue_text Yawn = ''yawn''" | "fatigue_text Drowsy = ''drowsy''" | "fatigue_text Slump = ''slump''"

fun scene_text :: "scene_class \<Rightarrow> string" where
  "scene_text Person = ''person''" | "scene_text Cat = ''cat''" | "scene_text Dog = ''dog''" | "scene_text Package = ''package''"

datatype sense_fact =
    Sense_Attention attention signals
  | Sense_Session session_edge int int
  | Sense_Fatigue fatigue_hint "pyfloat option" string string signals
  | Sense_Event scene_class "pyfloat option" string string

record sense_message =
  sm_owner_id :: string
  sm_device_id :: string
  sm_correlation_id :: string
  sm_epoch :: int
  sm_ts_ms :: int
  sm_fact :: sense_fact

definition model_fields :: "pyfloat option \<Rightarrow> string \<Rightarrow> string \<Rightarrow> (string \<times> bool) list" where
  "model_fields c m v =
     [(''confidence'', opt_ok unit_score c), (''model_id'', len_between 1 96 m), (''model_version'', len_between 1 64 v)]"

fun fact_fields :: "sense_fact \<Rightarrow> (string \<times> bool) list" where
  "fact_fields (Sense_Attention a ss) = [(''signals'', signals_ok ss)]"
| "fact_fields (Sense_Session e d n) =
     [(''duration_ms'', int_between 0 86400000 d), (''interruptions'', int_between 0 100000 n)]"
| "fact_fields (Sense_Fatigue h c m v ss) = model_fields c m v @ [(''signals'', signals_ok ss)]"
| "fact_fields (Sense_Event e c m v) = model_fields c m v"

fun fact_rules :: "sense_fact \<Rightarrow> (bool \<times> string) list" where
  "fact_rules (Sense_Session e d n) =
     [(e = Session_Started \<and> (d \<noteq> 0 \<or> n \<noteq> 0), ''started session must have duration_ms=0 and interruptions=0'')]"
| "fact_rules _ = []"

definition sense_fields :: "sense_message \<Rightarrow> (string \<times> bool) list" where
  "sense_fields m =
     [(''owner_id'', len_between 1 64 (sm_owner_id m)), (''device_id'', len_between 1 128 (sm_device_id m)),
      (''correlation_id'', len_between 1 96 (sm_correlation_id m)), (''epoch'', 0 \<le> sm_epoch m), (''ts_ms'', 0 \<le> sm_ts_ms m)]
     @ fact_fields (sm_fact m)"

definition make_sense_message :: "sense_message \<Rightarrow> string invalid + sense_message" where
  "make_sense_message m = build (sense_fields m) (fact_rules (sm_fact m)) m"

definition wf_sense_message :: "sense_message \<Rightarrow> bool" where
  "wf_sense_message m \<longleftrightarrow> admissible (sense_fields m) (fact_rules (sm_fact m))"

interpretation sense_messages: model_class make_sense_message wf_sense_message
  by (rule build_class; simp add: make_sense_message_def wf_sense_message_def)

fun sense_type :: "sense_fact \<Rightarrow> string" where
  "sense_type (Sense_Attention _ _) = ''sense.attention''"
| "sense_type (Sense_Session _ _ _) = ''sense.session''"
| "sense_type (Sense_Fatigue _ _ _ _ _) = ''sense.fatigue''"
| "sense_type (Sense_Event _ _ _ _) = ''sense.event''"

fun fact_json :: "sense_fact \<Rightarrow> json_object" where
  "fact_json (Sense_Attention a ss) = [(''state'', JStr (attention_text a)), (''signals'', signals_json ss)]"
| "fact_json (Sense_Session e d n) =
     [(''state'', JStr (session_edge_text e)), (''duration_ms'', JInt d), (''interruptions'', JInt n)]"
| "fact_json (Sense_Fatigue h c m v ss) =
     [(''hint'', JStr (fatigue_text h)), (''confidence'', float_or_null c), (''model_id'', JStr m),
      (''model_version'', JStr v), (''signals'', signals_json ss)]"
| "fact_json (Sense_Event e c m v) =
     [(''event'', JStr (scene_text e)), (''confidence'', float_or_null c), (''model_id'', JStr m), (''model_version'', JStr v)]"

definition sense_header_keys :: "string list" where
  "sense_header_keys = [''schema_v'', ''owner_id'', ''device_id'', ''correlation_id'', ''epoch'', ''ts_ms'', ''type'', ''raw_retention'']"

definition sense_json :: "sense_message \<Rightarrow> json_object" where
  "sense_json m =
     [(''schema_v'', JInt 1), (''owner_id'', JStr (sm_owner_id m)), (''device_id'', JStr (sm_device_id m)),
      (''correlation_id'', JStr (sm_correlation_id m)), (''epoch'', JInt (sm_epoch m)), (''ts_ms'', JInt (sm_ts_ms m)),
      (''type'', JStr (sense_type (sm_fact m)))] @ fact_json (sm_fact m) @ [(''raw_retention'', JStr ''none'')]"

fun fact_keys :: "string \<Rightarrow> string list" where
  "fact_keys tag =
     (if tag = ''sense.attention'' then [''state'', ''signals'']
      else if tag = ''sense.session'' then [''state'', ''duration_ms'', ''interruptions'']
      else if tag = ''sense.fatigue'' then [''hint'', ''confidence'', ''model_id'', ''model_version'', ''signals'']
      else if tag = ''sense.event'' then [''event'', ''confidence'', ''model_id'', ''model_version''] else [])"

definition read_fact :: "string \<Rightarrow> json_object \<Rightarrow> sense_fact option" where
  "read_fact tag kvs =
     (if tag = ''sense.attention'' then
        Option.bind (choice attention_text [Focused, Relaxed, Away_From_Screen] kvs ''state'') (\<lambda>a.
        map_option (Sense_Attention a) (signals_member kvs))
      else if tag = ''sense.session'' then
        Option.bind (choice session_edge_text [Session_Started, Session_Ended] kvs ''state'') (\<lambda>e.
        Option.bind (int_member_or 0 kvs ''duration_ms'') (\<lambda>d. map_option (Sense_Session e d) (int_member_or 0 kvs ''interruptions'')))
      else if tag = ''sense.fatigue'' then
        Option.bind (choice fatigue_text [Yawn, Drowsy, Slump] kvs ''hint'') (\<lambda>h.
        Option.bind (opt_float kvs ''confidence'') (\<lambda>c. Option.bind (parse_text kvs ''model_id'') (\<lambda>m.
        Option.bind (parse_text kvs ''model_version'') (\<lambda>v. map_option (Sense_Fatigue h c m v) (signals_member kvs)))))
      else if tag = ''sense.event'' then
        Option.bind (choice scene_text [Person, Cat, Dog, Package] kvs ''event'') (\<lambda>e.
        Option.bind (opt_float kvs ''confidence'') (\<lambda>c. Option.bind (parse_text kvs ''model_id'') (\<lambda>m.
        map_option (Sense_Event e c m) (parse_text kvs ''model_version''))))
      else None)"

definition read_sense :: "json_object \<Rightarrow> sense_message option" where
  "read_sense kvs =
     Option.bind (parse_text kvs ''type'') (\<lambda>tag.
     if \<not> only_keys (sense_header_keys @ fact_keys tag) kvs
        \<or> \<not> literal_member kvs ''schema_v'' (JInt 1) \<or> \<not> literal_member kvs ''raw_retention'' (JStr ''none'') then None
     else Option.bind (parse_text kvs ''owner_id'') (\<lambda>w. Option.bind (parse_text kvs ''device_id'') (\<lambda>d.
          Option.bind (parse_text kvs ''correlation_id'') (\<lambda>c. Option.bind (parse_int kvs ''epoch'') (\<lambda>e.
          Option.bind (parse_int kvs ''ts_ms'') (\<lambda>t. Option.bind (read_fact tag kvs) (\<lambda>f.
          Some \<lparr>sm_owner_id = w, sm_device_id = d, sm_correlation_id = c, sm_epoch = e, sm_ts_ms = t, sm_fact = f\<rparr>)))))))"

definition parse_sense_message :: "json \<Rightarrow> guard_refusal + sense_message" where
  "parse_sense_message v =
     (case v of
        JObj kvs \<Rightarrow> and_then (or_raise Malformed_Config (read_sense kvs)) (\<lambda>m. reraise Invalid_Config (make_sense_message m))
      | _ \<Rightarrow> Inl Malformed_Config)"

subsection \<open>Guard messages\<close>

datatype verified_verdict = Seen_Present | Seen_Unknown | Seen_Rejected
datatype absence_reason = Absence_Timeout | Absence_Clear | Absence_Policy
datatype policy_action = Annotate | Clear_Annotation | Set_Presence
datatype action_status = Action_Accepted | Action_Completed | Action_Failed

fun verified_text :: "verified_verdict \<Rightarrow> string" where
  "verified_text Seen_Present = ''present''" | "verified_text Seen_Unknown = ''unknown''" | "verified_text Seen_Rejected = ''rejected''"

fun absence_text :: "absence_reason \<Rightarrow> string" where
  "absence_text Absence_Timeout = ''timeout''" | "absence_text Absence_Clear = ''clear''" | "absence_text Absence_Policy = ''policy''"

fun action_text :: "policy_action \<Rightarrow> string" where
  "action_text Annotate = ''mission_control.annotate''" | "action_text Clear_Annotation = ''mission_control.clear''"
| "action_text Set_Presence = ''body.presence.set''"

fun action_status_text :: "action_status \<Rightarrow> string" where
  "action_status_text Action_Accepted = ''accepted''" | "action_status_text Action_Completed = ''completed''"
| "action_status_text Action_Failed = ''failed''"

record camera_fact =
  cf_frame_hash :: "string option"
  cf_motion_score :: "pyfloat option"

definition camera_ok :: "camera_fact \<Rightarrow> bool" where
  "camera_ok c \<longleftrightarrow> opt_ok (len_between 8 128) (cf_frame_hash c)
     \<and> opt_ok (\<lambda>x. case x of Fin q \<Rightarrow> 0 \<le> q | _ \<Rightarrow> False) (cf_motion_score c)"

text \<open>The payload of an action: scalars under any key.\<close>

datatype guard_body =
    Presence_Candidate signals "camera_fact option" int
  | Presence_Verified verified_verdict "pyfloat option"
  | Presence_Absent absence_reason int
  | Guard_Owner_Presence owner_state int int int
  | Policy_Action string string policy_action string json_object
  | Policy_Action_Ack string string action_status string

record guard_message =
  gm_guard_companion_id :: string
  gm_device_id :: string
  gm_correlation_id :: string
  gm_guard_epoch :: int
  gm_ts_ms :: int
  gm_body :: guard_body

fun scalar_ok :: "json \<Rightarrow> bool" where
  "scalar_ok (JArr _) = False" | "scalar_ok (JObj _) = False"
| "scalar_ok (JFloat x) = float_is_finite x" | "scalar_ok _ = True"

fun body_fields :: "guard_body \<Rightarrow> (string \<times> bool) list" where
  "body_fields (Presence_Candidate ss c d) =
     [(''signals'', signals_ok ss), (''camera'', opt_ok camera_ok c), (''debounce_ms'', int_between 0 600000 d)]"
| "body_fields (Presence_Verified v c) = [(''confidence'', opt_ok unit_score c)]"
| "body_fields (Presence_Absent r n) = [(''absent_for_ms'', 0 \<le> n)]"
| "body_fields (Guard_Owner_Presence s r q l) =
     [(''profile_revision'', 1 \<le> r), (''sequence'', 1 \<le> q), (''lease_ms'', int_between 0 600000 l)]"
| "body_fields (Policy_Action i p a sub kvs) =
     [(''action_id'', len_between 1 96 i), (''policy_id'', len_between 1 64 p), (''subscriber'', len_between 1 128 sub),
      (''payload'', list_all (\<lambda>kv. scalar_ok (snd kv)) kvs)]"
| "body_fields (Policy_Action_Ack i sub s m) =
     [(''action_id'', len_between 1 96 i), (''subscriber'', len_between 1 128 sub), (''message'', len_between 0 256 m)]"

fun body_rules :: "guard_body \<Rightarrow> (bool \<times> string) list" where
  "body_rules (Guard_Owner_Presence s r q l) =
     [(s = Owner_Present \<and> l < 5000, ''present owner presence requires a lease of at least 5000ms''),
      (s = Owner_Absent \<and> l \<noteq> 0, ''absent owner presence must have lease_ms=0'')]"
| "body_rules _ = []"

definition guard_fields :: "guard_message \<Rightarrow> (string \<times> bool) list" where
  "guard_fields m =
     [(''guard_companion_id'', len_between 1 64 (gm_guard_companion_id m)), (''device_id'', len_between 1 128 (gm_device_id m)),
      (''correlation_id'', len_between 1 96 (gm_correlation_id m)), (''guard_epoch'', 0 \<le> gm_guard_epoch m),
      (''ts_ms'', 0 \<le> gm_ts_ms m)] @ body_fields (gm_body m)"

definition make_guard_message :: "guard_message \<Rightarrow> string invalid + guard_message" where
  "make_guard_message m = build (guard_fields m) (body_rules (gm_body m)) m"

definition wf_guard_message :: "guard_message \<Rightarrow> bool" where
  "wf_guard_message m \<longleftrightarrow> admissible (guard_fields m) (body_rules (gm_body m))"

interpretation guard_messages: model_class make_guard_message wf_guard_message
  by (rule build_class; simp add: make_guard_message_def wf_guard_message_def)

fun guard_type :: "guard_body \<Rightarrow> string" where
  "guard_type (Presence_Candidate _ _ _) = ''guard.presence.candidate''"
| "guard_type (Presence_Verified _ _) = ''guard.presence.verified''"
| "guard_type (Presence_Absent _ _) = ''guard.presence.absent''"
| "guard_type (Guard_Owner_Presence _ _ _ _) = ''guard.owner_presence''"
| "guard_type (Policy_Action _ _ _ _ _) = ''guard.policy.action''"
| "guard_type (Policy_Action_Ack _ _ _ _) = ''guard.policy.action_ack''"

definition camera_json :: "camera_fact option \<Rightarrow> json" where
  "camera_json c =
     (case c of None \<Rightarrow> JNull
      | Some f \<Rightarrow> JObj [(''frame_hash'', string_or_null (cf_frame_hash f)), (''motion_score'', float_or_null (cf_motion_score f))])"

fun body_json :: "guard_body \<Rightarrow> json_object" where
  "body_json (Presence_Candidate ss c d) =
     [(''signals'', signals_json ss), (''camera'', camera_json c), (''raw_retention'', JStr ''none''), (''debounce_ms'', JInt d)]"
| "body_json (Presence_Verified v c) =
     [(''verifier'', JStr ''fixture''), (''verdict'', JStr (verified_text v)), (''confidence'', float_or_null c),
      (''raw_retention'', JStr ''none'')]"
| "body_json (Presence_Absent r n) =
     [(''reason'', JStr (absence_text r)), (''absent_for_ms'', JInt n), (''raw_retention'', JStr ''none'')]"
| "body_json (Guard_Owner_Presence s r q l) =
     [(''state'', JStr (owner_state_text s)), (''profile_revision'', JInt r), (''sequence'', JInt q), (''lease_ms'', JInt l),
      (''raw_retention'', JStr ''none'')]"
| "body_json (Policy_Action i p a sub kvs) =
     [(''action_id'', JStr i), (''policy_id'', JStr p), (''action'', JStr (action_text a)), (''subscriber'', JStr sub),
      (''payload'', JObj kvs), (''raw_retention'', JStr ''none'')]"
| "body_json (Policy_Action_Ack i sub s m) =
     [(''action_id'', JStr i), (''subscriber'', JStr sub), (''status'', JStr (action_status_text s)), (''message'', JStr m)]"

definition guard_json :: "guard_message \<Rightarrow> json_object" where
  "guard_json m =
     [(''schema_v'', JInt 1), (''guard_companion_id'', JStr (gm_guard_companion_id m)), (''device_id'', JStr (gm_device_id m)),
      (''correlation_id'', JStr (gm_correlation_id m)), (''guard_epoch'', JInt (gm_guard_epoch m)), (''ts_ms'', JInt (gm_ts_ms m)),
      (''type'', JStr (guard_type (gm_body m)))] @ body_json (gm_body m)"

definition guard_header_keys :: "string list" where
  "guard_header_keys = [''schema_v'', ''guard_companion_id'', ''device_id'', ''correlation_id'', ''guard_epoch'', ''ts_ms'', ''type'']"

fun body_keys :: "string \<Rightarrow> string list" where
  "body_keys tag =
     (if tag = ''guard.presence.candidate'' then [''signals'', ''camera'', ''raw_retention'', ''debounce_ms'']
      else if tag = ''guard.presence.verified'' then [''verifier'', ''verdict'', ''confidence'', ''raw_retention'']
      else if tag = ''guard.presence.absent'' then [''reason'', ''absent_for_ms'', ''raw_retention'']
      else if tag = ''guard.owner_presence'' then [''state'', ''profile_revision'', ''sequence'', ''lease_ms'', ''raw_retention'']
      else if tag = ''guard.policy.action'' then [''action_id'', ''policy_id'', ''action'', ''subscriber'', ''payload'', ''raw_retention'']
      else if tag = ''guard.policy.action_ack'' then [''action_id'', ''subscriber'', ''status'', ''message''] else [])"

definition camera_member :: "json_object \<Rightarrow> camera_fact option option" where
  "camera_member kvs =
     (case map_of kvs ''camera'' of
        None \<Rightarrow> Some None | Some JNull \<Rightarrow> Some None
      | Some (JObj c) \<Rightarrow>
          if \<not> only_keys [''frame_hash'', ''motion_score''] c then None
          else Option.bind (opt_text c ''frame_hash'') (\<lambda>h.
               map_option (\<lambda>x. Some \<lparr>cf_frame_hash = h, cf_motion_score = x\<rparr>) (opt_float c ''motion_score''))
      | Some _ \<Rightarrow> None)"

definition payload_member :: "json_object \<Rightarrow> json_object option" where
  "payload_member kvs = (case map_of kvs ''payload'' of None \<Rightarrow> Some [] | Some (JObj p) \<Rightarrow> Some p | Some _ \<Rightarrow> None)"

definition read_body :: "string \<Rightarrow> json_object \<Rightarrow> guard_body option" where
  "read_body tag kvs =
     (if tag = ''guard.presence.candidate'' then
        Option.bind (signals_member kvs) (\<lambda>ss. Option.bind (camera_member kvs) (\<lambda>c.
        map_option (Presence_Candidate ss c) (int_member_or 0 kvs ''debounce_ms'')))
      else if tag = ''guard.presence.verified'' then
        (if \<not> literal_member kvs ''verifier'' (JStr ''fixture'') then None
         else Option.bind (choice verified_text [Seen_Present, Seen_Unknown, Seen_Rejected] kvs ''verdict'') (\<lambda>v.
              map_option (Presence_Verified v) (opt_float kvs ''confidence'')))
      else if tag = ''guard.presence.absent'' then
        Option.bind (choice absence_text [Absence_Timeout, Absence_Clear, Absence_Policy] kvs ''reason'') (\<lambda>r.
        map_option (Presence_Absent r) (parse_int kvs ''absent_for_ms''))
      else if tag = ''guard.owner_presence'' then
        Option.bind (choice owner_state_text [Owner_Present, Owner_Absent] kvs ''state'') (\<lambda>s.
        Option.bind (parse_int kvs ''profile_revision'') (\<lambda>r. Option.bind (parse_int kvs ''sequence'') (\<lambda>q.
        map_option (Guard_Owner_Presence s r q) (parse_int kvs ''lease_ms''))))
      else if tag = ''guard.policy.action'' then
        Option.bind (parse_text kvs ''action_id'') (\<lambda>i. Option.bind (parse_text kvs ''policy_id'') (\<lambda>p.
        Option.bind (choice action_text [Annotate, Clear_Annotation, Set_Presence] kvs ''action'') (\<lambda>a.
        Option.bind (text_member ''mission_control_fixture'' kvs ''subscriber'') (\<lambda>sub.
        map_option (Policy_Action i p a sub) (payload_member kvs)))))
      else if tag = ''guard.policy.action_ack'' then
        Option.bind (parse_text kvs ''action_id'') (\<lambda>i.
        Option.bind (text_member ''mission_control_fixture'' kvs ''subscriber'') (\<lambda>sub.
        Option.bind (choice action_status_text [Action_Accepted, Action_Completed, Action_Failed] kvs ''status'') (\<lambda>s.
        map_option (Policy_Action_Ack i sub s) (text_member [] kvs ''message''))))
      else None)"

definition read_guard :: "json_object \<Rightarrow> guard_message option" where
  "read_guard kvs =
     Option.bind (parse_text kvs ''type'') (\<lambda>tag.
     if \<not> only_keys (guard_header_keys @ body_keys tag) kvs
        \<or> \<not> literal_member kvs ''schema_v'' (JInt 1) \<or> \<not> literal_member kvs ''raw_retention'' (JStr ''none'') then None
     else Option.bind (parse_text kvs ''guard_companion_id'') (\<lambda>g. Option.bind (parse_text kvs ''device_id'') (\<lambda>d.
          Option.bind (parse_text kvs ''correlation_id'') (\<lambda>c. Option.bind (parse_int kvs ''guard_epoch'') (\<lambda>e.
          Option.bind (parse_int kvs ''ts_ms'') (\<lambda>t. Option.bind (read_body tag kvs) (\<lambda>b.
          Some \<lparr>gm_guard_companion_id = g, gm_device_id = d, gm_correlation_id = c, gm_guard_epoch = e, gm_ts_ms = t,
                gm_body = b\<rparr>)))))))"

definition parse_guard_message :: "json \<Rightarrow> guard_refusal + guard_message" where
  "parse_guard_message v =
     (case v of
        JObj kvs \<Rightarrow> and_then (or_raise Malformed_Config (read_guard kvs)) (\<lambda>m. reraise Invalid_Config (make_guard_message m))
      | _ \<Rightarrow> Inl Malformed_Config)"

subsection \<open>Lemmas\<close>

lemma read_own_signals:
  "read_signals (map (\<lambda>(k, s). (k, signal_json s)) ss) = (if list_all (\<lambda>(k, s). signal_finite s) ss then Some ss else None)"
proof (induction ss)
  case (Cons ks ss)
  obtain k s where "ks = (k, s)" by (cases ks)
  then show ?case using Cons by (cases s) simp_all
qed simp

lemma signals_ok_finite: "signals_ok ss \<Longrightarrow> list_all (\<lambda>(k, s). signal_finite s) ss"
  by (auto simp: signals_ok_def list_all_iff)

lemma opt_float_own: "map_of kvs k = Some (float_or_null c) \<Longrightarrow> opt_float kvs k = Some c"
  by (cases c) (simp_all add: opt_float_def float_or_null_def)

lemma signals_member_own:
  "map_of kvs ''signals'' = Some (signals_json ss) \<Longrightarrow>
     signals_member kvs = (if list_all (\<lambda>(k, s). signal_finite s) ss then Some ss else None)"
  by (simp add: signals_member_def signals_json_def read_own_signals)

lemmas wire_simps =
  only_keys_def literal_member_def defaulted_def parse_text_def parse_int_def text_member_def int_member_or_def

lemma attention_choice: "map_of kvs k = Some (JStr (attention_text a)) \<Longrightarrow> choice attention_text [Focused, Relaxed, Away_From_Screen] kvs k = Some a"
  by (cases a) (simp_all add: choice_def parse_text_def)

lemma session_choice: "map_of kvs k = Some (JStr (session_edge_text e)) \<Longrightarrow> choice session_edge_text [Session_Started, Session_Ended] kvs k = Some e"
  by (cases e) (simp_all add: choice_def parse_text_def)

lemma fatigue_choice: "map_of kvs k = Some (JStr (fatigue_text h)) \<Longrightarrow> choice fatigue_text [Yawn, Drowsy, Slump] kvs k = Some h"
  by (cases h) (simp_all add: choice_def parse_text_def)

lemma scene_choice: "map_of kvs k = Some (JStr (scene_text c)) \<Longrightarrow> choice scene_text [Person, Cat, Dog, Package] kvs k = Some c"
  by (cases c) (simp_all add: choice_def parse_text_def)

lemma verified_choice: "map_of kvs k = Some (JStr (verified_text v)) \<Longrightarrow> choice verified_text [Seen_Present, Seen_Unknown, Seen_Rejected] kvs k = Some v"
  by (cases v) (simp_all add: choice_def parse_text_def)

lemma absence_choice: "map_of kvs k = Some (JStr (absence_text r)) \<Longrightarrow> choice absence_text [Absence_Timeout, Absence_Clear, Absence_Policy] kvs k = Some r"
  by (cases r) (simp_all add: choice_def parse_text_def)

lemma action_choice: "map_of kvs k = Some (JStr (action_text a)) \<Longrightarrow> choice action_text [Annotate, Clear_Annotation, Set_Presence] kvs k = Some a"
  by (cases a) (simp_all add: choice_def parse_text_def)

lemma status_choice: "map_of kvs k = Some (JStr (action_status_text s)) \<Longrightarrow> choice action_status_text [Action_Accepted, Action_Completed, Action_Failed] kvs k = Some s"
  by (cases s) (simp_all add: choice_def parse_text_def)

lemma owner_choice: "map_of kvs k = Some (JStr (owner_state_text s)) \<Longrightarrow> choice owner_state_text [Owner_Present, Owner_Absent] kvs k = Some s"
  by (cases s) (simp_all add: choice_def parse_text_def)

lemmas choices =
  attention_choice session_choice fatigue_choice scene_choice verified_choice absence_choice action_choice status_choice owner_choice

text \<open>Only a signal that is no number is not read back.\<close>

fun signals_of :: "sense_fact \<Rightarrow> signals" where
  "signals_of (Sense_Attention a ss) = ss"
| "signals_of (Sense_Fatigue h c m v ss) = ss"
| "signals_of _ = []"

lemma read_own_sense:
  "read_sense (sense_json m) = (if list_all (\<lambda>(k, s). signal_finite s) (signals_of (sm_fact m)) then Some m else None)"
  by (cases "sm_fact m")
    (simp_all add: read_sense_def sense_json_def wire_simps sense_header_keys_def read_fact_def choices signals_member_own
      opt_float_own)

lemma wf_sense_finite: "wf_sense_message m \<Longrightarrow> list_all (\<lambda>(k, s). signal_finite s) (signals_of (sm_fact m))"
  by (cases "sm_fact m") (simp_all add: wf_sense_message_def admissible_def sense_fields_def signals_ok_finite)

interpretation sense_wire: codec sense_json read_sense wf_sense_message
  by unfold_locales (simp add: read_own_sense wf_sense_finite)

lemma opt_text_own: "map_of kvs k = Some (string_or_null c) \<Longrightarrow> opt_text kvs k = Some c"
  by (cases c) (simp_all add: opt_text_def string_or_null_def)

lemma camera_own: "map_of kvs ''camera'' = Some (camera_json c) \<Longrightarrow> camera_member kvs = Some c"
  by (cases c) (simp_all add: camera_member_def camera_json_def only_keys_def opt_text_own opt_float_own)

fun candidate_signals :: "guard_body \<Rightarrow> signals" where
  "candidate_signals (Presence_Candidate ss c d) = ss"
| "candidate_signals _ = []"

lemma read_own_body:
  assumes "kvs = hs @ body_json b" "\<forall>k \<in> set (body_keys (guard_type b)). map_of hs k = None"
  shows "read_body (guard_type b) kvs = (if list_all (\<lambda>(k, s). signal_finite s) (candidate_signals b) then Some b else None)"
  using assms
  by (cases b) (simp_all add: read_body_def wire_simps choices signals_member_own opt_float_own camera_own payload_member_def
      map_add_def)

lemma read_own_guard:
  "read_guard (guard_json m) =
     (if list_all (\<lambda>(k, s). signal_finite s) (candidate_signals (gm_body m)) then Some m else None)"
proof -
  let ?hs = "[(''schema_v'', JInt 1), (''guard_companion_id'', JStr (gm_guard_companion_id m)), (''device_id'', JStr (gm_device_id m)),
      (''correlation_id'', JStr (gm_correlation_id m)), (''guard_epoch'', JInt (gm_guard_epoch m)), (''ts_ms'', JInt (gm_ts_ms m)),
      (''type'', JStr (guard_type (gm_body m)))]"
  have body: "read_body (guard_type (gm_body m)) (?hs @ body_json (gm_body m)) =
      (if list_all (\<lambda>(k, s). signal_finite s) (candidate_signals (gm_body m)) then Some (gm_body m) else None)"
    by (rule read_own_body [OF refl]) (cases "gm_body m"; simp)
  have keys: "only_keys (guard_header_keys @ body_keys (guard_type (gm_body m))) (?hs @ body_json (gm_body m))"
    and retention: "literal_member (?hs @ body_json (gm_body m)) ''raw_retention'' (JStr ''none'')"
    by (cases "gm_body m"; simp add: wire_simps guard_header_keys_def)+
  show ?thesis
    using body keys retention
    by (simp add: read_guard_def guard_json_def parse_text_def parse_int_def literal_member_def defaulted_def del: body_keys.simps)
qed

lemma wf_guard_finite: "wf_guard_message m \<Longrightarrow> list_all (\<lambda>(k, s). signal_finite s) (candidate_signals (gm_body m))"
  by (cases "gm_body m") (simp_all add: wf_guard_message_def admissible_def guard_fields_def signals_ok_finite)

interpretation guard_wire: codec guard_json read_guard wf_guard_message
  by unfold_locales (simp add: read_own_guard wf_guard_finite)

subsection \<open>Properties\<close>

text \<open>
  C34. A Guard message of any of the six kinds is read back from its wire form exactly when it can be built, and then
  as itself; a message outside its bounds, with a signal that is no number or with an incoherent lease is refused on
  the wire as well.
\<close>

theorem guard_message_read_back:
  "case parse_guard_message (JObj (guard_json m)) of
     Inl _ \<Rightarrow> \<not> wf_guard_message m
   | Inr m' \<Rightarrow> m' = m \<and> make_guard_message m = Inr m"
  using wf_guard_finite [of m]
  by (auto simp: parse_guard_message_def read_own_guard guard_simps guard_messages.make_iff guard_messages.accepts split: sum.split)

text \<open>
  The same holds of the facts of the sense plane: attention, session, fatigue and scene events.
\<close>

theorem sense_message_read_back:
  "case parse_sense_message (JObj (sense_json m)) of
     Inl _ \<Rightarrow> \<not> wf_sense_message m
   | Inr m' \<Rightarrow> m' = m \<and> make_sense_message m = Inr m"
  using wf_sense_finite [of m]
  by (auto simp: parse_sense_message_def read_own_sense guard_simps sense_messages.make_iff sense_messages.accepts split: sum.split)

end
