(* ===== verification/Background_Tasks.thy ===== *)
theory Background_Tasks
  imports Prelude "HOL-Library.Multiset"
begin

text \<open>
  The background task runner of \<open>core/runtime/background.py\<close> as a transition system: its set of tracked tasks, its
  log, and the part of the event loop it stands on (Python 3.13, the version the project pins). Tasks are numbered in
  the order of their creation. When a task ends its callbacks are queued in the order they were registered, the
  runner's own first (it is registered at creation), and the loop runs queued callbacks in order. A drain gathers the
  tasks tracked when it began: \<open>asyncio.gather\<close> counts those that have ended at once and registers a callback of
  its own on each of the others, and it is complete when none of these is left to call back. A timeout cancels the
  gathering, which cancels its unfinished members and still waits for them. The runner's set plays no part in that
  wait. How a coroutine ends, and when, is open: cancelling it only asks.
\<close>

subsection \<open>State\<close>

datatype outcome = Came_Back | Threw string | Was_Cancelled

datatype progress = Unborn | In_Progress | Ended outcome

text \<open>The error line of a failed task (component, name, exception) and the warning of a drain (component, pending).\<close>

datatype log_line = Task_Failed string string string | Drain_Timed_Out string nat

text \<open>A queued callback: the runner's own of a task, or the one a drain's gathering registered on a task.\<close>

datatype callback = Done_Callback nat | Gather_Callback nat nat

text \<open>A drain in its wait: the tasks it gathered, those still to call back, and whether its time has run out.\<close>

record drain_wait =
  dw_id :: nat
  dw_tasks :: "nat set"
  dw_left :: "nat set"
  dw_late :: bool

record runner =
  br_component :: string
  br_tasks :: "nat set"
  br_log :: "log_line list"
  br_next :: nat
  br_name :: "nat \<Rightarrow> string"
  br_progress :: "nat \<Rightarrow> progress"
  br_queue :: "callback list"
  br_cancel_asked :: "nat set"
  br_drains :: "drain_wait list"
  br_gathered :: nat

definition new_runner :: "string \<Rightarrow> runner" where
  "new_runner c =
     \<lparr>br_component = c, br_tasks = {}, br_log = [], br_next = 0, br_name = (\<lambda>_. []), br_progress = (\<lambda>_. Unborn),
      br_queue = [], br_cancel_asked = {}, br_drains = [], br_gathered = 0\<rparr>"

text \<open>The ended tasks whose \<open>_on_done\<close> is queued, in the order it will run.\<close>

fun own_callbacks :: "callback list \<Rightarrow> nat list" where
  "own_callbacks [] = []"
| "own_callbacks (Done_Callback t # q) = t # own_callbacks q"
| "own_callbacks (Gather_Callback d t # q) = own_callbacks q"

definition br_ready :: "runner \<Rightarrow> nat list" where
  "br_ready s = own_callbacks (br_queue s)"

subsection \<open>Operations\<close>

definition task_name :: "runner \<Rightarrow> string \<Rightarrow> string" where
  "task_name s n = (if br_component s \<noteq> [] then br_component s @ '':'' @ n else n)"

definition create_task :: "string \<Rightarrow> runner \<Rightarrow> runner" where
  "create_task n s =
     s\<lparr>br_name := (br_name s)(br_next s := task_name s n), br_progress := (br_progress s)(br_next s := In_Progress),
       br_next := Suc (br_next s), br_tasks := insert (br_next s) (br_tasks s)\<rparr>"

definition pending_count :: "runner \<Rightarrow> nat" where
  "pending_count s = card (br_tasks s)"

text \<open>\<open>task.exception()\<close> returns the exception the task threw, or none.\<close>

definition on_done :: "nat \<Rightarrow> runner \<Rightarrow> runner" where
  "on_done t s =
     (let r = s\<lparr>br_tasks := br_tasks s - {t}\<rparr>
      in case br_progress s t of
           Ended (Threw e) \<Rightarrow> r\<lparr>br_log := br_log r @ [Task_Failed (br_component r) (br_name r t) e]\<rparr>
         | _ \<Rightarrow> r)"

definition ask_cancel :: "nat set \<Rightarrow> runner \<Rightarrow> runner" where
  "ask_cancel ts s = s\<lparr>br_cancel_asked := br_cancel_asked s \<union> {t \<in> ts. br_progress s t = In_Progress}\<rparr>"

text \<open>
  \<open>drain\<close> up to its wait: nothing to wait for returns at once, and so does the gathering of tasks that have all ended.
\<close>

definition start_drain :: "runner \<Rightarrow> runner" where
  "start_drain s =
     (let pending = br_tasks s; left = {t \<in> pending. br_progress s t = In_Progress}
      in if pending = {} \<or> left = {} then s
         else s\<lparr>br_drains := br_drains s @ [\<lparr>dw_id = br_gathered s, dw_tasks = pending, dw_left = left, dw_late = False\<rparr>],
                br_gathered := Suc (br_gathered s)\<rparr>)"

definition cancel_and_drain :: "runner \<Rightarrow> runner" where
  "cancel_and_drain s = start_drain (ask_cancel (br_tasks s) s)"

text \<open>The wait of a drain ends; one whose time ran out says so.\<close>

definition end_drain :: "bool \<Rightarrow> runner \<Rightarrow> runner" where
  "end_drain timed_out s =
     (if timed_out then s\<lparr>br_log := br_log s @ [Drain_Timed_Out (br_component s) (pending_count s)]\<rparr> else s)"

subsection \<open>Runs\<close>

text \<open>A task ends: its callbacks are queued, the runner's own and then those of the drains that wait for it.\<close>

definition end_task :: "nat \<Rightarrow> outcome \<Rightarrow> runner \<Rightarrow> runner" where
  "end_task t out s =
     s\<lparr>br_progress := (br_progress s)(t := Ended out),
       br_queue := br_queue s @ Done_Callback t
         # map (\<lambda>w. Gather_Callback (dw_id w) t) (filter (\<lambda>w. t \<in> dw_left w) (br_drains s))\<rparr>"

definition gather_counts :: "nat \<Rightarrow> nat \<Rightarrow> runner \<Rightarrow> runner" where
  "gather_counts d t s =
     s\<lparr>br_drains := map (\<lambda>w. if dw_id w = d then w\<lparr>dw_left := dw_left w - {t}\<rparr> else w) (br_drains s)\<rparr>"

fun run_callback :: "callback \<Rightarrow> runner \<Rightarrow> runner" where
  "run_callback (Done_Callback t) s = on_done t s"
| "run_callback (Gather_Callback d t) s = gather_counts d t s"

inductive runner_step :: "runner \<Rightarrow> runner \<Rightarrow> bool" where
  create: "runner_step s (create_task n s)"
| finish: "br_progress s t = In_Progress \<Longrightarrow> runner_step s (end_task t out s)"
| call_back: "br_queue s = c # q \<Longrightarrow> runner_step s (run_callback c (s\<lparr>br_queue := q\<rparr>))"
| drain: "runner_step s (start_drain s)"
| cancel: "runner_step s (cancel_and_drain s)"
| time_out: "br_drains s = ds @ w # es \<Longrightarrow> \<not> dw_late w
    \<Longrightarrow> runner_step s (ask_cancel (dw_tasks w) (s\<lparr>br_drains := ds @ w\<lparr>dw_late := True\<rparr> # es\<rparr>))"
| drained: "br_drains s = ds @ w # es \<Longrightarrow> dw_left w = {}
    \<Longrightarrow> runner_step s (end_drain (dw_late w) (s\<lparr>br_drains := ds @ es\<rparr>))"

inductive runner_reachable :: "string \<Rightarrow> runner \<Rightarrow> bool" for c where
  start: "runner_reachable c (new_runner c)"
| step: "runner_reachable c s \<Longrightarrow> runner_step s s' \<Longrightarrow> runner_reachable c s'"

subsection \<open>The invariant\<close>

definition failed_task :: "runner \<Rightarrow> nat \<Rightarrow> bool" where
  "failed_task s t \<longleftrightarrow> (case br_progress s t of Ended (Threw e) \<Rightarrow> True | _ \<Rightarrow> False)"

definition failure_line :: "runner \<Rightarrow> nat \<Rightarrow> log_line" where
  "failure_line s t =
     Task_Failed (br_component s) (br_name s t) (case br_progress s t of Ended (Threw e) \<Rightarrow> e | _ \<Rightarrow> [])"

fun is_failure :: "log_line \<Rightarrow> bool" where
  "is_failure (Task_Failed c n e) = True"
| "is_failure (Drain_Timed_Out c n) = False"

text \<open>The failed tasks whose callback has run.\<close>

definition settled_failures :: "runner \<Rightarrow> nat set" where
  "settled_failures s = {t. t < br_next s \<and> failed_task s t \<and> t \<notin> set (br_ready s)}"

definition tracked_exactly :: "runner \<Rightarrow> bool" where
  "tracked_exactly s \<longleftrightarrow>
     br_tasks s = {t. br_progress s t = In_Progress} \<union> set (br_ready s)
     \<and> distinct (br_ready s) \<and> (\<forall>t \<in> set (br_ready s). \<exists>r. br_progress s t = Ended r)
     \<and> (\<forall>t. br_progress s t = Unborn \<longleftrightarrow> br_next s \<le> t)"

definition failures_logged :: "runner \<Rightarrow> bool" where
  "failures_logged s \<longleftrightarrow> filter_mset is_failure (mset (br_log s)) = image_mset (failure_line s) (mset_set (settled_failures s))"

text \<open>
  A drain in its wait. Its tasks are all older than what is tracked beside them; those in progress are left to call
  back, and one left to call back is in progress or has its callback queued; and behind every queued \<open>_on_done\<close> of
  one of its tasks the drain still has something to wait for.
\<close>

definition still_waited :: "runner \<Rightarrow> drain_wait \<Rightarrow> callback list \<Rightarrow> bool" where
  "still_waited s w q \<longleftrightarrow>
     (\<exists>u \<in> dw_left w. br_progress s u = In_Progress \<or> Gather_Callback (dw_id w) u \<in> set q)"

fun waited_behind :: "runner \<Rightarrow> drain_wait \<Rightarrow> callback list \<Rightarrow> bool" where
  "waited_behind s w [] = True"
| "waited_behind s w (Done_Callback t # q) = ((t \<in> dw_tasks w \<longrightarrow> still_waited s w q) \<and> waited_behind s w q)"
| "waited_behind s w (Gather_Callback d t # q) = waited_behind s w q"

definition wait_sound :: "runner \<Rightarrow> drain_wait \<Rightarrow> bool" where
  "wait_sound s w \<longleftrightarrow>
     dw_id w < br_gathered s \<and> dw_left w \<subseteq> dw_tasks w
     \<and> (\<forall>t \<in> dw_tasks w. t < br_next s \<and> (br_progress s t = In_Progress \<longrightarrow> t \<in> dw_left w))
     \<and> (\<forall>t \<in> br_tasks s - dw_tasks w. \<forall>u \<in> dw_tasks w. u < t)
     \<and> (\<forall>u \<in> dw_left w. br_progress s u = In_Progress \<or> Gather_Callback (dw_id w) u \<in> set (br_queue s))
     \<and> waited_behind s w (br_queue s)"

definition drains_cover :: "runner \<Rightarrow> bool" where
  "drains_cover s \<longleftrightarrow>
     (\<forall>w \<in> set (br_drains s). wait_sound s w) \<and> distinct (map dw_id (br_drains s)) \<and> distinct (br_queue s)
     \<and> (\<forall>d t. Gather_Callback d t \<in> set (br_queue s) \<longrightarrow> d < br_gathered s \<and> (\<exists>r. br_progress s t = Ended r))"

lemmas runner_defs =
  create_task_def on_done_def ask_cancel_def start_drain_def cancel_and_drain_def end_drain_def end_task_def gather_counts_def

lemma own_callbacks_append [simp]: "own_callbacks (p @ q) = own_callbacks p @ own_callbacks q"
  by (induction p rule: own_callbacks.induct) simp_all

lemma own_callbacks_gathers [simp]: "own_callbacks (map (\<lambda>w. Gather_Callback (f w) t) ws) = []"
  by (induction ws) simp_all

lemma in_own_callbacks [simp]: "t \<in> set (own_callbacks q) \<longleftrightarrow> Done_Callback t \<in> set q"
  by (induction q rule: own_callbacks.induct) auto

lemma br_ready_simps [simp]:
  "br_ready (create_task n s) = br_ready s"
  "br_ready (end_task t out s) = br_ready s @ [t]"
  "br_ready (ask_cancel ts s) = br_ready s"
  "br_ready (start_drain s) = br_ready s"
  "br_ready (end_drain late s) = br_ready s"
  "br_ready (on_done t s) = br_ready s"
  "br_ready (gather_counts d t s) = br_ready s"
  "br_ready (s\<lparr>br_drains := ws\<rparr>) = br_ready s"
  "br_ready (s\<lparr>br_queue := q\<rparr>) = own_callbacks q"
  by (simp_all add: br_ready_def runner_defs Let_def split: progress.split outcome.split)

lemma tracked_bounded: "tracked_exactly s \<Longrightarrow> t \<in> br_tasks s \<Longrightarrow> t < br_next s"
proof (rule ccontr)
  assume "tracked_exactly s" "t \<in> br_tasks s" "\<not> t < br_next s"
  then have "br_progress s t = Unborn" "br_progress s t = In_Progress \<or> (\<exists>r. br_progress s t = Ended r)"
    by (auto simp: tracked_exactly_def)
  then show False by auto
qed

lemma tracked_next: "tracked_exactly s \<Longrightarrow> br_next s \<notin> set (br_ready s)"
  using tracked_bounded [of s "br_next s"] by (auto simp: tracked_exactly_def)

lemma tracked_start: "tracked_exactly (new_runner c)"
  by (simp add: tracked_exactly_def new_runner_def br_ready_def)

lemma ready_of_queue:
  "br_queue s = Done_Callback t # q \<Longrightarrow> br_ready s = t # own_callbacks q"
  "br_queue s = Gather_Callback d t # q \<Longrightarrow> br_ready s = own_callbacks q"
  by (simp_all add: br_ready_def)

lemma tracked_step: "runner_step s s' \<Longrightarrow> tracked_exactly s \<Longrightarrow> tracked_exactly s'"
proof (induction rule: runner_step.induct)
  case (create s n)
  from tracked_next [OF create] show ?case using create
    by (auto simp: tracked_exactly_def create_task_def br_ready_def)
next
  case (finish s t out)
  then have "t < br_next s" by (intro tracked_bounded) (auto simp: tracked_exactly_def)
  with finish show ?case by (auto simp: tracked_exactly_def) (auto simp: end_task_def split: if_splits)
next
  case (call_back s c q)
  then show ?case
    by (cases c)
      (auto simp: tracked_exactly_def ready_of_queue on_done_def gather_counts_def br_ready_def Let_def
         split: progress.split outcome.split)
qed (auto simp: tracked_exactly_def runner_defs br_ready_def Let_def)

lemma finite_settled [simp]: "finite (settled_failures s)"
  by (simp add: settled_failures_def)

lemma failures_frame:
  assumes "failures_logged s" "settled_failures s' = settled_failures s"
    and "\<And>t. t \<in> settled_failures s \<Longrightarrow> failure_line s' t = failure_line s t"
    and "filter_mset is_failure (mset (br_log s')) = filter_mset is_failure (mset (br_log s))"
  shows "failures_logged s'"
  using assms by (auto simp: failures_logged_def intro!: image_mset_cong)

lemma failures_same:
  assumes "failures_logged s" "br_component s' = br_component s" "br_name s' = br_name s" "br_progress s' = br_progress s"
    and "br_ready s' = br_ready s" "br_next s' = br_next s"
    and "filter_mset is_failure (mset (br_log s')) = filter_mset is_failure (mset (br_log s))"
  shows "failures_logged s'"
  using assms(2-) by (intro failures_frame [OF assms(1)]) (simp_all add: settled_failures_def failed_task_def failure_line_def)

lemma failures_start: "failures_logged (new_runner c)"
  by (simp add: failures_logged_def settled_failures_def new_runner_def)

lemma failures_step: "runner_step s s' \<Longrightarrow> tracked_exactly s \<Longrightarrow> failures_logged s \<Longrightarrow> failures_logged s'"
proof (induction rule: runner_step.induct)
  case (create s n)
  from create(2) show ?case
    by (rule failures_frame)
      (auto simp: create_task_def settled_failures_def failed_task_def failure_line_def less_Suc_eq br_ready_def)
next
  case (finish s t out)
  then have t: "t \<notin> set (br_ready s)" by (auto simp: tracked_exactly_def)
  have ready: "br_ready (end_task t out s) = br_ready s @ [t]" by simp
  have "settled_failures (end_task t out s) = settled_failures s"
    unfolding settled_failures_def ready using finish(1) t
    by (auto simp: end_task_def failed_task_def simp del: br_ready_simps)
  moreover have "failure_line (end_task t out s) u = failure_line s u" if "u \<in> settled_failures s" for u
    using that finish(1) by (auto simp: end_task_def settled_failures_def failed_task_def failure_line_def)
  moreover have "br_log (end_task t out s) = br_log s" by (simp add: end_task_def)
  ultimately show ?case by (intro failures_frame [OF finish(3)]) simp_all
next
  case (call_back s c q)
  then show ?case
  proof (cases c)
    case (Gather_Callback d t)
    with call_back show ?thesis
      by (intro failures_same [OF call_back(3)]) (simp_all add: gather_counts_def ready_of_queue br_ready_def)
  next
    case (Done_Callback t)
    let ?r = "s\<lparr>br_queue := q, br_tasks := br_tasks s - {t}\<rparr>"
    have rdy: "br_ready s = t # own_callbacks q" using call_back(1) Done_Callback by (simp add: ready_of_queue)
    have t: "t \<notin> set (own_callbacks q)" "t < br_next s" "t \<notin> settled_failures s"
      using call_back(2) tracked_bounded [OF call_back(2), of t] rdy
      by (auto simp: tracked_exactly_def settled_failures_def simp del: in_own_callbacks)
    have ready: "br_ready (on_done t (s\<lparr>br_queue := q\<rparr>)) = own_callbacks q" by simp
    show ?thesis
    proof (cases "failed_task s t")
      case True
      then obtain e where e: "br_progress s t = Ended (Threw e)"
        by (auto simp: failed_task_def split: progress.splits outcome.splits)
      have set: "settled_failures (on_done t (s\<lparr>br_queue := q\<rparr>)) = insert t (settled_failures s)"
        unfolding settled_failures_def ready using t(1,2) e rdy by (auto simp: on_done_def failed_task_def)
      have line: "failure_line (on_done t (s\<lparr>br_queue := q\<rparr>)) = failure_line s"
        using e by (simp add: on_done_def failure_line_def fun_eq_iff)
      show ?thesis unfolding Done_Callback run_callback.simps
        using call_back(3) t(3) e by (simp add: failures_logged_def set line) (simp add: on_done_def failure_line_def)
    next
      case False
      then have r: "on_done t (s\<lparr>br_queue := q\<rparr>) = ?r"
        by (auto simp: on_done_def failed_task_def Let_def split: progress.splits outcome.splits)
      have "settled_failures ?r = settled_failures s"
        unfolding settled_failures_def using False t rdy by (auto simp: br_ready_def failed_task_def)
      with r show ?thesis unfolding Done_Callback run_callback.simps
        by (intro failures_frame [OF call_back(3)]) (auto simp: failure_line_def)
    qed
  qed
qed (erule failures_same; simp add: runner_defs br_ready_def Let_def)+

lemma waited_gathers [simp]: "waited_behind s w (map (\<lambda>v. Gather_Callback (g v) t) vs)"
  by (induction vs) simp_all

lemma waited_transfer:
  assumes "waited_behind s w q" "dw_tasks w' = dw_tasks w" "waited_behind s' w' p"
    and "\<And>r. set r \<subseteq> set q \<Longrightarrow> still_waited s w r \<Longrightarrow> still_waited s' w' (r @ p)"
  shows "waited_behind s' w' (q @ p)"
  using assms(1,4)
proof (induction q)
  case (Cons c q)
  have "waited_behind s w q" using Cons.prems(1) by (cases c) simp_all
  then have "waited_behind s' w' (q @ p)" using Cons.prems(2) by (intro Cons.IH) (auto intro: subset_insertI2)
  moreover have "set q \<subseteq> set (c # q)" by auto
  ultimately show ?case using Cons.prems(1) Cons.prems(2) [of q] assms(2) by (cases c) auto
qed (simp add: assms(3))

lemmas waited_same = waited_transfer [where p = "[]", simplified]

lemma wait_sound_same:
  assumes "wait_sound s w" "br_progress s' = br_progress s" "br_queue s' = br_queue s" "br_next s' = br_next s"
    and "br_tasks s' = br_tasks s" "br_gathered s \<le> br_gathered s'"
    and "dw_id w' = dw_id w" "dw_tasks w' = dw_tasks w" "dw_left w' = dw_left w"
  shows "wait_sound s' w'"
proof -
  have "waited_behind s' w' (br_queue s')"
    by (rule waited_same [of s w]) (use assms in \<open>auto simp: wait_sound_def still_waited_def\<close>)
  then show ?thesis using assms by (auto simp: wait_sound_def)
qed

lemma drains_start: "drains_cover (new_runner c)"
  by (simp add: drains_cover_def new_runner_def)

lemma sound_created:
  assumes "tracked_exactly s" "wait_sound s w"
  shows "wait_sound (create_task n s) w"
proof -
  let ?s = "create_task n s"
  have old: "br_progress ?s t = br_progress s t" if "t < br_next s" for t using that by (simp add: create_task_def)
  have left: "u < br_next s" if "u \<in> dw_left w" for u using that assms(2) by (auto simp: wait_sound_def)
  have "waited_behind ?s w (br_queue ?s)"
    by (rule waited_same [of s w]) (use assms(2) old left in \<open>auto simp: wait_sound_def still_waited_def create_task_def\<close>)
  then show ?thesis using assms(2) old left by (auto simp: wait_sound_def create_task_def less_Suc_eq)
qed

lemma sound_ended:
  assumes "drains_cover s" "w \<in> set (br_drains s)" "br_progress s t = In_Progress"
  shows "wait_sound (end_task t out s) w"
proof -
  let ?s = "end_task t out s" and ?gs = "map (\<lambda>v. Gather_Callback (dw_id v) t) (filter (\<lambda>v. t \<in> dw_left v) (br_drains s))"
  have w: "wait_sound s w" using assms(1,2) by (simp add: drains_cover_def)
  have q: "br_queue ?s = br_queue s @ Done_Callback t # ?gs" by (simp add: end_task_def)
  have gs: "Gather_Callback (dw_id w) t \<in> set ?gs" if "t \<in> dw_left w" using that assms(2) by auto
  have left: "t \<in> dw_tasks w \<Longrightarrow> t \<in> dw_left w" using w assms(3) by (auto simp: wait_sound_def)
  have carried: "still_waited ?s w (r @ Done_Callback t # ?gs)" if r: "still_waited s w r" for r
  proof -
    from r obtain u where u: "u \<in> dw_left w" "br_progress s u = In_Progress \<or> Gather_Callback (dw_id w) u \<in> set r"
      by (auto simp: still_waited_def)
    show ?thesis
      unfolding still_waited_def
      by (rule bexI [OF _ u(1)], cases "u = t") (use u gs in \<open>auto simp: end_task_def\<close>)
  qed
  have "waited_behind ?s w (Done_Callback t # ?gs)"
    using left gs by (auto simp: still_waited_def)
  then have "waited_behind ?s w (br_queue ?s)"
    unfolding q by (intro waited_transfer [where s = s and w = w] carried) (use w in \<open>auto simp: wait_sound_def\<close>)
  moreover have "br_progress ?s u = In_Progress \<or> Gather_Callback (dw_id w) u \<in> set (br_queue ?s)" if "u \<in> dw_left w" for u
    using w that gs unfolding q by (cases "u = t") (auto simp: wait_sound_def end_task_def)
  ultimately show ?thesis using w by (auto simp: wait_sound_def end_task_def)
qed

lemma sound_own_callback:
  assumes "wait_sound s w" "br_queue s = Done_Callback t # q"
  shows "wait_sound (on_done t (s\<lparr>br_queue := q\<rparr>)) w"
proof -
  let ?s = "on_done t (s\<lparr>br_queue := q\<rparr>)"
  have s: "br_progress ?s = br_progress s" "br_queue ?s = q" "br_tasks ?s = br_tasks s - {t}"
    "br_next ?s = br_next s" "br_gathered ?s = br_gathered s"
    by (simp_all add: on_done_def Let_def split: progress.split outcome.split)
  have "waited_behind ?s w q"
    by (rule waited_same [of s w]) (use assms in \<open>auto simp: wait_sound_def still_waited_def s\<close>)
  then show ?thesis using assms by (auto simp: wait_sound_def s)
qed

lemma sound_gather_callback:
  assumes "drains_cover s" "w \<in> set (br_drains s)" "br_queue s = Gather_Callback d t # q"
  shows "wait_sound (gather_counts d t (s\<lparr>br_queue := q\<rparr>)) (if dw_id w = d then w\<lparr>dw_left := dw_left w - {t}\<rparr> else w)"
    (is "wait_sound ?s ?w")
proof -
  have w: "wait_sound s w" using assms(1,2) by (simp add: drains_cover_def)
  have s: "br_progress ?s = br_progress s" "br_queue ?s = q" "br_tasks ?s = br_tasks s"
    "br_next ?s = br_next s" "br_gathered ?s = br_gathered s"
    by (simp_all add: gather_counts_def)
  have once: "Gather_Callback d t \<notin> set q" and ended: "\<exists>r. br_progress s t = Ended r"
    using assms(1,3) by (auto simp: drains_cover_def)
  have other: "dw_id w = d \<Longrightarrow> u \<noteq> t"
    if "br_progress s u = In_Progress \<or> Gather_Callback (dw_id w) u \<in> set r" "set r \<subseteq> set q" for u r
    using that once ended by auto
  have "waited_behind ?s ?w q"
    by (rule waited_same [of s w]) (use w assms(3) other in \<open>auto simp: wait_sound_def still_waited_def s\<close>)
  then show ?thesis using w assms(3) ended by (auto simp: wait_sound_def s)
qed

lemma sound_started:
  assumes "tracked_exactly s" "drains_cover s" "w \<in> set (br_drains (start_drain s))"
  shows "wait_sound (start_drain s) w"
proof (cases "w \<in> set (br_drains s)")
  case True
  then have "wait_sound s w" using assms(2) by (simp add: drains_cover_def)
  then show ?thesis by (rule wait_sound_same) (simp_all add: start_drain_def Let_def)
next
  case False
  let ?left = "{t \<in> br_tasks s. br_progress s t = In_Progress}"
  from False assms(3) have w: "w = \<lparr>dw_id = br_gathered s, dw_tasks = br_tasks s, dw_left = ?left, dw_late = False\<rparr>"
    and left: "?left \<noteq> {}" and s: "start_drain s = s\<lparr>br_drains := br_drains s @ [w], br_gathered := Suc (br_gathered s)\<rparr>"
    by (auto simp: start_drain_def Let_def split: if_splits)
  have "still_waited (start_drain s) w q" for q using left by (auto simp: still_waited_def s w)
  then have "waited_behind (start_drain s) w q" for q by (induction q rule: waited_behind.induct [of _ s w]) auto
  then show ?thesis using tracked_bounded [OF assms(1)] by (auto simp: wait_sound_def s) (auto simp: w)
qed

lemma started_drains:
  "br_drains (start_drain s) = br_drains s \<or>
    (\<exists>w. br_drains (start_drain s) = br_drains s @ [w] \<and> dw_id w = br_gathered s)"
  by (simp add: start_drain_def Let_def)

lemma drains_started:
  assumes "tracked_exactly s" "drains_cover s"
  shows "drains_cover (start_drain s)"
proof -
  have rest: "br_queue (start_drain s) = br_queue s" "br_progress (start_drain s) = br_progress s"
    "br_gathered s \<le> br_gathered (start_drain s)"
    by (simp_all add: start_drain_def Let_def)
  have "\<forall>w \<in> set (br_drains s). dw_id w < br_gathered s"
    using assms(2) by (simp add: drains_cover_def wait_sound_def)
  then have "distinct (map dw_id (br_drains (start_drain s)))"
    using assms(2) started_drains [of s] by (fastforce simp: drains_cover_def)
  then show ?thesis
    using assms sound_started [OF assms] rest(3) unfolding drains_cover_def rest by (meson order.strict_trans2)
qed

lemma drains_asked: "drains_cover s \<Longrightarrow> drains_cover (ask_cancel ts s)"
proof -
  have "wait_sound (ask_cancel ts s) w" if "wait_sound s w" for w
    using that by (rule wait_sound_same) (simp_all add: ask_cancel_def)
  then show "drains_cover s \<Longrightarrow> drains_cover (ask_cancel ts s)"
    unfolding drains_cover_def by (simp add: ask_cancel_def)
qed

lemma tracked_asked: "tracked_exactly s \<Longrightarrow> tracked_exactly (ask_cancel ts s)"
  by (simp add: tracked_exactly_def ask_cancel_def br_ready_def)

lemma drains_step: "runner_step s s' \<Longrightarrow> tracked_exactly s \<Longrightarrow> drains_cover s \<Longrightarrow> drains_cover s'"
proof (induction rule: runner_step.induct)
  case (create s n)
  have "br_progress s (br_next s) = Unborn" using create(1) by (auto simp: tracked_exactly_def)
  then have "\<not> Gather_Callback d (br_next s) \<in> set (br_queue s)" for d
    using create(2) unfolding drains_cover_def by (metis progress.distinct(3))
  then show ?case using create(2) sound_created [OF create(1)] unfolding drains_cover_def
    by (auto simp: create_task_def)
next
  case (finish s t out)
  let ?gs = "map (\<lambda>v. Gather_Callback (dw_id v) t) (filter (\<lambda>v. t \<in> dw_left v) (br_drains s))"
  have ids: "distinct (map dw_id (filter (\<lambda>v. t \<in> dw_left v) (br_drains s)))"
    using finish(3) by (simp add: drains_cover_def distinct_map_filter)
  then have "distinct ?gs" by (simp add: distinct_map inj_on_def)
  moreover have "Done_Callback t \<notin> set (br_queue s)"
  proof
    assume "Done_Callback t \<in> set (br_queue s)"
    then have "t \<in> set (br_ready s)" by (simp add: br_ready_def)
    then show False using finish(1,2) by (auto simp: tracked_exactly_def)
  qed
  moreover have "Gather_Callback d t \<notin> set (br_queue s)" for d
    using finish(1,3) unfolding drains_cover_def by (metis progress.distinct(5))
  moreover have "v \<in> set (br_drains s) \<Longrightarrow> dw_id v < br_gathered s" for v
    using finish(3) by (auto simp: drains_cover_def wait_sound_def)
  ultimately show ?case
    using finish(3) sound_ended [OF finish(3) _ finish(1)]
    by (auto simp: drains_cover_def) (auto simp: end_task_def)
next
  case (call_back s c q)
  show ?case
  proof (cases c)
    case (Done_Callback t)
    have "br_progress (on_done t (s\<lparr>br_queue := q\<rparr>)) = br_progress s" "br_drains (on_done t (s\<lparr>br_queue := q\<rparr>)) = br_drains s"
      "br_queue (on_done t (s\<lparr>br_queue := q\<rparr>)) = q" "br_gathered (on_done t (s\<lparr>br_queue := q\<rparr>)) = br_gathered s"
      by (simp_all add: on_done_def Let_def split: progress.split outcome.split)
    then show ?thesis
      using call_back Done_Callback sound_own_callback [of s _ t q] by (auto simp: drains_cover_def)
  next
    case (Gather_Callback d t)
    let ?s = "gather_counts d t (s\<lparr>br_queue := q\<rparr>)"
    have rest: "br_queue ?s = q" "br_progress ?s = br_progress s" "br_gathered ?s = br_gathered s"
      "map dw_id (br_drains ?s) = map dw_id (br_drains s)"
      by (simp_all add: gather_counts_def)
    have "br_drains ?s = map (\<lambda>w. if dw_id w = d then w\<lparr>dw_left := dw_left w - {t}\<rparr> else w) (br_drains s)"
      by (simp add: gather_counts_def)
    moreover note sound_gather_callback [OF call_back(3) _ call_back(1) [unfolded Gather_Callback]]
    ultimately have "wait_sound ?s w" if "w \<in> set (br_drains ?s)" for w
      using that by (metis (no_types, lifting) imageE list.set_map)
    then show ?thesis
      unfolding Gather_Callback run_callback.simps drains_cover_def rest
      using call_back(1,3) by (auto simp: drains_cover_def)
  qed
next
  case (drain s)
  then show ?case by (rule drains_started)
next
  case (cancel s)
  then show ?case unfolding cancel_and_drain_def by (intro drains_started tracked_asked drains_asked)
next
  case (time_out s ds w es)
  let ?s = "s\<lparr>br_drains := ds @ w\<lparr>dw_late := True\<rparr> # es\<rparr>"
  have "wait_sound ?s (w\<lparr>dw_late := True\<rparr>)"
    by (rule wait_sound_same [of s w]) (use time_out(1,4) in \<open>auto simp: drains_cover_def\<close>)
  moreover have "wait_sound ?s v" if "v \<in> set (ds @ es)" for v
    by (rule wait_sound_same [of s v]) (use that time_out(1,4) in \<open>auto simp: drains_cover_def\<close>)
  ultimately have "wait_sound ?s v" if "v \<in> set (br_drains ?s)" for v
    using that by auto
  then have "drains_cover ?s" using time_out(1,4) by (auto simp: drains_cover_def)
  then show ?case by (rule drains_asked)
next
  case (drained s ds w es)
  let ?s = "end_drain (dw_late w) (s\<lparr>br_drains := ds @ es\<rparr>)"
  have rest: "br_queue ?s = br_queue s" "br_progress ?s = br_progress s" "br_gathered ?s = br_gathered s"
    "br_drains ?s = ds @ es" "br_next ?s = br_next s" "br_tasks ?s = br_tasks s"
    by (simp_all add: end_drain_def)
  have "wait_sound ?s v" if "v \<in> set (ds @ es)" for v
    by (rule wait_sound_same [of s v]) (use that drained(1,4) in \<open>auto simp: drains_cover_def rest\<close>)
  then show ?case using drained(1,4) unfolding drains_cover_def rest by auto
qed

lemma runner_invariant:
  "runner_reachable c s \<Longrightarrow> tracked_exactly s \<and> failures_logged s \<and> drains_cover s \<and> br_component s = c"
proof (induction rule: runner_reachable.induct)
  case start
  show ?case using tracked_start [of c] failures_start [of c] drains_start [of c] by (simp add: new_runner_def)
next
  case (step s s')
  have "br_component (run_callback k t) = br_component t" for k t
    by (cases k) (simp_all add: runner_defs Let_def split: progress.split outcome.split)
  with step(2) have "br_component s' = br_component s"
    by (cases rule: runner_step.cases) (simp_all add: runner_defs Let_def)
  with step show ?case using tracked_step failures_step drains_step by blast
qed

lemma none_waited_behind: "waited_behind s w q \<Longrightarrow> dw_left w = {} \<Longrightarrow> t \<in> dw_tasks w \<Longrightarrow> Done_Callback t \<notin> set q"
  by (induction s w q rule: waited_behind.induct) (auto simp: still_waited_def)

text \<open>A drain that times out on a task which then fails.\<close>

definition late_state :: "nat set \<Rightarrow> log_line list \<Rightarrow> progress \<Rightarrow> callback list \<Rightarrow> nat set \<Rightarrow> drain_wait list \<Rightarrow> nat \<Rightarrow> runner" where
  "late_state tasks lines p queue asked drains n =
     \<lparr>br_component = ''memory'', br_tasks = tasks, br_log = lines, br_next = 1, br_name = (\<lambda>_. [])(0 := ''memory:job''),
      br_progress = (\<lambda>_. Unborn)(0 := p), br_queue = queue, br_cancel_asked = asked, br_drains = drains, br_gathered = n\<rparr>"

definition late_wait :: "nat set \<Rightarrow> bool \<Rightarrow> drain_wait" where
  "late_wait left late = \<lparr>dw_id = 0, dw_tasks = {0}, dw_left = left, dw_late = late\<rparr>"

definition late_drain :: runner where
  "late_drain =
     late_state {} [Task_Failed ''memory'' ''memory:job'' ''boom''] (Ended (Threw ''boom'')) [] {0} [late_wait {} True] 1"

lemma late_drain_reachable: "runner_reachable ''memory'' late_drain"
proof -
  let ?ended = "Ended (Threw ''boom'')" and ?line = "Task_Failed ''memory'' ''memory:job'' ''boom''"
  let ?a = "late_state {0} [] In_Progress [] {} [] 0" and ?b = "late_state {0} [] In_Progress [] {} [late_wait {0} False] 1"
  let ?c = "late_state {0} [] In_Progress [] {0} [late_wait {0} True] 1"
  let ?d = "late_state {0} [] ?ended [Done_Callback 0, Gather_Callback 0 0] {0} [late_wait {0} True] 1"
  let ?e = "late_state {} [?line] ?ended [Gather_Callback 0 0] {0} [late_wait {0} True] 1"
  have s1: "create_task ''job'' (new_runner ''memory'') = ?a"
    by (simp add: create_task_def new_runner_def late_state_def task_name_def)
  have "{t \<in> {0}. ((\<lambda>_. Unborn)(0 := In_Progress)) t = In_Progress} = {0::nat}" by auto
  then have s2: "start_drain ?a = ?b"
    by (simp add: start_drain_def late_state_def late_wait_def Let_def)
  have s3: "runner_step ?b ?c"
    using runner_step.time_out [of ?b "[]" "late_wait {0} False" "[]"]
    by (simp add: late_state_def late_wait_def ask_cancel_def set_eq_iff cong: conj_cong)
  have s4: "runner_step ?c ?d"
    using runner_step.finish [of ?c 0 "Threw ''boom''"]
    by (simp add: late_state_def late_wait_def end_task_def)
  have s5: "runner_step ?d ?e"
    using runner_step.call_back [of ?d "Done_Callback 0" "[Gather_Callback 0 0]"]
    by (simp add: late_state_def on_done_def Let_def)
  have s6: "runner_step ?e late_drain"
    using runner_step.call_back [of ?e "Gather_Callback 0 0" "[]"]
    by (simp add: late_state_def late_wait_def late_drain_def gather_counts_def)
  have "runner_reachable ''memory'' (create_task ''job'' (new_runner ''memory''))"
    by (rule runner_reachable.step [OF runner_reachable.start runner_step.create])
  then have "runner_reachable ''memory'' ?b"
    unfolding s1 s2 [symmetric] by (rule runner_reachable.step) (rule runner_step.drain)
  with s3 s4 s5 s6 show ?thesis by (blast intro: runner_reachable.step)
qed

lemma late_drain_state:
  "late_wait {} True \<in> set (br_drains late_drain)" "dw_left (late_wait {} True) = {}" "dw_tasks (late_wait {} True) = {0}"
  "dw_late (late_wait {} True)" "br_queue late_drain = []" "br_tasks late_drain = {}" 
  "br_progress late_drain 0 = Ended (Threw ''boom'')"
  "br_log late_drain = [Task_Failed ''memory'' ''memory:job'' ''boom'']"
  by (simp_all add: late_drain_def late_state_def late_wait_def)

subsection \<open>Properties\<close>

text \<open>
  C11. Every failure is reported once and nothing is lost: in every reachable state of a runner the error lines of its
  log are, each exactly once, those of the failed tasks whose callback has run, under the runner's name for them, and
  the runner counts as pending exactly the tasks still running and those ended whose callback is queued.
\<close>

theorem failures_reported_once:
  assumes "runner_reachable c s"
  shows "filter_mset is_failure (mset (br_log s)) = image_mset (failure_line s) (mset_set (settled_failures s))
    \<and> pending_count s = card {t. br_progress s t = In_Progress} + length (br_ready s)"
proof -
  have inv: "tracked_exactly s" "failures_logged s" using runner_invariant [OF assms] by simp_all
  have "finite {t. br_progress s t = In_Progress}"
    by (rule finite_subset [of _ "{..<br_next s}"])
      (use inv(1) tracked_bounded [OF inv(1)] in \<open>auto simp: tracked_exactly_def\<close>)
  moreover have "{t. br_progress s t = In_Progress} \<inter> set (br_ready s) = {}"
    using inv(1) by (auto simp: tracked_exactly_def)
  ultimately show ?thesis
    using inv by (simp add: failures_logged_def pending_count_def tracked_exactly_def card_Un_disjoint distinct_card)
qed

lemma failures_reported_once_witness:
  "filter_mset is_failure (mset (br_log late_drain)) = image_mset (failure_line late_drain) (mset_set (settled_failures late_drain))
   \<and> pending_count late_drain = card {t. br_progress late_drain t = In_Progress} + length (br_ready late_drain)"
  by (rule failures_reported_once [OF late_drain_reachable])

text \<open>
  C27. A drain leaves nothing behind. Once the gathering a drain waits for is complete, in time or not, every task it
  gathered has ended, its failure, if any, has been reported and the runner no longer tracks it; so the pending count
  in the warning of a late drain is that of the tasks created after it began. And the wait does not outlast its tasks:
  once all of them have ended and the loop has run the queued callbacks, the gathering is complete. (A drain that finds
  only ended tasks does not wait at all.)
\<close>

theorem drain_waits_for_all:
  assumes "runner_reachable c s" "w \<in> set (br_drains s)"
  shows "(dw_left w = {} \<longrightarrow>
      (\<forall>t \<in> dw_tasks w. (\<exists>r. br_progress s t = Ended r) \<and> t \<notin> set (br_ready s) \<and> t \<notin> br_tasks s
        \<and> (failed_task s t \<longrightarrow> failure_line s t \<in> set (br_log s)))
      \<and> br_log (end_drain (dw_late w) s) =
          br_log s @ (if dw_late w then [Drain_Timed_Out c (card {t \<in> br_tasks s. \<forall>u \<in> dw_tasks w. u < t})] else []))
    \<and> ((\<forall>t \<in> dw_tasks w. \<exists>r. br_progress s t = Ended r) \<and> br_queue s = [] \<longrightarrow> dw_left w = {})"
proof -
  have inv: "tracked_exactly s" "failures_logged s" "drains_cover s" "br_component s = c"
    using runner_invariant [OF assms(1)] by simp_all
  have w: "wait_sound s w" using inv(3) assms(2) by (simp add: drains_cover_def)
  have gone: "(\<exists>r. br_progress s t = Ended r) \<and> t \<notin> set (br_ready s) \<and> t \<notin> br_tasks s \<and> t < br_next s"
    if t: "t \<in> dw_tasks w" "dw_left w = {}" for t
  proof -
    have "t < br_next s" "br_progress s t \<noteq> In_Progress" "Done_Callback t \<notin> set (br_queue s)"
      using w t none_waited_behind [of s w "br_queue s" t] by (auto simp: wait_sound_def)
    then show ?thesis
      using inv(1) by (cases "br_progress s t") (auto simp: tracked_exactly_def br_ready_def not_le [symmetric])
  qed
  have told: "failure_line s t \<in> set (br_log s)" if "t \<in> settled_failures s" for t
  proof -
    have "failure_line s t \<in># filter_mset is_failure (mset (br_log s))"
      using inv(2) that by (auto simp: failures_logged_def)
    then show ?thesis by simp
  qed
  have "{t \<in> br_tasks s. \<forall>u \<in> dw_tasks w. u < t} = br_tasks s" if "dw_left w = {}"
    using w gone that by (auto simp: wait_sound_def)
  moreover have "dw_left w = {}" if "\<forall>t \<in> dw_tasks w. \<exists>r. br_progress s t = Ended r" "br_queue s = []"
    using that w by (force simp: wait_sound_def)
  ultimately show ?thesis
    using gone told inv(4) by (auto simp: end_drain_def pending_count_def settled_failures_def)
qed

lemma drain_waits_for_all_witness:
  "failure_line late_drain 0 \<in> set (br_log late_drain)
   \<and> br_log (end_drain True late_drain) =
       [Task_Failed ''memory'' ''memory:job'' ''boom'', Drain_Timed_Out ''memory'' (card {t \<in> br_tasks late_drain. 0 < t})]"
  using drain_waits_for_all [OF late_drain_reachable late_drain_state(1)]
  by (simp add: late_drain_state failed_task_def)

end
