(* ===== verification/Tool_Transcript.thy ===== *)
theory Tool_Transcript
  imports Sse "HOL-Library.Multiset" "HOL-Library.List_Lexorder" "HOL-Library.Char_ord"
begin

text \<open>
  The OpenAI-compatible message helpers of \<open>integrations/llm/openai_messages.py\<close>: rendering tool calls and checking
  that the calls and results of a transcript belong together. Messages and calls are JSON objects; an object with
  attributes reads like the mapping of its attributes. \<open>str\<close> of an id that is no text is the parameter \<open>render\<close>.
\<close>

subsection \<open>Rendering\<close>

definition tool_call_value :: "json_object \<Rightarrow> string \<Rightarrow> json \<Rightarrow> json" where
  "tool_call_value call k d = (case map_of call k of None \<Rightarrow> d | Some v \<Rightarrow> v)"

definition render_openai_tool_calls :: "(rat \<Rightarrow> string) \<Rightarrow> json_object list \<Rightarrow> json list" where
  "render_openai_tool_calls ft calls =
     map (\<lambda>call. JObj
       [(''id'', tool_call_value call ''id'' JNull), (''type'', JStr ''function''),
        (''function'', JObj
          [(''name'', tool_call_value call ''name'' JNull),
           (''arguments'', JStr (spaced_json ft (tool_call_value call ''arguments'' (JObj []))))])]) calls"

subsection \<open>Checking a transcript\<close>

text \<open>\<open>Not_Iterable\<close> is the TypeError of looping over a number.\<close>

datatype transcript_error =
    Call_Without_Id nat
  | Result_Without_Call nat
  | Calls_Without_Result "string list"
  | Not_Iterable

definition call_id_of :: "json \<Rightarrow> json option" where
  "call_id_of call = (case call of JObj kvs \<Rightarrow> present kvs ''id'' | _ \<Rightarrow> None)"

fun add_calls :: "(json \<Rightarrow> string) \<Rightarrow> nat \<Rightarrow> string set \<Rightarrow> json list \<Rightarrow> transcript_error + string set" where
  "add_calls render n pending [] = Inr pending"
| "add_calls render n pending (call # calls) =
     (case call_id_of call of
        None \<Rightarrow> Inl (Call_Without_Id n)
      | Some i \<Rightarrow>
          if truthy i then add_calls render n (insert (text_of render i) pending) calls else Inl (Call_Without_Id n))"

definition check_message :: "(json \<Rightarrow> string) \<Rightarrow> nat \<Rightarrow> string set \<Rightarrow> json_object \<Rightarrow> transcript_error + string set" where
  "check_message render n pending m =
     (if map_of m ''role'' = Some (JStr ''assistant'') then
        (case map_of m ''tool_calls'' of
           None \<Rightarrow> Inr pending
         | Some v \<Rightarrow> if truthy v then and_then (or_raise Not_Iterable (iterate v)) (add_calls render n pending) else Inr pending)
      else if map_of m ''role'' = Some (JStr ''tool'') then
        (case map_of m ''tool_call_id'' of
           None \<Rightarrow> Inl (Result_Without_Call n)
         | Some i \<Rightarrow>
             if truthy i \<and> text_of render i \<in> pending then Inr (pending - {text_of render i})
             else Inl (Result_Without_Call n))
      else Inr pending)"

fun check_messages :: "(json \<Rightarrow> string) \<Rightarrow> nat \<Rightarrow> string set \<Rightarrow> json_object list \<Rightarrow> transcript_error + unit" where
  "check_messages render n pending [] =
     guarded [(pending \<noteq> {}, Calls_Without_Result (sorted_list_of_set pending))] ()"
| "check_messages render n pending (m # ms) =
     and_then (check_message render n pending m) (\<lambda>p. check_messages render (Suc n) p ms)"

definition validate_openai_tool_transcript :: "(json \<Rightarrow> string) \<Rightarrow> json_object list \<Rightarrow> transcript_error + unit" where
  "validate_openai_tool_transcript render ms = check_messages render 0 {} ms"

subsection \<open>What a transcript means\<close>

text \<open>A transcript as the sequence of its calls and results, when every one of them names an id.\<close>

datatype tool_event = Called string | Resulted string

fun call_events :: "(json \<Rightarrow> string) \<Rightarrow> json list \<Rightarrow> tool_event list option" where
  "call_events render [] = Some []"
| "call_events render (call # calls) =
     (case call_id_of call of
        None \<Rightarrow> None
      | Some i \<Rightarrow> if truthy i then map_option (Cons (Called (text_of render i))) (call_events render calls) else None)"

definition message_events :: "(json \<Rightarrow> string) \<Rightarrow> json_object \<Rightarrow> tool_event list option" where
  "message_events render m =
     (if map_of m ''role'' = Some (JStr ''assistant'') then
        (case map_of m ''tool_calls'' of
           None \<Rightarrow> Some []
         | Some v \<Rightarrow> if truthy v then Option.bind (iterate v) (call_events render) else Some [])
      else if map_of m ''role'' = Some (JStr ''tool'') then
        (case map_of m ''tool_call_id'' of
           None \<Rightarrow> None
         | Some i \<Rightarrow> if truthy i then Some [Resulted (text_of render i)] else None)
      else Some [])"

fun transcript_events :: "(json \<Rightarrow> string) \<Rightarrow> json_object list \<Rightarrow> tool_event list option" where
  "transcript_events render [] = Some []"
| "transcript_events render (m # ms) =
     Option.bind (message_events render m) (\<lambda>es. map_option (append es) (transcript_events render ms))"

text \<open>
  Calls and results belong together, with the calls of \<open>ids\<close> open before the sequence: every result answers a call
  before it that no result in between has answered, and every call is answered.
\<close>

definition answered_from :: "string set \<Rightarrow> tool_event list \<Rightarrow> bool" where
  "answered_from ids es \<longleftrightarrow>
     (\<forall>xs i ys. es = xs @ Resulted i # ys \<longrightarrow>
        (\<exists>us vs. xs = us @ Called i # vs \<and> Resulted i \<notin> set vs) \<or> (i \<in> ids \<and> Resulted i \<notin> set xs))
     \<and> (\<forall>xs i ys. es = xs @ Called i # ys \<longrightarrow> Resulted i \<in> set ys)
     \<and> (\<forall>i \<in> ids. Resulted i \<in> set es)"

definition answered :: "tool_event list \<Rightarrow> bool" where
  "answered es \<longleftrightarrow> answered_from {} es"

text \<open>The loop over events.\<close>

fun event_loop :: "string set \<Rightarrow> tool_event list \<Rightarrow> bool" where
  "event_loop ids [] = (ids = {})"
| "event_loop ids (Called i # es) = event_loop (insert i ids) es"
| "event_loop ids (Resulted i # es) = (i \<in> ids \<and> event_loop (ids - {i}) es)"

lemma answered_from_Nil: "answered_from ids [] \<longleftrightarrow> ids = {}"
  by (auto simp: answered_from_def)

lemma all_splits_Cons:
  "(\<forall>xs i ys. x # es = xs @ y i # ys \<longrightarrow> P xs i ys) \<longleftrightarrow>
     (\<forall>i. x = y i \<longrightarrow> P [] i es) \<and> (\<forall>xs i ys. es = xs @ y i # ys \<longrightarrow> P (x # xs) i ys)"
  by (auto simp: Cons_eq_append_conv)

lemma ex_split_Cons:
  "(\<exists>us vs. x # xs = us @ c # vs \<and> Q vs) \<longleftrightarrow> (x = c \<and> Q xs) \<or> (\<exists>us vs. xs = us @ c # vs \<and> Q vs)"
  by (auto simp: Cons_eq_append_conv)

lemma answered_from_Called: "answered_from ids (Called i # es) \<longleftrightarrow> answered_from (insert i ids) es"
  unfolding answered_from_def all_splits_Cons ex_split_Cons by auto

lemma answered_from_Resulted: "answered_from ids (Resulted i # es) \<longleftrightarrow> i \<in> ids \<and> answered_from (ids - {i}) es"
  unfolding answered_from_def all_splits_Cons ex_split_Cons by auto

lemma event_loop_answered: "event_loop ids es \<longleftrightarrow> answered_from ids es"
  by (induction ids es rule: event_loop.induct) (simp_all add: answered_from_Nil answered_from_Called answered_from_Resulted)

lemma event_loop_calls: "event_loop ids (map Called is @ es) \<longleftrightarrow> event_loop (ids \<union> set is) es"
  by (induction "is" arbitrary: ids) simp_all

lemma call_events_add:
  "case call_events render calls of
     None \<Rightarrow> \<exists>e. add_calls render n p calls = Inl e
   | Some es \<Rightarrow> \<exists>is. es = map Called is \<and> add_calls render n p calls = Inr (p \<union> set is)"
proof (induction calls arbitrary: p)
  case (Cons call calls)
  show ?case
  proof (cases "call_id_of call")
    case (Some i)
    then show ?thesis
      using Cons.IH [of "insert (text_of render i) p"]
      by (cases "call_events render calls") (auto intro!: exI [of _ "text_of render i # _"])
  qed simp
qed simp

lemma message_events_check:
  "case message_events render m of
     None \<Rightarrow> \<exists>e. check_message render n p m = Inl e
   | Some es \<Rightarrow>
       (case check_message render n p m of
          Inl e \<Rightarrow> \<forall>rest. \<not> event_loop p (es @ rest)
        | Inr q \<Rightarrow> \<forall>rest. event_loop p (es @ rest) \<longleftrightarrow> event_loop q rest)"
proof (cases "map_of m ''role'' = Some (JStr ''assistant'')")
  case True
  show ?thesis
  proof (cases "map_of m ''tool_calls''")
    case (Some v)
    show ?thesis
    proof (cases "truthy v")
      case t: True
      show ?thesis
      proof (cases "iterate v")
        case it: (Some calls)
        from call_events_add [of render n p calls] show ?thesis using True Some t it
          by (cases "call_events render calls") (auto simp: message_events_def check_message_def event_loop_calls)
      qed (use True Some t in \<open>simp add: message_events_def check_message_def\<close>)
    qed (use True Some in \<open>simp add: message_events_def check_message_def\<close>)
  qed (use True in \<open>simp add: message_events_def check_message_def\<close>)
next
  case False
  then show ?thesis
    by (cases "map_of m ''tool_call_id''") (auto simp: message_events_def check_message_def)
qed

lemma check_messages_events:
  "check_messages render n p ms = Inr () \<longleftrightarrow> (case transcript_events render ms of None \<Rightarrow> False | Some es \<Rightarrow> event_loop p es)"
proof (induction ms arbitrary: n p)
  case Nil
  show ?case by (simp add: guarded_simps)
next
  case (Cons m ms)
  from message_events_check [of render n p m] Cons.IH [of "Suc n"] show ?case
    by (cases "message_events render m"; cases "transcript_events render ms"; cases "check_message render n p m") auto
qed

subsection \<open>Properties\<close>

text \<open>
  C15. The check decides what it means: a transcript is accepted exactly when every call and every result names an id
  and, over the whole sequence, every result answers an open call before it and every call is answered.
\<close>

theorem transcript_valid_iff:
  "validate_openai_tool_transcript render ms = Inr () \<longleftrightarrow>
     (case transcript_events render ms of None \<Rightarrow> False | Some es \<Rightarrow> answered es)"
  by (simp add: validate_openai_tool_transcript_def check_messages_events event_loop_answered answered_def split: option.split)

definition assistant_turn :: "(rat \<Rightarrow> string) \<Rightarrow> json_object list \<Rightarrow> json_object" where
  "assistant_turn ft calls = [(''role'', JStr ''assistant''), (''tool_calls'', JArr (render_openai_tool_calls ft calls))]"

definition tool_result :: "string \<Rightarrow> json_object" where
  "tool_result i = [(''role'', JStr ''tool''), (''tool_call_id'', JStr i)]"

lemma rendered_events:
  "list_all (\<lambda>i. i \<noteq> []) is \<Longrightarrow> list_all2 (\<lambda>call i. map_of call ''id'' = Some (JStr i)) calls is
     \<Longrightarrow> call_events render (render_openai_tool_calls ft calls) = Some (map Called is)"
  by (induction calls "is" rule: list_induct2')
    (simp_all add: render_openai_tool_calls_def call_id_of_def tool_call_value_def present_def text_of_def)

lemma result_events: "list_all (\<lambda>i. i \<noteq> []) is \<Longrightarrow> transcript_events render (map tool_result is) = Some (map Resulted is)"
  by (induction "is") (simp_all add: message_events_def tool_result_def text_of_def)

lemma results_close: "distinct is \<Longrightarrow> event_loop (set is) (map Resulted is)"
  by (induction "is") (auto simp: insert_Diff_if)

text \<open>
  A rendered turn passes: when every call of a turn has an id of its own, the turn rendered for the model followed
  by one result for each call, in any order, is a valid transcript.
\<close>

theorem rendered_turn_valid:
  assumes "list_all2 (\<lambda>call i. map_of call ''id'' = Some (JStr i)) calls is" "list_all (\<lambda>i. i \<noteq> []) is"
    and "distinct is" "mset rs = mset is"
  shows "validate_openai_tool_transcript render (assistant_turn ft calls # map tool_result rs) = Inr ()"
proof -
  have rs: "set rs = set is" "distinct rs" "list_all (\<lambda>i. i \<noteq> []) rs"
    using assms(2-4) mset_eq_setD [OF assms(4)] mset_eq_imp_distinct_iff [OF assms(4)] by (auto simp: list_all_iff)
  have "message_events render (assistant_turn ft calls) = Some (map Called is)"
    using rendered_events [OF assms(2,1)] assms(1)
    by (cases calls) (auto simp: message_events_def assistant_turn_def render_openai_tool_calls_def)
  then show ?thesis
    using results_close [OF rs(2)] rs
    by (simp add: validate_openai_tool_transcript_def check_messages_events result_events event_loop_calls del: check_messages.simps)
qed

lemma rendered_turn_valid_witness:
  "validate_openai_tool_transcript (\<lambda>_. [])
     (assistant_turn (\<lambda>_. []) [[(''id'', JStr ''a'')], [(''id'', JStr ''b'')]] # map tool_result [''b'', ''a'']) = Inr ()"
  by (rule rendered_turn_valid [of _ "[''a'', ''b'']"]) simp_all

text \<open>
  Two calls of one id are settled by one result, and a second result for it is refused.
\<close>

lemma shared_id_answered_once:
  "validate_openai_tool_transcript render
     [[(''role'', JStr ''assistant''), (''tool_calls'', JArr [JObj [(''id'', JStr ''a'')], JObj [(''id'', JStr ''a'')]])],
      tool_result ''a''] = Inr ()"
  "validate_openai_tool_transcript render
     [[(''role'', JStr ''assistant''), (''tool_calls'', JArr [JObj [(''id'', JStr ''a'')], JObj [(''id'', JStr ''a'')]])],
      tool_result ''a'', tool_result ''a''] = Inl (Result_Without_Call 2)"
  by (simp_all add: validate_openai_tool_transcript_def check_message_def tool_result_def call_id_of_def present_def
      text_of_def guarded_simps)

end
