(* ===== verification/Service_Clients.thy ===== *)
theory Service_Clients
  imports Http_Client Sse
begin

text \<open>
  The clients of the runtime authority and of the admin service, \<open>biz/system_data\<close> and \<open>biz/admin/client.py\<close>, on top
  of the shared HTTP client: the paths they ask for, how an answer becomes a value or an error, and the typed view of
  a runtime snapshot. Decoding JSON text (\<open>loads\<close>) and pydantic's lax reading of an integer (\<open>lax_int\<close>) are parameters;
  a body stands for its text.
\<close>

subsection \<open>Paths\<close>

text \<open>\<open>urllib.parse.quote(value, safe="")\<close>.\<close>

definition unreserved :: "char \<Rightarrow> bool" where
  "unreserved c \<longleftrightarrow> is_ascii_alnum c \<or> c \<in> set ''_.-~''"

definition quote_byte :: "byte \<Rightarrow> string" where
  "quote_byte b =
     (let c = char_of (unat b) in if unreserved c then [c] else CHR ''%'' # upper (hexdigest [b]))"

definition quote :: "string \<Rightarrow> string" where
  "quote s = concat (map quote_byte (utf8 s))"

definition companion_runtime_path :: "string \<Rightarrow> string" where
  "companion_runtime_path c = ''/api/companion-authority/v1/companions/'' @ quote c @ ''/runtime-snapshot''"

definition owner_default_runtime_path :: "string \<Rightarrow> string" where
  "owner_default_runtime_path w = ''/api/companion-authority/v1/owners/'' @ quote w @ ''/default-runtime-snapshot''"

definition companion_face_path :: "string \<Rightarrow> string" where
  "companion_face_path c = ''/api/companion-authority/v1/companions/'' @ quote c @ ''/face''"

definition admin_owner_path :: "string \<Rightarrow> string" where
  "admin_owner_path w = ''/api/owners/'' @ quote w"

definition resolve_owner_path :: "string \<Rightarrow> string" where
  "resolve_owner_path w = ''/api/resolve/owner/'' @ quote w"

definition resolve_device_path :: "string \<Rightarrow> string" where
  "resolve_device_path d = ''/api/resolve/device/'' @ quote d"

subsection \<open>Errors\<close>

datatype client_error =
    Not_Found string
  | Precondition int string
  | Upstream int string
  | Unreached string
  | Contract_Broken
  | Client_Raised string

text \<open>\<open>json.dumps(detail)\<close>, everything outside printable ASCII escaped.\<close>

definition ascii_char :: "char \<Rightarrow> string" where
  "ascii_char c = (if 127 \<le> (of_char c :: nat) then CHR 0x5C # CHR ''u'' # hex4 (of_char c) else escape_char c)"

definition ascii_text :: "string \<Rightarrow> string" where
  "ascii_text s = CHR 0x22 # concat (map ascii_char s) @ [CHR 0x22]"

fun ascii_json :: "(rat \<Rightarrow> string) \<Rightarrow> json \<Rightarrow> string" where
  "ascii_json ft (JArr vs) = ''['' @ comma_space (map (ascii_json ft) vs) @ '']''"
| "ascii_json ft (JObj kvs) =
     ''{'' @ comma_space (map (\<lambda>kv. ascii_text (fst kv) @ '': '' @ ascii_json ft (snd kv)) kvs) @ ''}''"
| "ascii_json ft (JStr s) = ascii_text s"
| "ascii_json ft v = json_text ft v"

definition unwrap_detail :: "(string \<Rightarrow> json option) \<Rightarrow> (rat \<Rightarrow> string) \<Rightarrow> string \<Rightarrow> string" where
  "unwrap_detail loads ft body =
     (case loads body of
        Some (JObj kvs) \<Rightarrow>
          (case map_of kvs ''detail'' of None \<Rightarrow> body | Some (JStr s) \<Rightarrow> s | Some v \<Rightarrow> ascii_json ft v)
      | _ \<Rightarrow> body)"

definition classify_upstream :: "(string \<Rightarrow> json option) \<Rightarrow> (rat \<Rightarrow> string) \<Rightarrow> int \<Rightarrow> string \<Rightarrow> client_error" where
  "classify_upstream loads ft status body =
     (let m = unwrap_detail loads ft body
      in if status = 404 then Not_Found m
         else if status = 409 \<or> status = 412 then Precondition status m
         else Upstream status m)"

subsection \<open>The system data client\<close>

definition make_system_data_client :: "string \<Rightarrow> string \<Rightarrow> string + service_client" where
  "make_system_data_client base_url token =
     (if strip token = [] then Inl ''System Data service token is required''
      else and_then (authorization_header token ''Bearer'') (\<lambda>h. Inr (make_service_client base_url (Some h) None)))"

type_synonym params = "(string \<times> string) list option"
type_synonym peer = "params http_call \<Rightarrow> nat \<Rightarrow> wire_outcome"

definition system_data_get ::
  "(string \<Rightarrow> json option) \<Rightarrow> (rat \<Rightarrow> string) \<Rightarrow> peer \<Rightarrow> service_client \<Rightarrow> string \<Rightarrow> params \<Rightarrow> int list option
     \<Rightarrow> params http_effect list \<times> (client_error + int \<times> string)" where
  "system_data_get loads ft send client path ps oks =
     (case http_request send client ''GET'' path ps None oks None of
        (es, r) \<Rightarrow> (es, case r of
            Inr answer \<Rightarrow> Inr answer
          | Inl (Upstream_Error status body) \<Rightarrow> Inl (classify_upstream loads ft status body)
          | Inl (Service_Unavailable m) \<Rightarrow> Inl (Unreached m)
          | Inl (Raised m) \<Rightarrow> Inl (Client_Raised m)
          | Inl Unreachable_Retry_State \<Rightarrow> Inl (Client_Raised ''unreachable HTTP retry state'')))"

subsection \<open>Runtime snapshots\<close>

record genome_snapshot =
  gs_genome_id :: string
  gs_version :: int
  gs_schema_version :: string
  gs_genome_hash :: string
  gs_realizer_version :: string
  gs_genome :: json_object

record runtime_snapshot =
  rs_owner_id :: string
  rs_companion_id :: string
  rs_runtime_config :: json_object
  rs_realm_id :: string
  rs_persona_genome :: genome_snapshot

definition object_member :: "json_object \<Rightarrow> string \<Rightarrow> json_object option" where
  "object_member kvs k = (case map_of kvs k of Some (JObj o') \<Rightarrow> Some o' | _ \<Rightarrow> None)"

definition bounded_text :: "nat \<Rightarrow> json_object \<Rightarrow> string \<Rightarrow> string option" where
  "bounded_text n kvs k =
     (case parse_text kvs k of Some s \<Rightarrow> if len_between 1 n s then Some s else None | None \<Rightarrow> None)"

definition read_genome_snapshot :: "(json \<Rightarrow> int option) \<Rightarrow> json_object \<Rightarrow> genome_snapshot option" where
  "read_genome_snapshot lax_int kvs =
     (if \<not> only_keys [''genome_id'', ''version'', ''lifecycle_state'', ''schema_version'', ''genome_hash'',
            ''realizer_version'', ''genome''] kvs
         \<or> map_of kvs ''lifecycle_state'' \<noteq> Some (JStr ''committed'') then None
      else Option.bind (bounded_text 64 kvs ''genome_id'') (\<lambda>g.
           Option.bind (Option.bind (map_of kvs ''version'') lax_int) (\<lambda>v.
           Option.bind (bounded_text 64 kvs ''schema_version'') (\<lambda>sv.
           Option.bind (bounded_text 80 kvs ''genome_hash'') (\<lambda>h.
           Option.bind (bounded_text 64 kvs ''realizer_version'') (\<lambda>r.
           Option.bind (object_member kvs ''genome'') (\<lambda>d.
           if 1 \<le> v then Some \<lparr>gs_genome_id = g, gs_version = v, gs_schema_version = sv, gs_genome_hash = h,
             gs_realizer_version = r, gs_genome = d\<rparr> else None)))))))"

definition read_memory_realm :: "json_object \<Rightarrow> string option" where
  "read_memory_realm kvs =
     (if \<not> only_keys [''realm_id'', ''lifecycle_state''] kvs \<or> map_of kvs ''lifecycle_state'' \<noteq> Some (JStr ''active'') then None
      else bounded_text 64 kvs ''realm_id'')"

definition read_runtime_snapshot :: "(json \<Rightarrow> int option) \<Rightarrow> json \<Rightarrow> runtime_snapshot option" where
  "read_runtime_snapshot lax_int v =
     (case v of
        JObj kvs \<Rightarrow>
          if \<not> only_keys [''contract_version'', ''operation'', ''owner_id'', ''companion_id'', ''lifecycle_state'',
                ''runtime_config'', ''memory_realm'', ''persona_genome''] kvs
             \<or> map_of kvs ''contract_version'' \<noteq> Some (JStr ''1'')
             \<or> map_of kvs ''operation'' \<noteq> Some (JStr ''companion.runtime-snapshot'')
             \<or> map_of kvs ''lifecycle_state'' \<noteq> Some (JStr ''active'') then None
          else Option.bind (bounded_text 64 kvs ''owner_id'') (\<lambda>w.
               Option.bind (bounded_text 64 kvs ''companion_id'') (\<lambda>c.
               Option.bind (object_member kvs ''runtime_config'') (\<lambda>cfg.
               Option.bind (Option.bind (object_member kvs ''memory_realm'') read_memory_realm) (\<lambda>m.
               Option.bind (Option.bind (object_member kvs ''persona_genome'') (read_genome_snapshot lax_int)) (\<lambda>g.
               Some \<lparr>rs_owner_id = w, rs_companion_id = c, rs_runtime_config = cfg, rs_realm_id = m,
                     rs_persona_genome = g\<rparr>)))))
      | _ \<Rightarrow> None)"

definition runtime_snapshot_of ::
  "(string \<Rightarrow> json option) \<Rightarrow> (json \<Rightarrow> int option) \<Rightarrow> int \<times> string \<Rightarrow> client_error + runtime_snapshot" where
  "runtime_snapshot_of loads lax_int answer =
     or_raise Contract_Broken (Option.bind (loads (snd answer)) (read_runtime_snapshot lax_int))"

definition get_companion_runtime ::
  "(string \<Rightarrow> json option) \<Rightarrow> (json \<Rightarrow> int option) \<Rightarrow> (rat \<Rightarrow> string) \<Rightarrow> peer \<Rightarrow> service_client \<Rightarrow> string \<Rightarrow> string option
     \<Rightarrow> params http_effect list \<times> (client_error + runtime_snapshot)" where
  "get_companion_runtime loads lax_int ft send client companion_id genome_id =
     (let ps = (case genome_id of Some g \<Rightarrow> if g \<noteq> [] then Some [(''genome_id'', g)] else None | None \<Rightarrow> None);
          (es, r) = system_data_get loads ft send client (companion_runtime_path companion_id) ps None
      in (es, and_then r (runtime_snapshot_of loads lax_int)))"

definition get_owner_default_runtime ::
  "(string \<Rightarrow> json option) \<Rightarrow> (json \<Rightarrow> int option) \<Rightarrow> (rat \<Rightarrow> string) \<Rightarrow> peer \<Rightarrow> service_client \<Rightarrow> string
     \<Rightarrow> params http_effect list \<times> (client_error + runtime_snapshot)" where
  "get_owner_default_runtime loads lax_int ft send client owner_id =
     (let (es, r) = system_data_get loads ft send client (owner_default_runtime_path owner_id) None None
      in (es, and_then r (runtime_snapshot_of loads lax_int)))"

definition get_companion_face ::
  "(string \<Rightarrow> json option) \<Rightarrow> (rat \<Rightarrow> string) \<Rightarrow> peer \<Rightarrow> service_client \<Rightarrow> string
     \<Rightarrow> params http_effect list \<times> (client_error + string option)" where
  "get_companion_face loads ft send client companion_id =
     (let (es, r) = system_data_get loads ft send client (companion_face_path companion_id) None (Some [200, 204])
      in (es, and_then r (\<lambda>(status, content). Inr (if status = 200 then Some content else None))))"

subsection \<open>Runtime identities and the admin client\<close>

record resolved_identity =
  id_schema_version :: string
  id_owner_id :: string
  id_companion_id :: string
  id_memory_realm_id :: string
  id_genome_id :: string
  id_genome_hash :: string
  id_realizer_version :: string
  id_device_id :: "string option"
  id_interaction_mode :: "string option"

definition identity_of_snapshot :: "runtime_snapshot \<Rightarrow> string option \<Rightarrow> resolved_identity" where
  "identity_of_snapshot s device_id =
     (let g = rs_persona_genome s
      in \<lparr>id_schema_version = gs_schema_version g, id_owner_id = rs_owner_id s, id_companion_id = rs_companion_id s,
          id_memory_realm_id = rs_realm_id s, id_genome_id = gs_genome_id g, id_genome_hash = gs_genome_hash g,
          id_realizer_version = gs_realizer_version g, id_device_id = device_id, id_interaction_mode = None\<rparr>)"

definition optional_text :: "json_object \<Rightarrow> string \<Rightarrow> string option option" where
  "optional_text kvs k =
     (case map_of kvs k of None \<Rightarrow> Some None | Some JNull \<Rightarrow> Some None | Some (JStr s) \<Rightarrow> Some (Some s) | Some _ \<Rightarrow> None)"

definition identity_keys :: "string list" where
  "identity_keys = [''schema_version'', ''owner_id'', ''companion_id'', ''memory_realm_id'', ''genome_id'', ''genome_hash'',
     ''realizer_version'', ''device_id'', ''interaction_mode'']"

definition read_identity :: "json_object \<Rightarrow> resolved_identity option" where
  "read_identity kvs =
     (if \<not> only_keys identity_keys kvs then None
      else Option.bind (parse_text kvs ''schema_version'') (\<lambda>a. Option.bind (parse_text kvs ''owner_id'') (\<lambda>b.
           Option.bind (parse_text kvs ''companion_id'') (\<lambda>c. Option.bind (parse_text kvs ''memory_realm_id'') (\<lambda>d.
           Option.bind (parse_text kvs ''genome_id'') (\<lambda>e. Option.bind (parse_text kvs ''genome_hash'') (\<lambda>f.
           Option.bind (parse_text kvs ''realizer_version'') (\<lambda>g. Option.bind (optional_text kvs ''device_id'') (\<lambda>h.
           Option.bind (optional_text kvs ''interaction_mode'') (\<lambda>i.
           Some \<lparr>id_schema_version = a, id_owner_id = b, id_companion_id = c, id_memory_realm_id = d, id_genome_id = e,
                 id_genome_hash = f, id_realizer_version = g, id_device_id = h, id_interaction_mode = i\<rparr>))))))))))"

definition identity_json :: "resolved_identity \<Rightarrow> json_object" where
  "identity_json i =
     [(''schema_version'', JStr (id_schema_version i)), (''owner_id'', JStr (id_owner_id i)),
      (''companion_id'', JStr (id_companion_id i)), (''memory_realm_id'', JStr (id_memory_realm_id i)),
      (''genome_id'', JStr (id_genome_id i)), (''genome_hash'', JStr (id_genome_hash i)),
      (''realizer_version'', JStr (id_realizer_version i)),
      (''device_id'', case id_device_id i of None \<Rightarrow> JNull | Some d \<Rightarrow> JStr d),
      (''interaction_mode'', case id_interaction_mode i of None \<Rightarrow> JNull | Some m \<Rightarrow> JStr m)]"

interpretation identity_wire: codec identity_json read_identity "\<lambda>_. True"
  by unfold_locales
    (auto simp: read_identity_def identity_json_def only_keys_def identity_keys_def parse_text_def optional_text_def
      split: option.split)

text \<open>An answer that is no object has no \<open>get\<close>: AttributeError.\<close>

definition from_resolve_response :: "json \<Rightarrow> client_error + resolved_identity" where
  "from_resolve_response data =
     (case data of
        JObj kvs \<Rightarrow>
          (case map_of kvs ''context'' of
             Some (JObj context) \<Rightarrow> or_raise Contract_Broken (read_identity context)
           | _ \<Rightarrow> Inl (Client_Raised ''admin resolve response missing context''))
      | _ \<Rightarrow> Inl (Client_Raised ''AttributeError''))"

definition admin_get_json ::
  "(string \<Rightarrow> json option) \<Rightarrow> (rat \<Rightarrow> string) \<Rightarrow> peer \<Rightarrow> service_client \<Rightarrow> string
     \<Rightarrow> params http_effect list \<times> (client_error + json)" where
  "admin_get_json loads ft send client path =
     (case http_request send client ''GET'' path None None None None of
        (es, r) \<Rightarrow> (es, case r of
            Inr (_, body) \<Rightarrow> or_raise (Client_Raised ''JSONDecodeError'') (loads body)
          | Inl (Upstream_Error status body) \<Rightarrow> Inl (classify_upstream loads ft status body)
          | Inl (Service_Unavailable m) \<Rightarrow> Inl (Unreached (''admin GET '' @ path @ '' failed: '' @ m))
          | Inl (Raised m) \<Rightarrow> Inl (Client_Raised m)
          | Inl Unreachable_Retry_State \<Rightarrow> Inl (Client_Raised ''unreachable HTTP retry state'')))"

definition get_owner where
  "get_owner loads ft send client owner_id = admin_get_json loads ft send client (admin_owner_path owner_id)"

definition resolve_owner where
  "resolve_owner loads ft send client owner_id =
     (let (es, r) = admin_get_json loads ft send client (resolve_owner_path owner_id)
      in (es, and_then r from_resolve_response))"

definition resolve_device where
  "resolve_device loads ft send client device_id =
     (let (es, r) = admin_get_json loads ft send client (resolve_device_path device_id)
      in (es, and_then r from_resolve_response))"

subsection \<open>Reading a path back\<close>

text \<open>What a server does with a path: cut it at the slashes and decode each segment.\<close>

fun split_slash :: "string \<Rightarrow> string list" where
  "split_slash [] = [[]]"
| "split_slash (c # cs) =
     (if c = CHR ''/'' then [] # split_slash cs else case split_slash cs of [] \<Rightarrow> [[c]] | s # ss \<Rightarrow> (c # s) # ss)"

fun unquote_bytes :: "string \<Rightarrow> byte list option" where
  "unquote_bytes [] = Some []"
| "unquote_bytes (c # cs) =
     (if c = CHR ''%''
      then (case cs of
          a # b # ds \<Rightarrow> (case unhex (lower [a, b]) of Some [x] \<Rightarrow> map_option (Cons x) (unquote_bytes ds) | _ \<Rightarrow> None)
        | _ \<Rightarrow> None)
      else map_option (append (utf8_char c)) (unquote_bytes cs))"

definition unquote :: "string \<Rightarrow> string option" where
  "unquote s = Option.bind (unquote_bytes s) utf8_decode"

lemma split_slash_nonempty: "split_slash s \<noteq> []"
  by (induction s) (auto split: list.split)

lemma split_slash_solid: "CHR ''/'' \<notin> set s \<Longrightarrow> split_slash s = [s]"
  by (induction s) auto

lemma split_slash_append: "CHR ''/'' \<notin> set s \<Longrightarrow> split_slash (s @ CHR ''/'' # t) = s # split_slash t"
  by (induction s) (auto split: list.split)

lemma char_code_eq: "(c :: char) = d \<longleftrightarrow> (of_char c :: nat) = of_char d"
  by simp

lemma upper_hex:
  assumes "n < 16"
  shows "\<exists>c. upper [hex_digit n] = [c] \<and> lower [c] = [hex_digit n] \<and> c \<noteq> CHR ''/''"
proof (cases "n < 10")
  case True
  then have "upper [hex_digit n] = [hex_digit n]" "lower [hex_digit n] = [hex_digit n]"
    by (simp_all add: upper_def upper_char_def lower_def lower_char_def hex_digit_def of_char_small Let_def)
  moreover have "hex_digit n \<noteq> CHR ''/''"
    using True by (simp add: hex_digit_def char_code_eq of_char_small)
  ultimately show ?thesis by blast
next
  case False
  let ?c = "char_of (55 + n) :: char"
  have "upper [hex_digit n] = [?c]" "lower [?c] = [hex_digit n]"
    using False assms by (simp_all add: upper_def upper_char_def lower_def lower_char_def hex_digit_def of_char_small Let_def)
  moreover have "?c \<noteq> CHR ''/''"
    using False assms by (simp add: char_code_eq of_char_small)
  ultimately show ?thesis by blast
qed

lemma unreserved_ascii: "unreserved c \<Longrightarrow> (of_char c :: nat) < 128 \<and> c \<noteq> CHR ''%'' \<and> c \<noteq> CHR ''/''"
  by (auto simp: unreserved_def char_class_defs)

lemma quote_byte_read:
  "unquote_bytes (quote_byte b @ s) = map_option (Cons b) (unquote_bytes s) \<and> CHR ''/'' \<notin> set (quote_byte b)"
proof (cases "unreserved (char_of (unat b))")
  case True
  then have "utf8_char (char_of (unat b)) = [b]"
    using unreserved_ascii [OF True] by (simp add: utf8_char_def of_char_small)
  moreover have "(@) [b] = (#) b" by (simp add: fun_eq_iff)
  ultimately show ?thesis using True unreserved_ascii [OF True] by (auto simp: quote_byte_def Let_def)
next
  case False
  obtain h where h: "upper [hex_digit (unat b div 16)] = [h]" "lower [h] = [hex_digit (unat b div 16)]" "h \<noteq> CHR ''/''"
    using upper_hex [of "unat b div 16"] by auto
  obtain l where l: "upper [hex_digit (unat b mod 16)] = [l]" "lower [l] = [hex_digit (unat b mod 16)]" "l \<noteq> CHR ''/''"
    using upper_hex [of "unat b mod 16"] by auto
  have "upper (hexdigest [b]) = [h, l]" using h(1) l(1) by (simp add: upper_def)
  moreover have "unhex (lower [h, l]) = Some [b]"
    using h(2) l(2) unhex_hexdigest [of "[b]"] by (simp add: lower_def del: unhex.simps)
  ultimately show ?thesis using False h(3) l(3) by (simp add: quote_byte_def Let_def)
qed

lemma quote_solid: "CHR ''/'' \<notin> set (quote s)"
  using quote_byte_read by (auto simp: quote_def)

lemma unquote_quote: "unquote (quote s) = Some s"
proof -
  have "unquote_bytes (concat (map quote_byte bs)) = Some bs" for bs
    by (induction bs) (simp_all add: quote_byte_read)
  then show ?thesis by (simp add: unquote_def quote_def utf8_decode_utf8)
qed

interpretation path_segment: codec quote unquote "\<lambda>_. True"
  by unfold_locales (rule unquote_quote)

lemma quote_plain: "list_all unreserved s \<Longrightarrow> quote s = s"
proof (induction s)
  case (Cons c s)
  have "quote_byte (word_of_nat (of_char c)) = [c]"
    using Cons.prems unreserved_ascii [of c] by (simp add: quote_byte_def)
  then show ?case
    using Cons unreserved_ascii [of c] by (simp add: quote_def utf8_def utf8_char_def)
qed (simp add: quote_def utf8_def)

lemma unquote_plain: "list_all unreserved s \<Longrightarrow> unquote s = Some s"
  using unquote_quote [of s] by (simp add: quote_plain)

text \<open>A path between slashes, its segments written one after the other.\<close>

fun path_of :: "string list \<Rightarrow> string" where
  "path_of [] = []"
| "path_of (s # ss) = CHR ''/'' # quote s @ path_of ss"

lemma path_of_read: "map unquote (split_slash (path_of ss)) = Some [] # map Some ss"
proof (induction ss)
  case Nil
  show ?case by (simp add: unquote_plain)
next
  case (Cons s ss)
  have "split_slash (quote s @ path_of ss) = quote s # tl (split_slash (path_of ss))"
    by (cases ss) (simp_all add: split_slash_solid split_slash_append quote_solid)
  then show ?case using Cons split_slash_nonempty [of "path_of ss"]
    by (cases "split_slash (path_of ss)") (simp_all add: unquote_quote unquote_plain)
qed

lemma service_paths:
  "companion_runtime_path c = path_of [''api'', ''companion-authority'', ''v1'', ''companions'', c, ''runtime-snapshot'']"
  "owner_default_runtime_path c = path_of [''api'', ''companion-authority'', ''v1'', ''owners'', c, ''default-runtime-snapshot'']"
  "companion_face_path c = path_of [''api'', ''companion-authority'', ''v1'', ''companions'', c, ''face'']"
  "admin_owner_path c = path_of [''api'', ''owners'', c]"
  "resolve_owner_path c = path_of [''api'', ''resolve'', ''owner'', c]"
  "resolve_device_path c = path_of [''api'', ''resolve'', ''device'', c]"
  by (simp_all add: companion_runtime_path_def owner_default_runtime_path_def companion_face_path_def admin_owner_path_def
      resolve_owner_path_def resolve_device_path_def quote_plain unreserved_def char_class_defs)

lemma single_attempt:
  assumes "sc_retry_policy client = default_retry_policy"
  shows "http_request send client ''GET'' path body None oks None =
    ([Sent (call_of client ''GET'' path body None)], verdict oks (send (call_of client ''GET'' path body None) 1))"
proof -
  have "deciding_attempt (policy_in_force client None) ''GET'' oks answer = 1" for answer
    using assms by (simp add: deciding_attempt_def policy_in_force_def attempts_of_def default_retry_policy_def)
  from request_eq [OF refl refl this [symmetric]] show ?thesis by simp
qed

subsection \<open>Properties\<close>

text \<open>
  A path names what was asked for: cut at its slashes and decoded, the path of each request gives back its fixed
  segments and the id, whatever characters the id has.
\<close>

theorem paths_read_back:
  "map unquote (split_slash (companion_runtime_path c)) =
     map Some [[], ''api'', ''companion-authority'', ''v1'', ''companions'', c, ''runtime-snapshot'']
   \<and> map unquote (split_slash (owner_default_runtime_path w)) =
     map Some [[], ''api'', ''companion-authority'', ''v1'', ''owners'', w, ''default-runtime-snapshot'']
   \<and> map unquote (split_slash (companion_face_path c)) =
     map Some [[], ''api'', ''companion-authority'', ''v1'', ''companions'', c, ''face'']
   \<and> map unquote (split_slash (resolve_device_path d)) = map Some [[], ''api'', ''resolve'', ''device'', d]"
  by (simp only: service_paths path_of_read list.map simp_thms)

text \<open>
  C21. The two calls for a runtime, that of a companion (of a named genome, or of none: an absent or an empty genome id
  sends no parameter) and that of an Owner's default companion, are one request each, and its answer decides the result: a
  snapshot when the answer is acceptable and carries one, a broken contract when it carries anything else, and otherwise
  the error its status stands for.
\<close>

theorem runtime_call_exact:
  assumes "make_system_data_client base_url token = Inr client"
  shows "let answered = (\<lambda>path ps. let call = call_of client ''GET'' path ps None in
      ([Sent call],
       case send call 1 of
         Unreachable m \<Rightarrow> Inl (Unreached m)
       | Other_Failure m \<Rightarrow> Inl (Client_Raised m)
       | Response status body \<Rightarrow>
           if status < 400
           then (case Option.bind (loads body) (read_runtime_snapshot lax_int) of
                   None \<Rightarrow> Inl Contract_Broken | Some s \<Rightarrow> Inr s)
           else Inl (if status = 404 then Not_Found (unwrap_detail loads ft body)
                     else if status = 409 \<or> status = 412 then Precondition status (unwrap_detail loads ft body)
                     else Upstream status (unwrap_detail loads ft body))))
    in get_companion_runtime loads lax_int ft send client c genome =
         answered (companion_runtime_path c) (if genome \<in> {None, Some []} then None else Some [(''genome_id'', the genome)])
       \<and> get_owner_default_runtime loads lax_int ft send client w = answered (owner_default_runtime_path w) None"
proof -
  have policy: "sc_retry_policy client = default_retry_policy"
    using assms by (auto simp: make_system_data_client_def make_service_client_def guard_simps split: if_splits)
  have params: "(case genome of Some g \<Rightarrow> if g \<noteq> [] then Some [(''genome_id'', g)] else None | None \<Rightarrow> None)
      = (if genome \<in> {None, Some []} then None else Some [(''genome_id'', the genome)])"
    by (cases genome) auto
  show ?thesis
    unfolding get_companion_runtime_def params get_owner_default_runtime_def
    by (simp add: single_attempt [OF policy] system_data_get_def Let_def runtime_snapshot_of_def or_raise_def
        classify_upstream_def response_ok_def split: wire_outcome.split option.split)
qed

lemma runtime_call_exact_witness:
  "get_companion_runtime (\<lambda>_. None) (\<lambda>_. None) (\<lambda>_. []) (\<lambda>_ _. Response 404 ''gone'')
     (make_service_client ''http://data/'' (Some [(''Authorization'', ''Bearer t'')]) None) ''c1'' (Some ''g1'') =
   ([Sent (call_of (make_service_client ''http://data/'' (Some [(''Authorization'', ''Bearer t'')]) None) ''GET''
       (companion_runtime_path ''c1'') (Some [(''genome_id'', ''g1'')]) None)], Inl (Not_Found ''gone''))"
proof -
  have "make_system_data_client ''http://data/'' ''t'' =
      Inr (make_service_client ''http://data/'' (Some [(''Authorization'', ''Bearer t'')]) None)"
    by (simp add: make_system_data_client_def authorization_header_def guarded_simps strip_def is_space_def starts_with_def
        lower_def lower_char_def Let_def)
  from runtime_call_exact [OF this] show ?thesis by (simp add: Let_def unwrap_detail_def)
qed

end
