(* ===== verification/Body_Capabilities.thy ===== *)
theory Body_Capabilities
  imports Capability_Schema
begin

text \<open>
  The semantic body protocol of \<open>biz/body/models.py\<close> and the common capabilities of \<open>biz/body/capabilities.py\<close>.
  The text of an aware timestamp (\<open>isoformat\<close>) is a parameter.
\<close>

subsection \<open>Capabilities, devices, commands and results\<close>

datatype risk_level = Low_Risk | Medium_Risk | High_Risk | Critical_Risk

fun risk_text :: "risk_level \<Rightarrow> string" where
  "risk_text Low_Risk = ''low''" | "risk_text Medium_Risk = ''medium''"
| "risk_text High_Risk = ''high''" | "risk_text Critical_Risk = ''critical''"

record body_capability =
  bc_name :: string
  bc_version :: int
  bc_description :: string
  bc_input_schema :: json_object
  bc_result_schema :: json_object
  bc_side_effect :: bool
  bc_requires_online :: bool
  bc_requires_ack :: bool
  bc_risk_level :: risk_level
  bc_requires_confirmation :: bool

text \<open>The defaults of the fields that a declaration may leave out.\<close>

definition plain_capability :: "string \<Rightarrow> string \<Rightarrow> body_capability" where
  "plain_capability n d =
     \<lparr>bc_name = n, bc_version = 1, bc_description = d, bc_input_schema = [], bc_result_schema = [], bc_side_effect = True,
      bc_requires_online = True, bc_requires_ack = True, bc_risk_level = Low_Risk, bc_requires_confirmation = False\<rparr>"

datatype body_device_status = Online_Control | In_Voice | Body_Offline | Body_Unknown

fun body_status_text :: "body_device_status \<Rightarrow> string" where
  "body_status_text Online_Control = ''online_control''" | "body_status_text In_Voice = ''in_voice''"
| "body_status_text Body_Offline = ''offline''" | "body_status_text Body_Unknown = ''unknown''"

record body_device =
  bd_device_id :: string
  bd_name :: string
  bd_aliases :: "string list"
  bd_provider_companion_id :: string
  bd_provider_companion_name :: string
  bd_kind :: string
  bd_status :: body_device_status
  bd_is_current_device :: bool
  bd_last_seen :: "datetime option"
  bd_control_room_name :: string
  bd_capabilities :: "body_capability list"

definition find_capability :: "body_device \<Rightarrow> string \<Rightarrow> int option \<Rightarrow> body_capability option" where
  "find_capability d op v =
     find (\<lambda>c. bc_name c = op \<and> (case v of None \<Rightarrow> True | Some n \<Rightarrow> bc_version c = n)) (bd_capabilities d)"

definition device_supports :: "body_device \<Rightarrow> string \<Rightarrow> int option \<Rightarrow> bool" where
  "device_supports d op v \<longleftrightarrow> find_capability d op v \<noteq> None"

text \<open>The quality of service and the priority are the wire words of the control plane.\<close>

record body_command =
  bo_target_device_id :: string
  bo_op :: string
  bo_capability_version :: "int option"
  bo_payload :: json_object
  bo_qos :: string
  bo_ttl_ms :: int
  bo_priority :: string
  bo_idempotency_key :: "string option"
  bo_source :: json_object

definition plain_command :: "string \<Rightarrow> string \<Rightarrow> body_command" where
  "plain_command device op =
     \<lparr>bo_target_device_id = device, bo_op = op, bo_capability_version = None, bo_payload = [], bo_qos = ''ack'',
      bo_ttl_ms = 30000, bo_priority = ''normal'', bo_idempotency_key = None, bo_source = []\<rparr>"

datatype body_command_status =
    Cmd_Accepted | Cmd_Sent | Cmd_Done | Cmd_Running | Cmd_Failed | Cmd_Timeout | Cmd_Offline | Cmd_Unsupported
  | Cmd_Queued | Cmd_Rejected

fun command_status_text :: "body_command_status \<Rightarrow> string" where
  "command_status_text Cmd_Accepted = ''accepted''" | "command_status_text Cmd_Sent = ''sent''"
| "command_status_text Cmd_Done = ''done''" | "command_status_text Cmd_Running = ''running''"
| "command_status_text Cmd_Failed = ''failed''" | "command_status_text Cmd_Timeout = ''timeout''"
| "command_status_text Cmd_Offline = ''offline''" | "command_status_text Cmd_Unsupported = ''unsupported''"
| "command_status_text Cmd_Queued = ''queued''" | "command_status_text Cmd_Rejected = ''rejected''"

record body_command_result =
  cr_command_id :: string
  cr_device_id :: string
  cr_op :: string
  cr_status :: body_command_status
  cr_capability_version :: "int option"
  cr_message :: string
  cr_ack :: "json_object option"
  cr_result :: json
  cr_error :: string
  cr_updated_at :: "datetime option"

definition result_ok :: "body_command_result \<Rightarrow> bool" where
  "result_ok r \<longleftrightarrow> cr_status r \<in> {Cmd_Accepted, Cmd_Sent, Cmd_Done, Cmd_Running, Cmd_Queued}"

subsection \<open>Documents\<close>

definition body_capability_json :: "body_capability \<Rightarrow> json_object" where
  "body_capability_json c =
     [(''name'', JStr (bc_name c)), (''version'', JInt (bc_version c)), (''description'', JStr (bc_description c)),
      (''input_schema'', JObj (bc_input_schema c)), (''result_schema'', JObj (bc_result_schema c)),
      (''side_effect'', JBool (bc_side_effect c)), (''requires_online'', JBool (bc_requires_online c)),
      (''requires_ack'', JBool (bc_requires_ack c)), (''risk_level'', JStr (risk_text (bc_risk_level c))),
      (''requires_confirmation'', JBool (bc_requires_confirmation c))]"

definition time_json :: "(datetime \<Rightarrow> string) \<Rightarrow> datetime option \<Rightarrow> json" where
  "time_json isoformat t = (case t of None \<Rightarrow> JNull | Some d \<Rightarrow> JStr (isoformat d))"

definition body_device_json :: "(datetime \<Rightarrow> string) \<Rightarrow> body_device \<Rightarrow> json_object" where
  "body_device_json isoformat d =
     [(''device_id'', JStr (bd_device_id d)), (''name'', JStr (bd_name d)), (''aliases'', JArr (map JStr (bd_aliases d))),
      (''provider_companion_id'', JStr (bd_provider_companion_id d)),
      (''provider_companion_name'', JStr (bd_provider_companion_name d)), (''kind'', JStr (bd_kind d)),
      (''status'', JStr (body_status_text (bd_status d))), (''is_current_device'', JBool (bd_is_current_device d)),
      (''last_seen'', time_json isoformat (bd_last_seen d)), (''control_room_name'', JStr (bd_control_room_name d)),
      (''capabilities'', JArr (map (\<lambda>c. JObj (body_capability_json c)) (bd_capabilities d)))]"

definition command_result_json :: "(datetime \<Rightarrow> string) \<Rightarrow> body_command_result \<Rightarrow> json_object" where
  "command_result_json isoformat r =
     [(''command_id'', JStr (cr_command_id r)), (''device_id'', JStr (cr_device_id r)), (''op'', JStr (cr_op r)),
      (''capability_version'', case cr_capability_version r of None \<Rightarrow> JNull | Some n \<Rightarrow> JInt n),
      (''status'', JStr (command_status_text (cr_status r))), (''message'', JStr (cr_message r)),
      (''ack'', case cr_ack r of None \<Rightarrow> JNull | Some a \<Rightarrow> JObj a), (''result'', cr_result r), (''error'', JStr (cr_error r)),
      (''updated_at'', time_json isoformat (cr_updated_at r)), (''ok'', JBool (result_ok r))]"

subsection \<open>The known capabilities\<close>

definition text_type :: "string \<Rightarrow> json" where
  "text_type t = JObj [(''type'', JStr t)]"

definition known_body_capabilities :: "(string \<times> body_capability) list" where
  "known_body_capabilities =
  [(''sound.play'', (plain_capability ''sound.play''
       ''Play a short local sound cue on the device.'')
       \<lparr>bc_input_schema :=
         [(''type'', JStr ''object''), (''properties'', JObj [(''sound'', text_type ''string''), (''volume'', text_type ''number''), (''duration_ms'', text_type ''integer'')]),
          (''required'', JArr [JStr ''sound'']), (''additionalProperties'', JBool True)]\<rparr>),
   (''display.update'', (plain_capability ''display.update''
       ''Show a short text or UI state update on the device display.'')
       \<lparr>bc_input_schema :=
         [(''type'', JStr ''object''), (''properties'', JObj [(''text'', text_type ''string''), (''ttl_ms'', text_type ''integer'')]),
          (''required'', JArr [JStr ''text'']), (''additionalProperties'', JBool True)]\<rparr>),
   (''device.identify'', (plain_capability ''device.identify''
       ''Ask a reachable device to identify itself with a local cue.'')
       \<lparr>bc_input_schema :=
         [(''type'', JStr ''object''), (''properties'', JObj [(''reason'', text_type ''string'')]), (''additionalProperties'', JBool True)]\<rparr>),
   (''device.roll_call'', (plain_capability ''device.roll_call''
       (''Respond when the user asks whether this device is present or calls it by name. The ''
         @ ''device plays its local roll-call cue.''))
       \<lparr>bc_input_schema :=
         [(''type'', JStr ''object''), (''properties'', JObj []), (''additionalProperties'', JBool False)],
        bc_result_schema :=
         [(''type'', JStr ''object''), (''properties'', JObj [(''played'', text_type ''boolean'')]),
          (''required'', JArr [JStr ''played'']), (''additionalProperties'', JBool True)]\<rparr>),
   (''room.join'', (plain_capability ''room.join''
       ''Ask an online control-plane device to join a voice room.'')
       \<lparr>bc_risk_level := Medium_Risk\<rparr>),
   (''room.leave'', plain_capability ''room.leave''
       ''Ask a device to leave its current voice room.''),
   (''playback.stop'', plain_capability ''playback.stop''
       (''Stop the device'' @ CHR 0x27 # ''s current playback.'')),
   (''volume.set'', (plain_capability ''volume.set''
       ''Set device playback volume.'')
       \<lparr>bc_input_schema :=
         [(''type'', JStr ''object''), (''properties'', JObj [(''volume'', text_type ''number'')]),
          (''required'', JArr [JStr ''volume'']), (''additionalProperties'', JBool False)]\<rparr>),
   (''config.refresh'', plain_capability ''config.refresh''
       ''Ask the device to refresh its runtime configuration.''),
   (''device.reboot'', (plain_capability ''device.reboot''
       ''Reboot the device.'')
       \<lparr>bc_risk_level := High_Risk,
        bc_requires_confirmation := True\<rparr>),
   (''safety.stop'', (plain_capability ''safety.stop''
       ''Immediately stop motion or other safety-critical activity.'')
       \<lparr>bc_risk_level := Critical_Risk\<rparr>),
   (''body.presence.set'', (plain_capability ''body.presence.set''
       ''Set a low-risk local presence state on a body device.'')
       \<lparr>bc_input_schema :=
         [(''type'', JStr ''object''), (''properties'', JObj [(''state'', text_type ''string''), (''guard_epoch'', text_type ''integer''), (''correlation_id'', text_type ''string''), (''action_id'', text_type ''string'')]),
          (''required'', JArr [JStr ''state'', JStr ''guard_epoch'', JStr ''correlation_id'', JStr ''action_id'']), (''additionalProperties'', JBool False)],
        bc_result_schema :=
         [(''type'', JStr ''object''), (''properties'', JObj [(''action_id'', text_type ''string''), (''state'', text_type ''string''), (''applied'', text_type ''boolean'')]),
          (''required'', JArr [JStr ''action_id'', JStr ''applied'']), (''additionalProperties'', JBool True)]\<rparr>)]"

subsection \<open>Finding a capability\<close>

lemma known_names: "map fst known_body_capabilities =
    [''sound.play'', ''display.update'', ''device.identify'', ''device.roll_call'', ''room.join'', ''room.leave'',
     ''playback.stop'', ''volume.set'', ''config.refresh'', ''device.reboot'', ''safety.stop'', ''body.presence.set'']"
  by (simp add: known_body_capabilities_def)

lemma known_by_name: "list_all (\<lambda>kc. fst kc = bc_name (snd kc)) known_body_capabilities"
  by (simp add: known_body_capabilities_def plain_capability_def)

lemma find_by_name:
  "list_all (\<lambda>kc. fst kc = bc_name (snd kc)) kcs \<Longrightarrow> distinct (map fst kcs)
     \<Longrightarrow> find (\<lambda>c. bc_name c = op \<and> P c) (map snd kcs)
         = (case map_of kcs op of Some c \<Rightarrow> if P c then Some c else None | None \<Rightarrow> None)"
proof (induction kcs)
  case (Cons kc kcs)
  have "find (\<lambda>c. bc_name c = op \<and> P c) (map snd kcs) = None" if "bc_name (snd kc) = op"
    using that Cons.prems by (auto simp: find_None_iff list_all_iff image_iff)
  with Cons show ?case by auto
qed simp

text \<open>A device that has all known capabilities supports exactly the known operations, each in the version it has.\<close>

lemma known_capability_found:
  "find_capability (d\<lparr>bd_capabilities := map snd known_body_capabilities\<rparr>) op v
     = (case map_of known_body_capabilities op of
          Some c \<Rightarrow> if v = None \<or> v = Some (bc_version c) then Some c else None | None \<Rightarrow> None)"
proof (cases v)
  case None
  then show ?thesis
    using find_by_name [OF known_by_name, of op "\<lambda>_. True"] by (simp add: find_capability_def known_names split: option.split)
next
  case (Some n)
  then show ?thesis
    using find_by_name [OF known_by_name, of op "\<lambda>c. bc_version c = n"]
    by (simp add: find_capability_def known_names eq_commute [of n] split: option.split)
qed

end
