(* ===== verification/Conformance.thy ===== *)
theory Conformance
  imports Sse Sha256 "HOL-Library.Multiset" "HOL-Library.AList" "HOL-Library.List_Lexorder" "HOL-Library.Char_ord"
begin

text \<open>
  The conformance runner of the device foundation, \<open>contracts/device_foundation/v1/conformance/run.py\<close>: reading
  documents without duplicate keys, the inventory of a vector's fields, the negative matrix of a signed document and
  the derivation of keys by HKDF. Canonical JSON (\<open>canon\<close>) and ECDSA (\<open>ecdsa\<close>) are parameters; the vectors themselves
  are data the runner reads.
\<close>

subsection \<open>Objects without duplicate keys\<close>

datatype conformance_error =
    Duplicate_Key string
  | Declared_Twice "string list"
  | Opaque_Undeclared "string list"
  | Undeclared_Fields "string list"
  | Absent_Fields "string list"
  | Not_A_Scalar string
  | Missing_Key string
  | Not_Subscriptable
  | Not_Canonical
  | Bad_Base64
  | Bad_Signature_Length
  | Wrong_Value_Type
  | Invalid_Reference
  | Nothing_Found
  | Unloadable_Key
  | Bad_Hexadecimal
  | Out_Of_Range
  | Bad_Sealing
  | Not_Json
  | Schema_Refused
  | Missing_File
  | Vector_Refused string

fun reject_duplicate_keys :: "json_object \<Rightarrow> json_object \<Rightarrow> conformance_error + json_object" where
  "reject_duplicate_keys result [] = Inr result"
| "reject_duplicate_keys result ((k, v) # pairs) =
     (if k \<in> fst ` set result then Inl (Duplicate_Key k) else reject_duplicate_keys (result @ [(k, v)]) pairs)"

subsection \<open>Field inventories\<close>

definition dotted :: "string \<Rightarrow> string \<Rightarrow> string" where
  "dotted pre k = (if pre \<noteq> [] then pre @ ''.'' @ k else k)"

definition indexed :: "string \<Rightarrow> nat \<Rightarrow> string" where
  "indexed pre n = pre @ ''['' @ digits n @ '']''"

fun is_container :: "json \<Rightarrow> bool" where
  "is_container (JObj kvs) = True"
| "is_container (JArr vs) = True"
| "is_container _ = False"

fun field_paths :: "string set \<Rightarrow> string \<Rightarrow> json \<Rightarrow> string list"
  and item_paths :: "string set \<Rightarrow> string \<Rightarrow> nat \<Rightarrow> json list \<Rightarrow> string list" where
  "field_paths opq pre (JObj kvs) =
     concat (map (\<lambda>kv. let p = dotted pre (fst kv) in p # (if p \<notin> opq then field_paths opq p (snd kv) else [])) kvs)"
| "field_paths opq pre (JArr vs) = item_paths opq pre 0 vs"
| "field_paths opq pre _ = []"
| "item_paths opq pre n [] = []"
| "item_paths opq pre n (v # vs) =
     (let p = indexed pre n
      in if is_container v then p # (if p \<notin> opq then field_paths opq p v else []) else []) @ item_paths opq pre (Suc n) vs"

definition require_field_inventory ::
  "json \<Rightarrow> string set \<Rightarrow> string set \<Rightarrow> string set \<Rightarrow> conformance_error + unit" where
  "require_field_inventory vector validated descriptive opq =
     (let actual = set (field_paths opq [] vector)
      in guarded
        [(validated \<inter> descriptive \<noteq> {}, Declared_Twice (sorted_list_of_set (validated \<inter> descriptive))),
         (opq - validated - descriptive \<noteq> {}, Opaque_Undeclared (sorted_list_of_set (opq - validated - descriptive))),
         (actual - validated - descriptive \<noteq> {}, Undeclared_Fields (sorted_list_of_set (actual - validated - descriptive))),
         (validated \<union> descriptive - actual \<noteq> {}, Absent_Fields (sorted_list_of_set (validated \<union> descriptive - actual)))] ())"

subsection \<open>The negative matrix\<close>

fun leaf_paths :: "string \<Rightarrow> json \<Rightarrow> string list" where
  "leaf_paths pre (JObj kvs) = sort (concat (map (\<lambda>kv. leaf_paths (dotted pre (fst kv)) (snd kv)) kvs))"
| "leaf_paths pre _ = [pre]"

text \<open>\<open>path.split(".")\<close>.\<close>

fun split_path :: "string \<Rightarrow> string list" where
  "split_path [] = [[]]"
| "split_path (c # cs) =
     (if c = CHR ''.'' then [] # split_path cs else case split_path cs of [] \<Rightarrow> [[c]] | s # ss \<Rightarrow> (c # s) # ss)"

fun mutate_scalar :: "string \<Rightarrow> json \<Rightarrow> conformance_error + json" where
  "mutate_scalar path (JInt n) = Inr (JInt (n + 1))"
| "mutate_scalar path (JStr s) = Inr (JStr (s @ ''-mutated''))"
| "mutate_scalar path _ = Inl (Not_A_Scalar path)"

fun mutate_at :: "string \<Rightarrow> string list \<Rightarrow> json \<Rightarrow> conformance_error + json" where
  "mutate_at path [] v = mutate_scalar path v"
| "mutate_at path (k # ks) (JObj kvs) =
     (case map_of kvs k of
        None \<Rightarrow> Inl (Missing_Key k)
      | Some v \<Rightarrow> and_then (mutate_at path ks v) (\<lambda>w. Inr (JObj (AList.update k w kvs))))"
| "mutate_at path (k # ks) _ = Inl Not_Subscriptable"

definition mutate_leaf :: "json \<Rightarrow> string \<Rightarrow> conformance_error + json" where
  "mutate_leaf document path = mutate_at path (split_path path) document"

fun walk_keys :: "json \<Rightarrow> string list" where
  "walk_keys (JObj kvs) = concat (map (\<lambda>kv. fst kv # walk_keys (snd kv)) kvs)"
| "walk_keys (JArr vs) = concat (map walk_keys vs)"
| "walk_keys _ = []"

subsection \<open>Signed document vectors\<close>

record signed_vector =
  sv_document :: json
  sv_canonical_utf8 :: string
  sv_canonical_sha256 :: string
  sv_public_key_spki :: string
  sv_key_id :: string
  sv_signature :: string
  sv_signature_algorithm :: string
  sv_signature_encoding :: string
  sv_mutate :: "string list"

text \<open>\<open>ecdsa key r s message\<close> is the verification of \<open>(r, s)\<close> over the message by the key of that encoding.\<close>

type_synonym ecdsa = "byte list \<Rightarrow> nat \<Rightarrow> nat \<Rightarrow> byte list \<Rightarrow> bool"

definition verify_raw_p256 ::
  "(json \<Rightarrow> byte list option) \<Rightarrow> ecdsa \<Rightarrow> string \<Rightarrow> json \<Rightarrow> string \<Rightarrow> conformance_error + bool" where
  "verify_raw_p256 canon ecdsa key document signature =
     and_then (or_raise Bad_Base64 (b64url_decode signature)) (\<lambda>raw.
     if length raw \<noteq> 64 then Inl Bad_Signature_Length
     else and_then (or_raise Bad_Base64 (b64url_decode key)) (\<lambda>der.
          and_then (or_raise Not_Canonical (canon document)) (\<lambda>message.
          Inr (ecdsa der (big_endian (take 32 raw)) (big_endian (drop 32 raw)) message))))"

fun check_mutations ::
  "(json \<Rightarrow> byte list option) \<Rightarrow> ecdsa \<Rightarrow> signed_vector \<Rightarrow> nat \<Rightarrow> string list \<Rightarrow> conformance_error + nat" where
  "check_mutations canon ecdsa v checks [] = Inr checks"
| "check_mutations canon ecdsa v checks (member # members) =
     and_then (mutate_leaf (sv_document v) member) (\<lambda>mutated.
     and_then (verify_raw_p256 canon ecdsa (sv_public_key_spki v) mutated (sv_signature v)) (\<lambda>valid.
     if valid then Inl (Vector_Refused (''mutating '' @ member @ '' did not invalidate the proof''))
     else check_mutations canon ecdsa v (checks + 1) members))"

definition check_signed_document_vector ::
  "(json \<Rightarrow> byte list option) \<Rightarrow> ecdsa \<Rightarrow> json \<Rightarrow> signed_vector \<Rightarrow> conformance_error + nat" where
  "check_signed_document_vector canon ecdsa rebuilt v =
     and_then (or_raise Not_Canonical (canon (sv_document v))) (\<lambda>canonical.
     and_then (guarded
       [(utf8_decode canonical \<noteq> Some (sv_canonical_utf8 v), Vector_Refused ''canonical_utf8''),
        (''sha256:'' @ sha256_hex canonical \<noteq> sv_canonical_sha256 v, Vector_Refused ''canonical_sha256'')] ()) (\<lambda>_.
     and_then (or_raise Not_Canonical (canon rebuilt)) (\<lambda>emitted.
     and_then (guarded
       [(emitted \<noteq> canonical, Vector_Refused ''the canonical builder no longer emits these bytes''),
        (sv_signature_algorithm v \<noteq> ''ES256'', Vector_Refused ''signature_algorithm''),
        (sv_signature_encoding v \<noteq> ''64-byte-r-concat-s-base64url-no-padding'', Vector_Refused ''signature_encoding'')] ()) (\<lambda>_.
     and_then (or_raise Bad_Base64 (b64url_decode (sv_public_key_spki v))) (\<lambda>der.
     and_then (guarded [(''sha256:'' @ sha256_hex der \<noteq> sv_key_id v, Vector_Refused ''key_id'')] ()) (\<lambda>_.
     and_then (verify_raw_p256 canon ecdsa (sv_public_key_spki v) (sv_document v) (sv_signature v)) (\<lambda>valid.
     and_then (guarded
       [(\<not> valid, Vector_Refused ''the published signature does not verify''),
        (sort (sv_mutate v) \<noteq> leaf_paths [] (sv_document v), Vector_Refused ''the negative matrix'')] ()) (\<lambda>_.
     check_mutations canon ecdsa v 1 (sv_mutate v)))))))))"

subsection \<open>HKDF\<close>

definition hkdf_extract :: "byte list \<Rightarrow> byte list \<Rightarrow> byte list" where
  "hkdf_extract salt ikm = hmac_sha256 (if salt = [] then replicate 32 0 else salt) ikm"

text \<open>The blocks from a counter on; \<open>bytes([counter])\<close> raises beyond 255.\<close>

fun hkdf_blocks :: "byte list \<Rightarrow> byte list \<Rightarrow> byte list \<Rightarrow> nat list \<Rightarrow> byte list option" where
  "hkdf_blocks prk info block [] = Some []"
| "hkdf_blocks prk info block (counter # counters) =
     (if 255 < counter then None
      else (let b = hmac_sha256 prk (block @ info @ [word_of_nat counter])
            in map_option (append b) (hkdf_blocks prk info b counters)))"

definition hkdf_expand :: "byte list \<Rightarrow> byte list \<Rightarrow> nat \<Rightarrow> byte list option" where
  "hkdf_expand prk info n = map_option (take n) (hkdf_blocks prk info [] [1..<(n + 31) div 32 + 1])"

definition labeled_extract :: "byte list \<Rightarrow> byte list \<Rightarrow> byte list \<Rightarrow> byte list \<Rightarrow> byte list" where
  "labeled_extract suite_id salt label ikm = hkdf_extract salt (utf8 ''HPKE-v1'' @ suite_id @ label @ ikm)"

definition labeled_expand :: "byte list \<Rightarrow> byte list \<Rightarrow> byte list \<Rightarrow> byte list \<Rightarrow> nat \<Rightarrow> byte list option" where
  "labeled_expand suite_id prk label info n =
     Option.bind (to_bytes 2 n) (\<lambda>len. hkdf_expand prk (len @ utf8 ''HPKE-v1'' @ suite_id @ label @ info) n)"

definition p256_order :: nat where
  "p256_order = 0xffffffff00000000ffffffffffffffffbce6faada7179e84f3b9cac2fc632551"

text \<open>The scalar that becomes the private key: the first candidate in range.\<close>

definition candidate_scalar :: "byte list \<Rightarrow> nat \<Rightarrow> nat option" where
  "candidate_scalar ikm counter =
     (let suite_id = utf8 ''KEM'' @ be_bytes 2 16;
          dkp_prk = labeled_extract suite_id [] (utf8 ''dkp_prk'') ikm
      in map_option big_endian (labeled_expand suite_id dkp_prk (utf8 ''candidate'') [word_of_nat counter] 32))"

fun first_scalar :: "byte list \<Rightarrow> nat list \<Rightarrow> nat option" where
  "first_scalar ikm [] = None"
| "first_scalar ikm (counter # counters) =
     (case candidate_scalar ikm counter of
        None \<Rightarrow> None
      | Some scalar \<Rightarrow> if 0 < scalar \<and> scalar < p256_order then Some scalar else first_scalar ikm counters)"

definition derive_p256_scalar :: "byte list \<Rightarrow> nat option" where
  "derive_p256_scalar ikm = first_scalar ikm [0..<256]"

subsection \<open>Leaves\<close>

text \<open>The leaves of a document with the keys that lead to them, and documents whose keys can be written in a path.\<close>

fun leaves :: "json \<Rightarrow> (string list \<times> json) list" where
  "leaves (JObj kvs) = concat (map (\<lambda>kv. map (\<lambda>l. (fst kv # fst l, snd l)) (leaves (snd kv))) kvs)"
| "leaves v = [([], v)]"

fun pathable :: "json \<Rightarrow> bool" where
  "pathable (JObj kvs) \<longleftrightarrow>
     distinct (map fst kvs) \<and> list_all (\<lambda>kv. fst kv \<noteq> [] \<and> CHR ''.'' \<notin> set (fst kv) \<and> pathable (snd kv)) kvs"
| "pathable _ \<longleftrightarrow> True"

definition path_text :: "string list \<Rightarrow> string" where
  "path_text ks = foldl dotted [] ks"

lemma split_path_nonempty: "split_path s \<noteq> []"
  by (induction s) (auto split: list.split)

lemma split_path_solid: "CHR ''.'' \<notin> set s \<Longrightarrow> split_path s = [s]"
  by (induction s) auto

lemma split_path_append: "split_path (s @ CHR ''.'' # t) = split_path s @ split_path t"
  by (induction s) (auto simp: split_path_nonempty split: list.split)

lemma foldl_dotted: "s \<noteq> [] \<Longrightarrow> list_all (\<lambda>k. k \<noteq> [] \<and> CHR ''.'' \<notin> set k) ks \<Longrightarrow>
    split_path (foldl dotted s ks) = split_path s @ ks"
  by (induction ks arbitrary: s) (auto simp: dotted_def split_path_append split_path_solid)

lemma split_path_text:
  "ks \<noteq> [] \<Longrightarrow> list_all (\<lambda>k. k \<noteq> [] \<and> CHR ''.'' \<notin> set k) ks \<Longrightarrow> split_path (path_text ks) = ks"
  by (cases ks) (auto simp: path_text_def dotted_def foldl_dotted split_path_solid)

lemma leaf_keys: "pathable v \<Longrightarrow> (ks, u) \<in> set (leaves v) \<Longrightarrow> list_all (\<lambda>k. k \<noteq> [] \<and> CHR ''.'' \<notin> set k) ks"
  by (induction v arbitrary: ks u rule: leaves.induct) (fastforce simp: list_all_iff)+

lemma mset_leaf_paths: "mset (leaf_paths pre v) = mset (map (\<lambda>l. foldl dotted pre (fst l)) (leaves v))"
proof (induction pre v rule: leaf_paths.induct)
  case (1 pre kvs)
  have "mset (leaf_paths (dotted pre (fst kv)) (snd kv)) =
      mset (map (\<lambda>l. foldl dotted pre (fst l)) (map (\<lambda>l. (fst kv # fst l, snd l)) (leaves (snd kv))))"
    if "kv \<in> set kvs" for kv
    using 1 [OF that] by (simp add: comp_def)
  then have "mset (concat (map (\<lambda>kv. leaf_paths (dotted pre (fst kv)) (snd kv)) kvs)) =
      mset (concat (map (\<lambda>kv. map (\<lambda>l. foldl dotted pre (fst l)) (map (\<lambda>l. (fst kv # fst l, snd l)) (leaves (snd kv)))) kvs))"
    by (induction kvs) auto
  then show ?case by (simp add: map_concat comp_def)
qed simp_all

lemma leaf_paths_leaves: "set (leaf_paths [] v) = (\<lambda>l. path_text (fst l)) ` set (leaves v)"
  using arg_cong [OF mset_leaf_paths [of "[]" v], of set_mset] by (simp add: path_text_def)

lemma object_leaf_head: "l \<in> set (leaves (JObj kvs)) \<Longrightarrow> fst l \<noteq> [] \<and> hd (fst l) \<in> fst ` set kvs"
  by (auto intro: rev_image_eqI)

lemma leaves_Cons:
  "leaves (JObj (kv # kvs)) = map (\<lambda>l. (fst kv # fst l, snd l)) (leaves (snd kv)) @ leaves (JObj kvs)"
  by simp

lemma leaves_distinct: "pathable v \<Longrightarrow> distinct (map fst (leaves v))"
proof (induction v rule: leaves.induct)
  case (1 kvs)
  then show ?case
  proof (induction kvs)
    case (Cons kv kvs)
    have "distinct (map fst (leaves (snd kv)))" using Cons.prems by simp
    then have "distinct (map fst (map (\<lambda>l. (fst kv # fst l, snd l)) (leaves (snd kv))))"
      by (auto simp: distinct_map inj_on_def)
    moreover have "distinct (map fst (leaves (JObj kvs)))" using Cons.IH Cons.prems by (simp del: leaves.simps)
    moreover have outside: "fst kv \<notin> fst ` set kvs" using Cons.prems by simp
    have "set (map fst (map (\<lambda>l. (fst kv # fst l, snd l)) (leaves (snd kv)))) \<inter> set (map fst (leaves (JObj kvs))) = {}"
    proof (intro equals0I, elim IntE)
      fix ks
      assume new: "ks \<in> set (map fst (map (\<lambda>l. (fst kv # fst l, snd l)) (leaves (snd kv))))"
        and "ks \<in> set (map fst (leaves (JObj kvs)))"
      then obtain l where "l \<in> set (leaves (JObj kvs))" "ks = fst l" unfolding set_map by blast
      then have "hd ks \<in> fst ` set kvs" using object_leaf_head by blast
      moreover have "hd ks = fst kv" using new by auto
      ultimately show False using outside by simp
    qed
    ultimately show ?case unfolding leaves_Cons map_append distinct_append by blast
  qed simp
qed simp_all

lemma update_values:
  "distinct (map fst kvs) \<Longrightarrow> k \<in> fst ` set kvs \<Longrightarrow>
     AList.update k w kvs = map (\<lambda>kv. (fst kv, if fst kv = k then w else snd kv)) kvs"
proof (induction kvs)
  case (Cons kv kvs)
  show ?case
  proof (cases "fst kv = k")
    case True
    then have "map (\<lambda>kv. (fst kv, if fst kv = k then w else snd kv)) kvs = kvs"
      using Cons.prems by (intro map_idI) (auto simp: image_iff)
    then show ?thesis using True by (cases kv) simp
  next
    case False
    then show ?thesis using Cons by (cases kv) auto
  qed
qed simp

definition put_leaf :: "string list \<Rightarrow> json \<Rightarrow> string list \<times> json \<Rightarrow> string list \<times> json" where
  "put_leaf ks w l = (fst l, if fst l = ks then w else snd l)"

lemma mutate_scalar_leaf: "mutate_scalar path v = Inr w \<Longrightarrow> leaves w = [([], w)] \<and> w \<noteq> v \<and> leaves v = [([], v)]"
  by (cases v) auto

lemma mutate_at_leaf:
  assumes "pathable v" "(ks, u) \<in> set (leaves v)"
  shows "case mutate_scalar path u of
      Inl e \<Rightarrow> mutate_at path ks v = Inl e
    | Inr w \<Rightarrow> \<exists>d. mutate_at path ks v = Inr d \<and> leaves d = map (put_leaf ks w) (leaves v)"
  using assms
proof (induction v arbitrary: ks u rule: leaves.induct)
  case (1 kvs)
  then obtain kv ks' where kv: "kv \<in> set kvs" "ks = fst kv # ks'" "(ks', u) \<in> set (leaves (snd kv))" by force
  have distinct: "distinct (map fst kvs)" and sub: "pathable (snd kv)"
    using 1(2) kv(1) by (auto simp: list_all_iff)
  then have found: "map_of kvs (fst kv) = Some (snd kv)" using kv(1) by simp
  from "1.IH" [OF kv(1) sub kv(3)] show ?case
  proof (cases "mutate_scalar path u")
    case (Inr w)
    with "1.IH" [OF kv(1) sub kv(3)] obtain d
      where d: "mutate_at path ks' (snd kv) = Inr d" "leaves d = map (put_leaf ks' w) (leaves (snd kv))" by auto
    have "map (\<lambda>l. (fst x # fst l, snd l)) (leaves (if fst x = fst kv then d else snd x)) =
        map (put_leaf ks w) (map (\<lambda>l. (fst x # fst l, snd l)) (leaves (snd x)))" if "x \<in> set kvs" for x
    proof (cases "fst x = fst kv")
      case True
      then have "x = kv" using distinct that kv(1) by (metis eq_key_imp_eq_value prod.collapse)
      then show ?thesis using d(2) kv(2) by (simp add: put_leaf_def)
    qed (use kv(2) in \<open>simp add: put_leaf_def\<close>)
    then have "leaves (JObj (AList.update (fst kv) d kvs)) = map (put_leaf ks w) (leaves (JObj kvs))"
      using distinct kv(1) by (simp add: update_values map_concat comp_def cong: map_cong)
    then show ?thesis using found d(1) kv(2) Inr by (simp del: leaves.simps)
  qed (use found kv(2) in simp)
qed (auto simp: put_leaf_def dest: mutate_scalar_leaf split: sum.split)

lemma put_leaf_same: "ks \<notin> fst ` set ls \<Longrightarrow> map (put_leaf ks w) ls = ls"
  by (induction ls) (auto simp: put_leaf_def)

lemma one_changed:
  "distinct (map fst ls) \<Longrightarrow> (ks, u) \<in> set ls \<Longrightarrow> u \<noteq> w \<Longrightarrow>
     filter (\<lambda>(l, l'). snd l \<noteq> snd l') (zip ls (map (put_leaf ks w) ls)) = [((ks, u), (ks, w))]"
proof (induction ls)
  case (Cons l ls)
  show ?case
  proof (cases "fst l = ks")
    case True
    then have "l = (ks, u)" "ks \<notin> fst ` set ls"
      using Cons.prems by (auto simp: image_iff)
    moreover have "put_leaf ks w (ks, u) = (ks, w)" by (simp add: put_leaf_def)
    moreover have "filter (\<lambda>(l, l'). snd l \<noteq> snd l') (zip ls ls) = []" by (induction ls) auto
    ultimately show ?thesis using Cons.prems by (simp add: put_leaf_same)
  next
    case False
    then show ?thesis using Cons by (auto simp: put_leaf_def)
  qed
qed simp

lemma check_mutations_Inr:
  "check_mutations canon ecdsa v k members = Inr n \<longleftrightarrow>
     n = k + length members
     \<and> list_all (\<lambda>p. \<exists>d. mutate_leaf (sv_document v) p = Inr d
         \<and> verify_raw_p256 canon ecdsa (sv_public_key_spki v) d (sv_signature v) = Inr False) members"
  by (induction members arbitrary: k) (auto simp: guard_simps)

lemma hkdf_blocks_length:
  "list_all (\<lambda>c. c \<le> 255) cs \<Longrightarrow> \<exists>out. hkdf_blocks prk info block cs = Some out \<and> length out = 32 * length cs"
proof (induction cs arbitrary: block)
  case (Cons c cs)
  then obtain out where "hkdf_blocks prk info (hmac_sha256 prk (block @ info @ [word_of_nat c])) cs = Some out"
    "length out = 32 * length cs" by fastforce
  then show ?case using Cons.prems by (simp add: Let_def)
qed simp

lemma hkdf_blocks_append:
  "hkdf_blocks prk info block (cs @ ds) = Some out \<Longrightarrow> hkdf_blocks prk info block cs = Some (take (32 * length cs) out)"
proof (induction cs arbitrary: block out)
  case (Cons c cs)
  let ?b = "hmac_sha256 prk (block @ info @ [word_of_nat c])"
  from Cons.prems obtain rest where rest: "hkdf_blocks prk info ?b (cs @ ds) = Some rest" "out = ?b @ rest" "c \<le> 255"
    by (auto simp: Let_def split: if_splits)
  from Cons.IH [OF rest(1)] rest(2,3) show ?case by (simp add: Let_def)
qed simp

subsection \<open>Properties\<close>

text \<open>
  An inventory is a partition: a vector passes exactly when the declared fields, each validated or descriptive
  and not both, are the fields it has, and only declared fields are opaque.
\<close>

theorem field_inventory_exact:
  "require_field_inventory v validated descriptive opq = Inr () \<longleftrightarrow>
     validated \<inter> descriptive = {} \<and> opq \<subseteq> validated \<union> descriptive \<and> set (field_paths opq [] v) = validated \<union> descriptive"
  by (auto simp: require_field_inventory_def guarded_Inr Let_def)

text \<open>
  A mutation is one change: at any leaf of a document whose keys can be written in a path, the mutant has the same
  leaves and differs from the document in that leaf and no other, unless the leaf is neither a text nor an int.
\<close>

theorem mutation_changes_one_leaf:
  assumes "pathable (JObj kvs)" "path \<in> set (leaf_paths [] (JObj kvs))"
  shows "case mutate_leaf (JObj kvs) path of
      Inl e \<Rightarrow> e = Not_A_Scalar path
    | Inr d \<Rightarrow> map fst (leaves d) = map fst (leaves (JObj kvs))
        \<and> map (\<lambda>(l, l'). path_text (fst l))
            (filter (\<lambda>(l, l'). snd l \<noteq> snd l') (zip (leaves (JObj kvs)) (leaves d))) = [path]"
proof -
  from assms(2) obtain ks u where leaf: "(ks, u) \<in> set (leaves (JObj kvs))" "path = path_text ks"
    unfolding leaf_paths_leaves by (metis (no_types, lifting) imageE prod.collapse)
  then have "ks \<noteq> []" using object_leaf_head by fastforce
  then have path: "mutate_leaf (JObj kvs) path = mutate_at path ks (JObj kvs)"
    using split_path_text leaf_keys [OF assms(1) leaf(1)] leaf(2) by (simp add: mutate_leaf_def)
  show ?thesis
  proof (cases "mutate_scalar path u")
    case (Inl e)
    then have "e = Not_A_Scalar path" by (cases u) auto
    then show ?thesis using mutate_at_leaf [OF assms(1) leaf(1), of path] Inl path by simp
  next
    case (Inr w)
    then obtain d where d: "mutate_at path ks (JObj kvs) = Inr d" "leaves d = map (put_leaf ks w) (leaves (JObj kvs))"
      using mutate_at_leaf [OF assms(1) leaf(1), of path] by auto
    have "map fst (map (put_leaf ks w) ls) = map fst ls" for ls by (simp add: put_leaf_def comp_def)
    moreover have "u \<noteq> w" using mutate_scalar_leaf [OF Inr] by blast
    ultimately show ?thesis
      using one_changed [OF leaves_distinct [OF assms(1)] leaf(1)] path d leaf(2) by (simp del: leaves.simps)
  qed
qed

lemma mutation_changes_one_leaf_witness:
  "case mutate_leaf (JObj [(''a'', JObj [(''b'', JInt 1), (''c'', JStr ''x'')])]) ''a.b'' of
     Inl e \<Rightarrow> e = Not_A_Scalar ''a.b''
   | Inr d \<Rightarrow> map fst (leaves d) = [[''a'', ''b''], [''a'', ''c'']]"
proof -
  have "''a.b'' \<in> set (leaf_paths [] (JObj [(''a'', JObj [(''b'', JInt 1), (''c'', JStr ''x'')])]))"
    by (simp add: dotted_def)
  from mutation_changes_one_leaf [OF _ this] show ?thesis by (auto split: sum.split)
qed

text \<open>
  C32. An accepted vector binds its document. The builder emits the published bytes: they spell the published canonical
  text, have the published digest, and the key is the one named. The published signature verifies over them under that
  key, and for every leaf of the document it does not verify over the runner's mutant of that leaf. The number returned
  counts these checks.
\<close>

theorem accepted_vector_binds:
  assumes "check_signed_document_vector canon ecdsa rebuilt v = Inr n"
  shows "n = 1 + length (leaf_paths [] (sv_document v))
    \<and> sv_signature_algorithm v = ''ES256'' \<and> sv_signature_encoding v = ''64-byte-r-concat-s-base64url-no-padding''
    \<and> (\<exists>bytes key raw. canon rebuilt = Some bytes \<and> canon (sv_document v) = Some bytes
        \<and> utf8_decode bytes = Some (sv_canonical_utf8 v) \<and> sv_canonical_sha256 v = ''sha256:'' @ sha256_hex bytes
        \<and> b64url_decode (sv_public_key_spki v) = Some key \<and> sv_key_id v = ''sha256:'' @ sha256_hex key
        \<and> b64url_decode (sv_signature v) = Some raw \<and> length raw = 64
        \<and> ecdsa key (big_endian (take 32 raw)) (big_endian (drop 32 raw)) bytes
        \<and> list_all (\<lambda>p. \<exists>d mutant. mutate_leaf (sv_document v) p = Inr d \<and> canon d = Some mutant
            \<and> \<not> ecdsa key (big_endian (take 32 raw)) (big_endian (drop 32 raw)) mutant) (leaf_paths [] (sv_document v)))"
proof -
  let ?leaves = "leaf_paths [] (sv_document v)"
  from assms obtain bytes key where
    bytes: "canon (sv_document v) = Some bytes" "utf8_decode bytes = Some (sv_canonical_utf8 v)"
      "''sha256:'' @ sha256_hex bytes = sv_canonical_sha256 v" "canon rebuilt = Some bytes"
    and coding: "sv_signature_algorithm v = ''ES256''" "sv_signature_encoding v = ''64-byte-r-concat-s-base64url-no-padding''"
    and key: "b64url_decode (sv_public_key_spki v) = Some key" "''sha256:'' @ sha256_hex key = sv_key_id v"
    and valid: "verify_raw_p256 canon ecdsa (sv_public_key_spki v) (sv_document v) (sv_signature v) = Inr True"
    and matrix: "sort (sv_mutate v) = ?leaves"
    and mutants: "check_mutations canon ecdsa v 1 (sv_mutate v) = Inr n"
    unfolding check_signed_document_vector_def by (auto simp: guard_simps)
  have "length (sv_mutate v) = length ?leaves" "set (sv_mutate v) = set ?leaves"
    using arg_cong [OF matrix, of length] arg_cong [OF matrix, of set] by simp_all
  then have n: "n = 1 + length ?leaves"
    and all: "list_all (\<lambda>p. \<exists>d. mutate_leaf (sv_document v) p = Inr d
      \<and> verify_raw_p256 canon ecdsa (sv_public_key_spki v) d (sv_signature v) = Inr False) ?leaves"
    using mutants by (simp_all add: check_mutations_Inr list_all_iff)
  from valid key bytes obtain raw where raw: "b64url_decode (sv_signature v) = Some raw" "length raw = 64"
    "ecdsa key (big_endian (take 32 raw)) (big_endian (drop 32 raw)) bytes"
    by (auto simp: verify_raw_p256_def guard_simps split: if_splits)
  have "list_all (\<lambda>p. \<exists>d mutant. mutate_leaf (sv_document v) p = Inr d \<and> canon d = Some mutant
      \<and> \<not> ecdsa key (big_endian (take 32 raw)) (big_endian (drop 32 raw)) mutant) ?leaves"
    using all raw(1,2) key(1) by (fastforce simp: list_all_iff verify_raw_p256_def guard_simps)
  with n coding bytes key raw show ?thesis
    by (intro conjI exI [of _ bytes] exI [of _ key] exI [of _ raw]) simp_all
qed

definition sample_canon :: "json \<Rightarrow> byte list option" where
  "sample_canon v = Some (utf8 (json_text (\<lambda>_. []) v))"

definition sample_vector :: signed_vector where
  "sample_vector =
     \<lparr>sv_document = JObj [(''a'', JInt 1)], sv_canonical_utf8 = json_text (\<lambda>_. []) (JObj [(''a'', JInt 1)]),
      sv_canonical_sha256 = ''sha256:'' @ sha256_hex (utf8 (json_text (\<lambda>_. []) (JObj [(''a'', JInt 1)]))),
      sv_public_key_spki = b64url [7], sv_key_id = ''sha256:'' @ sha256_hex [7], sv_signature = b64url (replicate 64 0),
      sv_signature_algorithm = ''ES256'', sv_signature_encoding = ''64-byte-r-concat-s-base64url-no-padding'',
      sv_mutate = [''a'']\<rparr>"

lemma accepted_vector_binds_witness:
  "\<exists>bytes. sample_canon (sv_document sample_vector) = Some bytes \<and> utf8_decode bytes = Some (sv_canonical_utf8 sample_vector)
     \<and> sv_canonical_sha256 sample_vector = ''sha256:'' @ sha256_hex bytes"
proof -
  have "utf8 (json_text (\<lambda>_. []) (JObj [(''a'', JInt 2)])) \<noteq> utf8 (json_text (\<lambda>_. []) (JObj [(''a'', JInt 1)]))"
    by (simp add: utf8_def utf8_char_def string_text_def escape_char_def int_text_def digits.simps Let_def)
  then have "check_signed_document_vector sample_canon (\<lambda>key r s m. m = utf8 (json_text (\<lambda>_. []) (JObj [(''a'', JInt 1)])))
      (JObj [(''a'', JInt 1)]) sample_vector = Inr 2"
    by (simp add: check_signed_document_vector_def sample_vector_def sample_canon_def guarded_simps utf8_decode_utf8
        b64url_decode_b64url verify_raw_p256_def mutate_leaf_def dotted_def del: json_text.simps)
  from accepted_vector_binds [OF this] show ?thesis by blast
qed

lemma hkdf_expand_some: "n \<le> 8160 \<Longrightarrow> \<exists>out. hkdf_expand prk info n = Some out"
proof -
  assume "n \<le> 8160"
  then have "list_all (\<lambda>c. c \<le> 255) [1..<(n + 31) div 32 + 1]" by (auto simp: list_all_iff)
  from hkdf_blocks_length [OF this, of prk info "[]"] show ?thesis by (auto simp: hkdf_expand_def)
qed

text \<open>
  Expansion is a stream: any length up to 255 blocks is produced, and a shorter key is a prefix of a longer one.
\<close>

theorem hkdf_expand_stream:
  assumes "n \<le> 8160" "m \<le> n"
  shows "\<exists>out. hkdf_expand prk info n = Some out \<and> length out = n \<and> hkdf_expand prk info m = Some (take m out)"
proof -
  let ?cs = "\<lambda>n. [1..<(n + 31) div 32 + 1]"
  have "list_all (\<lambda>c. c \<le> 255) (?cs n)" using assms(1) by (auto simp: list_all_iff)
  from hkdf_blocks_length [OF this, of prk info "[]"] obtain out
    where out: "hkdf_blocks prk info [] (?cs n) = Some out" "length out = 32 * ((n + 31) div 32)" by auto
  have "?cs n = ?cs m @ [(m + 31) div 32 + 1..<(n + 31) div 32 + 1]"
    using upt_add_eq_append [of 1 "(m + 31) div 32 + 1" "(n + 31) div 32 - (m + 31) div 32"] assms(2) div_le_mono [of "m + 31" "n + 31" 32]
    by simp
  then have "hkdf_blocks prk info [] (?cs m) = Some (take (32 * ((m + 31) div 32)) out)"
    using hkdf_blocks_append [of prk info "[]" "?cs m"] out(1) by simp
  moreover have "m \<le> 32 * ((m + 31) div 32)" "n \<le> 32 * ((n + 31) div 32)" by linarith+
  ultimately show ?thesis
    using out assms(2) by (simp add: hkdf_expand_def min_def)
qed

lemma hkdf_expand_stream_witness:
  "\<exists>out. hkdf_expand [1] [] 64 = Some out \<and> length out = 64 \<and> hkdf_expand [1] [] 40 = Some (take 40 out)"
  by (rule hkdf_expand_stream) simp_all

text \<open>
  The key derivation takes the first candidate in range and gives up only when all 256 are out of range.
\<close>

theorem derived_scalar_first:
  "derive_p256_scalar ikm =
     find (\<lambda>k. 0 < k \<and> k < p256_order) (map (\<lambda>counter. the (candidate_scalar ikm counter)) [0..<256])"
proof -
  have "hkdf_expand prk info 32 \<noteq> None" for prk info
    using hkdf_expand_some [of 32 prk info] by auto
  then have "labeled_expand suite_id prk label info 32 \<noteq> None" for suite_id prk label info
    by (simp add: labeled_expand_def to_bytes_def)
  then have some: "candidate_scalar ikm counter = Some (the (candidate_scalar ikm counter))" for counter
    by (simp add: candidate_scalar_def Let_def)
  have "first_scalar ikm cs = find (\<lambda>k. 0 < k \<and> k < p256_order) (map (\<lambda>counter. the (candidate_scalar ikm counter)) cs)" for cs
  proof (induction cs)
    case (Cons c cs)
    then show ?case by (subst first_scalar.simps, subst some) simp
  qed simp
  then show ?thesis by (simp only: derive_p256_scalar_def)
qed

end
