(* ===== verification/Audit_Publisher.thy ===== *)
theory Audit_Publisher
  imports Json_Values "HOL-Library.Multiset"
begin

text \<open>
  The audit stream and its publisher: the envelope (\<open>biz/audit/protocol.py\<close>), the stream every authority ensures
  (\<open>integrations/audit/stream.py\<close>) and the JetStream publisher (\<open>integrations/audit/nats.py\<close>). What the broker answers is
  a parameter. A call is the sequence of its requests to the broker together with its result.
\<close>

subsection \<open>The envelope\<close>

record audit_envelope =
  ae_event_id :: string
  ae_producer :: string
  ae_producer_seq :: int
  ae_category :: string
  ae_owner_id :: "string option"
  ae_subject_type :: string
  ae_subject_id :: string
  ae_action :: string
  ae_outcome :: string
  ae_severity :: string
  ae_reason :: "string option"
  ae_trace_id :: "string option"
  ae_data_classification :: string
  ae_schema_version :: int
  ae_payload :: json_object
  ae_occurred_at :: datetime

definition audit_envelope_fields :: "audit_envelope \<Rightarrow> (string \<times> bool) list" where
  "audit_envelope_fields e =
     [(''event_id'', len_between 1 64 (ae_event_id e)), (''producer'', len_between 1 64 (ae_producer e)),
      (''producer_seq'', 1 \<le> ae_producer_seq e), (''category'', ae_category e \<in> {''governance'', ''receipt''}),
      (''owner_id'', opt_ok (len_between 0 64) (ae_owner_id e)), (''subject_type'', len_between 1 64 (ae_subject_type e)),
      (''subject_id'', len_between 1 128 (ae_subject_id e)), (''action'', len_between 1 128 (ae_action e)),
      (''outcome'', ae_outcome e \<in> {''success'', ''failure'', ''denied'', ''deferred''}),
      (''severity'', ae_severity e \<in> {''info'', ''warn'', ''error'', ''critical''}),
      (''reason'', opt_ok (len_between 0 256) (ae_reason e)), (''trace_id'', opt_ok (len_between 0 64) (ae_trace_id e)),
      (''data_classification'', ae_data_classification e \<in> {''safe'', ''sensitive'', ''restricted''}),
      (''schema_version'', 1 \<le> ae_schema_version e)]"

definition make_audit_envelope :: "audit_envelope \<Rightarrow> string invalid + audit_envelope" where
  "make_audit_envelope e = build (audit_envelope_fields e) [] e"

definition wf_audit_envelope :: "audit_envelope \<Rightarrow> bool" where
  "wf_audit_envelope e \<longleftrightarrow> admissible (audit_envelope_fields e) no_rules"

interpretation audit_envelopes: model_class make_audit_envelope wf_audit_envelope
  by (rule build_class; simp add: make_audit_envelope_def wf_audit_envelope_def)

subsection \<open>The stream\<close>

definition audit_stream_name :: string where "audit_stream_name = ''EIDOLON_AUDIT_V1''"
definition audit_subject_prefix :: string where "audit_subject_prefix = ''eidolon.audit.v1''"
definition audit_max_age_s :: int where "audit_max_age_s = 30 * 24 * 60 * 60"
definition audit_max_bytes :: int where "audit_max_bytes = 512 * 1024 * 1024"

record stream_config =
  sg_name :: string
  sg_subjects :: "string list"
  sg_retention :: string
  sg_storage :: string
  sg_max_age_s :: int
  sg_max_bytes :: int

definition audit_stream_config :: stream_config where
  "audit_stream_config =
     \<lparr>sg_name = audit_stream_name, sg_subjects = [audit_subject_prefix @ ''.>''], sg_retention = ''limits'',
      sg_storage = ''file'', sg_max_age_s = audit_max_age_s,
      sg_max_bytes = audit_max_bytes\<rparr>"

text \<open>\<open>str.isalnum\<close> of one character: ASCII letters and digits, and the letters, digits and fractions of Latin-1.\<close>

definition is_alnum :: "char \<Rightarrow> bool" where
  "is_alnum c \<longleftrightarrow> is_ascii_alnum c \<or> (of_char c :: nat) \<in> {170, 178, 179, 181, 185, 186, 188, 189, 190}
     \<or> 192 \<le> (of_char c :: nat) \<and> (of_char c :: nat) \<noteq> 215 \<and> (of_char c :: nat) \<noteq> 247"

definition subject_token :: "string \<Rightarrow> string" where
  "subject_token producer =
     (let normalized = map (\<lambda>c. if is_alnum c \<or> c \<in> set ''_-'' then c else CHR ''_'') producer
      in if normalized = [] then ''unknown'' else normalized)"

definition audit_subject :: "string \<Rightarrow> string" where
  "audit_subject producer = audit_subject_prefix @ ''.'' @ subject_token producer"

datatype broker_answer = Fine | Not_There | Bad_Request | Broker_Error string

datatype broker_call =
    Open_Connection | Ask_Stream string | Add_Stream stream_config | Publish string string | Drain_Connection | Close_Connection

text \<open>How a request that must succeed fails.\<close>

definition answered_fine :: "broker_answer \<Rightarrow> string + unit" where
  "answered_fine a =
     (case a of Fine \<Rightarrow> Inr () | Not_There \<Rightarrow> Inl ''NotFoundError'' | Bad_Request \<Rightarrow> Inl ''BadRequestError''
      | Broker_Error m \<Rightarrow> Inl m)"

text \<open>
  Ensuring the stream, one request at a time: the authority asks for the stream, adds it where it is not there, and takes
  a bad request for someone else having added it. Any other error ends the call.
\<close>

datatype ensure_pc = Asking | Adding | Ensured | Gave_Up string

fun ensure_request :: "ensure_pc \<Rightarrow> broker_call option" where
  "ensure_request Asking = Some (Ask_Stream audit_stream_name)"
| "ensure_request Adding = Some (Add_Stream audit_stream_config)"
| "ensure_request Ensured = None"
| "ensure_request (Gave_Up m) = None"

definition ensured_or_raised :: "broker_answer \<Rightarrow> ensure_pc" where
  "ensured_or_raised a = (case answered_fine a of Inr _ \<Rightarrow> Ensured | Inl m \<Rightarrow> Gave_Up m)"

fun ensure_after :: "ensure_pc \<Rightarrow> broker_answer \<Rightarrow> ensure_pc" where
  "ensure_after Asking a = (if a = Not_There then Adding else ensured_or_raised a)"
| "ensure_after Adding a = (if a = Bad_Request then Ensured else ensured_or_raised a)"
| "ensure_after Ensured a = Ensured"
| "ensure_after (Gave_Up m) a = Gave_Up m"

text \<open>One step against a broker, and the whole call on the broker's answers to its two requests.\<close>

definition ensure_step ::
  "('s \<Rightarrow> broker_call \<Rightarrow> broker_answer \<times> 's) \<Rightarrow> 's \<Rightarrow> ensure_pc \<Rightarrow> broker_call list \<times> 's \<times> ensure_pc" where
  "ensure_step serve s pc =
     (case ensure_request pc of
        None \<Rightarrow> ([], s, pc)
      | Some c \<Rightarrow> (case serve s c of (a, s') \<Rightarrow> ([c], s', ensure_after pc a)))"

definition ensure_audit_stream :: "broker_answer \<Rightarrow> broker_answer \<Rightarrow> broker_call list \<times> (string + unit)" where
  "ensure_audit_stream info add =
     (let serve = (\<lambda>_ c. (case c of Add_Stream _ \<Rightarrow> add | _ \<Rightarrow> info, ()))
      in case ensure_step serve () Asking of
           (first, _, pc) \<Rightarrow> (case ensure_step serve () pc of
             (second, _, pc') \<Rightarrow> (first @ second, case pc' of Gave_Up m \<Rightarrow> Inl m | _ \<Rightarrow> Inr ())))"

lemma ensure_audit_stream_eq:
  "ensure_audit_stream info add =
     (if info = Not_There
      then ([Ask_Stream audit_stream_name, Add_Stream audit_stream_config],
            if add = Bad_Request then Inr () else answered_fine add)
      else ([Ask_Stream audit_stream_name], answered_fine info))"
  by (auto simp: ensure_audit_stream_def ensure_step_def ensured_or_raised_def answered_fine_def
      split: broker_answer.splits)

subsection \<open>Reporting failures\<close>

definition failure_report_every :: int where "failure_report_every = 60"

definition should_report_publish_failure :: "int \<Rightarrow> bool" where
  "should_report_publish_failure n \<longleftrightarrow> (if n \<le> 1 then True else n mod failure_report_every = 0)"

subsection \<open>The publisher\<close>

text \<open>
  A publisher holds a connection with its JetStream context, or neither; \<open>alive\<close> says whether the connection it holds
  is still open.
\<close>

record publisher =
  pu_connection :: "nat option"
  pu_jetstream :: "nat option"

definition new_publisher :: publisher where
  "new_publisher = \<lparr>pu_connection = None, pu_jetstream = None\<rparr>"

definition connect_publisher ::
  "(nat \<Rightarrow> bool) \<Rightarrow> string + nat \<Rightarrow> broker_answer \<Rightarrow> broker_answer \<Rightarrow> publisher
     \<Rightarrow> broker_call list \<times> publisher \<times> (string + unit)" where
  "connect_publisher alive opened info add p =
     (if (case pu_connection p of Some c \<Rightarrow> alive c | None \<Rightarrow> False) then ([], p, Inr ())
      else case opened of
        Inl e \<Rightarrow> ([Open_Connection], new_publisher, Inl e)
      | Inr c \<Rightarrow>
          (case ensure_audit_stream info add of
             (calls, Inl e) \<Rightarrow> (Open_Connection # calls @ [Close_Connection], new_publisher, Inl e)
           | (calls, Inr _) \<Rightarrow> (Open_Connection # calls, \<lparr>pu_connection = Some c, pu_jetstream = Some c\<rparr>, Inr ())))"

text \<open>Draining may time out, which closes the connection, or raise.\<close>

definition close_publisher :: "string + bool \<Rightarrow> publisher \<Rightarrow> broker_call list \<times> publisher \<times> (string + unit)" where
  "close_publisher drained p =
     (case pu_connection p of
        None \<Rightarrow> ([], new_publisher, Inr ())
      | Some c \<Rightarrow>
          (case drained of
             Inl e \<Rightarrow> ([Drain_Connection], new_publisher, Inl e)
           | Inr in_time \<Rightarrow> (if in_time then [Drain_Connection] else [Drain_Connection, Close_Connection], new_publisher, Inr ())))"

subsection \<open>Publishing a batch\<close>

text \<open>
  The events of a batch are published at once, each under its own id, at most \<open>max 1 concurrency\<close> of them in flight:
  the others wait at the semaphore in the order of the batch. An answer frees a place for the next. \<open>fate\<close> is what the
  broker answers to an event: nothing for one it stored, or the type and the text of the error. A schedule says which
  of the events in flight is answered next.
\<close>

record batch =
  ba_waiting :: "audit_envelope list"
  ba_flying :: "audit_envelope list"
  ba_answered :: "audit_envelope list"
  ba_failed :: "(string \<times> string) option"

definition publish_call :: "audit_envelope \<Rightarrow> broker_call" where
  "publish_call e = Publish (audit_subject (ae_producer e)) (ae_event_id e)"

definition start_batch :: "int \<Rightarrow> audit_envelope list \<Rightarrow> batch" where
  "start_batch concurrency events =
     (let n = nat (max 1 concurrency)
      in \<lparr>ba_waiting = drop n events, ba_flying = take n events, ba_answered = [], ba_failed = None\<rparr>)"

text \<open>The first failure ends the gathering; the broker is then asked about the stream.\<close>

definition answer_next ::
  "(audit_envelope \<Rightarrow> (string \<times> string) option) \<Rightarrow> bool \<Rightarrow> nat \<Rightarrow> batch \<Rightarrow> broker_call list \<times> batch" where
  "answer_next fate probes i b =
     (if i < length (ba_flying b)
      then let e = ba_flying b ! i; next = take 1 (ba_waiting b); first = ba_failed b = None \<and> fate e \<noteq> None
           in (map publish_call next @ (if first \<and> probes then [Ask_Stream audit_stream_name] else []),
               \<lparr>ba_waiting = drop 1 (ba_waiting b),
                ba_flying = take i (ba_flying b) @ drop (Suc i) (ba_flying b) @ next,
                ba_answered = ba_answered b @ [e], ba_failed = (if first then fate e else ba_failed b)\<rparr>)
      else ([], b))"

fun run_batch ::
  "(audit_envelope \<Rightarrow> (string \<times> string) option) \<Rightarrow> bool \<Rightarrow> nat list \<Rightarrow> batch \<Rightarrow> broker_call list \<times> batch" where
  "run_batch fate probes [] b = ([], b)"
| "run_batch fate probes (i # is) b =
     (case answer_next fate probes i b of (calls, c) \<Rightarrow>
        (case run_batch fate probes is c of (later, d) \<Rightarrow> (calls @ later, d)))"

text \<open>
  The text of a failure. \<open>probe\<close> is the broker's answer about the stream: the type and the text of an error, or the
  stream's message count and last sequence number. The dash of the text is written as its UTF-8 bytes.
\<close>

definition em_dash :: string where
  "em_dash = [CHR 0xE2, CHR 0x80, CHR 0x94]"

definition describe_failure :: "string \<times> string \<Rightarrow> string \<Rightarrow> nat option \<Rightarrow> (string \<times> string) + (int \<times> int) \<Rightarrow> string" where
  "describe_failure error producer jetstream probe =
     (let described = ''publishing to '' @ audit_stream_name @ '' as '' @ audit_subject producer @ '' failed '' @ em_dash @ '' ''
                        @ fst error @ '': '' @ snd error
      in case jetstream of
           None \<Rightarrow> described
         | Some _ \<Rightarrow>
             (case probe of
                Inl (kind, message) \<Rightarrow>
                  described @ ''; the broker could not describe '' @ audit_stream_name @ '' either ('' @ kind @ '': '' @ message @ '')''
              | Inr (messages, last_seq) \<Rightarrow>
                  described @ ''; the broker still describes '' @ audit_stream_name @ '' (messages='' @ int_text messages
                    @ '', last_seq='' @ int_text last_seq @ '') but did not store this one '' @ em_dash
                    @ '' the reason is in the broker's own log, which it does not publish to any subject''))"

text \<open>What \<open>publish_many\<close> raises: the failure to connect as it is, a failed publish described.\<close>

datatype publish_error = Not_Connected string | Audit_Publish_Error string

text \<open>The outcome is absent while the gathering still waits for an answer.\<close>

definition batch_outcome ::
  "audit_envelope list \<Rightarrow> nat option \<Rightarrow> (string \<times> string) + (int \<times> int) \<Rightarrow> batch \<Rightarrow> (publish_error + string set) option" where
  "batch_outcome events jetstream probe b =
     (case ba_failed b of
        Some error \<Rightarrow> Some (Inl (Audit_Publish_Error (describe_failure error (ae_producer (hd events)) jetstream probe)))
      | None \<Rightarrow>
          (if ba_flying b = [] \<and> ba_waiting b = [] then Some (Inr (set (map ae_event_id events))) else None))"

definition publish_many ::
  "(nat \<Rightarrow> bool) \<Rightarrow> string + nat \<Rightarrow> broker_answer \<Rightarrow> broker_answer \<Rightarrow> int
     \<Rightarrow> (audit_envelope \<Rightarrow> (string \<times> string) option) \<Rightarrow> (string \<times> string) + (int \<times> int) \<Rightarrow> nat list
     \<Rightarrow> audit_envelope list \<Rightarrow> publisher \<Rightarrow> broker_call list \<times> publisher \<times> (publish_error + string set) option" where
  "publish_many alive opened info add concurrency fate probe schedule events p =
     (if events = [] then ([], p, Some (Inr {}))
      else case connect_publisher alive opened info add p of
        (calls, q, Inl e) \<Rightarrow> (calls, q, Some (Inl (Not_Connected e)))
      | (calls, q, Inr _) \<Rightarrow>
          (let start = start_batch concurrency events
           in case run_batch fate (pu_jetstream q \<noteq> None) schedule start of
                (later, b) \<Rightarrow> (calls @ map publish_call (ba_flying start) @ later, q, batch_outcome events (pu_jetstream q) probe b)))"

text \<open>\<open>require_audit_transport\<close>: whether the NATS package can be imported.\<close>

definition require_audit_transport :: "bool \<Rightarrow> string + unit" where
  "require_audit_transport importable =
     (if importable then Inr () else Inl ''install eidolon-sdk[audit] to publish global audit'')"

subsection \<open>Authorities racing for the stream\<close>


subsection \<open>Subjects\<close>

lemma harmful_not_alnum [simp]:
  "\<not> is_alnum CHR ''.''" "\<not> is_alnum CHR ''*''" "\<not> is_alnum CHR ''>''" "\<not> is_alnum CHR '' ''"
  by (auto simp: is_alnum_def is_ascii_alnum_def is_ascii_digit_def is_ascii_upper_def is_ascii_lower_def code_between_def)

text \<open>A producer's token is one non-empty token of a NATS subject.\<close>

lemma subject_token_is_token:
  "subject_token p \<noteq> [] \<and> list_all (\<lambda>c. c \<notin> set ''.*> '') (subject_token p)"
proof (cases p)
  case Nil
  then show ?thesis by (simp add: subject_token_def)
next
  case (Cons a as)
  then have "subject_token p = map (\<lambda>c. if is_alnum c \<or> c \<in> set ''_-'' then c else CHR ''_'') p"
    by (simp add: subject_token_def)
  with Cons show ?thesis by (auto simp: list_all_iff)
qed

subsection \<open>Reporting\<close>

lemma multiple_in_window:
  fixes k n :: int
  shows "n \<le> k \<and> k < n + 60 \<and> k mod 60 = 0 \<longleftrightarrow> k = 60 * ((n + 59) div 60)"
proof
  assume window: "n \<le> k \<and> k < n + 60 \<and> k mod 60 = 0"
  then have "60 dvd k" by (simp add: dvd_eq_mod_eq_0)
  then obtain a where "k = 60 * a" by (rule dvdE)
  with window have "a = (n + 59) div 60" by auto
  with \<open>k = 60 * a\<close> show "k = 60 * ((n + 59) div 60)" by simp
next
  assume "k = 60 * ((n + 59) div 60)"
  moreover have "60 * ((n + 59) div 60) = n + 59 - (n + 59) mod 60" by (simp add: minus_mod_eq_mult_div)
  moreover have "0 \<le> (n + 59) mod 60" "(n + 59) mod 60 < 60" by simp_all
  ultimately show "n \<le> k \<and> k < n + 60 \<and> k mod 60 = 0" by auto
qed

text \<open>
  The first attempt is always reported, and from the second on exactly one attempt of any sixty in a row.
\<close>
theorem publish_failures_reported_hourly:
  assumes "2 \<le> n"
  shows "should_report_publish_failure 1 \<and> (\<exists>!k. n \<le> k \<and> k < n + failure_report_every \<and> should_report_publish_failure k)"
proof -
  have "n \<le> k \<and> k < n + failure_report_every \<and> should_report_publish_failure k \<longleftrightarrow> k = 60 * ((n + 59) div 60)" for k
    using assms multiple_in_window [of n k] by (auto simp: should_report_publish_failure_def failure_report_every_def)
  then show ?thesis by (simp add: should_report_publish_failure_def)
qed

theorem publish_failures_reported_hourly_witness:
  "\<exists>!k. (61::int) \<le> k \<and> k < 61 + failure_report_every \<and> should_report_publish_failure k"
  using publish_failures_reported_hourly [of 61] by simp

subsection \<open>The batch\<close>

definition is_publish :: "broker_call \<Rightarrow> bool" where
  "is_publish c = (case c of Publish _ _ \<Rightarrow> True | _ \<Rightarrow> False)"

fun first_failure :: "(audit_envelope \<Rightarrow> (string \<times> string) option) \<Rightarrow> audit_envelope list \<Rightarrow> (string \<times> string) option" where
  "first_failure fate [] = None"
| "first_failure fate (e # es) = (if fate e = None then first_failure fate es else fate e)"

lemma first_failure_snoc:
  "first_failure fate (es @ [e]) = (if first_failure fate es = None then fate e else first_failure fate es)"
  by (induction es) auto

lemma first_failure_None: "first_failure fate es = None \<longleftrightarrow> list_all (\<lambda>e. fate e = None) es"
  by (induction es) auto

lemma first_failure_is: "first_failure fate es = Some f \<Longrightarrow> \<exists>e \<in> set es. fate e = Some f"
  by (induction es) (auto split: if_splits)

lemma list_all_set_cong: "set xs = set ys \<Longrightarrow> list_all P xs = list_all P ys"
  by (simp add: list_all_iff)

lemma list_all_at: "e \<in> set es \<Longrightarrow> list_all P es \<Longrightarrow> P e"
  by (simp add: list_all_iff)

text \<open>
  Of a batch, each event is answered, in flight or waiting; no more than the limit are in flight, and none waits while
  a place is free; the failure kept is that of the first answer that is one.
\<close>

definition batch_ok :: "int \<Rightarrow> audit_envelope list \<Rightarrow> (audit_envelope \<Rightarrow> (string \<times> string) option) \<Rightarrow> batch \<Rightarrow> bool" where
  "batch_ok concurrency events fate b \<longleftrightarrow>
     mset (ba_answered b) + mset (ba_flying b) + mset (ba_waiting b) = mset events
     \<and> length (ba_flying b) \<le> nat (max 1 concurrency)
     \<and> (ba_waiting b \<noteq> [] \<longrightarrow> length (ba_flying b) = nat (max 1 concurrency))
     \<and> ba_failed b = first_failure fate (ba_answered b)"

lemma batch_ok_start: "batch_ok c es fate (start_batch c es)"
proof -
  have "mset (take n es) + mset (drop n es) = mset es" for n
    by (metis append_take_drop_id mset_append)
  then show ?thesis by (simp add: batch_ok_def start_batch_def Let_def)
qed

lemma mset_take_nth_drop: "i < length xs \<Longrightarrow> mset xs = add_mset (xs ! i) (mset (take i xs @ drop (Suc i) xs))"
  by (metis id_take_nth_drop mset.simps(2) mset_append union_mset_add_mset_right)

lemma batch_ok_step:
  assumes ok: "batch_ok c es fate b"
  shows "batch_ok c es fate (snd (answer_next fate probes i b))"
proof (cases "i < length (ba_flying b)")
  case True
  let ?fly = "take i (ba_flying b) @ drop (Suc i) (ba_flying b) @ take 1 (ba_waiting b)"
  have parts: "mset (ba_waiting b) = mset (take 1 (ba_waiting b)) + mset (drop 1 (ba_waiting b))"
    by (metis append_take_drop_id mset_append)
  have "mset (ba_answered b @ [ba_flying b ! i]) + mset ?fly + mset (drop 1 (ba_waiting b)) = mset es"
    using ok mset_take_nth_drop [OF True] parts by (simp add: batch_ok_def ac_simps)
  moreover have "length ?fly \<le> nat (max 1 c)"
    using ok True by (cases "ba_waiting b") (auto simp: batch_ok_def)
  moreover have "drop 1 (ba_waiting b) \<noteq> [] \<longrightarrow> length ?fly = nat (max 1 c)"
    using ok True by (cases "ba_waiting b") (auto simp: batch_ok_def)
  moreover have "ba_failed b = first_failure fate (ba_answered b)"
    using ok by (simp only: batch_ok_def)
  ultimately show ?thesis
    using True by (cases "fate (ba_flying b ! i)"; cases "first_failure fate (ba_answered b)")
      (simp_all add: batch_ok_def answer_next_def Let_def first_failure_snoc del: length_append)
next
  case False
  with ok show ?thesis by (simp add: answer_next_def)
qed

lemma batch_ok_run: "batch_ok c es fate b \<Longrightarrow> batch_ok c es fate (snd (run_batch fate probes is b))"
proof (induction "is" arbitrary: b)
  case (Cons i "is")
  then show ?case
    using batch_ok_step [OF Cons.prems, of probes i] by (simp split: prod.splits) (metis snd_conv)
qed simp

text \<open>The requests of a run are one publish for each event that got its place.\<close>

lemma is_publish_simps [simp]: "is_publish (publish_call e)" "\<not> is_publish (Ask_Stream n)"
  by (simp_all add: is_publish_def publish_call_def)

lemma filter_publish_calls [simp]: "filter is_publish (map publish_call xs) = map publish_call xs"
  by (induction xs) simp_all

lemma step_publishes:
  "image_mset publish_call (mset (ba_answered b) + mset (ba_flying b)) + mset (filter is_publish (fst (answer_next fate probes i b)))
     = image_mset publish_call (mset (ba_answered (snd (answer_next fate probes i b))) + mset (ba_flying (snd (answer_next fate probes i b))))"
proof (cases "i < length (ba_flying b)")
  case True
  let ?r = "answer_next fate probes i b" and ?gap = "take i (ba_flying b) @ drop (Suc i) (ba_flying b)"
  have "filter is_publish (fst ?r) = map publish_call (take 1 (ba_waiting b))"
    using True by (simp add: answer_next_def Let_def)
  moreover have "mset (ba_flying (snd ?r)) = mset ?gap + mset (take 1 (ba_waiting b))"
    using True by (simp add: answer_next_def Let_def)
  moreover have "mset (ba_answered (snd ?r)) = add_mset (ba_flying b ! i) (mset (ba_answered b))"
    using True by (simp add: answer_next_def Let_def)
  ultimately show ?thesis
    by (simp only: mset_take_nth_drop [OF True]) simp
next
  case False
  then show ?thesis by (simp add: answer_next_def)
qed

lemma run_asks:
  "run_batch fate True is b = (calls, c) \<Longrightarrow> ba_failed b = None \<Longrightarrow> ba_failed c \<noteq> None \<Longrightarrow> Ask_Stream audit_stream_name \<in> set calls"
proof (induction "is" arbitrary: b calls)
  case (Cons i "is")
  obtain first d where step: "answer_next fate True i b = (first, d)" by fastforce
  obtain later e where rest: "run_batch fate True is d = (later, e)" by fastforce
  from Cons.prems step rest have parts: "calls = first @ later" and "e = c" by auto
  with rest have rest: "run_batch fate True is d = (later, c)" by simp
  show ?case
  proof (cases "ba_failed d")
    case None
    with Cons.IH [OF rest] Cons.prems(3) parts show ?thesis by simp
  next
    case (Some f)
    with step Cons.prems(2) have "Ask_Stream audit_stream_name \<in> set first"
      by (auto simp: answer_next_def Let_def split: if_splits)
    with parts show ?thesis by simp
  qed
qed simp

lemma add_chain: "a + c = b \<Longrightarrow> b + d = e \<Longrightarrow> a + (c + d) = (e::'a::ab_semigroup_add)"
  by (simp add: add.assoc [symmetric])

lemma run_publishes:
  "image_mset publish_call (mset (ba_answered b) + mset (ba_flying b)) + mset (filter is_publish (fst (run_batch fate probes is b)))
     = image_mset publish_call (mset (ba_answered (snd (run_batch fate probes is b))) + mset (ba_flying (snd (run_batch fate probes is b))))"
proof (induction "is" arbitrary: b)
  case (Cons i "is")
  obtain calls d where step: "answer_next fate probes i b = (calls, d)" by fastforce
  obtain later e where rest: "run_batch fate probes is d = (later, e)" by fastforce
  show ?case
    using add_chain [OF step_publishes [of b fate probes i, unfolded step fst_conv snd_conv] Cons.IH [of d, unfolded rest fst_conv snd_conv]]
    by (simp add: step rest)
qed simp

text \<open>Once connected, the publisher holds the connection and the JetStream context of it.\<close>

definition publisher_ok :: "publisher \<Rightarrow> bool" where
  "publisher_ok p \<longleftrightarrow> pu_jetstream p = pu_connection p"

lemma connect_keeps_ok:
  "publisher_ok p \<Longrightarrow> connect_publisher alive opened info add p = (calls, q, r)
     \<Longrightarrow> publisher_ok q \<and> (r = Inr () \<longrightarrow> pu_jetstream q \<noteq> None) \<and> filter is_publish calls = []"
  by (auto simp: connect_publisher_def publisher_ok_def new_publisher_def ensure_audit_stream_eq is_publish_def
      split: if_splits sum.splits option.splits)

text \<open>What a batch that ran has published, answered and left over, and what publishing it comes to.\<close>

lemma connected_batch:
  assumes ran: "run_batch fate True schedule (start_batch concurrency events) = (later, b)"
    and calls: "calls = cs @ map publish_call (ba_flying (start_batch concurrency events)) @ later" "filter is_publish cs = []"
  shows "mset (filter is_publish calls) = image_mset publish_call (mset (ba_answered b) + mset (ba_flying b))"
    and "mset (ba_answered b) + mset (ba_flying b) + mset (ba_waiting b) = mset events"
    and "ba_failed b = first_failure fate (ba_answered b)" "ba_failed b \<noteq> None \<Longrightarrow> Ask_Stream audit_stream_name \<in> set calls"
proof -
  have ok: "batch_ok concurrency events fate b"
    using batch_ok_run [OF batch_ok_start, of concurrency events fate True schedule] ran by simp
  then show "mset (ba_answered b) + mset (ba_flying b) + mset (ba_waiting b) = mset events"
    "ba_failed b = first_failure fate (ba_answered b)" by (simp_all add: batch_ok_def)
  show "mset (filter is_publish calls) = image_mset publish_call (mset (ba_answered b) + mset (ba_flying b))"
    using run_publishes [of "start_batch concurrency events" fate True schedule]
    by (simp add: ran calls) (simp add: start_batch_def Let_def)
  have "ba_failed (start_batch concurrency events) = None" by (simp add: start_batch_def Let_def)
  then show "ba_failed b \<noteq> None \<Longrightarrow> Ask_Stream audit_stream_name \<in> set calls"
    using run_asks [OF ran] by (simp add: calls)
qed

lemma batch_outcome_returned:
  assumes "batch_outcome events (Some j) probe b = Some (Inr ids)" "ba_failed b = first_failure fate (ba_answered b)"
    and "mset (ba_answered b) + mset (ba_flying b) + mset (ba_waiting b) = mset events"
  shows "ids = set (map ae_event_id events) \<and> list_all (\<lambda>e. fate e = None) events \<and> mset (ba_answered b) + mset (ba_flying b) = mset events"
proof -
  from assms(1) have done': "ba_failed b = None" "ba_flying b = []" "ba_waiting b = []" "ids = set (map ae_event_id events)"
    by (auto simp: batch_outcome_def split: option.splits if_splits)
  with assms(3) have same: "mset (ba_answered b) = mset events" by simp
  have "list_all (\<lambda>e. fate e = None) events"
    using done'(1) assms(2) list_all_set_cong [OF mset_eq_setD [OF same]] by (metis first_failure_None)
  with done' same show ?thesis by simp
qed

lemma batch_outcome_failed:
  assumes "batch_outcome events (Some j) probe b = Some (Inl e)" "ba_failed b = first_failure fate (ba_answered b)"
    and "mset (ba_answered b) + mset (ba_flying b) + mset (ba_waiting b) = mset events"
  shows "ba_failed b \<noteq> None \<and> \<not> list_all (\<lambda>e. fate e = None) events \<and> (\<exists>d. e = Audit_Publish_Error d)"
proof -
  from assms(1) obtain f d where f: "ba_failed b = Some f" "e = Audit_Publish_Error d"
    by (auto simp: batch_outcome_def split: option.splits if_splits)
  with assms(2) obtain x where x: "x \<in> set (ba_answered b)" "fate x = Some f" by (metis first_failure_is)
  from assms(3) have "set (ba_answered b) \<subseteq> set events"
    by (metis mset_subset_eq_add_left set_mset_mono set_mset_mset subset_mset.order_trans)
  with x have "x \<in> set events" "fate x \<noteq> None" by auto
  then have "\<not> list_all (\<lambda>e. fate e = None) events" by (intro notI) (drule (1) list_all_at, simp)
  with f show ?thesis by blast
qed

text \<open>
  C19. Publishing returns the ids of a batch exactly when every event of it was answered and stored; it fails exactly
  when some answered event was not stored, and asks about the stream. In either case each event was published at most
  once, and in a batch that returned every event exactly once.
\<close>
theorem batch_published_exactly_once:
  assumes "publisher_ok p" "events \<noteq> []"
    and run: "publish_many alive opened info add concurrency fate probe schedule events p = (calls, q, outcome)"
  shows "mset (filter is_publish calls) \<subseteq># image_mset publish_call (mset events)
     \<and> (case outcome of
          Some (Inr ids) \<Rightarrow>
            ids = set (map ae_event_id events) \<and> list_all (\<lambda>e. fate e = None) events
            \<and> mset (filter is_publish calls) = image_mset publish_call (mset events)
        | Some (Inl (Audit_Publish_Error _)) \<Rightarrow> \<not> list_all (\<lambda>e. fate e = None) events \<and> Ask_Stream audit_stream_name \<in> set calls
        | Some (Inl (Not_Connected _)) \<Rightarrow> filter is_publish calls = []
        | None \<Rightarrow> True)"
proof -
  obtain cs p' r where conn: "connect_publisher alive opened info add p = (cs, p', r)" by (metis prod_cases3)
  note kept = connect_keeps_ok [OF assms(1) conn]
  show ?thesis
  proof (cases r)
    case (Inl e)
    with run conn kept \<open>events \<noteq> []\<close> show ?thesis by (auto simp: publish_many_def)
  next
    case (Inr u)
    obtain later b where ran: "run_batch fate True schedule (start_batch concurrency events) = (later, b)" by fastforce
    from Inr kept obtain j where js: "pu_jetstream p' = Some j" by auto
    have calls: "calls = cs @ map publish_call (ba_flying (start_batch concurrency events)) @ later"
      and outcome: "outcome = batch_outcome events (Some j) probe b"
      using run conn Inr \<open>events \<noteq> []\<close> by (simp_all add: publish_many_def Let_def js ran)
    from kept have "filter is_publish cs = []" by simp
    note batch = connected_batch [OF ran calls this]
    have "mset (ba_answered b) + mset (ba_flying b) \<subseteq># mset events"
      using batch(2) by (metis mset_subset_eq_add_left)
    then have once: "mset (filter is_publish calls) \<subseteq># image_mset publish_call (mset events)"
      unfolding batch(1) by (rule image_mset_subseteq_mono)
    have all: "mset (filter is_publish calls) = image_mset publish_call (mset events)" if "outcome = Some (Inr ids)" for ids
      using batch_outcome_returned [OF _ batch(3,2), of j probe ids] that by (simp only: outcome batch(1))
    show ?thesis
      using once all batch(4) batch_outcome_returned [OF _ batch(3,2), of j probe]
        batch_outcome_failed [OF _ batch(3,2), of j probe]
      by (simp add: outcome split: option.splits sum.splits publish_error.splits) blast
  qed
qed

definition sample_event :: "string \<Rightarrow> audit_envelope" where
  "sample_event i =
     \<lparr>ae_event_id = i, ae_producer = ''hub'', ae_producer_seq = 1, ae_category = ''receipt'', ae_owner_id = None,
      ae_subject_type = ''device'', ae_subject_id = ''d'', ae_action = ''x'', ae_outcome = ''success'',
      ae_severity = ''info'', ae_reason = None, ae_trace_id = None, ae_data_classification = ''safe'',
      ae_schema_version = 1, ae_payload = [], ae_occurred_at = Aware 0\<rparr>"

text \<open>Two events through one place.\<close>

theorem batch_published_exactly_once_witness:
  "\<exists>calls q. publish_many (\<lambda>_. True) (Inr 7) Fine Fine 1 (\<lambda>_. None) (Inr (0, 0)) [0, 0] [sample_event ''a'', sample_event ''b''] new_publisher
       = (calls, q, Some (Inr {''a'', ''b''}))
     \<and> mset (filter is_publish calls) = image_mset publish_call (mset [sample_event ''a'', sample_event ''b''])"
proof -
  have ids: "ae_event_id (sample_event i) = i" for i by (simp add: sample_event_def)
  have conn: "connect_publisher (\<lambda>_. True) (Inr 7) Fine Fine new_publisher
      = ([Open_Connection, Ask_Stream audit_stream_name], \<lparr>pu_connection = Some 7, pu_jetstream = Some 7\<rparr>, Inr ())"
    by (simp add: connect_publisher_def new_publisher_def ensure_audit_stream_eq answered_fine_def)
  let ?a = "sample_event ''a''" and ?b = "sample_event ''b''" and ?fate = "\<lambda>_::audit_envelope. None :: (string \<times> string) option"
  have start: "start_batch 1 [?a, ?b] = \<lparr>ba_waiting = [?b], ba_flying = [?a], ba_answered = [], ba_failed = None\<rparr>"
    by (simp add: start_batch_def)
  have first: "answer_next ?fate True 0 \<lparr>ba_waiting = [?b], ba_flying = [?a], ba_answered = [], ba_failed = None\<rparr>
      = ([publish_call ?b], \<lparr>ba_waiting = [], ba_flying = [?b], ba_answered = [?a], ba_failed = None\<rparr>)"
    by (simp add: answer_next_def)
  have second: "answer_next ?fate True 0 \<lparr>ba_waiting = [], ba_flying = [?b], ba_answered = [?a], ba_failed = None\<rparr>
      = ([], \<lparr>ba_waiting = [], ba_flying = [], ba_answered = [?a, ?b], ba_failed = None\<rparr>)"
    by (simp add: answer_next_def)
  have run: "publish_many (\<lambda>_. True) (Inr 7) Fine Fine 1 ?fate (Inr (0, 0)) [0, 0] [?a, ?b] new_publisher
    = ([Open_Connection, Ask_Stream audit_stream_name, publish_call ?a, publish_call ?b],
       \<lparr>pu_connection = Some 7, pu_jetstream = Some 7\<rparr>, Some (Inr {''a'', ''b''}))"
    by (simp add: publish_many_def conn start first second batch_outcome_def ids)
  have "publisher_ok new_publisher" by (simp add: publisher_ok_def new_publisher_def)
  from batch_published_exactly_once [OF this _ run]
  have "mset (filter is_publish [Open_Connection, Ask_Stream audit_stream_name, publish_call ?a, publish_call ?b])
      = image_mset publish_call (mset [?a, ?b])" by simp
  with run show ?thesis by blast
qed

subsection \<open>The race for the stream\<close>



text \<open>What a run may do to the streams, what an authority may rest on, and how far it has got.\<close>

definition only_ensured :: "('s \<Rightarrow> string \<Rightarrow> stream_config option) \<Rightarrow> 's \<Rightarrow> 's \<Rightarrow> bool" where
  "only_ensured held s s' \<longleftrightarrow>
     (\<forall>n. held s' n = held s n \<or> n = audit_stream_name \<and> held s n = None \<and> held s' n = Some audit_stream_config)"




lemma only_ensured_refl [simp]: "only_ensured held s s"
  by (simp add: only_ensured_def)














end
