(* ===== verification/Json_Text.thy ===== *)
theory Json_Text
  imports Json_Values Byte_Codecs "HOL-Library.List_Lexorder" "HOL-Library.Char_ord" "HOL-Library.Multiset"
begin

text \<open>
  What a compact JSON text says: integers, texts and documents without floats can be read off it, so no two of them have
  the same text. With its keys sorted the text is the canonical form of \<open>rfc8785\<close> on such documents, and two documents
  with the same canonical form have the same leaves.
\<close>

subsection \<open>Decimal numbers\<close>

definition is_decimal :: "string \<Rightarrow> bool" where
  "is_decimal s \<longleftrightarrow> s \<noteq> [] \<and> list_all is_ascii_digit s"

definition decimal_value :: "string \<Rightarrow> nat" where
  "decimal_value s = foldl (\<lambda>n c. 10 * n + (of_char c - 48)) 0 s"

lemma digit_char: "k < 10 \<Longrightarrow> is_ascii_digit (char_of (48 + k)) \<and> (of_char (char_of (48 + k) :: char) :: nat) - 48 = k"
  by (simp add: char_class_defs)

lemma digits_decimal: "is_decimal (digits n)"
proof (induction n rule: digits.induct)
  case (1 n)
  then show ?case
    by (subst digits.simps) (auto simp: is_decimal_def digit_char)
qed

lemma decimal_value_snoc: "decimal_value (s @ [c]) = 10 * decimal_value s + (of_char c - 48)"
  by (simp add: decimal_value_def)

lemma decimal_value_digits: "decimal_value (digits n) = n"
proof (induction n rule: digits.induct)
  case (1 n)
  show ?case
  proof (cases "n < 10")
    case True
    then show ?thesis by (subst digits.simps) (simp add: decimal_value_def)
  next
    case False
    then have "digits n = digits (n div 10) @ [char_of (48 + n mod 10)]" by (subst digits.simps) simp
    with 1 False show ?thesis by (simp add: decimal_value_snoc)
  qed
qed

lemma digits_avoid: "\<not> is_ascii_digit c \<Longrightarrow> c \<notin> set (digits n)"
  using digits_decimal [of n] by (auto simp: is_decimal_def list_all_iff)

definition number_ends :: "string \<Rightarrow> bool" where
  "number_ends r \<longleftrightarrow> (case r of [] \<Rightarrow> True | c # _ \<Rightarrow> \<not> is_ascii_digit c)"

lemma digits_prefix: "digits m @ r = digits n @ s \<Longrightarrow> number_ends r \<Longrightarrow> number_ends s \<Longrightarrow> m = n \<and> r = s"
proof -
  have split: "takeWhile is_ascii_digit (digits k @ t) = digits k" if "number_ends t" for k t
    using that digits_decimal [of k]
    by (cases t) (simp_all add: number_ends_def is_decimal_def list_all_iff takeWhile_append)
  assume "digits m @ r = digits n @ s" "number_ends r" "number_ends s"
  then have "digits m = digits n" by (metis split)
  with \<open>digits m @ r = digits n @ s\<close> show ?thesis by (metis decimal_value_digits same_append_eq)
qed

subsection \<open>Texts\<close>

definition hex_value :: "char \<Rightarrow> nat" where
  "hex_value c = (let n = of_char c in if n < 58 then n - 48 else n - 87)"

definition unescape_head :: "string \<Rightarrow> (char \<times> string) option" where
  "unescape_head s =
     (case s of
        [] \<Rightarrow> None
      | c # r \<Rightarrow>
          if (of_char c :: nat) \<noteq> 92 then Some (c, r)
          else case r of
            [] \<Rightarrow> None
          | d # t \<Rightarrow>
              if d = CHR ''n'' then Some (char_of (10 :: nat), t) else if d = CHR ''r'' then Some (char_of (13 :: nat), t)
              else if d = CHR ''t'' then Some (char_of (9 :: nat), t) else if d = CHR ''f'' then Some (char_of (12 :: nat), t)
              else if d = CHR ''b'' then Some (char_of (8 :: nat), t)
              else if d = CHR ''u'' then Some (char_of (16 * hex_value (t ! 2) + hex_value (t ! 3)), drop 4 t)
              else Some (d, t))"

lemma hex4_read: "n < 32 \<Longrightarrow> 16 * hex_value (hex4 n ! 2) + hex_value (hex4 n ! 3) = n"
  by (auto simp: hex4_def hex_value_def Let_def)

lemma unescape_escape: "unescape_head (escape_char c @ r) = Some (c, r)"
proof -
  define n :: nat where "n = of_char c"
  have c: "c = char_of n" "n < 256" by (simp_all add: n_def)
  have code: "(of_char (char_of n :: char) :: nat) = n" using c(2) by simp
  have hex: "hex_value (hex4 n ! 2) * 16 + hex_value (hex4 n ! 3) = n" if "n < 32"
    using hex4_read [OF that] by simp
  have four: "length (hex4 n) = 4" by (simp add: hex4_def)
  consider "n = 34" | "n = 92" | "n = 10" | "n = 13" | "n = 9" | "n = 12" | "n = 8"
    | "n < 32" "n \<notin> {10, 13, 9, 12, 8}" | "n \<ge> 32" "n \<noteq> 34" "n \<noteq> 92" by force
  then show ?thesis
  proof cases
    case 8
    then have "escape_char c = char_of (92 :: nat) # CHR ''u'' # hex4 n" by (simp add: escape_char_def c(1) code)
    then show ?thesis using 8 hex four by (simp add: unescape_head_def nth_append c(1) mult.commute)
  next
    case 9
    then have "escape_char c = [c]" using c(2) by (simp add: escape_char_def c(1))
    then show ?thesis using 9 c(2) by (simp add: unescape_head_def c(1))
  qed (simp_all add: escape_char_def c(1) code unescape_head_def char_of_def bit_iff_odd)
qed

lemma escape_prefix: "escape_char c @ r = escape_char d @ s \<Longrightarrow> c = d \<and> r = s"
  by (metis unescape_escape option.inject prod.inject)

lemma backslash_no_quote: "char_of (92 :: nat) \<noteq> CHR 0x22"
  by (simp add: char_of_def bit_iff_odd)

lemma escape_head: "\<exists>x xs. escape_char c = x # xs \<and> x \<noteq> CHR 0x22"
  using backslash_no_quote by (auto simp: escape_char_def Let_def)

lemma string_prefix: "string_text s @ r = string_text t @ q \<Longrightarrow> s = t \<and> r = q"
proof -
  have "concat (map escape_char s) @ CHR 0x22 # r = concat (map escape_char t) @ CHR 0x22 # q \<Longrightarrow> s = t \<and> r = q"
  proof (induction s arbitrary: t)
    case Nil
    show ?case
    proof (cases t)
      case (Cons d t')
      with Nil escape_head [of d] show ?thesis by auto
    qed (use Nil in simp)
  next
    case (Cons c s)
    show ?case
    proof (cases t)
      case Nil
      with Cons.prems escape_head [of c] show ?thesis by auto
    next
      case (Cons d t')
      with Cons.prems have "c = d" "concat (map escape_char s) @ CHR 0x22 # r = concat (map escape_char t') @ CHR 0x22 # q"
        using escape_prefix [of c _ d] by auto
      with Cons.IH Cons show ?thesis by simp
    qed
  qed
  then show "string_text s @ r = string_text t @ q \<Longrightarrow> s = t \<and> r = q" by (simp add: string_text_def)
qed

lemma int_prefix: "int_text m @ r = int_text n @ s \<Longrightarrow> number_ends r \<Longrightarrow> number_ends s \<Longrightarrow> m = n \<and> r = s"
proof -
  assume same: "int_text m @ r = int_text n @ s" and ends: "number_ends r" "number_ends s"
  have no_minus: "hd (digits k @ t) \<noteq> CHR ''-''" for k t
    using digits_avoid [of "CHR ''-''" k] digits_decimal [of k]
    by (cases "digits k") (auto simp: is_decimal_def char_class_defs)
  then have clash: "CHR ''-'' # t \<noteq> digits k @ u" for t k u by (metis list.sel(1))
  show ?thesis
  proof (cases "m < 0")
    case True
    with same clash have "n < 0" by (auto simp: int_text_def split: if_splits)
    with True same have "digits (nat (- m)) @ r = digits (nat (- n)) @ s" by (simp add: int_text_def)
    from digits_prefix [OF this ends] True \<open>n < 0\<close> show ?thesis by auto
  next
    case False
    with same clash have "\<not> n < 0" by (metis append_Cons int_text_def)
    with False same have "digits (nat m) @ r = digits (nat n) @ s" by (simp add: int_text_def)
    from digits_prefix [OF this ends] False \<open>\<not> n < 0\<close> show ?thesis by auto
  qed
qed


subsection \<open>Plain documents\<close>

text \<open>The documents whose text \<open>rfc8785\<close> does not round: no floats, and ints that a double holds exactly.\<close>

fun plain :: "json \<Rightarrow> bool" where
  "plain (JFloat x) \<longleftrightarrow> False"
| "plain (JInt n) \<longleftrightarrow> \<bar>n\<bar> < 2 ^ 53"
| "plain (JArr vs) \<longleftrightarrow> list_all plain vs"
| "plain (JObj kvs) \<longleftrightarrow> list_all (\<lambda>kv. plain (snd kv)) kvs"
| "plain _ \<longleftrightarrow> True"

text \<open>The kind of a document and of the first character of its text.\<close>

definition document_kind :: "json \<Rightarrow> nat" where
  "document_kind v =
     (case v of JNull \<Rightarrow> 0 | JBool b \<Rightarrow> if b then 1 else 2 | JStr s \<Rightarrow> 3 | JArr vs \<Rightarrow> 4 | JObj kvs \<Rightarrow> 5 | _ \<Rightarrow> 6)"

definition char_kind :: "char \<Rightarrow> nat" where
  "char_kind c =
     (if c = CHR ''n'' then 0 else if c = CHR ''t'' then 1 else if c = CHR ''f'' then 2 else if c = CHR 0x22 then 3
      else if c = CHR ''['' then 4 else if c = CHR ''{'' then 5
      else if c = CHR ''-'' \<or> is_ascii_digit c then 6 else 7)"

lemma digits_kind: "\<exists>c t. digits n = c # t \<and> char_kind c = 6"
  using digits_decimal [of n] by (cases "digits n") (auto simp: is_decimal_def char_kind_def char_class_defs)

lemma json_text_kind: "plain v \<Longrightarrow> \<exists>c t. json_text ft v = c # t \<and> char_kind c = document_kind v"
proof (cases v)
  case (JInt n)
  show ?thesis
  proof (cases "n < 0")
    case False
    with digits_kind [of "nat n"] JInt show ?thesis by (simp add: int_text_def document_kind_def)
  qed (simp add: JInt int_text_def document_kind_def char_kind_def)
qed (auto simp: document_kind_def char_kind_def string_text_def)

lemma plain_kind: "plain v \<Longrightarrow> plain w \<Longrightarrow> json_text ft v @ r = json_text ft w @ s \<Longrightarrow> document_kind v = document_kind w"
  using json_text_kind [of v ft] json_text_kind [of w ft] by auto

lemma document_kind_less: "document_kind v < 7"
  by (cases v) (simp_all add: document_kind_def)

lemma json_text_open: "plain v \<Longrightarrow> \<exists>d t. json_text ft v = d # t \<and> d \<noteq> CHR '']'' \<and> d \<noteq> CHR ''}''"
proof -
  assume "plain v"
  then obtain d t where "json_text ft v = d # t" "char_kind d = document_kind v" using json_text_kind by blast
  moreover have "char_kind CHR '']'' = 7" "char_kind CHR ''}'' = 7" by (simp_all add: char_kind_def char_class_defs)
  ultimately show ?thesis using document_kind_less [of v] by auto
qed

text \<open>Items separated by commas, up to the character that closes them.\<close>

lemma comma_prefix:
  assumes reads: "\<And>x y r s. x \<in> set xs \<Longrightarrow> y \<in> set ys \<Longrightarrow> number_ends r \<Longrightarrow> number_ends s \<Longrightarrow>
      f x @ r = f y @ s \<Longrightarrow> x = y \<and> r = s"
    and opens: "\<And>x. x \<in> set xs \<union> set ys \<Longrightarrow> \<exists>d t. f x = d # t \<and> d \<noteq> c"
    and closes: "c \<noteq> CHR '',''" "\<not> is_ascii_digit c"
    and same: "comma (map f xs) @ c # r = comma (map f ys) @ c # s"
  shows "xs = ys \<and> r = s"
  using reads opens same
proof (induction xs arbitrary: ys)
  case Nil
  then show ?case
  proof (cases ys)
    case (Cons y ys')
    with Nil(2) [of y] obtain d t where "f y = d # t" "d \<noteq> c" by auto
    with Nil(3) Cons show ?thesis by (cases ys') auto
  qed simp
next
  case (Cons x xs)
  have rest: "comma (map f (z # zs)) @ c # q =
      f z @ (if zs = [] then c # q else CHR '','' # comma (map f zs) @ c # q)" for z zs q
    by (cases zs) simp_all
  have ends: "number_ends (if zs = [] then c # q else CHR '','' # comma (map f zs) @ c # q)" for zs q
    using closes by (simp add: number_ends_def char_class_defs)
  show ?case
  proof (cases ys)
    case Nil
    with Cons.prems(2) [of x] obtain d t where "f x = d # t" "d \<noteq> c" by auto
    with Cons.prems(3) Nil show ?thesis unfolding rest by simp
  next
    case (Cons y ys')
    let ?tail = "\<lambda>zs q. if zs = [] then c # q else CHR '','' # comma (map f zs) @ c # q"
    have "f x @ ?tail xs r = f y @ ?tail ys' s" using Cons.prems(3) unfolding Cons rest .
    then have head: "x = y" "?tail xs r = ?tail ys' s"
      using Cons.prems(1) [of x y "?tail xs r" "?tail ys' s"] ends Cons by auto
    show ?thesis
    proof (cases "xs = [] \<or> ys' = []")
      case True
      then show ?thesis using head closes Cons by (auto split: if_splits)
    next
      case False
      then have "comma (map f xs) @ c # r = comma (map f ys') @ c # s" using head(2) by simp
      then have "xs = ys' \<and> r = s"
      proof (rule Cons.IH [rotated 2])
        fix x' y' r s
        assume "x' \<in> set xs" "y' \<in> set ys'" "number_ends r" "number_ends s" "f x' @ r = f y' @ s"
        then show "x' = y' \<and> r = s" by (intro Cons.prems(1)) (simp_all add: Cons)
      next
        fix x' assume "x' \<in> set xs \<union> set ys'"
        then show "\<exists>d t. f x' = d # t \<and> d \<noteq> c" by (intro Cons.prems(2)) (auto simp: Cons)
      qed
      then show ?thesis using head(1) by (simp add: Cons)
    qed
  qed
qed

lemma json_prefix:
  "plain v \<Longrightarrow> plain w \<Longrightarrow> number_ends r \<Longrightarrow> number_ends s \<Longrightarrow> json_text ft v @ r = json_text ft w @ s \<Longrightarrow> v = w \<and> r = s"
proof (induction v arbitrary: w r s rule: plain.induct)
  case (2 n)
  with plain_kind [OF 2(1,2,5)] obtain m where "w = JInt m" by (cases w) (auto simp: document_kind_def split: if_splits)
  with 2 int_prefix show ?case by fastforce
next
  case (3 vs)
  with plain_kind [OF 3(2,3,6)] obtain ws where w: "w = JArr ws"
    by (cases w) (auto simp: document_kind_def split: if_splits)
  have "vs = ws \<and> r = s"
  proof (rule comma_prefix [where f = "json_text ft" and c = "CHR '']''"])
    show "comma (map (json_text ft) vs) @ CHR '']'' # r = comma (map (json_text ft) ws) @ CHR '']'' # s"
      using 3(6) w by simp
    fix x assume "x \<in> set vs \<union> set ws"
    then have "plain x" using 3(2,3) w by (auto simp: list_all_iff)
    then show "\<exists>d t. json_text ft x = d # t \<and> d \<noteq> CHR '']''" using json_text_open by blast
  next
    fix x y r s
    assume "x \<in> set vs" "y \<in> set ws" "number_ends r" "number_ends s" "json_text ft x @ r = json_text ft y @ s"
    then show "x = y \<and> r = s" using 3(1) [of x y r s] 3(2,3) w by (auto simp: list_all_iff)
  qed (simp_all add: char_class_defs)
  with w show ?case by simp
next
  case (4 kvs)
  with plain_kind [OF 4(2,3,6)] obtain kws where w: "w = JObj kws"
    by (cases w) (auto simp: document_kind_def split: if_splits)
  let ?f = "\<lambda>kv. string_text (fst kv) @ '':'' @ json_text ft (snd kv)"
  have "kvs = kws \<and> r = s"
  proof (rule comma_prefix [where f = ?f and c = "CHR ''}''"])
    show "comma (map ?f kvs) @ CHR ''}'' # r = comma (map ?f kws) @ CHR ''}'' # s"
      using 4(6) w by simp
    fix x :: "string \<times> json"
    show "\<exists>d t. ?f x = d # t \<and> d \<noteq> CHR ''}''" by (simp add: string_text_def)
  next
    fix x y r s
    assume xy: "x \<in> set kvs" "y \<in> set kws" "number_ends r" "number_ends s" "?f x @ r = ?f y @ s"
    then have "fst x = fst y \<and> '':'' @ json_text ft (snd x) @ r = '':'' @ json_text ft (snd y) @ s"
      by (intro string_prefix) simp
    moreover have "plain (snd x)" "plain (snd y)" using xy(1,2) 4(2,3) w by (auto simp: list_all_iff)
    ultimately show "x = y \<and> r = s" using 4(1) [of x "snd y" r s] xy by (auto intro: prod_eqI)
  qed (simp_all add: char_class_defs)
  with w show ?case by simp
next
  case "5_1"
  with plain_kind [OF "5_1"(1,2,5)] show ?case by (cases w) (auto simp: document_kind_def split: if_splits)
next
  case "5_2"
  with plain_kind [OF "5_2"(1,2,5)] show ?case by (cases w) (auto simp: document_kind_def split: if_splits)
next
  case "5_3"
  with plain_kind [OF "5_3"(1,2,5)] obtain u where "w = JStr u"
    by (cases w) (auto simp: document_kind_def split: if_splits)
  with "5_3"(5) show ?case by (auto dest: string_prefix)
qed simp

subsection \<open>Canonical texts\<close>

text \<open>\<open>sort_keys\<close> of \<open>json.dumps\<close>: every object by its keys.\<close>

fun sorted_json :: "json \<Rightarrow> json" where
  "sorted_json (JArr vs) = JArr (map sorted_json vs)"
| "sorted_json (JObj kvs) = JObj (sort_key fst (map (\<lambda>kv. (fst kv, sorted_json (snd kv))) kvs))"
| "sorted_json v = v"

definition canonical_text :: "json \<Rightarrow> string" where
  "canonical_text v = json_text (\<lambda>_. []) (sorted_json v)"

text \<open>RFC 8785 on plain documents, the part of the library \<open>rfc8785\<close> the signed documents need.\<close>

definition canonicalizes :: "(json \<Rightarrow> byte list option) \<Rightarrow> bool" where
  "canonicalizes canon \<longleftrightarrow> (\<forall>v. plain v \<longrightarrow> canon v = Some (utf8 (canonical_text v)))"

lemma plain_sorted [simp]: "plain (sorted_json v) = plain v"
  by (induction v rule: sorted_json.induct) (simp_all add: list_all_iff)

lemma canonical_text_sorted:
  "plain v \<Longrightarrow> plain w \<Longrightarrow> canonical_text v = canonical_text w \<Longrightarrow> sorted_json v = sorted_json w"
  using json_prefix [of "sorted_json v" "sorted_json w" "[]" "[]" "\<lambda>_. []"]
  by (simp add: canonical_text_def number_ends_def)

lemma canonical_bytes_sorted:
  assumes "canonicalizes canon" "plain v" "plain w" "canon v = canon w"
  shows "sorted_json v = sorted_json w"
proof -
  have "utf8 (canonical_text v) = utf8 (canonical_text w)" using assms by (simp add: canonicalizes_def)
  then have "canonical_text v = canonical_text w" by (metis utf8_decode_utf8 option.inject)
  then show ?thesis using canonical_text_sorted assms(2,3) by blast
qed

end
