(* ===== verification/Host_Links.thy ===== *)
theory Host_Links
  imports Json_Text "HOL-Library.Word"
begin

unbundle bit_operations_syntax

text \<open>
  Which of a Host's links the product is on, \<open>system/host_links.py\<close>: the declared management networks and the
  addresses outside them. Of \<open>ipaddress\<close>, IPv4 networks are read here; reading an IPv6 network, strictly, is the
  parameter \<open>v6\<close>.
\<close>

subsection \<open>Networks and addresses\<close>

datatype ip_network = Network4 "32 word" nat | Network6 "128 word" nat

datatype ip_address = Address4 "32 word" | Address6 "128 word"

definition netmask :: "nat \<Rightarrow> 'a::len word" where
  "netmask p = push_bit (LENGTH('a) - p) (mask p)"

text \<open>\<open>address in network\<close>.\<close>

fun in_network :: "ip_address \<Rightarrow> ip_network \<Rightarrow> bool" where
  "in_network (Address4 a) (Network4 n p) \<longleftrightarrow> a AND netmask p = n"
| "in_network (Address6 a) (Network6 n p) \<longleftrightarrow> a AND netmask p = n"
| "in_network _ _ \<longleftrightarrow> False"

text \<open>What \<open>strict\<close> demands of a network: a prefix within the address, and no bit of the address beyond it.\<close>

fun strict_network :: "ip_network \<Rightarrow> bool" where
  "strict_network (Network4 n p) \<longleftrightarrow> p \<le> 32 \<and> n AND netmask p = n"
| "strict_network (Network6 n p) \<longleftrightarrow> p \<le> 128 \<and> n AND netmask p = n"

subsection \<open>Reading an IPv4 network\<close>

definition parse_octet :: "string \<Rightarrow> nat option" where
  "parse_octet s =
     (if is_decimal s \<and> length s \<le> 3 \<and> \<not> (s \<noteq> ''0'' \<and> hd s = CHR ''0'') \<and> decimal_value s \<le> 255
      then Some (decimal_value s) else None)"

definition ipv4_address :: "string \<Rightarrow> 32 word option" where
  "ipv4_address s =
     (case map parse_octet (split_char (CHR ''.'') s) of
        [Some a, Some b, Some c, Some d] \<Rightarrow> Some (of_nat (((a * 256 + b) * 256 + c) * 256 + d))
      | _ \<Rightarrow> None)"

text \<open>The part after the slash: a prefix length, or a netmask, or a hostmask.\<close>

definition prefix_of_text :: "string \<Rightarrow> nat option" where
  "prefix_of_text s =
     (if is_decimal s \<and> decimal_value s \<le> 32 then Some (decimal_value s)
      else case ipv4_address s of
        None \<Rightarrow> None
      | Some w \<Rightarrow>
          (case find (\<lambda>p. w = netmask p) [0..<33] of
             Some p \<Rightarrow> Some p
           | None \<Rightarrow> find (\<lambda>p. NOT w = netmask p) [0..<33]))"

datatype read4 = Read4 ip_network | Not_IPv4 | Host_Bits_Set

definition ipv4_network :: "string \<Rightarrow> read4" where
  "ipv4_network s =
     (case (case split_char (CHR ''/'') s of
              [a] \<Rightarrow> (ipv4_address a, Some 32)
            | [a, m] \<Rightarrow> (ipv4_address a, prefix_of_text m)
            | _ \<Rightarrow> (None, None)) of
        (Some a, Some p) \<Rightarrow> if a AND netmask p = a then Read4 (Network4 a p) else Host_Bits_Set
      | _ \<Rightarrow> Not_IPv4)"

definition read_network :: "(string \<Rightarrow> ip_network option) \<Rightarrow> string \<Rightarrow> ip_network option" where
  "read_network v6 s = (case ipv4_network s of Read4 n \<Rightarrow> Some n | Not_IPv4 \<Rightarrow> v6 s | Host_Bits_Set \<Rightarrow> None)"

subsection \<open>The declaration\<close>

definition management_networks_variable :: string where
  "management_networks_variable = ''EIDOLON_MANAGEMENT_NETWORKS''"

text \<open>A declaration that cannot be read names the value that is not a network.\<close>

datatype link_error = Not_A_Network string

fun read_items :: "(string \<Rightarrow> ip_network option) \<Rightarrow> string list \<Rightarrow> link_error + ip_network list" where
  "read_items v6 [] = Inr []"
| "read_items v6 (item # items) =
     (let value = strip item
      in if value = [] then read_items v6 items
         else and_then (or_raise (Not_A_Network value) (read_network v6 value)) (\<lambda>n.
              and_then (read_items v6 items) (\<lambda>ns. Inr (n # ns))))"

definition declared_management_networks ::
  "(string \<Rightarrow> ip_network option) \<Rightarrow> (string \<times> string) list \<Rightarrow> link_error + ip_network list" where
  "declared_management_networks v6 environ =
     (let raw = (case map_of environ management_networks_variable of None \<Rightarrow> [] | Some r \<Rightarrow> r)
      in read_items v6 (split_char (CHR '','') raw))"

definition on_product_link :: "ip_address \<Rightarrow> ip_network list \<Rightarrow> bool" where
  "on_product_link address networks \<longleftrightarrow> \<not> list_ex (in_network address) networks"

subsection \<open>Prefixes\<close>

lemma bit_netmask: "bit (netmask p :: 'a::len word) i \<longleftrightarrow> LENGTH('a) - p \<le> i \<and> i < LENGTH('a)"
  by (auto simp: netmask_def bit_simps)

text \<open>An address is in a strict network exactly when it has the network's prefix.\<close>

lemma masked_is_prefix:
  fixes a n :: "'a::len word"
  assumes "n AND netmask p = n"
  shows "a AND netmask p = n \<longleftrightarrow> drop_bit (LENGTH('a) - p) a = drop_bit (LENGTH('a) - p) n"
proof
  assume masked: "a AND netmask p = n"
  have "bit n j \<longleftrightarrow> bit a j \<and> LENGTH('a) - p \<le> j" for j
    using arg_cong [OF masked, of "\<lambda>w. bit w j"] by (auto simp: bit_simps bit_netmask dest: bit_imp_le_length)
  then show "drop_bit (LENGTH('a) - p) a = drop_bit (LENGTH('a) - p) n"
    by (auto simp: bit_eq_iff bit_simps)
next
  assume same: "drop_bit (LENGTH('a) - p) a = drop_bit (LENGTH('a) - p) n"
  show "a AND netmask p = n"
  proof (rule bit_word_eqI)
    fix i assume i: "i < LENGTH('a)"
    have "bit a i = bit n i" if "LENGTH('a) - p \<le> i"
      using arg_cong [OF same, of "\<lambda>w. bit w (i - (LENGTH('a) - p))"] that by (simp add: bit_simps)
    moreover have "bit n i \<Longrightarrow> LENGTH('a) - p \<le> i"
      using arg_cong [OF assms, of "\<lambda>w. bit w i"] by (simp add: bit_simps bit_netmask)
    ultimately show "bit (a AND netmask p) i = bit n i"
      using i by (auto simp: bit_simps bit_netmask)
  qed
qed

fun shares_prefix :: "ip_address \<Rightarrow> ip_network \<Rightarrow> bool" where
  "shares_prefix (Address4 a) (Network4 n p) \<longleftrightarrow> drop_bit (32 - p) a = drop_bit (32 - p) n"
| "shares_prefix (Address6 a) (Network6 n p) \<longleftrightarrow> drop_bit (128 - p) a = drop_bit (128 - p) n"
| "shares_prefix _ _ \<longleftrightarrow> False"

lemma in_strict_network: "strict_network n \<Longrightarrow> in_network a n \<longleftrightarrow> shares_prefix a n"
  by (cases a; cases n) (simp_all add: masked_is_prefix)

subsection \<open>What a declaration says\<close>

definition declared_items :: "(string \<times> string) list \<Rightarrow> string list" where
  "declared_items environ =
     filter (\<lambda>v. v \<noteq> []) (map strip (split_char (CHR '','')
       (case map_of environ management_networks_variable of None \<Rightarrow> [] | Some r \<Rightarrow> r)))"

lemma read_items_Inr: "read_items v6 items = Inr ns \<longleftrightarrow> map (read_network v6) (filter (\<lambda>v. v \<noteq> []) (map strip items)) = map Some ns"
proof (induction items arbitrary: ns)
  case (Cons item items)
  show ?case
  proof (cases "strip item = []")
    case True
    with Cons show ?thesis by simp
  next
    case False
    then show ?thesis
      using Cons by (cases ns; cases "read_network v6 (strip item)"; cases "read_items v6 items") (auto simp: Let_def)
  qed
qed auto

lemma read_items_Inl:
  "read_items v6 items = Inl (Not_A_Network v) \<longleftrightarrow>
     find (\<lambda>w. read_network v6 w = None) (filter (\<lambda>v. v \<noteq> []) (map strip items)) = Some v"
proof (induction items)
  case (Cons item items)
  then show ?case by (cases "read_network v6 (strip item)"; cases "read_items v6 items") (auto simp: Let_def)
qed simp

lemma read_network_strict:
  assumes v6: "\<And>t m. v6 t = Some m \<Longrightarrow> strict_network m" and read: "read_network v6 s = Some n"
  shows "strict_network n"
proof -
  have below: "p \<le> 32" if "prefix_of_text t = Some p" for t p
    using that by (auto simp: prefix_of_text_def find_Some_iff split: if_splits option.splits)
  show ?thesis
    using read v6 below
    by (auto simp: read_network_def ipv4_network_def split: read4.splits option.splits if_splits list.splits)
qed

text \<open>
  C28. A declaration is read as a whole or refused at its first item that is no network; and once it is read, an
  address is on the product exactly when its first bits are those of none of the declared networks.
\<close>
theorem declaration_decides_links:
  assumes "\<And>t m. v6 t = Some m \<Longrightarrow> strict_network m"
  shows "case declared_management_networks v6 environ of
      Inl (Not_A_Network v) \<Rightarrow> find (\<lambda>w. read_network v6 w = None) (declared_items environ) = Some v
    | Inr ns \<Rightarrow> map (read_network v6) (declared_items environ) = map Some ns
        \<and> (on_product_link a ns \<longleftrightarrow> list_all (\<lambda>n. \<not> shares_prefix a n) ns)"
proof (cases "declared_management_networks v6 environ")
  case (Inl e)
  obtain v where e: "e = Not_A_Network v" by (cases e)
  with Inl have "find (\<lambda>w. read_network v6 w = None) (declared_items environ) = Some v"
    by (simp add: declared_management_networks_def declared_items_def Let_def read_items_Inl)
  with Inl e show ?thesis by simp
next
  case (Inr ns)
  then have read: "map (read_network v6) (declared_items environ) = map Some ns"
    by (simp add: declared_management_networks_def declared_items_def Let_def read_items_Inr)
  have "strict_network n" if "n \<in> set ns" for n
  proof -
    from that have "Some n \<in> set (map (read_network v6) (declared_items environ))" by (simp add: read)
    then obtain w where "read_network v6 w = Some n" by auto
    with assms show ?thesis by (rule read_network_strict)
  qed
  then have "on_product_link a ns \<longleftrightarrow> list_all (\<lambda>n. \<not> shares_prefix a n) ns"
    by (auto simp: on_product_link_def list_ex_iff list_all_iff in_strict_network)
  with Inr read show ?thesis by simp
qed

subsection \<open>Declarations as they are written\<close>

definition address_text :: "32 word \<Rightarrow> string" where
  "address_text w =
     (let m = unat w
      in digits (m div 16777216) @ ''.'' @ digits (m div 65536 mod 256) @ ''.'' @ digits (m div 256 mod 256) @ ''.''
           @ digits (m mod 256))"

definition network_text :: "32 word \<Rightarrow> nat \<Rightarrow> string" where
  "network_text w p = address_text w @ ''/'' @ digits p"

lemma zero_char: "char_of (48 :: nat) = CHR ''0''"
  by (simp add: char_of_def bit_iff_odd)

lemma digits_no_leading_zero: "hd (digits n) = CHR ''0'' \<longleftrightarrow> n = 0"
proof (induction n rule: digits.induct)
  case (1 n)
  show ?case
  proof (cases "n < 10")
    case True
    have "char_of (48 + n) = CHR ''0'' \<longleftrightarrow> n = 0"
    proof
      assume "char_of (48 + n) = CHR ''0''"
      then have "(of_char (char_of (48 + n) :: char) :: nat) = of_char CHR ''0''" by simp
      with True show "n = 0" by simp
    qed (simp add: zero_char)
    with True show ?thesis by (subst digits.simps) simp
  next
    case False
    then have "digits n = digits (n div 10) @ [char_of (48 + n mod 10)]" by (subst digits.simps) simp
    moreover have "digits (n div 10) \<noteq> []" using digits_decimal [of "n div 10"] by (simp add: is_decimal_def)
    ultimately show ?thesis using 1 False by simp
  qed
qed

lemma digits_length: "n < 10 ^ Suc k \<Longrightarrow> length (digits n) \<le> Suc k"
proof (induction k arbitrary: n)
  case 0
  then show ?case by (subst digits.simps) simp
next
  case (Suc k)
  show ?case
  proof (cases "n < 10")
    case True
    then show ?thesis by (subst digits.simps) simp
  next
    case False
    have "n div 10 < 10 ^ Suc k" using Suc.prems by (simp add: less_mult_imp_div_less)
    from Suc.IH [OF this] False show ?thesis by (subst digits.simps) simp
  qed
qed

lemma parse_octet_digits: "n \<le> 255 \<Longrightarrow> parse_octet (digits n) = Some n"
  using digits_length [of n 2] digits_no_leading_zero [of n] digits_decimal [of n] decimal_value_digits [of n]
  by (cases "n = 0") (auto simp: parse_octet_def digits.simps [of 0] zero_char)

lemma not_digits [simp]: "\<not> is_ascii_digit CHR ''.''" "\<not> is_ascii_digit CHR ''/''" "\<not> is_ascii_digit CHR '',''"
  by (simp_all add: char_class_defs)

lemma ipv4_address_text: "ipv4_address (address_text w) = Some w"
proof -
  define m where "m = unat w"
  have "m < 2 ^ 32" using unsigned_less [of w] by (simp add: m_def)
  then have "m div 16777216 \<le> 255" by simp
  have "split_char CHR ''.'' (address_text w)
      = [digits (m div 16777216), digits (m div 65536 mod 256), digits (m div 256 mod 256), digits (m mod 256)]"
    by (simp add: address_text_def m_def [symmetric] Let_def digits_avoid)
  moreover have "((m div 16777216 * 256 + m div 65536 mod 256) * 256 + m div 256 mod 256) * 256 + m mod 256 = m"
  proof -
    have "m div 16777216 = m div 65536 div 256" "m div 65536 = m div 256 div 256"
      by (simp_all add: div_mult2_eq [symmetric])
    then show ?thesis by (metis div_mult_mod_eq)
  qed
  ultimately show ?thesis
    using \<open>m div 16777216 \<le> 255\<close>
    by (simp add: ipv4_address_def parse_octet_digits) (simp add: m_def)
qed

text \<open>A strict network is read back from its text.\<close>

lemma network_text_read_back:
  assumes "strict_network (Network4 w p)"
  shows "read_network v6 (network_text w p) = Some (Network4 w p)"
proof -
  have "CHR ''/'' \<notin> set (address_text w)"
    by (auto simp: address_text_def Let_def digits_avoid)
  then have "split_char CHR ''/'' (network_text w p) = [address_text w, digits p]"
    by (simp add: network_text_def digits_avoid)
  with assms show ?thesis
    by (simp add: read_network_def ipv4_network_def ipv4_address_text prefix_of_text_def digits_decimal decimal_value_digits)
qed

definition cable :: "32 word" where "cable = 0x0A2A0000"

lemma cable_strict: "strict_network (Network4 cable 24)"
  by (simp add: cable_def netmask_def mask_eq_exp_minus_1)

lemma cable_text: "network_text cable 24 = ''10.42.0.0/24''"
  by (simp add: network_text_def address_text_def cable_def Let_def digits.simps zero_char char_of_def bit_iff_odd)

text \<open>One cable, declared beside an empty item: an address on it is not on the product, one off it is.\<close>

theorem declaration_decides_links_witness:
  "\<exists>ns. declared_management_networks (\<lambda>_. None) [(management_networks_variable, ''10.42.0.0/24, '')] = Inr ns
     \<and> ns = [Network4 cable 24]
     \<and> \<not> on_product_link (Address4 0x0A2A0007) ns \<and> on_product_link (Address4 0x0A2B0007) ns"
proof -
  have items: "declared_items [(management_networks_variable, ''10.42.0.0/24, '')] = [''10.42.0.0/24'']"
    by (simp add: declared_items_def strip_def is_space_def)
  have read: "read_network (\<lambda>_. None) ''10.42.0.0/24'' = Some (Network4 cable 24)"
    using network_text_read_back [OF cable_strict] by (simp add: cable_text)
  have "strict_network m" if "None = Some m" for m using that by simp
  note decides = declaration_decides_links [of "\<lambda>_. None" "[(management_networks_variable, ''10.42.0.0/24, '')]", OF this]
  obtain ns where ns: "declared_management_networks (\<lambda>_. None) [(management_networks_variable, ''10.42.0.0/24, '')] = Inr ns"
  proof (cases "declared_management_networks (\<lambda>_. None) [(management_networks_variable, ''10.42.0.0/24, '')]")
    case (Inl e)
    obtain v where "e = Not_A_Network v" by (cases e)
    with decides [of "Address4 0"] Inl read items show thesis by simp
  qed
  with decides [of "Address4 0"] read items have one: "ns = [Network4 cable 24]" by auto
  have "\<not> on_product_link (Address4 0x0A2A0007) ns" "on_product_link (Address4 0x0A2B0007) ns"
    using decides [of "Address4 0x0A2A0007"] decides [of "Address4 0x0A2B0007"] ns
    by (simp_all add: one cable_def)
  with ns one show ?thesis by blast
qed

end
