(* ===== verification/Grpc_Client.thy ===== *)
theory Grpc_Client
  imports Byte_Codecs
begin

text \<open>
  The gRPC transport primitives of \<open>core/grpc/client.py\<close>: the authorization metadata, the token source, the channel
  options and the TLS material. The file system is the parameter \<open>file\<close>, which gives the bytes of a path that is a file
  once expanded; the gRPC library's channels and credentials are data.
\<close>

subsection \<open>Authorization\<close>

datatype grpc_error =
    Token_Required | Empty_Token | Unknown_Tls_Mode string | Client_Cert_Required | Not_A_File string string

definition authorization_metadata :: "string \<Rightarrow> string \<Rightarrow> string \<Rightarrow> grpc_error + (string \<times> string) list" where
  "authorization_metadata token scheme header =
     (let bare = strip token; word = strip scheme
      in guarded [(bare = [], Token_Required)]
           [(header, if word \<noteq> [] \<and> \<not> starts_with (lower word @ '' '') (lower bare) then word @ '' '' @ bare else bare)])"

text \<open>A token source is a text, or a callable giving a value or something to await for one; a value may be no text.\<close>

datatype token_value = Text_Value string | Other_Value

datatype token_source = Static_Token string | Returns token_value | Awaits token_value

definition resolve_token_source :: "token_source \<Rightarrow> grpc_error + string" where
  "resolve_token_source source =
     (let token = (case source of Static_Token s \<Rightarrow> Text_Value s | Returns v \<Rightarrow> v | Awaits v \<Rightarrow> v)
      in case token of
           Text_Value s \<Rightarrow> guarded [(strip s = [], Empty_Token)] (strip s)
         | Other_Value \<Rightarrow> Inl Empty_Token)"

subsection \<open>Channels\<close>

datatype option_value = Int_Option int | Str_Option string

type_synonym channel_option = "string \<times> option_value"

definition default_low_latency_channel_options :: "channel_option list" where
  "default_low_latency_channel_options =
     [(''grpc.optimization_target'', Str_Option ''latency''), (''grpc.http2.bdp_probe'', Int_Option 1)]"

definition default_channel_options :: "channel_option list option \<Rightarrow> channel_option list" where
  "default_channel_options extra =
     (case extra of None \<Rightarrow> default_low_latency_channel_options | Some os \<Rightarrow> default_low_latency_channel_options @ os)"

record tls_config =
  tls_mode :: string
  tls_ca_path :: string
  tls_client_cert_path :: string
  tls_client_key_path :: string

definition tls_off :: tls_config where
  "tls_off = \<lparr>tls_mode = ''off'', tls_ca_path = [], tls_client_cert_path = [], tls_client_key_path = []\<rparr>"

text \<open>\<open>grpc.ssl_channel_credentials\<close>; no root certificates means the roots of the library.\<close>

record channel_credentials =
  cr_root_certificates :: "byte list option"
  cr_private_key :: "byte list option"
  cr_certificate_chain :: "byte list option"

definition read_required :: "(string \<Rightarrow> byte list option) \<Rightarrow> string \<Rightarrow> string \<Rightarrow> grpc_error + byte list" where
  "read_required file label path = or_raise (Not_A_File label path) (file path)"

definition read_optional :: "(string \<Rightarrow> byte list option) \<Rightarrow> string \<Rightarrow> string \<Rightarrow> grpc_error + byte list" where
  "read_optional file label path = (if path = [] then Inr [] else read_required file label path)"

definition build_channel_credentials ::
  "(string \<Rightarrow> byte list option) \<Rightarrow> tls_config option \<Rightarrow> grpc_error + channel_credentials option" where
  "build_channel_credentials file config =
     (let tls = (case config of None \<Rightarrow> tls_off | Some t \<Rightarrow> t)
      in if tls_mode tls = ''off'' then Inr None
         else if tls_mode tls \<notin> {''tls'', ''mtls''} then Inl (Unknown_Tls_Mode (tls_mode tls))
         else and_then (read_optional file ''ca_path'' (tls_ca_path tls)) (\<lambda>pem.
           let ca = (if pem = [] then None else Some pem)
           in if tls_mode tls = ''mtls''
              then if tls_client_cert_path tls = [] \<or> tls_client_key_path tls = [] then Inl Client_Cert_Required
                   else and_then (read_required file ''client_key_path'' (tls_client_key_path tls)) (\<lambda>key.
                        and_then (read_required file ''client_cert_path'' (tls_client_cert_path tls)) (\<lambda>chain.
                        Inr (Some \<lparr>cr_root_certificates = ca, cr_private_key = Some key, cr_certificate_chain = Some chain\<rparr>)))
              else Inr (Some \<lparr>cr_root_certificates = ca, cr_private_key = None, cr_certificate_chain = None\<rparr>)))"

datatype channel =
    Insecure_Channel string "channel_option list"
  | Secure_Channel string channel_credentials "channel_option list"

definition create_aio_channel_with_credentials ::
  "string \<Rightarrow> channel_credentials option \<Rightarrow> channel_option list option \<Rightarrow> channel" where
  "create_aio_channel_with_credentials target credentials options =
     (case credentials of
        None \<Rightarrow> Insecure_Channel target (default_channel_options options)
      | Some c \<Rightarrow> Secure_Channel target c (default_channel_options options))"

definition create_aio_channel ::
  "(string \<Rightarrow> byte list option) \<Rightarrow> string \<Rightarrow> tls_config option \<Rightarrow> channel_option list option \<Rightarrow> grpc_error + channel" where
  "create_aio_channel file target tls options =
     and_then (build_channel_credentials file tls) (\<lambda>credentials.
     Inr (case credentials of
            None \<Rightarrow> Insecure_Channel target (default_channel_options options)
          | Some c \<Rightarrow> Secure_Channel target c (default_channel_options options)))"

subsection \<open>What a channel is\<close>

text \<open>
  C24. Which channel every configuration gives, exactly. Without configuration, or with it off, it is insecure. With mode
  \<open>tls\<close> it is secure; with mode \<open>mtls\<close> it also presents the configured key and certificate, both read. Any other mode, a
  missing path of \<open>mtls\<close> and a configured file that cannot be read give no channel. The roots are those of the configured
  authority file, except that a file which is there but empty gives the library's default roots, as if no authority were
  configured.
\<close>
theorem channel_per_configuration:
  "create_aio_channel file target tls options = Inr c \<longleftrightarrow>
     (case tls of
        None \<Rightarrow> c = Insecure_Channel target (default_channel_options options)
      | Some t \<Rightarrow>
          if tls_mode t = ''off'' then c = Insecure_Channel target (default_channel_options options)
          else \<exists>credentials.
            c = Secure_Channel target credentials (default_channel_options options)
            \<and> (if tls_ca_path t = [] then cr_root_certificates credentials = None
                else \<exists>pem. file (tls_ca_path t) = Some pem \<and> cr_root_certificates credentials = (if pem = [] then None else Some pem))
            \<and> (if tls_mode t = ''mtls''
                then tls_client_key_path t \<noteq> [] \<and> tls_client_cert_path t \<noteq> []
                  \<and> cr_private_key credentials \<noteq> None \<and> cr_private_key credentials = file (tls_client_key_path t)
                  \<and> cr_certificate_chain credentials \<noteq> None \<and> cr_certificate_chain credentials = file (tls_client_cert_path t)
                else tls_mode t = ''tls'' \<and> cr_private_key credentials = None \<and> cr_certificate_chain credentials = None))"
proof (cases tls)
  case None
  then show ?thesis
    by (auto simp: create_aio_channel_def build_channel_credentials_def tls_off_def)
next
  case (Some t)
  note defs = create_aio_channel_def build_channel_credentials_def read_optional_def read_required_def
  consider "tls_mode t = ''off''" | "tls_mode t = ''mtls''" | "tls_mode t = ''tls''"
    | "tls_mode t \<notin> {''off'', ''tls'', ''mtls''}" by blast
  then show ?thesis
  proof cases
    case 1
    with Some show ?thesis by (auto simp: defs)
  next
    case 2
    have eq: "cr = \<lparr>cr_root_certificates = a, cr_private_key = b, cr_certificate_chain = d\<rparr> \<longleftrightarrow>
        cr_root_certificates cr = a \<and> cr_private_key cr = b \<and> cr_certificate_chain cr = d" for cr a b d
      by (cases cr) auto
    from 2 Some show ?thesis
      by (cases "tls_ca_path t = []"; cases "file (tls_ca_path t)"; cases "file (tls_client_key_path t)";
          cases "file (tls_client_cert_path t)") (auto simp: defs guard_simps eq)
  next
    case 3
    have eq: "cr = \<lparr>cr_root_certificates = a, cr_private_key = b, cr_certificate_chain = d\<rparr> \<longleftrightarrow>
        cr_root_certificates cr = a \<and> cr_private_key cr = b \<and> cr_certificate_chain cr = d" for cr a b d
      by (cases cr) auto
    from 3 Some show ?thesis
      by (cases "tls_ca_path t = []"; cases "file (tls_ca_path t)") (auto simp: defs guard_simps eq)
  next
    case 4
    with Some show ?thesis by (auto simp: defs)
  qed
qed

lemma lower_append [simp]: "lower (a @ b) = lower a @ lower b"
  by (simp add: lower_def)

text \<open>Metadata made from metadata is the same: a token that carries its scheme is left alone.\<close>

lemma authorization_once:
  assumes "authorization_metadata token scheme header = Inr [(header, v)]" "strip v = v"
  shows "authorization_metadata v scheme header = Inr [(header, v)]"
  using assms by (auto simp: authorization_metadata_def Let_def guard_simps starts_with_iff lower_def lower_char_def Let_def split: if_splits)

end
