(* ===== verification/Host_Monitor.thy ===== *)
theory Host_Monitor
  imports Json_Values
begin

text \<open>
  The telemetry of a Host, \<open>system/v1/host_monitor.py\<close>, \<open>host_vitals.py\<close> and \<open>host_power.py\<close>: its processors, memory, disks, services and processes. Every
  measured value is optional, finite and within its range.
\<close>

definition host_monitor_contract :: string where
  "host_monitor_contract = ''https://contracts.eidolon.live/system/v1/host-monitor.schema.json''"

definition finite_measure :: "pyfloat option \<Rightarrow> bool" where
  "finite_measure m = opt_ok float_is_finite m"

definition amount :: "pyfloat option \<Rightarrow> bool" where
  "amount m = opt_ok (\<lambda>x. float_is_finite x \<and> float_le (Fin 0) x) m"

definition percentage :: "pyfloat option \<Rightarrow> bool" where
  "percentage m = opt_ok (\<lambda>x. float_is_finite x \<and> float_le (Fin 0) x \<and> float_le x (Fin 100)) m"

record monitor_core =
  mc_core_id :: string
  mc_model :: "string option"
  mc_usage_percent :: "pyfloat option"
  mc_frequency_mhz :: "pyfloat option"
  mc_unavailable_reason :: "string option"

definition monitor_core_fields :: "monitor_core \<Rightarrow> (string \<times> bool) list" where
  "monitor_core_fields x =
     [(''usage_percent'', percentage (mc_usage_percent x)),
      (''frequency_mhz'', amount (mc_frequency_mhz x))]"

definition make_monitor_core :: "monitor_core \<Rightarrow> string invalid + monitor_core" where
  "make_monitor_core x = build (monitor_core_fields x) no_rules x"

definition wf_monitor_core :: "monitor_core \<Rightarrow> bool" where
  "wf_monitor_core x \<longleftrightarrow> admissible (monitor_core_fields x) no_rules"

interpretation monitor_core_class: model_class make_monitor_core wf_monitor_core
  by (rule build_class; simp add: make_monitor_core_def wf_monitor_core_def)

record monitor_processor =
  mp_device_id :: string
  mp_model :: "string option"
  mp_usage_percent :: "pyfloat option"
  mp_temperature_celsius :: "pyfloat option"
  mp_cores :: "monitor_core list"
  mp_unavailable_reason :: "string option"

definition monitor_processor_fields :: "monitor_processor \<Rightarrow> (string \<times> bool) list" where
  "monitor_processor_fields x =
     [(''usage_percent'', percentage (mp_usage_percent x)),
      (''temperature_celsius'', finite_measure (mp_temperature_celsius x)),
      (''cores'', list_all wf_monitor_core (mp_cores x))]"

definition make_monitor_processor :: "monitor_processor \<Rightarrow> string invalid + monitor_processor" where
  "make_monitor_processor x = build (monitor_processor_fields x) no_rules x"

definition wf_monitor_processor :: "monitor_processor \<Rightarrow> bool" where
  "wf_monitor_processor x \<longleftrightarrow> admissible (monitor_processor_fields x) no_rules"

interpretation monitor_processor_class: model_class make_monitor_processor wf_monitor_processor
  by (rule build_class; simp add: make_monitor_processor_def wf_monitor_processor_def)

record monitor_memory =
  mm_total_bytes :: "int option"
  mm_available_bytes :: "int option"
  mm_unavailable_reason :: "string option"

definition monitor_memory_fields :: "monitor_memory \<Rightarrow> (string \<times> bool) list" where
  "monitor_memory_fields x =
     [(''total_bytes'', opt_ok (\<lambda>n. 0 \<le> n) (mm_total_bytes x)),
      (''available_bytes'', opt_ok (\<lambda>n. 0 \<le> n) (mm_available_bytes x))]"

definition make_monitor_memory :: "monitor_memory \<Rightarrow> string invalid + monitor_memory" where
  "make_monitor_memory x = build (monitor_memory_fields x) no_rules x"

definition wf_monitor_memory :: "monitor_memory \<Rightarrow> bool" where
  "wf_monitor_memory x \<longleftrightarrow> admissible (monitor_memory_fields x) no_rules"

interpretation monitor_memory_class: model_class make_monitor_memory wf_monitor_memory
  by (rule build_class; simp add: make_monitor_memory_def wf_monitor_memory_def)

record monitor_disk =
  md_path :: string
  md_total_bytes :: "int option"
  md_available_bytes :: "int option"
  md_unavailable_reason :: "string option"

definition monitor_disk_fields :: "monitor_disk \<Rightarrow> (string \<times> bool) list" where
  "monitor_disk_fields x =
     [(''total_bytes'', opt_ok (\<lambda>n. 0 \<le> n) (md_total_bytes x)),
      (''available_bytes'', opt_ok (\<lambda>n. 0 \<le> n) (md_available_bytes x))]"

definition make_monitor_disk :: "monitor_disk \<Rightarrow> string invalid + monitor_disk" where
  "make_monitor_disk x = build (monitor_disk_fields x) no_rules x"

definition wf_monitor_disk :: "monitor_disk \<Rightarrow> bool" where
  "wf_monitor_disk x \<longleftrightarrow> admissible (monitor_disk_fields x) no_rules"

interpretation monitor_disk_class: model_class make_monitor_disk wf_monitor_disk
  by (rule build_class; simp add: make_monitor_disk_def wf_monitor_disk_def)

record monitor_process =
  mpr_pid :: int
  mpr_parent_pid :: int
  mpr_name :: string
  mpr_state :: string
  mpr_cpu_percent :: "pyfloat option"
  mpr_rss_bytes :: "int option"
  mpr_user :: "string option"
  mpr_executable :: "string option"
  mpr_source_path :: "string option"
  mpr_entry_module :: "string option"
  mpr_working_directory :: "string option"
  mpr_command :: "string option"
  mpr_started_at :: "datetime option"
  mpr_uptime_seconds :: "pyfloat option"
  mpr_unavailable_reason :: "string option"

definition monitor_process_fields :: "monitor_process \<Rightarrow> (string \<times> bool) list" where
  "monitor_process_fields x =
     [(''pid'', 1 \<le> mpr_pid x),
      (''parent_pid'', 0 \<le> mpr_parent_pid x),
      (''cpu_percent'', percentage (mpr_cpu_percent x)),
      (''rss_bytes'', opt_ok (\<lambda>n. 0 \<le> n) (mpr_rss_bytes x)),
      (''uptime_seconds'', amount (mpr_uptime_seconds x))]"

definition make_monitor_process :: "monitor_process \<Rightarrow> string invalid + monitor_process" where
  "make_monitor_process x = build (monitor_process_fields x) no_rules x"

definition wf_monitor_process :: "monitor_process \<Rightarrow> bool" where
  "wf_monitor_process x \<longleftrightarrow> admissible (monitor_process_fields x) no_rules"

interpretation monitor_process_class: model_class make_monitor_process wf_monitor_process
  by (rule build_class; simp add: make_monitor_process_def wf_monitor_process_def)

record monitor_service =
  ms_service_id :: string
  ms_unit :: "string option"
  ms_state :: string
  ms_cpu_percent :: "pyfloat option"
  ms_memory_bytes :: "int option"
  ms_memory_kind :: string
  ms_configuration_path :: "string option"
  ms_working_directory :: "string option"
  ms_user :: "string option"
  ms_main_pid :: "int option"
  ms_exit_code :: "int option"
  ms_processes :: "monitor_process list"
  ms_unavailable_reason :: "string option"

definition monitor_service_fields :: "monitor_service \<Rightarrow> (string \<times> bool) list" where
  "monitor_service_fields x =
     [(''cpu_percent'', percentage (ms_cpu_percent x)),
      (''memory_bytes'', opt_ok (\<lambda>n. 0 \<le> n) (ms_memory_bytes x)),
      (''processes'', list_all wf_monitor_process (ms_processes x))]"

definition make_monitor_service :: "monitor_service \<Rightarrow> string invalid + monitor_service" where
  "make_monitor_service x = build (monitor_service_fields x) no_rules x"

definition wf_monitor_service :: "monitor_service \<Rightarrow> bool" where
  "wf_monitor_service x \<longleftrightarrow> admissible (monitor_service_fields x) no_rules"

interpretation monitor_service_class: model_class make_monitor_service wf_monitor_service
  by (rule build_class; simp add: make_monitor_service_def wf_monitor_service_def)

record host_monitor_wire =
  hmw_observed_at :: datetime
  hmw_hostname :: string
  hmw_machine_model :: "string option"
  hmw_operating_system :: "string option"
  hmw_uptime_seconds :: "pyfloat option"
  hmw_cpu :: monitor_processor
  hmw_npus :: "monitor_processor list"
  hmw_npu_unavailable_reason :: "string option"
  hmw_memory :: monitor_memory
  hmw_disks :: "monitor_disk list"
  hmw_services :: "monitor_service list"
  hmw_services_unavailable_reason :: "string option"

definition host_monitor_wire_fields :: "host_monitor_wire \<Rightarrow> (string \<times> bool) list" where
  "host_monitor_wire_fields x =
     [(''uptime_seconds'', amount (hmw_uptime_seconds x)),
      (''cpu'', wf_monitor_processor (hmw_cpu x)),
      (''npus'', list_all wf_monitor_processor (hmw_npus x)),
      (''memory'', wf_monitor_memory (hmw_memory x)),
      (''disks'', list_all wf_monitor_disk (hmw_disks x)),
      (''services'', list_all wf_monitor_service (hmw_services x))]"

definition make_host_monitor_wire :: "host_monitor_wire \<Rightarrow> string invalid + host_monitor_wire" where
  "make_host_monitor_wire x = build (host_monitor_wire_fields x) no_rules x"

definition wf_host_monitor_wire :: "host_monitor_wire \<Rightarrow> bool" where
  "wf_host_monitor_wire x \<longleftrightarrow> admissible (host_monitor_wire_fields x) no_rules"

interpretation host_monitor_wire_class: model_class make_host_monitor_wire wf_host_monitor_wire
  by (rule build_class; simp add: make_host_monitor_wire_def wf_host_monitor_wire_def)

subsection \<open>Vitals\<close>

text \<open>\<open>system/v1/host_vitals.py\<close>.\<close>

definition host_vitals_contract :: string where
  "host_vitals_contract = ''https://contracts.eidolon.live/system/v1/host-vitals.schema.json''"

definition host_vitals_operation :: string where
  "host_vitals_operation = ''system.host-vitals''"

record measurement_wire =
  mw_name :: string
  mw_value :: "pyfloat option"
  mw_unit :: string
  mw_capacity :: "pyfloat option"
  mw_unavailable_reason :: "string option"

definition measurement_wire_fields :: "measurement_wire \<Rightarrow> (string \<times> bool) list" where
  "measurement_wire_fields x =
     [(''name'', len_between 1 64 (mw_name x)),
      (''unavailable_reason'', opt_ok (len_between 0 256) (mw_unavailable_reason x))]"

definition make_measurement_wire :: "measurement_wire \<Rightarrow> string invalid + measurement_wire" where
  "make_measurement_wire x = build (measurement_wire_fields x) no_rules x"

definition wf_measurement_wire :: "measurement_wire \<Rightarrow> bool" where
  "wf_measurement_wire x \<longleftrightarrow> admissible (measurement_wire_fields x) no_rules"

interpretation measurement_wire_class: model_class make_measurement_wire wf_measurement_wire
  by (rule build_class; simp add: make_measurement_wire_def wf_measurement_wire_def)

record host_vitals_wire =
  hv_observed_at :: datetime
  hv_measurements :: "measurement_wire list"

definition host_vitals_wire_fields :: "host_vitals_wire \<Rightarrow> (string \<times> bool) list" where
  "host_vitals_wire_fields x =
     [(''measurements'', list_all wf_measurement_wire (hv_measurements x))]"

definition make_host_vitals_wire :: "host_vitals_wire \<Rightarrow> string invalid + host_vitals_wire" where
  "make_host_vitals_wire x = build (host_vitals_wire_fields x) no_rules x"

definition wf_host_vitals_wire :: "host_vitals_wire \<Rightarrow> bool" where
  "wf_host_vitals_wire x \<longleftrightarrow> admissible (host_vitals_wire_fields x) no_rules"

interpretation host_vitals_wire_class: model_class make_host_vitals_wire wf_host_vitals_wire
  by (rule build_class; simp add: make_host_vitals_wire_def wf_host_vitals_wire_def)


subsection \<open>Power\<close>

text \<open>\<open>system/v1/host_power.py\<close>.\<close>

definition portable_char :: "char \<Rightarrow> bool" where
  "portable_char c \<longleftrightarrow> is_ascii_alnum c \<or> c = CHR ''_'' \<or> c = CHR ''-''"

record host_power_status =
  hps_can_power_off :: bool
  hps_unavailable_reason :: "string option"

record host_power_off_request =
  hpr_request_id :: string

definition host_power_off_request_fields :: "host_power_off_request \<Rightarrow> (string \<times> bool) list" where
  "host_power_off_request_fields x =
     [(''request_id'', len_between 1 96 (hpr_request_id x) \<and> list_all portable_char (hpr_request_id x))]"

definition make_host_power_off_request :: "host_power_off_request \<Rightarrow> string invalid + host_power_off_request" where
  "make_host_power_off_request x = build (host_power_off_request_fields x) no_rules x"

definition wf_host_power_off_request :: "host_power_off_request \<Rightarrow> bool" where
  "wf_host_power_off_request x \<longleftrightarrow> admissible (host_power_off_request_fields x) no_rules"

interpretation host_power_off_request_class: model_class make_host_power_off_request wf_host_power_off_request
  by (rule build_class; simp add: make_host_power_off_request_def wf_host_power_off_request_def)

record host_power_off_accepted =
  hpa_request_id :: string


subsection \<open>What an accepted reading holds\<close>

lemma percentage_bounds: "percentage (Some x) \<longleftrightarrow> (\<exists>q. x = Fin q \<and> 0 \<le> q \<and> q \<le> 100)"
  by (cases x) (auto simp: percentage_def)

text \<open>Every share of a processor time in an accepted reading, at any depth, is a number between 0 and 100.\<close>

definition shares_of_processor :: "monitor_processor \<Rightarrow> pyfloat option list" where
  "shares_of_processor p = mp_usage_percent p # map mc_usage_percent (mp_cores p)"

definition shares_of_service :: "monitor_service \<Rightarrow> pyfloat option list" where
  "shares_of_service s = ms_cpu_percent s # map mpr_cpu_percent (ms_processes s)"

definition all_shares :: "host_monitor_wire \<Rightarrow> pyfloat option list" where
  "all_shares w = concat (map shares_of_processor (hmw_cpu w # hmw_npus w)) @ concat (map shares_of_service (hmw_services w))"

lemma processor_shares: "wf_monitor_processor p \<Longrightarrow> list_all percentage (shares_of_processor p)"
  by (auto simp: wf_monitor_processor_def monitor_processor_fields_def shares_of_processor_def list_all_iff
      wf_monitor_core_def monitor_core_fields_def admissible_def bad_fields_def)

lemma service_shares: "wf_monitor_service s \<Longrightarrow> list_all percentage (shares_of_service s)"
  by (auto simp: wf_monitor_service_def monitor_service_fields_def shares_of_service_def list_all_iff
      wf_monitor_process_def monitor_process_fields_def admissible_def bad_fields_def)

lemma accepted_shares_bounded:
  "case make_host_monitor_wire w of Inr a \<Rightarrow> a = w \<and> list_all percentage (all_shares a) | Inl _ \<Rightarrow> True"
proof (cases "make_host_monitor_wire w")
  case (Inr a)
  then have "wf_host_monitor_wire w" "a = w"
    using host_monitor_wire_class.accepted by auto
  then have "list_all wf_monitor_processor (hmw_cpu w # hmw_npus w)" "list_all wf_monitor_service (hmw_services w)"
    by (auto simp: wf_host_monitor_wire_def host_monitor_wire_fields_def admissible_def bad_fields_def)
  with Inr \<open>a = w\<close> show ?thesis
    using processor_shares service_shares by (fastforce simp: all_shares_def list_all_iff)
qed simp

text \<open>A measurement is said to be a reading or the reason for its absence; nothing requires either, nor that a value be a number.\<close>

lemma measurement_may_say_nothing:
  "wf_measurement_wire \<lparr>mw_name = ''load'', mw_value = v, mw_unit = u, mw_capacity = c, mw_unavailable_reason = None\<rparr>"
  by (simp add: wf_measurement_wire_def measurement_wire_fields_def admissible_def bad_fields_def len_between_def)

end
