(* ===== verification/Registry.thy ===== *)
theory Registry
  imports Json_Values
begin

text \<open>
  The registry of runtime instances, \<open>biz/registry\<close>: the portable identifiers, the records of owners, companions,
  devices and bindings, and where the registry is kept. The environment is an association list; expanding the user's
  home in a path is the parameter \<open>expand\<close>.
\<close>

subsection \<open>Identifiers\<close>

definition id_char :: "char \<Rightarrow> bool" where
  "id_char c \<longleftrightarrow> is_ascii_alnum c \<or> c = CHR ''_'' \<or> c = CHR ''-''"

text \<open>
  \<open>ID_PATTERN.match\<close>: the dollar of Python's \<open>re\<close> matches at the end of the text and also before a line feed that ends
  it.
\<close>

definition portable_id :: "string \<Rightarrow> bool" where
  "portable_id s \<longleftrightarrow> len_between 1 64 s \<and> list_all id_char s"

definition matches_id_pattern :: "string \<Rightarrow> bool" where
  "matches_id_pattern s \<longleftrightarrow>
     portable_id s \<or> (s \<noteq> [] \<and> of_char (last s) = (10 :: nat) \<and> portable_id (butlast s))"

datatype id_error = Not_Portable string string

definition validate_registry_id :: "string \<Rightarrow> string \<Rightarrow> id_error + string" where
  "validate_registry_id v field_name = guarded [(\<not> matches_id_pattern v, Not_Portable field_name v)] v"

subsection \<open>Records\<close>

record owner_ref =
  own_owner_id :: string
  own_display_name :: string
  own_kind :: string
  own_status :: string

definition owner_ref_fields :: "owner_ref \<Rightarrow> (string \<times> bool) list" where
  "owner_ref_fields x =
     [(''owner_id'', len_between 1 64 (own_owner_id x))]"

definition make_owner_ref :: "owner_ref \<Rightarrow> string invalid + owner_ref" where
  "make_owner_ref x = build (owner_ref_fields x) no_rules x"

definition wf_owner_ref :: "owner_ref \<Rightarrow> bool" where
  "wf_owner_ref x \<longleftrightarrow> admissible (owner_ref_fields x) no_rules"

interpretation owner_ref_class: model_class make_owner_ref wf_owner_ref
  by (rule build_class; simp add: make_owner_ref_def wf_owner_ref_def)

record companion_ref =
  cmp_companion_id :: string
  cmp_owner_id :: string
  cmp_display_name :: string
  cmp_kind :: string
  cmp_status :: string
  cmp_current_genome_id :: "string option"
  cmp_default_memory_realm_id :: "string option"

definition companion_ref_fields :: "companion_ref \<Rightarrow> (string \<times> bool) list" where
  "companion_ref_fields x =
     [(''companion_id'', len_between 1 64 (cmp_companion_id x)),
      (''owner_id'', len_between 1 64 (cmp_owner_id x))]"

definition make_companion_ref :: "companion_ref \<Rightarrow> string invalid + companion_ref" where
  "make_companion_ref x = build (companion_ref_fields x) no_rules x"

definition wf_companion_ref :: "companion_ref \<Rightarrow> bool" where
  "wf_companion_ref x \<longleftrightarrow> admissible (companion_ref_fields x) no_rules"

interpretation companion_ref_class: model_class make_companion_ref wf_companion_ref
  by (rule build_class; simp add: make_companion_ref_def wf_companion_ref_def)

record device_registry_record =
  drr_device_id :: string
  drr_name :: string
  drr_kind :: string
  drr_enabled :: bool
  drr_psk_hash :: "string option"
  drr_paired :: bool
  drr_approved :: bool
  drr_approved_at :: "string option"
  drr_created_at :: string
  drr_last_seen :: string
  drr_metadata :: json_object
  drr_capabilities :: "json_object list"
  drr_capabilities_declared :: bool

definition device_registry_record_fields :: "device_registry_record \<Rightarrow> (string \<times> bool) list" where
  "device_registry_record_fields x =
     [(''device_id'', len_between 1 128 (drr_device_id x))]"

definition make_device_registry_record :: "device_registry_record \<Rightarrow> string invalid + device_registry_record" where
  "make_device_registry_record x = build (device_registry_record_fields x) no_rules x"

definition wf_device_registry_record :: "device_registry_record \<Rightarrow> bool" where
  "wf_device_registry_record x \<longleftrightarrow> admissible (device_registry_record_fields x) no_rules"

interpretation device_registry_record_class: model_class make_device_registry_record wf_device_registry_record
  by (rule build_class; simp add: make_device_registry_record_def wf_device_registry_record_def)

record device_binding_record =
  dbr_device_id :: string
  dbr_owner_id :: string
  dbr_companion_id :: string
  dbr_memory_realm_id :: string
  dbr_genome_id :: string
  dbr_bound_at :: string
  dbr_interaction_mode :: "string option"

definition device_binding_record_fields :: "device_binding_record \<Rightarrow> (string \<times> bool) list" where
  "device_binding_record_fields x =
     [(''device_id'', len_between 1 128 (dbr_device_id x)),
      (''owner_id'', len_between 1 64 (dbr_owner_id x)),
      (''companion_id'', len_between 1 64 (dbr_companion_id x)),
      (''memory_realm_id'', len_between 1 64 (dbr_memory_realm_id x)),
      (''genome_id'', len_between 1 64 (dbr_genome_id x))]"

definition make_device_binding_record :: "device_binding_record \<Rightarrow> string invalid + device_binding_record" where
  "make_device_binding_record x = build (device_binding_record_fields x) no_rules x"

definition wf_device_binding_record :: "device_binding_record \<Rightarrow> bool" where
  "wf_device_binding_record x \<longleftrightarrow> admissible (device_binding_record_fields x) no_rules"

interpretation device_binding_record_class: model_class make_device_binding_record wf_device_binding_record
  by (rule build_class; simp add: make_device_binding_record_def wf_device_binding_record_def)

subsection \<open>Where the registry is\<close>

definition registry_db_env :: string where
  "registry_db_env = ''EIDOLON_REGISTRY_DB_PATH''"

definition default_registry_db_path :: "(string \<Rightarrow> string) \<Rightarrow> (string \<times> string) list \<Rightarrow> string" where
  "default_registry_db_path expand environ =
     expand (case map_of environ ''EIDOLON_STATE_ROOT'' of None \<Rightarrow> ''~/eidolon/data'' | Some r \<Rightarrow> r)
       @ ''/registry/registry.sqlite3''"

definition resolve_registry_db_path :: "(string \<Rightarrow> string) \<Rightarrow> (string \<times> string) list \<Rightarrow> string option \<Rightarrow> string" where
  "resolve_registry_db_path expand environ explicit =
     (let raw = strip (case map_of environ registry_db_env of None \<Rightarrow> [] | Some r \<Rightarrow> r)
      in if raw \<noteq> [] then expand raw
         else case explicit of
           Some p \<Rightarrow> if strip p \<noteq> [] then expand p else default_registry_db_path expand environ
         | None \<Rightarrow> default_registry_db_path expand environ)"

subsection \<open>Properties\<close>

text \<open>An accepted identifier is portable, or is portable up to one line feed at its end.\<close>

lemma registry_id_accepted_iff:
  "validate_registry_id v n = Inr w \<longleftrightarrow> w = v \<and> (portable_id v \<or> (\<exists>u. portable_id u \<and> v = u @ [char_of (10 :: nat)]))"
proof -
  have "s \<noteq> [] \<and> of_char (last s) = (10 :: nat) \<and> portable_id (butlast s)
      \<longleftrightarrow> (\<exists>u. portable_id u \<and> s = u @ [char_of (10 :: nat)])" for s
  proof
    assume left: "s \<noteq> [] \<and> of_char (last s) = (10 :: nat) \<and> portable_id (butlast s)"
    then have "last s = char_of (10 :: nat)" by (metis char_of_char)
    with left show "\<exists>u. portable_id u \<and> s = u @ [char_of (10 :: nat)]"
      by (metis append_butlast_last_id)
  qed auto
  then show ?thesis by (simp add: validate_registry_id_def matches_id_pattern_def guard_simps)
qed

lemma line_feed_id_accepted:
  "validate_registry_id (''owner'' @ [char_of (10 :: nat)]) n = Inr (''owner'' @ [char_of (10 :: nat)])"
proof -
  have "portable_id ''owner''" by (simp add: portable_id_def len_between_def id_char_def char_class_defs)
  then show ?thesis by (auto simp: registry_id_accepted_iff)
qed

text \<open>The environment wins over the configured path, which wins over the state root; a blank one is as good as none.\<close>

lemma registry_path_precedence:
  "map_of environ registry_db_env = Some r \<Longrightarrow> \<not> blank r \<Longrightarrow> resolve_registry_db_path expand environ explicit = expand (strip r)"
  "map_of environ registry_db_env = None \<Longrightarrow> \<not> blank p \<Longrightarrow> resolve_registry_db_path expand environ (Some p) = expand p"
  "map_of environ registry_db_env = None \<Longrightarrow> blank p
     \<Longrightarrow> resolve_registry_db_path expand environ (Some p) = resolve_registry_db_path expand environ None"
  by (simp_all add: resolve_registry_db_path_def blank_def)

end

