(* ===== verification/Local_Speech.thy ===== *)
theory Local_Speech
  imports Wire_Contracts Audit_Publisher
begin

text \<open>
  The local speech protocols, \<open>biz/contracts/local_asr.py\<close> and \<open>local_tts.py\<close>, and the vocabulary of mission control,
  \<open>biz/contracts/mission_control.py\<close>: message types, refusals, limits, message builders and stream addresses.
\<close>

subsection \<open>Recognition\<close>

definition asr_protocol_version :: int where "asr_protocol_version = 1"
definition asr_capability :: string where "asr_capability = ''local_asr''"
definition asr_port_role :: string where "asr_port_role = ''asr_stream''"
definition asr_stream_path :: string where "asr_stream_path = ''/v1/stream''"
definition asr_ready_path :: string where "asr_ready_path = ''/readyz''"
definition asr_info_path :: string where "asr_info_path = ''/v1/info''"
definition start_utterance :: string where "start_utterance = ''start_utterance''"
definition end_utterance :: string where "end_utterance = ''end_utterance''"
definition start_utterance_legacy :: string where "start_utterance_legacy = ''start''"
definition asr_client_message_types :: "string list" where
  "asr_client_message_types = [start_utterance, start_utterance_legacy, end_utterance, ''ping'', ''close_stream'']"
definition asr_server_message_types :: "string list" where
  "asr_server_message_types = [''connected'', ''utterance_started'', ''transcript'', ''pong'', ''error'']"
definition asr_sample_rate :: int where "asr_sample_rate = 16000"
definition asr_channels :: int where "asr_channels = 1"
definition asr_format :: string where "asr_format = ''pcm_s16le''"
definition asr_error_codes :: "string list" where
  "asr_error_codes = [''connection_capacity_exceeded'', ''utterance_too_long'', ''bad_request'', ''internal_error'']"
definition asr_retryable_error_codes :: "string list" where
  "asr_retryable_error_codes = [''connection_capacity_exceeded'', ''internal_error'']"

definition start_message :: "string \<Rightarrow> string \<Rightarrow> json_object" where
  "start_message stream_id utterance_id =
     [(''type'', JStr start_utterance), (''stream_id'', JStr stream_id), (''utterance_id'', JStr utterance_id),
      (''sample_rate'', JInt asr_sample_rate), (''channels'', JInt asr_channels), (''format'', JStr asr_format)]"

definition asr_stream_url :: "string \<Rightarrow> int \<Rightarrow> bool \<Rightarrow> string" where
  "asr_stream_url host port secure =
     (if secure then ''wss'' else ''ws'') @ ''://'' @ host @ '':'' @ int_text port @ asr_stream_path"

subsection \<open>Synthesis\<close>

definition tts_protocol_version :: int where "tts_protocol_version = 1"
definition tts_capability :: string where "tts_capability = ''local_tts''"
definition tts_port_role :: string where "tts_port_role = ''tts_stream''"
definition tts_stream_path :: string where "tts_stream_path = ''/v1/stream''"
definition tts_ready_path :: string where "tts_ready_path = ''/readyz''"
definition tts_info_path :: string where "tts_info_path = ''/v1/info''"
definition synthesize :: string where "synthesize = ''synthesize''"
definition cancel_synthesis :: string where "cancel_synthesis = ''cancel''"
definition tts_client_message_types :: "string list" where
  "tts_client_message_types = [synthesize, cancel_synthesis, ''ping'', ''close_stream'']"
definition tts_server_message_types :: "string list" where
  "tts_server_message_types =
     [''connected'', ''synthesis_started'', ''synthesis_finished'', ''synthesis_cancelled'', ''pong'', ''error'']"
definition request_id_field :: string where "request_id_field = ''request_id''"
definition finish_report_fields :: "string list" where
  "finish_report_fields =
     [''pcm_bytes'', ''audio_seconds'', ''minimum_buffer_ms'', ''late_chunks'', ''ttft_ms'', ''steady_rtf'', ''profile_ms'']"
definition tts_sample_rate :: int where "tts_sample_rate = 24000"
definition tts_channels :: int where "tts_channels = 1"
definition tts_format :: string where "tts_format = ''pcm_s16le''"
definition tts_error_codes :: "string list" where
  "tts_error_codes =
     [''synthesis_in_progress'', ''text_too_long'', ''bad_request'', ''internal_error'', ''engine_unavailable'']"
definition tts_retryable_error_codes :: "string list" where
  "tts_retryable_error_codes = [''synthesis_in_progress'', ''internal_error'', ''engine_unavailable'']"
definition max_text_characters :: int where "max_text_characters = 400"
definition safe_text_characters :: int where "safe_text_characters = 60"

definition synthesize_message :: "string \<Rightarrow> string \<Rightarrow> json_object" where
  "synthesize_message request_id t = [(''type'', JStr synthesize), (request_id_field, JStr request_id), (''text'', JStr t)]"

definition cancel_message :: "string \<Rightarrow> json_object" where
  "cancel_message request_id = [(''type'', JStr cancel_synthesis), (request_id_field, JStr request_id)]"

definition tts_stream_url :: "string \<Rightarrow> int \<Rightarrow> bool \<Rightarrow> string" where
  "tts_stream_url host port secure =
     (if secure then ''wss'' else ''ws'') @ ''://'' @ host @ '':'' @ int_text port @ tts_stream_path"

subsection \<open>Mission control\<close>

definition mc_contract_version :: string where "mc_contract_version = ''1''"
definition snapshot_coverage :: string where "snapshot_coverage = ''owner-runtime''"
definition lane_states :: "string list" where "lane_states = [''ok'', ''degraded'', ''unavailable'']"
definition presence_states :: "string list" where "presence_states = [''online'', ''offline'', ''degraded'', ''unknown'']"
definition presence_sources :: "string list" where
  "presence_sources = [''runtime_blackboard'', ''channel'', ''hub'', ''none'']"
definition mc_companion_lifecycle_states :: "companion_lifecycle list" where
  "mc_companion_lifecycle_states = companion_lifecycle_states"
definition role_kinds :: "string list" where "role_kinds = [''guard'', ''persona'', ''unbound'']"
definition activity_kinds :: "string list" where
  "activity_kinds = [''voice_turn'', ''guard_event'', ''device_command'', ''device_event'', ''background_job'']"
definition hop_node_types :: "string list" where
  "hop_node_types = [''device'', ''companion'', ''service'', ''memory'', ''tool'', ''provider'']"
definition hop_directions :: "string list" where "hop_directions = [''in'', ''out'', ''internal'']"
definition stage_keys :: "string list" where
  "stage_keys =
     [''input'', ''speech'', ''duck'', ''eot'', ''commit'', ''memory_recall'', ''agent_turn'', ''brain'', ''response'', ''tools'',
      ''tts'', ''playback'', ''memory_write'']"
definition service_tiers :: "string list" where "service_tiers = [''service'', ''middleware'', ''external'']"
definition mc_outcomes :: "string list" where "mc_outcomes = [''success'', ''failure'', ''denied'', ''deferred'']"
definition mc_severities :: "string list" where "mc_severities = [''info'', ''warn'', ''error'', ''critical'']"
definition privacy_classes :: "string list" where "privacy_classes = [''safe'', ''sensitive'', ''restricted'']"
definition event_origins :: "string list" where "event_origins = [''live'', ''polling'', ''replay'']"
definition cursor_field :: string where "cursor_field = ''ingest_seq''"
definition stream_reset_event :: string where "stream_reset_event = ''stream.reset''"

subsection \<open>What the vocabularies promise\<close>

text \<open>A builder writes a message its protocol contains, for the request it was given.\<close>

lemma builders_in_protocol:
  "\<exists>t \<in> set asr_client_message_types. map_of (start_message s u) ''type'' = Some (JStr t)"
  "\<exists>t \<in> set tts_client_message_types. map_of (synthesize_message r x) ''type'' = Some (JStr t)"
  "\<exists>t \<in> set tts_client_message_types. map_of (cancel_message r) ''type'' = Some (JStr t)"
  "map_of (synthesize_message r x) request_id_field = Some (JStr r)"
  "map_of (cancel_message r) request_id_field = Some (JStr r)"
  by (simp_all add: start_message_def asr_client_message_types_def start_utterance_def synthesize_message_def
      cancel_message_def tts_client_message_types_def synthesize_def cancel_synthesis_def request_id_field_def)

lemma retryable_are_errors:
  "set asr_retryable_error_codes \<subseteq> set asr_error_codes" "set tts_retryable_error_codes \<subseteq> set tts_error_codes"
  "safe_text_characters \<le> max_text_characters"
  by (simp_all add: asr_retryable_error_codes_def asr_error_codes_def tts_retryable_error_codes_def tts_error_codes_def
      safe_text_characters_def max_text_characters_def)

text \<open>
  The three vocabularies mission control restates are the audit envelope's: the fields of an envelope that carry them
  pass exactly for the values listed here.
\<close>

lemma mission_control_restates_the_envelope:
  "map_of (audit_envelope_fields e) ''outcome'' = Some (ae_outcome e \<in> set mc_outcomes)"
  "map_of (audit_envelope_fields e) ''severity'' = Some (ae_severity e \<in> set mc_severities)"
  "map_of (audit_envelope_fields e) ''data_classification'' = Some (ae_data_classification e \<in> set privacy_classes)"
  by (simp_all add: audit_envelope_fields_def mc_outcomes_def mc_severities_def privacy_classes_def)

text \<open>The address names the host, the port and the path it was made of.\<close>

lemma stream_url_host:
  assumes "CHR '':'' \<notin> set host"
  shows "partition_at (CHR '':'') (drop (if secure then 6 else 5) (asr_stream_url host port secure)) = (host, True, int_text port @ asr_stream_path)"
    and "partition_at (CHR '':'') (drop (if secure then 6 else 5) (tts_stream_url host port secure)) = (host, True, int_text port @ tts_stream_path)"
  using assms by (auto simp: asr_stream_url_def tts_stream_url_def)

end
