(* ===== verification/Conformance_Vectors.thy ===== *)
theory Conformance_Vectors
  imports Conformance Device_Control Admission_Credential Python_Values
begin

text \<open>
  The checks of published vectors in \<open>contracts/device_foundation/v1/conformance/run.py\<close> that hold data to a rule: the
  answers a Body gets and the corrections of its stored reference, the session binding with its refusals and routes,
  the admission event stream, the framing of a transport and the state vectors. A vector is the JSON the runner loads. Schema validation (\<open>errors\<close>, the messages
  about a value), canonical JSON (\<open>canon\<close>), \<open>str\<close> of a value that is no text (\<open>render\<close>) and the clock are parameters.
\<close>

subsection \<open>Reading a vector\<close>

definition member_of :: "json \<Rightarrow> string \<Rightarrow> conformance_error + json" where
  "member_of v k =
     (case v of JObj kvs \<Rightarrow> or_raise (Missing_Key k) (map_of kvs k) | _ \<Rightarrow> Inl Wrong_Value_Type)"

definition elements_of :: "json \<Rightarrow> conformance_error + json list" where
  "elements_of v = or_raise Wrong_Value_Type (iterate v)"

definition refuse_if :: "bool \<Rightarrow> string \<Rightarrow> conformance_error + unit" where
  "refuse_if c message = guarded [(c, Vector_Refused message)] ()"

lemma refuse_if_Inr [guard_simps]: "refuse_if c m = Inr u \<longleftrightarrow> \<not> c"
  by (simp add: refuse_if_def guard_simps)

lemma refuse_if_simps [simp]: "refuse_if False m = Inr ()" "refuse_if True m = Inl (Vector_Refused m)"
  by (simp_all add: refuse_if_def guarded_simps)

lemma member_of_Inr [guard_simps]: "member_of v k = Inr x \<longleftrightarrow> (\<exists>kvs. v = JObj kvs \<and> map_of kvs k = Some x)"
  by (cases v) (simp_all add: member_of_def guard_simps)

lemma member_of_JObj [simp]: "member_of (JObj kvs) k = or_raise (Missing_Key k) (map_of kvs k)"
  by (simp add: member_of_def)

definition vector_canonical_bytes :: "(json \<Rightarrow> byte list option) \<Rightarrow> json \<Rightarrow> conformance_error + byte list" where
  "vector_canonical_bytes canon v = or_raise Not_Canonical (canon v)"

text \<open>The canonical text and the digest a case publishes are those of its value.\<close>

definition check_published_bytes :: "(json \<Rightarrow> byte list option) \<Rightarrow> json \<Rightarrow> json \<Rightarrow> conformance_error + unit" where
  "check_published_bytes canon case_value published =
     and_then (vector_canonical_bytes canon published) (\<lambda>canonical.
     and_then (member_of case_value ''canonical_utf8'') (\<lambda>text.
     and_then (refuse_if (map_option JStr (utf8_decode canonical) \<noteq> Some text) ''canonical_utf8 is not RFC 8785 of its response'') (\<lambda>_.
     and_then (member_of case_value ''canonical_sha256'') (\<lambda>digest.
     refuse_if (digest \<noteq> JStr (''sha256:'' @ sha256_hex canonical)) ''digest does not describe the response''))))"

subsection \<open>Corrections of a stored reference\<close>

fun correction_text :: "device_ref_correction \<Rightarrow> string" where
  "correction_text No_Correction = ''none''"
| "correction_text Adopt = ''adopt''"
| "correction_text Refuse = ''refuse''"

definition answered_ref :: "json \<Rightarrow> conformance_error + device_ref" where
  "answered_ref response =
     and_then (member_of response ''device_ref'') (\<lambda>r. or_raise Invalid_Reference (parse_device_ref r))"

definition check_correction_case ::
  "(json \<Rightarrow> byte list option) \<Rightarrow> (json \<Rightarrow> string list) \<Rightarrow> json \<Rightarrow> device_ref \<Rightarrow> json \<Rightarrow> conformance_error + unit" where
  "check_correction_case canon errors vector held c =
     and_then (member_of c ''case_id'') (\<lambda>_.
     and_then (member_of c ''response'') (\<lambda>response.
     and_then (check_published_bytes canon c response) (\<lambda>_.
     and_then (refuse_if (errors response \<noteq> []) ''an answer a Body judges against its ref must be admissible on its own'') (\<lambda>_.
     and_then (member_of response ''nonce'') (\<lambda>nonce.
     and_then (member_of vector ''request_nonce'') (\<lambda>asked.
     and_then (refuse_if (\<not> py_eq nonce asked) ''does not echo the nonce it answers'') (\<lambda>_.
     and_then (member_of c ''why'') (\<lambda>why.
     and_then (refuse_if (\<not> truthy why) ''a case with no reason teaches nothing'') (\<lambda>_.
     and_then (answered_ref response) (\<lambda>answered.
     and_then (refuse_if (classify_authority_device_ref held answered = No_Correction)
       ''answers with the held ref, which corrects nothing'') (\<lambda>_.
     and_then (member_of c ''conclusion'') (\<lambda>conclusion.
     refuse_if (conclusion \<noteq> JStr (correction_text (classify_authority_device_ref held answered)))
       ''states another conclusion than the rule''))))))))))))"

text \<open>Whether some case states the conclusion, in the lifecycle state if one is asked for, about such a reference.\<close>

fun has_case :: "string \<Rightarrow> (device_ref \<Rightarrow> bool) \<Rightarrow> string option \<Rightarrow> json list \<Rightarrow> conformance_error + bool" where
  "has_case conclusion p state [] = Inr False"
| "has_case conclusion p state (c # cs) =
     and_then (member_of c ''conclusion'') (\<lambda>stated.
     if stated \<noteq> JStr conclusion then has_case conclusion p state cs
     else and_then (member_of c ''response'') (\<lambda>response.
          and_then (member_of response ''lifecycle_state'') (\<lambda>lifecycle.
          if state \<noteq> None \<and> map_option JStr state \<noteq> Some lifecycle then has_case conclusion p state cs
          else and_then (answered_ref response) (\<lambda>answered.
               if p answered then Inr True else has_case conclusion p state cs))))"

fun has_revocation :: "json list \<Rightarrow> conformance_error + bool" where
  "has_revocation [] = Inr False"
| "has_revocation (c # cs) =
     and_then (member_of c ''response'') (\<lambda>response.
     and_then (member_of response ''lifecycle_state'') (\<lambda>lifecycle.
     if lifecycle \<noteq> JStr ''revoked'' then has_revocation cs
     else and_then (member_of c ''conclusion'') (\<lambda>stated.
          if stated = JStr ''adopt'' then Inr True else has_revocation cs)))"

definition check_device_ref_corrections ::
  "(json \<Rightarrow> byte list option) \<Rightarrow> (json \<Rightarrow> string list) \<Rightarrow> json \<Rightarrow> conformance_error + nat" where
  "check_device_ref_corrections canon errors vector =
     and_then (member_of vector ''device_ref_corrections'') (\<lambda>part.
     and_then (member_of part ''conclusions'') (\<lambda>conclusions.
     and_then (refuse_if (conclusions \<noteq> JArr [JStr ''adopt'', JStr ''refuse''])
       ''the correction cases name conclusions this check does not hold'') (\<lambda>_.
     and_then (answered_ref vector) (\<lambda>held.
     and_then (and_then (member_of part ''cases'') elements_of) (\<lambda>cases.
     and_then (each (check_correction_case canon errors vector held) cases) (\<lambda>_.
     and_then (has_case ''adopt''
       (\<lambda>r. claim_generation held < claim_generation r \<and> trust_epoch r < trust_epoch held) (Some ''approved'') cases) (\<lambda>regrant.
     and_then (refuse_if (\<not> regrant) ''no case adopts a re-grant, whose trust_epoch restarts lower'') (\<lambda>_.
     and_then (has_case ''refuse''
       (\<lambda>r. owner_domain_generation held < owner_domain_generation r \<and> claim_generation held < claim_generation r) None cases) (\<lambda>reset.
     and_then (refuse_if (\<not> reset) ''no case refuses an Authority reset beside a later claim_generation'') (\<lambda>_.
     and_then (has_case ''refuse''
       (\<lambda>r. claim_generation r < claim_generation held \<and> trust_epoch held < trust_epoch r) None cases) (\<lambda>older.
     and_then (refuse_if (\<not> older) ''no case refuses an older claim_generation at a higher trust_epoch'') (\<lambda>_.
     and_then (has_revocation cases) (\<lambda>revoked.
     and_then (refuse_if (\<not> revoked) ''no case adopts a revocation recorded at a later generation'') (\<lambda>_.
     Inr (length cases)))))))))))))))"

subsection \<open>What the corrections separate\<close>

text \<open>A rule passes the vector when it concludes for each case what the case states.\<close>

definition rule_agrees :: "(device_ref \<Rightarrow> device_ref \<Rightarrow> device_ref_correction) \<Rightarrow> device_ref \<Rightarrow> json \<Rightarrow> bool" where
  "rule_agrees rule held c =
     (case and_then (member_of c ''response'') answered_ref of
        Inr answered \<Rightarrow> member_of c ''conclusion'' = Inr (JStr (correction_text (rule held answered)))
      | Inl _ \<Rightarrow> False)"

definition rule_passes :: "(device_ref \<Rightarrow> device_ref \<Rightarrow> device_ref_correction) \<Rightarrow> json \<Rightarrow> bool" where
  "rule_passes rule vector =
     (case (answered_ref vector,
            and_then (and_then (member_of vector ''device_ref_corrections'') (\<lambda>s. member_of s ''cases'')) elements_of) of
        (Inr held, Inr cases) \<Rightarrow> list_all (rule_agrees rule held) cases
      | _ \<Rightarrow> False)"

text \<open>
  Three rules that are easy to write instead: every counter must not fall; only the claim's order counts, whatever the
  Owner Domain's generation; the trust epoch counts before the claim's generation.
\<close>

definition memberwise_rule :: "device_ref \<Rightarrow> device_ref \<Rightarrow> device_ref_correction" where
  "memberwise_rule held answered =
     (if answered = held then No_Correction
      else if owner_domain_generation held \<le> owner_domain_generation answered
        \<and> claim_generation held \<le> claim_generation answered \<and> trust_epoch held \<le> trust_epoch answered then Adopt
      else Refuse)"

definition order_only_rule :: "device_ref \<Rightarrow> device_ref \<Rightarrow> device_ref_correction" where
  "order_only_rule held answered =
     (if claim_order answered = claim_order held then No_Correction
      else if claim_order answered > claim_order held then Adopt else Refuse)"

definition epoch_first_rule :: "device_ref \<Rightarrow> device_ref \<Rightarrow> device_ref_correction" where
  "epoch_first_rule held answered =
     (if answered = held then No_Correction
      else if trust_epoch held < trust_epoch answered
        \<or> trust_epoch answered = trust_epoch held \<and> claim_generation held < claim_generation answered then Adopt
      else Refuse)"

lemma has_case_True:
  "has_case conclusion p state cs = Inr True \<Longrightarrow>
     \<exists>c \<in> set cs. member_of c ''conclusion'' = Inr (JStr conclusion)
       \<and> (\<exists>answered. and_then (member_of c ''response'') answered_ref = Inr answered \<and> p answered)"
proof (induction cs)
  case (Cons c cs)
  then show ?case
    by (auto simp: and_then_eq_Inr split: if_splits)
qed simp

lemma disagreement:
  assumes "c \<in> set cs" "member_of c ''conclusion'' = Inr (JStr s)" "and_then (member_of c ''response'') answered_ref = Inr answered"
    and "correction_text (rule held answered) \<noteq> s"
  shows "\<not> list_all (rule_agrees rule held) cs"
proof -
  from assms(2-4) have "\<not> rule_agrees rule held c" by (simp add: rule_agrees_def)
  with assms(1) show ?thesis by (auto simp: list_all_iff)
qed

lemma correction_case_agrees:
  "check_correction_case canon errors vector held c = Inr u \<Longrightarrow> rule_agrees classify_authority_device_ref held c"
  by (auto simp: check_correction_case_def rule_agrees_def and_then_eq_Inr refuse_if_Inr)

text \<open>
  C3. A vector whose corrections pass is one the rule passes and none of the three others does: some case adopts what a
  Body that compares member by member refuses, some case refuses what a Body blind to the Owner Domain's generation
  adopts, and some case refuses what a Body that looks at the epoch first adopts.
\<close>
theorem corrections_separate_rules:
  assumes "check_device_ref_corrections canon errors vector = Inr n"
  shows "rule_passes classify_authority_device_ref vector \<and> \<not> rule_passes memberwise_rule vector
    \<and> \<not> rule_passes order_only_rule vector \<and> \<not> rule_passes epoch_first_rule vector"
proof -
  from assms obtain part held cases where part: "member_of vector ''device_ref_corrections'' = Inr part"
    and held: "answered_ref vector = Inr held" and cases: "and_then (member_of part ''cases'') elements_of = Inr cases"
    and all: "each (check_correction_case canon errors vector held) cases = Inr ()"
    and regrant: "has_case ''adopt'' (\<lambda>r. claim_generation held < claim_generation r \<and> trust_epoch r < trust_epoch held)
      (Some ''approved'') cases = Inr True"
    and reset: "has_case ''refuse'' (\<lambda>r. owner_domain_generation held < owner_domain_generation r
      \<and> claim_generation held < claim_generation r) None cases = Inr True"
    and older: "has_case ''refuse'' (\<lambda>r. claim_generation r < claim_generation held \<and> trust_epoch held < trust_epoch r)
      None cases = Inr True"
    unfolding check_device_ref_corrections_def by (auto simp: and_then_eq_Inr refuse_if_Inr)
  have passes: "rule_passes rule vector \<longleftrightarrow> list_all (rule_agrees rule held) cases" for rule
    using cases by (simp add: rule_passes_def part held)
  have "rule_passes classify_authority_device_ref vector"
    using all correction_case_agrees by (auto simp: passes each_ok list_all_iff)
  moreover have "\<not> rule_passes memberwise_rule vector"
    using has_case_True [OF regrant] disagreement [of _ cases "''adopt''" _ memberwise_rule held]
    by (fastforce simp: passes memberwise_rule_def)
  moreover have "\<not> rule_passes order_only_rule vector"
    using has_case_True [OF reset] disagreement [of _ cases "''refuse''" _ order_only_rule held]
    by (fastforce simp: passes order_only_rule_def claim_order_def)
  moreover have "\<not> rule_passes epoch_first_rule vector"
    using has_case_True [OF older] disagreement [of _ cases "''refuse''" _ epoch_first_rule held]
    by (fastforce simp: passes epoch_first_rule_def)
  ultimately show ?thesis by blast
qed

definition sample_device_ref :: "int \<Rightarrow> int \<Rightarrow> int \<Rightarrow> device_ref" where
  "sample_device_ref g c e =
     \<lparr>device_instance_id = device_instance_namespace @ sha256_hex [], owner_domain_id = ''owner-a'',
      owner_domain_generation = g, claim_generation = c, trust_epoch = e\<rparr>"

definition sample_answer :: "device_ref \<Rightarrow> string \<Rightarrow> json" where
  "sample_answer r state = JObj [(''nonce'', JStr ''n''), (''device_ref'', device_ref_json r), (''lifecycle_state'', JStr state)]"

definition sample_correction :: "device_ref \<Rightarrow> string \<Rightarrow> string \<Rightarrow> json" where
  "sample_correction r state conclusion =
     JObj [(''case_id'', JStr ''c''), (''response'', sample_answer r state), (''why'', JStr ''w''), (''conclusion'', JStr conclusion),
           (''canonical_utf8'', JStr (json_text (\<lambda>_. []) (sample_answer r state))),
           (''canonical_sha256'', JStr (''sha256:'' @ sha256_hex (utf8 (json_text (\<lambda>_. []) (sample_answer r state)))))]"

definition sample_cases :: "json list" where
  "sample_cases =
     [sample_correction (sample_device_ref 2 4 1) ''approved'' ''adopt'', sample_correction (sample_device_ref 3 4 1) ''approved'' ''refuse'',
      sample_correction (sample_device_ref 2 2 9) ''approved'' ''refuse'', sample_correction (sample_device_ref 2 5 5) ''revoked'' ''adopt'']"

definition sample_corrections :: json where
  "sample_corrections =
     JObj [(''request_nonce'', JStr ''n''), (''device_ref'', device_ref_json (sample_device_ref 2 3 5)),
           (''device_ref_corrections'', JObj [(''conclusions'', JArr [JStr ''adopt'', JStr ''refuse'']), (''cases'', JArr sample_cases)])]"

lemma sample_device_ref_ok: "1 \<le> g \<Longrightarrow> 1 \<le> c \<Longrightarrow> 1 \<le> e \<Longrightarrow> wf_device_ref (sample_device_ref g c e)"
  by (simp add: wf_device_ref_def sample_device_ref_def owner_domain_id_ok_def len_between_def starts_with_def)

lemma sample_verdicts:
  "classify_authority_device_ref (sample_device_ref 2 3 5) (sample_device_ref 2 4 1) = Adopt"
  "classify_authority_device_ref (sample_device_ref 2 3 5) (sample_device_ref 3 4 1) = Refuse"
  "classify_authority_device_ref (sample_device_ref 2 3 5) (sample_device_ref 2 2 9) = Refuse"
  "classify_authority_device_ref (sample_device_ref 2 3 5) (sample_device_ref 2 5 5) = Adopt"
  by (simp_all add: classify_authority_device_ref_def claim_order_def sample_device_ref_def)

lemma sample_parts:
  "member_of (sample_correction r state conclusion) ''response'' = Inr (sample_answer r state)"
  "member_of (sample_correction r state conclusion) ''conclusion'' = Inr (JStr conclusion)"
  "member_of (sample_answer r state) ''lifecycle_state'' = Inr (JStr state)"
  "wf_device_ref r \<Longrightarrow> answered_ref (sample_answer r state) = Inr r"
  by (simp_all add: member_of_def sample_correction_def sample_answer_def answered_ref_def parse_device_ref_json)

lemma sample_correction_passes:
  assumes "wf_device_ref r" "classify_authority_device_ref held r \<noteq> No_Correction"
    and "conclusion = correction_text (classify_authority_device_ref held r)"
  shows "check_correction_case sample_canon (\<lambda>_. []) sample_corrections held (sample_correction r state conclusion) = Inr ()"
proof -
  have bytes: "check_published_bytes sample_canon (sample_correction r state conclusion) (sample_answer r state) = Inr ()"
    by (simp add: check_published_bytes_def vector_canonical_bytes_def sample_canon_def member_of_def sample_correction_def utf8_decode_utf8)
  have more_parts: "member_of (sample_correction r state conclusion) ''case_id'' = Inr (JStr ''c'')"
    "member_of (sample_answer r state) ''nonce'' = Inr (JStr ''n'')" "member_of sample_corrections ''request_nonce'' = Inr (JStr ''n'')"
    "member_of (sample_correction r state conclusion) ''why'' = Inr (JStr ''w'')"
    by (simp_all add: member_of_def sample_correction_def sample_answer_def sample_corrections_def)
  show ?thesis
    by (simp add: check_correction_case_def sample_parts more_parts bytes assms(1,2) assms(3) [symmetric])
qed

lemma sample_corrections_pass: "check_device_ref_corrections sample_canon (\<lambda>_. []) sample_corrections = Inr 4"
proof -
  have parts: "member_of sample_corrections ''device_ref_corrections''
      = Inr (JObj [(''conclusions'', JArr [JStr ''adopt'', JStr ''refuse'']), (''cases'', JArr sample_cases)])"
    "answered_ref sample_corrections = Inr (sample_device_ref 2 3 5)"
    by (simp_all add: member_of_def sample_corrections_def answered_ref_def parse_device_ref_json sample_device_ref_ok)
  have each: "each (check_correction_case sample_canon (\<lambda>_. []) sample_corrections (sample_device_ref 2 3 5)) sample_cases = Inr ()"
    by (simp add: sample_cases_def sample_correction_passes sample_device_ref_ok sample_verdicts)
  have found:
    "has_case ''adopt'' (\<lambda>r. 3 < claim_generation r \<and> trust_epoch r < 5) (Some ''approved'') sample_cases = Inr True"
    "has_case ''refuse'' (\<lambda>r. 2 < owner_domain_generation r \<and> 3 < claim_generation r) None sample_cases = Inr True"
    "has_case ''refuse'' (\<lambda>r. claim_generation r < 3 \<and> 5 < trust_epoch r) None sample_cases = Inr True"
    "has_revocation sample_cases = Inr True"
    by (simp_all add: sample_cases_def sample_parts sample_device_ref_ok) (simp_all add: sample_device_ref_def)
  have held: "claim_generation (sample_device_ref 2 3 5) = 3" "trust_epoch (sample_device_ref 2 3 5) = 5"
    "owner_domain_generation (sample_device_ref 2 3 5) = 2" "length sample_cases = 4"
    by (simp_all add: sample_device_ref_def sample_cases_def)
  show ?thesis
    by (simp add: check_device_ref_corrections_def parts each elements_of_def held found)
qed

theorem corrections_separate_rules_witness:
  "check_device_ref_corrections sample_canon (\<lambda>_. []) sample_corrections = Inr 4
   \<and> rule_passes classify_authority_device_ref sample_corrections \<and> \<not> rule_passes memberwise_rule sample_corrections"
  using corrections_separate_rules [OF sample_corrections_pass] sample_corrections_pass by simp

subsection \<open>Lists and sets of a vector\<close>

text \<open>An array; the texts of one, or none when an element is no text; \<open>len\<close> of an array.\<close>

definition array_of :: "json \<Rightarrow> conformance_error + json list" where
  "array_of v = (case v of JArr vs \<Rightarrow> Inr vs | _ \<Rightarrow> Inl Wrong_Value_Type)"

fun text_value :: "json \<Rightarrow> string option" where
  "text_value (JStr s) = Some s"
| "text_value _ = None"

fun texts_of :: "json list \<Rightarrow> conformance_error + string list" where
  "texts_of [] = Inr []"
| "texts_of (v # vs) = and_then (or_raise Wrong_Value_Type (text_value v)) (\<lambda>s. and_then (texts_of vs) (\<lambda>ss. Inr (s # ss)))"

fun map_each :: "('a \<Rightarrow> conformance_error + 'b) \<Rightarrow> 'a list \<Rightarrow> conformance_error + 'b list" where
  "map_each f [] = Inr []"
| "map_each f (x # xs) = and_then (f x) (\<lambda>y. and_then (map_each f xs) (\<lambda>ys. Inr (y # ys)))"

definition array_at :: "json \<Rightarrow> string \<Rightarrow> conformance_error + json list" where
  "array_at v k = and_then (member_of v k) array_of"

text \<open>\<open>set(values)\<close> against a set of texts: containers are not hashable, and no other value equals a text.\<close>

definition same_texts :: "json \<Rightarrow> string list \<Rightarrow> conformance_error + bool" where
  "same_texts v wanted =
     and_then (elements_of v) (\<lambda>vs.
     if list_ex is_container vs then Inl Wrong_Value_Type else Inr (set vs = JStr ` set wanted))"

text \<open>\<open>v != s\<close> for a text \<open>s\<close>, at a member.\<close>

definition is_text_at :: "json \<Rightarrow> string \<Rightarrow> string \<Rightarrow> conformance_error + bool" where
  "is_text_at v k s = and_then (member_of v k) (\<lambda>x. Inr (x = JStr s))"

definition flag_at :: "json \<Rightarrow> string \<Rightarrow> conformance_error + bool" where
  "flag_at v k = and_then (member_of v k) (\<lambda>x. Inr (truthy x))"

definition refuse_when :: "conformance_error + bool \<Rightarrow> string \<Rightarrow> conformance_error + unit" where
  "refuse_when c message = and_then c (\<lambda>b. refuse_if b message)"

definition refuse_unless :: "conformance_error + bool \<Rightarrow> string \<Rightarrow> conformance_error + unit" where
  "refuse_unless c message = and_then c (\<lambda>b. refuse_if (\<not> b) message)"

text \<open>Paths of an inventory, with an index for each element.\<close>

definition indexed_paths :: "string \<Rightarrow> nat \<Rightarrow> string set" where
  "indexed_paths pre n = set (map (indexed pre) [0..<n])"

definition indexed_members :: "string \<Rightarrow> nat \<Rightarrow> string list \<Rightarrow> string set" where
  "indexed_members pre n members = set (concat (map (\<lambda>i. map (dotted (indexed pre i)) members) [0..<n]))"

subsection \<open>The answer a Body gets\<close>

definition number_at :: "json \<Rightarrow> string \<Rightarrow> conformance_error + pyfloat" where
  "number_at v k = and_then (member_of v k) (\<lambda>x. or_raise Wrong_Value_Type (json_number x))"

definition check_answer_case ::
  "(json \<Rightarrow> byte list option) \<Rightarrow> (json \<Rightarrow> string list) \<Rightarrow> json \<Rightarrow> json list \<Rightarrow> json \<Rightarrow> conformance_error + json" where
  "check_answer_case canon errors vector declared c =
     and_then (member_of c ''case_id'') (\<lambda>_.
     and_then (member_of c ''response'') (\<lambda>response.
     and_then (check_published_bytes canon c response) (\<lambda>_.
     and_then (refuse_if (errors response \<noteq> []) ''the vector's own response is not admissible'') (\<lambda>_.
     and_then (member_of c ''body_state'') (\<lambda>state.
     and_then (refuse_if (\<not> list_ex (py_eq state) declared) ''states a conclusion this vector does not declare'') (\<lambda>_.
     and_then (refuse_unless (flag_at c ''why'') ''a case with no reason teaches nothing'') (\<lambda>_.
     and_then (member_of response ''nonce'') (\<lambda>nonce.
     and_then (member_of vector ''request_nonce'') (\<lambda>asked.
     and_then (refuse_if (\<not> py_eq nonce asked) ''does not echo the nonce it answers'') (\<lambda>_.
     and_then (member_of response ''device_ref'') (\<lambda>answered.
     and_then (member_of vector ''device_ref'') (\<lambda>held.
     and_then (refuse_if (\<not> py_eq answered held) ''answers about a different device'') (\<lambda>_.
     Inr state)))))))))))))"

fun first_active :: "json list \<Rightarrow> conformance_error + json" where
  "first_active [] = Inl Nothing_Found"
| "first_active (c # cs) = and_then (is_text_at c ''body_state'' ''active'') (\<lambda>a. if a then Inr c else first_active cs)"

definition same_member :: "json \<Rightarrow> json \<Rightarrow> string \<Rightarrow> conformance_error + bool" where
  "same_member v w k = and_then (member_of v k) (\<lambda>x. and_then (member_of w k) (\<lambda>y. Inr (py_eq x y)))"

text \<open>An accepted grant is coherent, and past by the clock of the run.\<close>

definition check_grant :: "int \<Rightarrow> json \<Rightarrow> conformance_error + unit" where
  "check_grant now_ms channel =
     and_then (number_at channel ''expires_at_ms'') (\<lambda>expires.
     and_then (number_at channel ''issued_at_ms'') (\<lambda>issued.
     and_then (refuse_if (float_le expires issued) ''an accepted grant is not internally coherent'') (\<lambda>_.
     refuse_if (float_le (Fin (of_int now_ms)) expires) ''this grant has not expired by the wall clock yet'')))"

definition check_grants :: "int \<Rightarrow> json \<Rightarrow> conformance_error + unit" where
  "check_grants now_ms c =
     and_then (and_then (member_of c ''response'') (\<lambda>r. and_then (member_of r ''channels'') elements_of)) (each (check_grant now_ms))"

definition check_refusal :: "(json \<Rightarrow> string list) \<Rightarrow> json \<Rightarrow> conformance_error + unit" where
  "check_refusal errors c =
     and_then (member_of c ''case_id'') (\<lambda>_.
     and_then (refuse_unless (flag_at c ''why'') ''a refusal without a reason teaches nothing'') (\<lambda>_.
     and_then (member_of c ''response'') (\<lambda>response.
     refuse_if (errors response = []) ''the refused response is admissible'')))"

definition response_inventory :: "nat \<Rightarrow> nat \<Rightarrow> nat \<Rightarrow> string set" where
  "response_inventory cases refusals corrections =
     {''expiry_is_not_judged_against'', ''request_nonce'', ''device_ref'', ''device_ref.device_instance_id'',
      ''device_ref.owner_domain_id'', ''device_ref.owner_domain_generation'', ''device_ref.claim_generation'',
      ''device_ref.trust_epoch'', ''body_states'', ''cases'', ''must_refuse'', ''device_ref_corrections'',
      ''device_ref_corrections.conclusions'', ''device_ref_corrections.cases''}
     \<union> indexed_paths ''cases'' cases
     \<union> indexed_members ''cases'' cases [''case_id'', ''body_state'', ''response'', ''canonical_utf8'', ''canonical_sha256'']
     \<union> indexed_paths ''must_refuse'' refusals \<union> indexed_members ''must_refuse'' refusals [''case_id'', ''response'']
     \<union> indexed_paths ''device_ref_corrections.cases'' corrections
     \<union> indexed_members ''device_ref_corrections.cases'' corrections
         [''case_id'', ''conclusion'', ''response'', ''canonical_utf8'', ''canonical_sha256'']"

definition response_descriptions :: "nat \<Rightarrow> nat \<Rightarrow> nat \<Rightarrow> string set" where
  "response_descriptions cases refusals corrections =
     {''vector_id'', ''description'', ''schema'', ''device_ref_corrections.rule''}
     \<union> indexed_members ''cases'' cases [''why''] \<union> indexed_members ''must_refuse'' refusals [''why'']
     \<union> indexed_members ''device_ref_corrections.cases'' corrections [''why'']"

definition response_opaque :: "nat \<Rightarrow> nat \<Rightarrow> nat \<Rightarrow> string set" where
  "response_opaque cases refusals corrections =
     indexed_members ''cases'' cases [''response''] \<union> indexed_members ''must_refuse'' refusals [''response'']
     \<union> indexed_members ''device_ref_corrections.cases'' corrections [''response'']"

text \<open>\<open>inner\<close> is the session binding vector, which the active case must carry.\<close>

definition check_device_configuration_response ::
  "(json \<Rightarrow> byte list option) \<Rightarrow> (json \<Rightarrow> string list) \<Rightarrow> int \<Rightarrow> json \<Rightarrow> json \<Rightarrow> conformance_error + nat" where
  "check_device_configuration_response canon errors now_ms inner vector =
     and_then (and_then (member_of vector ''body_states'') elements_of) (\<lambda>declared.
     and_then (array_at vector ''cases'') (\<lambda>cases.
     and_then (map_each (check_answer_case canon errors vector declared) cases) (\<lambda>seen.
     and_then (texts_of seen) (\<lambda>states.
     and_then (texts_of declared) (\<lambda>names.
     and_then (refuse_if (sort states \<noteq> sort names \<or> length states \<noteq> card (set states))
       ''the response vector covers not its own declared states'') (\<lambda>_.
     and_then (first_active cases) (\<lambda>active.
     and_then (and_then (member_of active ''response'') (\<lambda>r. array_at r ''channels'')) (\<lambda>channels.
     and_then (case channels of [] \<Rightarrow> Inl Nothing_Found | channel # _ \<Rightarrow> Inr channel) (\<lambda>channel.
     and_then (refuse_unless (same_member channel inner ''binding_format'')
       ''the active case names a binding format the session vector does not'') (\<lambda>_.
     and_then (refuse_unless (same_member channel inner ''opaque_binding'')
       ''the active case carries a binding the session vector does not'') (\<lambda>_.
     and_then (refuse_unless (is_text_at vector ''expiry_is_not_judged_against'' ''the reader's clock'')
       ''the response vector names an expiry rule this check does not hold'') (\<lambda>_.
     and_then (each (check_grants now_ms) cases) (\<lambda>_.
     and_then (array_at vector ''must_refuse'') (\<lambda>refusals.
     and_then (refuse_if (refusals = []) ''the response vector carries no refusal case'') (\<lambda>_.
     and_then (each (check_refusal errors) refusals) (\<lambda>_.
     and_then (check_device_ref_corrections canon errors vector) (\<lambda>corrections.
     and_then (require_field_inventory vector
       (response_inventory (length cases) (length refusals) corrections)
       (response_descriptions (length cases) (length refusals) corrections)
       (response_opaque (length cases) (length refusals) corrections)) (\<lambda>_.
     Inr (length cases + length refusals + corrections)))))))))))))))))))"

lemma and_then_refuse_unless [guard_simps]: "refuse_unless c m = Inr u \<longleftrightarrow> c = Inr True"
  by (auto simp: refuse_unless_def and_then_eq_Inr refuse_if_Inr)

text \<open>
  An accepted response vector has one case for each declared conclusion, at least one refusal, and corrections that
  separate the rules.
\<close>

lemma map_each_length: "map_each f xs = Inr ys \<Longrightarrow> length ys = length xs"
  by (induction xs arbitrary: ys) (auto simp: and_then_eq_Inr)

lemma texts_of_length: "texts_of vs = Inr ss \<Longrightarrow> length ss = length vs"
  by (induction vs arbitrary: ss) (auto simp: and_then_eq_Inr)

lemma accepted_response_vector:
  assumes "check_device_configuration_response canon errors now_ms inner vector = Inr n"
  shows "(\<exists>cases declared refusals. array_at vector ''cases'' = Inr cases
      \<and> and_then (member_of vector ''body_states'') elements_of = Inr declared
      \<and> array_at vector ''must_refuse'' = Inr refusals \<and> length cases = length declared \<and> refusals \<noteq> []
      \<and> length cases + length refusals < n)
    \<and> \<not> rule_passes memberwise_rule vector"
proof -
  from assms obtain declared cases seen states names refusals corrections where
    parts: "and_then (member_of vector ''body_states'') elements_of = Inr declared" "array_at vector ''cases'' = Inr cases"
      "map_each (check_answer_case canon errors vector declared) cases = Inr seen" "texts_of seen = Inr states"
      "texts_of declared = Inr names" "sort states = sort names" "array_at vector ''must_refuse'' = Inr refusals" "refusals \<noteq> []"
    and corrections: "check_device_ref_corrections canon errors vector = Inr corrections"
    and n: "n = length cases + length refusals + corrections"
    unfolding check_device_configuration_response_def by (auto simp: and_then_eq_Inr refuse_if_Inr)
  have "length states = length names" using arg_cong [OF parts(6), of length] by simp
  then have "length cases = length declared"
    using map_each_length [OF parts(3)] texts_of_length [OF parts(4)] texts_of_length [OF parts(5)] by simp
  moreover have "0 < corrections" using corrections has_case_True
    by (fastforce simp: check_device_ref_corrections_def and_then_eq_Inr refuse_if_Inr)
  ultimately show ?thesis using parts n corrections_separate_rules [OF corrections] by auto
qed

subsection \<open>The session binding\<close>

text \<open>The standard alphabet of base64; the codecs of this library write the one for URLs.\<close>

definition standard_char :: "char \<Rightarrow> char" where
  "standard_char c = (if c = CHR ''-'' then CHR ''+'' else if c = CHR ''_'' then CHR ''/'' else c)"

definition url_char :: "char \<Rightarrow> char" where
  "url_char c = (if c = CHR ''+'' then CHR ''-'' else if c = CHR ''/'' then CHR ''_'' else c)"

definition b64_standard :: "byte list \<Rightarrow> string" where
  "b64_standard bs = map standard_char (b64_encode bs)"

definition b64_standard_decode :: "string \<Rightarrow> byte list option" where
  "b64_standard_decode s =
     (if list_all (\<lambda>c. is_ascii_alnum c \<or> c \<in> set ''+/='') s then urlsafe_b64decode (map url_char s) else None)"

definition ends_with :: "string \<Rightarrow> string \<Rightarrow> bool" where
  "ends_with suffix s \<longleftrightarrow> starts_with (rev suffix) (rev s)"

text \<open>A refused document differs from the accepted one, in a value and, a missing token apart, not in its members.\<close>

fun check_binding_refusals :: "json \<Rightarrow> string list \<Rightarrow> json list \<Rightarrow> conformance_error + unit" where
  "check_binding_refusals binding seen [] = Inr ()"
| "check_binding_refusals binding seen (c # cs) =
     and_then (and_then (member_of c ''case_id'') (\<lambda>i. or_raise Wrong_Value_Type (text_value i))) (\<lambda>case_id.
     and_then (refuse_if (case_id \<in> set seen) ''duplicate LiveKit binding refusal case'') (\<lambda>_.
     and_then (refuse_unless (flag_at c ''why'') ''a refusal without a reason teaches nothing'') (\<lambda>_.
     and_then (member_of c ''binding'') (\<lambda>refused.
     and_then (refuse_if (py_eq refused binding) ''the refused document is the accepted one'') (\<lambda>_.
     and_then (refuse_if (\<not> ends_with ''NO-TOKEN'' case_id \<and> leaf_paths [] refused \<noteq> leaf_paths [] binding)
       ''refuses a different shape, not a different value'') (\<lambda>_.
     check_binding_refusals binding (case_id # seen) cs))))))"

definition route_valid :: "json \<Rightarrow> conformance_error + bool" where
  "route_valid session =
     (case session of
        JObj kvs \<Rightarrow>
          (case map_of kvs ''server_urls'' of
             None \<Rightarrow> Inr True
           | Some (JArr (u # us)) \<Rightarrow>
               (case those (map text_value (u # us)) of
                  None \<Rightarrow> Inr False
                | Some urls \<Rightarrow>
                    if [] \<in> set urls then Inr False
                    else and_then (member_of session ''server_url'') (\<lambda>first. Inr (u = first \<and> distinct urls)))
           | Some _ \<Rightarrow> Inr False)
      | _ \<Rightarrow> Inl Wrong_Value_Type)"

definition check_route :: "bool \<Rightarrow> json \<Rightarrow> conformance_error + unit" where
  "check_route accepts c =
     and_then (same_texts c [''case_id'', ''session'']) (\<lambda>shape.
     and_then (refuse_if (\<not> shape) ''invalid routing case'') (\<lambda>_.
     and_then (refuse_unless (flag_at c ''case_id'') ''invalid routing case'') (\<lambda>_.
     and_then (member_of c ''session'') (\<lambda>session.
     and_then (route_valid session) (\<lambda>valid.
     refuse_if (valid \<noteq> accepts) ''routing case disagrees with its contract'')))))"

definition check_routing :: "json \<Rightarrow> conformance_error + unit" where
  "check_routing routing =
     and_then (same_texts routing [''description'', ''accept'', ''refuse'']) (\<lambda>shape.
     and_then (refuse_if (\<not> shape) ''routing vector has no declared contract'') (\<lambda>_.
     and_then (refuse_unless (flag_at routing ''description'') ''routing vector has no declared contract'') (\<lambda>_.
     and_then (refuse_unless (flag_at routing ''accept'') ''routing acceptance/refusal cases cannot be empty'') (\<lambda>_.
     and_then (refuse_unless (flag_at routing ''refuse'') ''routing acceptance/refusal cases cannot be empty'') (\<lambda>_.
     and_then (and_then (member_of routing ''accept'') elements_of) (\<lambda>accept.
     and_then (each (check_route True) accept) (\<lambda>_.
     and_then (and_then (member_of routing ''refuse'') elements_of) (each (check_route False)))))))))"

definition binding_inventory :: "nat \<Rightarrow> nat \<Rightarrow> string set" where
  "binding_inventory must may =
     {''routing'', ''binding'', ''binding.schema_version'', ''binding.session'', ''binding.session.server_url'',
      ''binding.session.token'', ''binding.session.identity'', ''binding.session.room_name'', ''binding.audio'',
      ''binding.audio.sample_rate'', ''binding.audio.channels'', ''binding_format'', ''canonical_utf8'', ''canonical_sha256'',
      ''member_paths'', ''opaque_binding'', ''opaque_binding_encoding'', ''not_the_opaque_binding'',
      ''not_the_opaque_binding.base64url_no_padding'', ''must_refuse'', ''may_refuse'', ''must_not_claim_unapplied_audio''}
     \<union> indexed_paths ''must_refuse'' must \<union> indexed_paths ''may_refuse'' may
     \<union> indexed_members ''must_refuse'' must [''binding'', ''case_id''] \<union> indexed_members ''may_refuse'' may [''binding'', ''case_id'']"

definition binding_descriptions :: "nat \<Rightarrow> nat \<Rightarrow> string set" where
  "binding_descriptions must may =
     {''vector_id'', ''description'', ''no_schema_because''}
     \<union> indexed_members ''must_refuse'' must [''why''] \<union> indexed_members ''may_refuse'' may [''why'']"

definition binding_opaque :: "nat \<Rightarrow> nat \<Rightarrow> string set" where
  "binding_opaque must may =
     {''routing''} \<union> indexed_members ''must_refuse'' must [''binding''] \<union> indexed_members ''may_refuse'' may [''binding'']"

definition check_binding_encoding :: "json \<Rightarrow> byte list \<Rightarrow> conformance_error + unit" where
  "check_binding_encoding vector canonical =
     and_then (refuse_unless (is_text_at vector ''opaque_binding_encoding'' ''base64-standard-with-padding'')
       ''the vector names an encoding this check does not perform'') (\<lambda>_.
     and_then (refuse_unless (is_text_at vector ''opaque_binding'' (b64_standard canonical))
       ''the opaque binding is not standard base64 of the canonical bytes'') (\<lambda>_.
     and_then (refuse_if (\<not> ends_with ''='' (b64_standard canonical)) ''the opaque binding carries no padding'') (\<lambda>_.
     and_then (and_then (member_of vector ''not_the_opaque_binding'') (\<lambda>w. is_text_at w ''base64url_no_padding'' (b64url canonical))) (\<lambda>named.
     and_then (refuse_if (\<not> named) ''the named wrong encoding is not the encoding it is named as'') (\<lambda>_.
     and_then (refuse_if (b64url canonical = b64_standard canonical) ''the two encodings coincide'') (\<lambda>_.
     refuse_if (b64_standard_decode (b64_standard canonical) \<noteq> Some canonical)
       ''the opaque binding does not decode to the canonical bytes''))))))"

definition check_livekit_session_binding ::
  "(json \<Rightarrow> byte list option) \<Rightarrow> (json \<Rightarrow> string) \<Rightarrow> json \<Rightarrow> conformance_error + nat" where
  "check_livekit_session_binding canon render vector =
     and_then (member_of vector ''binding'') (\<lambda>binding.
     and_then (check_published_bytes canon vector binding) (\<lambda>_.
     and_then (vector_canonical_bytes canon binding) (\<lambda>canonical.
     and_then (and_then (and_then (member_of vector ''member_paths'') elements_of) texts_of) (\<lambda>paths.
     and_then (refuse_if (sort paths \<noteq> leaf_paths [] binding) ''the member set is not the document's own'') (\<lambda>_.
     and_then (refuse_unless (is_text_at vector ''binding_format'' ''application/vnd.eidolon.livekit-session+json;v=2'')
       ''the LiveKit binding format string moved'') (\<lambda>_.
     and_then (member_of binding ''schema_version'') (\<lambda>version.
     and_then (refuse_if (\<not> ends_with ('';v='' @ text_of render version) ''application/vnd.eidolon.livekit-session+json;v=2'')
       ''the binding format names a version the document does not carry'') (\<lambda>_.
     and_then (check_binding_encoding vector canonical) (\<lambda>_.
     and_then (array_at vector ''must_refuse'') (\<lambda>must.
     and_then (array_at vector ''may_refuse'') (\<lambda>may.
     and_then (refuse_if (must = [] \<or> may = []) ''the LiveKit binding vector lost one of its two refusal lists'') (\<lambda>_.
     and_then (and_then (member_of vector ''must_not_claim_unapplied_audio'') (\<lambda>a. or_raise Wrong_Value_Type (text_value a))) (\<lambda>owed.
     and_then (refuse_if (strip owed = []) ''the vector no longer says what a Body owes instead'') (\<lambda>_.
     and_then (check_binding_refusals binding [] (must @ may)) (\<lambda>_.
     and_then (and_then (member_of vector ''routing'') check_routing) (\<lambda>_.
     and_then (require_field_inventory vector (binding_inventory (length must) (length may))
       (binding_descriptions (length must) (length may)) (binding_opaque (length must) (length may))) (\<lambda>_.
     Inr (1 + length must + length may))))))))))))))))))"

subsection \<open>The event stream and the framing of a transport\<close>

definition stream_positions :: "json list \<Rightarrow> conformance_error + json list" where
  "stream_positions items = map_each (\<lambda>i. member_of i ''stream_position'') items"

definition check_admission_event_stream :: "(json \<Rightarrow> byte list option) \<Rightarrow> json \<Rightarrow> conformance_error + nat" where
  "check_admission_event_stream canon vector =
     and_then (member_of vector ''event'') (\<lambda>event.
     and_then (vector_canonical_bytes canon event) (\<lambda>canonical.
     and_then (refuse_unless (is_text_at vector ''business_event_sha256'' (''sha256:'' @ sha256_hex canonical))
       ''Claim event business equality digest drifted'') (\<lambda>_.
     and_then (array_at vector ''stream_items'') (\<lambda>items.
     and_then (stream_positions items) (\<lambda>positions.
     and_then (refuse_if (\<not> list_all2 py_eq positions [JInt 41, JInt 42]) ''Claim stream transport positions drifted'') (\<lambda>_.
     and_then (and_then (member_of vector ''transport_fields_excluded_from_event_equality'')
       (\<lambda>v. same_texts v [''stream_position'', ''requested_after'', ''next_cursor'', ''high_watermark''])) (\<lambda>excluded.
     and_then (refuse_if (\<not> excluded) ''transport recovery fields entered event business equality'') (\<lambda>_.
     and_then (member_of vector ''semantics'') (\<lambda>semantics.
     and_then (same_texts semantics [''duplicate'', ''gap'', ''restart'', ''replay'']) (\<lambda>complete.
     and_then (refuse_if (\<not> complete) ''Claim stream recovery semantics are incomplete'') (\<lambda>_.
     and_then (map_each (\<lambda>i. member_of i ''event_ref'') items) (\<lambda>refs.
     and_then (member_of event ''id'') (\<lambda>id.
     and_then (refuse_if (\<not> list_all (\<lambda>r. py_eq r id) refs) ''Claim stream items do not all reference this vector's event'') (\<lambda>_.
     and_then (require_field_inventory vector
       ({''event'', ''business_event_sha256'', ''semantics'', ''stream_items'', ''transport_fields_excluded_from_event_equality'',
         ''semantics.duplicate'', ''semantics.gap'', ''semantics.restart'', ''semantics.replay''}
        \<union> indexed_paths ''stream_items'' (length items) \<union> indexed_members ''stream_items'' (length items) [''event_ref'', ''stream_position''])
       {''vector_id''} {''event''}) (\<lambda>_. Inr 1)))))))))))))))"

definition framing_case :: "json \<Rightarrow> conformance_error + json \<times> json" where
  "framing_case c = and_then (member_of c ''case'') (\<lambda>n. and_then (member_of c ''stable_error'') (\<lambda>e. Inr (n, e)))"

definition check_protocomm_framing :: "(json \<Rightarrow> byte list option) \<Rightarrow> json \<Rightarrow> conformance_error + nat" where
  "check_protocomm_framing canon vector =
     and_then (member_of vector ''semantic_empty_request'') (\<lambda>semantic.
     and_then (and_then (member_of semantic ''json'') (vector_canonical_bytes canon)) (\<lambda>actual.
     and_then (is_text_at semantic ''canonical_utf8_hex'' (hexdigest actual)) (\<lambda>same.
     and_then (refuse_if (\<not> same \<or> actual = []) ''Protocomm semantic-empty request framing mismatch'') (\<lambda>_.
     and_then (refuse_when (flag_at semantic ''zero_length_ciphertext_payload_allowed'')
       ''frozen profile must reject zero-length semantic requests'') (\<lambda>_.
     and_then (and_then (member_of vector ''session_owned_resources'')
       (\<lambda>v. same_texts v [''salt'', ''verifier'', ''security-context'', ''endpoint-user-data'', ''callback-target''])) (\<lambda>owned.
     and_then (refuse_if (\<not> owned) ''Protocomm session resource ownership is incomplete'') (\<lambda>_.
     and_then (is_text_at vector ''profile_id'' ''eidolon-trust-p256-hpke-v1'') (\<lambda>profile.
     and_then (is_text_at vector ''protocol'' ''ESP-IDF-Protocomm-Security2'') (\<lambda>protocol.
     and_then (is_text_at vector ''security'' ''SRP6a-AES-256-GCM'') (\<lambda>security.
     and_then (refuse_if (\<not> (profile \<and> protocol \<and> security)) ''Protocomm vector describes another profile or transport'') (\<lambda>_.
     and_then (refuse_unless (is_text_at vector ''minimum_lifetime'' ''StartingTransport-through-Stopped'')
       ''Protocomm session lifetime boundary drifted'') (\<lambda>_.
     and_then (array_at vector ''invalid_cases'') (\<lambda>cases.
     and_then (map_each framing_case cases) (\<lambda>pairs.
     and_then (refuse_if (set pairs \<noteq> {(JStr ''zero-length-semantic-request'', JStr ''INVALID_ARGUMENT''),
                                      (JStr ''unknown-profile'', JStr ''CONTRACT_UNSUPPORTED'')})
       ''Protocomm negative framing cases or their stable errors drifted'') (\<lambda>_.
     and_then (require_field_inventory vector
       ({''profile_id'', ''protocol'', ''security'', ''minimum_lifetime'', ''session_owned_resources'', ''semantic_empty_request'',
         ''semantic_empty_request.json'', ''semantic_empty_request.canonical_utf8_hex'',
         ''semantic_empty_request.zero_length_ciphertext_payload_allowed'', ''invalid_cases''}
        \<union> indexed_paths ''invalid_cases'' (length cases) \<union> indexed_members ''invalid_cases'' (length cases) [''case'', ''stable_error''])
       {''vector_id''} {''semantic_empty_request.json''}) (\<lambda>_. Inr 1))))))))))))))))"

subsection \<open>State vectors\<close>

text \<open>The permanent identity of an issued base identity. Two letters of Latin-1 fold to other than their lower case.\<close>

definition casefold_bytes :: "char \<Rightarrow> byte list" where
  "casefold_bytes c =
     (if of_char c = (223 :: nat) then utf8 ''ss'' else if of_char c = (181 :: nat) then [0xCE, 0xBC] else utf8_char (lower_char c))"

definition derived_hardware_identity_ref :: "string \<Rightarrow> string" where
  "derived_hardware_identity_ref device_base_id =
     ''hardware-'' @ sha256_hex (utf8 ''eidolon-hardware-identity-v1'' @ [0] @ concat (map casefold_bytes (strip device_base_id)))"

text \<open>\<open>{v[key]: v for v in vs}[name]\<close>: the last of a name counts.\<close>

fun last_named :: "string \<Rightarrow> string \<Rightarrow> json option \<Rightarrow> json list \<Rightarrow> conformance_error + json" where
  "last_named key name found [] = or_raise (Missing_Key name) found"
| "last_named key name found (v # vs) =
     and_then (is_text_at v key name) (\<lambda>b. last_named key name (if b then Some v else found) vs)"

definition first_of :: "json \<Rightarrow> string \<Rightarrow> conformance_error + json" where
  "first_of v k = and_then (array_at v k) (\<lambda>vs. case vs of [] \<Rightarrow> Inl Nothing_Found | x # _ \<Rightarrow> Inr x)"

definition check_host_relocation :: "json \<Rightarrow> conformance_error + unit" where
  "check_host_relocation host =
     and_then (member_of host ''then'') (\<lambda>after.
     and_then (and_then (member_of after ''unchanged'') (\<lambda>v. same_texts v
       [''device_ref.device_instance_id'', ''device_ref.claim_generation'', ''device_ref.trust_epoch'', ''mount_revision'',
        ''assignment_generation'', ''operation_id''])) (\<lambda>unchanged.
     and_then (refuse_if (\<not> unchanged) ''Host relocation oracle does not preserve every stable generation'') (\<lambda>_.
     and_then (and_then (member_of host ''when'') (\<lambda>w. flag_at w ''owner_root_changed'')) (\<lambda>root_changed.
     and_then (if root_changed then Inr True else map_sum id Not (is_text_at after ''commissioning_state'' ''closed'')) (\<lambda>commissioning.
     and_then (refuse_if commissioning ''Host relocation oracle incorrectly enters commissioning'') (\<lambda>_.
     and_then (and_then (member_of host ''given'') (\<lambda>g. member_of g ''operation_id'')) (\<lambda>before.
     and_then (member_of after ''reconcile_operation_id'') (\<lambda>reconciled.
     refuse_if (\<not> py_eq before reconciled) ''Host relocation oracle changes operation identity''))))))))"

definition check_idempotency :: "json \<Rightarrow> conformance_error + unit" where
  "check_idempotency idempotency =
     and_then (array_at idempotency ''vectors'') (\<lambda>vs.
     and_then (last_named ''vector_id'' ''DF-IDEM-SAME-ID-DIFFERENT-PAYLOAD'' None vs) (\<lambda>conflict.
     and_then (refuse_unless (is_text_at conflict ''expected_problem'' ''IDEMPOTENCY_CONFLICT'') ''idempotency conflict vector drifted'') (\<lambda>_.
     and_then (last_named ''vector_id'' ''DF-IDEM-003'' None vs) (\<lambda>owners.
     and_then (first_of owners ''first_scope'') (\<lambda>first.
     and_then (first_of owners ''second_scope'') (\<lambda>second.
     refuse_if (py_eq first second) ''cross-Owner idempotency vector does not vary Owner scope''))))))"

definition transition_of :: "json \<Rightarrow> conformance_error + json \<times> json" where
  "transition_of v = and_then (elements_of v) (\<lambda>vs. case vs of [x, y] \<Rightarrow> Inr (x, y) | _ \<Rightarrow> Inl Wrong_Value_Type)"

definition check_operation_terminal :: "json \<Rightarrow> conformance_error + unit" where
  "check_operation_terminal operation =
     and_then (and_then (member_of operation ''terminal_states'') elements_of) (\<lambda>terminal.
     and_then (and_then (member_of operation ''allowed_transitions'') elements_of) (\<lambda>transitions.
     and_then (map_each transition_of transitions) (\<lambda>pairs.
     and_then (refuse_if (list_ex (\<lambda>(source, _). list_ex (py_eq source) terminal) pairs)
       ''terminal operation state has an outgoing transition'') (\<lambda>_.
     refuse_when (flag_at operation ''delivery_acceptance_terminal'') ''delivery acceptance is incorrectly terminal''))))"

definition check_erase_scenarios :: "json list \<Rightarrow> conformance_error + unit" where
  "check_erase_scenarios vs =
     (let scenario = (\<lambda>name. last_named ''id'' name None vs)
      in and_then (map_each (\<lambda>v. member_of v ''id'') vs) (\<lambda>ids.
         and_then (refuse_if (set ids \<noteq> JStr ` {''online'', ''offline'', ''duplicate'', ''same-id-different-payload'', ''deadline'',
           ''permanent-failure'', ''restart'', ''old-generation'', ''host-relocation''}) ''device-local erase scenario coverage drifted'') (\<lambda>_.
         and_then (refuse_when (and_then (scenario ''offline'') (\<lambda>v. flag_at v ''platform_removal_blocked''))
           ''offline local erase incorrectly blocks platform removal'') (\<lambda>_.
         and_then (refuse_unless (and_then (scenario ''duplicate'') (\<lambda>v. is_text_at v ''semantic_result'' ''replayed''))
           ''device-local erase replay semantics drifted'') (\<lambda>_.
         and_then (refuse_unless (and_then (scenario ''same-id-different-payload'') (\<lambda>v. is_text_at v ''error'' ''IDEMPOTENCY_CONFLICT''))
           ''device-local erase idempotency conflict drifted'') (\<lambda>_.
         and_then (refuse_when (and_then (scenario ''deadline'') (\<lambda>v. flag_at v ''late_ack_rewrites_terminal''))
           ''late device-local erase ACK rewrites a terminal result'') (\<lambda>_.
         and_then (refuse_when (and_then (scenario ''old-generation'') (\<lambda>v. flag_at v ''new_claim_changed''))
           ''old-generation erase ACK mutates a newer claim'') (\<lambda>_.
         refuse_when (and_then (scenario ''host-relocation'') (\<lambda>v. flag_at v ''operation_id_changes''))
           ''Host relocation changes device-local erase identity''))))))))"

definition check_local_erase :: "json \<Rightarrow> conformance_error + unit" where
  "check_local_erase erase =
     and_then (refuse_unless (is_text_at erase ''operation_type'' ''device-local.erase'') ''device-local erase operation type drifted'') (\<lambda>_.
     and_then (and_then (member_of erase ''terminal_states'') (\<lambda>v. same_texts v [''acknowledged'', ''expired'', ''permanent-failure''])) (\<lambda>terminal.
     and_then (refuse_if (\<not> terminal) ''device-local erase terminal states drifted'') (\<lambda>_.
     and_then (refuse_when (flag_at erase ''delivery_acceptance_terminal'') ''device-local erase treats delivery as completion'') (\<lambda>_.
     and_then (array_at erase ''scenarios'') check_erase_scenarios))))"

text \<open>\<open>flags[name] is not True\<close> for one of the names; with \<open>get\<close>, an absent member is not true either.\<close>

fun all_flags :: "bool \<Rightarrow> bool \<Rightarrow> json \<Rightarrow> string list \<Rightarrow> conformance_error + bool" where
  "all_flags absent_ok value flags [] = Inr True"
| "all_flags absent_ok value flags (n # ns) =
     (case member_of flags n of
        Inr v \<Rightarrow> if v = JBool value then all_flags absent_ok value flags ns else Inr False
      | Inl e \<Rightarrow> if absent_ok \<and> e = Missing_Key n then Inr False else Inl e)"

definition rejoin_true :: "string list" where
  "rejoin_true =
     [''device_instance_id_changes_after_physical_recovery'', ''claim_generation_monotonic_per_owner_and_base_identity'',
      ''old_claim_tombstone_retained'', ''hardware_identity_is_derived_from_issued_base_identity'',
      ''local_erase_destroys_the_base_identity'', ''erased_device_rejoins_as_a_new_base_identity'']"

definition rejoin_false :: "string list" where
  "rejoin_false =
     [''hardware_identity_ref_changes'', ''old_request_can_mutate_new_claim'', ''old_operation_can_mutate_new_claim'',
      ''hardware_identity_from_operational_evidence_digest'', ''mac_is_device_instance_id'', ''hardware_identity_is_operator_supplied'',
      ''hardware_identity_states_board_type'', ''device_may_report_its_own_base_identity'',
      ''revoked_base_identity_may_re_enter_without_a_fresh_voucher'', ''platform_auto_correlates_by_unauthenticated_mac'']"

definition check_rejoin :: "json \<Rightarrow> json \<Rightarrow> conformance_error + unit" where
  "check_rejoin rejoin voucher =
     and_then (array_at rejoin ''incarnations'') (\<lambda>incarnations.
     and_then (member_of rejoin ''invariants'') (\<lambda>invariants.
     and_then (case incarnations of
         [a, b] \<Rightarrow> same_member a b ''device_instance_id''
       | _ \<Rightarrow> Inr True) (\<lambda>same.
     and_then (refuse_if same ''hardware rejoin does not rotate the operational incarnation'') (\<lambda>_.
     and_then (map_each (\<lambda>i. member_of i ''claim_generation'') incarnations) (\<lambda>generations.
     and_then (refuse_if (\<not> list_all2 py_eq generations [JInt 1, JInt 2]) ''hardware rejoin Claim generation is not monotonic'') (\<lambda>_.
     and_then (refuse_unless (all_flags False True invariants rejoin_true) ''hardware rejoin positive invariant drifted'') (\<lambda>_.
     and_then (refuse_unless (all_flags False False invariants rejoin_false) ''hardware rejoin fencing invariant drifted'') (\<lambda>_.
     and_then (and_then (member_of voucher ''device_base_id'') (\<lambda>i. or_raise Wrong_Value_Type (text_value i))) (\<lambda>base.
     refuse_unless (is_text_at rejoin ''stable_hardware_identity_ref'' (derived_hardware_identity_ref base))
       ''rejoin hardware identity is not the derived identity'')))))))))"

definition commissioning_true :: "string list" where
  "commissioning_true =
     [''single_writer'', ''callbacks_enqueue_only'', ''softap_uri_capacity_is_explicit'', ''transport_cleanup_claimed_exactly_once'',
      ''advertising_requires_transport_ready_evidence'', ''rollback_precedes_transport_stop'', ''radio_restore_follows_transport_stop'',
      ''legacy_connect_timeout_is_intent_only'', ''committed_completion_requires_station_route_ready'',
      ''admission_waits_for_station_route_ready'', ''pending_enrollment_query_uses_authority_clock'', ''stale_generation_is_ignored'']"

definition commissioning_false :: "string list" where
  "commissioning_false =
     [''network_commit_before_owner_route_validation'', ''trust_activation_before_owner_route_validation'',
      ''transport_stop_before_controller_observes_terminal'', ''controller_route_release_before_terminal_ack'']"

definition commissioning_order :: "string list" where
  "commissioning_order =
     [''trust-staged'', ''network-candidate-staged'', ''wifi-connected'', ''owner-route-validated'', ''trust-and-network-committed'',
      ''controller-observed-terminal'', ''transport-stopped'', ''station-restore-commanded'', ''station-route-ready'']"

text \<open>\<open>list.index\<close>: the first place of a text, or ValueError.\<close>

fun index_of :: "string \<Rightarrow> json list \<Rightarrow> conformance_error + nat" where
  "index_of s [] = Inl Nothing_Found"
| "index_of s (v # vs) = (if v = JStr s then Inr 0 else and_then (index_of s vs) (\<lambda>n. Inr (Suc n)))"

definition check_commissioning :: "json \<Rightarrow> conformance_error + unit" where
  "check_commissioning commissioning =
     and_then (member_of commissioning ''invariants'') (\<lambda>invariants.
     and_then (refuse_unless (all_flags True True invariants commissioning_true)
       ''commissioning single-writer/readiness/cleanup invariant drifted'') (\<lambda>_.
     and_then (refuse_unless (all_flags True False invariants commissioning_false)
       ''commissioning transaction ordering invariant drifted'') (\<lambda>_.
     and_then (array_at commissioning ''success_sequence'') (\<lambda>success.
     and_then (map_each (\<lambda>s. index_of s success) commissioning_order) (\<lambda>places.
     refuse_if (places \<noteq> sort places) ''commissioning success sequence is not transactionally ordered'')))))"

definition check_state_vectors :: "json \<Rightarrow> json \<Rightarrow> json \<Rightarrow> json \<Rightarrow> json \<Rightarrow> json \<Rightarrow> json \<Rightarrow> conformance_error + nat" where
  "check_state_vectors host idempotency operation erase rejoin voucher commissioning =
     and_then (check_host_relocation host) (\<lambda>_.
     and_then (check_idempotency idempotency) (\<lambda>_.
     and_then (check_operation_terminal operation) (\<lambda>_.
     and_then (check_local_erase erase) (\<lambda>_.
     and_then (check_rejoin rejoin voucher) (\<lambda>_.
     and_then (check_commissioning commissioning) (\<lambda>_. Inr 6))))))"

subsection \<open>What accepted vectors say\<close>

text \<open>Standard base64 is read back, and the unpadded form of bytes that need padding is not read at all.\<close>

lemma url_standard: "is_b64url_char c \<or> c = CHR ''='' \<Longrightarrow> url_char (standard_char c) = c"
  by (auto simp: url_char_def standard_char_def char_class_defs)

lemma standard_alphabet: "is_b64url_char c \<or> c = CHR ''='' \<Longrightarrow> is_ascii_alnum (standard_char c) \<or> standard_char c \<in> set ''+/=''"
  by (auto simp: standard_char_def is_b64url_char_def)

lemma encode_chars: "c \<in> set (b64_encode bs) \<Longrightarrow> is_b64url_char c \<or> c = CHR ''=''"
  using b64_body_chars [of bs] by (auto simp: b64_encode_body list_all_iff)

lemma b64_encode_ascii: "is_ascii (b64_encode bs)"
  using encode_chars by (fastforce simp: is_ascii_def list_all_iff dest: b64url_char_ascii)

lemma b64_standard_read_back: "b64_standard_decode (b64_standard bs) = Some bs"
proof -
  have "map url_char (b64_standard bs) = b64_encode bs"
    using encode_chars [of _ bs] by (simp add: b64_standard_def url_standard map_idI)
  moreover have "list_all (\<lambda>c. is_ascii_alnum c \<or> c \<in> set ''+/='') (b64_standard bs)"
  proof -
    have "is_ascii_alnum (standard_char c) \<or> standard_char c \<in> set ''+/=''" if "c \<in> set (b64_encode bs)" for c
      using standard_alphabet [OF encode_chars [OF that]] .
    then show ?thesis unfolding b64_standard_def list_all_iff set_map ball_simps by (rule ballI)
  qed
  ultimately show ?thesis
    by (simp add: b64_standard_decode_def urlsafe_b64decode_def b64_encode_ascii) (simp add: b64_encode_body a2b_body)
qed

lemma a2b_unpadded: "pads_of bs \<noteq> 0 \<Longrightarrow> a2b 0 0 0 (b64_body bs) = None"
  by (induction bs rule: b64_body.induct) (simp_all add: pads_of_def)

lemma unpadded_not_standard: "pads_of bs \<noteq> 0 \<Longrightarrow> b64_standard_decode (b64url bs) = None"
proof -
  assume pads: "pads_of bs \<noteq> 0"
  show ?thesis
  proof (cases "list_all (\<lambda>c. is_ascii_alnum c \<or> c \<in> set ''+/='') (b64url bs)")
    case True
    have "url_char c = c" if "c \<in> set (b64url bs)" for c
      using b64url_chars [of bs] that by (auto simp: list_all_iff url_char_def char_class_defs)
    then have "map url_char (b64url bs) = b64url bs" by (simp add: map_idI)
    then show ?thesis
      using pads by (simp add: b64_standard_decode_def urlsafe_b64decode_def b64url_body a2b_unpadded)
  qed (simp add: b64_standard_decode_def)
qed

lemma padded_ends: "ends_with ''='' (b64_standard bs) \<Longrightarrow> pads_of bs \<noteq> 0"
proof
  assume ends: "ends_with ''='' (b64_standard bs)" and "pads_of bs = 0"
  then have "b64_standard bs = map standard_char (b64_body bs)" by (simp add: b64_standard_def b64_encode_body)
  with ends obtain t where "rev (map standard_char (b64_body bs)) = ''='' @ t"
    unfolding ends_with_def starts_with_iff by auto
  then have "CHR ''='' \<in> set (rev (map standard_char (b64_body bs)))" by simp
  then have "CHR ''='' \<in> set (map standard_char (b64_body bs))" by (simp only: set_rev)
  then obtain c where "c \<in> set (b64_body bs)" "standard_char c = CHR ''=''" by auto
  with b64_body_chars [of bs] show False
    by (auto simp: list_all_iff standard_char_def char_class_defs split: if_splits)
qed

text \<open>
  An accepted session binding vector separates the encodings: what it publishes reads as the canonical bytes of its
  document, and what it names as the wrong encoding of the same bytes does not read at all.
\<close>
theorem binding_encodings_separated:
  "case check_livekit_session_binding canon render vector of
     Inl _ \<Rightarrow> True
   | Inr n \<Rightarrow> (\<exists>binding canonical published wrong.
       member_of vector ''binding'' = Inr binding \<and> canon binding = Some canonical
       \<and> member_of vector ''opaque_binding'' = Inr (JStr published) \<and> b64_standard_decode published = Some canonical
       \<and> and_then (member_of vector ''not_the_opaque_binding'') (\<lambda>w. member_of w ''base64url_no_padding'') = Inr (JStr wrong)
       \<and> b64_standard_decode wrong = None \<and> b64url_decode wrong = Some canonical)"
proof (cases "check_livekit_session_binding canon render vector")
  case (Inr n)
  then obtain binding canonical where binding: "member_of vector ''binding'' = Inr binding"
    and canonical: "vector_canonical_bytes canon binding = Inr canonical" and encoding: "check_binding_encoding vector canonical = Inr ()"
    unfolding check_livekit_session_binding_def and_then_eq_Inr by (elim exE conjE) (rule that; simp)
  from encoding have "is_text_at vector ''opaque_binding'' (b64_standard canonical) = Inr True"
    "and_then (member_of vector ''not_the_opaque_binding'') (\<lambda>w. is_text_at w ''base64url_no_padding'' (b64url canonical)) = Inr True"
    "ends_with ''='' (b64_standard canonical)"
    unfolding check_binding_encoding_def and_then_eq_Inr refuse_if_Inr and_then_refuse_unless by (elim exE conjE, simp)+
  then have "member_of vector ''opaque_binding'' = Inr (JStr (b64_standard canonical))"
    "and_then (member_of vector ''not_the_opaque_binding'') (\<lambda>w. member_of w ''base64url_no_padding'') = Inr (JStr (b64url canonical))"
    "b64_standard_decode (b64url canonical) = None"
    using unpadded_not_standard padded_ends by (auto simp: is_text_at_def and_then_eq_Inr)
  moreover have "canon binding = Some canonical"
    using canonical by (simp add: vector_canonical_bytes_def or_raise_Inr)
  ultimately show ?thesis
    using Inr binding b64_standard_read_back [of canonical] b64url_decode_b64url [of canonical] by fastforce
qed simp

end
