(* ===== verification/Infrastructure.thy ===== *)
theory Infrastructure
  imports Sse Python_Values
begin

text \<open>
  The thin infrastructure of the SDK: the SQLite engine and its session scope (\<open>core/db\<close>), the settings of an HTTP
  client (\<open>core/http/settings.py\<close>) with the options a client is built with, and the LiveKit access token
  (\<open>integrations/livekit/tokens.py\<close>). What SQLAlchemy, httpx and LiveKit are told is data; a path is its text, and
  expanding the user's home in it is the parameter \<open>expand\<close>.
\<close>

subsection \<open>The engine\<close>

record sqlite_settings =
  sq_path :: string
  sq_enable_wal :: bool
  sq_busy_timeout_ms :: int
  sq_synchronous :: string

definition sqlite_settings_fields :: "sqlite_settings \<Rightarrow> (string \<times> bool) list" where
  "sqlite_settings_fields s = [(''busy_timeout_ms'', 0 \<le> sq_busy_timeout_ms s)]"

definition make_sqlite_settings :: "sqlite_settings \<Rightarrow> string invalid + sqlite_settings" where
  "make_sqlite_settings s = build (sqlite_settings_fields s) [] s"

definition wf_sqlite_settings :: "sqlite_settings \<Rightarrow> bool" where
  "wf_sqlite_settings s \<longleftrightarrow> admissible (sqlite_settings_fields s) no_rules"

interpretation sqlite_settings_class: model_class make_sqlite_settings wf_sqlite_settings
  by (rule build_class; simp add: make_sqlite_settings_def wf_sqlite_settings_def)

definition sqlite_url_for_path :: "(string \<Rightarrow> string) \<Rightarrow> string \<Rightarrow> string \<times> bool" where
  "sqlite_url_for_path expand path =
     (if path = '':memory:'' then (''sqlite+aiosqlite:///:memory:'', True) else (''sqlite+aiosqlite:///'' @ expand path, False))"

datatype pool = Static_Pool | Null_Pool

record sqlite_engine =
  se_url :: string
  se_pool :: pool
  se_check_same_thread :: "bool option"
  se_on_connect :: "string list"

definition connect_pragmas :: "sqlite_settings \<Rightarrow> bool \<Rightarrow> string list" where
  "connect_pragmas s in_memory =
     [''PRAGMA foreign_keys = ON'', ''PRAGMA busy_timeout = '' @ int_text (sq_busy_timeout_ms s)]
     @ (if sq_enable_wal s \<and> \<not> in_memory then [''PRAGMA journal_mode = WAL''] else [])
     @ [''PRAGMA synchronous = '' @ sq_synchronous s]"

definition create_sqlite_engine :: "(string \<Rightarrow> string) \<Rightarrow> sqlite_settings \<Rightarrow> sqlite_engine" where
  "create_sqlite_engine expand s =
     (case sqlite_url_for_path expand (sq_path s) of (url, in_memory) \<Rightarrow>
        \<lparr>se_url = url, se_pool = (if in_memory then Static_Pool else Null_Pool),
         se_check_same_thread = (if in_memory then Some False else None), se_on_connect = connect_pragmas s in_memory\<rparr>)"

definition naming_convention :: "(string \<times> string) list" where
  "naming_convention =
     [(''ix'', ''ix_%(column_0_label)s''), (''uq'', ''uq_%(table_name)s_%(column_0_name)s''),
      (''ck'', ''ck_%(table_name)s_%(constraint_name)s''),
      (''fk'', ''fk_%(table_name)s_%(column_0_name)s_%(referred_table_name)s''), (''pk'', ''pk_%(table_name)s'')]"

subsection \<open>The session scope\<close>

text \<open>
  A block ends by returning, by an \<open>Exception\<close>, or by another \<open>BaseException\<close> such as a cancellation, which the scope
  does not catch. A commit or a rollback may end in the same ways. Closing the session is the last thing in any case.
\<close>

datatype ending = Returned | Raised string | Interrupted string

datatype session_call = Session_Opened | Body_Ran | Committed_Now | Rolled_Back_Now | Session_Closed

definition roll_back :: "ending \<Rightarrow> string \<Rightarrow> session_call list \<times> ending" where
  "roll_back rollback e =
     ([Rolled_Back_Now], case rollback of Returned \<Rightarrow> Raised e | _ \<Rightarrow> rollback)"

definition session_scope :: "ending \<Rightarrow> ending \<Rightarrow> ending \<Rightarrow> session_call list \<times> ending" where
  "session_scope body commit rollback =
     (case (case body of
              Returned \<Rightarrow>
                (case commit of
                   Raised e \<Rightarrow> (case roll_back rollback e of (calls, r) \<Rightarrow> (Committed_Now # calls, r))
                 | other \<Rightarrow> ([Committed_Now], other))
            | Raised e \<Rightarrow> roll_back rollback e
            | Interrupted e \<Rightarrow> ([], Interrupted e)) of
        (calls, result) \<Rightarrow> ([Session_Opened, Body_Ran] @ calls @ [Session_Closed], result))"

text \<open>
  A commit is asked for exactly when the block returned, and a rollback exactly after an exception of the block or of
  its commit; the scope returns only when both the block and the commit did, and the session is closed in every case.
\<close>

lemma session_scope_exact:
  "Committed_Now \<in> set (fst (session_scope body commit rollback)) \<longleftrightarrow> body = Returned"
  "Rolled_Back_Now \<in> set (fst (session_scope body commit rollback))
     \<longleftrightarrow> (\<exists>e. body = Raised e) \<or> body = Returned \<and> (\<exists>e. commit = Raised e)"
  "snd (session_scope body commit rollback) = Returned \<longleftrightarrow> body = Returned \<and> commit = Returned"
  "last (fst (session_scope body commit rollback)) = Session_Closed"
  by (cases body; cases commit; cases rollback; simp add: session_scope_def roll_back_def)+

subsection \<open>HTTP settings\<close>

record http_client_settings =
  hs_timeout_seconds :: pyfloat
  hs_connect_timeout_seconds :: pyfloat
  hs_trust_env :: bool
  hs_http2 :: bool
  hs_max_connections :: int
  hs_max_keepalive_connections :: int
  hs_keepalive_expiry_seconds :: pyfloat

definition default_http_settings :: http_client_settings where
  "default_http_settings =
     \<lparr>hs_timeout_seconds = Fin 30, hs_connect_timeout_seconds = Fin 5, hs_trust_env = True, hs_http2 = False,
      hs_max_connections = 100, hs_max_keepalive_connections = 20, hs_keepalive_expiry_seconds = Fin 5\<rparr>"

datatype client_option =
    Timeout_Option pyfloat pyfloat | Limits_Option int int pyfloat | Flag_Option bool | Other_Option json

definition to_httpx_limits :: "http_client_settings \<Rightarrow> client_option" where
  "to_httpx_limits s = Limits_Option (hs_max_connections s) (hs_max_keepalive_connections s) (hs_keepalive_expiry_seconds s)"

definition to_httpx_timeout :: "http_client_settings \<Rightarrow> client_option" where
  "to_httpx_timeout s = Timeout_Option (hs_timeout_seconds s) (hs_connect_timeout_seconds s)"

text \<open>The overrides replace what they name and are appended otherwise.\<close>

definition client_options :: "http_client_settings option \<Rightarrow> (string \<times> client_option) list \<Rightarrow> (string \<times> client_option) list" where
  "client_options settings overrides =
     (let s = (case settings of None \<Rightarrow> default_http_settings | Some s \<Rightarrow> s)
      in dict_merge
           [(''timeout'', to_httpx_timeout s), (''limits'', to_httpx_limits s), (''trust_env'', Flag_Option (hs_trust_env s)),
            (''http2'', Flag_Option (hs_http2 s))] overrides)"

subsection \<open>LiveKit tokens\<close>

record video_grants =
  vg_room_join :: bool
  vg_room :: string
  vg_can_publish :: bool
  vg_can_subscribe :: bool
  vg_can_publish_data :: bool

record livekit_token =
  lt_api_key :: string
  lt_api_secret :: string
  lt_identity :: string
  lt_name :: string
  lt_grants :: video_grants
  lt_dispatch :: "(string \<times> string option) option"
  lt_metadata :: "string option"

datatype livekit_error = Livekit_Not_Configured

definition build_livekit_token ::
  "(rat \<Rightarrow> string) \<Rightarrow> string \<Rightarrow> string \<Rightarrow> string \<Rightarrow> string \<Rightarrow> string option \<Rightarrow> json_object option \<Rightarrow> bool \<Rightarrow> string \<Rightarrow> json_object option
     \<Rightarrow> bool \<Rightarrow> bool \<Rightarrow> bool \<Rightarrow> livekit_error + livekit_token" where
  "build_livekit_token ft api_key api_secret room_name identity name participant_metadata dispatch_agent agent_name
     agent_metadata can_publish can_subscribe can_publish_data =
     guarded [(api_key = [] \<or> api_secret = [], Livekit_Not_Configured)]
       \<lparr>lt_api_key = api_key, lt_api_secret = api_secret, lt_identity = identity,
        lt_name = (case name of Some n \<Rightarrow> if n \<noteq> [] then n else identity | None \<Rightarrow> identity),
        lt_grants = \<lparr>vg_room_join = True, vg_room = room_name, vg_can_publish = can_publish, vg_can_subscribe = can_subscribe,
                     vg_can_publish_data = can_publish_data\<rparr>,
        lt_dispatch = (if dispatch_agent then Some (agent_name, map_option (\<lambda>m. spaced_json ft (JObj m)) agent_metadata) else None),
        lt_metadata = map_option (\<lambda>m. spaced_json ft (JObj m)) participant_metadata\<rparr>"

text \<open>No metadata and empty metadata are told apart.\<close>

lemma empty_metadata_is_some:
  assumes "api_key \<noteq> []" "api_secret \<noteq> []"
  shows "map_sum id lt_metadata (build_livekit_token ft api_key api_secret room i n (Some []) d a am p s dt) = Inr (Some ''{}'')"
    and "map_sum id lt_metadata (build_livekit_token ft api_key api_secret room i n None d a am p s dt) = Inr None"
  using assms by (simp_all add: build_livekit_token_def guarded_simps)

text \<open>Overrides win, and nothing else changes.\<close>

lemma update_all_lookup:
  "map_of (fold (\<lambda>(k, v). AList.update k v) new old) k = (case map_of (rev new) k of Some v \<Rightarrow> Some v | None \<Rightarrow> map_of old k)"
proof (induction new arbitrary: old)
  case (Cons kv new)
  then show ?case
    by (cases kv) (auto simp: update_conv' map_add_def split: option.splits)
qed simp

lemma client_options_lookup:
  "map_of (client_options (Some s) overrides) k =
     (case map_of (rev overrides) k of
        Some v \<Rightarrow> Some v
      | None \<Rightarrow> map_of [(''timeout'', to_httpx_timeout s), (''limits'', to_httpx_limits s),
                        (''trust_env'', Flag_Option (hs_trust_env s)), (''http2'', Flag_Option (hs_http2 s))] k)"
  by (simp add: client_options_def Let_def dict_merge_def update_all_lookup)

text \<open>The journal mode is set for files only, and the foreign keys are always on.\<close>

lemma engine_pragmas:
  "''PRAGMA foreign_keys = ON'' \<in> set (se_on_connect (create_sqlite_engine expand s))"
  "''PRAGMA journal_mode = WAL'' \<in> set (se_on_connect (create_sqlite_engine expand s))
     \<Longrightarrow> sq_path s \<noteq> '':memory:''"
  by (auto simp: create_sqlite_engine_def sqlite_url_for_path_def connect_pragmas_def)

end
