(* ===== verification/Persona_Storage.thy ===== *)
theory Persona_Storage
  imports Persona Json_Text "HOL-Library.Monad_Syntax"
begin

text \<open>
  How a genome of \<open>biz/persona.py\<close> is stored and loaded: the JSON a genome is dumped to
  (\<open>persona_genome_to_json\<close>), the stored documents read back class by class after their retired keys are dropped
  (\<open>normalize_persona_genome\<close>), the canonical text the hash is over; and the remaining model classes: observations,
  edit snapshots, presets and previews.

  pydantic's lax reading of a float, a flag and a timestamp, and its text of a timestamp, are the parameter
  \<open>storage_library\<close>. Dumping leaves out the members of a model that are \<open>None\<close>, its extra members too, and leaves the
  values of a dictionary as they are. The floats of a genome are finite.
\<close>

subsection \<open>Reading the members of a stored document\<close>

record storage_library =
  st_float :: "json \<Rightarrow> rat option"
  st_flag :: "json \<Rightarrow> bool option"
  st_time :: "json \<Rightarrow> datetime option"
  st_time_text :: "datetime \<Rightarrow> string"

text \<open>The documented behaviour that is relied on: a value is read back from what it is dumped to.\<close>

definition values_read_back :: "storage_library \<Rightarrow> bool" where
  "values_read_back L \<longleftrightarrow>
     (\<forall>x. st_float L (JFloat (Fin x)) = Some x) \<and> (\<forall>b. st_flag L (JBool b) = Some b)
     \<and> (\<forall>t. st_time L (JStr (st_time_text L t)) = Some t)"

definition stored :: "string list \<Rightarrow> json \<Rightarrow> json_object option" where
  "stored members j =
     (case drop_retired_keys members j of
        JObj kvs \<Rightarrow> if only_keys members kvs then Some kvs else None
      | _ \<Rightarrow> None)"

definition member_or :: "'a option \<Rightarrow> (json \<Rightarrow> 'a option) \<Rightarrow> string \<Rightarrow> json_object \<Rightarrow> 'a option" where
  "member_or fallback rd k kvs = (case map_of kvs k of None \<Rightarrow> fallback | Some j \<Rightarrow> rd j)"

fun text_item :: "json \<Rightarrow> string option" where
  "text_item (JStr s) = Some s"
| "text_item _ = None"

fun list_item :: "(json \<Rightarrow> 'a option) \<Rightarrow> json \<Rightarrow> 'a list option" where
  "list_item rd (JArr js) = those (map rd js)"
| "list_item rd _ = None"

fun dict_item :: "(json \<Rightarrow> 'a option) \<Rightarrow> json \<Rightarrow> (string \<times> 'a) list option" where
  "dict_item rd (JObj kvs) = those (map (\<lambda>kv. map_option (Pair (fst kv)) (rd (snd kv))) kvs)"
| "dict_item rd _ = None"

definition nullable :: "(json \<Rightarrow> 'a option) \<Rightarrow> json \<Rightarrow> 'a option option" where
  "nullable rd j = (if j = JNull then Some None else map_option Some (rd j))"

text \<open>Writing: a member that is \<open>None\<close> is left out.\<close>

definition unless_none :: "string \<Rightarrow> ('a \<Rightarrow> json) \<Rightarrow> 'a option \<Rightarrow> json_object" where
  "unless_none k wr v = (case v of None \<Rightarrow> [] | Some x \<Rightarrow> [(k, wr x)])"

definition texts_json :: "string list \<Rightarrow> json" where
  "texts_json ss = JArr (map JStr ss)"

definition dict_json :: "('a \<Rightarrow> json) \<Rightarrow> (string \<times> 'a) list \<Rightarrow> json" where
  "dict_json wr d = JObj (map (\<lambda>kv. (fst kv, wr (snd kv))) d)"

definition float_json :: "rat \<Rightarrow> json" where
  "float_json x = JFloat (Fin x)"

lemma those_map: "(\<And>x. x \<in> set xs \<Longrightarrow> f x = Some (g x)) \<Longrightarrow> those (map f xs) = Some (map g xs)"
  by (induction xs) simp_all

lemma list_item_map: "(\<And>x. rd (wr x) = Some x) \<Longrightarrow> list_item rd (JArr (map wr xs)) = Some xs"
  using those_map [of xs "\<lambda>x. rd (wr x)" "\<lambda>x. x"] by (simp add: comp_def)

lemma dict_item_map: "(\<And>x. rd (wr x) = Some x) \<Longrightarrow> dict_item rd (dict_json wr d) = Some d"
  using those_map [of d "\<lambda>kv. map_option (Pair (fst kv)) (rd (wr (snd kv)))" "\<lambda>kv. kv"]
  by (simp add: comp_def dict_json_def)

lemma texts_item [simp]: "list_item text_item (texts_json ss) = Some ss"
  unfolding texts_json_def by (rule list_item_map) simp

lemma notes_item [simp]: "dict_item text_item (dict_json JStr d) = Some d"
  by (rule dict_item_map) simp

lemma any_item [simp]: "dict_item Some (JObj d) = Some d"
  using dict_item_map [of Some "\<lambda>j. j" d] by (simp add: dict_json_def)

declare list_item.simps [simp del] dict_item.simps [simp del]

lemmas member_simps = member_or_def unless_none_def only_keys_def

text \<open>Keys this build does not know are dropped when they carry nothing, and make the document unreadable otherwise.\<close>

lemma stored_doc:
  assumes "distinct (map fst doc)"
  shows "stored members (JObj doc) =
     (if list_all (\<lambda>(k, v). k \<in> set members \<or> carries_nothing v) doc
      then Some (filter (\<lambda>(k, v). k \<in> set members \<or> \<not> carries_nothing v) doc) else None)"
  using retired_keys_lossless [OF assms, of members]
  by (auto simp: stored_def stored_keys_ok_def split: json.splits)

lemma stored_own: "only_keys members kvs \<Longrightarrow> stored members (JObj kvs) = Some kvs"
  by (auto simp: stored_def drop_retired_keys_def Let_def only_keys_def list_all_iff filter_empty_conv)

lemma stored_with_retired:
  assumes own: "only_keys members kvs" "distinct (map fst kvs)"
    and unknown: "list_all (\<lambda>(k, v). k \<notin> set members) retired" "distinct (map fst retired)"
  shows "stored members (JObj (kvs @ retired)) =
     (if list_all (\<lambda>(k, v). carries_nothing v) retired then Some kvs else None)"
proof -
  have "fst ` set kvs \<inter> fst ` set retired = {}"
    using own(1) unknown(1) by (fastforce simp: only_keys_def list_all_iff)
  with own(2) unknown(2) have "distinct (map fst (kvs @ retired))" by simp
  moreover have "filter (\<lambda>(k, v). k \<in> set members \<or> \<not> carries_nothing v) kvs = kvs"
    using own(1) by (auto simp: only_keys_def list_all_iff filter_id_conv)
  moreover have "filter (\<lambda>(k, v). k \<in> set members \<or> \<not> carries_nothing v) retired = []"
    if "list_all (\<lambda>(k, v). carries_nothing v) retired"
    using that unknown(1) by (auto simp: list_all_iff filter_empty_conv)
  ultimately show ?thesis
    using own(1) unknown(1) by (auto simp: stored_doc only_keys_def list_all_iff) fastforce
qed

subsection \<open>The classes of a genome\<close>

definition trait_json :: "storage_library \<Rightarrow> persona_trait \<Rightarrow> json" where
  "trait_json L t =
     JObj ([(''value'', float_json (ts_value t)), (''confidence'', float_json (ts_confidence t))]
       @ unless_none ''last_changed_at'' (\<lambda>d. JStr (st_time_text L d)) (ts_last_changed_at t)
       @ [(''source'', JStr (ts_source t))])"

definition read_trait :: "storage_library \<Rightarrow> json \<Rightarrow> persona_trait option" where
  "read_trait L j = do {
     kvs \<leftarrow> stored [''value'', ''confidence'', ''last_changed_at'', ''source''] j;
     v \<leftarrow> member_or (Some (1 / 2)) (st_float L) ''value'' kvs;
     c \<leftarrow> member_or (Some (1 / 2)) (st_float L) ''confidence'' kvs;
     d \<leftarrow> member_or (Some None) (nullable (st_time L)) ''last_changed_at'' kvs;
     s \<leftarrow> member_or (Some ''template'') text_item ''source'' kvs;
     Some \<lparr>ts_value = v, ts_confidence = c, ts_last_changed_at = d, ts_source = s\<rparr> }"

definition evidence_json :: "evidence_ref \<Rightarrow> json" where
  "evidence_json e =
     JObj [(''kind'', JStr (ev_kind e)), (''ref_id'', JStr (ev_ref_id e)), (''summary'', JStr (ev_summary e)),
           (''confidence'', float_json (ev_confidence e))]"

definition read_evidence :: "storage_library \<Rightarrow> json \<Rightarrow> evidence_ref option" where
  "read_evidence L j = do {
     kvs \<leftarrow> stored [''kind'', ''ref_id'', ''summary'', ''confidence''] j;
     k \<leftarrow> member_or None text_item ''kind'' kvs;
     r \<leftarrow> member_or None text_item ''ref_id'' kvs;
     s \<leftarrow> member_or (Some []) text_item ''summary'' kvs;
     c \<leftarrow> member_or (Some (1 / 2)) (st_float L) ''confidence'' kvs;
     Some \<lparr>ev_kind = k, ev_ref_id = r, ev_summary = s, ev_confidence = c\<rparr> }"

lemma trait_back: "values_read_back L \<Longrightarrow> read_trait L (trait_json L t) = Some t"
  by (cases "ts_last_changed_at t")
    (simp_all add: read_trait_def trait_json_def stored_own member_simps values_read_back_def float_json_def nullable_def)

lemma evidence_back: "values_read_back L \<Longrightarrow> read_evidence L (evidence_json e) = Some e"
  by (simp add: read_evidence_def evidence_json_def stored_own member_simps values_read_back_def float_json_def)

definition constitution_json :: "constitution \<Rightarrow> json" where
  "constitution_json c =
     JObj [(''name'', JStr (co_name c)), (''archetype'', JStr (co_archetype c)), (''self_concept'', JStr (co_self_concept c)),
           (''values'', texts_json (co_values c)), (''boundaries'', texts_json (co_boundaries c))]"

definition read_constitution :: "json \<Rightarrow> constitution option" where
  "read_constitution j = do {
     kvs \<leftarrow> stored [''name'', ''archetype'', ''self_concept'', ''values'', ''boundaries''] j;
     n \<leftarrow> member_or None text_item ''name'' kvs;
     a \<leftarrow> member_or (Some ''companion'') text_item ''archetype'' kvs;
     s \<leftarrow> member_or (Some []) text_item ''self_concept'' kvs;
     v \<leftarrow> member_or (Some []) (list_item text_item) ''values'' kvs;
     b \<leftarrow> member_or (Some []) (list_item text_item) ''boundaries'' kvs;
     Some \<lparr>co_name = n, co_archetype = a, co_self_concept = s, co_values = v, co_boundaries = b\<rparr> }"

definition character_json :: "storage_library \<Rightarrow> persona_character \<Rightarrow> json" where
  "character_json L c =
     JObj [(''portrait'', JStr (ch_portrait c)), (''traits'', dict_json (trait_json L) (ch_traits c)),
           (''tensions'', texts_json (ch_tensions c)), (''growth_edges'', texts_json (ch_growth_edges c))]"

definition read_character :: "storage_library \<Rightarrow> json \<Rightarrow> persona_character option" where
  "read_character L j = do {
     kvs \<leftarrow> stored [''portrait'', ''traits'', ''tensions'', ''growth_edges''] j;
     p \<leftarrow> member_or (Some []) text_item ''portrait'' kvs;
     t \<leftarrow> member_or (Some []) (dict_item (read_trait L)) ''traits'' kvs;
     n \<leftarrow> member_or (Some []) (list_item text_item) ''tensions'' kvs;
     g \<leftarrow> member_or (Some []) (list_item text_item) ''growth_edges'' kvs;
     Some \<lparr>ch_portrait = p, ch_traits = t, ch_tensions = n, ch_growth_edges = g\<rparr> }"

definition stage_names :: "(string \<times> relationship_stage) list" where
  "stage_names = [(''new'', New), (''familiar'', Familiar), (''trusted'', Trusted), (''deep'', Deep)]"

fun stage_name :: "relationship_stage \<Rightarrow> string" where
  "stage_name New = ''new''" | "stage_name Familiar = ''familiar''" | "stage_name Trusted = ''trusted''"
| "stage_name Deep = ''deep''"

definition relationship_json :: "relationship \<Rightarrow> json" where
  "relationship_json r =
     JObj [(''stage'', JStr (stage_name (re_stage r))), (''narrative'', JStr (re_narrative r)),
           (''safety_boundaries'', texts_json (re_safety_boundaries r))]"

definition read_relationship :: "json \<Rightarrow> relationship option" where
  "read_relationship j = do {
     kvs \<leftarrow> stored [''stage'', ''narrative'', ''safety_boundaries''] j;
     s \<leftarrow> member_or (Some New) (\<lambda>v. Option.bind (text_item v) (map_of stage_names)) ''stage'' kvs;
     n \<leftarrow> member_or (Some []) text_item ''narrative'' kvs;
     b \<leftarrow> member_or (Some []) (list_item text_item) ''safety_boundaries'' kvs;
     Some \<lparr>re_stage = s, re_narrative = n, re_safety_boundaries = b\<rparr> }"

definition expression_json :: "expression \<Rightarrow> json" where
  "expression_json e =
     JObj [(''voice_portrait'', JStr (ex_voice_portrait e)), (''behavior_guidance'', texts_json (ex_behavior_guidance e)),
           (''dialogue_examples'', texts_json (ex_dialogue_examples e)),
           (''modality_notes'', dict_json JStr (ex_modality_notes e)),
           (''signature_phrases'', dict_json JStr (ex_signature_phrases e))]"

definition read_expression :: "json \<Rightarrow> expression option" where
  "read_expression j = do {
     kvs \<leftarrow> stored [''voice_portrait'', ''behavior_guidance'', ''dialogue_examples'', ''modality_notes'',
       ''signature_phrases''] j;
     v \<leftarrow> member_or (Some []) text_item ''voice_portrait'' kvs;
     b \<leftarrow> member_or (Some []) (list_item text_item) ''behavior_guidance'' kvs;
     d \<leftarrow> member_or (Some []) (list_item text_item) ''dialogue_examples'' kvs;
     m \<leftarrow> member_or (Some []) (dict_item text_item) ''modality_notes'' kvs;
     s \<leftarrow> member_or (Some []) (dict_item text_item) ''signature_phrases'' kvs;
     Some \<lparr>ex_voice_portrait = v, ex_behavior_guidance = b, ex_dialogue_examples = d, ex_modality_notes = m,
           ex_signature_phrases = s\<rparr> }"

definition memory_policy_json :: "memory_policy \<Rightarrow> json" where
  "memory_policy_json m =
     JObj [(''recall_policy'', JObj (mp_recall_policy m)), (''relation_policies'', JObj (mp_relation_policies m))]"

definition read_memory_policy :: "json \<Rightarrow> memory_policy option" where
  "read_memory_policy j = do {
     kvs \<leftarrow> stored [''recall_policy'', ''relation_policies''] j;
     r \<leftarrow> member_or (Some []) (dict_item Some) ''recall_policy'' kvs;
     p \<leftarrow> member_or (Some []) (dict_item Some) ''relation_policies'' kvs;
     Some \<lparr>mp_recall_policy = r, mp_relation_policies = p\<rparr> }"

definition evolution_policy_json :: "evolution_policy \<Rightarrow> json" where
  "evolution_policy_json e =
     JObj [(''enabled'', JBool (ep_enabled e)), (''auto_apply_low_risk'', JBool (ep_auto_apply_low_risk e)),
           (''max_delta_per_commit'', float_json (ep_max_delta_per_commit e)),
           (''review_required_traits'', texts_json (ep_review_required_traits e))]"

definition read_evolution_policy :: "storage_library \<Rightarrow> json \<Rightarrow> evolution_policy option" where
  "read_evolution_policy L j = do {
     kvs \<leftarrow> stored [''enabled'', ''auto_apply_low_risk'', ''max_delta_per_commit'', ''review_required_traits''] j;
     e \<leftarrow> member_or (Some True) (st_flag L) ''enabled'' kvs;
     a \<leftarrow> member_or (Some False) (st_flag L) ''auto_apply_low_risk'' kvs;
     m \<leftarrow> member_or (Some (to_double (5 / 100))) (st_float L) ''max_delta_per_commit'' kvs;
     r \<leftarrow> member_or (Some []) (list_item text_item) ''review_required_traits'' kvs;
     Some \<lparr>ep_enabled = e, ep_auto_apply_low_risk = a, ep_max_delta_per_commit = m, ep_review_required_traits = r\<rparr> }"

lemma constitution_back: "read_constitution (constitution_json c) = Some c"
  by (simp add: read_constitution_def constitution_json_def stored_own member_simps)

lemma character_back: "values_read_back L \<Longrightarrow> read_character L (character_json L c) = Some c"
  by (simp add: read_character_def character_json_def stored_own member_simps dict_item_map trait_back)

lemma relationship_back: "read_relationship (relationship_json r) = Some r"
  by (cases "re_stage r") (simp_all add: read_relationship_def relationship_json_def stored_own member_simps stage_names_def)

lemma expression_back: "read_expression (expression_json e) = Some e"
  by (simp add: read_expression_def expression_json_def stored_own member_simps)

lemma memory_policy_back: "read_memory_policy (memory_policy_json m) = Some m"
  by (simp add: read_memory_policy_def memory_policy_json_def stored_own member_simps)

lemma evolution_policy_back: "values_read_back L \<Longrightarrow> read_evolution_policy L (evolution_policy_json e) = Some e"
  by (simp add: read_evolution_policy_def evolution_policy_json_def stored_own member_simps values_read_back_def
      float_json_def)

text \<open>The provenance keeps what it does not know (\<open>extra="allow"\<close>).\<close>

definition provenance_members :: "string list" where
  "provenance_members =
     [''origin'', ''base_genome_id'', ''source_preset_id'', ''source_preset_revision'', ''evidence_refs'']"

definition provenance_json :: "provenance \<Rightarrow> json" where
  "provenance_json p =
     JObj ([(''origin'', JStr (pv_origin p))]
       @ unless_none ''base_genome_id'' JStr (pv_base_genome_id p)
       @ unless_none ''source_preset_id'' JStr (pv_source_preset_id p)
       @ unless_none ''source_preset_revision'' JStr (pv_source_preset_revision p)
       @ [(''evidence_refs'', JArr (map evidence_json (pv_evidence_refs p)))]
       @ filter (\<lambda>(k, v). v \<noteq> JNull) (pv_extra p))"

definition read_provenance :: "storage_library \<Rightarrow> json \<Rightarrow> provenance option" where
  "read_provenance L j =
     (case j of
        JObj kvs \<Rightarrow> do {
          og \<leftarrow> member_or (Some ''template'') text_item ''origin'' kvs;
          b \<leftarrow> member_or (Some None) (nullable text_item) ''base_genome_id'' kvs;
          i \<leftarrow> member_or (Some None) (nullable text_item) ''source_preset_id'' kvs;
          r \<leftarrow> member_or (Some None) (nullable text_item) ''source_preset_revision'' kvs;
          e \<leftarrow> member_or (Some []) (list_item (read_evidence L)) ''evidence_refs'' kvs;
          Some \<lparr>pv_origin = og, pv_base_genome_id = b, pv_source_preset_id = i, pv_source_preset_revision = r,
                pv_evidence_refs = e, pv_extra = filter (\<lambda>(k, v). k \<notin> set provenance_members) kvs\<rparr> }
      | _ \<Rightarrow> None)"

text \<open>The extra members are members of their own; one that is null is not written.\<close>

definition extra_kept :: "provenance \<Rightarrow> bool" where
  "extra_kept p \<longleftrightarrow> list_all (\<lambda>(k, v). k \<notin> set provenance_members \<and> v \<noteq> JNull) (pv_extra p)"

lemma provenance_back:
  assumes "values_read_back L" "extra_kept p"
  shows "read_provenance L (provenance_json p) = Some p"
proof -
  have written: "filter (\<lambda>(k, v). v \<noteq> JNull) (pv_extra p) = pv_extra p"
    and own: "filter (\<lambda>(k, v). k \<notin> set provenance_members) (pv_extra p) = pv_extra p"
    using assms(2) by (auto simp: extra_kept_def list_all_iff filter_id_conv)
  have "map_of (pv_extra p) k = None" if "k \<in> set provenance_members" for k
    using assms(2) that by (auto simp: extra_kept_def list_all_iff map_of_eq_None_iff)
  note others = this [unfolded provenance_members_def, simplified]
  show ?thesis
    using own [unfolded provenance_members_def]
    by (cases "pv_base_genome_id p"; cases "pv_source_preset_id p"; cases "pv_source_preset_revision p")
      (simp_all add: read_provenance_def provenance_json_def member_simps written nullable_def list_item_map
        evidence_back [OF assms(1)] others provenance_members_def map_add_def)
qed

subsection \<open>The genome\<close>

definition genome_members :: "string list" where
  "genome_members =
     [''schema_version'', ''constitution'', ''character'', ''relationship'', ''expression'', ''memory_policy'',
      ''evolution_policy'', ''provenance'']"

definition persona_genome_to_json :: "storage_library \<Rightarrow> genome \<Rightarrow> json_object" where
  "persona_genome_to_json L g =
     [(''schema_version'', JStr persona_genome_schema), (''constitution'', constitution_json (ge_constitution g)),
      (''character'', character_json L (ge_character g)), (''relationship'', relationship_json (ge_relationship g)),
      (''expression'', expression_json (ge_expression g)), (''memory_policy'', memory_policy_json (ge_memory_policy g)),
      (''evolution_policy'', evolution_policy_json (ge_evolution_policy g)),
      (''provenance'', provenance_json (ge_provenance g))]"

definition default_character :: persona_character where
  "default_character = \<lparr>ch_portrait = [], ch_traits = [], ch_tensions = [], ch_growth_edges = []\<rparr>"

definition default_relationship :: relationship where
  "default_relationship = \<lparr>re_stage = New, re_narrative = [], re_safety_boundaries = []\<rparr>"

definition default_expression :: expression where
  "default_expression =
     \<lparr>ex_voice_portrait = [], ex_behavior_guidance = [], ex_dialogue_examples = [], ex_modality_notes = [],
      ex_signature_phrases = []\<rparr>"

definition default_memory_policy :: memory_policy where
  "default_memory_policy = \<lparr>mp_recall_policy = [], mp_relation_policies = []\<rparr>"

definition default_evolution_policy :: evolution_policy where
  "default_evolution_policy =
     \<lparr>ep_enabled = True, ep_auto_apply_low_risk = False, ep_max_delta_per_commit = to_double (5 / 100),
      ep_review_required_traits = []\<rparr>"

definition default_provenance :: provenance where
  "default_provenance =
     \<lparr>pv_origin = ''template'', pv_base_genome_id = None, pv_source_preset_id = None, pv_source_preset_revision = None,
      pv_evidence_refs = [], pv_extra = []\<rparr>"

definition read_genome :: "storage_library \<Rightarrow> json_object \<Rightarrow> genome option" where
  "read_genome L doc = do {
     kvs \<leftarrow> stored genome_members (JObj doc);
     _ \<leftarrow> member_or (Some ()) (\<lambda>v. if v = JStr persona_genome_schema then Some () else None) ''schema_version'' kvs;
     co \<leftarrow> member_or None read_constitution ''constitution'' kvs;
     ch \<leftarrow> member_or (Some default_character) (read_character L) ''character'' kvs;
     re \<leftarrow> member_or (Some default_relationship) read_relationship ''relationship'' kvs;
     ex \<leftarrow> member_or (Some default_expression) read_expression ''expression'' kvs;
     me \<leftarrow> member_or (Some default_memory_policy) read_memory_policy ''memory_policy'' kvs;
     ev \<leftarrow> member_or (Some default_evolution_policy) (read_evolution_policy L) ''evolution_policy'' kvs;
     pv \<leftarrow> member_or (Some default_provenance) (read_provenance L) ''provenance'' kvs;
     Some \<lparr>ge_constitution = co, ge_character = ch, ge_relationship = re, ge_expression = ex, ge_memory_policy = me,
           ge_evolution_policy = ev, ge_provenance = pv\<rparr> }"

datatype genome_error =
    Payload_Required | Unsupported_Schema "json option" | Unreadable_Genome | Invalid_Genome "string invalid"

definition validate_genome :: "storage_library \<Rightarrow> json_object \<Rightarrow> genome_error + genome" where
  "validate_genome L doc =
     and_then (or_raise Unreadable_Genome (read_genome L doc)) (\<lambda>g. reraise Invalid_Genome (make_genome g))"

datatype genome_payload = Genome_Object genome | Genome_Document json_object | No_Genome

definition normalize_persona_genome :: "storage_library \<Rightarrow> genome_payload \<Rightarrow> genome_error + genome" where
  "normalize_persona_genome L payload =
     (case payload of
        Genome_Object g \<Rightarrow> Inr g
      | No_Genome \<Rightarrow> Inl Payload_Required
      | Genome_Document doc \<Rightarrow>
          (if doc = [] then Inl Payload_Required
           else if map_of doc ''schema_version'' \<noteq> Some (JStr persona_genome_schema)
           then Inl (Unsupported_Schema (map_of doc ''schema_version''))
           else validate_genome L doc))"

text \<open>The canonical text: sorted keys, compact, and every character outside printable ASCII escaped.\<close>

definition ascii_escape :: "char \<Rightarrow> string" where
  "ascii_escape c =
     (if (of_char c :: nat) < 127 then [c] else char_of (92 :: nat) # ''u00'' @ hexdigest [of_char c])"

definition genome_text :: "(rat \<Rightarrow> string) \<Rightarrow> storage_library \<Rightarrow> genome \<Rightarrow> string" where
  "genome_text ft L g = concat (map ascii_escape (json_text ft (sorted_json (JObj (persona_genome_to_json L g)))))"

definition canonical_persona_genome_json ::
  "(rat \<Rightarrow> string) \<Rightarrow> storage_library \<Rightarrow> genome_payload \<Rightarrow> genome_error + string" where
  "canonical_persona_genome_json ft L payload =
     (case payload of
        Genome_Object g \<Rightarrow> Inr (genome_text ft L g)
      | Genome_Document doc \<Rightarrow> and_then (validate_genome L doc) (\<lambda>g. Inr (genome_text ft L g))
      | No_Genome \<Rightarrow> Inl Unreadable_Genome)"

definition payload_hash :: "(rat \<Rightarrow> string) \<Rightarrow> storage_library \<Rightarrow> genome_payload \<Rightarrow> genome_error + string" where
  "payload_hash ft L payload =
     and_then (canonical_persona_genome_json ft L payload) (\<lambda>t. Inr (''pg_'' @ take 32 (sha256_hex (utf8 t))))"

lemma genome_keys:
  "only_keys genome_members (persona_genome_to_json L g)" "distinct (map fst (persona_genome_to_json L g))"
  by (simp_all add: persona_genome_to_json_def genome_members_def only_keys_def)

lemma read_genome_back:
  assumes "values_read_back L" "extra_kept (ge_provenance g)"
  shows "read_genome L (persona_genome_to_json L g) = Some g"
  by (simp add: read_genome_def stored_own [OF genome_keys(1)])
    (simp add: persona_genome_to_json_def member_or_def constitution_back character_back [OF assms(1)] relationship_back
      expression_back memory_policy_back evolution_policy_back [OF assms(1)] provenance_back [OF assms])

subsection \<open>The documents of earlier builds\<close>

text \<open>
  What an earlier build may have stored: the document of a genome with further members in any of its stored documents,
  the nested ones included; of the traits by their key, of the evidence by its place.
\<close>

record retired_members =
  rm_genome :: json_object
  rm_constitution :: json_object
  rm_character :: json_object
  rm_relationship :: json_object
  rm_expression :: json_object
  rm_memory_policy :: json_object
  rm_evolution_policy :: json_object
  rm_trait :: "string \<Rightarrow> json_object"
  rm_evidence :: "nat \<Rightarrow> json_object"

fun with_more :: "json \<Rightarrow> json_object \<Rightarrow> json" where
  "with_more (JObj kvs) rest = JObj (kvs @ rest)"
| "with_more j rest = j"

definition older_character :: "storage_library \<Rightarrow> retired_members \<Rightarrow> persona_character \<Rightarrow> json" where
  "older_character L R c =
     with_more
       (JObj [(''portrait'', JStr (ch_portrait c)),
              (''traits'', JObj (map (\<lambda>kt. (fst kt, with_more (trait_json L (snd kt)) (rm_trait R (fst kt)))) (ch_traits c))),
              (''tensions'', texts_json (ch_tensions c)), (''growth_edges'', texts_json (ch_growth_edges c))])
       (rm_character R)"

definition older_evidence :: "storage_library \<Rightarrow> retired_members \<Rightarrow> evidence_ref list \<Rightarrow> json" where
  "older_evidence L R es = JArr (map (\<lambda>ie. with_more (evidence_json (snd ie)) (rm_evidence R (fst ie))) (enumerate 0 es))"

definition older_provenance :: "storage_library \<Rightarrow> retired_members \<Rightarrow> provenance \<Rightarrow> json" where
  "older_provenance L R p =
     (case provenance_json p of
        JObj kvs \<Rightarrow> JObj (map (\<lambda>kv. if fst kv = ''evidence_refs'' then (fst kv, older_evidence L R (pv_evidence_refs p)) else kv) kvs)
      | j \<Rightarrow> j)"

definition older_document :: "storage_library \<Rightarrow> retired_members \<Rightarrow> genome \<Rightarrow> json_object" where
  "older_document L R g =
     [(''schema_version'', JStr persona_genome_schema),
      (''constitution'', with_more (constitution_json (ge_constitution g)) (rm_constitution R)),
      (''character'', older_character L R (ge_character g)),
      (''relationship'', with_more (relationship_json (ge_relationship g)) (rm_relationship R)),
      (''expression'', with_more (expression_json (ge_expression g)) (rm_expression R)),
      (''memory_policy'', with_more (memory_policy_json (ge_memory_policy g)) (rm_memory_policy R)),
      (''evolution_policy'', with_more (evolution_policy_json (ge_evolution_policy g)) (rm_evolution_policy R)),
      (''provenance'', older_provenance L R (ge_provenance g))] @ rm_genome R"

text \<open>The further members of each stored document of a genome, beside the members its class has.\<close>

definition retired_places :: "retired_members \<Rightarrow> genome \<Rightarrow> (string list \<times> json_object) list" where
  "retired_places R g =
     [([''schema_version'', ''constitution'', ''character'', ''relationship'', ''expression'', ''memory_policy'',
        ''evolution_policy'', ''provenance''], rm_genome R),
      ([''name'', ''archetype'', ''self_concept'', ''values'', ''boundaries''], rm_constitution R),
      ([''portrait'', ''traits'', ''tensions'', ''growth_edges''], rm_character R),
      ([''stage'', ''narrative'', ''safety_boundaries''], rm_relationship R),
      ([''voice_portrait'', ''behavior_guidance'', ''dialogue_examples'', ''modality_notes'', ''signature_phrases''],
       rm_expression R),
      ([''recall_policy'', ''relation_policies''], rm_memory_policy R),
      ([''enabled'', ''auto_apply_low_risk'', ''max_delta_per_commit'', ''review_required_traits''], rm_evolution_policy R)]
     @ map (\<lambda>kt. ([''value'', ''confidence'', ''last_changed_at'', ''source''], rm_trait R (fst kt))) (ch_traits (ge_character g))
     @ map (\<lambda>ie. ([''kind'', ''ref_id'', ''summary'', ''confidence''], rm_evidence R (fst ie)))
         (enumerate 0 (pv_evidence_refs (ge_provenance g)))"

definition unknown_members :: "string list \<times> json_object \<Rightarrow> bool" where
  "unknown_members p \<longleftrightarrow> list_all (\<lambda>kv. fst kv \<notin> set (fst p)) (snd p) \<and> distinct (map fst (snd p))"

definition all_empty :: "string list \<times> json_object \<Rightarrow> bool" where
  "all_empty p \<longleftrightarrow> list_all (\<lambda>kv. carries_nothing (snd kv)) (snd p)"

text \<open>A class reads such a document as it reads its own, or not at all.\<close>

definition own_document :: "string list \<Rightarrow> json \<Rightarrow> bool" where
  "own_document members j = is_object (\<lambda>kvs. only_keys members kvs \<and> distinct (map fst kvs)) j"

lemma stored_more:
  assumes "own_document members j" "unknown_members (members, rest)"
  shows "stored members (with_more j rest) = (if all_empty (members, rest) then stored members j else None)"
proof -
  obtain kvs where j: "j = JObj kvs" "only_keys members kvs" "distinct (map fst kvs)"
    using assms(1) by (cases j) (simp_all add: own_document_def)
  have "list_all (\<lambda>(k, v). k \<notin> set members) rest" "distinct (map fst rest)"
    using assms(2) by (auto simp: unknown_members_def list_all_iff)
  note stored_with_retired [OF j(2,3) this]
  moreover have "list_all (\<lambda>(k, v). carries_nothing v) rest = list_all (\<lambda>kv. carries_nothing (snd kv)) rest"
    by (induction rest) auto
  ultimately show ?thesis by (simp add: j(1) stored_own [OF j(2)] all_empty_def)
qed

lemma bind_if: "Option.bind (if b then x else None) f = (if b then Option.bind x f else None)"
  by simp

lemmas more_simps = stored_more own_document_def only_keys_def bind_if

lemma trait_more:
  assumes "values_read_back L" "unknown_members ([''value'', ''confidence'', ''last_changed_at'', ''source''], rest)"
  shows "read_trait L (with_more (trait_json L t) rest) =
    (if all_empty ([''value'', ''confidence'', ''last_changed_at'', ''source''], rest) then Some t else None)"
proof -
  have "own_document [''value'', ''confidence'', ''last_changed_at'', ''source''] (trait_json L t)"
    by (cases "ts_last_changed_at t") (simp_all add: trait_json_def more_simps unless_none_def)
  from stored_more [OF this assms(2)] trait_back [OF assms(1), of t] show ?thesis
    unfolding read_trait_def by (simp add: bind_if)
qed

lemma evidence_more:
  assumes "values_read_back L" "unknown_members ([''kind'', ''ref_id'', ''summary'', ''confidence''], rest)"
  shows "read_evidence L (with_more (evidence_json e) rest) =
    (if all_empty ([''kind'', ''ref_id'', ''summary'', ''confidence''], rest) then Some e else None)"
proof -
  have "own_document [''kind'', ''ref_id'', ''summary'', ''confidence''] (evidence_json e)"
    by (simp add: evidence_json_def more_simps)
  from stored_more [OF this assms(2)] evidence_back [OF assms(1), of e] show ?thesis
    unfolding read_evidence_def by (simp add: bind_if)
qed

lemma constitution_rest:
  assumes "unknown_members ([''name'', ''archetype'', ''self_concept'', ''values'', ''boundaries''], rest)"
  shows "read_constitution (with_more (constitution_json c) rest) =
    (if all_empty ([''name'', ''archetype'', ''self_concept'', ''values'', ''boundaries''], rest) then Some c else None)"
proof -
  have "own_document [''name'', ''archetype'', ''self_concept'', ''values'', ''boundaries''] (constitution_json c)"
    by (simp add: constitution_json_def more_simps)
  from stored_more [OF this assms] constitution_back [of c] show ?thesis
    unfolding read_constitution_def by (simp add: bind_if)
qed

lemma relationship_rest:
  assumes "unknown_members ([''stage'', ''narrative'', ''safety_boundaries''], rest)"
  shows "read_relationship (with_more (relationship_json r) rest) =
    (if all_empty ([''stage'', ''narrative'', ''safety_boundaries''], rest) then Some r else None)"
proof -
  have "own_document [''stage'', ''narrative'', ''safety_boundaries''] (relationship_json r)"
    by (simp add: relationship_json_def more_simps)
  from stored_more [OF this assms] relationship_back [of r] show ?thesis
    unfolding read_relationship_def by (simp add: bind_if)
qed

lemma expression_rest:
  assumes "unknown_members ([''voice_portrait'', ''behavior_guidance'', ''dialogue_examples'', ''modality_notes'',
      ''signature_phrases''], rest)"
  shows "read_expression (with_more (expression_json x) rest) =
    (if all_empty ([''voice_portrait'', ''behavior_guidance'', ''dialogue_examples'', ''modality_notes'',
      ''signature_phrases''], rest) then Some x else None)"
proof -
  have "own_document [''voice_portrait'', ''behavior_guidance'', ''dialogue_examples'', ''modality_notes'',
      ''signature_phrases''] (expression_json x)"
    by (simp add: expression_json_def more_simps)
  from stored_more [OF this assms] expression_back [of x] show ?thesis
    unfolding read_expression_def by (simp add: bind_if)
qed

lemma memory_policy_rest:
  assumes "unknown_members ([''recall_policy'', ''relation_policies''], rest)"
  shows "read_memory_policy (with_more (memory_policy_json m) rest) =
    (if all_empty ([''recall_policy'', ''relation_policies''], rest) then Some m else None)"
proof -
  have "own_document [''recall_policy'', ''relation_policies''] (memory_policy_json m)"
    by (simp add: memory_policy_json_def more_simps)
  from stored_more [OF this assms] memory_policy_back [of m] show ?thesis
    unfolding read_memory_policy_def by (simp add: bind_if)
qed

lemma evolution_policy_rest:
  assumes "values_read_back L"
    and "unknown_members ([''enabled'', ''auto_apply_low_risk'', ''max_delta_per_commit'', ''review_required_traits''], rest)"
  shows "read_evolution_policy L (with_more (evolution_policy_json p) rest) =
    (if all_empty ([''enabled'', ''auto_apply_low_risk'', ''max_delta_per_commit'', ''review_required_traits''], rest)
     then Some p else None)"
proof -
  have "own_document [''enabled'', ''auto_apply_low_risk'', ''max_delta_per_commit'', ''review_required_traits'']
      (evolution_policy_json p)"
    by (simp add: evolution_policy_json_def more_simps)
  from stored_more [OF this assms(2)] evolution_policy_back [OF assms(1), of p] show ?thesis
    unfolding read_evolution_policy_def by (simp add: bind_if)
qed

lemma those_if: "those (map (\<lambda>x. if P x then Some (g x) else None) xs) = (if list_all P xs then Some (map g xs) else None)"
  by (induction xs) simp_all

abbreviation trait_place :: "retired_members \<Rightarrow> string \<times> persona_trait \<Rightarrow> string list \<times> json_object" where
  "trait_place R kt \<equiv> ([''value'', ''confidence'', ''last_changed_at'', ''source''], rm_trait R (fst kt))"

abbreviation evidence_place :: "retired_members \<Rightarrow> nat \<times> evidence_ref \<Rightarrow> string list \<times> json_object" where
  "evidence_place R ie \<equiv> ([''kind'', ''ref_id'', ''summary'', ''confidence''], rm_evidence R (fst ie))"

lemma traits_rest:
  assumes "values_read_back L" "list_all (\<lambda>kt. unknown_members (trait_place R kt)) ts"
  shows "dict_item (read_trait L) (JObj (map (\<lambda>kt. (fst kt, with_more (trait_json L (snd kt)) (rm_trait R (fst kt)))) ts))
    = (if list_all (\<lambda>kt. all_empty (trait_place R kt)) ts then Some ts else None)"
proof -
  have "map (\<lambda>kt. map_option (Pair (fst kt)) (read_trait L (with_more (trait_json L (snd kt)) (rm_trait R (fst kt))))) ts
      = map (\<lambda>kt. if all_empty (trait_place R kt) then Some kt else None) ts"
    using assms(2) by (auto simp: list_all_iff trait_more [OF assms(1)])
  then show ?thesis
    unfolding dict_item.simps map_map comp_def fst_conv snd_conv by (simp only: those_if list.map_ident)
qed

lemma evidence_rest:
  assumes "values_read_back L" "list_all (\<lambda>ie. unknown_members (evidence_place R ie)) (enumerate 0 es)"
  shows "list_item (read_evidence L) (older_evidence L R es)
    = (if list_all (\<lambda>ie. all_empty (evidence_place R ie)) (enumerate 0 es) then Some es else None)"
proof -
  have "map (\<lambda>ie. read_evidence L (with_more (evidence_json (snd ie)) (rm_evidence R (fst ie)))) (enumerate 0 es)
      = map (\<lambda>ie. if all_empty (evidence_place R ie) then Some (snd ie) else None) (enumerate 0 es)"
    using assms(2) by (intro map_cong refl) (auto simp: list_all_iff evidence_more [OF assms(1)])
  then show ?thesis
    unfolding older_evidence_def list_item.simps map_map comp_def by (simp only: those_if) simp
qed

lemma character_rest:
  assumes "values_read_back L" "unknown_members ([''portrait'', ''traits'', ''tensions'', ''growth_edges''], rm_character R)"
    and "list_all (\<lambda>kt. unknown_members (trait_place R kt)) (ch_traits c)"
  shows "read_character L (older_character L R c) =
    (if all_empty ([''portrait'', ''traits'', ''tensions'', ''growth_edges''], rm_character R)
        \<and> list_all (\<lambda>kt. all_empty (trait_place R kt)) (ch_traits c) then Some c else None)"
proof -
  let ?kvs = "[(''portrait'', JStr (ch_portrait c)),
    (''traits'', JObj (map (\<lambda>kt. (fst kt, with_more (trait_json L (snd kt)) (rm_trait R (fst kt)))) (ch_traits c))),
    (''tensions'', texts_json (ch_tensions c)), (''growth_edges'', texts_json (ch_growth_edges c))]"
  have own: "own_document [''portrait'', ''traits'', ''tensions'', ''growth_edges''] (JObj ?kvs)"
    "only_keys [''portrait'', ''traits'', ''tensions'', ''growth_edges''] ?kvs"
    by (simp_all add: more_simps)
  show ?thesis
    unfolding read_character_def older_character_def stored_more [OF own(1) assms(2)] stored_own [OF own(2)]
    by (simp add: bind_if member_or_def traits_rest [OF assms(1,3)])
qed

lemma provenance_rest:
  assumes "values_read_back L" "extra_kept p"
    and "list_all (\<lambda>ie. unknown_members (evidence_place R ie)) (enumerate 0 (pv_evidence_refs p))"
  shows "read_provenance L (older_provenance L R p) =
    (if list_all (\<lambda>ie. all_empty (evidence_place R ie)) (enumerate 0 (pv_evidence_refs p)) then Some p else None)"
proof -
  have written: "filter (\<lambda>(k, v). v \<noteq> JNull) (pv_extra p) = pv_extra p"
    and own: "filter (\<lambda>(k, v). k \<notin> set provenance_members) (pv_extra p) = pv_extra p"
    using assms(2) by (auto simp: extra_kept_def list_all_iff filter_id_conv)
  have "map_of (pv_extra p) k = None" if "k \<in> set provenance_members" for k
    using assms(2) that by (auto simp: extra_kept_def list_all_iff map_of_eq_None_iff)
  note others = this [unfolded provenance_members_def, simplified]
  have same: "map (\<lambda>kv. if fst kv = ''evidence_refs'' then (fst kv, j) else kv) (pv_extra p) = pv_extra p" for j
    using assms(2) by (intro map_idI) (auto simp: extra_kept_def list_all_iff provenance_members_def)
  have "older_provenance L R p = JObj ([(''origin'', JStr (pv_origin p))]
       @ unless_none ''base_genome_id'' JStr (pv_base_genome_id p)
       @ unless_none ''source_preset_id'' JStr (pv_source_preset_id p)
       @ unless_none ''source_preset_revision'' JStr (pv_source_preset_revision p)
       @ [(''evidence_refs'', older_evidence L R (pv_evidence_refs p))] @ pv_extra p)"
    by (cases "pv_base_genome_id p"; cases "pv_source_preset_id p"; cases "pv_source_preset_revision p")
      (simp_all add: older_provenance_def provenance_json_def written same unless_none_def)
  then show ?thesis
    using own [unfolded provenance_members_def]
    by (cases "pv_base_genome_id p"; cases "pv_source_preset_id p"; cases "pv_source_preset_revision p")
      (simp_all add: read_provenance_def member_simps nullable_def evidence_rest [OF assms(1,3)] bind_if
        others provenance_members_def map_add_def)
qed

lemma read_older:
  assumes "values_read_back L" "extra_kept (ge_provenance g)" "list_all unknown_members (retired_places R g)"
  shows "read_genome L (older_document L R g) = (if list_all all_empty (retired_places R g) then Some g else None)"
proof -
  let ?kvs = "[(''schema_version'', JStr persona_genome_schema),
      (''constitution'', with_more (constitution_json (ge_constitution g)) (rm_constitution R)),
      (''character'', older_character L R (ge_character g)),
      (''relationship'', with_more (relationship_json (ge_relationship g)) (rm_relationship R)),
      (''expression'', with_more (expression_json (ge_expression g)) (rm_expression R)),
      (''memory_policy'', with_more (memory_policy_json (ge_memory_policy g)) (rm_memory_policy R)),
      (''evolution_policy'', with_more (evolution_policy_json (ge_evolution_policy g)) (rm_evolution_policy R)),
      (''provenance'', older_provenance L R (ge_provenance g))]"
  have own: "own_document genome_members (JObj ?kvs)" "only_keys genome_members ?kvs"
    by (simp_all add: own_document_def only_keys_def genome_members_def)
  note known = assms(3) [unfolded retired_places_def list_all_append list.pred_inject list.pred_map comp_def, simplified]
  have top: "stored genome_members (JObj (?kvs @ rm_genome R)) = (if all_empty (genome_members, rm_genome R) then Some ?kvs else None)"
  proof -
    have "unknown_members (genome_members, rm_genome R)" using known by (simp add: genome_members_def)
    from stored_more [OF own(1) this] show ?thesis by (simp only: with_more.simps stored_own [OF own(2)])
  qed
  show ?thesis
    unfolding read_genome_def older_document_def top
    using known
    by (simp add: bind_if member_or_def constitution_rest character_rest [OF assms(1)] relationship_rest expression_rest
        memory_policy_rest evolution_policy_rest [OF assms(1)] provenance_rest [OF assms(1,2)])
      (auto simp: retired_places_def genome_members_def list.pred_map comp_def)
qed

text \<open>The text and the hash of a genome are those of the document it is stored as.\<close>

lemma payload_hash_of_document:
  assumes "values_read_back L" "extra_kept (ge_provenance g)" "wf_genome g"
  shows "payload_hash ft L (Genome_Document (persona_genome_to_json L g)) = payload_hash ft L (Genome_Object g)"
  using read_genome_back [OF assms(1,2)] genome_class.accepts [OF assms(3)]
  by (simp add: payload_hash_def canonical_persona_genome_json_def validate_genome_def and_then_def)

text \<open>
  C17. A stored genome is read back, also from the documents of earlier builds. The document a genome is dumped to is
  normalised to that very genome. So is one with further members that this build does not know, in the genome or in any
  of its nested documents, as long as all of those carry nothing; a single one that carries something makes the document
  unreadable, so that nothing a genome says is dropped silently. It holds of a genome whose extra provenance (its class
  keeps what it does not know) has names of its own and no null, for nulls are not written.
\<close>

theorem stored_genome_read_back:
  assumes "values_read_back L" "wf_genome g" "extra_kept (ge_provenance g)" "list_all unknown_members (retired_places R g)"
  shows "normalize_persona_genome L (Genome_Document (persona_genome_to_json L g)) = Inr g
    \<and> normalize_persona_genome L (Genome_Document (older_document L R g)) =
        (if list_all all_empty (retired_places R g) then Inr g else Inl Unreadable_Genome)"
proof -
  have "map_of (older_document L R g) ''schema_version'' = Some (JStr persona_genome_schema)" "older_document L R g \<noteq> []"
    "map_of (persona_genome_to_json L g) ''schema_version'' = Some (JStr persona_genome_schema)"
    "persona_genome_to_json L g \<noteq> []"
    by (simp_all add: older_document_def persona_genome_to_json_def)
  then show ?thesis
    using read_genome_back [OF assms(1,3)] read_older [OF assms(1,3,4)] genome_class.accepts [OF assms(2)]
    by (simp add: normalize_persona_genome_def validate_genome_def)
qed

subsection \<open>Observations, snapshots, presets and previews\<close>

record persona_observation =
  ob_observation_id :: string
  ob_owner_id :: string
  ob_companion_id :: string
  ob_kind :: string
  ob_source :: string
  ob_summary :: string
  ob_strength :: rat
  ob_confidence :: rat
  ob_evidence_refs :: "evidence_ref list"
  ob_created_at :: "datetime option"

definition persona_observation_fields :: "persona_observation \<Rightarrow> (string \<times> bool) list" where
  "persona_observation_fields x =
     [(''strength'', unit_interval (ob_strength x)),
      (''confidence'', unit_interval (ob_confidence x)),
      (''evidence_refs'', list_all evidence_ok (ob_evidence_refs x))]"

definition make_persona_observation :: "persona_observation \<Rightarrow> string invalid + persona_observation" where
  "make_persona_observation x = build (persona_observation_fields x) no_rules x"

definition wf_persona_observation :: "persona_observation \<Rightarrow> bool" where
  "wf_persona_observation x \<longleftrightarrow> admissible (persona_observation_fields x) no_rules"

interpretation persona_observation_class: model_class make_persona_observation wf_persona_observation
  by (rule build_class; simp add: make_persona_observation_def wf_persona_observation_def)

record persona_edit_snapshot =
  sn_genome_id :: string
  sn_display_name :: string
  sn_companion_revision :: int
  sn_persona :: authoring
  sn_preferences :: conversation_preferences
  sn_preference_revision :: int

definition persona_edit_snapshot_fields :: "persona_edit_snapshot \<Rightarrow> (string \<times> bool) list" where
  "persona_edit_snapshot_fields x =
     [(''persona'', authoring_ok (sn_persona x)),
      (''preference_revision'', 1 \<le> sn_preference_revision x)]"

definition make_persona_edit_snapshot :: "persona_edit_snapshot \<Rightarrow> string invalid + persona_edit_snapshot" where
  "make_persona_edit_snapshot x = build (persona_edit_snapshot_fields x) no_rules x"

definition wf_persona_edit_snapshot :: "persona_edit_snapshot \<Rightarrow> bool" where
  "wf_persona_edit_snapshot x \<longleftrightarrow> admissible (persona_edit_snapshot_fields x) no_rules"

interpretation persona_edit_snapshot_class: model_class make_persona_edit_snapshot wf_persona_edit_snapshot
  by (rule build_class; simp add: make_persona_edit_snapshot_def wf_persona_edit_snapshot_def)

record persona_preset =
  ps_preset_id :: string
  ps_revision :: string
  ps_title :: string
  ps_default_name :: string
  ps_description :: string
  ps_preferences :: conversation_preferences
  ps_persona :: authoring
  ps_examples :: "string list"

definition persona_preset_fields :: "persona_preset \<Rightarrow> (string \<times> bool) list" where
  "persona_preset_fields x =
     [(''default_name'', len_between 1 128 (ps_default_name x)),
      (''description'', len_between 1 200 (ps_description x)),
      (''persona'', authoring_ok (ps_persona x))]"

definition make_persona_preset :: "persona_preset \<Rightarrow> string invalid + persona_preset" where
  "make_persona_preset x = build (persona_preset_fields x) no_rules x"

definition wf_persona_preset :: "persona_preset \<Rightarrow> bool" where
  "wf_persona_preset x \<longleftrightarrow> admissible (persona_preset_fields x) no_rules"

interpretation persona_preset_class: model_class make_persona_preset wf_persona_preset
  by (rule build_class; simp add: make_persona_preset_def wf_persona_preset_def)

record preset_catalog =
  pc_presets :: "persona_preset list"

definition preset_catalog_fields :: "preset_catalog \<Rightarrow> (string \<times> bool) list" where
  "preset_catalog_fields x =
     [(''presets'', list_all wf_persona_preset (pc_presets x))]"

definition make_preset_catalog :: "preset_catalog \<Rightarrow> string invalid + preset_catalog" where
  "make_preset_catalog x = build (preset_catalog_fields x) no_rules x"

definition wf_preset_catalog :: "preset_catalog \<Rightarrow> bool" where
  "wf_preset_catalog x \<longleftrightarrow> admissible (preset_catalog_fields x) no_rules"

interpretation preset_catalog_class: model_class make_preset_catalog wf_preset_catalog
  by (rule build_class; simp add: make_preset_catalog_def wf_preset_catalog_def)


record preview_response =
  pp_draft_digest :: string
  pp_reply :: string
  pp_finish_reason :: string
  pp_truncated :: bool

text \<open>Why a change of a persona was refused.\<close>

datatype persona_conflict =
    Operation_Conflict | Preferences_Changed | Base_Not_Current | Current_Changed | State_Not_Eligible
  | Not_This_Companion | Companion_Missing

fun persona_conflict_name :: "persona_conflict \<Rightarrow> string" where
  "persona_conflict_name Operation_Conflict = ''operation_conflict''"
| "persona_conflict_name Preferences_Changed = ''preferences_changed''"
| "persona_conflict_name Base_Not_Current = ''base_not_current''"
| "persona_conflict_name Current_Changed = ''current_changed''"
| "persona_conflict_name State_Not_Eligible = ''state_not_eligible''"
| "persona_conflict_name Not_This_Companion = ''not_this_companion''"
| "persona_conflict_name Companion_Missing = ''companion_missing''"

text \<open>A library that reads back what it writes: a timestamp is a sign and a row of zeros.\<close>

definition plain_library :: storage_library where
  "plain_library =
     \<lparr>st_float = (\<lambda>j. case j of JFloat (Fin x) \<Rightarrow> Some x | _ \<Rightarrow> None),
      st_flag = (\<lambda>j. case j of JBool b \<Rightarrow> Some b | _ \<Rightarrow> None),
      st_time = (\<lambda>j. case j of
        JStr (c # cs) \<Rightarrow> Some ((if c = CHR ''n'' \<or> c = CHR ''m'' then Naive else Aware)
          (if c = CHR ''n'' \<or> c = CHR ''a'' then int (length cs) else - int (length cs)))
      | _ \<Rightarrow> None),
      st_time_text = (\<lambda>t. case t of
        Naive n \<Rightarrow> (if 0 \<le> n then CHR ''n'' else CHR ''m'') # replicate (nat \<bar>n\<bar>) CHR ''0''
      | Aware n \<Rightarrow> (if 0 \<le> n then CHR ''a'' else CHR ''b'') # replicate (nat \<bar>n\<bar>) CHR ''0'')\<rparr>"

lemma plain_library_reads_back: "values_read_back plain_library"
  by (auto simp: values_read_back_def plain_library_def split: datetime.splits)

definition retired_in_relationship :: "json_object \<Rightarrow> retired_members" where
  "retired_in_relationship kvs =
     \<lparr>rm_genome = [], rm_constitution = [], rm_character = [], rm_relationship = kvs, rm_expression = [],
      rm_memory_policy = [], rm_evolution_policy = [], rm_trait = (\<lambda>_. []), rm_evidence = (\<lambda>_. [])\<rparr>"

lemma stored_genome_read_back_witness:
  "normalize_persona_genome plain_library (Genome_Document
       (older_document plain_library (retired_in_relationship [(''commitments'', JArr [])]) (sample_genome New (1 / 2))))
     = Inr (sample_genome New (1 / 2))
   \<and> normalize_persona_genome plain_library (Genome_Document
       (older_document plain_library (retired_in_relationship [(''commitments'', JArr [JStr ''task''])]) (sample_genome New (1 / 2))))
     = Inl Unreadable_Genome"
proof -
  have kept: "extra_kept (ge_provenance (sample_genome New (1 / 2)))"
    by (simp add: extra_kept_def sample_genome_def)
  have unknown: "list_all unknown_members (retired_places (retired_in_relationship [(''commitments'', v)]) (sample_genome New (1 / 2)))" for v
    by (simp add: retired_places_def unknown_members_def retired_in_relationship_def sample_genome_def)
  have ok: "wf_genome (sample_genome New (1 / 2))" by (rule sample_genome_ok) simp_all
  have empty: "list_all all_empty (retired_places (retired_in_relationship [(''commitments'', v)]) (sample_genome New (1 / 2)))
      \<longleftrightarrow> carries_nothing v" for v
    by (simp add: retired_places_def all_empty_def retired_in_relationship_def sample_genome_def)
  show ?thesis
    using stored_genome_read_back [OF plain_library_reads_back ok kept unknown, of "JArr []"]
      stored_genome_read_back [OF plain_library_reads_back ok kept unknown, of "JArr [JStr ''task'']"]
    unfolding empty by simp
qed

end
