(* ===== verification/Vocabulary.thy ===== *)
theory Vocabulary
  imports Wire_Contracts Identity Smarthome_Vocabulary
begin

text \<open>
  The names the two sides of a wire share and that no other theory needs: the topics, session, input and playback
  vocabularies of \<open>biz/contracts/__init__.py\<close>, why a change of a Companion's life is refused (\<open>companion.py\<close>), the events
  of an admission (\<open>device_foundation/v1/events.py\<close>), how a turn ends (\<open>biz/chat_stream/constants.py\<close>), and the panel
  names and limits of \<open>biz/smarthome/__init__.py\<close>. An enumeration is a datatype with its table of wire names.
\<close>

subsection \<open>Topics\<close>

definition wire_schema_version :: int where
  "wire_schema_version = 1"

text \<open>Each topic under the name it is published with.\<close>

definition data_topics :: "(string \<times> string) list" where
  "data_topics =
     [(''CLIENT_AUDIO_STATE_TOPIC'', ''eidolon.audio_state''), (''CONTROL_TOPIC'', ''eidolon.control''),
      (''EVENT_TOPIC'', ''eidolon.event''), (''COMPANION_UI_STATE_TOPIC'', ''eidolon.ui_state''),
      (''SESSION_CONTROL_TOPIC'', ''eidolon.session_control'')]"

definition framework_topics :: "(string \<times> string) list" where
  "framework_topics =
     [(''LIVEKIT_TRANSCRIPTION_TOPIC'', ''lk.transcription''), (''LIVEKIT_AGENT_SESSION_TOPIC'', ''lk.agent.session'')]"

subsection \<open>Sessions\<close>

datatype interaction_mode = Half_Duplex | Full_Duplex | Push_To_Talk

definition interaction_mode_names :: "(string \<times> interaction_mode) list" where
  "interaction_mode_names = [(''half_duplex'', Half_Duplex), (''full_duplex'', Full_Duplex), (''ptt'', Push_To_Talk)]"

datatype session_intent = User_Initiated | Presence_Initiated | Proactive_Initiated

definition session_intent_names :: "(string \<times> session_intent) list" where
  "session_intent_names =
     [(''user_initiated'', User_Initiated), (''presence_initiated'', Presence_Initiated),
      (''proactive_initiated'', Proactive_Initiated)]"

datatype session_end_reason = Idle_Normal | User_Left | End_Error | Proactive_Done | Superseded

definition session_end_reason_names :: "(string \<times> session_end_reason) list" where
  "session_end_reason_names =
     [(''idle_normal_end'', Idle_Normal), (''user_left'', User_Left), (''error'', End_Error),
      (''proactive_done'', Proactive_Done), (''superseded'', Superseded)]"

datatype session_request = Session_Open | Session_Close

definition session_request_names :: "(string \<times> session_request) list" where
  "session_request_names = [(''session_open'', Session_Open), (''session_close'', Session_Close)]"

text \<open>What the Provider answers: who it is, and the two answers with their fields.\<close>

definition channel_provider_identity_prefix :: string where
  "channel_provider_identity_prefix = ''channel-provider-''"

definition session_answer_types :: "string list" where
  "session_answer_types = [''session_rejected'', ''session_started'']"

definition session_rejection_conflict :: string where
  "session_rejection_conflict = ''conflict''"

definition session_answer_fields :: "string list" where
  "session_answer_fields = [''conversation_id'', ''control_request_id'']"

subsection \<open>The audio state of a client\<close>

definition client_audio_state_type :: string where
  "client_audio_state_type = ''client.audio_state''"

datatype input_mode = Input_Auto | Input_Ptt | Input_Manual | Input_Unknown

definition input_mode_names :: "(string \<times> input_mode) list" where
  "input_mode_names =
     [(''auto'', Input_Auto), (''ptt'', Input_Ptt), (''manual'', Input_Manual), (''unknown'', Input_Unknown)]"

definition valid_input_modes :: "input_mode list" where
  "valid_input_modes = [Input_Auto, Input_Ptt, Input_Manual]"

datatype playback_state = Playback_Idle | Agent_Speaking | Playback_Unknown

definition playback_state_names :: "(string \<times> playback_state) list" where
  "playback_state_names = [(''idle'', Playback_Idle), (''agent_speaking'', Agent_Speaking), (''unknown'', Playback_Unknown)]"

definition valid_playback_states :: "playback_state list" where
  "valid_playback_states = [Playback_Idle, Agent_Speaking]"

definition client_audio_state_known_keys :: "string list" where
  "client_audio_state_known_keys =
     [''type'', ''schema_v'', ''seq'', ''input_mode'', ''ptt'', ''manual_interrupt'', ''playback_state'', ''mic_muted'',
      ''rms'', ''snr_hint'', ''client_ts_ms'']"

subsection \<open>The life of a Companion\<close>

definition companion_lifecycle_names :: "(string \<times> companion_lifecycle) list" where
  "companion_lifecycle_names =
     [(''active'', Active), (''retiring'', Retiring), (''archived'', Archived), (''deleting'', Deleting)]"

datatype lifecycle_conflict =
    Revision_Stale | Transition_Not_Allowed | Default_Replacement_Required | Default_Replacement_Ineligible
  | Last_Active_Companion | Companion_Not_Found

definition lifecycle_conflict_names :: "(string \<times> lifecycle_conflict) list" where
  "lifecycle_conflict_names =
     [(''revision_stale'', Revision_Stale), (''transition_not_allowed'', Transition_Not_Allowed),
      (''default_replacement_required'', Default_Replacement_Required),
      (''default_replacement_ineligible'', Default_Replacement_Ineligible),
      (''last_active_companion'', Last_Active_Companion), (''not_found'', Companion_Not_Found)]"

subsection \<open>The events of an admission\<close>

definition admission_event_source :: string where
  "admission_event_source = ''urn:eidolon:authority:admission''"

datatype admission_event_type =
    Proposal_Created | Enrollment_Approved | Enrollment_Rejected | Enrollment_Expired | Enrollment_Canceled
  | Grant_Delivered | Grant_Acknowledged | Claim_Activated | Claim_Suspended | Claim_Resumed | Claim_Revoked
  | Trust_Epoch_Changed | Manifest_Accepted

definition admission_event_type_names :: "(string \<times> admission_event_type) list" where
  "admission_event_type_names =
     [(''live.eidolon.device.enrollment-proposal-created.v1'', Proposal_Created),
      (''live.eidolon.device.enrollment-approved.v1'', Enrollment_Approved),
      (''live.eidolon.device.enrollment-rejected.v1'', Enrollment_Rejected),
      (''live.eidolon.device.enrollment-expired.v1'', Enrollment_Expired),
      (''live.eidolon.device.enrollment-canceled.v1'', Enrollment_Canceled),
      (''live.eidolon.device.claim-grant-delivered.v1'', Grant_Delivered),
      (''live.eidolon.device.claim-grant-acknowledged.v1'', Grant_Acknowledged),
      (''live.eidolon.device.claim-activated.v1'', Claim_Activated),
      (''live.eidolon.device.claim-suspended.v1'', Claim_Suspended),
      (''live.eidolon.device.claim-resumed.v1'', Claim_Resumed),
      (''live.eidolon.device.claim-revoked.v1'', Claim_Revoked),
      (''live.eidolon.device.claim-trust-epoch-changed.v1'', Trust_Epoch_Changed),
      (''live.eidolon.device.manifest-accepted.v1'', Manifest_Accepted)]"

subsection \<open>How a turn ends\<close>

datatype delta_role = Answer_Delta | Tool_Preamble | Slow_Tool_Hint

definition delta_role_names :: "(string \<times> delta_role) list" where
  "delta_role_names = [(''answer'', Answer_Delta), (''tool_preamble'', Tool_Preamble), (''slow_tool_hint'', Slow_Tool_Hint)]"

datatype turn_done_status = Turn_Ok | Turn_Cancelled | Turn_Errored | Turn_Handed_Off

definition turn_done_status_names :: "(string \<times> turn_done_status) list" where
  "turn_done_status_names =
     [(''ok'', Turn_Ok), (''cancelled'', Turn_Cancelled), (''errored'', Turn_Errored), (''handed_off'', Turn_Handed_Off)]"

datatype termination_cause = Normal_End | Client_Cancel | Rpc_Cancel | Guardrail | Error_End

definition termination_cause_names :: "(string \<times> termination_cause) list" where
  "termination_cause_names =
     [(''normal'', Normal_End), (''client_cancel'', Client_Cancel), (''rpc_cancel'', Rpc_Cancel), (''guardrail'', Guardrail),
      (''error'', Error_End)]"

subsection \<open>The panel\<close>

definition panel_profile :: "string \<times> string" where
  "panel_profile = (''smarthome.profile'', ''smarthome.panel.v1'')"

definition panel_ops :: "string list" where
  "panel_ops = [''smarthome.snapshot'', ''smarthome.delta'', ''smarthome.result'']"

definition panel_request_topic :: string where
  "panel_request_topic = ''eidolon.smarthome''"

definition panel_request_types :: "string list" where
  "panel_request_types = [''smarthome.execute'', ''smarthome.sync'']"

text \<open>A scene is proposed as an action of this trait and command.\<close>

definition scene_action :: "string \<times> string \<times> string" where
  "scene_action = (''scene'', ''scene'', ''activate'')"

definition panel_snapshot_max_bytes :: int where
  "panel_snapshot_max_bytes = 64 * 1024"

definition voice_result_max_bytes :: int where
  "voice_result_max_bytes = 3072"

text \<open>
  The vocabularies the normalisers use are those of the enumerations, and a fallback of the parser is not a mode a
  client may declare.
\<close>

lemma vocabularies_agree:
  "set (map fst interaction_mode_names) = set valid_interaction_modes"
  "set (map fst session_intent_names) = set valid_session_intents"
  "set (map fst session_end_reason_names) = set valid_session_end_reasons"
  "set (map snd companion_lifecycle_names) = set companion_lifecycle_states"
  "set valid_input_modes = UNIV - {Input_Unknown}"
  "set valid_playback_states = UNIV - {Playback_Unknown}"
  by (auto simp: interaction_mode_names_def valid_interaction_modes_def session_intent_names_def valid_session_intents_def
      session_end_reason_names_def valid_session_end_reasons_def companion_lifecycle_names_def
      companion_lifecycle_states_def valid_input_modes_def valid_playback_states_def)
    (metis input_mode.exhaust playback_state.exhaust)+

text \<open>Every member has one name and no name has two members; every topic is its own.\<close>

lemma one_name_each:
  "distinct (map fst admission_event_type_names)" "distinct (map snd admission_event_type_names)"
  "set (map snd admission_event_type_names) = UNIV"
  "list_all (starts_with ''live.eidolon.device.'') (map fst admission_event_type_names)"
  "distinct (map fst lifecycle_conflict_names)" "set (map snd lifecycle_conflict_names) = UNIV"
  "distinct (map fst termination_cause_names)" "set (map snd termination_cause_names) = UNIV"
  "distinct (map fst turn_done_status_names)" "set (map snd turn_done_status_names) = UNIV"
  "distinct (map snd (data_topics @ framework_topics) @ [panel_request_topic])"
proof -
  show "set (map snd admission_event_type_names) = UNIV"
    by (auto simp: admission_event_type_names_def) (metis admission_event_type.exhaust)
  show "set (map snd lifecycle_conflict_names) = UNIV"
    by (auto simp: lifecycle_conflict_names_def) (metis lifecycle_conflict.exhaust)
  show "set (map snd termination_cause_names) = UNIV"
    by (auto simp: termination_cause_names_def) (metis termination_cause.exhaust)
  show "set (map snd turn_done_status_names) = UNIV"
    by (auto simp: turn_done_status_names_def) (metis turn_done_status.exhaust)
qed (simp_all add: admission_event_type_names_def lifecycle_conflict_names_def termination_cause_names_def
    turn_done_status_names_def data_topics_def framework_topics_def panel_request_topic_def starts_with_def)

end
