(* ===== verification/Conformance_Signatures.thy ===== *)
theory Conformance_Signatures
  imports Conformance_Vectors
begin

text \<open>
  The checks of \<open>contracts/device_foundation/v1/conformance/run.py\<close> over published bytes and signatures: the canonical
  vectors with their mutations, the ES256 vectors, the local erase, the manifests, the delivery, the revocation, the
  Owner directory and the setup descriptor. A vector is the JSON the runner loads; a check that reads two files takes
  both. Loading a key (\<open>p256\<close>: no key, or whether it is one on P-256), ECDSA and PEM are parameters.
\<close>

subsection \<open>Members of a vector\<close>

definition text_at :: "json \<Rightarrow> string \<Rightarrow> conformance_error + string" where
  "text_at v k = and_then (member_of v k) (\<lambda>x. or_raise Wrong_Value_Type (text_value x))"

definition has_key :: "json \<Rightarrow> string \<Rightarrow> bool" where
  "has_key v k = (case v of JObj kvs \<Rightarrow> map_of kvs k \<noteq> None | _ \<Rightarrow> False)"

fun keys_of :: "json \<Rightarrow> string list" where
  "keys_of (JObj kvs) = map fst kvs"
| "keys_of _ = []"

text \<open>\<open>v[k].encode("utf-8")\<close> against bytes, and the prefixed digest of bytes against \<open>v[k]\<close>.\<close>

definition is_encoding_at :: "json \<Rightarrow> string \<Rightarrow> byte list \<Rightarrow> conformance_error + bool" where
  "is_encoding_at v k bs = and_then (text_at v k) (\<lambda>s. Inr (bs = utf8 s))"

definition is_digest_at :: "json \<Rightarrow> string \<Rightarrow> byte list \<Rightarrow> conformance_error + bool" where
  "is_digest_at v k bs = is_text_at v k (''sha256:'' @ sha256_hex bs)"

definition decoded_at :: "json \<Rightarrow> string \<Rightarrow> conformance_error + byte list" where
  "decoded_at v k = and_then (text_at v k) (\<lambda>s. or_raise Bad_Base64 (b64url_decode s))"

definition canonical_at :: "(json \<Rightarrow> byte list option) \<Rightarrow> json \<Rightarrow> string \<Rightarrow> conformance_error + byte list" where
  "canonical_at canon v k = and_then (member_of v k) (vector_canonical_bytes canon)"

definition signed_by :: "ecdsa \<Rightarrow> byte list \<Rightarrow> byte list \<Rightarrow> byte list \<Rightarrow> bool" where
  "signed_by ecdsa key raw message = ecdsa key (big_endian (take 32 raw)) (big_endian (drop 32 raw)) message"

definition load_p256 :: "(byte list \<Rightarrow> bool option) \<Rightarrow> byte list \<Rightarrow> string \<Rightarrow> conformance_error + unit" where
  "load_p256 p256 key message = and_then (or_raise Unloadable_Key (p256 key)) (\<lambda>ok. refuse_if (\<not> ok) message)"

lemma load_p256_Inr [guard_simps]: "load_p256 p256 key m = Inr u \<longleftrightarrow> p256 key = Some True"
  by (auto simp: load_p256_def guard_simps and_then_eq_Inr)

definition member_paths :: "string \<Rightarrow> json list \<Rightarrow> string set" where
  "member_paths pre vs =
     set (concat (map (\<lambda>iv. map (dotted (indexed pre (fst iv))) (keys_of (snd iv))) (enumerate 0 vs)))"

subsection \<open>Canonical vectors\<close>

definition check_canonical_vector :: "(json \<Rightarrow> byte list option) \<Rightarrow> json \<Rightarrow> conformance_error + unit" where
  "check_canonical_vector canon vector =
     and_then (canonical_at canon vector ''value'') (\<lambda>actual.
     and_then (refuse_unless (is_encoding_at vector ''canonical_utf8'' actual) ''canonical bytes mismatch'') (\<lambda>_.
     refuse_if (has_key vector ''sha256'' \<and> (case member_of vector ''sha256'' of
         Inr h \<Rightarrow> truthy h \<and> h \<noteq> JStr (sha256_hex actual) | Inl _ \<Rightarrow> False))
       ''canonical SHA-256 mismatch''))"

definition canonical_vector_inventory :: "json \<Rightarrow> conformance_error + unit" where
  "canonical_vector_inventory vector =
     require_field_inventory vector
       ({''value'', ''canonical_utf8''} \<union> (if has_key vector ''sha256'' then {''sha256''} else {}))
       {''vector_id'', ''source''} {''value''}"

definition check_canonical_vectors :: "(json \<Rightarrow> byte list option) \<Rightarrow> json \<Rightarrow> conformance_error + nat" where
  "check_canonical_vectors canon document =
     and_then (refuse_unless (is_text_at document ''standard'' ''RFC 8785'')
       ''canonical vectors name a standard this check does not apply'') (\<lambda>_.
     and_then (array_at document ''vectors'') (\<lambda>vectors.
     and_then (each (check_canonical_vector canon) vectors) (\<lambda>_.
     and_then (each canonical_vector_inventory vectors) (\<lambda>_.
     and_then (require_field_inventory document
       ({''standard'', ''vectors''} \<union> indexed_paths ''vectors'' (length vectors) \<union> member_paths ''vectors'' vectors)
       {} (indexed_members ''vectors'' (length vectors) [''value''])) (\<lambda>_.
     Inr (length vectors))))))"

text \<open>The vector of an id, and a mutation of its value. Lists are indexed by a text in vain.\<close>

fun canonical_vector :: "json \<Rightarrow> json list \<Rightarrow> conformance_error + json" where
  "canonical_vector vector_id [] = Inl Nothing_Found"
| "canonical_vector vector_id (v # vs) =
     and_then (member_of v ''vector_id'') (\<lambda>i. if py_eq i vector_id then Inr v else canonical_vector vector_id vs)"

fun put_at :: "string list \<Rightarrow> conformance_error + json \<Rightarrow> json \<Rightarrow> conformance_error + json" where
  "put_at [] new v = and_then new (\<lambda>_. Inl Nothing_Found)"
| "put_at [k] new v =
     and_then new (\<lambda>w. case v of JObj kvs \<Rightarrow> Inr (JObj (AList.update k w kvs)) | _ \<Rightarrow> Inl Not_Subscriptable)"
| "put_at (k # l # ks) new v =
     (case v of
        JObj kvs \<Rightarrow>
          (case map_of kvs k of
             None \<Rightarrow> Inl (Missing_Key k)
           | Some u \<Rightarrow> and_then (put_at (l # ks) new u) (\<lambda>w. Inr (JObj (AList.update k w kvs))))
      | _ \<Rightarrow> Inl Not_Subscriptable)"

definition apply_mutation :: "json \<Rightarrow> json \<Rightarrow> conformance_error + json" where
  "apply_mutation v mutation =
     and_then (text_at mutation ''path'') (\<lambda>path.
     put_at (filter (\<lambda>part. part \<noteq> []) (split_char (CHR ''/'') path)) (member_of mutation ''value'') v)"

text \<open>A mutation puts its value where its path leads and leaves every other way through the document as it was.\<close>

fun value_at :: "string list \<Rightarrow> json \<Rightarrow> json option" where
  "value_at [] v = Some v"
| "value_at (k # ks) (JObj kvs) = Option.bind (map_of kvs k) (value_at ks)"
| "value_at (k # ks) _ = None"

definition diverges :: "string list \<Rightarrow> string list \<Rightarrow> bool" where
  "diverges ks ls \<longleftrightarrow> take (length ls) ks \<noteq> ls \<and> take (length ks) ls \<noteq> ks"

lemma put_at_value: "put_at ks (Inr w) v = Inr u \<Longrightarrow> value_at ks u = Some w"
  by (induction ks "Inr w :: conformance_error + json" v arbitrary: u rule: put_at.induct)
    (auto simp: and_then_eq_Inr update_conv' split: json.splits option.splits)

lemma put_at_elsewhere: "put_at ks (Inr w) v = Inr u \<Longrightarrow> diverges ls ks \<Longrightarrow> value_at ls u = value_at ls v"
proof (induction ks "Inr w :: conformance_error + json" v arbitrary: u ls rule: put_at.induct)
  case (2 k v)
  then show ?case
    by (cases ls) (auto simp: update_conv' diverges_def split: json.splits)
next
  case (3 k l ks v)
  then obtain kvs inner new where parts: "v = JObj kvs" "map_of kvs k = Some inner" "put_at (l # ks) (Inr w) inner = Inr new"
      "u = JObj (AList.update k new kvs)"
    by (auto simp: and_then_eq_Inr split: json.splits option.splits)
  show ?case
  proof (cases ls)
    case (Cons m ms)
    have "value_at ms new = value_at ms inner" if "m = k"
      using "3.hyps" [OF parts(1,2,3), of ms] "3.prems"(2) that Cons by (simp add: diverges_def)
    with parts Cons show ?thesis by (auto simp: update_conv')
  qed (use "3.prems" in \<open>simp add: diverges_def\<close>)
qed simp

lemma put_at_needs: "put_at ks new v = Inr u \<Longrightarrow> \<exists>w. new = Inr w"
  by (induction ks new v arbitrary: u rule: put_at.induct)
    (auto simp: and_then_eq_Inr split: json.split_asm option.split_asm, metis json.exhaust)

lemma mutation_local:
  assumes "apply_mutation v mutation = Inr u"
  obtains ks w where "value_at ks u = Some w" "member_of mutation ''value'' = Inr w" "ks \<noteq> []"
    and "\<And>ls. diverges ls ks \<Longrightarrow> value_at ls u = value_at ls v"
proof -
  from assms obtain path where
    put: "put_at (filter (\<lambda>part. part \<noteq> []) (split_char (CHR ''/'') path)) (member_of mutation ''value'') v = Inr u"
    by (auto simp: apply_mutation_def and_then_eq_Inr)
  with put_at_needs obtain w where new: "member_of mutation ''value'' = Inr w" by blast
  note put = put [unfolded new]
  have "ks \<noteq> []" if "put_at ks (Inr w) v = Inr u" for ks
    using that by (cases ks) simp_all
  note this [OF put]
  from that [OF put_at_value [OF put] new this put_at_elsewhere [OF put]] show ?thesis .
qed

subsection \<open>ES256 vectors\<close>

definition es256_message :: "(json \<Rightarrow> byte list option) \<Rightarrow> json list \<Rightarrow> json \<Rightarrow> conformance_error + byte list" where
  "es256_message canon canonicals vector =
     and_then (and_then (member_of vector ''canonical_vector_id'') (\<lambda>i. canonical_vector i canonicals)) (\<lambda>c.
     and_then (member_of c ''value'') (\<lambda>v.
     and_then (if has_key vector ''mutation'' then and_then (member_of vector ''mutation'') (apply_mutation v) else Inr v)
       (vector_canonical_bytes canon)))"

definition check_es256_vector ::
  "(json \<Rightarrow> byte list option) \<Rightarrow> ecdsa \<Rightarrow> (byte list \<Rightarrow> bool option) \<Rightarrow> json list \<Rightarrow> json \<Rightarrow> conformance_error + unit" where
  "check_es256_vector canon ecdsa p256 canonicals vector =
     and_then (es256_message canon canonicals vector) (\<lambda>message.
     and_then (decoded_at vector ''public_key_spki_base64url'') (\<lambda>spki.
     and_then (refuse_unless (is_digest_at vector ''key_id'' spki) ''SPKI key id mismatch'') (\<lambda>_.
     and_then (load_p256 p256 spki ''key is not P-256'') (\<lambda>_.
     and_then (decoded_at vector ''signature'') (\<lambda>raw.
     and_then (refuse_if (length raw \<noteq> 64) ''ES256 signature is not 64 bytes'') (\<lambda>_.
     and_then (member_of vector ''valid'') (\<lambda>valid.
     refuse_if (valid \<noteq> JBool (signed_by ecdsa spki raw message)) ''signature verdict mismatch'')))))))"

definition es256_vector_inventory :: "json \<Rightarrow> conformance_error + unit" where
  "es256_vector_inventory vector =
     require_field_inventory vector
       ({''canonical_vector_id'', ''key_id'', ''public_key_spki_base64url'', ''signature'', ''valid''}
        \<union> (if has_key vector ''mutation'' then {''mutation'', ''mutation.path'', ''mutation.value''} else {}))
       {''vector_id''} {}"

definition mutation_paths :: "json list \<Rightarrow> string set" where
  "mutation_paths vectors =
     set (concat (map (\<lambda>(i, v). case member_of v ''mutation'' of
         Inr m \<Rightarrow> map (dotted (dotted (indexed ''vectors'' i) ''mutation'')) (keys_of m) | Inl _ \<Rightarrow> []) (enumerate 0 vectors)))"

definition check_es256_vectors ::
  "(json \<Rightarrow> byte list option) \<Rightarrow> ecdsa \<Rightarrow> (byte list \<Rightarrow> bool option) \<Rightarrow> json \<Rightarrow> json \<Rightarrow> conformance_error + nat" where
  "check_es256_vectors canon ecdsa p256 canonical_document document =
     and_then (member_of document ''profile_id'') (\<lambda>profile.
     and_then (member_of document ''signature_algorithm'') (\<lambda>algorithm.
     and_then (member_of document ''signature_encoding'') (\<lambda>encoding.
     and_then (refuse_if ([profile, algorithm, encoding] \<noteq>
         [JStr ''eidolon-trust-p256-hpke-v1'', JStr ''ES256'', JStr ''64-byte-r-concat-s-base64url-no-padding''])
       ''ES256 vectors declare a profile or encoding this check does not use'') (\<lambda>_.
     and_then (array_at document ''vectors'') (\<lambda>vectors.
     and_then (array_at canonical_document ''vectors'') (\<lambda>canonicals.
     and_then (each (check_es256_vector canon ecdsa p256 canonicals) vectors) (\<lambda>_.
     and_then (each es256_vector_inventory vectors) (\<lambda>_.
     and_then (require_field_inventory document
       ({''profile_id'', ''signature_algorithm'', ''signature_encoding'', ''vectors''}
        \<union> indexed_paths ''vectors'' (length vectors) \<union> member_paths ''vectors'' vectors \<union> mutation_paths vectors) {} {}) (\<lambda>_.
     Inr (length vectors))))))))))"

text \<open>
  An accepted vector states for each of its documents whether ECDSA accepts the signature over its canonical bytes.
\<close>

lemma es256_verdicts_true:
  assumes "check_es256_vector canon ecdsa p256 canonicals vector = Inr ()"
  obtains message spki raw where "es256_message canon canonicals vector = Inr message"
    and "decoded_at vector ''public_key_spki_base64url'' = Inr spki" "decoded_at vector ''signature'' = Inr raw"
    and "length raw = 64" "p256 spki = Some True" "is_digest_at vector ''key_id'' spki = Inr True"
    and "member_of vector ''valid'' = Inr (JBool (signed_by ecdsa spki raw message))"
  using assms unfolding check_es256_vector_def and_then_eq_Inr
  by (elim exE conjE) (rule that; simp add: guard_simps)

subsection \<open>The local erase\<close>

definition check_erase_document ::
  "(json \<Rightarrow> byte list option) \<Rightarrow> ecdsa \<Rightarrow> byte list \<Rightarrow> json \<Rightarrow> string \<times> string option \<times> string \<Rightarrow> conformance_error + unit" where
  "check_erase_document canon ecdsa key vector names =
     (case names of (document_name, canonical_name, signature_name) \<Rightarrow>
       and_then (canonical_at canon vector document_name) (\<lambda>message.
       and_then (case canonical_name of None \<Rightarrow> Inr ()
         | Some name \<Rightarrow> refuse_unless (is_encoding_at vector name message) (document_name @ '' canonical bytes drifted'')) (\<lambda>_.
       and_then (decoded_at vector signature_name) (\<lambda>raw.
       and_then (refuse_if (length raw \<noteq> 64) (signature_name @ '' is not 64-byte R||S'')) (\<lambda>_.
       refuse_if (\<not> signed_by ecdsa key raw message) (signature_name @ '' is invalid''))))))"

definition check_device_local_erase_vector ::
  "(json \<Rightarrow> byte list option) \<Rightarrow> ecdsa \<Rightarrow> (byte list \<Rightarrow> bool option) \<Rightarrow> json \<Rightarrow> conformance_error + nat" where
  "check_device_local_erase_vector canon ecdsa p256 vector =
     and_then (canonical_at canon vector ''operation'') (\<lambda>operation.
     and_then (refuse_unless (is_encoding_at vector ''operation_canonical_utf8'' operation)
       ''device-local.erase canonical operation bytes drifted'') (\<lambda>_.
     and_then (refuse_unless (is_digest_at vector ''operation_fingerprint'' operation)
       ''device-local.erase request fingerprint drifted'') (\<lambda>_.
     and_then (decoded_at vector ''public_key_spki'') (\<lambda>spki.
     and_then (refuse_unless (is_digest_at vector ''key_id'' spki) ''device-local.erase ACK key id drifted'') (\<lambda>_.
     and_then (load_p256 p256 spki ''device-local.erase ACK key is not P-256'') (\<lambda>_.
     and_then (each (check_erase_document canon ecdsa spki vector)
       [(''ack_signing_document'', Some ''ack_canonical_utf8'', ''ack_signature''),
        (''key_proof_signing_document'', None, ''key_proof_signature'')]) (\<lambda>_.
     Inr 1)))))))"

subsection \<open>Manifests\<close>

text \<open>\<open>loads\<close> is \<open>json.loads\<close>; a build profile is seen once.\<close>

fun each_seen :: "('s \<Rightarrow> 'a \<Rightarrow> conformance_error + 's) \<Rightarrow> 's \<Rightarrow> 'a list \<Rightarrow> conformance_error + 's" where
  "each_seen f seen [] = Inr seen"
| "each_seen f seen (x # xs) = and_then (f seen x) (\<lambda>s. each_seen f s xs)"

text \<open>The constants of the schemas of the properties with that name.\<close>

fun declared_modes :: "json list \<Rightarrow> conformance_error + json list" where
  "declared_modes [] = Inr []"
| "declared_modes (item # items) =
     and_then (is_text_at item ''name'' ''interaction_mode'') (\<lambda>here.
     if here then
       and_then (and_then (member_of item ''schema'') (\<lambda>s. member_of s ''const'')) (\<lambda>c.
       if is_container c then Inl Wrong_Value_Type
       else and_then (declared_modes items) (\<lambda>cs. Inr (c # cs)))
     else declared_modes items)"

definition check_manifest_case ::
  "(json \<Rightarrow> byte list option) \<Rightarrow> (string \<Rightarrow> json option) \<Rightarrow> (json \<times> bool) list \<Rightarrow> json
     \<Rightarrow> conformance_error + (json \<times> bool) list" where
  "check_manifest_case canon loads seen c =
     and_then (member_of c ''board_name'') (\<lambda>board.
     and_then (flag_at c ''has_camera'') (\<lambda>camera.
     and_then (text_at c ''canonical_utf8'') (\<lambda>published.
     and_then (or_raise Wrong_Value_Type (loads published)) (\<lambda>parsed.
     and_then (vector_canonical_bytes canon parsed) (\<lambda>bytes.
     and_then (refuse_if (utf8_decode bytes \<noteq> Some published) ''canonical_utf8 is not RFC 8785 of its document'') (\<lambda>_.
     and_then (case parsed of JObj kvs \<Rightarrow> Inr kvs | _ \<Rightarrow> Inl Wrong_Value_Type) (\<lambda>kvs.
     and_then (or_raise Not_Canonical (manifest_digest canon kvs)) (\<lambda>digest.
     and_then (refuse_unless (is_text_at c ''digest'' digest) ''digest does not describe the document'') (\<lambda>_.
     and_then (if capability_manifest_ok kvs then Inr () else Inl Wrong_Value_Type) (\<lambda>_.
     and_then (member_of parsed ''title'') (\<lambda>title.
     and_then (refuse_if (\<not> py_eq title board) ''title is not the board name it was built from'') (\<lambda>_.
     and_then (and_then (array_at parsed ''media'') (map_each (\<lambda>item. member_of item ''kind''))) (\<lambda>kinds.
     and_then (refuse_if ((JStr ''video'' \<in> set kinds) \<noteq> camera) ''declared video does not match the build'') (\<lambda>_.
     and_then (and_then (array_at parsed ''properties'') declared_modes) (\<lambda>modes.
     and_then (and_then (member_of c ''interaction_mode'') (\<lambda>m. if is_container m then Inl Wrong_Value_Type else Inr m)) (\<lambda>mode.
     and_then (refuse_if (modes = [] \<or> list_ex (\<lambda>m. \<not> py_eq m mode) modes)
       ''declared interaction_mode does not match the build'') (\<lambda>_.
     and_then (refuse_if (list_ex (\<lambda>k. py_eq (fst k) mode \<and> snd k = camera) seen) ''two vectors for one build profile'') (\<lambda>_.
     Inr ((mode, camera) # seen)))))))))))))))))))"

definition check_device_manifest_vector ::
  "(json \<Rightarrow> byte list option) \<Rightarrow> (string \<Rightarrow> json option) \<Rightarrow> json \<Rightarrow> conformance_error + nat" where
  "check_device_manifest_vector canon loads document =
     and_then (array_at document ''cases'') (\<lambda>cases.
     and_then (refuse_if (cases = []) ''device manifest vector carries no case'') (\<lambda>_.
     and_then (each_seen (check_manifest_case canon loads) [] cases) (\<lambda>_.
     Inr (length cases))))"

subsection \<open>The delivery\<close>

definition check_delivery_part :: "(json \<Rightarrow> byte list option) \<Rightarrow> json \<Rightarrow> string \<Rightarrow> conformance_error + unit" where
  "check_delivery_part canon vector name =
     and_then (canonical_at canon vector name) (\<lambda>canonical.
     and_then (refuse_unless (is_encoding_at vector (name @ ''_canonical_utf8'') canonical)
       (''device delivery '' @ name @ '' canonical bytes drifted'')) (\<lambda>_.
     refuse_unless (is_digest_at vector (name @ ''_sha256'') canonical) (''device delivery '' @ name @ '' digest drifted'')))"

definition object_of :: "json \<Rightarrow> conformance_error + json_object" where
  "object_of v = (case v of JObj kvs \<Rightarrow> Inr kvs | _ \<Rightarrow> Inl Wrong_Value_Type)"

text \<open>\<open>erase\<close> is the vector of the local erase, whose document the delivered evidence acknowledges.\<close>

definition check_device_delivery_vector ::
  "(json \<Rightarrow> byte list option) \<Rightarrow> ecdsa \<Rightarrow> (byte list \<Rightarrow> bool option) \<Rightarrow> json \<Rightarrow> json \<Rightarrow> conformance_error + nat" where
  "check_device_delivery_vector canon ecdsa p256 erase vector =
     and_then (each (check_delivery_part canon vector) [''deliver'', ''acceptance'', ''evidence'']) (\<lambda>_.
     and_then (and_then (and_then (member_of vector ''evidence'') (\<lambda>e. member_of e ''payload'')) object_of) (\<lambda>payload.
     let acknowledged = JObj (filter (\<lambda>kv. fst kv \<noteq> ''device_signature'') payload) in
     and_then (case map_of payload ''device_signature'' of
         Some s \<Rightarrow> if s = JNull then Inl (Vector_Refused ''device delivery evidence dropped the device signature'') else Inr s
       | None \<Rightarrow> Inl (Vector_Refused ''device delivery evidence dropped the device signature'')) (\<lambda>signature.
     and_then (member_of erase ''ack_signing_document'') (\<lambda>signed_document.
     and_then (refuse_if (\<not> py_eq acknowledged signed_document)
       ''device delivery evidence acknowledges a different document than the erase vector signs'') (\<lambda>_.
     and_then (and_then (or_raise Wrong_Value_Type (text_value signature)) (\<lambda>s. or_raise Bad_Base64 (b64url_decode s))) (\<lambda>raw.
     and_then (refuse_if (length raw \<noteq> 64) ''device delivery evidence signature is not 64-byte R||S'') (\<lambda>_.
     and_then (decoded_at erase ''public_key_spki'') (\<lambda>key.
     and_then (or_raise Unloadable_Key (p256 key)) (\<lambda>_.
     and_then (vector_canonical_bytes canon acknowledged) (\<lambda>message.
     and_then (refuse_if (\<not> signed_by ecdsa key raw message) ''device delivery evidence signature is invalid'') (\<lambda>_.
     and_then (member_of vector ''acceptance'') (\<lambda>acceptance.
     and_then (refuse_if (has_key acceptance ''terminal_result'')
       ''delivery acceptance claims an operation terminal result'') (\<lambda>_.
     Inr 1)))))))))))))"

subsection \<open>The revocation\<close>

definition revoke_inventory :: "string set" where
  "revoke_inventory =
     {''command'', ''command.command_id'', ''command.correlation_id'', ''command.operation'', ''command.reason'',
      ''command.device_ref'', ''fingerprint_document'', ''fingerprint_document.command_type'',
      ''fingerprint_document.owner_domain_id'', ''fingerprint_document.payload'',
      ''fingerprint_document.payload.device_ref'', ''fingerprint_document.payload.reason'',
      ''canonical_fingerprint_utf8'', ''fingerprint'', ''excluded_from_fingerprint''}
     \<union> set (map (dotted ''command.device_ref'')
         [''device_instance_id'', ''owner_domain_id'', ''owner_domain_generation'', ''claim_generation'', ''trust_epoch''])
     \<union> set (map (dotted ''fingerprint_document.payload.device_ref'')
         [''device_instance_id'', ''owner_domain_id'', ''owner_domain_generation'', ''claim_generation'', ''trust_epoch''])"

definition check_claim_revoke_vector :: "(json \<Rightarrow> byte list option) \<Rightarrow> json \<Rightarrow> conformance_error + nat" where
  "check_claim_revoke_vector canon vector =
     and_then (canonical_at canon vector ''fingerprint_document'') (\<lambda>canonical.
     and_then (refuse_unless (is_encoding_at vector ''canonical_fingerprint_utf8'' canonical)
       ''Claim revoke canonical fingerprint bytes drifted'') (\<lambda>_.
     and_then (refuse_unless (is_digest_at vector ''fingerprint'' canonical) ''Claim revoke fingerprint drifted'') (\<lambda>_.
     and_then (member_of vector ''excluded_from_fingerprint'') (\<lambda>excluded.
     and_then (refuse_unless (same_texts excluded [''command_id'', ''correlation_id''])
       ''Claim revoke retry/audit metadata entered semantic equality'') (\<lambda>_.
     and_then (and_then (elements_of excluded) texts_of) (\<lambda>excluded.
     and_then (member_of vector ''command'') (\<lambda>command.
     and_then (refuse_if (list_ex (\<lambda>field. \<not> has_key command field) excluded)
       ''Claim revoke golden command omits excluded retry/audit fields'') (\<lambda>_.
     and_then (member_of vector ''fingerprint_document'') (\<lambda>document.
     and_then (refuse_if (list_ex (has_key document) excluded)
       ''Claim revoke fingerprint document contains excluded fields'') (\<lambda>_.
     and_then (object_of command) (\<lambda>members.
     let expected = filter (\<lambda>kv. fst kv \<notin> set excluded \<and> fst kv \<noteq> ''operation'') members in
     and_then (member_of document ''payload'') (\<lambda>payload.
     and_then (refuse_if (\<not> py_eq payload (JObj expected))
       ''Claim revoke fingerprint payload is not the command minus its excluded fields'') (\<lambda>_.
     and_then (member_of document ''owner_domain_id'') (\<lambda>scope.
     and_then (and_then (member_of command ''device_ref'') (\<lambda>r. member_of r ''owner_domain_id'')) (\<lambda>owner.
     and_then (refuse_if (\<not> py_eq scope owner) ''Claim revoke fingerprint is scoped to another Owner Domain'') (\<lambda>_.
     and_then (member_of command ''operation'') (\<lambda>operation.
     and_then (member_of document ''command_type'') (\<lambda>command_type.
     and_then (refuse_if (operation \<noteq> JStr ''device.claim-revocation'' \<or> command_type \<noteq> JStr ''device.claim.revoke'')
       ''Claim revoke operation naming drifted'') (\<lambda>_.
     and_then (require_field_inventory vector revoke_inventory {} {}) (\<lambda>_.
     Inr 1))))))))))))))))))))"

subsection \<open>The Owner directory\<close>

text \<open>\<open>pem\<close> gives the key of a PEM text in its DER form.\<close>

definition check_owner_directory_vector ::
  "(json \<Rightarrow> byte list option) \<Rightarrow> ecdsa \<Rightarrow> (byte list \<Rightarrow> bool option) \<Rightarrow> (string \<Rightarrow> byte list option) \<Rightarrow> json
     \<Rightarrow> conformance_error + nat" where
  "check_owner_directory_vector canon ecdsa p256 pem vector =
     and_then (member_of vector ''descriptor'') (\<lambda>descriptor.
     and_then (object_of descriptor) (\<lambda>members.
     and_then (vector_canonical_bytes canon (JObj (filter (\<lambda>kv. fst kv \<noteq> ''signature'') members))) (\<lambda>message.
     and_then (refuse_unless (is_encoding_at vector ''canonical_signing_utf8'' message)
       ''Owner directory canonical signing bytes drifted'') (\<lambda>_.
     and_then (text_at vector ''authority_signing_spki_pem'') (\<lambda>text.
     and_then (or_raise Unloadable_Key (pem text)) (\<lambda>spki.
     and_then (load_p256 p256 spki ''Owner directory signer is not P-256'') (\<lambda>_.
     and_then (refuse_unless (is_digest_at descriptor ''signing_key_id'' spki) ''Owner directory signing key id drifted'') (\<lambda>_.
     and_then (decoded_at descriptor ''signature'') (\<lambda>raw.
     and_then (refuse_if (length raw \<noteq> 64) ''Owner directory signature is not 64-byte P1363'') (\<lambda>_.
     and_then (refuse_if (\<not> signed_by ecdsa spki raw message) ''Owner directory signature is invalid'') (\<lambda>_.
     and_then (refuse_unless (is_text_at vector ''profile_id'' ''eidolon-trust-p256-hpke-v1'')
       ''Owner directory vector declares another trust profile'') (\<lambda>_.
     and_then (require_field_inventory vector
       ({''profile_id'', ''authority_signing_spki_pem'', ''canonical_signing_utf8'', ''descriptor''}
        \<union> set (map (dotted ''descriptor'') [''descriptor_uri'', ''directory_revision'', ''endpoints'', ''expires_at'',
            ''issued_at'', ''owner_domain_generation'', ''owner_domain_id'', ''signature'', ''signing_key_id'',
            ''trust_root_refs'']))
       {''vector_id''} {''descriptor.endpoints''}) (\<lambda>_.
     Inr 1)))))))))))))"

subsection \<open>The setup descriptor\<close>

definition common_schema_id :: string where
  "common_schema_id = ''https://contracts.eidolon.live/device-foundation/v1/common/schemas.schema.json''"

definition setup_definition :: "(string \<times> json) list \<Rightarrow> conformance_error + json" where
  "setup_definition schemas =
     and_then (or_raise (Missing_Key common_schema_id) (map_of schemas common_schema_id)) (\<lambda>s.
     and_then (member_of s ''$defs'') (\<lambda>d. member_of d ''SetupDescriptor''))"

definition setup_descriptor_at :: "json \<Rightarrow> string \<Rightarrow> conformance_error + json" where
  "setup_descriptor_at vector shape = and_then (member_of vector shape) (\<lambda>s. member_of s ''descriptor'')"

definition check_setup_shape ::
  "(json \<Rightarrow> byte list option) \<Rightarrow> (json \<Rightarrow> string list) \<Rightarrow> json \<Rightarrow> string \<Rightarrow> conformance_error + unit" where
  "check_setup_shape canon errors vector shape =
     and_then (setup_descriptor_at vector shape) (\<lambda>descriptor.
     and_then (refuse_if (errors descriptor \<noteq> []) (''setup descriptor '' @ shape @ '' is invalid'')) (\<lambda>_.
     and_then (vector_canonical_bytes canon descriptor) (\<lambda>canonical.
     and_then (and_then (member_of vector shape) (\<lambda>s. member_of s ''canonical_utf8'')) (\<lambda>text.
     and_then (refuse_if (map_option JStr (utf8_decode canonical) \<noteq> Some text)
       (''setup descriptor '' @ shape @ '' canonical bytes mismatch'')) (\<lambda>_.
     and_then (and_then (member_of vector shape) (\<lambda>s. is_digest_at s ''canonical_sha256'' canonical)) (\<lambda>same.
     refuse_if (\<not> same) (''setup descriptor '' @ shape @ '' canonical digest mismatch'')))))))"

definition check_rejected_duration :: "(json \<Rightarrow> string list) \<Rightarrow> json \<Rightarrow> json \<Rightarrow> conformance_error + unit" where
  "check_rejected_duration errors vector encoded =
     and_then (and_then (setup_descriptor_at vector ''bounded_window'') object_of) (\<lambda>members.
     refuse_if (errors (JObj (AList.update ''expires_in_seconds'' encoded members)) = [])
       ''setup descriptor accepted a window duration it must not'')"

definition check_setup_trust :: "json \<Rightarrow> string \<Rightarrow> conformance_error + unit" where
  "check_setup_trust vector shape =
     and_then (setup_descriptor_at vector shape) (\<lambda>descriptor.
     and_then (member_of descriptor ''trust'') (\<lambda>trust.
     and_then (and_then (member_of vector ''trust_values'') elements_of) (\<lambda>values.
     and_then (refuse_if (\<not> list_ex (py_eq trust) values)
       (''setup descriptor '' @ shape @ '' carries an undeclared trust value'')) (\<lambda>_.
     refuse_unless (same_member descriptor vector ''contract_version'')
       (''setup descriptor '' @ shape @ '' is not the contract version this vector declares'')))))"

text \<open>\<open>errors schema value\<close> are the messages of the validator of a schema about a value.\<close>

definition check_setup_descriptor_vector ::
  "(json \<Rightarrow> byte list option) \<Rightarrow> (json \<Rightarrow> json \<Rightarrow> string list) \<Rightarrow> (string \<times> json) list \<Rightarrow> json \<Rightarrow> conformance_error + nat" where
  "check_setup_descriptor_vector canon errors schemas vector =
     and_then (setup_definition schemas) (\<lambda>declared.
     and_then (member_of vector ''required_fields'') (\<lambda>required_fields.
     and_then (member_of declared ''required'') (\<lambda>required_declared.
     and_then (refuse_if (\<not> py_eq required_fields required_declared)
       ''setup descriptor vector and schema disagree on required fields'') (\<lambda>_.
     and_then (and_then (array_of required_fields) texts_of) (\<lambda>names.
     and_then (and_then (array_at vector ''optional_fields'') texts_of) (\<lambda>optional.
     and_then (and_then (member_of declared ''properties'') object_of) (\<lambda>properties.
     and_then (refuse_if (sort (names @ optional) \<noteq> sort (map fst properties))
       ''setup descriptor vector does not cover every declared field'') (\<lambda>_.
     and_then (refuse_if (optional \<noteq> [''expires_in_seconds''])
       ''only the setup window duration may be absent from a descriptor'') (\<lambda>_.
     and_then (member_of vector ''schema'') (\<lambda>schema.
     and_then (each (check_setup_shape canon (errors schema) vector) [''bounded_window'', ''no_deadline'']) (\<lambda>_.
     and_then (setup_descriptor_at vector ''no_deadline'') (\<lambda>no_deadline.
     and_then (refuse_if (has_key no_deadline ''expires_in_seconds'')
       ''an offer with no deadline must name no duration at all'') (\<lambda>_.
     and_then (and_then (member_of vector ''rejected_expires_in_seconds'') elements_of) (\<lambda>rejected.
     and_then (each (check_rejected_duration (errors schema) vector) rejected) (\<lambda>_.
     and_then (member_of vector ''trust_values'') (\<lambda>trust_values.
     and_then (and_then (member_of (JObj properties) ''trust'') (\<lambda>t. member_of t ''enum'')) (\<lambda>trust_enum.
     and_then (refuse_if (\<not> py_eq trust_values trust_enum) ''setup descriptor trust values and schema disagree'') (\<lambda>_.
     and_then (each (check_setup_trust vector) [''bounded_window'', ''no_deadline'']) (\<lambda>_.
     and_then (require_field_inventory vector
       ({''contract_version'', ''schema'', ''required_fields'', ''optional_fields'', ''trust_values'',
         ''rejected_expires_in_seconds'', ''bounded_window'', ''no_deadline''}
        \<union> set (map (dotted ''bounded_window'') [''descriptor'', ''canonical_utf8'', ''canonical_sha256''])
        \<union> set (map (dotted ''no_deadline'') [''descriptor'', ''canonical_utf8'', ''canonical_sha256'']))
       {''vector_id''} {''bounded_window.descriptor'', ''no_deadline.descriptor''}) (\<lambda>_.
     Inr 1))))))))))))))))))))"

end
