(* ===== verification/Conformance_Sealing.thy ===== *)
theory Conformance_Sealing
  imports Conformance_Signatures Admission_Proofs
begin

unbundle bit_operations_syntax

text \<open>
  The checks of \<open>contracts/device_foundation/v1/conformance/run.py\<close> about the sealing of a grant and the proofs a device
  signs: the RFC 9180 vector, the additional data of a grant with its negative matrix, the wire envelope, and the signed
  documents of the grant and of Device Control, rebuilt by the SDK. The elliptic curve (\<open>public\<close>, the encoded point of a
  private scalar, and \<open>dh\<close>) and AES-GCM (\<open>seal\<close>, \<open>opened\<close>) are parameters.
\<close>

subsection \<open>Hexadecimal members\<close>

text \<open>\<open>bytes.fromhex\<close>: either case, and blanks between two bytes.\<close>

definition hex_nibble :: "char \<Rightarrow> nat option" where
  "hex_nibble c =
     (let n = of_char c
      in if 48 \<le> n \<and> n \<le> 57 then Some (n - 48) else if 97 \<le> n \<and> n \<le> 102 then Some (n - 87)
         else if 65 \<le> n \<and> n \<le> 70 then Some (n - 55) else None)"

definition hex_blank :: "char \<Rightarrow> bool" where
  "hex_blank c \<longleftrightarrow> (let n = of_char c :: nat in n = 32 \<or> 9 \<le> n \<and> n \<le> 13)"

fun from_hex :: "string \<Rightarrow> byte list option" where
  "from_hex [] = Some []"
| "from_hex [c] = (if hex_blank c then Some [] else None)"
| "from_hex (c # d # cs) =
     (if hex_blank c then from_hex (d # cs)
      else case (hex_nibble c, hex_nibble d, from_hex cs) of
        (Some h, Some l, Some bs) \<Rightarrow> Some (word_of_nat (16 * h + l) # bs)
      | _ \<Rightarrow> None)"

definition hex_at :: "json \<Rightarrow> string \<Rightarrow> conformance_error + byte list" where
  "hex_at v k = and_then (text_at v k) (\<lambda>s. or_raise Bad_Hexadecimal (from_hex s))"

definition is_hex_at :: "json \<Rightarrow> string \<Rightarrow> byte list \<Rightarrow> conformance_error + bool" where
  "is_hex_at v k bs = is_text_at v k (hexdigest bs)"

text \<open>A number of Python's: a flag is one.\<close>

fun int_value :: "json \<Rightarrow> int option" where
  "int_value (JInt n) = Some n"
| "int_value (JBool b) = Some (of_bool b)"
| "int_value _ = None"

subsection \<open>The nonce of a message\<close>

text \<open>\<open>(int.from_bytes(nonce, "big") ^ n).to_bytes(len(nonce), "big")\<close>, which raises out of range.\<close>

definition message_nonce :: "byte list \<Rightarrow> int \<Rightarrow> byte list option" where
  "message_nonce nonce n =
     (let x = int (big_endian nonce) XOR n
      in if 0 \<le> x then to_bytes (length nonce) (nat x) else None)"

lemma big_endian_bound: "big_endian bs < 256 ^ length bs"
proof (induction bs rule: rev_induct)
  case (snoc b bs)
  define u where "u = unat b"
  have "u < 256" using unsigned_less [of b] by (simp add: u_def)
  moreover have "(big_endian bs + 1) * 256 \<le> 256 ^ length bs * 256"
    using snoc by (intro mult_right_mono) simp_all
  ultimately have "big_endian bs * 256 + u < 256 * 256 ^ length bs" by simp
  then show ?case by (simp add: u_def)
qed (simp add: big_endian_def)

lemma xor_range:
  fixes x n :: int
  assumes "0 \<le> x" "x < 2 ^ k"
  shows "(0 \<le> x XOR n \<and> x XOR n < 2 ^ k) \<longleftrightarrow> 0 \<le> n \<and> n < 2 ^ k"
proof -
  have x: "take_bit k x = x" using assms by (simp add: take_bit_int_eq_self_iff)
  have "take_bit k (x XOR n) = x XOR n \<longleftrightarrow> x XOR take_bit k n = x XOR n" by (simp add: x)
  also have "\<dots> \<longleftrightarrow> take_bit k n = n"
    by (metis bit.xor_left_self)
  finally show ?thesis by (simp only: take_bit_int_eq_self_iff)
qed

text \<open>
  C23. The nonces of a sealing stream are never reused: a sequence number has a nonce exactly when it fits the bytes of
  the base nonce, the nonce has their length, and of all numbers only that one has it.
\<close>

theorem message_nonces_distinct:
  "case message_nonce nonce n of
     None \<Rightarrow> \<not> (0 \<le> n \<and> n < 256 ^ length nonce)
   | Some bs \<Rightarrow> 0 \<le> n \<and> n < 256 ^ length nonce \<and> length bs = length nonce \<and> (message_nonce nonce m = Some bs \<longleftrightarrow> m = n)"
proof -
  define base where "base = int (big_endian nonce)"
  have base: "0 \<le> base" "base < 2 ^ (8 * length nonce)"
    using big_endian_bound [of nonce] unfolding base_def power_mult by (simp_all add: nat_less_numeral_power_cancel_iff)
  have bytes: "message_nonce nonce k = Some bs \<longleftrightarrow>
      (0 \<le> k \<and> k < 256 ^ length nonce) \<and> bs = be_bytes (length nonce) (nat (base XOR k))" for k bs
    using xor_range [OF base, of k]
    by (auto simp: message_nonce_def Let_def base_def [symmetric] to_bytes_def power_mult nat_less_iff)
  have only: "m = n" if "message_nonce nonce m = Some bs" "message_nonce nonce n = Some bs" for bs
  proof -
    have "nat (base XOR k) < 256 ^ length nonce" "0 \<le> base XOR k" if "message_nonce nonce k = Some bs" for k bs
      using that xor_range [OF base, of k] by (simp_all add: bytes power_mult nat_less_iff)
    with that have "base XOR m = base XOR n"
      by (metis bytes big_endian_be_bytes nat_eq_iff)
    then show ?thesis by (metis bit.xor_left_self)
  qed
  show ?thesis
  proof (cases "message_nonce nonce n")
    case None
    then show ?thesis using bytes [of n "be_bytes (length nonce) (nat (base XOR n))"] by simp
  next
    case (Some bs)
    then have "0 \<le> n" "n < 256 ^ length nonce" "length bs = length nonce" using bytes [of n bs] by simp_all
    moreover have "message_nonce nonce m = Some bs \<longleftrightarrow> m = n" using only Some by blast
    ultimately show ?thesis by (simp add: Some)
  qed
qed

subsection \<open>The RFC 9180 vector\<close>

definition is_int_at :: "json \<Rightarrow> string \<Rightarrow> int \<Rightarrow> conformance_error + bool" where
  "is_int_at v k n = and_then (member_of v k) (\<lambda>x. Inr (py_eq x (JInt n)))"

definition derived_scalar :: "byte list \<Rightarrow> conformance_error + nat" where
  "derived_scalar ikm = or_raise (Vector_Refused ''RFC 9180 P-256 DeriveKeyPair exhausted'') (derive_p256_scalar ikm)"

text \<open>The shared secret of the key encapsulation, and the schedule derived from it.\<close>

record hpke_schedule =
  hk_context :: "byte list"
  hk_secret :: "byte list"
  hk_key :: "byte list"
  hk_nonce :: "byte list"
  hk_exporter :: "byte list"

definition kem_suite :: "byte list" where
  "kem_suite = utf8 ''KEM'' @ be_bytes 2 16"

definition hpke_suite :: "byte list" where
  "hpke_suite = utf8 ''HPKE'' @ be_bytes 2 16 @ be_bytes 2 1 @ be_bytes 2 1"

definition kem_shared_secret :: "byte list \<Rightarrow> byte list \<Rightarrow> byte list \<Rightarrow> byte list option" where
  "kem_shared_secret dh pk_e pk_r =
     labeled_expand kem_suite (labeled_extract kem_suite [] (utf8 ''eae_prk'') dh) (utf8 ''shared_secret'') (pk_e @ pk_r) 32"

definition hpke_key_schedule :: "byte list \<Rightarrow> byte list \<Rightarrow> hpke_schedule option" where
  "hpke_key_schedule shared_secret info =
     (let psk_id_hash = labeled_extract hpke_suite [] (utf8 ''psk_id_hash'') [];
          info_hash = labeled_extract hpke_suite [] (utf8 ''info_hash'') info;
          context = 0 # psk_id_hash @ info_hash;
          secret = labeled_extract hpke_suite shared_secret (utf8 ''secret'') []
      in Option.bind (labeled_expand hpke_suite secret (utf8 ''key'') context 16) (\<lambda>key.
         Option.bind (labeled_expand hpke_suite secret (utf8 ''base_nonce'') context 12) (\<lambda>nonce.
         Option.bind (labeled_expand hpke_suite secret (utf8 ''exp'') context 32) (\<lambda>exporter.
         Some \<lparr>hk_context = context, hk_secret = secret, hk_key = key, hk_nonce = nonce, hk_exporter = exporter\<rparr>))))"

type_synonym aead = "byte list \<Rightarrow> byte list \<Rightarrow> byte list \<Rightarrow> byte list \<Rightarrow> byte list option"

text \<open>Key pairs and encapsulation; then the schedule; then the one message, whose nonce is derived.\<close>

definition check_key_pairs ::
  "(nat \<Rightarrow> byte list) \<Rightarrow> (nat \<Rightarrow> nat \<Rightarrow> byte list) \<Rightarrow> json \<Rightarrow> conformance_error + byte list" where
  "check_key_pairs public dh vector =
     and_then (and_then (hex_at vector ''ikmE'') derived_scalar) (\<lambda>sk_e.
     and_then (and_then (hex_at vector ''ikmR'') derived_scalar) (\<lambda>sk_r.
     and_then (refuse_unless (is_hex_at vector ''pkEm'' (public sk_e)) ''RFC 9180 DeriveKeyPair mismatch'') (\<lambda>_.
     and_then (refuse_unless (is_hex_at vector ''pkRm'' (public sk_r)) ''RFC 9180 DeriveKeyPair mismatch'') (\<lambda>_.
     and_then (refuse_unless (is_hex_at vector ''skEm'' (be_bytes 32 sk_e)) ''RFC 9180 sender private key mismatch'') (\<lambda>_.
     and_then (refuse_unless (is_hex_at vector ''skRm'' (be_bytes 32 sk_r)) ''RFC 9180 recipient private key mismatch'') (\<lambda>_.
     and_then (or_raise Out_Of_Range (kem_shared_secret (dh sk_e sk_r) (public sk_e) (public sk_r))) (\<lambda>shared.
     and_then (refuse_unless (is_hex_at vector ''shared_secret'' shared) ''RFC 9180 DHKEM mismatch'') (\<lambda>_.
     and_then (refuse_unless (is_hex_at vector ''enc'' (public sk_e)) ''RFC 9180 DHKEM mismatch'') (\<lambda>_.
     Inr shared)))))))))"

definition check_hpke_message :: "aead \<Rightarrow> hpke_schedule \<Rightarrow> json \<Rightarrow> conformance_error + unit" where
  "check_hpke_message seal ks encryption =
     and_then (member_of encryption ''sequence_number'') (\<lambda>n.
     and_then (or_raise Wrong_Value_Type (int_value n)) (\<lambda>n.
     and_then (or_raise Out_Of_Range (message_nonce (hk_nonce ks) n)) (\<lambda>nonce.
     and_then (refuse_unless (is_hex_at encryption ''nonce'' nonce)
       ''RFC 9180 message nonce is not base_nonce XOR the sequence number'') (\<lambda>_.
     and_then (hex_at encryption ''plaintext'') (\<lambda>plaintext.
     and_then (hex_at encryption ''aad'') (\<lambda>aad.
     and_then (or_raise Bad_Sealing (seal (hk_key ks) nonce plaintext aad)) (\<lambda>ciphertext.
     refuse_unless (is_hex_at encryption ''ciphertext'' ciphertext) ''RFC 9180 AES-128-GCM ciphertext mismatch'')))))))"

definition hpke_inventory :: "string set" where
  "hpke_inventory =
     {''mode'', ''kem_id'', ''kdf_id'', ''aead_id'', ''ikmE'', ''ikmR'', ''skEm'', ''skRm'', ''pkEm'', ''pkRm'', ''enc'',
      ''shared_secret'', ''info'', ''key_schedule_context'', ''secret'', ''key'', ''base_nonce'', ''exporter_secret'',
      ''encryption''}
     \<union> set (map (dotted ''encryption'') [''sequence_number'', ''nonce'', ''plaintext'', ''aad'', ''ciphertext''])"

definition check_suite :: "json \<Rightarrow> conformance_error + unit" where
  "check_suite vector =
     and_then (is_int_at vector ''mode'' 0) (\<lambda>mode.
     and_then (is_int_at vector ''kem_id'' 16) (\<lambda>kem.
     and_then (is_int_at vector ''kdf_id'' 1) (\<lambda>kdf.
     and_then (is_int_at vector ''aead_id'' 1) (\<lambda>aead.
     refuse_if (\<not> (mode \<and> kem \<and> kdf \<and> aead)) ''RFC 9180 vector does not use the frozen ciphersuite''))))"

definition check_hpke_vector ::
  "(nat \<Rightarrow> byte list) \<Rightarrow> (nat \<Rightarrow> nat \<Rightarrow> byte list) \<Rightarrow> aead \<Rightarrow> json \<Rightarrow> conformance_error + nat" where
  "check_hpke_vector public dh seal vector =
     and_then (check_suite vector) (\<lambda>_.
     and_then (check_key_pairs public dh vector) (\<lambda>shared.
     and_then (hex_at vector ''info'') (\<lambda>info.
     and_then (or_raise Out_Of_Range (hpke_key_schedule shared info)) (\<lambda>ks.
     and_then (each (\<lambda>(name, actual). refuse_unless (is_hex_at vector name actual) (''RFC 9180 '' @ name @ '' mismatch''))
       [(''key_schedule_context'', hk_context ks), (''secret'', hk_secret ks), (''key'', hk_key ks),
        (''base_nonce'', hk_nonce ks), (''exporter_secret'', hk_exporter ks)]) (\<lambda>_.
     and_then (and_then (member_of vector ''encryption'') (check_hpke_message seal ks)) (\<lambda>_.
     and_then (require_field_inventory vector hpke_inventory {''vector_id'', ''source''} {}) (\<lambda>_.
     Inr 1)))))))"

subsection \<open>The additional data of a grant\<close>

text \<open>\<open>opened\<close>: nothing when AES-GCM raises, nothing inside when the tag is invalid.\<close>

type_synonym aead_open = "byte list \<Rightarrow> byte list \<Rightarrow> byte list \<Rightarrow> byte list \<Rightarrow> byte list option option"

text \<open>A mutation of one member: a text is extended, a number is incremented, an object gets the next revision.\<close>

fun incremented :: "json \<Rightarrow> conformance_error + json" where
  "incremented (JInt n) = Inr (JInt (n + 1))"
| "incremented (JBool b) = Inr (JInt (of_bool b + 1))"
| "incremented (JFloat (Fin x)) = Inr (JFloat (Fin (to_double (x + 1))))"
| "incremented (JFloat x) = Inr (JFloat x)"
| "incremented _ = Inl Wrong_Value_Type"

fun mutated_member :: "json \<Rightarrow> conformance_error + json" where
  "mutated_member (JStr s) = Inr (JStr (s @ ''-mutated''))"
| "mutated_member (JObj kvs) =
     and_then (or_raise (Missing_Key ''revision'') (map_of kvs ''revision'')) (\<lambda>r.
     and_then (incremented r) (\<lambda>n. Inr (JObj (AList.update ''revision'' n kvs))))"
| "mutated_member (JInt n) = Inr (JInt (n + 1))"
| "mutated_member (JBool b) = Inr (JInt (of_bool b + 1))"
| "mutated_member _ = Inl Wrong_Value_Type"

definition check_aad_mutation ::
  "(json \<Rightarrow> byte list option) \<Rightarrow> aead_open \<Rightarrow> byte list \<Rightarrow> byte list \<Rightarrow> byte list \<Rightarrow> json_object \<Rightarrow> string
     \<Rightarrow> conformance_error + unit" where
  "check_aad_mutation canon opened key nonce ciphertext aad field =
     and_then (or_raise (Missing_Key field) (map_of aad field)) (\<lambda>v.
     and_then (mutated_member v) (\<lambda>w.
     and_then (vector_canonical_bytes canon (JObj (AList.update field w aad))) (\<lambda>mutated.
     and_then (or_raise Bad_Sealing (opened key nonce ciphertext mutated)) (\<lambda>plaintext.
     refuse_if (plaintext \<noteq> None) (''ClaimGrant AAD mutation did not fail: '' @ field)))))"

definition aad_members :: "string list" where
  "aad_members =
     [''contract'', ''profile_id'', ''enrollment_id'', ''proposal_revision'', ''device_instance_id'',
      ''hardware_evidence_digest'', ''manifest_ref'', ''manifest_ref.manifest_id'', ''manifest_ref.revision'',
      ''manifest_ref.digest'', ''owner_domain_id'', ''owner_domain_generation'', ''claim_generation'', ''trust_epoch'',
      ''grant_id'']"

definition aad_inventory :: "string set" where
  "aad_inventory =
     {''aad'', ''canonical_aad_utf8'', ''canonical_aad_sha256'', ''test_aead'', ''test_key'', ''test_nonce'', ''plaintext'',
      ''ciphertext'', ''mutate_each_field_must_fail''} \<union> set (map (dotted ''aad'') aad_members)"

definition check_claim_grant_aad :: "(json \<Rightarrow> byte list option) \<Rightarrow> aead_open \<Rightarrow> json \<Rightarrow> conformance_error + nat" where
  "check_claim_grant_aad canon opened vector =
     and_then (canonical_at canon vector ''aad'') (\<lambda>aad.
     and_then (member_of vector ''canonical_aad_utf8'') (\<lambda>text.
     and_then (refuse_if (map_option JStr (utf8_decode aad) \<noteq> Some text) ''ClaimGrant AAD canonical bytes drifted'') (\<lambda>_.
     and_then (refuse_unless (is_text_at vector ''canonical_aad_sha256'' (sha256_hex aad))
       ''ClaimGrant AAD canonical digest mismatch'') (\<lambda>_.
     and_then (refuse_unless (is_text_at vector ''test_aead'' ''AES-128-GCM'')
       ''ClaimGrant AAD vector names an AEAD this check does not use'') (\<lambda>_.
     and_then (and_then (member_of vector ''aad'') object_of) (\<lambda>members.
     and_then (member_of vector ''mutate_each_field_must_fail'') (\<lambda>matrix.
     and_then (refuse_unless (same_texts matrix (map fst members))
       ''ClaimGrant AAD negative matrix does not cover exactly the AAD's own fields'') (\<lambda>_.
     and_then (hex_at vector ''test_key'') (\<lambda>key.
     and_then (hex_at vector ''test_nonce'') (\<lambda>nonce.
     and_then (hex_at vector ''plaintext'') (\<lambda>plaintext.
     and_then (hex_at vector ''ciphertext'') (\<lambda>ciphertext.
     and_then (or_raise Bad_Sealing (Option.bind (opened key nonce ciphertext aad) id)) (\<lambda>found.
     and_then (refuse_if (found \<noteq> plaintext) ''ClaimGrant AAD positive decrypt mismatch'') (\<lambda>_.
     and_then (and_then (elements_of matrix) texts_of) (\<lambda>fields.
     and_then (each (check_aad_mutation canon opened key nonce ciphertext members) fields) (\<lambda>_.
     and_then (require_field_inventory vector aad_inventory {''vector_id''} {}) (\<lambda>_.
     Inr (1 + length fields))))))))))))))))))"

lemma object_of_Inr: "object_of v = Inr kvs \<longleftrightarrow> v = JObj kvs"
  by (cases v) (auto simp: object_of_def)

lemma canonical_at_Inr: "canonical_at canon v k = Inr bs \<longleftrightarrow> (\<exists>x. member_of v k = Inr x \<and> canon x = Some bs)"
  by (auto simp: canonical_at_def vector_canonical_bytes_def and_then_eq_Inr or_raise_Inr)

lemma aad_steps:
  assumes "check_claim_grant_aad canon opened vector = Inr n"
  obtains bytes told drift u' u'' digest found aad matrix u message key nonce ciphertext expected plaintext apart u3 entries listed finished where
    "canonical_at canon vector ''aad'' = Inr bytes"
    "member_of vector ''canonical_aad_utf8'' = Inr told"
    "refuse_if (map_option JStr (utf8_decode bytes) \<noteq> Some told) drift = Inr u'"
    "refuse_unless (is_text_at vector ''canonical_aad_sha256'' (sha256_hex bytes)) digest = Inr u''"
    "member_of vector ''aad'' = Inr found" "object_of found = Inr aad"
    "refuse_unless (same_texts matrix (map fst aad)) message = Inr u"
    "hex_at vector ''test_key'' = Inr key" "hex_at vector ''test_nonce'' = Inr nonce"
    "hex_at vector ''plaintext'' = Inr expected" "hex_at vector ''ciphertext'' = Inr ciphertext"
    "or_raise Bad_Sealing (Option.bind (opened key nonce ciphertext bytes) id) = Inr plaintext"
    "refuse_if (plaintext \<noteq> expected) apart = Inr u3"
    "elements_of matrix = Inr entries" "texts_of entries = Inr listed"
    "each (check_aad_mutation canon opened key nonce ciphertext aad) listed = Inr finished"
  using assms unfolding check_claim_grant_aad_def and_then_eq_Inr
  by (elim exE conjE) (rule that; assumption)

lemma accepted_aad:
  assumes "check_claim_grant_aad canon opened vector = Inr n"
  obtains bytes told aad matrix key nonce ciphertext plaintext listed where
    "member_of vector ''aad'' = Inr (JObj aad)" "canon (JObj aad) = Some bytes"
    "member_of vector ''canonical_aad_utf8'' = Inr (JStr told)" "utf8_decode bytes = Some told"
    "is_text_at vector ''canonical_aad_sha256'' (sha256_hex bytes) = Inr True"
    "hex_at vector ''test_key'' = Inr key" "hex_at vector ''test_nonce'' = Inr nonce"
    "hex_at vector ''ciphertext'' = Inr ciphertext" "hex_at vector ''plaintext'' = Inr plaintext"
    "same_texts matrix (map fst aad) = Inr True" "and_then (elements_of matrix) texts_of = Inr listed"
    "opened key nonce ciphertext bytes = Some (Some plaintext)"
    "each (check_aad_mutation canon opened key nonce ciphertext aad) listed = Inr ()"
  using assms
proof (rule aad_steps)
  fix bytes told drift u' u'' digest found aad matrix u message key nonce ciphertext expected plaintext apart u3 entries listed finished
  assume steps: "canonical_at canon vector ''aad'' = Inr bytes"
    "member_of vector ''canonical_aad_utf8'' = Inr told"
    "refuse_if (map_option JStr (utf8_decode bytes) \<noteq> Some told) drift = Inr u'"
    "refuse_unless (is_text_at vector ''canonical_aad_sha256'' (sha256_hex bytes)) digest = Inr u''"
    "member_of vector ''aad'' = Inr found" "object_of found = Inr aad"
    "refuse_unless (same_texts matrix (map fst aad)) message = Inr u"
    and held: "hex_at vector ''test_key'' = Inr key" "hex_at vector ''test_nonce'' = Inr nonce"
    "hex_at vector ''plaintext'' = Inr expected" "hex_at vector ''ciphertext'' = Inr ciphertext"
    and opens: "or_raise Bad_Sealing (Option.bind (opened key nonce ciphertext bytes) id) = Inr plaintext"
    "refuse_if (plaintext \<noteq> expected) apart = Inr u3"
    and rest: "elements_of matrix = Inr entries" "texts_of entries = Inr listed"
    "each (check_aad_mutation canon opened key nonce ciphertext aad) listed = Inr finished"
  have aad: "member_of vector ''aad'' = Inr (JObj aad)" using steps(5,6) by (simp add: object_of_Inr)
  obtain t where t: "utf8_decode bytes = Some t" "told = JStr t" using steps(3) by (auto simp: guard_simps)
  show thesis
  proof (rule that)
    show "member_of vector ''aad'' = Inr (JObj aad)" by (rule aad)
    show "canon (JObj aad) = Some bytes" using steps(1) aad by (simp add: canonical_at_Inr)
    show "member_of vector ''canonical_aad_utf8'' = Inr (JStr t)" using steps(2) t(2) by simp
    show "utf8_decode bytes = Some t" by (rule t(1))
    show "is_text_at vector ''canonical_aad_sha256'' (sha256_hex bytes) = Inr True"
      using steps(4) by (simp add: and_then_refuse_unless)
    show "same_texts matrix (map fst aad) = Inr True" using steps(7) by (simp add: and_then_refuse_unless)
    show "and_then (elements_of matrix) texts_of = Inr listed" using rest(1,2) by simp
    show "hex_at vector ''plaintext'' = Inr plaintext" using held(3) opens(2) by (simp add: guard_simps)
    show "opened key nonce ciphertext bytes = Some (Some plaintext)"
      using opens(1) by (auto simp: or_raise_Inr bind_eq_Some_conv)
    show "each (check_aad_mutation canon opened key nonce ciphertext aad) listed = Inr ()" using rest(3) by simp
  qed (rule held)+
qed

lemma texts_of_JStrs: "texts_of vs = Inr ss \<longleftrightarrow> vs = map JStr ss"
proof (induction vs arbitrary: ss)
  case (Cons v vs)
  then show ?case by (cases v; cases ss) (auto simp: guard_simps and_then_eq_Inr)
qed auto

lemma matrix_fields:
  assumes "same_texts matrix members = Inr True" "and_then (elements_of matrix) texts_of = Inr listed"
  shows "set listed = set members"
proof -
  have "JStr ` set listed = JStr ` set members"
    using assms by (auto simp: same_texts_def and_then_eq_Inr texts_of_JStrs split: if_splits)
  then show ?thesis by (simp add: inj_image_eq_iff inj_def)
qed

text \<open>A mutation that found an invalid tag did change the member, for the additional data itself opens.\<close>

lemma update_same: "map_of kvs k = Some v \<Longrightarrow> AList.update k v kvs = kvs"
  by (induction kvs) (auto split: if_splits)

lemma aad_mutation_fails:
  assumes "check_aad_mutation canon opened key nonce ciphertext aad field = Inr ()"
    and "canon (JObj aad) = Some bytes" "opened key nonce ciphertext bytes = Some (Some plaintext)"
  shows "\<exists>w b. map_of aad field \<noteq> Some w \<and> canon (JObj (AList.update field w aad)) = Some b
    \<and> opened key nonce ciphertext b = Some None"
proof -
  from assms(1) obtain w b where wb: "canon (JObj (AList.update field w aad)) = Some b" "opened key nonce ciphertext b = Some None"
    unfolding check_aad_mutation_def and_then_eq_Inr by (auto simp: guard_simps vector_canonical_bytes_def)
  moreover have "map_of aad field \<noteq> Some w"
    using wb assms(2,3) by (auto simp: update_same)
  ultimately show ?thesis by blast
qed

text \<open>
  C6. The additional data of an accepted grant vector is bound as a whole: its canonical bytes are the published text and
  have the published digest; under the published key and nonce they open the published ciphertext to the published
  plaintext; and for every one of its members there is another value of that member alone under which the same key and
  nonce find an invalid tag.
\<close>

theorem grant_aad_fully_bound:
  "case check_claim_grant_aad canon opened vector of
     Inl _ \<Rightarrow> True
   | Inr n \<Rightarrow> (\<exists>aad bytes published key nonce ciphertext plaintext.
       member_of vector ''aad'' = Inr (JObj aad) \<and> canon (JObj aad) = Some bytes
       \<and> member_of vector ''canonical_aad_utf8'' = Inr (JStr published) \<and> utf8_decode bytes = Some published
       \<and> is_text_at vector ''canonical_aad_sha256'' (sha256_hex bytes) = Inr True
       \<and> hex_at vector ''test_key'' = Inr key \<and> hex_at vector ''test_nonce'' = Inr nonce
       \<and> hex_at vector ''ciphertext'' = Inr ciphertext \<and> hex_at vector ''plaintext'' = Inr plaintext
       \<and> opened key nonce ciphertext bytes = Some (Some plaintext)
       \<and> list_all (\<lambda>field. \<exists>w b. map_of aad field \<noteq> Some w \<and> canon (JObj (AList.update field w aad)) = Some b
           \<and> opened key nonce ciphertext b = Some None) (map fst aad))"
proof (cases "check_claim_grant_aad canon opened vector")
  case (Inr n)
  show ?thesis
  proof (rule accepted_aad [OF Inr])
    fix bytes told aad matrix key nonce ciphertext plaintext listed
    assume held: "member_of vector ''aad'' = Inr (JObj aad)" "canon (JObj aad) = Some bytes"
      "member_of vector ''canonical_aad_utf8'' = Inr (JStr told)" "utf8_decode bytes = Some told"
      "is_text_at vector ''canonical_aad_sha256'' (sha256_hex bytes) = Inr True"
      "hex_at vector ''test_key'' = Inr key" "hex_at vector ''test_nonce'' = Inr nonce"
      "hex_at vector ''ciphertext'' = Inr ciphertext" "hex_at vector ''plaintext'' = Inr plaintext"
      and matrix: "same_texts matrix (map fst aad) = Inr True" "and_then (elements_of matrix) texts_of = Inr listed"
      and opens: "opened key nonce ciphertext bytes = Some (Some plaintext)"
      and mutated: "each (check_aad_mutation canon opened key nonce ciphertext aad) listed = Inr ()"
    have "\<exists>w b. map_of aad field \<noteq> Some w \<and> canon (JObj (AList.update field w aad)) = Some b
        \<and> opened key nonce ciphertext b = Some None" if "field \<in> set (map fst aad)" for field
    proof -
      have "field \<in> set listed" using that matrix_fields [OF matrix] by simp
      then have "check_aad_mutation canon opened key nonce ciphertext aad field = Inr ()" using mutated by (simp add: each_ok)
      then show ?thesis using aad_mutation_fails held(2) opens by blast
    qed
    then have "list_all (\<lambda>field. \<exists>w b. map_of aad field \<noteq> Some w \<and> canon (JObj (AList.update field w aad)) = Some b
        \<and> opened key nonce ciphertext b = Some None) (map fst aad)"
      by (simp add: list_all_iff)
    with held opens Inr show ?thesis by (simp only: sum.case) (intro exI conjI; (rule refl | assumption))
  qed
qed simp

subsection \<open>The wire envelope of a grant\<close>

definition envelope_suite :: "(string \<times> string) list" where
  "envelope_suite =
     [(''contract'', ''eidolon.device-foundation.claim-grant-envelope''), (''profile_id'', ''eidolon-trust-p256-hpke-v1''),
      (''kem'', ''DHKEM-P256-HKDF-SHA256''), (''kdf'', ''HKDF-SHA256''), (''aead'', ''AES-128-GCM'')]"

text \<open>A tuple of members is built before it is compared.\<close>

definition suite_declared :: "json \<Rightarrow> conformance_error + bool" where
  "suite_declared envelope =
     and_then (map_each (\<lambda>kv. is_text_at envelope (fst kv) (snd kv)) envelope_suite) (\<lambda>bs. Inr (list_all id bs))"

definition check_claim_grant_wire_envelope :: "(json \<Rightarrow> byte list option) \<Rightarrow> json \<Rightarrow> conformance_error + nat" where
  "check_claim_grant_wire_envelope canon vector =
     and_then (member_of vector ''envelope'') (\<lambda>envelope.
     and_then (canonical_at canon envelope ''aad'') (\<lambda>encoded.
     and_then (member_of vector ''aad_canonical_utf8'') (\<lambda>text.
     and_then (refuse_if (map_option JStr (utf8_decode encoded) \<noteq> Some text)
       ''ClaimGrant wire-envelope AAD canonical bytes drifted'') (\<lambda>_.
     and_then (refuse_unless (is_digest_at vector ''aad_sha256'' encoded) ''ClaimGrant wire-envelope AAD digest drifted'') (\<lambda>_.
     and_then (refuse_unless (suite_declared envelope) ''ClaimGrant wire envelope does not declare the frozen suite'') (\<lambda>_.
     and_then (text_at envelope ''recipient_handoff_key_id'') (\<lambda>key_id.
     and_then (refuse_if (\<not> matches_sha256 key_id) ''ClaimGrant recipient handoff key id is not a sha256 digest'') (\<lambda>_.
     and_then (each (\<lambda>name. refuse_when (and_then (decoded_at envelope name) (\<lambda>bs. Inr (bs = [])))
         (''ClaimGrant wire envelope '' @ name @ '' is empty'')) [''encapsulated_key'', ''ciphertext'']) (\<lambda>_.
     let expected = filter (\<lambda>k. k \<noteq> ''contract'') (keys_of envelope) in
     and_then (refuse_unless (and_then (member_of vector ''pre_open_mutations_must_fail'') (\<lambda>m. same_texts m expected))
       ''ClaimGrant pre-open negative matrix is incomplete'') (\<lambda>_.
     and_then (require_field_inventory vector
       ({''envelope'', ''aad_canonical_utf8'', ''aad_sha256'', ''pre_open_mutations_must_fail''}
        \<union> set (map (dotted ''envelope'') [''contract'', ''profile_id'', ''kem'', ''kdf'', ''aead'',
            ''recipient_handoff_key_id'', ''encapsulated_key'', ''ciphertext'', ''aad''])
        \<union> set (map (dotted ''envelope.aad'') aad_members)) {''vector_id''} {}) (\<lambda>_.
     Inr (1 + card (set expected)))))))))))))"

subsection \<open>The documents a device signs\<close>

text \<open>The members of a signed vector.\<close>

definition signed_vector_of :: "json \<Rightarrow> conformance_error + signed_vector" where
  "signed_vector_of v =
     and_then (member_of v ''document'') (\<lambda>document.
     and_then (text_at v ''canonical_utf8'') (\<lambda>canonical.
     and_then (text_at v ''canonical_sha256'') (\<lambda>digest.
     and_then (text_at v ''signature_algorithm'') (\<lambda>algorithm.
     and_then (text_at v ''signature_encoding'') (\<lambda>encoding.
     and_then (text_at v ''public_key_spki'') (\<lambda>spki.
     and_then (text_at v ''key_id'') (\<lambda>key_id.
     and_then (text_at v ''signature'') (\<lambda>signature.
     and_then (and_then (member_of v ''mutate_each_field_must_fail'') (\<lambda>m. and_then (elements_of m) texts_of)) (\<lambda>matrix.
     Inr \<lparr>sv_document = document, sv_canonical_utf8 = canonical, sv_canonical_sha256 = digest, sv_public_key_spki = spki,
          sv_key_id = key_id, sv_signature = signature, sv_signature_algorithm = algorithm,
          sv_signature_encoding = encoding, sv_mutate = matrix\<rparr>)))))))))"

definition check_signed_vector ::
  "(json \<Rightarrow> byte list option) \<Rightarrow> ecdsa \<Rightarrow> json \<Rightarrow> json \<Rightarrow> conformance_error + nat" where
  "check_signed_vector canon ecdsa v rebuilt =
     and_then (signed_vector_of v) (check_signed_document_vector canon ecdsa rebuilt)"

text \<open>The key that signs is the device the document names.\<close>

definition check_own_key :: "json \<Rightarrow> conformance_error + unit" where
  "check_own_key v =
     and_then (and_then (member_of v ''document'') (\<lambda>d. and_then (member_of d ''device_ref'') (\<lambda>r. member_of r ''device_instance_id''))) (\<lambda>named.
     and_then (text_at v ''public_key_spki'') (\<lambda>key.
     and_then (reraise (\<lambda>_. Unloadable_Key) (derive_device_instance_id key)) (\<lambda>derived.
     refuse_if (named \<noteq> JStr derived) ''signed by a key that is not the device_ref it names'')))"

definition integer_at :: "json \<Rightarrow> string \<Rightarrow> conformance_error + int" where
  "integer_at v k = and_then (member_of v k) (\<lambda>x. or_raise Wrong_Value_Type (int_value x))"

definition rebuilt_collection :: "json \<Rightarrow> conformance_error + json" where
  "rebuilt_collection d =
     and_then (text_at d ''enrollment_id'') (\<lambda>enrollment.
     and_then (integer_at d ''proposal_revision'') (\<lambda>revision.
     and_then (text_at d ''collection_challenge'') (\<lambda>challenge.
     Inr (claim_grant_collection_proof_document enrollment revision challenge))))"

definition rebuilt_acknowledgement :: "json \<Rightarrow> conformance_error + json" where
  "rebuilt_acknowledgement d =
     and_then (text_at d ''enrollment_id'') (\<lambda>enrollment.
     and_then (text_at d ''grant_id'') (\<lambda>grant.
     and_then (answered_ref d) (\<lambda>r.
     Inr (claim_grant_ack_proof_document enrollment grant r))))"

definition device_ref_members :: "string list" where
  "device_ref_members =
     [''device_instance_id'', ''owner_domain_id'', ''owner_domain_generation'', ''claim_generation'', ''trust_epoch'']"

definition proof_inventory :: "string list \<Rightarrow> bool \<Rightarrow> string set" where
  "proof_inventory members with_ref =
     {''document'', ''canonical_utf8'', ''canonical_sha256'', ''public_key_spki'', ''key_id'', ''signature'',
      ''signature_algorithm'', ''signature_encoding'', ''mutate_each_field_must_fail''}
     \<union> set (map (dotted ''document'') members)
     \<union> (if with_ref then set (''document.device_ref'' # map (dotted ''document.device_ref'') device_ref_members) else {})"

definition proof_descriptions :: "string set" where
  "proof_descriptions = {''vector_id'', ''description'', ''signing_key''}"

definition check_claim_grant_proof_vectors ::
  "(json \<Rightarrow> byte list option) \<Rightarrow> ecdsa \<Rightarrow> json \<Rightarrow> json \<Rightarrow> conformance_error + nat" where
  "check_claim_grant_proof_vectors canon ecdsa collection acknowledgement =
     and_then (and_then (member_of collection ''document'') rebuilt_collection) (\<lambda>rebuilt.
     and_then (check_signed_vector canon ecdsa collection rebuilt) (\<lambda>first.
     and_then (and_then (member_of acknowledgement ''document'') rebuilt_acknowledgement) (\<lambda>rebuilt.
     and_then (check_signed_vector canon ecdsa acknowledgement rebuilt) (\<lambda>second.
     and_then (check_own_key acknowledgement) (\<lambda>_.
     and_then (require_field_inventory collection
       (proof_inventory [''contract'', ''enrollment_id'', ''proposal_revision'', ''collection_challenge''] False)
       proof_descriptions {}) (\<lambda>_.
     and_then (require_field_inventory acknowledgement
       (proof_inventory [''contract'', ''enrollment_id'', ''grant_id''] True) proof_descriptions {}) (\<lambda>_.
     Inr (first + second + 1))))))))"

subsection \<open>The documents of Device Control\<close>

definition rebuilt_configuration :: "json \<Rightarrow> conformance_error + json" where
  "rebuilt_configuration d =
     and_then (answered_ref d) (\<lambda>r.
     and_then (text_at d ''nonce'') (\<lambda>nonce. Inr (device_control_configuration_proof_document r nonce)))"

text \<open>The manifest vector that publishes the digest.\<close>

fun published_manifest :: "json \<Rightarrow> json list \<Rightarrow> conformance_error + json" where
  "published_manifest digest [] = Inl (Vector_Refused ''the manifest assertion signs a digest no Manifest vector publishes'')"
| "published_manifest digest (c # cs) =
     and_then (member_of c ''digest'') (\<lambda>d. if py_eq d digest then Inr c else published_manifest digest cs)"

definition rebuilt_assertion ::
  "(json \<Rightarrow> byte list option) \<Rightarrow> (string \<Rightarrow> json option) \<Rightarrow> json \<Rightarrow> json \<Rightarrow> conformance_error + json" where
  "rebuilt_assertion canon loads assertion published =
     and_then (member_of assertion ''document'') (\<lambda>asserted.
     and_then (answered_ref asserted) (\<lambda>r.
     and_then (text_at asserted ''manifest_digest'') (\<lambda>digest.
     and_then (text_at published ''canonical_utf8'') (\<lambda>text.
     and_then (and_then (or_raise Wrong_Value_Type (loads text)) object_of) (\<lambda>document.
     and_then (reraise (\<lambda>_. Wrong_Value_Type) (make_manifest_document canon
       \<lparr>md_manifest_id = ''manifest_01'', md_revision = 1, md_digest = digest, md_document = document\<rparr>)) (\<lambda>manifest.
     and_then (text_at asserted ''nonce'') (\<lambda>nonce.
     and_then (text_at assertion ''public_key_spki'') (\<lambda>key.
     and_then (text_at assertion ''signature'') (\<lambda>signature.
     and_then (reraise (\<lambda>_. Wrong_Value_Type) (make_assert_device_manifest canon
       \<lparr>adm_device_ref = r, adm_manifest = manifest, adm_nonce = nonce, adm_public_key_spki = key,
        adm_device_signature = signature\<rparr>)) (\<lambda>a.
     Inr (manifest_signing_document a)))))))))))"

definition check_own_proof :: "json \<Rightarrow> conformance_error + unit" where
  "check_own_proof v =
     and_then (check_own_key v) (\<lambda>_.
     and_then (member_of v ''document'') (\<lambda>document.
     require_field_inventory v
       (proof_inventory ([''nonce'', ''operation_type''] @ (if has_key document ''manifest_digest'' then [''manifest_digest''] else []))
         True) proof_descriptions {}))"

definition check_device_control_proof_vectors ::
  "(json \<Rightarrow> byte list option) \<Rightarrow> ecdsa \<Rightarrow> (string \<Rightarrow> json option) \<Rightarrow> json \<Rightarrow> json \<Rightarrow> json \<Rightarrow> conformance_error + nat" where
  "check_device_control_proof_vectors canon ecdsa loads manifests configuration assertion =
     and_then (member_of configuration ''document'') (\<lambda>configured.
     and_then (rebuilt_configuration configured) (\<lambda>rebuilt.
     and_then (check_signed_vector canon ecdsa configuration rebuilt) (\<lambda>first.
     and_then (refuse_unless (is_text_at configured ''operation_type'' device_control_configuration_operation)
       ''the configuration proof names an operation this contract does not'') (\<lambda>_.
     and_then (member_of assertion ''document'') (\<lambda>asserted.
     and_then (array_at manifests ''cases'') (\<lambda>cases.
     and_then (member_of asserted ''manifest_digest'') (\<lambda>digest.
     and_then (published_manifest digest cases) (\<lambda>published.
     and_then (rebuilt_assertion canon loads assertion published) (\<lambda>rebuilt.
     and_then (check_signed_vector canon ecdsa assertion rebuilt) (\<lambda>second.
     and_then (refuse_unless (is_text_at asserted ''operation_type'' manifest_assertion_operation)
       ''the manifest assertion names an operation this contract does not'') (\<lambda>_.
     and_then (each check_own_proof [configuration, assertion]) (\<lambda>_.
     Inr (first + second + 2)))))))))))))"

end
