(* ===== verification/Conformance_Identity.thy ===== *)
theory Conformance_Identity
  imports Conformance_Sealing
begin

text \<open>
  The checks of \<open>contracts/device_foundation/v1/conformance/run.py\<close> about who a device is: the derivation of its instance
  id, the commissioning voucher with the evidence and the two provenances, and the admission credential with the shape
  that must stay refused. They call the SDK's own functions; HKDF and JWT are parameters.
\<close>

subsection \<open>Two members compared\<close>

definition members_equal :: "json \<Rightarrow> string \<Rightarrow> json \<Rightarrow> string \<Rightarrow> conformance_error + bool" where
  "members_equal v k w l = and_then (member_of v k) (\<lambda>x. and_then (member_of w l) (\<lambda>y. Inr (py_eq x y)))"

definition is_decoding_at :: "json \<Rightarrow> string \<Rightarrow> byte list \<Rightarrow> conformance_error + bool" where
  "is_decoding_at v k bs = and_then (member_of v k) (\<lambda>x. Inr (map_option JStr (utf8_decode bs) = Some x))"

definition texts_at :: "json \<Rightarrow> string \<Rightarrow> conformance_error + string list" where
  "texts_at v k = and_then (and_then (member_of v k) elements_of) texts_of"

subsection \<open>The derivation of an instance id\<close>

definition check_spelling :: "json \<Rightarrow> string \<Rightarrow> conformance_error + unit" where
  "check_spelling vector spelling =
     and_then (reraise (\<lambda>_. Unloadable_Key) (derive_device_instance_id spelling)) (\<lambda>i.
     refuse_unless (is_text_at vector ''device_instance_id'' i) ''accepted spelling derives another device'')"

definition check_refused_key :: "json \<Rightarrow> conformance_error + unit" where
  "check_refused_key c =
     and_then (text_at c ''encoded'') (\<lambda>encoded.
     refuse_if (case derive_device_instance_id encoded of Inl _ \<Rightarrow> False | Inr _ \<Rightarrow> True)
       ''device instance derivation accepted a key it must refuse'')"

fun raw_point_case :: "json list \<Rightarrow> conformance_error + json" where
  "raw_point_case [] = Inl Nothing_Found"
| "raw_point_case (c # cs) =
     and_then (is_text_at c ''case'' ''raw-uncompressed-point'') (\<lambda>b. if b then Inr c else raw_point_case cs)"

text \<open>\<open>spki[-n:]\<close>: all of it for zero or a number beyond its length; a negative number drops that many.\<close>

definition last_bytes :: "int \<Rightarrow> byte list \<Rightarrow> byte list" where
  "last_bytes n bs = (if n \<le> 0 then drop (nat (- n)) bs else drop (length bs - nat n) bs)"

definition derivation_inventory :: "json list \<Rightarrow> string set" where
  "derivation_inventory refusals =
     {''namespace'', ''digest'', ''operational_public_key'', ''spki_der_base64url'', ''spki_der_length_bytes'',
      ''device_instance_id'', ''accepted_spellings'', ''must_refuse''}
     \<union> indexed_paths ''must_refuse'' (length refusals)
     \<union> indexed_members ''must_refuse'' (length refusals) [''case'', ''encoded'', ''length_bytes'']
     \<union> set (map (\<lambda>iv. dotted (indexed ''must_refuse'' (fst iv)) ''digest_if_wrongly_hashed'')
         (filter (\<lambda>iv. has_key (snd iv) ''digest_if_wrongly_hashed'') (enumerate 0 refusals)))"

definition check_raw_point :: "json \<Rightarrow> byte list \<Rightarrow> json \<Rightarrow> conformance_error + unit" where
  "check_raw_point vector spki raw_point =
     and_then (decoded_at raw_point ''encoded'') (\<lambda>point.
     and_then (integer_at raw_point ''length_bytes'') (\<lambda>n.
     and_then (refuse_if (point \<noteq> last_bytes n spki) ''the refused point is not the key this vector derives from'') (\<lambda>_.
     and_then (refuse_when (members_equal raw_point ''digest_if_wrongly_hashed'' vector ''device_instance_id'')
       ''the wrongly-hashed digest cannot equal the correct one'') (\<lambda>_.
     and_then (text_at vector ''namespace'') (\<lambda>namespace.
     refuse_unless (is_text_at raw_point ''digest_if_wrongly_hashed'' (namespace @ sha256_hex point))
       ''recorded wrong digest is not what hashing the point produces'')))))"

definition check_device_instance_derivation :: "json \<Rightarrow> conformance_error + nat" where
  "check_device_instance_derivation vector =
     and_then (is_text_at vector ''namespace'' ''device-instance-'') (\<lambda>namespace_ok.
     and_then (is_text_at vector ''digest'' ''sha256'') (\<lambda>digest_ok.
     and_then (refuse_if (\<not> (namespace_ok \<and> digest_ok)) ''device instance derivation names another rule'') (\<lambda>_.
     and_then (decoded_at vector ''spki_der_base64url'') (\<lambda>spki.
     and_then (refuse_unless (is_int_at vector ''spki_der_length_bytes'' (int (length spki)))
       ''device instance derivation SPKI length disagrees with its bytes'') (\<lambda>_.
     and_then (text_at vector ''namespace'') (\<lambda>namespace.
     and_then (refuse_unless (is_text_at vector ''device_instance_id'' (namespace @ sha256_hex spki))
       ''device instance id is not the SPKI digest this vector states'') (\<lambda>_.
     and_then (texts_at vector ''accepted_spellings'') (\<lambda>spellings.
     and_then (each (check_spelling vector) spellings) (\<lambda>_.
     and_then (array_at vector ''must_refuse'') (\<lambda>refusals.
     and_then (each check_refused_key refusals) (\<lambda>_.
     and_then (raw_point_case refusals) (\<lambda>raw_point.
     and_then (check_raw_point vector spki raw_point) (\<lambda>_.
     and_then (require_field_inventory vector (derivation_inventory refusals)
       ({''vector_id'', ''purpose'', ''derived_from''} \<union> indexed_members ''must_refuse'' (length refusals) [''why'']) {}) (\<lambda>_.
     Inr (1 + length refusals)))))))))))))))"

text \<open>
  An accepted derivation vector shows the trap it is about: the point it refuses is the end of its own key, hashing it
  gives another digest, and the SDK's derivation does not hash it.
\<close>

lemma derivation_steps:
  assumes "check_device_instance_derivation vector = Inr n"
  obtains spki refusals raw_point finished where
    "decoded_at vector ''spki_der_base64url'' = Inr spki" "each check_refused_key refusals = Inr finished"
    "raw_point_case refusals = Inr raw_point" "check_raw_point vector spki raw_point = Inr finished"
  using assms unfolding check_device_instance_derivation_def and_then_eq_Inr
  by (elim exE conjE) (rule that; (assumption | simp))

lemma raw_point_among: "raw_point_case cs = Inr c \<Longrightarrow> c \<in> set cs"
  by (induction cs) (auto simp: and_then_eq_Inr split: if_splits)

lemma refused_point_is_not_hashed:
  assumes "check_device_instance_derivation vector = Inr n"
  obtains spki encoded point k e where "decoded_at vector ''spki_der_base64url'' = Inr spki"
    and "b64url_decode encoded = Some point" "point = last_bytes k spki" "derive_device_instance_id encoded = Inl e"
proof -
  from derivation_steps [OF assms] obtain spki refusals raw_point finished where steps:
    "decoded_at vector ''spki_der_base64url'' = Inr spki" "each check_refused_key refusals = Inr finished"
    "raw_point_case refusals = Inr raw_point" "check_raw_point vector spki raw_point = Inr finished" .
  from steps(4) obtain point k where point: "decoded_at raw_point ''encoded'' = Inr point" "point = last_bytes k spki"
    by (auto simp: check_raw_point_def and_then_eq_Inr refuse_if_Inr)
  from point(1) obtain encoded where encoded: "text_at raw_point ''encoded'' = Inr encoded" "b64url_decode encoded = Some point"
    by (auto simp: decoded_at_def and_then_eq_Inr or_raise_Inr)
  have "check_refused_key raw_point = Inr ()"
    using steps(2) raw_point_among [OF steps(3)] by (simp add: each_ok)
  then obtain e where "derive_device_instance_id encoded = Inl e"
    using encoded(1) by (auto simp: check_refused_key_def refuse_if_Inr split: sum.splits)
  with steps(1) point(2) encoded(2) that show ?thesis by blast
qed

subsection \<open>The commissioning voucher\<close>

text \<open>The identity: the digest of the key in both spellings, and references derived from issued ids only.\<close>

definition check_voucher_key :: "json \<Rightarrow> byte list \<Rightarrow> conformance_error + unit" where
  "check_voucher_key vector spki =
     and_then (refuse_unless (is_digest_at vector ''operational_spki_sha256'' spki) ''operational SPKI fingerprint drifted'') (\<lambda>_.
     and_then (text_at vector ''operational_public_key'') (\<lambda>key.
     and_then (each (\<lambda>spelling.
         and_then (reraise (\<lambda>_. Unloadable_Key) (operational_key_id spelling)) (\<lambda>i.
         refuse_unless (is_text_at vector ''operational_spki_sha256'' i)
           ''operational key id is not what the canonical function computes''))
       [key, remove_prefix spki_scheme key]) (\<lambda>_.
     refuse_unless (is_text_at vector ''device_instance_id'' (''device-instance-'' @ sha256_hex spki))
       ''device instance id is not the operational SPKI fingerprint'')))"

definition check_identity_ref :: "json \<Rightarrow> string \<times> string \<times> string \<Rightarrow> conformance_error + unit" where
  "check_identity_ref vector names =
     (case names of (base_member, input_field, ref_field) \<Rightarrow>
       and_then (text_at vector base_member) (\<lambda>base_id.
       and_then (text_at vector input_field) (\<lambda>derivation_input.
       and_then (refuse_if
           (utf8 derivation_input \<noteq> utf8 ''eidolon-hardware-identity-v1'' @ [0] @ concat (map casefold_bytes base_id))
         ''base identity derivation input drifted'') (\<lambda>_.
       and_then (text_at vector ref_field) (\<lambda>reference.
       refuse_if (reference \<noteq> derived_hardware_identity_ref base_id
           \<or> reference \<noteq> ''hardware-'' @ sha256_hex (utf8 derivation_input))
         ''identity ref is not derived from the issued base identity'')))))"

text \<open>The evidence a device signs, rebuilt.\<close>

definition check_evidence ::
  "(json \<Rightarrow> byte list option) \<Rightarrow> ecdsa \<Rightarrow> (byte list \<Rightarrow> bool option) \<Rightarrow> json \<Rightarrow> byte list \<Rightarrow> conformance_error + unit" where
  "check_evidence canon ecdsa p256 vector spki =
     and_then (member_of vector ''evidence_document'') (\<lambda>document.
     and_then (refuse_unless (members_equal document ''device_base_id'' vector ''device_base_id'')
       ''evidence document states a different base identity'') (\<lambda>_.
     and_then (text_at vector ''device_base_id'') (\<lambda>base.
     and_then (text_at vector ''device_instance_id'') (\<lambda>inst.
     and_then (text_at vector ''operational_public_key'') (\<lambda>key.
     and_then (reraise (\<lambda>_. Wrong_Value_Type) (base_identity_evidence_document base inst key)) (\<lambda>built.
     and_then (refuse_if (\<not> py_eq document (JObj built)) ''evidence document is not what the canonical builder produces'') (\<lambda>_.
     and_then (refuse_if (set (keys_of document) \<noteq> set base_identity_evidence_field_names)
       ''evidence document member set drifted'') (\<lambda>_.
     and_then (vector_canonical_bytes canon document) (\<lambda>canonical.
     and_then (refuse_unless (is_decoding_at vector ''evidence_canonical_utf8'' canonical)
       ''base identity evidence JCS bytes drifted'') (\<lambda>_.
     and_then (text_at vector ''evidence_signature'') (\<lambda>signature.
     and_then (object_of document) (\<lambda>members.
     and_then (or_raise Not_Canonical (base_identity_evidence_wire canon members signature)) (\<lambda>wire.
     and_then (refuse_unless (is_text_at vector ''wire_evidence'' wire) ''base identity evidence wire framing drifted'') (\<lambda>_.
     and_then (refuse_unless (is_text_at vector ''evidence_digest'' (base_identity_evidence_digest wire))
       ''evidence digest is not the digest of the wire evidence'') (\<lambda>_.
     and_then (decoded_at vector ''evidence_signature'') (\<lambda>raw.
     and_then (refuse_if (length raw \<noteq> 64) ''base identity evidence signature is not raw ES256 r||s'') (\<lambda>_.
     and_then (load_p256 p256 spki ''base identity evidence operational key is not P-256'') (\<lambda>_.
     and_then (refuse_if (\<not> signed_by ecdsa spki raw canonical) ''base identity evidence signature is invalid'') (\<lambda>_.
     refuse_unless (is_text_at vector ''evidence_signature_encoding'' ''ES256 raw r||s, 64 bytes, base64url without padding'')
       ''base identity evidence signature encoding is not the one verified above'')))))))))))))))))))"

text \<open>The claims of one provenance, rebuilt from the vector; \<open>expires_at_unix\<close> is the first voucher's.\<close>

definition rebuilt_claims :: "json \<Rightarrow> json \<Rightarrow> json \<Rightarrow> string \<Rightarrow> conformance_error + json_object" where
  "rebuilt_claims vector holder voucher provenance =
     and_then (text_at vector ''device_base_id'') (\<lambda>base.
     and_then (text_at vector ''owner_domain_id'') (\<lambda>owner.
     and_then (text_at vector ''operational_spki_sha256'') (\<lambda>spki.
     and_then (text_at holder ''jti'') (\<lambda>jti.
     and_then (integer_at voucher ''expires_at_unix'') (\<lambda>expires.
     reraise (\<lambda>_. Wrong_Value_Type) (commissioning_voucher_claims base owner spki jti expires provenance))))))"

definition check_voucher_claims :: "json \<Rightarrow> json \<Rightarrow> json \<Rightarrow> conformance_error + unit" where
  "check_voucher_claims vector voucher claims =
     and_then (refuse_unless (members_equal claims ''operational_spki_sha256'' vector ''operational_spki_sha256'')
       ''voucher is not bound to this operational key'') (\<lambda>_.
     and_then (refuse_unless (members_equal claims ''device_base_id'' vector ''device_base_id'')
       ''voucher states a different base identity'') (\<lambda>_.
     and_then (refuse_unless (members_equal claims ''jti'' voucher ''jti'')
       ''voucher claims disagree with the vector's own fields'') (\<lambda>_.
     and_then (refuse_unless (members_equal claims ''exp'' voucher ''expires_at_unix'')
       ''voucher claims disagree with the vector's own fields'') (\<lambda>_.
     and_then (refuse_unless (is_text_at claims ''purpose'' commissioning_voucher_purpose) ''voucher purpose claim drifted'') (\<lambda>_.
     and_then (text_at vector ''base_identity_provenance'') (\<lambda>provenance.
     and_then (rebuilt_claims vector voucher voucher provenance) (\<lambda>built.
     and_then (refuse_if (\<not> py_eq (JObj built) claims) ''voucher claims are not what the canonical builder produces'') (\<lambda>_.
     and_then (refuse_if (set (keys_of claims) \<noteq> set commissioning_voucher_claim_names) ''voucher claim member set drifted'') (\<lambda>_.
     and_then (member_of voucher ''claim_names'') (\<lambda>published.
     and_then (refuse_if (published \<noteq> JArr (map JStr (sort commissioning_voucher_claim_names)))
       ''published claim_names disagree with the claim set'') (\<lambda>_.
     and_then (member_of voucher ''header'') (\<lambda>header.
     refuse_if (\<not> py_eq header (JObj commissioning_voucher_header)) ''voucher header drifted''))))))))))))"

text \<open>The compact form: the key derived from the secret, the framing, and the signature.\<close>

definition check_compact ::
  "(json \<Rightarrow> byte list option) \<Rightarrow> json \<Rightarrow> json \<Rightarrow> byte list \<Rightarrow> string \<Rightarrow> conformance_error + unit" where
  "check_compact canon holder claims key message =
     and_then (object_of claims) (\<lambda>members.
     and_then (or_raise Not_Canonical (sign_commissioning_voucher canon members key)) (\<lambda>compact.
     refuse_unless (is_text_at holder ''compact'' compact) message))"

definition check_voucher_signature ::
  "(json \<Rightarrow> byte list option) \<Rightarrow> json \<Rightarrow> json \<Rightarrow> byte list \<Rightarrow> conformance_error + unit" where
  "check_voucher_signature canon voucher claims key =
     and_then (refuse_unless (is_hex_at voucher ''signing_key_hex'' key) ''voucher signing key derivation drifted'') (\<lambda>_.
     and_then (refuse_unless (is_text_at voucher ''signing_key_derivation''
         ''HKDF-SHA256(host management secret, salt=none, info=\"eidolon-commissioning-voucher-v1\", L=32)'')
       ''voucher signing key derivation prose disagrees with the derivation used'') (\<lambda>_.
     and_then (canonical_at canon voucher ''header'') (\<lambda>header.
     and_then (vector_canonical_bytes canon claims) (\<lambda>canonical.
     and_then (refuse_unless (is_decoding_at voucher ''header_canonical_utf8'' header) ''voucher header JCS bytes drifted'') (\<lambda>_.
     and_then (refuse_unless (is_decoding_at voucher ''claims_canonical_utf8'' canonical) ''voucher claims JCS bytes drifted'') (\<lambda>_.
     and_then (refuse_unless (is_text_at voucher ''signing_input'' (b64url header @ ''.'' @ b64url canonical))
       ''voucher signing input framing drifted'') (\<lambda>_.
     and_then (check_compact canon voucher claims key ''voucher signature drifted'') (\<lambda>_.
     refuse_unless (is_text_at voucher ''nonce_rule'' ''commissioning_proof.nonce MUST equal the voucher jti'')
       ''voucher nonce rule drifted''))))))))"

text \<open>The other provenance, and the key a device that returns proves it holds.\<close>

definition check_continuation ::
  "(json \<Rightarrow> byte list option) \<Rightarrow> json \<Rightarrow> json \<Rightarrow> byte list \<Rightarrow> conformance_error + unit" where
  "check_continuation canon vector voucher key =
     and_then (member_of vector ''voucher_derived_from_controller'') (\<lambda>continuation.
     and_then (member_of continuation ''claims'') (\<lambda>claims.
     and_then (refuse_unless (is_text_at claims ''base_identity_provenance'' ''derived-from-controller'')
       ''continuation voucher is not the other provenance'') (\<lambda>_.
     and_then (rebuilt_claims vector continuation voucher ''derived-from-controller'') (\<lambda>built.
     and_then (refuse_if (\<not> py_eq claims (JObj built))
       ''continuation voucher claims are not what the canonical builder produces'') (\<lambda>_.
     and_then (vector_canonical_bytes canon claims) (\<lambda>canonical.
     and_then (refuse_unless (is_decoding_at continuation ''claims_canonical_utf8'' canonical)
       ''continuation voucher claims JCS bytes drifted'') (\<lambda>_.
     and_then (check_compact canon continuation claims key ''continuation voucher signature drifted'') (\<lambda>_.
     refuse_when (members_equal continuation ''jti'' voucher ''jti'') ''the two vouchers must not share a one-shot jti''))))))))"

definition check_base_key ::
  "(json \<Rightarrow> byte list option) \<Rightarrow> ecdsa \<Rightarrow> json \<Rightarrow> byte list \<Rightarrow> conformance_error + unit" where
  "check_base_key canon ecdsa base_key spki =
     and_then (refuse_unless (is_text_at base_key ''scheme'' ''enrolled-base-key-v1'') ''continuation proof scheme drifted'') (\<lambda>_.
     and_then (member_of base_key ''signing_document'') (\<lambda>document.
     and_then (refuse_unless (members_equal document ''nonce'' base_key ''nonce'')
       ''continuation proof nonce disagrees with its own document'') (\<lambda>_.
     and_then (vector_canonical_bytes canon document) (\<lambda>canonical.
     and_then (refuse_unless (is_decoding_at base_key ''canonical_utf8'' canonical) ''continuation proof JCS bytes drifted'') (\<lambda>_.
     and_then (decoded_at base_key ''proof'') (\<lambda>raw.
     and_then (refuse_if (length raw \<noteq> 64) ''continuation proof is not raw ES256 r||s'') (\<lambda>_.
     refuse_if (\<not> signed_by ecdsa spki raw canonical) ''continuation proof signature is invalid'')))))))"

definition voucher_refusals :: "string list" where
  "voucher_refusals =
     [''voucher bound to another operational key'', ''voucher replayed after its jti was consumed'',
      ''device reports a device_base_id the Hub never issued'',
      ''second base identity offered for an already bound operational key'',
      ''enrolled-base-key-v1 presented by a Revoked or Rejected base identity'',
      ''voucher whose base_identity_provenance is any other value'',
      ''voucher carrying a claim outside claim_names, or missing one'']"

definition voucher_inventory :: "nat \<Rightarrow> string set" where
  "voucher_inventory n =
     {''device_base_id'', ''base_identity_provenance'', ''hardware_identity_derivation_input_utf8_with_nul_separator'',
      ''hardware_identity_ref'', ''software_body_device_base_id'',
      ''software_body_hardware_identity_derivation_input_utf8_with_nul_separator'', ''software_body_hardware_identity_ref'',
      ''operational_public_key'', ''operational_spki_sha256'', ''device_instance_id'', ''evidence_scheme'',
      ''evidence_document'', ''evidence_canonical_utf8'', ''evidence_signature_encoding'', ''evidence_signature'',
      ''wire_evidence'', ''evidence_digest'', ''owner_domain_id'', ''voucher'', ''voucher_derived_from_controller'',
      ''enrolled_base_key'', ''must_be_refused''}
     \<union> set (map (dotted ''evidence_document'') base_identity_evidence_field_names)
     \<union> set (map (dotted ''voucher'') [''scheme'', ''host_management_secret_hex'', ''signing_key_hex'', ''header'',
         ''header.alg'', ''header.typ'', ''header_canonical_utf8'', ''claims'', ''claims_canonical_utf8'', ''signing_input'',
         ''compact'', ''jti'', ''expires_at_unix'', ''nonce_rule'', ''claim_names''])
     \<union> set (map (dotted ''voucher.claims'') commissioning_voucher_claim_names)
     \<union> set (map (dotted ''voucher_derived_from_controller'') [''claims'', ''claims_canonical_utf8'', ''compact'', ''jti''])
     \<union> set (map (dotted ''voucher_derived_from_controller.claims'') commissioning_voucher_claim_names)
     \<union> set (map (dotted ''enrolled_base_key'') [''scheme'', ''signing_document'', ''canonical_utf8'', ''proof'', ''nonce''])
     \<union> set (map (dotted ''enrolled_base_key.signing_document'')
         [''contract'', ''device_base_id'', ''device_instance_id'', ''nonce'', ''owner_domain_id''])
     \<union> indexed_paths ''must_be_refused'' n \<union> indexed_members ''must_be_refused'' n [''case'', ''why'']"

definition voucher_descriptions :: "string set" where
  "voucher_descriptions =
     {''vector_id'', ''supersedes'', ''why'', ''device_operational_scalar_hex'', ''voucher.signing_key_derivation'',
      ''voucher_derived_from_controller.why'', ''enrolled_base_key.when''}"

definition check_commissioning_voucher ::
  "(json \<Rightarrow> byte list option) \<Rightarrow> ecdsa \<Rightarrow> (byte list \<Rightarrow> bool option)
     \<Rightarrow> (nat \<Rightarrow> byte list option \<Rightarrow> byte list \<Rightarrow> byte list \<Rightarrow> byte list) \<Rightarrow> json \<Rightarrow> conformance_error + nat" where
  "check_commissioning_voucher canon ecdsa p256 hkdf vector =
     and_then (refuse_unless (is_text_at vector ''evidence_scheme'' base_identity_evidence_scheme)
       ''base identity evidence scheme drifted'') (\<lambda>_.
     and_then (refuse_unless (is_text_at vector ''base_identity_provenance'' ''minted'')
       ''hardware base identity must be minted, never derived from the device'') (\<lambda>_.
     and_then (text_at vector ''operational_public_key'') (\<lambda>key.
     and_then (or_raise Bad_Base64 (b64url_decode (remove_prefix spki_scheme key))) (\<lambda>spki.
     and_then (check_voucher_key vector spki) (\<lambda>_.
     and_then (each (check_identity_ref vector)
       [(''device_base_id'', ''hardware_identity_derivation_input_utf8_with_nul_separator'', ''hardware_identity_ref''),
        (''software_body_device_base_id'', ''software_body_hardware_identity_derivation_input_utf8_with_nul_separator'',
         ''software_body_hardware_identity_ref'')]) (\<lambda>_.
     and_then (check_evidence canon ecdsa p256 vector spki) (\<lambda>_.
     and_then (member_of vector ''voucher'') (\<lambda>voucher.
     and_then (refuse_unless (is_text_at voucher ''scheme'' ''hub-issued-commissioning-voucher-v1'')
       ''commissioning proof scheme drifted'') (\<lambda>_.
     and_then (member_of voucher ''claims'') (\<lambda>claims.
     and_then (check_voucher_claims vector voucher claims) (\<lambda>_.
     and_then (hex_at voucher ''host_management_secret_hex'') (\<lambda>secret.
     let signing_key = derive_voucher_signing_key hkdf secret in
     and_then (check_voucher_signature canon voucher claims signing_key) (\<lambda>_.
     and_then (check_continuation canon vector voucher signing_key) (\<lambda>_.
     and_then (and_then (member_of vector ''enrolled_base_key'') (\<lambda>b. check_base_key canon ecdsa b spki)) (\<lambda>_.
     and_then (array_at vector ''must_be_refused'') (\<lambda>refusals.
     and_then (map_each (\<lambda>entry. member_of entry ''case'') refusals) (\<lambda>cases.
     and_then (refuse_if (cases \<noteq> map JStr voucher_refusals) ''the refusals this vector exists to name drifted'') (\<lambda>_.
     and_then (require_field_inventory vector (voucher_inventory (length refusals)) voucher_descriptions {}) (\<lambda>_.
     Inr 1)))))))))))))))))))"

text \<open>
  The voucher of an accepted vector is the one the SDK signs: its compact form is that of the published claims under the
  key derived from the published secret.
\<close>

lemma accepted_voucher_is_signed:
  assumes "check_commissioning_voucher canon ecdsa p256 hkdf vector = Inr n"
  obtains voucher claims secret compact where "member_of vector ''voucher'' = Inr voucher"
    and "member_of voucher ''claims'' = Inr (JObj claims)" "hex_at voucher ''host_management_secret_hex'' = Inr secret"
    and "sign_commissioning_voucher canon claims (derive_voucher_signing_key hkdf secret) = Some compact"
    and "member_of voucher ''compact'' = Inr (JStr compact)"
proof -
  from assms obtain voucher claims secret finished where steps: "member_of vector ''voucher'' = Inr voucher"
    "member_of voucher ''claims'' = Inr claims" "hex_at voucher ''host_management_secret_hex'' = Inr secret"
    "check_voucher_signature canon voucher claims (derive_voucher_signing_key hkdf secret) = Inr finished"
    unfolding check_commissioning_voucher_def Let_def and_then_eq_Inr by (elim exE conjE) (rule that; assumption)
  from steps(4) obtain done' where "check_compact canon voucher claims (derive_voucher_signing_key hkdf secret)
      ''voucher signature drifted'' = Inr done'"
    unfolding check_voucher_signature_def and_then_eq_Inr by blast
  then obtain members compact where "claims = JObj members"
    "sign_commissioning_voucher canon members (derive_voucher_signing_key hkdf secret) = Some compact"
    "is_text_at voucher ''compact'' compact = Inr True"
    by (auto simp: check_compact_def and_then_eq_Inr object_of_Inr or_raise_Inr and_then_refuse_unless)
  with steps that show ?thesis by (auto simp: is_text_at_def and_then_eq_Inr)
qed

subsection \<open>The admission credential\<close>

definition conformance_secret :: "byte list" where
  "conformance_secret = utf8 ''conformance-admission-credential-secret-32+''"

definition stable_credential :: "json \<Rightarrow> conformance_error + admission_credential" where
  "stable_credential pinned =
     and_then (text_at pinned ''sub'') (\<lambda>subject.
     and_then (and_then (member_of pinned ''actor'') (\<lambda>a. or_raise Wrong_Value_Type (parse_controller_actor a))) (\<lambda>actor.
     and_then (text_at pinned ''owner_domain_id'') (\<lambda>owner.
     and_then (text_at pinned ''business_owner_id'') (\<lambda>business.
     and_then (texts_at pinned ''scopes'') (\<lambda>scopes.
     and_then (text_at pinned ''intent_id'') (\<lambda>intent.
     reraise (\<lambda>_. Wrong_Value_Type) (make_admission_credential
       \<lparr>acr_subject = subject, acr_actor = actor, acr_owner_domain_id = owner, acr_business_owner_id = business,
        acr_scopes = scopes, acr_intent_id = Some intent, acr_target_device_ref = None\<rparr>)))))))"

definition check_minted_claims :: "json \<Rightarrow> json \<Rightarrow> json_object \<Rightarrow> conformance_error + nat" where
  "check_minted_claims vector pinned minted =
     and_then (texts_at vector ''required_claims'') (\<lambda>needed.
     and_then (texts_at vector ''optional_claims'') (\<lambda>optional.
     and_then (refuse_if (\<not> set (map fst minted) \<subseteq> set needed \<union> set optional)
       ''Admission credential mints claims this vector does not name'') (\<lambda>_.
     and_then (refuse_if (\<not> set needed \<subseteq> set (map fst minted)) ''Admission credential omits required claims'') (\<lambda>_.
     and_then (refuse_if (\<not> set needed - {''iat'', ''exp''} \<subseteq> set (keys_of pinned))
       ''Admission vector states no value for a pinned claim'') (\<lambda>_.
     and_then (object_of pinned) (\<lambda>values.
     and_then (each (\<lambda>(name, expected).
         and_then (or_raise (Missing_Key name) (map_of minted name)) (\<lambda>v.
         refuse_if (\<not> py_eq v expected) ''a minted Admission claim is not the stable value'')) values) (\<lambda>_.
     Inr (length needed))))))))"

definition reread_agrees :: "json \<Rightarrow> admission_credential \<Rightarrow> conformance_error + bool" where
  "reread_agrees pinned c =
     and_then (is_text_at pinned ''sub'' (acr_subject c)) (\<lambda>subject.
     and_then (is_text_at pinned ''owner_domain_id'' (acr_owner_domain_id c)) (\<lambda>owner.
     and_then (is_text_at pinned ''business_owner_id'' (acr_business_owner_id c)) (\<lambda>business.
     and_then (member_of pinned ''scopes'') (\<lambda>scopes.
     Inr (subject \<and> owner \<and> business \<and> scopes = JArr (map JStr (acr_scopes c)))))))"

definition rejected_claim_names :: "string list" where
  "rejected_claim_names = [''sub'', ''presenter'', ''aud'', ''actor_ref'', ''owner_id'', ''roles'', ''scopes'', ''exp'']"

definition credential_inventory :: "json \<Rightarrow> json_object \<Rightarrow> json \<Rightarrow> string set" where
  "credential_inventory pinned rejected actor =
     {''header_scheme'', ''algorithm'', ''audience'', ''required_claims'', ''optional_claims'', ''stable_claims'',
      ''rejected_shape'', ''rejected_shape.claims''}
     \<union> set (map (dotted ''stable_claims'') (keys_of pinned)) \<union> set (map (dotted ''stable_claims.actor'') (keys_of actor))
     \<union> set (map (dotted ''rejected_shape.claims'') (map fst rejected))"

definition check_admission_credential ::
  "(json_object \<Rightarrow> byte list \<Rightarrow> string) \<Rightarrow> (string \<Rightarrow> byte list \<Rightarrow> json_object option) \<Rightarrow> (json \<Rightarrow> string) \<Rightarrow> int \<Rightarrow> json
     \<Rightarrow> conformance_error + nat" where
  "check_admission_credential encode decode render now vector =
     and_then (map_each (\<lambda>(k, s). is_text_at vector k s)
       [(''header_scheme'', ''Bearer''), (''algorithm'', ''HS256''), (''audience'', admission_audience)]) (\<lambda>declared.
     and_then (refuse_if (\<not> list_all id declared) ''Admission credential vector names another scheme or audience'') (\<lambda>_.
     and_then (member_of vector ''stable_claims'') (\<lambda>pinned.
     and_then (stable_credential pinned) (\<lambda>credential.
     and_then (reraise (\<lambda>_. Wrong_Value_Type) (issue_admission_credential encode credential conformance_secret 300 now)) (\<lambda>header.
     case partition_at (CHR '' '') header of (scheme, _, token) \<Rightarrow>
     and_then (refuse_if (scheme \<noteq> ''Bearer'') ''minted Admission credential does not use the declared scheme'') (\<lambda>_.
     and_then (or_raise Wrong_Value_Type (decode token conformance_secret)) (\<lambda>minted.
     and_then (check_minted_claims vector pinned minted) (\<lambda>n.
     and_then (reraise (\<lambda>_. Wrong_Value_Type) (read_admission_credential decode render header conformance_secret)) (\<lambda>reread.
     and_then (refuse_unless (reread_agrees pinned reread) ''Admission credential does not survive its own round trip'') (\<lambda>_.
     and_then (and_then (and_then (member_of vector ''rejected_shape'') (\<lambda>r. member_of r ''claims'')) object_of) (\<lambda>rejected.
     and_then (refuse_if (set (map fst rejected) \<noteq> set rejected_claim_names)
       ''the recorded vocabulary of the 401 outage changed'') (\<lambda>_.
     and_then (refuse_if (case read_admission_credential decode render (''Bearer '' @ encode rejected conformance_secret)
           conformance_secret of Inl _ \<Rightarrow> False | Inr _ \<Rightarrow> True)
       ''the credential shape that refused every device removal is accepted again'') (\<lambda>_.
     and_then (member_of pinned ''actor'') (\<lambda>actor.
     and_then (require_field_inventory vector (credential_inventory pinned rejected actor)
       {''contract'', ''purpose'', ''rejected_shape.why''} {}) (\<lambda>_.
     Inr (1 + n))))))))))))))))"

end
