(* ===== verification/Conformance_Run.thy ===== *)
theory Conformance_Run
  imports Conformance_Identity
begin

text \<open>
  The rest of \<open>contracts/device_foundation/v1/conformance/run.py\<close>: loading documents and schemas, the fixtures, the trust
  profile, independence of a Host, traceability of the requirements, the evidence of the first phase, and \<open>run\<close>, which
  puts all checks in their order. The tree of contract files is a value: paths with texts, in the order of the sorted
  paths. The JSON decoder (\<open>parse\<close>, an object with its pairs as written), the schema validator (\<open>sound\<close>, \<open>known\<close>,
  \<open>messages\<close>) and the cryptography are parameters.
\<close>

subsection \<open>Documents\<close>

text \<open>\<open>object_pairs_hook\<close> is called for every object, the inner ones first.\<close>

fun hooked :: "json \<Rightarrow> conformance_error + json"
  and hooked_members :: "json_object \<Rightarrow> conformance_error + json_object"
  and hooked_items :: "json list \<Rightarrow> conformance_error + json list" where
  "hooked (JObj kvs) = and_then (hooked_members kvs) (\<lambda>pairs. and_then (reject_duplicate_keys [] pairs) (\<lambda>d. Inr (JObj d)))"
| "hooked (JArr vs) = and_then (hooked_items vs) (\<lambda>ws. Inr (JArr ws))"
| "hooked v = Inr v"
| "hooked_members [] = Inr []"
| "hooked_members ((k, v) # kvs) = and_then (hooked v) (\<lambda>w. and_then (hooked_members kvs) (\<lambda>ws. Inr ((k, w) # ws)))"
| "hooked_items [] = Inr []"
| "hooked_items (v # vs) = and_then (hooked v) (\<lambda>w. and_then (hooked_items vs) (\<lambda>ws. Inr (w # ws)))"

definition load_json :: "(string \<Rightarrow> json option) \<Rightarrow> string \<Rightarrow> conformance_error + json" where
  "load_json parse contents = and_then (or_raise Not_Json (parse contents)) hooked"

fun unique_keys :: "json \<Rightarrow> bool" where
  "unique_keys (JObj kvs) \<longleftrightarrow> distinct (map fst kvs) \<and> list_all (\<lambda>kv. unique_keys (snd kv)) kvs"
| "unique_keys (JArr vs) \<longleftrightarrow> list_all unique_keys vs"
| "unique_keys _ \<longleftrightarrow> True"

lemma reject_duplicates_same:
  "reject_duplicate_keys found kvs = Inr d \<Longrightarrow> d = found @ kvs \<and> (distinct (map fst found) \<longrightarrow> distinct (map fst d))"
  by (induction found kvs rule: reject_duplicate_keys.induct) (auto split: if_splits, (metis fst_conv image_eqI disjoint_iff)+)

lemma hooked_same:
  "hooked v = Inr w \<Longrightarrow> w = v \<and> unique_keys w"
  "hooked_members kvs = Inr ws \<Longrightarrow> ws = kvs \<and> list_all (\<lambda>kv. unique_keys (snd kv)) ws"
  "hooked_items vs = Inr us \<Longrightarrow> us = vs \<and> list_all unique_keys us"
  by (induction v and kvs and vs arbitrary: w and ws and us rule: hooked_hooked_members_hooked_items.induct)
    (auto simp: and_then_eq_Inr dest!: reject_duplicates_same)

text \<open>A loaded document is the decoded one, and no object in it, at any depth, repeats a key.\<close>

lemma loaded_document: "load_json parse contents = Inr v \<Longrightarrow> parse contents = Some v \<and> unique_keys v"
  using hooked_same(1) by (auto simp: load_json_def and_then_eq_Inr or_raise_Inr)

subsection \<open>Schemas and fixtures\<close>

type_synonym tree_file = "string \<times> string"

fun schema_identifier :: "json \<Rightarrow> conformance_error + string" where
  "schema_identifier (JObj kvs) =
     (case map_of kvs ''$id'' of
        None \<Rightarrow> Inl (Vector_Refused ''schema has no $id'')
      | Some v \<Rightarrow> if \<not> truthy v then Inl (Vector_Refused ''schema has no $id'') else or_raise Wrong_Value_Type (text_value v))"
| "schema_identifier _ = Inl Wrong_Value_Type"

fun load_schemas ::
  "(string \<Rightarrow> json option) \<Rightarrow> (json \<Rightarrow> bool) \<Rightarrow> (json \<Rightarrow> bool) \<Rightarrow> (string \<times> json) list \<Rightarrow> tree_file list
     \<Rightarrow> conformance_error + (string \<times> json) list" where
  "load_schemas parse sound known schemas [] = Inr schemas"
| "load_schemas parse sound known schemas ((path, contents) # files) =
     and_then (load_json parse contents) (\<lambda>schema.
     and_then (if sound schema then Inr () else Inl Schema_Refused) (\<lambda>_.
     and_then (schema_identifier schema) (\<lambda>schema_id.
     and_then (refuse_if (schema_id \<in> fst ` set schemas) ''duplicate schema $id'') (\<lambda>_.
     and_then (if known schema then Inr () else Inl Schema_Refused) (\<lambda>_.
     load_schemas parse sound known (schemas @ [(schema_id, schema)]) files)))))"

text \<open>A value used as a key: a container raises, and only a text is a key there.\<close>

definition as_key :: "json \<Rightarrow> conformance_error + string option" where
  "as_key v = (if is_container v then Inl Wrong_Value_Type else Inr (text_value v))"

definition known_key :: "(string \<times> 'v) list \<Rightarrow> json \<Rightarrow> conformance_error + 'v option" where
  "known_key pairs v = and_then (as_key v) (\<lambda>k. Inr (Option.bind k (map_of pairs)))"

definition definitions_of :: "json \<Rightarrow> conformance_error + json_object" where
  "definitions_of schema =
     and_then (object_of schema) (\<lambda>kvs. case map_of kvs ''$defs'' of None \<Rightarrow> Inr [] | Some d \<Rightarrow> object_of d)"

definition definition_ref :: "string \<Rightarrow> string \<Rightarrow> string" where
  "definition_ref schema_id name = schema_id @ ''#/$defs/'' @ name"

text \<open>A refusal whose message names the case, which must have an id to be named by.\<close>

definition refuse_case :: "json \<Rightarrow> bool \<Rightarrow> string \<Rightarrow> conformance_error + unit" where
  "refuse_case c b message =
     (if b then and_then (member_of c ''case_id'') (\<lambda>_. Inl (Vector_Refused message)) else Inr ())"

definition occurs_in :: "string \<Rightarrow> string \<Rightarrow> bool" where
  "occurs_in part whole = list_ex (\<lambda>n. take (length part) (drop n whole) = part) [0..<Suc (length whole)]"

definition check_expected :: "json \<Rightarrow> string list \<Rightarrow> conformance_error + unit" where
  "check_expected c found =
     and_then (object_of c) (\<lambda>kvs.
     case map_of kvs ''error_contains'' of
       None \<Rightarrow> Inr ()
     | Some v \<Rightarrow>
         if found = [] \<or> \<not> truthy v then Inr ()
         else and_then (or_raise Wrong_Value_Type (text_value v)) (\<lambda>expected.
              refuse_case c (\<not> list_ex (occurs_in expected) found) ''expected another error''))"

text \<open>\<open>messages schemas ref value\<close> are the validator's messages, by the path they are about.\<close>

definition check_fixture ::
  "(string \<Rightarrow> json \<Rightarrow> string list) \<Rightarrow> (string \<times> json) list \<Rightarrow> bool \<Rightarrow> json \<Rightarrow> conformance_error + unit" where
  "check_fixture messages schemas valid c =
     and_then (member_of c ''schema'') (\<lambda>schema_id.
     and_then (member_of c ''definition'') (\<lambda>name.
     and_then (known_key schemas schema_id) (\<lambda>schema.
     and_then (refuse_case c (schema = None) ''unknown schema'') (\<lambda>_.
     and_then (definitions_of (the schema)) (\<lambda>defs.
     and_then (known_key defs name) (\<lambda>declared.
     and_then (refuse_case c (declared = None) ''unknown definition'') (\<lambda>_.
     and_then (member_of c ''value'') (\<lambda>v.
     let found = messages (definition_ref (the (text_value schema_id)) (the (text_value name))) v in
     and_then (refuse_case c (valid \<and> found \<noteq> []) ''expected valid'') (\<lambda>_.
     and_then (refuse_case c (\<not> valid \<and> found = []) ''invalid fixture was accepted'') (\<lambda>_.
     check_expected c found))))))))))"

definition fixtures_of :: "(string \<Rightarrow> json option) \<Rightarrow> tree_file \<Rightarrow> conformance_error + json list" where
  "fixtures_of parse f = and_then (load_json parse (snd f)) (\<lambda>d. and_then (member_of d ''cases'') elements_of)"

fun check_fixture_files ::
  "(string \<Rightarrow> json option) \<Rightarrow> (string \<Rightarrow> json \<Rightarrow> string list) \<Rightarrow> (string \<times> json) list \<Rightarrow> bool \<Rightarrow> nat \<Rightarrow> tree_file list
     \<Rightarrow> conformance_error + nat" where
  "check_fixture_files parse messages schemas valid n [] = Inr n"
| "check_fixture_files parse messages schemas valid n (f # files) =
     and_then (fixtures_of parse f) (\<lambda>cases.
     and_then (each (check_fixture messages schemas valid) cases) (\<lambda>_.
     check_fixture_files parse messages schemas valid (n + length cases) files))"

definition check_fixtures ::
  "(string \<Rightarrow> json option) \<Rightarrow> (string \<Rightarrow> json \<Rightarrow> string list) \<Rightarrow> (string \<times> json) list \<Rightarrow> tree_file list \<Rightarrow> tree_file list
     \<Rightarrow> conformance_error + nat" where
  "check_fixtures parse messages schemas valid_files invalid_files =
     and_then (check_fixture_files parse messages schemas True 0 valid_files) (\<lambda>n.
     check_fixture_files parse messages schemas False n invalid_files)"

subsection \<open>The trust profile\<close>

definition owner_root_profile :: json where
  "owner_root_profile =
     JObj [(''algorithm'', JStr ''P-256''), (''certificate_profile'', JStr ''self-signed-ca''), (''host_runtime_key'', JBool False),
           (''installed_atomically_with_initial_directory'', JBool True),
           (''recovery_requirement'', JStr ''second-controller-or-encrypted-recovery-package'')]"

definition handoff_profile :: json where
  "handoff_profile =
     JObj [(''standard'', JStr ''RFC 9180''), (''mode'', JStr ''base''), (''kem'', JStr ''DHKEM-P256-HKDF-SHA256''),
           (''kdf'', JStr ''HKDF-SHA256''), (''aead'', JStr ''AES-128-GCM''),
           (''recipient_key'', JStr ''proposal-one-time-handoff-key''),
           (''aad_schema'', JStr (definition_ref common_schema_id ''ClaimGrantAAD''))]"

text \<open>\<open>x is True\<close>, \<open>x is False\<close> at a member; and the first refusal of a list of them.\<close>

definition is_flag_at :: "json \<Rightarrow> string \<Rightarrow> bool \<Rightarrow> conformance_error + bool" where
  "is_flag_at v k b = and_then (member_of v k) (\<lambda>x. Inr (x = JBool b))"

definition is_value_at :: "json \<Rightarrow> string \<Rightarrow> json \<Rightarrow> conformance_error + bool" where
  "is_value_at v k w = and_then (member_of v k) (\<lambda>x. Inr (py_eq x w))"

fun all_of :: "(conformance_error + bool) list \<Rightarrow> conformance_error + bool" where
  "all_of [] = Inr True"
| "all_of (c # cs) = and_then c (\<lambda>b. if b then all_of cs else Inr False)"

definition check_delegation :: "json \<Rightarrow> conformance_error + bool" where
  "check_delegation delegation = all_of
     [is_text_at delegation ''issuer'' ''owner-domain-root'',
      is_flag_at delegation ''certificate_basic_constraints_ca'' False,
      is_text_at delegation ''certificate_extended_key_usage'' ''code-signing'',
      is_flag_at delegation ''private_key_in_host_runtime'' False,
      is_text_at delegation ''directory_signature_input'' ''RFC8785(descriptor-without-signature)'']"

definition check_profile :: "json \<Rightarrow> conformance_error + nat" where
  "check_profile profile =
     and_then (refuse_unless (is_text_at profile ''profile_id'' ''eidolon-trust-p256-hpke-v1'') ''wrong trust profile id'') (\<lambda>_.
     and_then (refuse_unless (is_text_at profile ''algorithm_negotiation'' ''forbidden'')
       ''profile permits algorithm negotiation'') (\<lambda>_.
     and_then (refuse_unless (and_then (member_of profile ''signature'') (\<lambda>s. is_int_at s ''signature_bytes'' 64))
       ''profile does not freeze P1363 ES256 signatures'') (\<lambda>_.
     and_then (refuse_unless (is_value_at profile ''owner_domain_root'' owner_root_profile)
       ''Owner root profile drifted or became Host-bound'') (\<lambda>_.
     and_then (member_of profile ''authority_delegation'') (\<lambda>delegation.
     and_then (refuse_unless (check_delegation delegation) ''Owner directory delegation profile drifted'') (\<lambda>_.
     and_then (refuse_unless (is_value_at profile ''claim_grant_handoff'' handoff_profile) ''profile HPKE suite drifted'') (\<lambda>_.
     Inr 1)))))))"

subsection \<open>Independence of a Host\<close>

text \<open>
  The search for \<open>(?<![0-9])(?:[0-9]{1,3}\.){3}[0-9]{1,3}(?![0-9])\<close>. A group of digits ends where a dot, or at last
  something that is no digit, must follow: it is the whole run of digits.
\<close>

definition short_run :: "string \<Rightarrow> bool" where
  "short_run s \<longleftrightarrow> len_between 1 3 (takeWhile is_ascii_digit s)"

fun dotted_groups :: "nat \<Rightarrow> string \<Rightarrow> bool" where
  "dotted_groups 0 s \<longleftrightarrow> short_run s"
| "dotted_groups (Suc n) s \<longleftrightarrow>
     short_run s \<and> (case dropWhile is_ascii_digit s of [] \<Rightarrow> False | c # cs \<Rightarrow> c = CHR ''.'' \<and> dotted_groups n cs)"

fun has_ipv4 :: "bool \<Rightarrow> string \<Rightarrow> bool" where
  "has_ipv4 after_digit [] \<longleftrightarrow> False"
| "has_ipv4 after_digit (c # cs) \<longleftrightarrow>
     \<not> after_digit \<and> dotted_groups 3 (c # cs) \<or> has_ipv4 (is_ascii_digit c) cs"

definition host_bound_keys :: "string set" where
  "host_bound_keys = {''host_id'', ''hub_host'', ''server_ip'', ''room_name''}"

definition check_independent_source :: "(string \<Rightarrow> json option) \<Rightarrow> tree_file \<Rightarrow> conformance_error + unit" where
  "check_independent_source parse f =
     and_then (load_json parse (snd f)) (\<lambda>v.
     and_then (refuse_if (host_bound_keys \<inter> set (walk_keys v) \<noteq> {}) ''Host-bound field(s) in canonical source'') (\<lambda>_.
     refuse_if (occurs_in ''livekit'' (lower (snd f)) \<or> has_ipv4 False (snd f))
       ''transport/Host implementation detail in canonical source''))"

definition check_host_independence :: "(string \<Rightarrow> json option) \<Rightarrow> tree_file list \<Rightarrow> conformance_error + nat" where
  "check_host_independence parse sources =
     and_then (each (check_independent_source parse) sources) (\<lambda>_. Inr (length sources))"

text \<open>What the expression matches: four groups of one to three digits with dots between them.\<close>

definition digit_group :: "string \<Rightarrow> bool" where
  "digit_group g \<longleftrightarrow> len_between 1 3 g \<and> list_all is_ascii_digit g"

definition quad_text :: "string \<Rightarrow> string \<Rightarrow> string \<Rightarrow> string \<Rightarrow> string" where
  "quad_text a b c d = a @ ''.'' @ b @ ''.'' @ c @ ''.'' @ d"

definition no_digit_first :: "string \<Rightarrow> bool" where
  "no_digit_first s \<longleftrightarrow> (case s of [] \<Rightarrow> True | c # _ \<Rightarrow> \<not> is_ascii_digit c)"

definition matches_ipv4_at :: "string \<Rightarrow> bool" where
  "matches_ipv4_at s \<longleftrightarrow> (\<exists>a b c d post. s = quad_text a b c d @ post \<and> digit_group a \<and> digit_group b \<and> digit_group c
     \<and> digit_group d \<and> no_digit_first post)"

lemma short_run_iff: "short_run s \<longleftrightarrow> (\<exists>g post. s = g @ post \<and> digit_group g \<and> no_digit_first post)"
proof
  assume "short_run s"
  moreover have "no_digit_first (dropWhile is_ascii_digit s)"
    by (auto simp: no_digit_first_def dropWhile_eq_Cons_conv split: list.split)
  ultimately show "\<exists>g post. s = g @ post \<and> digit_group g \<and> no_digit_first post"
    by (intro exI [of _ "takeWhile is_ascii_digit s"] exI [of _ "dropWhile is_ascii_digit s"])
      (auto simp: short_run_def digit_group_def list_all_iff dest: set_takeWhileD)
next
  assume "\<exists>g post. s = g @ post \<and> digit_group g \<and> no_digit_first post"
  then obtain g post where s: "s = g @ post" and g: "digit_group g" and post: "no_digit_first post" by blast
  then have "takeWhile is_ascii_digit s = g"
    by (cases post) (simp_all add: digit_group_def no_digit_first_def list_all_iff takeWhile_append)
  with g show "short_run s" by (simp add: short_run_def digit_group_def)
qed

lemma dot_no_digit [simp]: "\<not> is_ascii_digit (CHR ''.'')"
  by (simp add: is_ascii_digit_def code_between_def)

lemma group_then: "digit_group g \<Longrightarrow> takeWhile is_ascii_digit (g @ CHR ''.'' # cs) = g
    \<and> dropWhile is_ascii_digit (g @ CHR ''.'' # cs) = CHR ''.'' # cs"
  by (simp add: digit_group_def list_all_iff takeWhile_append dropWhile_append)

lemma dotted_groups_Suc:
  "dotted_groups (Suc n) s \<longleftrightarrow> (\<exists>g cs. s = g @ CHR ''.'' # cs \<and> digit_group g \<and> dotted_groups n cs)"
proof
  assume "dotted_groups (Suc n) s"
  then obtain cs where cs: "dropWhile is_ascii_digit s = CHR ''.'' # cs" "dotted_groups n cs" "short_run s"
    by (auto split: list.splits)
  then have "digit_group (takeWhile is_ascii_digit s)"
    by (auto simp: short_run_def digit_group_def list_all_iff dest: set_takeWhileD)
  moreover have "s = takeWhile is_ascii_digit s @ CHR ''.'' # cs"
    using cs(1) by (metis takeWhile_dropWhile_id)
  ultimately show "\<exists>g cs. s = g @ CHR ''.'' # cs \<and> digit_group g \<and> dotted_groups n cs" using cs(2) by blast
qed (auto simp: group_then short_run_def digit_group_def)

lemma dotted_groups_iff: "dotted_groups 3 s \<longleftrightarrow> matches_ipv4_at s"
proof -
  have "dotted_groups 3 s \<longleftrightarrow> (\<exists>a r. s = a @ CHR ''.'' # r \<and> digit_group a
      \<and> (\<exists>b q. r = b @ CHR ''.'' # q \<and> digit_group b
      \<and> (\<exists>c p. q = c @ CHR ''.'' # p \<and> digit_group c
      \<and> (\<exists>d post. p = d @ post \<and> digit_group d \<and> no_digit_first post))))"
    by (simp only: numeral_3_eq_3 dotted_groups_Suc dotted_groups.simps(1) short_run_iff)
  also have "\<dots> \<longleftrightarrow> matches_ipv4_at s"
    by (simp add: matches_ipv4_at_def quad_text_def) blast
  finally show ?thesis .
qed

lemma matches_nonempty: "\<not> matches_ipv4_at []"
  by (simp add: matches_ipv4_at_def quad_text_def)

lemma splits_of_Cons:
  "(\<exists>pre rest. c # cs = pre @ rest \<and> P pre rest) \<longleftrightarrow> P [] (c # cs) \<or> (\<exists>pre rest. cs = pre @ rest \<and> P (c # pre) rest)"
  by (auto simp: Cons_eq_append_conv)

lemma has_ipv4_iff:
  "has_ipv4 after s \<longleftrightarrow> (\<exists>pre rest. s = pre @ rest
     \<and> (matches_ipv4_at rest \<and> (if pre = [] then \<not> after else \<not> is_ascii_digit (last pre))))"
proof (induction s arbitrary: after)
  case (Cons c cs)
  have "has_ipv4 after (c # cs) \<longleftrightarrow> \<not> after \<and> matches_ipv4_at (c # cs)
      \<or> (\<exists>pre rest. cs = pre @ rest \<and> (matches_ipv4_at rest
          \<and> (if pre = [] then \<not> is_ascii_digit c else \<not> is_ascii_digit (last pre))))"
    by (simp only: has_ipv4.simps Cons.IH dotted_groups_iff)
  also have "(\<lambda>pre rest. matches_ipv4_at rest \<and> (if pre = [] then \<not> is_ascii_digit c else \<not> is_ascii_digit (last pre)))
      = (\<lambda>pre rest. matches_ipv4_at rest \<and> \<not> is_ascii_digit (last (c # pre)))"
    by (simp add: fun_eq_iff)
  finally show ?case unfolding splits_of_Cons by (simp add: conj_commute fun_eq_iff)
qed (simp add: matches_nonempty)

subsection \<open>Traceability\<close>

definition requirement_fields :: "string list" where
  "requirement_fields =
     [''requirement_id'', ''normative_text_ref'', ''owner'', ''schema_ids'', ''producer_tests'', ''consumer_tests'',
      ''simulator_vectors'', ''integration_tests'', ''hil_tests'', ''status'', ''waiver_reason'', ''waiver_expires_at'']"

definition test_fields :: "string list" where
  "test_fields = [''producer_tests'', ''consumer_tests'', ''simulator_vectors'', ''integration_tests'', ''hil_tests'']"

text \<open>\<open>len\<close> of a value, and membership of a set of hashable values.\<close>

fun sized :: "json \<Rightarrow> conformance_error + nat" where
  "sized (JStr s) = Inr (length s)"
| "sized (JArr vs) = Inr (length vs)"
| "sized (JObj kvs) = Inr (length kvs)"
| "sized _ = Inl Wrong_Value_Type"

definition seen_value :: "json list \<Rightarrow> json \<Rightarrow> conformance_error + bool" where
  "seen_value vs v = (if is_container v then Inl Wrong_Value_Type else Inr (list_ex (py_eq v) vs))"

definition check_waiver :: "json \<Rightarrow> conformance_error + unit" where
  "check_waiver r =
     and_then (is_text_at r ''status'' ''waived'') (\<lambda>waived.
     if waived
     then refuse_unless (all_of [flag_at r ''waiver_reason'', flag_at r ''waiver_expires_at''])
            ''waiver must be reasoned and expiring''
     else refuse_unless (all_of [is_value_at r ''waiver_reason'' JNull, is_value_at r ''waiver_expires_at'' JNull])
            ''non-waived requirement carries waiver data'')"

definition check_requirement :: "json list \<Rightarrow> json \<Rightarrow> conformance_error + json list" where
  "check_requirement ids r =
     and_then (object_of r) (\<lambda>kvs.
     and_then (refuse_if (\<not> set requirement_fields \<subseteq> set (map fst kvs)) ''missing traceability fields'') (\<lambda>_.
     and_then (member_of r ''requirement_id'') (\<lambda>requirement_id.
     and_then (refuse_when (seen_value ids requirement_id) ''duplicate requirement id'') (\<lambda>_.
     and_then (map_each (\<lambda>k. and_then (member_of r k) sized) test_fields) (\<lambda>mapped.
     and_then (refuse_if (sum_list mapped = 0) ''requirement has no mapped test'') (\<lambda>_.
     and_then (member_of r ''status'') (\<lambda>status.
     and_then (refuse_unless (seen_value (map JStr [''planned'', ''covered'', ''waived'']) status) ''invalid status'') (\<lambda>_.
     and_then (check_waiver r) (\<lambda>_.
     Inr (ids @ [requirement_id]))))))))))"

definition covered_pair :: "json \<Rightarrow> conformance_error + json \<times> json" where
  "covered_pair c =
     and_then (member_of c ''schema'') (\<lambda>s.
     and_then (member_of c ''definition'') (\<lambda>d.
     if is_container s \<or> is_container d then Inl Wrong_Value_Type else Inr (s, d)))"

definition valid_coverage :: "(string \<Rightarrow> json option) \<Rightarrow> tree_file list \<Rightarrow> conformance_error + (json \<times> json) list" where
  "valid_coverage parse files =
     and_then (map_each (\<lambda>f. and_then (fixtures_of parse f) (map_each covered_pair)) files) (\<lambda>pairs. Inr (concat pairs))"

definition check_schema_covered :: "(json \<times> json) list \<Rightarrow> string \<times> json \<Rightarrow> conformance_error + unit" where
  "check_schema_covered covered schema =
     and_then (definitions_of (snd schema)) (\<lambda>defs.
     each (\<lambda>name. refuse_if ((JStr (fst schema), JStr name) \<notin> set covered) ''no valid fixture'') (map fst defs))"

definition repos_of :: "json \<Rightarrow> string \<Rightarrow> conformance_error + json list" where
  "repos_of document k =
     and_then (and_then (member_of document k) elements_of) (\<lambda>entries.
     map_each (\<lambda>e. and_then (member_of e ''repo'') (\<lambda>r. if is_container r then Inl Wrong_Value_Type else Inr r)) entries)"

definition check_traceability ::
  "(string \<Rightarrow> json option) \<Rightarrow> (string \<times> json) list \<Rightarrow> tree_file list \<Rightarrow> json \<Rightarrow> (unit \<Rightarrow> conformance_error + json)
     \<Rightarrow> (unit \<Rightarrow> conformance_error + json) \<Rightarrow> conformance_error + nat" where
  "check_traceability parse schemas valid_files document baseline matrix =
     and_then (array_at document ''requirements'') (\<lambda>requirements.
     and_then (each_seen check_requirement [] requirements) (\<lambda>_.
     and_then (valid_coverage parse valid_files) (\<lambda>covered.
     and_then (each (check_schema_covered covered) schemas) (\<lambda>_.
     and_then (baseline ()) (\<lambda>b.
     and_then (repos_of b ''repositories'') (\<lambda>expected.
     and_then (matrix ()) (\<lambda>m.
     and_then (repos_of m ''participants'') (\<lambda>taking.
     and_then (repos_of m ''non_participants'') (\<lambda>others.
     and_then (refuse_if (set expected \<noteq> set (taking @ others)) ''producer/consumer ownership mismatch'') (\<lambda>_.
     Inr (length requirements)))))))))))"

text \<open>
  Together the fixtures and the traceability leave no definition untried: each definition of each schema has a case
  among the valid fixtures whose value the validator accepts.
\<close>

lemma map_each_mem: "map_each f xs = Inr ys \<Longrightarrow> y \<in> set ys \<Longrightarrow> \<exists>x\<in>set xs. f x = Inr y"
  by (induction xs arbitrary: ys) (auto simp: and_then_eq_Inr)

lemma fixture_files_checked:
  "check_fixture_files parse messages schemas valid n files = Inr m \<Longrightarrow> f \<in> set files \<Longrightarrow>
     \<exists>cs. fixtures_of parse f = Inr cs \<and> list_all (\<lambda>c. check_fixture messages schemas valid c = Inr ()) cs"
  by (induction files arbitrary: n) (auto simp: and_then_eq_Inr each_ok list_all_iff)

lemma valid_fixture_accepted:
  assumes "check_fixture messages schemas True c = Inr ()" "covered_pair c = Inr (JStr sid, JStr name)"
  obtains v where "member_of c ''value'' = Inr v" "messages (definition_ref sid name) v = []"
proof -
  from assms(2) have "member_of c ''schema'' = Inr (JStr sid)" "member_of c ''definition'' = Inr (JStr name)"
    by (auto simp: covered_pair_def and_then_eq_Inr split: if_splits)
  with assms(1) that show ?thesis
    by (auto simp: check_fixture_def refuse_case_def and_then_eq_Inr Let_def split: if_splits)
qed

lemma definition_covered:
  assumes "check_traceability parse schemas valid_files document baseline matrix = Inr m"
    and "(sid, schema) \<in> set schemas" "definitions_of schema = Inr defs" "name \<in> fst ` set defs"
  obtains f cs c where "f \<in> set valid_files" "fixtures_of parse f = Inr cs" "c \<in> set cs"
    and "covered_pair c = Inr (JStr sid, JStr name)"
proof -
  from assms(1) obtain covered finished where covered: "valid_coverage parse valid_files = Inr covered"
    "each (check_schema_covered covered) schemas = Inr finished"
    unfolding check_traceability_def and_then_eq_Inr by (elim exE conjE) (rule that; assumption)
  from covered(2) assms(2) have "check_schema_covered covered (sid, schema) = Inr ()" by (simp add: each_ok)
  with assms(3,4) have "(JStr sid, JStr name) \<in> set covered"
    by (auto simp: check_schema_covered_def each_ok refuse_if_Inr)
  moreover from covered(1) obtain pairs where
    pairs: "map_each (\<lambda>f. and_then (fixtures_of parse f) (map_each covered_pair)) valid_files = Inr pairs" "covered = concat pairs"
    unfolding valid_coverage_def and_then_eq_Inr by blast
  ultimately obtain ps where ps: "ps \<in> set pairs" "(JStr sid, JStr name) \<in> set ps" by auto
  from map_each_mem [OF pairs(1) ps(1)] obtain f cs where f: "f \<in> set valid_files" "fixtures_of parse f = Inr cs"
    "map_each covered_pair cs = Inr ps"
    by (auto simp: and_then_eq_Inr)
  from map_each_mem [OF f(3) ps(2)] f(1,2) that show ?thesis by blast
qed

text \<open>
  C5. When the fixtures and the traceability check pass, every definition of every schema is tried: some case of the
  valid fixtures is about it and the validator has nothing against its value.
\<close>
theorem every_definition_has_accepted_fixture:
  assumes "check_fixtures parse messages schemas valid_files invalid_files = Inr n"
    and "check_traceability parse schemas valid_files document baseline matrix = Inr m"
    and "(sid, schema) \<in> set schemas" "definitions_of schema = Inr defs" "name \<in> fst ` set defs"
  shows "\<exists>f cs c v. f \<in> set valid_files \<and> fixtures_of parse f = Inr cs \<and> c \<in> set cs
    \<and> covered_pair c = Inr (JStr sid, JStr name)
    \<and> member_of c ''value'' = Inr v \<and> messages (definition_ref sid name) v = []"
proof -
  from assms(1) obtain k where valid: "check_fixture_files parse messages schemas True 0 valid_files = Inr k"
    by (auto simp: check_fixtures_def and_then_eq_Inr)
  obtain f cs c where c: "f \<in> set valid_files" "fixtures_of parse f = Inr cs" "c \<in> set cs"
    "covered_pair c = Inr (JStr sid, JStr name)"
    by (rule definition_covered [OF assms(2-5)])
  from fixture_files_checked [OF valid c(1)] c(2,3) have "check_fixture messages schemas True c = Inr ()"
    by (simp add: list_all_iff)
  then obtain v where "member_of c ''value'' = Inr v" "messages (definition_ref sid name) v = []"
    by (rule valid_fixture_accepted [OF _ c(4)])
  with c show ?thesis by (intro exI conjI)
qed

definition tiny_schema :: json where
  "tiny_schema = JObj [(''$id'', JStr ''s''), (''$defs'', JObj [(''D'', JObj [])])]"

definition tiny_fixture :: json where
  "tiny_fixture = JObj [(''case_id'', JStr ''c''), (''schema'', JStr ''s''), (''definition'', JStr ''D''), (''value'', JInt 1)]"

definition tiny_requirement :: json where
  "tiny_requirement = JObj (map (\<lambda>k. (k, if k = ''status'' then JStr ''covered'' else if k = ''requirement_id'' then JStr ''r''
      else if k = ''waiver_reason'' \<or> k = ''waiver_expires_at'' then JNull else JArr [JStr ''t''])) requirement_fields)"

definition tiny_parse :: "string \<Rightarrow> json option" where
  "tiny_parse _ = Some (JObj [(''cases'', JArr [tiny_fixture])])"

lemmas tiny_defs = tiny_schema_def tiny_fixture_def tiny_parse_def

lemma tiny_fixtures: "fixtures_of tiny_parse f = Inr [tiny_fixture]"
  by (simp add: fixtures_of_def load_json_def tiny_defs elements_of_def)

lemma tiny_definitions: "definitions_of tiny_schema = Inr [(''D'', JObj [])]"
  by (simp add: definitions_of_def object_of_def tiny_defs)

lemma tiny_requirement_ok: "check_requirement [] tiny_requirement = Inr [JStr ''r'']"
  by (simp add: check_requirement_def object_of_def tiny_requirement_def requirement_fields_def refuse_when_def seen_value_def
      test_fields_def refuse_unless_def check_waiver_def is_text_at_def is_value_at_def)

lemma tiny_fixture_passes: "check_fixture (\<lambda>r v. []) [(''s'', tiny_schema)] True tiny_fixture = Inr ()"
proof -
  have "member_of tiny_fixture ''schema'' = Inr (JStr ''s'')" "member_of tiny_fixture ''definition'' = Inr (JStr ''D'')"
    "member_of tiny_fixture ''value'' = Inr (JInt 1)" "check_expected tiny_fixture [] = Inr ()"
    by (simp_all add: tiny_fixture_def check_expected_def object_of_def)
  then show ?thesis by (simp add: check_fixture_def known_key_def as_key_def refuse_case_def tiny_definitions)
qed

theorem every_definition_has_accepted_fixture_witness:
  "check_fixtures tiny_parse (\<lambda>r v. []) [(''s'', tiny_schema)] [(''p'', [])] [] = Inr 1
   \<and> (\<exists>f cs c v. f \<in> set [(''p'', [])] \<and> fixtures_of tiny_parse f = Inr cs \<and> c \<in> set cs
      \<and> covered_pair c = Inr (JStr ''s'', JStr ''D'') \<and> member_of c ''value'' = Inr v)"
proof -
  have fixtures: "check_fixtures tiny_parse (\<lambda>r v. []) [(''s'', tiny_schema)] [(''p'', [])] [] = Inr 1"
    by (simp add: check_fixtures_def tiny_fixtures tiny_fixture_passes)
  have pair: "covered_pair tiny_fixture = Inr (JStr ''s'', JStr ''D'')"
    by (simp add: covered_pair_def tiny_fixture_def)
  have traceability: "check_traceability tiny_parse [(''s'', tiny_schema)] [(''p'', [])]
      (JObj [(''requirements'', JArr [tiny_requirement])]) (\<lambda>_. Inr (JObj [(''repositories'', JArr [])]))
      (\<lambda>_. Inr (JObj [(''participants'', JArr []), (''non_participants'', JArr [])])) = Inr 1"
    by (simp add: check_traceability_def array_at_def array_of_def tiny_requirement_ok valid_coverage_def tiny_fixtures
        pair repos_of_def elements_of_def check_schema_covered_def tiny_definitions)
  show ?thesis
    using fixtures every_definition_has_accepted_fixture [OF fixtures traceability _ tiny_definitions, of "''s''" "''D''"]
    by simp
qed

subsection \<open>The evidence of the first phase\<close>

text \<open>\<open>a < b\<close> of two texts or two numbers; anything else raises, as a text and a number together do.\<close>

fun py_less :: "json \<Rightarrow> json \<Rightarrow> conformance_error + bool" where
  "py_less (JStr s) (JStr t) = Inr (s < t)"
| "py_less v w =
     (case (json_number v, json_number w) of (Some f, Some g) \<Rightarrow> Inr (float_less f g) | _ \<Rightarrow> Inl Wrong_Value_Type)"

fun py_less_eq :: "json \<Rightarrow> json \<Rightarrow> conformance_error + bool" where
  "py_less_eq (JStr s) (JStr t) = Inr (s \<le> t)"
| "py_less_eq v w =
     (case (json_number v, json_number w) of (Some f, Some g) \<Rightarrow> Inr (float_le f g) | _ \<Rightarrow> Inl Wrong_Value_Type)"

definition negated :: "conformance_error + bool \<Rightarrow> conformance_error + bool" where
  "negated c = and_then c (\<lambda>b. Inr (\<not> b))"

definition less_at :: "json \<Rightarrow> string \<Rightarrow> json \<Rightarrow> string \<Rightarrow> conformance_error + bool" where
  "less_at v k w l = and_then (member_of v k) (\<lambda>x. and_then (member_of w l) (\<lambda>y. py_less x y))"

text \<open>\<open>{item["name"]: item for item in items}\<close>: a later item takes the place of an earlier one of the name.\<close>

definition named_items :: "json list \<Rightarrow> conformance_error + (json \<times> json) list" where
  "named_items items =
     and_then (map_each (\<lambda>item. and_then (member_of item ''name'') (\<lambda>name.
         if is_container name then Inl Wrong_Value_Type else Inr (name, item))) items) (\<lambda>pairs.
     Inr (fold (\<lambda>(k, v). AList.update k v) pairs []))"

definition check_topologies :: "json \<Rightarrow> conformance_error + unit" where
  "check_topologies evidence =
     and_then (and_then (and_then (member_of evidence ''topologies'') elements_of) named_items) (\<lambda>topologies.
     refuse_unless
       (if set (map fst topologies) \<noteq> JStr ` {''single-host'', ''host-relocated'', ''host-loss-recovered''} then Inr False
        else all_of (map (\<lambda>t. is_flag_at (snd t) ''passed'' True) topologies))
       ''P1 evidence does not cover all required topology fixtures'')"

definition check_host :: "json \<Rightarrow> conformance_error + unit" where
  "check_host host =
     and_then (refuse_unless (all_of [is_text_at host ''deployment_status'' ''activated'', is_flag_at host ''application_ready'' True])
       ''P1 Host deployment was not healthy and activated'') (\<lambda>_.
     and_then (refuse_unless (is_int_at host ''service_restart_count'' 0) ''P1 Host services restarted during acceptance'') (\<lambda>_.
     and_then (refuse_unless (members_equal host ''device_accepted_directory_revision'' host ''directory_revision'')
       ''device did not accept the deployed Owner directory revision'') (\<lambda>_.
     refuse_unless (is_flag_at host ''device_operational_ready'' True)
       ''device did not reach confirmed operational readiness'')))"

definition check_move :: "(json \<Rightarrow> string) \<Rightarrow> json \<Rightarrow> json \<Rightarrow> json \<Rightarrow> conformance_error + unit" where
  "check_move render evidence host_a host_b =
     and_then (refuse_when (members_equal host_a ''admission_uri'' host_b ''admission_uri'')
       ''P1 Host relocation evidence does not move the Admission endpoint'') (\<lambda>_.
     and_then (refuse_when (members_equal host_a ''device_control_uri'' host_b ''device_control_uri'')
       ''P1 Host relocation evidence does not move Device Control endpoint'') (\<lambda>_.
     and_then (and_then (member_of evidence ''owner_identity'') (\<lambda>owner. member_of owner ''owner_domain_id'')) (\<lambda>owner_id.
     let name = (case owner_id of JStr s \<Rightarrow> s | v \<Rightarrow> render v);
         audiences = JArr [JStr (name @ '':admission''), JStr (name @ '':device-control'')] in
     refuse_unless (all_of [is_value_at host_a ''logical_audiences'' audiences, is_value_at host_b ''logical_audiences'' audiences])
       ''P1 Host move changed logical Authority addressing'')))"

definition check_owner_files :: "json \<Rightarrow> conformance_error + unit" where
  "check_owner_files owner =
     and_then (refuse_unless (and_then (member_of owner ''runtime_public_files'') (\<lambda>files.
         same_texts files [''authority_signing_certificate.pem'', ''owner_domain_descriptor.json'', ''owner_domain_root_ca.pem'']))
       ''Owner runtime directory contains an unexpected artifact set'') (\<lambda>_.
     refuse_unless (is_flag_at owner ''runtime_contains_directory_signing_private_key'' False)
       ''Host runtime can access the Owner directory signing private key'')"

definition check_preserved :: "json \<Rightarrow> json \<Rightarrow> json \<Rightarrow> json \<Rightarrow> conformance_error + unit" where
  "check_preserved device limits host_a host_b =
     and_then (member_of device ''p1_preserved_kernel_projection'') (\<lambda>projection.
     and_then (refuse_unless (all_of
         [negated (and_then (member_of projection ''mount_revision'') (\<lambda>r. py_less r (JInt 1))),
          is_flag_at projection ''active'' True, flag_at projection ''attached_companion_id'',
          less_at projection ''updated_at'' host_a ''activation_receipt_observed_at'',
          less_at host_a ''activation_receipt_observed_at'' host_b ''activation_receipt_observed_at''])
       ''Kernel Mount projection was not stable across Host relocation'') (\<lambda>_.
     and_then (member_of device ''entered_commissioning_during_authority_move'') (\<lambda>entered.
     and_then (member_of device ''nvs_erased'') (\<lambda>erased.
     and_then (refuse_if (entered \<noteq> JBool False \<or> erased \<noteq> JBool False)
       ''Host relocation changed commissioning or erased device state'') (\<lambda>_.
     and_then (object_of limits) (\<lambda>kept.
     refuse_if (list_ex (\<lambda>k. map_of kept k \<noteq> Some (JBool True))
         [''commissioning_was_not_repeated_for_host_move'', ''device_claim_was_not_recreated'',
          ''mount_or_assignment_was_not_mutated'', ''nvs_was_not_erased'', ''production_device_control_was_not_implemented''])
       ''P1 HIL boundary or preserved-state assertion is missing''))))))"

definition check_storage :: "json \<Rightarrow> conformance_error + unit" where
  "check_storage storage =
     and_then (refuse_unless (is_flag_at storage ''default_nvs_contains_owner_trust_keys'' False)
       ''legacy shared NVS still owns active Owner trust'') (\<lambda>_.
     refuse_unless (all_of
         [and_then (member_of storage ''owner_trust_slots'') (\<lambda>slots. same_texts slots [''ot0'', ''ot1'']),
          is_flag_at storage ''active_slot_pointer_present'' True])
       ''durable Owner trust does not have two-slot publication evidence'')"

text \<open>\<open>[0-9a-f]{n}\<close>, in full; a value that is no text raises.\<close>

definition hex_of_length :: "nat \<Rightarrow> json \<Rightarrow> conformance_error + bool" where
  "hex_of_length n v = and_then (or_raise Wrong_Value_Type (text_value v)) (\<lambda>s. Inr (length s = n \<and> list_all is_lower_hex s))"

definition check_digests :: "json \<Rightarrow> json \<Rightarrow> json \<Rightarrow> conformance_error + unit" where
  "check_digests owner host_b storage =
     and_then (map_each (\<lambda>(v, k). member_of v k)
       [(owner, ''owner_root_certificate_sha256''), (owner, ''authority_signing_certificate_sha256''),
        (host_b, ''release_bundle_sha256''), (host_b, ''descriptor_sha256''),
        (storage, ''default_nvs_dump_sha256''), (storage, ''owner_trust_dump_sha256'')]) (\<lambda>digests.
     refuse_unless (all_of (map (hex_of_length 64) digests)) ''P1 evidence contains a malformed SHA-256 digest'')"

definition check_heads :: "json \<Rightarrow> conformance_error + unit" where
  "check_heads evidence =
     and_then (member_of evidence ''release_source_heads'') (\<lambda>heads.
     and_then (sized heads) (\<lambda>n.
     refuse_unless (if n \<noteq> 8 then Inr False
         else and_then (object_of heads) (\<lambda>kvs. all_of (map (hex_of_length 40) (map snd kvs))))
       ''P1 release source set is incomplete or malformed''))"

definition check_p1_exit_evidence :: "(json \<Rightarrow> string) \<Rightarrow> json \<Rightarrow> conformance_error + nat" where
  "check_p1_exit_evidence render evidence =
     and_then (refuse_unless (is_text_at evidence ''scope''
         ''P1 Host-independent addressing only; no P2-P4 authority semantics are claimed'')
       ''P1 evidence overclaims its authority scope'') (\<lambda>_.
     and_then (check_topologies evidence) (\<lambda>_.
     and_then (member_of evidence ''host_a'') (\<lambda>host_a.
     and_then (member_of evidence ''host_b'') (\<lambda>host_b.
     and_then (member_of host_b ''directory_revision'') (\<lambda>revision_b.
     and_then (member_of host_a ''directory_revision'') (\<lambda>revision_a.
     and_then (refuse_when (py_less_eq revision_b revision_a) ''P1 Host B directory revision does not advance'') (\<lambda>_.
     and_then (each check_host [host_a, host_b]) (\<lambda>_.
     and_then (check_move render evidence host_a host_b) (\<lambda>_.
     and_then (member_of evidence ''owner_identity'') (\<lambda>owner.
     and_then (check_owner_files owner) (\<lambda>_.
     and_then (member_of evidence ''device'') (\<lambda>device.
     and_then (member_of evidence ''hil_constraints'') (\<lambda>limits.
     and_then (check_preserved device limits host_a host_b) (\<lambda>_.
     and_then (member_of evidence ''durable_trust_storage'') (\<lambda>storage.
     and_then (check_storage storage) (\<lambda>_.
     and_then (check_digests owner host_b storage) (\<lambda>_.
     and_then (check_heads evidence) (\<lambda>_.
     Inr 1))))))))))))))))))"

subsection \<open>The run\<close>

text \<open>What the checks call, and the tree of contract files; \<open>sorted_files\<close> is the order of the paths.\<close>

record conformance_tools =
  ct_parse :: "string \<Rightarrow> json option"
  ct_loads :: "string \<Rightarrow> json option"
  ct_sound :: "json \<Rightarrow> bool"
  ct_known :: "json \<Rightarrow> bool"
  ct_messages :: "(string \<times> json) list \<Rightarrow> json \<Rightarrow> json \<Rightarrow> string list"
  ct_canon :: "json \<Rightarrow> byte list option"
  ct_ecdsa :: ecdsa
  ct_p256 :: "byte list \<Rightarrow> bool option"
  ct_pem :: "string \<Rightarrow> byte list option"
  ct_public :: "nat \<Rightarrow> byte list"
  ct_dh :: "nat \<Rightarrow> nat \<Rightarrow> byte list"
  ct_seal :: aead
  ct_opened :: aead_open
  ct_hkdf :: "nat \<Rightarrow> byte list option \<Rightarrow> byte list \<Rightarrow> byte list \<Rightarrow> byte list"
  ct_encode :: "json_object \<Rightarrow> byte list \<Rightarrow> string"
  ct_decode :: "string \<Rightarrow> byte list \<Rightarrow> json_object option"
  ct_render :: "json \<Rightarrow> string"
  ct_now :: int
  ct_now_ms :: int

record contract_tree =
  tr_document :: "string \<Rightarrow> string option"
  tr_schemas :: "tree_file list"
  tr_valid :: "tree_file list"
  tr_invalid :: "tree_file list"
  tr_sorted :: "tree_file list \<Rightarrow> tree_file list"

definition document :: "conformance_tools \<Rightarrow> contract_tree \<Rightarrow> string \<Rightarrow> conformance_error + json" where
  "document tools tree path = and_then (or_raise Missing_File (tr_document tree path)) (load_json (ct_parse tools))"

definition golden :: "conformance_tools \<Rightarrow> contract_tree \<Rightarrow> string \<Rightarrow> conformance_error + json" where
  "golden tools tree name = document tools tree (''golden/'' @ name @ ''.json'')"

definition configuration_schema_id :: string where
  "configuration_schema_id = ''https://contracts.eidolon.live/device-foundation/v1/device-control/schemas.schema.json''"

definition signature_checks ::
  "conformance_tools \<Rightarrow> contract_tree \<Rightarrow> (string \<times> json) list \<Rightarrow> (string \<times> (conformance_error + nat)) list" where
  "signature_checks tools tree schemas =
    (let g = golden tools tree; canon = ct_canon tools; ecdsa = ct_ecdsa tools; p256 = ct_p256 tools in
     [(''canonical_vectors'', and_then (g ''canonical-vectors'') (check_canonical_vectors canon)),
      (''es256_vectors'', and_then (g ''es256-vectors'') (\<lambda>v. and_then (g ''canonical-vectors'') (\<lambda>c.
         check_es256_vectors canon ecdsa p256 c v))),
      (''device_local_erase_vectors'', and_then (g ''device-local-erase'') (check_device_local_erase_vector canon ecdsa p256)),
      (''device_delivery_vectors'', and_then (g ''device-delivery'') (\<lambda>v. and_then (g ''device-local-erase'') (\<lambda>e.
         check_device_delivery_vector canon ecdsa p256 e v))),
      (''device_manifest_vectors'', and_then (g ''device-manifest'') (check_device_manifest_vector canon (ct_loads tools))),
      (''claim_revoke_vectors'', and_then (g ''claim-revoke'') (check_claim_revoke_vector canon)),
      (''owner_directory_vectors'',
         and_then (g ''owner-domain-descriptor'') (check_owner_directory_vector canon ecdsa p256 (ct_pem tools))),
      (''setup_descriptor_vectors'',
         and_then (g ''setup-descriptor'') (check_setup_descriptor_vector canon (ct_messages tools schemas) schemas))])"

definition sealing_checks :: "conformance_tools \<Rightarrow> contract_tree \<Rightarrow> (string \<times> (conformance_error + nat)) list" where
  "sealing_checks tools tree =
    (let g = golden tools tree; canon = ct_canon tools; ecdsa = ct_ecdsa tools in
     [(''hpke_vectors'', and_then (g ''rfc9180-p256-base'') (check_hpke_vector (ct_public tools) (ct_dh tools) (ct_seal tools))),
      (''claim_grant_aad_checks'', and_then (g ''claim-grant-aad'') (check_claim_grant_aad canon (ct_opened tools))),
      (''claim_grant_wire_checks'', and_then (g ''claim-grant-wire-envelope'') (check_claim_grant_wire_envelope canon)),
      (''claim_grant_proof_checks'',
         and_then (g ''claim-grant-collection-proof'') (\<lambda>c. and_then (g ''claim-grant-ack-proof'') (\<lambda>a.
         check_claim_grant_proof_vectors canon ecdsa c a))),
      (''device_control_proof_checks'',
         and_then (g ''device-control-configuration-proof'') (\<lambda>c.
         and_then (g ''device-control-manifest-assertion-proof'') (\<lambda>a.
         and_then (g ''device-manifest'') (\<lambda>m.
         check_device_control_proof_vectors canon ecdsa (ct_loads tools) m c a))))])"

definition rule_checks ::
  "conformance_tools \<Rightarrow> contract_tree \<Rightarrow> (string \<times> json) list \<Rightarrow> (string \<times> (conformance_error + nat)) list" where
  "rule_checks tools tree schemas =
    (let g = golden tools tree; canon = ct_canon tools in
     [(''livekit_session_binding_checks'',
         and_then (g ''livekit-session-binding'') (check_livekit_session_binding canon (ct_render tools))),
      (''device_configuration_response_checks'',
         and_then (g ''device-control-configuration-response'') (\<lambda>v. and_then (g ''livekit-session-binding'') (\<lambda>inner.
         check_device_configuration_response canon
           (ct_messages tools schemas (JStr (definition_ref configuration_schema_id ''DeviceConfigurationResult'')))
           (ct_now_ms tools) inner v))),
      (''claim_event_stream_vectors'', and_then (g ''admission-event-stream'') (check_admission_event_stream canon)),
      (''protocomm_vectors'', and_then (g ''protocomm-security2-framing'') (check_protocomm_framing canon)),
      (''commissioning_voucher'', and_then (g ''commissioning-voucher'')
         (check_commissioning_voucher canon (ct_ecdsa tools) (ct_p256 tools) (ct_hkdf tools))),
      (''profiles'', and_then (document tools tree ''profile/eidolon-trust-p256-hpke-v1.json'') check_profile),
      (''host_independent_sources'',
         check_host_independence (ct_parse tools) (tr_sorted tree (tr_schemas tree @ tr_valid tree))),
      (''requirements'', and_then (document tools tree ''requirements/requirements.json'') (\<lambda>r.
         check_traceability (ct_parse tools) schemas (tr_valid tree) r
           (\<lambda>_. document tools tree ''baseline/cross-repo-heads.v1.json'')
           (\<lambda>_. document tools tree ''requirements/consumer-matrix.json'')))])"

definition state_checks :: "conformance_tools \<Rightarrow> contract_tree \<Rightarrow> conformance_error + nat" where
  "state_checks tools tree =
     and_then (map_each (\<lambda>name. document tools tree (''state-vectors/'' @ name @ ''.json''))
       [''host-relocation'', ''idempotency'', ''operation-terminal'', ''device-local-erase'', ''hardware-rejoin'',
        ''commissioning-runtime'']) (\<lambda>vectors.
     and_then (golden tools tree ''commissioning-voucher'') (\<lambda>voucher.
     case vectors of
       [host, idempotency, operation, erase, rejoin, commissioning] \<Rightarrow>
         check_state_vectors host idempotency operation erase rejoin voucher commissioning
     | _ \<Rightarrow> Inl Missing_File))"

definition identity_checks :: "conformance_tools \<Rightarrow> contract_tree \<Rightarrow> (string \<times> (conformance_error + nat)) list" where
  "identity_checks tools tree =
    (let g = golden tools tree in
     [(''state_vectors'', state_checks tools tree),
      (''admission_credential'', and_then (g ''admission-credential'')
         (check_admission_credential (ct_encode tools) (ct_decode tools) (ct_render tools) (ct_now tools))),
      (''device_instance_derivation'', and_then (g ''device-instance-derivation'') check_device_instance_derivation),
      (''p1_exit_evidence'', and_then (document tools tree ''evidence/p1-host-independence.json'')
         (check_p1_exit_evidence (ct_render tools)))])"

definition run :: "conformance_tools \<Rightarrow> contract_tree \<Rightarrow> conformance_error + (string \<times> nat) list" where
  "run tools tree =
     and_then (load_schemas (ct_parse tools) (ct_sound tools) (ct_known tools) [] (tr_schemas tree)) (\<lambda>schemas.
     map_each (\<lambda>(name, result). and_then result (\<lambda>n. Inr (name, n)))
       ([(''schemas'', Inr (length schemas)),
         (''fixtures'', check_fixtures (ct_parse tools) (\<lambda>r. ct_messages tools schemas (JStr r)) schemas (tr_valid tree) (tr_invalid tree))]
        @ signature_checks tools tree schemas @ sealing_checks tools tree @ rule_checks tools tree schemas
        @ identity_checks tools tree))"

text \<open>A run that returns has loaded schemas of distinct ids, has left no definition without an accepted fixture, and counts them.\<close>

lemma load_schemas_distinct:
  "load_schemas parse sound known found files = Inr schemas \<Longrightarrow> distinct (map fst found) \<Longrightarrow> distinct (map fst schemas)"
  by (induction files arbitrary: found) (auto simp: and_then_eq_Inr refuse_if_Inr split: if_splits)

lemma load_schemas_sound:
  "load_schemas parse sound known found files = Inr schemas \<Longrightarrow> list_all (\<lambda>s. sound (snd s)) found \<Longrightarrow>
     list_all (\<lambda>s. sound (snd s)) schemas"
  by (induction files arbitrary: found) (auto simp: and_then_eq_Inr split: if_splits)

lemma map_each_all: "map_each f xs = Inr ys \<Longrightarrow> x \<in> set xs \<Longrightarrow> \<exists>y. f x = Inr y"
  by (induction xs arbitrary: ys) (auto simp: and_then_eq_Inr)

lemma run_checks:
  assumes "run tools tree = Inr results"
  obtains schemas n m requirements where
    "load_schemas (ct_parse tools) (ct_sound tools) (ct_known tools) [] (tr_schemas tree) = Inr schemas"
    and "check_fixtures (ct_parse tools) (\<lambda>r. ct_messages tools schemas (JStr r)) schemas (tr_valid tree) (tr_invalid tree) = Inr n"
    and "document tools tree ''requirements/requirements.json'' = Inr requirements"
    and "check_traceability (ct_parse tools) schemas (tr_valid tree) requirements
           (\<lambda>_. document tools tree ''baseline/cross-repo-heads.v1.json'')
           (\<lambda>_. document tools tree ''requirements/consumer-matrix.json'') = Inr m"
proof -
  from assms obtain schemas where schemas: "load_schemas (ct_parse tools) (ct_sound tools) (ct_known tools) [] (tr_schemas tree) = Inr schemas"
    and checks: "map_each (\<lambda>(name, result). and_then result (\<lambda>n. Inr (name, n)))
       ([(''schemas'', Inr (length schemas)),
         (''fixtures'', check_fixtures (ct_parse tools) (\<lambda>r. ct_messages tools schemas (JStr r)) schemas (tr_valid tree) (tr_invalid tree))]
        @ signature_checks tools tree schemas @ sealing_checks tools tree @ rule_checks tools tree schemas
        @ identity_checks tools tree) = Inr results"
    unfolding run_def and_then_eq_Inr by blast
  have fixtures: "\<exists>n. check_fixtures (ct_parse tools) (\<lambda>r. ct_messages tools schemas (JStr r)) schemas (tr_valid tree)
      (tr_invalid tree) = Inr n"
    using map_each_all [OF checks, of "(''fixtures'', check_fixtures (ct_parse tools) (\<lambda>r. ct_messages tools schemas (JStr r))
      schemas (tr_valid tree) (tr_invalid tree))"] by (simp add: and_then_eq_Inr)
  let ?traced = "and_then (document tools tree ''requirements/requirements.json'') (\<lambda>r.
         check_traceability (ct_parse tools) schemas (tr_valid tree) r
           (\<lambda>_. document tools tree ''baseline/cross-repo-heads.v1.json'')
           (\<lambda>_. document tools tree ''requirements/consumer-matrix.json''))"
  have "(''requirements'', ?traced) \<in> set (rule_checks tools tree schemas)"
    by (simp add: rule_checks_def Let_def)
  then have "\<exists>y. (\<lambda>(name, result). and_then result (\<lambda>n. Inr (name, n))) (''requirements'', ?traced) = Inr y"
    by (intro map_each_all [OF checks]) simp
  then have "\<exists>m. ?traced = Inr m" by (auto simp: and_then_eq_Inr)
  with schemas fixtures that show ?thesis by (auto simp: and_then_eq_Inr)
qed

end
