(* ===== verification/Sha256_Vectors.thy ===== *)
theory Sha256_Vectors
  imports Sha256
begin

unbundle bit_operations_syntax

text \<open>
  Known answers of \<open>hashlib.sha256\<close>, evaluated by the simplifier: the constants of the standard, the schedule of a message
  and its 64 rounds. They are what makes the definitions of \<open>Sha256\<close> the function the code calls.
\<close>

subsection \<open>The constants\<close>

lemma small_factor:
  assumes "(n :: nat) < 324" "2 \<le> d" "d < n" "n mod d = 0"
  shows "\<exists>p \<in> {2, 3, 5, 7, 11, 13, 17}. p < n \<and> n mod p = 0"
proof -
  have "n = d * (n div d)" using mult_div_mod_eq [of d n] assms(4) by simp
  then obtain e where e: "n = d * e" by blast
  have "\<not> (18 \<le> d \<and> 18 \<le> e)"
  proof
    assume "18 \<le> d \<and> 18 \<le> e"
    then have "18 * 18 \<le> d * e" by (intro mult_le_mono) simp_all
    then show False using assms(1) e by simp
  qed
  then have small: "e \<le> 17" if "\<not> d \<le> 17" using that by linarith
  have "2 \<le> e"
  proof (rule ccontr)
    assume "\<not> 2 \<le> e"
    then have "e = 0 \<or> e = 1" by linarith
    then show False using assms(3) e by auto
  qed
  then have "e < n" "n mod e = 0" using assms(2) e by simp_all
  then obtain m where m: "2 \<le> m" "m \<le> 17" "m < n" "n mod m = 0"
    using assms(2-4) small \<open>2 \<le> e\<close> that [of d] that [of e] by (cases "d \<le> 17") simp_all
  have "list_all (\<lambda>m. list_ex (\<lambda>p. p \<le> m \<and> m mod p = 0) [2, 3, 5, 7, 11, 13, 17]) [2..<18 :: nat]" by code_simp
  then have "list_ex (\<lambda>p. p \<le> m \<and> m mod p = 0) [2, 3, 5, 7, 11, 13, 17]"
    unfolding list_all_iff set_upt by (rule bspec) (use m(1,2) in \<open>unfold atLeastLessThan_iff, linarith\<close>)
  then have "\<exists>p \<in> set [2, 3, 5, 7, 11, 13, 17]. p \<le> m \<and> m mod p = 0" unfolding list_ex_iff .
  then obtain p where p: "p \<in> set [2, 3, 5, 7, 11, 13, 17]" "p \<le> m" "m mod p = 0"
    unfolding Bex_def by (elim exE conjE)
  have "n mod p = 0" using dvd_trans [of p m n] p(3) m(4) unfolding mod_eq_0_iff_dvd .
  moreover have "p < n" using p(2) m(3) by linarith
  ultimately show ?thesis using p(1) unfolding list.set Bex_def by (intro exI conjI)
qed

definition trial :: "nat \<Rightarrow> bool" where
  "trial n \<longleftrightarrow> list_all (\<lambda>p. n \<le> p \<or> n mod p \<noteq> 0) [2, 3, 5, 7, 11, 13, 17]"

lemma trial_division: "n < 324 \<Longrightarrow> list_all (\<lambda>d. n mod d \<noteq> 0) [2..<n] = trial n"
proof
  assume "n < 324" "trial n"
  then have "\<not> (\<exists>p \<in> {2, 3, 5, 7, 11, 13, 17}. p < n \<and> n mod p = 0)" by (auto simp: trial_def)
  with small_factor [OF \<open>n < 324\<close>] have "n mod d \<noteq> 0" if "2 \<le> d" "d < n" for d using that by blast
  then show "list_all (\<lambda>d. n mod d \<noteq> 0) [2..<n]" by (simp add: list_all_iff)
next
  assume "list_all (\<lambda>d. n mod d \<noteq> 0) [2..<n]"
  then have "n \<le> p \<or> n mod p \<noteq> 0" if "2 \<le> p" for p using that by (cases "p < n") (simp_all add: list_all_iff)
  note this [of 2] this [of 3] this [of 5] this [of 7] this [of 11] this [of 13] this [of 17]
  then show "trial n" by (simp add: trial_def)
qed

lemma primes_known: "primes_below 312 =
    [2, 3, 5, 7, 11, 13, 17, 19, 23, 29, 31, 37, 41, 43, 47, 53, 59, 61, 67, 71, 73, 79, 83, 89, 97, 101, 103, 107,
     109, 113, 127, 131, 137, 139, 149, 151, 157, 163, 167, 173, 179, 181, 191, 193, 197, 199, 211, 223, 227, 229,
     233, 239, 241, 251, 257, 263, 269, 271, 277, 281, 283, 293, 307, 311]"
proof -
  have "primes_below 312 = filter trial [2..<312]"
    unfolding primes_below_def
  proof (rule filter_cong [OF refl])
    fix n :: nat assume "n \<in> set [2..<312]"
    then have "n < 324" unfolding set_upt atLeastLessThan_iff by linarith
    then show "list_all (\<lambda>d. n mod d \<noteq> 0) [2..<n] = trial n" by (rule trial_division)
  qed
  then show ?thesis by (simp add: upt_rec_numeral trial_def)
qed

lemma round_constants_known: "round_constants =
    [1116352408, 1899447441, 3049323471, 3921009573, 961987163, 1508970993, 2453635748, 2870763221,
      3624381080, 310598401, 607225278, 1426881987, 1925078388, 2162078206, 2614888103, 3248222580,
      3835390401, 4022224774, 264347078, 604807628, 770255983, 1249150122, 1555081692, 1996064986,
      2554220882, 2821834349, 2952996808, 3210313671, 3336571891, 3584528711, 113926993, 338241895,
      666307205, 773529912, 1294757372, 1396182291, 1695183700, 1986661051, 2177026350, 2456956037,
      2730485921, 2820302411, 3259730800, 3345764771, 3516065817, 3600352804, 4094571909, 275423344,
      430227734, 506948616, 659060556, 883997877, 958139571, 1322822218, 1537002063, 1747873779,
      1955562222, 2024104815, 2227730452, 2361852424, 2428436474, 2756734187, 3204031479, 3329325298]"
  unfolding round_constants_def primes_known by code_simp

lemma initial_hash_known: "initial_hash =
    (0x6a09e667, 0xbb67ae85, 0x3c6ef372, 0xa54ff53a, 0x510e527f, 0x9b05688c, 0x1f83d9ab, 0x5be0cd19)"
  by code_simp

subsection \<open>One block\<close>

text \<open>The simplifier adds numerals without wrapping them; \<open>reduced\<close> marks where it is to.\<close>

definition reduced :: "word32 \<Rightarrow> word32" where
  "reduced w = w"

lemma word_of_nat_mod: "(word_of_nat (k mod 4294967296) :: word32) = word_of_nat k"
  by (simp add: word_of_nat_eq_iff take_bit_eq_mod)

lemma reduced_numeral: "reduced (numeral n) = word_of_nat (numeral n mod 4294967296)"
  unfolding word_of_nat_mod by (simp add: reduced_def)

lemma round_reduced:
  "sha_round (a, b, c, d, e, f, g, h) (k, w) =
     (let t1 = reduced (h + big_sigma1 e + sha_choose e f g + k + w);
          t2 = big_sigma0 a + sha_majority a b c
      in (reduced (t1 + t2), a, b, c, reduced (d + t1), e, f, g))"
  by (simp add: reduced_def Let_def)

lemma extend_reduced:
  "extend_schedule (numeral n) w =
     extend_schedule (pred_numeral n) (reduced (small_sigma1 (w ! 1) + w ! 6 + small_sigma0 (w ! 14) + w ! 15) # w)"
  by (simp add: numeral_eq_Suc reduced_def)

lemma sum_reduced:
  "add_states (a, b, c, d, e, f, g, h) (a', b', c', d', e', f', g', h') =
     (reduced (a + a'), reduced (b + b'), reduced (c + c'), reduced (d + d'), reduced (e + e'), reduced (f + f'),
      reduced (g + g'), reduced (h + h'))"
  by (simp add: reduced_def)

lemma one_round: "sha_round s x = t \<Longrightarrow> foldl sha_round t xs = r \<Longrightarrow> foldl sha_round s (x # xs) = r"
  by simp

lemma one_block:
  assumes "words_of (sha_pad m) = ws" "length ws = 16" "schedule ws = sched"
    and "foldl sha_round initial_hash (zip round_constants sched) = t"
  shows "sha256 m = concat (map word_bytes (state_words (add_states initial_hash t)))"
  using assms by (simp add: sha256_def compress_def Let_def)

lemmas sigma_defs = small_sigma0_def small_sigma1_def big_sigma0_def big_sigma1_def sha_choose_def sha_majority_def rotr_def
  reduced_numeral

subsection \<open>Another key\<close>

lemma another_key_words: "words_of (sha_pad (utf8 ''another operational key'')) =
     [0x616e6f74, 0x68657220, 0x6f706572, 0x6174696f, 0x6e616c20, 0x6b657980, 0, 0, 0, 0, 0, 0, 0, 0, 0, 0xb8]"
  by code_simp

lemma another_key_schedule: "schedule
     [0x616e6f74, 0x68657220, 0x6f706572, 0x6174696f, 0x6e616c20, 0x6b657980, 0, 0, 0, 0, 0, 0, 0, 0, 0, 0xb8] =
     [0x616e6f74, 0x68657220, 0x6f706572, 0x6174696f, 0x6e616c20, 0x6b657980, 0, 0, 0, 0, 0, 0, 0, 0, 0, 0xb8,
      0x72c2ee2d, 0x591ce9d8, 0x62f7ca96, 0x614ebeca, 0xde3d2c11, 0xf409a8a1, 0x33bd5c4a, 0x543cb51c, 0x5ebd9ad6,
      0x2f307a4a, 0xdf750ab9, 0x10a4ca71, 0x1845b1b7, 0x302fdfbe, 0x33563378, 0x6218f61c, 0x3bae573, 0x70a5be7d,
      0xd90d7711, 0x560157ff, 0x5b0afc10, 0x6d77fb8c, 0xd6dc3187, 0x1c83e13a, 0xfd54e47d, 0xbff99b23, 0xf6ae0be4,
      0x6be0182a, 0xd7fb2386, 0x90e8f8ab, 0x4e609c25, 0x21ff447a, 0xbca4b80b, 0x1765b7c1, 0xb1ad0df3, 0x2fed4870,
      0xfef6c636, 0xe22e4cee, 0x44a58fda, 0xa64a0a18, 0xc10a0f8f, 0xbcf1f44, 0xcc430848, 0xb6d07d82, 0x1a5e0abd,
      0x6b44c356, 0xda1cfe9b, 0xbd3af5b]"
  by (simp add: schedule_def extend_reduced sigma_defs)

lemma another_key_rounds: "foldl sha_round
     (0x6a09e667, 0xbb67ae85, 0x3c6ef372, 0xa54ff53a, 0x510e527f, 0x9b05688c, 0x1f83d9ab, 0x5be0cd19)
     (zip
     [1116352408, 1899447441, 3049323471, 3921009573, 961987163, 1508970993, 2453635748, 2870763221,
      3624381080, 310598401, 607225278, 1426881987, 1925078388, 2162078206, 2614888103, 3248222580,
      3835390401, 4022224774, 264347078, 604807628, 770255983, 1249150122, 1555081692, 1996064986,
      2554220882, 2821834349, 2952996808, 3210313671, 3336571891, 3584528711, 113926993, 338241895,
      666307205, 773529912, 1294757372, 1396182291, 1695183700, 1986661051, 2177026350, 2456956037,
      2730485921, 2820302411, 3259730800, 3345764771, 3516065817, 3600352804, 4094571909, 275423344,
      430227734, 506948616, 659060556, 883997877, 958139571, 1322822218, 1537002063, 1747873779,
      1955562222, 2024104815, 2227730452, 2361852424, 2428436474, 2756734187, 3204031479, 3329325298]
     [0x616e6f74, 0x68657220, 0x6f706572, 0x6174696f, 0x6e616c20, 0x6b657980, 0, 0, 0, 0, 0, 0, 0, 0, 0, 0xb8,
      0x72c2ee2d, 0x591ce9d8, 0x62f7ca96, 0x614ebeca, 0xde3d2c11, 0xf409a8a1, 0x33bd5c4a, 0x543cb51c, 0x5ebd9ad6,
      0x2f307a4a, 0xdf750ab9, 0x10a4ca71, 0x1845b1b7, 0x302fdfbe, 0x33563378, 0x6218f61c, 0x3bae573, 0x70a5be7d,
      0xd90d7711, 0x560157ff, 0x5b0afc10, 0x6d77fb8c, 0xd6dc3187, 0x1c83e13a, 0xfd54e47d, 0xbff99b23, 0xf6ae0be4,
      0x6be0182a, 0xd7fb2386, 0x90e8f8ab, 0x4e609c25, 0x21ff447a, 0xbca4b80b, 0x1765b7c1, 0xb1ad0df3, 0x2fed4870,
      0xfef6c636, 0xe22e4cee, 0x44a58fda, 0xa64a0a18, 0xc10a0f8f, 0xbcf1f44, 0xcc430848, 0xb6d07d82, 0x1a5e0abd,
      0x6b44c356, 0xda1cfe9b, 0xbd3af5b]) =
     (0x1194cff8, 0xfcb6b8d0, 0xe036138b, 0x818892c3, 0x6a9467b4, 0x59b6b9df, 0x7782c2f0, 0xe2b1b3d8)"
  unfolding zip_Cons_Cons zip_Nil
  by ((rule one_round, simp add: round_reduced sigma_defs Let_def del: sha_round.simps)+, simp only: foldl_Nil)

lemma another_key_digest: "sha256_hex (utf8 ''another operational key'') = ''7b9eb65fb81e67551ca506fd26d887fdbba2ba33f4bc226b97069c9b3e9280f1''"
proof -
  note digest = one_block [OF another_key_words _ another_key_schedule another_key_rounds [folded round_constants_known initial_hash_known]]
  show ?thesis
    by (simp add: sha256_hex_def digest initial_hash_known sum_reduced reduced_numeral word_bytes_def hex_digit_def char_of_def bit_iff_odd
        del: add_states.simps)
qed

end
