(* ===== verification/Vector_Generation.thy ===== *)
theory Vector_Generation
  imports Conformance_Sealing Json_Text
begin

text \<open>
  The generators of the signed vectors, \<open>contracts/device_foundation/v1/generation/_vector_helpers.py\<close>,
  \<open>regenerate_claim_grant_proof_goldens.py\<close>, \<open>regenerate_device_control_proof_goldens.py\<close> and
  \<open>regenerate_ph2_goldens.py\<close>: what each writes, and that what the first two write passes the checks of the conformance
  runner. Canonical JSON, deterministic ECDSA and AES-GCM are parameters; so is the prose of a vector, which no check reads.
\<close>

subsection \<open>Tools\<close>

text \<open>
  \<open>vt_canon\<close> is \<open>rfc8785.dumps\<close>, \<open>vt_sign scalar message\<close> the integers of the deterministic signature,
  \<open>vt_spki scalar\<close> and \<open>vt_pem scalar\<close> the public key of the private scalar in its two encodings, \<open>vt_seal\<close> is
  \<open>AESGCM.encrypt\<close> and \<open>vt_prose\<close> the descriptions by what they describe.
\<close>

record vector_tools =
  vt_canon :: "json \<Rightarrow> byte list option"
  vt_sign :: "nat \<Rightarrow> byte list \<Rightarrow> nat \<times> nat"
  vt_spki :: "nat \<Rightarrow> byte list"
  vt_pem :: "nat \<Rightarrow> string"
  vt_seal :: "byte list \<Rightarrow> byte list \<Rightarrow> byte list \<Rightarrow> byte list \<Rightarrow> byte list option"
  vt_loads :: "string \<Rightarrow> json option"
  vt_prose :: "string \<Rightarrow> string"

definition document_bytes :: "vector_tools \<Rightarrow> json \<Rightarrow> conformance_error + byte list" where
  "document_bytes T v = or_raise Not_Canonical (vt_canon T v)"

definition signature_text :: "vector_tools \<Rightarrow> nat \<Rightarrow> json \<Rightarrow> conformance_error + string" where
  "signature_text T k v =
     and_then (document_bytes T v) (\<lambda>message.
     let (r, s) = vt_sign T k message in
     and_then (or_raise Out_Of_Range (to_bytes 32 r)) (\<lambda>rs.
     and_then (or_raise Out_Of_Range (to_bytes 32 s)) (\<lambda>ss.
     Inr (b64url (rs @ ss)))))"

definition digest_text :: "byte list \<Rightarrow> json" where
  "digest_text bs = JStr (''sha256:'' @ sha256_hex bs)"

definition decoded_text :: "byte list \<Rightarrow> conformance_error + json" where
  "decoded_text bs = and_then (or_raise Wrong_Value_Type (utf8_decode bs)) (\<lambda>t. Inr (JStr t))"

definition vector_json ::
  "string \<Rightarrow> string \<Rightarrow> string \<Rightarrow> json \<Rightarrow> json \<Rightarrow> byte list \<Rightarrow> byte list \<Rightarrow> string \<Rightarrow> json" where
  "vector_json vector_id description signing_key v text canonical spki signature = JObj
     [(''vector_id'', JStr vector_id), (''description'', JStr description), (''signing_key'', JStr signing_key),
      (''signature_algorithm'', JStr ''ES256''),
      (''signature_encoding'', JStr ''64-byte-r-concat-s-base64url-no-padding''),
      (''document'', v), (''canonical_utf8'', text), (''canonical_sha256'', digest_text canonical),
      (''public_key_spki'', JStr (b64url spki)), (''key_id'', digest_text spki),
      (''signature'', JStr signature), (''mutate_each_field_must_fail'', JArr (map JStr (leaf_paths [] v)))]"

definition signed_document_vector ::
  "vector_tools \<Rightarrow> string \<Rightarrow> string \<Rightarrow> string \<Rightarrow> nat \<Rightarrow> json \<Rightarrow> conformance_error + json" where
  "signed_document_vector T vector_id description signing_key k v =
     and_then (document_bytes T v) (\<lambda>canonical.
     and_then (decoded_text canonical) (\<lambda>text.
     and_then (signature_text T k v) (\<lambda>signature.
     Inr (vector_json vector_id description signing_key v text canonical (vt_spki T k) signature))))"

subsection \<open>Indented texts\<close>

text \<open>\<open>json.dumps(v, ensure_ascii=False, indent=2)\<close>: \<open>indented_text float_text column v\<close> is the text that starts at that column.\<close>

definition new_line :: "nat \<Rightarrow> string" where
  "new_line n = CHR 0x0A # replicate n (CHR '' '')"

fun comma_lines :: "nat \<Rightarrow> string list \<Rightarrow> string" where
  "comma_lines n [] = []"
| "comma_lines n [s] = new_line n @ s"
| "comma_lines n (s # t # ss) = new_line n @ s @ '','' @ comma_lines n (t # ss)"

definition bracketed :: "string \<Rightarrow> string \<Rightarrow> nat \<Rightarrow> string list \<Rightarrow> string" where
  "bracketed l r n items = (if items = [] then l @ r else l @ comma_lines (n + 2) items @ new_line n @ r)"

fun indented_text :: "(rat \<Rightarrow> string) \<Rightarrow> nat \<Rightarrow> json \<Rightarrow> string" where
  "indented_text ft n (JArr vs) = bracketed ''['' '']'' n (map (indented_text ft (n + 2)) vs)"
| "indented_text ft n (JObj kvs) =
     bracketed ''{'' ''}'' n (map (\<lambda>kv. string_text (fst kv) @ '': '' @ indented_text ft (n + 2) (snd kv)) kvs)"
| "indented_text ft n v = json_text ft v"

subsection \<open>Writing the files\<close>

text \<open>No vector of a generator holds a float, so the text of one is left out.\<close>

type_synonym golden_files = "string \<rightharpoonup> string"

definition save :: "string \<Rightarrow> json \<Rightarrow> golden_files \<Rightarrow> golden_files" where
  "save name v files = files(''golden/'' @ name \<mapsto> indented_text (\<lambda>_. []) 0 v @ [CHR 0x0A])"

text \<open>The saves of a script in their order: one that raises leaves the files written before it.\<close>

fun save_each ::
  "(string \<times> (conformance_error + json)) list \<Rightarrow> golden_files \<Rightarrow> golden_files \<times> (conformance_error + unit)" where
  "save_each [] files = (files, Inr ())"
| "save_each ((name, made) # rest) files =
     (case made of Inl e \<Rightarrow> (files, Inl e) | Inr v \<Rightarrow> save_each rest (save name v files))"

subsection \<open>The proofs of the grant handoff\<close>

definition handoff_scalar :: nat where "handoff_scalar = 0x456789ABCDEF123456789ABCDEF123"

definition operational_scalar :: nat where "operational_scalar = 0x123456789ABCDEF123456789ABCDEF"

definition operational_instance :: "vector_tools \<Rightarrow> string" where
  "operational_instance T = ''device-instance-'' @ sha256_hex (vt_spki T operational_scalar)"

definition operational_ref :: "vector_tools \<Rightarrow> json" where
  "operational_ref T = JObj
     [(''device_instance_id'', JStr (operational_instance T)), (''owner_domain_id'', JStr ''owner-domain_01''),
      (''owner_domain_generation'', JInt 3), (''claim_generation'', JInt 7), (''trust_epoch'', JInt 4)]"

definition collection_document :: json where
  "collection_document = JObj
     [(''contract'', JStr ''eidolon.device-foundation.claim-grant-collection''), (''enrollment_id'', JStr ''enrollment_01''),
      (''proposal_revision'', JInt 3), (''collection_challenge'', JStr ''Y29sbGVjdGlvbi1jaGFsbGVuZ2U'')]"

definition acknowledgement_document :: "vector_tools \<Rightarrow> json" where
  "acknowledgement_document T = JObj
     [(''contract'', JStr ''eidolon.device-foundation.claim-grant-ack''), (''enrollment_id'', JStr ''enrollment_01''),
      (''grant_id'', JStr ''grant_01''), (''device_ref'', operational_ref T)]"

definition collection_vector :: "vector_tools \<Rightarrow> conformance_error + json" where
  "collection_vector T =
     signed_document_vector T ''DF-CLAIM-GRANT-COLLECTION-PROOF-001'' (vt_prose T ''claim-grant-collection-proof'')
       ''handoff'' handoff_scalar collection_document"

definition acknowledgement_vector :: "vector_tools \<Rightarrow> conformance_error + json" where
  "acknowledgement_vector T =
     signed_document_vector T ''DF-CLAIM-GRANT-ACK-PROOF-001'' (vt_prose T ''claim-grant-ack-proof'')
       ''operational'' operational_scalar (acknowledgement_document T)"

definition regenerate_grant_proofs ::
  "vector_tools \<Rightarrow> golden_files \<Rightarrow> golden_files \<times> (conformance_error + unit)" where
  "regenerate_grant_proofs T =
     save_each [(''claim-grant-collection-proof.json'', collection_vector T),
                (''claim-grant-ack-proof.json'', acknowledgement_vector T)]"

subsection \<open>The proofs of Device Control\<close>

text \<open>The digest of the board the assertion is about; a value that is not a flag is read by its truth.\<close>

fun asserted_digest :: "json list \<Rightarrow> conformance_error + json" where
  "asserted_digest [] = Inl Nothing_Found"
| "asserted_digest (c # cs) =
     and_then (member_of c ''board_name'') (\<lambda>board.
     if py_eq board (JStr ''esp32-s3-touch-amoled-2.06'') then
       and_then (member_of c ''has_camera'') (\<lambda>camera.
       if truthy camera then asserted_digest cs else member_of c ''digest'')
     else asserted_digest cs)"

definition load :: "vector_tools \<Rightarrow> golden_files \<Rightarrow> string \<Rightarrow> conformance_error + json" where
  "load T files name =
     and_then (or_raise Missing_File (files (''golden/'' @ name))) (\<lambda>text. or_raise Not_Json (vt_loads T text))"

definition asserted_manifest_digest :: "vector_tools \<Rightarrow> golden_files \<Rightarrow> conformance_error + json" where
  "asserted_manifest_digest T files =
     and_then (load T files ''device-manifest.json'') (\<lambda>v. and_then (array_at v ''cases'') asserted_digest)"

definition configuration_document :: "vector_tools \<Rightarrow> json" where
  "configuration_document T = JObj
     [(''device_ref'', operational_ref T), (''nonce'', JStr ''Y29uZmlndXJhdGlvbi1ub25jZQ''),
      (''operation_type'', JStr ''device-control.configuration'')]"

definition assertion_document :: "vector_tools \<Rightarrow> json \<Rightarrow> json" where
  "assertion_document T digest = JObj
     [(''device_ref'', operational_ref T), (''manifest_digest'', digest),
      (''nonce'', JStr ''bWFuaWZlc3QtYXNzZXJ0aW9uLW5vbmNl''), (''operation_type'', JStr ''device-control.manifest-assert'')]"

definition configuration_vector :: "vector_tools \<Rightarrow> conformance_error + json" where
  "configuration_vector T =
     signed_document_vector T ''DF-DEVICE-CONTROL-CONFIGURATION-PROOF-001''
       (vt_prose T ''device-control-configuration-proof'') ''operational'' operational_scalar (configuration_document T)"

definition assertion_vector :: "vector_tools \<Rightarrow> json \<Rightarrow> conformance_error + json" where
  "assertion_vector T digest =
     signed_document_vector T ''DF-DEVICE-CONTROL-MANIFEST-ASSERTION-PROOF-001''
       (vt_prose T ''device-control-manifest-assertion-proof'') ''operational'' operational_scalar (assertion_document T digest)"

definition regenerate_control_proofs ::
  "vector_tools \<Rightarrow> golden_files \<Rightarrow> golden_files \<times> (conformance_error + unit)" where
  "regenerate_control_proofs T files =
     (case save_each [(''device-control-configuration-proof.json'', configuration_vector T)] files of
        (written, Inl e) \<Rightarrow> (written, Inl e)
      | (written, Inr _) \<Rightarrow>
          save_each [(''device-control-manifest-assertion-proof.json'',
                      and_then (asserted_manifest_digest T written) (assertion_vector T))] written)"

subsection \<open>What the negative matrix signs\<close>

text \<open>The bytes of a document and of its mutants, and a signature that verifies for its own message alone among them.\<close>

definition mutants :: "json \<Rightarrow> json list" where
  "mutants v = concat (map (\<lambda>p. case mutate_leaf v p of Inl _ \<Rightarrow> [] | Inr d \<Rightarrow> [d]) (leaf_paths [] v))"

definition signed_messages :: "vector_tools \<Rightarrow> json \<Rightarrow> byte list list" where
  "signed_messages T v = concat (map (\<lambda>d. case vt_canon T d of None \<Rightarrow> [] | Some m \<Rightarrow> [m]) (v # mutants v))"

definition signs_among :: "vector_tools \<Rightarrow> ecdsa \<Rightarrow> nat \<Rightarrow> byte list list \<Rightarrow> bool" where
  "signs_among T ecdsa k ms \<longleftrightarrow>
     list_all (\<lambda>m. case vt_sign T k m of (r, s) \<Rightarrow> r < 256 ^ 32 \<and> s < 256 ^ 32
       \<and> list_all (\<lambda>m'. ecdsa (vt_spki T k) r s m' = (m' = m)) ms) ms"

definition mutable_leaf :: "json \<Rightarrow> bool" where
  "mutable_leaf u \<longleftrightarrow> (case mutate_scalar [] u of Inl _ \<Rightarrow> False | Inr w \<Rightarrow> plain u \<and> plain w)"

definition signable :: "json \<Rightarrow> bool" where
  "signable v \<longleftrightarrow> is_container v \<and> pathable v \<and> list_all (\<lambda>l. mutable_leaf (snd l)) (leaves v)"

lemma mset_concat_map: "mset (concat (map F xs)) = sum_mset (image_mset (\<lambda>x. mset (F x)) (mset xs))"
  by (induction xs) simp_all

lemma mset_leaves_sorted: "mset (leaves (sorted_json v)) = mset (map (\<lambda>l. (fst l, sorted_json (snd l))) (leaves v))"
proof (induction v rule: sorted_json.induct)
  case (2 kvs)
  have "mset (leaves (sorted_json (JObj kvs))) =
      sum_mset (image_mset (\<lambda>kv. mset (map (\<lambda>l. (fst kv # fst l, snd l)) (leaves (sorted_json (snd kv))))) (mset kvs))"
    by (simp add: mset_concat_map image_mset.compositionality comp_def)
  also have "\<dots> = sum_mset (image_mset (\<lambda>kv. mset (map (\<lambda>l. (fst kv # fst l, sorted_json (snd l))) (leaves (snd kv)))) (mset kvs))"
    using 2 by (intro arg_cong [where f = "sum_mset"] image_mset_cong) (auto simp: image_mset.compositionality comp_def)
  also have "\<dots> = mset (map (\<lambda>l. (fst l, sorted_json (snd l))) (leaves (JObj kvs)))"
    by (simp add: mset_concat_map map_concat comp_def)
  finally show ?case .
qed simp_all

lemma plain_leaves: "plain v \<longleftrightarrow> list_all (\<lambda>l. plain (snd l)) (leaves v)"
  by (induction v rule: leaves.induct) (auto simp: list_all_iff)

lemma mutate_scalar_sorted: "mutate_scalar p u = Inr w \<Longrightarrow> sorted_json u = u \<and> sorted_json w = w"
  by (cases u) auto

lemma mutate_scalar_path: "(case mutate_scalar p u of Inl _ \<Rightarrow> False | Inr w \<Rightarrow> P w) = (case mutate_scalar [] u of Inl _ \<Rightarrow> False | Inr w \<Rightarrow> P w)"
  by (cases u) simp_all

text \<open>A mutant has a canonical form of its own, one of the messages.\<close>

lemma mutant_of_leaf:
  assumes "signable v" "plain v" "p \<in> set (leaf_paths [] v)"
  obtains d where "mutate_leaf v p = Inr d" "plain d" "sorted_json d \<noteq> sorted_json v" "d \<in> set (mutants v)"
proof -
  obtain ks u where leaf: "(ks, u) \<in> set (leaves v)" "p = path_text ks"
    using assms(3) by (auto simp: leaf_paths_leaves)
  have v: "pathable v" "mutable_leaf u" using assms(1) leaf(1) by (auto simp: signable_def list_all_iff)
  then obtain w where w: "mutate_scalar p u = Inr w" "plain w"
    using mutate_scalar_path [where p = p and u = u and P = plain] by (auto simp: mutable_leaf_def split: sum.splits)
  from mutate_at_leaf [OF v(1) leaf(1), of p] w(1)
  obtain d where d: "mutate_at p ks v = Inr d" "leaves d = map (put_leaf ks w) (leaves v)" by auto
  have path: "split_path p = ks"
  proof (cases v)
    case (JObj kvs)
    with leaf(1) object_leaf_head have "ks \<noteq> []" by fastforce
    with leaf_keys [OF v(1) leaf(1)] leaf(2) show ?thesis by (simp add: split_path_text)
  qed (use assms(1) leaf(1) v(2) in \<open>auto simp: signable_def mutable_leaf_def\<close>)
  then have mutant: "mutate_leaf v p = Inr d" using d(1) by (simp add: mutate_leaf_def)
  have "plain d" using assms(2) w(2) d(2) by (auto simp: plain_leaves [of d] plain_leaves [of v] list_all_iff put_leaf_def)
  moreover have "sorted_json d \<noteq> sorted_json v"
  proof
    let ?S = "\<lambda>l. (fst l, sorted_json (snd l))"
    assume "sorted_json d = sorted_json v"
    then have "mset (map ?S (leaves d)) = mset (map ?S (leaves v))"
      using mset_leaves_sorted [of d] mset_leaves_sorted [of v] by simp
    from arg_cong [OF this, of set_mset] have same: "set (map ?S (leaves d)) = set (map ?S (leaves v))"
      unfolding set_mset_mset .
    have "(ks, w) \<in> set (leaves d)" using imageI [OF leaf(1), of "put_leaf ks w"] d(2) by (simp add: put_leaf_def)
    from imageI [OF this, of ?S] have "(ks, w) \<in> set (map ?S (leaves d))"
      using mutate_scalar_sorted [OF w(1)] by simp
    then obtain l where "l \<in> set (leaves v)" "fst l = ks" "sorted_json (snd l) = w" unfolding same by auto
    moreover have "l = (ks, u)"
      using leaves_distinct [OF v(1)] leaf(1) \<open>l \<in> set (leaves v)\<close> \<open>fst l = ks\<close>
      by (metis eq_key_imp_eq_value prod.collapse)
    ultimately show False using mutate_scalar_sorted [OF w(1)] mutate_scalar_leaf [OF w(1)] by simp
  qed
  moreover have "d \<in> set (mutants v)" using assms(3) mutant by (force simp: mutants_def)
  ultimately show thesis using that mutant by blast
qed

lemma signed_message: "d \<in> set (v # mutants v) \<Longrightarrow> vt_canon T d = Some m \<Longrightarrow> m \<in> set (signed_messages T v)"
  unfolding signed_messages_def by force

lemma signature_made:
  assumes "vt_canon T v = Some m" "vt_sign T k m = (r, s)" "r < 256 ^ 32" "s < 256 ^ 32"
  shows "signature_text T k v = Inr (b64url (be_bytes 32 r @ be_bytes 32 s))"
  using assms by (simp add: signature_text_def document_bytes_def or_raise_def to_bytes_def)

lemma signature_read:
  assumes "r < 256 ^ 32" "s < 256 ^ 32" "canon v = Some m"
  shows "verify_raw_p256 canon ecdsa (b64url spki) v (b64url (be_bytes 32 r @ be_bytes 32 s)) = Inr (ecdsa spki r s m)"
  using assms by (simp add: verify_raw_p256_def or_raise_def b64url_decode_b64url big_endian_be_bytes)

lemma vector_read:
  "signed_vector_of (vector_json i de sk v (JStr t) canonical spki sig) = Inr
     \<lparr>sv_document = v, sv_canonical_utf8 = t, sv_canonical_sha256 = ''sha256:'' @ sha256_hex canonical,
      sv_public_key_spki = b64url spki, sv_key_id = ''sha256:'' @ sha256_hex spki, sv_signature = sig,
      sv_signature_algorithm = ''ES256'', sv_signature_encoding = ''64-byte-r-concat-s-base64url-no-padding'',
      sv_mutate = leaf_paths [] v\<rparr>"
  by (simp add: signed_vector_of_def vector_json_def member_of_def text_at_def digest_text_def or_raise_def elements_of_def texts_of_JStrs [THEN iffD2, OF refl])

lemma length_leaf_paths: "length (leaf_paths pre v) = length (leaves v)"
  using arg_cong [OF mset_leaf_paths, of size] by simp

lemma sort_leaf_paths: "sort (leaf_paths [] v) = leaf_paths [] v"
  by (cases v) (simp_all add: sorted_sort_id)

text \<open>A generated vector passes the check of signed vectors: one signature and one refused mutant for each leaf.\<close>

lemma signed_vector_passes:
  assumes "canonicalizes (vt_canon T)" "signable v" "plain v" "signs_among T ecdsa k ms"
    and "set (signed_messages T v) \<subseteq> set ms"
  shows "\<exists>c shown canonical sig. signed_document_vector T i de sk k v = Inr c
    \<and> c = vector_json i de sk v (JStr shown) canonical (vt_spki T k) sig
    \<and> check_signed_vector (vt_canon T) ecdsa c v = Inr (1 + length (leaves v))"
proof -
  let ?m = "utf8 (canonical_text v)"
  let ?sig = "\<lambda>r s. b64url (be_bytes 32 r @ be_bytes 32 s)"
  have canon: "vt_canon T d = Some (utf8 (canonical_text d))" if "plain d" for d
    using assms(1) that by (simp add: canonicalizes_def)
  have m: "?m \<in> set ms" using signed_message [OF _ canon [OF assms(3)], of v] assms(5) by auto
  obtain r s where sign: "vt_sign T k ?m = (r, s)" by force
  with assms(4) m have range: "r < 256 ^ 32" "s < 256 ^ 32"
    and verifies: "m' \<in> set ms \<Longrightarrow> ecdsa (vt_spki T k) r s m' = (m' = ?m)" for m'
    by (auto simp: signs_among_def list_all_iff)
  have made: "signed_document_vector T i de sk k v = Inr (vector_json i de sk v (JStr (canonical_text v)) ?m (vt_spki T k) (?sig r s))"
    using canon [OF assms(3)]
    by (simp add: signed_document_vector_def document_bytes_def decoded_text_def or_raise_def utf8_decode_utf8
        signature_made [OF canon [OF assms(3)] sign range])
  have refused: "\<exists>d. mutate_leaf v p = Inr d \<and> verify_raw_p256 (vt_canon T) ecdsa (b64url (vt_spki T k)) d (?sig r s) = Inr False"
    if p: "p \<in> set (leaf_paths [] v)" for p
  proof -
    obtain d where d: "mutate_leaf v p = Inr d" "plain d" "sorted_json d \<noteq> sorted_json v" "d \<in> set (mutants v)"
      using mutant_of_leaf [OF assms(2,3) p] .
    have "utf8 (canonical_text d) \<in> set ms" using signed_message [OF _ canon [OF d(2)], of v] d(4) assms(5) by auto
    moreover have "utf8 (canonical_text d) \<noteq> ?m"
      using canonical_bytes_sorted [OF assms(1) d(2) assms(3)] canon d(2,3) assms(3) by auto
    ultimately show ?thesis using d(1) signature_read [where canon = "vt_canon T", OF range canon [OF d(2)]] verifies by auto
  qed
  have "check_signed_vector (vt_canon T) ecdsa
      (vector_json i de sk v (JStr (canonical_text v)) ?m (vt_spki T k) (?sig r s)) v = Inr (1 + length (leaves v))"
    using canon [OF assms(3)] refused verifies [OF m]
    by (simp add: check_signed_vector_def vector_read check_signed_document_vector_def or_raise_def guard_simps
        utf8_decode_utf8 b64url_decode_b64url signature_read [where canon = "vt_canon T", OF range canon [OF assms(3)]] sort_leaf_paths
        check_mutations_Inr length_leaf_paths list_all_iff)
  with made show ?thesis by blast
qed

subsection \<open>Generated proofs pass\<close>

definition vector_members :: "string list" where
  "vector_members =
     [''vector_id'', ''description'', ''signing_key'', ''signature_algorithm'', ''signature_encoding'', ''document'',
      ''canonical_utf8'', ''canonical_sha256'', ''public_key_spki'', ''key_id'', ''signature'', ''mutate_each_field_must_fail'']"

lemma dotted_document: "dotted ''document'' k = ''document.'' @ k" "dotted ''document.device_ref'' k = ''document.device_ref.'' @ k"
  by (simp_all add: dotted_def)

lemma item_paths_texts: "item_paths opq pre n (map JStr ts) = []"
  by (induction ts arbitrary: n) simp_all

lemma vector_field_paths:
  "set (field_paths {} [] (vector_json i de sk v (JStr t) canonical spki sig))
     = set vector_members \<union> set (field_paths {} ''document'' v)"
  by (auto simp: vector_json_def vector_members_def digest_text_def dotted_def item_paths_texts Let_def)

lemma proof_inventory_split:
  "proof_inventory ms ref \<union> proof_descriptions =
     set vector_members \<union> set (map (dotted ''document'') ms)
     \<union> (if ref then set (''document.device_ref'' # map (dotted ''document.device_ref'') device_ref_members) else {})"
  by (auto simp: proof_inventory_def proof_descriptions_def vector_members_def)

lemma proof_inventory_disjoint: "proof_inventory ms ref \<inter> proof_descriptions = {}"
  by (auto simp: proof_inventory_def proof_descriptions_def dotted_def device_ref_members_def)

text \<open>The inventory of a generated vector is the one the check declares when the members of the document are.\<close>

lemma generated_inventory:
  assumes "set (field_paths {} ''document'' v) = set (map (dotted ''document'') ms)
     \<union> (if ref then set (''document.device_ref'' # map (dotted ''document.device_ref'') device_ref_members) else {})"
  shows "require_field_inventory (vector_json i de sk v (JStr t) canonical spki sig) (proof_inventory ms ref) proof_descriptions {}
    = Inr ()"
  using assms by (simp add: field_inventory_exact proof_inventory_disjoint vector_field_paths proof_inventory_split Un_assoc)

lemma operational_ref_read:
  "\<exists>d. wf_device_ref d \<and> device_ref_json d = operational_ref T \<and> parse_device_ref (operational_ref T) = Some d"
proof -
  let ?d = "\<lparr>device_instance_id = operational_instance T, owner_domain_id = ''owner-domain_01'',
    owner_domain_generation = 3, claim_generation = 7, trust_epoch = 4\<rparr>"
  have "wf_device_ref ?d"
    using derived_id_ok [of "vt_spki T operational_scalar"]
    by (simp add: wf_device_ref_def operational_instance_def device_instance_namespace_def owner_domain_id_ok_def
        len_between_def starts_with_def)
  moreover have "device_ref_json ?d = operational_ref T" by (simp add: device_ref_json_def operational_ref_def)
  ultimately show ?thesis using parse_device_ref_json by metis
qed

lemma own_key_named:
  assumes "is_p256_spki (vt_spki T operational_scalar)" "member_of v ''device_ref'' = Inr (operational_ref T)"
  shows "check_own_key (vector_json i de sk v (JStr t) canonical (vt_spki T operational_scalar) sig) = Inr ()"
proof -
  have "derive_device_instance_id (b64url (vt_spki T operational_scalar)) = Inr (operational_instance T)"
    using key_bytes_b64url [THEN iffD2, OF assms(1)]
    by (simp add: derive_Inr operational_instance_def device_instance_namespace_def)
  moreover have "member_of (operational_ref T) ''device_instance_id'' = Inr (JStr (operational_instance T))"
    by (simp add: operational_ref_def member_of_def)
  ultimately show ?thesis
    using assms(2)
    by (auto simp add: check_own_key_def vector_json_def member_of_def [of "JObj kvs" for kvs] text_at_def or_raise_def reraise_def
        refuse_if_def guard_simps)
qed

lemma vector_document: "member_of (vector_json i de sk v t canonical spki sig) ''document'' = Inr v"
  by (simp add: vector_json_def member_of_def)

lemma collection_signable: "signable collection_document" "plain collection_document" "length (leaves collection_document) = 4"
  by (simp_all add: collection_document_def signable_def mutable_leaf_def)

lemma acknowledgement_signable:
  "signable (acknowledgement_document T)" "plain (acknowledgement_document T)" "length (leaves (acknowledgement_document T)) = 8"
  by (simp_all add: acknowledgement_document_def operational_ref_def signable_def mutable_leaf_def)

lemma collection_rebuilt: "rebuilt_collection collection_document = Inr collection_document"
  by (simp add: rebuilt_collection_def collection_document_def text_at_def integer_at_def member_of_def or_raise_def
      claim_grant_collection_proof_document_def claim_grant_collection_proof_contract_def)

lemma acknowledgement_rebuilt: "rebuilt_acknowledgement (acknowledgement_document T) = Inr (acknowledgement_document T)"
proof -
  obtain d where "device_ref_json d = operational_ref T" "parse_device_ref (operational_ref T) = Some d"
    using operational_ref_read by blast
  then show ?thesis
    by (simp add: rebuilt_acknowledgement_def acknowledgement_document_def text_at_def answered_ref_def member_of_def or_raise_def
        claim_grant_ack_proof_document_def claim_grant_ack_proof_contract_def)
qed

lemma grant_proof_paths:
  "set (field_paths {} ''document'' collection_document) =
     set (map (dotted ''document'') [''contract'', ''enrollment_id'', ''proposal_revision'', ''collection_challenge''])"
  "set (field_paths {} ''document'' (acknowledgement_document T)) =
     set (map (dotted ''document'') [''contract'', ''enrollment_id'', ''grant_id''])
     \<union> set (''document.device_ref'' # map (dotted ''document.device_ref'') device_ref_members)"
  by (auto simp: collection_document_def acknowledgement_document_def operational_ref_def device_ref_members_def dotted_def Let_def)

text \<open>
  C12. The proofs of the grant handoff that the generator writes pass the check the conformance runner makes of them, with
  fifteen checks: what each end rebuilds is what was signed, the signature verifies, no mutant of any member does, the
  acknowledgement is signed by the device it names, and no field is left unread.
\<close>

theorem generated_grant_proofs_pass:
  assumes "canonicalizes (vt_canon T)" "is_p256_spki (vt_spki T operational_scalar)"
    and "signs_among T ecdsa handoff_scalar (signed_messages T collection_document)"
    and "signs_among T ecdsa operational_scalar (signed_messages T (acknowledgement_document T))"
  shows "\<exists>c a. collection_vector T = Inr c \<and> acknowledgement_vector T = Inr a
    \<and> check_claim_grant_proof_vectors (vt_canon T) ecdsa c a = Inr 15"
proof -
  note passes = signed_vector_passes [OF assms(1) _ _ _ subset_refl]
  obtain c t b g where c: "collection_vector T = Inr c" "check_signed_vector (vt_canon T) ecdsa c collection_document = Inr 5"
    and c_json: "c = vector_json ''DF-CLAIM-GRANT-COLLECTION-PROOF-001'' (vt_prose T ''claim-grant-collection-proof'') ''handoff''
      collection_document (JStr t) b (vt_spki T handoff_scalar) g"
    using passes [OF collection_signable(1,2) assms(3)] unfolding collection_vector_def collection_signable(3) by fastforce
  obtain a t' b' g' where a: "acknowledgement_vector T = Inr a"
      "check_signed_vector (vt_canon T) ecdsa a (acknowledgement_document T) = Inr 9"
    and a_json: "a = vector_json ''DF-CLAIM-GRANT-ACK-PROOF-001'' (vt_prose T ''claim-grant-ack-proof'') ''operational''
      (acknowledgement_document T) (JStr t') b' (vt_spki T operational_scalar) g'"
    using passes [OF acknowledgement_signable(1,2) assms(4)] unfolding acknowledgement_vector_def acknowledgement_signable(3)
    by fastforce
  have "member_of (acknowledgement_document T) ''device_ref'' = Inr (operational_ref T)"
    by (simp add: acknowledgement_document_def member_of_def)
  note own = own_key_named [OF assms(2) this]
  have "member_of c ''document'' = Inr collection_document" "member_of a ''document'' = Inr (acknowledgement_document T)"
    "check_own_key a = Inr ()"
    "require_field_inventory c
       (proof_inventory [''contract'', ''enrollment_id'', ''proposal_revision'', ''collection_challenge''] False)
       proof_descriptions {} = Inr ()"
    "require_field_inventory a (proof_inventory [''contract'', ''enrollment_id'', ''grant_id''] True) proof_descriptions {} = Inr ()"
    unfolding c_json a_json by (simp_all add: vector_document own generated_inventory grant_proof_paths)
  with c a have "check_claim_grant_proof_vectors (vt_canon T) ecdsa c a = Inr 15"
    by (simp add: check_claim_grant_proof_vectors_def collection_rebuilt acknowledgement_rebuilt)
  with c(1) a(1) show ?thesis by blast
qed

subsection \<open>A signer for the examples\<close>

text \<open>It signs the messages of a list by their places in it.\<close>

definition listing_tools :: "byte list list \<Rightarrow> vector_tools" where
  "listing_tools ms =
     \<lparr>vt_canon = (\<lambda>v. if plain v then Some (utf8 (canonical_text v)) else None),
      vt_sign = (\<lambda>k m. (length (takeWhile (\<lambda>m'. m' \<noteq> m) ms), 0)),
      vt_spki = (\<lambda>k. p256_spki_prefix @ 0x04 # replicate 64 7), vt_pem = (\<lambda>k. []), vt_seal = (\<lambda>k n p a. Some p),
      vt_loads = (\<lambda>s. None), vt_prose = id\<rparr>"

definition listing_ecdsa :: "byte list list \<Rightarrow> ecdsa" where
  "listing_ecdsa ms = (\<lambda>key r s m. r < length ms \<and> ms ! r = m)"

lemma listing_canonicalizes: "canonicalizes (vt_canon (listing_tools ms))"
  by (simp add: canonicalizes_def listing_tools_def)

lemma place_in_list: "m \<in> set ms \<Longrightarrow> length (takeWhile (\<lambda>m'. m' \<noteq> m) ms) < length ms \<and> ms ! length (takeWhile (\<lambda>m'. m' \<noteq> m) ms) = m"
  by (induction ms) auto

lemma listing_signs:
  assumes "length ms < 256 ^ 32" "set ns \<subseteq> set ms"
  shows "signs_among (listing_tools ms) (listing_ecdsa ms) k ns"
proof -
  have "length (takeWhile (\<lambda>m'. m' \<noteq> m) ms) < 256 ^ 32" for m
    using assms(1) length_takeWhile_le [of _ ms] by (rule order.strict_trans1 [rotated])
  then show ?thesis
    using assms(2) place_in_list [of _ ms]
    by (auto simp: signs_among_def listing_tools_def listing_ecdsa_def list_all_iff subset_iff)
qed

lemma length_concat_le: "(\<And>x. x \<in> set xs \<Longrightarrow> length (f x) \<le> 1) \<Longrightarrow> length (concat (map f xs)) \<le> length xs"
  by (induction xs) force+

lemma length_signed_messages: "length (signed_messages T v) \<le> 1 + length (leaves v)"
proof -
  have "length (mutants v) \<le> length (leaves v)"
    unfolding mutants_def length_leaf_paths [of "[]" v, symmetric] by (rule length_concat_le) (simp split: sum.split)
  moreover have "length (signed_messages T v) \<le> length (v # mutants v)"
    unfolding signed_messages_def by (rule length_concat_le) (simp split: option.split)
  ultimately show ?thesis by simp
qed

lemma signed_messages_canon: "vt_canon T = vt_canon T' \<Longrightarrow> signed_messages T v = signed_messages T' v"
  by (simp add: signed_messages_def)

definition sample_messages :: "byte list list" where
  "sample_messages = signed_messages (listing_tools []) collection_document
     @ signed_messages (listing_tools []) (acknowledgement_document (listing_tools []))"

theorem generated_grant_proofs_pass_witness:
  "\<exists>c a. collection_vector (listing_tools sample_messages) = Inr c
     \<and> acknowledgement_vector (listing_tools sample_messages) = Inr a
     \<and> check_claim_grant_proof_vectors (vt_canon (listing_tools sample_messages)) (listing_ecdsa sample_messages) c a = Inr 15"
proof -
  have "length sample_messages \<le> 5 + 9"
    unfolding sample_messages_def length_append
    using length_signed_messages [of "listing_tools []" collection_document]
      length_signed_messages [of "listing_tools []" "acknowledgement_document (listing_tools [])"]
    by (simp add: collection_signable(3) acknowledgement_signable(3))
  then have short: "length sample_messages < 256 ^ 32" by simp
  have same: "signed_messages (listing_tools ms) v = signed_messages (listing_tools []) v"
    "acknowledgement_document (listing_tools ms) = acknowledgement_document (listing_tools [])" for ms v
    by (rule signed_messages_canon)
      (simp_all add: listing_tools_def acknowledgement_document_def operational_ref_def operational_instance_def)
  have "set (signed_messages (listing_tools sample_messages) collection_document) \<subseteq> set sample_messages"
    "set (signed_messages (listing_tools sample_messages) (acknowledgement_document (listing_tools sample_messages)))
       \<subseteq> set sample_messages"
    unfolding same [of sample_messages] by (simp_all only: sample_messages_def set_append Un_upper1 Un_upper2)
  note signs = listing_signs [OF short this(1)] listing_signs [OF short this(2)]
  have "is_p256_spki (vt_spki (listing_tools sample_messages) operational_scalar)" by (simp add: listing_tools_def sample_spki)
  from generated_grant_proofs_pass [OF listing_canonicalizes this signs] show ?thesis .
qed

end
