(* ===== verification/Vector_Regeneration.thy ===== *)
theory Vector_Regeneration
  imports Vector_Generation
begin

text \<open>
  \<open>contracts/device_foundation/v1/generation/regenerate_ph2_goldens.py\<close>: the vectors whose documents are written by hand
  and whose bytes, digests and signatures are made again from them. A regenerated local erase and the delivery that
  carries its acknowledgement pass the checks of the conformance runner, whatever they said before.
\<close>

subsection \<open>Members\<close>

definition put_member :: "string \<Rightarrow> json \<Rightarrow> json \<Rightarrow> conformance_error + json" where
  "put_member k x v = and_then (object_of v) (\<lambda>kvs. Inr (JObj (AList.update k x kvs)))"

fun put_members :: "(string \<times> json) list \<Rightarrow> json \<Rightarrow> conformance_error + json" where
  "put_members [] v = Inr v"
| "put_members ((k, x) # xs) v = and_then (put_member k x v) (put_members xs)"

definition canonical_member :: "vector_tools \<Rightarrow> json \<Rightarrow> string \<Rightarrow> conformance_error + byte list" where
  "canonical_member T v k = and_then (member_of v k) (document_bytes T)"

subsection \<open>Each vector\<close>

definition regenerated_revoke :: "vector_tools \<Rightarrow> json \<Rightarrow> conformance_error + json" where
  "regenerated_revoke T revoke =
     and_then (canonical_member T revoke ''fingerprint_document'') (\<lambda>encoded.
     and_then (decoded_text encoded) (\<lambda>shown.
     put_members [(''canonical_fingerprint_utf8'', shown), (''fingerprint'', digest_text encoded)] revoke))"

definition regenerated_erase :: "vector_tools \<Rightarrow> json \<Rightarrow> conformance_error + json" where
  "regenerated_erase T erase =
     (let k = operational_scalar; spki = vt_spki T k in
     and_then (put_members [(''public_key_spki'', JStr (b64url spki)), (''key_id'', digest_text spki)] erase) (\<lambda>e.
     and_then (canonical_member T e ''operation'') (\<lambda>operation.
     and_then (decoded_text operation) (\<lambda>shown.
     and_then (put_members [(''operation_canonical_utf8'', shown), (''operation_fingerprint'', digest_text operation)] e) (\<lambda>e.
     and_then (and_then (canonical_member T e ''ack_signing_document'') decoded_text) (\<lambda>ack.
     and_then (put_member ''ack_canonical_utf8'' ack e) (\<lambda>e.
     and_then (and_then (member_of e ''ack_signing_document'') (signature_text T k)) (\<lambda>ack_signature.
     and_then (put_member ''ack_signature'' (JStr ack_signature) e) (\<lambda>e.
     and_then (and_then (member_of e ''key_proof_signing_document'') (signature_text T k)) (\<lambda>proof_signature.
     put_member ''key_proof_signature'' (JStr proof_signature) e))))))))))"

definition directory_scalar :: nat where "directory_scalar = 0x23456789ABCDEF123456789ABCDEF1"

definition regenerated_directory :: "vector_tools \<Rightarrow> json \<Rightarrow> conformance_error + json" where
  "regenerated_directory T vector =
     (let k = directory_scalar in
     and_then (put_member ''authority_signing_spki_pem'' (JStr (vt_pem T k)) vector) (\<lambda>v.
     and_then (and_then (member_of v ''descriptor'') (put_member ''signing_key_id'' (digest_text (vt_spki T k)))) (\<lambda>descriptor.
     and_then (object_of descriptor) (\<lambda>kvs.
     let unsigned = JObj (filter (\<lambda>kv. fst kv \<noteq> ''signature'') kvs) in
     and_then (and_then (document_bytes T unsigned) decoded_text) (\<lambda>shown.
     and_then (put_member ''canonical_signing_utf8'' shown v) (\<lambda>v.
     and_then (signature_text T k unsigned) (\<lambda>signature.
     and_then (put_member ''signature'' (JStr signature) descriptor) (\<lambda>sealed.
     put_member ''descriptor'' sealed v))))))))"

definition regenerated_aad :: "vector_tools \<Rightarrow> json \<Rightarrow> conformance_error + json" where
  "regenerated_aad T vector =
     and_then (canonical_member T vector ''aad'') (\<lambda>encoded.
     and_then (decoded_text encoded) (\<lambda>shown.
     and_then (put_members [(''canonical_aad_utf8'', shown), (''canonical_aad_sha256'', JStr (sha256_hex encoded))] vector) (\<lambda>v.
     and_then (hex_at v ''test_key'') (\<lambda>key.
     and_then (hex_at v ''test_nonce'') (\<lambda>nonce.
     and_then (hex_at v ''plaintext'') (\<lambda>plaintext.
     and_then (or_raise Bad_Sealing (vt_seal T key nonce plaintext encoded)) (\<lambda>ciphertext.
     put_member ''ciphertext'' (JStr (hexdigest ciphertext)) v)))))))"

definition regenerated_envelope :: "vector_tools \<Rightarrow> json \<Rightarrow> conformance_error + json" where
  "regenerated_envelope T vector =
     and_then (and_then (member_of vector ''envelope'') (\<lambda>e. canonical_member T e ''aad'')) (\<lambda>encoded.
     and_then (decoded_text encoded) (\<lambda>shown.
     put_members [(''aad_canonical_utf8'', shown), (''aad_sha256'', digest_text encoded)] vector))"

definition publish_part :: "vector_tools \<Rightarrow> string \<Rightarrow> json \<Rightarrow> conformance_error + json" where
  "publish_part T name v =
     and_then (canonical_member T v name) (\<lambda>encoded.
     and_then (decoded_text encoded) (\<lambda>shown.
     put_members [(name @ ''_canonical_utf8'', shown), (name @ ''_sha256'', digest_text encoded)] v))"

text \<open>The delivery carries the very acknowledgement the erase vector signs.\<close>

definition regenerated_delivery :: "vector_tools \<Rightarrow> json \<Rightarrow> json \<Rightarrow> conformance_error + json" where
  "regenerated_delivery T erase delivery =
     and_then (and_then (member_of erase ''ack_signing_document'') object_of) (\<lambda>ack.
     and_then (member_of erase ''ack_signature'') (\<lambda>signature.
     and_then (and_then (member_of delivery ''evidence'')
       (put_member ''payload'' (JObj (AList.update ''device_signature'' signature ack)))) (\<lambda>evidence.
     and_then (put_member ''evidence'' evidence delivery) (\<lambda>d.
     and_then (publish_part T ''deliver'' d) (\<lambda>d.
     and_then (publish_part T ''acceptance'' d) (publish_part T ''evidence''))))))"

definition regenerated_stream :: "vector_tools \<Rightarrow> json \<Rightarrow> conformance_error + json" where
  "regenerated_stream T stream =
     and_then (canonical_member T stream ''event'') (\<lambda>encoded.
     put_member ''business_event_sha256'' (digest_text encoded) stream)"

text \<open>A file is read before a file of its name is written, so each reading is of the files as they were.\<close>

definition regenerate_ph2 :: "vector_tools \<Rightarrow> golden_files \<Rightarrow> golden_files \<times> (conformance_error + unit)" where
  "regenerate_ph2 T files =
     (let erase = and_then (load T files ''device-local-erase.json'') (regenerated_erase T) in
     save_each
       [(''claim-revoke.json'', and_then (load T files ''claim-revoke.json'') (regenerated_revoke T)),
        (''device-local-erase.json'', erase),
        (''owner-domain-descriptor.json'', and_then (load T files ''owner-domain-descriptor.json'') (regenerated_directory T)),
        (''claim-grant-aad.json'', and_then (load T files ''claim-grant-aad.json'') (regenerated_aad T)),
        (''claim-grant-wire-envelope.json'', and_then (load T files ''claim-grant-wire-envelope.json'') (regenerated_envelope T)),
        (''device-delivery.json'', and_then (load T files ''device-delivery.json'') (\<lambda>d. and_then erase (\<lambda>e. regenerated_delivery T e d))),
        (''admission-event-stream.json'', and_then (load T files ''admission-event-stream.json'') (regenerated_stream T))] files)"

subsection \<open>Lemmas\<close>

lemma utf8_of_decode: "utf8_decode bs = Some t \<Longrightarrow> utf8 t = bs"
proof (induction bs arbitrary: t rule: utf8_decode.induct)
  case (2 a bs)
  show ?case
  proof (cases "unat a < 128")
    case True
    with 2(3) obtain u where u: "utf8_decode bs = Some u" "t = char_of (unat a) # u" by auto
    have "utf8_char (char_of (unat a)) = [a]" using True by (simp add: utf8_char_def)
    with 2(1) [OF True u(1)] u(2) show ?thesis by (simp add: utf8_def)
  next
    case False
    with 2(3) obtain b cs u where bs: "bs = b # cs" and range: "194 \<le> unat a" "unat a < 196" "128 \<le> unat b" "unat b < 192"
      and u: "utf8_decode cs = Some u" "t = char_of ((unat a - 192) * 64 + (unat b - 128)) # u"
      by (auto split: list.splits if_splits)
    define n where "n = (unat a - 192) * 64 + (unat b - 128)"
    have n: "128 \<le> n" "n < 256" "n div 64 = unat a - 192" "n mod 64 = unat b - 128"
    proof -
      have "unat b - 128 < 64" using range by simp
      then show "n div 64 = unat a - 192" "n mod 64 = unat b - 128" unfolding n_def by simp_all
      show "128 \<le> n" "n < 256" unfolding n_def using range by linarith+
    qed
    have "(word_of_nat (192 + n div 64) :: byte) = a" "(word_of_nat (128 + n mod 64) :: byte) = b"
      using n(3,4) range by simp_all
    moreover have "(of_char (char_of n :: char) :: nat) = n" using n(2) by simp
    ultimately have "utf8_char (char_of n) = [a, b]"
      using n(1) by (simp add: utf8_char_def Let_def del: of_nat_add)
    moreover have "utf8 u = cs" using 2(2) [OF False bs _ u(1)] range by simp
    ultimately show ?thesis using u(2) bs by (simp add: utf8_def n_def)
  qed
qed (simp add: utf8_def)

lemma member_put: "put_member k x v = Inr w \<Longrightarrow> member_of w k' = (if k' = k then Inr x else member_of v k')"
  by (auto simp: put_member_def and_then_eq_Inr object_of_def update_conv' or_raise_def split: json.splits)

lemma canonical_member_at: "canonical_member T v k = canonical_at (vt_canon T) v k"
  by (simp add: canonical_member_def canonical_at_def document_bytes_def [abs_def] vector_canonical_bytes_def [abs_def])

lemma decoded_text_Inr: "decoded_text bs = Inr x \<longleftrightarrow> (\<exists>t. x = JStr t \<and> utf8_decode bs = Some t)"
  by (auto simp: decoded_text_def and_then_eq_Inr or_raise_Inr)

text \<open>Signatures verify under the key that made them.\<close>

definition verifies_own :: "vector_tools \<Rightarrow> ecdsa \<Rightarrow> nat \<Rightarrow> bool" where
  "verifies_own T ecdsa k \<longleftrightarrow> (\<forall>m. case vt_sign T k m of (r, s) \<Rightarrow> ecdsa (vt_spki T k) r s m)"

lemma signature_verifies:
  assumes "verifies_own T ecdsa k" "signature_text T k v = Inr sig"
  shows "\<exists>m raw. vt_canon T v = Some m \<and> b64url_decode sig = Some raw \<and> length raw = 64 \<and> signed_by ecdsa (vt_spki T k) raw m"
proof -
  obtain m where m: "vt_canon T v = Some m"
    using assms(2) by (auto simp: signature_text_def and_then_eq_Inr document_bytes_def or_raise_Inr)
  obtain r s where sign: "vt_sign T k m = (r, s)" by force
  with assms(2) m have "r < 256 ^ 32" "s < 256 ^ 32" "sig = b64url (be_bytes 32 r @ be_bytes 32 s)"
    by (auto simp: signature_text_def and_then_eq_Inr document_bytes_def or_raise_Inr to_bytes_Some)
  moreover have "ecdsa (vt_spki T k) r s m" using assms(1) sign unfolding verifies_own_def by (metis case_prod_conv)
  ultimately show ?thesis using m by (simp add: b64url_decode_b64url signed_by_def big_endian_be_bytes)
qed

fun well_keyed :: "json \<Rightarrow> bool" where
  "well_keyed (JObj kvs) \<longleftrightarrow> distinct (map fst kvs) \<and> list_all (\<lambda>kv. well_keyed (snd kv)) kvs"
| "well_keyed (JArr vs) \<longleftrightarrow> list_all well_keyed vs"
| "well_keyed (JFloat x) \<longleftrightarrow> x \<noteq> NaN"
| "well_keyed _ \<longleftrightarrow> True"

lemma py_eq_refl: "well_keyed v \<Longrightarrow> py_eq v v"
  by (induction v rule: well_keyed.induct) (auto simp: list_all_iff list.rel_refl_strong)

lemma member_puts:
  "put_members [(a, x), (b, y)] v = Inr w \<Longrightarrow> b \<noteq> a \<Longrightarrow>
     member_of w k = (if k = b then Inr y else if k = a then Inr x else member_of v k)"
  by (auto simp: and_then_eq_Inr member_put)

lemma encoding_at:
  "utf8_decode bs = Some t \<Longrightarrow> member_of v k = Inr (JStr t) \<Longrightarrow> is_encoding_at v k bs = Inr True"
  "member_of v k = Inr (digest_text bs) \<Longrightarrow> is_digest_at v k bs = Inr True"
  by (simp_all add: is_encoding_at_def text_at_def or_raise_def utf8_of_decode is_digest_at_def is_text_at_def digest_text_def)

lemma not_refused [simp]: "refuse_unless (Inr True) m = Inr ()"
  by (simp add: refuse_unless_def)

lemma canonical_at_member: "member_of w k = member_of v k \<Longrightarrow> canonical_at canon w k = canonical_at canon v k"
  by (simp add: canonical_at_def)

text \<open>What a regenerated erase vector says.\<close>

lemma erase_regenerated:
  assumes "regenerated_erase T erase = Inr e"
  obtains operation t ack ack_text ack_bytes ack_sig key_proof proof_sig where
    "member_of e ''public_key_spki'' = Inr (JStr (b64url (vt_spki T operational_scalar)))"
    "member_of e ''key_id'' = Inr (digest_text (vt_spki T operational_scalar))"
    "canonical_at (vt_canon T) e ''operation'' = Inr operation" "utf8_decode operation = Some t"
    "member_of e ''operation_canonical_utf8'' = Inr (JStr t)" "member_of e ''operation_fingerprint'' = Inr (digest_text operation)"
    "member_of e ''ack_signing_document'' = Inr ack" "member_of erase ''ack_signing_document'' = Inr ack"
    "vt_canon T ack = Some ack_bytes" "utf8_decode ack_bytes = Some ack_text"
    "member_of e ''ack_canonical_utf8'' = Inr (JStr ack_text)"
    "member_of e ''ack_signature'' = Inr (JStr ack_sig)" "signature_text T operational_scalar ack = Inr ack_sig"
    "member_of e ''key_proof_signing_document'' = Inr key_proof"
    "member_of e ''key_proof_signature'' = Inr (JStr proof_sig)" "signature_text T operational_scalar key_proof = Inr proof_sig"
proof -
  let ?k = operational_scalar
  obtain e1 operation shown e2 ack_shown e3 ack_sig e4 proof_sig where
    p1: "put_members [(''public_key_spki'', JStr (b64url (vt_spki T ?k))), (''key_id'', digest_text (vt_spki T ?k))] erase = Inr e1"
    and c1: "canonical_member T e1 ''operation'' = Inr operation" "decoded_text operation = Inr shown"
    and p2: "put_members [(''operation_canonical_utf8'', shown), (''operation_fingerprint'', digest_text operation)] e1 = Inr e2"
    and c2: "and_then (canonical_member T e2 ''ack_signing_document'') decoded_text = Inr ack_shown"
    and p3: "put_member ''ack_canonical_utf8'' ack_shown e2 = Inr e3"
    and s1: "and_then (member_of e3 ''ack_signing_document'') (signature_text T ?k) = Inr ack_sig"
    and p4: "put_member ''ack_signature'' (JStr ack_sig) e3 = Inr e4"
    and s2: "and_then (member_of e4 ''key_proof_signing_document'') (signature_text T ?k) = Inr proof_sig"
    and p5: "put_member ''key_proof_signature'' (JStr proof_sig) e4 = Inr e"
    using assms unfolding regenerated_erase_def Let_def and_then_eq_Inr [of "put_members xs v" for xs v]
      and_then_eq_Inr [of "canonical_member T v k" "\<lambda>encoded. and_then (f encoded) (g encoded)" for v k f g]
      and_then_eq_Inr [of "decoded_text bs" for bs] and_then_eq_Inr [of "put_member k x v" for k x v]
      and_then_eq_Inr [of "and_then x f" for x f]
    by (elim exE conjE) (rule that; assumption)
  note member = member_put [OF p5] member_put [OF p4] member_put [OF p3] member_puts [OF p2, simplified] member_puts [OF p1, simplified]
  obtain ack ack_bytes ack_text where ack: "member_of erase ''ack_signing_document'' = Inr ack" "vt_canon T ack = Some ack_bytes"
      "ack_shown = JStr ack_text" "utf8_decode ack_bytes = Some ack_text"
    using c2 by (auto simp: and_then_eq_Inr canonical_member_at canonical_at_Inr decoded_text_Inr member)
  obtain t where t: "shown = JStr t" "utf8_decode operation = Some t" using c1(2) by (auto simp: decoded_text_Inr)
  obtain key_proof where key_proof: "member_of e ''key_proof_signing_document'' = Inr key_proof"
      "signature_text T ?k key_proof = Inr proof_sig"
    using s2 by (auto simp: and_then_eq_Inr member)
  have "canonical_at (vt_canon T) e ''operation'' = Inr operation"
    using c1(1) canonical_at_member [of e "''operation''" e1] by (simp add: canonical_member_at member)
  moreover have "signature_text T ?k ack = Inr ack_sig" using s1 ack(1) by (simp add: member)
  ultimately show thesis using ack t key_proof
    by (intro that [of operation t ack ack_bytes ack_text ack_sig key_proof proof_sig]) (simp_all add: member)
qed

lemma erase_vector_passes:
  assumes "verifies_own T ecdsa operational_scalar" "p256 (vt_spki T operational_scalar) = Some True" "regenerated_erase T erase = Inr e"
  shows "check_device_local_erase_vector (vt_canon T) ecdsa p256 e = Inr 1"
proof -
  obtain operation t ack ack_text ack_bytes ack_sig key_proof proof_sig where
    e: "member_of e ''public_key_spki'' = Inr (JStr (b64url (vt_spki T operational_scalar)))"
    "member_of e ''key_id'' = Inr (digest_text (vt_spki T operational_scalar))"
    "canonical_at (vt_canon T) e ''operation'' = Inr operation" "utf8_decode operation = Some t"
    "member_of e ''operation_canonical_utf8'' = Inr (JStr t)" "member_of e ''operation_fingerprint'' = Inr (digest_text operation)"
    and ack: "member_of e ''ack_signing_document'' = Inr ack" "vt_canon T ack = Some ack_bytes" "utf8_decode ack_bytes = Some ack_text"
    "member_of e ''ack_canonical_utf8'' = Inr (JStr ack_text)"
    "member_of e ''ack_signature'' = Inr (JStr ack_sig)" "signature_text T operational_scalar ack = Inr ack_sig"
    and proof_key: "member_of e ''key_proof_signing_document'' = Inr key_proof"
    "member_of e ''key_proof_signature'' = Inr (JStr proof_sig)" "signature_text T operational_scalar key_proof = Inr proof_sig"
    by (rule erase_regenerated [OF assms(3)]) (rule that; assumption)
  obtain raw where raw: "b64url_decode ack_sig = Some raw" "length raw = 64"
      "signed_by ecdsa (vt_spki T operational_scalar) raw ack_bytes"
    using signature_verifies [OF assms(1) ack(6)] ack(2) by auto
  obtain m raw' where raw': "vt_canon T key_proof = Some m" "b64url_decode proof_sig = Some raw'" "length raw' = 64"
      "signed_by ecdsa (vt_spki T operational_scalar) raw' m"
    using signature_verifies [OF assms(1) proof_key(3)] by auto
  have "check_erase_document (vt_canon T) ecdsa (vt_spki T operational_scalar) e
      (''ack_signing_document'', Some ''ack_canonical_utf8'', ''ack_signature'') = Inr ()"
    using ack raw by (simp add: check_erase_document_def canonical_at_Inr [THEN iffD2] encoding_at(1) decoded_at_def text_at_def
        or_raise_def)
  moreover have "check_erase_document (vt_canon T) ecdsa (vt_spki T operational_scalar) e
      (''key_proof_signing_document'', None, ''key_proof_signature'') = Inr ()"
    using proof_key raw' by (simp add: check_erase_document_def canonical_at_Inr [THEN iffD2] decoded_at_def text_at_def or_raise_def)
  ultimately show ?thesis
    using e assms(2)
    by (simp add: check_device_local_erase_vector_def encoding_at decoded_at_def text_at_def or_raise_def b64url_decode_b64url
        load_p256_def)
qed

lemma erase_signature:
  assumes "verifies_own T ecdsa operational_scalar" "regenerated_erase T erase = Inr e"
    and "member_of erase ''ack_signing_document'' = Inr ack"
  shows "\<exists>ack_bytes raw. member_of e ''ack_signing_document'' = Inr ack \<and> vt_canon T ack = Some ack_bytes
    \<and> (\<exists>sig. member_of e ''ack_signature'' = Inr (JStr sig) \<and> b64url_decode sig = Some raw) \<and> length raw = 64
    \<and> signed_by ecdsa (vt_spki T operational_scalar) raw ack_bytes
    \<and> member_of e ''public_key_spki'' = Inr (JStr (b64url (vt_spki T operational_scalar)))"
proof -
  obtain a b sig where e: "member_of e ''ack_signing_document'' = Inr a" "member_of erase ''ack_signing_document'' = Inr a"
      "vt_canon T a = Some b" "member_of e ''ack_signature'' = Inr (JStr sig)" "signature_text T operational_scalar a = Inr sig"
      "member_of e ''public_key_spki'' = Inr (JStr (b64url (vt_spki T operational_scalar)))"
    by (rule erase_regenerated [OF assms(2)]) (rule that; assumption)
  with signature_verifies [OF assms(1) e(5)] assms(3) show ?thesis by auto
qed

lemma part_published:
  assumes "publish_part T name v = Inr w"
  obtains bs t where "canonical_at (vt_canon T) v name = Inr bs" "utf8_decode bs = Some t"
    "\<And>k. member_of w k = (if k = name @ ''_sha256'' then Inr (digest_text bs)
       else if k = name @ ''_canonical_utf8'' then Inr (JStr t) else member_of v k)"
proof -
  obtain bs shown where c: "canonical_member T v name = Inr bs" "decoded_text bs = Inr shown"
    and p: "put_members [(name @ ''_canonical_utf8'', shown), (name @ ''_sha256'', digest_text bs)] v = Inr w"
    using assms unfolding publish_part_def and_then_eq_Inr by blast
  then obtain t where "shown = JStr t" "utf8_decode bs = Some t" by (auto simp: decoded_text_Inr)
  with that c(1) member_puts [OF p] show thesis by (auto simp: canonical_member_at)
qed

lemma delivery_part_passes:
  "canonical_at canon d name = Inr bs \<Longrightarrow> utf8_decode bs = Some t \<Longrightarrow>
   member_of d (name @ ''_canonical_utf8'') = Inr (JStr t) \<Longrightarrow> member_of d (name @ ''_sha256'') = Inr (digest_text bs) \<Longrightarrow>
     check_delivery_part canon d name = Inr ()"
  by (simp add: check_delivery_part_def encoding_at)

lemma without_appended: "k \<notin> fst ` set kvs \<Longrightarrow> filter (\<lambda>kv. fst kv \<noteq> k) (AList.update k x kvs) = kvs"
  by (induction kvs) auto

text \<open>What a regenerated delivery says.\<close>

lemma delivery_regenerated:
  assumes "regenerated_delivery T e delivery = Inr d" "member_of e ''ack_signing_document'' = Inr (JObj ack)"
    "member_of e ''ack_signature'' = Inr signature"
  obtains evidence where "each (check_delivery_part (vt_canon T) d) [''deliver'', ''acceptance'', ''evidence''] = Inr ()"
    "member_of d ''evidence'' = Inr evidence" "member_of d ''acceptance'' = member_of delivery ''acceptance''"
    "member_of evidence ''payload'' = Inr (JObj (AList.update ''device_signature'' signature ack))"
proof -
  obtain ack0 ack' signature' evidence d1 d2 d3 where
    a: "member_of e ''ack_signing_document'' = Inr ack0" "object_of ack0 = Inr ack'" "member_of e ''ack_signature'' = Inr signature'"
    and put: "and_then (member_of delivery ''evidence'')
      (put_member ''payload'' (JObj (AList.update ''device_signature'' signature' ack'))) = Inr evidence"
    and p1: "put_member ''evidence'' evidence delivery = Inr d1" and p2: "publish_part T ''deliver'' d1 = Inr d2"
    and p3: "publish_part T ''acceptance'' d2 = Inr d3" and p4: "publish_part T ''evidence'' d3 = Inr d"
    using assms(1) unfolding regenerated_delivery_def and_then_eq_Inr [of "member_of e k" "f" for k f]
      and_then_eq_Inr [of "and_then x f" for x f] and_then_eq_Inr [of "put_member k x v" for k x v]
      and_then_eq_Inr [of "publish_part T k v" for k v]
    by (elim exE conjE) (rule that; assumption)
  have ack: "ack' = ack" "signature' = signature" using a assms(2,3) by (auto simp: object_of_def)
  obtain b1 t1 where q1: "canonical_at (vt_canon T) d1 ''deliver'' = Inr b1" "utf8_decode b1 = Some t1"
    and m1: "\<And>k. member_of d2 k = (if k = ''deliver'' @ ''_sha256'' then Inr (digest_text b1)
       else if k = ''deliver'' @ ''_canonical_utf8'' then Inr (JStr t1) else member_of d1 k)"
    by (rule part_published [OF p2]) (rule that; assumption)
  obtain b2 t2 where q2: "canonical_at (vt_canon T) d2 ''acceptance'' = Inr b2" "utf8_decode b2 = Some t2"
    and m2: "\<And>k. member_of d3 k = (if k = ''acceptance'' @ ''_sha256'' then Inr (digest_text b2)
       else if k = ''acceptance'' @ ''_canonical_utf8'' then Inr (JStr t2) else member_of d2 k)"
    by (rule part_published [OF p3]) (rule that; assumption)
  obtain b3 t3 where q3: "canonical_at (vt_canon T) d3 ''evidence'' = Inr b3" "utf8_decode b3 = Some t3"
    and m3: "\<And>k. member_of d k = (if k = ''evidence'' @ ''_sha256'' then Inr (digest_text b3)
       else if k = ''evidence'' @ ''_canonical_utf8'' then Inr (JStr t3) else member_of d3 k)"
    by (rule part_published [OF p4]) (rule that; assumption)
  note member = m3 m2 m1 member_put [OF p1]
  have "canonical_at (vt_canon T) d ''deliver'' = Inr b1" "canonical_at (vt_canon T) d ''acceptance'' = Inr b2"
    "canonical_at (vt_canon T) d ''evidence'' = Inr b3"
    using q1(1) q2(1) q3(1) by (simp_all add: canonical_at_def member)
  then have "each (check_delivery_part (vt_canon T) d) [''deliver'', ''acceptance'', ''evidence''] = Inr ()"
    using q1(2) q2(2) q3(2) by (simp add: delivery_part_passes member)
  moreover obtain old where "put_member ''payload'' (JObj (AList.update ''device_signature'' signature ack)) old = Inr evidence"
    using put ack by (auto simp: and_then_eq_Inr)
  ultimately show thesis using that [of evidence] member_put by (simp add: member)
qed

text \<open>
  C7. Regeneration repairs the local erase and the delivery, given documents of the right shape: the acknowledgement of the
  erase vector is an object without repeated members and without a \<open>device_signature\<close>, and the acceptance of the delivery
  reports no \<open>terminal_result\<close>. Then, whatever canonical bytes, digests, signatures and evidence payload the two files
  held before, the regenerated erase vector passes the check of the conformance runner, and so does the regenerated
  delivery beside it, whose evidence carries the very acknowledgement and signature of the erase vector; provided the
  regeneration writes both, the key's own signatures verify and its point is on the curve.
\<close>

theorem regenerated_erase_and_delivery_pass:
  assumes "verifies_own T ecdsa operational_scalar" "p256 (vt_spki T operational_scalar) = Some True"
    and "regenerated_erase T erase = Inr e" "regenerated_delivery T e delivery = Inr d"
    and "member_of erase ''ack_signing_document'' = Inr (JObj ack)" "well_keyed (JObj ack)" "''device_signature'' \<notin> fst ` set ack"
    and "member_of delivery ''acceptance'' = Inr acceptance" "\<not> has_key acceptance ''terminal_result''"
  shows "check_device_local_erase_vector (vt_canon T) ecdsa p256 e = Inr 1
    \<and> check_device_delivery_vector (vt_canon T) ecdsa p256 e d = Inr 1"
proof -
  obtain ack_bytes raw sig where signed: "member_of e ''ack_signing_document'' = Inr (JObj ack)"
      "vt_canon T (JObj ack) = Some ack_bytes" "member_of e ''ack_signature'' = Inr (JStr sig)" "b64url_decode sig = Some raw"
      "length raw = 64" "signed_by ecdsa (vt_spki T operational_scalar) raw ack_bytes"
      "member_of e ''public_key_spki'' = Inr (JStr (b64url (vt_spki T operational_scalar)))"
    using erase_signature [OF assms(1,3,5)] by (elim exE conjE) (rule that; assumption)
  obtain evidence where d: "each (check_delivery_part (vt_canon T) d) [''deliver'', ''acceptance'', ''evidence''] = Inr ()"
      "member_of d ''evidence'' = Inr evidence" "member_of d ''acceptance'' = Inr acceptance"
      "member_of evidence ''payload'' = Inr (JObj (AList.update ''device_signature'' (JStr sig) ack))"
    using delivery_regenerated [OF assms(4) signed(1,3)] assms(8) by metis
  have "check_device_delivery_vector (vt_canon T) ecdsa p256 e d = Inr 1"
    using d signed assms(2,7,9) py_eq_refl [OF assms(6)]
    by (simp add: check_device_delivery_vector_def object_of_def without_appended decoded_at_def text_at_def or_raise_def
        b64url_decode_b64url vector_canonical_bytes_def update_conv' del: py_eq.simps)
  with erase_vector_passes [where ?p256.0 = p256, OF assms(1,2,3)] show ?thesis ..
qed

definition counting_tools :: vector_tools where
  "counting_tools = (listing_tools []) \<lparr>vt_sign := \<lambda>k m. (length m mod 256 ^ 32, 0)\<rparr>"

definition counting_ecdsa :: ecdsa where
  "counting_ecdsa = (\<lambda>key r s m. r = length m mod 256 ^ 32)"

lemma counting_verifies: "verifies_own counting_tools counting_ecdsa k"
  by (simp add: verifies_own_def counting_tools_def counting_ecdsa_def)

lemma counting_makes:
  "plain v \<Longrightarrow> document_bytes counting_tools v = Inr (utf8 (canonical_text v))"
  "plain v \<Longrightarrow> \<exists>sig. signature_text counting_tools k v = Inr sig"
  by (simp_all add: counting_tools_def listing_tools_def document_bytes_def signature_text_def or_raise_def to_bytes_def)

theorem regenerated_erase_and_delivery_pass_witness:
  "\<exists>e d. check_device_local_erase_vector (vt_canon counting_tools) counting_ecdsa (\<lambda>_. Some True) e = Inr 1
     \<and> check_device_delivery_vector (vt_canon counting_tools) counting_ecdsa (\<lambda>_. Some True) e d = Inr 1"
proof -
  let ?erase = "JObj [(''operation'', JNull), (''ack_signing_document'', JObj []), (''key_proof_signing_document'', JNull)]"
  let ?delivery = "JObj [(''deliver'', JNull), (''acceptance'', JObj []), (''evidence'', JObj [])]"
  obtain s t where sig: "signature_text counting_tools operational_scalar (JObj []) = Inr s"
      "signature_text counting_tools operational_scalar JNull = Inr t"
    using counting_makes(2) [of "JObj []" operational_scalar] counting_makes(2) [of JNull operational_scalar] by auto
  have "\<exists>e. regenerated_erase counting_tools ?erase = Inr e \<and> member_of e ''ack_signing_document'' = Inr (JObj [])
      \<and> member_of e ''ack_signature'' = Inr (JStr s)"
    by (simp add: regenerated_erase_def Let_def put_member_def object_of_def canonical_member_def counting_makes decoded_text_def
        or_raise_def utf8_decode_utf8 sig)
  then obtain e where e: "regenerated_erase counting_tools ?erase = Inr e" "member_of e ''ack_signing_document'' = Inr (JObj [])"
      "member_of e ''ack_signature'' = Inr (JStr s)" by blast
  have "\<exists>d. regenerated_delivery counting_tools e ?delivery = Inr d"
    by (simp add: regenerated_delivery_def publish_part_def e(2,3) put_member_def object_of_def canonical_member_def counting_makes
        decoded_text_def or_raise_def utf8_decode_utf8)
  then obtain d where d: "regenerated_delivery counting_tools e ?delivery = Inr d" by blast
  show ?thesis
    by (intro exI, rule regenerated_erase_and_delivery_pass [where ack = "[]" and acceptance = "JObj []",
          OF counting_verifies _ e(1) d])
      (simp_all add: or_raise_def has_key_def)
qed

end
