(* ===== verification/Vector_Inventories.thy ===== *)
theory Vector_Inventories
  imports Vector_Generation
begin

text \<open>
  The field inventories of vectors that hold lists of cases: the paths below a list of objects with the same members, and
  the shape of such a path, which tells validated from descriptive fields.
\<close>

subsection \<open>Inventories of cases\<close>

text \<open>A list of objects with the same members, each of which is a leaf or opaque.\<close>

definition leaf_like :: "json \<Rightarrow> bool" where
  "leaf_like v \<longleftrightarrow> (case v of JObj kvs \<Rightarrow> False | JArr vs \<Rightarrow> vs = [] | _ \<Rightarrow> True)"

lemma leaf_like_paths: "leaf_like v \<Longrightarrow> field_paths opq p v = []"
  by (cases v) (simp_all add: leaf_like_def)

lemma object_paths:
  assumes "list_all (\<lambda>kv. leaf_like (snd kv) \<or> dotted pre (fst kv) \<in> opq) kvs"
  shows "field_paths opq pre (JObj kvs) = map (dotted pre) (map fst kvs)"
  using assms by (induction kvs) (auto simp: leaf_like_paths Let_def)

lemma case_paths:
  assumes "\<And>i v. (i, v) \<in> set (enumerate n vs) \<Longrightarrow> \<exists>kvs. v = JObj kvs \<and> map fst kvs = ms
      \<and> list_all (\<lambda>kv. leaf_like (snd kv) \<or> dotted (indexed pre i) (fst kv) \<in> opq) kvs"
    and "\<And>i. n \<le> i \<Longrightarrow> i < n + length vs \<Longrightarrow> indexed pre i \<notin> opq"
  shows "set (item_paths opq pre n vs) = set (map (indexed pre) [n..<n + length vs])
    \<union> set (concat (map (\<lambda>i. map (dotted (indexed pre i)) ms) [n..<n + length vs]))"
  using assms
proof (induction vs arbitrary: n)
  case (Cons v vs)
  obtain kvs where v: "v = JObj kvs" "map fst kvs = ms"
      "list_all (\<lambda>kv. leaf_like (snd kv) \<or> dotted (indexed pre n) (fst kv) \<in> opq) kvs"
    using Cons.prems(1) [of n v] by auto
  have rest: "set (item_paths opq pre (Suc n) vs) = set (map (indexed pre) [Suc n..<Suc n + length vs])
      \<union> set (concat (map (\<lambda>i. map (dotted (indexed pre i)) ms) [Suc n..<Suc n + length vs]))"
    by (rule Cons.IH) (use Cons.prems in \<open>auto\<close>)
  have step: "[n..<n + length (v # vs)] = n # [Suc n..<Suc n + length vs]"
    using upt_conv_Cons [of n "n + length (v # vs)"] by simp
  have "item_paths opq pre n (v # vs) = indexed pre n # map (dotted (indexed pre n)) ms @ item_paths opq pre (Suc n) vs"
    using v object_paths [OF v(3)] Cons.prems(2) [of n] by (simp add: Let_def del: field_paths.simps)
  then show ?case unfolding step using rest by auto
qed simp

lemma indexed_case_paths:
  assumes "\<And>i v. (i, v) \<in> set (enumerate 0 vs) \<Longrightarrow> \<exists>kvs. v = JObj kvs \<and> map fst kvs = ms
      \<and> list_all (\<lambda>kv. leaf_like (snd kv) \<or> dotted (indexed pre i) (fst kv) \<in> opq) kvs"
    and "\<And>i. indexed pre i \<notin> opq"
  shows "set (item_paths opq pre 0 vs) = indexed_paths pre (length vs) \<union> indexed_members pre (length vs) ms"
  using case_paths [of 0 vs ms pre opq] assms by (simp add: indexed_paths_def indexed_members_def)

lemma indexed_members_Cons: "indexed_members pre n (m # ms) = indexed_members pre n [m] \<union> indexed_members pre n ms"
  by (auto simp: indexed_members_def)

lemma indexed_members_split: "indexed_members pre n (m # m' # ms) = indexed_members pre n [m] \<union> indexed_members pre n (m' # ms)"
  by (auto simp: indexed_members_def)

lemma indexed_member_shape:
  "x \<in> indexed_members pre n ms \<Longrightarrow> CHR ''['' \<in> set x \<and> (\<exists>p k. k \<in> set ms \<and> x = p @ CHR '']'' # CHR ''.'' # k)"
  by (auto simp: indexed_members_def dotted_def indexed_def) (metis append.assoc append_Cons)+

lemma indexed_path_shape: "x \<in> indexed_paths pre n \<Longrightarrow> CHR ''['' \<in> set x \<and> (\<exists>p. x = p @ '']'')"
  by (auto simp: indexed_paths_def indexed_def)

definition cased :: "string \<Rightarrow> string list \<Rightarrow> json \<Rightarrow> bool" where
  "cased key ms v \<longleftrightarrow>
     (case v of JObj kvs \<Rightarrow> map fst kvs = ms \<and> list_all (\<lambda>kv. leaf_like (snd kv) \<or> fst kv = key) kvs | _ \<Rightarrow> False)"

lemma cased_object:
  "cased key ms v \<longleftrightarrow> (\<exists>kvs. v = JObj kvs \<and> map fst kvs = ms \<and> list_all (\<lambda>kv. leaf_like (snd kv) \<or> fst kv = key) kvs)"
  by (cases v) (simp_all add: cased_def)

lemma cased_paths:
  assumes "list_all (cased key ms) vs" "\<And>i. i < length vs \<Longrightarrow> dotted (indexed pre i) key \<in> opq" "\<And>i. indexed pre i \<notin> opq"
  shows "set (item_paths opq pre 0 vs) = indexed_paths pre (length vs) \<union> indexed_members pre (length vs) ms"
proof (rule indexed_case_paths)
  fix i v assume "(i, v) \<in> set (enumerate 0 vs)"
  then have "i < length vs" "v \<in> set vs" by (auto simp: in_set_enumerate_eq)
  then show "\<exists>kvs. v = JObj kvs \<and> map fst kvs = ms
      \<and> list_all (\<lambda>kv. leaf_like (snd kv) \<or> dotted (indexed pre i) (fst kv) \<in> opq) kvs"
    using assms(1,2) by (fastforce simp: list_all_iff cased_object)
qed (rule assms(3))

end
