(* ===== verification/Answer_Generation.thy ===== *)
theory Answer_Generation
  imports Vector_Inventories Sha256_Vectors
begin

text \<open>
  \<open>contracts/device_foundation/v1/generation/regenerate_device_configuration_response_golden.py\<close>: the answers a Body can
  get when it asks what it should be, the refusals and the corrections of the device reference, and that the vector they
  make passes the check of the conformance runner. Why a case is there is prose, by the id of the case.
\<close>

subsection \<open>The reference, the channel and an answer\<close>

definition request_nonce :: string where "request_nonce = ''Y29uZmlndXJhdGlvbi1ub25jZQ''"

definition named_members :: json_object where
  "named_members =
     [(''device_instance_id'', JStr ''device-instance-591d7c62d0bc738376935f77ff2acd5472bbee64207a765df03af6d6240c07dc''),
      (''owner_domain_id'', JStr ''owner-domain_01''), (''owner_domain_generation'', JInt 3), (''claim_generation'', JInt 7),
      (''trust_epoch'', JInt 4)]"

definition manifest_reference :: json where
  "manifest_reference = JObj
     [(''manifest_id'', JStr ''manifest_01''), (''revision'', JInt 1),
      (''digest'', JStr ''sha256:31f7d2a97fd3f1980db53c81a0a724cf1451109d9600d99009966301bea64bcc'')]"

definition channel_entry :: "json \<Rightarrow> json \<Rightarrow> json_object" where
  "channel_entry binding_format opaque_binding =
     [(''channel_id'', JStr ''chan-0f3a91c4d25b47e8a603''), (''purpose'', JStr ''device-session''), (''kinds'', JArr [JStr ''audio'']),
      (''binding_format'', binding_format), (''issued_at_ms'', JInt 1788000000000), (''expires_at_ms'', JInt 1788001800000),
      (''opaque_binding'', opaque_binding)]"

definition session_entry :: "vector_tools \<Rightarrow> golden_files \<Rightarrow> conformance_error + json_object" where
  "session_entry T files =
     and_then (load T files ''livekit-session-binding.json'') (\<lambda>inner.
     and_then (member_of inner ''binding_format'') (\<lambda>f.
     and_then (member_of inner ''opaque_binding'') (\<lambda>b. Inr (channel_entry f b))))"

definition answer_members :: "string \<Rightarrow> json list \<Rightarrow> json option \<Rightarrow> json_object \<Rightarrow> json_object" where
  "answer_members lifecycle_state channels manifest ref =
     [(''operation'', JStr ''device-control.configuration''), (''nonce'', JStr request_nonce), (''device_ref'', JObj ref),
      (''lifecycle_state'', JStr lifecycle_state), (''channels'', JArr channels)]
     @ (case manifest of None \<Rightarrow> [] | Some m \<Rightarrow> [(''manifest'', m)])"

text \<open>The id of a case, what it states, and its answer.\<close>

type_synonym answer_spec = "string \<times> string \<times> json"

definition published_case :: "vector_tools \<Rightarrow> string \<Rightarrow> answer_spec \<Rightarrow> conformance_error + json" where
  "published_case T stated = (\<lambda>(case_id, statement, v).
     and_then (document_bytes T v) (\<lambda>canonical.
     and_then (decoded_text canonical) (\<lambda>shown.
     Inr (JObj
       [(''case_id'', JStr case_id), (stated, JStr statement), (''why'', JStr (vt_prose T case_id)), (''response'', v),
        (''canonical_utf8'', shown), (''canonical_sha256'', digest_text canonical)]))))"

subsection \<open>Cases and refusals\<close>

definition answer_cases :: "json_object \<Rightarrow> answer_spec list" where
  "answer_cases binding =
     [(''DF-DEVICE-CONTROL-CONFIGURATION-ACTIVE'', ''active'',
       JObj (answer_members ''approved'' [JObj binding] (Some manifest_reference) named_members)),
      (''DF-DEVICE-CONTROL-CONFIGURATION-APPROVED-AWAITING-CHANNEL'', ''awaiting-channel'',
       JObj (answer_members ''approved'' [] (Some manifest_reference) named_members)),
      (''DF-DEVICE-CONTROL-CONFIGURATION-REVOKED'', ''revoked'', JObj (answer_members ''revoked'' [] None named_members))]"

definition refused_answers :: "json_object \<Rightarrow> (string \<times> json) list" where
  "refused_answers binding =
     (let plain_answer = answer_members ''approved'' [] None named_members in
     [(''DF-DEVICE-CONTROL-CONFIGURATION-WRONG-OPERATION'',
       JObj (dict_merge plain_answer [(''operation'', JStr ''device-control.manifest-assert'')])),
      (''DF-DEVICE-CONTROL-CONFIGURATION-UNKNOWN-LIFECYCLE'',
       JObj (dict_merge plain_answer [(''lifecycle_state'', JStr ''pending'')])),
      (''DF-DEVICE-CONTROL-CONFIGURATION-CHANNEL-ALREADY-EXPIRED'',
       JObj (answer_members ''approved'' [JObj (dict_merge binding [(''expires_at_ms'', JInt 0)])] None named_members)),
      (''DF-DEVICE-CONTROL-CONFIGURATION-CHANNEL-WITHOUT-A-BINDING'',
       JObj (answer_members ''approved'' [JObj (dict_merge binding [(''opaque_binding'', JStr [])])] None named_members))])"

definition refusal_case :: "vector_tools \<Rightarrow> string \<times> json \<Rightarrow> json" where
  "refusal_case T = (\<lambda>(case_id, v).
     JObj [(''case_id'', JStr case_id), (''why'', JStr (vt_prose T case_id)), (''response'', v)])"

subsection \<open>Corrections\<close>

definition ref_with :: "json_object \<Rightarrow> json_object" where
  "ref_with members = dict_merge named_members members"

definition approved_with :: "json_object \<Rightarrow> json" where
  "approved_with members = JObj (answer_members ''approved'' [] None (ref_with members))"

definition another_device :: string where
  "another_device = ''device-instance-'' @ sha256_hex (utf8 ''another operational key'')"

definition correction_specs :: "answer_spec list" where
  "correction_specs =
     [(''DF-DEVICE-CONTROL-CONFIGURATION-REGRANT-ADOPTED'', ''adopt'',
       approved_with [(''claim_generation'', JInt 8), (''trust_epoch'', JInt 1)]),
      (''DF-DEVICE-CONTROL-CONFIGURATION-TRUST-EPOCH-ADOPTED'', ''adopt'', approved_with [(''trust_epoch'', JInt 5)]),
      (''DF-DEVICE-CONTROL-CONFIGURATION-REVOKED-AT-A-LATER-GENERATION-ADOPTED'', ''adopt'',
       JObj (answer_members ''revoked'' [] None (ref_with [(''claim_generation'', JInt 8), (''trust_epoch'', JInt 1)]))),
      (''DF-DEVICE-CONTROL-CONFIGURATION-OLDER-CLAIM-GENERATION-REFUSED'', ''refuse'',
       approved_with [(''claim_generation'', JInt 6), (''trust_epoch'', JInt 9)]),
      (''DF-DEVICE-CONTROL-CONFIGURATION-OLDER-TRUST-EPOCH-REFUSED'', ''refuse'', approved_with [(''trust_epoch'', JInt 3)]),
      (''DF-DEVICE-CONTROL-CONFIGURATION-AUTHORITY-RESET-REFUSED'', ''refuse'',
       approved_with [(''owner_domain_generation'', JInt 4), (''claim_generation'', JInt 8), (''trust_epoch'', JInt 1)]),
      (''DF-DEVICE-CONTROL-CONFIGURATION-AUTHORITY-ROLLBACK-REFUSED'', ''refuse'',
       approved_with [(''owner_domain_generation'', JInt 2)]),
      (''DF-DEVICE-CONTROL-CONFIGURATION-ANOTHER-OWNER-DOMAIN-REFUSED'', ''refuse'',
       approved_with [(''owner_domain_id'', JStr ''owner-domain_02''), (''claim_generation'', JInt 8), (''trust_epoch'', JInt 1)]),
      (''DF-DEVICE-CONTROL-CONFIGURATION-ANOTHER-DEVICE-REFUSED'', ''refuse'',
       approved_with [(''device_instance_id'', JStr another_device), (''claim_generation'', JInt 8), (''trust_epoch'', JInt 1)])]"

definition device_ref_corrections :: "vector_tools \<Rightarrow> conformance_error + json" where
  "device_ref_corrections T =
     and_then (map_each (published_case T ''conclusion'') correction_specs) (\<lambda>cases.
     Inr (JObj [(''rule'', JStr (vt_prose T ''device_ref_corrections'')),
                (''conclusions'', JArr [JStr ''adopt'', JStr ''refuse'']), (''cases'', JArr cases)]))"

subsection \<open>The vector\<close>

definition response_vector :: "vector_tools \<Rightarrow> json_object \<Rightarrow> conformance_error + json" where
  "response_vector T binding =
     and_then (map_each (published_case T ''body_state'') (answer_cases binding)) (\<lambda>cases.
     and_then (device_ref_corrections T) (\<lambda>corrections.
     Inr (JObj
       [(''vector_id'', JStr ''DF-DEVICE-CONTROL-CONFIGURATION-RESPONSE-001''),
        (''description'', JStr (vt_prose T ''device-control-configuration-response'')),
        (''schema'', JStr (''https://contracts.eidolon.live/device-foundation/v1/device-control/'' @
            ''schemas.schema.json#/$defs/DeviceConfigurationResult'')),
        (''expiry_is_not_judged_against'', JStr ''the reader's clock''), (''request_nonce'', JStr request_nonce),
        (''device_ref'', JObj named_members),
        (''body_states'', JArr [JStr ''active'', JStr ''awaiting-channel'', JStr ''revoked'']), (''cases'', JArr cases),
        (''must_refuse'', JArr (map (refusal_case T) (refused_answers binding))),
        (''device_ref_corrections'', corrections)])))"

definition regenerate_response :: "vector_tools \<Rightarrow> golden_files \<Rightarrow> golden_files \<times> (conformance_error + unit)" where
  "regenerate_response T files =
     save_each [(''device-control-configuration-response.json'', and_then (session_entry T files) (response_vector T))] files"

subsection \<open>The inventory of the vector\<close>

definition spec_json :: "vector_tools \<Rightarrow> string \<Rightarrow> answer_spec \<Rightarrow> json" where
  "spec_json T stated = (\<lambda>(case_id, statement, v).
     JObj [(''case_id'', JStr case_id), (stated, JStr statement), (''why'', JStr (vt_prose T case_id)), (''response'', v),
           (''canonical_utf8'', JStr (canonical_text v)), (''canonical_sha256'', digest_text (utf8 (canonical_text v)))])"

definition vector_of_cases :: "vector_tools \<Rightarrow> json list \<Rightarrow> json list \<Rightarrow> json list \<Rightarrow> json" where
  "vector_of_cases T cases refusals corrections = JObj
     [(''vector_id'', JStr ''DF-DEVICE-CONTROL-CONFIGURATION-RESPONSE-001''),
      (''description'', JStr (vt_prose T ''device-control-configuration-response'')),
      (''schema'', JStr (''https://contracts.eidolon.live/device-foundation/v1/device-control/'' @
          ''schemas.schema.json#/$defs/DeviceConfigurationResult'')),
      (''expiry_is_not_judged_against'', JStr ''the reader's clock''), (''request_nonce'', JStr request_nonce),
      (''device_ref'', JObj named_members),
      (''body_states'', JArr [JStr ''active'', JStr ''awaiting-channel'', JStr ''revoked'']), (''cases'', JArr cases),
      (''must_refuse'', JArr refusals),
      (''device_ref_corrections'', JObj [(''rule'', JStr (vt_prose T ''device_ref_corrections'')),
         (''conclusions'', JArr [JStr ''adopt'', JStr ''refuse'']), (''cases'', JArr corrections)])]"

lemma published_plain:
  assumes "canonicalizes (vt_canon T)" "list_all (\<lambda>s. plain (snd (snd s))) specs"
  shows "map_each (published_case T stated) specs = Inr (map (spec_json T stated) specs)"
  using assms by (induction specs)
    (auto simp: published_case_def spec_json_def document_bytes_def canonicalizes_def decoded_text_def or_raise_def utf8_decode_utf8)

lemma opaque_tail: "x \<in> response_opaque a b c \<Longrightarrow> take 9 (rev x) = rev ''.response''"
  unfolding response_opaque_def by (elim UnE; drule indexed_member_shape; auto)

lemma not_opaque: "take 9 (rev x) \<noteq> rev ''.response'' \<Longrightarrow> x \<notin> response_opaque a b c"
  using opaque_tail by blast

lemma response_opaque_members:
  "i < a \<Longrightarrow> dotted (indexed ''cases'' i) ''response'' \<in> response_opaque a b c"
  "i < b \<Longrightarrow> dotted (indexed ''must_refuse'' i) ''response'' \<in> response_opaque a b c"
  "i < c \<Longrightarrow> dotted (indexed ''device_ref_corrections.cases'' i) ''response'' \<in> response_opaque a b c"
  by (auto simp: response_opaque_def indexed_members_def)

lemma response_opaque_known: "response_opaque a b c \<subseteq> response_inventory a b c"
  unfolding response_opaque_def response_inventory_def indexed_members_split by blast

lemma inventory_kinds: "response_inventory a b c \<inter> response_descriptions a b c = {}"
proof (rule equals0I)
  fix x assume x: "x \<in> response_inventory a b c \<inter> response_descriptions a b c"
  then have "(CHR ''['' \<in> set x \<longrightarrow> take 4 (rev x) \<noteq> rev ''.why'') \<and> (CHR ''['' \<notin> set x \<longrightarrow>
      x \<notin> {''vector_id'', ''description'', ''schema'', ''device_ref_corrections.rule''})"
    unfolding response_inventory_def
    by (elim IntE UnE) (auto dest!: indexed_member_shape indexed_path_shape)
  with x show False
    unfolding response_descriptions_def by (elim IntE UnE) (auto dest!: indexed_member_shape)
qed

lemma vector_paths:
  fixes cases refusals corrections
  defines "opq \<equiv> response_opaque (length cases) (length refusals) (length corrections)"
  assumes "list_all (cased ''response'' [''case_id'', ''body_state'', ''why'', ''response'', ''canonical_utf8'', ''canonical_sha256'']) cases"
    and "list_all (cased ''response'' [''case_id'', ''why'', ''response'']) refusals"
    and "list_all (cased ''response'' [''case_id'', ''conclusion'', ''why'', ''response'', ''canonical_utf8'', ''canonical_sha256'']) corrections"
  shows "set (field_paths opq [] (vector_of_cases T cases refusals corrections)) =
    response_inventory (length cases) (length refusals) (length corrections)
    \<union> response_descriptions (length cases) (length refusals) (length corrections)"
proof -
  have closed: "x \<notin> opq" if "take 9 (rev x) \<noteq> rev ''.response''" for x unfolding opq_def by (rule not_opaque) (rule that)
  have items:
    "set (item_paths opq ''cases'' 0 cases) = indexed_paths ''cases'' (length cases) \<union> indexed_members ''cases'' (length cases)
       [''case_id'', ''body_state'', ''why'', ''response'', ''canonical_utf8'', ''canonical_sha256'']"
    "set (item_paths opq ''must_refuse'' 0 refusals) = indexed_paths ''must_refuse'' (length refusals)
       \<union> indexed_members ''must_refuse'' (length refusals) [''case_id'', ''why'', ''response'']"
    "set (item_paths opq ''device_ref_corrections.cases'' 0 corrections) =
       indexed_paths ''device_ref_corrections.cases'' (length corrections)
       \<union> indexed_members ''device_ref_corrections.cases'' (length corrections)
       [''case_id'', ''conclusion'', ''why'', ''response'', ''canonical_utf8'', ''canonical_sha256'']"
    unfolding opq_def
    by (rule cased_paths, rule assms, rule response_opaque_members, assumption, rule not_opaque, simp add: indexed_def)+
  define inventoried :: "string set" where "inventoried =
    {''expiry_is_not_judged_against'', ''request_nonce'', ''device_ref'', ''device_ref.device_instance_id'',
     ''device_ref.owner_domain_id'', ''device_ref.owner_domain_generation'', ''device_ref.claim_generation'',
     ''device_ref.trust_epoch'', ''body_states'', ''cases'', ''must_refuse'', ''device_ref_corrections'',
     ''device_ref_corrections.conclusions'', ''device_ref_corrections.cases''}"
  define described :: "string set" where
    "described = {''vector_id'', ''description'', ''schema'', ''device_ref_corrections.rule''}"
  note known = inventoried_def [symmetric] described_def [symmetric]
  have "set (field_paths opq [] (vector_of_cases T cases refusals corrections)) = inventoried \<union> described
    \<union> set (item_paths opq ''cases'' 0 cases) \<union> set (item_paths opq ''must_refuse'' 0 refusals)
    \<union> set (item_paths opq ''device_ref_corrections.cases'' 0 corrections)"
    unfolding inventoried_def described_def
    by (auto simp: vector_of_cases_def named_members_def dotted_def Let_def closed)
  then show ?thesis
    unfolding items response_inventory_def response_descriptions_def indexed_members_split known by (simp only: Un_ac)
qed

lemma vector_inventory:
  assumes "list_all (cased ''response'' [''case_id'', ''body_state'', ''why'', ''response'', ''canonical_utf8'', ''canonical_sha256'']) cases"
    and "list_all (cased ''response'' [''case_id'', ''why'', ''response'']) refusals"
    and "list_all (cased ''response'' [''case_id'', ''conclusion'', ''why'', ''response'', ''canonical_utf8'', ''canonical_sha256'']) corrections"
  shows "require_field_inventory (vector_of_cases T cases refusals corrections)
    (response_inventory (length cases) (length refusals) (length corrections))
    (response_descriptions (length cases) (length refusals) (length corrections))
    (response_opaque (length cases) (length refusals) (length corrections)) = Inr ()"
  unfolding field_inventory_exact vector_paths [OF assms]
  using le_supI1 [OF response_opaque_known] inventory_kinds by simp

subsection \<open>The cases pass\<close>

definition named_ref :: device_ref where
  "named_ref =
     \<lparr>device_instance_id = ''device-instance-591d7c62d0bc738376935f77ff2acd5472bbee64207a765df03af6d6240c07dc'',
      owner_domain_id = ''owner-domain_01'', owner_domain_generation = 3, claim_generation = 7, trust_epoch = 4\<rparr>"

lemma named_instance_ok:
  "device_instance_id_ok ''device-instance-591d7c62d0bc738376935f77ff2acd5472bbee64207a765df03af6d6240c07dc''"
  by (simp add: device_instance_id_ok_def device_instance_namespace_def starts_with_def char_class_defs)

lemma another_device_ok: "device_instance_id_ok another_device"
  using derived_id_ok by (simp add: another_device_def device_instance_namespace_def)

lemma owner_domains_ok: "owner_domain_id_ok ''owner-domain_01''" "owner_domain_id_ok ''owner-domain_02''"
  by (simp_all add: owner_domain_id_ok_def len_between_def starts_with_def)

lemma answers_about:
  "answered_ref (JObj (answer_members s cs m ref)) = or_raise Invalid_Reference (parse_device_ref (JObj ref))"
  by (simp add: answered_ref_def answer_members_def or_raise_def)

lemma named_ref_read: "parse_device_ref (JObj named_members) = Some named_ref"
  using parse_device_ref_json [of named_ref]
  by (simp add: device_ref_json_def named_members_def named_ref_def wf_device_ref_def named_instance_ok owner_domains_ok)

definition correction_refs :: "device_ref list" where
  "correction_refs =
     [named_ref\<lparr>claim_generation := 8, trust_epoch := 1\<rparr>, named_ref\<lparr>trust_epoch := 5\<rparr>,
      named_ref\<lparr>claim_generation := 8, trust_epoch := 1\<rparr>, named_ref\<lparr>claim_generation := 6, trust_epoch := 9\<rparr>,
      named_ref\<lparr>trust_epoch := 3\<rparr>, named_ref\<lparr>owner_domain_generation := 4, claim_generation := 8, trust_epoch := 1\<rparr>,
      named_ref\<lparr>owner_domain_generation := 2\<rparr>,
      named_ref\<lparr>owner_domain_id := ''owner-domain_02'', claim_generation := 8, trust_epoch := 1\<rparr>,
      named_ref\<lparr>device_instance_id := another_device, claim_generation := 8, trust_epoch := 1\<rparr>]"

lemma corrections_answer:
  "map (\<lambda>s. answered_ref (snd (snd s))) correction_specs = map Inr correction_refs"
  by (simp add: correction_specs_def correction_refs_def approved_with_def answers_about ref_with_def dict_merge_def named_members_def
      named_ref_def parse_device_ref_def only_keys_def parse_text_def parse_int_def wf_device_ref_def named_instance_ok
      another_device_ok owner_domains_ok or_raise_def)

lemma another_digest:
  "sha256_hex (utf8 ''another operational key'') \<noteq> ''591d7c62d0bc738376935f77ff2acd5472bbee64207a765df03af6d6240c07dc''"
  unfolding another_key_digest by simp

lemma corrections_conclude:
  "map (\<lambda>s. fst (snd s)) correction_specs =
     map (\<lambda>r. correction_text (classify_authority_device_ref named_ref r)) correction_refs"
  "list_all (\<lambda>r. classify_authority_device_ref named_ref r \<noteq> No_Correction) correction_refs"
  by (simp_all add: correction_specs_def correction_refs_def named_ref_def classify_authority_device_ref_def claim_order_def
      another_device_def another_digest)

lemma plain_answers:
  "list_all (\<lambda>s. plain (snd (snd s))) correction_specs"
  "list_all (\<lambda>s. plain (snd (snd s))) (answer_cases (channel_entry (JStr f) (JStr b)))"
  by (simp_all add: correction_specs_def approved_with_def answer_members_def ref_with_def dict_merge_def named_members_def
      answer_cases_def channel_entry_def manifest_reference_def)

lemma case_members:
  "member_of (spec_json T stated (i, st, v)) ''case_id'' = Inr (JStr i)"
  "stated \<noteq> ''response'' \<Longrightarrow> member_of (spec_json T stated (i, st, v)) ''response'' = Inr v"
  "member_of (spec_json T ''conclusion'' (i, st, v)) ''conclusion'' = Inr (JStr st)"
  "member_of (spec_json T ''body_state'' (i, st, v)) ''body_state'' = Inr (JStr st)"
  "stated \<noteq> ''why'' \<Longrightarrow> member_of (spec_json T stated (i, st, v)) ''why'' = Inr (JStr (vt_prose T i))"
  "stated \<noteq> ''canonical_utf8'' \<Longrightarrow> member_of (spec_json T stated (i, st, v)) ''canonical_utf8'' = Inr (JStr (canonical_text v))"
  "stated \<noteq> ''canonical_sha256'' \<Longrightarrow>
     member_of (spec_json T stated (i, st, v)) ''canonical_sha256'' = Inr (digest_text (utf8 (canonical_text v)))"
  by (simp_all add: spec_json_def or_raise_def)

lemma case_published:
  assumes "canonicalizes canon" "plain v" "stated \<noteq> ''canonical_utf8''" "stated \<noteq> ''canonical_sha256''"
  shows "check_published_bytes canon (spec_json T stated (i, st, v)) v = Inr ()"
  using assms by (simp add: check_published_bytes_def vector_canonical_bytes_def canonicalizes_def case_members or_raise_def
      utf8_decode_utf8 digest_text_def)

lemma vector_members:
  "member_of (vector_of_cases T cs rs ks) ''request_nonce'' = Inr (JStr request_nonce)"
  "member_of (vector_of_cases T cs rs ks) ''device_ref'' = Inr (JObj named_members)"
  "member_of (vector_of_cases T cs rs ks) ''body_states'' = Inr (JArr [JStr ''active'', JStr ''awaiting-channel'', JStr ''revoked''])"
  "member_of (vector_of_cases T cs rs ks) ''cases'' = Inr (JArr cs)"
  "member_of (vector_of_cases T cs rs ks) ''must_refuse'' = Inr (JArr rs)"
  "member_of (vector_of_cases T cs rs ks) ''expiry_is_not_judged_against'' = Inr (JStr ''the reader's clock'')"
  "member_of (vector_of_cases T cs rs ks) ''device_ref_corrections'' = Inr (JObj [(''rule'', JStr (vt_prose T ''device_ref_corrections'')),
     (''conclusions'', JArr [JStr ''adopt'', JStr ''refuse'']), (''cases'', JArr ks)])"
  "answered_ref (vector_of_cases T cs rs ks) = Inr named_ref"
  by (simp_all add: vector_of_cases_def answered_ref_def named_ref_read or_raise_def)

lemma answer_lookups:
  "map_of (answer_members s cs m ref) ''nonce'' = Some (JStr request_nonce)"
  "map_of (answer_members s cs m ref) ''device_ref'' = Some (JObj ref)"
  "map_of (answer_members s cs m ref) ''lifecycle_state'' = Some (JStr s)"
  "map_of (answer_members s cs m ref) ''channels'' = Some (JArr cs)"
  by (simp_all add: answer_members_def)

text \<open>One correction, and the nine of them.\<close>

lemma correction_passes:
  assumes "canonicalizes canon" "plain v" "errors v = []" "member_of v ''nonce'' = Inr (JStr request_nonce)"
    and "answered_ref v = Inr r" "classify_authority_device_ref named_ref r \<noteq> No_Correction"
    and "st = correction_text (classify_authority_device_ref named_ref r)" "vt_prose T i \<noteq> []"
  shows "check_correction_case canon errors (vector_of_cases T cs rs ks) named_ref (spec_json T ''conclusion'' (i, st, v)) = Inr ()"
  using assms by (simp add: check_correction_case_def case_members case_published vector_members)

lemma correction_of:
  assumes "s \<in> set correction_specs"
  obtains r where "answered_ref (snd (snd s)) = Inr r" "fst (snd s) = correction_text (classify_authority_device_ref named_ref r)"
    "classify_authority_device_ref named_ref r \<noteq> No_Correction"
proof -
  have "length correction_specs = length correction_refs" using arg_cong [OF corrections_answer, of length] by simp
  moreover obtain n where n: "n < length correction_specs" "s = correction_specs ! n" using assms by (metis in_set_conv_nth)
  ultimately have r: "correction_refs ! n \<in> set correction_refs" "n < length correction_refs" by simp_all
  have "answered_ref (snd (snd s)) = Inr (correction_refs ! n)"
    using arg_cong [OF corrections_answer, of "\<lambda>l. l ! n"] n r(2) by simp
  moreover have "fst (snd s) = correction_text (classify_authority_device_ref named_ref (correction_refs ! n))"
    using arg_cong [OF corrections_conclude(1), of "\<lambda>l. l ! n"] n r(2) by simp
  ultimately show thesis using that corrections_conclude(2) r(1) by (simp add: list_all_iff)
qed

lemma correction_nonces: "list_all (\<lambda>s. member_of (snd (snd s)) ''nonce'' = Inr (JStr request_nonce)) correction_specs"
  by (simp add: correction_specs_def approved_with_def answer_lookups or_raise_def)

lemma corrections_each:
  assumes "canonicalizes canon" "\<And>i. vt_prose T i \<noteq> []" "list_all (\<lambda>s. errors (snd (snd s)) = []) correction_specs"
  shows "each (check_correction_case canon errors (vector_of_cases T cs rs ks) named_ref) (map (spec_json T ''conclusion'') correction_specs)
    = Inr ()"
proof -
  have "check_correction_case canon errors (vector_of_cases T cs rs ks) named_ref (spec_json T ''conclusion'' s) = Inr ()"
    if s: "s \<in> set correction_specs" for s
  proof -
    obtain r where "answered_ref (snd (snd s)) = Inr r" "fst (snd s) = correction_text (classify_authority_device_ref named_ref r)"
      "classify_authority_device_ref named_ref r \<noteq> No_Correction" using correction_of [OF s] .
    moreover have "plain (snd (snd s))" "errors (snd (snd s)) = []" "member_of (snd (snd s)) ''nonce'' = Inr (JStr request_nonce)"
      using s plain_answers(1) assms(3) correction_nonces by (simp_all add: list_all_iff)
    ultimately show ?thesis
      using correction_passes [of canon "snd (snd s)" errors r "fst (snd s)" T "fst s"] assms(1,2) by (cases s) simp
  qed
  then show ?thesis by (simp add: each_ok list_all_iff)
qed

lemmas correction_answers = corrections_answer [unfolded correction_specs_def correction_refs_def, simplified]

lemma correction_kinds:
  "has_case ''adopt'' (\<lambda>r. 7 < claim_generation r \<and> trust_epoch r < 4) (Some ''approved'')
     (map (spec_json T ''conclusion'') correction_specs) = Inr True"
  "has_case ''refuse'' (\<lambda>r. 3 < owner_domain_generation r \<and> 7 < claim_generation r) None
     (map (spec_json T ''conclusion'') correction_specs) = Inr True"
  "has_case ''refuse'' (\<lambda>r. claim_generation r < 7 \<and> 4 < trust_epoch r) None
     (map (spec_json T ''conclusion'') correction_specs) = Inr True"
  "has_revocation (map (spec_json T ''conclusion'') correction_specs) = Inr True"
  by (simp_all add: correction_specs_def case_members answer_lookups approved_with_def or_raise_def
      correction_answers [unfolded approved_with_def] named_ref_def)

lemma corrections_pass:
  assumes "canonicalizes canon" "\<And>i. vt_prose T i \<noteq> []" "list_all (\<lambda>s. errors (snd (snd s)) = []) correction_specs"
  shows "check_device_ref_corrections canon errors (vector_of_cases T cs rs (map (spec_json T ''conclusion'') correction_specs)) = Inr 9"
proof -
  have held: "claim_generation named_ref = 7" "trust_epoch named_ref = 4" "owner_domain_generation named_ref = 3"
    "length correction_specs = 9"
    by (simp_all add: named_ref_def correction_specs_def)
  show ?thesis
    by (simp add: check_device_ref_corrections_def vector_members or_raise_def elements_of_def corrections_each [OF assms]
        held correction_kinds)
qed

text \<open>The cases, the refusals and the whole vector.\<close>

lemma answer_passes:
  assumes "canonicalizes canon" "plain (JObj (answer_members s cs m named_members))" "vt_prose T i \<noteq> []"
    and "errors (JObj (answer_members s cs m named_members)) = []" "JStr st \<in> set declared"
  shows "check_answer_case canon errors (vector_of_cases T as rs ks) declared
      (spec_json T ''body_state'' (i, st, JObj (answer_members s cs m named_members))) = Inr (JStr st)"
proof -
  have "py_eq (JObj named_members) (JObj named_members)" "py_eq (JStr request_nonce) (JStr request_nonce)"
    by (simp_all add: named_members_def)
  moreover have "list_ex (py_eq (JStr st)) declared" using assms(5) by (auto simp: list_ex_iff)
  ultimately show ?thesis
    using case_published [OF assms(1,2), of "''body_state''" T i st] assms(3,4)
    by (simp add: check_answer_case_def case_members vector_members answer_lookups or_raise_def flag_at_def refuse_unless_def
        del: py_eq.simps)
qed

lemma answers_pass:
  assumes "canonicalizes canon" "\<And>i. vt_prose T i \<noteq> []"
    and "list_all (\<lambda>s. errors (snd (snd s)) = []) (answer_cases (channel_entry (JStr f) (JStr b)))"
  shows "map_each (check_answer_case canon errors (vector_of_cases T as rs ks) [JStr ''active'', JStr ''awaiting-channel'', JStr ''revoked''])
      (map (spec_json T ''body_state'') (answer_cases (channel_entry (JStr f) (JStr b))))
    = Inr [JStr ''active'', JStr ''awaiting-channel'', JStr ''revoked'']"
proof -
  note plain = plain_answers(2) [of f b]
  show ?thesis
    using assms(3) plain answer_passes [OF assms(1) _ assms(2)]
    by (simp add: answer_cases_def)
qed

lemma refusals_pass:
  assumes "\<And>i. vt_prose T i \<noteq> []" "list_all (\<lambda>s. errors (snd s) \<noteq> []) refused"
  shows "each (check_refusal errors) (map (refusal_case T) refused) = Inr ()"
  using assms by (induction refused)
    (auto simp: check_refusal_def refusal_case_def or_raise_def flag_at_def refuse_unless_def)

lemma cases_shaped:
  "list_all (cased ''response'' [''case_id'', ''body_state'', ''why'', ''response'', ''canonical_utf8'', ''canonical_sha256''])
     (map (spec_json T ''body_state'') specs)"
  "list_all (cased ''response'' [''case_id'', ''conclusion'', ''why'', ''response'', ''canonical_utf8'', ''canonical_sha256''])
     (map (spec_json T ''conclusion'') specs)"
  "list_all (cased ''response'' [''case_id'', ''why'', ''response'']) (map (refusal_case T) refused)"
  by (auto simp: list_all_iff cased_def spec_json_def refusal_case_def leaf_like_def digest_text_def)

text \<open>
  The vector of the configuration answers that the generator writes passes the check of the conformance runner with
  sixteen checks, whenever the schema admits the answers it publishes and refuses the four it says must be refused: each
  answer has its bytes and digest, the active one carries the session binding, no grant in it is still running, the nine
  corrections conclude what the rule concludes and separate it from the wrong ones, and no field is left unread.
\<close>

lemma generated_answers_pass:
  assumes "canonicalizes (vt_canon T)" "\<And>i. vt_prose T i \<noteq> []" "1788001800000 < now_ms"
    and "member_of inner ''binding_format'' = Inr (JStr f)" "member_of inner ''opaque_binding'' = Inr (JStr b)"
    and "list_all (\<lambda>s. errors (snd (snd s)) = []) (answer_cases (channel_entry (JStr f) (JStr b)) @ correction_specs)"
    and "list_all (\<lambda>s. errors (snd s) \<noteq> []) (refused_answers (channel_entry (JStr f) (JStr b)))"
  shows "\<exists>v. response_vector T (channel_entry (JStr f) (JStr b)) = Inr v
    \<and> check_device_configuration_response (vt_canon T) errors now_ms inner v = Inr 16"
proof -
  let ?e = "channel_entry (JStr f) (JStr b)"
  let ?cases = "map (spec_json T ''body_state'') (answer_cases ?e)"
  let ?refusals = "map (refusal_case T) (refused_answers ?e)"
  let ?corrections = "map (spec_json T ''conclusion'') correction_specs"
  let ?v = "vector_of_cases T ?cases ?refusals ?corrections"
  have made: "response_vector T ?e = Inr ?v"
    by (simp add: response_vector_def device_ref_corrections_def published_plain assms(1) plain_answers vector_of_cases_def)
  have lengths: "length ?cases = 3" "length ?refusals = 4" "length ?corrections = 9"
    by (simp_all add: answer_cases_def refused_answers_def correction_specs_def Let_def)
  have some_refused: "refused_answers ?e \<noteq> []" by (simp add: refused_answers_def Let_def)
  have errors: "list_all (\<lambda>s. errors (snd (snd s)) = []) (answer_cases ?e)"
    "list_all (\<lambda>s. errors (snd (snd s)) = []) correction_specs" using assms(6) by simp_all
  have inventory: "require_field_inventory ?v (response_inventory 3 4 9) (response_descriptions 3 4 9) (response_opaque 3 4 9) = Inr ()"
    using vector_inventory [OF cases_shaped(1) cases_shaped(3) cases_shaped(2)] unfolding lengths [symmetric] .
  have active: "first_active ?cases = Inr (hd ?cases)" "and_then (member_of (hd ?cases) ''response'') (\<lambda>r. array_at r ''channels'')
      = Inr [JObj ?e]"
    by (simp_all add: answer_cases_def is_text_at_def case_members array_at_def answer_lookups or_raise_def array_of_def)
  have grants: "each (check_grants now_ms) ?cases = Inr ()"
    using assms(3)
    by (simp add: answer_cases_def check_grants_def case_members answer_lookups or_raise_def elements_of_def check_grant_def
        channel_entry_def number_at_def refuse_if_def guard_simps)
  have channel: "same_member (JObj ?e) inner ''binding_format'' = Inr True" "same_member (JObj ?e) inner ''opaque_binding'' = Inr True"
    using assms(4,5) by (simp_all add: same_member_def channel_entry_def or_raise_def)
  have "check_device_configuration_response (vt_canon T) errors now_ms inner ?v = Inr 16"
    using lengths
    by (simp add: check_device_configuration_response_def vector_members elements_of_def array_at_def [of ?v] array_of_def
        answers_pass [OF assms(1,2) errors(1)] active channel grants refusals_pass [OF assms(2,7)] is_text_at_def refuse_unless_def
        corrections_pass [OF assms(1,2) errors(2)] inventory some_refused del: list.map)
  with made show ?thesis by blast
qed

definition prosaic_tools :: vector_tools where
  "prosaic_tools = (listing_tools []) \<lparr>vt_prose := \<lambda>s. ''why: '' @ s\<rparr>"

end
