(* ===== verification/Configuration_Schema.thy ===== *)
theory Configuration_Schema
  imports Answer_Generation
begin

text \<open>
  The schema of a configuration answer, \<open>DeviceConfigurationResult\<close> of
  \<open>contracts/device_foundation/v1/device-control/schemas.schema.json\<close> with the definitions it refers to in
  \<open>common/schemas.schema.json\<close>, as a predicate: what the validator of the conformance runner admits. An integer may be
  written as a float of that value, and the dollar of a pattern also holds before a final line feed.
\<close>

subsection \<open>The schema\<close>

definition whole_text :: "(string \<Rightarrow> bool) \<Rightarrow> string \<Rightarrow> bool" where
  "whole_text p s \<longleftrightarrow> p s \<or> s \<noteq> [] \<and> last s = CHR 0x0A \<and> p (butlast s)"

fun schema_integer :: "(rat \<Rightarrow> bool) \<Rightarrow> json \<Rightarrow> bool" where
  "schema_integer p (JInt n) = p (of_int n)"
| "schema_integer p (JFloat (Fin x)) = (of_int \<lfloor>x\<rfloor> = x \<and> p x)"
| "schema_integer p _ = False"

definition urlsafe_char :: "char \<Rightarrow> bool" where
  "urlsafe_char c \<longleftrightarrow> is_ascii_alnum c \<or> c = CHR ''_'' \<or> c = CHR ''-''"

definition identifier_text :: "string \<Rightarrow> bool" where
  "identifier_text s \<longleftrightarrow> (case s of [] \<Rightarrow> False | c # cs \<Rightarrow> is_ascii_alnum c \<and> list_all (\<lambda>c. is_ascii_alnum c \<or> c \<in> set ''._:-'') cs)"

definition schema_common_identifier :: "json \<Rightarrow> bool" where
  "schema_common_identifier = is_text (\<lambda>s. len_between 3 128 s \<and> whole_text identifier_text s)"

definition schema_device_instance_id :: "json \<Rightarrow> bool" where
  "schema_device_instance_id = is_text (\<lambda>s. len_between 80 80 s
     \<and> whole_text (\<lambda>s. take 16 s = ''device-instance-'' \<and> length s = 80 \<and> list_all is_lower_hex (drop 16 s)) s)"

definition schema_owner_domain_id :: "json \<Rightarrow> bool" where
  "schema_owner_domain_id = is_text (\<lambda>s. len_between 3 128 s
     \<and> whole_text (\<lambda>s. take 6 s = ''owner-'' \<and> identifier_text (drop 6 s)) s)"

definition schema_digest :: "json \<Rightarrow> bool" where
  "schema_digest = is_text (whole_text (\<lambda>s. take 7 s = ''sha256:'' \<and> length s = 71 \<and> list_all is_lower_hex (drop 7 s)))"

definition schema_device_ref :: "json \<Rightarrow> bool" where
  "schema_device_ref = is_object (\<lambda>kvs.
     only_keys [''device_instance_id'', ''owner_domain_id'', ''owner_domain_generation'', ''claim_generation'', ''trust_epoch''] kvs
     \<and> required ''device_instance_id'' schema_device_instance_id kvs
     \<and> required ''owner_domain_id'' schema_owner_domain_id kvs
     \<and> required ''owner_domain_generation'' (schema_integer (\<lambda>x. 1 \<le> x)) kvs
     \<and> required ''claim_generation'' (schema_integer (\<lambda>x. 1 \<le> x)) kvs
     \<and> required ''trust_epoch'' (schema_integer (\<lambda>x. 1 \<le> x)) kvs)"

definition schema_manifest_ref :: "json \<Rightarrow> bool" where
  "schema_manifest_ref = is_object (\<lambda>kvs.
     only_keys [''manifest_id'', ''revision'', ''digest''] kvs
     \<and> required ''manifest_id'' schema_common_identifier kvs
     \<and> required ''revision'' (schema_integer (\<lambda>x. 1 \<le> x)) kvs
     \<and> required ''digest'' schema_digest kvs)"

definition schema_channel_binding :: "json \<Rightarrow> bool" where
  "schema_channel_binding = is_object (\<lambda>kvs.
     only_keys [''channel_id'', ''purpose'', ''kinds'', ''binding_format'', ''issued_at_ms'', ''expires_at_ms'', ''opaque_binding''] kvs
     \<and> required ''channel_id'' (is_text (len_between 1 128)) kvs
     \<and> required ''purpose'' (is_text (len_between 1 64)) kvs
     \<and> required ''kinds'' (is_array (\<lambda>ks. 1 \<le> length ks \<and> length ks \<le> 8 \<and> list_all (is_text (len_between 1 32)) ks)) kvs
     \<and> required ''binding_format'' (is_text (len_between 1 128)) kvs
     \<and> required ''issued_at_ms'' (schema_integer (\<lambda>x. 0 \<le> x)) kvs
     \<and> required ''expires_at_ms'' (schema_integer (\<lambda>x. 0 < x)) kvs
     \<and> required ''opaque_binding'' (is_text (len_between 1 131072)) kvs)"

definition schema_configuration_result :: "json \<Rightarrow> bool" where
  "schema_configuration_result = is_object (\<lambda>kvs.
     only_keys [''operation'', ''nonce'', ''device_ref'', ''lifecycle_state'', ''manifest'', ''channels''] kvs
     \<and> required ''operation'' (is_text (\<lambda>s. s = ''device-control.configuration'')) kvs
     \<and> required ''nonce'' (is_text (\<lambda>s. len_between 16 128 s \<and> whole_text (list_all urlsafe_char) s)) kvs
     \<and> required ''device_ref'' schema_device_ref kvs
     \<and> required ''lifecycle_state'' (is_text (\<lambda>s. s = ''approved'' \<or> s = ''revoked'')) kvs
     \<and> (case map_of kvs ''manifest'' of None \<Rightarrow> True | Some m \<Rightarrow> schema_manifest_ref m)
     \<and> required ''channels'' (is_array (\<lambda>cs. length cs \<le> 1 \<and> list_all schema_channel_binding cs)) kvs)"

subsection \<open>The generated answers\<close>

lemmas schema_simps =
  schema_configuration_result_def schema_channel_binding_def schema_manifest_ref_def schema_device_ref_def schema_digest_def
  schema_owner_domain_id_def schema_common_identifier_def identifier_text_def urlsafe_char_def whole_text_def required_def only_keys_def
  len_between_def char_class_defs

lemma named_members_admitted:
  "schema_device_instance_id (JStr ''device-instance-591d7c62d0bc738376935f77ff2acd5472bbee64207a765df03af6d6240c07dc'')"
  "schema_device_instance_id (JStr another_device)"
proof -
  have prefix: "length ''device-instance-'' = 16" by simp
  have "schema_device_instance_id (JStr s)" if "device_instance_id_ok s" for s
    using that unfolding device_instance_id_ok_def device_instance_namespace_def starts_with_def prefix
    by (simp add: schema_device_instance_id_def whole_text_def len_between_def)
  then show "schema_device_instance_id (JStr ''device-instance-591d7c62d0bc738376935f77ff2acd5472bbee64207a765df03af6d6240c07dc'')"
    "schema_device_instance_id (JStr another_device)"
    using named_instance_ok another_device_ok by blast+
qed

lemma manifest_admitted: "schema_manifest_ref manifest_reference"
  by (simp add: manifest_reference_def schema_simps)

lemma nonce_admitted: "required ''nonce'' (is_text (\<lambda>s. len_between 16 128 s \<and> whole_text (list_all urlsafe_char) s)) (answer_members st cs m r)"
  by (simp add: answer_members_def request_nonce_def schema_simps)

definition schema_ref_members :: "json_object \<Rightarrow> bool" where
  "schema_ref_members r = schema_device_ref (JObj r)"

lemma answer_admitted:
  "schema_configuration_result (JObj (answer_members st cs m r)) \<longleftrightarrow>
     schema_ref_members r \<and> (st = ''approved'' \<or> st = ''revoked'') \<and> (case m of None \<Rightarrow> True | Some v \<Rightarrow> schema_manifest_ref v)
     \<and> length cs \<le> 1 \<and> list_all schema_channel_binding cs"
  using nonce_admitted [of st cs m r]
  by (cases m) (auto simp: schema_configuration_result_def answer_members_def required_def only_keys_def schema_ref_members_def)

lemma refs_admitted:
  "schema_ref_members named_members"
  "1 \<le> g \<Longrightarrow> 1 \<le> e \<Longrightarrow> schema_ref_members (ref_with [(''claim_generation'', JInt g), (''trust_epoch'', JInt e)])"
  "1 \<le> e \<Longrightarrow> schema_ref_members (ref_with [(''trust_epoch'', JInt e)])"
  "1 \<le> w \<Longrightarrow> schema_ref_members (ref_with [(''owner_domain_generation'', JInt w)])"
  "1 \<le> w \<Longrightarrow> 1 \<le> g \<Longrightarrow> 1 \<le> e \<Longrightarrow> schema_ref_members
     (ref_with [(''owner_domain_generation'', JInt w), (''claim_generation'', JInt g), (''trust_epoch'', JInt e)])"
  "1 \<le> g \<Longrightarrow> 1 \<le> e \<Longrightarrow> schema_ref_members
     (ref_with [(''owner_domain_id'', JStr ''owner-domain_02''), (''claim_generation'', JInt g), (''trust_epoch'', JInt e)])"
  "1 \<le> g \<Longrightarrow> 1 \<le> e \<Longrightarrow> schema_ref_members
     (ref_with [(''device_instance_id'', JStr another_device), (''claim_generation'', JInt g), (''trust_epoch'', JInt e)])"
  by (simp_all add: schema_ref_members_def ref_with_def dict_merge_def named_members_def schema_simps named_members_admitted)

lemma entry_admitted:
  "len_between 1 128 f \<Longrightarrow> len_between 1 131072 b \<Longrightarrow> schema_channel_binding (JObj (channel_entry (JStr f) (JStr b)))"
  by (simp add: channel_entry_def schema_simps)

lemma answers_admitted:
  assumes "len_between 1 128 f" "len_between 1 131072 b"
  shows "list_all (\<lambda>s. schema_configuration_result (snd (snd s))) (answer_cases (channel_entry (JStr f) (JStr b)) @ correction_specs)"
  by (simp add: answer_cases_def correction_specs_def approved_with_def answer_admitted refs_admitted manifest_admitted
      entry_admitted [OF assms])

lemma refusals_refused:
  "list_all (\<lambda>s. \<not> schema_configuration_result (snd s)) (refused_answers (channel_entry (JStr f) (JStr b)))"
proof -
  have "\<not> schema_channel_binding (JObj (dict_merge (channel_entry (JStr f) (JStr b)) [(''expires_at_ms'', JInt 0)]))"
    "\<not> schema_channel_binding (JObj (dict_merge (channel_entry (JStr f) (JStr b)) [(''opaque_binding'', JStr [])]))"
    by (simp_all add: channel_entry_def dict_merge_def schema_channel_binding_def required_def len_between_def)
  moreover have "\<not> schema_configuration_result
      (JObj (dict_merge (answer_members ''approved'' [] None named_members) [(''operation'', JStr ''device-control.manifest-assert'')]))"
    "\<not> schema_configuration_result
      (JObj (dict_merge (answer_members ''approved'' [] None named_members) [(''lifecycle_state'', JStr ''pending'')]))"
    by (simp_all add: answer_members_def dict_merge_def schema_configuration_result_def required_def)
  ultimately show ?thesis
    by (simp add: refused_answers_def Let_def answer_admitted)
qed

end
