(* ===== verification/Binding_Generation.thy ===== *)
theory Binding_Generation
  imports Configuration_Schema
begin

text \<open>
  \<open>contracts/device_foundation/v1/generation/regenerate_livekit_session_binding_golden.py\<close>: the document a channel provider
  seals for a Body, its two encodings, the documents a Body refuses, and its routes; and that the vector passes the check
  of the conformance runner.
\<close>

subsection \<open>The document\<close>

definition session_members :: json_object where
  "session_members =
     [(''server_url'', JStr ''wss://livekit.owner.test:7880''),
      (''token'', JStr (''eyJhbGciOiJIUzI1NiIsInR5cCI6IkpXVCJ9'' @
          ''.eyJpc3MiOiJBUElleGFtcGxlIiwic3ViIjoiZGV2aWNlIiwidmlkZW8iOnsicm9vbSI6ImV4YW1wbGUifX0'' @
          ''.Wm9uMV9zaWduYXR1cmVfcGxhY2Vob2xkZXJfZm9yX2Egdmlld2Vy'')),
      (''identity'', JStr ''device-instance-591d7c62d0bc738376935f77ff2acd5472bbee64207a765df03af6d6240c07dc''),
      (''room_name'', JStr ''eidolon-device-9f1c0a4d2b6e8f3a5c7d1e04'')]"

definition audio_members :: "int \<Rightarrow> int \<Rightarrow> json" where
  "audio_members rate channels = JObj [(''sample_rate'', JInt rate), (''channels'', JInt channels)]"

definition binding_members :: json_object where
  "binding_members =
     [(''schema_version'', JInt 2), (''session'', JObj session_members), (''audio'', audio_members 16000 1)]"

definition member_list :: "string list" where
  "member_list =
     [''audio.channels'', ''audio.sample_rate'', ''schema_version'', ''session.identity'', ''session.room_name'',
      ''session.server_url'', ''session.token'']"

subsection \<open>Refusals and routes\<close>

definition binding_case :: "vector_tools \<Rightarrow> string \<times> json_object \<Rightarrow> json" where
  "binding_case T = (\<lambda>(case_id, change).
     JObj [(''case_id'', JStr case_id), (''why'', JStr (vt_prose T case_id)),
           (''binding'', JObj (dict_merge binding_members change))])"

definition must_refuse :: "(string \<times> json_object) list" where
  "must_refuse =
     [(''DF-LIVEKIT-SESSION-BINDING-SCHEMA-VERSION-3'', [(''schema_version'', JInt 3)]),
      (''DF-LIVEKIT-SESSION-BINDING-NO-TOKEN'', [(''session'', JObj (dict_merge session_members [(''token'', JStr [])]))])]"

definition may_refuse :: "(string \<times> json_object) list" where
  "may_refuse =
     [(''DF-LIVEKIT-SESSION-BINDING-SAMPLE-RATE-OUT-OF-RANGE'', [(''audio'', audio_members 96000 1)]),
      (''DF-LIVEKIT-SESSION-BINDING-THREE-CHANNELS'', [(''audio'', audio_members 16000 3)])]"

definition route_first :: json where "route_first = JStr ''wss://livekit.owner.test:7880''"

definition route_second :: json where "route_second = JStr ''wss://livekit-secondary.owner.test:7880''"

definition route_case :: "string \<Rightarrow> json option \<Rightarrow> json" where
  "route_case name urls =
     JObj [(''case_id'', JStr name),
           (''session'', JObj (case urls of None \<Rightarrow> session_members | Some v \<Rightarrow> dict_merge session_members [(''server_urls'', v)]))]"

definition binding_routes :: "vector_tools \<Rightarrow> json" where
  "binding_routes T = JObj
     [(''description'', JStr (vt_prose T ''routing'')),
      (''accept'', JArr [route_case ''legacy'' None, route_case ''multiple'' (Some (JArr [route_first, route_second]))]),
      (''refuse'', JArr (map (\<lambda>(name, v). route_case name (Some v))
         [(''empty'', JArr []), (''null'', JNull), (''not-list'', route_first), (''duplicate'', JArr [route_first, route_first]),
          (''empty-url'', JArr [route_first, JStr []]), (''not-string'', JArr [route_first, JInt 42]),
          (''wrong-primary'', JArr [route_second, route_first])]))]"

subsection \<open>The vector\<close>

definition binding_vector :: "vector_tools \<Rightarrow> conformance_error + json" where
  "binding_vector T =
     and_then (document_bytes T (JObj binding_members)) (\<lambda>canonical.
     if length canonical mod 3 = 0 then
       Inl (Vector_Refused ''the canonical binding is a multiple of three bytes long'')
     else and_then (decoded_text canonical) (\<lambda>shown.
     Inr (JObj
       [(''vector_id'', JStr ''DF-LIVEKIT-SESSION-BINDING-001''),
        (''description'', JStr (vt_prose T ''livekit-session-binding'')),
        (''no_schema_because'', JStr (vt_prose T ''no_schema_because'')),
        (''binding_format'', JStr ''application/vnd.eidolon.livekit-session+json;v=2''), (''binding'', JObj binding_members),
        (''canonical_utf8'', shown), (''canonical_sha256'', digest_text canonical),
        (''opaque_binding_encoding'', JStr ''base64-standard-with-padding''),
        (''opaque_binding'', JStr (b64_standard canonical)),
        (''not_the_opaque_binding'', JObj [(''base64url_no_padding'', JStr (b64url canonical))]),
        (''member_paths'', JArr (map JStr member_list)), (''must_refuse'', JArr (map (binding_case T) must_refuse)),
        (''may_refuse'', JArr (map (binding_case T) may_refuse)),
        (''must_not_claim_unapplied_audio'', JStr (vt_prose T ''must_not_claim_unapplied_audio'')),
        (''routing'', binding_routes T)])))"

definition regenerate_binding :: "vector_tools \<Rightarrow> golden_files \<Rightarrow> golden_files \<times> (conformance_error + unit)" where
  "regenerate_binding T = save_each [(''livekit-session-binding.json'', binding_vector T)]"

subsection \<open>The vector passes\<close>

text \<open>Texts that need no escape, and the length of their encoding.\<close>

definition solid :: "string \<Rightarrow> bool" where
  "solid s \<longleftrightarrow> list_all (\<lambda>c. 32 \<le> (of_char c :: nat) \<and> of_char c < (128 :: nat) \<and> of_char c \<noteq> (34 :: nat) \<and> of_char c \<noteq> (92 :: nat)) s"

lemma solid_text: "solid s \<Longrightarrow> string_text s = CHR 0x22 # s @ [CHR 0x22]"
proof -
  assume "solid s"
  then have "concat (map escape_char s) = s" by (induction s) (auto simp: solid_def escape_char_def)
  then show ?thesis by (simp add: string_text_def)
qed

lemma ascii_length: "is_ascii s \<Longrightarrow> length (utf8 s) = length s"
  by (induction s) (simp_all add: is_ascii_def utf8_def utf8_char_def)

lemma binding_text: "is_ascii (canonical_text (JObj binding_members)) \<and> length (canonical_text (JObj binding_members)) mod 3 \<noteq> 0
   \<and> length (canonical_text (JObj binding_members)) \<le> 1000"
proof -
  have "solid ''wss://livekit.owner.test:7880''" "solid ''eidolon-device-9f1c0a4d2b6e8f3a5c7d1e04''"
    "solid ''device-instance-591d7c62d0bc738376935f77ff2acd5472bbee64207a765df03af6d6240c07dc''"
    "solid (''eyJhbGciOiJIUzI1NiIsInR5cCI6IkpXVCJ9'' @
          ''.eyJpc3MiOiJBUElleGFtcGxlIiwic3ViIjoiZGV2aWNlIiwidmlkZW8iOnsicm9vbSI6ImV4YW1wbGUifX0'' @
          ''.Wm9uMV9zaWduYXR1cmVfcGxhY2Vob2xkZXJfZm9yX2Egdmlld2Vy'')"
    "list_all solid [''schema_version'', ''session'', ''audio'', ''sample_rate'', ''channels'', ''server_url'', ''token'',
       ''identity'', ''room_name'']"
    by (simp_all add: solid_def)
  then show ?thesis
    by (simp add: canonical_text_def binding_members_def session_members_def audio_members_def solid_text int_text_def
        digits.simps is_ascii_def)
qed

lemma binding_length: "length (utf8 (canonical_text (JObj binding_members))) mod 3 \<noteq> 0"
  using binding_text ascii_length by simp

definition vector_of_binding :: "vector_tools \<Rightarrow> json \<Rightarrow> byte list \<Rightarrow> json list \<Rightarrow> json list \<Rightarrow> json" where
  "vector_of_binding T shown canonical must may = JObj
     [(''vector_id'', JStr ''DF-LIVEKIT-SESSION-BINDING-001''),
      (''description'', JStr (vt_prose T ''livekit-session-binding'')),
      (''no_schema_because'', JStr (vt_prose T ''no_schema_because'')),
      (''binding_format'', JStr ''application/vnd.eidolon.livekit-session+json;v=2''), (''binding'', JObj binding_members),
      (''canonical_utf8'', shown), (''canonical_sha256'', digest_text canonical),
      (''opaque_binding_encoding'', JStr ''base64-standard-with-padding''),
      (''opaque_binding'', JStr (b64_standard canonical)),
      (''not_the_opaque_binding'', JObj [(''base64url_no_padding'', JStr (b64url canonical))]),
      (''member_paths'', JArr (map JStr member_list)), (''must_refuse'', JArr must), (''may_refuse'', JArr may),
      (''must_not_claim_unapplied_audio'', JStr (vt_prose T ''must_not_claim_unapplied_audio'')),
      (''routing'', binding_routes T)]"

lemma binding_opaque_tail: "x \<in> binding_opaque a b \<Longrightarrow> x = ''routing'' \<or> take 8 (rev x) = rev ''.binding''"
  unfolding binding_opaque_def by (elim UnE) (auto dest: indexed_member_shape)

lemma binding_not_opaque: "take 8 (rev x) \<noteq> rev ''.binding'' \<Longrightarrow> x \<noteq> ''routing'' \<Longrightarrow> x \<notin> binding_opaque a b"
  using binding_opaque_tail by blast

lemma binding_opaque_members:
  "i < a \<Longrightarrow> dotted (indexed ''must_refuse'' i) ''binding'' \<in> binding_opaque a b"
  "i < b \<Longrightarrow> dotted (indexed ''may_refuse'' i) ''binding'' \<in> binding_opaque a b"
  by (auto simp: binding_opaque_def indexed_members_def)

lemma binding_opaque_known: "binding_opaque a b \<subseteq> binding_inventory a b"
proof -
  have "indexed_members ''must_refuse'' a [''binding''] \<subseteq> binding_inventory a b"
    unfolding binding_inventory_def indexed_members_split
    by (rule le_supI1, rule le_supI2, rule le_supI1, rule order_refl)
  moreover have "indexed_members ''may_refuse'' b [''binding''] \<subseteq> binding_inventory a b"
    unfolding binding_inventory_def indexed_members_split by (rule le_supI2, rule le_supI1, rule order_refl)
  moreover have "''routing'' \<in> binding_inventory a b" by (simp add: binding_inventory_def)
  ultimately show ?thesis by (simp add: binding_opaque_def)
qed

lemma binding_kinds: "binding_inventory a b \<inter> binding_descriptions a b = {}"
proof (rule equals0I)
  fix x assume x: "x \<in> binding_inventory a b \<inter> binding_descriptions a b"
  then have "(CHR ''['' \<in> set x \<longrightarrow> take 4 (rev x) \<noteq> rev ''.why'') \<and> (CHR ''['' \<notin> set x \<longrightarrow>
      x \<notin> {''vector_id'', ''description'', ''no_schema_because''})"
    unfolding binding_inventory_def
    by (elim IntE UnE) (auto dest!: indexed_member_shape indexed_path_shape)
  with x show False
    unfolding binding_descriptions_def by (elim IntE UnE) (auto dest!: indexed_member_shape)
qed

lemma binding_paths:
  fixes must may
  defines "opq \<equiv> binding_opaque (length must) (length may)"
  assumes "list_all (cased ''binding'' [''case_id'', ''why'', ''binding'']) must"
    and "list_all (cased ''binding'' [''case_id'', ''why'', ''binding'']) may"
  shows "set (field_paths opq [] (vector_of_binding T (JStr t) canonical must may)) =
    binding_inventory (length must) (length may) \<union> binding_descriptions (length must) (length may)"
proof -
  have closed: "x \<notin> opq" if "take 8 (rev x) \<noteq> rev ''.binding''" "x \<noteq> ''routing''" for x
    unfolding opq_def by (rule binding_not_opaque) (use that in simp_all)
  have routing: "''routing'' \<in> opq" by (simp add: opq_def binding_opaque_def)
  have items:
    "set (item_paths opq ''must_refuse'' 0 must) = indexed_paths ''must_refuse'' (length must)
       \<union> indexed_members ''must_refuse'' (length must) [''case_id'', ''why'', ''binding'']"
    "set (item_paths opq ''may_refuse'' 0 may) = indexed_paths ''may_refuse'' (length may)
       \<union> indexed_members ''may_refuse'' (length may) [''case_id'', ''why'', ''binding'']"
    unfolding opq_def
    by (rule cased_paths, rule assms, rule binding_opaque_members, assumption, rule binding_not_opaque,
        simp add: indexed_def, simp add: indexed_def)+
  define inventoried :: "string set" where "inventoried =
     {''routing'', ''binding'', ''binding.schema_version'', ''binding.session'', ''binding.session.server_url'',
      ''binding.session.token'', ''binding.session.identity'', ''binding.session.room_name'', ''binding.audio'',
      ''binding.audio.sample_rate'', ''binding.audio.channels'', ''binding_format'', ''canonical_utf8'', ''canonical_sha256'',
      ''member_paths'', ''opaque_binding'', ''opaque_binding_encoding'', ''not_the_opaque_binding'',
      ''not_the_opaque_binding.base64url_no_padding'', ''must_refuse'', ''may_refuse'', ''must_not_claim_unapplied_audio''}"
  define described :: "string set" where "described = {''vector_id'', ''description'', ''no_schema_because''}"
  note known = inventoried_def [symmetric] described_def [symmetric]
  have "set (field_paths opq [] (vector_of_binding T (JStr t) canonical must may)) = inventoried \<union> described
    \<union> set (item_paths opq ''must_refuse'' 0 must) \<union> set (item_paths opq ''may_refuse'' 0 may)"
    unfolding inventoried_def described_def
    by (auto simp: vector_of_binding_def binding_members_def session_members_def audio_members_def member_list_def digest_text_def
        dotted_def Let_def closed routing)
  then show ?thesis
    unfolding items binding_inventory_def binding_descriptions_def indexed_members_split known by (simp only: Un_ac)
qed

lemma binding_inventoried:
  assumes "list_all (cased ''binding'' [''case_id'', ''why'', ''binding'']) must"
    and "list_all (cased ''binding'' [''case_id'', ''why'', ''binding'']) may"
  shows "require_field_inventory (vector_of_binding T (JStr t) canonical must may) (binding_inventory (length must) (length may))
    (binding_descriptions (length must) (length may)) (binding_opaque (length must) (length may)) = Inr ()"
  unfolding field_inventory_exact binding_paths [OF assms]
  using le_supI1 [OF binding_opaque_known] binding_kinds by simp

lemma binding_shapes: "list_all (cased ''binding'' [''case_id'', ''why'', ''binding'']) (map (binding_case T) specs)"
  by (auto simp: list_all_iff cased_def binding_case_def leaf_like_def)

lemma padded_encoding:
  assumes "length bs mod 3 \<noteq> 0"
  shows "ends_with ''='' (b64_standard bs)" "b64url bs \<noteq> b64_standard bs"
proof -
  have pads: "pads_of bs \<noteq> 0" using assms by (auto simp: pads_of_def)
  then obtain n where n: "pads_of bs = Suc n" using not0_implies_Suc by blast
  show "ends_with ''='' (b64_standard bs)"
  proof -
    have "rev (b64_standard bs) = replicate (Suc n) (CHR ''='') @ rev (map standard_char (b64_body bs))"
      by (simp add: b64_standard_def b64_encode_body n standard_char_def del: replicate_Suc)
    then show ?thesis by (simp add: ends_with_def starts_with_def)
  qed
  have "length (b64_standard bs) = length (b64url bs) + Suc n"
    by (simp add: b64_standard_def b64_encode_body b64url_body n)
  then show "b64url bs \<noteq> b64_standard bs" by auto
qed

lemma binding_encoding_passes:
  assumes "length canonical mod 3 \<noteq> 0"
  shows "check_binding_encoding (vector_of_binding T shown canonical must may) canonical = Inr ()"
  using padded_encoding [OF assms]
  by (simp add: check_binding_encoding_def is_text_at_def vector_of_binding_def or_raise_def refuse_unless_def b64_standard_read_back)

lemma binding_leaves: "leaf_paths [] (JObj binding_members) = member_list"
  by (simp add: binding_members_def session_members_def audio_members_def member_list_def dotted_def)

lemma sorted_members: "sort member_list = member_list"
  by (simp add: member_list_def)

lemma refusals_differ:
  assumes "\<And>i. vt_prose T i \<noteq> []"
  shows "check_binding_refusals (JObj binding_members) [] (map (binding_case T) (must_refuse @ may_refuse)) = Inr ()"
proof -
  have shapes: "leaf_paths [] (JObj (dict_merge binding_members [(''schema_version'', JInt 3)])) = member_list"
    "leaf_paths [] (JObj (dict_merge binding_members [(''audio'', audio_members 96000 1)])) = member_list"
    "leaf_paths [] (JObj (dict_merge binding_members [(''audio'', audio_members 16000 3)])) = member_list"
    by (simp_all add: binding_members_def session_members_def audio_members_def member_list_def dotted_def dict_merge_def)
  have "list_all (\<lambda>s. \<not> py_eq (JObj (dict_merge binding_members (snd s))) (JObj binding_members)) (must_refuse @ may_refuse)"
    by (simp add: must_refuse_def may_refuse_def binding_members_def session_members_def audio_members_def dict_merge_def)
  then show ?thesis
    using assms
    by (simp add: must_refuse_def may_refuse_def binding_case_def or_raise_def flag_at_def refuse_unless_def shapes binding_leaves
        ends_with_def starts_with_def del: leaf_paths.simps py_eq.simps)
qed

lemma routes_pass:
  assumes "\<And>i. vt_prose T i \<noteq> []"
  shows "check_routing (binding_routes T) = Inr ()"
  using assms
  by (simp add: check_routing_def binding_routes_def same_texts_def elements_of_def or_raise_def flag_at_def refuse_unless_def
      check_route_def route_case_def route_valid_def session_members_def dict_merge_def route_first_def route_second_def)

lemma binding_made:
  assumes "canonicalizes (vt_canon T)"
  shows "binding_vector T = Inr (vector_of_binding T (JStr (canonical_text (JObj binding_members)))
    (utf8 (canonical_text (JObj binding_members))) (map (binding_case T) must_refuse) (map (binding_case T) may_refuse))"
proof -
  have "plain (JObj binding_members)" by (simp add: binding_members_def session_members_def audio_members_def)
  then show ?thesis
    using assms binding_length
    by (simp add: binding_vector_def vector_of_binding_def document_bytes_def canonicalizes_def or_raise_def decoded_text_def
        utf8_decode_utf8)
qed

lemma binding_passes:
  assumes "canonicalizes (vt_canon T)" "\<And>i. strip (vt_prose T i) \<noteq> []" "render (JInt 2) = ''2''" "binding_vector T = Inr v"
  shows "check_livekit_session_binding (vt_canon T) render v = Inr 5"
proof -
  let ?must = "map (binding_case T) must_refuse" and ?may = "map (binding_case T) may_refuse"
  let ?text = "canonical_text (JObj binding_members)"
  have v: "v = vector_of_binding T (JStr ?text) (utf8 ?text) ?must ?may" using assms(4) binding_made [OF assms(1)] by simp
  have "plain (JObj binding_members)" by (simp add: binding_members_def session_members_def audio_members_def)
  then have canon: "vt_canon T (JObj binding_members) = Some (utf8 ?text)" using assms(1) by (simp add: canonicalizes_def)
  have prose: "vt_prose T i \<noteq> []" for i using assms(2) [of i] by auto
  have members: "member_of v ''binding'' = Inr (JObj binding_members)" "member_of v ''canonical_utf8'' = Inr (JStr ?text)"
    "member_of v ''canonical_sha256'' = Inr (digest_text (utf8 ?text))"
    "member_of v ''member_paths'' = Inr (JArr (map JStr member_list))"
    "member_of v ''binding_format'' = Inr (JStr ''application/vnd.eidolon.livekit-session+json;v=2'')"
    "member_of v ''must_refuse'' = Inr (JArr ?must)" "member_of v ''may_refuse'' = Inr (JArr ?may)"
    "member_of v ''must_not_claim_unapplied_audio'' = Inr (JStr (vt_prose T ''must_not_claim_unapplied_audio''))"
    "member_of v ''routing'' = Inr (binding_routes T)" "map_of binding_members ''schema_version'' = Some (JInt 2)"
    by (simp_all add: v vector_of_binding_def or_raise_def binding_members_def)
  have published: "check_published_bytes (vt_canon T) v (JObj binding_members) = Inr ()"
    using canon members(2,3) by (simp add: check_published_bytes_def vector_canonical_bytes_def or_raise_def utf8_decode_utf8
        digest_text_def)
  have refusals: "check_binding_refusals (JObj binding_members) [] (?must @ ?may) = Inr ()"
    using refusals_differ [of T] prose by (simp del: check_binding_refusals.simps)
  have counts: "length must_refuse = 2" "length may_refuse = 2" by (simp_all add: must_refuse_def may_refuse_def)
  have inventory: "require_field_inventory v (binding_inventory 2 2) (binding_descriptions 2 2) (binding_opaque 2 2) = Inr ()"
    unfolding v
    by (rule binding_inventoried [OF binding_shapes [of T must_refuse] binding_shapes [of T may_refuse], unfolded length_map counts])
  have encoding: "check_binding_encoding v (utf8 ?text) = Inr ()" unfolding v by (rule binding_encoding_passes [OF binding_length])
  have some: "must_refuse \<noteq> []" "may_refuse \<noteq> []" by (simp_all add: must_refuse_def may_refuse_def)
  show ?thesis
    using published canon inventory assms(2,3) encoding routes_pass [OF prose] refusals counts some
    by (simp add: check_livekit_session_binding_def members vector_canonical_bytes_def or_raise_def elements_of_def
        texts_of_JStrs [THEN iffD2, OF refl] sorted_members binding_leaves is_text_at_def refuse_unless_def text_of_def
        ends_with_def starts_with_def array_at_def array_of_def del: leaf_paths.simps check_binding_refusals.simps)
qed

definition sealed_entry :: json_object where
  "sealed_entry = channel_entry (JStr ''application/vnd.eidolon.livekit-session+json;v=2'')
     (JStr (b64_standard (utf8 (canonical_text (JObj binding_members)))))"

lemma sealed_entry_read:
  assumes "binding_vector T = Inr v" "canonicalizes (vt_canon T)"
    and "vt_loads T (indented_text (\<lambda>_. []) 0 v @ [CHR 0x0A]) = Some v"
  shows "session_entry T (save ''livekit-session-binding.json'' v files) = Inr sealed_entry"
    "member_of v ''binding_format'' = Inr (JStr ''application/vnd.eidolon.livekit-session+json;v=2'')"
    "member_of v ''opaque_binding'' = Inr (JStr (b64_standard (utf8 (canonical_text (JObj binding_members)))))"
proof -
  have v: "v = vector_of_binding T (JStr (canonical_text (JObj binding_members)))
      (utf8 (canonical_text (JObj binding_members))) (map (binding_case T) must_refuse) (map (binding_case T) may_refuse)"
    using assms(1) binding_made [OF assms(2)] by simp
  show format: "member_of v ''binding_format'' = Inr (JStr ''application/vnd.eidolon.livekit-session+json;v=2'')"
    and opaque: "member_of v ''opaque_binding'' = Inr (JStr (b64_standard (utf8 (canonical_text (JObj binding_members)))))"
    by (simp_all add: v vector_of_binding_def or_raise_def)
  have "load T (save ''livekit-session-binding.json'' v files) ''livekit-session-binding.json'' = Inr v"
    using assms(3) by (simp add: load_def save_def or_raise_def)
  then show "session_entry T (save ''livekit-session-binding.json'' v files) = Inr sealed_entry"
    using format opaque by (simp add: session_entry_def sealed_entry_def)
qed

lemma sealed_lengths:
  "len_between 1 128 ''application/vnd.eidolon.livekit-session+json;v=2''"
  "len_between 1 131072 (b64_standard (utf8 (canonical_text (JObj binding_members))))"
proof -
  let ?bs = "utf8 (canonical_text (JObj binding_members))"
  have arith: "1 \<le> (4 * n + 2) div 3 + p \<and> (4 * n + 2) div 3 + p \<le> 131072" if "n \<le> 1000" "1 \<le> n" "p \<le> 2"
    for n p :: nat using that by presburger
  have "length (b64_standard ?bs) = (4 * length ?bs + 2) div 3 + pads_of ?bs"
    by (simp add: b64_standard_def b64_encode_body length_b64_body)
  moreover have "length ?bs \<le> 1000" using binding_text ascii_length by simp
  moreover have "1 \<le> length ?bs" using binding_length by (cases ?bs) simp_all
  moreover have "pads_of ?bs \<le> 2" by (simp add: pads_of_def)
  ultimately show "len_between 1 131072 (b64_standard ?bs)"
    unfolding len_between_def using arith by presburger
qed (simp add: len_between_def)

lemma sealed_answers_admitted:
  assumes "\<And>v. errors v = [] \<longleftrightarrow> schema_configuration_result v"
  shows "list_all (\<lambda>s. errors (snd (snd s)) = []) (answer_cases sealed_entry @ correction_specs)"
    "list_all (\<lambda>s. errors (snd s) \<noteq> []) (refused_answers sealed_entry)"
  using answers_admitted [OF sealed_lengths] refusals_refused unfolding sealed_entry_def assms by blast+

text \<open>
  C4. The vectors of the session binding and of the configuration answers, generated one after the other, pass their checks
  and agree: the binding vector passes with five checks, the file it was saved to is where the answers take the binding of
  their active case from, and the answers pass with sixteen against that binding. That the schema admits every answer
  published, its channel included, and refuses each of the four that must be refused is proved of the schema file; of the
  validator it is only used that it finds no error exactly in a document of the schema.
\<close>

theorem generated_binding_and_answers_pass:
  assumes "canonicalizes (vt_canon T)" "\<And>i. strip (vt_prose T i) \<noteq> []" "render (JInt 2) = ''2''" "1788001800000 < now_ms"
    and "\<And>v. binding_vector T = Inr v \<Longrightarrow> vt_loads T (indented_text (\<lambda>_. []) 0 v @ [CHR 0x0A]) = Some v"
    and "\<And>v. errors v = [] \<longleftrightarrow> schema_configuration_result v"
  shows "\<exists>inner files' v. binding_vector T = Inr inner \<and> check_livekit_session_binding (vt_canon T) render inner = Inr 5
    \<and> regenerate_binding T files = (files', Inr ())
    \<and> and_then (session_entry T files') (response_vector T) = Inr v
    \<and> check_device_configuration_response (vt_canon T) errors now_ms inner v = Inr 16"
proof -
  obtain inner where inner: "binding_vector T = Inr inner" using binding_made [OF assms(1)] by blast
  let ?files = "save ''livekit-session-binding.json'' inner files"
  note entry = sealed_entry_read [OF inner assms(1) assms(5) [OF inner]]
  have prose: "vt_prose T i \<noteq> []" for i using assms(2) [of i] by auto
  obtain v where v: "response_vector T sealed_entry = Inr v"
      "check_device_configuration_response (vt_canon T) errors now_ms inner v = Inr 16"
    using generated_answers_pass [OF assms(1) prose assms(4) entry(2,3)] sealed_answers_admitted [OF assms(6)]
    unfolding sealed_entry_def by blast
  have "regenerate_binding T files = (?files, Inr ())" by (simp add: regenerate_binding_def inner)
  moreover have "and_then (session_entry T ?files) (response_vector T) = Inr v" using entry(1) v(1) by simp
  moreover have "check_livekit_session_binding (vt_canon T) render inner = Inr 5"
    by (rule binding_passes) (use assms(1-3) inner in auto)
  ultimately show ?thesis using inner v(2) by blast
qed

definition schema_errors :: "json \<Rightarrow> string list" where
  "schema_errors v = (if schema_configuration_result v then [] else [''the document is not of the schema''])"

definition reading_tools :: vector_tools where
  "reading_tools = prosaic_tools \<lparr>vt_loads := \<lambda>s.
     (case binding_vector prosaic_tools of
        Inr v \<Rightarrow> if s = indented_text (\<lambda>_. []) 0 v @ [CHR 0x0A] then Some v else None
      | Inl _ \<Rightarrow> None)\<rparr>"

lemma reading_binding: "binding_vector reading_tools = binding_vector prosaic_tools"
proof -
  have same: "binding_case reading_tools = binding_case prosaic_tools" "binding_routes reading_tools = binding_routes prosaic_tools"
    "vt_prose reading_tools = vt_prose prosaic_tools" "vt_canon reading_tools = vt_canon prosaic_tools"
    by (simp_all add: reading_tools_def binding_case_def binding_routes_def)
  show ?thesis unfolding binding_vector_def document_bytes_def same ..
qed

theorem generated_binding_and_answers_pass_witness:
  "\<exists>inner files' v. binding_vector reading_tools = Inr inner
     \<and> check_livekit_session_binding (vt_canon reading_tools) (\<lambda>_. ''2'') inner = Inr 5
     \<and> regenerate_binding reading_tools (\<lambda>_. None) = (files', Inr ())
     \<and> and_then (session_entry reading_tools files') (response_vector reading_tools) = Inr v
     \<and> check_device_configuration_response (vt_canon reading_tools) schema_errors 1800000000000 inner v = Inr 16"
proof (rule generated_binding_and_answers_pass)
  show "canonicalizes (vt_canon reading_tools)"
    using listing_canonicalizes [of "[]"] by (simp add: reading_tools_def prosaic_tools_def)
  show "strip (vt_prose reading_tools i) \<noteq> []" for i
    by (simp add: reading_tools_def prosaic_tools_def strip_def is_space_def)
  show "vt_loads reading_tools (indented_text (\<lambda>_. []) 0 v @ [CHR 0x0A]) = Some v" if "binding_vector reading_tools = Inr v" for v
    using that unfolding reading_binding by (simp add: reading_tools_def)
  show "schema_errors v = [] \<longleftrightarrow> schema_configuration_result v" for v by (simp add: schema_errors_def)
qed simp_all

end
