(* ===== verification/Voucher_Generation.thy ===== *)
theory Voucher_Generation
  imports Conformance_Identity Vector_Regeneration Vector_Inventories
begin

text \<open>
  \<open>contracts/device_foundation/v1/generation/regenerate_commissioning_voucher_golden.py\<close>: the vector of the commissioning
  voucher, built by the SDK's own documents (\<open>Admission_Proofs\<close>), and that it passes the check of the conformance runner.
  HKDF is the argument \<open>hkdf\<close>, as it is there.
\<close>

subsection \<open>Constants\<close>

definition voucher_scalar :: nat where "voucher_scalar = 0x3456789ABCDEF123456789ABCDEF12"

definition management_secret_hex :: string where
  "management_secret_hex = ''6f776e65722d646f6d61696e2d6d616e6167656d656e742d7365637265742d31''"

definition hardware_base_id :: string where
  "hardware_base_id = ''device-base-'' @ concat (replicate 16 ''4f3b'')"

definition software_base_id :: string where
  "software_base_id = ''software-body-'' @ concat (replicate 10 ''a71c'')"

definition minted_jti :: string where "minted_jti = ''jti-0f3a91c4d25b47e8a6031f7c8b9d2e50''"

definition continuation_jti :: string where "continuation_jti = ''jti-7b2c48e05d9f14a3c6b28e70f1d5a394''"

definition voucher_expiry :: int where "voucher_expiry = 1788000000"

definition base_key_nonce :: string where "base_key_nonce = ''commissioning-nonce-golden-enrolled''"

subsection \<open>Documents\<close>

text \<open>\<open>f"{n:x}"\<close>.\<close>

fun hex_number :: "nat \<Rightarrow> string" where
  "hex_number n = (if n < 16 then [hex_digit n] else hex_number (n div 16) @ [hex_digit (n mod 16)])"

declare hex_number.simps [simp del]

text \<open>\<open>s.rsplit(".", 1)[0]\<close>.\<close>

definition before_last_dot :: "string \<Rightarrow> string" where
  "before_last_dot s = (if CHR ''.'' \<in> set s then rev (drop 1 (dropWhile (\<lambda>c. c \<noteq> CHR ''.'') (rev s))) else s)"

definition canonical_shown :: "vector_tools \<Rightarrow> json \<Rightarrow> conformance_error + json" where
  "canonical_shown T v = and_then (document_bytes T v) decoded_text"

definition identity_derivation :: "string \<Rightarrow> conformance_error + json \<times> string" where
  "identity_derivation base =
     (let payload = utf8 ''eidolon-hardware-identity-v1'' @ [0] @ concat (map casefold_bytes (strip base)) in
     and_then (decoded_text payload) (\<lambda>shown. Inr (shown, ''hardware-'' @ sha256_hex payload)))"

definition voucher_public_key :: "vector_tools \<Rightarrow> string" where
  "voucher_public_key T = ''p256-spki:'' @ b64url (vt_spki T voucher_scalar)"

definition voucher_instance :: "vector_tools \<Rightarrow> string" where
  "voucher_instance T = ''device-instance-'' @ sha256_hex (vt_spki T voucher_scalar)"

definition voucher_key_id :: "vector_tools \<Rightarrow> conformance_error + string" where
  "voucher_key_id T = reraise (\<lambda>_. Unloadable_Key) (operational_key_id (voucher_public_key T))"

definition vector_claims :: "vector_tools \<Rightarrow> string \<Rightarrow> string \<Rightarrow> conformance_error + json_object" where
  "vector_claims T jti provenance =
     and_then (voucher_key_id T) (\<lambda>key_id.
     reraise (\<lambda>_. Wrong_Value_Type)
       (commissioning_voucher_claims hardware_base_id ''owner-domain_01'' key_id jti voucher_expiry provenance))"

definition compact_voucher :: "vector_tools \<Rightarrow> byte list \<Rightarrow> json_object \<Rightarrow> conformance_error + string" where
  "compact_voucher T key claims = or_raise Not_Canonical (sign_commissioning_voucher (vt_canon T) claims key)"

definition base_key_document :: "vector_tools \<Rightarrow> json" where
  "base_key_document T = JObj
     [(''contract'', JStr ''eidolon.device-foundation.enrolled-base-key-v1''), (''device_base_id'', JStr hardware_base_id),
      (''device_instance_id'', JStr (voucher_instance T)), (''nonce'', JStr base_key_nonce),
      (''owner_domain_id'', JStr ''owner-domain_01'')]"

subsection \<open>Sections of the vector\<close>

definition minted_section :: "vector_tools \<Rightarrow> byte list \<Rightarrow> json_object \<Rightarrow> conformance_error + json" where
  "minted_section T key claims =
     and_then (compact_voucher T key claims) (\<lambda>compact.
     and_then (canonical_shown T (JObj commissioning_voucher_header)) (\<lambda>header_shown.
     and_then (canonical_shown T (JObj claims)) (\<lambda>claims_shown.
     Inr (JObj
       [(''scheme'', JStr ''hub-issued-commissioning-voucher-v1''),
        (''signing_key_derivation'', JStr (''HKDF-SHA256(host management secret, salt=none, '' @
            ''info=\"eidolon-commissioning-voucher-v1\", L=32)'')),
        (''host_management_secret_hex'', JStr management_secret_hex), (''signing_key_hex'', JStr (hexdigest key)),
        (''header'', JObj commissioning_voucher_header), (''header_canonical_utf8'', header_shown), (''claims'', JObj claims),
        (''claims_canonical_utf8'', claims_shown), (''signing_input'', JStr (before_last_dot compact)),
        (''compact'', JStr compact), (''jti'', JStr minted_jti), (''expires_at_unix'', JInt voucher_expiry),
        (''nonce_rule'', JStr ''commissioning_proof.nonce MUST equal the voucher jti''),
        (''claim_names'', JArr (map JStr (sort (map fst claims))))]))))"

definition continuation_section :: "vector_tools \<Rightarrow> byte list \<Rightarrow> json_object \<Rightarrow> conformance_error + json" where
  "continuation_section T key claims =
     and_then (compact_voucher T key claims) (\<lambda>compact.
     and_then (canonical_shown T (JObj claims)) (\<lambda>claims_shown.
     Inr (JObj
       [(''why'', JStr (vt_prose T ''voucher_derived_from_controller'')), (''claims'', JObj claims),
        (''claims_canonical_utf8'', claims_shown), (''compact'', JStr compact), (''jti'', JStr continuation_jti)])))"

definition base_key_section :: "vector_tools \<Rightarrow> conformance_error + json" where
  "base_key_section T =
     and_then (canonical_shown T (base_key_document T)) (\<lambda>shown.
     and_then (signature_text T voucher_scalar (base_key_document T)) (\<lambda>proof.
     Inr (JObj
       [(''scheme'', JStr ''enrolled-base-key-v1''), (''when'', JStr (vt_prose T ''enrolled_base_key'')),
        (''signing_document'', base_key_document T), (''canonical_utf8'', shown), (''proof'', JStr proof),
        (''nonce'', JStr base_key_nonce)])))"

definition refused_vouchers :: "string list" where
  "refused_vouchers =
     [''voucher bound to another operational key'', ''voucher replayed after its jti was consumed'',
      ''device reports a device_base_id the Hub never issued'',
      ''second base identity offered for an already bound operational key'',
      ''enrolled-base-key-v1 presented by a Revoked or Rejected base identity'',
      ''voucher whose base_identity_provenance is any other value'',
      ''voucher carrying a claim outside claim_names, or missing one'']"

definition refused_voucher :: "vector_tools \<Rightarrow> string \<Rightarrow> json" where
  "refused_voucher T name = JObj [(''case'', JStr name), (''why'', JStr (vt_prose T name))]"

subsection \<open>The vector\<close>

record evidence_parts =
  ep_document :: json_object
  ep_shown :: json
  ep_signature :: string
  ep_wire :: string

definition signed_evidence :: "vector_tools \<Rightarrow> conformance_error + evidence_parts" where
  "signed_evidence T =
     and_then (reraise (\<lambda>_. Wrong_Value_Type)
       (base_identity_evidence_document hardware_base_id (voucher_instance T) (voucher_public_key T))) (\<lambda>members.
     and_then (canonical_shown T (JObj members)) (\<lambda>shown.
     and_then (signature_text T voucher_scalar (JObj members)) (\<lambda>signature.
     and_then (or_raise Not_Canonical (base_identity_evidence_wire (vt_canon T) members signature)) (\<lambda>wire.
     Inr \<lparr>ep_document = members, ep_shown = shown, ep_signature = signature, ep_wire = wire\<rparr>))))"

definition voucher_json ::
  "vector_tools \<Rightarrow> string \<Rightarrow> evidence_parts \<Rightarrow> json \<times> string \<Rightarrow> json \<times> string \<Rightarrow> json \<Rightarrow> json \<Rightarrow> json \<Rightarrow> json" where
  "voucher_json T key_id evidence hardware software minted continuation base_key = JObj
     [(''vector_id'', JStr ''DF-ADMISSION-COMMISSIONING-VOUCHER-001''),
      (''supersedes'', JStr ''DF-PH2-REJOIN-IDENTITY-001 (development-commissioning-identity.json)''),
      (''why'', JStr (vt_prose T ''commissioning-voucher'')),
      (''device_operational_scalar_hex'', JStr (hex_number voucher_scalar)),
      (''operational_public_key'', JStr (voucher_public_key T)), (''operational_spki_sha256'', JStr key_id),
      (''device_instance_id'', JStr (voucher_instance T)), (''device_base_id'', JStr hardware_base_id),
      (''base_identity_provenance'', JStr ''minted''),
      (''hardware_identity_derivation_input_utf8_with_nul_separator'', fst hardware),
      (''hardware_identity_ref'', JStr (snd hardware)), (''software_body_device_base_id'', JStr software_base_id),
      (''software_body_hardware_identity_derivation_input_utf8_with_nul_separator'', fst software),
      (''software_body_hardware_identity_ref'', JStr (snd software)),
      (''evidence_scheme'', JStr base_identity_evidence_scheme), (''evidence_document'', JObj (ep_document evidence)),
      (''evidence_canonical_utf8'', ep_shown evidence),
      (''evidence_signature_encoding'', JStr ''ES256 raw r||s, 64 bytes, base64url without padding''),
      (''evidence_signature'', JStr (ep_signature evidence)), (''wire_evidence'', JStr (ep_wire evidence)),
      (''evidence_digest'', JStr (base_identity_evidence_digest (ep_wire evidence))),
      (''owner_domain_id'', JStr ''owner-domain_01''), (''voucher'', minted),
      (''voucher_derived_from_controller'', continuation), (''enrolled_base_key'', base_key),
      (''must_be_refused'', JArr (map (refused_voucher T) refused_vouchers))]"

definition voucher_vector ::
  "vector_tools \<Rightarrow> (nat \<Rightarrow> byte list option \<Rightarrow> byte list \<Rightarrow> byte list \<Rightarrow> byte list) \<Rightarrow> conformance_error + json" where
  "voucher_vector T hkdf =
     and_then (signed_evidence T) (\<lambda>evidence.
     and_then (or_raise Bad_Hexadecimal (from_hex management_secret_hex)) (\<lambda>secret.
     let key = derive_voucher_signing_key hkdf secret in
     and_then (and_then (vector_claims T minted_jti ''minted'') (minted_section T key)) (\<lambda>minted.
     and_then (and_then (vector_claims T continuation_jti ''derived-from-controller'') (continuation_section T key)) (\<lambda>continuation.
     and_then (base_key_section T) (\<lambda>base_key.
     and_then (identity_derivation hardware_base_id) (\<lambda>hardware.
     and_then (identity_derivation software_base_id) (\<lambda>software.
     and_then (voucher_key_id T) (\<lambda>key_id.
     Inr (voucher_json T key_id evidence hardware software minted continuation base_key)))))))))"

definition regenerate_voucher ::
  "vector_tools \<Rightarrow> (nat \<Rightarrow> byte list option \<Rightarrow> byte list \<Rightarrow> byte list \<Rightarrow> byte list) \<Rightarrow> golden_files
     \<Rightarrow> golden_files \<times> (conformance_error + unit)" where
  "regenerate_voucher T hkdf = save_each [(''commissioning-voucher.json'', voucher_vector T hkdf)]"

subsection \<open>The vector passes\<close>

lemma before_last_dot_compact: "before_last_dot (s @ ''.'' @ b64url bs) = s"
proof -
  have "dropWhile (\<lambda>c. c \<noteq> CHR ''.'') (rev (b64url bs) @ CHR ''.'' # rev s) = CHR ''.'' # rev s"
    using no_dot_in_b64url [of bs] by (subst dropWhile_append2) auto
  then show ?thesis by (simp add: before_last_dot_def)
qed

lemma folded_same: "list_all (\<lambda>c. casefold_bytes c = utf8_char c) s \<Longrightarrow> concat (map casefold_bytes s) = utf8 s"
  by (induction s) (simp_all add: utf8_def)

lemma issued_ids:
  "strip hardware_base_id = hardware_base_id" "list_all (\<lambda>c. casefold_bytes c = utf8_char c) hardware_base_id"
  "strip software_base_id = software_base_id" "list_all (\<lambda>c. casefold_bytes c = utf8_char c) software_base_id"
  by (simp_all add: hardware_base_id_def software_base_id_def strip_def is_space_def casefold_bytes_def lower_char_def numeral_eq_Suc)

lemma identity_derived:
  assumes "strip base = base" "list_all (\<lambda>c. casefold_bytes c = utf8_char c) base"
  shows "identity_derivation base = Inr (JStr (''eidolon-hardware-identity-v1'' @ CHR 0x00 # base), derived_hardware_identity_ref base)"
proof -
  have "utf8 ''eidolon-hardware-identity-v1'' @ [0] @ concat (map casefold_bytes (strip base)) =
      utf8 (''eidolon-hardware-identity-v1'' @ CHR 0x00 # base)"
    unfolding assms(1) folded_same [OF assms(2)] by (simp add: utf8_def utf8_char_def)
  then show ?thesis
    unfolding identity_derivation_def derived_hardware_identity_ref_def Let_def
    by (simp only: decoded_text_def utf8_decode_utf8 or_raise_simps and_then_Inr prod.inject)
qed

lemma key_identified:
  assumes "is_p256_spki (vt_spki T voucher_scalar)"
  shows "voucher_key_id T = Inr (''sha256:'' @ sha256_hex (vt_spki T voucher_scalar))"
proof -
  have "operational_public_key_bytes (voucher_public_key T) = Inr (vt_spki T voucher_scalar)"
    using assms key_bytes_b64url [of "vt_spki T voucher_scalar"] key_bytes_spelling [of "vt_spki T voucher_scalar"]
    by (simp add: voucher_public_key_def spki_scheme_def)
  then show ?thesis by (simp add: voucher_key_id_def operational_key_id_def reraise_def)
qed

definition built_claims :: "vector_tools \<Rightarrow> string \<Rightarrow> string \<Rightarrow> json_object" where
  "built_claims T jti provenance =
     [(''base_identity_provenance'', JStr provenance), (''device_base_id'', JStr hardware_base_id),
      (''exp'', JInt voucher_expiry), (''jti'', JStr jti),
      (''operational_spki_sha256'', JStr (''sha256:'' @ sha256_hex (vt_spki T voucher_scalar))),
      (''owner_domain_id'', JStr ''owner-domain_01''), (''purpose'', JStr commissioning_voucher_purpose)]"

lemma claims_built:
  assumes "provenance \<in> set commissioning_voucher_provenance"
  shows "commissioning_voucher_claims hardware_base_id ''owner-domain_01'' (''sha256:'' @ sha256_hex (vt_spki T voucher_scalar))
    jti voucher_expiry provenance = Inr (built_claims T jti provenance)"
  using assms by (simp add: commissioning_voucher_claims_def built_claims_def commissioning_voucher_claim_names_def guard_simps)

lemma vector_claims_built:
  assumes "is_p256_spki (vt_spki T voucher_scalar)" "provenance \<in> set commissioning_voucher_provenance"
  shows "vector_claims T jti provenance = Inr (built_claims T jti provenance)"
  unfolding vector_claims_def key_identified [OF assms(1)] and_then_Inr claims_built [OF assms(2)] by (simp add: reraise_def)

lemma canonical_shown_Inr:
  "canonical_shown T v = Inr x \<longleftrightarrow> (\<exists>bs t. vt_canon T v = Some bs \<and> utf8_decode bs = Some t \<and> x = JStr t)"
  by (auto simp: canonical_shown_def document_bytes_def and_then_eq_Inr decoded_text_Inr or_raise_Inr)

lemma compact_Inr:
  "compact_voucher T key claims = Inr c \<longleftrightarrow>
     sign_commissioning_voucher (vt_canon T) claims key = Some c
     \<and> (\<exists>h b. vt_canon T (JObj commissioning_voucher_header) = Some h \<and> vt_canon T (JObj claims) = Some b
          \<and> before_last_dot c = b64url h @ ''.'' @ b64url b)"
  using before_last_dot_compact [of "b64url h @ ''.'' @ b64url b" for h b]
  by (auto simp: compact_voucher_def or_raise_Inr sign_commissioning_voucher_def Let_def Option.bind_eq_Some_conv)

lemma minted_section_passes:
  assumes "minted_section T key claims = Inr v"
  shows "check_voucher_signature (vt_canon T) v (JObj claims) key = Inr ()"
proof -
  from assms obtain c hs cs where made: "compact_voucher T key claims = Inr c"
      "canonical_shown T (JObj commissioning_voucher_header) = Inr hs" "canonical_shown T (JObj claims) = Inr cs"
    and v: "v = JObj
       [(''scheme'', JStr ''hub-issued-commissioning-voucher-v1''),
        (''signing_key_derivation'', JStr (''HKDF-SHA256(host management secret, salt=none, '' @
            ''info=\"eidolon-commissioning-voucher-v1\", L=32)'')),
        (''host_management_secret_hex'', JStr management_secret_hex), (''signing_key_hex'', JStr (hexdigest key)),
        (''header'', JObj commissioning_voucher_header), (''header_canonical_utf8'', hs), (''claims'', JObj claims),
        (''claims_canonical_utf8'', cs), (''signing_input'', JStr (before_last_dot c)),
        (''compact'', JStr c), (''jti'', JStr minted_jti), (''expires_at_unix'', JInt voucher_expiry),
        (''nonce_rule'', JStr ''commissioning_proof.nonce MUST equal the voucher jti''),
        (''claim_names'', JArr (map JStr (sort (map fst claims))))]"
    by (auto simp: minted_section_def and_then_eq_Inr)
  from made show ?thesis
    by (auto simp: v check_voucher_signature_def is_hex_at_def is_text_at_def canonical_at_def vector_canonical_bytes_def
        is_decoding_at_def check_compact_def object_of_def or_raise_def refuse_unless_def refuse_if_def guard_simps
        canonical_shown_Inr compact_Inr)
qed

lemma base_key_section_passes:
  assumes "base_key_section T = Inr v" "verifies_own T ecdsa voucher_scalar"
  shows "check_base_key (vt_canon T) ecdsa v (vt_spki T voucher_scalar) = Inr ()"
proof -
  from assms(1) obtain shown sig where made: "canonical_shown T (base_key_document T) = Inr shown"
      "signature_text T voucher_scalar (base_key_document T) = Inr sig"
    and v: "v = JObj
       [(''scheme'', JStr ''enrolled-base-key-v1''), (''when'', JStr (vt_prose T ''enrolled_base_key'')),
        (''signing_document'', base_key_document T), (''canonical_utf8'', shown), (''proof'', JStr sig),
        (''nonce'', JStr base_key_nonce)]"
    by (auto simp: base_key_section_def and_then_eq_Inr)
  from signature_verifies [OF assms(2) made(2)] made(1) show ?thesis
    by (auto simp: v check_base_key_def is_text_at_def members_equal_def base_key_document_def vector_canonical_bytes_def
        is_decoding_at_def decoded_at_def text_at_def or_raise_def refuse_unless_def refuse_if_def guard_simps canonical_shown_Inr)
qed

lemma continuation_section_passes:
  assumes "continuation_section T key (built_claims T continuation_jti ''derived-from-controller'') = Inr v"
    and "member_of vector ''voucher_derived_from_controller'' = Inr v"
    and "text_at vector ''device_base_id'' = Inr hardware_base_id" "text_at vector ''owner_domain_id'' = Inr ''owner-domain_01''"
    and "text_at vector ''operational_spki_sha256'' = Inr (''sha256:'' @ sha256_hex (vt_spki T voucher_scalar))"
    and "integer_at voucher ''expires_at_unix'' = Inr voucher_expiry" "member_of voucher ''jti'' = Inr (JStr minted_jti)"
  shows "check_continuation (vt_canon T) vector voucher key = Inr ()"
proof -
  let ?claims = "built_claims T continuation_jti ''derived-from-controller''"
  from assms(1) obtain c cs where made: "compact_voucher T key ?claims = Inr c" "canonical_shown T (JObj ?claims) = Inr cs"
    and v: "v = JObj
       [(''why'', JStr (vt_prose T ''voucher_derived_from_controller'')), (''claims'', JObj ?claims),
        (''claims_canonical_utf8'', cs), (''compact'', JStr c), (''jti'', JStr continuation_jti)]"
    by (auto simp: continuation_section_def and_then_eq_Inr)
  have "text_at v ''jti'' = Inr continuation_jti" by (simp add: v text_at_def or_raise_def)
  then have built: "rebuilt_claims vector v voucher ''derived-from-controller'' = Inr ?claims"
    using claims_built [of "''derived-from-controller''" T continuation_jti] assms(3-6)
    by (simp add: rebuilt_claims_def reraise_def commissioning_voucher_provenance_def)
  have "well_keyed (JObj ?claims)" by (simp add: built_claims_def)
  then have same: "py_eq (JObj ?claims) (JObj ?claims)" by (rule py_eq_refl)
  have provenance: "is_text_at (JObj ?claims) ''base_identity_provenance'' ''derived-from-controller'' = Inr True"
    by (simp add: is_text_at_def built_claims_def or_raise_def)
  have members: "member_of v ''claims'' = Inr (JObj ?claims)" "member_of v ''claims_canonical_utf8'' = Inr cs"
    "is_text_at v ''compact'' c = Inr True" "member_of v ''jti'' = Inr (JStr continuation_jti)"
    by (simp_all add: v or_raise_def is_text_at_def)
  have apart: "members_equal v ''jti'' voucher ''jti'' = Inr False"
    using assms(7) by (simp add: members_equal_def members continuation_jti_def minted_jti_def)
  show ?thesis
    using made assms(2) same apart
    by (auto simp: check_continuation_def members provenance built vector_canonical_bytes_def is_decoding_at_def check_compact_def
        object_of_def or_raise_Inr refuse_unless_def refuse_when_def refuse_if_def canonical_shown_Inr compact_Inr guarded_simps
        simp del: py_eq.simps)
qed

lemma voucher_members:
  "member_of (voucher_json T i ev hw sw m c b) ''operational_public_key'' = Inr (JStr (voucher_public_key T))"
  "member_of (voucher_json T i ev hw sw m c b) ''operational_spki_sha256'' = Inr (JStr i)"
  "member_of (voucher_json T i ev hw sw m c b) ''device_instance_id'' = Inr (JStr (voucher_instance T))"
  "member_of (voucher_json T i ev hw sw m c b) ''device_base_id'' = Inr (JStr hardware_base_id)"
  "member_of (voucher_json T i ev hw sw m c b) ''base_identity_provenance'' = Inr (JStr ''minted'')"
  "member_of (voucher_json T i ev hw sw m c b) ''hardware_identity_derivation_input_utf8_with_nul_separator'' = Inr (fst hw)"
  "member_of (voucher_json T i ev hw sw m c b) ''hardware_identity_ref'' = Inr (JStr (snd hw))"
  "member_of (voucher_json T i ev hw sw m c b) ''software_body_device_base_id'' = Inr (JStr software_base_id)"
  "member_of (voucher_json T i ev hw sw m c b) ''software_body_hardware_identity_derivation_input_utf8_with_nul_separator'' = Inr (fst sw)"
  "member_of (voucher_json T i ev hw sw m c b) ''software_body_hardware_identity_ref'' = Inr (JStr (snd sw))"
  "member_of (voucher_json T i ev hw sw m c b) ''evidence_scheme'' = Inr (JStr base_identity_evidence_scheme)"
  "member_of (voucher_json T i ev hw sw m c b) ''evidence_document'' = Inr (JObj (ep_document ev))"
  "member_of (voucher_json T i ev hw sw m c b) ''evidence_canonical_utf8'' = Inr (ep_shown ev)"
  "member_of (voucher_json T i ev hw sw m c b) ''evidence_signature_encoding'' =
     Inr (JStr ''ES256 raw r||s, 64 bytes, base64url without padding'')"
  "member_of (voucher_json T i ev hw sw m c b) ''evidence_signature'' = Inr (JStr (ep_signature ev))"
  "member_of (voucher_json T i ev hw sw m c b) ''wire_evidence'' = Inr (JStr (ep_wire ev))"
  "member_of (voucher_json T i ev hw sw m c b) ''evidence_digest'' = Inr (JStr (base_identity_evidence_digest (ep_wire ev)))"
  "member_of (voucher_json T i ev hw sw m c b) ''owner_domain_id'' = Inr (JStr ''owner-domain_01'')"
  "member_of (voucher_json T i ev hw sw m c b) ''voucher'' = Inr m"
  "member_of (voucher_json T i ev hw sw m c b) ''voucher_derived_from_controller'' = Inr c"
  "member_of (voucher_json T i ev hw sw m c b) ''enrolled_base_key'' = Inr b"
  "member_of (voucher_json T i ev hw sw m c b) ''must_be_refused'' = Inr (JArr (map (refused_voucher T) refused_vouchers))"
  by (simp_all add: voucher_json_def or_raise_def)

definition evidence_members :: "vector_tools \<Rightarrow> json_object" where
  "evidence_members T = [(''device_base_id'', JStr hardware_base_id), (''device_instance_id'', JStr (voucher_instance T)),
      (''operational_public_key'', JStr (voucher_public_key T)), (''profile_id'', JStr trust_profile_id)]"

lemma evidence_built:
  "base_identity_evidence_document hardware_base_id (voucher_instance T) (voucher_public_key T) = Inr (evidence_members T)"
  by (simp add: base_identity_evidence_document_def evidence_members_def base_identity_evidence_field_names_def guard_simps)

lemma evidence_passes:
  assumes "signed_evidence T = Inr ev" "verifies_own T ecdsa voucher_scalar" "p256 (vt_spki T voucher_scalar) = Some True"
  shows "check_evidence (vt_canon T) ecdsa p256 (voucher_json T i ev hw sw m c b) (vt_spki T voucher_scalar) = Inr ()"
proof -
  from assms(1) obtain shown sig wire where made: "canonical_shown T (JObj (evidence_members T)) = Inr shown"
      "signature_text T voucher_scalar (JObj (evidence_members T)) = Inr sig" "base_identity_evidence_wire (vt_canon T) (evidence_members T) sig = Some wire"
    and ev: "ep_document ev = evidence_members T" "ep_shown ev = shown" "ep_signature ev = sig" "ep_wire ev = wire"
    by (auto simp: signed_evidence_def and_then_eq_Inr evidence_built reraise_def or_raise_Inr)
  have same: "py_eq (JObj (evidence_members T)) (JObj (evidence_members T))" by (rule py_eq_refl) (simp add: evidence_members_def)
  have base: "members_equal (JObj (evidence_members T)) ''device_base_id'' (voucher_json T i ev hw sw m c b) ''device_base_id'' = Inr True"
    by (simp add: members_equal_def voucher_members evidence_members_def or_raise_def)
  have names: "fst ` set (evidence_members T) = set base_identity_evidence_field_names"
    by (simp add: evidence_members_def base_identity_evidence_field_names_def)
  show ?thesis
    using signature_verifies [OF assms(2) made(2)] made assms(3) same
    by (auto simp: check_evidence_def voucher_members ev base evidence_built names reraise_def text_at_def text_of_def is_text_at_def
        object_of_def vector_canonical_bytes_def is_decoding_at_def decoded_at_def or_raise_Inr refuse_unless_def refuse_if_def
        guard_simps canonical_shown_Inr simp del: py_eq.simps)
qed

lemma key_passes:
  assumes "is_p256_spki (vt_spki T voucher_scalar)" "i = ''sha256:'' @ sha256_hex (vt_spki T voucher_scalar)"
  shows "check_voucher_key (voucher_json T i ev hw sw m c b) (vt_spki T voucher_scalar) = Inr ()"
proof -
  have "operational_key_id (voucher_public_key T) = Inr i" "operational_key_id (b64url (vt_spki T voucher_scalar)) = Inr i"
    using assms key_bytes_b64url [of "vt_spki T voucher_scalar"] key_bytes_spelling [of "vt_spki T voucher_scalar"]
    by (simp_all add: key_id_Inr voucher_public_key_def spki_scheme_def)
  moreover have "remove_prefix spki_scheme (voucher_public_key T) = b64url (vt_spki T voucher_scalar)"
    using remove_scheme_b64(2) [of "vt_spki T voucher_scalar"] by (simp add: voucher_public_key_def spki_scheme_def)
  ultimately show ?thesis
    using assms(2) by (simp add: check_voucher_key_def is_digest_at_def is_text_at_def voucher_members text_at_def text_of_def
        reraise_def voucher_instance_def refuse_unless_def refuse_if_def guarded_simps)
qed

lemma ref_passes:
  assumes "text_at v a = Inr base" "text_at v b = Inr (''eidolon-hardware-identity-v1'' @ CHR 0x00 # base)"
    and "text_at v c = Inr (derived_hardware_identity_ref base)"
    and "strip base = base" "list_all (\<lambda>c. casefold_bytes c = utf8_char c) base"
  shows "check_identity_ref v (a, b, c) = Inr ()"
proof -
  define name where "name = ''eidolon-hardware-identity-v1''"
  have payload: "utf8 (name @ CHR 0x00 # base) = utf8 name @ [0] @ concat (map casefold_bytes base)"
    unfolding folded_same [OF assms(5)] by (simp add: utf8_def utf8_char_def)
  have reference: "derived_hardware_identity_ref base = ''hardware-'' @ sha256_hex (utf8 (name @ CHR 0x00 # base))"
    unfolding derived_hardware_identity_ref_def assms(4) name_def [symmetric] payload ..
  show ?thesis
    unfolding check_identity_ref_def prod.case assms(1-3) and_then_Inr name_def [symmetric] reference payload
    by (simp add: refuse_if_def guarded_simps)
qed

lemma refs_pass:
  assumes "hw = (JStr (''eidolon-hardware-identity-v1'' @ CHR 0x00 # hardware_base_id), derived_hardware_identity_ref hardware_base_id)"
    and "sw = (JStr (''eidolon-hardware-identity-v1'' @ CHR 0x00 # software_base_id), derived_hardware_identity_ref software_base_id)"
  shows "each (check_identity_ref (voucher_json T i ev hw sw m c b))
       [(''device_base_id'', ''hardware_identity_derivation_input_utf8_with_nul_separator'', ''hardware_identity_ref''),
        (''software_body_device_base_id'', ''software_body_hardware_identity_derivation_input_utf8_with_nul_separator'',
         ''software_body_hardware_identity_ref'')] = Inr ()"
proof -
  note shown = text_at_def voucher_members text_of_def
  let ?v = "voucher_json T i ev hw sw m c b"
  have hardware: "check_identity_ref ?v (''device_base_id'', ''hardware_identity_derivation_input_utf8_with_nul_separator'', ''hardware_identity_ref'') = Inr ()"
    by (rule ref_passes [OF _ _ _ issued_ids(1,2)]) (simp_all add: shown assms)
  have software: "check_identity_ref ?v (''software_body_device_base_id'',
      ''software_body_hardware_identity_derivation_input_utf8_with_nul_separator'', ''software_body_hardware_identity_ref'') = Inr ()"
    by (rule ref_passes [OF _ _ _ issued_ids(3,4)]) (simp_all add: shown assms)
  show ?thesis by (simp only: each.simps hardware software and_then_Inr)
qed

lemma minted_claims_pass:
  assumes "minted_section T key (built_claims T minted_jti ''minted'') = Inr m"
    and "i = ''sha256:'' @ sha256_hex (vt_spki T voucher_scalar)"
  shows "check_voucher_claims (voucher_json T i ev hw sw m c b) m (JObj (built_claims T minted_jti ''minted'')) = Inr ()"
    "member_of m ''scheme'' = Inr (JStr ''hub-issued-commissioning-voucher-v1'')"
    "member_of m ''claims'' = Inr (JObj (built_claims T minted_jti ''minted''))"
    "member_of m ''host_management_secret_hex'' = Inr (JStr management_secret_hex)"
    "member_of m ''jti'' = Inr (JStr minted_jti)" "member_of m ''expires_at_unix'' = Inr (JInt voucher_expiry)"
proof -
  let ?claims = "built_claims T minted_jti ''minted''"
  show members: "member_of m ''scheme'' = Inr (JStr ''hub-issued-commissioning-voucher-v1'')"
    "member_of m ''claims'' = Inr (JObj ?claims)" "member_of m ''host_management_secret_hex'' = Inr (JStr management_secret_hex)"
    "member_of m ''jti'' = Inr (JStr minted_jti)" "member_of m ''expires_at_unix'' = Inr (JInt voucher_expiry)"
    using assms(1) by (auto simp: minted_section_def and_then_eq_Inr or_raise_def)
  have others: "member_of m ''header'' = Inr (JObj commissioning_voucher_header)"
    "member_of m ''claim_names'' = Inr (JArr (map JStr (sort (map fst ?claims))))"
    using assms(1) by (auto simp: minted_section_def and_then_eq_Inr or_raise_def)
  have names: "map fst ?claims = commissioning_voucher_claim_names"
    by (simp add: built_claims_def commissioning_voucher_claim_names_def)
  have claims: "member_of (JObj ?claims) ''operational_spki_sha256'' = Inr (JStr i)"
    "member_of (JObj ?claims) ''device_base_id'' = Inr (JStr hardware_base_id)" "member_of (JObj ?claims) ''jti'' = Inr (JStr minted_jti)"
    "member_of (JObj ?claims) ''exp'' = Inr (JInt voucher_expiry)"
    "member_of (JObj ?claims) ''purpose'' = Inr (JStr commissioning_voucher_purpose)"
    by (simp_all add: built_claims_def or_raise_def assms(2))
  have same: "py_eq (JObj ?claims) (JObj ?claims)" "py_eq (JObj commissioning_voucher_header) (JObj commissioning_voucher_header)"
    by (rule py_eq_refl, simp add: built_claims_def commissioning_voucher_header_def)+
  have built: "rebuilt_claims (voucher_json T i ev hw sw m c b) m m ''minted'' = Inr ?claims"
    using claims_built [of "''minted''" T minted_jti] assms(2)
    by (simp add: rebuilt_claims_def text_at_def integer_at_def voucher_members members reraise_def
        commissioning_voucher_provenance_def del: member_of_JObj)
  have scalars: "py_eq (JStr s) (JStr s)" "py_eq (JInt n) (JInt n)" for s n by simp_all
  show "check_voucher_claims (voucher_json T i ev hw sw m c b) m (JObj ?claims) = Inr ()"
    by (simp add: check_voucher_claims_def members_equal_def is_text_at_def text_at_def voucher_members members others claims built
        same scalars refuse_unless_def refuse_if_def guarded_simps names flip: set_map del: member_of_JObj py_eq.simps)
qed

subsection \<open>Its inventory\<close>

lemma claims_paths:
  "field_paths {} p (JObj (built_claims T jti provenance)) = map (dotted p) commissioning_voucher_claim_names"
  by (subst object_paths) (simp_all add: built_claims_def commissioning_voucher_claim_names_def leaf_like_def)

lemma header_paths: "field_paths {} p (JObj commissioning_voucher_header) = map (dotted p) [''alg'', ''typ'']"
  by (subst object_paths) (simp_all add: commissioning_voucher_header_def leaf_like_def)

lemma minted_object_paths:
  assumes "\<And>p. field_paths {} p header = map (dotted p) [''alg'', ''typ'']" "\<And>p. field_paths {} p claims = map (dotted p) ms"
  shows "set (field_paths {} ''voucher'' (JObj
       [(''scheme'', JStr s1), (''signing_key_derivation'', JStr s2), (''host_management_secret_hex'', JStr s3),
        (''signing_key_hex'', JStr s4), (''header'', header), (''header_canonical_utf8'', JStr s5), (''claims'', claims),
        (''claims_canonical_utf8'', JStr s6), (''signing_input'', JStr s7), (''compact'', JStr s8), (''jti'', JStr s9),
        (''expires_at_unix'', JInt n), (''nonce_rule'', JStr s10), (''claim_names'', JArr (map JStr ns))])) =
    set (map (dotted ''voucher'') [''scheme'', ''signing_key_derivation'', ''host_management_secret_hex'', ''signing_key_hex'',
      ''header'', ''header.alg'', ''header.typ'', ''header_canonical_utf8'', ''claims'', ''claims_canonical_utf8'',
      ''signing_input'', ''compact'', ''jti'', ''expires_at_unix'', ''nonce_rule'', ''claim_names''])
    \<union> set (map (dotted ''voucher.claims'') ms)"
  by (auto simp: assms item_paths_texts dotted_def Let_def)

lemma minted_paths:
  assumes "minted_section T key (built_claims T jti provenance) = Inr m"
  shows "set (field_paths {} ''voucher'' m) =
    set (map (dotted ''voucher'') [''scheme'', ''signing_key_derivation'', ''host_management_secret_hex'', ''signing_key_hex'',
      ''header'', ''header.alg'', ''header.typ'', ''header_canonical_utf8'', ''claims'', ''claims_canonical_utf8'',
      ''signing_input'', ''compact'', ''jti'', ''expires_at_unix'', ''nonce_rule'', ''claim_names''])
    \<union> set (map (dotted ''voucher.claims'') commissioning_voucher_claim_names)"
  using assms unfolding minted_section_def and_then_eq_Inr canonical_shown_Inr sum.inject
  by clarify (rule minted_object_paths [OF header_paths claims_paths])

lemma continuation_object_paths:
  assumes "\<And>p. field_paths {} p claims = map (dotted p) ms"
  shows "set (field_paths {} ''voucher_derived_from_controller'' (JObj
       [(''why'', JStr s1), (''claims'', claims), (''claims_canonical_utf8'', JStr s2), (''compact'', JStr s3), (''jti'', JStr s4)])) =
    set (map (dotted ''voucher_derived_from_controller'') [''why'', ''claims'', ''claims_canonical_utf8'', ''compact'', ''jti''])
    \<union> set (map (dotted ''voucher_derived_from_controller.claims'') ms)"
  by (auto simp: assms dotted_def Let_def)

lemma continuation_paths:
  assumes "continuation_section T key (built_claims T jti provenance) = Inr c"
  shows "set (field_paths {} ''voucher_derived_from_controller'' c) =
    set (map (dotted ''voucher_derived_from_controller'') [''why'', ''claims'', ''claims_canonical_utf8'', ''compact'', ''jti''])
    \<union> set (map (dotted ''voucher_derived_from_controller.claims'') commissioning_voucher_claim_names)"
  using assms unfolding continuation_section_def and_then_eq_Inr canonical_shown_Inr sum.inject
  by clarify (rule continuation_object_paths [OF claims_paths])

lemma base_key_paths:
  assumes "base_key_section T = Inr b"
  shows "set (field_paths {} ''enrolled_base_key'' b) =
    set (map (dotted ''enrolled_base_key'') [''scheme'', ''when'', ''signing_document'', ''canonical_utf8'', ''proof'', ''nonce''])
    \<union> set (map (dotted ''enrolled_base_key.signing_document'')
         [''contract'', ''device_base_id'', ''device_instance_id'', ''nonce'', ''owner_domain_id''])"
  using assms
  by (auto simp: base_key_section_def base_key_document_def and_then_eq_Inr canonical_shown_Inr Let_def dotted_def)

lemma refused_paths:
  "set (item_paths {} ''must_be_refused'' 0 (map (refused_voucher T) refused_vouchers)) =
     indexed_paths ''must_be_refused'' 7 \<union> indexed_members ''must_be_refused'' 7 [''case'', ''why'']"
proof -
  have "set (item_paths {} ''must_be_refused'' 0 (map (refused_voucher T) refused_vouchers)) =
      indexed_paths ''must_be_refused'' (length (map (refused_voucher T) refused_vouchers))
      \<union> indexed_members ''must_be_refused'' (length (map (refused_voucher T) refused_vouchers)) [''case'', ''why'']"
    by (intro indexed_case_paths) (auto simp: refused_voucher_def leaf_like_def in_set_enumerate_eq)
  moreover have "length refused_vouchers = 7" by (simp add: refused_vouchers_def)
  ultimately show ?thesis by simp
qed

lemma evidence_paths:
  "set (field_paths {} ''evidence_document'' (JObj (evidence_members T))) =
     set (map (dotted ''evidence_document'') base_identity_evidence_field_names)"
  by (subst object_paths) (simp_all add: evidence_members_def base_identity_evidence_field_names_def leaf_like_def)

definition voucher_top :: "string list" where
  "voucher_top =
     [''vector_id'', ''supersedes'', ''why'', ''device_operational_scalar_hex'', ''operational_public_key'',
      ''operational_spki_sha256'', ''device_instance_id'', ''device_base_id'', ''base_identity_provenance'',
      ''hardware_identity_derivation_input_utf8_with_nul_separator'', ''hardware_identity_ref'', ''software_body_device_base_id'',
      ''software_body_hardware_identity_derivation_input_utf8_with_nul_separator'', ''software_body_hardware_identity_ref'',
      ''evidence_scheme'', ''evidence_document'', ''evidence_canonical_utf8'', ''evidence_signature_encoding'',
      ''evidence_signature'', ''wire_evidence'', ''evidence_digest'', ''owner_domain_id'', ''voucher'',
      ''voucher_derived_from_controller'', ''enrolled_base_key'', ''must_be_refused'']"

lemma voucher_paths:
  assumes "ep_document ev = ds" "ep_shown ev = JStr s" "fst hw = JStr h" "fst sw = JStr w"
  shows "set (field_paths {} [] (voucher_json T i ev hw sw m c b)) = set voucher_top
    \<union> set (field_paths {} ''evidence_document'' (JObj ds)) \<union> set (field_paths {} ''voucher'' m)
    \<union> set (field_paths {} ''voucher_derived_from_controller'' c) \<union> set (field_paths {} ''enrolled_base_key'' b)
    \<union> set (item_paths {} ''must_be_refused'' 0 (map (refused_voucher T) refused_vouchers))"
proof -
  define d where "d = JObj ds"
  define rs where "rs = map (refused_voucher T) refused_vouchers"
  have field: "field_paths {} p (JArr rs) = item_paths {} p 0 rs" for p by simp
  show ?thesis
    unfolding voucher_json_def assms rs_def [symmetric] d_def [symmetric] voucher_top_def
    by (auto simp: Let_def dotted_def field)
qed

lemma voucher_kinds: "voucher_inventory n \<inter> voucher_descriptions = {}"
proof (rule equals0I)
  fix x assume x: "x \<in> voucher_inventory n \<inter> voucher_descriptions"
  have bare: "CHR ''['' \<notin> set x" using x by (auto simp: voucher_descriptions_def)
  then have "x \<notin> indexed_paths ''must_be_refused'' n \<union> indexed_members ''must_be_refused'' n [''case'', ''why'']"
    using indexed_path_shape indexed_member_shape by blast
  with x show False
    unfolding voucher_inventory_def voucher_descriptions_def
    by (auto simp: base_identity_evidence_field_names_def commissioning_voucher_claim_names_def dotted_def)
qed

lemma voucher_inventoried:
  assumes "minted_section T key (built_claims T minted_jti ''minted'') = Inr m"
    and "continuation_section T key (built_claims T continuation_jti ''derived-from-controller'') = Inr c"
    and "base_key_section T = Inr b" "ep_document ev = evidence_members T" "ep_shown ev = JStr s" "fst hw = JStr h" "fst sw = JStr w"
  shows "require_field_inventory (voucher_json T i ev hw sw m c b) (voucher_inventory 7) voucher_descriptions {} = Inr ()"
proof -
  have "set (field_paths {} [] (voucher_json T i ev hw sw m c b)) = voucher_inventory 7 \<union> voucher_descriptions"
    unfolding voucher_paths [OF assms(4-7)] evidence_paths minted_paths [OF assms(1)] continuation_paths [OF assms(2)]
      base_key_paths [OF assms(3)] refused_paths voucher_inventory_def voucher_descriptions_def voucher_top_def
    by (auto simp: dotted_def)
  then show ?thesis by (simp add: field_inventory_exact voucher_kinds)
qed

text \<open>Signatures that fit their encoding.\<close>

definition signs_within :: "vector_tools \<Rightarrow> nat \<Rightarrow> bool" where
  "signs_within T k \<longleftrightarrow> (\<forall>m. case vt_sign T k m of (r, s) \<Rightarrow> r < 256 ^ 32 \<and> s < 256 ^ 32)"

lemma signature_exists: "signs_within T k \<Longrightarrow> vt_canon T v = Some m \<Longrightarrow> \<exists>sig. signature_text T k v = Inr sig"
  unfolding signs_within_def signature_text_def
  by (cases "vt_sign T k m") (auto simp: document_bytes_def to_bytes_Some or_raise_Inr and_then_eq_Inr dest!: spec [of _ m])

lemma shown_made: "canonicalizes (vt_canon T) \<Longrightarrow> plain v \<Longrightarrow> canonical_shown T v = Inr (JStr (canonical_text v))"
  by (simp add: canonical_shown_Inr canonicalizes_def utf8_decode_utf8)

lemma canon_made: "canonicalizes (vt_canon T) \<Longrightarrow> plain v \<Longrightarrow> vt_canon T v = Some (utf8 (canonical_text v))"
  by (simp add: canonicalizes_def)

lemma voucher_plain:
  "plain (JObj (built_claims T jti provenance))" "plain (JObj commissioning_voucher_header)" "plain (base_key_document T)"
  "plain (JObj (evidence_members T))"
  by (simp_all add: built_claims_def commissioning_voucher_header_def base_key_document_def evidence_members_def voucher_expiry_def)

lemma compact_made:
  "canonicalizes (vt_canon T) \<Longrightarrow> plain (JObj claims) \<Longrightarrow> \<exists>c. compact_voucher T key claims = Inr c"
  using voucher_plain(2)
  by (simp add: compact_voucher_def sign_commissioning_voucher_def canon_made or_raise_def Let_def)

lemma sections_made:
  assumes "canonicalizes (vt_canon T)" "signs_within T voucher_scalar"
  shows "\<exists>m. minted_section T key (built_claims T minted_jti ''minted'') = Inr m"
    and "\<exists>c. continuation_section T key (built_claims T continuation_jti ''derived-from-controller'') = Inr c"
    and "\<exists>b. base_key_section T = Inr b"
    and "\<exists>ev. signed_evidence T = Inr ev \<and> ep_document ev = evidence_members T
           \<and> ep_shown ev = JStr (canonical_text (JObj (evidence_members T)))"
proof -
  note canon = assms(1) and shown = voucher_plain [THEN shown_made [OF assms(1)]] and compact = compact_made [OF assms(1)]
  show "\<exists>m. minted_section T key (built_claims T minted_jti ''minted'') = Inr m"
    using compact [OF voucher_plain(1) [of T minted_jti "''minted''"], of key] by (auto simp: minted_section_def shown)
  show "\<exists>c. continuation_section T key (built_claims T continuation_jti ''derived-from-controller'') = Inr c"
    using compact [OF voucher_plain(1) [of T continuation_jti "''derived-from-controller''"], of key]
    by (auto simp: continuation_section_def shown)
  show "\<exists>b. base_key_section T = Inr b"
    using signature_exists [OF assms(2) canon_made [OF canon voucher_plain(3) [of T]]] by (auto simp: base_key_section_def shown)
  show "\<exists>ev. signed_evidence T = Inr ev \<and> ep_document ev = evidence_members T
      \<and> ep_shown ev = JStr (canonical_text (JObj (evidence_members T)))"
    using signature_exists [OF assms(2) canon_made [OF canon voucher_plain(4) [of T]]]
    by (auto simp: signed_evidence_def evidence_built reraise_def shown base_identity_evidence_wire_def
        canon_made [OF canon voucher_plain(4)] utf8_decode_utf8 or_raise_def)
qed

lemma secret_read: "\<exists>secret. from_hex management_secret_hex = Some secret"
proof -
  have "from_hex management_secret_hex \<noteq> None" by code_simp
  then show ?thesis by blast
qed

text \<open>
  C37. The generated vector of the commissioning voucher passes its check: the evidence and the continuation proof verify under
  the device's key, both vouchers are the SDK's own under the key derived from the published secret, every identity is derived
  from the id that was issued, the refusals are those the runner names, and no field is left unread.
\<close>

theorem generated_voucher_passes:
  assumes "canonicalizes (vt_canon T)" "is_p256_spki (vt_spki T voucher_scalar)" "p256 (vt_spki T voucher_scalar) = Some True"
    and "signs_within T voucher_scalar" "verifies_own T ecdsa voucher_scalar"
  shows "\<exists>v. voucher_vector T hkdf = Inr v \<and> check_commissioning_voucher (vt_canon T) ecdsa p256 hkdf v = Inr 1"
proof -
  obtain secret where secret: "from_hex management_secret_hex = Some secret" using secret_read by blast
  define key where "key = derive_voucher_signing_key hkdf secret"
  define i where "i = ''sha256:'' @ sha256_hex (vt_spki T voucher_scalar)"
  define hw where "hw = (JStr (''eidolon-hardware-identity-v1'' @ CHR 0x00 # hardware_base_id), derived_hardware_identity_ref hardware_base_id)"
  define sw where "sw = (JStr (''eidolon-hardware-identity-v1'' @ CHR 0x00 # software_base_id), derived_hardware_identity_ref software_base_id)"
  from sections_made(1,2) [OF assms(1,4), of key] sections_made(3,4) [OF assms(1,4)] obtain m c b ev where made:
    "minted_section T key (built_claims T minted_jti ''minted'') = Inr m"
    "continuation_section T key (built_claims T continuation_jti ''derived-from-controller'') = Inr c"
    "base_key_section T = Inr b" "signed_evidence T = Inr ev" "ep_document ev = evidence_members T"
    "ep_shown ev = JStr (canonical_text (JObj (evidence_members T)))" by blast
  let ?v = "voucher_json T i ev hw sw m c b"
  have provenance: "''minted'' \<in> set commissioning_voucher_provenance" "''derived-from-controller'' \<in> set commissioning_voucher_provenance"
    by (simp_all add: commissioning_voucher_provenance_def)
  have "voucher_vector T hkdf = Inr ?v"
    unfolding voucher_vector_def made(4) secret or_raise_simps and_then_Inr Let_def key_def [symmetric]
      vector_claims_built [OF assms(2) provenance(1)] vector_claims_built [OF assms(2) provenance(2)] made(1-3)
      identity_derived [OF issued_ids(1,2)] identity_derived [OF issued_ids(3,4)] key_identified [OF assms(2)]
      hw_def sw_def i_def ..
  moreover have "check_commissioning_voucher (vt_canon T) ecdsa p256 hkdf ?v = Inr 1"
  proof -
    note minted = minted_claims_pass [OF made(1) i_def]
    have inventory: "require_field_inventory ?v (voucher_inventory 7) voucher_descriptions {} = Inr ()"
      by (rule voucher_inventoried [OF made(1-3) made(5,6), where hw = hw and sw = sw]) (simp_all add: hw_def sw_def)
    have spki: "b64url_decode (remove_prefix spki_scheme (voucher_public_key T)) = Some (vt_spki T voucher_scalar)"
      using remove_scheme_b64(2) [of "vt_spki T voucher_scalar"]
      by (simp add: voucher_public_key_def spki_scheme_def b64url_decode_b64url)
    have continuation: "check_continuation (vt_canon T) ?v m key = Inr ()"
      by (rule continuation_section_passes [OF made(2)])
        (simp_all add: voucher_members text_at_def text_of_def integer_at_def minted(5,6) i_def del: member_of_JObj)
    have cases: "map_each (\<lambda>entry. member_of entry ''case'') (map (refused_voucher T) refused_vouchers) = Inr (map JStr voucher_refusals)"
      by (simp add: refused_vouchers_def voucher_refusals_def refused_voucher_def or_raise_def)
    have count: "length refused_vouchers = 7" by (simp add: refused_vouchers_def)
    show ?thesis
      unfolding check_commissioning_voucher_def
      by (simp add: is_text_at_def text_at_def text_of_def voucher_members spki key_passes [OF assms(2) i_def] refs_pass [OF hw_def sw_def]
          evidence_passes [where ?p256.0 = p256, OF made(4) assms(5,3)] minted hex_at_def secret key_def [symmetric] minted_section_passes [OF made(1)]
          continuation base_key_section_passes [OF made(3) assms(5)] array_at_def array_of_def cases count inventory
          refuse_unless_def refuse_if_def guarded_simps Let_def del: member_of_JObj map_each.simps each.simps)
  qed
  ultimately show ?thesis by blast
qed

theorem generated_voucher_passes_witness:
  "\<exists>v. voucher_vector counting_tools (\<lambda>n salt info key. replicate n 7) = Inr v
     \<and> check_commissioning_voucher (vt_canon counting_tools) counting_ecdsa (\<lambda>_. Some True) (\<lambda>n salt info key. replicate n 7) v = Inr 1"
proof (rule generated_voucher_passes)
  show "canonicalizes (vt_canon counting_tools)" using listing_canonicalizes [of "[]"] by (simp add: counting_tools_def)
  show "is_p256_spki (vt_spki counting_tools voucher_scalar)" by (simp add: counting_tools_def listing_tools_def sample_spki)
  show "signs_within counting_tools voucher_scalar" by (simp add: signs_within_def counting_tools_def listing_tools_def)
qed (simp_all add: counting_verifies)

end
