(* ===== verification/Directory_Issue.thy ===== *)
theory Directory_Issue
  imports Authority_Locator Vector_Generation
begin

text \<open>
  \<open>device_foundation/v1/directory_tool.py\<close>, the offline issuer of Owner Domain directories, and \<open>testing.py\<close>, the ids tests
  name devices by. What the tool issues, a Body commissioned with the same certificates accepts. Reading a private key is a
  parameter, beside those of \<open>Authority_Locator\<close>.
\<close>

subsection \<open>Reading the source\<close>

text \<open>
  \<open>sc_text\<close> is \<open>str\<close> of what is neither a string nor an integer, \<open>sc_int\<close> is \<open>int\<close> of what is neither an integer nor a flag
  (\<open>None\<close> raises), \<open>sc_time\<close> is \<open>datetime.fromisoformat\<close>.
\<close>

record scalar_library =
  sc_text :: "json \<Rightarrow> string"
  sc_int :: "json \<Rightarrow> int option"
  sc_time :: "string \<Rightarrow> datetime option"

datatype issue_error =
    Private_Key_Invalid | Private_Key_Not_P256 | Private_Key_Not_Delegated | Absent_Member string | Source_Not_Object
  | Not_An_Integer | Not_A_Timestamp | Not_Iterable | Invalid_Endpoint | Invalid_Model "string invalid" | Not_Issued locator_error

definition source_member :: "json \<Rightarrow> string \<Rightarrow> issue_error + json" where
  "source_member src k = (case src of JObj kvs \<Rightarrow> or_raise (Absent_Member k) (map_of kvs k) | _ \<Rightarrow> Inl Source_Not_Object)"

definition source_text :: "scalar_library \<Rightarrow> json \<Rightarrow> string \<Rightarrow> issue_error + string" where
  "source_text lib src k =
     and_then (source_member src k) (\<lambda>v. Inr (case v of JStr s \<Rightarrow> s | JInt n \<Rightarrow> int_text n | _ \<Rightarrow> sc_text lib v))"

definition source_int :: "scalar_library \<Rightarrow> json \<Rightarrow> string \<Rightarrow> issue_error + int" where
  "source_int lib src k =
     and_then (source_member src k) (\<lambda>v.
       case v of JInt n \<Rightarrow> Inr n | JBool b \<Rightarrow> Inr (of_bool b) | _ \<Rightarrow> or_raise Not_An_Integer (sc_int lib v))"

definition zulu_offset :: "string \<Rightarrow> string" where
  "zulu_offset s = concat (map (\<lambda>c. if c = CHR ''Z'' then ''+00:00'' else [c]) s)"

definition source_time :: "scalar_library \<Rightarrow> json \<Rightarrow> string \<Rightarrow> issue_error + datetime" where
  "source_time lib src k =
     and_then (source_text lib src k) (\<lambda>s. or_raise Not_A_Timestamp (sc_time lib (zulu_offset s)))"

subsection \<open>Endpoints\<close>

fun authority_of :: "string \<Rightarrow> logical_authority option" where
  "authority_of s =
     (if s = ''admission'' then Some Auth_Admission else if s = ''device-control'' then Some Auth_Device_Control
      else if s = ''body-mesh'' then Some Auth_Body_Mesh else if s = ''companion'' then Some Auth_Companion else None)"

text \<open>\<open>AuthorityEndpoint.model_validate_json\<close> of a strict model that forbids other members.\<close>

definition read_endpoint :: "json \<Rightarrow> authority_endpoint option" where
  "read_endpoint v =
     (case v of
        JObj kvs \<Rightarrow>
          if \<not> only_keys [''authority'', ''logical_audience'', ''uri'', ''transport_profile'', ''priority''] kvs then None
          else (case (map_of kvs ''authority'', map_of kvs ''logical_audience'', map_of kvs ''uri'',
                      map_of kvs ''transport_profile'', map_of kvs ''priority'') of
            (Some (JStr a), Some (JStr l), Some (JStr u), Some (JStr t), Some (JInt p)) \<Rightarrow>
              (case authority_of a of
                 None \<Rightarrow> None
               | Some w \<Rightarrow>
                   (case make_authority_endpoint \<lparr>ae_authority = w, ae_logical_audience = l, ae_uri = u,
                        ae_transport_profile = t, ae_priority = p\<rparr> of
                      Inr e \<Rightarrow> Some e | Inl _ \<Rightarrow> None))
          | _ \<Rightarrow> None)
      | _ \<Rightarrow> None)"

definition items_of :: "json \<Rightarrow> issue_error + json list" where
  "items_of v =
     (case v of JArr vs \<Rightarrow> Inr vs | JObj kvs \<Rightarrow> Inr (map (\<lambda>kv. JStr (fst kv)) kvs)
      | JStr s \<Rightarrow> Inr (map (\<lambda>c. JStr [c]) s) | _ \<Rightarrow> Inl Not_Iterable)"

fun read_endpoints :: "json list \<Rightarrow> issue_error + authority_endpoint list" where
  "read_endpoints [] = Inr []"
| "read_endpoints (v # vs) =
     and_then (or_raise Invalid_Endpoint (read_endpoint v)) (\<lambda>e. and_then (read_endpoints vs) (\<lambda>es. Inr (e # es)))"

definition source_endpoints :: "json \<Rightarrow> issue_error + authority_endpoint list" where
  "source_endpoints src = and_then (and_then (source_member src ''endpoints'') items_of) read_endpoints"

subsection \<open>Issuing\<close>

definition private_key ::
  "('c, 'k, 'p) pki \<Rightarrow> (byte list \<Rightarrow> 'p option) \<Rightarrow> byte list \<Rightarrow> issue_error + 'p" where
  "private_key pk load_private pem =
     and_then (or_raise Private_Key_Invalid (load_private pem)) (\<lambda>priv.
       guarded [(\<not> private_on_p256 pk priv, Private_Key_Not_P256)] priv)"

definition source_trust :: "scalar_library \<Rightarrow> json \<Rightarrow> string \<Rightarrow> string \<Rightarrow> issue_error + trust_anchor" where
  "source_trust lib src root_pem signing_pem =
     and_then (source_text lib src ''owner_domain_id'') (\<lambda>owner_domain.
     and_then (source_int lib src ''trust_epoch'') (\<lambda>epoch.
     reraise Invalid_Model (make_trust_anchor
       \<lparr>ta_owner_domain_id = owner_domain, ta_owner_root_certificate_pem = root_pem,
        ta_authority_signing_certificate_pem = signing_pem, ta_trust_epoch = epoch\<rparr>)))"

definition source_descriptor ::
  "('c, 'k, 'p) pki \<Rightarrow> scalar_library \<Rightarrow> json \<Rightarrow> trust_anchor \<Rightarrow> issue_error + owner_domain_descriptor" where
  "source_descriptor pk lib src trust =
     and_then (source_int lib src ''owner_domain_generation'') (\<lambda>generation.
     and_then (source_int lib src ''directory_revision'') (\<lambda>revision.
     and_then (source_text lib src ''descriptor_uri'') (\<lambda>uri.
     and_then (reraise Not_Issued (anchor_key_id pk trust)) (\<lambda>root_id.
     and_then (source_endpoints src) (\<lambda>endpoints.
     and_then (source_time lib src ''issued_at'') (\<lambda>issued.
     and_then (source_time lib src ''expires_at'') (\<lambda>expires.
     and_then (reraise Not_Issued (authority_key_id pk trust)) (\<lambda>signing_id.
     reraise Invalid_Model (make_owner_domain_descriptor
       \<lparr>od_owner_domain_id = ta_owner_domain_id trust, od_owner_domain_generation = generation,
        od_directory_revision = revision, od_descriptor_uri = uri, od_trust_root_refs = [root_id], od_endpoints = endpoints,
        od_issued_at = issued, od_expires_at = expires, od_signing_key_id = signing_id,
        od_signature = replicate 86 (CHR ''A'')\<rparr>)))))))))"

definition issue_descriptor ::
  "('c, 'k, 'p) pki \<Rightarrow> (byte list \<Rightarrow> 'p option) \<Rightarrow> scalar_library \<Rightarrow> json \<Rightarrow> string \<Rightarrow> string \<Rightarrow> byte list
     \<Rightarrow> issue_error + owner_domain_descriptor" where
  "issue_descriptor pk load_private lib src root_pem signing_pem key_pem =
     and_then (private_key pk load_private key_pem) (\<lambda>priv.
     and_then (source_trust lib src root_pem signing_pem) (\<lambda>trust.
     and_then (reraise Not_Issued (authority_key pk trust)) (\<lambda>delegated.
     and_then (guarded [(delegated \<noteq> private_public pk priv, Private_Key_Not_Delegated)] ()) (\<lambda>_.
     and_then (source_descriptor pk lib src trust) (\<lambda>descriptor.
     and_then (reraise Not_Issued (validate_delegation pk trust (od_issued_at descriptor))) (\<lambda>_.
     reraise Not_Issued (sign_descriptor pk descriptor priv)))))))"

text \<open>The text the tool writes: the document that was signed, with its signature.\<close>

definition issued_json :: "(datetime \<Rightarrow> string) \<Rightarrow> owner_domain_descriptor \<Rightarrow> json" where
  "issued_json wire_time d =
     (case descriptor_signing_document wire_time d of
        JObj kvs \<Rightarrow> JObj (kvs @ [(''signature'', JStr (od_signature d))]) | v \<Rightarrow> v)"

definition issued_text :: "(datetime \<Rightarrow> string) \<Rightarrow> owner_domain_descriptor \<Rightarrow> string" where
  "issued_text wire_time d = indented_text (\<lambda>_. []) 0 (issued_json wire_time d) @ [CHR 0x0A]"

subsection \<open>Devices in tests\<close>

datatype naming_error = Needs_A_Name

definition named_device_instance_id :: "string \<Rightarrow> naming_error + string" where
  "named_device_instance_id label =
     guarded [(label = [], Needs_A_Name)] (device_instance_namespace @ sha256_hex (utf8 label))"

lemma named_id_ok: "named_device_instance_id label = Inr i \<Longrightarrow> device_instance_id_ok i"
  by (auto simp: named_device_instance_id_def guard_simps)

subsection \<open>What is issued is accepted\<close>

text \<open>The signatures of a key verify under its public half, through the two encodings of a signature.\<close>

definition key_verifies :: "('c, 'k, 'p) pki \<Rightarrow> 'p \<Rightarrow> bool" where
  "key_verifies pk priv \<longleftrightarrow>
     (\<forall>b. ecdsa_verifies pk (private_public pk priv)
        (dss_encode pk (fst (dss_decode pk (ecdsa_sign pk priv b))) (snd (dss_decode pk (ecdsa_sign pk priv b)))) b)"

lemma sign_keeps:
  assumes "sign_descriptor pk d priv = Inr s"
  shows "od_issued_at s = od_issued_at d" "od_expires_at s = od_expires_at d" "od_owner_domain_id s = od_owner_domain_id d"
    "od_endpoints s = od_endpoints d" "od_owner_domain_generation s = od_owner_domain_generation d"
    "od_directory_revision s = od_directory_revision d" "od_descriptor_uri s = od_descriptor_uri d"
    "od_trust_root_refs s = od_trust_root_refs d"
  using assms by (auto simp: sign_descriptor_def guard_simps Let_def case_prod_beta)

lemma source_descriptor_made:
  assumes "source_descriptor pk lib src trust = Inr d"
  shows "make_owner_domain_descriptor d = Inr d" "\<exists>root_id. anchor_key_id pk trust = Inr root_id \<and> root_id \<in> set (od_trust_root_refs d)"
    "od_owner_domain_id d = ta_owner_domain_id trust"
proof -
  from assms obtain n r u root_id es i x k where ids: "anchor_key_id pk trust = Inr root_id"
    and made: "make_owner_domain_descriptor
       \<lparr>od_owner_domain_id = ta_owner_domain_id trust, od_owner_domain_generation = n,
        od_directory_revision = r, od_descriptor_uri = u, od_trust_root_refs = [root_id], od_endpoints = es,
        od_issued_at = i, od_expires_at = x, od_signing_key_id = k,
        od_signature = replicate 86 (CHR ''A'')\<rparr> = Inr d"
    unfolding source_descriptor_def and_then_eq_Inr reraise_eq_Inr by (elim exE conjE) (rule that; assumption)
  note same = owner_domain_descriptor_class.accepted [OF made]
  show "make_owner_domain_descriptor d = Inr d" using made by (rule owner_domain_descriptor_class.remake)
  show "\<exists>root_id. anchor_key_id pk trust = Inr root_id \<and> root_id \<in> set (od_trust_root_refs d)"
    "od_owner_domain_id d = ta_owner_domain_id trust"
    using same ids by auto
qed

lemma issue_steps:
  assumes "issue_descriptor pk load_private lib src root_pem signing_pem key_pem = Inr d"
  obtains priv trust unsigned where "load_private key_pem = Some priv" "source_trust lib src root_pem signing_pem = Inr trust"
    "authority_key pk trust = Inr (private_public pk priv)" "source_descriptor pk lib src trust = Inr unsigned"
    "validate_delegation pk trust (od_issued_at unsigned) = Inr ()" "sign_descriptor pk unsigned priv = Inr d"
  using assms
  by (auto simp: issue_descriptor_def private_key_def and_then_eq_Inr reraise_eq_Inr or_raise_Inr guarded_Inr guard_simps)

text \<open>Signing replaces the placeholder of the signature by one of the same shape, so the model accepts what is issued.\<close>

lemma signed_model:
  assumes "sign_descriptor pk d priv = Inr s" "make_owner_domain_descriptor d = Inr d"
  shows "make_owner_domain_descriptor s = Inr s"
proof -
  obtain k rb sb where s: "s = d\<lparr>od_signing_key_id := k, od_signature := b64url (rb @ sb)\<rparr>" "length (rb @ sb) = 64"
    and k: "descriptor_key_id pk (public_pem pk (private_public pk priv)) = Inr k"
    using assms(1) by (auto simp: sign_descriptor_def guard_simps Let_def case_prod_beta to_bytes_Some)
  have "matches_sha256 k" using k by (auto simp: descriptor_key_id_def and_then_eq_Inr)
  moreover have "length (b64url (rb @ sb)) = 86" "list_all is_b64url_char (b64url (rb @ sb))"
    using s(2) b64url_chars [of "rb @ sb"] by (simp_all add: length_b64url)
  ultimately show ?thesis
    using assms(2) by (auto simp: owner_domain_descriptor_class.make_iff wf_owner_domain_descriptor_def descriptor_fields_def
        descriptor_rules_def admissible_def s(1) guard_simps)
qed

text \<open>
  C38. A directory the offline tool issues is accepted by a Body commissioned with the same certificates: the anchor the tool
  built from its source takes the descriptor as its first, at the time it was issued, and the descriptor satisfies its own
  model although signing copies it without checking it again. The only law used of the signatures is that those of the
  given key verify under its public half.
\<close>

theorem issued_directory_accepted:
  assumes "issue_descriptor pk load_private lib src root_pem signing_pem key_pem = Inr d"
    and "\<And>priv. load_private key_pem = Some priv \<Longrightarrow> key_verifies pk priv"
  shows "make_owner_domain_descriptor d = Inr d \<and> source_text lib src ''owner_domain_id'' = Inr (od_owner_domain_id d)
    \<and> (\<exists>trust. source_trust lib src root_pem signing_pem = Inr trust
         \<and> new_locator pk trust (Some d) = Inr \<lparr>lo_trust_anchor = trust, lo_accepted = Some d\<rparr>)"
proof -
  obtain priv trust unsigned where steps: "load_private key_pem = Some priv" "source_trust lib src root_pem signing_pem = Inr trust"
    "authority_key pk trust = Inr (private_public pk priv)" "source_descriptor pk lib src trust = Inr unsigned"
    "validate_delegation pk trust (od_issued_at unsigned) = Inr ()" "sign_descriptor pk unsigned priv = Inr d"
    using issue_steps [OF assms(1)] by blast
  note source = source_descriptor_made [OF steps(4)] and keeps = sign_keeps [OF steps(6)]
  obtain root_id where root: "anchor_key_id pk trust = Inr root_id" "root_id \<in> set (od_trust_root_refs unsigned)"
    using source(2) by blast
  have model: "make_owner_domain_descriptor d = Inr d" by (rule signed_model [OF steps(6) source(1)])
  have verifies: "verify_descriptor pk d trust = Inr ()"
    using assms(2) [OF steps(1)] by (intro signed_descriptor_verifies [OF steps(6,3) root source(3)]) (simp add: key_verifies_def)
  have window: "is_aware (od_issued_at d)" "instant (od_issued_at d) < instant (od_expires_at d)"
    using model by (auto simp: owner_domain_descriptor_class.make_iff wf_owner_domain_descriptor_def descriptor_fields_def
        descriptor_rules_def admissible_def guard_simps)
  have "new_locator pk trust (Some d) = Inr \<lparr>lo_trust_anchor = trust, lo_accepted = Some d\<rparr>"
    using verifies window steps(5) by (simp add: new_locator_def accept_Inr keeps(1) rollback_rules_def)
  moreover have "source_text lib src ''owner_domain_id'' = Inr (od_owner_domain_id d)"
    using steps(2) source(3) keeps(3)
    by (auto simp: source_trust_def and_then_eq_Inr reraise_eq_Inr make_trust_anchor_def guard_simps)
  ultimately show ?thesis using model steps(2) by blast
qed

definition sample_scalars :: scalar_library where
  "sample_scalars = \<lparr>sc_text = (\<lambda>_. []), sc_int = (\<lambda>_. None),
     sc_time = (\<lambda>s. if s = ''2026-01-01T00:00:00+00:00'' then Some (Aware 1) else if s = ''2027'' then Some (Aware 50) else None)\<rparr>"

definition sample_source :: json where
  "sample_source = JObj
     [(''owner_domain_id'', JStr ''owner-a''), (''trust_epoch'', JInt 1), (''owner_domain_generation'', JInt 1),
      (''directory_revision'', JInt 2), (''descriptor_uri'', JStr ''https://h/d''),
      (''endpoints'', JArr [JObj [(''authority'', JStr ''admission''), (''logical_audience'', JStr ''hub''),
         (''uri'', JStr ''https://h''), (''transport_profile'', JStr ''https-json''), (''priority'', JInt 0)]]),
      (''issued_at'', JStr ''2026-01-01T00:00:00Z''), (''expires_at'', JStr ''2027'')]"

lemma sample_trust: "source_trust sample_scalars sample_source ''root'' ''leaf'' = Inr sample_anchor"
  by (simp add: source_trust_def source_text_def source_int_def source_member_def sample_source_def or_raise_def reraise_eq_Inr
      make_trust_anchor_def sample_anchor_def guard_simps len_between_def)

lemma sample_endpoints: "source_endpoints sample_source = Inr [sample_endpoint 0]"
proof -
  have "make_authority_endpoint (sample_endpoint 0) = Inr (sample_endpoint 0)"
    by (rule authority_endpoint_class.accepts) (simp add: wf_authority_endpoint_def sample_endpoint_def len_between_def starts_with_def)
  then show ?thesis
    by (simp add: source_endpoints_def source_member_def sample_source_def or_raise_def items_of_def read_endpoint_def
        only_keys_def sample_endpoint_def)
qed

lemma sample_times:
  "source_time sample_scalars sample_source ''issued_at'' = Inr (Aware 1)"
  "source_time sample_scalars sample_source ''expires_at'' = Inr (Aware 50)"
  by (simp_all add: source_time_def source_text_def source_member_def sample_source_def sample_scalars_def zulu_offset_def or_raise_def)

definition sample_issue :: owner_domain_descriptor where
  "sample_issue = \<lparr>od_owner_domain_id = ''owner-a'', od_owner_domain_generation = 1, od_directory_revision = 2,
     od_descriptor_uri = ''https://h/d'', od_trust_root_refs = [''sha256:'' @ sha256_hex []],
     od_endpoints = [sample_endpoint 0], od_issued_at = Aware 1, od_expires_at = Aware 50,
     od_signing_key_id = ''sha256:'' @ sha256_hex [], od_signature = replicate 86 (CHR ''A'')\<rparr>"

lemma hexdigest_letters: "list_all (\<lambda>c. c \<in> set ''0123456789abcdef'') (hexdigest bs)"
proof -
  have "list_all (\<lambda>n. hex_digit n \<in> set ''0123456789abcdef'') [0..<16]" by code_simp
  then have "hex_digit n \<in> set ''0123456789abcdef''" if "n < 16" for n using that unfolding list_all_iff set_upt by simp
  then show ?thesis by (induction bs) (simp_all del: list.set)
qed

lemma digest_root_ref: "trust_root_ref_ok (''sha256:'' @ sha256_hex m)"
  using hexdigest_letters [of "sha256 m"]
  by (simp add: trust_root_ref_ok_def starts_with_def sha256_hex_def list_ex_iff list_all_iff del: list.set)

lemma sample_model: "make_owner_domain_descriptor sample_issue = Inr sample_issue"
proof (rule owner_domain_descriptor_class.accepts)
  have "wf_authority_endpoint (sample_endpoint 0)"
    by (simp add: wf_authority_endpoint_def sample_endpoint_def len_between_def starts_with_def)
  moreover have "trust_root_ref_ok (''sha256:'' @ sha256_hex [])"
    by (rule digest_root_ref)
  moreover have "list_all is_b64url_char (replicate 86 (CHR ''A''))"
    unfolding list_all_iff by (simp add: char_class_defs)
  ultimately show "wf_owner_domain_descriptor sample_issue"
    by (simp add: wf_owner_domain_descriptor_def descriptor_fields_def descriptor_rules_def admissible_def guard_simps sample_issue_def
        len_between_def starts_with_def char_class_defs prefixed_digest_matches)
qed

lemma sample_issued: "\<exists>d. issue_descriptor sample_pki (\<lambda>_. Some ()) sample_scalars sample_source ''root'' ''leaf'' [] = Inr d"
proof -
  have "source_int sample_scalars sample_source ''owner_domain_generation'' = Inr 1"
    "source_int sample_scalars sample_source ''directory_revision'' = Inr 2"
    "source_text sample_scalars sample_source ''descriptor_uri'' = Inr ''https://h/d''"
    by (simp_all add: source_int_def source_text_def source_member_def sample_source_def or_raise_def)
  moreover have "anchor_key_id sample_pki sample_anchor = Inr (''sha256:'' @ sha256_hex [])"
    "authority_key_id sample_pki sample_anchor = Inr (''sha256:'' @ sha256_hex [])" by (simp_all add: sample_pki_simps)
  moreover have "ta_owner_domain_id sample_anchor = ''owner-a''" by (simp add: sample_anchor_def)
  ultimately have unsigned: "source_descriptor sample_pki sample_scalars sample_source sample_anchor = Inr sample_issue"
    using sample_model by (simp add: source_descriptor_def sample_endpoints sample_times reraise_eq_Inr sample_issue_def)
  have "authority_key sample_pki sample_anchor = Inr (private_public sample_pki ())"
    "private_key sample_pki (\<lambda>_. Some ()) [] = Inr ()"
    "validate_delegation sample_pki sample_anchor (od_issued_at sample_issue) = Inr ()"
    "\<exists>d. sign_descriptor sample_pki sample_issue () = Inr d"
    by (simp_all add: sample_pki_simps private_key_def or_raise_def sign_descriptor_def sample_issue_def to_bytes_def)
  then show ?thesis by (auto simp: issue_descriptor_def sample_trust unsigned reraise_def guarded_simps)
qed

theorem issued_directory_accepted_witness:
  "\<exists>d trust. issue_descriptor sample_pki (\<lambda>_. Some ()) sample_scalars sample_source ''root'' ''leaf'' [] = Inr d
     \<and> source_trust sample_scalars sample_source ''root'' ''leaf'' = Inr trust
     \<and> new_locator sample_pki trust (Some d) = Inr \<lparr>lo_trust_anchor = trust, lo_accepted = Some d\<rparr>"
proof -
  obtain d where d: "issue_descriptor sample_pki (\<lambda>_. Some ()) sample_scalars sample_source ''root'' ''leaf'' [] = Inr d"
    using sample_issued by blast
  moreover have "key_verifies sample_pki priv" for priv by (simp add: key_verifies_def sample_pki_def)
  ultimately show ?thesis using issued_directory_accepted [OF d] by blast
qed

end
