(* ===== verification/Artifact_Generation.thy ===== *)
theory Artifact_Generation
  imports Vector_Generation "HOL-Library.AList" "HOL-Library.Sublist" "HOL-Library.List_Lexorder" "HOL-Library.Char_ord"
begin

text \<open>
  The code generator, \<open>contracts/device_foundation/v1/generation/generate.py\<close>: the catalog of the canonical sources with
  their digests, the bindings copied from their templates, the coverage of the published definitions, and the check for
  drift. A tree of files is an association list from the path below the root; which paths a glob pattern takes and
  \<open>json.loads\<close> of a file are parameters.
\<close>

subsection \<open>The tree and the configuration\<close>

type_synonym file_tree = "(string \<times> byte list) list"

datatype artifact_error =
    No_File string | Not_Json string | Not_Text | Absent string | Wrong_Shape
  | No_Rendering string | Missing_Symbol string string string

record tree_library =
  tl_matches :: "string \<Rightarrow> string \<Rightarrow> bool"
  tl_loads :: "byte list \<Rightarrow> json option"

definition read_bytes :: "file_tree \<Rightarrow> string \<Rightarrow> artifact_error + byte list" where
  "read_bytes tree p = or_raise (No_File p) (map_of tree p)"

definition read_json :: "tree_library \<Rightarrow> file_tree \<Rightarrow> string \<Rightarrow> artifact_error + json" where
  "read_json lib tree p = and_then (read_bytes tree p) (\<lambda>bs. or_raise (Not_Json p) (tl_loads lib bs))"

definition entry :: "json \<Rightarrow> string \<Rightarrow> artifact_error + json" where
  "entry v k = (case v of JObj kvs \<Rightarrow> or_raise (Absent k) (map_of kvs k) | _ \<Rightarrow> Inl Wrong_Shape)"

definition entry_text :: "json \<Rightarrow> string \<Rightarrow> artifact_error + string" where
  "entry_text v k = and_then (entry v k) (\<lambda>x. case x of JStr s \<Rightarrow> Inr s | _ \<Rightarrow> Inl Wrong_Shape)"

definition entry_list :: "json \<Rightarrow> string \<Rightarrow> artifact_error + json list" where
  "entry_list v k = and_then (entry v k) (\<lambda>x. case x of JArr vs \<Rightarrow> Inr vs | _ \<Rightarrow> Inl Wrong_Shape)"

fun all_texts :: "json list \<Rightarrow> artifact_error + string list" where
  "all_texts [] = Inr []"
| "all_texts (JStr s # vs) = and_then (all_texts vs) (\<lambda>ts. Inr (s # ts))"
| "all_texts (_ # vs) = Inl Wrong_Shape"

definition config_path :: string where "config_path = ''generation/config.json''"

definition load_config :: "tree_library \<Rightarrow> file_tree \<Rightarrow> artifact_error + json" where
  "load_config lib tree = read_json lib tree config_path"

subsection \<open>The catalog\<close>

definition is_source :: "tree_library \<Rightarrow> string list \<Rightarrow> string \<Rightarrow> bool" where
  "is_source lib globs p \<longleftrightarrow> list_ex (\<lambda>g. tl_matches lib g p) globs"

definition source_files :: "tree_library \<Rightarrow> file_tree \<Rightarrow> string list \<Rightarrow> string list" where
  "source_files lib tree globs = sort (filter (is_source lib globs) (remdups (map fst tree)))"

text \<open>Neither the catalog nor the configuration holds a float, so the text of one is left out.\<close>

definition canonical_json :: "json \<Rightarrow> byte list" where
  "canonical_json v = utf8 (indented_text (\<lambda>_. []) 0 (sorted_json v) @ [CHR 0x0A])"

definition catalog_entry :: "string \<Rightarrow> byte list \<Rightarrow> json" where
  "catalog_entry p bs =
     JObj [(''path'', JStr p), (''sha256'', JStr (sha256_hex bs)), (''size'', JInt (int (length bs)))]"

definition digest_part :: "string \<Rightarrow> byte list \<Rightarrow> byte list" where
  "digest_part p bs = utf8 p @ [0] @ utf8 (sha256_hex bs) @ [10]"

fun catalog_parts :: "file_tree \<Rightarrow> string list \<Rightarrow> artifact_error + json list \<times> byte list" where
  "catalog_parts tree [] = Inr ([], [])"
| "catalog_parts tree (p # ps) =
     and_then (read_bytes tree p) (\<lambda>bs.
     and_then (catalog_parts tree ps) (\<lambda>(entries, digest_input).
     Inr (catalog_entry p bs # entries, digest_part p bs @ digest_input)))"

definition build_catalog :: "tree_library \<Rightarrow> file_tree \<Rightarrow> json \<Rightarrow> artifact_error + json" where
  "build_catalog lib tree config =
     and_then (and_then (entry_list config ''source_globs'') all_texts) (\<lambda>globs.
     and_then (catalog_parts tree (source_files lib tree globs)) (\<lambda>(entries, digest_input).
     and_then (entry config ''generator'') (\<lambda>generator.
     and_then (entry config ''generator_version'') (\<lambda>version.
     Inr (JObj
       [(''artifact'', JStr ''eidolon-device-foundation-v1-canonical-source''), (''contract_version'', JStr ''1.0''),
        (''generator'', generator), (''generator_version'', version),
        (''source_digest'', JStr (''sha256:'' @ sha256_hex digest_input)), (''files'', JArr entries)])))))"

subsection \<open>Outputs\<close>

fun binding_outputs :: "file_tree \<Rightarrow> json list \<Rightarrow> file_tree \<Rightarrow> artifact_error + file_tree" where
  "binding_outputs tree [] outputs = Inr outputs"
| "binding_outputs tree (b # bs) outputs =
     and_then (entry_text b ''template'') (\<lambda>template.
     and_then (entry_text b ''path'') (\<lambda>path.
     and_then (read_bytes tree template) (\<lambda>content.
     binding_outputs tree bs (AList.update path content outputs))))"

definition catalog_path :: string where "catalog_path = ''generated/catalog.json''"

definition build_outputs :: "tree_library \<Rightarrow> file_tree \<Rightarrow> json \<Rightarrow> artifact_error + file_tree" where
  "build_outputs lib tree config =
     and_then (build_catalog lib tree config) (\<lambda>catalog.
     and_then (entry_list config ''binding_outputs'') (\<lambda>bindings.
     binding_outputs tree bindings [(catalog_path, canonical_json catalog)]))"

subsection \<open>Coverage\<close>

definition fixed_definitions :: "string list" where
  "fixed_definitions =
     [''OwnerDomainId'', ''BusinessOwnerId'', ''DeviceRef'', ''ManifestRef'', ''ClaimGrantAAD'', ''CommandEnvelope'',
      ''CommandResult'', ''DeviceProblem'', ''RevokeClaim'', ''RevokeClaimResult'', ''SetupDescriptor'',
      ''SetupDescriptorTrust'', ''SetupWindowRemainingSeconds'', ''DeviceInstanceId'']"

definition schema_paths :: "string list" where
  "schema_paths = [''admission/schemas.schema.json'', ''delivery-port/schemas.schema.json'', ''events/schemas.schema.json'']"

fun schema_definitions :: "tree_library \<Rightarrow> file_tree \<Rightarrow> string list \<Rightarrow> artifact_error + string list" where
  "schema_definitions lib tree [] = Inr []"
| "schema_definitions lib tree (p # ps) =
     and_then (and_then (read_json lib tree p) (\<lambda>schema. entry schema ''$defs'')) (\<lambda>defs.
     case defs of
       JObj kvs \<Rightarrow> and_then (schema_definitions lib tree ps) (\<lambda>rest. Inr (map fst kvs @ rest))
     | _ \<Rightarrow> Inl Wrong_Shape)"

definition binding_definitions :: "tree_library \<Rightarrow> file_tree \<Rightarrow> artifact_error + string list" where
  "binding_definitions lib tree =
     and_then (schema_definitions lib tree schema_paths) (\<lambda>names. Inr (fixed_definitions @ names))"

text \<open>\<open>Path.suffix\<close>: from the last dot of the name, unless it is first or last.\<close>

definition path_name :: "string \<Rightarrow> string" where
  "path_name p = rev (takeWhile (\<lambda>c. c \<noteq> CHR ''/'') (rev p))"

definition path_suffix :: "string \<Rightarrow> string" where
  "path_suffix p =
     (let name = path_name p; tail = rev (takeWhile (\<lambda>c. c \<noteq> CHR ''.'') (rev name)) in
      if tail = [] \<or> length name \<le> length tail + 1 then [] else CHR ''.'' # tail)"

text \<open>
  \<open>bytes.decode("utf-8")\<close> raises unless the bytes are well-formed UTF-8. The bindings hold code points beyond those of the
  strings here, so a rendering stays as its bytes: in well-formed UTF-8 a text holds a symbol exactly when its bytes do.
\<close>

definition follows :: "nat \<Rightarrow> nat \<Rightarrow> byte \<Rightarrow> bool" where
  "follows low high b \<longleftrightarrow> low \<le> unat b \<and> unat b \<le> high"

fun well_formed_utf8 :: "byte list \<Rightarrow> bool" where
  "well_formed_utf8 [] = True"
| "well_formed_utf8 (a # bs) =
     (if unat a < 0x80 then well_formed_utf8 bs
      else if follows 0xC2 0xDF a then
        (case bs of b # rest \<Rightarrow> follows 0x80 0xBF b \<and> well_formed_utf8 rest | _ \<Rightarrow> False)
      else if follows 0xE0 0xEF a then
        (case bs of b # c # rest \<Rightarrow>
           follows (if unat a = 0xE0 then 0xA0 else 0x80) (if unat a = 0xED then 0x9F else 0xBF) b
             \<and> follows 0x80 0xBF c \<and> well_formed_utf8 rest
         | _ \<Rightarrow> False)
      else if follows 0xF0 0xF4 a then
        (case bs of b # c # d # rest \<Rightarrow>
           follows (if unat a = 0xF0 then 0x90 else 0x80) (if unat a = 0xF4 then 0x8F else 0xBF) b
             \<and> follows 0x80 0xBF c \<and> follows 0x80 0xBF d \<and> well_formed_utf8 rest
         | _ \<Rightarrow> False)
      else False)"

fun renderings :: "file_tree \<Rightarrow> file_tree \<Rightarrow> artifact_error + file_tree" where
  "renderings [] shown = Inr shown"
| "renderings ((p, bs) # outputs) shown =
     (if path_suffix p \<in> {''.py'', ''.dart'', ''.h''}
      then if well_formed_utf8 bs then renderings outputs (AList.update (path_suffix p) bs shown) else Inl Not_Text
      else renderings outputs shown)"

definition binding_symbol :: "string \<Rightarrow> string \<Rightarrow> string" where
  "binding_symbol ext name =
     (if ext = ''.dart'' then if name = ''AdmissionEventSource'' then ''admissionEventSourceV1'' else name @ ''V1''
      else if ext = ''.h'' then if name = ''AdmissionEventSource'' then ''kAdmissionEventSource'' else name
      else name)"

definition binding_suffixes :: "string list" where
  "binding_suffixes = [''.py'', ''.dart'', ''.h'']"

definition check_symbol :: "file_tree \<Rightarrow> string \<Rightarrow> string \<Rightarrow> artifact_error + unit" where
  "check_symbol shown name ext =
     and_then (or_raise (No_Rendering ext) (map_of shown ext)) (\<lambda>bs.
       guarded [(\<not> sublist (utf8 (binding_symbol ext name)) bs, Missing_Symbol name ext (binding_symbol ext name))] ())"

definition check_binding_coverage :: "tree_library \<Rightarrow> file_tree \<Rightarrow> file_tree \<Rightarrow> artifact_error + unit" where
  "check_binding_coverage lib tree outputs =
     and_then (renderings outputs []) (\<lambda>shown.
     and_then (binding_definitions lib tree) (\<lambda>names.
       each (\<lambda>name. each (check_symbol shown name) binding_suffixes) (sort (remdups names))))"

subsection \<open>The run\<close>

definition expected_outputs :: "tree_library \<Rightarrow> file_tree \<Rightarrow> artifact_error + file_tree" where
  "expected_outputs lib tree =
     and_then (load_config lib tree) (\<lambda>config.
     and_then (build_outputs lib tree config) (\<lambda>outputs.
     and_then (check_binding_coverage lib tree outputs) (\<lambda>_. Inr outputs)))"

definition drift :: "file_tree \<Rightarrow> file_tree \<Rightarrow> string list" where
  "drift tree outputs = map fst (filter (\<lambda>(p, expected). map_of tree p \<noteq> Some expected) outputs)"

text \<open>With \<open>--check\<close>: the paths that drifted, none being success.\<close>

definition run_check :: "tree_library \<Rightarrow> file_tree \<Rightarrow> artifact_error + string list" where
  "run_check lib tree = and_then (expected_outputs lib tree) (\<lambda>outputs. Inr (drift tree outputs))"

definition write_outputs :: "file_tree \<Rightarrow> file_tree \<Rightarrow> file_tree" where
  "write_outputs outputs tree = fold (\<lambda>(p, content). AList.update p content) outputs tree"

definition run_generate :: "tree_library \<Rightarrow> file_tree \<Rightarrow> artifact_error + file_tree" where
  "run_generate lib tree = and_then (expected_outputs lib tree) (\<lambda>outputs. Inr (write_outputs outputs tree))"

subsection \<open>Lemmas\<close>

lemma map_of_written:
  "distinct (map fst outputs) \<Longrightarrow>
     map_of (write_outputs outputs tree) p = (case map_of outputs p of None \<Rightarrow> map_of tree p | Some c \<Rightarrow> Some c)"
proof (induction outputs arbitrary: tree)
  case (Cons o' outputs)
  have "map_of outputs (fst o') = None" using Cons.prems by (simp add: map_of_eq_None_iff)
  then show ?case
    using Cons.IH [of "AList.update (fst o') (snd o') tree"] Cons.prems
    by (auto simp: write_outputs_def case_prod_beta update_conv' split: option.split)
qed (simp add: write_outputs_def)

lemma written_again: "list_all (\<lambda>(p, c). map_of tree p = Some c) outputs \<Longrightarrow> write_outputs outputs tree = tree"
  by (induction outputs) (auto simp: write_outputs_def update_triv)

lemma binding_outputs_distinct:
  "binding_outputs tree bs outputs = Inr outs \<Longrightarrow> distinct (map fst outputs) \<Longrightarrow> distinct (map fst outs)"
  by (induction bs arbitrary: outputs) (auto simp: and_then_eq_Inr distinct_update)

lemma outputs_distinct: "build_outputs lib tree config = Inr outputs \<Longrightarrow> distinct (map fst outputs)"
  using binding_outputs_distinct [of tree _ "[(catalog_path, _)]"]
  by (auto simp: build_outputs_def and_then_eq_Inr)

text \<open>What the run reads: the configuration, the sources, the templates and the schemas.\<close>

definition input_path :: "tree_library \<Rightarrow> json \<Rightarrow> string \<Rightarrow> bool" where
  "input_path lib config p \<longleftrightarrow> p = config_path \<or> p \<in> set schema_paths
     \<or> (case and_then (entry_list config ''source_globs'') all_texts of Inr globs \<Rightarrow> is_source lib globs p | Inl _ \<Rightarrow> False)
     \<or> (case entry_list config ''binding_outputs'' of
          Inr bs \<Rightarrow> list_ex (\<lambda>b. entry_text b ''template'' = Inr p) bs | Inl _ \<Rightarrow> False)"

definition same_inputs :: "tree_library \<Rightarrow> json \<Rightarrow> file_tree \<Rightarrow> file_tree \<Rightarrow> bool" where
  "same_inputs lib config tree tree' \<longleftrightarrow> (\<forall>p. input_path lib config p \<longrightarrow> map_of tree' p = map_of tree p)"

lemma read_same: "map_of tree' p = map_of tree p \<Longrightarrow> read_bytes tree' p = read_bytes tree p"
  by (simp add: read_bytes_def)

lemma sorted_same: "set xs = set ys \<Longrightarrow> sort (remdups xs) = sort (remdups ys)" for xs ys :: "string list"
  by (rule sorted_distinct_set_unique) simp_all

lemma source_files_same:
  assumes "\<And>p. is_source lib globs p \<Longrightarrow> map_of tree' p = map_of tree p"
  shows "source_files lib tree' globs = source_files lib tree globs"
proof -
  have "p \<in> fst ` set tree' \<longleftrightarrow> p \<in> fst ` set tree" if "is_source lib globs p" for p
    using assms [OF that] by (metis map_of_eq_None_iff)
  then show ?thesis unfolding source_files_def by (intro sorted_distinct_set_unique) auto
qed

lemma catalog_parts_same:
  "list_all (\<lambda>p. map_of tree' p = map_of tree p) ps \<Longrightarrow> catalog_parts tree' ps = catalog_parts tree ps"
  by (induction ps) (auto simp: read_bytes_def)

lemma build_catalog_same:
  assumes "same_inputs lib config tree tree'"
  shows "build_catalog lib tree' config = build_catalog lib tree config"
proof (cases "and_then (entry_list config ''source_globs'') all_texts")
  case (Inr globs)
  have same: "map_of tree' p = map_of tree p" if "is_source lib globs p" for p
    using assms that by (simp add: same_inputs_def input_path_def Inr)
  have "list_all (is_source lib globs) (source_files lib tree globs)" by (auto simp: source_files_def list_all_iff)
  then have "list_all (\<lambda>p. map_of tree' p = map_of tree p) (source_files lib tree globs)"
    using same by (auto simp: list_all_iff)
  moreover have "source_files lib tree' globs = source_files lib tree globs" by (rule source_files_same) (rule same)
  ultimately have "catalog_parts tree' (source_files lib tree' globs) = catalog_parts tree (source_files lib tree globs)"
    by (simp add: catalog_parts_same)
  then show ?thesis by (simp add: build_catalog_def Inr)
qed (simp add: build_catalog_def)

lemma binding_outputs_same:
  "(\<And>p. list_ex (\<lambda>b. entry_text b ''template'' = Inr p) bs \<Longrightarrow> map_of tree' p = map_of tree p) \<Longrightarrow>
     binding_outputs tree' bs outputs = binding_outputs tree bs outputs"
proof (induction bs arbitrary: outputs)
  case (Cons b bs)
  have rest: "binding_outputs tree' bs o' = binding_outputs tree bs o'" for o' by (rule Cons.IH) (use Cons.prems in auto)
  show ?case
    using Cons.prems by (cases "entry_text b ''template''") (simp_all add: rest read_bytes_def)
qed simp

lemma build_outputs_same:
  assumes "same_inputs lib config tree tree'"
  shows "build_outputs lib tree' config = build_outputs lib tree config"
proof (cases "entry_list config ''binding_outputs''")
  case (Inr bs)
  have "binding_outputs tree' bs outs = binding_outputs tree bs outs" for outs
    by (rule binding_outputs_same) (use assms in \<open>simp add: same_inputs_def input_path_def Inr\<close>)
  then show ?thesis unfolding build_outputs_def build_catalog_same [OF assms] Inr by simp
qed (simp add: build_outputs_def build_catalog_same [OF assms])

lemma schema_definitions_same:
  "list_all (\<lambda>p. map_of tree' p = map_of tree p) ps \<Longrightarrow> schema_definitions lib tree' ps = schema_definitions lib tree ps"
  by (induction ps) (auto simp: read_json_def read_bytes_def)

lemma expected_same:
  assumes "load_config lib tree = Inr config" "same_inputs lib config tree tree'"
  shows "expected_outputs lib tree' = expected_outputs lib tree"
proof -
  have "map_of tree' config_path = map_of tree config_path" using assms(2) by (simp add: same_inputs_def input_path_def)
  then have "load_config lib tree' = Inr config" using assms(1) by (simp add: load_config_def read_json_def read_bytes_def)
  moreover have "list_all (\<lambda>p. map_of tree' p = map_of tree p) schema_paths"
    using assms(2) by (simp add: same_inputs_def input_path_def list_all_iff)
  then have "binding_definitions lib tree' = binding_definitions lib tree"
    by (simp add: binding_definitions_def schema_definitions_same)
  ultimately show ?thesis using assms(1) build_outputs_same [OF assms(2)] by (simp add: expected_outputs_def check_binding_coverage_def)
qed

lemma generate_steps:
  assumes "run_generate lib tree = Inr tree'" "load_config lib tree = Inr config" "build_outputs lib tree config = Inr outputs"
  shows "expected_outputs lib tree = Inr outputs" "tree' = write_outputs outputs tree"
    "map_of tree' p = (case map_of outputs p of None \<Rightarrow> map_of tree p | Some c \<Rightarrow> Some c)"
proof -
  show steps: "expected_outputs lib tree = Inr outputs" "tree' = write_outputs outputs tree"
    using assms by (auto simp: run_generate_def expected_outputs_def and_then_eq_Inr)
  show "map_of tree' p = (case map_of outputs p of None \<Rightarrow> map_of tree p | Some c \<Rightarrow> Some c)"
    unfolding steps(2) by (rule map_of_written [OF outputs_distinct [OF assms(3)]])
qed

text \<open>Every published definition has its symbol in a binding of every language.\<close>

lemma rendering_of_output:
  "renderings outputs shown = Inr shown' \<Longrightarrow> map_of shown' s = Some bs \<Longrightarrow>
     map_of shown s = Some bs \<or> (\<exists>p. (p, bs) \<in> set outputs \<and> path_suffix p = s)"
proof (induction outputs arbitrary: shown)
  case (Cons o' outputs)
  obtain p c where o': "o' = (p, c)" by force
  show ?case
  proof (cases "path_suffix p \<in> {''.py'', ''.dart'', ''.h''}")
    case True
    with Cons.prems(1) o' have "renderings outputs (AList.update (path_suffix p) c shown) = Inr shown'"
      by (simp del: insert_iff split: if_splits)
    from Cons.IH [OF this Cons.prems(2)] o' show ?thesis
      by (cases "path_suffix p = s") (auto simp: update_conv')
  next
    case False
    with Cons.prems(1) o' have "renderings outputs shown = Inr shown'" by (simp del: insert_iff)
    from Cons.IH [OF this Cons.prems(2)] show ?thesis by auto
  qed
qed simp

lemma coverage_complete:
  assumes "expected_outputs lib tree = Inr outputs" "binding_definitions lib tree = Inr ns" "n \<in> set ns" "s \<in> set binding_suffixes"
  shows "\<exists>p bs. (p, bs) \<in> set outputs \<and> path_suffix p = s \<and> sublist (utf8 (binding_symbol s n)) bs"
proof -
  have "check_binding_coverage lib tree outputs = Inr ()" using assms(1) by (auto simp: expected_outputs_def and_then_eq_Inr)
  then obtain shown where shown: "renderings outputs [] = Inr shown"
      "each (\<lambda>name. each (check_symbol shown name) binding_suffixes) (sort (remdups ns)) = Inr ()"
    using assms(2) by (auto simp: check_binding_coverage_def and_then_eq_Inr)
  then have "check_symbol shown n s = Inr ()" using assms(3,4) by (simp add: each_ok)
  then show ?thesis
    using rendering_of_output [OF shown(1)] by (fastforce simp: check_symbol_def and_then_eq_Inr or_raise_Inr guard_simps)
qed

text \<open>The test of a symbol is one of a part of the text: a longer name covers a definition that has no binding of its own.\<close>

lemma longer_symbol_covers: "check_symbol [(''.py'', utf8 ''class RevokeClaimResult:'')] ''RevokeClaim'' ''.py'' = Inr ()"
proof -
  have "utf8 ''class RevokeClaimResult:'' = utf8 ''class '' @ utf8 ''RevokeClaim'' @ utf8 ''Result:''" by (simp add: utf8_def)
  then have "sublist (utf8 ''RevokeClaim'') (utf8 ''class RevokeClaimResult:'')" unfolding sublist_def by blast
  then show ?thesis by (simp add: check_symbol_def binding_symbol_def guarded_simps)
qed

text \<open>
  C39. Generating leaves a clean tree: when no output is among what the run reads, the check finds no drift, generating again
  changes nothing, and no other file is touched; and whatever happens to the outputs afterwards, the check names exactly
  those that no longer hold what was generated.
\<close>

theorem generated_tree_is_clean:
  assumes "run_generate lib tree = Inr tree'" "load_config lib tree = Inr config" "build_outputs lib tree config = Inr outputs"
    and "list_all (\<lambda>o'. \<not> input_path lib config (fst o')) outputs"
  shows "run_check lib tree' = Inr [] \<and> run_generate lib tree' = Inr tree'
    \<and> (\<forall>p. p \<notin> fst ` set outputs \<longrightarrow> map_of tree' p = map_of tree p)
    \<and> (\<forall>later. same_inputs lib config tree later \<longrightarrow>
         run_check lib later = Inr (filter (\<lambda>p. map_of later p \<noteq> map_of tree' p) (map fst outputs)))"
proof -
  note steps = generate_steps [OF assms(1-3)]
  have written: "map_of tree' p = Some c" if "(p, c) \<in> set outputs" for p c
    using steps(3) [of p] that outputs_distinct [OF assms(3)] by simp
  have others: "map_of tree' p = map_of tree p" if "p \<notin> fst ` set outputs" for p
    using steps(3) [of p] that by (simp add: map_of_eq_None_iff [THEN iffD2])
  have "same_inputs lib config tree tree'"
    unfolding same_inputs_def
  proof (intro allI impI)
    fix p assume "input_path lib config p"
    then have "p \<notin> fst ` set outputs" using assms(4) by (auto simp: list_all_iff)
    then show "map_of tree' p = map_of tree p" by (rule others)
  qed
  then have expected: "expected_outputs lib tree' = Inr outputs" using expected_same [OF assms(2)] steps(1) by simp
  have "drift later outputs = filter (\<lambda>p. map_of later p \<noteq> map_of tree' p) (map fst outputs)" for later
    unfolding drift_def filter_map comp_def using written
    by (intro arg_cong [where f = "map fst"] filter_cong) auto
  then have "run_check lib later = Inr (filter (\<lambda>p. map_of later p \<noteq> map_of tree' p) (map fst outputs))"
    if "same_inputs lib config tree later" for later
    using expected_same [OF assms(2) that] steps(1) by (simp add: run_check_def)
  moreover have "run_check lib tree' = Inr []"
    using expected written by (auto simp: run_check_def drift_def filter_empty_conv)
  moreover have "run_generate lib tree' = Inr tree'"
    using expected written by (auto simp: run_generate_def list_all_iff intro!: written_again)
  ultimately show ?thesis using others by blast
qed

text \<open>A tree with its configuration as the only source and a template of each language.\<close>

definition sample_template :: "string \<Rightarrow> byte list" where
  "sample_template ext = concat (map (\<lambda>name. utf8 (binding_symbol ext name)) fixed_definitions)"

definition sample_binding :: "string \<Rightarrow> json" where
  "sample_binding ext = JObj [(''path'', JStr (''generated/code'' @ ext)), (''template'', JStr (''generation/code'' @ ext))]"

definition sample_config :: json where
  "sample_config = JObj
     [(''generator'', JStr ''catalog''), (''generator_version'', JStr ''1.0''), (''source_globs'', JArr [JStr config_path]),
      (''binding_outputs'', JArr (map sample_binding binding_suffixes))]"

definition sample_tree :: file_tree where
  "sample_tree = (config_path, [1]) # map (\<lambda>p. (p, [2])) schema_paths
     @ map (\<lambda>ext. (''generation/code'' @ ext, sample_template ext)) binding_suffixes"

definition sample_library :: tree_library where
  "sample_library = \<lparr>tl_matches = (\<lambda>g p. p = g),
     tl_loads = (\<lambda>bs. if bs = [1] then Some sample_config else if bs = [2] then Some (JObj [(''$defs'', JObj [])]) else None)\<rparr>"

lemma part_of_concat: "x \<in> set xs \<Longrightarrow> sublist x (concat xs)"
proof -
  assume "x \<in> set xs"
  then obtain ys zs where "xs = ys @ x # zs" by (auto dest: split_list)
  then have "concat xs = concat ys @ x @ concat zs" by simp
  then show ?thesis unfolding sublist_def by blast
qed

lemma sample_template_symbols: "name \<in> set fixed_definitions \<Longrightarrow> sublist (utf8 (binding_symbol ext name)) (sample_template ext)"
  unfolding sample_template_def by (rule part_of_concat) simp

lemma ascii_well_formed: "list_all (\<lambda>b. unat b < 128) bs \<Longrightarrow> well_formed_utf8 bs"
  by (induction bs) simp_all

lemma sample_template_well_formed: "ext \<in> set binding_suffixes \<Longrightarrow> well_formed_utf8 (sample_template ext)"
proof -
  have "list_all (\<lambda>ext. list_all (\<lambda>b. unat b < 128) (sample_template ext)) binding_suffixes" by code_simp
  then show "ext \<in> set binding_suffixes \<Longrightarrow> well_formed_utf8 (sample_template ext)"
    by (intro ascii_well_formed) (simp add: list_all_iff)
qed

lemma sample_config_loaded: "load_config sample_library sample_tree = Inr sample_config"
  by (simp add: load_config_def read_json_def read_bytes_def or_raise_def sample_tree_def sample_library_def)

definition sample_outputs :: "json \<Rightarrow> file_tree" where
  "sample_outputs catalog = (catalog_path, canonical_json catalog)
     # map (\<lambda>ext. (''generated/code'' @ ext, sample_template ext)) binding_suffixes"

lemma sample_outputs_built: "\<exists>catalog. build_outputs sample_library sample_tree sample_config = Inr (sample_outputs catalog)"
proof -
  have "source_files sample_library sample_tree [config_path] = [config_path]"
    by (simp add: source_files_def is_source_def sample_library_def sample_tree_def config_path_def schema_paths_def binding_suffixes_def)
  then have "\<exists>catalog. build_catalog sample_library sample_tree sample_config = Inr catalog"
    by (simp add: build_catalog_def sample_config_def entry_list_def entry_def or_raise_def read_bytes_def)
      (simp add: sample_tree_def)
  then show ?thesis
    by (auto simp: build_outputs_def sample_config_def entry_list_def entry_text_def entry_def or_raise_def read_bytes_def
        binding_suffixes_def sample_binding_def sample_tree_def sample_outputs_def config_path_def schema_paths_def catalog_path_def)
qed

lemma sample_definitions: "binding_definitions sample_library sample_tree = Inr fixed_definitions"
  by (simp add: binding_definitions_def schema_paths_def read_json_def read_bytes_def or_raise_def sample_tree_def sample_library_def
      entry_def config_path_def)

lemma sample_covered: "check_binding_coverage sample_library sample_tree (sample_outputs catalog) = Inr ()"
proof -
  have "renderings (sample_outputs catalog) [] = Inr (map (\<lambda>ext. (ext, sample_template ext)) binding_suffixes)"
    using sample_template_well_formed
    by (simp add: sample_outputs_def binding_suffixes_def path_suffix_def path_name_def catalog_path_def)
  moreover have "check_symbol (map (\<lambda>ext. (ext, sample_template ext)) binding_suffixes) name ext = Inr ()"
    if "name \<in> set fixed_definitions" "ext \<in> set binding_suffixes" for name ext
    using sample_template_symbols [OF that(1)] that(2)
    by (auto simp: check_symbol_def map_of_map_restrict or_raise_def guarded_simps binding_suffixes_def)
  ultimately show ?thesis by (simp add: check_binding_coverage_def sample_definitions each_ok)
qed

theorem generated_tree_is_clean_witness:
  "\<exists>tree'. run_generate sample_library sample_tree = Inr tree' \<and> run_check sample_library tree' = Inr []
     \<and> run_generate sample_library tree' = Inr tree'"
proof -
  obtain catalog where outputs: "build_outputs sample_library sample_tree sample_config = Inr (sample_outputs catalog)"
    using sample_outputs_built by blast
  have generated: "run_generate sample_library sample_tree = Inr (write_outputs (sample_outputs catalog) sample_tree)"
    using outputs sample_covered by (simp add: run_generate_def expected_outputs_def sample_config_loaded)
  have "list_all (\<lambda>o'. \<not> input_path sample_library sample_config (fst o')) (sample_outputs catalog)"
    by (simp add: sample_outputs_def input_path_def sample_config_def entry_list_def entry_text_def entry_def or_raise_def
        binding_suffixes_def sample_binding_def is_source_def sample_library_def config_path_def schema_paths_def catalog_path_def)
  from generated_tree_is_clean [OF generated sample_config_loaded outputs this] generated show ?thesis by blast
qed

end
