(* ===== verification/Repository_Baseline.thy ===== *)
theory Repository_Baseline
  imports Artifact_Generation
begin

text \<open>
  The baseline of the repository set, \<open>contracts/device_foundation/v1/baseline/capture.py\<close> and \<open>verify.py\<close>: the manifest of
  the registered repositories and its verification against a workspace. What git answers is the state of a repository; a
  reference \<open>HEAD\<close> is the commit at its head. The manifest is the JSON that was read, the workspace the directory it is
  verified in.
\<close>

subsection \<open>Repositories\<close>








subsection \<open>Capturing\<close>




subsection \<open>Verifying\<close>














subsection \<open>Lemmas\<close>






















end
