(* ===== verification/Spec2Isabelle.thy ===== *)
theory Spec2Isabelle
  imports Prelude Byte_Codecs Sha256 Json_Values Identity Lifecycle Admission Admission_Proofs
    Admission_Credential Device_Control Device_Erase Authority_Locator Claim_Events Body_Mesh
    Smarthome_Vocabulary Smarthome Smarthome_Panel
    Runtime_Tokens Long_Task_Keys Device_Request_Auth Python_Values Persona
    Capability_Schema Blackboard Http_Client Sse Wire_Contracts Control_Protocol Turn_Decision
    Shared_Session Role_Group_Stream Presentation Expression_Plan Proposals Device_Events Guard
    Presence_Messages Background_Tasks Tool_Transcript Service_Clients Body_Capabilities Conformance Audit_Publisher
    Host_Links Grpc_Client Host_Monitor Registry Local_Speech Conformance_Vectors Infrastructure Persona_Storage Vocabulary
    Conformance_Signatures Conformance_Sealing Conformance_Identity Conformance_Run
    Json_Text Sha256_Vectors Vector_Generation Vector_Regeneration Answer_Generation Configuration_Schema Binding_Generation
    Vector_Inventories Voucher_Generation Directory_Issue Artifact_Generation Repository_Baseline
begin

text \<open>
  Verification library of the Eidolon SDK (\<open>src/eidolon_sdk\<close>).

  The SDK is a Python package of wire contracts: pydantic model classes that accept or refuse a
  document, the documents that are signed, and the small state machines and clients around them. Its
  parts: the device foundation (\<open>device_foundation/v1\<close>), which takes a device from an enrollment
  through a claim to removal; the smart home contract (\<open>biz/smarthome\<close>); what a body can do and who may
  see it (\<open>biz/body\<close>); who a companion is (\<open>biz/persona.py\<close>); the conversation (\<open>biz/participation\<close>,
  \<open>biz/interpretation\<close>, \<open>biz/presentation\<close>, \<open>biz/dialogue_control\<close>); the control, event, guard and
  sense planes (\<open>biz/control\<close>, \<open>biz/events\<close>, \<open>biz/guard\<close>, \<open>biz/sense\<close>); tokens, request
  signatures and task keys (\<open>biz/runtime\<close>, \<open>biz/devices\<close>, \<open>biz/long_tasks\<close>); the clients and their
  core (\<open>core/http\<close>, \<open>core/streaming\<close>, \<open>core/runtime\<close>, \<open>biz/system_data\<close>, \<open>biz/admin\<close>); the
  integrations (\<open>integrations/audit\<close>, \<open>integrations/llm\<close>, \<open>integrations/livekit\<close>); the host
  (\<open>system\<close>) and the registry of instances (\<open>biz/registry\<close>); and, beside the package, the conformance runner
  of the device foundation (\<open>contracts/device_foundation/v1/conformance/run.py\<close>), the
  generators of the vectors it checks and of the published bindings
  (\<open>contracts/device_foundation/v1/generation\<close>), and the baseline of the repositories
  (\<open>contracts/device_foundation/v1/baseline\<close>).

  How the code is modelled. A model class is a record. Constructing it is a function
  \<open>make_c :: c \<Rightarrow> 'e invalid + c\<close>: every declared field constraint is checked and all failing
  fields are reported (\<open>Bad_Fields\<close>), then the after-validators run and the first \<open>raise\<close> reached
  is the refusal (\<open>Refused\<close>). The values passed in have the Python types of their fields; where the
  code reads a wire document, the type checks, defaults and forbidden members of a strict model are a
  reader from JSON (\<open>read_c\<close>), followed by \<open>make_c\<close>. Coercions of the device foundation's
  before-validators (a wire string to an enum member or a timestamp) are \<open>accept_wire_value\<close> and
  \<open>aware_datetime\<close> in \<open>Identity\<close>. A nested model counts as one field, valid when constructing it would
  succeed. A field with a single literal value is not stored. A function that may raise returns
  \<open>'e + 'a\<close>, and each \<open>raise\<close>, early return and caught exception is a branch. Strings are lists of code
  points below 256, bytes are lists of 8-bit words, dictionaries are association lists with each key
  once, datetimes are instants in microseconds, floats are rationals, infinities or NaN; where the code
  computes with floats the results are rounded to doubles (\<open>Python_Values\<close>).

  Third-party code is an argument of what uses it: RFC 8785 canonical JSON (\<open>canon\<close>), JWT, HKDF,
  X.509 and ECDSA, the regular expression engine (\<open>search\<close>), the HTTP library with the peer behind it
  (\<open>send\<close>), what the message broker answers, the text of a float (\<open>ft\<close>), \<open>json.loads\<close> (\<open>loads\<close>) and
  pydantic's lax integers (\<open>lax_int\<close>), its other lax scalars and its text of a timestamp
  (\<open>storage_library\<close>), reading an IPv6 network (\<open>v6\<close>), the content of a file (\<open>file\<close>), the user's home
  in a path (\<open>expand\<close>), a JSON schema validator (\<open>errors\<close>, \<open>messages\<close>), the elliptic curve and AES-GCM
  (\<open>public\<close>, \<open>dh\<close>, \<open>seal\<close>, \<open>opened\<close>) and the loading of keys (\<open>p256\<close>, \<open>pem\<close>). The standard library's UTF-8,
  hexadecimal, base64, SHA-256, HMAC and compact JSON text are defined here and executable.

  The theories.
  \<^item> \<open>Prelude\<close>: raise chains, model construction, string helpers, and the interfaces
    \<open>model_class\<close>, \<open>codec\<close>, \<open>normaliser\<close> and \<open>ratchet\<close>, interpreted by the components on their own
    definitions.
  \<^item> \<open>Byte_Codecs\<close>, \<open>Sha256\<close>, \<open>Json_Values\<close>, \<open>Python_Values\<close>: bytes, digests, JSON, Python's comparison
    of JSON values and double rounding; decoding inverts encoding, digests have their shape, rounding is
    within half a unit.
  \<^item> \<open>Identity\<close>, \<open>Lifecycle\<close> (\<open>lifecycle.py\<close>): one key has one identity under both spellings; the
    manifest and its reference, owner authorization, removal and the revoke fingerprint.
  \<^item> \<open>Admission\<close>, \<open>Admission_Proofs\<close> (\<open>admission.py\<close>) and \<open>Admission_Credential\<close>
    (\<open>admission_credential.py\<close>): pages stay in one Owner Domain, vouchers and proofs determine what
    they sign, and a credential that is read is true.
  \<^item> \<open>Device_Control\<close> (\<open>device_control.py\<close>, \<open>device_manifest.py\<close>, \<open>delivery.py\<close>,
    \<open>setup_descriptor.py\<close>): a Body's stored reference never goes back; the setup descriptor is read
    back from its wire form.
  \<^item> \<open>Device_Erase\<close> (\<open>device_erase.py\<close>): when an acknowledgement verifies and what it signs.
  \<^item> \<open>Authority_Locator\<close> (\<open>authority_locator.py\<close>): the locator as a transition system with its
    reachability invariant, the directory as a ratchet, sound and ordered resolution, and signed
    descriptors that verify.
  \<^item> \<open>Claim_Events\<close> (\<open>events.py\<close>): following the cursors reads the whole stream.
  \<^item> \<open>Body_Mesh\<close> (\<open>body_mesh.py\<close>): assignments and endpoints.
  \<^item> \<open>Smarthome_Vocabulary\<close>, \<open>Smarthome\<close>, \<open>Smarthome_Panel\<close> (\<open>biz/smarthome/__init__.py\<close>): the vocabulary
    tables, commands, registries, states on a panel, requests and results.
  \<^item> \<open>Capability_Schema\<close> (\<open>biz/body/manifest.py\<close>): the argument checker against the meaning of a schema
    written apart from it, the depth of what is accepted; \<open>Blackboard\<close> (\<open>biz/body/blackboard.py\<close>): what a companion is shown.
  \<^item> \<open>Runtime_Tokens\<close> (\<open>biz/runtime/tokens.py\<close>), \<open>Device_Request_Auth\<close> (\<open>biz/devices/auth.py\<close>),
    \<open>Long_Task_Keys\<close> (\<open>biz/long_tasks/subjects.py\<close>): what an accepted token or request was, when a
    revocation takes, and keys that are read back.
  \<^item> \<open>Persona\<close> (\<open>biz/persona.py\<close>): stored documents, edits and bounded evolution, which keeps constitution,
    policies and agreements.
  \<^item> \<open>Http_Client\<close> (\<open>core/http/client.py\<close>): the retry loop as a trace of sends, closes and pauses that
    refines its specification, ends within its budget and reaches a service that recovers;
    \<open>Sse\<close> (\<open>core/streaming/sse.py\<close>): the event stream against a reader written from the standard.
  \<^item> \<open>Wire_Contracts\<close> (\<open>biz/contracts\<close>): normalisers, the companion lifecycle, refusals, the latency
    budget.
  \<^item> \<open>Control_Protocol\<close> (\<open>biz/control/protocol.py\<close>), \<open>Shared_Session\<close> (\<open>coordination.py\<close>,
    \<open>shared_session.py\<close>, \<open>device_conversation.py\<close>), \<open>Role_Group_Stream\<close> (\<open>coordination_stream.py\<close>):
    envelopes and their clock, sessions within one Owner Domain, committed role-group input.
  \<^item> \<open>Turn_Decision\<close> (\<open>biz/dialogue_control/turn_decision.py\<close>), \<open>Proposals\<close> (\<open>biz/participation\<close>,
    \<open>biz/interpretation\<close>), \<open>Presentation\<close> and \<open>Expression_Plan\<close> (\<open>biz/presentation\<close>): when a decision or
    a result is accepted, output selections, which grow flag by flag with what is permitted, the timeline of a plan.
  \<^item> \<open>Device_Events\<close> (\<open>biz/events/protocol.py\<close>), \<open>Guard\<close> (\<open>biz/guard\<close>), \<open>Presence_Messages\<close>
    (\<open>biz/guard/protocol.py\<close>, \<open>biz/sense/protocol.py\<close>): live events and their normal form,
    configurations that are stable, messages that are read back.

  \<^item> \<open>Background_Tasks\<close> (\<open>core/runtime/background.py\<close>): the task runner as a transition system over the
    event loop with its queue of callbacks; failures are reported once, and the gathering of a drain is complete only when
    every task it waited for has ended and its callback has run.
  \<^item> \<open>Tool_Transcript\<close> (\<open>integrations/llm/openai_messages.py\<close>): the transcript check decides its
    declarative meaning, and a rendered turn with its results passes.
  \<^item> \<open>Service_Clients\<close> (\<open>biz/system_data\<close>, \<open>biz/admin/client.py\<close>, over \<open>Http_Client\<close>): request paths
    read back to the ids, and what each answer becomes.
  \<^item> \<open>Body_Capabilities\<close> (\<open>biz/body/models.py\<close>, \<open>biz/body/capabilities.py\<close>): devices, commands and
    results on the wire, and the table of known operations.
  \<^item> \<open>Audit_Publisher\<close> (\<open>biz/audit/protocol.py\<close>, \<open>integrations/audit\<close>): batches through a semaphore under
    any order of answers, and authorities racing to create the stream by the steps of the code.
  \<^item> \<open>Conformance\<close>, \<open>Conformance_Vectors\<close>, \<open>Conformance_Signatures\<close>, \<open>Conformance_Sealing\<close>,
    \<open>Conformance_Identity\<close> and \<open>Conformance_Run\<close> (\<open>contracts/device_foundation/v1/conformance/run.py\<close>):
    field inventories, the negative matrix of a signed vector, HKDF and the derived key; the checks of the
    published vectors, and what a vector that passes them tells apart; the nonces of a sealing stream; loading
    without duplicate keys, fixtures and traceability, which together try every definition of every schema; and
    the run in its order.
  \<^item> \<open>Vector_Generation\<close>, \<open>Vector_Regeneration\<close>, \<open>Answer_Generation\<close>, \<open>Binding_Generation\<close> and
    \<open>Voucher_Generation\<close> (\<open>contracts/device_foundation/v1/generation\<close>): what the generators write and the files they
    leave; what they write passes the checks of the runner, so the two programs agree on every byte, digest, signature
    and field inventory. \<open>Vector_Inventories\<close>: the paths the fields of a vector have; \<open>Configuration_Schema\<close>: the schema of
    a configuration answer, which the published answers satisfy and the refused ones do not; \<open>Json_Text\<close>: the texts
    of JSON are prefix-free, so canonical JSON is injective; \<open>Sha256_Vectors\<close>: a digest evaluated in the kernel.
  \<^item> \<open>Artifact_Generation\<close> (\<open>contracts/device_foundation/v1/generation/generate.py\<close>): the catalog and the bindings copied
    from templates over a tree of files; generating leaves no drift, and the check names exactly what was changed.
    \<open>Repository_Baseline\<close> (\<open>contracts/device_foundation/v1/baseline\<close>): the manifest of the repositories, captured and
    verified.
  \<^item> \<open>Directory_Issue\<close> (\<open>device_foundation/v1/directory_tool.py\<close>, \<open>testing.py\<close>): the directory issued offline is the one a
    locator with the same certificates accepts.
  \<^item> \<open>Persona_Storage\<close> (\<open>biz/persona.py\<close>): the JSON of a genome, read back class by class, also from an
    older document with retired members in it.
  \<^item> \<open>Local_Speech\<close> (\<open>biz/contracts/local_asr.py\<close>, \<open>local_tts.py\<close>, \<open>mission_control.py\<close>): the messages
    of the local speech services and of mission control; \<open>Vocabulary\<close>: the enumerations and names that are
    shared over a wire.
  \<^item> \<open>Grpc_Client\<close> (\<open>core/grpc/client.py\<close>): the credentials, options and files of a channel for each
    configuration.
  \<^item> \<open>Host_Links\<close> (\<open>system/host_links.py\<close>): networks read from their text, and the link an address is on;
    \<open>Host_Monitor\<close> (\<open>system/v1\<close>): what a host measures; \<open>Registry\<close> (\<open>biz/registry\<close>): identifiers,
    records and the place of the registry.
  \<^item> \<open>Infrastructure\<close> (\<open>core/db\<close>, \<open>core/http/settings.py\<close>, \<open>integrations/livekit/tokens.py\<close>): the engine and its
    session scope, the options of a client, the grants of a token.

  No definition uses fuel: every loop of the modelled code is over a list, over the attempts a policy
  allows or over the nesting of a JSON value, and every recursion is structural or on a decreasing number.

  Not modelled: generated code (the gRPC stubs), the script that writes the data files of the smart home contract
  (\<open>contracts/smarthome/v1/generate_goldens.py\<close>), reading arguments and printing in the command-line tools, the schema
  export and the sample data (\<open>presentation/export.py\<close>, \<open>smarthome/samples.py\<close>), the ports without behaviour
  (\<open>core/kv\<close>, \<open>registry/ports.py\<close>), protobuf's JSON conversion and the database's health queries.
\<close>

end
